(* ===== verification/TS_Prelude.thy ===== *)
theory TS_Prelude
  imports Complex_Main
begin

text \<open>
  Shared vocabulary of the Treadstone development.

  \<^item> Time: an aware UTC \<^verbatim>\<open>datetime\<close> is an \<open>int\<close>, the microseconds since the epoch.
    \<open>total_seconds\<close> is Python's \<^verbatim>\<open>timedelta.total_seconds()\<close>, as the exact rational it
    denotes. The code passes it through \<^verbatim>\<open>Decimal(str(...))\<close>, which gives back exactly this
    number as long as the difference has at most 15 significant digits (about 31 years).
  \<^item> Effects: a method that reads and writes the SQLAlchemy session is a function
    \<open>'w \<Rightarrow> ('e + 'a) \<times> 'w\<close>. A raised exception is \<open>Inl\<close>, and the state that comes with it
    still holds the mutations made before the raise: they are only undone where the source
    rolls the transaction back. \<open>ebind\<close> sequences two such methods, \<open>try_catch\<close> is
    \<^verbatim>\<open>try/except\<close>, \<open>for_each\<close> is a \<^verbatim>\<open>for\<close> loop over a list that was read before it.
  \<^item> \<open>keeps P m\<close> says that a method keeps a state predicate on every outcome; its rules follow
    the structure of a method and are collected in \<open>keeps_intros\<close>.
\<close>

named_theorems keeps_intros \<open>rules that a method keeps a predicate of the state\<close>
named_theorems run_simps \<open>equations that run a method\<close>

type_synonym time = int

definition total_seconds :: "int \<Rightarrow> rat" where
  "total_seconds us = of_int us / 1000000"

definition seconds :: "int \<Rightarrow> int" where
  "seconds n = 1000000 * n"

type_synonym ('w, 'e, 'a) action = "'w \<Rightarrow> ('e + 'a) \<times> 'w"

definition ret :: "'a \<Rightarrow> ('w, 'e, 'a) action" where
  "ret a = (\<lambda>w. (Inr a, w))"

definition raise :: "'e \<Rightarrow> ('w, 'e, 'a) action" where
  "raise e = (\<lambda>w. (Inl e, w))"

definition ebind :: "('w, 'e, 'a) action \<Rightarrow> ('a \<Rightarrow> ('w, 'e, 'b) action) \<Rightarrow> ('w, 'e, 'b) action" where
  "ebind m f = (\<lambda>w. case m w of (Inl e, w') \<Rightarrow> (Inl e, w') | (Inr a, w') \<Rightarrow> f a w')"

definition gets :: "('w \<Rightarrow> 'a) \<Rightarrow> ('w, 'e, 'a) action" where
  "gets f = (\<lambda>w. (Inr (f w), w))"

definition modify :: "('w \<Rightarrow> 'w) \<Rightarrow> ('w, 'e, unit) action" where
  "modify f = (\<lambda>w. (Inr (), f w))"

definition of_sum :: "'e + 'a \<Rightarrow> ('w, 'e, 'a) action" where
  "of_sum r = (\<lambda>w. (r, w))"

definition try_catch :: "('w, 'e, 'a) action \<Rightarrow> ('e \<Rightarrow> ('w, 'e, 'a) action) \<Rightarrow> ('w, 'e, 'a) action" where
  "try_catch m h = (\<lambda>w. case m w of (Inl e, w') \<Rightarrow> h e w' | (Inr a, w') \<Rightarrow> (Inr a, w'))"

fun for_each :: "'x list \<Rightarrow> ('x \<Rightarrow> ('w, 'e, unit) action) \<Rightarrow> ('w, 'e, unit) action" where
  "for_each [] f = ret ()"
| "for_each (x # xs) f = ebind (f x) (\<lambda>_. for_each xs f)"

definition keeps :: "('w \<Rightarrow> bool) \<Rightarrow> ('w, 'e, 'a) action \<Rightarrow> bool" where
  "keeps P m \<longleftrightarrow> (\<forall>w. P w \<longrightarrow> P (snd (m w)))"

text \<open>Rows of a table that satisfy a \<^verbatim>\<open>WHERE\<close> clause are rewritten, the others stay.\<close>

definition update_where :: "('r \<Rightarrow> bool) \<Rightarrow> ('r \<Rightarrow> 'r) \<Rightarrow> 'r list \<Rightarrow> 'r list" where
  "update_where p f rs = map (\<lambda>r. if p r then f r else r) rs"

text \<open>\<^verbatim>\<open>Result.scalar_one_or_none()\<close> and \<^verbatim>\<open>Result.scalar_one()\<close> of SQLAlchemy.\<close>

datatype cardinality_error = MultipleResultsFound | NoResultFound

fun scalar_one_or_none :: "'r list \<Rightarrow> cardinality_error + 'r option" where
  "scalar_one_or_none [] = Inr None"
| "scalar_one_or_none [r] = Inr (Some r)"
| "scalar_one_or_none (r # s # rs) = Inl MultipleResultsFound"

fun scalar_one :: "'r list \<Rightarrow> cardinality_error + 'r" where
  "scalar_one [] = Inl NoResultFound"
| "scalar_one [r] = Inr r"
| "scalar_one (r # s # rs) = Inl MultipleResultsFound"

text \<open>Python's \<^verbatim>\<open>a or b\<close> on an optional string: the empty string is false.\<close>

fun py_or :: "string option \<Rightarrow> string \<Rightarrow> string" where
  "py_or None d = d"
| "py_or (Some s) d = (if s = '''' then d else s)"

definition truthy :: "string option \<Rightarrow> bool" where
  "truthy s \<longleftrightarrow> s \<noteq> None \<and> s \<noteq> Some ''''"

definition endswith :: "string \<Rightarrow> string \<Rightarrow> bool" where
  "endswith s suf \<longleftrightarrow> length suf \<le> length s \<and> drop (length s - length suf) s = suf"

definition startswith :: "string \<Rightarrow> string \<Rightarrow> bool" where
  "startswith s pre \<longleftrightarrow> take (length pre) s = pre"

text \<open>The three-valued logic of SQL: \<open>None\<close> is \<^verbatim>\<open>NULL\<close>; a \<^verbatim>\<open>WHERE\<close> clause selects the rows for which it
  is true.\<close>

type_synonym sql_bool = "bool option"

fun sql_and :: "sql_bool \<Rightarrow> sql_bool \<Rightarrow> sql_bool" where
  "sql_and (Some False) b = Some False"
| "sql_and a (Some False) = Some False"
| "sql_and (Some True) (Some True) = Some True"
| "sql_and _ _ = None"

fun sql_or :: "sql_bool \<Rightarrow> sql_bool \<Rightarrow> sql_bool" where
  "sql_or (Some True) b = Some True"
| "sql_or a (Some True) = Some True"
| "sql_or (Some False) (Some False) = Some False"
| "sql_or _ _ = None"

definition sql_not :: "sql_bool \<Rightarrow> sql_bool" where
  "sql_not a = map_option Not a"

definition sql_where :: "sql_bool \<Rightarrow> bool" where
  "sql_where a \<longleftrightarrow> a = Some True"

definition sql_le :: "int option \<Rightarrow> int \<Rightarrow> sql_bool" where
  "sql_le x y = map_option (\<lambda>v. v \<le> y) x"

subsection \<open>Running methods\<close>

lemma ret_run [run_simps, simp]: "ret a w = (Inr a, w)"
  by (simp add: ret_def)

lemma raise_run [run_simps, simp]: "raise e w = (Inl e, w)"
  by (simp add: raise_def)

lemma gets_run [run_simps, simp]: "gets f w = (Inr (f w), w)"
  by (simp add: gets_def)

lemma modify_run [run_simps, simp]: "modify f w = (Inr (), f w)"
  by (simp add: modify_def)

lemma of_sum_run [run_simps, simp]: "of_sum r w = (r, w)"
  by (simp add: of_sum_def)

lemma ebind_Inr [simp]: "m w = (Inr a, w') \<Longrightarrow> ebind m f w = f a w'"
  by (simp add: ebind_def)

lemma ebind_Inl [simp]: "m w = (Inl e, w') \<Longrightarrow> ebind m f w = (Inl e, w')"
  by (simp add: ebind_def)

lemma ebind_run [run_simps]:
  "ebind m f w = (case m w of (Inl e, w') \<Rightarrow> (Inl e, w') | (Inr a, w') \<Rightarrow> f a w')"
  by (simp add: ebind_def)

lemma try_catch_run [run_simps]:
  "try_catch m h w = (case m w of (Inl e, w') \<Rightarrow> h e w' | (Inr a, w') \<Rightarrow> (Inr a, w'))"
  by (simp add: try_catch_def)

lemma ebind_InrE:
  assumes "ebind m f w = (Inr b, w')"
  obtains a v where "m w = (Inr a, v)" and "f a v = (Inr b, w')"
  using assms by (auto simp: ebind_def split: prod.splits sum.splits)

lemma ebind_Pair_Inr [simp]: "ebind (Pair (Inr a)) f = f a"
  by (simp add: ebind_def fun_eq_iff)

lemma ebind_Pair_Inl [simp]: "ebind (Pair (Inl e)) f = Pair (Inl e)"
  by (simp add: ebind_def fun_eq_iff)

lemma ebind_assoc: "ebind (ebind m f) g = ebind m (\<lambda>a. ebind (f a) g)"
  by (auto simp: ebind_def fun_eq_iff split: prod.splits sum.splits)

lemma for_each_append: "for_each (xs @ ys) f = ebind (for_each xs f) (\<lambda>_. for_each ys f)"
  by (induction xs) (simp_all add: ebind_assoc)

subsection \<open>Predicates a method keeps\<close>

lemma keepsI: "(\<And>w. P w \<Longrightarrow> P (snd (m w))) \<Longrightarrow> keeps P m"
  by (simp add: keeps_def)

lemma keepsD: "keeps P m \<Longrightarrow> P w \<Longrightarrow> P (snd (m w))"
  by (simp add: keeps_def)

lemma keepsD_run: "keeps P m \<Longrightarrow> P w \<Longrightarrow> m w = (r, w') \<Longrightarrow> P w'"
  by (metis keepsD snd_conv)

lemma keeps_Pair [keeps_intros, simp]: "keeps P (Pair r)"
  by (simp add: keeps_def)

lemma keeps_ret [keeps_intros, intro]: "keeps P (ret a)"
  by (simp add: keeps_def)

lemma keeps_raise [keeps_intros, intro]: "keeps P (raise e)"
  by (simp add: keeps_def)

lemma keeps_gets [keeps_intros, intro]: "keeps P (gets f)"
  by (simp add: keeps_def)

lemma keeps_of_sum [keeps_intros, intro]: "keeps P (of_sum r)"
  by (simp add: keeps_def)

lemma keeps_modify [keeps_intros]: "(\<And>w. P w \<Longrightarrow> P (f w)) \<Longrightarrow> keeps P (modify f)"
  by (simp add: keeps_def)

lemma keeps_ebind [keeps_intros]:
  assumes "keeps P m" and "\<And>a. keeps P (f a)"
  shows "keeps P (ebind m f)"
proof (rule keepsI)
  fix w
  assume "P w"
  obtain r v where run: "m w = (r, v)"
    by (cases "m w") auto
  from assms(1) \<open>P w\<close> this have "P v"
    by (rule keepsD_run)
  then show "P (snd (ebind m f w))"
    using run assms(2) by (cases r) (auto simp: ebind_def dest: keepsD)
qed

lemma keeps_try_catch [keeps_intros]:
  assumes "keeps P m" and "\<And>e. keeps P (h e)"
  shows "keeps P (try_catch m h)"
proof (rule keepsI)
  fix w
  assume "P w"
  obtain r v where run: "m w = (r, v)"
    by (cases "m w") auto
  from assms(1) \<open>P w\<close> this have "P v"
    by (rule keepsD_run)
  then show "P (snd (try_catch m h w))"
    using run assms(2) by (cases r) (auto simp: try_catch_def dest: keepsD)
qed

lemma keeps_for_each [keeps_intros]:
  assumes "\<And>x. x \<in> set xs \<Longrightarrow> keeps P (f x)"
  shows "keeps P (for_each xs f)"
  using assms
proof (induction xs)
  case Nil
  show ?case by simp
next
  case (Cons x xs)
  then show ?case by (simp add: keeps_ebind)
qed

lemma keeps_if [keeps_intros]:
  "(c \<Longrightarrow> keeps P m) \<Longrightarrow> (\<not> c \<Longrightarrow> keeps P n) \<Longrightarrow> keeps P (if c then m else n)"
  by simp

lemma keeps_case_option [keeps_intros]:
  "(x = None \<Longrightarrow> keeps P m) \<Longrightarrow> (\<And>a. x = Some a \<Longrightarrow> keeps P (f a)) \<Longrightarrow>
   keeps P (case x of None \<Rightarrow> m | Some a \<Rightarrow> f a)"
  by (cases x) auto

lemma keeps_case_prod [keeps_intros]:
  "(\<And>a b. x = (a, b) \<Longrightarrow> keeps P (f a b)) \<Longrightarrow> keeps P (case x of (a, b) \<Rightarrow> f a b)"
  by (cases x) auto

lemma keeps_conj: "keeps P m \<Longrightarrow> keeps Q m \<Longrightarrow> keeps (\<lambda>w. P w \<and> Q w) m"
  by (simp add: keeps_def)

subsection \<open>Tables\<close>

lemma length_update_where [simp]: "length (update_where p f rs) = length rs"
  by (simp add: update_where_def)

lemma update_where_Nil [simp]: "update_where p f [] = []"
  by (simp add: update_where_def)

lemma update_where_Cons [simp]:
  "update_where p f (r # rs) = (if p r then f r else r) # update_where p f rs"
  by (simp add: update_where_def)

lemma update_where_append [simp]:
  "update_where p f (rs @ ss) = update_where p f rs @ update_where p f ss"
  by (simp add: update_where_def)

lemma set_update_where: "set (update_where p f rs) = (\<lambda>r. if p r then f r else r) ` set rs"
  by (simp add: update_where_def)

lemma map_update_where: "(\<And>r. k (f r) = k r) \<Longrightarrow> map k (update_where p f rs) = map k rs"
  by (induction rs) auto

lemma update_where_id: "(\<And>r. r \<in> set rs \<Longrightarrow> \<not> p r) \<Longrightarrow> update_where p f rs = rs"
  by (induction rs) auto

lemma filter_update_where:
  "(\<And>r. q (f r) = q r) \<Longrightarrow> filter q (update_where p f rs) = update_where p f (filter q rs)"
  by (induction rs) auto

lemma update_where_twice:
  "(\<And>r. q (f r) = q r) \<Longrightarrow> update_where q g (update_where q f rs) = update_where q (g \<circ> f) rs"
  by (induction rs) auto

lemma update_where_same [simp]: "update_where q (\<lambda>p. p) rs = rs"
  by (simp add: update_where_def)

lemma scalar_one_or_none_Some: "scalar_one_or_none rs = Inr (Some r) \<longleftrightarrow> rs = [r]"
  by (cases rs rule: scalar_one_or_none.cases) auto

lemma scalar_one_or_none_None: "scalar_one_or_none rs = Inr None \<longleftrightarrow> rs = []"
  by (cases rs rule: scalar_one_or_none.cases) auto

lemma scalar_one_or_none_short:
  "length rs \<le> 1 \<Longrightarrow> scalar_one_or_none rs = Inr (if rs = [] then None else Some (hd rs))"
  by (cases rs rule: scalar_one_or_none.cases) auto

lemma length_filter_distinct_key:
  assumes "distinct (map k rs)"
  shows "length (filter (\<lambda>r. k r = x) rs) \<le> 1"
  using assms
proof (induction rs)
  case Nil
  then show ?case by simp
next
  case (Cons r rs)
  show ?case
  proof (cases "k r = x")
    case True
    with Cons.prems have "\<forall>t \<in> set rs. k t \<noteq> x"
      by (metis distinct.simps(2) image_eqI list.map(2) list.set_map)
    with True show ?thesis by (simp add: filter_empty_conv)
  next
    case False
    with Cons show ?thesis by simp
  qed
qed

lemma filter_distinct_key:
  assumes "distinct (map k rs)" and "r \<in> set rs"
  shows "filter (\<lambda>s. k s = k r) rs = [r]"
  using assms
proof (induction rs)
  case Nil
  then show ?case by simp
next
  case (Cons s rs)
  show ?case
  proof (cases "k s = k r")
    case True
    with Cons.prems have "s = r" and "\<forall>t \<in> set rs. k t \<noteq> k r"
      by (auto simp: image_iff)
    with True show ?thesis by (simp add: filter_empty_conv)
  next
    case False
    with Cons show ?thesis by auto
  qed
qed

lemma endswith_append [simp]: "endswith (a @ b) b"
  by (simp add: endswith_def)

lemma endswith_take: "endswith s suf \<Longrightarrow> take (length s - length suf) s @ suf = s"
  by (metis append_take_drop_id endswith_def)

lemma sql_where_not: "sql_where (sql_not a) \<longleftrightarrow> a = Some False"
  by (cases a) (auto simp: sql_where_def sql_not_def)

end
