(* ===== verification/Decimal_Arith.thy ===== *)
theory Decimal_Arith
  imports TS_Prelude "HOL-Library.Log_Nat"
begin

text \<open>
  Python's \<^verbatim>\<open>decimal\<close> module and PostgreSQL's \<^verbatim>\<open>NUMERIC(10, 4)\<close> columns, on exact rationals.

  The value of a \<^verbatim>\<open>Decimal\<close> is a rational. Each arithmetic operation of the default context
  rounds its exact result to 28 significant digits, half to even (\<open>dctx\<close>); storing a value in
  a \<^verbatim>\<open>NUMERIC(10, 4)\<close> column rounds it to four decimals, half away from zero (\<open>num4\<close>);
  \<^verbatim>\<open>quantize(Decimal("0.0001"))\<close> rounds to four decimals, half to even (\<open>quant4\<close>).
  Overflow of the column (a magnitude of a million or more) is not modelled: the theorems that
  depend on it ask for values in range.

  All three roundings are instances of one contract, the locale \<open>rounding\<close>: a grid point that
  bounds a value still bounds it after rounding. That keeps quotas, which are grid points, from
  being crossed by rounding.
\<close>

type_synonym dec = rat

definition round_half_even :: "rat \<Rightarrow> int" where
  "round_half_even x =
     (let f = \<lfloor>x\<rfloor>; d = x - of_int f
      in if d < 1/2 then f else if 1/2 < d then f + 1 else if even f then f else f + 1)"

definition round_half_away :: "rat \<Rightarrow> int" where
  "round_half_away x = (if 0 \<le> x then \<lfloor>x + 1/2\<rfloor> else - \<lfloor>1/2 - x\<rfloor>)"

text \<open>The position of the leading digit: \<open>10 ^ adjusted x \<le> x < 10 ^ (adjusted x + 1)\<close>.\<close>

definition adjusted :: "rat \<Rightarrow> int" where
  "adjusted x =
     (if 1 \<le> x then int (floorlog 10 (nat \<lfloor>x\<rfloor>)) - 1
      else - int (floorlog 10 (nat (\<lceil>1 / x\<rceil> - 1))))"

text \<open>The unit in the last place of a rounded value.\<close>

definition ulp :: "rat \<Rightarrow> rat" where
  "ulp x = 10 powi (adjusted \<bar>x\<bar> - 27)"

definition dctx :: "rat \<Rightarrow> dec" where
  "dctx x =
     (if x = 0 then 0
      else let q = 10 powi (adjusted \<bar>x\<bar> - 27) in of_int (round_half_even (x / q)) * q)"

definition dadd :: "dec \<Rightarrow> dec \<Rightarrow> dec" where
  "dadd a b = dctx (a + b)"

definition dsub :: "dec \<Rightarrow> dec \<Rightarrow> dec" where
  "dsub a b = dctx (a - b)"

definition dmul :: "dec \<Rightarrow> dec \<Rightarrow> dec" where
  "dmul a b = dctx (a * b)"

definition ddiv :: "dec \<Rightarrow> dec \<Rightarrow> dec" where
  "ddiv a b = dctx (a / b)"

definition num4 :: "rat \<Rightarrow> dec" where
  "num4 x = of_int (round_half_away (x * 10000)) / 10000"

definition quant4 :: "dec \<Rightarrow> dec" where
  "quant4 x = of_int (round_half_even (x * 10000)) / 10000"

text \<open>Grid points: multiples of \<open>10 ^ -k\<close>; \<open>col4\<close> holds of the values of a column.\<close>

definition on_grid :: "nat \<Rightarrow> rat \<Rightarrow> bool" where
  "on_grid k x \<longleftrightarrow> x * 10 ^ k \<in> \<int>"

definition col4 :: "rat \<Rightarrow> bool" where
  "col4 x \<longleftrightarrow> on_grid 4 x \<and> \<bar>x\<bar> \<le> 10 ^ 23"

subsection \<open>The contract of a rounding\<close>

locale rounding =
  fixes rnd :: "rat \<Rightarrow> rat"
    and grid :: "rat \<Rightarrow> bool"
  assumes grid_zero: "grid 0"
    and rnd_le_grid: "grid g \<Longrightarrow> x \<le> g \<Longrightarrow> rnd x \<le> g"
    and rnd_ge_grid: "grid g \<Longrightarrow> g \<le> x \<Longrightarrow> g \<le> rnd x"
begin

lemma rnd_on_grid: "grid g \<Longrightarrow> rnd g = g"
  by (rule antisym) (auto intro: rnd_le_grid rnd_ge_grid)

lemma rnd_nonneg: "0 \<le> x \<Longrightarrow> 0 \<le> rnd x"
  by (rule rnd_ge_grid [OF grid_zero])

lemma rnd_nonpos: "x \<le> 0 \<Longrightarrow> rnd x \<le> 0"
  by (rule rnd_le_grid [OF grid_zero])

lemma rnd_clamp: "grid a \<Longrightarrow> grid b \<Longrightarrow> a \<le> x \<Longrightarrow> x \<le> b \<Longrightarrow> a \<le> rnd x \<and> rnd x \<le> b"
  by (simp add: rnd_le_grid rnd_ge_grid)

lemma rnd_zero: "rnd 0 = 0"
  by (rule rnd_on_grid [OF grid_zero])

end

subsection \<open>Rounding to an integer\<close>

lemma round_half_even_cases: "round_half_even x = \<lfloor>x\<rfloor> \<or> round_half_even x = \<lfloor>x\<rfloor> + 1"
  by (simp add: round_half_even_def Let_def)

lemma round_half_even_error: "\<bar>of_int (round_half_even x) - x\<bar> \<le> 1/2"
proof -
  have "of_int \<lfloor>x\<rfloor> \<le> x" and "x < of_int \<lfloor>x\<rfloor> + 1"
    by linarith+
  then show ?thesis
    by (auto simp: round_half_even_def Let_def split: if_splits)
qed

lemma round_half_even_of_int [simp]: "round_half_even (of_int n) = n"
  by (simp add: round_half_even_def Let_def)

lemma round_half_even_le: "x \<le> of_int n \<Longrightarrow> round_half_even x \<le> n"
proof -
  assume "x \<le> of_int n"
  show ?thesis
  proof (cases "x = of_int n")
    case False
    with \<open>x \<le> of_int n\<close> have "x < of_int n" by simp
    then have "\<lfloor>x\<rfloor> + 1 \<le> n" by linarith
    then show ?thesis using round_half_even_cases [of x] by auto
  qed simp
qed

lemma round_half_even_ge: "of_int n \<le> x \<Longrightarrow> n \<le> round_half_even x"
  using round_half_even_cases [of x] by linarith

lemma round_half_away_error: "\<bar>of_int (round_half_away x) - x\<bar> \<le> 1/2"
proof (cases "0 \<le> x")
  case True
  have "of_int \<lfloor>x + 1/2\<rfloor> \<le> x + 1/2" and "x + 1/2 < of_int \<lfloor>x + 1/2\<rfloor> + 1"
    by linarith+
  then have "\<bar>of_int \<lfloor>x + 1/2\<rfloor> - x\<bar> \<le> 1/2" by linarith
  with True show ?thesis by (simp only: round_half_away_def if_True)
next
  case False
  have "of_int \<lfloor>1/2 - x\<rfloor> \<le> 1/2 - x" and "1/2 - x < of_int \<lfloor>1/2 - x\<rfloor> + 1"
    by linarith+
  then have "\<bar>- of_int \<lfloor>1/2 - x\<rfloor> - x\<bar> \<le> 1/2" by linarith
  with False show ?thesis by (simp only: round_half_away_def if_False of_int_minus)
qed

lemma round_half_away_le: "x \<le> of_int n \<Longrightarrow> round_half_away x \<le> n"
proof -
  assume le: "x \<le> of_int n"
  show ?thesis
  proof (cases "0 \<le> x")
    case True
    have "\<lfloor>x + 1/2\<rfloor> < n + 1" using le unfolding floor_less_iff by simp
    with True show ?thesis by (simp add: round_half_away_def)
  next
    case False
    have "- n \<le> \<lfloor>1/2 - x\<rfloor>" using le by (simp add: le_floor_iff)
    with False show ?thesis by (simp add: round_half_away_def)
  qed
qed

lemma round_half_away_ge: "of_int n \<le> x \<Longrightarrow> n \<le> round_half_away x"
proof -
  assume ge: "of_int n \<le> x"
  show ?thesis
  proof (cases "0 \<le> x")
    case True
    have "n \<le> \<lfloor>x + 1/2\<rfloor>" using ge by (simp add: le_floor_iff)
    with True show ?thesis by (simp add: round_half_away_def)
  next
    case False
    have "\<lfloor>1/2 - x\<rfloor> < - n + 1" using ge unfolding floor_less_iff by simp
    with False show ?thesis by (simp add: round_half_away_def)
  qed
qed

subsection \<open>Rounding to 28 significant digits\<close>

lemma adjusted_ge_1:
  assumes "1 \<le> x"
  shows "10 powi adjusted x \<le> x" and "x < 10 powi (adjusted x + 1)"
proof -
  define n where "n = nat \<lfloor>x\<rfloor>"
  define l where "l = floorlog 10 n"
  have n: "0 < n" using assms by (simp add: n_def)
  have x: "of_nat n \<le> x" "x < of_nat n + 1"
    using assms by (auto simp: n_def) linarith+
  have l: "10 ^ (l - 1) \<le> n" "n < 10 ^ l"
    using floorlog_bounds [of n 10] n by (auto simp: l_def)
  have "0 < l" using l n by (cases l) auto
  then have adj: "adjusted x = int (l - 1)"
    using assms by (simp add: adjusted_def l_def n_def of_nat_diff)
  have "(10::rat) ^ (l - 1) \<le> of_nat n"
    using l(1) by (metis of_nat_le_iff of_nat_numeral of_nat_power)
  also note x(1)
  finally show "10 powi adjusted x \<le> x" by (simp add: adj)
  have "Suc n \<le> 10 ^ l" using l(2) by simp
  then have "of_nat n + 1 \<le> (10::rat) ^ l"
    by (metis of_nat_Suc of_nat_le_iff of_nat_numeral of_nat_power add.commute)
  moreover have "adjusted x + 1 = int l" using adj \<open>0 < l\<close> by simp
  ultimately show "x < 10 powi (adjusted x + 1)" using x(2) by simp
qed

lemma adjusted_less_1:
  assumes "0 < x" and "x < 1"
  shows "10 powi adjusted x \<le> x" and "x < 10 powi (adjusted x + 1)"
proof -
  define y where "y = 1 / x"
  have y: "1 < y" using assms by (simp add: y_def)
  define n where "n = nat (\<lceil>y\<rceil> - 1)"
  define l where "l = floorlog 10 n"
  have "1 < \<lceil>y\<rceil>" using y by (simp add: less_ceiling_iff)
  then have n: "0 < n" by (simp add: n_def)
  have yn: "of_nat n < y" "y \<le> of_nat n + 1"
    using \<open>1 < \<lceil>y\<rceil>\<close> by (auto simp: n_def) linarith+
  have l: "10 ^ (l - 1) \<le> n" "n < 10 ^ l"
    using floorlog_bounds [of n 10] n by (auto simp: l_def)
  have "0 < l" using l n by (cases l) auto
  have adj: "adjusted x = - int l"
    using assms by (simp add: adjusted_def l_def n_def y_def)
  have "Suc n \<le> 10 ^ l" using l(2) by simp
  then have "of_nat n + 1 \<le> (10::rat) ^ l"
    by (metis of_nat_Suc of_nat_le_iff of_nat_numeral of_nat_power add.commute)
  with yn(2) have "y \<le> 10 ^ l" by simp
  then have "1 / 10 ^ l \<le> x" using assms by (simp add: y_def field_simps)
  then show "10 powi adjusted x \<le> x" by (simp add: adj power_int_minus field_simps)
  have "(10::rat) ^ (l - 1) \<le> of_nat n"
    using l(1) by (metis of_nat_le_iff of_nat_numeral of_nat_power)
  with yn(1) have "10 ^ (l - 1) < y" by (rule order.strict_trans1 [rotated])
  then have "x < 1 / 10 ^ (l - 1)" using assms by (simp add: y_def field_simps)
  moreover have "adjusted x + 1 = - int (l - 1)" using adj \<open>0 < l\<close> by simp
  ultimately show "x < 10 powi (adjusted x + 1)" by (simp add: power_int_minus field_simps)
qed

lemma adjusted_bounds:
  assumes "0 < x"
  shows "10 powi adjusted x \<le> x" and "x < 10 powi (adjusted x + 1)"
  using adjusted_ge_1 [of x] adjusted_less_1 [of x] assms by (cases "1 \<le> x"; simp)+

lemma ulp_pos [simp]: "0 < ulp x"
  by (simp add: ulp_def)

lemma ulp_bounds:
  assumes "x \<noteq> 0"
  shows "10 ^ 27 * ulp x \<le> \<bar>x\<bar>" and "\<bar>x\<bar> < 10 ^ 28 * ulp x"
proof -
  have "0 < \<bar>x\<bar>" using assms by simp
  note b = adjusted_bounds [OF this]
  have "10 powi adjusted \<bar>x\<bar> = 10 ^ 27 * ulp x"
    by (simp add: ulp_def power_int_diff)
  moreover have "10 powi (adjusted \<bar>x\<bar> + 1) = 10 ^ 28 * ulp x"
    by (simp add: ulp_def power_int_diff power_int_add)
  ultimately show "10 ^ 27 * ulp x \<le> \<bar>x\<bar>" "\<bar>x\<bar> < 10 ^ 28 * ulp x"
    using b by simp_all
qed

lemma dctx_ulp: "x \<noteq> 0 \<Longrightarrow> dctx x = of_int (round_half_even (x / ulp x)) * ulp x"
  by (simp add: dctx_def ulp_def Let_def)

lemma ulp_power: "\<exists>e. ulp x = 10 powi e"
  by (auto simp: ulp_def)

lemma powi_10_less_iff: "(10::rat) powi a < 10 powi b \<longleftrightarrow> a < b"
  by (metis linorder_neqE_linordered_idom numeral_less_iff one_less_numeral_iff order_less_asym
      power_int_strict_increasing semiring_norm(76))

text \<open>A value that is a multiple of the unit is left alone.\<close>

lemma dctx_multiple: "x = of_int n * ulp x \<Longrightarrow> dctx x = x"
proof -
  assume x: "x = of_int n * ulp x"
  show "dctx x = x"
  proof (cases "x = 0")
    case False
    from x have "x / ulp x = of_int n"
      by (metis nonzero_mult_div_cancel_right ulp_pos less_numeral_extra(3))
    with False x show ?thesis by (simp add: dctx_ulp)
  qed (simp add: dctx_def)
qed

lemma on_grid_ulp:
  assumes "on_grid k x" and "10 powi e = ulp y" and "e \<le> - int k"
  obtains n where "x = of_int n * ulp y"
proof -
  from assms(1) obtain c where c: "x * 10 ^ k = of_int c"
    by (auto simp: on_grid_def Ints_def)
  define m where "m = nat (- int k - e)"
  have e: "e = - int k - int m" using assms(3) by (simp add: m_def)
  have "ulp y = 1 / (10 ^ k * 10 ^ m)"
    unfolding assms(2) [symmetric] e by (simp add: power_int_diff power_int_minus field_simps)
  moreover have "x = of_int c / 10 ^ k" using c by (simp add: field_simps)
  ultimately have "x = of_int (c * 10 ^ m) * ulp y" by simp
  then show thesis by (rule that)
qed

lemma dctx_exact:
  assumes "on_grid k x" and "\<bar>x\<bar> * 10 ^ k < 10 ^ 28"
  shows "dctx x = x"
proof (cases "x = 0")
  case False
  obtain e where e: "ulp x = 10 powi e" using ulp_power by blast
  have "10 ^ 27 * 10 powi e \<le> \<bar>x\<bar>"
    using ulp_bounds(1) [OF False] by (simp add: e)
  then have "10 ^ 27 * 10 powi e * 10 ^ k \<le> \<bar>x\<bar> * 10 ^ k"
    by (rule mult_right_mono) simp
  also note assms(2)
  finally have "10 ^ 27 * 10 powi e * 10 ^ k < (10 ^ 28 :: rat)" .
  then have "10 powi (e + int k) < (10::rat) powi 1"
    by (simp add: power_int_add)
  then have "e \<le> - int k" unfolding powi_10_less_iff by simp
  with assms(1) e obtain n where "x = of_int n * ulp x"
    by (metis on_grid_ulp)
  then show ?thesis by (rule dctx_multiple)
qed (simp add: dctx_def)

lemma dctx_le_col4:
  assumes "col4 g" and "x \<le> g"
  shows "dctx x \<le> g"
proof (cases "x = 0")
  case True
  with assms show ?thesis by (simp add: dctx_def)
next
  case False
  obtain e where e: "ulp x = 10 powi e" using ulp_power by blast
  show ?thesis
  proof (cases "e \<le> - int 4")
    case True
    with assms(1) e obtain n where g: "g = of_int n * ulp x"
      by (metis on_grid_ulp col4_def)
    with assms(2) have "x / ulp x \<le> of_int n"
      by (simp add: field_simps)
    then have "round_half_even (x / ulp x) \<le> n" by (rule round_half_even_le)
    then show ?thesis using False by (simp add: dctx_ulp g)
  next
    case False
    then have "(10::rat) powi (-3) \<le> ulp x" unfolding e by (intro power_int_increasing) auto
    then have "10 ^ 24 \<le> 10 ^ 27 * ulp x" by (simp add: power_int_minus)
    also note ulp_bounds(1) [OF \<open>x \<noteq> 0\<close>]
    finally have big: "10 ^ 24 \<le> \<bar>x\<bar>" .
    have g: "\<bar>g\<bar> \<le> 10 ^ 23" using assms(1) by (simp add: col4_def)
    with big assms(2) have "x < 0" by (cases "x < 0") auto
    then have "x / ulp x \<le> of_int (- (10 ^ 27))"
      using ulp_bounds(1) [OF \<open>x \<noteq> 0\<close>] by (simp add: field_simps)
    then have "round_half_even (x / ulp x) \<le> - (10 ^ 27)" by (rule round_half_even_le)
    then have "of_int (round_half_even (x / ulp x)) \<le> (of_int (- (10 ^ 27)) :: rat)"
      by (simp only: of_int_le_iff)
    then have "of_int (round_half_even (x / ulp x)) * ulp x \<le> of_int (- (10 ^ 27)) * ulp x"
      by (rule mult_right_mono) (simp add: less_imp_le)
    then have "dctx x \<le> - (10 ^ 27) * ulp x"
      using \<open>x \<noteq> 0\<close> by (simp add: dctx_ulp)
    moreover have "- (10 ^ 27) * ulp x \<le> - (10 ^ 24)"
      using \<open>10 ^ 24 \<le> 10 ^ 27 * ulp x\<close> by simp
    moreover have "- (10 ^ 24) \<le> g" using g by simp
    ultimately show ?thesis by (meson order_trans)
  qed
qed

lemma round_half_even_minus: "round_half_even (- x) = - round_half_even x"
proof (cases "x \<in> \<int>")
  case True
  then obtain n where "x = of_int n" by (auto simp: Ints_def)
  then show ?thesis
    by (metis of_int_minus round_half_even_of_int)
next
  case False
  then have "x \<noteq> of_int \<lfloor>x\<rfloor>" by (metis Ints_of_int)
  then have "\<lfloor>- x\<rfloor> = - \<lfloor>x\<rfloor> - 1"
    by (simp add: floor_minus ceiling_altdef)
  then show ?thesis
    by (auto simp: round_half_even_def Let_def)
qed

lemma dctx_minus: "dctx (- x) = - dctx x"
  by (simp add: dctx_def Let_def round_half_even_minus)

lemma dctx_ge_col4:
  assumes "col4 g" and "g \<le> x"
  shows "g \<le> dctx x"
proof -
  have "col4 (- g)" using assms(1) by (simp add: col4_def on_grid_def)
  then have "dctx (- x) \<le> - g" using assms(2) by (intro dctx_le_col4) auto
  then show ?thesis by (simp add: dctx_minus)
qed

lemma col4_zero [simp]: "col4 0"
  by (simp add: col4_def on_grid_def)

lemma num4_le_grid: "on_grid 4 g \<Longrightarrow> x \<le> g \<Longrightarrow> num4 x \<le> g"
proof -
  assume "on_grid 4 g" and le: "x \<le> g"
  then obtain n where n: "g * 10000 = of_int n" by (auto simp: on_grid_def Ints_def)
  have "round_half_away (x * 10000) \<le> n"
    using le by (intro round_half_away_le) (simp flip: n)
  then have "of_int (round_half_away (x * 10000)) \<le> g * 10000" by (simp add: n)
  then show "num4 x \<le> g" by (simp add: num4_def field_simps)
qed

lemma num4_ge_grid: "on_grid 4 g \<Longrightarrow> g \<le> x \<Longrightarrow> g \<le> num4 x"
proof -
  assume "on_grid 4 g" and ge: "g \<le> x"
  then obtain n where n: "g * 10000 = of_int n" by (auto simp: on_grid_def Ints_def)
  have "n \<le> round_half_away (x * 10000)"
    using ge by (intro round_half_away_ge) (simp flip: n)
  then have "g * 10000 \<le> of_int (round_half_away (x * 10000))" by (simp add: n)
  then show "g \<le> num4 x" by (simp add: num4_def field_simps)
qed

lemma quant4_le_grid: "on_grid 4 g \<Longrightarrow> x \<le> g \<Longrightarrow> quant4 x \<le> g"
proof -
  assume "on_grid 4 g" and le: "x \<le> g"
  then obtain n where n: "g * 10000 = of_int n" by (auto simp: on_grid_def Ints_def)
  have "round_half_even (x * 10000) \<le> n"
    using le by (intro round_half_even_le) (simp flip: n)
  then have "of_int (round_half_even (x * 10000)) \<le> g * 10000" by (simp add: n)
  then show "quant4 x \<le> g" by (simp add: quant4_def field_simps)
qed

lemma quant4_ge_grid: "on_grid 4 g \<Longrightarrow> g \<le> x \<Longrightarrow> g \<le> quant4 x"
proof -
  assume "on_grid 4 g" and ge: "g \<le> x"
  then obtain n where n: "g * 10000 = of_int n" by (auto simp: on_grid_def Ints_def)
  have "n \<le> round_half_even (x * 10000)"
    using ge by (intro round_half_even_ge) (simp flip: n)
  then have "g * 10000 \<le> of_int (round_half_even (x * 10000))" by (simp add: n)
  then show "g \<le> quant4 x" by (simp add: quant4_def field_simps)
qed

subsection \<open>The three roundings meet the contract\<close>

interpretation ctx: rounding dctx col4
  by unfold_locales (auto intro: dctx_le_col4 dctx_ge_col4)

interpretation column: rounding num4 "on_grid 4"
  by unfold_locales (auto intro: num4_le_grid num4_ge_grid simp: on_grid_def)

interpretation quantum: rounding quant4 "on_grid 4"
  by unfold_locales (auto intro: quant4_le_grid quant4_ge_grid simp: on_grid_def)

lemma num4_on_grid [simp]: "on_grid 4 (num4 x)"
  by (simp add: num4_def on_grid_def)

lemma num4_error: "\<bar>num4 x - x\<bar> \<le> 1 / 20000"
proof -
  have "\<bar>of_int (round_half_away (x * 10000)) - x * 10000\<bar> \<le> 1/2"
    by (rule round_half_away_error)
  then have "\<bar>(of_int (round_half_away (x * 10000)) - x * 10000) / 10000\<bar> \<le> 1 / 20000"
    by (simp add: abs_le_iff field_simps)
  then show ?thesis by (simp add: num4_def diff_divide_distrib)
qed

text \<open>Grid points are closed under the exact operations.\<close>

lemma on_grid_zero [simp]: "on_grid k 0"
  by (simp add: on_grid_def)

lemma on_grid_of_int [simp]: "on_grid k (of_int n)"
  by (simp add: on_grid_def)

lemma on_grid_add: "on_grid k x \<Longrightarrow> on_grid k y \<Longrightarrow> on_grid k (x + y)"
  by (simp add: on_grid_def distrib_right)

lemma on_grid_diff: "on_grid k x \<Longrightarrow> on_grid k y \<Longrightarrow> on_grid k (x - y)"
  by (simp add: on_grid_def left_diff_distrib)

lemma on_grid_min: "on_grid k x \<Longrightarrow> on_grid k y \<Longrightarrow> on_grid k (min x y)"
  by (simp add: min_def)

lemma on_grid_max: "on_grid k x \<Longrightarrow> on_grid k y \<Longrightarrow> on_grid k (max x y)"
  by (simp add: max_def)

lemma on_grid_mono: "on_grid k x \<Longrightarrow> k \<le> l \<Longrightarrow> on_grid l x"
proof -
  assume "on_grid k x" and "k \<le> l"
  then obtain m where "l = k + m" by (auto simp: le_iff_add)
  then have "x * 10 ^ l = (x * 10 ^ k) * of_int (10 ^ m)" by (simp add: power_add)
  with \<open>on_grid k x\<close> show "on_grid l x" unfolding on_grid_def by (metis Ints_mult Ints_of_int)
qed

subsection \<open>Rounding errors\<close>

lemma dctx_error: "x \<noteq> 0 \<Longrightarrow> \<bar>dctx x - x\<bar> \<le> ulp x / 2"
proof -
  assume "x \<noteq> 0"
  define n where "n = round_half_even (x / ulp x)"
  have "\<bar>of_int n - x / ulp x\<bar> \<le> 1 / 2" unfolding n_def by (rule round_half_even_error)
  then have "\<bar>of_int n - x / ulp x\<bar> * ulp x \<le> 1 / 2 * ulp x"
    by (rule mult_right_mono) (simp add: less_imp_le)
  moreover have "\<bar>of_int n - x / ulp x\<bar> * ulp x = \<bar>of_int n * ulp x - x\<bar>"
  proof -
    have "ulp x \<noteq> 0" by (metis less_irrefl ulp_pos)
    then have "(of_int n - x / ulp x) * ulp x = of_int n * ulp x - x" by (simp add: left_diff_distrib)
    then show ?thesis by (metis abs_mult abs_of_pos ulp_pos)
  qed
  ultimately have "\<bar>of_int n * ulp x - x\<bar> \<le> ulp x / 2" by linarith
  then show ?thesis using \<open>x \<noteq> 0\<close> by (simp add: dctx_ulp n_def)
qed

lemma ulp_unique:
  assumes "10 ^ 27 * 10 powi e \<le> x" and "x < 10 ^ 28 * 10 powi e"
  shows "ulp x = 10 powi e"
proof -
  have "0 < x" by (rule less_le_trans [OF _ assms(1)]) simp
  obtain f where f: "ulp x = 10 powi f" using ulp_power by blast
  note b = ulp_bounds [of x, unfolded f]
  have "10 ^ 27 * 10 powi f < (10 ^ 28 * 10 powi e :: rat)" using b(1) assms(2) \<open>0 < x\<close> by simp
  then have "10 powi f < (10 :: rat) powi (e + 1)" by (simp add: power_int_add)
  moreover have "10 ^ 27 * 10 powi e < (10 ^ 28 * 10 powi f :: rat)" using b(2) assms(1) \<open>0 < x\<close> by simp
  then have "10 powi e < (10 :: rat) powi (f + 1)" by (simp add: power_int_add)
  ultimately have "e = f" unfolding powi_10_less_iff by simp
  with f show ?thesis by simp
qed

lemma ulp_mono:
  assumes "0 < x" and "x \<le> y"
  shows "ulp x \<le> ulp y"
proof -
  obtain e f where e: "ulp x = 10 powi e" and f: "ulp y = 10 powi f" using ulp_power by metis
  have "10 ^ 27 * 10 powi e < (10 ^ 28 * 10 powi f :: rat)"
    using ulp_bounds(1) [of x] ulp_bounds(2) [of y] assms by (simp add: e f)
  then have "10 powi e < (10 :: rat) powi (f + 1)" by (simp add: power_int_add)
  then have "e \<le> f" unfolding powi_10_less_iff by simp
  then show ?thesis by (simp add: e f power_int_increasing)
qed

text \<open>A multiple of \<open>10 ^ -4\<close> that is small enough is an even multiple of its unit, so that a tie
  just above it rounds down to it.\<close>

lemma even_multiple:
  assumes "on_grid 4 l" and "0 < l" and "l \<le> 10 ^ 22"
  obtains m where "l = of_int (2 * m) * ulp l"
proof -
  obtain e where e: "ulp l = 10 powi e" using ulp_power by blast
  have "10 ^ 27 * 10 powi e \<le> (10 ^ 22 :: rat)"
    using ulp_bounds(1) [of l] assms by (simp add: e)
  then have "10 powi (e + 5) \<le> (10 :: rat) powi 0" by (simp add: power_int_add)
  then have "e \<le> - int 5" using powi_10_less_iff [of 0 "e + 5"] by (simp add: not_less [symmetric])
  moreover have "on_grid 5 (l / 2)"
  proof -
    from assms(1) obtain c where "l * 10 ^ 4 = of_int c" by (auto simp: on_grid_def Ints_def)
    then have "l / 2 * 10 ^ 5 = of_int (5 * c)" by simp
    then show ?thesis by (metis Ints_of_int on_grid_def)
  qed
  ultimately obtain m where "l / 2 = of_int m * ulp l" by (metis on_grid_ulp e)
  then have "l = of_int (2 * m) * ulp l" by simp
  then show thesis by (rule that)
qed

lemma dctx_tie_even:
  assumes "on_grid 4 l" and "0 < l" and "l \<le> 10 ^ 22" and "l < x" and "x \<le> l + ulp l / 2"
  shows "dctx x \<le> l"
proof -
  from assms(1-3) obtain m where m: "l = of_int (2 * m) * ulp l" by (rule even_multiple)
  obtain e where e: "ulp l = 10 powi e" using ulp_power by blast
  have "of_int (2 * m) * ulp l < 10 ^ 28 * ulp l" using ulp_bounds(2) [of l] assms(2) m by simp
  then have "of_int (2 * m) < (of_int (10 ^ 28) :: rat)" 
    using ulp_pos [of l, THEN less_imp_le] by (simp add: mult_less_cancel_right)
  then have "2 * m + 1 \<le> 10 ^ 28" unfolding of_int_less_iff by simp
  then have "of_int (2 * m + 1) \<le> (of_int (10 ^ 28) :: rat)" unfolding of_int_le_iff .
  then have "(of_int (2 * m) + 1) * ulp l \<le> 10 ^ 28 * ulp l"
    by (intro mult_right_mono) (simp_all add: less_imp_le)
  moreover have "(of_int (2 * m) + 1) * ulp l = l + ulp l" using m by (simp only: distrib_right mult_1)
  ultimately have "l + ulp l / 2 < 10 ^ 28 * ulp l" using ulp_pos [of l] by linarith
  with assms(2,4,5) ulp_bounds(1) [of l] have u: "ulp x = ulp l"
    unfolding e by (intro ulp_unique) simp_all
  define d where "d = x / ulp l - of_int (2 * m)"
  have "ulp l \<noteq> 0" by (metis less_irrefl ulp_pos)
  then have "d * ulp l = x - of_int (2 * m) * ulp l" by (simp add: d_def left_diff_distrib)
  then have x: "x = l + d * ulp l" using m by linarith
  have d: "0 < d" "d \<le> 1 / 2"
    using assms(4,5) ulp_pos [of l] by (simp_all add: x zero_less_mult_iff mult_le_cancel_right flip: times_divide_eq_left)
  have "x / ulp x = of_int (2 * m) + d" by (simp add: u d_def)
  moreover have "\<lfloor>of_int (2 * m) + d\<rfloor> = 2 * m" by (rule floor_unique) (use d in simp_all)
  ultimately have "round_half_even (x / ulp x) = 2 * m" using d by (auto simp: round_half_even_def Let_def)
  then show ?thesis using assms(2,4) m by (simp add: dctx_ulp u)
qed

end
