(* ===== verification/Py_Strings.thy ===== *)
theory Py_Strings
  imports TS_Prelude
begin

text \<open>
  The string operations of Python that the program uses, on ASCII strings: \<^verbatim>\<open>str.strip\<close>,
  \<^verbatim>\<open>str.split(c)\<close>, \<^verbatim>\<open>str.lower\<close>, \<^verbatim>\<open>str.isdigit\<close>, \<^verbatim>\<open>sub in s\<close>, \<^verbatim>\<open>sep.join\<close>, the number parsers
  \<^verbatim>\<open>int(s)\<close> and \<^verbatim>\<open>Decimal(s)\<close> (finite values) and \<^verbatim>\<open>str(n)\<close> of an integer, with the round trip of
  printing and parsing an integer.
\<close>

definition is_space :: "char \<Rightarrow> bool" where
  "is_space c \<longleftrightarrow> of_char c \<in> {9, 10, 11, 12, 13, 28, 29, 30, 31, 32 :: nat}"

definition lstrip :: "string \<Rightarrow> string" where
  "lstrip s = dropWhile is_space s"

definition strip :: "string \<Rightarrow> string" where
  "strip s = rev (lstrip (rev (lstrip s)))"

definition lstrip_char :: "char \<Rightarrow> string \<Rightarrow> string" where
  "lstrip_char c s = dropWhile (\<lambda>d. d = c) s"

definition lower_char :: "char \<Rightarrow> char" where
  "lower_char c = (let n = (of_char c :: nat) in if 65 \<le> n \<and> n \<le> 90 then char_of (n + 32) else c)"

definition lower :: "string \<Rightarrow> string" where
  "lower s = map lower_char s"

fun split_on :: "char \<Rightarrow> string \<Rightarrow> string list" where
  "split_on c [] = [ [] ]"
| "split_on c (x # xs) =
     (if x = c then [] # split_on c xs
      else case split_on c xs of [] \<Rightarrow> [ [x] ] | y # ys \<Rightarrow> (x # y) # ys)"

fun join :: "string \<Rightarrow> string list \<Rightarrow> string" where
  "join sep [] = ''''"
| "join sep [s] = s"
| "join sep (s # t # ts) = s @ sep @ join sep (t # ts)"

fun contains :: "string \<Rightarrow> string \<Rightarrow> bool" where
  "contains sub [] = (sub = [])"
| "contains sub (c # cs) = (take (length sub) (c # cs) = sub \<or> contains sub cs)"

definition is_digit :: "char \<Rightarrow> bool" where
  "is_digit c \<longleftrightarrow> (48::nat) \<le> of_char c \<and> of_char c \<le> (57::nat)"

definition digit_val :: "char \<Rightarrow> int" where
  "digit_val c = of_char c - 48"

definition isdigit :: "string \<Rightarrow> bool" where
  "isdigit s \<longleftrightarrow> s \<noteq> [] \<and> list_all is_digit s"

definition digits_val :: "string \<Rightarrow> int" where
  "digits_val s = foldl (\<lambda>a c. 10 * a + digit_val c) 0 s"

text \<open>\<^verbatim>\<open>int(s)\<close>: white space around, an optional sign, digits with single underscores between them.\<close>

definition py_nat :: "string \<Rightarrow> int option" where
  "py_nat s =
     (let gs = split_on (CHR ''_'') s
      in if list_all isdigit gs then Some (digits_val (concat gs)) else None)"

definition py_int :: "string \<Rightarrow> int option" where
  "py_int s = (case strip s of
       [] \<Rightarrow> None
     | c # cs \<Rightarrow>
         if c = CHR ''-'' then map_option uminus (py_nat cs)
         else if c = CHR ''+'' then py_nat cs
         else py_nat (c # cs))"

text \<open>\<^verbatim>\<open>Decimal(s)\<close>: white space and underscores are dropped; a sign, digits with an optional point,
  an optional exponent. The special values (\<^verbatim>\<open>NaN\<close>, \<^verbatim>\<open>Infinity\<close>) are outside the model.\<close>

definition pow10 :: "int \<Rightarrow> rat" where
  "pow10 e = (if 0 \<le> e then 10 ^ nat e else 1 / 10 ^ nat (- e))"

definition dec_mantissa :: "string \<Rightarrow> rat option" where
  "dec_mantissa s = (case split_on (CHR ''.'') s of
       [i] \<Rightarrow> if isdigit i then Some (of_int (digits_val i)) else None
     | [i, f] \<Rightarrow>
         if list_all is_digit (i @ f) \<and> i @ f \<noteq> []
         then Some (of_int (digits_val (i @ f)) / 10 ^ length f) else None
     | _ \<Rightarrow> None)"

definition dec_unsigned :: "string \<Rightarrow> rat option" where
  "dec_unsigned s = (case split_on (CHR ''e'') (lower s) of
       [m] \<Rightarrow> dec_mantissa m
     | [m, e] \<Rightarrow>
         (case (dec_mantissa m, if contains ''_'' e then None else py_int e) of
            (Some x, Some n) \<Rightarrow> Some (x * pow10 n) | _ \<Rightarrow> None)
     | _ \<Rightarrow> None)"

definition py_decimal :: "string \<Rightarrow> rat option" where
  "py_decimal s = (case filter (\<lambda>c. c \<noteq> CHR ''_'') (strip s) of
       [] \<Rightarrow> None
     | c # cs \<Rightarrow>
         if c = CHR ''-'' then map_option uminus (dec_unsigned cs)
         else if c = CHR ''+'' then dec_unsigned cs
         else dec_unsigned (c # cs))"

fun show_nat :: "nat \<Rightarrow> string" where
  "show_nat n = (if n < 10 then [char_of (48 + n)] else show_nat (n div 10) @ [char_of (48 + n mod 10)])"

declare show_nat.simps [simp del]

definition show_int :: "int \<Rightarrow> string" where
  "show_int i = (if i < 0 then CHR ''-'' # show_nat (nat (- i)) else show_nat (nat i))"

subsection \<open>Printing and parsing an integer\<close>

lemma is_digit_char_of: "(n::nat) < 10 \<Longrightarrow> is_digit (char_of (48 + n))"
  by (simp add: is_digit_def)

lemma digit_val_char_of: "(n::nat) < 10 \<Longrightarrow> digit_val (char_of (48 + n)) = int n"
proof -
  assume "n < 10"
  then have "of_char (char_of (48 + n)) = (48 + n :: nat)" by simp
  then have "(of_char (char_of (48 + n)) :: int) = int (48 + n)"
    by (metis of_nat_of_char)
  then show ?thesis by (simp add: digit_val_def)
qed

lemma show_nat_digits: "isdigit (show_nat n) \<and> digits_val (show_nat n) = int n"
proof (induction n rule: show_nat.induct)
  case (1 n)
  show ?case
  proof (cases "n < 10")
    case True
    then show ?thesis
      by (subst (1 2) show_nat.simps)
         (simp add: isdigit_def digits_val_def is_digit_char_of digit_val_char_of)
  next
    case False
    with "1" have IH: "isdigit (show_nat (n div 10))" "digits_val (show_nat (n div 10)) = int (n div 10)"
      by auto
    have m: "n mod 10 < 10" by simp
    show ?thesis
      using False IH is_digit_char_of [OF m] digit_val_char_of [OF m]
      by (subst (1 2) show_nat.simps) (simp add: isdigit_def digits_val_def zdiv_int zmod_int)
  qed
qed

lemma split_on_no_sep: "c \<notin> set s \<Longrightarrow> split_on c s = [s]"
  by (induction s) auto

lemma isdigit_chars: "isdigit s \<Longrightarrow> x \<in> set s \<Longrightarrow> is_digit x"
  by (simp add: isdigit_def list_all_iff)

lemma isdigit_no_char: "isdigit s \<Longrightarrow> \<not> is_digit c \<Longrightarrow> c \<notin> set s"
  by (auto dest: isdigit_chars)

lemma py_nat_isdigit: "isdigit s \<Longrightarrow> py_nat s = Some (digits_val s)"
proof -
  assume s: "isdigit s"
  then have "CHR ''_'' \<notin> set s" by (rule isdigit_no_char) (simp add: is_digit_def)
  with s show ?thesis by (simp add: py_nat_def split_on_no_sep)
qed

lemma lstrip_no_space: "s = [] \<or> \<not> is_space (hd s) \<Longrightarrow> lstrip s = s"
  by (cases s) (auto simp: lstrip_def)

lemma strip_no_space: "(\<And>c. c \<in> set s \<Longrightarrow> \<not> is_space c) \<Longrightarrow> strip s = s"
proof -
  assume ns: "\<And>c. c \<in> set s \<Longrightarrow> \<not> is_space c"
  have "lstrip s = s" using ns by (intro lstrip_no_space) (cases s; auto)
  moreover have "lstrip (rev s) = rev s"
    using ns by (intro lstrip_no_space) (metis list.set_sel(1) set_rev)
  ultimately show ?thesis by (simp add: strip_def)
qed

lemma digit_not_space: "is_digit c \<Longrightarrow> \<not> is_space c"
  by (auto simp: is_digit_def is_space_def)

lemma isdigit_no_space: "isdigit s \<Longrightarrow> c \<in> set s \<Longrightarrow> \<not> is_space c"
  by (rule digit_not_space) (rule isdigit_chars)

lemma py_int_isdigit: "isdigit s \<Longrightarrow> py_int s = Some (digits_val s)"
proof -
  assume s: "isdigit s"
  have "strip s = s"
    by (rule strip_no_space) (rule isdigit_no_space [OF s])
  moreover obtain c cs where c: "s = c # cs" using s by (cases s) (auto simp: isdigit_def)
  moreover have "is_digit c" using s c by (simp add: isdigit_def)
  then have "c \<noteq> CHR ''-''" "c \<noteq> CHR ''+''" by (auto simp: is_digit_def)
  ultimately show ?thesis using py_nat_isdigit [OF s] by (simp add: py_int_def)
qed

lemma minus_not_space: "\<not> is_space (CHR ''-'')"
  by (simp add: is_space_def)

lemma py_int_show_int: "py_int (show_int i) = Some i"
proof (cases "i < 0")
  case True
  define s where "s = show_nat (nat (- i))"
  have s: "isdigit s" "digits_val s = - i"
    using show_nat_digits [of "nat (- i)"] True by (auto simp: s_def)
  have "strip (CHR ''-'' # s) = CHR ''-'' # s"
    by (rule strip_no_space)
       (metis isdigit_no_space [OF s(1)] set_ConsD minus_not_space)
  then show ?thesis
    using True s py_nat_isdigit [OF s(1)] by (simp add: show_int_def py_int_def flip: s_def)
next
  case False
  then show ?thesis
    using show_nat_digits [of "nat i"] py_int_isdigit [of "show_nat (nat i)"]
    by (simp add: show_int_def)
qed

text \<open>Splitting and joining.\<close>

lemma split_on_not_Nil [simp]: "split_on c s \<noteq> []"
  by (induction s) (auto split: list.splits)

lemma join_Cons: "ss \<noteq> [] \<Longrightarrow> join sep (s # ss) = s @ sep @ join sep ss"
  by (cases ss) auto

lemma join_split_on: "join [c] (split_on c s) = s"
proof (induction s)
  case Nil
  show ?case by simp
next
  case (Cons x xs)
  obtain y ys where y: "split_on c xs = y # ys" by (metis list.exhaust split_on_not_Nil)
  show ?case
  proof (cases "x = c")
    case True
    with Cons y show ?thesis by simp
  next
    case False
    with Cons y show ?thesis by (cases ys) auto
  qed
qed

lemma split_on_chars: "x \<in> set (split_on c s) \<Longrightarrow> c \<notin> set x"
proof (induction s arbitrary: x)
  case Nil
  then show ?case by simp
next
  case (Cons a s)
  obtain y ys where y: "split_on c s = y # ys" by (metis list.exhaust split_on_not_Nil)
  with Cons show ?case by (auto split: if_splits)
qed

end
