(* ===== verification/Data_Model.thy ===== *)
theory Data_Model
  imports Decimal_Arith Py_Strings
begin

text \<open>
  The rows of the database and the exceptions of the program.

  One \<^theory_text>\<open>record\<close> per SQLAlchemy model (\<^verbatim>\<open>treadstone/*/models\<close>), its fields prefixed by
  the table, one \<^theory_text>\<open>datatype\<close> per \<^verbatim>\<open>StrEnum\<close>. A table is the list of its rows, in the
  order in which an unordered \<^verbatim>\<open>SELECT\<close> returns them. A \<open>world\<close> is what one database session
  sees: the tables, the process-wide cache of template specs, the source of random ids and the
  log of calls made to the Kubernetes API. \<open>commit\<close> is the moment at which the \<^verbatim>\<open>NUMERIC\<close>
  columns round what the session wrote; \<open>rollback\<close> undoes the rows and keeps what is not
  transactional (ids drawn, calls made to Kubernetes, emails sent, the cache).
\<close>

subsection \<open>Sandboxes\<close>

datatype sandbox_status = CREATING | READY | STOPPED | COLD | ERROR | DELETING | DELETED

datatype pending_operation = SNAPSHOTTING | RESTORING

datatype backend_mode = LIVE_DISK | STANDARD_SNAPSHOT | ARCHIVE_SNAPSHOT

record sandbox =
  sb_id :: string
  sb_name :: string
  sb_owner_id :: string
  sb_template :: string
  sb_labels :: "(string \<times> string) list"
  sb_auto_stop_interval :: int
  sb_auto_delete_interval :: int
  sb_provision_mode :: string
  sb_persist :: bool
  sb_storage_size :: "string option"
  sb_k8s_sandbox_claim_name :: "string option"
  sb_k8s_sandbox_name :: "string option"
  sb_k8s_namespace :: string
  sb_k8s_resource_version :: "string option"
  sb_last_synced_at :: "time option"
  sb_status :: sandbox_status
  sb_pending_operation :: "pending_operation option"
  sb_status_message :: "string option"
  sb_endpoints :: "(string \<times> string) list"
  sb_storage_backend_mode :: "backend_mode option"
  sb_k8s_workspace_pvc_name :: "string option"
  sb_k8s_workspace_pv_name :: "string option"
  sb_workspace_volume_handle :: "string option"
  sb_workspace_zone :: "string option"
  sb_snapshot_provider_id :: "string option"
  sb_snapshot_name :: "string option"
  sb_snapshot_content_name :: "string option"
  sb_version :: int
  sb_gmt_created :: time
  sb_gmt_started :: "time option"
  sb_gmt_stopped :: "time option"
  sb_gmt_snapshotted :: "time option"
  sb_gmt_restored :: "time option"
  sb_gmt_last_active :: "time option"
  sb_gmt_deleted :: "time option"

record web_link =
  wl_id :: string
  wl_sandbox_id :: string
  wl_created_by_user_id :: string
  wl_gmt_created :: time
  wl_gmt_updated :: time
  wl_gmt_expires :: "time option"
  wl_gmt_last_used :: "time option"
  wl_gmt_deleted :: "time option"

subsection \<open>Metering\<close>

datatype storage_state = SL_ACTIVE | SL_ARCHIVED | SL_DELETED

record tier_template =
  tt_tier_name :: string
  tt_compute_units_monthly :: dec
  tt_storage_capacity_gib :: int
  tt_max_concurrent_running :: int
  tt_max_sandbox_duration_seconds :: int
  tt_allowed_templates :: "string list"
  tt_grace_period_seconds :: int
  tt_is_active :: bool
  tt_gmt_updated :: time

text \<open>The values of the JSON dictionaries \<^verbatim>\<open>overrides\<close> and \<^verbatim>\<open>updates\<close>.\<close>

datatype override_value = ODec dec | OInt int | OList "string list"

record user_plan =
  up_user_id :: string
  up_tier :: string
  up_compute_units_monthly_limit :: dec
  up_storage_capacity_limit_gib :: int
  up_max_concurrent_running :: int
  up_max_sandbox_duration_seconds :: int
  up_allowed_templates :: "string list"
  up_grace_period_seconds :: int
  up_period_start :: time
  up_period_end :: time
  up_compute_units_monthly_used :: dec
  up_compute_units_overage :: dec
  up_overrides :: "(string \<times> override_value) list option"
  up_grace_period_started_at :: "time option"
  up_warning_80_notified_at :: "time option"
  up_warning_100_notified_at :: "time option"
  up_gmt_updated :: time

record compute_grant =
  cg_id :: string
  cg_user_id :: string
  cg_grant_type :: string
  cg_campaign_id :: "string option"
  cg_original_amount :: dec
  cg_remaining_amount :: dec
  cg_reason :: "string option"
  cg_granted_by :: "string option"
  cg_granted_at :: time
  cg_expires_at :: "time option"
  cg_gmt_updated :: time

record storage_quota_grant =
  sq_id :: string
  sq_user_id :: string
  sq_grant_type :: string
  sq_campaign_id :: "string option"
  sq_size_gib :: int
  sq_reason :: "string option"
  sq_granted_by :: "string option"
  sq_granted_at :: time
  sq_expires_at :: "time option"

record compute_session =
  cs_id :: string
  cs_sandbox_id :: string
  cs_user_id :: string
  cs_template :: string
  cs_vcpu_request :: dec
  cs_memory_gib_request :: dec
  cs_started_at :: time
  cs_ended_at :: "time option"
  cs_last_metered_at :: time
  cs_vcpu_hours :: dec
  cs_memory_gib_hours :: dec
  cs_gmt_updated :: time

record storage_ledger =
  sl_id :: string
  sl_user_id :: string
  sl_sandbox_id :: "string option"
  sl_size_gib :: int
  sl_storage_state :: storage_state
  sl_backend_mode :: backend_mode
  sl_allocated_at :: time
  sl_released_at :: "time option"
  sl_gib_hours_consumed :: dec
  sl_last_metered_at :: time
  sl_gmt_updated :: time

subsection \<open>Identity\<close>

datatype role = ADMIN | RW | RO

datatype data_plane_mode = DP_NONE | DP_ALL | DP_SELECTED

text \<open>The values of \<^verbatim>\<open>CliLoginFlow.status\<close>; \<open>FLOW_EXPIRED\<close> is only ever computed, never stored.\<close>

datatype flow_status = FLOW_PENDING | FLOW_APPROVED | FLOW_USED | FLOW_FAILED | FLOW_EXPIRED

record user =
  us_id :: string
  us_email :: string
  us_username :: "string option"
  us_hashed_password :: string
  us_has_local_password :: bool
  us_is_active :: bool
  us_is_verified :: bool
  us_role :: role
  us_gmt_created :: time
  us_gmt_updated :: time

record oauth_account =
  oa_id :: string
  oa_user_id :: string
  oa_oauth_name :: string
  oa_account_id :: string
  oa_account_email :: string

record api_key =
  ak_id :: string
  ak_key_hash :: string
  ak_key_preview :: string
  ak_name :: string
  ak_user_id :: string
  ak_is_enabled :: bool
  ak_control_plane_enabled :: bool
  ak_data_plane_mode :: data_plane_mode
  ak_gmt_created :: time
  ak_gmt_updated :: time
  ak_gmt_expires :: "time option"
  ak_gmt_deleted :: "time option"

record api_key_sandbox_grant =
  ag_id :: string
  ag_api_key_id :: string
  ag_sandbox_id :: string
  ag_gmt_created :: time

record cli_login_flow =
  cf_id :: string
  cf_flow_secret_hash :: string
  cf_status :: flow_status
  cf_user_id :: "string option"
  cf_provider :: "string option"
  cf_gmt_created :: time
  cf_gmt_expires :: time
  cf_gmt_completed :: "time option"

record email_verification_log =
  ev_id :: string
  ev_user_id :: string
  ev_email :: string
  ev_token :: string
  ev_verify_url :: string
  ev_gmt_created :: time

record password_reset_request_log =
  pr_id :: string
  pr_requested_email :: string
  pr_matched_user_id :: "string option"
  pr_was_sent :: bool
  pr_request_ip :: "string option"
  pr_user_agent :: "string option"
  pr_gmt_created :: time

text \<open>What an email backend was asked to send: address, token and link.\<close>

datatype email =
    VerificationEmail string string string
  | PasswordResetEmail string string string

subsection \<open>Audit events\<close>

datatype meta_value =
    MNone
  | MStr string
  | MInt int
  | MDec dec
  | MBool bool
  | MList "meta_value list"
  | MDict "(string \<times> meta_value) list"

record audit_event =
  ae_actor_type :: string
  ae_actor_user_id :: "string option"
  ae_actor_api_key_id :: "string option"
  ae_credential_type :: "string option"
  ae_action :: string
  ae_target_type :: string
  ae_target_id :: "string option"
  ae_result :: string
  ae_error_code :: "string option"
  ae_request_id :: "string option"
  ae_ip :: "string option"
  ae_user_agent :: "string option"
  ae_metadata :: "(string \<times> meta_value) list"

subsection \<open>Exceptions\<close>

datatype exn =
    NotFoundError string string
  | ConflictError string
  | BadRequestError string
  | ValidationError string
  | ComputeQuotaExceededError dec dec dec
  | StorageQuotaExceededError int int int
  | ConcurrentLimitError int int
  | TemplateNotAllowedError string string "string list"
  | SandboxDurationExceededError string int
  | SandboxNotFoundError string
  | TemplateNotFoundError string
  | SandboxNotReadyError string string
  | SandboxUnreachableError string
  | SandboxTimeoutError string
  | SandboxNameConflictError string
  | SandboxTemplateCatalogUnavailableError
  | InvalidTransitionError string string string
  | StorageBackendNotReadyError string
  | StorageSnapshotBackendNotReadyError string
  | UserRegistrationCapExceededError int int
  | SandboxCapExceededError int int
  | GlobalStorageCapExceededError int int int
  | WaitlistCapExceededError int int
  | FeedbackRateLimitError int
  | AuthRequiredError string
  | AuthInvalidError string
  | ForbiddenError string
  | EmailVerificationRequiredError
  | EmailVerificationTokenInvalidError
  | EmailAlreadyVerifiedError
  | PasswordResetTokenInvalidError
  | PasswordResetRateLimitedError string
  | UserAlreadyExists
  | UserNotExists
  | UserInactive
  | UserAlreadyVerified
  | InvalidVerifyToken
  | InvalidResetPasswordToken
  | LibraryError string
  | CardinalityError cardinality_error
  | IntegrityError
  | InvalidOperation string
  | DataError string
  | AutoDeleteFailure string bool
  | K8sException string

type_synonym error_dict = "string \<times> int"

text \<open>\<^verbatim>\<open>TreadstoneError.code\<close> and \<^verbatim>\<open>TreadstoneError.status\<close>, module by module; an exception that is
  not a class of the module has no entry.\<close>

fun core_error :: "exn \<Rightarrow> error_dict option" where
  "core_error (NotFoundError _ _) = Some (''not_found'', 404)"
| "core_error (ConflictError _) = Some (''conflict'', 409)"
| "core_error (BadRequestError _) = Some (''bad_request'', 400)"
| "core_error (ValidationError _) = Some (''validation_error'', 422)"
| "core_error _ = None"

fun metering_error :: "exn \<Rightarrow> error_dict option" where
  "metering_error (ComputeQuotaExceededError _ _ _) = Some (''compute_quota_exceeded'', 402)"
| "metering_error (StorageQuotaExceededError _ _ _) = Some (''storage_quota_exceeded'', 402)"
| "metering_error (ConcurrentLimitError _ _) = Some (''concurrent_limit_exceeded'', 429)"
| "metering_error (TemplateNotAllowedError _ _ _) = Some (''template_not_allowed'', 403)"
| "metering_error (SandboxDurationExceededError _ _) = Some (''sandbox_duration_exceeded'', 400)"
| "metering_error _ = None"

fun sandbox_error :: "exn \<Rightarrow> error_dict option" where
  "sandbox_error (SandboxNotFoundError _) = Some (''sandbox_not_found'', 404)"
| "sandbox_error (TemplateNotFoundError _) = Some (''template_not_found'', 404)"
| "sandbox_error (SandboxNotReadyError _ _) = Some (''sandbox_not_ready'', 409)"
| "sandbox_error (SandboxUnreachableError _) = Some (''sandbox_unreachable'', 502)"
| "sandbox_error (SandboxTimeoutError _) = Some (''sandbox_timeout'', 504)"
| "sandbox_error (SandboxNameConflictError _) = Some (''sandbox_name_conflict'', 409)"
| "sandbox_error SandboxTemplateCatalogUnavailableError =
     Some (''sandbox_template_catalog_unavailable'', 503)"
| "sandbox_error (InvalidTransitionError _ _ _) = Some (''invalid_transition'', 409)"
| "sandbox_error _ = None"

fun storage_error :: "exn \<Rightarrow> error_dict option" where
  "storage_error (StorageBackendNotReadyError _) = Some (''storage_backend_not_ready'', 503)"
| "storage_error (StorageSnapshotBackendNotReadyError _) =
     Some (''storage_snapshot_backend_not_ready'', 503)"
| "storage_error _ = None"

fun platform_error :: "exn \<Rightarrow> error_dict option" where
  "platform_error (UserRegistrationCapExceededError _ _) =
     Some (''user_registration_cap_exceeded'', 503)"
| "platform_error (SandboxCapExceededError _ _) = Some (''sandbox_cap_exceeded'', 503)"
| "platform_error (GlobalStorageCapExceededError _ _ _) =
     Some (''global_storage_cap_exceeded'', 503)"
| "platform_error (WaitlistCapExceededError _ _) = Some (''waitlist_cap_exceeded'', 503)"
| "platform_error (FeedbackRateLimitError _) = Some (''feedback_rate_limited'', 429)"
| "platform_error _ = None"

fun identity_error :: "exn \<Rightarrow> error_dict option" where
  "identity_error (AuthRequiredError _) = Some (''auth_required'', 401)"
| "identity_error (AuthInvalidError _) = Some (''auth_invalid'', 401)"
| "identity_error (ForbiddenError _) = Some (''forbidden'', 403)"
| "identity_error EmailVerificationRequiredError = Some (''email_verification_required'', 403)"
| "identity_error EmailVerificationTokenInvalidError = Some (''email_verification_token_invalid'', 400)"
| "identity_error EmailAlreadyVerifiedError = Some (''email_already_verified'', 400)"
| "identity_error PasswordResetTokenInvalidError = Some (''password_reset_token_invalid'', 400)"
| "identity_error (PasswordResetRateLimitedError _) = Some (''password_reset_rate_limited'', 429)"
| "identity_error _ = None"

subsection \<open>The state a session sees\<close>

text \<open>The arguments of \<^verbatim>\<open>create_sandbox\<close> and \<^verbatim>\<open>create_sandbox_claim\<close> that the callers build: string
  dictionaries are association lists, the annotation \<^verbatim>\<open>created-at\<close> keeps the time that the
  code formats.\<close>

record volume_claim_template =
  vc_labels :: "(string \<times> string) list"
  vc_storage_class :: string
  vc_storage :: "string option"
  vc_data_source :: "string option"

record sandbox_manifest =
  sm_image :: string
  sm_requests :: "(string \<times> string) list"
  sm_limits :: "(string \<times> string) list"
  sm_operating_mode :: string
  sm_startup_probe :: "meta_value option"
  sm_readiness_probe :: "meta_value option"
  sm_liveness_probe :: "meta_value option"
  sm_volume_claim :: volume_claim_template
  sm_shutdown_time :: "time option"
  sm_labels :: "(string \<times> string) list"
  sm_annotations :: "string \<times> time"
  sm_pod_labels :: "(string \<times> string) list"

record claim_manifest =
  cm_warm_pool_ref :: string
  cm_shutdown_time :: "time option"
  cm_labels :: "(string \<times> string) list"
  cm_annotations :: "string \<times> time"

datatype k8s_call =
    GetSandbox string string
  | ListSandboxTemplates string
  | CreateSandboxClaim string string claim_manifest
  | CreateSandbox string string sandbox_manifest
  | DeleteSandboxClaim string string
  | DeleteSandbox string string
  | SetOperatingMode string string string
  | GetStorageClass string
  | GetVolumeSnapshotClass string
  | CreateVolumeSnapshot string string string string "(string \<times> string) list" string
  | GetVolumeSnapshot string string
  | DeleteVolumeSnapshot string string
  | GetVolumeSnapshotContent string
  | SetSnapshotContentDeletionPolicy string string
  | DeleteVolumeSnapshotContent string
  | ListPVCs string "(string \<times> string) list option"
  | GetPVC string string
  | DeletePVC string string
  | GetPV string

type_synonym template_spec = "dec \<times> dec"

record world =
  tier_templates :: "tier_template list"
  user_plans :: "user_plan list"
  compute_grants :: "compute_grant list"
  storage_quota_grants :: "storage_quota_grant list"
  compute_sessions :: "compute_session list"
  storage_ledgers :: "storage_ledger list"
  sandboxes :: "sandbox list"
  web_links :: "web_link list"
  users :: "user list"
  oauth_accounts :: "oauth_account list"
  api_keys :: "api_key list"
  api_key_sandbox_grants :: "api_key_sandbox_grant list"
  cli_login_flows :: "cli_login_flow list"
  email_verification_logs :: "email_verification_log list"
  password_reset_request_logs :: "password_reset_request_log list"
  audit_events :: "audit_event list"
  outbox :: "email list"
  template_specs_cache :: "(string \<times> template_spec) list"
  k8s_log :: "k8s_call list"
  id_source :: "nat \<Rightarrow> string"
  ids_drawn :: nat

text \<open>A session with no rows, used to show that hypotheses can be met.\<close>

definition empty_world :: world where
  "empty_world = \<lparr>tier_templates = [], user_plans = [], compute_grants = [],
     storage_quota_grants = [], compute_sessions = [], storage_ledgers = [], sandboxes = [],
     web_links = [], users = [], oauth_accounts = [], api_keys = [], api_key_sandbox_grants = [],
     cli_login_flows = [], email_verification_logs = [], password_reset_request_logs = [],
     audit_events = [], outbox = [], template_specs_cache = [], k8s_log = [],
     id_source = (\<lambda>n. replicate (Suc n) (CHR ''a'')), ids_drawn = 0\<rparr>"

type_synonym 'a op = "(world, exn, 'a) action"

definition draw_id :: "string \<Rightarrow> string op" where
  "draw_id prefix =
     (\<lambda>w. (Inr (prefix @ id_source w (ids_drawn w)), w\<lparr>ids_drawn := Suc (ids_drawn w)\<rparr>))"

text \<open>What the \<^verbatim>\<open>NUMERIC(10, 4)\<close> columns make of a row when it is written.\<close>

definition store_tier_template :: "tier_template \<Rightarrow> tier_template" where
  "store_tier_template t = t\<lparr>tt_compute_units_monthly := num4 (tt_compute_units_monthly t)\<rparr>"

definition store_plan :: "user_plan \<Rightarrow> user_plan" where
  "store_plan p = p\<lparr>
     up_compute_units_monthly_limit := num4 (up_compute_units_monthly_limit p),
     up_compute_units_monthly_used := num4 (up_compute_units_monthly_used p),
     up_compute_units_overage := num4 (up_compute_units_overage p)\<rparr>"

definition store_grant :: "compute_grant \<Rightarrow> compute_grant" where
  "store_grant g = g\<lparr>
     cg_original_amount := num4 (cg_original_amount g),
     cg_remaining_amount := num4 (cg_remaining_amount g)\<rparr>"

definition store_session :: "compute_session \<Rightarrow> compute_session" where
  "store_session s = s\<lparr>
     cs_vcpu_request := num4 (cs_vcpu_request s),
     cs_memory_gib_request := num4 (cs_memory_gib_request s),
     cs_vcpu_hours := num4 (cs_vcpu_hours s),
     cs_memory_gib_hours := num4 (cs_memory_gib_hours s)\<rparr>"

definition store_ledger :: "storage_ledger \<Rightarrow> storage_ledger" where
  "store_ledger l = l\<lparr>sl_gib_hours_consumed := num4 (sl_gib_hours_consumed l)\<rparr>"

definition store_rows :: "world \<Rightarrow> world" where
  "store_rows w = w\<lparr>
     tier_templates := map store_tier_template (tier_templates w),
     user_plans := map store_plan (user_plans w),
     compute_grants := map store_grant (compute_grants w),
     compute_sessions := map store_session (compute_sessions w),
     storage_ledgers := map store_ledger (storage_ledgers w)\<rparr>"

definition commit :: "unit op" where
  "commit = modify store_rows"

definition rollback_rows :: "world \<Rightarrow> world \<Rightarrow> world" where
  "rollback_rows w0 w = w0\<lparr>
     outbox := outbox w,
     template_specs_cache := template_specs_cache w,
     k8s_log := k8s_log w,
     ids_drawn := ids_drawn w\<rparr>"

text \<open>A block run in its own transaction (\<^verbatim>\<open>async with session_factory()\<close>, or a savepoint): an
  exception that leaves the block undoes its rows.\<close>

definition transaction :: "'a op \<Rightarrow> 'a op" where
  "transaction m = (\<lambda>w. case m w of
       (Inl e, w') \<Rightarrow> (Inl e, rollback_rows w w')
     | (Inr a, w') \<Rightarrow> (Inr a, w'))"

text \<open>\<^verbatim>\<open>except Exception: logger.exception(...)\<close>: the failure is logged and dropped.\<close>

definition best_effort :: "unit op \<Rightarrow> unit op" where
  "best_effort m = try_catch m (\<lambda>_. ret ())"

definition select_one_or_none :: "(world \<Rightarrow> 'r list) \<Rightarrow> 'r option op" where
  "select_one_or_none q = (\<lambda>w. case scalar_one_or_none (q w) of
       Inl e \<Rightarrow> (Inl (CardinalityError e), w) | Inr r \<Rightarrow> (Inr r, w))"

definition select_one :: "(world \<Rightarrow> 'r list) \<Rightarrow> 'r op" where
  "select_one q = (\<lambda>w. case scalar_one (q w) of
       Inl e \<Rightarrow> (Inl (CardinalityError e), w) | Inr r \<Rightarrow> (Inr r, w))"

subsection \<open>Audit service\<close>

definition compact_metadata :: "(string \<times> meta_value) list \<Rightarrow> (string \<times> meta_value) list" where
  "compact_metadata m = filter (\<lambda>(k, v). v \<noteq> MNone) m"

text \<open>\<^verbatim>\<open>record_audit_event\<close> as the background tasks call it: no request, the actor is the system.\<close>

definition record_audit_event ::
    "string \<Rightarrow> string \<Rightarrow> string \<Rightarrow> (string \<times> meta_value) list \<Rightarrow> unit op" where
  "record_audit_event action target_type target_id metadata = modify (\<lambda>w. w\<lparr>audit_events :=
     audit_events w @ [\<lparr>ae_actor_type = ''system'', ae_actor_user_id = None, ae_actor_api_key_id = None,
       ae_credential_type = None, ae_action = action, ae_target_type = target_type,
       ae_target_id = Some target_id, ae_result = ''success'', ae_error_code = None, ae_request_id = None,
       ae_ip = None, ae_user_agent = None, ae_metadata = compact_metadata metadata\<rparr>]\<rparr>)"

subsection \<open>Lemmas\<close>

lemma draw_id_run [run_simps]:
  "draw_id p w = (Inr (p @ id_source w (ids_drawn w)), w\<lparr>ids_drawn := Suc (ids_drawn w)\<rparr>)"
  by (simp add: draw_id_def)

lemma keeps_draw_id [keeps_intros]:
  "(\<And>w n. P w \<Longrightarrow> P (w\<lparr>ids_drawn := n\<rparr>)) \<Longrightarrow> keeps P (draw_id p)"
  by (simp add: keeps_def draw_id_def)

lemma keeps_select [keeps_intros]:
  "keeps P (select_one_or_none q)" "keeps P (select_one q)"
  by (auto simp: keeps_def select_one_or_none_def select_one_def split: sum.splits)

lemma keeps_best_effort [keeps_intros]: "keeps P m \<Longrightarrow> keeps P (best_effort m)"
  unfolding best_effort_def by (rule keeps_try_catch) (auto intro: keeps_intros)

lemma keeps_record_audit_event [keeps_intros]:
  "(\<And>w e. P w \<Longrightarrow> P (w\<lparr>audit_events := e\<rparr>)) \<Longrightarrow> keeps P (record_audit_event a t i m)"
  by (simp add: record_audit_event_def keeps_def)

lemma select_one_or_none_short [run_simps]:
  "length (q w) \<le> 1 \<Longrightarrow>
   select_one_or_none q w = (Inr (if q w = [] then None else Some (hd (q w))), w)"
  by (simp add: select_one_or_none_def scalar_one_or_none_short)

lemma select_one_or_none_Nil [simp]: "q w = [] \<Longrightarrow> select_one_or_none q w = (Inr None, w)"
  by (simp add: select_one_or_none_def)

lemma select_one_or_none_single [simp]: "q w = [r] \<Longrightarrow> select_one_or_none q w = (Inr (Some r), w)"
  by (simp add: select_one_or_none_def)

lemma select_one_single [simp]: "q w = [r] \<Longrightarrow> select_one q w = (Inr r, w)"
  by (simp add: select_one_def)

text \<open>Every exception class of the domain modules has exactly one module that describes it.\<close>

lemma error_modules_disjoint:
  "length (filter (\<lambda>d. d e \<noteq> None)
     [core_error, metering_error, sandbox_error, storage_error, platform_error, identity_error]) \<le> 1"
  by (cases e) auto

end
