(* ===== verification/Leader_Election.thy ===== *)
theory Leader_Election
  imports Data_Model
begin

text \<open>
  \<^verbatim>\<open>infra/services/leader_election.py\<close>: the election of the replica that runs the background tasks, by a Kubernetes
  Lease.

  The API server is the parameter \<open>api\<close>: it answers a request in its state \<open>'s\<close> with a transport failure or with a
  response, and moves to a new state. \<open>K8sLeaseStore\<close> turns a response into a result. \<open>LeaderElector\<close> reads the
  lease, decides what to write, writes it, and reads the outcome: \<open>decide\<close> and \<open>conclude\<close> are the two pieces of
  program text between its awaits, so that the sequential \<open>try_acquire_or_renew\<close> and the interleaved steps of
  \<open>Supervisor\<close> are built from the same definitions.

  The flag \<^verbatim>\<open>_is_leader\<close> is only read to log a change and is left out. A time in a lease is the instant, in microseconds, that \<open>format_lease_time\<close> prints with microseconds and
  \<open>parse_lease_time\<close> reads back.
\<close>

subsection \<open>The Lease API\<close>

record lease =
  le_name :: string
  le_namespace :: string
  le_resource_version :: string
  le_holder_identity :: "string option"
  le_duration_seconds :: "int option"
  le_acquire_time :: "time option"
  le_renew_time :: "time option"
  le_transitions :: "int option"

datatype lease_request =
    GetLease string string
  | CreateLease string lease
  | ReplaceLease string string lease

record lease_response =
  lr_status :: int
  lr_message :: "string option"
  lr_lease :: lease

datatype lease_exn = K8sLeaseConflictError string | K8sLeaseError string | TransportError string

type_synonym 's lease_api = "'s \<Rightarrow> lease_request \<Rightarrow> (string + lease_response) \<times> 's"

definition error_message :: "lease_response \<Rightarrow> string" where
  "error_message r = (if truthy (lr_message r) then the (lr_message r)
     else ''Kubernetes Lease API request failed with status '' @ show_int (lr_status r))"

definition get_lease_result :: "string + lease_response \<Rightarrow> lease_exn + lease option" where
  "get_lease_result r = (case r of
     Inl m \<Rightarrow> Inl (TransportError m)
   | Inr x \<Rightarrow> if lr_status x = 404 then Inr None
       else if 400 \<le> lr_status x then Inl (K8sLeaseError (error_message x))
       else Inr (Some (lr_lease x)))"

definition create_lease_result :: "string + lease_response \<Rightarrow> lease_exn + lease option" where
  "create_lease_result r = (case r of
     Inl m \<Rightarrow> Inl (TransportError m)
   | Inr x \<Rightarrow> if lr_status x = 409 then Inl (K8sLeaseConflictError (error_message x))
       else if 400 \<le> lr_status x then Inl (K8sLeaseError (error_message x))
       else Inr (Some (lr_lease x)))"

definition replace_lease_result :: "string + lease_response \<Rightarrow> lease_exn + lease option" where
  "replace_lease_result r = (case r of
     Inl m \<Rightarrow> Inl (TransportError m)
   | Inr x \<Rightarrow> if lr_status x = 404 then Inr None
       else if lr_status x = 409 then Inl (K8sLeaseConflictError (error_message x))
       else if 400 \<le> lr_status x then Inl (K8sLeaseError (error_message x))
       else Inr (Some (lr_lease x)))"

definition get_lease :: "'s lease_api \<Rightarrow> string \<Rightarrow> string \<Rightarrow> ('s, lease_exn, lease option) action" where
  "get_lease api ns name = (\<lambda>s. case api s (GetLease ns name) of (r, s') \<Rightarrow> (get_lease_result r, s'))"

definition create_lease :: "'s lease_api \<Rightarrow> string \<Rightarrow> lease \<Rightarrow> ('s, lease_exn, lease option) action" where
  "create_lease api ns manifest = (\<lambda>s. case api s (CreateLease ns manifest) of (r, s') \<Rightarrow> (create_lease_result r, s'))"

definition replace_lease :: "'s lease_api \<Rightarrow> string \<Rightarrow> string \<Rightarrow> lease \<Rightarrow> ('s, lease_exn, lease option) action" where
  "replace_lease api ns name manifest =
     (\<lambda>s. case api s (ReplaceLease ns name manifest) of (r, s') \<Rightarrow> (replace_lease_result r, s'))"

subsection \<open>The elector\<close>

datatype leadership_state = LEADER | FOLLOWER

record elector =
  el_namespace :: string
  el_lease_name :: string
  el_holder_identity :: string
  el_lease_duration_seconds :: int
  el_renew_interval_seconds :: int
  el_retry_interval_seconds :: int

definition new_elector :: "string \<Rightarrow> string \<Rightarrow> string \<Rightarrow> int \<Rightarrow> int \<Rightarrow> int \<Rightarrow> string + elector" where
  "new_elector ns name holder duration renew retry =
     (if duration \<le> renew then Inl ''renew_interval_seconds must be less than lease_duration_seconds''
      else if renew < retry then Inl ''retry_interval_seconds must be less than or equal to renew_interval_seconds''
      else Inr \<lparr>el_namespace = ns, el_lease_name = name, el_holder_identity = holder,
        el_lease_duration_seconds = duration, el_renew_interval_seconds = renew, el_retry_interval_seconds = retry\<rparr>)"

definition holder_of :: "lease \<Rightarrow> string" where
  "holder_of l = (case le_holder_identity l of None \<Rightarrow> '''' | Some h \<Rightarrow> h)"

definition transitions_of :: "lease \<Rightarrow> int" where
  "transitions_of l = (case le_transitions l of None \<Rightarrow> 0 | Some n \<Rightarrow> n)"

definition build_manifest :: "elector \<Rightarrow> time \<Rightarrow> string \<Rightarrow> string \<Rightarrow> time option \<Rightarrow> int \<Rightarrow> lease" where
  "build_manifest e now resource_version holder acquire_time transitions =
     \<lparr>le_name = el_lease_name e, le_namespace = el_namespace e, le_resource_version = resource_version,
      le_holder_identity = Some holder, le_duration_seconds = Some (el_lease_duration_seconds e),
      le_acquire_time = acquire_time, le_renew_time = Some now, le_transitions = Some transitions\<rparr>"

definition lease_is_expired :: "elector \<Rightarrow> lease \<Rightarrow> time \<Rightarrow> bool" where
  "lease_is_expired e l now =
     (case (case le_renew_time l of Some t \<Rightarrow> Some t | None \<Rightarrow> le_acquire_time l) of
        None \<Rightarrow> True
      | Some effective \<Rightarrow>
          seconds (case le_duration_seconds l of Some d \<Rightarrow> d | None \<Rightarrow> el_lease_duration_seconds e) \<le> now - effective)"

text \<open>What an attempt does after it has read the lease: nothing, or one write. The three writes are the manifests of
  \<^verbatim>\<open>_create_new_lease\<close>, \<^verbatim>\<open>_renew_lease\<close> and \<^verbatim>\<open>_take_over_lease\<close>.\<close>

datatype attempt = Follow | CreateNew lease | Renew lease | TakeOver lease

definition create_new_manifest :: "elector \<Rightarrow> time \<Rightarrow> lease" where
  "create_new_manifest e now = build_manifest e now '''' (el_holder_identity e) (Some now) 0"

definition renew_manifest :: "elector \<Rightarrow> lease \<Rightarrow> time \<Rightarrow> lease" where
  "renew_manifest e l now = build_manifest e now (le_resource_version l) (el_holder_identity e)
     (case le_acquire_time l of Some t \<Rightarrow> Some t | None \<Rightarrow> Some now) (transitions_of l)"

definition take_over_manifest :: "elector \<Rightarrow> lease \<Rightarrow> time \<Rightarrow> lease" where
  "take_over_manifest e l now = build_manifest e now (le_resource_version l) (el_holder_identity e)
     (Some now) (transitions_of l + 1)"

definition decide :: "elector \<Rightarrow> time \<Rightarrow> lease option \<Rightarrow> attempt" where
  "decide e now found = (case found of
     None \<Rightarrow> CreateNew (create_new_manifest e now)
   | Some l \<Rightarrow>
       if holder_of l = el_holder_identity e then Renew (renew_manifest e l now)
       else if holder_of l = '''' then TakeOver (take_over_manifest e l now)
       else if lease_is_expired e l now then TakeOver (take_over_manifest e l now)
       else Follow)"

text \<open>The outcome of the write: a conflict, or a lease that is gone, makes the replica a follower; every other
  exception leaves the attempt.\<close>

definition conclude :: "lease_exn + lease option \<Rightarrow> lease_exn + leadership_state" where
  "conclude r = (case r of
     Inl (K8sLeaseConflictError m) \<Rightarrow> Inr FOLLOWER
   | Inl x \<Rightarrow> Inl x
   | Inr None \<Rightarrow> Inr FOLLOWER
   | Inr (Some l) \<Rightarrow> Inr LEADER)"

definition attempt_write :: "'s lease_api \<Rightarrow> elector \<Rightarrow> attempt \<Rightarrow> ('s, lease_exn, leadership_state) action" where
  "attempt_write api e a = (case a of
     Follow \<Rightarrow> ret FOLLOWER
   | CreateNew m \<Rightarrow> (\<lambda>s. case create_lease api (el_namespace e) m s of (r, s') \<Rightarrow> (conclude r, s'))
   | Renew m \<Rightarrow> (\<lambda>s. case replace_lease api (el_namespace e) (el_lease_name e) m s of (r, s') \<Rightarrow> (conclude r, s'))
   | TakeOver m \<Rightarrow> (\<lambda>s. case replace_lease api (el_namespace e) (el_lease_name e) m s of (r, s') \<Rightarrow> (conclude r, s')))"

definition try_acquire_or_renew :: "'s lease_api \<Rightarrow> elector \<Rightarrow> time \<Rightarrow> ('s, lease_exn, leadership_state) action" where
  "try_acquire_or_renew api e now =
     ebind (get_lease api (el_namespace e) (el_lease_name e)) (\<lambda>found. attempt_write api e (decide e now found))"

definition release_manifest :: "elector \<Rightarrow> lease \<Rightarrow> time \<Rightarrow> lease" where
  "release_manifest e l now = build_manifest e now (le_resource_version l) '''' (le_acquire_time l) (transitions_of l)"

text \<open>The two lease errors of the write are logged; a transport failure leaves the operation.\<close>

definition release_write :: "'s lease_api \<Rightarrow> elector \<Rightarrow> lease \<Rightarrow> ('s, lease_exn, unit) action" where
  "release_write api e m = try_catch (ebind (replace_lease api (el_namespace e) (el_lease_name e) m) (\<lambda>_. ret ()))
     (\<lambda>x. case x of TransportError t \<Rightarrow> raise x | _ \<Rightarrow> ret ())"

definition release_if_held :: "'s lease_api \<Rightarrow> elector \<Rightarrow> time \<Rightarrow> ('s, lease_exn, unit) action" where
  "release_if_held api e now =
     ebind (get_lease api (el_namespace e) (el_lease_name e)) (\<lambda>found. case found of
       None \<Rightarrow> ret ()
     | Some l \<Rightarrow> if holder_of l \<noteq> el_holder_identity e then ret () else release_write api e (release_manifest e l now))"

end
