(* ===== verification/Sync_Supervisor.thy ===== *)
theory Sync_Supervisor
  imports Leader_Election
begin

text \<open>
  \<^verbatim>\<open>LeaderControlledSyncSupervisor\<close> of \<^verbatim>\<open>infra/services/sync_supervisor.py\<close>, and the group of all replicas as a step
  relation.

  A replica is its supervisor, the await at which its \<^verbatim>\<open>run\<close> is (\<open>phase\<close>) and the await at which its \<^verbatim>\<open>shutdown\<close> is,
  which the application calls while \<^verbatim>\<open>run\<close> is still going (\<open>closing\<close>). The steps of the replicas, and of the two
  coroutines of one replica, interleave at the awaits: between the read of the lease and the write another
  replica may write, the server may fail before or after it applied a write, a replica may be cancelled or
  killed, a task may end or fail. The server is the parameter \<open>api\<close>; what the program relies on is
  \<open>optimistic_server\<close>: a read shows the stored lease, a replacement with a resource version is only applied when
  it is the stored one, and every applied write gets a version never used before. \<open>E i\<close> is the elector of
  replica \<open>i\<close>, \<open>skew i\<close> is how far its clock is from the time of the group.
\<close>

subsection \<open>The supervisor\<close>

datatype task = Alive | Over | Failed

record supervisor =
  sv_session_factory :: bool
  sv_stopping :: bool
  sv_shutdown_complete :: bool
  sv_sync_task :: "task option"
  sv_metering_task :: "task option"
  sv_lifecycle_task :: "task option"
  sv_snapshot_task :: "task option"

definition new_supervisor :: "bool \<Rightarrow> supervisor" where
  "new_supervisor sf = \<lparr>sv_session_factory = sf, sv_stopping = False, sv_shutdown_complete = False, sv_sync_task = None,
     sv_metering_task = None, sv_lifecycle_task = None, sv_snapshot_task = None\<rparr>"

definition reap_task :: "task option \<Rightarrow> task option" where
  "reap_task t = (case t of Some Alive \<Rightarrow> Some Alive | _ \<Rightarrow> None)"

definition reap_tasks :: "supervisor \<Rightarrow> supervisor" where
  "reap_tasks v = v\<lparr>sv_sync_task := reap_task (sv_sync_task v), sv_metering_task := reap_task (sv_metering_task v),
     sv_lifecycle_task := reap_task (sv_lifecycle_task v), sv_snapshot_task := reap_task (sv_snapshot_task v)\<rparr>"

definition start_task :: "task option \<Rightarrow> task option" where
  "start_task t = (case t of None \<Rightarrow> Some Alive | Some x \<Rightarrow> Some x)"

definition start_tasks :: "supervisor \<Rightarrow> supervisor" where
  "start_tasks v =
     (let v' = v\<lparr>sv_sync_task := start_task (sv_sync_task v)\<rparr>
      in if sv_session_factory v
         then v'\<lparr>sv_metering_task := start_task (sv_metering_task v),
                sv_lifecycle_task := start_task (sv_lifecycle_task v), sv_snapshot_task := start_task (sv_snapshot_task v)\<rparr>
         else v')"

text \<open>\<^verbatim>\<open>_stop_task\<close> awaits the task and only suppresses \<^verbatim>\<open>CancelledError\<close>: the exception of a failed task is raised again, and
  the tasks after it are not stopped. The flag says whether that happened.\<close>

definition stop_all_tasks :: "supervisor \<Rightarrow> bool \<times> supervisor" where
  "stop_all_tasks v =
     (if sv_sync_task v = Some Failed then (True, v)
      else let v = v\<lparr>sv_sync_task := None\<rparr>
      in if sv_metering_task v = Some Failed then (True, v)
      else let v = v\<lparr>sv_metering_task := None\<rparr>
      in if sv_lifecycle_task v = Some Failed then (True, v)
      else let v = v\<lparr>sv_lifecycle_task := None\<rparr>
      in if sv_snapshot_task v = Some Failed then (True, v)
      else (False, v\<lparr>sv_snapshot_task := None\<rparr>))"

definition tasks_alive :: "supervisor \<Rightarrow> bool" where
  "tasks_alive v \<longleftrightarrow> Some Alive \<in> {sv_sync_task v, sv_metering_task v, sv_lifecycle_task v, sv_snapshot_task v}"

subsection \<open>The group of replicas\<close>

text \<open>The awaits of \<^verbatim>\<open>run\<close>: asleep; waiting for the read of an attempt begun at a time, or for its write; cancelling the
  tasks. The awaits of \<^verbatim>\<open>shutdown\<close>: cancelling the tasks, the read and the write of the release.\<close>

datatype phase = Asleep | Reading time | Writing time attempt | Halting | Ended

datatype closing = Open | Stopping | ReleaseReading | ReleaseWriting lease | Complete

record replica =
  rp_phase :: phase
  rp_closing :: closing
  rp_supervisor :: supervisor
  rp_granted :: time

record 's group =
  gr_clock :: time
  gr_server :: 's
  gr_replica :: "nat \<Rightarrow> replica"

definition set_replica :: "nat \<Rightarrow> (replica \<Rightarrow> replica) \<Rightarrow> 's group \<Rightarrow> 's group" where
  "set_replica i f g = g\<lparr>gr_replica := (gr_replica g)(i := f (gr_replica g i))\<rparr>"

text \<open>After the attempt: an exception and a follower stop all tasks, a leader starts those that are not there.
  \<open>rp_granted\<close> keeps the time of the last attempt that made the replica leader.\<close>

definition on_attempt :: "time \<Rightarrow> lease_exn + leadership_state \<Rightarrow> replica \<Rightarrow> replica" where
  "on_attempt now r p = (case r of
     Inr LEADER \<Rightarrow> p\<lparr>rp_phase := Asleep, rp_supervisor := start_tasks (rp_supervisor p), rp_granted := now\<rparr>
   | _ \<Rightarrow> p\<lparr>rp_phase := Halting\<rparr>)"

definition on_read :: "elector \<Rightarrow> time \<Rightarrow> lease_exn + lease option \<Rightarrow> replica \<Rightarrow> replica" where
  "on_read e now r p = (case r of
     Inl x \<Rightarrow> p\<lparr>rp_phase := Halting\<rparr>
   | Inr found \<Rightarrow> (case decide e now found of
       Follow \<Rightarrow> p\<lparr>rp_phase := Halting\<rparr>
     | a \<Rightarrow> p\<lparr>rp_phase := Writing now a\<rparr>))"

text \<open>Cancelling the tasks in \<^verbatim>\<open>run\<close>; an exception leaves the loop and \<^verbatim>\<open>shutdown\<close>, called in \<^verbatim>\<open>finally\<close>, raises it again.\<close>

definition on_halt :: "replica \<Rightarrow> replica" where
  "on_halt p = (case stop_all_tasks (rp_supervisor p) of
     (False, v) \<Rightarrow> p\<lparr>rp_phase := Asleep, rp_supervisor := v\<rparr>
   | (True, v) \<Rightarrow> p\<lparr>rp_phase := Ended, rp_supervisor := v\<lparr>sv_stopping := True\<rparr>\<rparr>)"

definition begin_shutdown :: "replica \<Rightarrow> replica" where
  "begin_shutdown p = (if rp_closing p = Open
     then p\<lparr>rp_closing := Stopping, rp_supervisor := (rp_supervisor p)\<lparr>sv_stopping := True\<rparr>\<rparr> else p)"

definition on_shutdown :: "replica \<Rightarrow> replica" where
  "on_shutdown p = (case stop_all_tasks (rp_supervisor p) of
     (False, v) \<Rightarrow> p\<lparr>rp_closing := ReleaseReading, rp_supervisor := v\<rparr>
   | (True, v) \<Rightarrow> p\<lparr>rp_closing := Open, rp_supervisor := v\<rparr>)"

definition finish_shutdown :: "replica \<Rightarrow> replica" where
  "finish_shutdown p = p\<lparr>rp_closing := Complete, rp_supervisor := (rp_supervisor p)\<lparr>sv_shutdown_complete := True\<rparr>\<rparr>"

definition on_release_read :: "elector \<Rightarrow> time \<Rightarrow> lease_exn + lease option \<Rightarrow> replica \<Rightarrow> replica" where
  "on_release_read e now r p = (case r of
     Inr (Some l) \<Rightarrow> (if holder_of l = el_holder_identity e
       then p\<lparr>rp_closing := ReleaseWriting (release_manifest e l now)\<rparr> else finish_shutdown p)
   | _ \<Rightarrow> finish_shutdown p)"

definition end_task :: "task \<Rightarrow> task option \<Rightarrow> task option" where
  "end_task x t = (if t = Some Alive then Some x else t)"

definition end_tasks :: "task \<Rightarrow> task \<Rightarrow> task \<Rightarrow> task \<Rightarrow> replica \<Rightarrow> replica" where
  "end_tasks a b c d p = (let v = rp_supervisor p in p\<lparr>rp_supervisor := v\<lparr>
     sv_sync_task := end_task a (sv_sync_task v), sv_metering_task := end_task b (sv_metering_task v),
     sv_lifecycle_task := end_task c (sv_lifecycle_task v), sv_snapshot_task := end_task d (sv_snapshot_task v)\<rparr>\<rparr>)"

text \<open>The process is gone; a new one starts with a new supervisor.\<close>

definition crashed :: "replica \<Rightarrow> replica" where
  "crashed p = p\<lparr>rp_phase := Ended, rp_closing := Complete, rp_supervisor := new_supervisor (sv_session_factory (rp_supervisor p))\<rparr>"

definition restarted :: "replica \<Rightarrow> replica" where
  "restarted p = p\<lparr>rp_phase := Asleep, rp_closing := Open, rp_supervisor := new_supervisor (sv_session_factory (rp_supervisor p))\<rparr>"

inductive group_step :: "'s lease_api \<Rightarrow> (nat \<Rightarrow> elector) \<Rightarrow> (nat \<Rightarrow> int) \<Rightarrow> 's group \<Rightarrow> 's group \<Rightarrow> bool"
  for api :: "'s lease_api" and E :: "nat \<Rightarrow> elector" and skew :: "nat \<Rightarrow> int" where
  time_passes: "gr_clock g \<le> t \<Longrightarrow> group_step api E skew g (g\<lparr>gr_clock := t\<rparr>)"
| task_ends: "group_step api E skew g (set_replica i (end_tasks a b c d) g)"
| wake: "rp_phase (gr_replica g i) = Asleep \<Longrightarrow> \<not> sv_stopping (rp_supervisor (gr_replica g i)) \<Longrightarrow>
     group_step api E skew g (set_replica i (\<lambda>p. p\<lparr>rp_phase := Reading (gr_clock g + skew i),
       rp_supervisor := reap_tasks (rp_supervisor p)\<rparr>) g)"
| read: "rp_phase (gr_replica g i) = Reading now \<Longrightarrow>
     get_lease api (el_namespace (E i)) (el_lease_name (E i)) (gr_server g) = (r, s) \<Longrightarrow>
     group_step api E skew g ((set_replica i (on_read (E i) now r) g)\<lparr>gr_server := s\<rparr>)"
| put: "rp_phase (gr_replica g i) = Writing now a \<Longrightarrow> attempt_write api (E i) a (gr_server g) = (r, s) \<Longrightarrow>
     group_step api E skew g ((set_replica i (on_attempt now r) g)\<lparr>gr_server := s\<rparr>)"
| halt: "rp_phase (gr_replica g i) = Halting \<Longrightarrow> group_step api E skew g (set_replica i on_halt g)"
| leave: "rp_phase (gr_replica g i) = Asleep \<Longrightarrow> sv_stopping (rp_supervisor (gr_replica g i)) \<Longrightarrow>
     group_step api E skew g (set_replica i (\<lambda>p. (begin_shutdown p)\<lparr>rp_phase := Ended\<rparr>) g)"
| cancel: "group_step api E skew g (set_replica i (\<lambda>p. (begin_shutdown p)\<lparr>rp_phase := Ended\<rparr>) g)"
| cancel_write: "rp_phase (gr_replica g i) = Writing now a \<Longrightarrow> attempt_write api (E i) a (gr_server g) = (r, s) \<Longrightarrow>
     group_step api E skew g ((set_replica i (\<lambda>p. (begin_shutdown p)\<lparr>rp_phase := Ended\<rparr>) g)\<lparr>gr_server := s\<rparr>)"
| call_shutdown: "group_step api E skew g (set_replica i begin_shutdown g)"
| shut_down: "rp_closing (gr_replica g i) = Stopping \<Longrightarrow> group_step api E skew g (set_replica i on_shutdown g)"
| release_read: "rp_closing (gr_replica g i) = ReleaseReading \<Longrightarrow>
     get_lease api (el_namespace (E i)) (el_lease_name (E i)) (gr_server g) = (r, s) \<Longrightarrow>
     group_step api E skew g ((set_replica i (on_release_read (E i) (gr_clock g + skew i) r) g)\<lparr>gr_server := s\<rparr>)"
| release_write: "rp_closing (gr_replica g i) = ReleaseWriting m \<Longrightarrow>
     Leader_Election.release_write api (E i) m (gr_server g) = (r, s) \<Longrightarrow>
     group_step api E skew g ((set_replica i finish_shutdown g)\<lparr>gr_server := s\<rparr>)"
| crash: "group_step api E skew g (set_replica i crashed g)"
| restart: "rp_phase (gr_replica g i) = Ended \<Longrightarrow> group_step api E skew g (set_replica i restarted g)"

definition idle_replica :: "bool \<Rightarrow> replica" where
  "idle_replica sf = \<lparr>rp_phase = Asleep, rp_closing = Open, rp_supervisor = new_supervisor sf, rp_granted = 0\<rparr>"

subsection \<open>What the program relies on\<close>

definition written :: "('s \<Rightarrow> lease option) \<Rightarrow> ('s \<Rightarrow> string set) \<Rightarrow> lease \<Rightarrow> 's \<Rightarrow> 's \<Rightarrow> bool" where
  "written view used m s s' \<longleftrightarrow> (\<exists>v. v \<notin> used s \<and> v \<noteq> '''' \<and> insert v (used s) \<subseteq> used s' \<and>
     view s' = Some (m\<lparr>le_resource_version := v\<rparr>))"

definition refused :: "('s \<Rightarrow> lease option) \<Rightarrow> ('s \<Rightarrow> string set) \<Rightarrow> string + lease_response \<Rightarrow> 's \<Rightarrow> 's \<Rightarrow> bool" where
  "refused view used r s s' \<longleftrightarrow> view s' = view s \<and> used s' = used s \<and> (\<forall>x. r = Inr x \<longrightarrow> 400 \<le> lr_status x)"

definition optimistic_server :: "'s lease_api \<Rightarrow> string \<Rightarrow> string \<Rightarrow> ('s \<Rightarrow> lease option) \<Rightarrow> ('s \<Rightarrow> string set) \<Rightarrow> bool" where
  "optimistic_server api ns name view used \<longleftrightarrow>
     (\<forall>s l. view s = Some l \<longrightarrow> le_resource_version l \<in> used s \<and> le_resource_version l \<noteq> '''') \<and>
     (\<forall>s r s'. api s (GetLease ns name) = (r, s') \<longrightarrow> view s' = view s \<and> used s' = used s \<and>
        (\<forall>x. r = Inr x \<longrightarrow> (lr_status x = 404 \<longrightarrow> view s = None) \<and> (lr_status x < 400 \<longrightarrow> view s = Some (lr_lease x)))) \<and>
     (\<forall>s m r s'. api s (CreateLease ns m) = (r, s') \<longrightarrow>
        refused view used r s s' \<or> view s = None \<and> written view used m s s') \<and>
     (\<forall>s m r s'. api s (ReplaceLease ns name m) = (r, s') \<longrightarrow>
        refused view used r s s' \<or>
        (\<exists>l. view s = Some l \<and> le_resource_version m \<in> {'''', le_resource_version l}) \<and> written view used m s s')"

definition group_config :: "(nat \<Rightarrow> elector) \<Rightarrow> string \<Rightarrow> string \<Rightarrow> bool" where
  "group_config E ns name \<longleftrightarrow> inj (\<lambda>i. el_holder_identity (E i)) \<and>
     (\<forall>i. el_holder_identity (E i) \<noteq> '''' \<and> el_namespace (E i) = ns \<and> el_lease_name (E i) = name)"

definition clocks_within :: "int \<Rightarrow> (nat \<Rightarrow> int) \<Rightarrow> bool" where
  "clocks_within eps skew \<longleftrightarrow> (\<forall>i j. \<bar>skew i - skew j\<bar> \<le> eps)"

text \<open>A replica is in its term while its tasks run, it is not shutting down, and its clock, with a margin for the skew, is
  before the end of the lease it was granted.\<close>

definition runs_within_lease :: "(nat \<Rightarrow> elector) \<Rightarrow> (nat \<Rightarrow> int) \<Rightarrow> int \<Rightarrow> 's group \<Rightarrow> nat \<Rightarrow> bool" where
  "runs_within_lease E skew eps g i \<longleftrightarrow> tasks_alive (rp_supervisor (gr_replica g i)) \<and>
     gr_clock g + skew i + eps < rp_granted (gr_replica g i) + seconds (el_lease_duration_seconds (E i))"

definition in_term :: "(nat \<Rightarrow> elector) \<Rightarrow> (nat \<Rightarrow> int) \<Rightarrow> int \<Rightarrow> 's group \<Rightarrow> nat \<Rightarrow> bool" where
  "in_term E skew eps g i \<longleftrightarrow> runs_within_lease E skew eps g i \<and> \<not> sv_stopping (rp_supervisor (gr_replica g i))"

end
