(* ===== verification/Leader_Safety.thy ===== *)
theory Leader_Safety
  imports Sync_Supervisor
begin

text \<open>
  At most one replica is in its term: by an invariant of the group that every step keeps, whatever the order of the
  steps and whatever the server answers. A replica in its term still holds the stored lease; a write that is under
  way carries the version it has read, so that it is only applied to the lease it was decided on.
\<close>

definition may_write :: "elector \<Rightarrow> time \<Rightarrow> lease \<Rightarrow> bool" where
  "may_write e now l \<longleftrightarrow> holder_of l = el_holder_identity e \<or> holder_of l = '''' \<or> lease_is_expired e l now"

definition own_manifest :: "elector \<Rightarrow> time \<Rightarrow> lease \<Rightarrow> bool" where
  "own_manifest e now m \<longleftrightarrow> le_holder_identity m = Some (el_holder_identity e) \<and> le_renew_time m = Some now \<and>
     le_duration_seconds m = Some (el_lease_duration_seconds e)"

text \<open>A replacement under way: its version was read, and the lease with that version may be written.\<close>

definition guarded :: "('s \<Rightarrow> lease option) \<Rightarrow> ('s \<Rightarrow> string set) \<Rightarrow> 's \<Rightarrow> lease \<Rightarrow> (lease \<Rightarrow> bool) \<Rightarrow> bool" where
  "guarded view used s m P \<longleftrightarrow> le_resource_version m \<in> used s \<and> le_resource_version m \<noteq> '''' \<and>
     (\<forall>l. view s = Some l \<longrightarrow> le_resource_version l = le_resource_version m \<longrightarrow> P l)"

definition attempt_ok :: "('s \<Rightarrow> lease option) \<Rightarrow> ('s \<Rightarrow> string set) \<Rightarrow> 's \<Rightarrow> elector \<Rightarrow> time \<Rightarrow> attempt \<Rightarrow> bool" where
  "attempt_ok view used s e now a = (case a of
     Follow \<Rightarrow> True
   | CreateNew m \<Rightarrow> own_manifest e now m
   | Renew m \<Rightarrow> own_manifest e now m \<and> guarded view used s m (may_write e now)
   | TakeOver m \<Rightarrow> own_manifest e now m \<and> guarded view used s m (may_write e now))"

definition holds_lease :: "elector \<Rightarrow> time \<Rightarrow> lease option \<Rightarrow> bool" where
  "holds_lease e granted found \<longleftrightarrow> (\<exists>l t. found = Some l \<and> holder_of l = el_holder_identity e \<and>
     le_renew_time l = Some t \<and> granted \<le> t \<and> le_duration_seconds l = Some (el_lease_duration_seconds e))"

definition phase_ok :: "('s \<Rightarrow> lease option) \<Rightarrow> ('s \<Rightarrow> string set) \<Rightarrow> 's \<Rightarrow> elector \<Rightarrow> time \<Rightarrow> time \<Rightarrow> phase \<Rightarrow> bool" where
  "phase_ok view used s e clock granted ph = (case ph of
     Reading now \<Rightarrow> granted \<le> now \<and> now \<le> clock
   | Writing now a \<Rightarrow> granted \<le> now \<and> now \<le> clock \<and> attempt_ok view used s e now a
   | _ \<Rightarrow> True)"

definition closing_ok :: "('s \<Rightarrow> lease option) \<Rightarrow> ('s \<Rightarrow> string set) \<Rightarrow> 's \<Rightarrow> elector \<Rightarrow> bool \<Rightarrow> closing \<Rightarrow> bool" where
  "closing_ok view used s e stopping c = (case c of
     Open \<Rightarrow> True
   | Stopping \<Rightarrow> stopping
   | ReleaseReading \<Rightarrow> stopping
   | ReleaseWriting m \<Rightarrow> stopping \<and> guarded view used s m (\<lambda>l. holder_of l = el_holder_identity e)
   | Complete \<Rightarrow> True)"

abbreviation on_duty :: "replica \<Rightarrow> bool" where
  "on_duty p \<equiv> tasks_alive (rp_supervisor p) \<and> \<not> sv_stopping (rp_supervisor p)"

text \<open>\<open>clock\<close> is what the replica's own clock shows.\<close>

definition replica_inv ::
    "('s \<Rightarrow> lease option) \<Rightarrow> ('s \<Rightarrow> string set) \<Rightarrow> int \<Rightarrow> 's \<Rightarrow> elector \<Rightarrow> time \<Rightarrow> replica \<Rightarrow> bool" where
  "replica_inv view used eps s e clock p \<longleftrightarrow>
     rp_granted p \<le> clock \<and>
     (on_duty p \<longrightarrow> clock + eps < rp_granted p + seconds (el_lease_duration_seconds e) \<longrightarrow>
        holds_lease e (rp_granted p) (view s)) \<and>
     phase_ok view used s e clock (rp_granted p) (rp_phase p) \<and>
     closing_ok view used s e (sv_stopping (rp_supervisor p)) (rp_closing p)"

lemma replica_inv_time: "replica_inv view used eps s e c p \<Longrightarrow> c \<le> c' \<Longrightarrow> replica_inv view used eps s e c' p"
  by (auto simp: replica_inv_def phase_ok_def split: phase.splits)

lemma replica_inv_frame:
  "view s' = view s \<Longrightarrow> used s' = used s \<Longrightarrow> replica_inv view used eps s' e c p = replica_inv view used eps s e c p"
  unfolding replica_inv_def phase_ok_def closing_ok_def attempt_ok_def guarded_def
  by (simp split: phase.split closing.split attempt.split)

lemma guarded_written: "guarded view used s m P \<Longrightarrow> written view used m' s s' \<Longrightarrow> guarded view used s' m P"
  by (auto simp: guarded_def written_def)

lemma phase_ok_written: "phase_ok view used s e c t ph \<Longrightarrow> written view used m s s' \<Longrightarrow> phase_ok view used s' e c t ph"
  unfolding phase_ok_def attempt_ok_def by (auto split: phase.splits attempt.splits elim: guarded_written)

lemma closing_ok_written: "closing_ok view used s e b cl \<Longrightarrow> written view used m s s' \<Longrightarrow> closing_ok view used s' e b cl"
  unfolding closing_ok_def by (auto split: closing.splits elim: guarded_written)

lemma not_expired:
  assumes "holds_lease e granted (Some l)" "lease_is_expired e' l now"
  shows "granted + seconds (el_lease_duration_seconds e) \<le> now"
  using assms by (auto simp: holds_lease_def lease_is_expired_def)

text \<open>The write of another replica does not take the lease from a replica in its term.\<close>

lemma replica_inv_other:
  assumes inv: "replica_inv view used eps s e c p" and wr: "written view used m s s'"
    and may: "\<And>l. view s = Some l \<Longrightarrow> may_write e' now l" and now: "now \<le> c + eps"
    and ids: "el_holder_identity e \<noteq> el_holder_identity e'" "el_holder_identity e \<noteq> ''''"
  shows "replica_inv view used eps s' e c p"
proof -
  have False if "holds_lease e (rp_granted p) (view s)" "c + eps < rp_granted p + seconds (el_lease_duration_seconds e)"
  proof -
    from that(1) obtain l where l: "view s = Some l" "holder_of l = el_holder_identity e" by (auto simp: holds_lease_def)
    with may ids have "lease_is_expired e' l now" by (auto simp: may_write_def)
    with that l(1) now show False using not_expired [of e "rp_granted p" l e' now] by simp
  qed
  then show ?thesis using inv phase_ok_written [OF _ wr] closing_ok_written [OF _ wr] by (auto simp: replica_inv_def)
qed

subsection \<open>The calls\<close>

lemma get_lease_effect:
  assumes "optimistic_server api ns name view used" "get_lease api ns name s = (r, s')"
  shows "view s' = view s \<and> used s' = used s \<and> (\<forall>found. r = Inr found \<longrightarrow> view s = found)"
proof -
  obtain x where api: "api s (GetLease ns name) = (x, s')" and r: "r = get_lease_result x"
    using assms(2) by (cases "api s (GetLease ns name)") (auto simp: get_lease_def)
  from assms(1) api have "view s' = view s" "used s' = used s"
    "\<And>y. x = Inr y \<Longrightarrow> (lr_status y = 404 \<longrightarrow> view s = None) \<and> (lr_status y < 400 \<longrightarrow> view s = Some (lr_lease y))"
    unfolding optimistic_server_def by blast+
  then show ?thesis by (auto simp: r get_lease_result_def split: sum.splits if_splits)
qed

text \<open>A write is applied, to no lease or to the lease it was decided on, or changes nothing and does not make a
  leader.\<close>

lemma replace_effect:
  assumes "optimistic_server api ns name view used" "replace_lease api ns name m s = (r, s')"
    "guarded view used s m P"
  shows "view s' = view s \<and> used s' = used s \<and> conclude r \<noteq> Inr LEADER \<or>
    written view used m s s' \<and> (\<forall>l. view s = Some l \<longrightarrow> P l)"
proof -
  obtain x where api: "api s (ReplaceLease ns name m) = (x, s')" and r: "r = replace_lease_result x"
    using assms(2) by (cases "api s (ReplaceLease ns name m)") (auto simp: replace_lease_def)
  from assms(1) api have "refused view used x s s' \<or>
      (\<exists>l. view s = Some l \<and> le_resource_version m \<in> {'''', le_resource_version l}) \<and> written view used m s s'"
    unfolding optimistic_server_def by blast
  then show ?thesis
    using assms(3) by (auto simp: refused_def guarded_def r replace_lease_result_def conclude_def split: sum.splits)
qed

lemma create_effect:
  assumes "optimistic_server api ns name view used" "create_lease api ns m s = (r, s')"
  shows "view s' = view s \<and> used s' = used s \<and> conclude r \<noteq> Inr LEADER \<or> written view used m s s' \<and> view s = None"
proof -
  obtain x where api: "api s (CreateLease ns m) = (x, s')" and r: "r = create_lease_result x"
    using assms(2) by (cases "api s (CreateLease ns m)") (auto simp: create_lease_def)
  from assms(1) api have "refused view used x s s' \<or> view s = None \<and> written view used m s s'"
    unfolding optimistic_server_def by blast
  then show ?thesis by (auto simp: refused_def r create_lease_result_def conclude_def split: sum.splits)
qed

lemma attempt_effect:
  assumes "optimistic_server api (el_namespace e) (el_lease_name e) view used" "attempt_write api e a s = (r, s')"
    "attempt_ok view used s e now a"
  shows "view s' = view s \<and> used s' = used s \<and> r \<noteq> Inr LEADER \<or>
    (\<exists>m. written view used m s s' \<and> own_manifest e now m \<and> (\<forall>l. view s = Some l \<longrightarrow> may_write e now l))"
proof (cases a)
  case (CreateNew m)
  with assms create_effect [OF assms(1), of m s] show ?thesis
    by (auto simp: attempt_write_def attempt_ok_def split: prod.splits)
next
  case (Renew m)
  with assms replace_effect [OF assms(1), of m s _ _ "may_write e now"] show ?thesis
    by (auto simp: attempt_write_def attempt_ok_def split: prod.splits)
next
  case (TakeOver m)
  with assms replace_effect [OF assms(1), of m s _ _ "may_write e now"] show ?thesis
    by (auto simp: attempt_write_def attempt_ok_def split: prod.splits)
qed (use assms in \<open>auto simp: attempt_write_def\<close>)

lemma release_effect:
  assumes "optimistic_server api (el_namespace e) (el_lease_name e) view used" "release_write api e m s = (r, s')"
    "guarded view used s m P"
  shows "view s' = view s \<and> used s' = used s \<or> written view used m s s' \<and> (\<forall>l. view s = Some l \<longrightarrow> P l)"
proof -
  obtain x t where run: "replace_lease api (el_namespace e) (el_lease_name e) m s = (x, t)" by fastforce
  then have "t = s'" using assms(2) by (cases x; simp add: release_write_def try_catch_def ebind_def split: lease_exn.splits)
  with replace_effect [OF assms(1) run assms(3)] show ?thesis by blast
qed

subsection \<open>The invariant\<close>

definition group_inv ::
    "('s \<Rightarrow> lease option) \<Rightarrow> ('s \<Rightarrow> string set) \<Rightarrow> (nat \<Rightarrow> elector) \<Rightarrow> (nat \<Rightarrow> int) \<Rightarrow> int \<Rightarrow> 's group \<Rightarrow> bool" where
  "group_inv view used E skew eps g \<longleftrightarrow>
     (\<forall>i. replica_inv view used eps (gr_server g) (E i) (gr_clock g + skew i) (gr_replica g i))"

lemma tasks_alive_simps [simp]:
  "tasks_alive (reap_tasks v) = tasks_alive v" "\<not> tasks_alive (new_supervisor sf)"
  "tasks_alive (v\<lparr>sv_stopping := b\<rparr>) = tasks_alive v" "tasks_alive (v\<lparr>sv_shutdown_complete := c\<rparr>) = tasks_alive v"
  by (auto simp: tasks_alive_def reap_tasks_def reap_task_def new_supervisor_def split: option.splits task.splits)

lemma stopping_simps [simp]:
  "sv_stopping (reap_tasks v) = sv_stopping v" "sv_stopping (start_tasks v) = sv_stopping v"
  by (simp_all add: reap_tasks_def start_tasks_def Let_def)

lemma stop_all_tasks_effect:
  assumes "stop_all_tasks v = (b, v')"
  shows "tasks_alive v' \<Longrightarrow> tasks_alive v" "sv_stopping v' = sv_stopping v"
  using assms by (auto simp: stop_all_tasks_def tasks_alive_def Let_def split: if_splits)

lemma end_task_alive: "(Some Alive = end_task x t) \<Longrightarrow> Some Alive = t"
  by (auto simp: end_task_def split: if_splits)

lemma end_tasks_effect:
  "tasks_alive (rp_supervisor (end_tasks a b c d p)) \<Longrightarrow> tasks_alive (rp_supervisor p)"
  "sv_stopping (rp_supervisor (end_tasks a b c d p)) = sv_stopping (rp_supervisor p)"
  "rp_granted (end_tasks a b c d p) = rp_granted p" "rp_phase (end_tasks a b c d p) = rp_phase p"
  "rp_closing (end_tasks a b c d p) = rp_closing p"
  by (auto simp: tasks_alive_def end_tasks_def Let_def dest: end_task_alive)

lemma begin_shutdown_fields [simp]:
  "rp_granted (begin_shutdown p) = rp_granted p" "rp_phase (begin_shutdown p) = rp_phase p"
  "tasks_alive (rp_supervisor (begin_shutdown p)) = tasks_alive (rp_supervisor p)"
  "sv_stopping (rp_supervisor (begin_shutdown p)) = (rp_closing p = Open \<or> sv_stopping (rp_supervisor p))"
  "rp_closing (begin_shutdown p) = (if rp_closing p = Open then Stopping else rp_closing p)"
  by (simp_all add: begin_shutdown_def)

lemma group_inv_local:
  assumes "group_inv view used E skew eps g"
    "replica_inv view used eps (gr_server g) (E i) (gr_clock g + skew i) (gr_replica g i) \<Longrightarrow>
     replica_inv view used eps (gr_server g) (E i) (gr_clock g + skew i) (f (gr_replica g i))"
  shows "group_inv view used E skew eps (set_replica i f g)"
  using assms by (auto simp: group_inv_def set_replica_def)

lemma group_inv_server:
  assumes inv: "group_inv view used E skew eps g" and config: "group_config E ns name" and clocks: "clocks_within eps skew"
    and effect: "view s = view (gr_server g) \<and> used s = used (gr_server g) \<or>
      (\<exists>m. written view used m (gr_server g) s \<and> (\<forall>l. view (gr_server g) = Some l \<longrightarrow> may_write (E i) now l))"
    and now: "now \<le> gr_clock g + skew i"
    and own: "replica_inv view used eps s (E i) (gr_clock g + skew i) (f (gr_replica g i))"
  shows "group_inv view used E skew eps ((set_replica i f g)\<lparr>gr_server := s\<rparr>)"
proof -
  have "replica_inv view used eps s (E j) (gr_clock g + skew j) (gr_replica g j)" if "j \<noteq> i" for j
  proof -
    have inv_j: "replica_inv view used eps (gr_server g) (E j) (gr_clock g + skew j) (gr_replica g j)"
      using inv by (simp add: group_inv_def)
    have ids: "el_holder_identity (E j) \<noteq> el_holder_identity (E i)" "el_holder_identity (E j) \<noteq> ''''"
      using config that by (auto simp: group_config_def dest: injD)
    have "\<bar>skew i - skew j\<bar> \<le> eps" using clocks unfolding clocks_within_def by blast
    then have "now \<le> gr_clock g + skew j + eps" using now by linarith
    from effect show ?thesis
    proof
      assume "view s = view (gr_server g) \<and> used s = used (gr_server g)"
      then show ?thesis using inv_j replica_inv_frame [of view s "gr_server g" used] by blast
    next
      assume "\<exists>m. written view used m (gr_server g) s \<and> (\<forall>l. view (gr_server g) = Some l \<longrightarrow> may_write (E i) now l)"
      then obtain m where "written view used m (gr_server g) s" "\<And>l. view (gr_server g) = Some l \<Longrightarrow> may_write (E i) now l"
        by blast
      from inv_j this \<open>now \<le> gr_clock g + skew j + eps\<close> ids show ?thesis by (rule replica_inv_other)
    qed
  qed
  with own show ?thesis by (simp add: group_inv_def set_replica_def)
qed

lemma decide_ok:
  assumes "optimistic_server api ns name view used" "view s = found"
  shows "attempt_ok view used s e now (decide e now found)"
  using assms unfolding optimistic_server_def
  by (auto simp: decide_def attempt_ok_def own_manifest_def guarded_def may_write_def create_new_manifest_def
      renew_manifest_def take_over_manifest_def build_manifest_def split: option.splits)

text \<open>What a replica keeps across its own steps: while it only moves between awaits, and when its write was applied.\<close>

lemma replica_inv_move:
  assumes "replica_inv view used eps s e c p" "rp_granted p' = rp_granted p" "on_duty p' \<Longrightarrow> on_duty p"
    "phase_ok view used s e c (rp_granted p) (rp_phase p')"
    "closing_ok view used s e (sv_stopping (rp_supervisor p')) (rp_closing p')"
  shows "replica_inv view used eps s e c p'"
  using assms by (auto simp: replica_inv_def)

lemma holds_lease_written:
  assumes "written view used m s s'" "own_manifest e now m" "granted \<le> now"
  shows "holds_lease e granted (view s')"
  using assms by (auto simp: written_def own_manifest_def holds_lease_def holder_of_def)

lemma replica_inv_applied:
  assumes "replica_inv view used eps s e c p" "rp_granted p' = rp_granted p" "rp_granted p \<le> now"
    "written view used m s s'" "own_manifest e now m"
    "phase_ok view used s' e c (rp_granted p) (rp_phase p')"
    "closing_ok view used s' e (sv_stopping (rp_supervisor p')) (rp_closing p')"
  shows "replica_inv view used eps s' e c p'"
  using assms holds_lease_written [OF assms(4,5)] by (auto simp: replica_inv_def)

lemma replica_inv_read:
  assumes server: "optimistic_server api (el_namespace e) (el_lease_name e) view used"
    and inv: "replica_inv view used eps s e c p" and ph: "rp_phase p = Reading now"
    and run: "get_lease api (el_namespace e) (el_lease_name e) s = (r, s')"
  shows "replica_inv view used eps s' e c (on_read e now r p)"
proof -
  have same: "view s' = view s" "used s' = used s" and found: "\<And>f. r = Inr f \<Longrightarrow> view s = f"
    using get_lease_effect [OF server run] by blast+
  have now: "rp_granted p \<le> now" "now \<le> c" using inv ph by (auto simp: replica_inv_def phase_ok_def)
  have go: "replica_inv view used eps s e c (p\<lparr>rp_phase := ph\<rparr>)" if "phase_ok view used s e c (rp_granted p) ph" for ph
    using inv by (rule replica_inv_move) (use that inv in \<open>simp_all add: replica_inv_def\<close>)
  have halt: "replica_inv view used eps s e c (p\<lparr>rp_phase := Halting\<rparr>)" by (rule go) (simp add: phase_ok_def)
  show ?thesis
  proof (cases r)
    case (Inr f)
    then have "attempt_ok view used s e now (decide e now f)" using decide_ok [OF server] found by blast
    then have "replica_inv view used eps s e c (p\<lparr>rp_phase := Writing now (decide e now f)\<rparr>)"
      using now by (intro go) (simp add: phase_ok_def)
    with Inr halt show ?thesis
      unfolding replica_inv_frame [OF same] by (auto simp: on_read_def split: attempt.split)
  qed (use halt in \<open>simp add: replica_inv_frame [OF same] on_read_def\<close>)
qed

lemma replica_inv_finish: "replica_inv view used eps s e c p \<Longrightarrow> replica_inv view used eps s e c (finish_shutdown p)"
  by (auto simp: finish_shutdown_def replica_inv_def closing_ok_def)

lemma replica_inv_release_read:
  assumes server: "optimistic_server api (el_namespace e) (el_lease_name e) view used"
    and inv: "replica_inv view used eps s e c p" and ph: "rp_closing p = ReleaseReading"
    and run: "get_lease api (el_namespace e) (el_lease_name e) s = (r, s')"
  shows "replica_inv view used eps s' e c (on_release_read e now r p)"
proof -
  have same: "view s' = view s" "used s' = used s" and found: "\<And>f. r = Inr f \<Longrightarrow> view s = f"
    using get_lease_effect [OF server run] by blast+
  have version: "le_resource_version l \<in> used s \<and> le_resource_version l \<noteq> ''''" if "view s = Some l" for l
    using server that unfolding optimistic_server_def by blast
  have "replica_inv view used eps s e c (p\<lparr>rp_closing := ReleaseWriting (release_manifest e l now)\<rparr>)"
    if "view s = Some l" "holder_of l = el_holder_identity e" for l
    using inv by (rule replica_inv_move)
      (use inv ph that version in \<open>auto simp: replica_inv_def closing_ok_def guarded_def release_manifest_def build_manifest_def\<close>)
  then show ?thesis
    unfolding replica_inv_frame [OF same] using found replica_inv_finish [OF inv]
    by (auto simp: on_release_read_def split: sum.split option.split)
qed

lemma replica_inv_release_write:
  assumes server: "optimistic_server api (el_namespace e) (el_lease_name e) view used"
    and inv: "replica_inv view used eps s e c p" and ph: "rp_closing p = ReleaseWriting m"
    and run: "release_write api e m s = (r, s')"
  shows "replica_inv view used eps s' e c (finish_shutdown p)"
    and "view s' = view s \<and> used s' = used s \<or> (\<exists>m. written view used m s s' \<and> (\<forall>l. view s = Some l \<longrightarrow> may_write e now l))"
proof -
  have stopping: "sv_stopping (rp_supervisor p)" and granted: "rp_granted p \<le> c"
    and phase: "phase_ok view used s e c (rp_granted p) (rp_phase p)"
    and guard: "guarded view used s m (\<lambda>l. holder_of l = el_holder_identity e)"
    using inv ph by (auto simp: replica_inv_def closing_ok_def)
  note effect = release_effect [OF server run guard]
  have "phase_ok view used s' e c (rp_granted p) (rp_phase p)"
    using effect
  proof
    assume "view s' = view s \<and> used s' = used s"
    then show ?thesis using phase
      by (simp add: phase_ok_def attempt_ok_def guarded_def split: phase.splits attempt.splits)
  qed (use phase in \<open>blast intro: phase_ok_written\<close>)
  then show "replica_inv view used eps s' e c (finish_shutdown p)"
    using stopping granted by (simp add: finish_shutdown_def replica_inv_def closing_ok_def)
  show "view s' = view s \<and> used s' = used s \<or> (\<exists>m. written view used m s s' \<and> (\<forall>l. view s = Some l \<longrightarrow> may_write e now l))"
    using effect by (auto simp: may_write_def)
qed

text \<open>The replica whose write is answered.\<close>

lemma replica_inv_write:
  assumes server: "optimistic_server api (el_namespace e) (el_lease_name e) view used"
    and inv: "replica_inv view used eps s e c p" and ph: "rp_phase p = Writing now a"
    and run: "attempt_write api e a s = (r, s')"
  shows "replica_inv view used eps s' e c (on_attempt now r p)"
    and "replica_inv view used eps s' e c ((begin_shutdown p)\<lparr>rp_phase := Ended\<rparr>)"
    and "view s' = view s \<and> used s' = used s \<or> (\<exists>m. written view used m s s' \<and> (\<forall>l. view s = Some l \<longrightarrow> may_write e now l))"
    and "now \<le> c"
proof -
  have now: "rp_granted p \<le> now" "now \<le> c" and ok: "attempt_ok view used s e now a"
    and closing: "closing_ok view used s e (sv_stopping (rp_supervisor p)) (rp_closing p)"
    using inv ph by (auto simp: replica_inv_def phase_ok_def)
  consider (same) "view s' = view s" "used s' = used s" "r \<noteq> Inr LEADER"
    | (applied) m where "written view used m s s'" "own_manifest e now m" "\<forall>l. view s = Some l \<longrightarrow> may_write e now l"
    using attempt_effect [OF server run ok] by blast
  note cases = this
  have closing': "closing_ok view used s' e (sv_stopping (rp_supervisor p)) (rp_closing p)"
    using cases
  proof cases
    case same
    with closing show ?thesis by (simp add: closing_ok_def guarded_def split: closing.splits)
  qed (rule closing_ok_written [OF closing])
  have move: "replica_inv view used eps s' e c p'"
    if "rp_granted p' = rp_granted p" "on_duty p' \<Longrightarrow> on_duty p" "rp_phase p' \<in> {Halting, Ended}"
      "closing_ok view used s' e (sv_stopping (rp_supervisor p')) (rp_closing p')" for p'
  proof -
    have phase: "phase_ok view used t e c (rp_granted p) (rp_phase p')" for t using that(3) by (auto simp: phase_ok_def)
    from cases show ?thesis
    proof cases
      case same
      have "closing_ok view used s e (sv_stopping (rp_supervisor p')) (rp_closing p')"
        using that(4) same(1,2) by (simp add: closing_ok_def guarded_def split: closing.splits)
      from replica_inv_move [OF inv that(1,2) phase this] show ?thesis using replica_inv_frame [OF same(1,2)] by blast
    next
      case (applied m)
      from replica_inv_applied [OF inv that(1) now(1) this(1,2) phase that(4)] show ?thesis .
    qed
  qed
  show "replica_inv view used eps s' e c (on_attempt now r p)"
  proof (cases "r = Inr LEADER")
    case True
    with cases obtain m where "written view used m s s'" "own_manifest e now m" by cases auto
    from holds_lease_written [OF this] True now closing' show ?thesis by (simp add: on_attempt_def replica_inv_def phase_ok_def)
  next
    case False
    then have "on_attempt now r p = p\<lparr>rp_phase := Halting\<rparr>"
      by (auto simp: on_attempt_def split: sum.split leadership_state.split)
    moreover have "replica_inv view used eps s' e c (p\<lparr>rp_phase := Halting\<rparr>)"
      by (rule move) (use closing' in simp_all)
    ultimately show ?thesis by simp
  qed
  show "replica_inv view used eps s' e c ((begin_shutdown p)\<lparr>rp_phase := Ended\<rparr>)"
    by (rule move) (use closing' in \<open>auto simp: closing_ok_def split: closing.splits\<close>)
  show "view s' = view s \<and> used s' = used s \<or> (\<exists>m. written view used m s s' \<and> (\<forall>l. view s = Some l \<longrightarrow> may_write e now l))"
    using cases by cases auto
  show "now \<le> c" by fact
qed

lemma replica_inv_halt: "replica_inv view used eps s e c p \<Longrightarrow> replica_inv view used eps s e c (on_halt p)"
  by (auto simp: on_halt_def replica_inv_def phase_ok_def closing_ok_def split: prod.split bool.split closing.splits
      dest: stop_all_tasks_effect)

lemma replica_inv_shutdown:
  "replica_inv view used eps s e c p \<Longrightarrow> rp_closing p = Stopping \<Longrightarrow> replica_inv view used eps s e c (on_shutdown p)"
  by (auto simp: on_shutdown_def replica_inv_def closing_ok_def split: prod.split bool.split dest: stop_all_tasks_effect)

lemma replica_inv_begin:
  "replica_inv view used eps s e c p \<Longrightarrow> replica_inv view used eps s e c (begin_shutdown p)"
  by (auto simp: replica_inv_def closing_ok_def split: closing.splits)

lemma replica_inv_end: "replica_inv view used eps s e c p \<Longrightarrow> replica_inv view used eps s e c (p\<lparr>rp_phase := Ended\<rparr>)"
  by (simp add: replica_inv_def phase_ok_def)

lemma replica_inv_new: "replica_inv view used eps s e c p \<Longrightarrow>
    replica_inv view used eps s e c (crashed p) \<and> replica_inv view used eps s e c (restarted p)"
  by (simp add: crashed_def restarted_def replica_inv_def phase_ok_def closing_ok_def)

lemma replica_inv_task_ends: "replica_inv view used eps s e c p \<Longrightarrow> replica_inv view used eps s e c (end_tasks a b x d p)"
  by (auto simp: replica_inv_def end_tasks_effect(2-) dest: end_tasks_effect(1))

lemma group_inv_step:
  assumes step: "group_step api E skew g g'" and inv: "group_inv view used E skew eps g"
    and server: "optimistic_server api ns name view used" and config: "group_config E ns name"
    and clocks: "clocks_within eps skew"
  shows "group_inv view used E skew eps g'"
proof -
  have server: "optimistic_server api (el_namespace (E i)) (el_lease_name (E i)) view used" for i
    using server config by (simp add: group_config_def)
  have here: "replica_inv view used eps (gr_server g) (E i) (gr_clock g + skew i) (gr_replica g i)" for i
    using inv by (simp add: group_inv_def)
  from step show ?thesis
  proof cases
    case (time_passes t)
    then show ?thesis using replica_inv_time [OF here, of _ "t + skew _"] by (simp add: group_inv_def)
  next
    case (wake i)
    then show ?thesis using here [of i]
      by (auto intro!: group_inv_local [OF inv] replica_inv_move [OF here] simp: phase_ok_def replica_inv_def)
  next
    case (read i now r s)
    have "view s = view (gr_server g) \<and> used s = used (gr_server g)" using get_lease_effect [OF server read(3)] by blast
    then show ?thesis unfolding read(1)
      by (intro group_inv_server [OF inv config clocks _ order_refl] disjI1 replica_inv_read [OF server here read(2,3)])
  next
    case (put i now a r s)
    note w = replica_inv_write [OF server here put(2,3)]
    show ?thesis unfolding put(1) by (rule group_inv_server [OF inv config clocks w(3,4)]) (rule w(1))
  next
    case (cancel_write i now a r s)
    note w = replica_inv_write [OF server here cancel_write(2,3)]
    show ?thesis unfolding cancel_write(1) by (rule group_inv_server [OF inv config clocks w(3,4)]) (rule w(2))
  next
    case (release_read i r s)
    have "view s = view (gr_server g) \<and> used s = used (gr_server g)" using get_lease_effect [OF server release_read(3)] by blast
    then show ?thesis unfolding release_read(1)
      by (intro group_inv_server [OF inv config clocks _ order_refl] disjI1 replica_inv_release_read [OF server here release_read(2,3)])
  next
    case (release_write i m r s)
    note w = replica_inv_release_write [OF server here release_write(2,3)]
    show ?thesis unfolding release_write(1)
      by (rule group_inv_server [OF inv config clocks w(2) [of "gr_clock g + skew i"] order_refl]) (rule w(1))
  qed (auto intro!: group_inv_local [OF inv] replica_inv_task_ends replica_inv_halt replica_inv_begin replica_inv_end
      replica_inv_shutdown simp: replica_inv_new)
qed

definition idle_group :: "(nat \<Rightarrow> int) \<Rightarrow> 's group \<Rightarrow> bool" where
  "idle_group skew g \<longleftrightarrow> (\<forall>i. rp_phase (gr_replica g i) = Asleep \<and> rp_closing (gr_replica g i) = Open \<and> \<not> tasks_alive (rp_supervisor (gr_replica g i)) \<and>
     rp_granted (gr_replica g i) \<le> gr_clock g + skew i)"

lemma group_inv_idle: "idle_group skew g \<Longrightarrow> group_inv view used E skew eps g"
  by (simp add: idle_group_def group_inv_def replica_inv_def phase_ok_def closing_ok_def)

lemma group_inv_reachable:
  assumes "(group_step api E skew)\<^sup>*\<^sup>* g g'" "idle_group skew g" "optimistic_server api ns name view used"
    "group_config E ns name" "clocks_within eps skew"
  shows "group_inv view used E skew eps g'"
  using assms(1)
  by (induction rule: rtranclp_induct) (use assms(2-) in \<open>auto intro: group_inv_idle group_inv_step\<close>)

lemma in_term_holder:
  assumes "group_inv view used E skew eps g" "in_term E skew eps g i"
  obtains l where "view (gr_server g) = Some l" "holder_of l = el_holder_identity (E i)"
  using assms unfolding group_inv_def in_term_def runs_within_lease_def replica_inv_def holds_lease_def by meson

text \<open>C2: at most one replica is in its term. From replicas that are all idle, in whatever order the replicas read and
  write the lease, fail, are cancelled, shut down, crash and restart, and whatever the server does within optimistic
  concurrency, including failing after it applied a write: two replicas that are not shutting down and whose background
  tasks run while their clocks are before the end of the lease they were granted, less the skew of the clocks, are the
  same.\<close>

theorem single_leader:
  assumes "(group_step api E skew)\<^sup>*\<^sup>* g g'" "idle_group skew g" "optimistic_server api ns name view used"
    "group_config E ns name" "clocks_within eps skew"
    and "in_term E skew eps g' i" "in_term E skew eps g' j"
  shows "i = j"
proof -
  have inv: "group_inv view used E skew eps g'" using assms(1-5) by (rule group_inv_reachable)
  obtain l where "view (gr_server g') = Some l" "holder_of l = el_holder_identity (E i)"
    using in_term_holder [OF inv assms(6)] .
  moreover obtain l' where "view (gr_server g') = Some l'" "holder_of l' = el_holder_identity (E j)"
    using in_term_holder [OF inv assms(7)] .
  ultimately show ?thesis using assms(4) by (auto simp: group_config_def dest: injD)
qed

subsection \<open>A server and a run\<close>

text \<open>An in-memory server with a counter as resource version.\<close>

type_synonym memory_server = "lease option \<times> nat"

definition version_at :: "nat \<Rightarrow> string" where
  "version_at n = replicate (Suc n) CHR 0x76"

definition memory_view :: "memory_server \<Rightarrow> lease option" where
  "memory_view s = map_option (\<lambda>l. l\<lparr>le_resource_version := version_at (snd s)\<rparr>) (fst s)"

definition memory_used :: "memory_server \<Rightarrow> string set" where
  "memory_used s = version_at ` {.. snd s}"

definition answer :: "int \<Rightarrow> lease \<Rightarrow> string + lease_response" where
  "answer status l = Inr \<lparr>lr_status = status, lr_message = None, lr_lease = l\<rparr>"

definition no_lease :: lease where
  "no_lease = \<lparr>le_name = '''', le_namespace = '''', le_resource_version = '''', le_holder_identity = None,
     le_duration_seconds = None, le_acquire_time = None, le_renew_time = None, le_transitions = None\<rparr>"

fun memory_api :: "memory_server lease_api" where
  "memory_api s (GetLease ns name) =
     ((case memory_view s of None \<Rightarrow> answer 404 no_lease | Some l \<Rightarrow> answer 200 l), s)"
| "memory_api s (CreateLease ns m) =
     (if fst s = None then (answer 201 m, (Some m, Suc (snd s))) else (answer 409 no_lease, s))"
| "memory_api s (ReplaceLease ns name m) = (case memory_view s of
     None \<Rightarrow> (answer 404 no_lease, s)
   | Some l \<Rightarrow> if le_resource_version m \<in> {'''', le_resource_version l} then (answer 200 m, (Some m, Suc (snd s)))
       else (answer 409 no_lease, s))"

lemma version_at_eq [simp]: "version_at m = version_at n \<longleftrightarrow> m = n" "version_at n \<noteq> ''''"
  by (auto simp: version_at_def dest: arg_cong [of _ _ length])

lemma memory_written: "written memory_view memory_used m (x, n) (Some m, Suc n)"
  unfolding written_def memory_view_def memory_used_def
  by (rule exI [of _ "version_at (Suc n)"]) (auto simp: image_iff atMost_Suc)

lemma memory_server_optimistic: "optimistic_server memory_api ns name memory_view memory_used"
  unfolding optimistic_server_def
  by (auto simp: refused_def answer_def memory_written memory_view_def memory_used_def split: option.splits if_splits)

text \<open>Running one replica to its next await.\<close>

definition wake_step :: "(nat \<Rightarrow> int) \<Rightarrow> nat \<Rightarrow> 's group \<Rightarrow> 's group" where
  "wake_step skew i g = (if rp_phase (gr_replica g i) = Asleep \<and> \<not> sv_stopping (rp_supervisor (gr_replica g i))
     then set_replica i (\<lambda>p. p\<lparr>rp_phase := Reading (gr_clock g + skew i), rp_supervisor := reap_tasks (rp_supervisor p)\<rparr>) g
     else g)"

definition read_step :: "'s lease_api \<Rightarrow> (nat \<Rightarrow> elector) \<Rightarrow> nat \<Rightarrow> 's group \<Rightarrow> 's group" where
  "read_step api E i g = (case rp_phase (gr_replica g i) of
     Reading now \<Rightarrow> (case get_lease api (el_namespace (E i)) (el_lease_name (E i)) (gr_server g) of
       (r, s) \<Rightarrow> (set_replica i (on_read (E i) now r) g)\<lparr>gr_server := s\<rparr>) | _ \<Rightarrow> g)"

definition write_step :: "'s lease_api \<Rightarrow> (nat \<Rightarrow> elector) \<Rightarrow> nat \<Rightarrow> 's group \<Rightarrow> 's group" where
  "write_step api E i g = (case rp_phase (gr_replica g i) of
     Writing now a \<Rightarrow> (case attempt_write api (E i) a (gr_server g) of
       (r, s) \<Rightarrow> (set_replica i (on_attempt now r) g)\<lparr>gr_server := s\<rparr>) | _ \<Rightarrow> g)"

definition shutdown_step :: "'s lease_api \<Rightarrow> (nat \<Rightarrow> elector) \<Rightarrow> (nat \<Rightarrow> int) \<Rightarrow> nat \<Rightarrow> 's group \<Rightarrow> 's group" where
  "shutdown_step api E skew i g = (case rp_closing (gr_replica g i) of
     Open \<Rightarrow> set_replica i begin_shutdown g
   | Stopping \<Rightarrow> set_replica i on_shutdown g
   | ReleaseReading \<Rightarrow> (case get_lease api (el_namespace (E i)) (el_lease_name (E i)) (gr_server g) of
       (r, s) \<Rightarrow> (set_replica i (on_release_read (E i) (gr_clock g + skew i) r) g)\<lparr>gr_server := s\<rparr>)
   | ReleaseWriting m \<Rightarrow> (case release_write api (E i) m (gr_server g) of
       (r, s) \<Rightarrow> (set_replica i finish_shutdown g)\<lparr>gr_server := s\<rparr>)
   | Complete \<Rightarrow> g)"

definition attempt_step :: "'s lease_api \<Rightarrow> (nat \<Rightarrow> elector) \<Rightarrow> (nat \<Rightarrow> int) \<Rightarrow> nat \<Rightarrow> 's group \<Rightarrow> 's group" where
  "attempt_step api E skew i g = write_step api E i (read_step api E i (wake_step skew i g))"

lemma scheduled_steps:
  "(group_step api E skew)\<^sup>*\<^sup>* g0 g \<Longrightarrow> (group_step api E skew)\<^sup>*\<^sup>* g0 (wake_step skew i g)"
  "(group_step api E skew)\<^sup>*\<^sup>* g0 g \<Longrightarrow> (group_step api E skew)\<^sup>*\<^sup>* g0 (read_step api E i g)"
  "(group_step api E skew)\<^sup>*\<^sup>* g0 g \<Longrightarrow> (group_step api E skew)\<^sup>*\<^sup>* g0 (write_step api E i g)"
  "(group_step api E skew)\<^sup>*\<^sup>* g0 g \<Longrightarrow> (group_step api E skew)\<^sup>*\<^sup>* g0 (shutdown_step api E skew i g)"
  "(group_step api E skew)\<^sup>*\<^sup>* g0 g \<Longrightarrow> gr_clock g \<le> t \<Longrightarrow> (group_step api E skew)\<^sup>*\<^sup>* g0 (g\<lparr>gr_clock := t\<rparr>)"
  unfolding wake_step_def read_step_def write_step_def shutdown_step_def
  by (auto split: phase.split closing.split prod.split intro: rtranclp.rtrancl_into_rtrancl group_step.intros)

lemma scheduled_attempt:
  "(group_step api E skew)\<^sup>*\<^sup>* g0 g \<Longrightarrow> (group_step api E skew)\<^sup>*\<^sup>* g0 (attempt_step api E skew i g)"
  unfolding attempt_step_def by (intro scheduled_steps)

definition demo_elector :: "nat \<Rightarrow> elector" where
  "demo_elector i = \<lparr>el_namespace = ''ns'', el_lease_name = ''sync'', el_holder_identity = version_at i,
     el_lease_duration_seconds = 15, el_renew_interval_seconds = 5, el_retry_interval_seconds = 2\<rparr>"

definition demo_group :: "memory_server group" where
  "demo_group = \<lparr>gr_clock = 0, gr_server = (None, 0), gr_replica = (\<lambda>_. idle_replica True)\<rparr>"

text \<open>Replica 0 becomes leader; replica 1 reads the lease before that and writes after it.\<close>

definition elected_group :: "memory_server group" where
  "elected_group = (let on = (\<lambda>i. write_step memory_api demo_elector i); rd = read_step memory_api demo_elector
     in on 1 (on 0 (rd 1 (rd 0 (wake_step (\<lambda>_. 0) 1 (wake_step (\<lambda>_. 0) 0 demo_group))))))"

lemma demo_hypotheses:
  "idle_group (\<lambda>_. 0) demo_group" "group_config demo_elector ''ns'' ''sync''" "clocks_within 0 (\<lambda>_. 0)"
  by (auto simp: idle_group_def demo_group_def idle_replica_def group_config_def demo_elector_def clocks_within_def inj_def)

lemma elected_group_reached: "(group_step memory_api demo_elector (\<lambda>_. 0))\<^sup>*\<^sup>* demo_group elected_group"
  unfolding elected_group_def Let_def by (intro scheduled_steps rtranclp.rtrancl_refl)

theorem single_leader_witness:
  "in_term demo_elector (\<lambda>_. 0) 0 elected_group 0 \<and> \<not> in_term demo_elector (\<lambda>_. 0) 0 elected_group 1"
proof
  show leader: "in_term demo_elector (\<lambda>_. 0) 0 elected_group 0" by code_simp
  show "\<not> in_term demo_elector (\<lambda>_. 0) 0 elected_group 1"
    using single_leader [OF elected_group_reached demo_hypotheses(1) memory_server_optimistic demo_hypotheses(2,3) leader, of 1]
    by auto
qed

text \<open>Both restrictions of a term are needed. A leader whose read of the lease hangs keeps its tasks running after its term, so
  that a second replica runs them too. And a shutdown that overlaps an attempt of the same replica: \<^verbatim>\<open>run\<close> does not look at
  \<^verbatim>\<open>_stopping\<close> after its await, starts the tasks again, and \<^verbatim>\<open>shutdown\<close> then gives the lease away, so that two replicas run
  the tasks within their leases.\<close>

abbreviation demo_attempt :: "nat \<Rightarrow> memory_server group \<Rightarrow> memory_server group" where
  "demo_attempt \<equiv> attempt_step memory_api demo_elector (\<lambda>_. 0)"

definition hanging_group :: "memory_server group" where
  "hanging_group = demo_attempt 1 ((wake_step (\<lambda>_. 0) 0 (demo_attempt 0 demo_group))\<lparr>gr_clock := seconds 15\<rparr>)"

definition raced_group :: "memory_server group" where
  "raced_group = (let close = shutdown_step memory_api demo_elector (\<lambda>_. 0) 0;
       g = read_step memory_api demo_elector 0 (wake_step (\<lambda>_. 0) 0 (demo_attempt 0 demo_group))
     in demo_attempt 1 (close (close (write_step memory_api demo_elector 0 (close (close g))))))"

lemma hanging_read_overlaps:
  "(group_step memory_api demo_elector (\<lambda>_. 0))\<^sup>*\<^sup>* demo_group hanging_group \<and>
   tasks_alive (rp_supervisor (gr_replica hanging_group 0)) \<and> tasks_alive (rp_supervisor (gr_replica hanging_group 1))"
proof
  have clock: "gr_clock (wake_step (\<lambda>_. 0) 0 (demo_attempt 0 demo_group)) \<le> seconds 15" by code_simp
  show "(group_step memory_api demo_elector (\<lambda>_. 0))\<^sup>*\<^sup>* demo_group hanging_group"
    unfolding hanging_group_def by (intro scheduled_attempt scheduled_steps rtranclp.rtrancl_refl clock)
  show "tasks_alive (rp_supervisor (gr_replica hanging_group 0)) \<and> tasks_alive (rp_supervisor (gr_replica hanging_group 1))"
    by code_simp
qed

lemma shutdown_race_overlaps:
  "(group_step memory_api demo_elector (\<lambda>_. 0))\<^sup>*\<^sup>* demo_group raced_group \<and>
   runs_within_lease demo_elector (\<lambda>_. 0) 0 raced_group 0 \<and> runs_within_lease demo_elector (\<lambda>_. 0) 0 raced_group 1"
proof (intro conjI)
  show "(group_step memory_api demo_elector (\<lambda>_. 0))\<^sup>*\<^sup>* demo_group raced_group"
    unfolding raced_group_def Let_def by (intro scheduled_attempt scheduled_steps rtranclp.rtrancl_refl)
  show "runs_within_lease demo_elector (\<lambda>_. 0) 0 raced_group 0" by code_simp
  show "runs_within_lease demo_elector (\<lambda>_. 0) 0 raced_group 1" by code_simp
qed

end
