(* ===== verification/K8s_Client.thy ===== *)
theory K8s_Client
  imports Data_Model
begin

text \<open>
  The Kubernetes side of the program (\<^verbatim>\<open>infra/services/k8s_client.py\<close>).

  The API server is outside the program: it is a parameter \<open>cluster\<close>, which gives the answer (a
  reply or an exception) to each call, and may let it depend on all calls made before. The model
  makes a call with \<open>k8s_do\<close>, which also logs it, so that a theorem can speak of which calls were
  made and in which order. The typed wrappers follow \<^verbatim>\<open>K8sClientProtocol\<close>. The JSON objects that
  come back are records with the fields the program reads, an absent key being \<open>None\<close>.
\<close>

record condition =
  cond_type :: "string option"
  cond_status :: "string option"
  cond_reason :: "string option"
  cond_message :: "string option"

record owner_ref =
  or_kind :: "string option"
  or_name :: "string option"
  or_controller :: "bool option"

record cr =
  cr_name :: "string option"
  cr_namespace :: "string option"
  cr_resource_version :: "string option"
  cr_owner_references :: "owner_ref list"
  cr_operating_mode :: "string option"
  cr_conditions :: "condition list"
  cr_service_fqdn :: "string option"

record pvc =
  pvc_name :: "string option"
  pvc_volume_name :: "string option"
  pvc_owner_references :: "owner_ref list"

record match_expression =
  me_key :: "string option"
  me_values :: "string list"

record pv =
  pv_volume_handle :: "string option"
  pv_node_selector_terms :: "match_expression list list"

record volume_snapshot =
  vs_bound_content_name :: "string option"
  vs_ready_to_use :: bool

record volume_snapshot_content =
  vsc_name :: "string option"
  vsc_snapshot_handle :: "string option"

text \<open>A template as \<^verbatim>\<open>_parse_sandbox_template\<close> leaves it: the dictionaries that \<^verbatim>\<open>list_sandbox_templates\<close> returns.
  How the production client reads them off the JSON of the API server is \<open>parse_template_json\<close> of \<open>K8s_Manifests\<close>.\<close>

record ktemplate =
  kt_name :: string
  kt_display_name :: string
  kt_description :: string
  kt_image :: string
  kt_resource_spec :: "(string \<times> string) list"
  kt_resource_limits :: "(string \<times> string) list"
  kt_startup_probe :: "meta_value option"
  kt_readiness_probe :: "meta_value option"
  kt_liveness_probe :: "meta_value option"
  kt_allowed_storage_sizes :: "string list"

definition dict_get :: "(string \<times> 'v) list \<Rightarrow> string \<Rightarrow> 'v \<Rightarrow> 'v" where
  "dict_get d k v = (case map_of d k of None \<Rightarrow> v | Some x \<Rightarrow> x)"

definition allowed_storage_sizes_annotation :: string where
  "allowed_storage_sizes_annotation = ''treadstone-ai.dev/allowed-storage-sizes''"

subsection \<open>Calls\<close>

datatype k8s_reply =
    RUnit
  | RSandbox "cr option"
  | RTemplates "ktemplate list"
  | RFound bool
  | RSnapshot "volume_snapshot option"
  | RSnapshotContent "volume_snapshot_content option"
  | RPVCs "pvc list"
  | RPVC "pvc option"
  | RPV "pv option"

type_synonym cluster = "k8s_call list \<Rightarrow> k8s_call \<Rightarrow> exn + k8s_reply"

definition k8s_do :: "cluster \<Rightarrow> k8s_call \<Rightarrow> k8s_reply op" where
  "k8s_do cl c = (\<lambda>w. (cl (k8s_log w) c, w\<lparr>k8s_log := k8s_log w @ [c]\<rparr>))"

definition bad_reply :: exn where
  "bad_reply = K8sException ''unexpected reply''"

definition k8s_command :: "cluster \<Rightarrow> k8s_call \<Rightarrow> unit op" where
  "k8s_command cl c = ebind (k8s_do cl c) (\<lambda>_. ret ())"

definition k8s_get_sandbox :: "cluster \<Rightarrow> string \<Rightarrow> string \<Rightarrow> cr option op" where
  "k8s_get_sandbox cl name ns = ebind (k8s_do cl (GetSandbox name ns))
     (\<lambda>r. case r of RSandbox c \<Rightarrow> ret c | _ \<Rightarrow> raise bad_reply)"

definition k8s_list_sandbox_templates :: "cluster \<Rightarrow> string \<Rightarrow> ktemplate list op" where
  "k8s_list_sandbox_templates cl ns = ebind (k8s_do cl (ListSandboxTemplates ns))
     (\<lambda>r. case r of RTemplates ts \<Rightarrow> ret ts | _ \<Rightarrow> raise bad_reply)"

definition k8s_found :: "cluster \<Rightarrow> k8s_call \<Rightarrow> bool op" where
  "k8s_found cl c = ebind (k8s_do cl c) (\<lambda>r. case r of RFound b \<Rightarrow> ret b | _ \<Rightarrow> raise bad_reply)"

definition k8s_get_volume_snapshot :: "cluster \<Rightarrow> string \<Rightarrow> string \<Rightarrow> volume_snapshot option op" where
  "k8s_get_volume_snapshot cl name ns = ebind (k8s_do cl (GetVolumeSnapshot name ns))
     (\<lambda>r. case r of RSnapshot s \<Rightarrow> ret s | _ \<Rightarrow> raise bad_reply)"

definition k8s_get_volume_snapshot_content :: "cluster \<Rightarrow> string \<Rightarrow> volume_snapshot_content option op" where
  "k8s_get_volume_snapshot_content cl name = ebind (k8s_do cl (GetVolumeSnapshotContent name))
     (\<lambda>r. case r of RSnapshotContent s \<Rightarrow> ret s | _ \<Rightarrow> raise bad_reply)"

definition k8s_list_pvcs :: "cluster \<Rightarrow> string \<Rightarrow> (string \<times> string) list option \<Rightarrow> pvc list op" where
  "k8s_list_pvcs cl ns labels = ebind (k8s_do cl (ListPVCs ns labels))
     (\<lambda>r. case r of RPVCs ps \<Rightarrow> ret ps | _ \<Rightarrow> raise bad_reply)"

definition k8s_get_pvc :: "cluster \<Rightarrow> string \<Rightarrow> string \<Rightarrow> pvc option op" where
  "k8s_get_pvc cl name ns = ebind (k8s_do cl (GetPVC name ns))
     (\<lambda>r. case r of RPVC p \<Rightarrow> ret p | _ \<Rightarrow> raise bad_reply)"

definition k8s_get_pv :: "cluster \<Rightarrow> string \<Rightarrow> pv option op" where
  "k8s_get_pv cl name = ebind (k8s_do cl (GetPV name))
     (\<lambda>r. case r of RPV p \<Rightarrow> ret p | _ \<Rightarrow> raise bad_reply)"

subsection \<open>A call changes nothing but the log\<close>

lemma keeps_k8s_do [keeps_intros]:
  "(\<And>w l. P w \<Longrightarrow> P (w\<lparr>k8s_log := l\<rparr>)) \<Longrightarrow> keeps P (k8s_do cl c)"
  by (simp add: keeps_def k8s_do_def)

lemmas k8s_call_defs =
  k8s_command_def k8s_get_sandbox_def k8s_list_sandbox_templates_def k8s_found_def
  k8s_get_volume_snapshot_def k8s_get_volume_snapshot_content_def k8s_list_pvcs_def
  k8s_get_pvc_def k8s_get_pv_def

lemma keeps_k8s_calls [keeps_intros]:
  assumes "\<And>w l. P w \<Longrightarrow> P (w\<lparr>k8s_log := l\<rparr>)"
  shows "keeps P (k8s_command cl c)" "keeps P (k8s_get_sandbox cl n s)"
    "keeps P (k8s_list_sandbox_templates cl s)" "keeps P (k8s_found cl c)"
    "keeps P (k8s_get_volume_snapshot cl n s)" "keeps P (k8s_get_volume_snapshot_content cl n)"
    "keeps P (k8s_list_pvcs cl s ls)" "keeps P (k8s_get_pvc cl n s)" "keeps P (k8s_get_pv cl n)"
  using assms
  by (auto simp: k8s_call_defs keeps_def k8s_do_def ebind_def split: sum.splits k8s_reply.splits)

end
