(* ===== verification/Metering_Helpers.thy ===== *)
theory Metering_Helpers
  imports K8s_Client
begin

text \<open>
  \<^verbatim>\<open>metering/services/metering_helpers.py\<close>: the Compute Unit rate of a template, storage sizes,
  billing periods and the cache of template specs that is synchronised from Kubernetes.

  A \<^verbatim>\<open>datetime\<close> whose calendar fields matter is the record \<open>datetime\<close>; \<open>utc_ts\<close> is its position on
  the time line, computed as Python's \<^verbatim>\<open>datetime.toordinal\<close> does.
\<close>

subsection \<open>Calendar\<close>

record datetime =
  dt_year :: int
  dt_month :: int
  dt_day :: int
  dt_hour :: int
  dt_minute :: int
  dt_second :: int
  dt_microsecond :: int

definition is_leap :: "int \<Rightarrow> bool" where
  "is_leap y \<longleftrightarrow> y mod 4 = 0 \<and> (y mod 100 \<noteq> 0 \<or> y mod 400 = 0)"

definition days_before_year :: "int \<Rightarrow> int" where
  "days_before_year y = (let z = y - 1 in z * 365 + z div 4 - z div 100 + z div 400)"

fun month_days :: "int \<Rightarrow> int \<Rightarrow> int" where
  "month_days y m =
     (if m = 2 then (if is_leap y then 29 else 28)
      else if m = 4 \<or> m = 6 \<or> m = 9 \<or> m = 11 then 30 else 31)"

declare month_days.simps [simp del]

definition days_before_month :: "int \<Rightarrow> int \<Rightarrow> int" where
  "days_before_month y m = sum_list (map (month_days y) [1..m - 1])"

definition utc_ts :: "datetime \<Rightarrow> time" where
  "utc_ts d = ((((days_before_year (dt_year d) + days_before_month (dt_year d) (dt_month d)
       + dt_day d - 719163) * 24 + dt_hour d) * 60 + dt_minute d) * 60 + dt_second d) * 1000000
     + dt_microsecond d"

definition valid_datetime :: "datetime \<Rightarrow> bool" where
  "valid_datetime d \<longleftrightarrow>
     1 \<le> dt_month d \<and> dt_month d \<le> 12 \<and>
     1 \<le> dt_day d \<and> dt_day d \<le> month_days (dt_year d) (dt_month d) \<and>
     0 \<le> dt_hour d \<and> dt_hour d < 24 \<and> 0 \<le> dt_minute d \<and> dt_minute d < 60 \<and>
     0 \<le> dt_second d \<and> dt_second d < 60 \<and>
     0 \<le> dt_microsecond d \<and> dt_microsecond d < 1000000"

definition day_us :: int where "day_us = 86400000000"

definition compute_period_bounds :: "datetime \<Rightarrow> datetime \<times> datetime" where
  "compute_period_bounds now =
     (let period_start = now\<lparr>dt_day := 1, dt_hour := 0, dt_minute := 0, dt_second := 0,
                             dt_microsecond := 0\<rparr>;
          period_end = (if dt_month now = 12
                        then period_start\<lparr>dt_year := dt_year now + 1, dt_month := 1\<rparr>
                        else period_start\<lparr>dt_month := dt_month now + 1\<rparr>)
      in (period_start, period_end))"

subsection \<open>Compute Unit rates\<close>

definition CU_VCPU_WEIGHT :: dec where "CU_VCPU_WEIGHT = 1/2"
definition CU_MEMORY_WEIGHT :: dec where "CU_MEMORY_WEIGHT = 1/8"

definition TEMPLATE_SPECS :: "(string \<times> template_spec) list" where
  "TEMPLATE_SPECS =
     [(''aio-sandbox-tiny'', (1/4, 1)),
      (''aio-sandbox-small'', (1/2, 2)),
      (''aio-sandbox-medium'', (1, 4)),
      (''aio-sandbox-large'', (2, 8)),
      (''aio-sandbox-xlarge'', (4, 16))]"

definition resolve_spec :: "(string \<times> template_spec) list \<Rightarrow> string \<Rightarrow> template_spec option" where
  "resolve_spec cache template =
     (case map_of cache template of Some s \<Rightarrow> Some s | None \<Rightarrow> map_of TEMPLATE_SPECS template)"

definition get_template_resource_spec :: "string \<Rightarrow> template_spec op" where
  "get_template_resource_spec template =
     ebind (gets (\<lambda>w. resolve_spec (template_specs_cache w) template)) (\<lambda>spec.
     case spec of
       None \<Rightarrow> raise (BadRequestError (''Unknown sandbox template: '' @ template))
     | Some (vcpu, mem) \<Rightarrow> ret (vcpu, mem))"

definition calculate_cu_rate :: "string \<Rightarrow> dec op" where
  "calculate_cu_rate template =
     ebind (gets (\<lambda>w. resolve_spec (template_specs_cache w) template)) (\<lambda>spec.
     case spec of
       None \<Rightarrow> raise (BadRequestError (''Unknown sandbox template: '' @ template))
     | Some (vcpu, mem) \<Rightarrow> ret (dadd (dmul CU_VCPU_WEIGHT vcpu) (dmul CU_MEMORY_WEIGHT mem)))"

subsection \<open>Storage sizes\<close>

definition parse_storage_size_gib :: "string \<Rightarrow> exn + int" where
  "parse_storage_size_gib s =
     (if endswith s ''Gi'' then
        (case py_int (take (length s - 2) s) of
           Some n \<Rightarrow> Inr n
         | None \<Rightarrow> Inl (BadRequestError (''Invalid storage size value: '' @ s)))
      else Inl (BadRequestError (''Unsupported storage size format: '' @ s)))"

subsection \<open>Specs from Kubernetes\<close>

definition py_Decimal :: "string \<Rightarrow> exn + dec" where
  "py_Decimal s = (case py_decimal s of Some x \<Rightarrow> Inr x | None \<Rightarrow> Inl (InvalidOperation s))"

definition decimal_over :: "string \<Rightarrow> dec \<Rightarrow> exn + dec" where
  "decimal_over s d = (case py_Decimal s of Inl e \<Rightarrow> Inl e | Inr x \<Rightarrow> Inr (ddiv x d))"

definition parse_k8s_cpu :: "string \<Rightarrow> exn + dec" where
  "parse_k8s_cpu v =
     (if v = '''' then Inr 0
      else if endswith v ''m'' then decimal_over (take (length v - 1) v) 1000
      else py_Decimal v)"

definition parse_k8s_memory_gib :: "string \<Rightarrow> exn + dec" where
  "parse_k8s_memory_gib v =
     (if v = '''' then Inr 0
      else if endswith v ''Gi'' then py_Decimal (take (length v - 2) v)
      else if endswith v ''Mi'' then decimal_over (take (length v - 2) v) 1024
      else if endswith v ''Ki'' then decimal_over (take (length v - 2) v) 1048576
      else decimal_over v 1073741824)"

definition dict_set :: "string \<Rightarrow> 'v \<Rightarrow> (string \<times> 'v) list \<Rightarrow> (string \<times> 'v) list" where
  "dict_set k v d = (if k \<in> fst ` set d then map (\<lambda>(k', v'). if k' = k then (k', v) else (k', v')) d
                     else d @ [(k, v)])"

fun build_specs_cache ::
    "(string \<times> template_spec) list \<Rightarrow> ktemplate list \<Rightarrow> exn + (string \<times> template_spec) list" where
  "build_specs_cache acc [] = Inr acc"
| "build_specs_cache acc (t # ts) =
     (case parse_k8s_cpu (dict_get (kt_resource_spec t) ''cpu'' '''') of
        Inl e \<Rightarrow> Inl e
      | Inr vcpu \<Rightarrow>
        (case parse_k8s_memory_gib (dict_get (kt_resource_spec t) ''memory'' '''') of
           Inl e \<Rightarrow> Inl e
         | Inr mem \<Rightarrow>
             build_specs_cache (if 0 < vcpu \<and> 0 < mem then dict_set (kt_name t) (vcpu, mem) acc
                                else acc) ts))"

definition sync_template_specs_from_k8s :: "ktemplate list \<Rightarrow> nat op" where
  "sync_template_specs_from_k8s ks =
     ebind (of_sum (build_specs_cache [] ks)) (\<lambda>new_cache.
     ebind (modify (\<lambda>w. w\<lparr>template_specs_cache := new_cache\<rparr>)) (\<lambda>_.
     ret (length new_cache)))"

text \<open>The warnings of \<^verbatim>\<open>validate_template_specs\<close>, without their wording.\<close>

datatype spec_warning =
    MissingInK8s string
  | VcpuDrift string dec dec
  | MemoryDrift string dec dec
  | NotInTemplateSpecs string

definition validate_one :: "ktemplate list \<Rightarrow> string \<times> template_spec \<Rightarrow> exn + spec_warning list" where
  "validate_one ks x = (case x of (name, (vcpu, mem)) \<Rightarrow>
     (case find (\<lambda>t. kt_name t = name) (rev ks) of
        None \<Rightarrow> Inr [MissingInK8s name]
      | Some t \<Rightarrow>
        (case parse_k8s_cpu (dict_get (kt_resource_spec t) ''cpu'' '''') of
           Inl e \<Rightarrow> Inl e
         | Inr k8s_vcpu \<Rightarrow>
           (case parse_k8s_memory_gib (dict_get (kt_resource_spec t) ''memory'' '''') of
              Inl e \<Rightarrow> Inl e
            | Inr k8s_mem \<Rightarrow>
                Inr ((if vcpu \<noteq> k8s_vcpu then [VcpuDrift name vcpu k8s_vcpu] else []) @
                     (if mem \<noteq> k8s_mem then [MemoryDrift name mem k8s_mem] else []))))))"

fun validate_all ::
    "ktemplate list \<Rightarrow> (string \<times> template_spec) list \<Rightarrow> exn + spec_warning list" where
  "validate_all ks [] = Inr []"
| "validate_all ks (x # xs) =
     (case validate_one ks x of
        Inl e \<Rightarrow> Inl e
      | Inr a \<Rightarrow> (case validate_all ks xs of Inl e \<Rightarrow> Inl e | Inr b \<Rightarrow> Inr (a @ b)))"

definition validate_template_specs :: "ktemplate list \<Rightarrow> exn + spec_warning list" where
  "validate_template_specs ks =
     (case validate_all ks TEMPLATE_SPECS of
        Inl e \<Rightarrow> Inl e
      | Inr a \<Rightarrow>
          Inr (a @ map NotInTemplateSpecs
                 (filter (\<lambda>n. n \<notin> fst ` set TEMPLATE_SPECS) (rev (remdups (rev (map kt_name ks)))))))"

text \<open>What a cache that was built from Kubernetes satisfies.\<close>

definition specs_ok :: "(string \<times> template_spec) list \<Rightarrow> bool" where
  "specs_ok c \<longleftrightarrow> distinct (map fst c) \<and> (\<forall>(k, vcpu, mem) \<in> set c. 0 < vcpu \<and> 0 < mem)"

record consume_result =
  res_monthly :: dec
  res_extra :: dec
  res_shortfall :: dec

subsection \<open>Billing periods\<close>

lemma days_before_month_step:
  "1 \<le> m \<Longrightarrow> days_before_month y (m + 1) = days_before_month y m + month_days y m"
  by (simp add: days_before_month_def upto_rec2 [of 1 m])

lemma days_before_month_1 [simp]: "days_before_month y 1 = 0"
  by (simp add: days_before_month_def)

lemma upto_12: "[1..12 :: int] = [1, 2, 3, 4, 5, 6, 7, 8, 9, 10, 11, 12]"
  by (simp add: upto_rec1)

lemma days_in_year:
  "days_before_month y 12 + month_days y 12 = (if is_leap y then 366 else 365)"
proof -
  have "days_before_month y 12 + month_days y 12 = sum_list (map (month_days y) [1..12])"
    using days_before_month_step [of 12 y] by (simp add: days_before_month_def)
  then show ?thesis by (simp add: upto_12 month_days.simps)
qed

lemma div_step:
  fixes y n :: int
  assumes "0 < n"
  shows "y div n = (y - 1) div n + (if y mod n = 0 then 1 else 0)"
proof -
  define q r where "q = y div n" and "r = y mod n"
  have y: "y = n * q + r" and r: "0 \<le> r" "r < n"
    using assms by (auto simp: q_def r_def)
  show ?thesis
  proof (cases "r = 0")
    case True
    have "(y - 1) div n = q - 1"
      by (rule int_div_pos_eq [where r = "n - 1"]) (use assms y True in \<open>auto simp: algebra_simps\<close>)
    with True show ?thesis by (simp flip: q_def r_def)
  next
    case False
    have "(y - 1) div n = q"
      by (rule int_div_pos_eq [where r = "r - 1"]) (use y r False in \<open>auto simp: algebra_simps\<close>)
    with False show ?thesis by (simp flip: q_def r_def)
  qed
qed

lemma mod_zero_dvd: "(y::int) mod (k * n) = 0 \<Longrightarrow> y mod n = 0"
  by (metis dvd_mult_right mod_0_imp_dvd mod_eq_0_iff_dvd)

lemma leap_count:
  fixes a b c a' b' c' y :: int
  assumes "a' = a + (if P then 1 else 0)" "b' = b + (if Q then 1 else 0)"
    "c' = c + (if R then 1 else 0)" and "Q \<Longrightarrow> P" and "R \<Longrightarrow> Q"
  shows "y * 365 + a' - b' + c' =
    (y - 1) * 365 + a - b + c + (if P \<and> (\<not> Q \<or> R) then 366 else 365)"
  using assms by auto

lemma days_before_year_step:
  "days_before_year (y + 1) = days_before_year y + (if is_leap y then 366 else 365)"
proof -
  have "y * 365 + y div 4 - y div 100 + y div 400 =
      (y - 1) * 365 + (y - 1) div 4 - (y - 1) div 100 + (y - 1) div 400
      + (if y mod 4 = 0 \<and> (\<not> y mod 100 = 0 \<or> y mod 400 = 0) then 366 else 365)"
  proof (rule leap_count [OF div_step div_step div_step])
    show "y mod 4 = 0" if "y mod 100 = 0" using mod_zero_dvd [of y 25 4] that by simp
    show "y mod 100 = 0" if "y mod 400 = 0" using mod_zero_dvd [of y 4 100] that by simp
  qed simp_all
  then show ?thesis
    by (simp only: days_before_year_def is_leap_def Let_def add_diff_cancel_right')
qed

lemma period_start_fields:
  assumes "compute_period_bounds now = (s, e)"
  shows "s = now\<lparr>dt_day := 1, dt_hour := 0, dt_minute := 0, dt_second := 0, dt_microsecond := 0\<rparr>"
    and "e = (if dt_month now = 12 then s\<lparr>dt_year := dt_year now + 1, dt_month := 1\<rparr>
              else s\<lparr>dt_month := dt_month now + 1\<rparr>)"
  using assms by (auto simp: compute_period_bounds_def Let_def)

lemma month_days_bounds: "28 \<le> month_days y m" "month_days y m \<le> 31"
  by (auto simp: month_days.simps)

text \<open>The period of a moment is its calendar month: it starts at or before the moment, ends after
  it, and is 28 to 31 days long; the end is the start of the next period.\<close>

lemma period_length:
  assumes "valid_datetime now" and "compute_period_bounds now = (s, e)"
  shows "utc_ts e = utc_ts s + day_us * month_days (dt_year now) (dt_month now)"
proof (cases "dt_month now = 12")
  case True
  then show ?thesis
    using days_in_year [of "dt_year now"] days_before_year_step [of "dt_year now"]
    by (simp add: period_start_fields [OF assms(2)] utc_ts_def day_us_def algebra_simps)
next
  case False
  have "days_before_month (dt_year now) (dt_month now + 1)
      = days_before_month (dt_year now) (dt_month now) + month_days (dt_year now) (dt_month now)"
    using assms(1) by (intro days_before_month_step) (simp add: valid_datetime_def)
  with False show ?thesis
    by (simp add: period_start_fields [OF assms(2)] utc_ts_def day_us_def algebra_simps)
qed

lemma period_start_le:
  assumes "valid_datetime now" and "compute_period_bounds now = (s, e)"
  shows "utc_ts s \<le> utc_ts now"
    and "utc_ts now < utc_ts s + day_us * month_days (dt_year now) (dt_month now)"
proof -
  define d where "d = dt_day now - 1"
  define x where "x = ((d * 24 + dt_hour now) * 60 + dt_minute now) * 60 + dt_second now"
  have now: "utc_ts now = utc_ts s + x * 1000000 + dt_microsecond now"
    by (simp add: period_start_fields [OF assms(2)] utc_ts_def x_def d_def algebra_simps)
  have x: "0 \<le> x" "x < month_days (dt_year now) (dt_month now) * 86400"
    using assms(1) by (auto simp: valid_datetime_def x_def d_def)
  have us: "0 \<le> dt_microsecond now" "dt_microsecond now < 1000000"
    using assms(1) by (auto simp: valid_datetime_def)
  show "utc_ts s \<le> utc_ts now" using now x(1) us by simp
  show "utc_ts now < utc_ts s + day_us * month_days (dt_year now) (dt_month now)"
    using now x(2) us by (simp add: day_us_def)
qed

lemma period_valid:
  assumes "valid_datetime now" and "compute_period_bounds now = (s, e)"
  shows "valid_datetime s" and "valid_datetime e"
  using assms(1) month_days_bounds
  by (auto simp: period_start_fields [OF assms(2)] valid_datetime_def month_days.simps)

lemma period_tiles:
  assumes "valid_datetime now" and "compute_period_bounds now = (s, e)"
  shows "fst (compute_period_bounds e) = e" and "compute_period_bounds s = (s, e)"
proof -
  show "fst (compute_period_bounds e) = e"
    by (simp add: period_start_fields [OF assms(2)] compute_period_bounds_def Let_def)
  show "compute_period_bounds s = (s, e)"
    using assms(2) by (auto simp: compute_period_bounds_def Let_def)
qed

subsection \<open>The cache of specs\<close>

lemma dict_set_keys:
  "map fst (dict_set k v d) = (if k \<in> fst ` set d then map fst d else map fst d @ [k])"
  by (auto simp: dict_set_def)

lemma dict_set_set: "x \<in> set (dict_set k v d) \<Longrightarrow> x = (k, v) \<or> x \<in> set d"
  by (auto simp: dict_set_def split: if_splits)

lemma specs_ok_dict_set:
  assumes "specs_ok c" and "0 < vcpu" and "0 < mem"
  shows "specs_ok (dict_set k (vcpu, mem) c)"
proof -
  have "distinct (map fst (dict_set k (vcpu, mem) c))"
    using assms(1) by (auto simp: dict_set_keys specs_ok_def)
  moreover have "0 < a \<and> 0 < b" if "(n, a, b) \<in> set (dict_set k (vcpu, mem) c)" for n a b
    using dict_set_set [OF that] assms by (auto simp: specs_ok_def)
  ultimately show ?thesis by (auto simp: specs_ok_def)
qed

lemma build_specs_cache_ok:
  "specs_ok acc \<Longrightarrow> build_specs_cache acc ks = Inr c \<Longrightarrow> specs_ok c"
proof (induction acc ks rule: build_specs_cache.induct)
  case (1 acc)
  then show ?case by simp
next
  case (2 acc t ts)
  from 2(3) obtain vcpu mem
    where cpu: "parse_k8s_cpu (dict_get (kt_resource_spec t) ''cpu'' '''') = Inr vcpu"
      and mem: "parse_k8s_memory_gib (dict_get (kt_resource_spec t) ''memory'' '''') = Inr mem"
      and rest: "build_specs_cache (if 0 < vcpu \<and> 0 < mem then dict_set (kt_name t) (vcpu, mem) acc
                   else acc) ts = Inr c"
    by (auto split: sum.splits)
  have "specs_ok (if 0 < vcpu \<and> 0 < mem then dict_set (kt_name t) (vcpu, mem) acc else acc)"
    using 2(2) by (auto intro: specs_ok_dict_set)
  then show ?case by (rule 2(1) [OF cpu mem _ rest])
qed

lemma template_spec_positive:
  "resolve_spec c t = Some (v, m) \<Longrightarrow> specs_ok c \<Longrightarrow> 0 < v \<and> 0 < m"
  by (auto simp: resolve_spec_def specs_ok_def TEMPLATE_SPECS_def split: option.splits if_splits
      dest!: map_of_SomeD)

lemma get_template_resource_spec_run [run_simps]:
  "get_template_resource_spec t w =
     (case resolve_spec (template_specs_cache w) t of
        None \<Rightarrow> (Inl (BadRequestError (''Unknown sandbox template: '' @ t)), w)
      | Some s \<Rightarrow> (Inr s, w))"
  by (auto simp: get_template_resource_spec_def ebind_def split: option.splits)

lemma map_of_replace:
  "map_of (map (\<lambda>(k', v'). if k' = a then (k', v) else (k', v')) d) k =
     (if k = a \<and> a \<in> fst ` set d then Some v else map_of d k)"
proof (induction d)
  case (Cons x d)
  then show ?case by (cases x; cases "k = a") simp_all
qed simp

lemma map_of_dict_set: "map_of (dict_set a v d) k = (if k = a then Some v else map_of d k)"
proof (cases "a \<in> fst ` set d")
  case True
  then show ?thesis by (simp add: dict_set_def map_of_replace)
next
  case False
  then have "map_of d a = None" by (simp add: map_of_eq_None_iff)
  with False show ?thesis by (auto simp: dict_set_def map_add_def split: option.splits)
qed

lemma calculate_cu_rate_run [run_simps]:
  "calculate_cu_rate t w =
     (case resolve_spec (template_specs_cache w) t of
        None \<Rightarrow> (Inl (BadRequestError (''Unknown sandbox template: '' @ t)), w)
      | Some (v, m) \<Rightarrow> (Inr (dadd (dmul CU_VCPU_WEIGHT v) (dmul CU_MEMORY_WEIGHT m)), w))"
  by (auto simp: calculate_cu_rate_def ebind_def split: option.splits)

lemma keeps_specs [keeps_intros]:
  "keeps P (get_template_resource_spec t)" "keeps P (calculate_cu_rate t)"
  by (auto simp: keeps_def run_simps split: option.splits)

text \<open>The two weights are chosen so that 4 GiB of memory per vCPU cost one unit per vCPU.\<close>

lemma balanced_rate:
  assumes "on_grid 3 v" and "\<bar>v\<bar> < 10 ^ 4"
  shows "dadd (dmul CU_VCPU_WEIGHT v) (dmul CU_MEMORY_WEIGHT (4 * v)) = v"
proof -
  have half: "dctx (v / 2) = v / 2"
  proof (rule dctx_exact [where k = 4])
    from assms(1) obtain n where "v * 10 ^ 3 = of_int n" by (auto simp: on_grid_def Ints_def)
    then have "v / 2 * 10 ^ 4 = of_int (5 * n)" by simp
    then show "on_grid 4 (v / 2)" by (metis Ints_of_int on_grid_def)
    show "\<bar>v / 2\<bar> * 10 ^ 4 < 10 ^ 28" using assms(2) by simp
  qed
  have "dctx v = v" by (rule dctx_exact [OF assms(1)]) (use assms(2) in simp)
  moreover have "dmul CU_VCPU_WEIGHT v = v / 2" "dmul CU_MEMORY_WEIGHT (4 * v) = v / 2"
    using half by (simp_all add: dmul_def CU_VCPU_WEIGHT_def CU_MEMORY_WEIGHT_def)
  ultimately show ?thesis by (simp only: dadd_def field_sum_of_halves)
qed

lemma builtin_specs_balanced:
  "map_of TEMPLATE_SPECS t = Some (v, m) \<Longrightarrow> m = 4 * v \<and> on_grid 3 v \<and> \<bar>v\<bar> < 10 ^ 4"
proof -
  have "on_grid 3 (1/4)" "on_grid 3 (1/2)" "on_grid 3 1" "on_grid 3 2" "on_grid 3 4"
    by (simp_all add: on_grid_def)
  moreover assume "map_of TEMPLATE_SPECS t = Some (v, m)"
  then have "(v, m) \<in> {(1/4, 1), (1/2, 2), (1, 4), (2, 8), (4, 16)}"
    by (simp add: TEMPLATE_SPECS_def split: if_splits)
  ultimately show ?thesis by (elim insertE emptyE; simp only: prod.inject) simp_all
qed

subsection \<open>Properties\<close>

text \<open>C30: the billing period of a moment is its calendar month. It contains the moment, it is 28 to
  31 days long, the next period starts where it ends, and the start of a period has that period as
  its own, so consecutive periods tile the time line with no gap and no overlap.\<close>

theorem compute_period_bounds_tile:
  assumes "valid_datetime now" and "compute_period_bounds now = (s, e)"
  shows "utc_ts s \<le> utc_ts now \<and> utc_ts now < utc_ts e \<and>
    28 * day_us \<le> utc_ts e - utc_ts s \<and> utc_ts e - utc_ts s \<le> 31 * day_us \<and>
    compute_period_bounds s = (s, e) \<and> fst (compute_period_bounds e) = e \<and>
    valid_datetime s \<and> valid_datetime e"
  using period_start_le [OF assms] period_length [OF assms] period_tiles [OF assms]
    period_valid [OF assms] month_days_bounds [of "dt_year now" "dt_month now"]
  by (simp add: day_us_def)

theorem compute_period_bounds_tile_witness:
  "let now = \<lparr>dt_year = 2024, dt_month = 12, dt_day = 31, dt_hour = 23, dt_minute = 59,
              dt_second = 59, dt_microsecond = 999999\<rparr>;
       e = \<lparr>dt_year = 2025, dt_month = 1, dt_day = 1, dt_hour = 0, dt_minute = 0,
            dt_second = 0, dt_microsecond = 0\<rparr>
   in valid_datetime now \<and> snd (compute_period_bounds now) = e \<and> utc_ts now < utc_ts e"
proof -
  define now :: datetime where "now = \<lparr>dt_year = 2024, dt_month = 12, dt_day = 31, dt_hour = 23,
    dt_minute = 59, dt_second = 59, dt_microsecond = 999999\<rparr>"
  define s e :: datetime where
    "s = now\<lparr>dt_day := 1, dt_hour := 0, dt_minute := 0, dt_second := 0, dt_microsecond := 0\<rparr>"
    and "e = \<lparr>dt_year = 2025, dt_month = 1, dt_day = 1, dt_hour = 0, dt_minute = 0,
            dt_second = 0, dt_microsecond = 0\<rparr>"
  have v: "valid_datetime now" by (simp add: now_def valid_datetime_def month_days.simps)
  have b: "compute_period_bounds now = (s, e)"
    by (simp add: now_def s_def e_def compute_period_bounds_def)
  from compute_period_bounds_tile [OF v b] v b show ?thesis
    by (simp only: Let_def now_def [symmetric] e_def [symmetric] snd_conv simp_thms)
qed

text \<open>A storage size printed as \<^verbatim>\<open><n>Gi\<close> parses back to \<open>n\<close>, a string with another suffix is
  a \<^verbatim>\<open>BadRequestError\<close>, and so is one whose prefix is no integer: parsing never fails otherwise.\<close>

theorem parse_storage_size_gib_total:
  "parse_storage_size_gib (show_int n @ ''Gi'') = Inr n \<and>
   parse_storage_size_gib s =
     (if \<not> endswith s ''Gi''
      then Inl (BadRequestError (''Unsupported storage size format: '' @ s))
      else case py_int (take (length s - 2) s) of
             None \<Rightarrow> Inl (BadRequestError (''Invalid storage size value: '' @ s))
           | Some k \<Rightarrow> Inr k)"
  by (auto simp: parse_storage_size_gib_def py_int_show_int split: option.splits)

text \<open>C31: synchronising the specs either installs a cache whose names are distinct and whose
  specs are all positive, or fails and leaves every part of the state as it was, the old cache
  included: one template with an unreadable quantity drops the whole update.\<close>

theorem sync_template_specs_atomic:
  "case sync_template_specs_from_k8s ks w of
     (Inr n, w') \<Rightarrow> specs_ok (template_specs_cache w') \<and> n = length (template_specs_cache w') \<and>
        w' = w\<lparr>template_specs_cache := template_specs_cache w'\<rparr>
   | (Inl e, w') \<Rightarrow> w' = w"
proof (cases "build_specs_cache [] ks")
  case (Inl e)
  then show ?thesis by (simp add: sync_template_specs_from_k8s_def)
next
  case (Inr c)
  have "specs_ok c" by (rule build_specs_cache_ok [OF _ Inr]) (simp add: specs_ok_def)
  with Inr show ?thesis by (simp add: sync_template_specs_from_k8s_def)
qed

text \<open>With no template synchronised from Kubernetes, the fallback specs price every built-in
  template at one Compute Unit per vCPU, exactly, and any other name is rejected with a
  \<^verbatim>\<open>BadRequestError\<close> and no change of state.\<close>

theorem builtin_cu_rate:
  assumes "template_specs_cache w = []"
  shows "calculate_cu_rate t w =
    (case map_of TEMPLATE_SPECS t of
       Some (vcpu, mem) \<Rightarrow> (Inr vcpu, w)
     | None \<Rightarrow> (Inl (BadRequestError (''Unknown sandbox template: '' @ t)), w))"
  using assms
  by (auto simp: calculate_cu_rate_run resolve_spec_def balanced_rate dest!: builtin_specs_balanced
      split: option.splits)

theorem builtin_cu_rate_witness:
  "template_specs_cache empty_world = [] \<and>
   calculate_cu_rate ''aio-sandbox-medium'' empty_world = (Inr 1, empty_world)"
proof -
  have c: "template_specs_cache empty_world = []" by (simp add: empty_world_def)
  from builtin_cu_rate [OF c, of "''aio-sandbox-medium''"] c show ?thesis
    by (simp add: TEMPLATE_SPECS_def)
qed

end
