(* ===== verification/Metering_Service.thy ===== *)
theory Metering_Service
  imports Metering_Helpers
begin

text \<open>
  \<^verbatim>\<open>metering/services/metering_service.py\<close>: plans, grants, the dual-pool credit consumption, compute
  sessions, the storage ledger, quota checks and usage queries.

  Each method of \<^verbatim>\<open>MeteringService\<close> is one operation on the \<open>world\<close> of its session; none commits.
  A method reads the clock once: its argument \<open>now\<close> (a \<open>datetime\<close> where the method may create a
  plan, whose period depends on the calendar month, a \<open>time\<close> otherwise) stands for all
  \<^verbatim>\<open>utc_now()\<close> readings that the method makes. An ORM object is the row with its key: assigning to
  an attribute is an update of that row (\<open>set_plan\<close>, \<open>set_session\<close>, \<open>set_ledger\<close>).
\<close>

definition MAX_CLOSE_DELTA_SECONDS :: rat where "MAX_CLOSE_DELTA_SECONDS = 120"
definition WELCOME_BONUS_AMOUNT :: dec where "WELCOME_BONUS_AMOUNT = 0"
definition WELCOME_BONUS_EXPIRY_DAYS :: int where "WELCOME_BONUS_EXPIRY_DAYS = 90"

definition ALLOWED_PLAN_OVERRIDES :: "string list" where
  "ALLOWED_PLAN_OVERRIDES =
     [''compute_units_monthly_limit'', ''storage_capacity_limit_gib'', ''max_concurrent_running'',
      ''max_sandbox_duration_seconds'', ''allowed_templates'', ''grace_period_seconds'']"

subsection \<open>Rows\<close>

definition set_plan :: "string \<Rightarrow> (user_plan \<Rightarrow> user_plan) \<Rightarrow> unit op" where
  "set_plan uid f =
     modify (\<lambda>w. w\<lparr>user_plans := update_where (\<lambda>p. up_user_id p = uid) f (user_plans w)\<rparr>)"

definition set_session :: "string \<Rightarrow> (compute_session \<Rightarrow> compute_session) \<Rightarrow> unit op" where
  "set_session i f =
     modify (\<lambda>w. w\<lparr>compute_sessions := update_where (\<lambda>s. cs_id s = i) f (compute_sessions w)\<rparr>)"

definition set_ledger :: "string \<Rightarrow> (storage_ledger \<Rightarrow> storage_ledger) \<Rightarrow> unit op" where
  "set_ledger i f =
     modify (\<lambda>w. w\<lparr>storage_ledgers := update_where (\<lambda>l. sl_id l = i) f (storage_ledgers w)\<rparr>)"

definition plans_of :: "string \<Rightarrow> world \<Rightarrow> user_plan list" where
  "plans_of uid w = filter (\<lambda>p. up_user_id p = uid) (user_plans w)"

definition open_sessions_of :: "string \<Rightarrow> world \<Rightarrow> compute_session list" where
  "open_sessions_of sid w =
     filter (\<lambda>s. cs_sandbox_id s = sid \<and> cs_ended_at s = None) (compute_sessions w)"

definition active_ledgers_of :: "string \<Rightarrow> world \<Rightarrow> storage_ledger list" where
  "active_ledgers_of sid w =
     filter (\<lambda>l. sl_sandbox_id l = Some sid \<and> sl_storage_state l = SL_ACTIVE) (storage_ledgers w)"

definition unexpired :: "time \<Rightarrow> time option \<Rightarrow> bool" where
  "unexpired now e \<longleftrightarrow> (case e of None \<Rightarrow> True | Some t \<Rightarrow> now < t)"

subsection \<open>Plans\<close>

definition get_tier_template :: "string \<Rightarrow> tier_template op" where
  "get_tier_template tier_name =
     ebind (select_one_or_none
       (\<lambda>w. filter (\<lambda>t. tt_tier_name t = tier_name \<and> tt_is_active t) (tier_templates w))) (\<lambda>r.
     case r of None \<Rightarrow> raise (NotFoundError ''TierTemplate'' tier_name) | Some t \<Rightarrow> ret t)"

definition create_welcome_bonus :: "string \<Rightarrow> time \<Rightarrow> unit op" where
  "create_welcome_bonus uid now =
     ebind (draw_id ''cg'') (\<lambda>i.
     modify (\<lambda>w. w\<lparr>compute_grants := compute_grants w @
       [\<lparr>cg_id = i, cg_user_id = uid, cg_grant_type = ''welcome_bonus'', cg_campaign_id = None,
         cg_original_amount = WELCOME_BONUS_AMOUNT, cg_remaining_amount = WELCOME_BONUS_AMOUNT,
         cg_reason = Some ''Welcome bonus for new users'', cg_granted_by = None, cg_granted_at = now,
         cg_expires_at = Some (now + WELCOME_BONUS_EXPIRY_DAYS * day_us),
         cg_gmt_updated = now\<rparr>]\<rparr>))"

definition new_plan :: "string \<Rightarrow> tier_template \<Rightarrow> datetime \<Rightarrow> user_plan" where
  "new_plan uid t now =
     (let (period_start, period_end) = compute_period_bounds now
      in \<lparr>up_user_id = uid, up_tier = tt_tier_name t,
          up_compute_units_monthly_limit = tt_compute_units_monthly t,
          up_storage_capacity_limit_gib = tt_storage_capacity_gib t,
          up_max_concurrent_running = tt_max_concurrent_running t,
          up_max_sandbox_duration_seconds = tt_max_sandbox_duration_seconds t,
          up_allowed_templates = tt_allowed_templates t,
          up_grace_period_seconds = tt_grace_period_seconds t,
          up_period_start = utc_ts period_start, up_period_end = utc_ts period_end,
          up_compute_units_monthly_used = 0, up_compute_units_overage = 0, up_overrides = None,
          up_grace_period_started_at = None, up_warning_80_notified_at = None,
          up_warning_100_notified_at = None, up_gmt_updated = utc_ts now\<rparr>)"

text \<open>\<open>rival\<close> is the plan that a concurrent request committed between the first \<^verbatim>\<open>SELECT\<close> and the
  flush, if there is one: the insertion then violates the unique key and the winner is returned.\<close>

definition ensure_user_plan_race ::
    "user_plan option \<Rightarrow> datetime \<Rightarrow> string \<Rightarrow> string \<Rightarrow> user_plan op" where
  "ensure_user_plan_race rival now uid tier =
     ebind (select_one_or_none (plans_of uid)) (\<lambda>existing.
     case existing of
       Some p \<Rightarrow> ret p
     | None \<Rightarrow>
         ebind (get_tier_template tier) (\<lambda>template.
         case rival of
           Some winner \<Rightarrow>
             ebind (modify (\<lambda>w. w\<lparr>user_plans := user_plans w @ [winner]\<rparr>)) (\<lambda>_.
             select_one (plans_of uid))
         | None \<Rightarrow>
             ebind (modify (\<lambda>w. w\<lparr>user_plans := user_plans w @ [new_plan uid template now]\<rparr>)) (\<lambda>_.
             ebind (if tier = ''free'' \<and> 0 < WELCOME_BONUS_AMOUNT
                    then create_welcome_bonus uid (utc_ts now) else ret ()) (\<lambda>_.
             ret (new_plan uid template now)))))"

definition ensure_user_plan :: "datetime \<Rightarrow> string \<Rightarrow> string \<Rightarrow> user_plan op" where
  "ensure_user_plan = ensure_user_plan_race None"

definition get_user_plan :: "datetime \<Rightarrow> string \<Rightarrow> user_plan op" where
  "get_user_plan now uid = ensure_user_plan now uid ''free''"

definition get_user_plan_for_update :: "datetime \<Rightarrow> string \<Rightarrow> user_plan op" where
  "get_user_plan_for_update now uid =
     ebind (select_one_or_none (plans_of uid)) (\<lambda>r.
     case r of
       Some p \<Rightarrow> ret p
     | None \<Rightarrow> ebind (ensure_user_plan now uid ''free'') (\<lambda>_. select_one (plans_of uid)))"

fun set_override :: "string \<times> override_value \<Rightarrow> user_plan \<Rightarrow> exn + user_plan" where
  "set_override (k, ODec x) p =
     (if k = ''compute_units_monthly_limit'' then Inr (p\<lparr>up_compute_units_monthly_limit := x\<rparr>)
      else Inl (DataError k))"
| "set_override (k, OInt n) p =
     (if k = ''compute_units_monthly_limit'' then Inr (p\<lparr>up_compute_units_monthly_limit := of_int n\<rparr>)
      else if k = ''storage_capacity_limit_gib'' then Inr (p\<lparr>up_storage_capacity_limit_gib := n\<rparr>)
      else if k = ''max_concurrent_running'' then Inr (p\<lparr>up_max_concurrent_running := n\<rparr>)
      else if k = ''max_sandbox_duration_seconds''
           then Inr (p\<lparr>up_max_sandbox_duration_seconds := n\<rparr>)
      else if k = ''grace_period_seconds'' then Inr (p\<lparr>up_grace_period_seconds := n\<rparr>)
      else Inl (DataError k))"
| "set_override (k, OList l) p =
     (if k = ''allowed_templates'' then Inr (p\<lparr>up_allowed_templates := l\<rparr>)
      else Inl (DataError k))"

fun set_overrides :: "(string \<times> override_value) list \<Rightarrow> user_plan \<Rightarrow> exn + user_plan" where
  "set_overrides [] p = Inr p"
| "set_overrides (kv # kvs) p =
     (case set_override kv p of Inl e \<Rightarrow> Inl e | Inr q \<Rightarrow> set_overrides kvs q)"

definition apply_overrides :: "(string \<times> override_value) list \<Rightarrow> user_plan \<Rightarrow> exn + user_plan" where
  "apply_overrides ov p =
     (case find (\<lambda>k. k \<notin> set ALLOWED_PLAN_OVERRIDES) (map fst ov) of
        Some k \<Rightarrow> Inl (ValidationError (''Invalid override key: '' @ k))
      | None \<Rightarrow> set_overrides ov p)"

definition copy_tier :: "tier_template \<Rightarrow> time \<Rightarrow> user_plan \<Rightarrow> user_plan" where
  "copy_tier t now p = p\<lparr>
     up_tier := tt_tier_name t,
     up_compute_units_monthly_limit := tt_compute_units_monthly t,
     up_storage_capacity_limit_gib := tt_storage_capacity_gib t,
     up_max_concurrent_running := tt_max_concurrent_running t,
     up_max_sandbox_duration_seconds := tt_max_sandbox_duration_seconds t,
     up_allowed_templates := tt_allowed_templates t,
     up_grace_period_seconds := tt_grace_period_seconds t,
     up_gmt_updated := now\<rparr>"

definition update_user_tier ::
    "datetime \<Rightarrow> string \<Rightarrow> string \<Rightarrow> (string \<times> override_value) list option \<Rightarrow> user_plan op" where
  "update_user_tier now uid new_tier overrides =
     ebind (get_tier_template new_tier) (\<lambda>template.
     ebind (select_one_or_none (plans_of uid)) (\<lambda>r.
     ebind (case r of Some p \<Rightarrow> ret p | None \<Rightarrow> ensure_user_plan now uid new_tier) (\<lambda>plan.
     let plan1 = copy_tier template (utc_ts now) plan
     in (case overrides of
           None \<Rightarrow> ebind (set_plan uid (\<lambda>_. plan1)) (\<lambda>_. ret plan1)
         | Some ov \<Rightarrow>
             if ov = [] then ebind (set_plan uid (\<lambda>_. plan1)) (\<lambda>_. ret plan1)
             else ebind (set_plan uid (\<lambda>_. plan1)) (\<lambda>_.
                  ebind (of_sum (apply_overrides ov plan1)) (\<lambda>plan2.
                  ebind (set_plan uid (\<lambda>_. plan2\<lparr>up_overrides := Some ov\<rparr>)) (\<lambda>_.
                  ret (plan2\<lparr>up_overrides := Some ov\<rparr>))))))))"

subsection \<open>Credit consumption\<close>

definition consumable :: "string \<Rightarrow> time \<Rightarrow> compute_grant \<Rightarrow> bool" where
  "consumable uid now g \<longleftrightarrow>
     cg_user_id g = uid \<and> 0 < cg_remaining_amount g \<and> unexpired now (cg_expires_at g)"

text \<open>\<^verbatim>\<open>ORDER BY expires_at ASC NULLS LAST\<close>.\<close>

definition order_by_expiry :: "compute_grant list \<Rightarrow> compute_grant list" where
  "order_by_expiry gs =
     sort_key (\<lambda>g. the (cg_expires_at g)) (filter (\<lambda>g. cg_expires_at g \<noteq> None) gs) @
     filter (\<lambda>g. cg_expires_at g = None) gs"

fun deduct_grants ::
    "time \<Rightarrow> dec \<Rightarrow> dec \<Rightarrow> compute_grant list \<Rightarrow> compute_grant list \<times> dec \<times> dec" where
  "deduct_grants now consumed needed [] = ([], consumed, needed)"
| "deduct_grants now consumed needed (g # gs) =
     (if needed \<le> 0 then (g # gs, consumed, needed)
      else let deduct = min (cg_remaining_amount g) needed;
               (gs', c, n) = deduct_grants now (dadd consumed deduct) (dsub needed deduct) gs
           in (g\<lparr>cg_remaining_amount := dsub (cg_remaining_amount g) deduct,
                 cg_gmt_updated := now\<rparr> # gs', c, n))"

text \<open>The session writes the changed ORM objects back to the rows with their id.\<close>

definition grant_row :: "compute_grant list \<Rightarrow> compute_grant \<Rightarrow> compute_grant" where
  "grant_row new g = (case find (\<lambda>h. cg_id h = cg_id g) new of Some h \<Rightarrow> h | None \<Rightarrow> g)"

definition write_grants :: "compute_grant list \<Rightarrow> compute_grant list \<Rightarrow> compute_grant list" where
  "write_grants new old = map (grant_row new) old"

definition consume_compute_credits :: "datetime \<Rightarrow> string \<Rightarrow> dec \<Rightarrow> consume_result op" where
  "consume_compute_credits now uid amount =
     (if amount \<le> 0 then ret \<lparr>res_monthly = 0, res_extra = 0, res_shortfall = 0\<rparr>
      else
        ebind (get_user_plan_for_update now uid) (\<lambda>plan.
        let t = utc_ts now;
            monthly_remaining =
              dsub (up_compute_units_monthly_limit plan) (up_compute_units_monthly_used plan)
        in if amount \<le> monthly_remaining then
             ebind (set_plan uid (\<lambda>p. p\<lparr>
               up_compute_units_monthly_used := dadd (up_compute_units_monthly_used p) amount,
               up_gmt_updated := t\<rparr>)) (\<lambda>_.
             ret \<lparr>res_monthly = amount, res_extra = 0, res_shortfall = 0\<rparr>)
           else
             (let monthly_consumed = max 0 monthly_remaining;
                  extra_needed = dsub amount monthly_consumed
              in
              ebind (if 0 < monthly_consumed then set_plan uid (\<lambda>p. p\<lparr>
                       up_compute_units_monthly_used := up_compute_units_monthly_limit p,
                       up_gmt_updated := t\<rparr>) else ret ()) (\<lambda>_.
              ebind (gets (\<lambda>w. order_by_expiry (filter (consumable uid t) (compute_grants w)))) (\<lambda>grants.
              case deduct_grants t 0 extra_needed grants of (grants', extra_consumed, needed) \<Rightarrow>
              ebind (modify (\<lambda>w. w\<lparr>compute_grants := write_grants grants' (compute_grants w)\<rparr>)) (\<lambda>_.
              let shortfall = max 0 needed
              in ebind (if 0 < shortfall then set_plan uid (\<lambda>p. p\<lparr>
                   up_compute_units_overage := dadd (up_compute_units_overage p) shortfall,
                   up_gmt_updated := t\<rparr>) else ret ()) (\<lambda>_.
                 ret \<lparr>res_monthly = monthly_consumed, res_extra = extra_consumed,
                      res_shortfall = shortfall\<rparr>)))))))"

subsection \<open>Compute sessions\<close>

definition open_compute_session :: "time \<Rightarrow> string \<Rightarrow> string \<Rightarrow> string \<Rightarrow> compute_session op" where
  "open_compute_session now sid uid template =
     ebind (select_one_or_none (open_sessions_of sid)) (\<lambda>existing.
     case existing of
       Some s \<Rightarrow> ret s
     | None \<Rightarrow>
         ebind (get_template_resource_spec template) (\<lambda>(vcpu, memory_gib).
         ebind (draw_id ''cs'') (\<lambda>i.
         let s = \<lparr>cs_id = i, cs_sandbox_id = sid, cs_user_id = uid, cs_template = template,
                  cs_vcpu_request = vcpu, cs_memory_gib_request = memory_gib,
                  cs_started_at = now, cs_ended_at = None, cs_last_metered_at = now,
                  cs_vcpu_hours = 0, cs_memory_gib_hours = 0, cs_gmt_updated = now\<rparr>
         in ebind (modify (\<lambda>w. w\<lparr>compute_sessions := compute_sessions w @ [s]\<rparr>)) (\<lambda>_. ret s))))"

definition accrue_session :: "dec \<Rightarrow> compute_session \<Rightarrow> compute_session" where
  "accrue_session elapsed_hours s = s\<lparr>
     cs_vcpu_hours := dadd (cs_vcpu_hours s) (dmul (cs_vcpu_request s) elapsed_hours),
     cs_memory_gib_hours :=
       dadd (cs_memory_gib_hours s) (dmul (cs_memory_gib_request s) elapsed_hours)\<rparr>"

definition close_compute_session :: "datetime \<Rightarrow> string \<Rightarrow> compute_session option op" where
  "close_compute_session now sid =
     ebind (select_one_or_none (open_sessions_of sid)) (\<lambda>r.
     case r of
       None \<Rightarrow> ret None
     | Some s \<Rightarrow>
         (let t = utc_ts now;
              elapsed = total_seconds (t - cs_last_metered_at s);
              elapsed_seconds = (if MAX_CLOSE_DELTA_SECONDS < elapsed then MAX_CLOSE_DELTA_SECONDS
                                 else elapsed);
              elapsed_hours = ddiv elapsed_seconds 3600
          in ebind (if 0 < elapsed_seconds then
                      ebind (set_session (cs_id s) (accrue_session elapsed_hours)) (\<lambda>_.
                      ebind (calculate_cu_rate (cs_template s)) (\<lambda>cu_rate.
                      let cu_delta = dmul cu_rate elapsed_hours
                      in if 0 < cu_delta
                         then ebind (consume_compute_credits now (cs_user_id s) cu_delta) (\<lambda>_. ret ())
                         else ret ()))
                    else ret ()) (\<lambda>_.
             let fin = (\<lambda>c. c\<lparr>cs_ended_at := Some t, cs_last_metered_at := t, cs_gmt_updated := t\<rparr>)
             in ebind (set_session (cs_id s) fin) (\<lambda>_.
                ret (Some (fin (if 0 < elapsed_seconds then accrue_session elapsed_hours s else s)))))))"

subsection \<open>Storage ledger\<close>

definition record_storage_allocation ::
    "time \<Rightarrow> string \<Rightarrow> string \<Rightarrow> int \<Rightarrow> backend_mode \<Rightarrow> storage_ledger op" where
  "record_storage_allocation now uid sid size_gib mode =
     ebind (select_one_or_none (active_ledgers_of sid)) (\<lambda>existing.
     case existing of
       Some l \<Rightarrow>
         if sl_backend_mode l \<noteq> mode then
           ebind (set_ledger (sl_id l) (\<lambda>l. l\<lparr>sl_backend_mode := mode, sl_gmt_updated := now\<rparr>)) (\<lambda>_.
           ret (l\<lparr>sl_backend_mode := mode, sl_gmt_updated := now\<rparr>))
         else ret l
     | None \<Rightarrow>
         ebind (draw_id ''sl'') (\<lambda>i.
         let l = \<lparr>sl_id = i, sl_user_id = uid, sl_sandbox_id = Some sid, sl_size_gib = size_gib,
                  sl_storage_state = SL_ACTIVE, sl_backend_mode = mode, sl_allocated_at = now,
                  sl_released_at = None, sl_gib_hours_consumed = 0, sl_last_metered_at = now,
                  sl_gmt_updated = now\<rparr>
         in ebind (modify (\<lambda>w. w\<lparr>storage_ledgers := storage_ledgers w @ [l]\<rparr>)) (\<lambda>_. ret l)))"

definition update_storage_backend_mode ::
    "time \<Rightarrow> string \<Rightarrow> backend_mode \<Rightarrow> storage_ledger option op" where
  "update_storage_backend_mode now sid mode =
     ebind (select_one_or_none (active_ledgers_of sid)) (\<lambda>r.
     case r of
       None \<Rightarrow> ret None
     | Some l \<Rightarrow>
         if sl_backend_mode l = mode then ret (Some l)
         else ebind (set_ledger (sl_id l) (\<lambda>l. l\<lparr>sl_backend_mode := mode, sl_gmt_updated := now\<rparr>)) (\<lambda>_.
              ret (Some (l\<lparr>sl_backend_mode := mode, sl_gmt_updated := now\<rparr>))))"

definition release_ledger :: "time \<Rightarrow> storage_ledger \<Rightarrow> storage_ledger" where
  "release_ledger now l =
     (let elapsed_seconds = total_seconds (now - sl_last_metered_at l);
          hours = (if 0 < elapsed_seconds
                   then dadd (sl_gib_hours_consumed l)
                          (quant4 (ddiv (dmul (of_int (sl_size_gib l)) elapsed_seconds) 3600))
                   else sl_gib_hours_consumed l)
      in l\<lparr>sl_gib_hours_consumed := hours, sl_storage_state := SL_DELETED, sl_released_at := Some now,
           sl_last_metered_at := now, sl_gmt_updated := now\<rparr>)"

definition record_storage_release :: "time \<Rightarrow> string \<Rightarrow> storage_ledger option op" where
  "record_storage_release now sid =
     ebind (select_one_or_none (active_ledgers_of sid)) (\<lambda>r.
     case r of
       None \<Rightarrow> ret None
     | Some l \<Rightarrow> ebind (set_ledger (sl_id l) (release_ledger now)) (\<lambda>_. ret (Some (release_ledger now l))))"

subsection \<open>Query helpers and quota checks\<close>

definition get_extra_compute_remaining :: "time \<Rightarrow> string \<Rightarrow> dec op" where
  "get_extra_compute_remaining now uid =
     gets (\<lambda>w. sum_list (map cg_remaining_amount (filter (consumable uid now) (compute_grants w))))"

definition get_extra_storage_quota :: "time \<Rightarrow> string \<Rightarrow> int op" where
  "get_extra_storage_quota now uid =
     gets (\<lambda>w. sum_list (map sq_size_gib
       (filter (\<lambda>g. sq_user_id g = uid \<and> unexpired now (sq_expires_at g)) (storage_quota_grants w))))"

definition get_current_storage_used :: "string \<Rightarrow> int op" where
  "get_current_storage_used uid =
     gets (\<lambda>w. sum_list (map sl_size_gib
       (filter (\<lambda>l. sl_user_id l = uid \<and> sl_storage_state l = SL_ACTIVE) (storage_ledgers w))))"

definition is_running :: "sandbox \<Rightarrow> bool" where
  "is_running s \<longleftrightarrow> sb_status s = CREATING \<or> sb_status s = READY"

definition count_running_sandboxes :: "string \<Rightarrow> int op" where
  "count_running_sandboxes uid =
     gets (\<lambda>w. int (length (filter (\<lambda>s. sb_owner_id s = uid \<and> is_running s) (sandboxes w))))"

definition total_remaining :: "user_plan \<Rightarrow> dec \<Rightarrow> dec" where
  "total_remaining plan extra =
     dsub (dadd (dsub (up_compute_units_monthly_limit plan) (up_compute_units_monthly_used plan)) extra)
       (up_compute_units_overage plan)"

definition get_total_compute_remaining :: "datetime \<Rightarrow> string \<Rightarrow> dec op" where
  "get_total_compute_remaining now uid =
     ebind (get_user_plan now uid) (\<lambda>plan.
     ebind (get_extra_compute_remaining (utc_ts now) uid) (\<lambda>extra.
     ret (total_remaining plan extra)))"

definition get_total_storage_quota :: "datetime \<Rightarrow> string \<Rightarrow> int op" where
  "get_total_storage_quota now uid =
     ebind (get_user_plan now uid) (\<lambda>plan.
     ebind (get_extra_storage_quota (utc_ts now) uid) (\<lambda>extra.
     ret (up_storage_capacity_limit_gib plan + extra)))"

definition check_template_allowed :: "datetime \<Rightarrow> string \<Rightarrow> string \<Rightarrow> unit op" where
  "check_template_allowed now uid template =
     ebind (get_user_plan now uid) (\<lambda>plan.
     if template \<notin> set (up_allowed_templates plan)
     then raise (TemplateNotAllowedError (up_tier plan) template (up_allowed_templates plan))
     else ret ())"

definition check_compute_quota :: "datetime \<Rightarrow> string \<Rightarrow> unit op" where
  "check_compute_quota now uid =
     ebind (get_user_plan now uid) (\<lambda>plan.
     ebind (get_extra_compute_remaining (utc_ts now) uid) (\<lambda>extra.
     if total_remaining plan extra \<le> 0
     then raise (ComputeQuotaExceededError (up_compute_units_monthly_used plan)
                   (up_compute_units_monthly_limit plan) extra)
     else ret ()))"

definition check_concurrent_limit :: "datetime \<Rightarrow> string \<Rightarrow> unit op" where
  "check_concurrent_limit now uid =
     ebind (get_user_plan_for_update now uid) (\<lambda>plan.
     ebind (count_running_sandboxes uid) (\<lambda>running_count.
     if up_max_concurrent_running plan \<le> running_count
     then raise (ConcurrentLimitError running_count (up_max_concurrent_running plan))
     else ret ()))"

definition check_storage_quota :: "datetime \<Rightarrow> string \<Rightarrow> int \<Rightarrow> unit op" where
  "check_storage_quota now uid requested_gib =
     ebind (get_user_plan now uid) (\<lambda>plan.
     ebind (get_extra_storage_quota (utc_ts now) uid) (\<lambda>extra.
     ebind (get_current_storage_used uid) (\<lambda>current_used.
     let total_quota = up_storage_capacity_limit_gib plan + extra;
         available = total_quota - current_used
     in if available < requested_gib
        then raise (StorageQuotaExceededError current_used requested_gib total_quota)
        else ret ())))"

definition check_sandbox_duration :: "datetime \<Rightarrow> string \<Rightarrow> int op" where
  "check_sandbox_duration now uid =
     ebind (get_user_plan now uid) (\<lambda>plan. ret (up_max_sandbox_duration_seconds plan))"

subsection \<open>Usage of a period\<close>

definition period_overlap_ratio :: "time \<Rightarrow> time option \<Rightarrow> time \<Rightarrow> time \<Rightarrow> time \<Rightarrow> dec" where
  "period_overlap_ratio started_at ended_at now period_start period_end =
     (let effective_end = min (min (case ended_at of None \<Rightarrow> now | Some e \<Rightarrow> e) now) period_end
      in if effective_end \<le> started_at then 0
         else let overlap_start = max started_at period_start;
                  overlap_end = min effective_end period_end
              in if overlap_end \<le> overlap_start then 0
                 else let total = total_seconds (effective_end - started_at);
                          overlap = total_seconds (overlap_end - overlap_start)
                      in if total \<le> 0 then 0 else ddiv overlap total)"

definition session_overlaps :: "string \<Rightarrow> time \<Rightarrow> time \<Rightarrow> compute_session \<Rightarrow> bool" where
  "session_overlaps uid period_start period_end s \<longleftrightarrow>
     cs_user_id s = uid \<and> cs_started_at s < period_end \<and>
     (case cs_ended_at s of None \<Rightarrow> True | Some e \<Rightarrow> period_start < e)"

fun sum_usage ::
    "time \<Rightarrow> time \<Rightarrow> time \<Rightarrow> dec \<Rightarrow> dec \<Rightarrow> compute_session list \<Rightarrow> dec \<times> dec" where
  "sum_usage now ps pe v m [] = (v, m)"
| "sum_usage now ps pe v m (s # ss) =
     (let r = period_overlap_ratio (cs_started_at s) (cs_ended_at s) now ps pe
      in sum_usage now ps pe (dadd v (dmul (cs_vcpu_hours s) r)) (dadd m (dmul (cs_memory_gib_hours s) r)) ss)"

definition get_compute_usage_for_period :: "time \<Rightarrow> string \<Rightarrow> time \<Rightarrow> time \<Rightarrow> (dec \<times> dec) op" where
  "get_compute_usage_for_period now uid ps pe =
     gets (\<lambda>w. sum_usage now ps pe 0 0 (filter (session_overlaps uid ps pe) (compute_sessions w)))"

definition session_fully_contained :: "time \<Rightarrow> time \<Rightarrow> time \<Rightarrow> compute_session \<Rightarrow> sql_bool" where
  "session_fully_contained now ps pe s =
     sql_and (Some (ps \<le> cs_started_at s))
       (sql_or (sql_le (cs_ended_at s) pe)
          (sql_and (Some (cs_ended_at s = None)) (Some (now \<le> pe))))"

definition cu_hours :: "dec \<Rightarrow> dec \<Rightarrow> dec" where
  "cu_hours v m = dadd (dmul CU_VCPU_WEIGHT v) (dmul CU_MEMORY_WEIGHT m)"

fun sum_cu_hours :: "time \<Rightarrow> time \<Rightarrow> time \<Rightarrow> dec \<Rightarrow> compute_session list \<Rightarrow> dec" where
  "sum_cu_hours now ps pe acc [] = acc"
| "sum_cu_hours now ps pe acc (s # ss) =
     sum_cu_hours now ps pe
       (dadd acc (dmul (cu_hours (cs_vcpu_hours s) (cs_memory_gib_hours s))
          (period_overlap_ratio (cs_started_at s) (cs_ended_at s) now ps pe))) ss"

definition get_compute_unit_hours_for_period :: "time \<Rightarrow> string \<Rightarrow> time \<Rightarrow> time \<Rightarrow> dec op" where
  "get_compute_unit_hours_for_period now uid ps pe =
     gets (\<lambda>w. let overlapping = filter (session_overlaps uid ps pe) (compute_sessions w);
                   full = filter (\<lambda>s. sql_where (session_fully_contained now ps pe s)) overlapping;
                   part = filter (\<lambda>s. sql_where (sql_not (session_fully_contained now ps pe s)))
                            overlapping
               in sum_cu_hours now ps pe
                    (cu_hours (sum_list (map cs_vcpu_hours full)) (sum_list (map cs_memory_gib_hours full)))
                    part)"

definition ledger_overlaps :: "string \<Rightarrow> time \<Rightarrow> time \<Rightarrow> storage_ledger \<Rightarrow> bool" where
  "ledger_overlaps uid ps pe l \<longleftrightarrow>
     sl_user_id l = uid \<and> sl_allocated_at l < pe \<and>
     (case sl_released_at l of None \<Rightarrow> True | Some r \<Rightarrow> ps < r)"

definition ledger_fully_contained_released :: "time \<Rightarrow> time \<Rightarrow> storage_ledger \<Rightarrow> bool" where
  "ledger_fully_contained_released ps pe l \<longleftrightarrow>
     ps \<le> sl_allocated_at l \<and> (case sl_released_at l of None \<Rightarrow> False | Some r \<Rightarrow> r \<le> pe)"

fun sum_gib_hours :: "time \<Rightarrow> time \<Rightarrow> time \<Rightarrow> dec \<Rightarrow> storage_ledger list \<Rightarrow> dec" where
  "sum_gib_hours now ps pe acc [] = acc"
| "sum_gib_hours now ps pe acc (l # ls) =
     (let effective_start = max (sl_allocated_at l) ps;
          effective_end = min (min (case sl_released_at l of None \<Rightarrow> now | Some r \<Rightarrow> r) pe) now;
          elapsed_seconds = total_seconds (effective_end - effective_start)
      in sum_gib_hours now ps pe
           (if 0 < elapsed_seconds
            then dadd acc (ddiv (dmul (of_int (sl_size_gib l)) elapsed_seconds) 3600) else acc) ls)"

definition get_storage_gib_hours_for_period :: "time \<Rightarrow> string \<Rightarrow> time \<Rightarrow> time \<Rightarrow> dec op" where
  "get_storage_gib_hours_for_period now uid ps pe =
     gets (\<lambda>w. let overlapping = filter (ledger_overlaps uid ps pe) (storage_ledgers w);
                   full = filter (ledger_fully_contained_released ps pe) overlapping;
                   part = filter (\<lambda>l. \<not> ledger_fully_contained_released ps pe l) overlapping
               in quant4 (sum_gib_hours now ps pe (sum_list (map sl_gib_hours_consumed full)) part))"

subsection \<open>The usage summary\<close>

record usage_summary =
  us_tier :: string
  us_period :: "time \<times> time"
  us_compute_unit_hours :: dec
  us_monthly_limit :: dec
  us_monthly_used :: dec
  us_monthly_remaining :: dec
  us_extra_remaining :: dec
  us_total_remaining :: dec
  us_gib_hours :: dec
  us_current_used_gib :: int
  us_total_quota_gib :: int
  us_available_gib :: int
  us_max_concurrent_running :: int
  us_current_running :: int
  us_max_sandbox_duration_seconds :: int
  us_allowed_templates :: "string list"
  us_grace_active :: bool
  us_grace_started_at :: "time option"
  us_grace_expires_at :: "time option"
  us_grace_period_seconds :: int

definition get_usage_summary_snapshot ::
    "datetime \<Rightarrow> string \<Rightarrow> (user_plan \<times> int \<times> int \<times> int \<times> dec) op" where
  "get_usage_summary_snapshot now uid =
     ebind (select_one_or_none (plans_of uid)) (\<lambda>row.
     ebind (case row of
              Some p \<Rightarrow> ret p
            | None \<Rightarrow> ebind (ensure_user_plan now uid ''free'') (\<lambda>_. select_one (plans_of uid))) (\<lambda>plan.
     ebind (get_extra_storage_quota (utc_ts now) uid) (\<lambda>extra_storage.
     ebind (get_current_storage_used uid) (\<lambda>used.
     ebind (count_running_sandboxes uid) (\<lambda>running.
     ebind (get_extra_compute_remaining (utc_ts now) uid) (\<lambda>extra_compute.
     ret (plan, extra_storage, used, running, extra_compute)))))))"

definition get_usage_summary :: "datetime \<Rightarrow> string \<Rightarrow> usage_summary op" where
  "get_usage_summary now uid =
     ebind (get_usage_summary_snapshot now uid) (\<lambda>(plan, extra_storage, used, running, extra_compute).
     let t = utc_ts now;
         total_storage_quota = up_storage_capacity_limit_gib plan + extra_storage;
         monthly_remaining =
           max 0 (dsub (up_compute_units_monthly_limit plan) (up_compute_units_monthly_used plan))
     in ebind (get_compute_unit_hours_for_period t uid (up_period_start plan) (up_period_end plan)) (\<lambda>cu.
        ebind (get_storage_gib_hours_for_period t uid (up_period_start plan) (up_period_end plan)) (\<lambda>gib.
        ret \<lparr>us_tier = up_tier plan, us_period = (up_period_start plan, up_period_end plan),
             us_compute_unit_hours = cu, us_monthly_limit = up_compute_units_monthly_limit plan,
             us_monthly_used = up_compute_units_monthly_used plan,
             us_monthly_remaining = monthly_remaining, us_extra_remaining = extra_compute,
             us_total_remaining =
               dsub (dadd monthly_remaining extra_compute) (up_compute_units_overage plan),
             us_gib_hours = gib, us_current_used_gib = used, us_total_quota_gib = total_storage_quota,
             us_available_gib = total_storage_quota - used,
             us_max_concurrent_running = up_max_concurrent_running plan, us_current_running = running,
             us_max_sandbox_duration_seconds = up_max_sandbox_duration_seconds plan,
             us_allowed_templates = up_allowed_templates plan,
             us_grace_active = (up_grace_period_started_at plan \<noteq> None),
             us_grace_started_at = up_grace_period_started_at plan,
             us_grace_expires_at =
               map_option (\<lambda>g. g + seconds (up_grace_period_seconds plan)) (up_grace_period_started_at plan),
             us_grace_period_seconds = up_grace_period_seconds plan\<rparr>)))"

subsection \<open>Listings\<close>

definition page :: "nat \<Rightarrow> nat \<Rightarrow> 'a list \<Rightarrow> 'a list" where
  "page limit offset xs = take limit (drop offset xs)"

definition order_desc :: "('a \<Rightarrow> int) \<Rightarrow> 'a list \<Rightarrow> 'a list" where
  "order_desc k xs = sort_key (\<lambda>x. - k x) xs"

definition list_compute_sessions ::
    "string \<Rightarrow> string \<Rightarrow> nat \<Rightarrow> nat \<Rightarrow> (compute_session list \<times> nat) op" where
  "list_compute_sessions uid status limit offset =
     gets (\<lambda>w. let base = filter (\<lambda>s. cs_user_id s = uid \<and>
                     (if status = ''active'' then cs_ended_at s = None
                      else if status = ''completed'' then cs_ended_at s \<noteq> None else True))
                   (compute_sessions w)
               in (page limit offset (order_desc cs_started_at base), length base))"

definition list_storage_ledger ::
    "string \<Rightarrow> string \<Rightarrow> nat \<Rightarrow> nat \<Rightarrow> (storage_ledger list \<times> nat) op" where
  "list_storage_ledger uid status limit offset =
     gets (\<lambda>w. let base = filter (\<lambda>l. sl_user_id l = uid \<and>
                     (if status = ''active'' then sl_storage_state l = SL_ACTIVE
                      else if status = ''released'' then sl_storage_state l = SL_DELETED else True))
                   (storage_ledgers w)
               in (page limit offset (order_desc sl_allocated_at base), length base))"

definition list_compute_grants :: "string \<Rightarrow> compute_grant list op" where
  "list_compute_grants uid =
     gets (\<lambda>w. order_desc cg_granted_at (filter (\<lambda>g. cg_user_id g = uid) (compute_grants w)))"

definition list_storage_quota_grants :: "string \<Rightarrow> storage_quota_grant list op" where
  "list_storage_quota_grants uid =
     gets (\<lambda>w. order_desc sq_granted_at (filter (\<lambda>g. sq_user_id g = uid) (storage_quota_grants w)))"

definition list_tier_templates :: "tier_template list op" where
  "list_tier_templates =
     gets (\<lambda>w. sort_key tt_compute_units_monthly (filter tt_is_active (tier_templates w)))"

subsection \<open>Grants and tiers\<close>

definition create_compute_grant ::
    "time \<Rightarrow> string \<Rightarrow> dec \<Rightarrow> string \<Rightarrow> string option \<Rightarrow> string option \<Rightarrow> string option \<Rightarrow> time option
     \<Rightarrow> compute_grant op" where
  "create_compute_grant now uid amount grant_type granted_by reason campaign_id expires_at =
     ebind (draw_id ''cg'') (\<lambda>i.
     let g = \<lparr>cg_id = i, cg_user_id = uid, cg_grant_type = grant_type, cg_campaign_id = campaign_id,
              cg_original_amount = amount, cg_remaining_amount = amount, cg_reason = reason,
              cg_granted_by = granted_by, cg_granted_at = now, cg_expires_at = expires_at,
              cg_gmt_updated = now\<rparr>
     in ebind (modify (\<lambda>w. w\<lparr>compute_grants := compute_grants w @ [g]\<rparr>)) (\<lambda>_. ret g))"

definition create_storage_quota_grant ::
    "time \<Rightarrow> string \<Rightarrow> int \<Rightarrow> string \<Rightarrow> string option \<Rightarrow> string option \<Rightarrow> string option \<Rightarrow> time option
     \<Rightarrow> storage_quota_grant op" where
  "create_storage_quota_grant now uid size_gib grant_type granted_by reason campaign_id expires_at =
     ebind (draw_id ''sqg'') (\<lambda>i.
     let g = \<lparr>sq_id = i, sq_user_id = uid, sq_grant_type = grant_type, sq_campaign_id = campaign_id,
              sq_size_gib = size_gib, sq_reason = reason, sq_granted_by = granted_by,
              sq_granted_at = now, sq_expires_at = expires_at\<rparr>
     in ebind (modify (\<lambda>w. w\<lparr>storage_quota_grants := storage_quota_grants w @ [g]\<rparr>)) (\<lambda>_. ret g))"

text \<open>The updates of a tier, typed as the request schema types them; an absent field is \<open>None\<close>.\<close>

record tier_updates =
  tu_compute_units_monthly :: "dec option"
  tu_storage_capacity_gib :: "int option"
  tu_max_concurrent_running :: "int option"
  tu_max_sandbox_duration_seconds :: "int option"
  tu_allowed_templates :: "string list option"
  tu_grace_period_seconds :: "int option"

definition or_else :: "'a option \<Rightarrow> 'a \<Rightarrow> 'a" where
  "or_else x d = (case x of None \<Rightarrow> d | Some v \<Rightarrow> v)"

definition update_template_fields :: "tier_updates \<Rightarrow> time \<Rightarrow> tier_template \<Rightarrow> tier_template" where
  "update_template_fields u now t = t\<lparr>
     tt_compute_units_monthly := or_else (tu_compute_units_monthly u) (tt_compute_units_monthly t),
     tt_storage_capacity_gib := or_else (tu_storage_capacity_gib u) (tt_storage_capacity_gib t),
     tt_max_concurrent_running := or_else (tu_max_concurrent_running u) (tt_max_concurrent_running t),
     tt_max_sandbox_duration_seconds :=
       or_else (tu_max_sandbox_duration_seconds u) (tt_max_sandbox_duration_seconds t),
     tt_allowed_templates := or_else (tu_allowed_templates u) (tt_allowed_templates t),
     tt_grace_period_seconds := or_else (tu_grace_period_seconds u) (tt_grace_period_seconds t),
     tt_gmt_updated := now\<rparr>"

definition overridden :: "user_plan \<Rightarrow> string \<Rightarrow> bool" where
  "overridden p k \<longleftrightarrow> (case up_overrides p of None \<Rightarrow> False | Some ov \<Rightarrow> k \<in> fst ` set ov)"

text \<open>A field is propagated to a plan when the tier update names it and the plan has no override for it.\<close>

definition propagates :: "user_plan \<Rightarrow> 'a option \<Rightarrow> string \<Rightarrow> bool" where
  "propagates p u k \<longleftrightarrow> u \<noteq> None \<and> \<not> overridden p k"

definition propagate_plan :: "tier_updates \<Rightarrow> tier_template \<Rightarrow> user_plan \<Rightarrow> user_plan" where
  "propagate_plan u t p = p\<lparr>
     up_compute_units_monthly_limit :=
       (if propagates p (tu_compute_units_monthly u) ''compute_units_monthly_limit''
        then tt_compute_units_monthly t else up_compute_units_monthly_limit p),
     up_storage_capacity_limit_gib :=
       (if propagates p (tu_storage_capacity_gib u) ''storage_capacity_limit_gib''
        then tt_storage_capacity_gib t else up_storage_capacity_limit_gib p),
     up_max_concurrent_running :=
       (if propagates p (tu_max_concurrent_running u) ''max_concurrent_running''
        then tt_max_concurrent_running t else up_max_concurrent_running p),
     up_max_sandbox_duration_seconds :=
       (if propagates p (tu_max_sandbox_duration_seconds u) ''max_sandbox_duration_seconds''
        then tt_max_sandbox_duration_seconds t else up_max_sandbox_duration_seconds p),
     up_allowed_templates :=
       (if propagates p (tu_allowed_templates u) ''allowed_templates''
        then tt_allowed_templates t else up_allowed_templates p),
     up_grace_period_seconds :=
       (if propagates p (tu_grace_period_seconds u) ''grace_period_seconds''
        then tt_grace_period_seconds t else up_grace_period_seconds p)\<rparr>"

definition plan_changed :: "tier_updates \<Rightarrow> user_plan \<Rightarrow> bool" where
  "plan_changed u p \<longleftrightarrow>
     propagates p (tu_compute_units_monthly u) ''compute_units_monthly_limit'' \<or>
     propagates p (tu_storage_capacity_gib u) ''storage_capacity_limit_gib'' \<or>
     propagates p (tu_max_concurrent_running u) ''max_concurrent_running'' \<or>
     propagates p (tu_max_sandbox_duration_seconds u) ''max_sandbox_duration_seconds'' \<or>
     propagates p (tu_allowed_templates u) ''allowed_templates'' \<or>
     propagates p (tu_grace_period_seconds u) ''grace_period_seconds''"

definition update_tier_template :: "time \<Rightarrow> string \<Rightarrow> tier_updates \<Rightarrow> bool \<Rightarrow> (tier_template \<times> nat) op" where
  "update_tier_template now tier_name u apply_to_existing =
     ebind (get_tier_template tier_name) (\<lambda>template.
     let t = update_template_fields u now template
     in ebind (modify (\<lambda>w. w\<lparr>tier_templates :=
            update_where (\<lambda>x. tt_tier_name x = tier_name) (\<lambda>_. t) (tier_templates w)\<rparr>)) (\<lambda>_.
        if apply_to_existing then
          ebind (gets (\<lambda>w. filter (\<lambda>p. up_tier p = tier_name \<and> plan_changed u p) (user_plans w))) (\<lambda>changed.
          ebind (modify (\<lambda>w. w\<lparr>user_plans :=
            update_where (\<lambda>p. up_tier p = tier_name \<and> plan_changed u p)
              (\<lambda>p. (propagate_plan u t p)\<lparr>up_gmt_updated := now\<rparr>) (user_plans w)\<rparr>)) (\<lambda>_.
          ret (t, length changed)))
        else ret (t, 0)))"

subsection \<open>Sample rows\<close>

text \<open>Concrete rows on which hypotheses of the theorems are discharged: a user whose month is almost
  used up, with one grant that does not expire.\<close>

definition demo_now :: datetime where
  "demo_now = \<lparr>dt_year = 2025, dt_month = 6, dt_day = 15, dt_hour = 12, dt_minute = 0, dt_second = 0,
     dt_microsecond = 0\<rparr>"

definition demo_plan :: user_plan where
  "demo_plan = \<lparr>up_user_id = ''u1'', up_tier = ''free'', up_compute_units_monthly_limit = 10,
     up_storage_capacity_limit_gib = 5, up_max_concurrent_running = 1,
     up_max_sandbox_duration_seconds = 1800, up_allowed_templates = [''aio-sandbox-tiny''],
     up_grace_period_seconds = 600, up_period_start = 0, up_period_end = day_us * 30,
     up_compute_units_monthly_used = 9, up_compute_units_overage = 0, up_overrides = None,
     up_grace_period_started_at = None, up_warning_80_notified_at = None,
     up_warning_100_notified_at = None, up_gmt_updated = 0\<rparr>"

definition demo_grant :: "string \<Rightarrow> dec \<Rightarrow> time option \<Rightarrow> compute_grant" where
  "demo_grant i x e = \<lparr>cg_id = i, cg_user_id = ''u1'', cg_grant_type = ''manual'', cg_campaign_id = None,
     cg_original_amount = x, cg_remaining_amount = x, cg_reason = None, cg_granted_by = None,
     cg_granted_at = 0, cg_expires_at = e, cg_gmt_updated = 0\<rparr>"

definition demo_world :: world where
  "demo_world = empty_world\<lparr>user_plans := [demo_plan], compute_grants := [demo_grant ''g1'' (1/2) None]\<rparr>"

end
