(* ===== verification/Metering_Credits.thy ===== *)
theory Metering_Credits
  imports Metering_Service "HOL-Library.Multiset"
begin

text \<open>
  The dual-pool credit consumption of \<^verbatim>\<open>MeteringService.consume_compute_credits\<close>: what it does to
  the plan and to the grants.

  \<open>credit_ok\<close> is the well-formedness of the rows as the database holds them: one plan per user, one
  grant per id, amounts on the \<open>NUMERIC(10, 4)\<close> grid and grants that are not negative.
  \<open>fits k\<close> says that a number has at most \<open>k\<close> decimals and few enough digits for the 28-digit
  context of \<^verbatim>\<open>decimal\<close>: on such numbers the arithmetic is exact.
\<close>

definition plan_ok :: "user_plan \<Rightarrow> bool" where
  "plan_ok p \<longleftrightarrow> col4 (up_compute_units_monthly_limit p) \<and> col4 (up_compute_units_monthly_used p) \<and>
     col4 (up_compute_units_overage p) \<and> 0 \<le> up_compute_units_monthly_used p \<and>
     0 \<le> up_compute_units_overage p"

text \<open>What every consumption keeps, also between two commits, when amounts have more decimals than
  the columns: no plan is over its limit, and neither grants nor overage are negative.\<close>

definition tier_safe :: "tier_template \<Rightarrow> bool" where
  "tier_safe t \<longleftrightarrow> on_grid 4 (tt_compute_units_monthly t) \<and> 0 \<le> tt_compute_units_monthly t \<and>
     tt_compute_units_monthly t \<le> 10 ^ 22"

definition plan_safe :: "user_plan \<Rightarrow> bool" where
  "plan_safe p \<longleftrightarrow> on_grid 4 (up_compute_units_monthly_limit p) \<and>
     up_compute_units_monthly_limit p \<le> 10 ^ 22 \<and> 0 \<le> up_compute_units_monthly_used p \<and>
     up_compute_units_monthly_used p \<le> up_compute_units_monthly_limit p \<and>
     0 \<le> up_compute_units_overage p"

definition credit_safe :: "world \<Rightarrow> bool" where
  "credit_safe w \<longleftrightarrow> list_all tier_safe (tier_templates w) \<and> list_all plan_safe (user_plans w) \<and>
     list_all (\<lambda>g. 0 \<le> cg_remaining_amount g) (compute_grants w)"

definition grant_ok :: "compute_grant \<Rightarrow> bool" where
  "grant_ok g \<longleftrightarrow> col4 (cg_remaining_amount g) \<and> 0 \<le> cg_remaining_amount g"

definition credit_ok :: "world \<Rightarrow> bool" where
  "credit_ok w \<longleftrightarrow> distinct (map up_user_id (user_plans w)) \<and> distinct (map cg_id (compute_grants w)) \<and>
     list_all plan_ok (user_plans w) \<and> list_all grant_ok (compute_grants w)"

text \<open>How a grant row may change: it keeps its identity and gives credits away.\<close>

definition drawn_from :: "compute_grant \<Rightarrow> compute_grant \<Rightarrow> bool" where
  "drawn_from g g' \<longleftrightarrow> cg_id g' = cg_id g \<and> cg_user_id g' = cg_user_id g \<and>
     cg_expires_at g' = cg_expires_at g \<and> cg_original_amount g' = cg_original_amount g \<and>
     0 \<le> cg_remaining_amount g' \<and> cg_remaining_amount g' \<le> cg_remaining_amount g"

text \<open>\<^verbatim>\<open>expires_at ASC NULLS LAST\<close> as a strict order.\<close>

definition expires_before :: "compute_grant \<Rightarrow> compute_grant \<Rightarrow> bool" where
  "expires_before g h \<longleftrightarrow> (case (cg_expires_at g, cg_expires_at h) of
       (Some a, Some b) \<Rightarrow> a < b | (Some a, None) \<Rightarrow> True | (None, _) \<Rightarrow> False)"

definition fits :: "nat \<Rightarrow> rat \<Rightarrow> bool" where
  "fits k x \<longleftrightarrow> on_grid k x \<and> \<bar>x\<bar> * 10 ^ k < 10 ^ 28"

text \<open>What an exhausted monthly pool and a shortfall do to the plan.\<close>

definition charge :: "time \<Rightarrow> dec \<Rightarrow> dec \<Rightarrow> user_plan \<Rightarrow> user_plan" where
  "charge t mc sh p =
     (let q = (if 0 < mc then p\<lparr>up_compute_units_monthly_used := up_compute_units_monthly_limit p,
                               up_gmt_updated := t\<rparr> else p)
      in if 0 < sh then q\<lparr>up_compute_units_overage := dadd (up_compute_units_overage q) sh,
                          up_gmt_updated := t\<rparr> else q)"

text \<open>The contract of the dual pool on numbers: first what is left of the month, then the grants, and
  what neither covers is the shortfall.\<close>

definition spend :: "dec \<Rightarrow> dec \<Rightarrow> dec \<Rightarrow> dec \<times> dec \<times> dec" where
  "spend monthly extra amount =
     (let m = min amount (max 0 monthly); x = min (amount - m) extra in (m, x, amount - m - x))"

text \<open>Two grants, one that expires and one that does not, for a user with one unit left this month.\<close>

definition fifo_world :: world where
  "fifo_world = empty_world\<lparr>user_plans := [demo_plan], compute_grants :=
     [demo_grant ''g2'' (1/4) None, demo_grant ''g1'' (1/2) (Some (utc_ts demo_now + day_us))]\<rparr>"

subsection \<open>Deducting from a list of grants\<close>

lemma deduct_grants_drawn:
  assumes "deduct_grants now c n gs = (gs', c', n')" and "list_all grant_ok gs"
  shows "list_all2 drawn_from gs gs'"
  using assms
proof (induction gs arbitrary: c n gs' c' n')
  case Nil
  then show ?case by simp
next
  case (Cons g gs)
  show ?case
  proof (cases "n \<le> 0")
    case True
    with Cons.prems show ?thesis
      by (auto simp: drawn_from_def grant_ok_def list_all_iff intro!: list.rel_refl_strong)
  next
    case False
    define d where "d = min (cg_remaining_amount g) n"
    obtain hs c1 n1 where rec: "deduct_grants now (dadd c d) (dsub n d) gs = (hs, c1, n1)"
      by (cases "deduct_grants now (dadd c d) (dsub n d) gs")
    have hs: "list_all2 drawn_from gs hs" by (rule Cons.IH [OF rec]) (use Cons.prems in simp)
    have "0 \<le> dsub (cg_remaining_amount g) d \<and> dsub (cg_remaining_amount g) d \<le> cg_remaining_amount g"
      unfolding dsub_def
      by (rule ctx.rnd_clamp) (use Cons.prems(2) False in \<open>auto simp: grant_ok_def d_def min_def\<close>)
    then have "drawn_from g (g\<lparr>cg_remaining_amount := dsub (cg_remaining_amount g) d, cg_gmt_updated := now\<rparr>)"
      by (simp add: drawn_from_def)
    moreover have
      "gs' = g\<lparr>cg_remaining_amount := dsub (cg_remaining_amount g) d, cg_gmt_updated := now\<rparr> # hs"
      using Cons.prems(1) False rec by (simp add: Let_def flip: d_def)
    ultimately show ?thesis using hs by simp
  qed
qed

text \<open>First in, first out: a grant is only touched when all grants before it were emptied.\<close>

lemma deduct_grants_length: "deduct_grants now c n gs = (gs', c', n') \<Longrightarrow> length gs' = length gs"
  by (induction gs arbitrary: c n gs') (auto simp: Let_def split: if_splits prod.splits)

lemma deduct_grants_stop: "n \<le> 0 \<Longrightarrow> deduct_grants now c n gs = (gs, c, n)"
  by (cases gs) auto

lemma deduct_grants_fifo:
  assumes "deduct_grants now c n gs = (gs', c', n')" and "i < j" and "j < length gs"
    and "gs' ! j \<noteq> gs ! j"
  shows "cg_remaining_amount (gs' ! i) = 0"
  using assms
proof (induction gs arbitrary: c n gs' c' n' i j)
  case Nil
  then show ?case by simp
next
  case (Cons g gs)
  have pos: "0 < n" using Cons.prems by (cases "n \<le> 0") auto
  define d where "d = min (cg_remaining_amount g) n"
  obtain hs c1 n1 where rec: "deduct_grants now (dadd c d) (dsub n d) gs = (hs, c1, n1)"
    by (cases "deduct_grants now (dadd c d) (dsub n d) gs")
  have gs': "gs' = g\<lparr>cg_remaining_amount := dsub (cg_remaining_amount g) d, cg_gmt_updated := now\<rparr> # hs"
    using Cons.prems(1) pos rec by (simp add: Let_def flip: d_def)
  obtain j' where j: "j = Suc j'" using Cons.prems(2) by (cases j) auto
  have ne: "hs ! j' \<noteq> gs ! j'" and j': "j' < length gs" using Cons.prems gs' j by auto
  show ?case
  proof (cases i)
    case 0
    have "d \<noteq> n"
    proof
      assume "d = n"
      then have "dsub n d \<le> 0" by (simp add: dsub_def ctx.rnd_zero)
      with rec ne show False by (simp add: deduct_grants_stop)
    qed
    then have "d = cg_remaining_amount g" by (simp add: d_def min_def split: if_splits)
    with 0 gs' show ?thesis by (simp add: dsub_def ctx.rnd_zero)
  next
    case (Suc i')
    with Cons.IH [OF rec _ j' ne, of i'] Cons.prems(2) gs' j show ?thesis by simp
  qed
qed

subsection \<open>Exact arithmetic\<close>

lemma fits_exact: "fits k x \<Longrightarrow> dctx x = x"
  unfolding fits_def by (rule dctx_exact) auto

lemma fits_between:
  "on_grid k x \<Longrightarrow> \<bar>x\<bar> \<le> b \<Longrightarrow> b * 10 ^ k < 10 ^ 28 \<Longrightarrow> fits k x"
  unfolding fits_def
  by (meson le_less_trans mult_right_mono zero_le_numeral zero_le_power)

lemma deduct_grants_exact:
  assumes "deduct_grants now c n gs = (gs', c', n')"
    and "list_all (\<lambda>g. on_grid k (cg_remaining_amount g) \<and> 0 \<le> cg_remaining_amount g) gs"
    and "on_grid k c" and "on_grid k n" and "0 \<le> c" and "0 \<le> n"
    and "(c + n + sum_list (map cg_remaining_amount gs)) * 10 ^ k < 10 ^ 28"
  shows "let spent = min n (sum_list (map cg_remaining_amount gs))
    in c' = c + spent \<and> n' = n - spent \<and>
       sum_list (map cg_remaining_amount gs') = sum_list (map cg_remaining_amount gs) - spent"
  using assms
proof (induction gs arbitrary: c n gs' c' n')
  case Nil
  then show ?case by simp
next
  case (Cons g gs)
  define r where "r = cg_remaining_amount g"
  define S where "S = sum_list (map cg_remaining_amount gs)"
  have g: "on_grid k r" "0 \<le> r" and bound: "(c + n + (r + S)) * 10 ^ k < 10 ^ 28"
    using Cons.prems by (simp_all add: r_def S_def)
  have "0 \<le> S" unfolding S_def
    using Cons.prems(2) by (auto intro!: sum_list_nonneg simp: list_all_iff)
  show ?case
  proof (cases "n \<le> 0")
    case True
    then have "gs' = g # gs" "c' = c" "n' = n" "n = 0" using Cons.prems by auto
    moreover have "min 0 (r + S) = 0" using \<open>0 \<le> S\<close> g by simp
    ultimately show ?thesis by (simp add: Let_def flip: S_def r_def)
  next
    case False
    define d where "d = min r n"
    have d: "0 \<le> d" "d \<le> r" "d \<le> n" "on_grid k d"
      using False g Cons.prems(4) by (auto simp: d_def on_grid_min)
    have exact: "dadd c d = c + d" "dsub n d = n - d" "dsub r d = r - d"
      unfolding dadd_def dsub_def
      by (rule fits_exact, rule fits_between [OF _ _ bound];
          use d g Cons.prems(3-6) \<open>0 \<le> S\<close> in \<open>simp add: on_grid_add on_grid_diff\<close>)+
    obtain hs c1 n1 where rec: "deduct_grants now (c + d) (n - d) gs = (hs, c1, n1)"
      by (cases "deduct_grants now (c + d) (n - d) gs")
    have res: "gs' = g\<lparr>cg_remaining_amount := r - d, cg_gmt_updated := now\<rparr> # hs" "c' = c1" "n' = n1"
      using Cons.prems(1) False rec exact by (simp_all add: Let_def flip: r_def d_def)
    have "((c + d) + (n - d) + S) * 10 ^ k < 10 ^ 28"
      by (rule le_less_trans [OF _ bound], rule mult_right_mono) (use g in simp_all)
    then have IH: "let spent = min (n - d) S
        in c1 = c + d + spent \<and> n1 = n - d - spent \<and> sum_list (map cg_remaining_amount hs) = S - spent"
      using Cons.IH [OF rec] Cons.prems d by (simp add: on_grid_add on_grid_diff flip: S_def)
    have "d + min (n - d) S = min n (r + S)"
      using \<open>0 \<le> S\<close> by (auto simp: d_def min_def)
    with IH res show ?thesis by (simp add: Let_def algebra_simps flip: S_def r_def)
  qed
qed

subsection \<open>Running a consumption\<close>

lemma select_plan [simp]:
  "plans_of uid w = [p] \<Longrightarrow> get_user_plan_for_update now uid w = (Inr p, w)"
  by (simp add: get_user_plan_for_update_def)

lemma set_plan_run [run_simps, simp]:
  "set_plan uid f w =
     (Inr (), w\<lparr>user_plans := update_where (\<lambda>p. up_user_id p = uid) f (user_plans w)\<rparr>)"
  by (simp add: set_plan_def)

lemma consume_nothing: "amount \<le> 0 \<Longrightarrow>
    consume_compute_credits now uid amount w = (Inr \<lparr>res_monthly = 0, res_extra = 0, res_shortfall = 0\<rparr>, w)"
  by (simp add: consume_compute_credits_def)

lemma consume_monthly:
  assumes "plans_of uid w = [p]" and "0 < amount"
    and "amount \<le> dsub (up_compute_units_monthly_limit p) (up_compute_units_monthly_used p)"
  shows "consume_compute_credits now uid amount w =
    (Inr \<lparr>res_monthly = amount, res_extra = 0, res_shortfall = 0\<rparr>,
     w\<lparr>user_plans := update_where (\<lambda>p. up_user_id p = uid)
        (\<lambda>p. p\<lparr>up_compute_units_monthly_used := dadd (up_compute_units_monthly_used p) amount,
               up_gmt_updated := utc_ts now\<rparr>) (user_plans w)\<rparr>)"
  using assms by (simp add: consume_compute_credits_def Let_def)

lemma consume_both:
  assumes "plans_of uid w = [p]" and "0 < amount"
    and "\<not> amount \<le> dsub (up_compute_units_monthly_limit p) (up_compute_units_monthly_used p)"
    and mc: "mc = max 0 (dsub (up_compute_units_monthly_limit p) (up_compute_units_monthly_used p))"
    and ded: "deduct_grants (utc_ts now) 0 (dsub amount mc)
        (order_by_expiry (filter (consumable uid (utc_ts now)) (compute_grants w))) = (gs', ec, n)"
  shows "consume_compute_credits now uid amount w =
    (Inr \<lparr>res_monthly = mc, res_extra = ec, res_shortfall = max 0 n\<rparr>,
     w\<lparr>user_plans := update_where (\<lambda>p. up_user_id p = uid) (charge (utc_ts now) mc (max 0 n)) (user_plans w),
       compute_grants := write_grants gs' (compute_grants w)\<rparr>)"
proof -
  define m where "m = dsub (up_compute_units_monthly_limit p) (up_compute_units_monthly_used p)"
  show ?thesis
    using assms unfolding m_def [symmetric]
    by (cases "0 < m"; cases "0 < n")
      (simp_all add: consume_compute_credits_def Let_def charge_def [abs_def] update_where_twice o_def
        update_where_same max_def m_def [symmetric])
qed

subsection \<open>The pools stay within their bounds\<close>

lemma monthly_within_limit:
  assumes "on_grid 4 l" and "l \<le> 10 ^ 22" and "0 \<le> u" and "u \<le> l" and "a \<le> dsub l u"
  shows "dadd u a \<le> l"
proof (cases "u + a \<le> l")
  case True
  have "col4 l" using assms by (simp add: col4_def)
  with True show ?thesis unfolding dadd_def by (intro ctx.rnd_le_grid)
next
  case False
  have "u \<noteq> l" using False assms(5) by (auto simp: dsub_def ctx.rnd_zero)
  then have pos: "0 < l - u" using assms(4) by simp
  have "dctx (l - u) \<le> l - u + ulp (l - u) / 2" using dctx_error [of "l - u"] pos by linarith
  moreover have "ulp (l - u) \<le> ulp l" using pos assms(3) by (intro ulp_mono) simp_all
  ultimately have "u + a \<le> l + ulp l / 2" using assms(5) by (simp add: dsub_def)
  with False assms pos show ?thesis unfolding dadd_def by (intro dctx_tie_even) simp_all
qed

subsection \<open>Looking up a plan\<close>

lemma get_tier_template_cases:
  assumes "get_tier_template n w = (r, w')"
  obtains (found) t where "r = Inr t" "w' = w" "t \<in> set (tier_templates w)" "tt_tier_name t = n" "tt_is_active t"
    | (failed) e where "r = Inl e" "w' = w"
proof (cases "scalar_one_or_none (filter (\<lambda>t. tt_tier_name t = n \<and> tt_is_active t) (tier_templates w))")
  case (Inl e)
  with assms failed show thesis by (auto simp: get_tier_template_def ebind_def select_one_or_none_def)
next
  case (Inr x)
  show thesis
  proof (cases x)
    case None
    with Inr assms failed show thesis
      by (auto simp: get_tier_template_def ebind_def select_one_or_none_def)
  next
    case (Some t)
    with Inr have "filter (\<lambda>t. tt_tier_name t = n \<and> tt_is_active t) (tier_templates w) = [t]"
      by (simp add: scalar_one_or_none_Some)
    then have "t \<in> set (filter (\<lambda>t. tt_tier_name t = n \<and> tt_is_active t) (tier_templates w))"
      by (simp only: list.set_intros)
    then have "t \<in> set (tier_templates w) \<and> tt_tier_name t = n \<and> tt_is_active t" by simp
    then show thesis using Some Inr assms
      by (intro found [of t]) (auto simp: get_tier_template_def ebind_def select_one_or_none_def)
  qed
qed

lemma up_user_id_new_plan [simp]: "up_user_id (new_plan uid t now) = uid"
  by (simp add: new_plan_def split: prod.splits)

lemma plans_of_append [simp]:
  "plans_of uid (w\<lparr>user_plans := user_plans w @ ps\<rparr>) =
     plans_of uid w @ filter (\<lambda>p. up_user_id p = uid) ps"
  by (simp add: plans_of_def)

lemma ensure_user_plan_cases:
  assumes "ensure_user_plan_race rival now uid tier w = (r, w')"
  obtains (same) "w' = w" and "\<And>p. r = Inr p \<Longrightarrow> plans_of uid w = [p]"
    | (created) t where "t \<in> set (tier_templates w)" "tt_tier_name t = tier" "plans_of uid w = []"
        "rival = None" "r = Inr (new_plan uid t now)"
        "w' = w\<lparr>user_plans := user_plans w @ [new_plan uid t now]\<rparr>"
    | (lost) q where "plans_of uid w = []" "rival = Some q" "w' = w\<lparr>user_plans := user_plans w @ [q]\<rparr>"
        "\<And>p. r = Inr p \<Longrightarrow> p = q \<and> up_user_id q = uid"
proof (cases "scalar_one_or_none (plans_of uid w)")
  case (Inl e)
  then show thesis using assms
    by (intro same) (auto simp: ensure_user_plan_race_def ebind_def select_one_or_none_def)
next
  case (Inr x)
  show thesis
  proof (cases x)
    case (Some p)
    then show thesis using Inr assms
      by (intro same)
        (auto simp: ensure_user_plan_race_def ebind_def select_one_or_none_def scalar_one_or_none_Some)
  next
    case None
    then have none: "plans_of uid w = []" using Inr by (simp add: scalar_one_or_none_None)
    obtain rt wt where g: "get_tier_template tier w = (rt, wt)" by (cases "get_tier_template tier w")
    from g show thesis
    proof (cases rule: get_tier_template_cases)
      case (failed e)
      then show thesis using assms g none
        by (intro same) (auto simp: ensure_user_plan_race_def)
    next
      case (found t)
      show thesis
      proof (cases rival)
        case None
        then show thesis using assms g none found
          by (intro created [of t]) (auto simp: ensure_user_plan_race_def WELCOME_BONUS_AMOUNT_def)
      next
        case (Some q)
        then show thesis using assms g none found
          by (intro lost [of q]) (auto simp: ensure_user_plan_race_def select_one_def split: if_splits)
      qed
    qed
  qed
qed

lemma ensure_user_plan_result:
  assumes "ensure_user_plan_race rival now uid tier w = (Inr p, w')"
  shows "plans_of uid w' = [p]"
  using assms
proof (cases rule: ensure_user_plan_cases)
  case (lost q)
  then show ?thesis by (simp del: append.simps)
qed auto

lemma get_user_plan_for_update_cases:
  assumes "get_user_plan_for_update now uid w = (r, w')"
  obtains (same) "w' = w" and "\<And>p. r = Inr p \<Longrightarrow> plans_of uid w = [p]"
    | (created) t where "t \<in> set (tier_templates w)" "tt_tier_name t = ''free''" "plans_of uid w = []"
        "r = Inr (new_plan uid t now)" "w' = w\<lparr>user_plans := user_plans w @ [new_plan uid t now]\<rparr>"
proof (cases "scalar_one_or_none (plans_of uid w)")
  case (Inl e)
  then show thesis using assms
    by (intro same) (auto simp: get_user_plan_for_update_def ebind_def select_one_or_none_def)
next
  case (Inr x)
  show thesis
  proof (cases x)
    case (Some p)
    then show thesis using Inr assms
      by (intro same)
        (auto simp: get_user_plan_for_update_def ebind_def select_one_or_none_def scalar_one_or_none_Some)
  next
    case None
    then have none: "plans_of uid w = []" using Inr by (simp add: scalar_one_or_none_None)
    obtain re we where g: "ensure_user_plan now uid ''free'' w = (re, we)"
      by (cases "ensure_user_plan now uid ''free'' w")
    from g [unfolded ensure_user_plan_def] show thesis
    proof (cases rule: ensure_user_plan_cases)
      case same
      then show thesis using assms g none
        by (cases re; intro that(1)) (auto simp: get_user_plan_for_update_def)
    next
      case (created t)
      then show thesis using assms g none
        by (intro that(2) [of t]) (auto simp: get_user_plan_for_update_def)
    qed simp
  qed
qed

lemma get_user_plan_for_update_again:
  assumes "get_user_plan_for_update now uid w = (Inr p, w')"
  shows "plans_of uid w' = [p]"
  using assms by (cases rule: get_user_plan_for_update_cases) auto

lemma consume_after_lookup:
  assumes "0 < amount" and "get_user_plan_for_update now uid w = (Inr p, w')"
  shows "consume_compute_credits now uid amount w = consume_compute_credits now uid amount w'"
  using assms get_user_plan_for_update_again [OF assms(2)]
  by (simp add: consume_compute_credits_def)

lemma consume_lookup_fails:
  assumes "0 < amount" and "get_user_plan_for_update now uid w = (Inl e, w')"
  shows "consume_compute_credits now uid amount w = (Inl e, w')"
  using assms by (simp add: consume_compute_credits_def)

subsection \<open>Consumption keeps the pools safe\<close>

lemma dadd_nonneg: "0 \<le> a \<Longrightarrow> 0 \<le> b \<Longrightarrow> 0 \<le> dadd a b"
  unfolding dadd_def by (rule ctx.rnd_nonneg) simp

lemma plan_safe_new: "tier_safe t \<Longrightarrow> plan_safe (new_plan uid t now)"
  by (simp add: plan_safe_def tier_safe_def new_plan_def split: prod.splits)

lemma plan_safe_charge: "plan_safe p \<Longrightarrow> plan_safe (charge t mc sh p)"
  by (auto simp: plan_safe_def charge_def Let_def dadd_nonneg)

lemma list_all_update_where:
  "list_all Q rs \<Longrightarrow> (\<And>r. r \<in> set rs \<Longrightarrow> q r \<Longrightarrow> Q r \<Longrightarrow> Q (f r)) \<Longrightarrow> list_all Q (update_where q f rs)"
  by (induction rs) auto

lemma deduct_grants_nonneg:
  assumes "deduct_grants now c n gs = (gs', c', n')" and "list_all (\<lambda>g. 0 \<le> cg_remaining_amount g) gs"
  shows "list_all (\<lambda>g. 0 \<le> cg_remaining_amount g) gs'"
  using assms
proof (induction gs arbitrary: c n gs' c' n')
  case Nil
  then show ?case by simp
next
  case (Cons g gs)
  have "0 \<le> dsub (cg_remaining_amount g) (min (cg_remaining_amount g) n)"
    unfolding dsub_def by (rule ctx.rnd_nonneg) simp
  with Cons show ?case by (auto simp: Let_def split: if_splits prod.splits)
qed

lemma write_grants_all: "list_all Q new \<Longrightarrow> list_all Q old \<Longrightarrow> list_all Q (write_grants new old)"
  by (auto simp: write_grants_def grant_row_def list_all_iff find_Some_iff split: option.splits)

lemma set_order_by_expiry [simp]: "set (order_by_expiry gs) = set gs"
  by (auto simp: order_by_expiry_def)

lemma consume_keeps_existing:
  assumes safe: "credit_safe w" and p: "plans_of uid w = [p]" and pos: "0 < amount"
  shows "credit_safe (snd (consume_compute_credits now uid amount w))"
proof (cases "amount \<le> dsub (up_compute_units_monthly_limit p) (up_compute_units_monthly_used p)")
  case True
  have "plan_safe (q\<lparr>up_compute_units_monthly_used := dadd (up_compute_units_monthly_used q) amount,
          up_gmt_updated := utc_ts now\<rparr>)"
    if "q \<in> set (user_plans w)" "up_user_id q = uid" "plan_safe q" for q
  proof -
    have "q \<in> set (plans_of uid w)" using that by (simp add: plans_of_def)
    with p have "q = p" by simp
    with True that(3) pos show ?thesis
      by (auto simp: plan_safe_def intro!: monthly_within_limit dadd_nonneg)
  qed
  then show ?thesis
    using safe consume_monthly [OF p pos True] by (auto simp: credit_safe_def intro!: list_all_update_where)
next
  case False
  define mc where "mc = max 0 (dsub (up_compute_units_monthly_limit p) (up_compute_units_monthly_used p))"
  obtain gs' ec n where ded: "deduct_grants (utc_ts now) 0 (dsub amount mc)
      (order_by_expiry (filter (consumable uid (utc_ts now)) (compute_grants w))) = (gs', ec, n)"
    by (cases "deduct_grants (utc_ts now) 0 (dsub amount mc)
      (order_by_expiry (filter (consumable uid (utc_ts now)) (compute_grants w)))")
  have "list_all (\<lambda>g. 0 \<le> cg_remaining_amount g) gs'"
    by (rule deduct_grants_nonneg [OF ded]) (use safe in \<open>auto simp: credit_safe_def list_all_iff\<close>)
  then show ?thesis
    using safe consume_both [OF p pos False mc_def ded]
    by (auto simp: credit_safe_def intro!: list_all_update_where plan_safe_charge write_grants_all)
qed

lemma credit_safe_new_plan:
  "credit_safe w \<Longrightarrow> t \<in> set (tier_templates w) \<Longrightarrow>
   credit_safe (w\<lparr>user_plans := user_plans w @ [new_plan uid t now]\<rparr>)"
  by (auto simp: credit_safe_def list_all_iff intro: plan_safe_new)

lemma consume_keeps_credit_safe: "keeps credit_safe (consume_compute_credits now uid amount)"
proof (rule keepsI)
  fix w
  assume safe: "credit_safe w"
  show "credit_safe (snd (consume_compute_credits now uid amount w))"
  proof (cases "0 < amount")
    case False
    then show ?thesis using safe by (simp add: consume_nothing)
  next
    case pos: True
    obtain r w' where g: "get_user_plan_for_update now uid w = (r, w')"
      by (cases "get_user_plan_for_update now uid w")
    from g have safe': "credit_safe w'"
      by (cases rule: get_user_plan_for_update_cases) (auto intro: safe credit_safe_new_plan)
    show ?thesis
    proof (cases r)
      case (Inl e)
      with g pos safe' show ?thesis by (simp add: consume_lookup_fails)
    next
      case (Inr p)
      with g have g': "get_user_plan_for_update now uid w = (Inr p, w')" by simp
      show ?thesis
        unfolding consume_after_lookup [OF pos g']
        by (rule consume_keeps_existing [OF safe' get_user_plan_for_update_again [OF g'] pos])
    qed
  qed
qed

lemma plan_safe_store: "plan_safe p \<Longrightarrow> plan_safe (store_plan p)"
  by (auto simp: plan_safe_def store_plan_def column.rnd_on_grid intro!: column.rnd_le_grid column.rnd_nonneg)

lemma commit_keeps_credit_safe: "keeps credit_safe commit"
  by (auto simp: keeps_def commit_def store_rows_def credit_safe_def list_all_iff plan_safe_store
      store_grant_def store_tier_template_def tier_safe_def column.rnd_on_grid
      intro: column.rnd_nonneg)

subsection \<open>Writing grants back\<close>

lemma grant_row_nth:
  assumes ids: "map cg_id gs' = map cg_id gs" and "distinct (map cg_id gs)" and i: "i < length gs"
  shows "grant_row gs' (gs ! i) = gs' ! i"
proof -
  have len: "length gs' = length gs" using ids by (rule map_eq_imp_length_eq)
  have id: "cg_id (gs' ! j) = cg_id (gs ! j)" if "j < length gs" for j
    using that ids len by (metis nth_map)
  have "cg_id (gs' ! j) \<noteq> cg_id (gs ! i)" if "j < i" for j
    using that i assms(2) id [of j] by (simp add: distinct_conv_nth)
  then have "find (\<lambda>h. cg_id h = cg_id (gs ! i)) gs' = Some (gs' ! i)"
    using i len id by (auto simp: find_Some_iff)
  then show ?thesis by (simp add: grant_row_def)
qed

lemma grant_row_map:
  assumes "map cg_id gs' = map cg_id gs" and "distinct (map cg_id gs)"
  shows "map (grant_row gs') gs = gs'"
  using assms map_eq_imp_length_eq [OF assms(1)]
  by (intro nth_equalityI) (simp_all add: grant_row_nth)

lemma grant_row_other: "cg_id g \<notin> cg_id ` set gs' \<Longrightarrow> grant_row gs' g = g"
  by (auto simp: grant_row_def find_Some_iff split: option.splits)
    (metis image_eqI nth_mem)

lemma drawn_from_ids: "list_all2 drawn_from gs gs' \<Longrightarrow> map cg_id gs' = map cg_id gs"
  by (induction rule: list_all2_induct) (auto simp: drawn_from_def)

lemma mset_order_by_expiry: "mset (order_by_expiry gs) = mset gs"
  by (simp add: order_by_expiry_def)

lemma distinct_order_by_expiry:
  assumes "distinct (map cg_id gs)"
  shows "distinct (map cg_id (order_by_expiry (filter P gs)))"
proof -
  have "mset (map cg_id (order_by_expiry (filter P gs))) = mset (map cg_id (filter P gs))"
    by (simp add: mset_order_by_expiry)
  moreover have "distinct (map cg_id (filter P gs))" using assms by (rule distinct_map_filter)
  ultimately show ?thesis using mset_eq_imp_distinct_iff by blast
qed

lemma consumable_row:
  assumes ids: "distinct (map cg_id old)" and "g \<in> set old"
    and gs: "gs = order_by_expiry (filter (consumable uid t) old)" and drawn: "list_all2 drawn_from gs gs'"
  shows "if consumable uid t g then drawn_from g (grant_row gs' g) else grant_row gs' g = g"
proof (cases "consumable uid t g")
  case True
  then have "g \<in> set gs" using assms by simp
  then obtain i where i: "i < length gs" "g = gs ! i" by (auto simp: in_set_conv_nth)
  have "grant_row gs' (gs ! i) = gs' ! i"
    by (rule grant_row_nth [OF drawn_from_ids [OF drawn] _ i(1)])
      (simp add: gs distinct_order_by_expiry [OF ids])
  with drawn i True show ?thesis by (simp add: list_all2_conv_all_nth)
next
  case False
  have "cg_id g \<notin> cg_id ` set gs'"
  proof
    assume "cg_id g \<in> cg_id ` set gs'"
    also have "cg_id ` set gs' = cg_id ` set gs"
      using drawn_from_ids [OF drawn] by (metis list.set_map)
    finally obtain h where "h \<in> set old" "consumable uid t h" "cg_id h = cg_id g" by (auto simp: gs)
    with ids assms(2) False show False by (metis distinct_map inj_onD)
  qed
  with False show ?thesis by (simp add: grant_row_other)
qed

lemma sum_list_filter_if:
  "sum_list (map f (filter P xs)) = sum_list (map (\<lambda>x. if P x then f x else 0) xs)"
  for f :: "'a \<Rightarrow> rat"
  by (induction xs) auto

lemma write_grants_pool:
  assumes ids: "distinct (map cg_id old)"
    and gs: "gs = order_by_expiry (filter (consumable uid t) old)" and drawn: "list_all2 drawn_from gs gs'"
  shows "sum_list (map cg_remaining_amount (filter (consumable uid t) (write_grants gs' old)))
    = sum_list (map cg_remaining_amount gs')"
proof -
  let ?u = "grant_row gs'" and ?r = cg_remaining_amount and ?C = "consumable uid t"
  have row: "(if ?C (?u g) then ?r (?u g) else 0) = (if ?C g then ?r (?u g) else 0)" if "g \<in> set old" for g
    using consumable_row [OF ids that gs drawn] by (auto simp: consumable_def drawn_from_def split: if_splits)
  have "sum_list (map ?r (filter ?C (write_grants gs' old)))
      = sum_list (map (\<lambda>g. if ?C (?u g) then ?r (?u g) else 0) old)"
    by (simp add: sum_list_filter_if write_grants_def comp_def)
  also have "\<dots> = sum_list (map (\<lambda>g. if ?C g then ?r (?u g) else 0) old)"
    by (intro arg_cong [of _ _ sum_list] map_cong refl row)
  also have "\<dots> = sum_list (map (\<lambda>g. ?r (?u g)) (filter ?C old))"
    by (simp add: sum_list_filter_if)
  also have "\<dots> = sum_list (map (\<lambda>g. ?r (?u g)) gs)"
  proof -
    have "mset (map (\<lambda>g. ?r (?u g)) gs) = mset (map (\<lambda>g. ?r (?u g)) (filter ?C old))"
      by (simp add: gs mset_order_by_expiry)
    then show ?thesis by (metis sum_mset_sum_list)
  qed
  also have "\<dots> = sum_list (map ?r (map ?u gs))" by (simp add: comp_def)
  also have "map ?u gs = gs'"
    by (rule grant_row_map [OF drawn_from_ids [OF drawn]]) (simp add: gs distinct_order_by_expiry [OF ids])
  finally show ?thesis .
qed

subsection \<open>The consumption refines the contract\<close>

lemma plans_of_update:
  assumes "\<And>p. up_user_id (f p) = up_user_id p"
  shows "filter (\<lambda>p. up_user_id p = uid) (update_where (\<lambda>p. up_user_id p = uid) f ps)
    = map f (filter (\<lambda>p. up_user_id p = uid) ps)"
  by (induction ps) (auto simp: assms)

lemma up_user_id_charge [simp]: "up_user_id (charge t mc sh p) = up_user_id p"
  by (simp add: charge_def Let_def)

lemma order_by_expiry_grid:
  assumes "list_all grant_ok gs" and "4 \<le> k"
  shows "list_all (\<lambda>g. on_grid k (cg_remaining_amount g) \<and> 0 \<le> cg_remaining_amount g)
    (order_by_expiry (filter P gs))"
  using assms by (auto simp: list_all_iff grant_ok_def col4_def intro: on_grid_mono)

lemma get_extra_pool:
  "get_extra_compute_remaining t uid w =
     (Inr (sum_list (map cg_remaining_amount (order_by_expiry (filter (consumable uid t) (compute_grants w))))), w)"
proof -
  have "sum_list (map cg_remaining_amount (order_by_expiry gs)) = sum_list (map cg_remaining_amount gs)" for gs
    by (metis mset_map mset_order_by_expiry sum_mset_sum_list)
  then show ?thesis by (simp add: get_extra_compute_remaining_def)
qed

lemma extra_pool_nonneg:
  assumes "list_all grant_ok (compute_grants w)" and "get_extra_compute_remaining t uid w = (Inr x, w)"
  shows "0 \<le> x"
proof -
  have "0 \<le> sum_list (map cg_remaining_amount (filter (consumable uid t) (compute_grants w)))"
    by (rule sum_list_nonneg) (auto simp: consumable_def)
  with assms(2) show ?thesis by (simp add: get_extra_compute_remaining_def)
qed

lemma spend_monthly: "0 < a \<Longrightarrow> a \<le> l \<Longrightarrow> 0 \<le> x \<Longrightarrow> spend l x a = (a, 0, 0)"
  by (simp add: spend_def min_def max_def)

lemma spend_both: "\<not> a \<le> l \<Longrightarrow> 0 < a \<Longrightarrow>
    spend l x a = (max 0 l, min (a - max 0 l) x, a - max 0 l - min (a - max 0 l) x)"
  by (simp add: spend_def min_def max_def Let_def)

lemma consume_exact_both:
  assumes ok: "credit_ok w" and p: "plans_of uid w = [p]" and pos: "0 < amount"
    and k: "4 \<le> k" "on_grid k amount"
    and extra: "get_extra_compute_remaining (utc_ts now) uid w = (Inr x, w)"
    and small: "(\<bar>up_compute_units_monthly_limit p\<bar> + up_compute_units_monthly_used p +
      up_compute_units_overage p + amount + x) * 10 ^ k < 10 ^ 28"
    and l: "l = up_compute_units_monthly_limit p - up_compute_units_monthly_used p"
    and more: "\<not> amount \<le> l"
    and mc: "mc = max 0 l" and e: "e = min (amount - mc) x"
  shows "\<exists>gs'. consume_compute_credits now uid amount w =
      (Inr \<lparr>res_monthly = mc, res_extra = e, res_shortfall = amount - mc - e\<rparr>,
       w\<lparr>user_plans := update_where (\<lambda>p. up_user_id p = uid)
           (charge (utc_ts now) mc (amount - mc - e)) (user_plans w),
         compute_grants := write_grants gs' (compute_grants w)\<rparr>) \<and>
     sum_list (map cg_remaining_amount
       (filter (consumable uid (utc_ts now)) (write_grants gs' (compute_grants w)))) = x - e"
proof -
  let ?gs = "order_by_expiry (filter (consumable uid (utc_ts now)) (compute_grants w))"
  have pm: "p \<in> set (user_plans w)" using p by (metis filter_set list.set_intros(1) mem_Collect_eq plans_of_def set_filter)
  have pok: "plan_ok p" using ok pm by (simp add: credit_ok_def list_all_iff)
  have gok: "list_all grant_ok (compute_grants w)" and ids: "distinct (map cg_id (compute_grants w))"
    using ok by (simp_all add: credit_ok_def)
  have x: "0 \<le> x" "x = sum_list (map cg_remaining_amount ?gs)"
    using extra_pool_nonneg [OF gok extra] extra by (simp_all add: get_extra_pool)
  have grid: "on_grid k l" "on_grid k mc"
    using pok k(1) unfolding l mc
    by (auto simp: plan_ok_def col4_def intro!: on_grid_diff on_grid_max intro: on_grid_mono)
  have u: "0 \<le> up_compute_units_monthly_used p" "0 \<le> up_compute_units_overage p"
    using pok by (simp_all add: plan_ok_def)
  have "dsub (up_compute_units_monthly_limit p) (up_compute_units_monthly_used p) = l"
    unfolding dsub_def l [symmetric]
    by (rule fits_exact, rule fits_between [OF grid(1) _ small]) (use u x pos in \<open>simp add: l\<close>)
  moreover have "dsub amount mc = amount - mc"
    unfolding dsub_def
    by (rule fits_exact, rule fits_between [OF _ _ small])
      (use grid k u x pos more in \<open>auto simp: mc l on_grid_diff max_def\<close>)
  ultimately obtain gs' c n where ded: "deduct_grants (utc_ts now) 0 (dsub amount mc) ?gs = (gs', c, n)"
    and run: "consume_compute_credits now uid amount w =
      (Inr \<lparr>res_monthly = mc, res_extra = c, res_shortfall = max 0 n\<rparr>,
       w\<lparr>user_plans := update_where (\<lambda>p. up_user_id p = uid) (charge (utc_ts now) mc (max 0 n)) (user_plans w),
         compute_grants := write_grants gs' (compute_grants w)\<rparr>)" and sub: "dsub amount mc = amount - mc"
    using consume_both [OF p pos, of mc now] more mc
    by (cases "deduct_grants (utc_ts now) 0 (dsub amount mc) ?gs") auto
  have nn: "0 \<le> amount - mc" using more pos by (auto simp: mc max_def)
  have "(0 + (amount - mc) + sum_list (map cg_remaining_amount ?gs)) * 10 ^ k < 10 ^ 28"
    by (rule le_less_trans [OF _ small], rule mult_right_mono) (use u in \<open>simp_all add: x(2) [symmetric] mc\<close>)
  then have res: "c = e \<and> n = amount - mc - e \<and> sum_list (map cg_remaining_amount gs') = x - e"
    using deduct_grants_exact [OF ded order_by_expiry_grid [OF gok k(1)] on_grid_zero, unfolded sub]
      nn grid(2) k(2) by (simp add: Let_def e on_grid_diff flip: x(2))
  have "0 \<le> amount - mc - e" by (simp add: e)
  moreover have "list_all2 drawn_from ?gs gs'"
    by (rule deduct_grants_drawn [OF ded]) (use gok in \<open>auto simp: list_all_iff\<close>)
  ultimately show ?thesis
    using run res write_grants_pool [OF ids refl] by (intro exI [of _ gs']) (simp add: max_def)
qed

lemma consume_exact_monthly:
  assumes ok: "credit_ok w" and p: "plans_of uid w = [p]" and pos: "0 < amount"
    and k: "4 \<le> k" "on_grid k amount" and x: "0 \<le> x"
    and small: "(\<bar>up_compute_units_monthly_limit p\<bar> + up_compute_units_monthly_used p +
      up_compute_units_overage p + amount + x) * 10 ^ k < 10 ^ 28"
    and le: "amount \<le> up_compute_units_monthly_limit p - up_compute_units_monthly_used p"
  shows "consume_compute_credits now uid amount w =
    (Inr \<lparr>res_monthly = amount, res_extra = 0, res_shortfall = 0\<rparr>,
     w\<lparr>user_plans := update_where (\<lambda>p. up_user_id p = uid)
        (\<lambda>p. p\<lparr>up_compute_units_monthly_used := dadd (up_compute_units_monthly_used p) amount,
               up_gmt_updated := utc_ts now\<rparr>) (user_plans w)\<rparr>)"
    and "dadd (up_compute_units_monthly_used p) amount = up_compute_units_monthly_used p + amount"
proof -
  have "p \<in> set (plans_of uid w)" using p by simp
  then have pok: "plan_ok p" using ok by (simp add: credit_ok_def list_all_iff plans_of_def)
  then have u: "0 \<le> up_compute_units_monthly_used p" "0 \<le> up_compute_units_overage p"
    and grid: "on_grid k (up_compute_units_monthly_limit p)" "on_grid k (up_compute_units_monthly_used p)"
    using k(1) by (auto simp: plan_ok_def col4_def intro: on_grid_mono)
  have "dsub (up_compute_units_monthly_limit p) (up_compute_units_monthly_used p)
      = up_compute_units_monthly_limit p - up_compute_units_monthly_used p"
    unfolding dsub_def by (rule fits_exact, rule fits_between [OF _ _ small])
      (use u x pos grid in \<open>auto simp: on_grid_diff\<close>)
  then show "consume_compute_credits now uid amount w =
    (Inr \<lparr>res_monthly = amount, res_extra = 0, res_shortfall = 0\<rparr>,
     w\<lparr>user_plans := update_where (\<lambda>p. up_user_id p = uid)
        (\<lambda>p. p\<lparr>up_compute_units_monthly_used := dadd (up_compute_units_monthly_used p) amount,
               up_gmt_updated := utc_ts now\<rparr>) (user_plans w)\<rparr>)"
    using le by (intro consume_monthly [OF p pos]) simp
  show "dadd (up_compute_units_monthly_used p) amount = up_compute_units_monthly_used p + amount"
    unfolding dadd_def by (rule fits_exact, rule fits_between [OF _ _ small])
      (use u x pos grid k in \<open>auto simp: on_grid_add\<close>)
qed

lemma charge_exact:
  assumes "plan_ok p" and "4 \<le> k" and "on_grid k sh" and "0 \<le> sh"
    and "(up_compute_units_overage p + sh) * 10 ^ k < 10 ^ 28"
    and "mc = max 0 (up_compute_units_monthly_limit p - up_compute_units_monthly_used p)"
  shows "up_compute_units_monthly_used (charge t mc sh p) = up_compute_units_monthly_used p + mc"
    and "up_compute_units_overage (charge t mc sh p) = up_compute_units_overage p + sh"
    and "up_compute_units_monthly_limit (charge t mc sh p) = up_compute_units_monthly_limit p"
proof -
  have "dadd (up_compute_units_overage p) sh = up_compute_units_overage p + sh"
    unfolding dadd_def by (rule fits_exact, rule fits_between [OF _ _ assms(5)])
      (use assms in \<open>auto simp: plan_ok_def col4_def intro!: on_grid_add intro: on_grid_mono\<close>)
  then show "up_compute_units_overage (charge t mc sh p) = up_compute_units_overage p + sh"
    using assms(4) by (auto simp: charge_def Let_def)
  show "up_compute_units_monthly_used (charge t mc sh p) = up_compute_units_monthly_used p + mc"
    "up_compute_units_monthly_limit (charge t mc sh p) = up_compute_units_monthly_limit p"
    using assms(6) by (auto simp: charge_def Let_def max_def split: if_splits)
qed

lemma on_grid_spent:
  assumes "credit_ok w" "plans_of uid w = [p]" "4 \<le> k" "on_grid k amount"
    and "get_extra_compute_remaining t uid w = (Inr x, w)"
    and "mc = max 0 (up_compute_units_monthly_limit p - up_compute_units_monthly_used p)"
  shows "plan_ok p" and "on_grid k (amount - mc - min (amount - mc) x)"
proof -
  have "p \<in> set (plans_of uid w)" using assms by simp
  then show pok: "plan_ok p" using assms(1) by (simp add: credit_ok_def list_all_iff plans_of_def)
  have "on_grid k mc" unfolding assms(6)
    using pok assms(3) by (auto simp: plan_ok_def col4_def intro!: on_grid_diff on_grid_max intro: on_grid_mono)
  moreover have "on_grid k (sum_list (map cg_remaining_amount gs))" if "list_all grant_ok gs" for gs
    using that by (induction gs)
      (auto simp: grant_ok_def col4_def intro!: on_grid_add intro: on_grid_mono [OF _ assms(3)])
  then have "on_grid k x"
    using assms(1,5) by (auto simp: get_extra_compute_remaining_def credit_ok_def list_all_iff)
  ultimately show "on_grid k (amount - mc - min (amount - mc) x)"
    using assms(4) by (intro on_grid_diff on_grid_min)
qed

lemma dctx_pos: "0 < x \<Longrightarrow> 0 < dctx x"
proof -
  assume "0 < x"
  then have "10 ^ 27 * ulp x \<le> x" using ulp_bounds(1) [of x] by simp
  then have "of_int (10 ^ 27) \<le> x / ulp x" by (simp add: pos_le_divide_eq)
  then have "10 ^ 27 \<le> round_half_even (x / ulp x)" by (rule round_half_even_ge)
  then show ?thesis using \<open>0 < x\<close> by (simp add: dctx_ulp)
qed

lemma dctx_small: "on_grid 4 x \<Longrightarrow> \<bar>x\<bar> < 10 ^ 6 \<Longrightarrow> dctx x = x"
  by (rule dctx_exact [of 4]) simp_all

subsection \<open>Order of the deductions\<close>

lemma order_by_expiry_sorted: "sorted_wrt (\<lambda>g h. \<not> expires_before h g) (order_by_expiry gs)"
proof -
  let ?k = "\<lambda>g. the (cg_expires_at g)"
  define xs where "xs = sort_key ?k (filter (\<lambda>g. cg_expires_at g \<noteq> None) gs)"
  have "sorted_wrt (\<lambda>g h. ?k g \<le> ?k h) xs"
    using sorted_sort_key [of ?k "filter (\<lambda>g. cg_expires_at g \<noteq> None) gs"]
    by (simp add: sorted_map xs_def)
  moreover have "\<forall>g \<in> set xs. cg_expires_at g \<noteq> None" by (simp add: xs_def)
  ultimately have "sorted_wrt (\<lambda>g h. \<not> expires_before h g) xs"
    by (elim sorted_wrt_mono_rel [rotated]) (force simp: expires_before_def split: option.splits)
  moreover have "sorted_wrt (\<lambda>g h. \<not> expires_before h g) (filter (\<lambda>g. cg_expires_at g = None) gs)"
    by (induction gs) (auto simp: expires_before_def)
  moreover have "order_by_expiry gs = xs @ filter (\<lambda>g. cg_expires_at g = None) gs"
    by (simp only: order_by_expiry_def xs_def)
  moreover have "\<not> expires_before h g" if "h \<in> set (filter (\<lambda>g. cg_expires_at g = None) gs)" for g h
    using that by (simp add: expires_before_def)
  ultimately show ?thesis by (simp add: sorted_wrt_append)
qed

lemma cg_id_grant_row [simp]: "cg_id (grant_row gs' g) = cg_id g"
  by (auto simp: grant_row_def find_Some_iff split: option.splits)

lemma same_id: "distinct (map cg_id gs) \<Longrightarrow> g \<in> set gs \<Longrightarrow> h \<in> set gs \<Longrightarrow> cg_id g = cg_id h \<Longrightarrow> g = h"
  by (meson distinct_map inj_onD)

lemma write_grants_row:
  assumes "distinct (map cg_id old)" and "g \<in> set old" and "g' \<in> set (write_grants gs' old)"
    and "cg_id g' = cg_id g"
  shows "g' = grant_row gs' g"
proof -
  obtain x where "x \<in> set old" "g' = grant_row gs' x" using assms(3) by (auto simp: write_grants_def)
  moreover from this have "x = g" using same_id [OF assms(1)] assms(2,4) by simp
  ultimately show ?thesis by simp
qed

lemma write_grants_fifo:
  assumes ids: "distinct (map cg_id old)" and gs: "gs = order_by_expiry (filter (consumable uid t) old)"
    and ded: "deduct_grants t c n gs = (gs', c', n')"
    and g: "g \<in> set old" "consumable uid t g" and h: "h \<in> set old" "consumable uid t h"
    and "expires_before g h" and ch: "grant_row gs' h \<noteq> h"
  shows "cg_remaining_amount (grant_row gs' g) = 0"
proof -
  have ids': "map cg_id gs' = map cg_id gs"
    using ded by (induction gs arbitrary: c n gs' c' n') (auto simp: Let_def split: if_splits prod.splits)
  have dist: "distinct (map cg_id gs)" by (simp add: gs distinct_order_by_expiry [OF ids])
  obtain i j where i: "i < length gs" "g = gs ! i" and j: "j < length gs" "h = gs ! j"
    using g h by (metis filter_set gs in_set_conv_nth mem_Collect_eq set_filter set_order_by_expiry)
  have "i < j"
  proof (rule ccontr)
    assume "\<not> i < j"
    moreover have "i \<noteq> j" using assms(8) i j by (auto simp: expires_before_def split: option.splits)
    ultimately have "\<not> expires_before (gs ! i) (gs ! j)"
      using i j order_by_expiry_sorted by (simp add: sorted_wrt_iff_nth_less gs)
    with assms(8) i j show False by simp
  qed
  then show ?thesis
    using deduct_grants_fifo [OF ded _ j(1)] ch i j by (simp add: grant_row_nth [OF ids' dist])
qed

subsection \<open>Properties\<close>

text \<open>C1: the dual-pool consumption refines its contract \<open>spend\<close>. On rows as the database holds them,
  and for an amount with \<open>k\<close> decimals such that all quantities fit in the 28 digits of the decimal
  context, consuming charges exactly what is left of the month, then exactly what the unexpired
  grants hold, and books the rest as overage: the three parts add up to the amount, and the plan
  and the extra pool change by exactly these parts.\<close>

theorem consume_compute_credits_refines:
  assumes ok: "credit_ok w" and p: "plans_of uid w = [p]" and pos: "0 < amount"
    and k: "4 \<le> k" "on_grid k amount"
    and extra: "get_extra_compute_remaining (utc_ts now) uid w = (Inr x, w)"
    and small: "(\<bar>up_compute_units_monthly_limit p\<bar> + up_compute_units_monthly_used p +
      up_compute_units_overage p + amount + x) * 10 ^ k < 10 ^ 28"
    and contract: "spend (up_compute_units_monthly_limit p - up_compute_units_monthly_used p) x amount
      = (m, e, s)"
  shows "\<exists>w' p'. consume_compute_credits now uid amount w =
       (Inr \<lparr>res_monthly = m, res_extra = e, res_shortfall = s\<rparr>, w') \<and>
     m + e + s = amount \<and> plans_of uid w' = [p'] \<and>
     up_compute_units_monthly_used p' = up_compute_units_monthly_used p + m \<and>
     up_compute_units_overage p' = up_compute_units_overage p + s \<and>
     up_compute_units_monthly_limit p' = up_compute_units_monthly_limit p \<and>
     get_extra_compute_remaining (utc_ts now) uid w' = (Inr (x - e), w')"
proof (cases "amount \<le> up_compute_units_monthly_limit p - up_compute_units_monthly_used p")
  case True
  have x: "0 \<le> x" using extra_pool_nonneg [OF _ extra] ok by (simp add: credit_ok_def)
  show ?thesis
    using consume_exact_monthly [OF ok p pos k x small True] contract p extra spend_monthly [OF pos True x]
    by (auto simp: plans_of_def plans_of_update get_extra_compute_remaining_def)
next
  case False
  define mc where "mc = max 0 (up_compute_units_monthly_limit p - up_compute_units_monthly_used p)"
  define ex where "ex = min (amount - mc) x"
  have "(m, e, s) = (mc, ex, amount - mc - ex)"
    unfolding contract [symmetric] mc_def ex_def by (rule spend_both [OF False pos])
  then have c: "m = mc" "e = ex" "s = amount - mc - ex" by simp_all
  note g = on_grid_spent [OF ok p k extra mc_def]
  have s0: "0 \<le> s" by (simp add: c ex_def)
  have "(up_compute_units_overage p + s) * 10 ^ k < 10 ^ 28"
    by (rule le_less_trans [OF _ small], rule mult_right_mono)
      (use g(1) pos False extra_pool_nonneg [OF _ extra] ok in
        \<open>auto simp: plan_ok_def credit_ok_def c ex_def mc_def min_def max_def\<close>)
  note ch = charge_exact [OF g(1) k(1) _ s0 this mc_def]
  obtain gs' where "consume_compute_credits now uid amount w =
      (Inr \<lparr>res_monthly = m, res_extra = e, res_shortfall = s\<rparr>,
       w\<lparr>user_plans := update_where (\<lambda>p. up_user_id p = uid) (charge (utc_ts now) mc s) (user_plans w),
         compute_grants := write_grants gs' (compute_grants w)\<rparr>)"
    "sum_list (map cg_remaining_amount
       (filter (consumable uid (utc_ts now)) (write_grants gs' (compute_grants w)))) = x - e"
    using consume_exact_both [OF ok p pos k extra small refl False mc_def ex_def] by (auto simp: c)
  moreover have "filter (\<lambda>p. up_user_id p = uid)
      (update_where (\<lambda>p. up_user_id p = uid) (charge (utc_ts now) mc s) (user_plans w)) = [charge (utc_ts now) mc s p]"
    using p by (simp add: plans_of_update plans_of_def)
  ultimately show ?thesis
    using ch g(2) by (simp add: plans_of_def get_extra_compute_remaining_def c ex_def)
qed

theorem consume_compute_credits_refines_witness:
  "\<exists>w' p'. consume_compute_credits demo_now ''u1'' 2 demo_world =
      (Inr \<lparr>res_monthly = 1, res_extra = 1/2, res_shortfall = 1/2\<rparr>, w') \<and>
    plans_of ''u1'' w' = [p'] \<and> up_compute_units_monthly_used p' = 10 \<and>
    up_compute_units_overage p' = 1/2 \<and> up_compute_units_monthly_limit p' = 10 \<and>
    get_extra_compute_remaining (utc_ts demo_now) ''u1'' w' = (Inr 0, w')"
proof -
  have 1: "credit_ok demo_world"
    by (simp add: credit_ok_def demo_world_def empty_world_def demo_plan_def demo_grant_def plan_ok_def
        grant_ok_def col4_def on_grid_def)
  have 2: "plans_of ''u1'' demo_world = [demo_plan]"
    by (simp add: plans_of_def demo_world_def empty_world_def demo_plan_def)
  have 3: "get_extra_compute_remaining (utc_ts demo_now) ''u1'' demo_world = (Inr (1/2), demo_world)"
    by (simp add: get_extra_compute_remaining_def demo_world_def empty_world_def demo_grant_def
        consumable_def unexpired_def)
  have 4: "spend (up_compute_units_monthly_limit demo_plan - up_compute_units_monthly_used demo_plan) (1/2) 2
      = (1, 1/2, 1/2)"
    by (simp add: spend_def demo_plan_def Let_def)
  have 5: "on_grid 4 2" by (simp add: on_grid_def)
  have 6: "(\<bar>up_compute_units_monthly_limit demo_plan\<bar> + up_compute_units_monthly_used demo_plan +
      up_compute_units_overage demo_plan + 2 + 1/2) * 10 ^ 4 < 10 ^ 28"
    by (simp add: demo_plan_def)
  from consume_compute_credits_refines [OF 1 2 _ _ 5 3 6 4] show ?thesis
    by (simp add: demo_plan_def)
qed

text \<open>C27: a consumption never takes a pool out of its bounds, whatever the amount and however many
  consumptions happen between two commits, although amounts carry 28 digits and the columns 4
  decimals: no plan that respects its monthly limit goes over it, no grant becomes negative, the
  overage is never negative, and the commit that rounds the rows keeps all this.\<close>

theorem consume_and_commit_keep_pools_safe:
  "keeps credit_safe (ebind (consume_compute_credits now uid amount) (\<lambda>_. commit)) \<and>
   keeps credit_safe (consume_compute_credits now uid amount)"
  by (intro conjI keeps_ebind consume_keeps_credit_safe commit_keeps_credit_safe)

text \<open>grants are used first in, first out by expiry, and only after the month: when a consumption
  changes the remaining amount of a grant, every usable grant of the same user that expires
  earlier (those without expiry last) is empty afterwards, and the monthly pool of the user is
  used up.\<close>

theorem consume_compute_credits_fifo:
  assumes ids: "distinct (map cg_id (compute_grants w))"
    and run: "consume_compute_credits now uid amount w = (Inr r, w')"
    and g: "g \<in> set (compute_grants w)" "consumable uid (utc_ts now) g"
    and h: "h \<in> set (compute_grants w)" "consumable uid (utc_ts now) h"
    and before: "expires_before g h"
    and g': "g' \<in> set (compute_grants w')" "cg_id g' = cg_id g"
    and h': "h' \<in> set (compute_grants w')" "cg_id h' = cg_id h"
    and ch: "cg_remaining_amount h' \<noteq> cg_remaining_amount h"
  shows "cg_remaining_amount g' = 0 \<and>
    (\<exists>p'. plans_of uid w' = [p'] \<and> up_compute_units_monthly_limit p' \<le> up_compute_units_monthly_used p')"
proof -
  have changed: "compute_grants w' \<noteq> compute_grants w" using same_id [OF ids h(1), of h'] h' ch by auto
  then have pos: "0 < amount" using run by (cases "0 < amount") (auto simp: consume_nothing)
  obtain rp w1 where lk: "get_user_plan_for_update now uid w = (rp, w1)"
    by (cases "get_user_plan_for_update now uid w")
  then have "compute_grants w1 = compute_grants w" by (cases rule: get_user_plan_for_update_cases) auto
  note w1 = this
  obtain p where lk': "get_user_plan_for_update now uid w = (Inr p, w1)"
    using lk run consume_lookup_fails [OF pos, of now uid w] by (cases rp) auto
  note p = get_user_plan_for_update_again [OF lk']
  note run1 = run [unfolded consume_after_lookup [OF pos lk']]
  have more: "\<not> amount \<le> dsub (up_compute_units_monthly_limit p) (up_compute_units_monthly_used p)"
    using consume_monthly [OF p pos] run1 changed w1 by auto
  define mc where "mc = max 0 (dsub (up_compute_units_monthly_limit p) (up_compute_units_monthly_used p))"
  obtain gs' ec n where ded: "deduct_grants (utc_ts now) 0 (dsub amount mc)
      (order_by_expiry (filter (consumable uid (utc_ts now)) (compute_grants w1))) = (gs', ec, n)"
    by (cases "deduct_grants (utc_ts now) 0 (dsub amount mc)
      (order_by_expiry (filter (consumable uid (utc_ts now)) (compute_grants w1)))")
  note w' = consume_both [OF p pos more mc_def ded, unfolded run1, simplified]
  have rows: "h' = grant_row gs' h" "g' = grant_row gs' g"
    using write_grants_row [OF ids] g g' h h' w' w1 by auto
  have "cg_remaining_amount g' = 0"
    unfolding rows
    by (rule write_grants_fifo [OF ids refl ded [unfolded w1] g h before]) (use ch rows in auto)
  moreover have "plans_of uid w' = [charge (utc_ts now) mc (max 0 n) p]"
    using p w' by (simp add: plans_of_def plans_of_update)
  moreover have "up_compute_units_monthly_limit p \<le> up_compute_units_monthly_used p" if "\<not> 0 < mc"
  proof (rule ccontr)
    assume "\<not> ?thesis"
    then have "0 < dctx (up_compute_units_monthly_limit p - up_compute_units_monthly_used p)"
      by (intro dctx_pos) simp
    with that show False by (simp add: mc_def dsub_def)
  qed
  ultimately show ?thesis by (auto simp: charge_def Let_def)
qed

theorem consume_compute_credits_fifo_witness:
  "\<exists>w' p'. consume_compute_credits demo_now ''u1'' 2 fifo_world =
       (Inr \<lparr>res_monthly = 1, res_extra = 3/4, res_shortfall = 1/4\<rparr>, w') \<and>
     map cg_remaining_amount (compute_grants w') = [0, 0] \<and> plans_of ''u1'' w' = [p'] \<and>
     up_compute_units_monthly_limit p' \<le> up_compute_units_monthly_used p'"
proof -
  let ?t = "utc_ts demo_now" and ?g2 = "demo_grant ''g2'' (1/4) None"
  let ?g1 = "demo_grant ''g1'' (1/2) (Some (utc_ts demo_now + day_us))"
  let ?z = "\<lambda>g. g\<lparr>cg_remaining_amount := 0, cg_gmt_updated := ?t\<rparr>"
  have p: "plans_of ''u1'' fifo_world = [demo_plan]"
    by (simp add: plans_of_def fifo_world_def empty_world_def demo_plan_def)
  have grants: "compute_grants fifo_world = [?g2, ?g1]" by (simp add: fifo_world_def)
  have cons: "consumable ''u1'' ?t ?g1" "consumable ''u1'' ?t ?g2"
    by (simp_all add: consumable_def demo_grant_def unexpired_def day_us_def)
  have d: "dctx 1 = 1" "dctx (1/2) = 1/2" "dctx (1/4) = 1/4" "dctx (3/4) = 3/4" "dctx 0 = 0"
    by (rule dctx_small; simp add: on_grid_def)+
  have m: "dsub (up_compute_units_monthly_limit demo_plan) (up_compute_units_monthly_used demo_plan) = 1"
    by (simp add: demo_plan_def dsub_def d)
  have ded: "deduct_grants ?t 0 (dsub 2 1)
      (order_by_expiry (filter (consumable ''u1'' ?t) (compute_grants fifo_world))) = ([?z ?g1, ?z ?g2], 3/4, 1/4)"
    by (simp add: grants cons order_by_expiry_def) (simp add: demo_grant_def dsub_def dadd_def d Let_def)
  obtain w' where run: "consume_compute_credits demo_now ''u1'' 2 fifo_world =
       (Inr \<lparr>res_monthly = 1, res_extra = 3/4, res_shortfall = 1/4\<rparr>, w')"
    and w': "compute_grants w' = write_grants [?z ?g1, ?z ?g2] (compute_grants fifo_world)"
    using consume_both [OF p _ _ _ ded] by (simp add: m)
  have rows: "compute_grants w' = [?z ?g2, ?z ?g1]"
    by (simp add: w' grants write_grants_def grant_row_def demo_grant_def)
  have dist: "distinct (map cg_id (compute_grants fifo_world))" by (simp add: grants demo_grant_def)
  have "expires_before ?g1 ?g2" by (simp add: expires_before_def demo_grant_def)
  from consume_compute_credits_fifo [OF dist run _ cons(1) _ cons(2) this, of "?z ?g1" "?z ?g2"]
  have "\<exists>p'. plans_of ''u1'' w' = [p'] \<and> up_compute_units_monthly_limit p' \<le> up_compute_units_monthly_used p'"
    by (simp add: grants rows demo_grant_def)
  with run rows show ?thesis by auto
qed

text \<open>Creating a plan is idempotent, also under a race: after \<open>ensure_user_plan\<close> returned a plan,
  with or without a concurrent request that created it first, the user has exactly this one plan,
  and every further call, at any time and for any tier, returns it and changes nothing.\<close>

theorem ensure_user_plan_idempotent:
  assumes "ensure_user_plan_race rival now uid tier w = (Inr p, w')"
  shows "plans_of uid w' = [p] \<and> ensure_user_plan_race rival' now' uid tier' w' = (Inr p, w')"
  using ensure_user_plan_result [OF assms] by (simp add: ensure_user_plan_race_def)

theorem ensure_user_plan_idempotent_witness:
  "ensure_user_plan_race None demo_now ''u1'' ''pro'' demo_world = (Inr demo_plan, demo_world) \<and>
   ensure_user_plan_race (Some demo_plan) demo_now ''u1'' ''free'' demo_world = (Inr demo_plan, demo_world)"
proof -
  have "ensure_user_plan_race None demo_now ''u1'' ''pro'' demo_world = (Inr demo_plan, demo_world)"
    by (simp add: ensure_user_plan_race_def plans_of_def demo_world_def demo_plan_def)
  with ensure_user_plan_idempotent [OF this] show ?thesis by simp
qed

end
