(* ===== verification/Metering_Sessions.thy ===== *)
theory Metering_Sessions
  imports Metering_Credits
begin

text \<open>
  Compute sessions and the storage ledger: their shared contract, and the quota checks.

  A session is live while it has no end, a ledger entry while it is active. The contract both
  tables share is the locale \<open>live_table\<close>: opening a row when the owner has no live one, and
  changing rows in a way that never revives one, keep at most one live row per owner. It is
  interpreted on the sessions (\<open>sessions\<close>) and on the ledger (\<open>ledger\<close>).
\<close>

definition one_live :: "('r \<Rightarrow> 'k) \<Rightarrow> ('r \<Rightarrow> bool) \<Rightarrow> 'r list \<Rightarrow> bool" where
  "one_live owner live rs \<longleftrightarrow> (\<forall>k. length (filter (\<lambda>r. owner r = k \<and> live r) rs) \<le> 1)"

definition session_open :: "compute_session \<Rightarrow> bool" where
  "session_open s \<longleftrightarrow> cs_ended_at s = None"

definition ledger_active :: "storage_ledger \<Rightarrow> bool" where
  "ledger_active l \<longleftrightarrow> sl_sandbox_id l \<noteq> None \<and> sl_storage_state l = SL_ACTIVE"

text \<open>The invariant of the two tables.\<close>

definition one_open_session :: "world \<Rightarrow> bool" where
  "one_open_session w \<longleftrightarrow> one_live cs_sandbox_id session_open (compute_sessions w)"

definition one_active_ledger :: "world \<Rightarrow> bool" where
  "one_active_ledger w \<longleftrightarrow> one_live sl_sandbox_id ledger_active (storage_ledgers w)"

definition metering_inv :: "world \<Rightarrow> bool" where
  "metering_inv w \<longleftrightarrow> one_open_session w \<and> one_active_ledger w"

text \<open>The hours a close adds: the time since the last metering, capped.\<close>

definition close_hours :: "time \<Rightarrow> compute_session \<Rightarrow> dec" where
  "close_hours t s = ddiv (min MAX_CLOSE_DELTA_SECONDS (total_seconds (t - cs_last_metered_at s))) 3600"

text \<open>What a tier update means for one field of a plan: an override wins, then the new value if the
  update has one, then the old value; \<open>takes_over\<close> says it for all fields.\<close>

definition field_after :: "user_plan \<Rightarrow> string \<Rightarrow> 'a option \<Rightarrow> 'a \<Rightarrow> 'a" where
  "field_after p k new old = (if overridden p k then old else or_else new old)"

definition takes_over :: "tier_updates \<Rightarrow> user_plan \<Rightarrow> user_plan \<Rightarrow> bool" where
  "takes_over u p q \<longleftrightarrow>
     up_compute_units_monthly_limit q = field_after p ''compute_units_monthly_limit''
       (tu_compute_units_monthly u) (up_compute_units_monthly_limit p) \<and>
     up_storage_capacity_limit_gib q = field_after p ''storage_capacity_limit_gib''
       (tu_storage_capacity_gib u) (up_storage_capacity_limit_gib p) \<and>
     up_max_concurrent_running q = field_after p ''max_concurrent_running''
       (tu_max_concurrent_running u) (up_max_concurrent_running p) \<and>
     up_max_sandbox_duration_seconds q = field_after p ''max_sandbox_duration_seconds''
       (tu_max_sandbox_duration_seconds u) (up_max_sandbox_duration_seconds p) \<and>
     up_allowed_templates q = field_after p ''allowed_templates''
       (tu_allowed_templates u) (up_allowed_templates p) \<and>
     up_grace_period_seconds q = field_after p ''grace_period_seconds''
       (tu_grace_period_seconds u) (up_grace_period_seconds p) \<and>
     up_user_id q = up_user_id p \<and> up_tier q = up_tier p \<and> up_overrides q = up_overrides p \<and>
     up_compute_units_monthly_used q = up_compute_units_monthly_used p \<and>
     up_compute_units_overage q = up_compute_units_overage p"

definition demo_tier :: tier_template where
  "demo_tier = \<lparr>tt_tier_name = ''free'', tt_compute_units_monthly = 10, tt_storage_capacity_gib = 5,
     tt_max_concurrent_running = 1, tt_max_sandbox_duration_seconds = 1800,
     tt_allowed_templates = [''aio-sandbox-tiny''], tt_grace_period_seconds = 600, tt_is_active = True,
     tt_gmt_updated = 0\<rparr>"

text \<open>A session that was last metered a minute ago.\<close>

definition demo_session :: compute_session where
  "demo_session = \<lparr>cs_id = ''cs1'', cs_sandbox_id = ''sb1'', cs_user_id = ''u1'',
     cs_template = ''aio-sandbox-tiny'', cs_vcpu_request = 1/4, cs_memory_gib_request = 1,
     cs_started_at = 0, cs_ended_at = None, cs_last_metered_at = utc_ts demo_now - seconds 60,
     cs_vcpu_hours = 0, cs_memory_gib_hours = 0, cs_gmt_updated = 0\<rparr>"

definition demo_ledger :: storage_ledger where
  "demo_ledger = \<lparr>sl_id = ''sl1'', sl_user_id = ''u1'', sl_sandbox_id = Some ''sb1'', sl_size_gib = 2,
     sl_storage_state = SL_ACTIVE, sl_backend_mode = LIVE_DISK, sl_allocated_at = 0,
     sl_released_at = None, sl_gib_hours_consumed = 0, sl_last_metered_at = 0, sl_gmt_updated = 0\<rparr>"

definition session_world :: world where
  "session_world = demo_world\<lparr>compute_sessions := [demo_session], storage_ledgers := [demo_ledger]\<rparr>"

subsection \<open>Tables with live rows\<close>

locale live_table =
  fixes rows :: "'w \<Rightarrow> 'r list"
    and put :: "('r list \<Rightarrow> 'r list) \<Rightarrow> 'w \<Rightarrow> 'w"
    and owner :: "'r \<Rightarrow> 'k"
    and live :: "'r \<Rightarrow> bool"
  assumes rows_put: "rows (put f w) = f (rows w)"
begin

lemma open_row:
  assumes "one_live owner live (rows w)" and "filter (\<lambda>r. owner r = owner s \<and> live r) (rows w) = []"
  shows "one_live owner live (rows (put (\<lambda>rs. rs @ [s]) w))"
  unfolding one_live_def rows_put
proof
  fix k
  show "length (filter (\<lambda>r. owner r = k \<and> live r) (rows w @ [s])) \<le> 1"
    using assms by (cases "k = owner s") (simp_all add: one_live_def)
qed

lemma change_rows:
  assumes "one_live owner live (rows w)"
    and "\<And>r. owner (f r) = owner r" and "\<And>r. live (f r) \<Longrightarrow> live r"
  shows "one_live owner live (rows (put (update_where p f) w))"
  unfolding one_live_def rows_put
proof
  fix k
  have "length (filter (\<lambda>r. owner r = k \<and> live r) (update_where p f rs))
      \<le> length (filter (\<lambda>r. owner r = k \<and> live r) rs)" for rs
    using assms(3) by (induction rs) (auto simp: assms(2))
  then show "length (filter (\<lambda>r. owner r = k \<and> live r) (update_where p f (rows w))) \<le> 1"
    using assms(1) le_trans unfolding one_live_def by blast
qed

lemma the_live_row:
  assumes "one_live owner live (rows w)"
  obtains "filter (\<lambda>r. owner r = k \<and> live r) (rows w) = []"
    | r where "filter (\<lambda>r. owner r = k \<and> live r) (rows w) = [r]" "r \<in> set (rows w)" "owner r = k" "live r"
proof -
  define fs where "fs = filter (\<lambda>r. owner r = k \<and> live r) (rows w)"
  have len: "length fs \<le> 1" using assms by (simp add: one_live_def fs_def)
  show thesis
  proof (cases fs)
    case Nil
    then show thesis by (intro that(1)) (simp add: fs_def)
  next
    case (Cons r xs)
    then have fs: "fs = [r]" using len by simp
    then have "r \<in> set fs" by simp
    then have "r \<in> set (rows w) \<and> owner r = k \<and> live r" unfolding fs_def by simp
    with fs show thesis by (intro that(2) [of r]) (simp_all add: fs_def)
  qed
qed

lemma close_row:
  assumes "filter (\<lambda>r. owner r = k \<and> live r) (rows w) = [s]"
    and "p s" and "\<And>r. owner (f r) = owner r" and "\<And>r. \<not> live (f r)"
  shows "filter (\<lambda>r. owner r = k \<and> live r) (rows (put (update_where p f) w)) = []"
proof -
  have "r = s" if "r \<in> set (rows w)" "owner r = k" "live r" for r
  proof -
    have "r \<in> set (filter (\<lambda>r. owner r = k \<and> live r) (rows w))" using that by simp
    with assms(1) show ?thesis by simp
  qed
  then show ?thesis
    using assms(2-4) by (auto simp: rows_put filter_empty_conv set_update_where)
qed

end

interpretation sessions: live_table compute_sessions compute_sessions_update cs_sandbox_id session_open
  by unfold_locales simp

interpretation ledger: live_table storage_ledgers storage_ledgers_update sl_sandbox_id ledger_active
  by unfold_locales simp

subsection \<open>What consumption and lookups leave alone\<close>

lemma keeps_case_sum_pair: "keeps P (case x of (a, b, c) \<Rightarrow> f a b c)" if "\<And>a b c. keeps P (f a b c)"
  using that by (cases x) auto

lemma keeps_set_plan [keeps_intros]:
  "(\<And>w x. P w \<Longrightarrow> P (w\<lparr>user_plans := x\<rparr>)) \<Longrightarrow> keeps P (set_plan uid f)"
  by (simp add: keeps_def)

lemma keeps_get_tier_template [keeps_intros]: "keeps P (get_tier_template n)"
  unfolding get_tier_template_def by (intro keeps_intros)

lemma keeps_ensure_user_plan [keeps_intros]:
  assumes "\<And>w x. P w \<Longrightarrow> P (w\<lparr>user_plans := x\<rparr>)"
  shows "keeps P (ensure_user_plan_race rival now uid tier)" "keeps P (ensure_user_plan now uid tier)"
proof -
  show "keeps P (ensure_user_plan_race rival now uid tier)" for rival
    unfolding ensure_user_plan_race_def WELCOME_BONUS_AMOUNT_def by (intro keeps_intros) (auto intro: assms)
  then show "keeps P (ensure_user_plan now uid tier)" unfolding ensure_user_plan_def .
qed

lemma keeps_get_user_plan [keeps_intros]:
  assumes "\<And>w x. P w \<Longrightarrow> P (w\<lparr>user_plans := x\<rparr>)"
  shows "keeps P (get_user_plan now uid)" "keeps P (get_user_plan_for_update now uid)"
  unfolding get_user_plan_def get_user_plan_for_update_def
  by (intro keeps_intros assms; assumption)+

lemma keeps_consume [keeps_intros]:
  assumes "\<And>w x. P w \<Longrightarrow> P (w\<lparr>user_plans := x\<rparr>)" and "\<And>w x. P w \<Longrightarrow> P (w\<lparr>compute_grants := x\<rparr>)"
  shows "keeps P (consume_compute_credits now uid amount)"
  unfolding consume_compute_credits_def Let_def
  by (intro keeps_intros keeps_case_sum_pair assms; assumption)

subsection \<open>Sessions\<close>

lemma open_sessions_of_alt:
  "open_sessions_of sid w = filter (\<lambda>s. cs_sandbox_id s = sid \<and> session_open s) (compute_sessions w)"
  by (simp add: open_sessions_of_def session_open_def)

lemma active_ledgers_of_alt:
  "active_ledgers_of sid w = filter (\<lambda>l. sl_sandbox_id l = Some sid \<and> ledger_active l) (storage_ledgers w)"
  by (auto simp: active_ledgers_of_def ledger_active_def intro: filter_cong)

lemma one_open_cases:
  assumes "one_open_session w"
  obtains "open_sessions_of sid w = []"
    | s where "open_sessions_of sid w = [s]" "s \<in> set (compute_sessions w)" "cs_sandbox_id s = sid" "session_open s"
  using sessions.the_live_row [of w sid] assms
  unfolding one_open_session_def open_sessions_of_alt by metis

lemma one_active_cases:
  assumes "one_active_ledger w"
  obtains "active_ledgers_of sid w = []"
    | l where "active_ledgers_of sid w = [l]" "l \<in> set (storage_ledgers w)" "sl_sandbox_id l = Some sid"
        "ledger_active l"
  using ledger.the_live_row [of w "Some sid"] assms
  unfolding one_active_ledger_def active_ledgers_of_alt by metis

lemma set_session_run [simp, run_simps]:
  "set_session i f w =
     (Inr (), w\<lparr>compute_sessions := update_where (\<lambda>s. cs_id s = i) f (compute_sessions w)\<rparr>)"
  by (simp add: set_session_def)

lemma set_ledger_run [simp, run_simps]:
  "set_ledger i f w =
     (Inr (), w\<lparr>storage_ledgers := update_where (\<lambda>l. sl_id l = i) f (storage_ledgers w)\<rparr>)"
  by (simp add: set_ledger_def)

lemma keeps_set_session:
  assumes "\<And>s. cs_sandbox_id (f s) = cs_sandbox_id s" and "\<And>s. session_open (f s) \<Longrightarrow> session_open s"
  shows "keeps one_open_session (set_session i f)"
  using sessions.change_rows [where f = f, OF _ assms]
  by (auto simp: keeps_def one_open_session_def)

lemma keeps_set_ledger:
  assumes "\<And>l. sl_sandbox_id (f l) = sl_sandbox_id l" and "\<And>l. ledger_active (f l) \<Longrightarrow> ledger_active l"
  shows "keeps one_active_ledger (set_ledger i f)"
  using ledger.change_rows [where f = f, OF _ assms]
  by (auto simp: keeps_def one_active_ledger_def)

lemma one_open_session_frame [simp]:
  "one_open_session (w\<lparr>user_plans := x\<rparr>) = one_open_session w"
  "one_open_session (w\<lparr>compute_grants := y\<rparr>) = one_open_session w"
  "one_open_session (w\<lparr>storage_ledgers := z\<rparr>) = one_open_session w"
  "one_open_session (w\<lparr>ids_drawn := n\<rparr>) = one_open_session w"
  by (simp_all add: one_open_session_def)

lemma one_active_ledger_frame [simp]:
  "one_active_ledger (w\<lparr>user_plans := x\<rparr>) = one_active_ledger w"
  "one_active_ledger (w\<lparr>compute_grants := y\<rparr>) = one_active_ledger w"
  "one_active_ledger (w\<lparr>compute_sessions := z\<rparr>) = one_active_ledger w"
  "one_active_ledger (w\<lparr>ids_drawn := n\<rparr>) = one_active_ledger w"
  by (simp_all add: one_active_ledger_def)

lemma open_sessions_of_ids [simp]: "open_sessions_of sid (w\<lparr>ids_drawn := n\<rparr>) = open_sessions_of sid w"
  by (simp add: open_sessions_of_def)

lemma accrue_session_simps [simp]:
  "cs_sandbox_id (accrue_session h s) = cs_sandbox_id s" "cs_id (accrue_session h s) = cs_id s"
  "session_open (accrue_session h s) = session_open s" "cs_ended_at (accrue_session h s) = cs_ended_at s"
  "cs_user_id (accrue_session h s) = cs_user_id s" "cs_template (accrue_session h s) = cs_template s"
  by (simp_all add: accrue_session_def session_open_def)

lemma new_open_session:
  assumes "one_open_session w" and "open_sessions_of (cs_sandbox_id s) w = []"
  shows "one_open_session (w\<lparr>compute_sessions := compute_sessions w @ [s]\<rparr>)"
  using sessions.open_row [of w s] assms by (simp add: one_open_session_def open_sessions_of_alt)

lemma open_compute_session_run:
  assumes "one_open_session w"
  shows "open_compute_session now sid uid template w =
    (case open_sessions_of sid w of
       s # _ \<Rightarrow> (Inr s, w)
     | [] \<Rightarrow> (case resolve_spec (template_specs_cache w) template of
         None \<Rightarrow> (Inl (BadRequestError (''Unknown sandbox template: '' @ template)), w)
       | Some (v, m) \<Rightarrow>
           (let s = \<lparr>cs_id = ''cs'' @ id_source w (ids_drawn w), cs_sandbox_id = sid, cs_user_id = uid,
                  cs_template = template, cs_vcpu_request = v, cs_memory_gib_request = m,
                  cs_started_at = now, cs_ended_at = None, cs_last_metered_at = now,
                  cs_vcpu_hours = 0, cs_memory_gib_hours = 0, cs_gmt_updated = now\<rparr>
            in (Inr s, w\<lparr>ids_drawn := Suc (ids_drawn w), compute_sessions := compute_sessions w @ [s]\<rparr>))))"
  using assms
  by (cases rule: one_open_cases [of w sid])
    (auto simp: open_compute_session_def run_simps Let_def split: option.splits)

lemma keeps_open_compute_session: "keeps one_open_session (open_compute_session now sid uid template)"
proof (rule keepsI)
  fix w
  assume inv: "one_open_session w"
  then show "one_open_session (snd (open_compute_session now sid uid template w))"
    using new_open_session [of "w\<lparr>ids_drawn := Suc (ids_drawn w)\<rparr>"]
    by (auto simp: open_compute_session_run Let_def split: list.splits option.splits)
qed

lemma keeps_close_compute_session: "keeps one_open_session (close_compute_session now sid)"
  unfolding close_compute_session_def Let_def
  by (intro keeps_intros keeps_set_session) (simp_all add: session_open_def)

lemma keeps_close_ledger: "keeps one_active_ledger (close_compute_session now sid)"
  unfolding close_compute_session_def Let_def set_session_def by (intro keeps_intros) simp_all

lemma consume_sessions [simp]:
  "compute_sessions (snd (consume_compute_credits now uid a w)) = compute_sessions w"
  using keepsD [OF keeps_consume [of "\<lambda>v. compute_sessions v = compute_sessions w"]] by simp

lemma consume_sessions_run:
  "consume_compute_credits now uid a w = (r, w') \<Longrightarrow> compute_sessions w' = compute_sessions w"
  by (metis consume_sessions snd_conv)

lemma open_sessions_of_cong:
  "compute_sessions v = compute_sessions w \<Longrightarrow> open_sessions_of sid v = open_sessions_of sid w"
  by (simp add: open_sessions_of_def)

lemma open_sessions_of_update:
  assumes "\<And>s. cs_sandbox_id (f s) = cs_sandbox_id s" and "\<And>s. cs_ended_at (f s) = cs_ended_at s"
  shows "open_sessions_of sid (w\<lparr>compute_sessions := update_where p f (compute_sessions w)\<rparr>)
    = update_where p f (open_sessions_of sid w)"
  using assms by (simp add: open_sessions_of_def filter_update_where)

text \<open>The session that a close works on, and the accrual it makes.\<close>

lemma close_compute_session_unfold:
  assumes "open_sessions_of sid w = [s]" and "t = utc_ts now"
  shows "close_compute_session now sid w =
    (if cs_last_metered_at s < t then
       ebind (set_session (cs_id s) (accrue_session (close_hours t s))) (\<lambda>_.
       ebind (calculate_cu_rate (cs_template s)) (\<lambda>rate.
       ebind (if 0 < dmul rate (close_hours t s)
              then ebind (consume_compute_credits now (cs_user_id s) (dmul rate (close_hours t s))) (\<lambda>_. ret ())
              else ret ()) (\<lambda>_.
       ebind (set_session (cs_id s) (\<lambda>c. c\<lparr>cs_ended_at := Some t, cs_last_metered_at := t, cs_gmt_updated := t\<rparr>)) (\<lambda>_.
       ret (Some ((accrue_session (close_hours t s) s)
         \<lparr>cs_ended_at := Some t, cs_last_metered_at := t, cs_gmt_updated := t\<rparr>)))))) w
     else
       ebind (set_session (cs_id s) (\<lambda>c. c\<lparr>cs_ended_at := Some t, cs_last_metered_at := t, cs_gmt_updated := t\<rparr>)) (\<lambda>_.
       ret (Some (s\<lparr>cs_ended_at := Some t, cs_last_metered_at := t, cs_gmt_updated := t\<rparr>))) w)"
proof -
  define el where "el = total_seconds (t - cs_last_metered_at s)"
  have pos: "0 < (if MAX_CLOSE_DELTA_SECONDS < el then MAX_CLOSE_DELTA_SECONDS else el) \<longleftrightarrow> cs_last_metered_at s < t"
    by (auto simp: el_def MAX_CLOSE_DELTA_SECONDS_def total_seconds_def)
  have cap: "ddiv (if MAX_CLOSE_DELTA_SECONDS < el then MAX_CLOSE_DELTA_SECONDS else el) 3600 = close_hours t s"
    by (simp add: close_hours_def min_def flip: el_def)
  show ?thesis
    using assms(1) unfolding close_compute_session_def assms(2) [symmetric]
    by (simp add: Let_def el_def [symmetric] pos cap ebind_assoc if_distrib [of "\<lambda>m. ebind m f" for f] cong: if_cong)
qed

lemma close_finishes:
  assumes open1: "open_sessions_of sid v = [s]" and i: "cs_id s = i"
  shows "open_sessions_of sid (v\<lparr>compute_sessions := update_where (\<lambda>s. cs_id s = i)
      (\<lambda>c. c\<lparr>cs_ended_at := Some t, cs_last_metered_at := t, cs_gmt_updated := t\<rparr>) (compute_sessions v)\<rparr>) = []"
  using sessions.close_row [of sid v s "\<lambda>s. cs_id s = i"
      "\<lambda>c. c\<lparr>cs_ended_at := Some t, cs_last_metered_at := t, cs_gmt_updated := t\<rparr>"] assms
  by (simp add: open_sessions_of_alt session_open_def)

lemma close_none: "open_sessions_of sid w = [] \<Longrightarrow> close_compute_session now sid w = (Inr None, w)"
  by (simp add: close_compute_session_def)

lemma close_succeeds:
  assumes open1: "open_sessions_of sid w = [s]" and t: "t = utc_ts now"
    and run: "close_compute_session now sid w = (Inr r, w')"
  shows "open_sessions_of sid w' = [] \<and>
    r = Some ((if cs_last_metered_at s < t then accrue_session (close_hours t s) s else s)
      \<lparr>cs_ended_at := Some t, cs_last_metered_at := t, cs_gmt_updated := t\<rparr>)"
proof (cases "cs_last_metered_at s < t")
  case False
  then show ?thesis
    using run close_compute_session_unfold [OF open1 t] close_finishes [OF open1 refl] by auto
next
  case True
  define w1 where "w1 = w\<lparr>compute_sessions :=
    update_where (\<lambda>c. cs_id c = cs_id s) (accrue_session (close_hours t s)) (compute_sessions w)\<rparr>"
  have open2: "open_sessions_of sid w1 = [accrue_session (close_hours t s) s]"
    using open1 by (simp add: w1_def open_sessions_of_update)
  have "calculate_cu_rate (cs_template s) w1 \<noteq> (Inl e, v)" for e v
    using run True unfolding close_compute_session_unfold [OF open1 t] by (auto simp: w1_def)
  then obtain rate where rate: "calculate_cu_rate (cs_template s) w1 = (Inr rate, w1)"
    by (cases "resolve_spec (template_specs_cache w1) (cs_template s)") (auto simp: calculate_cu_rate_run)
  let ?charge = "if 0 < dmul rate (close_hours t s)
    then ebind (consume_compute_credits now (cs_user_id s) (dmul rate (close_hours t s))) (\<lambda>_. ret ()) else ret ()"
  have "ebind ?charge (\<lambda>_.
      ebind (set_session (cs_id s) (\<lambda>c. c\<lparr>cs_ended_at := Some t, cs_last_metered_at := t, cs_gmt_updated := t\<rparr>)) (\<lambda>_.
      ret (Some ((accrue_session (close_hours t s) s)
        \<lparr>cs_ended_at := Some t, cs_last_metered_at := t, cs_gmt_updated := t\<rparr>)))) w1 = (Inr r, w')"
    using run True rate unfolding close_compute_session_unfold [OF open1 t] by (simp add: w1_def)
  then obtain u w2 where charged: "?charge w1 = (Inr u, w2)"
    and w': "w' = w2\<lparr>compute_sessions := update_where (\<lambda>c. cs_id c = cs_id s)
      (\<lambda>c. c\<lparr>cs_ended_at := Some t, cs_last_metered_at := t, cs_gmt_updated := t\<rparr>) (compute_sessions w2)\<rparr>"
    and r: "r = Some ((accrue_session (close_hours t s) s)
      \<lparr>cs_ended_at := Some t, cs_last_metered_at := t, cs_gmt_updated := t\<rparr>)"
    by (rule ebind_InrE) auto
  from charged have w2: "compute_sessions w2 = compute_sessions w1"
    by (auto split: if_splits elim!: ebind_InrE dest: consume_sessions_run)
  have "open_sessions_of sid w2 = [accrue_session (close_hours t s) s]"
    using open2 open_sessions_of_cong [OF w2] by simp
  from close_finishes [OF this, of "cs_id s"] True r w' show ?thesis by simp
qed

lemma consume_total: "plans_of uid w = [p] \<Longrightarrow> \<exists>r w'. consume_compute_credits now uid a w = (Inr r, w')"
  by (cases "0 < a") (auto simp: consume_nothing consume_compute_credits_def Let_def split: prod.splits)

lemma close_total:
  assumes open1: "open_sessions_of sid w = [s]" and plan: "plans_of (cs_user_id s) w = [p]"
    and spec: "resolve_spec (template_specs_cache w) (cs_template s) = Some spec"
  shows "\<exists>r w'. close_compute_session now sid w = (Inr r, w')"
proof -
  define w1 where "w1 = w\<lparr>compute_sessions :=
    update_where (\<lambda>c. cs_id c = cs_id s) (accrue_session (close_hours (utc_ts now) s)) (compute_sessions w)\<rparr>"
  have plan1: "plans_of (cs_user_id s) w1 = [p]" using plan by (simp add: plans_of_def w1_def)
  obtain v m where "spec = (v, m)" by (cases spec)
  then have rate: "calculate_cu_rate (cs_template s) w1 =
      (Inr (dadd (dmul CU_VCPU_WEIGHT v) (dmul CU_MEMORY_WEIGHT m)), w1)"
    using spec by (simp add: calculate_cu_rate_run w1_def)
  obtain r w2 where "consume_compute_credits now (cs_user_id s)
      (dmul (dadd (dmul CU_VCPU_WEIGHT v) (dmul CU_MEMORY_WEIGHT m)) (close_hours (utc_ts now) s)) w1 = (Inr r, w2)"
    using consume_total [OF plan1] by blast
  with rate show ?thesis
    unfolding close_compute_session_unfold [OF open1 refl] by (auto simp: w1_def)
qed

subsection \<open>Storage\<close>

lemma new_active_ledger:
  assumes "one_active_ledger w" and "sl_sandbox_id l = Some sid" and "active_ledgers_of sid w = []"
  shows "one_active_ledger (w\<lparr>storage_ledgers := storage_ledgers w @ [l]\<rparr>)"
  using ledger.open_row [of w l] assms by (simp add: one_active_ledger_def active_ledgers_of_alt)

lemma active_ledgers_of_ids [simp]: "active_ledgers_of sid (w\<lparr>ids_drawn := n\<rparr>) = active_ledgers_of sid w"
  by (simp add: active_ledgers_of_def)

lemma release_ledger_simps [simp]:
  "sl_sandbox_id (release_ledger t l) = sl_sandbox_id l" "sl_storage_state (release_ledger t l) = SL_DELETED"
  "ledger_active (release_ledger t l) = False" "sl_user_id (release_ledger t l) = sl_user_id l"
  "sl_size_gib (release_ledger t l) = sl_size_gib l" "sl_id (release_ledger t l) = sl_id l"
  by (simp_all add: release_ledger_def Let_def ledger_active_def)

lemma keeps_release: "keeps one_active_ledger (record_storage_release now sid)"
  unfolding record_storage_release_def by (intro keeps_intros keeps_set_ledger) simp_all

lemma keeps_update_mode: "keeps one_active_ledger (update_storage_backend_mode now sid mode)"
  unfolding update_storage_backend_mode_def
  by (intro keeps_intros keeps_set_ledger) (simp_all add: ledger_active_def)

lemma record_storage_allocation_new:
  assumes "active_ledgers_of sid w = []"
  shows "record_storage_allocation now uid sid gib mode w =
    (let l = \<lparr>sl_id = ''sl'' @ id_source w (ids_drawn w), sl_user_id = uid, sl_sandbox_id = Some sid,
         sl_size_gib = gib, sl_storage_state = SL_ACTIVE, sl_backend_mode = mode, sl_allocated_at = now,
         sl_released_at = None, sl_gib_hours_consumed = 0, sl_last_metered_at = now, sl_gmt_updated = now\<rparr>
     in (Inr l, w\<lparr>ids_drawn := Suc (ids_drawn w), storage_ledgers := storage_ledgers w @ [l]\<rparr>))"
  using assms by (simp add: record_storage_allocation_def run_simps Let_def)

lemma keeps_allocation: "keeps one_active_ledger (record_storage_allocation now uid sid gib mode)"
proof (rule keepsI)
  fix w
  assume inv: "one_active_ledger w"
  then show "one_active_ledger (snd (record_storage_allocation now uid sid gib mode w))"
  proof (cases rule: one_active_cases [of w sid])
    case 1
    then show ?thesis
      using inv new_active_ledger [of "w\<lparr>ids_drawn := Suc (ids_drawn w)\<rparr>" _ sid]
      by (simp add: record_storage_allocation_new Let_def)
  next
    case (2 l)
    then show ?thesis
      using inv keepsD [OF keeps_set_ledger [of "\<lambda>l. l\<lparr>sl_backend_mode := mode, sl_gmt_updated := now\<rparr>"], of w]
      by (simp add: record_storage_allocation_def ledger_active_def)
  qed
qed

lemma keeps_sessions_storage:
  "keeps one_open_session (record_storage_allocation now uid sid gib mode)"
  "keeps one_open_session (update_storage_backend_mode now sid mode)"
  "keeps one_open_session (record_storage_release now sid)"
  "keeps one_active_ledger (open_compute_session now sid uid template)"
  unfolding record_storage_allocation_def update_storage_backend_mode_def record_storage_release_def
    open_compute_session_def Let_def set_ledger_def
  by (intro keeps_intros; simp)+

lemma metering_inv_conj: "keeps one_open_session m \<Longrightarrow> keeps one_active_ledger m \<Longrightarrow> keeps metering_inv m"
  using keeps_conj by (fastforce simp: keeps_def metering_inv_def)

lemma keeps_metering_inv [keeps_intros]:
  "keeps metering_inv (open_compute_session t sid uid template)"
  "keeps metering_inv (close_compute_session now sid)"
  "keeps metering_inv (record_storage_allocation t uid sid gib mode)"
  "keeps metering_inv (update_storage_backend_mode t sid mode)"
  "keeps metering_inv (record_storage_release t sid)"
  by (intro metering_inv_conj keeps_open_compute_session keeps_close_compute_session keeps_close_ledger
      keeps_allocation keeps_update_mode keeps_release keeps_sessions_storage)+

text \<open>The storage in use, as the sum over active entries.\<close>

lemma sum_list_filter_int:
  "sum_list (map f (filter P xs)) = sum_list (map (\<lambda>x. if P x then f x else 0) xs)"
  for f :: "'a \<Rightarrow> int"
  by (induction xs) auto

lemma sum_list_release:
  fixes f :: "'a \<Rightarrow> int"
  assumes "distinct (map k xs)" and "x \<in> set xs" and "f (g x) = 0"
  shows "sum_list (map f (update_where (\<lambda>y. k y = k x) g xs)) = sum_list (map f xs) - f x"
  using assms
proof (induction xs)
  case Nil
  then show ?case by simp
next
  case (Cons y ys)
  show ?case
  proof (cases "k y = k x")
    case True
    with Cons.prems have "y = x" and "\<forall>z \<in> set ys. k z \<noteq> k x" by (auto simp: image_iff)
    then have "update_where (\<lambda>y. k y = k x) g ys = ys" by (intro update_where_id) auto
    with True \<open>y = x\<close> Cons.prems(3) show ?thesis by simp
  next
    case False
    with Cons show ?thesis by auto
  qed
qed

lemma storage_used_run: "get_current_storage_used uid w =
    (Inr (sum_list (map (\<lambda>l. if sl_user_id l = uid \<and> sl_storage_state l = SL_ACTIVE then sl_size_gib l else 0)
       (storage_ledgers w))), w)"
  by (simp add: get_current_storage_used_def sum_list_filter_int)

lemma get_user_plan_result:
  assumes "get_user_plan now uid w = (Inr p, w')"
  shows "plans_of uid w' = [p]" and "storage_ledgers w' = storage_ledgers w"
proof -
  show "plans_of uid w' = [p]"
    using assms unfolding get_user_plan_def ensure_user_plan_def by (rule ensure_user_plan_result)
  show "storage_ledgers w' = storage_ledgers w"
    using keepsD_run [OF keeps_get_user_plan(1) [of "\<lambda>v. storage_ledgers v = storage_ledgers w"] _ assms]
    by simp
qed

lemma get_user_plan_present: "plans_of uid w = [p] \<Longrightarrow> get_user_plan now uid w = (Inr p, w)"
  by (simp add: get_user_plan_def ensure_user_plan_def ensure_user_plan_race_def)

subsection \<open>Tier updates\<close>

lemma field_after_propagates:
  "(if propagates p new k then or_else new v else old) = field_after p k new old"
  by (cases new) (simp_all add: propagates_def field_after_def or_else_def)

lemma field_after_same: "\<not> propagates p new k \<Longrightarrow> field_after p k new old = old"
  by (cases new) (auto simp: propagates_def field_after_def or_else_def)

lemma takes_over_propagate:
  "takes_over u p ((propagate_plan u (update_template_fields u now tmpl) p)\<lparr>up_gmt_updated := now'\<rparr>)"
  by (simp add: takes_over_def propagate_plan_def update_template_fields_def field_after_propagates
      split del: if_split cong: if_cong)

lemma takes_over_same: "\<not> plan_changed u p \<Longrightarrow> takes_over u p p"
  by (simp add: takes_over_def plan_changed_def field_after_same)

subsection \<open>The share of a session in a period\<close>

lemma total_seconds_le: "total_seconds a \<le> total_seconds b \<longleftrightarrow> a \<le> b"
  by (simp add: total_seconds_def divide_le_cancel)

lemma total_seconds_pos: "0 < total_seconds a \<longleftrightarrow> 0 < a"
  by (simp add: total_seconds_def)

lemma col4_one: "col4 1"
  by (simp add: col4_def on_grid_def)

lemma ddiv_unit: "0 \<le> a \<Longrightarrow> a \<le> b \<Longrightarrow> 0 < b \<Longrightarrow> 0 \<le> ddiv a b \<and> ddiv a b \<le> 1"
  unfolding ddiv_def by (rule ctx.rnd_clamp) (simp_all add: col4_one)

subsection \<open>Properties\<close>

text \<open>Opening a session is idempotent. After a successful call the sandbox has exactly the returned
  session open, and a repeated call (for instance from the reconciler), at any time and with any
  template, returns it and changes nothing. A call for an unknown template fails with a
  \<^verbatim>\<open>BadRequestError\<close> and changes nothing.\<close>

theorem open_compute_session_idempotent:
  assumes inv: "one_open_session w" and run: "open_compute_session t sid uid template w = (r, w')"
  shows "case r of
      Inr s \<Rightarrow> open_sessions_of sid w' = [s] \<and> cs_sandbox_id s = sid \<and>
               open_compute_session t' sid uid' template' w' = (Inr s, w')
    | Inl e \<Rightarrow> core_error e = Some (''bad_request'', 400) \<and> w' = w"
  using inv
proof (cases rule: one_open_cases [of w sid])
  case 1
  have inv': "one_open_session w'"
    using keepsD_run [OF keeps_open_compute_session inv run] .
  show ?thesis
    using run 1 inv' unfolding open_compute_session_run [OF inv] open_compute_session_run [OF inv']
    by (auto simp: Let_def open_sessions_of_def split: option.splits list.splits)
next
  case (2 s)
  then show ?thesis using run inv by (auto simp: open_compute_session_run)
qed

theorem open_compute_session_idempotent_witness:
  "\<exists>s w'. open_compute_session 0 ''sb1'' ''u1'' ''aio-sandbox-tiny'' demo_world = (Inr s, w') \<and>
     open_sessions_of ''sb1'' w' = [s] \<and>
     open_compute_session 7 ''sb1'' ''u1'' ''aio-sandbox-large'' w' = (Inr s, w')"
proof -
  have inv: "one_open_session demo_world"
    by (simp add: one_open_session_def one_live_def demo_world_def empty_world_def)
  obtain s w' where run:
      "open_compute_session 0 ''sb1'' ''u1'' ''aio-sandbox-tiny'' demo_world = (Inr s, w')"
    unfolding open_compute_session_run [OF inv]
    by (simp add: demo_world_def empty_world_def open_sessions_of_def resolve_spec_def TEMPLATE_SPECS_def Let_def)
  from open_compute_session_idempotent [OF inv run, of 7 "''u1''" "''aio-sandbox-large''"] run show ?thesis
    by auto
qed

text \<open>closing a session succeeds whenever the owner has a plan and the template is known. Then the
  sandbox has no open session left, the returned session ended now, and it has accrued its
  resources for the time since it was last metered, at most \<^verbatim>\<open>MAX_CLOSE_DELTA_SECONDS\<close>, and
  nothing if that time is not positive; a second close returns \<open>None\<close> and changes nothing.\<close>

theorem close_compute_session_closes:
  assumes open1: "open_sessions_of sid w = [s]" and plan: "plans_of (cs_user_id s) w = [p]"
    and spec: "resolve_spec (template_specs_cache w) (cs_template s) = Some spec" and t: "t = utc_ts now"
  shows "\<exists>w'. close_compute_session now sid w =
      (Inr (Some ((if cs_last_metered_at s < t
               then accrue_session (ddiv (min 120 (total_seconds (t - cs_last_metered_at s))) 3600) s else s)
              \<lparr>cs_ended_at := Some t, cs_last_metered_at := t, cs_gmt_updated := t\<rparr>)), w') \<and>
    open_sessions_of sid w' = [] \<and> close_compute_session later sid w' = (Inr None, w')"
proof -
  obtain r w' where run: "close_compute_session now sid w = (Inr r, w')"
    using close_total [OF open1 plan spec] by blast
  from close_succeeds [OF open1 t this] run close_none [of sid w' later] show ?thesis
    by (simp add: close_hours_def MAX_CLOSE_DELTA_SECONDS_def)
qed

theorem close_compute_session_closes_witness:
  "\<exists>s' w'. close_compute_session demo_now ''sb1'' session_world = (Inr (Some s'), w') \<and>
     cs_ended_at s' = Some (utc_ts demo_now) \<and> open_sessions_of ''sb1'' w' = [] \<and>
     close_compute_session demo_now ''sb1'' w' = (Inr None, w')"
proof -
  have 1: "open_sessions_of ''sb1'' session_world = [demo_session]"
    by (simp add: open_sessions_of_def session_world_def demo_session_def)
  have 2: "plans_of (cs_user_id demo_session) session_world = [demo_plan]"
    by (simp add: plans_of_def session_world_def demo_world_def demo_session_def demo_plan_def)
  have 3: "resolve_spec (template_specs_cache session_world) (cs_template demo_session) = Some (1/4, 1)"
    by (simp add: resolve_spec_def session_world_def demo_world_def empty_world_def demo_session_def TEMPLATE_SPECS_def)
  from close_compute_session_closes [OF 1 2 3 refl, of demo_now demo_now] show ?thesis by fastforce
qed

text \<open>Closing is not atomic. When the template of an open session is no longer known, the close
  raises, the session stays open with an unchanged metering time, but the hours it would have had
  are already added: in a caller that swallows the exception and commits, every retry adds them
  again.\<close>

theorem close_unknown_template_accrues:
  assumes "open_sessions_of sid w = [s]" and "resolve_spec (template_specs_cache w) (cs_template s) = None"
    and "cs_last_metered_at s < utc_ts now"
  shows "\<exists>w'. close_compute_session now sid w =
      (Inl (BadRequestError (''Unknown sandbox template: '' @ cs_template s)), w') \<and>
    open_sessions_of sid w' =
      [accrue_session (ddiv (min 120 (total_seconds (utc_ts now - cs_last_metered_at s))) 3600) s]"
  using assms
  by (simp add: close_compute_session_unfold [OF assms(1) refl] calculate_cu_rate_run open_sessions_of_update
      close_hours_def MAX_CLOSE_DELTA_SECONDS_def)

theorem close_unknown_template_accrues_witness:
  "\<exists>w'. close_compute_session demo_now ''sb1''
       (session_world\<lparr>compute_sessions := [demo_session\<lparr>cs_template := ''gone''\<rparr>]\<rparr>) =
     (Inl (BadRequestError ''Unknown sandbox template: gone''), w') \<and>
   length (open_sessions_of ''sb1'' w') = 1"
proof -
  let ?w = "session_world\<lparr>compute_sessions := [demo_session\<lparr>cs_template := ''gone''\<rparr>]\<rparr>"
  have 1: "open_sessions_of ''sb1'' ?w = [demo_session\<lparr>cs_template := ''gone''\<rparr>]"
    by (simp add: open_sessions_of_def demo_session_def)
  have 2: "resolve_spec (template_specs_cache ?w) (cs_template (demo_session\<lparr>cs_template := ''gone''\<rparr>)) = None"
    by (simp add: resolve_spec_def session_world_def demo_world_def empty_world_def TEMPLATE_SPECS_def)
  have 3: "cs_last_metered_at (demo_session\<lparr>cs_template := ''gone''\<rparr>) < utc_ts demo_now"
    by (simp add: demo_session_def seconds_def)
  from close_unknown_template_accrues [OF 1 2 3] show ?thesis by auto
qed

text \<open>The storage quota admits exactly what fits. A check that passes, followed by the allocation it
  was made for, leaves the storage in use within the plan's capacity plus the unexpired grants.\<close>

theorem storage_quota_admission:
  assumes none: "active_ledgers_of sid w = []"
    and check: "check_storage_quota now uid gib w = (Inr (), w1)"
    and alloc: "record_storage_allocation (utc_ts now) uid sid gib mode w1 = (r, w2)"
  shows "\<exists>l used quota. r = Inr l \<and> active_ledgers_of sid w2 = [l] \<and>
    get_current_storage_used uid w2 = (Inr used, w2) \<and>
    get_total_storage_quota now uid w2 = (Inr quota, w2) \<and> used \<le> quota"
proof -
  obtain p where p: "get_user_plan now uid w = (Inr p, w1)" and le:
      "gib \<le> up_storage_capacity_limit_gib p + (sum_list (map sq_size_gib (filter (\<lambda>g. sq_user_id g = uid \<and>
         unexpired (utc_ts now) (sq_expires_at g)) (storage_quota_grants w1)))) -
       (sum_list (map sl_size_gib (filter (\<lambda>l. sl_user_id l = uid \<and> sl_storage_state l = SL_ACTIVE)
         (storage_ledgers w1))))"
    using check by (auto simp: check_storage_quota_def get_extra_storage_quota_def get_current_storage_used_def
        Let_def elim!: ebind_InrE split: if_splits)
  note gp = get_user_plan_result [OF p]
  have "active_ledgers_of sid w1 = []" using none gp(2) by (simp add: active_ledgers_of_def)
  then obtain l where w2: "r = Inr l" "w2 = w1\<lparr>ids_drawn := Suc (ids_drawn w1), storage_ledgers := storage_ledgers w1 @ [l]\<rparr>"
    and l: "sl_user_id l = uid" "sl_size_gib l = gib" "sl_storage_state l = SL_ACTIVE" "sl_sandbox_id l = Some sid"
    using alloc by (auto simp: record_storage_allocation_new Let_def)
  have "plans_of uid w2 = [p]" using gp(1) w2 by (simp add: plans_of_def)
  then have "get_total_storage_quota now uid w2 = (Inr (up_storage_capacity_limit_gib p +
      (sum_list (map sq_size_gib (filter (\<lambda>g. sq_user_id g = uid \<and>
         unexpired (utc_ts now) (sq_expires_at g)) (storage_quota_grants w1))))), w2)"
    using w2 by (simp add: get_total_storage_quota_def get_user_plan_present get_extra_storage_quota_def)
  moreover have "active_ledgers_of sid w2 = [l]"
    using \<open>active_ledgers_of sid w1 = []\<close> w2 l by (simp add: active_ledgers_of_def)
  ultimately show ?thesis using w2 l le by (simp add: get_current_storage_used_def)
qed

theorem storage_quota_admission_witness:
  "\<exists>l. check_storage_quota demo_now ''u1'' 3 session_world = (Inr (), session_world) \<and>
     fst (record_storage_allocation (utc_ts demo_now) ''u1'' ''sb2'' 3 LIVE_DISK session_world) = Inr l"
proof -
  have 1: "active_ledgers_of ''sb2'' session_world = []"
    by (simp add: active_ledgers_of_def session_world_def demo_ledger_def)
  have "plans_of ''u1'' session_world = [demo_plan]"
    by (simp add: plans_of_def session_world_def demo_world_def demo_plan_def)
  then have 2: "check_storage_quota demo_now ''u1'' 3 session_world = (Inr (), session_world)"
    by (simp add: check_storage_quota_def get_user_plan_present get_extra_storage_quota_def
        get_current_storage_used_def session_world_def demo_world_def empty_world_def demo_ledger_def demo_plan_def)
  obtain r w2 where 3: "record_storage_allocation (utc_ts demo_now) ''u1'' ''sb2'' 3 LIVE_DISK session_world = (r, w2)"
    by (cases "record_storage_allocation (utc_ts demo_now) ''u1'' ''sb2'' 3 LIVE_DISK session_world")
  from storage_quota_admission [OF 1 2 3] 2 3 show ?thesis by auto
qed

text \<open>Releasing storage gives back exactly the size of the entry: the active entry of the sandbox
  becomes a deleted one, the storage in use of its owner drops by its size, and a second release
  finds nothing and changes nothing.\<close>

theorem record_storage_release_frees:
  assumes act: "active_ledgers_of sid w = [l]" and ids: "distinct (map sl_id (storage_ledgers w))"
    and used: "get_current_storage_used (sl_user_id l) w = (Inr u, w)"
  shows "\<exists>l' w'. record_storage_release t sid w = (Inr (Some l'), w') \<and>
    sl_storage_state l' = SL_DELETED \<and> sl_released_at l' = Some t \<and>
    active_ledgers_of sid w' = [] \<and>
    get_current_storage_used (sl_user_id l) w' = (Inr (u - sl_size_gib l), w') \<and>
    record_storage_release t' sid w' = (Inr None, w')"
proof -
  let ?w = "w\<lparr>storage_ledgers := update_where (\<lambda>x. sl_id x = sl_id l) (release_ledger t) (storage_ledgers w)\<rparr>"
  have l: "l \<in> set (active_ledgers_of sid w)" using act by simp
  then have l: "l \<in> set (storage_ledgers w)" "sl_storage_state l = SL_ACTIVE"
    by (auto simp: active_ledgers_of_def)
  have run: "record_storage_release t sid w = (Inr (Some (release_ledger t l)), ?w)"
    using act by (simp add: record_storage_release_def)
  have gone: "active_ledgers_of sid ?w = []"
    using ledger.close_row [of "Some sid" w l "\<lambda>x. sl_id x = sl_id l" "release_ledger t"] act
    by (simp add: active_ledgers_of_alt)
  have "get_current_storage_used (sl_user_id l) ?w = (Inr (u - sl_size_gib l), ?w)"
    using used sum_list_release [OF ids l(1), of
        "\<lambda>x. if sl_user_id x = sl_user_id l \<and> sl_storage_state x = SL_ACTIVE then sl_size_gib x else 0"
        "release_ledger t"] l(2)
    by (simp add: storage_used_run)
  moreover have "record_storage_release t' sid ?w = (Inr None, ?w)"
    using gone by (simp add: record_storage_release_def)
  ultimately show ?thesis
    using run gone by (auto simp: release_ledger_def Let_def)
qed

theorem record_storage_release_frees_witness:
  "\<exists>l' w'. record_storage_release 5 ''sb1'' session_world = (Inr (Some l'), w') \<and>
     get_current_storage_used ''u1'' session_world = (Inr 2, session_world) \<and>
     get_current_storage_used ''u1'' w' = (Inr 0, w')"
proof -
  have 1: "active_ledgers_of ''sb1'' session_world = [demo_ledger]"
    by (simp add: active_ledgers_of_def session_world_def demo_ledger_def)
  have 2: "distinct (map sl_id (storage_ledgers session_world))" by (simp add: session_world_def)
  have 3: "get_current_storage_used (sl_user_id demo_ledger) session_world = (Inr 2, session_world)"
    by (simp add: get_current_storage_used_def session_world_def demo_ledger_def)
  from record_storage_release_frees [OF 1 2 3, of 5 6] 3 show ?thesis by (auto simp: demo_ledger_def)
qed

text \<open>The share of a session in a billing period is a fraction: it is never negative and never more
  than one, and it is zero when the session and the period do not meet.\<close>

theorem period_overlap_ratio_fraction:
  "0 \<le> period_overlap_ratio s e now ps pe \<and> period_overlap_ratio s e now ps pe \<le> 1 \<and>
   (pe \<le> s \<or> now \<le> ps \<or> (case e of None \<Rightarrow> False | Some x \<Rightarrow> x \<le> ps) \<longrightarrow>
    period_overlap_ratio s e now ps pe = 0)"
proof -
  define ee where "ee = min (min (case e of None \<Rightarrow> now | Some e \<Rightarrow> e) now) pe"
  have r: "period_overlap_ratio s e now ps pe =
      (if ee \<le> s \<or> ee \<le> max s ps then 0 else ddiv (total_seconds (ee - max s ps)) (total_seconds (ee - s)))"
    by (auto simp: period_overlap_ratio_def Let_def total_seconds_def simp flip: ee_def) (auto simp: ee_def)
  have "0 \<le> ddiv (total_seconds (ee - max s ps)) (total_seconds (ee - s)) \<and>
      ddiv (total_seconds (ee - max s ps)) (total_seconds (ee - s)) \<le> 1" if "\<not> ee \<le> max s ps"
    using that by (intro ddiv_unit) (auto simp: total_seconds_le total_seconds_pos total_seconds_def)
  then show ?thesis unfolding r by (auto simp: ee_def split: option.splits)
qed

theorem period_overlap_ratio_fraction_witness:
  "period_overlap_ratio 5 (Some 9) 20 10 30 = 0"
  using period_overlap_ratio_fraction [of 5 "Some 9" 20 10 30] by simp

text \<open>The share is taken of the part of the session before the end of the period, not of the whole
  session. A session that started in the period and was still running at its end counts with its
  whole accumulated usage in this period, and again with a positive share in the next one: usage
  across a boundary is reported twice unless the session was split there.\<close>

theorem period_overlap_ratio_counts_twice:
  assumes "ps \<le> s" and "s < pe" and "pe < e" and "e \<le> now" and "e \<le> pe2"
  shows "period_overlap_ratio s (Some e) now ps pe = 1 \<and> 0 < period_overlap_ratio s (Some e) now pe pe2"
proof
  have "dctx 1 = 1" by (rule dctx_small) (simp_all add: on_grid_def)
  then show "period_overlap_ratio s (Some e) now ps pe = 1"
    using assms by (auto simp: period_overlap_ratio_def Let_def ddiv_def total_seconds_def min_def max_def)
  have "period_overlap_ratio s (Some e) now pe pe2 = ddiv (total_seconds (e - pe)) (total_seconds (e - s))"
    using assms by (auto simp: period_overlap_ratio_def Let_def total_seconds_def min_def max_def)
  also have "0 < \<dots>" unfolding ddiv_def
    by (rule dctx_pos) (use assms in \<open>simp add: total_seconds_def\<close>)
  finally show "0 < period_overlap_ratio s (Some e) now pe pe2" .
qed

theorem period_overlap_ratio_counts_twice_witness:
  "period_overlap_ratio 5 (Some 15) 20 0 10 = 1 \<and> 0 < period_overlap_ratio 5 (Some 15) 20 10 30"
  by (rule period_overlap_ratio_counts_twice) simp_all

text \<open>Propagating a tier update to existing plans respects overrides. Every plan of the tier gets
  the new value of a field that the update names unless the plan has an override for it, plans of
  other tiers are not touched, the number of plans stays, and the returned count is the number of
  plans with at least one field taken over.\<close>

theorem update_tier_template_respects_overrides:
  assumes "get_tier_template tier w = (Inr tmpl, w)"
  shows "\<exists>t w'. update_tier_template now tier u True w =
      (Inr (t, length (filter (\<lambda>p. up_tier p = tier \<and> plan_changed u p) (user_plans w))), w') \<and>
    list_all2 (\<lambda>p q. if up_tier p = tier then takes_over u p q else q = p) (user_plans w) (user_plans w')"
proof -
  define t where "t = update_template_fields u now tmpl"
  have run: "update_tier_template now tier u True w =
    (Inr (t, length (filter (\<lambda>p. up_tier p = tier \<and> plan_changed u p) (user_plans w))),
     w\<lparr>tier_templates := update_where (\<lambda>x. tt_tier_name x = tier) (\<lambda>_. t) (tier_templates w),
       user_plans := update_where (\<lambda>p. up_tier p = tier \<and> plan_changed u p)
         (\<lambda>p. (propagate_plan u t p)\<lparr>up_gmt_updated := now\<rparr>) (user_plans w)\<rparr>)"
    using assms by (simp add: update_tier_template_def Let_def t_def)
  show ?thesis
    unfolding run
    by (auto simp: update_where_def list_all2_map2 t_def takes_over_propagate takes_over_same
        intro!: list.rel_refl_strong)
qed

theorem update_tier_template_respects_overrides_witness:
  "\<exists>t w'. update_tier_template 9 ''free''
      \<lparr>tu_compute_units_monthly = Some 20, tu_storage_capacity_gib = None, tu_max_concurrent_running = None,
       tu_max_sandbox_duration_seconds = None, tu_allowed_templates = None, tu_grace_period_seconds = None\<rparr> True
      (demo_world\<lparr>tier_templates := [demo_tier]\<rparr>) = (Inr (t, 1), w') \<and>
    map up_compute_units_monthly_limit (user_plans w') = [20]"
proof -
  let ?w = "demo_world\<lparr>tier_templates := [demo_tier]\<rparr>"
  let ?u = "\<lparr>tu_compute_units_monthly = Some 20, tu_storage_capacity_gib = None, tu_max_concurrent_running = None,
       tu_max_sandbox_duration_seconds = None, tu_allowed_templates = None, tu_grace_period_seconds = None\<rparr>"
  have "get_tier_template ''free'' ?w = (Inr demo_tier, ?w)"
    by (simp add: get_tier_template_def demo_tier_def)
  from update_tier_template_respects_overrides [OF this, of 9 ?u] show ?thesis
    by (auto simp: demo_world_def demo_plan_def plan_changed_def propagates_def overridden_def takes_over_def
        field_after_def or_else_def list_all2_Cons1)
qed

end
