(* ===== verification/Metering_Tasks.thy ===== *)
theory Metering_Tasks
  imports Metering_Sessions
begin

text \<open>
  \<^verbatim>\<open>metering/services/metering_tasks.py\<close>: the tick that the leader runs every minute. It meters the
  open sessions and the storage, sends warnings, drives the grace period and resets the month.

  Two parameters stand for what is outside: \<open>rivals\<close> gives the time at which a concurrent transaction
  touched a session between the tick's read and its update (the optimistic lock then loses), and
  \<open>add_month\<close> is \<^verbatim>\<open>t + relativedelta(months=1)\<close> of \<^verbatim>\<open>dateutil\<close>. An ORM object that a loop carries
  is its row, updated through its key; where the code goes on reading the attributes that it has
  just assigned (the plan in the rollover), the new value is passed along.
\<close>

definition TICK_INTERVAL :: int where "TICK_INTERVAL = 60"
definition ABSOLUTE_OVERAGE_CAP_RATIO :: dec where "ABSOLUTE_OVERAGE_CAP_RATIO = 2 / 10"

definition set_sandbox :: "string \<Rightarrow> (sandbox \<Rightarrow> sandbox) \<Rightarrow> unit op" where
  "set_sandbox i f =
     modify (\<lambda>w. w\<lparr>sandboxes := update_where (\<lambda>s. sb_id s = i) f (sandboxes w)\<rparr>)"

subsection \<open>Query helpers\<close>

definition get_users_with_running_sandboxes :: "string list op" where
  "get_users_with_running_sandboxes = gets (\<lambda>w. remdups (map sb_owner_id (filter is_running (sandboxes w))))"

definition get_running_sandboxes :: "string \<Rightarrow> sandbox list op" where
  "get_running_sandboxes uid =
     gets (\<lambda>w. filter (\<lambda>s. sb_owner_id s = uid \<and> is_running s) (sandboxes w))"

definition get_open_sessions_by_user :: "string \<Rightarrow> world \<Rightarrow> compute_session list" where
  "get_open_sessions_by_user uid w =
     filter (\<lambda>s. cs_user_id s = uid \<and> cs_ended_at s = None) (compute_sessions w)"

definition get_sandbox_by_id :: "string \<Rightarrow> world \<Rightarrow> sandbox option" where
  "get_sandbox_by_id sid w = find (\<lambda>s. sb_id s = sid) (sandboxes w)"

record user_metering_snapshot =
  ms_plan :: user_plan
  ms_extra :: dec
  ms_total :: dec

text \<open>Plans that do not exist yet are created for all users first; then the grants are summed.\<close>

fun load_plans :: "datetime \<Rightarrow> string list \<Rightarrow> (string \<times> user_plan) list op" where
  "load_plans now [] = ret []"
| "load_plans now (uid # uids) =
     ebind (get_user_plan now uid) (\<lambda>p. ebind (load_plans now uids) (\<lambda>ps. ret ((uid, p) # ps)))"

definition snapshot_of :: "time \<Rightarrow> world \<Rightarrow> string \<times> user_plan \<Rightarrow> string \<times> user_metering_snapshot" where
  "snapshot_of t w x = (case x of (uid, plan) \<Rightarrow>
     let extra = sum_list (map cg_remaining_amount (filter (consumable uid t) (compute_grants w)))
     in (uid, \<lparr>ms_plan = plan, ms_extra = extra, ms_total = total_remaining plan extra\<rparr>))"

definition load_user_metering_snapshots ::
    "datetime \<Rightarrow> string list \<Rightarrow> (string \<times> user_metering_snapshot) list op" where
  "load_user_metering_snapshots now uids =
     ebind (load_plans now uids) (\<lambda>ps. gets (\<lambda>w. map (snapshot_of (utc_ts now) w) ps))"

subsection \<open>Compute tick\<close>

definition concurrent_touch :: "(string \<Rightarrow> time option) \<Rightarrow> string \<Rightarrow> unit op" where
  "concurrent_touch rivals i =
     (case rivals i of None \<Rightarrow> ret () | Some g \<Rightarrow> set_session i (\<lambda>r. r\<lparr>cs_gmt_updated := g\<rparr>))"

definition row_unchanged :: "compute_session \<Rightarrow> compute_session \<Rightarrow> bool" where
  "row_unchanged cs r \<longleftrightarrow> cs_id r = cs_id cs \<and> cs_gmt_updated r = cs_gmt_updated cs"

text \<open>The \<^verbatim>\<open>UPDATE\<close> adds in the database: the sum is exact and the column rounds it.\<close>

definition meter_row :: "time \<Rightarrow> dec \<Rightarrow> dec \<Rightarrow> compute_session \<Rightarrow> compute_session" where
  "meter_row now dv dm r = r\<lparr>cs_vcpu_hours := num4 (cs_vcpu_hours r + dv),
     cs_memory_gib_hours := num4 (cs_memory_gib_hours r + dm),
     cs_last_metered_at := now, cs_gmt_updated := now\<rparr>"

fun tick_sessions ::
    "(string \<Rightarrow> time option) \<Rightarrow> time \<Rightarrow> compute_session list \<Rightarrow> (string \<times> dec) list \<Rightarrow> nat
     \<Rightarrow> ((string \<times> dec) list \<times> nat) op" where
  "tick_sessions rivals now [] deltas metered = ret (deltas, metered)"
| "tick_sessions rivals now (cs # rest) deltas metered =
     (let elapsed_seconds = total_seconds (now - cs_last_metered_at cs)
      in if elapsed_seconds \<le> 0 then tick_sessions rivals now rest deltas metered
         else
           let elapsed_hours = ddiv elapsed_seconds 3600;
               delta_vcpu_hours = dmul (cs_vcpu_request cs) elapsed_hours;
               delta_memory_gib_hours = dmul (cs_memory_gib_request cs) elapsed_hours
           in ebind (concurrent_touch rivals (cs_id cs)) (\<lambda>_.
              ebind (gets (\<lambda>w. filter (row_unchanged cs) (compute_sessions w))) (\<lambda>rows.
              if rows = [] then tick_sessions rivals now rest deltas metered
              else
                ebind (modify (\<lambda>w. w\<lparr>compute_sessions :=
                  update_where (row_unchanged cs) (meter_row now delta_vcpu_hours delta_memory_gib_hours)
                    (compute_sessions w)\<rparr>)) (\<lambda>_.
                ebind (calculate_cu_rate (cs_template cs)) (\<lambda>cu_rate.
                let cu_delta = dmul cu_rate elapsed_hours
                in tick_sessions rivals now rest
                     (dict_set (cs_user_id cs) (dadd (dict_get deltas (cs_user_id cs) 0) cu_delta) deltas)
                     (Suc metered))))))"

definition tick_metering :: "(string \<Rightarrow> time option) \<Rightarrow> datetime \<Rightarrow> nat op" where
  "tick_metering rivals now =
     ebind (gets (\<lambda>w. filter (\<lambda>s. cs_ended_at s = None) (compute_sessions w))) (\<lambda>open_sessions.
     ebind (tick_sessions rivals (utc_ts now) open_sessions [] 0) (\<lambda>(deltas, metered).
     ebind (for_each deltas (\<lambda>(uid, total_delta).
       if 0 < total_delta
       then ebind (consume_compute_credits now uid total_delta) (\<lambda>_. ret ()) else ret ())) (\<lambda>_.
     ebind (if 0 < metered then commit else ret ()) (\<lambda>_. ret metered))))"

subsection \<open>Storage tick\<close>

definition storage_due :: "time \<Rightarrow> storage_ledger \<Rightarrow> bool" where
  "storage_due now l \<longleftrightarrow> sl_storage_state l = SL_ACTIVE \<and> sl_last_metered_at l < now"

definition meter_ledger :: "time \<Rightarrow> storage_ledger \<Rightarrow> storage_ledger" where
  "meter_ledger now l = l\<lparr>
     sl_gib_hours_consumed := num4 (sl_gib_hours_consumed l +
       num4 (of_int (sl_size_gib l) * total_seconds (now - sl_last_metered_at l) / 3600)),
     sl_last_metered_at := now, sl_gmt_updated := now\<rparr>"

definition tick_storage_metering :: "time \<Rightarrow> nat op" where
  "tick_storage_metering now =
     ebind (gets (\<lambda>w. length (filter (storage_due now) (storage_ledgers w)))) (\<lambda>updated.
     ebind (modify (\<lambda>w. w\<lparr>storage_ledgers :=
       update_where (storage_due now) (meter_ledger now) (storage_ledgers w)\<rparr>)) (\<lambda>_.
     ebind (if 0 < updated then commit else ret ()) (\<lambda>_. ret updated)))"

subsection \<open>Warnings\<close>

definition usage_metadata :: "user_plan \<Rightarrow> dec \<Rightarrow> dec \<Rightarrow> (string \<times> meta_value) list" where
  "usage_metadata plan extra remaining =
     [(''tier'', MStr (up_tier plan)), (''monthly_used'', MDec (up_compute_units_monthly_used plan)),
      (''monthly_limit'', MDec (up_compute_units_monthly_limit plan)),
      (''extra_remaining'', MDec extra), (''total_remaining'', MDec remaining)]"

definition warn_user :: "time \<Rightarrow> string \<times> user_metering_snapshot \<Rightarrow> unit op" where
  "warn_user now x = (case x of (uid, snapshot) \<Rightarrow>
     let plan = ms_plan snapshot; total_remaining = ms_total snapshot;
         monthly_limit = up_compute_units_monthly_limit plan;
         monthly_used = up_compute_units_monthly_used plan
     in if total_remaining \<le> 0 \<and> up_warning_100_notified_at plan = None then
          ebind (set_plan uid (\<lambda>p. p\<lparr>up_warning_100_notified_at := Some now, up_gmt_updated := now\<rparr>)) (\<lambda>_.
          record_audit_event ''metering.compute_warning_100'' ''user'' uid
            (usage_metadata plan (ms_extra snapshot) total_remaining))
        else if 0 < monthly_limit \<and> dmul monthly_limit (8 / 10) \<le> monthly_used
                \<and> up_warning_80_notified_at plan = None then
          ebind (set_plan uid (\<lambda>p. p\<lparr>up_warning_80_notified_at := Some now, up_gmt_updated := now\<rparr>)) (\<lambda>_.
          record_audit_event ''metering.compute_warning_80'' ''user'' uid
            (usage_metadata plan (ms_extra snapshot) total_remaining))
        else ret ())"

definition check_warning_thresholds :: "datetime \<Rightarrow> unit op" where
  "check_warning_thresholds now =
     ebind get_users_with_running_sandboxes (\<lambda>uids.
     ebind (load_user_metering_snapshots now uids) (\<lambda>snapshots.
     ebind (for_each snapshots (warn_user (utc_ts now))) (\<lambda>_. commit)))"
subsection \<open>Grace period\<close>

type_synonym stop_callback = "sandbox \<Rightarrow> unit op"

definition db_only_stop :: "datetime \<Rightarrow> stop_callback" where
  "db_only_stop now sandbox =
     ebind (set_sandbox (sb_id sandbox) (\<lambda>s. s\<lparr>sb_status := STOPPED, sb_gmt_stopped := Some (utc_ts now),
       sb_version := sb_version s + 1\<rparr>)) (\<lambda>_.
     ebind (close_compute_session now (sb_id sandbox)) (\<lambda>_. ret ()))"

text \<open>\<^verbatim>\<open>int(x)\<close> of a number of seconds truncates towards zero.\<close>

definition int_seconds :: "int \<Rightarrow> int" where
  "int_seconds us = (if 0 \<le> us then us div 1000000 else - ((- us) div 1000000))"

definition enforce_stop_one ::
    "datetime \<Rightarrow> user_plan \<Rightarrow> string \<Rightarrow> string \<Rightarrow> int \<Rightarrow> dec \<Rightarrow> stop_callback option \<Rightarrow> sandbox \<Rightarrow> unit op" where
  "enforce_stop_one now plan uid reason grace_elapsed overage stop_cb sandbox =
     ebind (try_catch
         (ebind (case stop_cb of Some cb \<Rightarrow> cb sandbox | None \<Rightarrow> db_only_stop now sandbox) (\<lambda>_. ret True))
         (\<lambda>_. ret False)) (\<lambda>stopped.
     if \<not> stopped then ret ()
     else
       ebind (best_effort (ebind (close_compute_session now (sb_id sandbox)) (\<lambda>_. ret ()))) (\<lambda>_.
       best_effort (record_audit_event ''metering.auto_stop'' ''sandbox'' (sb_id sandbox)
         [(''user_id'', MStr uid), (''tier'', MStr (up_tier plan)), (''reason'', MStr reason),
          (''grace_elapsed_seconds'', MInt (int_seconds grace_elapsed)),
          (''overage_compute_units'', MDec overage)])))"

definition enforce_stop ::
    "datetime \<Rightarrow> user_plan \<Rightarrow> string \<Rightarrow> string \<Rightarrow> int \<Rightarrow> dec \<Rightarrow> stop_callback option \<Rightarrow> sandbox list \<Rightarrow> unit op" where
  "enforce_stop now plan uid reason grace_elapsed overage stop_cb running =
     ebind (for_each running (enforce_stop_one now plan uid reason grace_elapsed overage stop_cb)) (\<lambda>_.
     ebind (get_running_sandboxes uid) (\<lambda>remaining_running.
     if remaining_running = [] then
       set_plan uid (\<lambda>p. p\<lparr>up_grace_period_started_at := None, up_gmt_updated := utc_ts now\<rparr>)
     else ret ()))"

definition handle_exhausted ::
    "datetime \<Rightarrow> user_plan \<Rightarrow> string \<Rightarrow> dec \<Rightarrow> stop_callback option \<Rightarrow> sandbox list \<Rightarrow> unit op" where
  "handle_exhausted now plan uid remaining stop_cb running =
     (case up_grace_period_started_at plan of
        None \<Rightarrow>
          ebind (set_plan uid (\<lambda>p. p\<lparr>up_grace_period_started_at := Some (utc_ts now),
            up_gmt_updated := utc_ts now\<rparr>)) (\<lambda>_.
          record_audit_event ''metering.grace_period_started'' ''user'' uid
            [(''tier'', MStr (up_tier plan)), (''grace_period_seconds'', MInt (up_grace_period_seconds plan)),
             (''monthly_used'', MDec (up_compute_units_monthly_used plan)),
             (''monthly_limit'', MDec (up_compute_units_monthly_limit plan))])
      | Some started \<Rightarrow>
          let elapsed = utc_ts now - started;
              overage = \<bar>remaining\<bar>;
              absolute_cap = dmul (up_compute_units_monthly_limit plan) ABSOLUTE_OVERAGE_CAP_RATIO;
              exceeded_absolute_cap = (absolute_cap < overage)
          in if of_int (up_grace_period_seconds plan) < total_seconds elapsed \<or> exceeded_absolute_cap
             then enforce_stop now plan uid
                    (if exceeded_absolute_cap then ''absolute_cap_exceeded'' else ''grace_period_expired'')
                    elapsed overage stop_cb running
             else ret ())"

definition handle_credits_restored :: "time \<Rightarrow> user_plan \<Rightarrow> string \<Rightarrow> dec \<Rightarrow> unit op" where
  "handle_credits_restored now plan uid remaining =
     (if up_grace_period_started_at plan = None then ret ()
      else ebind (set_plan uid (\<lambda>p. p\<lparr>up_grace_period_started_at := None, up_gmt_updated := now\<rparr>)) (\<lambda>_.
           record_audit_event ''metering.grace_period_cleared'' ''user'' uid
             [(''tier'', MStr (up_tier plan)), (''total_remaining'', MDec remaining)]))"

definition check_grace_user ::
    "datetime \<Rightarrow> stop_callback option \<Rightarrow> sandbox list \<Rightarrow> string \<times> user_metering_snapshot \<Rightarrow> unit op" where
  "check_grace_user now stop_cb running_all x = (case x of (uid, snapshot) \<Rightarrow>
     if ms_total snapshot \<le> 0 then
       handle_exhausted now (ms_plan snapshot) uid (ms_total snapshot) stop_cb
         (filter (\<lambda>s. sb_owner_id s = uid) running_all)
     else handle_credits_restored (utc_ts now) (ms_plan snapshot) uid (ms_total snapshot))"

definition check_grace_periods :: "datetime \<Rightarrow> stop_callback option \<Rightarrow> unit op" where
  "check_grace_periods now stop_cb =
     ebind get_users_with_running_sandboxes (\<lambda>uids.
     ebind (load_user_metering_snapshots now uids) (\<lambda>snapshots.
     ebind (gets (\<lambda>w. filter (\<lambda>s. sb_owner_id s \<in> set uids \<and> is_running s) (sandboxes w))) (\<lambda>running_all.
     ebind (for_each snapshots (check_grace_user now stop_cb running_all)) (\<lambda>_. commit))))"

subsection \<open>Monthly reset\<close>

definition reset_plan_period :: "time \<Rightarrow> time \<Rightarrow> user_plan \<Rightarrow> user_plan" where
  "reset_plan_period now new_end p = p\<lparr>
     up_compute_units_monthly_used := 0, up_compute_units_overage := 0,
     up_period_start := up_period_end p, up_period_end := new_end,
     up_warning_80_notified_at := None, up_warning_100_notified_at := None,
     up_grace_period_started_at := None, up_gmt_updated := now\<rparr>"

text \<open>Step 2 of the rollover, and the same statements in the loop of \<open>reset_monthly_credits\<close>: the audit
  event keeps the two instants that the code formats.\<close>

definition advance_plan :: "(time \<Rightarrow> time) \<Rightarrow> time \<Rightarrow> string \<Rightarrow> user_plan \<Rightarrow> user_plan op" where
  "advance_plan add_month now target plan =
     (let boundary = up_period_end plan; plan' = reset_plan_period now (add_month boundary) plan
      in ebind (set_plan (up_user_id plan) (\<lambda>_. plan')) (\<lambda>_.
         ebind (record_audit_event ''metering.monthly_reset'' ''user'' target
           [(''tier'', MStr (up_tier plan)), (''old_period_end'', MInt boundary),
            (''new_period_end'', MInt (add_month boundary))]) (\<lambda>_.
         ret plan')))"

definition end_session_at :: "time \<Rightarrow> time \<Rightarrow> compute_session \<Rightarrow> compute_session" where
  "end_session_at now boundary cs =
     (let elapsed = total_seconds (boundary - cs_last_metered_at cs);
          c = (if 0 < elapsed then accrue_session (ddiv elapsed 3600) cs else cs)
      in c\<lparr>cs_ended_at := Some boundary, cs_last_metered_at := boundary, cs_gmt_updated := now\<rparr>)"

definition handle_period_rollover ::
    "(time \<Rightarrow> time) \<Rightarrow> time \<Rightarrow> compute_session \<Rightarrow> user_plan \<Rightarrow> sandbox option
     \<Rightarrow> (compute_session option \<times> user_plan) op" where
  "handle_period_rollover add_month now cs plan sandbox =
     (if now \<le> up_period_end plan then ret (None, plan)
      else
        let boundary = up_period_end plan
        in ebind (set_session (cs_id cs) (end_session_at now boundary)) (\<lambda>_.
           ebind (advance_plan add_month now (cs_user_id cs) plan) (\<lambda>plan'.
           if (case sandbox of None \<Rightarrow> True | Some s \<Rightarrow> sb_status s \<noteq> READY) then ret (None, plan')
           else
             ebind (draw_id ''cs'') (\<lambda>i.
             let new_cs = \<lparr>cs_id = i, cs_sandbox_id = cs_sandbox_id cs, cs_user_id = cs_user_id cs,
                   cs_template = cs_template cs, cs_vcpu_request = cs_vcpu_request cs,
                   cs_memory_gib_request = cs_memory_gib_request cs, cs_started_at = boundary,
                   cs_ended_at = None, cs_last_metered_at = boundary, cs_vcpu_hours = 0,
                   cs_memory_gib_hours = 0, cs_gmt_updated = now\<rparr>
             in ebind (modify (\<lambda>w. w\<lparr>compute_sessions := compute_sessions w @ [new_cs]\<rparr>)) (\<lambda>_.
                ret (Some new_cs, plan'))))))"

fun rollover_sessions ::
    "(time \<Rightarrow> time) \<Rightarrow> time \<Rightarrow> (string \<Rightarrow> sandbox option) \<Rightarrow> compute_session list \<Rightarrow> user_plan
     \<Rightarrow> (compute_session list \<times> user_plan) op" where
  "rollover_sessions add_month now sandbox_by_id [] plan = ret ([], plan)"
| "rollover_sessions add_month now sandbox_by_id (cs # rest) plan =
     ebind (handle_period_rollover add_month now cs plan (sandbox_by_id (cs_sandbox_id cs))) (\<lambda>(new, plan').
     ebind (rollover_sessions add_month now sandbox_by_id rest plan') (\<lambda>(news, plan'').
     ret ((case new of None \<Rightarrow> news | Some c \<Rightarrow> c # news), plan'')))"

text \<open>\<^verbatim>\<open>while plan.period_end <= now\<close>, with fuel; \<open>None\<close> when it runs out.\<close>

fun reset_plan ::
    "(time \<Rightarrow> time) \<Rightarrow> time \<Rightarrow> (string \<Rightarrow> sandbox option) \<Rightarrow> nat \<Rightarrow> compute_session list \<Rightarrow> user_plan
     \<Rightarrow> user_plan option op" where
  "reset_plan add_month now sandbox_by_id 0 sessions plan = ret None"
| "reset_plan add_month now sandbox_by_id (Suc fuel) sessions plan =
     (if up_period_end plan \<le> now then
        ebind (rollover_sessions add_month now sandbox_by_id sessions plan) (\<lambda>(next_open, plan').
        ebind (if up_period_end plan' \<le> now then advance_plan add_month now (up_user_id plan') plan'
               else ret plan') (\<lambda>plan''.
        reset_plan add_month now sandbox_by_id fuel next_open plan''))
      else ret (Some plan))"

fun reset_plans ::
    "(time \<Rightarrow> time) \<Rightarrow> time \<Rightarrow> nat \<Rightarrow> (string \<Rightarrow> sandbox option) \<Rightarrow> (string \<Rightarrow> compute_session list)
     \<Rightarrow> user_plan list \<Rightarrow> nat option op" where
  "reset_plans add_month now fuel sandbox_by_id sessions_by_user [] = ret (Some 0)"
| "reset_plans add_month now fuel sandbox_by_id sessions_by_user (plan # plans) =
     ebind (reset_plan add_month now sandbox_by_id fuel (sessions_by_user (up_user_id plan)) plan) (\<lambda>r.
     case r of
       None \<Rightarrow> ret None
     | Some _ \<Rightarrow>
         ebind (reset_plans add_month now fuel sandbox_by_id sessions_by_user plans) (\<lambda>n.
         ret (map_option Suc n)))"

definition reset_monthly_credits :: "(time \<Rightarrow> time) \<Rightarrow> time \<Rightarrow> nat \<Rightarrow> nat option op" where
  "reset_monthly_credits add_month now fuel =
     ebind (gets (\<lambda>w. w)) (\<lambda>w.
     ebind (reset_plans add_month now fuel (\<lambda>sid. get_sandbox_by_id sid w)
       (\<lambda>uid. get_open_sessions_by_user uid w)
       (filter (\<lambda>p. up_period_end p \<le> now) (user_plans w))) (\<lambda>reset_count.
     ebind (case reset_count of Some n \<Rightarrow> if 0 < n then commit else ret () | None \<Rightarrow> ret ()) (\<lambda>_.
     ret reset_count)))"

subsection \<open>The tick\<close>

text \<open>Each step has its own session: an exception rolls its rows back, is logged, and the next step
  runs.\<close>

definition run_step :: "'a op \<Rightarrow> unit op" where
  "run_step m = best_effort (transaction (ebind m (\<lambda>_. ret ())))"

definition run_metering_tick ::
    "(time \<Rightarrow> time) \<Rightarrow> nat \<Rightarrow> (string \<Rightarrow> time option) \<Rightarrow> stop_callback option \<Rightarrow> datetime \<Rightarrow> unit op" where
  "run_metering_tick add_month fuel rivals stop_cb now =
     ebind (run_step (tick_metering rivals now)) (\<lambda>_.
     ebind (run_step (tick_storage_metering (utc_ts now))) (\<lambda>_.
     ebind (run_step (check_warning_thresholds now)) (\<lambda>_.
     ebind (run_step (check_grace_periods now stop_cb)) (\<lambda>_.
     run_step (reset_monthly_credits add_month (utc_ts now) fuel)))))"

subsection \<open>Vocabulary of the properties\<close>

text \<open>From \<open>w\<close> to \<open>w'\<close> the plan of one user moved on from \<open>plan\<close> to \<open>plan'\<close>, to a period that does
  not end earlier, and no other plan changed.\<close>

definition plan_moves :: "string \<Rightarrow> world \<Rightarrow> world \<Rightarrow> user_plan \<Rightarrow> user_plan \<Rightarrow> bool" where
  "plan_moves uid w w' plan plan' \<longleftrightarrow> plans_of uid w' = [plan'] \<and>
     up_period_end plan \<le> up_period_end plan' \<and> (\<forall>u. u \<noteq> uid \<longrightarrow> plans_of u w' = plans_of u w)"

text \<open>A plan moved on by \<open>k\<close> whole periods, each of them begun by \<open>now\<close>: the new period starts where the one before it ended, and
  nothing of it is used.\<close>

definition period_moves :: "(time \<Rightarrow> time) \<Rightarrow> time \<Rightarrow> nat \<Rightarrow> user_plan \<Rightarrow> user_plan \<Rightarrow> bool" where
  "period_moves add_month now k plan plan' \<longleftrightarrow>
     (if k = 0 then plan' = plan
      else up_period_end plan' = (add_month ^^ k) (up_period_end plan) \<and>
        up_period_start plan' = (add_month ^^ (k - 1)) (up_period_end plan) \<and> up_period_start plan' \<le> now \<and>
        up_compute_units_monthly_used plan' = 0 \<and> up_compute_units_overage plan' = 0)"

text \<open>What a stop does to the row of a sandbox.\<close>

definition stopped_row :: "time \<Rightarrow> sandbox \<Rightarrow> sandbox" where
  "stopped_row t s = s\<lparr>sb_status := STOPPED, sb_gmt_stopped := Some t, sb_version := sb_version s + 1\<rparr>"

text \<open>An open session that the tick has to meter.\<close>

definition session_due :: "time \<Rightarrow> compute_session \<Rightarrow> bool" where
  "session_due now s \<longleftrightarrow> cs_ended_at s = None \<and> cs_last_metered_at s < now"

text \<open>The hours since a session was last metered, what one tick makes of the row of a session, and what it charges for the
  session, each from the values that the row had before.\<close>

definition hours_since :: "time \<Rightarrow> compute_session \<Rightarrow> dec" where
  "hours_since now s = ddiv (total_seconds (now - cs_last_metered_at s)) 3600"

definition metered :: "time \<Rightarrow> compute_session \<Rightarrow> compute_session" where
  "metered now s =
     (if session_due now s
      then s\<lparr>cs_vcpu_hours := num4 (cs_vcpu_hours s + dmul (cs_vcpu_request s) (hours_since now s)),
             cs_memory_gib_hours := num4 (cs_memory_gib_hours s + dmul (cs_memory_gib_request s) (hours_since now s)),
             cs_last_metered_at := now, cs_gmt_updated := now\<rparr>
      else s)"

definition cu_charge :: "(string \<times> template_spec) list \<Rightarrow> time \<Rightarrow> compute_session \<Rightarrow> dec" where
  "cu_charge cache now s =
     (case resolve_spec cache (cs_template s) of
        None \<Rightarrow> 0
      | Some (vcpu, mem) \<Rightarrow> dmul (dadd (dmul CU_VCPU_WEIGHT vcpu) (dmul CU_MEMORY_WEIGHT mem)) (hours_since now s))"

text \<open>What a user owes for his sessions.\<close>

definition user_charge :: "(string \<times> template_spec) list \<Rightarrow> time \<Rightarrow> compute_session list \<Rightarrow> string \<Rightarrow> dec" where
  "user_charge cache now ss uid =
     fold (\<lambda>s a. dadd a (cu_charge cache now s)) (filter (\<lambda>s. session_due now s \<and> cs_user_id s = uid) ss) 0"

definition demo_sandbox :: sandbox where
  "demo_sandbox = \<lparr>sb_id = ''sb1'', sb_name = ''box'', sb_owner_id = ''u1'', sb_template = ''aio-sandbox-tiny'',
     sb_labels = [], sb_auto_stop_interval = 15, sb_auto_delete_interval = -1, sb_provision_mode = ''claim'',
     sb_persist = False, sb_storage_size = None, sb_k8s_sandbox_claim_name = Some ''box'',
     sb_k8s_sandbox_name = None, sb_k8s_namespace = ''treadstone'', sb_k8s_resource_version = None,
     sb_last_synced_at = None, sb_status = READY, sb_pending_operation = None, sb_status_message = None,
     sb_endpoints = [], sb_storage_backend_mode = None, sb_k8s_workspace_pvc_name = None,
     sb_k8s_workspace_pv_name = None, sb_workspace_volume_handle = None, sb_workspace_zone = None,
     sb_snapshot_provider_id = None, sb_snapshot_name = None, sb_snapshot_content_name = None,
     sb_version = 1, sb_gmt_created = 0, sb_gmt_started = None, sb_gmt_stopped = None,
     sb_gmt_snapshotted = None, sb_gmt_restored = None, sb_gmt_last_active = None, sb_gmt_deleted = None\<rparr>"

subsection \<open>The monthly reset terminates\<close>

lemma plans_of_replace:
  assumes "plans_of uid w = [p]" and "up_user_id q = uid"
  shows "plans_of uid (w\<lparr>user_plans := update_where (\<lambda>p. up_user_id p = uid) (\<lambda>_. q) (user_plans w)\<rparr>) = [q]"
    and "u \<noteq> uid \<Longrightarrow> plans_of u (w\<lparr>user_plans := update_where (\<lambda>p. up_user_id p = uid) (\<lambda>_. q) (user_plans w)\<rparr>)
      = plans_of u w"
proof -
  have "filter (\<lambda>p. up_user_id p = uid) (update_where (\<lambda>p. up_user_id p = uid) (\<lambda>_. q) ps)
      = map (\<lambda>_. q) (filter (\<lambda>p. up_user_id p = uid) ps)" for ps
    using assms(2) by (induction ps) auto
  with assms(1) show "plans_of uid (w\<lparr>user_plans := update_where (\<lambda>p. up_user_id p = uid) (\<lambda>_. q) (user_plans w)\<rparr>) = [q]"
    by (simp add: plans_of_def)
  have "u \<noteq> uid \<Longrightarrow> filter (\<lambda>p. up_user_id p = u) (update_where (\<lambda>p. up_user_id p = uid) (\<lambda>_. q) ps)
      = filter (\<lambda>p. up_user_id p = u) ps" for ps
    using assms(2) by (induction ps) auto
  then show "u \<noteq> uid \<Longrightarrow> plans_of u (w\<lparr>user_plans := update_where (\<lambda>p. up_user_id p = uid) (\<lambda>_. q) (user_plans w)\<rparr>)
      = plans_of u w"
    by (simp add: plans_of_def)
qed

lemma plans_of_user: "plans_of uid w = [p] \<Longrightarrow> up_user_id p = uid"
proof -
  assume "plans_of uid w = [p]"
  then have "p \<in> set (plans_of uid w)" by simp
  then show ?thesis by (simp add: plans_of_def)
qed

lemma plans_of_frame [simp]:
  "plans_of uid (w\<lparr>audit_events := a\<rparr>) = plans_of uid w"
  "plans_of uid (w\<lparr>compute_sessions := b\<rparr>) = plans_of uid w"
  "plans_of uid (w\<lparr>ids_drawn := c\<rparr>) = plans_of uid w"
  "plans_of uid (w\<lparr>sandboxes := d\<rparr>) = plans_of uid w"
  "plans_of uid (w\<lparr>compute_grants := e\<rparr>) = plans_of uid w"
  by (simp_all add: plans_of_def)

lemma advance_plan_ok:
  assumes later: "\<And>t. t < add_month t" and p: "plans_of uid w = [plan]"
  shows "\<exists>w'. advance_plan add_month now target plan w
      = (Inr (reset_plan_period now (add_month (up_period_end plan)) plan), w') \<and>
    plan_moves uid w w' plan (reset_plan_period now (add_month (up_period_end plan)) plan) \<and>
    compute_sessions w' = compute_sessions w"
  using plans_of_replace [OF p, of "reset_plan_period now (add_month (up_period_end plan)) plan"]
    plans_of_user [OF p] less_imp_le [OF later [of "up_period_end plan"]]
  by (auto simp: advance_plan_def Let_def record_audit_event_def plan_moves_def reset_plan_period_def)

lemma plan_moves_trans:
  "plan_moves uid w w1 p p1 \<Longrightarrow> plan_moves uid w1 w2 p1 p2 \<Longrightarrow> plan_moves uid w w2 p p2"
  by (auto simp: plan_moves_def)

lemma plan_moves_refl: "plans_of uid w = [p] \<Longrightarrow> plan_moves uid w w p p"
  by (simp add: plan_moves_def)

lemma period_moves_0: "period_moves add_month now 0 plan plan"
  by (simp add: period_moves_def)

lemma period_moves_reset:
  "up_period_end plan \<le> now \<Longrightarrow> period_moves add_month now 1 plan (reset_plan_period t (add_month (up_period_end plan)) plan)"
  by (simp add: period_moves_def reset_plan_period_def)

lemma period_moves_trans:
  assumes "period_moves add_month now j p q" "period_moves add_month now k q r"
  shows "period_moves add_month now (k + j) p r"
  using assms by (cases k; cases j) (auto simp: period_moves_def funpow_add simp flip: funpow_swap1)

lemma plan_moves_frame:
  "plan_moves uid w (w'\<lparr>compute_sessions := b\<rparr>) p p' = plan_moves uid w w' p p'"
  "plan_moves uid w (w'\<lparr>ids_drawn := c\<rparr>) p p' = plan_moves uid w w' p p'"
  "plan_moves uid (w\<lparr>compute_sessions := b\<rparr>) w' p p' = plan_moves uid w w' p p'"
  by (simp_all add: plan_moves_def)

lemma handle_period_rollover_ok:
  assumes later: "\<And>t. t < add_month t" and p: "plans_of uid w = [plan]"
  shows "\<exists>new plan' w' k. handle_period_rollover add_month now cs plan sb w = (Inr (new, plan'), w') \<and>
    plan_moves uid w w' plan plan' \<and> period_moves add_month now k plan plan'"
proof (cases "now \<le> up_period_end plan")
  case True
  then show ?thesis using p period_moves_0 by (auto simp: handle_period_rollover_def plan_moves_refl)
next
  case False
  define w1 where "w1 = w\<lparr>compute_sessions := update_where (\<lambda>s. cs_id s = cs_id cs)
    (end_session_at now (up_period_end plan)) (compute_sessions w)\<rparr>"
  have "plans_of uid w1 = [plan]" using p by (simp add: w1_def)
  from advance_plan_ok [of add_month, OF later this, of now "cs_user_id cs"] obtain w2 where
      "advance_plan add_month now (cs_user_id cs) plan w1
        = (Inr (reset_plan_period now (add_month (up_period_end plan)) plan), w2)"
    and "plan_moves uid w1 w2 plan (reset_plan_period now (add_month (up_period_end plan)) plan)"
    by blast
  moreover have "period_moves add_month now 1 plan (reset_plan_period now (add_month (up_period_end plan)) plan)"
    using False by (intro period_moves_reset) simp
  ultimately show ?thesis
    using False by (auto simp: handle_period_rollover_def Let_def w1_def plan_moves_frame run_simps)
qed

lemma rollover_sessions_ok:
  assumes later: "\<And>t. t < add_month t"
  shows "plans_of uid w = [plan] \<Longrightarrow>
    \<exists>news plan' w' k. rollover_sessions add_month now sbs sessions plan w = (Inr (news, plan'), w') \<and>
    plan_moves uid w w' plan plan' \<and> period_moves add_month now k plan plan'"
proof (induction sessions arbitrary: w plan)
  case Nil
  then show ?case using period_moves_0 by (auto simp: plan_moves_refl)
next
  case (Cons cs sessions)
  obtain new p1 w1 j where one: "handle_period_rollover add_month now cs plan (sbs (cs_sandbox_id cs)) w = (Inr (new, p1), w1)"
    and m1: "plan_moves uid w w1 plan p1" "period_moves add_month now j plan p1"
    using handle_period_rollover_ok [of add_month, OF later Cons.prems] by blast
  then have "plans_of uid w1 = [p1]" by (simp add: plan_moves_def)
  from Cons.IH [OF this] obtain news p2 w2 k where
      "rollover_sessions add_month now sbs sessions p1 w1 = (Inr (news, p2), w2)" and "plan_moves uid w1 w2 p1 p2"
      "period_moves add_month now k p1 p2"
    by blast
  with one m1 show ?case by (auto intro: plan_moves_trans period_moves_trans)
qed

lemma reset_plan_ok:
  assumes later: "\<And>t. t < add_month t"
  shows "plans_of uid w = [plan] \<Longrightarrow> nat (now + 1 - up_period_end plan) < fuel \<Longrightarrow>
    \<exists>plan' w' k. reset_plan add_month now sbs fuel sessions plan w = (Inr (Some plan'), w') \<and>
    plan_moves uid w w' plan plan' \<and> now < up_period_end plan' \<and> period_moves add_month now k plan plan'"
proof (induction fuel arbitrary: w plan sessions)
  case 0
  then show ?case by simp
next
  case (Suc fuel)
  show ?case
  proof (cases "up_period_end plan \<le> now")
    case False
    with Suc.prems show ?thesis using period_moves_0 by (auto simp: plan_moves_refl)
  next
    case True
    obtain news p1 w1 j where roll: "rollover_sessions add_month now sbs sessions plan w = (Inr (news, p1), w1)"
      and m1: "plan_moves uid w w1 plan p1" "period_moves add_month now j plan p1"
      using rollover_sessions_ok [of add_month, OF later Suc.prems(1)] by blast
    have p1: "plans_of uid w1 = [p1]" using m1 by (simp add: plan_moves_def)
    obtain p2 w2 i where adv: "(if up_period_end p1 \<le> now then advance_plan add_month now (up_user_id p1) p1
        else ret p1) w1 = (Inr p2, w2)" and m2: "plan_moves uid w1 w2 p1 p2" "period_moves add_month now i p1 p2"
      and gt: "up_period_end plan < up_period_end p2"
    proof (cases "up_period_end p1 \<le> now")
      case le: True
      obtain w2 where "advance_plan add_month now (up_user_id p1) p1 w1
          = (Inr (reset_plan_period now (add_month (up_period_end p1)) p1), w2)"
        and "plan_moves uid w1 w2 p1 (reset_plan_period now (add_month (up_period_end p1)) p1)"
        using advance_plan_ok [of add_month, OF later p1] by blast
      moreover have "up_period_end plan < up_period_end (reset_plan_period now (add_month (up_period_end p1)) p1)"
        using m1 later [of "up_period_end p1"] by (simp add: plan_moves_def reset_plan_period_def)
      ultimately show thesis using le period_moves_reset [OF le] by (intro that [of _ _ 1]) simp_all
    next
      case gt: False
      then show thesis using p1 True by (intro that [of p1 w1 0]) (simp_all add: plan_moves_refl period_moves_0)
    qed
    have p2: "plans_of uid w2 = [p2]" using m2 by (simp add: plan_moves_def)
    have "nat (now + 1 - up_period_end p2) < fuel" using gt Suc.prems(2) True by linarith
    from Suc.IH [OF p2 this, of news] obtain p3 w3 k where
        rest: "reset_plan add_month now sbs fuel news p2 w2 = (Inr (Some p3), w3)" "plan_moves uid w2 w3 p2 p3"
        "now < up_period_end p3" "period_moves add_month now k p2 p3" by blast
    have "period_moves add_month now (k + (i + j)) plan p3"
      by (rule period_moves_trans [OF period_moves_trans [OF m1(2) m2(2)] rest(4)])
    with True roll adv m1 m2 rest show ?thesis by (auto intro: plan_moves_trans)
  qed
qed

lemma reset_plans_ok:
  assumes later: "\<And>t. t < add_month t"
  shows "distinct (map up_user_id plans) \<Longrightarrow>
    (\<And>p. p \<in> set plans \<Longrightarrow> plans_of (up_user_id p) w = [p] \<and> nat (now + 1 - up_period_end p) < fuel) \<Longrightarrow>
    \<exists>w'. reset_plans add_month now fuel sbs sess plans w = (Inr (Some (length plans)), w') \<and>
      (\<forall>p \<in> set plans. \<exists>p' k. plans_of (up_user_id p) w' = [p'] \<and> now < up_period_end p' \<and> period_moves add_month now k p p') \<and>
      (\<forall>u. u \<notin> up_user_id ` set plans \<longrightarrow> plans_of u w' = plans_of u w)"
proof (induction plans arbitrary: w)
  case Nil
  then show ?case by simp
next
  case (Cons p ps)
  obtain p1 w1 k where one: "reset_plan add_month now sbs fuel (sess (up_user_id p)) p w = (Inr (Some p1), w1)"
    and m: "plan_moves (up_user_id p) w w1 p p1" "now < up_period_end p1" "period_moves add_month now k p p1"
    using reset_plan_ok [of add_month, OF later] Cons.prems(2) [of p] by (metis list.set_intros(1))
  have other: "plans_of u w1 = plans_of u w" if "u \<noteq> up_user_id p" for u
    using m(1) that by (simp add: plan_moves_def)
  have "plans_of (up_user_id q) w1 = [q] \<and> nat (now + 1 - up_period_end q) < fuel" if "q \<in> set ps" for q
  proof -
    have "up_user_id q \<noteq> up_user_id p" using Cons.prems(1) that by (auto simp: image_iff)
    then show ?thesis using Cons.prems(2) [of q] that other [of "up_user_id q"] by simp
  qed
  then obtain w2 where
      rest: "reset_plans add_month now fuel sbs sess ps w1 = (Inr (Some (length ps)), w2)"
      "\<forall>q \<in> set ps. \<exists>q' k. plans_of (up_user_id q) w2 = [q'] \<and> now < up_period_end q' \<and> period_moves add_month now k q q'"
      "\<forall>u. u \<notin> up_user_id ` set ps \<longrightarrow> plans_of u w2 = plans_of u w1"
    using Cons.IH [of w1] Cons.prems(1) by auto
  have "plans_of (up_user_id p) w2 = [p1]"
    using rest(3) m(1) Cons.prems(1) by (simp add: plan_moves_def)
  with one rest m(2,3) other show ?case by auto
qed

lemma plans_of_store [simp]: "plans_of uid (store_rows w) = map store_plan (plans_of uid w)"
proof -
  have "filter (\<lambda>p. up_user_id p = uid) (map store_plan ps) = map store_plan (filter (\<lambda>p. up_user_id p = uid) ps)" for ps
    by (induction ps) (auto simp: store_plan_def)
  then show ?thesis by (simp add: plans_of_def store_rows_def)
qed

lemma commit_run [run_simps, simp]: "commit w = (Inr (), store_rows w)"
  by (simp add: commit_def)

lemma plans_of_self:
  "distinct (map up_user_id (user_plans w)) \<Longrightarrow> p \<in> set (user_plans w) \<Longrightarrow> plans_of (up_user_id p) w = [p]"
  using filter_distinct_key by (fastforce simp: plans_of_def)

lemma plans_of_member: "p \<in> set (user_plans w) \<longleftrightarrow> p \<in> set (plans_of (up_user_id p) w)"
  by (simp add: plans_of_def)

lemma reset_monthly_credits_ok:
  assumes later: "\<And>t. t < add_month t" and ids: "distinct (map up_user_id (user_plans w))"
    and fuel: "\<And>p. p \<in> set (user_plans w) \<Longrightarrow> nat (now + 1 - up_period_end p) < fuel"
  shows "\<exists>w'. reset_monthly_credits add_month now fuel w =
      (Inr (Some (length (filter (\<lambda>p. up_period_end p \<le> now) (user_plans w)))), w') \<and>
    (\<forall>p \<in> set (user_plans w). \<exists>q k. (plans_of (up_user_id p) w' = [q] \<or> plans_of (up_user_id p) w' = [store_plan q]) \<and>
       now < up_period_end q \<and> period_moves add_month now k p q)"
proof -
  let ?due = "filter (\<lambda>p. up_period_end p \<le> now) (user_plans w)"
  let ?sbs = "\<lambda>sid. get_sandbox_by_id sid w" and ?sess = "\<lambda>uid. get_open_sessions_by_user uid w"
  have "distinct (map up_user_id ?due)" using ids by (rule distinct_map_filter)
  moreover have "plans_of (up_user_id p) w = [p] \<and> nat (now + 1 - up_period_end p) < fuel" if "p \<in> set ?due" for p
    using that ids fuel by (simp add: plans_of_self)
  ultimately obtain w1 where run: "reset_plans add_month now fuel ?sbs ?sess ?due w = (Inr (Some (length ?due)), w1)"
    and due: "\<forall>p \<in> set ?due. \<exists>p' k. plans_of (up_user_id p) w1 = [p'] \<and> now < up_period_end p' \<and> period_moves add_month now k p p'"
    and other: "\<forall>u. u \<notin> up_user_id ` set ?due \<longrightarrow> plans_of u w1 = plans_of u w"
    using reset_plans_ok [of add_month ?due w now fuel ?sbs ?sess, OF later] by blast
  have moved: "\<exists>q k. plans_of (up_user_id p) w1 = [q] \<and> now < up_period_end q \<and> period_moves add_month now k p q"
    if p: "p \<in> set (user_plans w)" for p
  proof (cases "up_period_end p \<le> now")
    case True
    with p due show ?thesis by simp
  next
    case False
    have "up_user_id p \<notin> up_user_id ` set ?due"
      using False p ids by (auto simp: distinct_map dest: inj_onD)
    then have "plans_of (up_user_id p) w1 = [p]" using other plans_of_self [OF ids p] by simp
    with False period_moves_0 show ?thesis by auto
  qed
  define w2 where "w2 = (if 0 < length ?due then store_rows w1 else w1)"
  have "reset_monthly_credits add_month now fuel w = (Inr (Some (length ?due)), w2)"
    using run by (simp add: reset_monthly_credits_def w2_def)
  moreover have "\<exists>q k. (plans_of (up_user_id p) w2 = [q] \<or> plans_of (up_user_id p) w2 = [store_plan q]) \<and>
       now < up_period_end q \<and> period_moves add_month now k p q" if p: "p \<in> set (user_plans w)" for p
  proof -
    obtain q k where "plans_of (up_user_id p) w1 = [q]" "now < up_period_end q" "period_moves add_month now k p q"
      using moved [OF p] by blast
    then show ?thesis by (intro exI [of _ q] exI [of _ k]) (simp add: w2_def)
  qed
  ultimately show ?thesis by blast
qed

subsection \<open>Only one session of a user is split\<close>

lemma rollover_skips:
  "now \<le> up_period_end plan \<Longrightarrow> rollover_sessions add_month now sbs sessions plan w = (Inr ([], plan), w)"
  by (induction sessions) (auto simp: handle_period_rollover_def)

subsection \<open>Grace period\<close>

lemma set_sandbox_run [run_simps, simp]:
  "set_sandbox i f w = (Inr (), w\<lparr>sandboxes := update_where (\<lambda>s. sb_id s = i) f (sandboxes w)\<rparr>)"
  by (simp add: set_sandbox_def)

lemma keeps_set_sandbox [keeps_intros]:
  "(\<And>w x. P w \<Longrightarrow> P (w\<lparr>sandboxes := x\<rparr>)) \<Longrightarrow> keeps P (set_sandbox i f)"
  by (simp add: keeps_def)

lemma keeps_close:
  assumes "\<And>w x. P w \<Longrightarrow> P (w\<lparr>user_plans := x\<rparr>)" "\<And>w x. P w \<Longrightarrow> P (w\<lparr>compute_grants := x\<rparr>)"
    "\<And>w x. P w \<Longrightarrow> P (w\<lparr>compute_sessions := x\<rparr>)"
  shows "keeps P (close_compute_session now sid)"
  unfolding close_compute_session_def Let_def set_session_def
  by (intro keeps_intros assms; assumption)

lemma close_sandboxes:
  "close_compute_session now sid w = (r, w') \<Longrightarrow> sandboxes w' = sandboxes w"
proof -
  assume run: "close_compute_session now sid w = (r, w')"
  have "keeps (\<lambda>v. sandboxes v = sandboxes w) (close_compute_session now sid)"
    by (rule keeps_close) simp_all
  from keepsD_run [OF this refl run] show ?thesis .
qed

text \<open>A sandbox that the database-only stop has handled is stopped, whatever happens to its session.\<close>

lemma db_only_stop_sandboxes:
  assumes "db_only_stop now sb w = (r, w')"
  shows "sandboxes w' = update_where (\<lambda>s. sb_id s = sb_id sb) (stopped_row (utc_ts now)) (sandboxes w)"
  using assms by (auto simp: db_only_stop_def stopped_row_def [abs_def] ebind_def dest!: close_sandboxes split: sum.splits prod.splits)

lemma enforce_stop_one_sandboxes:
  assumes "enforce_stop_one now plan uid reason ge ov None sb w = (r, w')"
  shows "r = Inr () \<and> sandboxes w' = update_where (\<lambda>s. sb_id s = sb_id sb) (stopped_row (utc_ts now)) (sandboxes w)"
proof -
  obtain r1 w1 where stop: "db_only_stop now sb w = (r1, w1)" by (cases "db_only_stop now sb w")
  obtain r2 w2 where close: "close_compute_session now (sb_id sb) w1 = (r2, w2)"
    by (cases "close_compute_session now (sb_id sb) w1")
  show ?thesis
    using assms stop close db_only_stop_sandboxes [OF stop] close_sandboxes [OF close]
    by (cases r1; cases r2)
      (auto simp: enforce_stop_one_def try_catch_run best_effort_def record_audit_event_def ebind_def)
qed

lemma enforce_stops_sandboxes:
  assumes "distinct (map sb_id sbs)"
  shows "\<exists>w'. for_each sbs (enforce_stop_one now plan uid reason ge ov None) w = (Inr (), w') \<and>
    sandboxes w' = map (\<lambda>s. if sb_id s \<in> sb_id ` set sbs then stopped_row (utc_ts now) s else s) (sandboxes w)"
  using assms
proof (induction sbs arbitrary: w)
  case Nil
  then show ?case by simp
next
  case (Cons sb sbs)
  obtain r1 w1 where one: "enforce_stop_one now plan uid reason ge ov None sb w = (r1, w1)"
    by (cases "enforce_stop_one now plan uid reason ge ov None sb w")
  note eff = enforce_stop_one_sandboxes [OF one]
  obtain w2 where rest: "for_each sbs (enforce_stop_one now plan uid reason ge ov None) w1 = (Inr (), w2)"
    "sandboxes w2 = map (\<lambda>s. if sb_id s \<in> sb_id ` set sbs then stopped_row (utc_ts now) s else s) (sandboxes w1)"
    using Cons.IH [of w1] Cons.prems by auto
  have id: "sb_id (stopped_row t s) = sb_id s" for t s by (simp add: stopped_row_def)
  have "sandboxes w2 =
      map (\<lambda>s. if sb_id s \<in> sb_id ` set (sb # sbs) then stopped_row (utc_ts now) s else s) (sandboxes w)"
    using Cons.prems by (simp add: rest(2) eff update_where_def id)
  with one eff rest(1) show ?case by auto
qed

subsection \<open>The compute tick\<close>

lemma row_unchanged_unique:
  assumes "distinct (map cs_id rs)" and "cs \<in> set rs" and "r \<in> set rs"
  shows "row_unchanged cs r \<longleftrightarrow> r = cs"
  using assms by (auto simp: row_unchanged_def dest: inj_onD simp: distinct_map)

lemma cs_id_meter_row [simp]: "cs_id (meter_row t a b r) = cs_id r"
  by (simp add: meter_row_def)

lemma tick_step_rows:
  assumes ids: "distinct (map cs_id rs)" and cs: "cs \<in> set rs"
  shows "set (update_where (row_unchanged cs) (meter_row t a b) rs) = insert (meter_row t a b cs) (set rs - {cs})"
    and "filter (row_unchanged cs) rs \<noteq> []"
proof -
  have "(if row_unchanged cs r then meter_row t a b r else r) = (if r = cs then meter_row t a b cs else r)"
    if "r \<in> set rs" for r
    using row_unchanged_unique [OF ids cs that] by simp
  then have "(\<lambda>r. if row_unchanged cs r then meter_row t a b r else r) ` set rs
      = (\<lambda>r. if r = cs then meter_row t a b cs else r) ` set rs"
    by (rule image_cong [OF refl])
  also have "\<dots> = insert (meter_row t a b cs) (set rs - {cs})" using cs by auto
  finally show "set (update_where (row_unchanged cs) (meter_row t a b) rs) = insert (meter_row t a b cs) (set rs - {cs})"
    by (simp add: set_update_where)
  show "filter (row_unchanged cs) rs \<noteq> []"
    using cs by (auto simp: filter_empty_conv row_unchanged_def)
qed

text \<open>The tick changes exactly the row it read.\<close>

lemma update_own_row:
  assumes "distinct (map cs_id rs)" "cs \<in> set rs"
  shows "update_where (row_unchanged cs) f rs = map (\<lambda>r. if r = cs then f cs else r) rs"
  using row_unchanged_unique [OF assms] by (simp add: update_where_def)

lemma meter_row_metered:
  "session_due now cs \<Longrightarrow> meter_row now (dmul (cs_vcpu_request cs) (hours_since now cs)) (dmul (cs_memory_gib_request cs) (hours_since now cs)) cs
    = metered now cs"
  by (simp add: meter_row_def metered_def)

lemma update_metered:
  assumes "distinct (map cs_id rs)" "cs \<in> set rs" "session_due now cs"
  shows "update_where (row_unchanged cs)
      (meter_row now (dmul (cs_vcpu_request cs) (hours_since now cs)) (dmul (cs_memory_gib_request cs) (hours_since now cs))) rs
    = map (\<lambda>r. if r = cs then metered now cs else r) rs"
  unfolding update_own_row [OF assms(1,2)] meter_row_metered [OF assms(3)] by (rule refl)

lemma tick_sessions_step:
  assumes "cs_last_metered_at cs < now" and "filter (row_unchanged cs) (compute_sessions w) \<noteq> []"
  shows "tick_sessions (\<lambda>_. None) now (cs # rest) deltas m w =
    (let w1 = w\<lparr>compute_sessions := update_where (row_unchanged cs)
           (meter_row now (dmul (cs_vcpu_request cs) (hours_since now cs)) (dmul (cs_memory_gib_request cs) (hours_since now cs)))
           (compute_sessions w)\<rparr>
     in case resolve_spec (template_specs_cache w) (cs_template cs) of
          None \<Rightarrow> (Inl (BadRequestError (''Unknown sandbox template: '' @ cs_template cs)), w1)
        | Some (v, g) \<Rightarrow> tick_sessions (\<lambda>_. None) now rest
            (dict_set (cs_user_id cs) (dadd (dict_get deltas (cs_user_id cs) 0)
              (dmul (dadd (dmul CU_VCPU_WEIGHT v) (dmul CU_MEMORY_WEIGHT g)) (hours_since now cs))) deltas) (Suc m) w1)"
proof -
  have "\<not> total_seconds (now - cs_last_metered_at cs) \<le> 0" using assms(1) by (simp add: total_seconds_def)
  then show ?thesis
    using assms(2)
    by (simp add: Let_def concurrent_touch_def calculate_cu_rate_run ebind_run hours_since_def split: option.splits prod.splits)
qed

lemma tick_sessions_skip:
  assumes "\<not> cs_last_metered_at cs < now"
  shows "tick_sessions rivals now (cs # rest) deltas m w = tick_sessions rivals now rest deltas m w"
proof -
  have "total_seconds (now - cs_last_metered_at cs) \<le> 0" using assms by (simp add: total_seconds_def)
  then show ?thesis by (simp add: Let_def)
qed

declare tick_sessions.simps(2) [simp del]

lemma dict_set_users: "fst ` set (dict_set k v d) = insert k (fst ` set d)"
  by (auto simp: dict_set_def image_iff split: if_splits) force+

definition add_charge ::
    "(string \<times> template_spec) list \<Rightarrow> time \<Rightarrow> compute_session \<Rightarrow> (string \<times> dec) list \<Rightarrow> (string \<times> dec) list" where
  "add_charge cache now s d = dict_set (cs_user_id s) (dadd (dict_get d (cs_user_id s) 0) (cu_charge cache now s)) d"

lemma tick_sessions_ok:
  assumes "distinct (map cs_id (compute_sessions w))" and "distinct ss" and "set ss \<subseteq> set (compute_sessions w)"
    and "\<And>s. s \<in> set ss \<Longrightarrow> resolve_spec (template_specs_cache w) (cs_template s) \<noteq> None \<and> cs_ended_at s = None"
  shows "tick_sessions (\<lambda>_. None) now ss deltas m w =
      (Inr (fold (add_charge (template_specs_cache w) now) (filter (session_due now) ss) deltas,
            m + length (filter (session_due now) ss)),
       w\<lparr>compute_sessions := map (\<lambda>s. if s \<in> set ss then metered now s else s) (compute_sessions w)\<rparr>)"
  using assms
proof (induction ss arbitrary: w deltas m)
  case Nil
  then show ?case by simp
next
  case (Cons cs ss)
  have is_open: "cs_ended_at cs = None" using Cons.prems(4) [of cs] by simp
  have cs: "cs \<in> set (compute_sessions w)" using Cons.prems(3) by simp
  show ?case
  proof (cases "cs_last_metered_at cs < now")
    case False
    then have "\<not> session_due now cs" by (simp add: session_due_def)
    moreover from this have "metered now cs = cs" by (simp add: metered_def)
    ultimately show ?thesis
      using Cons.IH [of w deltas m] Cons.prems False by (auto simp: tick_sessions_skip intro!: arg_cong [of _ _ "\<lambda>x. w\<lparr>compute_sessions := x\<rparr>"])
  next
    case True
    then have due: "session_due now cs" using is_open by (simp add: session_due_def)
    obtain v g where spec: "resolve_spec (template_specs_cache w) (cs_template cs) = Some (v, g)"
      using Cons.prems(4) [of cs] by auto
    define w1 where "w1 = w\<lparr>compute_sessions := map (\<lambda>r. if r = cs then metered now cs else r) (compute_sessions w)\<rparr>"
    have step: "tick_sessions (\<lambda>_. None) now (cs # ss) deltas m w =
        tick_sessions (\<lambda>_. None) now ss (add_charge (template_specs_cache w) now cs deltas) (Suc m) w1"
      using tick_sessions_step [OF True tick_step_rows(2) [OF Cons.prems(1) cs], of ss deltas m] spec
      by (simp add: Let_def add_charge_def cu_charge_def w1_def update_metered [OF Cons.prems(1) cs due])
    have id: "cs_id (metered now s) = cs_id s" for s by (simp add: metered_def)
    have "metered now cs \<noteq> cs" using due by (auto simp: metered_def session_due_def dest!: arg_cong [of _ _ cs_last_metered_at])
    then have new: "metered now cs \<notin> set ss"
      using Cons.prems(1,3) cs id [of cs] by (auto simp: distinct_map dest: inj_onD)
    have 1: "distinct (map cs_id (compute_sessions w1))"
    proof -
      have "map cs_id (compute_sessions w1) = map cs_id (compute_sessions w)" using id by (simp add: w1_def)
      with Cons.prems(1) show ?thesis by (simp only:)
    qed
    have 2: "set ss \<subseteq> set (compute_sessions w1)" using Cons.prems(2,3) by (auto simp: w1_def image_iff)
    have 3: "resolve_spec (template_specs_cache w1) (cs_template s) \<noteq> None \<and> cs_ended_at s = None" if "s \<in> set ss" for s
      using Cons.prems(4) [of s] that by (simp add: w1_def)
    have "map (\<lambda>s. if s \<in> set ss then metered now s else s) (compute_sessions w1) =
        map (\<lambda>s. if s \<in> set (cs # ss) then metered now s else s) (compute_sessions w)"
      using new Cons.prems(2) by (auto simp: w1_def)
    then show ?thesis
      using Cons.IH [OF 1 _ 2 3, of "add_charge (template_specs_cache w) now cs deltas" "Suc m"] Cons.prems(2) due step
      by (simp add: w1_def)
  qed
qed

lemma dict_get_set: "dict_get (dict_set k v d) u x = (if u = k then v else dict_get d u x)"
  by (simp add: dict_get_def map_of_dict_set)

lemma dict_set_distinct: "distinct (map fst d) \<Longrightarrow> distinct (map fst (dict_set k v d))"
  by (auto simp: dict_set_def comp_def split_beta if_distrib [of fst] image_iff cong: if_cong)

lemma charges_fold:
  fixes d :: "(string \<times> dec) list" and c :: "(string \<times> template_spec) list" and now :: time
  defines "e ss \<equiv> fold (add_charge c now) ss d"
  shows "dict_get (e ss) u 0 = fold (\<lambda>s a. dadd a (cu_charge c now s)) (filter (\<lambda>s. cs_user_id s = u) ss) (dict_get d u 0)"
    and "fst ` set (e ss) = fst ` set d \<union> cs_user_id ` set ss"
    and "distinct (map fst d) \<Longrightarrow> distinct (map fst (e ss))"
  unfolding e_def
  by (induction ss arbitrary: d) (auto simp: add_charge_def dict_get_set dict_set_users dict_set_distinct)

lemma distinct_entries: "distinct (map fst d) \<Longrightarrow> set d = (\<lambda>k. (k, dict_get d k x)) ` fst ` set d"
  by (force simp: dict_get_def)

lemma charges_exact:
  fixes c :: "(string \<times> template_spec) list" and now :: time
  defines "e ss \<equiv> fold (add_charge c now) (filter (session_due now) ss) []"
  shows "distinct (map fst (e ss))"
    and "set (e ss) = (\<lambda>s. (cs_user_id s, user_charge c now ss (cs_user_id s))) ` set (filter (session_due now) ss)"
proof -
  show d: "distinct (map fst (e ss))" unfolding e_def by (rule charges_fold(3)) simp
  have "dict_get (e ss) u 0 = user_charge c now ss u" for u
    unfolding e_def charges_fold(1) user_charge_def
    by (simp add: dict_get_def conj_commute)
  moreover have "fst ` set (e ss) = cs_user_id ` set (filter (session_due now) ss)"
    unfolding e_def charges_fold(2) by simp
  ultimately show "set (e ss) = (\<lambda>s. (cs_user_id s, user_charge c now ss (cs_user_id s))) ` set (filter (session_due now) ss)"
    using distinct_entries [OF d, of 0] by (simp add: image_image)
qed

lemma plan_owners_consume:
  assumes "plans_of uid w = [p]" and "consume_compute_credits now uid a w = (r, w')"
  shows "map up_user_id (user_plans w') = map up_user_id (user_plans w)"
proof (cases "0 < a")
  case False
  with assms show ?thesis by (simp add: consume_nothing)
next
  case pos: True
  show ?thesis
  proof (cases "a \<le> dsub (up_compute_units_monthly_limit p) (up_compute_units_monthly_used p)")
    case True
    with assms consume_monthly [OF assms(1) pos True, of now] show ?thesis by (auto simp: map_update_where)
  next
    case False
    obtain gs' ec n where "deduct_grants (utc_ts now) 0
        (dsub a (max 0 (dsub (up_compute_units_monthly_limit p) (up_compute_units_monthly_used p))))
        (order_by_expiry (filter (consumable uid (utc_ts now)) (compute_grants w))) = (gs', ec, n)"
      using prod_cases3 by blast
    from consume_both [OF assms(1) pos False refl this] assms show ?thesis by (auto simp: map_update_where)
  qed
qed

lemma has_plan_iff: "(\<exists>p. plans_of u w = [p]) \<longleftrightarrow> length (filter (\<lambda>x. x = u) (map up_user_id (user_plans w))) = 1"
  by (simp add: plans_of_def filter_map comp_def length_Suc_conv)

lemma consume_all_ok:
  assumes "\<And>uid. uid \<in> fst ` set deltas \<Longrightarrow> \<exists>p. plans_of uid w = [p]"
  shows "\<exists>w'. for_each deltas (\<lambda>(uid, d). if 0 < d
      then ebind (consume_compute_credits now uid d) (\<lambda>_. ret ()) else ret ()) w = (Inr (), w') \<and>
    compute_sessions w' = compute_sessions w"
  using assms
proof (induction deltas arbitrary: w)
  case Nil
  then show ?case by simp
next
  case (Cons x deltas)
  obtain uid d where x: "x = (uid, d)" by (cases x)
  obtain p where p: "plans_of uid w = [p]" using Cons.prems [of uid] x by auto
  then obtain r w1 where run: "consume_compute_credits now uid d w = (Inr r, w1)" using consume_total by blast
  have "\<exists>p. plans_of u w1 = [p]" if "u \<in> fst ` set deltas" for u
    using Cons.prems [of u] that unfolding has_plan_iff plan_owners_consume [OF p run] by auto
  then obtain w2 where "for_each deltas (\<lambda>(uid, d). if 0 < d
      then ebind (consume_compute_credits now uid d) (\<lambda>_. ret ()) else ret ()) w1 = (Inr (), w2)"
      "compute_sessions w2 = compute_sessions w1"
    using Cons.IH [of w1] by blast
  moreover have "w1 = w" if "\<not> 0 < d" using run that by (simp add: consume_nothing)
  ultimately show ?case
    using run x consume_sessions_run [OF run] by (cases "0 < d") auto
qed

lemma tick_sessions_raises:
  assumes "distinct (map cs_id (compute_sessions w))" and "distinct ss" and "set ss \<subseteq> set (compute_sessions w)"
    and "s \<in> set ss" and "cs_last_metered_at s < now"
    and "resolve_spec (template_specs_cache w) (cs_template s) = None"
  shows "\<exists>e w'. tick_sessions (\<lambda>_. None) now ss deltas m w = (Inl e, w')"
  using assms
proof (induction ss arbitrary: w deltas m)
  case Nil
  then show ?case by simp
next
  case (Cons cs ss)
  show ?case
  proof (cases "cs_last_metered_at cs < now")
    case False
    with Cons.prems(4,5) have "s \<in> set ss" by auto
    with Cons.IH [of w deltas m] Cons.prems show ?thesis by (simp add: tick_sessions_skip [OF False])
  next
    case due: True
    have cs: "cs \<in> set (compute_sessions w)" using Cons.prems(3) by simp
    obtain a b h where step: "tick_sessions (\<lambda>_. None) now (cs # ss) deltas m w =
        (let w1 = w\<lparr>compute_sessions := update_where (row_unchanged cs) (meter_row now a b) (compute_sessions w)\<rparr>
         in case resolve_spec (template_specs_cache w) (cs_template cs) of
              None \<Rightarrow> (Inl (BadRequestError (''Unknown sandbox template: '' @ cs_template cs)), w1)
            | Some (v, g) \<Rightarrow> tick_sessions (\<lambda>_. None) now ss
                (dict_set (cs_user_id cs) (dadd (dict_get deltas (cs_user_id cs) 0)
                  (dmul (dadd (dmul CU_VCPU_WEIGHT v) (dmul CU_MEMORY_WEIGHT g)) h)) deltas) (Suc m) w1)"
      using tick_sessions_step [OF due tick_step_rows(2) [OF Cons.prems(1) cs], of ss deltas m] by blast
    show ?thesis
    proof (cases "resolve_spec (template_specs_cache w) (cs_template cs)")
      case None
      then show ?thesis using step by simp
    next
      case (Some vg)
      define w1 where "w1 = w\<lparr>compute_sessions := update_where (row_unchanged cs) (meter_row now a b) (compute_sessions w)\<rparr>"
      have "s \<in> set ss" using Some Cons.prems(4,6) by auto
      moreover have "set ss \<subseteq> set (compute_sessions w1)"
        using tick_step_rows(1) [OF Cons.prems(1) cs, of now a b] Cons.prems(2,3) by (auto simp: w1_def)
      moreover have "distinct (map cs_id (compute_sessions w1))"
        using Cons.prems(1) by (simp add: w1_def map_update_where)
      ultimately have "\<exists>e w'. tick_sessions (\<lambda>_. None) now ss ds k w1 = (Inl e, w')" for ds k
        using Cons.prems(2,5,6) by (intro Cons.IH) (simp_all add: w1_def)
      with step Some show ?thesis by (simp add: Let_def split: prod.splits flip: w1_def)
    qed
  qed
qed

lemma rollback_rows_simps [simp]:
  "compute_sessions (rollback_rows w0 w) = compute_sessions w0" "user_plans (rollback_rows w0 w) = user_plans w0"
  "compute_grants (rollback_rows w0 w) = compute_grants w0" "storage_ledgers (rollback_rows w0 w) = storage_ledgers w0"
  "sandboxes (rollback_rows w0 w) = sandboxes w0" "audit_events (rollback_rows w0 w) = audit_events w0"
  by (simp_all add: rollback_rows_def)

lemma run_step_raises: "m w = (Inl e, w') \<Longrightarrow> run_step m w = (Inr (), rollback_rows w w')"
  by (simp add: run_step_def best_effort_def transaction_def try_catch_def ebind_def)

subsection \<open>Properties\<close>

text \<open>C26: one tick of the metering task meters every open session and charges its owner. When all templates are known, all
  owners have a plan and no concurrent transaction interferes, the row of every session that is due gets the hours since
  it was last metered, times what it requested, and every owner consumes, once, the sum over his sessions of rate times
  hours (\<open>consume_compute_credits\<close> takes it from his pools). The tick returns the number of
  sessions that were due and leaves no open session with unmetered time.\<close>

theorem tick_metering_meters_all:
  fixes now :: datetime
  assumes ids: "distinct (map cs_id (compute_sessions w))"
    and known: "\<forall>s \<in> set (compute_sessions w). resolve_spec (template_specs_cache w) (cs_template s) \<noteq> None"
    and plans: "\<forall>s \<in> set (compute_sessions w). \<exists>p. plans_of (cs_user_id s) w = [p]"
  defines "due \<equiv> filter (session_due (utc_ts now)) (compute_sessions w)"
  shows "\<exists>charges w1 w'. distinct (map fst charges) \<and>
    set charges = (\<lambda>s. (cs_user_id s, user_charge (template_specs_cache w) (utc_ts now) (compute_sessions w) (cs_user_id s))) ` set due \<and>
    for_each charges (\<lambda>(uid, amount). if 0 < amount then ebind (consume_compute_credits now uid amount) (\<lambda>_. ret ()) else ret ())
      (w\<lparr>compute_sessions := map (metered (utc_ts now)) (compute_sessions w)\<rparr>) = (Inr (), w1) \<and>
    compute_sessions w1 = map (metered (utc_ts now)) (compute_sessions w) \<and>
    tick_metering (\<lambda>_. None) now w = (Inr (length due), w') \<and> w' = (if due = [] then w else store_rows w1) \<and>
    (\<forall>s \<in> set (compute_sessions w'). \<not> session_due (utc_ts now) s)"
proof -
  let ?t = "utc_ts now" and ?open = "filter (\<lambda>s. cs_ended_at s = None) (compute_sessions w)"
  define charges where "charges = fold (add_charge (template_specs_cache w) ?t) due []"
  define w0 where "w0 = w\<lparr>compute_sessions := map (metered ?t) (compute_sessions w)\<rparr>"
  have due_open: "filter (session_due ?t) ?open = due"
    by (auto simp: due_def session_due_def intro!: filter_cong)
  have rows: "map (\<lambda>s. if s \<in> set ?open then metered ?t s else s) (compute_sessions w) = map (metered ?t) (compute_sessions w)"
    by (auto simp: metered_def session_due_def)
  have d: "distinct ?open" using ids by (intro distinct_filter) (simp add: distinct_map)
  have sub: "set ?open \<subseteq> set (compute_sessions w)" by auto
  have spec: "resolve_spec (template_specs_cache w) (cs_template s) \<noteq> None \<and> cs_ended_at s = None" if "s \<in> set ?open" for s
    using known that by auto
  have run: "tick_sessions (\<lambda>_. None) ?t ?open [] 0 w = (Inr (charges, length due), w0)"
    using tick_sessions_ok [OF ids d sub spec, of ?t "[]" 0] unfolding rows due_open charges_def w0_def add_0 .
  note exact = charges_exact [of "template_specs_cache w" ?t "compute_sessions w", folded due_def, folded charges_def]
  have "\<exists>p. plans_of u w0 = [p]" if "u \<in> fst ` set charges" for u
    using exact(2) plans that by (auto simp: w0_def due_def)
  then obtain w1 where cons: "for_each charges (\<lambda>(uid, d). if 0 < d
      then ebind (consume_compute_credits now uid d) (\<lambda>_. ret ()) else ret ()) w0 = (Inr (), w1)"
    and s1: "compute_sessions w1 = compute_sessions w0"
    using consume_all_ok [of charges w0 now] by auto
  define w' where "w' = (if due = [] then w else store_rows w1)"
  have "w1 = w" if "due = []"
  proof -
    have "metered ?t s = s" if "s \<in> set (compute_sessions w)" for s
      using that \<open>due = []\<close> by (auto simp: metered_def due_def filter_empty_conv)
    then have "w0 = w" by (simp add: w0_def map_idI)
    then show ?thesis using cons that by (simp add: charges_def)
  qed
  then have tick: "tick_metering (\<lambda>_. None) now w = (Inr (length due), w')"
    using run cons by (auto simp: tick_metering_def w'_def)
  have "\<not> session_due ?t (metered ?t s)" for s by (simp add: metered_def session_due_def)
  then have "\<forall>s \<in> set (compute_sessions w'). \<not> session_due ?t s"
    using s1 by (auto simp: w'_def w0_def due_def filter_empty_conv store_rows_def store_session_def session_due_def)
  with exact cons s1 tick show ?thesis unfolding w0_def w'_def by auto
qed

theorem tick_metering_meters_all_witness:
  "\<exists>w'. tick_metering (\<lambda>_. None) demo_now session_world = (Inr 1, w') \<and>
     compute_sessions w' = [store_session (demo_session\<lparr>cs_vcpu_hours := num4 (dmul (1 / 4) (ddiv 60 3600)),
       cs_memory_gib_hours := num4 (dmul 1 (ddiv 60 3600)), cs_last_metered_at := utc_ts demo_now, cs_gmt_updated := utc_ts demo_now\<rparr>)]"
proof -
  have 1: "distinct (map cs_id (compute_sessions session_world))" by (simp add: session_world_def)
  have 2: "\<forall>s \<in> set (compute_sessions session_world).
      resolve_spec (template_specs_cache session_world) (cs_template s) \<noteq> None"
    by (simp add: session_world_def demo_world_def empty_world_def demo_session_def resolve_spec_def TEMPLATE_SPECS_def)
  have 3: "\<forall>s \<in> set (compute_sessions session_world). \<exists>p. plans_of (cs_user_id s) session_world = [p]"
    by (simp add: session_world_def demo_world_def demo_session_def plans_of_def demo_plan_def)
  have due: "filter (session_due (utc_ts demo_now)) (compute_sessions session_world) = [demo_session]"
    by (simp add: session_world_def demo_session_def session_due_def seconds_def)
  have "metered (utc_ts demo_now) demo_session = demo_session\<lparr>cs_vcpu_hours := num4 (dmul (1 / 4) (ddiv 60 3600)),
       cs_memory_gib_hours := num4 (dmul 1 (ddiv 60 3600)), cs_last_metered_at := utc_ts demo_now, cs_gmt_updated := utc_ts demo_now\<rparr>"
    by (simp add: metered_def session_due_def hours_since_def demo_session_def seconds_def total_seconds_def)
  moreover have "map (metered (utc_ts demo_now)) (compute_sessions session_world) = [metered (utc_ts demo_now) demo_session]"
    by (simp add: session_world_def)
  ultimately show ?thesis using tick_metering_meters_all [OF 1 2 3, of demo_now] unfolding due by (auto simp: store_rows_def)
qed

text \<open>One session whose template is not known aborts the tick for everybody: when such a session is
  due, the step ends without a trace in the rows, whatever the other sessions of all users are.\<close>

theorem tick_metering_aborted_by_unknown_template:
  assumes ids: "distinct (map cs_id (compute_sessions w))"
    and s: "s \<in> set (compute_sessions w)" "session_due (utc_ts now) s"
    and unknown: "resolve_spec (template_specs_cache w) (cs_template s) = None"
  shows "\<exists>w'. run_step (tick_metering (\<lambda>_. None) now) w = (Inr (), w') \<and>
    compute_sessions w' = compute_sessions w \<and> user_plans w' = user_plans w \<and>
    compute_grants w' = compute_grants w"
proof -
  let ?open = "filter (\<lambda>s. cs_ended_at s = None) (compute_sessions w)"
  obtain e w1 where "tick_sessions (\<lambda>_. None) (utc_ts now) ?open [] 0 w = (Inl e, w1)"
    using tick_sessions_raises [OF ids _ _ _ _ unknown, of ?open "utc_ts now" "[]" 0] s ids
    by (auto simp: session_due_def distinct_map)
  then have "tick_metering (\<lambda>_. None) now w = (Inl e, w1)" by (simp add: tick_metering_def)
  from run_step_raises [of "tick_metering (\<lambda>_. None) now", OF this] show ?thesis by simp
qed

theorem tick_metering_aborted_by_unknown_template_witness:
  "let w = session_world\<lparr>compute_sessions := [demo_session, demo_session\<lparr>cs_id := ''cs2'', cs_template := ''gone''\<rparr>]\<rparr>
   in \<exists>w'. run_step (tick_metering (\<lambda>_. None) demo_now) w = (Inr (), w') \<and> compute_sessions w' = compute_sessions w"
proof -
  define w where "w = session_world\<lparr>compute_sessions := [demo_session, demo_session\<lparr>cs_id := ''cs2'', cs_template := ''gone''\<rparr>]\<rparr>"
  let ?s = "demo_session\<lparr>cs_id := ''cs2'', cs_template := ''gone''\<rparr>"
  have 1: "distinct (map cs_id (compute_sessions w))" by (simp add: w_def demo_session_def)
  have 2: "?s \<in> set (compute_sessions w)" by (simp add: w_def)
  have 3: "session_due (utc_ts demo_now) ?s" by (simp add: session_due_def demo_session_def seconds_def)
  have 4: "resolve_spec (template_specs_cache w) (cs_template ?s) = None"
    by (simp add: w_def session_world_def demo_world_def empty_world_def resolve_spec_def TEMPLATE_SPECS_def)
  from tick_metering_aborted_by_unknown_template [OF 1 2 3 4] show ?thesis
    by (auto simp: Let_def simp flip: w_def)
qed

text \<open>No sandbox is stopped before the grace period is over. When credits are exhausted for the
  first time, the grace period starts and nothing but the plan and the audit log changes; while it
  lasts and the debt is within a fifth of the monthly limit, nothing changes at all, and no call
  is made to Kubernetes.\<close>

theorem grace_period_waits:
  assumes plan: "plans_of uid w = [plan]"
  shows "(up_grace_period_started_at plan = None \<longrightarrow>
      (\<exists>ev w'. handle_exhausted now plan uid remaining stop_cb running w = (Inr (), w') \<and>
         plans_of uid w' = [plan\<lparr>up_grace_period_started_at := Some (utc_ts now), up_gmt_updated := utc_ts now\<rparr>] \<and>
         w' = w\<lparr>user_plans := user_plans w', audit_events := audit_events w @ [ev]\<rparr> \<and>
         ae_action ev = ''metering.grace_period_started'')) \<and>
    (\<forall>started. up_grace_period_started_at plan = Some started \<and>
       total_seconds (utc_ts now - started) \<le> of_int (up_grace_period_seconds plan) \<and>
       \<bar>remaining\<bar> \<le> dmul (up_compute_units_monthly_limit plan) ABSOLUTE_OVERAGE_CAP_RATIO \<longrightarrow>
       handle_exhausted now plan uid remaining stop_cb running w = (Inr (), w))"
proof (intro conjI impI allI)
  assume "up_grace_period_started_at plan = None"
  then show "\<exists>ev w'. handle_exhausted now plan uid remaining stop_cb running w = (Inr (), w') \<and>
         plans_of uid w' = [plan\<lparr>up_grace_period_started_at := Some (utc_ts now), up_gmt_updated := utc_ts now\<rparr>] \<and>
         w' = w\<lparr>user_plans := user_plans w', audit_events := audit_events w @ [ev]\<rparr> \<and>
         ae_action ev = ''metering.grace_period_started''"
    using plan by (auto simp: handle_exhausted_def record_audit_event_def plans_of_def plans_of_update)
next
  fix started
  assume "up_grace_period_started_at plan = Some started \<and>
    total_seconds (utc_ts now - started) \<le> of_int (up_grace_period_seconds plan) \<and>
    \<bar>remaining\<bar> \<le> dmul (up_compute_units_monthly_limit plan) ABSOLUTE_OVERAGE_CAP_RATIO"
  then show "handle_exhausted now plan uid remaining stop_cb running w = (Inr (), w)"
    by (auto simp: handle_exhausted_def Let_def)
qed

theorem grace_period_waits_witness:
  "\<exists>w'. handle_exhausted demo_now demo_plan ''u1'' 0 None [demo_sandbox] demo_world = (Inr (), w') \<and>
     sandboxes w' = sandboxes demo_world \<and>
     map up_grace_period_started_at (plans_of ''u1'' w') = [Some (utc_ts demo_now)]"
proof -
  have "plans_of ''u1'' demo_world = [demo_plan]"
    by (simp add: plans_of_def demo_world_def empty_world_def demo_plan_def)
  from grace_period_waits [OF this, of demo_now 0 None "[demo_sandbox]"] obtain w' where
    "handle_exhausted demo_now demo_plan ''u1'' 0 None [demo_sandbox] demo_world = (Inr (), w')"
    "plans_of ''u1'' w' = [demo_plan\<lparr>up_grace_period_started_at := Some (utc_ts demo_now), up_gmt_updated := utc_ts demo_now\<rparr>]"
    by (auto simp: demo_plan_def)
  then show ?thesis by (auto simp: handle_exhausted_def demo_plan_def record_audit_event_def)
qed

text \<open>Enforcement stops exactly the running sandboxes of the user. With the database-only stop,
  once the grace period is over or the debt is above the cap, every running sandbox of the user
  becomes stopped, whatever happens to the billing of its session, every other sandbox stays as it
  was, and the grace period is cleared.\<close>

theorem enforcement_stops_all:
  assumes ids: "distinct (map sb_id (sandboxes w))"
    and running: "running = filter (\<lambda>s. sb_owner_id s = uid \<and> is_running s) (sandboxes w)"
    and started: "up_grace_period_started_at plan = Some started"
    and over: "of_int (up_grace_period_seconds plan) < total_seconds (utc_ts now - started) \<or>
      dmul (up_compute_units_monthly_limit plan) ABSOLUTE_OVERAGE_CAP_RATIO < \<bar>remaining\<bar>"
  shows "\<exists>w'. handle_exhausted now plan uid remaining None running w = (Inr (), w') \<and>
    sandboxes w' = map (\<lambda>s. if sb_owner_id s = uid \<and> is_running s then stopped_row (utc_ts now) s else s) (sandboxes w) \<and>
    list_all (\<lambda>p. up_grace_period_started_at p = None) (plans_of uid w')"
proof -
  define reason where "reason = (if dmul (up_compute_units_monthly_limit plan) ABSOLUTE_OVERAGE_CAP_RATIO < \<bar>remaining\<bar>
    then ''absolute_cap_exceeded'' else ''grace_period_expired'')"
  have "distinct (map sb_id running)" unfolding running using ids by (rule distinct_map_filter)
  from enforce_stops_sandboxes [OF this, of now plan uid reason "utc_ts now - started" "\<bar>remaining\<bar>" w]
  obtain w1 where run: "for_each running (enforce_stop_one now plan uid reason (utc_ts now - started) \<bar>remaining\<bar> None) w = (Inr (), w1)"
    and sbs: "sandboxes w1 = map (\<lambda>s. if sb_id s \<in> sb_id ` set running then stopped_row (utc_ts now) s else s) (sandboxes w)"
    by blast
  have mem: "sb_id s \<in> sb_id ` set running \<longleftrightarrow> sb_owner_id s = uid \<and> is_running s" if "s \<in> set (sandboxes w)" for s
    using that ids by (auto simp: running distinct_map dest: inj_onD)
  then have sbs': "sandboxes w1 = map (\<lambda>s. if sb_owner_id s = uid \<and> is_running s then stopped_row (utc_ts now) s else s) (sandboxes w)"
    using sbs by simp
  have stopped: "\<not> is_running (stopped_row t s)" for t s by (simp add: stopped_row_def is_running_def)
  have none: "filter (\<lambda>s. sb_owner_id s = uid \<and> is_running s) (sandboxes w1) = []"
    unfolding sbs' filter_empty_conv by (auto simp: stopped)
  define w2 where "w2 = w1\<lparr>user_plans := update_where (\<lambda>p. up_user_id p = uid)
    (\<lambda>p. p\<lparr>up_grace_period_started_at := None, up_gmt_updated := utc_ts now\<rparr>) (user_plans w1)\<rparr>"
  have "handle_exhausted now plan uid remaining None running w = (Inr (), w2)"
    using over run none
    by (simp add: handle_exhausted_def started Let_def enforce_stop_def get_running_sandboxes_def w2_def
        flip: reason_def)
  moreover have "list_all (\<lambda>p. up_grace_period_started_at p = None) (plans_of uid w2)"
    by (simp add: w2_def plans_of_def plans_of_update list_all_iff)
  ultimately show ?thesis using sbs' by (auto simp: w2_def)
qed

theorem enforcement_stops_all_witness:
  "\<exists>w'. handle_exhausted demo_now (demo_plan\<lparr>up_grace_period_started_at := Some (utc_ts demo_now)\<rparr>) ''u1'' (-3) None
       [demo_sandbox] (session_world\<lparr>sandboxes := [demo_sandbox]\<rparr>) = (Inr (), w') \<and>
     map sb_status (sandboxes w') = [STOPPED]"
proof -
  let ?w = "session_world\<lparr>sandboxes := [demo_sandbox]\<rparr>"
  let ?p = "demo_plan\<lparr>up_grace_period_started_at := Some (utc_ts demo_now)\<rparr>"
  have 1: "distinct (map sb_id (sandboxes ?w))" by simp
  have 2: "[demo_sandbox] = filter (\<lambda>s. sb_owner_id s = ''u1'' \<and> is_running s) (sandboxes ?w)"
    by (simp add: demo_sandbox_def is_running_def)
  have 3: "up_grace_period_started_at ?p = Some (utc_ts demo_now)" by simp
  have "dctx 2 = 2" by (rule dctx_small) (simp_all add: on_grid_def)
  then have 4: "of_int (up_grace_period_seconds ?p) < total_seconds (utc_ts demo_now - utc_ts demo_now) \<or>
      dmul (up_compute_units_monthly_limit ?p) ABSOLUTE_OVERAGE_CAP_RATIO < \<bar>-3\<bar>"
    by (simp add: demo_plan_def ABSOLUTE_OVERAGE_CAP_RATIO_def dmul_def)
  from enforcement_stops_all [OF 1 2 3 4] show ?thesis
    by (auto simp: stopped_row_def demo_sandbox_def is_running_def)
qed

text \<open>C29: the monthly reset terminates and catches up, however many months were missed. For any month
  step that moves time forward, with fuel for one step per microsecond that a plan is behind, the
  reset returns the number of plans that were due, and afterwards every plan is in its current period: it moved on by \<open>k\<close> whole
  periods, to a period that has not ended, and if it moved at all, that period starts where the one before it ended, has
  already begun, and nothing of it is used. A plan that was not due keeps its period.\<close>

theorem reset_monthly_credits_terminates:
  assumes later: "\<And>t. t < add_month t" and ids: "distinct (map up_user_id (user_plans w))"
    and fuel: "\<And>p. p \<in> set (user_plans w) \<Longrightarrow> nat (now + 1 - up_period_end p) < fuel"
  shows "\<exists>w'. reset_monthly_credits add_month now fuel w =
      (Inr (Some (length (filter (\<lambda>p. up_period_end p \<le> now) (user_plans w)))), w') \<and>
    (\<forall>p \<in> set (user_plans w). \<exists>p' k. plans_of (up_user_id p) w' = [p'] \<and> now < up_period_end p' \<and>
       up_period_end p' = (add_month ^^ k) (up_period_end p) \<and> (k = 0 \<longleftrightarrow> now < up_period_end p) \<and>
       (if k = 0 then up_period_start p' = up_period_start p
        else up_period_start p' = (add_month ^^ (k - 1)) (up_period_end p) \<and> up_period_start p' \<le> now \<and>
          up_compute_units_monthly_used p' = 0 \<and> up_compute_units_overage p' = 0))"
proof -
  obtain w' where run: "reset_monthly_credits add_month now fuel w =
      (Inr (Some (length (filter (\<lambda>p. up_period_end p \<le> now) (user_plans w)))), w')"
    and moved: "\<forall>p \<in> set (user_plans w). \<exists>q k. (plans_of (up_user_id p) w' = [q] \<or> plans_of (up_user_id p) w' = [store_plan q]) \<and>
       now < up_period_end q \<and> period_moves add_month now k p q"
    using reset_monthly_credits_ok [OF assms] by blast
  have grows: "t \<le> (add_month ^^ n) t" for n t
    using later by (induction n) (auto intro: order_trans less_imp_le)
  have "\<exists>p' k. plans_of (up_user_id p) w' = [p'] \<and> now < up_period_end p' \<and>
       up_period_end p' = (add_month ^^ k) (up_period_end p) \<and> (k = 0 \<longleftrightarrow> now < up_period_end p) \<and>
       (if k = 0 then up_period_start p' = up_period_start p
        else up_period_start p' = (add_month ^^ (k - 1)) (up_period_end p) \<and> up_period_start p' \<le> now \<and>
          up_compute_units_monthly_used p' = 0 \<and> up_compute_units_overage p' = 0)" if p: "p \<in> set (user_plans w)" for p
  proof -
    obtain q k where q: "plans_of (up_user_id p) w' = [q] \<or> plans_of (up_user_id p) w' = [store_plan q]"
      "now < up_period_end q" "period_moves add_month now k p q" using moved p by blast
    have late: "up_period_end p \<le> now" if "k \<noteq> 0" using q(3) that grows [of "up_period_end p" "k - 1"] by (simp add: period_moves_def)
    have k: "k = 0 \<longleftrightarrow> now < up_period_end p"
    proof (cases "k = 0")
      case True
      then show ?thesis using q(2,3) by (simp add: period_moves_def)
    next
      case False
      then show ?thesis using late by auto
    qed
    have z: "num4 0 = 0" by code_simp
    from q(1) obtain p' where "plans_of (up_user_id p) w' = [p']" "p' = q \<or> p' = store_plan q" by blast
    with q(2,3) k z show ?thesis
      by (intro exI [of _ p'] exI [of _ k]) (auto simp: period_moves_def store_plan_def)
  qed
  with run show ?thesis by blast
qed

theorem reset_monthly_credits_terminates_witness:
  "\<exists>w' p'. reset_monthly_credits (\<lambda>t. t + 28 * day_us) (90 * day_us) (nat (91 * day_us)) demo_world = (Inr (Some 1), w') \<and>
     plans_of ''u1'' w' = [p'] \<and> 90 * day_us < up_period_end p' \<and> up_period_start p' \<le> 90 * day_us"
proof -
  have 1: "t < t + 28 * day_us" for t by (simp add: day_us_def)
  have 2: "distinct (map up_user_id (user_plans demo_world))" by (simp add: demo_world_def)
  have 3: "nat (90 * day_us + 1 - up_period_end p) < nat (91 * day_us)" if "p \<in> set (user_plans demo_world)" for p
    using that by (simp add: demo_world_def demo_plan_def day_us_def)
  have plans: "user_plans demo_world = [demo_plan]" "up_user_id demo_plan = ''u1''" "up_period_end demo_plan \<le> 90 * day_us"
    by (simp_all add: demo_world_def demo_plan_def day_us_def)
  note reset = reset_monthly_credits_terminates [of "\<lambda>t. t + 28 * day_us" demo_world "90 * day_us" "nat (91 * day_us)", OF 1 2 3]
  show ?thesis
  proof (rule exE [OF reset])
    show "p \<in> set (user_plans demo_world)" if "p \<in> set (user_plans demo_world)" for p by (rule that)
  next
    fix w'
    assume run: "reset_monthly_credits (\<lambda>t. t + 28 * day_us) (90 * day_us) (nat (91 * day_us)) demo_world =
        (Inr (Some (length (filter (\<lambda>p. up_period_end p \<le> 90 * day_us) (user_plans demo_world)))), w') \<and>
      (\<forall>p \<in> set (user_plans demo_world). \<exists>p' k. plans_of (up_user_id p) w' = [p'] \<and> 90 * day_us < up_period_end p' \<and>
       up_period_end p' = ((\<lambda>t. t + 28 * day_us) ^^ k) (up_period_end p) \<and> (k = 0 \<longleftrightarrow> 90 * day_us < up_period_end p) \<and>
       (if k = 0 then up_period_start p' = up_period_start p
        else up_period_start p' = ((\<lambda>t. t + 28 * day_us) ^^ (k - 1)) (up_period_end p) \<and> up_period_start p' \<le> 90 * day_us \<and>
          up_compute_units_monthly_used p' = 0 \<and> up_compute_units_overage p' = 0))"
    have "demo_plan \<in> set (user_plans demo_world)" using plans(1) by simp
    from bspec [OF conjunct2 [OF run] this] show ?thesis
    proof (elim exE conjE, goal_cases)
      case (1 p' k)
      have "k \<noteq> 0" using 1(4) plans(3) by simp
      with 1(5) have "up_period_start p' \<le> 90 * day_us" by simp
      with 1(1,2) plans run show ?case by auto
    qed
  qed
qed

text \<open>The rollover splits only the first open session of a user. The plan moves to the next period
  while that session is handled, so every further session of the same user is skipped and dropped
  from the work list: its rows stay as they were, still open and started in the old period.\<close>

theorem rollover_splits_only_the_first_session:
  assumes "up_period_end plan < now" and "now \<le> add_month (up_period_end plan)"
    and plan: "plans_of uid w = [plan]" and later: "\<And>t. t < add_month t"
    and run: "handle_period_rollover add_month now cs plan (sbs (cs_sandbox_id cs)) w = (Inr (new, plan'), w1)"
  shows "rollover_sessions add_month now sbs (cs # others) plan w =
    (Inr (case new of None \<Rightarrow> [] | Some c \<Rightarrow> [c], plan'), w1) \<and>
    (\<forall>s \<in> set (compute_sessions w). cs_id s \<noteq> cs_id cs \<longrightarrow> s \<in> set (compute_sessions w1))"
proof -
  define w0 where "w0 = w\<lparr>compute_sessions := update_where (\<lambda>s. cs_id s = cs_id cs)
    (end_session_at now (up_period_end plan)) (compute_sessions w)\<rparr>"
  have "plans_of uid w0 = [plan]" using plan by (simp add: w0_def)
  from advance_plan_ok [of add_month, OF later this, of now "cs_user_id cs"] obtain w2 where
      adv: "advance_plan add_month now (cs_user_id cs) plan w0
        = (Inr (reset_plan_period now (add_month (up_period_end plan)) plan), w2)"
    and s2: "compute_sessions w2 = compute_sessions w0"
    by blast
  have plan': "plan' = reset_plan_period now (add_month (up_period_end plan)) plan"
    and rows: "\<exists>xs. compute_sessions w1 = compute_sessions w0 @ xs"
    using run assms(1) adv s2
    by (auto simp: handle_period_rollover_def Let_def run_simps w0_def split: if_splits option.splits)
  have "now \<le> up_period_end plan'" using assms(2) by (simp add: plan' reset_plan_period_def)
  then have "rollover_sessions add_month now sbs others plan' w1 = (Inr ([], plan'), w1)" by (rule rollover_skips)
  moreover have "s \<in> set (compute_sessions w1)" if "s \<in> set (compute_sessions w)" "cs_id s \<noteq> cs_id cs" for s
    using that rows by (auto simp: w0_def set_update_where image_iff)
  ultimately show ?thesis using run by (cases new) auto
qed

theorem rollover_splits_only_the_first_session_witness:
  "\<exists>new plan' w1. rollover_sessions (\<lambda>t. t + 30 * day_us) (31 * day_us) (\<lambda>_. Some demo_sandbox)
      [demo_session, demo_session\<lparr>cs_id := ''cs2''\<rparr>] demo_plan
      (session_world\<lparr>compute_sessions := [demo_session, demo_session\<lparr>cs_id := ''cs2''\<rparr>]\<rparr>)
    = (Inr ([new], plan'), w1) \<and> demo_session\<lparr>cs_id := ''cs2''\<rparr> \<in> set (compute_sessions w1)"
proof -
  let ?w = "session_world\<lparr>compute_sessions := [demo_session, demo_session\<lparr>cs_id := ''cs2''\<rparr>]\<rparr>"
  let ?am = "\<lambda>t. t + 30 * day_us" and ?sbs = "\<lambda>_::string. Some demo_sandbox"
  have 1: "up_period_end demo_plan < 31 * day_us" "31 * day_us \<le> ?am (up_period_end demo_plan)"
    by (simp_all add: demo_plan_def day_us_def)
  have 2: "plans_of ''u1'' ?w = [demo_plan]"
    by (simp add: plans_of_def session_world_def demo_world_def demo_plan_def)
  have 3: "t < ?am t" for t by (simp add: day_us_def)
  obtain new plan' w1 where run: "handle_period_rollover ?am (31 * day_us) demo_session demo_plan
      (?sbs (cs_sandbox_id demo_session)) ?w = (Inr (Some new, plan'), w1)"
    using 1 by (auto simp: handle_period_rollover_def advance_plan_def Let_def record_audit_event_def run_simps demo_sandbox_def)
  from rollover_splits_only_the_first_session [of demo_plan "31 * day_us" ?am, OF 1 2 3 run,
      of "[demo_session\<lparr>cs_id := ''cs2''\<rparr>]"] show ?thesis
    by (auto simp: demo_session_def)
qed

end
