(* ===== verification/Metering_Reconcile.thy ===== *)
theory Metering_Reconcile
  imports Metering_Tasks
begin

text \<open>
  \<^verbatim>\<open>metering/services/metering_reconcile.py\<close> and \<^verbatim>\<open>metering_state_observer.py\<close>.

  The observer ties sessions to sandbox states (\<open>metering_on_ready\<close>, \<open>metering_on_stopped\<close>,
  \<open>metering_on_deleted\<close>); reconciliation repairs what an observer missed: it opens a session for
  every ready sandbox without one and closes every open session whose sandbox is not ready or gone,
  and likewise for the storage ledger. Failures of single repairs are logged and dropped.
\<close>

subsection \<open>Observer\<close>

definition metering_on_ready :: "time \<Rightarrow> string \<Rightarrow> string \<Rightarrow> string \<Rightarrow> unit op" where
  "metering_on_ready now sid owner template =
     ebind (open_compute_session now sid owner template) (\<lambda>_. ret ())"

definition metering_on_stopped :: "datetime \<Rightarrow> string \<Rightarrow> unit op" where
  "metering_on_stopped now sid = ebind (close_compute_session now sid) (\<lambda>_. ret ())"

definition metering_on_deleted :: "datetime \<Rightarrow> string \<Rightarrow> bool \<Rightarrow> unit op" where
  "metering_on_deleted now sid persist =
     ebind (close_compute_session now sid) (\<lambda>_.
     if persist then ebind (record_storage_release (utc_ts now) sid) (\<lambda>_. ret ()) else ret ())"

subsection \<open>Compute sessions\<close>

definition missing_sessions :: "world \<Rightarrow> sandbox list" where
  "missing_sessions w =
     filter (\<lambda>s. sb_status s = READY \<and> open_sessions_of (sb_id s) w = []) (sandboxes w)"

text \<open>The outer join pairs a session with every sandbox that has its id; a session without a sandbox
  is paired with nothing.\<close>

definition stale_sessions :: "world \<Rightarrow> compute_session list" where
  "stale_sessions w = concat (map (\<lambda>c.
     if cs_ended_at c \<noteq> None then []
     else case filter (\<lambda>s. sb_id s = cs_sandbox_id c) (sandboxes w) of
            [] \<Rightarrow> [c]
          | ss \<Rightarrow> map (\<lambda>_. c) (filter (\<lambda>s. sb_status s \<noteq> READY) ss)) (compute_sessions w))"

definition reconcile_metering :: "datetime \<Rightarrow> unit op" where
  "reconcile_metering now =
     ebind (gets missing_sessions) (\<lambda>missing.
     ebind (for_each missing (\<lambda>s. best_effort
       (ebind (open_compute_session (utc_ts now) (sb_id s) (sb_owner_id s) (sb_template s)) (\<lambda>_. ret ())))) (\<lambda>_.
     ebind (gets stale_sessions) (\<lambda>stale.
     ebind (for_each stale (\<lambda>c. best_effort
       (ebind (close_compute_session now (cs_sandbox_id c)) (\<lambda>_. ret ())))) (\<lambda>_.
     commit))))"

subsection \<open>Storage ledger\<close>

definition missing_ledgers :: "world \<Rightarrow> sandbox list" where
  "missing_ledgers w =
     filter (\<lambda>s. sb_persist s \<and> sb_status s \<noteq> DELETING \<and> sb_status s \<noteq> DELETED \<and>
       sb_storage_size s \<noteq> None \<and> sb_gmt_deleted s = None \<and> active_ledgers_of (sb_id s) w = []) (sandboxes w)"

definition stale_ledgers :: "world \<Rightarrow> storage_ledger list" where
  "stale_ledgers w = concat (map (\<lambda>l.
     if sl_storage_state l \<noteq> SL_ACTIVE then []
     else case sl_sandbox_id l of
            None \<Rightarrow> [l]
          | Some sid \<Rightarrow>
              (case filter (\<lambda>s. sb_id s = sid) (sandboxes w) of
                 [] \<Rightarrow> [l]
               | ss \<Rightarrow> map (\<lambda>_. l) (filter (\<lambda>s. sb_status s = DELETING \<or> sb_status s = DELETED) ss)))
     (storage_ledgers w))"

definition create_missing_ledger :: "time \<Rightarrow> sandbox \<Rightarrow> unit op" where
  "create_missing_ledger now s =
     (case sb_storage_size s of
        None \<Rightarrow> ret ()
      | Some sz \<Rightarrow>
          ebind (of_sum (parse_storage_size_gib sz)) (\<lambda>size_gib.
          ebind (record_storage_allocation now (sb_owner_id s) (sb_id s) size_gib
                   (or_else (sb_storage_backend_mode s) LIVE_DISK)) (\<lambda>_. ret ())))"

definition reconcile_storage_metering :: "time \<Rightarrow> unit op" where
  "reconcile_storage_metering now =
     ebind (gets missing_ledgers) (\<lambda>missing.
     ebind (for_each missing (\<lambda>s. best_effort (create_missing_ledger now s))) (\<lambda>_.
     ebind (gets stale_ledgers) (\<lambda>stale.
     ebind (for_each stale (\<lambda>l. case sl_sandbox_id l of
         None \<Rightarrow> ret ()
       | Some sid \<Rightarrow> best_effort (ebind (record_storage_release now sid) (\<lambda>_. ret ())))) (\<lambda>_.
     commit))))"

subsection \<open>Template specs\<close>

definition reconcile_template_specs :: "cluster option \<Rightarrow> string \<Rightarrow> unit op" where
  "reconcile_template_specs k8s ns =
     (case k8s of
        None \<Rightarrow> ret ()
      | Some cl \<Rightarrow> best_effort
          (ebind (k8s_list_sandbox_templates cl ns) (\<lambda>ts.
           ebind (sync_template_specs_from_k8s ts) (\<lambda>_.
           ebind (of_sum (validate_template_specs ts)) (\<lambda>_. ret ())))))"

subsection \<open>Vocabulary of the properties\<close>

text \<open>Ids of rows are random: they are pairwise different, and no future draw repeats one.\<close>

definition session_ids_fresh :: "world \<Rightarrow> bool" where
  "session_ids_fresh w \<longleftrightarrow> inj (id_source w) \<and> distinct (map cs_id (compute_sessions w)) \<and>
     (\<forall>s \<in> set (compute_sessions w). \<forall>n \<ge> ids_drawn w. cs_id s \<noteq> ''cs'' @ id_source w n)"

text \<open>Sessions and sandboxes agree: a sandbox is ready iff it has an open session, and every open session
  belongs to a ready sandbox.\<close>

definition sessions_agree :: "world \<Rightarrow> bool" where
  "sessions_agree w \<longleftrightarrow>
     (\<forall>s \<in> set (sandboxes w). sb_status s = READY \<longleftrightarrow> open_sessions_of (sb_id s) w \<noteq> []) \<and>
     (\<forall>c \<in> set (compute_sessions w). cs_ended_at c = None \<longrightarrow>
        (\<exists>s \<in> set (sandboxes w). sb_id s = cs_sandbox_id c \<and> sb_status s = READY))"

text \<open>What a repair leaves as it was.\<close>

definition same_context :: "world \<Rightarrow> world \<Rightarrow> bool" where
  "same_context w w' \<longleftrightarrow> sandboxes w' = sandboxes w \<and> template_specs_cache w' = template_specs_cache w \<and>
     map up_user_id (user_plans w') = map up_user_id (user_plans w)"

subsection \<open>Single repairs\<close>

lemma same_context_trans: "same_context w v \<Longrightarrow> same_context v u \<Longrightarrow> same_context w u"
  by (simp add: same_context_def)

lemma open_effect:
  assumes inv: "one_open_session w" and fresh: "session_ids_fresh w"
    and none: "open_sessions_of sid w = []"
    and spec: "resolve_spec (template_specs_cache w) template \<noteq> None"
  shows "\<exists>s w'. open_compute_session t sid uid template w = (Inr s, w') \<and> open_sessions_of sid w' = [s] \<and>
    (\<forall>k. k \<noteq> sid \<longrightarrow> open_sessions_of k w' = open_sessions_of k w) \<and> session_ids_fresh w' \<and> same_context w w' \<and>
    compute_sessions w' = compute_sessions w @ [s] \<and> cs_sandbox_id s = sid"
proof -
  obtain v g where vg: "resolve_spec (template_specs_cache w) template = Some (v, g)" using spec by auto
  have new: "cs_id x \<noteq> ''cs'' @ id_source w (ids_drawn w)" if "x \<in> set (compute_sessions w)" for x
    using fresh that by (simp add: session_ids_fresh_def)
  have later: "id_source w (ids_drawn w) \<noteq> id_source w n" if "Suc (ids_drawn w) \<le> n" for n
    using fresh that by (auto simp: session_ids_fresh_def dest: injD)
  show ?thesis
    using none vg fresh unfolding open_compute_session_run [OF inv]
    by (auto simp: Let_def open_sessions_of_def session_ids_fresh_def same_context_def dest: new [symmetric, THEN notE] later)
qed

lemma close_effect:
  assumes open1: "open_sessions_of sid w = [s]" and plan: "plans_of (cs_user_id s) w = [p]"
    and spec: "resolve_spec (template_specs_cache w) (cs_template s) \<noteq> None"
  shows "\<exists>r w' f. close_compute_session now sid w = (Inr r, w') \<and> same_context w w' \<and>
    compute_sessions w' = update_where (\<lambda>c. cs_id c = cs_id s) f (compute_sessions w) \<and>
    (\<forall>c. cs_id (f c) = cs_id c \<and> cs_sandbox_id (f c) = cs_sandbox_id c \<and> cs_user_id (f c) = cs_user_id c \<and>
       cs_template (f c) = cs_template c)"
proof -
  let ?t = "utc_ts now"
  let ?fin = "\<lambda>c. c\<lparr>cs_ended_at := Some ?t, cs_last_metered_at := ?t, cs_gmt_updated := ?t\<rparr>"
  show ?thesis
  proof (cases "cs_last_metered_at s < ?t")
    case False
    then show ?thesis
      by (simp add: close_compute_session_unfold [OF open1 refl] same_context_def) (intro exI [of _ ?fin], simp)
  next
    case True
    define h where "h = close_hours ?t s"
    define w1 where "w1 = w\<lparr>compute_sessions := update_where (\<lambda>c. cs_id c = cs_id s) (accrue_session h) (compute_sessions w)\<rparr>"
    have plan1: "plans_of (cs_user_id s) w1 = [p]" using plan by (simp add: w1_def)
    obtain rate where rate: "calculate_cu_rate (cs_template s) w1 = (Inr rate, w1)"
      using spec by (auto simp: calculate_cu_rate_run w1_def split: option.splits prod.splits)
    obtain r w2 where cons: "consume_compute_credits now (cs_user_id s) (dmul rate h) w1 = (Inr r, w2)"
      using consume_total [OF plan1] by blast
    have "same_context w1 w2"
      unfolding same_context_def
      using plan_owners_consume [OF plan1 cons]
        keepsD_run [OF keeps_consume [of "\<lambda>v. sandboxes v = sandboxes w1"] _ cons]
        keepsD_run [OF keeps_consume [of "\<lambda>v. template_specs_cache v = template_specs_cache w1"] _ cons] by auto
    then have ctx: "same_context w w2" by (simp add: same_context_def w1_def)
    have skip: "w2 = w1" if "\<not> 0 < dmul rate h" using cons that by (simp add: consume_nothing)
    have "close_compute_session now sid w = (Inr (Some (?fin (accrue_session h s))),
        w2\<lparr>compute_sessions := update_where (\<lambda>c. cs_id c = cs_id s) ?fin (compute_sessions w2)\<rparr>)"
      using True rate cons skip
      by (cases "0 < dmul rate h") (simp_all add: close_compute_session_unfold [OF open1 refl] w1_def h_def)
    moreover have "compute_sessions w2 = compute_sessions w1" by (rule consume_sessions_run [OF cons])
    then have "update_where (\<lambda>c. cs_id c = cs_id s) ?fin (compute_sessions w2)
        = update_where (\<lambda>c. cs_id c = cs_id s) (?fin \<circ> accrue_session h) (compute_sessions w)"
      by (simp add: w1_def update_where_twice)
    ultimately show ?thesis
      using ctx
      by (intro exI [of _ "Some (?fin (accrue_session h s))"] exI [of _ "?fin \<circ> accrue_session h"]
          exI [of _ "w2\<lparr>compute_sessions := update_where (\<lambda>c. cs_id c = cs_id s) ?fin (compute_sessions w2)\<rparr>"])
        (simp add: same_context_def)
  qed
qed

lemma open_sessions_other:
  assumes ids: "distinct (map cs_id (compute_sessions w))" and open1: "open_sessions_of sid w = [s]" and "k \<noteq> sid"
    and rows: "compute_sessions w' = update_where (\<lambda>c. cs_id c = cs_id s) f (compute_sessions w)"
    and f: "\<And>c. cs_sandbox_id (f c) = cs_sandbox_id c"
  shows "open_sessions_of k w' = open_sessions_of k w"
proof -
  have "s \<in> set (open_sessions_of sid w)" using open1 by simp
  then have s: "s \<in> set (compute_sessions w)" "cs_sandbox_id s = sid" by (auto simp: open_sessions_of_def)
  have "cs_sandbox_id c = sid" if "c \<in> set (compute_sessions w)" "cs_id c = cs_id s" for c
    using ids that s by (auto simp: distinct_map dest: inj_onD)
  moreover have "filter (\<lambda>c. cs_sandbox_id c = k \<and> cs_ended_at c = None) (update_where (\<lambda>c. cs_id c = cs_id s) f rs)
      = filter (\<lambda>c. cs_sandbox_id c = k \<and> cs_ended_at c = None) rs"
    if "\<And>c. c \<in> set rs \<Longrightarrow> cs_id c = cs_id s \<Longrightarrow> cs_sandbox_id c = sid" for rs
    using that assms(3) by (induction rs) (auto simp: f)
  ultimately show ?thesis by (simp add: open_sessions_of_def rows)
qed

subsection \<open>Passes over the tables\<close>

abbreviation open_missing :: "time \<Rightarrow> sandbox \<Rightarrow> unit op" where
  "open_missing t s \<equiv> best_effort
     (ebind (open_compute_session t (sb_id s) (sb_owner_id s) (sb_template s)) (\<lambda>_. ret ()))"

abbreviation close_stale :: "datetime \<Rightarrow> compute_session \<Rightarrow> unit op" where
  "close_stale now c \<equiv> best_effort (ebind (close_compute_session now (cs_sandbox_id c)) (\<lambda>_. ret ()))"

lemma best_effort_ok: "m w = (Inr a, w') \<Longrightarrow> best_effort (ebind m (\<lambda>_. ret ())) w = (Inr (), w')"
  by (simp add: best_effort_def try_catch_def ebind_def)

lemma for_each_Cons_run: "f x w = (Inr (), w1) \<Longrightarrow> for_each xs f w1 = r \<Longrightarrow> for_each (x # xs) f w = r"
  by (simp add: ebind_def)

lemma open_pass:
  assumes "one_open_session w" "session_ids_fresh w" "distinct (map sb_id ss)"
    and "\<And>s. s \<in> set ss \<Longrightarrow> open_sessions_of (sb_id s) w = [] \<and>
      resolve_spec (template_specs_cache w) (sb_template s) \<noteq> None"
  shows "\<exists>w'. for_each ss (open_missing t) w = (Inr (), w') \<and> one_open_session w' \<and> session_ids_fresh w' \<and>
    same_context w w' \<and> (\<forall>s \<in> set ss. open_sessions_of (sb_id s) w' \<noteq> []) \<and>
    (\<forall>k. k \<notin> sb_id ` set ss \<longrightarrow> open_sessions_of k w' = open_sessions_of k w)"
  using assms
proof (induction ss arbitrary: w)
  case Nil
  then show ?case by (simp add: same_context_def)
next
  case (Cons s ss)
  obtain c w1 where run: "open_compute_session t (sb_id s) (sb_owner_id s) (sb_template s) w = (Inr c, w1)"
    and here: "open_sessions_of (sb_id s) w1 = [c]"
    and other: "\<forall>k. k \<noteq> sb_id s \<longrightarrow> open_sessions_of k w1 = open_sessions_of k w"
    and fresh1: "session_ids_fresh w1" and ctx1: "same_context w w1"
    using open_effect [of w "sb_id s" "sb_template s" t "sb_owner_id s"] Cons.prems by auto
  have inv1: "one_open_session w1" using keepsD_run [OF keeps_open_compute_session Cons.prems(1) run] .
  have "open_sessions_of (sb_id x) w1 = [] \<and> resolve_spec (template_specs_cache w1) (sb_template x) \<noteq> None"
    if "x \<in> set ss" for x
  proof -
    have "sb_id x \<noteq> sb_id s" using Cons.prems(3) that by (auto simp: image_iff)
    then show ?thesis using Cons.prems(4) [of x] that other ctx1 by (simp add: same_context_def)
  qed
  moreover have "distinct (map sb_id ss)" using Cons.prems(3) by simp
  ultimately obtain w2 where
    rest: "for_each ss (open_missing t) w1 = (Inr (), w2)" "one_open_session w2" "session_ids_fresh w2"
      "same_context w1 w2" "\<forall>s \<in> set ss. open_sessions_of (sb_id s) w2 \<noteq> []"
      "\<forall>k. k \<notin> sb_id ` set ss \<longrightarrow> open_sessions_of k w2 = open_sessions_of k w1"
    using Cons.IH [OF inv1 fresh1] by blast
  have "open_sessions_of (sb_id s) w2 = [c]" using rest(6) here Cons.prems(3) by simp
  moreover have loop: "for_each (s # ss) (open_missing t) w = (Inr (), w2)"
    by (rule for_each_Cons_run [where f = "open_missing t", OF
        best_effort_ok [of "open_compute_session t (sb_id s) (sb_owner_id s) (sb_template s)", OF run] rest(1)])
  ultimately show ?case
    using rest(2,3,5,6) other same_context_trans [OF ctx1 rest(4)] by (intro exI [of _ w2] conjI loop) auto
qed

lemma close_pass:
  assumes "one_open_session w" "distinct (map cs_id (compute_sessions w))"
    and "\<And>c s. c \<in> set cs \<Longrightarrow> s \<in> set (open_sessions_of (cs_sandbox_id c) w) \<Longrightarrow>
      (\<exists>p. plans_of (cs_user_id s) w = [p]) \<and> resolve_spec (template_specs_cache w) (cs_template s) \<noteq> None"
  shows "\<exists>w'. for_each cs (close_stale now) w = (Inr (), w') \<and> same_context w w' \<and>
    (\<forall>c \<in> set cs. open_sessions_of (cs_sandbox_id c) w' = []) \<and>
    (\<forall>k. k \<notin> cs_sandbox_id ` set cs \<longrightarrow> open_sessions_of k w' = open_sessions_of k w) \<and>
    (\<forall>k. open_sessions_of k w = [] \<longrightarrow> open_sessions_of k w' = [])"
  using assms
proof (induction cs arbitrary: w)
  case Nil
  then show ?case by (simp add: same_context_def)
next
  case (Cons c cs)
  obtain r w1 where run: "close_compute_session now (cs_sandbox_id c) w = (Inr r, w1)" and ctx1: "same_context w w1"
    and gone: "open_sessions_of (cs_sandbox_id c) w1 = []"
    and other: "\<forall>k. k \<noteq> cs_sandbox_id c \<longrightarrow> open_sessions_of k w1 = open_sessions_of k w"
    and ids1: "distinct (map cs_id (compute_sessions w1))"
    using Cons.prems(1)
  proof (cases rule: one_open_cases [of w "cs_sandbox_id c"])
    case 1
    then show thesis
      using Cons.prems(2) by (intro that [of None w]) (simp_all add: close_none same_context_def)
  next
    case (2 s)
    obtain p where "plans_of (cs_user_id s) w = [p]" and "resolve_spec (template_specs_cache w) (cs_template s) \<noteq> None"
      using Cons.prems(3) [of c s] 2(1) by auto
    from close_effect [OF 2(1) this, of now] obtain r w1 f where
      eff: "close_compute_session now (cs_sandbox_id c) w = (Inr r, w1)" "same_context w w1"
        "compute_sessions w1 = update_where (\<lambda>c. cs_id c = cs_id s) f (compute_sessions w)"
        "\<And>c. cs_id (f c) = cs_id c \<and> cs_sandbox_id (f c) = cs_sandbox_id c"
      by blast
    have "open_sessions_of (cs_sandbox_id c) w1 = []" using close_succeeds [OF 2(1) refl eff(1)] by simp
    moreover have "distinct (map cs_id (compute_sessions w1))"
      using Cons.prems(2) eff(3,4) by (simp add: map_update_where)
    ultimately show thesis
      using eff(1,2) open_sessions_other [OF Cons.prems(2) 2(1) _ eff(3)] eff(4) by (intro that) auto
  qed
  have inv1: "one_open_session w1" using keepsD_run [OF keeps_close_compute_session Cons.prems(1) run] .
  have "(\<exists>p. plans_of (cs_user_id s) w1 = [p]) \<and> resolve_spec (template_specs_cache w1) (cs_template s) \<noteq> None"
    if "x \<in> set cs" "s \<in> set (open_sessions_of (cs_sandbox_id x) w1)" for x s
  proof -
    have "cs_sandbox_id x \<noteq> cs_sandbox_id c" using that gone by auto
    then show ?thesis
      using Cons.prems(3) [of x s] that other ctx1 unfolding has_plan_iff same_context_def by simp
  qed
  with Cons.IH [OF inv1 ids1] obtain w2 where
    rest: "for_each cs (close_stale now) w1 = (Inr (), w2)" "same_context w1 w2"
      "\<forall>c \<in> set cs. open_sessions_of (cs_sandbox_id c) w2 = []"
      "\<forall>k. k \<notin> cs_sandbox_id ` set cs \<longrightarrow> open_sessions_of k w2 = open_sessions_of k w1"
      "\<forall>k. open_sessions_of k w1 = [] \<longrightarrow> open_sessions_of k w2 = []"
    by blast
  have "\<forall>k. open_sessions_of k w = [] \<longrightarrow> open_sessions_of k w1 = []" using gone other by metis
  moreover have loop: "for_each (c # cs) (close_stale now) w = (Inr (), w2)"
    by (rule for_each_Cons_run [where f = "close_stale now", OF
        best_effort_ok [of "close_compute_session now (cs_sandbox_id c)", OF run] rest(1)])
  ultimately show ?case
    using rest(3-5) gone other same_context_trans [OF ctx1 rest(2)] by (intro exI [of _ w2] conjI loop) auto
qed

lemma stale_sandboxes:
  assumes "distinct (map sb_id (sandboxes w))"
  shows "k \<in> cs_sandbox_id ` set (stale_sessions w) \<longleftrightarrow>
    open_sessions_of k w \<noteq> [] \<and> (\<forall>s \<in> set (sandboxes w). sb_id s = k \<longrightarrow> sb_status s \<noteq> READY)"
proof -
  define ready where "ready = (\<lambda>k. \<exists>s \<in> set (sandboxes w). sb_id s = k \<and> sb_status s = READY)"
  have row: "(case filter (\<lambda>s. sb_id s = k) (sandboxes w) of [] \<Rightarrow> [c]
      | ss \<Rightarrow> map (\<lambda>_. c) (filter (\<lambda>s. sb_status s \<noteq> READY) ss)) = (if ready k then [] else [c])" for k c
  proof (cases "\<exists>s \<in> set (sandboxes w). sb_id s = k")
    case True
    then obtain s where s: "s \<in> set (sandboxes w)" "sb_id s = k" by auto
    from filter_distinct_key [OF assms s(1)] s(2) have "filter (\<lambda>s. sb_id s = k) (sandboxes w) = [s]" by simp
    moreover have "ready k \<longleftrightarrow> sb_status s = READY"
      using assms s by (auto simp: ready_def distinct_map dest: inj_onD)
    ultimately show ?thesis by simp
  next
    case False
    then have "filter (\<lambda>s. sb_id s = k) (sandboxes w) = []" by (simp add: filter_empty_conv)
    with False show ?thesis by (auto simp: ready_def)
  qed
  have "set (stale_sessions w) = {c \<in> set (compute_sessions w). cs_ended_at c = None \<and> \<not> ready (cs_sandbox_id c)}"
    by (auto simp: stale_sessions_def row)
  then show ?thesis
    by (auto simp: ready_def open_sessions_of_def filter_empty_conv image_iff)
qed

lemma open_sessions_of_store: "open_sessions_of k (store_rows w) = map store_session (open_sessions_of k w)"
proof -
  have "filter (\<lambda>s. cs_sandbox_id s = k \<and> cs_ended_at s = None) (map store_session rs)
      = map store_session (filter (\<lambda>s. cs_sandbox_id s = k \<and> cs_ended_at s = None) rs)" for rs
    by (induction rs) (auto simp: store_session_def)
  then show ?thesis by (simp add: open_sessions_of_def store_rows_def)
qed

lemma sandboxes_store [simp]: "sandboxes (store_rows w) = sandboxes w"
  by (simp add: store_rows_def)

lemma sessions_agreeI:
  assumes "\<And>k. open_sessions_of k w \<noteq> [] \<longleftrightarrow> (\<exists>s \<in> set (sandboxes w). sb_id s = k \<and> sb_status s = READY)"
    and "distinct (map sb_id (sandboxes w))"
  shows "sessions_agree w"
proof -
  have "sb_status s = READY \<longleftrightarrow> open_sessions_of (sb_id s) w \<noteq> []" if "s \<in> set (sandboxes w)" for s
    using assms that by (auto simp: distinct_map dest: inj_onD)
  moreover have "\<exists>s \<in> set (sandboxes w). sb_id s = cs_sandbox_id c \<and> sb_status s = READY"
    if "c \<in> set (compute_sessions w)" "cs_ended_at c = None" for c
    using assms(1) [of "cs_sandbox_id c"] that by (auto simp: open_sessions_of_def filter_empty_conv)
  ultimately show ?thesis by (auto simp: sessions_agree_def)
qed

subsection \<open>Properties\<close>

subsection \<open>Single rows\<close>

text \<open>The monthly rollover ends sessions that it read before and opens new ones. It may do so because each session of its work list
  is the only open one of its sandbox.\<close>

definition sole :: "world \<Rightarrow> compute_session list \<Rightarrow> bool" where
  "sole w ss \<longleftrightarrow> one_open_session w \<and> distinct (map cs_sandbox_id ss) \<and>
     (\<forall>c \<in> set ss. \<forall>r \<in> set (compute_sessions w). session_open r \<longrightarrow> cs_sandbox_id r = cs_sandbox_id c \<longrightarrow> cs_id r = cs_id c)"

lemma sole_perm: "mset xs = mset ys \<Longrightarrow> sole w xs = sole w ys"
  using mset_eq_imp_distinct_iff [of "map cs_sandbox_id xs" "map cs_sandbox_id ys"] mset_eq_setD [of xs ys]
  by (simp add: sole_def)

lemma sole_drop: "sole w (xs @ ys) \<Longrightarrow> sole w ys"
  by (simp add: sole_def)

lemma sole_same: "compute_sessions w' = compute_sessions w \<Longrightarrow> sole w' ss = sole w ss"
  by (simp add: sole_def one_open_session_def)

lemma advance_plan_sessions:
  "\<exists>plan' w'. advance_plan add_month now target plan w = (Inr plan', w') \<and> compute_sessions w' = compute_sessions w"
  by (auto simp: advance_plan_def Let_def record_audit_event_def set_plan_def)

lemma end_session_simps [simp]:
  "cs_sandbox_id (end_session_at now t c) = cs_sandbox_id c" "\<not> session_open (end_session_at now t c)"
  by (simp_all add: end_session_at_def Let_def session_open_def)

lemma handle_rollover_sole:
  assumes sole: "sole w (cs # ss)"
  shows "\<exists>new plan' w'. handle_period_rollover add_month now cs plan sb w = (Inr (new, plan'), w') \<and>
    sole w' ((case new of None \<Rightarrow> [] | Some c \<Rightarrow> [c]) @ ss)"
proof (cases "now \<le> up_period_end plan")
  case True
  then show ?thesis using sole sole_drop [of w "[cs]" ss] by (simp add: handle_period_rollover_def)
next
  case late: False
  define w0 where "w0 = w\<lparr>compute_sessions := update_where (\<lambda>s. cs_id s = cs_id cs)
    (end_session_at now (up_period_end plan)) (compute_sessions w)\<rparr>"
  obtain plan' w1 where adv: "advance_plan add_month now (cs_user_id cs) plan w0 = (Inr plan', w1)"
    and s1: "compute_sessions w1 = compute_sessions w0"
    using advance_plan_sessions by blast
  have "one_open_session w0"
    using sole sessions.change_rows [of w "end_session_at now (up_period_end plan)" "\<lambda>s. cs_id s = cs_id cs"]
    by (simp add: sole_def one_open_session_def w0_def)
  moreover have old: "r \<in> set (compute_sessions w) \<and> cs_id r \<noteq> cs_id cs" if "r \<in> set (compute_sessions w0)" "session_open r" for r
    using that by (auto simp: w0_def set_update_where split: if_splits)
  ultimately have w0: "sole w0 ss" using sole unfolding sole_def by (simp only: list.set list.map distinct.simps) blast
  show ?thesis
  proof (cases "case sb of None \<Rightarrow> True | Some s \<Rightarrow> sb_status s \<noteq> READY")
    case True
    with late adv w0 s1 show ?thesis
      by (simp add: handle_period_rollover_def Let_def w0_def [symmetric] ebind_run sole_same [OF s1])
  next
    case False
    define c where "c = \<lparr>cs_id = ''cs'' @ id_source w1 (ids_drawn w1), cs_sandbox_id = cs_sandbox_id cs, cs_user_id = cs_user_id cs,
                   cs_template = cs_template cs, cs_vcpu_request = cs_vcpu_request cs,
                   cs_memory_gib_request = cs_memory_gib_request cs, cs_started_at = up_period_end plan,
                   cs_ended_at = None, cs_last_metered_at = up_period_end plan, cs_vcpu_hours = 0,
                   cs_memory_gib_hours = 0, cs_gmt_updated = now\<rparr>"
    define w2 where "w2 = w1\<lparr>ids_drawn := Suc (ids_drawn w1)\<rparr>"
    define w3 where "w3 = w2\<lparr>compute_sessions := compute_sessions w2 @ [c]\<rparr>"
    have run: "handle_period_rollover add_month now cs plan sb w = (Inr (Some c, plan'), w3)"
      using late adv False
      by (simp add: handle_period_rollover_def Let_def w0_def [symmetric] ebind_run draw_id_run c_def w3_def w2_def)
    have rows: "compute_sessions w2 = compute_sessions w0" by (simp add: w2_def s1)
    have none: "\<not> session_open r" if "r \<in> set (compute_sessions w0)" "cs_sandbox_id r = cs_sandbox_id cs" for r
      using that old [of r] sole by (auto simp: sole_def)
    have "open_sessions_of (cs_sandbox_id c) w2 = []"
      using none by (auto simp: open_sessions_of_alt filter_empty_conv rows c_def)
    moreover have "one_open_session w2" using w0 by (simp add: sole_def one_open_session_def rows)
    ultimately have "one_open_session w3" unfolding w3_def by (intro new_open_session)
    moreover have "distinct (map cs_sandbox_id (c # ss))" using sole by (simp add: sole_def c_def)
    moreover have "cs_id r = cs_id x" if "x \<in> set (c # ss)" "r \<in> set (compute_sessions w3)" "session_open r" "cs_sandbox_id r = cs_sandbox_id x" for x r
      using that w0 none sole by (auto simp: w3_def rows sole_def c_def)
    ultimately have "sole w3 (c # ss)" unfolding sole_def by blast
    with run show ?thesis by simp
  qed
qed

lemma rollover_sessions_sole:
  "sole w (ss @ ms) \<Longrightarrow> \<exists>news plan' w'. rollover_sessions add_month now sbs ss plan w = (Inr (news, plan'), w') \<and> sole w' (news @ ms)"
proof (induction ss arbitrary: w plan ms)
  case Nil
  then show ?case by simp
next
  case (Cons cs ss)
  then obtain new p1 w1 where one: "handle_period_rollover add_month now cs plan (sbs (cs_sandbox_id cs)) w = (Inr (new, p1), w1)"
    and s1: "sole w1 ((case new of None \<Rightarrow> [] | Some c \<Rightarrow> [c]) @ ss @ ms)"
    using handle_rollover_sole [of w cs "ss @ ms"] by (metis append_Cons)
  let ?nl = "case new of None \<Rightarrow> [] | Some c \<Rightarrow> [c]"
  have "sole w1 (ss @ ms @ ?nl)" using s1 sole_perm [of "?nl @ ss @ ms" "ss @ ms @ ?nl"] by (simp add: ac_simps)
  from Cons.IH [OF this] obtain news p2 w2 where two: "rollover_sessions add_month now sbs ss p1 w1 = (Inr (news, p2), w2)"
    and s2: "sole w2 (news @ ms @ ?nl)" by blast
  have "sole w2 ((?nl @ news) @ ms)" using s2 sole_perm [of "news @ ms @ ?nl" "(?nl @ news) @ ms"] by (simp add: ac_simps)
  with one two show ?case by (cases new) (auto simp: ebind_run)
qed

lemma reset_plan_sole:
  "sole w (ss @ ms) \<Longrightarrow> \<exists>r w'. reset_plan add_month now sbs fuel ss plan w = (Inr r, w') \<and> sole w' ms"
proof (induction fuel arbitrary: w ss plan)
  case 0
  then show ?case by (auto intro: sole_drop)
next
  case (Suc fuel)
  show ?case
  proof (cases "up_period_end plan \<le> now")
    case False
    then show ?thesis using Suc.prems by (auto intro: sole_drop)
  next
    case True
    obtain news p1 w1 where one: "rollover_sessions add_month now sbs ss plan w = (Inr (news, p1), w1)" and s1: "sole w1 (news @ ms)"
      using rollover_sessions_sole [OF Suc.prems] by blast
    obtain p2 w2 where two: "(if up_period_end p1 \<le> now then advance_plan add_month now (up_user_id p1) p1 else ret p1) w1 = (Inr p2, w2)"
      and rows: "compute_sessions w2 = compute_sessions w1"
      using advance_plan_sessions [of add_month now "up_user_id p1" p1 w1] by (cases "up_period_end p1 \<le> now") auto
    have "sole w2 (news @ ms)" using s1 by (simp add: sole_same [OF rows])
    from Suc.IH [OF this] obtain r w3 where "reset_plan add_month now sbs fuel news p2 w2 = (Inr r, w3)" "sole w3 ms" by blast
    with one two True show ?thesis by (simp add: ebind_run)
  qed
qed

lemma reset_plans_sole:
  "sole w (concat (map (\<lambda>p. sess (up_user_id p)) plans)) \<Longrightarrow>
   \<exists>r w'. reset_plans add_month now fuel sbs sess plans w = (Inr r, w') \<and> one_open_session w'"
proof (induction plans arbitrary: w)
  case Nil
  then show ?case by (simp add: sole_def)
next
  case (Cons p plans)
  then obtain r w1 where one: "reset_plan add_month now sbs fuel (sess (up_user_id p)) p w = (Inr r, w1)"
    and s1: "sole w1 (concat (map (\<lambda>p. sess (up_user_id p)) plans))"
    using reset_plan_sole [of w "sess (up_user_id p)"] by (metis concat.simps(2) list.simps(9))
  from Cons.IH [OF s1] obtain n w2 where "reset_plans add_month now fuel sbs sess plans w1 = (Inr n, w2)" "one_open_session w2" by blast
  with one s1 show ?case by (cases r) (auto simp: ebind_run sole_def)
qed

lemma one_live_distinct: "one_live k live rs \<Longrightarrow> distinct (map k (filter live rs))"
proof (induction rs)
  case (Cons r rs)
  have short: "length (filter (\<lambda>x. k x = i \<and> live x) (r # rs)) \<le> 1" for i using Cons.prems by (simp add: one_live_def)
  have "length (filter (\<lambda>x. k x = i \<and> live x) rs) \<le> 1" for i using short [of i] by (simp split: if_splits)
  then have "distinct (map k (filter live rs))" using Cons.IH by (simp add: one_live_def)
  moreover have sep: "k x \<noteq> k r" if "x \<in> set rs" "live x" "live r" for x
  proof
    assume "k x = k r"
    then have "x \<in> set (filter (\<lambda>x. k x = k r \<and> live x) rs)" using that by simp
    then have "filter (\<lambda>x. k x = k r \<and> live x) rs \<noteq> []" by (metis empty_iff empty_set)
    then show False using short [of "k r"] that(3) by simp
  qed
  ultimately show ?case using sep by (cases "live r") (simp_all add: image_iff, metis)
qed simp

lemma distinct_by_user:
  assumes "distinct (map f xs)" "distinct us"
  shows "distinct (map f (concat (map (\<lambda>u. filter (\<lambda>x. k x = u) xs) us)))"
  using assms(2)
proof (induction us)
  case (Cons u us)
  have inj: "inj_on f (set xs)" using assms(1) by (simp add: distinct_map)
  have "distinct (map f (filter (\<lambda>x. k x = u) xs))" using assms(1) by (rule distinct_map_filter)
  moreover have "f x \<noteq> f y" if "x \<in> set xs" "k x = u" "y \<in> set xs" "k y \<in> set us" for x y
    using that Cons.prems inj_onD [OF inj, of x y] by auto
  ultimately show ?case using Cons by fastforce
qed simp

lemma one_open_store [simp]: "one_open_session (store_rows w) = one_open_session w"
proof -
  have "length (filter (\<lambda>s. cs_sandbox_id s = k \<and> session_open s) (map store_session rs))
      = length (filter (\<lambda>s. cs_sandbox_id s = k \<and> session_open s) rs)" for k rs
    by (induction rs) (auto simp: store_session_def session_open_def)
  then show ?thesis by (simp add: one_open_session_def one_live_def store_rows_def)
qed

lemma one_active_store [simp]: "one_active_ledger (store_rows w) = one_active_ledger w"
proof -
  have "length (filter (\<lambda>l. sl_sandbox_id l = k \<and> ledger_active l) (map store_ledger rs))
      = length (filter (\<lambda>l. sl_sandbox_id l = k \<and> ledger_active l) rs)" for k rs
    by (induction rs) (auto simp: store_ledger_def ledger_active_def)
  then show ?thesis by (simp add: one_active_ledger_def one_live_def store_rows_def)
qed

lemma reset_monthly_one_open:
  assumes one: "one_open_session w" and users: "distinct (map up_user_id (user_plans w))"
  shows "one_open_session (snd (reset_monthly_credits add_month now fuel w))"
proof -
  let ?plans = "filter (\<lambda>p. up_period_end p \<le> now) (user_plans w)" and ?open = "filter session_open (compute_sessions w)"
  let ?ss = "concat (map (\<lambda>p. get_open_sessions_by_user (up_user_id p) w) ?plans)"
  have ss: "?ss = concat (map (\<lambda>u. filter (\<lambda>c. cs_user_id c = u) ?open) (map up_user_id ?plans))"
    by (simp add: get_open_sessions_by_user_def session_open_def comp_def conj_commute)
  have d: "distinct (map cs_sandbox_id ?open)" using one by (intro one_live_distinct) (simp add: one_open_session_def)
  have "distinct (map cs_sandbox_id ?ss)" unfolding ss by (rule distinct_by_user [OF d distinct_map_filter [OF users]])
  moreover have "r = c" if "c \<in> set ?ss" "r \<in> set (compute_sessions w)" "session_open r" "cs_sandbox_id r = cs_sandbox_id c" for c r
  proof -
    have "c \<in> set ?open" "r \<in> set ?open" using that unfolding ss by auto
    then show ?thesis using d that(4) by (auto simp: distinct_map dest: inj_onD)
  qed
  ultimately have "sole w ?ss" using one by (auto simp: sole_def)
  from reset_plans_sole [OF this, of add_month now fuel "\<lambda>sid. get_sandbox_by_id sid w"] obtain n w1 where
    "reset_plans add_month now fuel (\<lambda>sid. get_sandbox_by_id sid w) (\<lambda>uid. get_open_sessions_by_user uid w) ?plans w = (Inr n, w1)"
    "one_open_session w1" by blast
  then show ?thesis by (cases n) (simp_all add: reset_monthly_credits_def one_open_store)
qed

lemma keeps_active_rollover:
  "keeps one_active_ledger (advance_plan add_month now target plan)"
  "keeps one_active_ledger (handle_period_rollover add_month now cs plan sb)"
  "keeps one_active_ledger (rollover_sessions add_month now sbs ss plan)"
proof -
  show *: "keeps one_active_ledger (advance_plan add_month now target plan)" for target plan
    by (auto simp: keeps_def advance_plan_def Let_def record_audit_event_def set_plan_def one_active_ledger_def)
  show **: "keeps one_active_ledger (handle_period_rollover add_month now cs plan sb)" for cs plan sb
    unfolding handle_period_rollover_def Let_def set_session_def by (intro keeps_intros *) simp_all
  show "keeps one_active_ledger (rollover_sessions add_month now sbs ss plan)"
    by (induction ss arbitrary: plan) (simp_all, (intro keeps_intros **; assumption)+)
qed

lemma keeps_active_reset:
  "keeps one_active_ledger (reset_plan add_month now sbs fuel ss plan)"
  "keeps one_active_ledger (reset_plans add_month now fuel sbs sess plans)"
  "keeps one_active_ledger (reset_monthly_credits add_month now fuel)"
proof -
  show *: "keeps one_active_ledger (reset_plan add_month now sbs fuel ss plan)" for sbs ss plan
    by (induction fuel arbitrary: ss plan) (auto intro!: keeps_intros keeps_active_rollover)
  show **: "keeps one_active_ledger (reset_plans add_month now fuel sbs sess plans)" for sbs sess plans
    by (induction plans) (auto intro!: keeps_intros * split: option.split)
  show "keeps one_active_ledger (reset_monthly_credits add_month now fuel)"
    unfolding reset_monthly_credits_def commit_def by (intro keeps_intros **) simp
qed

lemma keeps_tick_sessions: "keeps one_open_session (tick_sessions rivals now ss deltas m)"
proof (induction ss arbitrary: deltas m)
  case (Cons cs ss)
  have "keeps one_open_session (concurrent_touch rivals i)" for i
    unfolding concurrent_touch_def by (cases "rivals i") (auto intro!: keeps_set_session simp: session_open_def)
  moreover have "one_open_session (w\<lparr>compute_sessions := update_where p (meter_row now a b) (compute_sessions w)\<rparr>)"
    if "one_open_session w" for w p a b
    using that sessions.change_rows [of w "meter_row now a b" p] by (simp add: one_open_session_def meter_row_def session_open_def)
  ultimately show ?case
    unfolding tick_sessions.simps(2) Let_def by (intro keeps_intros keeps_specs Cons.IH)
qed (simp add: keeps_ret)

lemma keeps_active_tick_sessions: "keeps one_active_ledger (tick_sessions rivals now ss deltas m)"
proof (induction ss arbitrary: deltas m)
  case (Cons cs ss)
  have "keeps one_active_ledger (concurrent_touch rivals i)" for i
    unfolding concurrent_touch_def by (cases "rivals i") (auto simp: keeps_def)
  then show ?case
    unfolding tick_sessions.simps(2) Let_def by (intro keeps_intros keeps_specs Cons.IH) simp_all
qed (simp add: keeps_ret)

lemma keeps_ticks: "keeps metering_inv (tick_metering rivals now)" "keeps metering_inv (tick_storage_metering t)"
proof -
  show "keeps metering_inv (tick_metering rivals now)"
    unfolding tick_metering_def commit_def
    by (intro metering_inv_conj keeps_intros keeps_tick_sessions keeps_active_tick_sessions) simp_all
  have "one_active_ledger (w\<lparr>storage_ledgers := update_where (storage_due t) (meter_ledger t) (storage_ledgers w)\<rparr>)"
    if "one_active_ledger w" for w
    using that ledger.change_rows [of w "meter_ledger t" "storage_due t"]
    by (simp add: one_active_ledger_def meter_ledger_def ledger_active_def)
  then show "keeps metering_inv (tick_storage_metering t)"
    unfolding tick_storage_metering_def commit_def by (intro metering_inv_conj keeps_intros) simp_all
qed

lemma keeps_reconcile: "keeps metering_inv (reconcile_metering now)" "keeps metering_inv (reconcile_storage_metering t)"
proof -
  have store: "metering_inv w \<Longrightarrow> metering_inv (store_rows w)" for w by (simp add: metering_inv_def)
  show "keeps metering_inv (reconcile_metering now)"
    unfolding reconcile_metering_def commit_def by (intro keeps_intros store)
  show "keeps metering_inv (reconcile_storage_metering t)"
    unfolding reconcile_storage_metering_def create_missing_ledger_def commit_def by (intro keeps_intros store)
qed

text \<open>C28: a sandbox has at most one open compute session and at most one active ledger entry, and everything that opens, meters,
  ends or splits these rows keeps it so, on every outcome, errors included: the operations of the metering service, the two ticks (with
  concurrent transactions on the sessions), the two reconciliation passes, and the monthly reset, which ends the sessions of the old
  period and opens new ones (users have one plan). The idempotence of the code rests on it: a second row would make every later lookup
  raise \<^verbatim>\<open>MultipleResultsFound\<close>.\<close>

theorem metering_operations_keep_single_rows:
  assumes "metering_inv w" "distinct (map up_user_id (user_plans w))"
  shows "metering_inv (snd (open_compute_session t sid uid template w)) \<and>
    metering_inv (snd (close_compute_session now sid w)) \<and>
    metering_inv (snd (record_storage_allocation t uid sid gib mode w)) \<and>
    metering_inv (snd (update_storage_backend_mode t sid mode w)) \<and>
    metering_inv (snd (record_storage_release t sid w)) \<and>
    metering_inv (snd (tick_metering rivals now w)) \<and>
    metering_inv (snd (tick_storage_metering t w)) \<and>
    metering_inv (snd (reconcile_metering now w)) \<and>
    metering_inv (snd (reconcile_storage_metering t w)) \<and>
    metering_inv (snd (reset_monthly_credits add_month t fuel w))"
proof -
  have "metering_inv (snd (reset_monthly_credits add_month t fuel w))"
    using assms keepsD [OF keeps_active_reset(3)] reset_monthly_one_open by (simp add: metering_inv_def)
  then show ?thesis
    using keepsD [OF keeps_metering_inv(1) assms(1)] keepsD [OF keeps_metering_inv(2) assms(1)] keepsD [OF keeps_metering_inv(3) assms(1)]
      keepsD [OF keeps_metering_inv(4) assms(1)] keepsD [OF keeps_metering_inv(5) assms(1)] keepsD [OF keeps_ticks(1) assms(1)]
      keepsD [OF keeps_ticks(2) assms(1)] keepsD [OF keeps_reconcile(1) assms(1)] keepsD [OF keeps_reconcile(2) assms(1)]
    by (intro conjI)
qed

theorem metering_operations_keep_single_rows_witness:
  "metering_inv (snd (reset_monthly_credits (\<lambda>t. t + 28 * day_us) (90 * day_us) 100 session_world)) \<and>
   metering_inv (snd (close_compute_session demo_now ''sb1'' session_world))"
proof -
  have "metering_inv session_world"
    by (simp add: metering_inv_def one_open_session_def one_active_ledger_def one_live_def session_world_def demo_world_def empty_world_def)
  moreover have "distinct (map up_user_id (user_plans session_world))" by (simp add: session_world_def demo_world_def)
  ultimately show ?thesis using metering_operations_keep_single_rows by blast
qed

text \<open>C11: reconciliation makes the sessions agree with the sandboxes, whatever drift there was. When
  all templates involved are known, the owners of open sessions have a plan and ids are fresh, one
  pass ends with an open session for every ready sandbox, none for any other sandbox, and none
  without a sandbox.\<close>

theorem reconcile_metering_converges:
  assumes inv: "one_open_session w" and fresh: "session_ids_fresh w"
    and sbs: "distinct (map sb_id (sandboxes w))"
    and known: "\<forall>s \<in> set (sandboxes w). sb_status s = READY \<longrightarrow> resolve_spec (template_specs_cache w) (sb_template s) \<noteq> None"
    and closable: "\<forall>c \<in> set (compute_sessions w). cs_ended_at c = None \<longrightarrow>
      (\<exists>p. plans_of (cs_user_id c) w = [p]) \<and> resolve_spec (template_specs_cache w) (cs_template c) \<noteq> None"
  shows "\<exists>w'. reconcile_metering now w = (Inr (), w') \<and> sessions_agree w' \<and> sandboxes w' = sandboxes w"
proof -
  let ?ready = "\<lambda>k. \<exists>s \<in> set (sandboxes w). sb_id s = k \<and> sb_status s = READY"
  have dist: "distinct (map sb_id (missing_sessions w))"
    unfolding missing_sessions_def using sbs by (rule distinct_map_filter)
  have need: "open_sessions_of (sb_id s) w = [] \<and> resolve_spec (template_specs_cache w) (sb_template s) \<noteq> None"
    if "s \<in> set (missing_sessions w)" for s
    using that known by (simp add: missing_sessions_def)
  from open_pass [OF inv fresh dist need, of "utc_ts now"] obtain w1 where
    p1: "for_each (missing_sessions w) (open_missing (utc_ts now)) w = (Inr (), w1)" "one_open_session w1"
      "session_ids_fresh w1" "same_context w w1" "\<forall>s \<in> set (missing_sessions w). open_sessions_of (sb_id s) w1 \<noteq> []"
      "\<forall>k. k \<notin> sb_id ` set (missing_sessions w) \<longrightarrow> open_sessions_of k w1 = open_sessions_of k w"
    by blast
  have missing: "k \<in> sb_id ` set (missing_sessions w) \<longleftrightarrow> ?ready k \<and> open_sessions_of k w = []" for k
    by (auto simp: missing_sessions_def)
  have sb1: "sandboxes w1 = sandboxes w" using p1(4) by (simp add: same_context_def)
  note stale = stale_sandboxes [of w1, unfolded sb1, OF sbs]
  have ids1: "distinct (map cs_id (compute_sessions w1))" using p1(3) by (simp add: session_ids_fresh_def)
  have closable1: "(\<exists>p. plans_of (cs_user_id s) w1 = [p]) \<and> resolve_spec (template_specs_cache w1) (cs_template s) \<noteq> None"
    if "c \<in> set (stale_sessions w1)" "s \<in> set (open_sessions_of (cs_sandbox_id c) w1)" for c s
  proof -
    have "cs_sandbox_id c \<notin> sb_id ` set (missing_sessions w)" using stale that(1) missing by blast
    then have "s \<in> set (open_sessions_of (cs_sandbox_id c) w)" using p1(6) that(2) by simp
    then show ?thesis
      using closable p1(4) unfolding has_plan_iff by (simp add: open_sessions_of_def same_context_def)
  qed
  obtain w2 where
    p2: "for_each (stale_sessions w1) (close_stale now) w1 = (Inr (), w2)" "same_context w1 w2"
      "\<forall>c \<in> set (stale_sessions w1). open_sessions_of (cs_sandbox_id c) w2 = []"
      "\<forall>k. k \<notin> cs_sandbox_id ` set (stale_sessions w1) \<longrightarrow> open_sessions_of k w2 = open_sessions_of k w1"
      "\<forall>k. open_sessions_of k w1 = [] \<longrightarrow> open_sessions_of k w2 = []"
    using close_pass [where cs = "stale_sessions w1" and now = now, OF p1(2) ids1] closable1 by blast
  have sb2: "sandboxes w2 = sandboxes w" using p2(2) sb1 by (simp add: same_context_def)
  have "open_sessions_of k w2 \<noteq> [] \<longleftrightarrow> ?ready k" for k
  proof (cases "?ready k")
    case True
    then have "open_sessions_of k w1 \<noteq> []" using p1(5,6) missing by (metis imageE)
    then show ?thesis using True stale [of k] p2(4) by auto
  next
    case False
    then show ?thesis using stale [of k] p2(3,5) by (metis imageE)
  qed
  then have "sessions_agree (store_rows w2)"
    using sbs sb2 by (intro sessions_agreeI) (simp_all add: open_sessions_of_store)
  moreover have "reconcile_metering now w = (Inr (), store_rows w2)"
    unfolding reconcile_metering_def using p1(1) p2(1) by (simp add: ebind_run)
  ultimately show ?thesis using sb2 by auto
qed

theorem reconcile_metering_converges_witness:
  "let w = session_world\<lparr>compute_sessions := [demo_session\<lparr>cs_sandbox_id := ''gone''\<rparr>], sandboxes := [demo_sandbox]\<rparr>
   in \<not> sessions_agree w \<and> (\<exists>w'. reconcile_metering demo_now w = (Inr (), w') \<and> sessions_agree w')"
proof -
  define w where "w = session_world\<lparr>compute_sessions := [demo_session\<lparr>cs_sandbox_id := ''gone''\<rparr>], sandboxes := [demo_sandbox]\<rparr>"
  have 1: "one_open_session w" by (simp add: one_open_session_def one_live_def w_def)
  have inj: "inj (\<lambda>n. replicate (Suc n) (CHR ''a''))"
    by (rule injI) (metis length_replicate nat.inject)
  have 2: "session_ids_fresh w"
    using inj by (simp add: session_ids_fresh_def w_def session_world_def demo_world_def empty_world_def demo_session_def)
  have 3: "distinct (map sb_id (sandboxes w))" by (simp add: w_def)
  have 4: "\<forall>s \<in> set (sandboxes w). sb_status s = READY \<longrightarrow> resolve_spec (template_specs_cache w) (sb_template s) \<noteq> None"
    by (simp add: w_def session_world_def demo_world_def empty_world_def demo_sandbox_def resolve_spec_def TEMPLATE_SPECS_def)
  have 5: "\<forall>c \<in> set (compute_sessions w). cs_ended_at c = None \<longrightarrow>
      (\<exists>p. plans_of (cs_user_id c) w = [p]) \<and> resolve_spec (template_specs_cache w) (cs_template c) \<noteq> None"
    by (simp add: w_def session_world_def demo_world_def empty_world_def demo_session_def demo_plan_def plans_of_def
        resolve_spec_def TEMPLATE_SPECS_def)
  have "\<not> sessions_agree w"
    by (simp add: sessions_agree_def w_def demo_sandbox_def demo_session_def open_sessions_of_def)
  with reconcile_metering_converges [OF 1 2 3 4 5, of demo_now] show ?thesis by (auto simp: Let_def simp flip: w_def)
qed

end
