(* ===== verification/K8s_Sync.thy ===== *)
theory K8s_Sync
  imports Metering_Reconcile
begin

text \<open>
  \<^verbatim>\<open>sandbox/models/sandbox.py\<close> (the state machine of a sandbox), \<^verbatim>\<open>infra/services/k8s_sync.py\<close> (watch
  events and reconciliation) and \<^verbatim>\<open>sandbox_state_observer.py\<close> (the observers that the sync loop
  notifies).

  A handler runs in one database session. Where the code returns without a commit, the rows go back
  to those at the start of the session (\<open>rollback_to\<close>). The reconciler commits several times: it
  carries the world at the last commit, to which the end of the session goes back. Another
  transaction that changes the version of a row between its read and the update is the parameter
  \<open>rival\<close>. Observers are a list of \<open>observer\<close>s; what the sync loop relies on is the locale
  \<open>sandbox_observer\<close>, interpreted on the metering observer.
\<close>

subsection \<open>The state machine\<close>

fun VALID_TRANSITIONS :: "sandbox_status \<Rightarrow> sandbox_status list" where
  "VALID_TRANSITIONS CREATING = [READY, ERROR, STOPPED, DELETING]"
| "VALID_TRANSITIONS READY = [STOPPED, ERROR, DELETING]"
| "VALID_TRANSITIONS STOPPED = [CREATING, READY, COLD, ERROR, DELETING]"
| "VALID_TRANSITIONS COLD = [STOPPED, READY, ERROR, DELETING]"
| "VALID_TRANSITIONS ERROR = [READY, CREATING, STOPPED, COLD, DELETING]"
| "VALID_TRANSITIONS DELETING = [DELETED]"
| "VALID_TRANSITIONS DELETED = []"

definition is_valid_transition :: "sandbox_status \<Rightarrow> sandbox_status \<Rightarrow> bool" where
  "is_valid_transition from_status to_status \<longleftrightarrow> to_status \<in> set (VALID_TRANSITIONS from_status)"

fun status_str :: "sandbox_status \<Rightarrow> string" where
  "status_str CREATING = ''creating''"
| "status_str READY = ''ready''"
| "status_str STOPPED = ''stopped''"
| "status_str COLD = ''cold''"
| "status_str ERROR = ''error''"
| "status_str DELETING = ''deleting''"
| "status_str DELETED = ''deleted''"

subsection \<open>Observers\<close>

record observer =
  on_sandbox_ready :: "string \<Rightarrow> string \<Rightarrow> string \<Rightarrow> unit op"
  on_sandbox_stopped :: "string \<Rightarrow> unit op"
  on_sandbox_deleted :: "string \<Rightarrow> bool \<Rightarrow> unit op"

definition metering_observer :: "datetime \<Rightarrow> observer" where
  "metering_observer now = \<lparr>on_sandbox_ready = metering_on_ready (utc_ts now),
     on_sandbox_stopped = metering_on_stopped now, on_sandbox_deleted = metering_on_deleted now\<rparr>"

definition notify_observers_on_transition ::
    "observer list \<Rightarrow> sandbox \<Rightarrow> sandbox_status \<Rightarrow> sandbox_status \<Rightarrow> unit op" where
  "notify_observers_on_transition obs sandbox old_status new_status =
     (if old_status \<noteq> READY \<and> new_status = READY then
        for_each obs (\<lambda>o'. best_effort
          (on_sandbox_ready o' (sb_id sandbox) (sb_owner_id sandbox) (sb_template sandbox)))
      else if old_status = READY \<and> new_status \<in> {STOPPED, COLD, ERROR, DELETING} then
        for_each obs (\<lambda>o'. best_effort (on_sandbox_stopped o' (sb_id sandbox)))
      else ret ())"

definition try_notify_sandbox_deleted :: "observer list \<Rightarrow> string \<Rightarrow> bool \<Rightarrow> unit op" where
  "try_notify_sandbox_deleted obs sid persist =
     for_each obs (\<lambda>o'. best_effort (on_sandbox_deleted o' sid persist))"

definition try_close_compute_session :: "observer list \<Rightarrow> string \<Rightarrow> unit op" where
  "try_close_compute_session obs sid = for_each obs (\<lambda>o'. best_effort (on_sandbox_stopped o' sid))"

subsection \<open>Deriving a status\<close>

definition get_condition :: "string \<Rightarrow> condition list \<Rightarrow> condition option" where
  "get_condition ty cs = find (\<lambda>c. cond_type c = Some ty) (rev cs)"

definition derive_status_from_sandbox_cr :: "cr \<Rightarrow> sandbox_status \<times> string" where
  "derive_status_from_sandbox_cr c =
     (let operating_mode = or_else (cr_operating_mode c) ''Running'';
          ready_cond = get_condition ''Ready'' (cr_conditions c);
          suspended_cond = get_condition ''Suspended'' (cr_conditions c);
          finished_cond = get_condition ''Finished'' (cr_conditions c);
          has = (\<lambda>field cond v. case cond of None \<Rightarrow> False | Some x \<Rightarrow> field x = Some v);
          msg = (\<lambda>cond d. case cond of None \<Rightarrow> d | Some x \<Rightarrow> or_else (cond_message x) d)
      in if operating_mode = ''Suspended'' \<and> (suspended_cond = None \<or> has cond_status suspended_cond ''True'')
         then (STOPPED, ''Sandbox is suspended'')
         else if operating_mode = ''Suspended'' \<and> has cond_reason ready_cond ''SandboxSuspended''
         then (STOPPED, msg ready_cond ''Sandbox is suspending'')
         else if has cond_status finished_cond ''True''
         then (STOPPED, msg finished_cond ''Sandbox finished'')
         else case ready_cond of
           None \<Rightarrow> (CREATING, ''No Ready condition yet'')
         | Some r \<Rightarrow>
             let cstatus = or_else (cond_status r) ''Unknown'';
                 reason = or_else (cond_reason r) '''';
                 message = or_else (cond_message r) ''''
             in if reason = ''SandboxExpired'' then (STOPPED, ''Sandbox expired'')
                else if reason = ''SandboxSuspended''
                then (STOPPED, if message = '''' then ''Sandbox is suspended'' else message)
                else if reason = ''ReconcilerError'' then (ERROR, message)
                else if cstatus = ''True'' then (READY, message)
                else (CREATING, message))"

definition sandbox_claim_owner_name :: "cr \<Rightarrow> string option" where
  "sandbox_claim_owner_name c =
     (case find (\<lambda>r. or_kind r = Some ''SandboxClaim'' \<and> truthy (or_name r) \<and> or_else (or_controller r) True)
              (cr_owner_references c) of
        None \<Rightarrow> None | Some r \<Rightarrow> or_name r)"

definition reconcile_cr_is_stale_list_snapshot :: "string option \<Rightarrow> string option \<Rightarrow> bool" where
  "reconcile_cr_is_stale_list_snapshot cr_rv db_rv =
     (case (cr_rv, db_rv) of
        (Some a, Some b) \<Rightarrow> isdigit a \<and> isdigit b \<and> digits_val a < digits_val b
      | _ \<Rightarrow> False)"

definition sync_visible :: "sandbox \<Rightarrow> bool" where
  "sync_visible s \<longleftrightarrow> sb_gmt_deleted s = None \<or> sb_status s = DELETING"

definition suppress_status_sync :: "sandbox \<Rightarrow> bool" where
  "suppress_status_sync s \<longleftrightarrow> sb_pending_operation s \<in> {Some SNAPSHOTTING, Some RESTORING}"

subsection \<open>Row updates\<close>

definition optimistic_values ::
    "time \<Rightarrow> int \<Rightarrow> sandbox_status \<Rightarrow> string option \<Rightarrow> string option \<Rightarrow> sandbox \<Rightarrow> sandbox" where
  "optimistic_values now expected_version new_status rv message s = s\<lparr>
     sb_status := new_status, sb_version := expected_version + 1, sb_last_synced_at := Some now,
     sb_k8s_resource_version := (if truthy rv then rv else sb_k8s_resource_version s),
     sb_status_message := (if message \<noteq> None then message else sb_status_message s),
     sb_gmt_started := (if new_status = READY then Some now else sb_gmt_started s),
     sb_gmt_stopped := (if new_status = STOPPED then Some now else sb_gmt_stopped s)\<rparr>"

definition optimistic_update ::
    "time \<Rightarrow> string \<Rightarrow> int \<Rightarrow> sandbox_status \<Rightarrow> string option \<Rightarrow> string option \<Rightarrow> nat op" where
  "optimistic_update now sid expected_version new_status rv message =
     ebind (gets (\<lambda>w. length (filter (\<lambda>s. sb_id s = sid \<and> sb_version s = expected_version) (sandboxes w)))) (\<lambda>rowcount.
     ebind (modify (\<lambda>w. w\<lparr>sandboxes := update_where (\<lambda>s. sb_id s = sid \<and> sb_version s = expected_version)
       (optimistic_values now expected_version new_status rv message) (sandboxes w)\<rparr>)) (\<lambda>_.
     ret rowcount))"

definition update_sync_metadata :: "time \<Rightarrow> string \<Rightarrow> string option \<Rightarrow> unit op" where
  "update_sync_metadata now sid rv =
     set_sandbox sid (\<lambda>s. s\<lparr>sb_k8s_resource_version := rv, sb_last_synced_at := Some now\<rparr>)"

definition record_status_change ::
    "string \<Rightarrow> sandbox_status \<Rightarrow> sandbox_status \<Rightarrow> string \<Rightarrow> string option \<Rightarrow> unit op" where
  "record_status_change sid from_status to_status source message =
     record_audit_event ''sandbox.status.change'' ''sandbox'' sid
       [(''from_status'', MStr (status_str from_status)), (''to_status'', MStr (status_str to_status)),
        (''source'', MStr source), (''message'', case message of None \<Rightarrow> MNone | Some m \<Rightarrow> MStr m)]"

definition delete_sandbox_row :: "time \<Rightarrow> string \<Rightarrow> unit op" where
  "delete_sandbox_row now sid =
     ebind (set_sandbox sid (\<lambda>s. s\<lparr>sb_status := DELETED, sb_gmt_deleted := Some now\<rparr>)) (\<lambda>_. commit)"

definition rollback_to :: "world \<Rightarrow> unit op" where
  "rollback_to w0 = modify (\<lambda>w. rollback_rows w0 w)"

text \<open>The name of the \<^verbatim>\<open>Sandbox\<close> CR and its service address, written to the row when they differ from
  what was read (\<^verbatim>\<open>dirty\<close>).\<close>

definition fresh_endpoints :: "cr \<Rightarrow> sandbox \<Rightarrow> (string \<times> string) list" where
  "fresh_endpoints c s =
     (if truthy (cr_service_fqdn c) then dict_set ''service_fqdn'' (the (cr_service_fqdn c)) (sb_endpoints s)
      else sb_endpoints s)"

definition binding_dirty :: "cr \<Rightarrow> sandbox \<Rightarrow> bool" where
  "binding_dirty c s \<longleftrightarrow>
     truthy (cr_name c) \<and> sb_k8s_sandbox_name s \<noteq> cr_name c \<or>
     truthy (cr_service_fqdn c) \<and> map_of (sb_endpoints s) ''service_fqdn'' \<noteq> cr_service_fqdn c"

definition refresh_binding :: "cr \<Rightarrow> sandbox \<Rightarrow> unit op" where
  "refresh_binding c s = set_sandbox (sb_id s) (\<lambda>r. r\<lparr>
     sb_k8s_sandbox_name :=
       (if truthy (cr_name c) \<and> sb_k8s_sandbox_name s \<noteq> cr_name c then cr_name c else sb_k8s_sandbox_name r),
     sb_endpoints :=
       (if truthy (cr_service_fqdn c) \<and> map_of (sb_endpoints s) ''service_fqdn'' \<noteq> cr_service_fqdn c
        then fresh_endpoints c s else sb_endpoints r)\<rparr>)"

subsection \<open>Watch events\<close>

definition watch_matches :: "string \<Rightarrow> cr \<Rightarrow> sandbox \<Rightarrow> bool" where
  "watch_matches sandbox_namespace c s \<longleftrightarrow>
     (sb_k8s_sandbox_name s = cr_name c \<or> sb_k8s_sandbox_claim_name s = cr_name c \<or>
      truthy (sandbox_claim_owner_name c) \<and> sandbox_claim_owner_name c \<noteq> cr_name c \<and>
      sb_k8s_sandbox_claim_name s = sandbox_claim_owner_name c) \<and>
     sb_k8s_namespace s = or_else (cr_namespace c) sandbox_namespace \<and> sync_visible s"

text \<open>The two branches of the handler, which return whether they committed. After a row was updated
  by \<^verbatim>\<open>_optimistic_update\<close> the loaded object has the new status too, so that the audit event of an
  unexpected deletion reads \<open>ERROR\<close> as the status it comes from.\<close>

definition handle_deleted :: "observer list \<Rightarrow> time \<Rightarrow> cr \<Rightarrow> sandbox \<Rightarrow> bool op" where
  "handle_deleted obs now c s =
     (if sb_pending_operation s = Some SNAPSHOTTING \<or> sb_status s = COLD then ret False
      else ebind (try_notify_sandbox_deleted obs (sb_id s) (sb_persist s)) (\<lambda>_.
        if sb_status s = DELETING then
          ebind (record_status_change (sb_id s) (sb_status s) DELETED ''k8s_watch'' None) (\<lambda>_.
          ebind (delete_sandbox_row now (sb_id s)) (\<lambda>_. ret True))
        else
          ebind (optimistic_update now (sb_id s) (sb_version s) ERROR (cr_resource_version c) None) (\<lambda>rows.
          if rows = 0 then ret False
          else ebind (record_status_change (sb_id s) ERROR ERROR ''k8s_watch'' None) (\<lambda>_.
               ebind commit (\<lambda>_. ret True)))))"

definition apply_transition ::
    "observer list \<Rightarrow> time \<Rightarrow> string \<Rightarrow> sandbox \<Rightarrow> sandbox_status \<Rightarrow> string option \<Rightarrow> string option \<Rightarrow> bool op" where
  "apply_transition obs now source s new_status rv message =
     ebind (optimistic_update now (sb_id s) (sb_version s) new_status rv message) (\<lambda>rows.
     if rows = 0 then ret False
     else ebind (record_status_change (sb_id s) (sb_status s) new_status source message) (\<lambda>_.
          ebind (notify_observers_on_transition obs s (sb_status s) new_status) (\<lambda>_.
          ebind commit (\<lambda>_. ret True))))"

definition commit_if :: "bool \<Rightarrow> bool op" where
  "commit_if b = (if b then ebind commit (\<lambda>_. ret True) else ret False)"

definition handle_added_or_modified :: "observer list \<Rightarrow> time \<Rightarrow> cr \<Rightarrow> sandbox \<Rightarrow> bool op" where
  "handle_added_or_modified obs now c s =
     (let new_status = fst (derive_status_from_sandbox_cr c);
          message = snd (derive_status_from_sandbox_cr c);
          dirty = binding_dirty c s;
          rv = cr_resource_version c
      in ebind (refresh_binding c s) (\<lambda>_.
         if suppress_status_sync s then
           (if truthy rv \<and> sb_k8s_resource_version s \<noteq> rv
            then ebind (update_sync_metadata now (sb_id s) rv) (\<lambda>_. commit_if True)
            else commit_if dirty)
         else if sb_status s = new_status then
           (if sb_k8s_resource_version s \<noteq> rv
            then ebind (update_sync_metadata now (sb_id s) rv) (\<lambda>_. commit_if True)
            else commit_if dirty)
         else if \<not> is_valid_transition (sb_status s) new_status then ret False
         else apply_transition obs now ''k8s_watch'' s new_status rv (Some message)))"

text \<open>\<open>rival\<close> is what other transactions commit between the read and the writes of the handler.\<close>

definition handle_watch_event ::
    "string \<Rightarrow> observer list \<Rightarrow> (world \<Rightarrow> world) \<Rightarrow> time \<Rightarrow> string \<Rightarrow> cr \<Rightarrow> unit op" where
  "handle_watch_event sandbox_namespace obs rival now event_type c =
     (if \<not> truthy (cr_name c) then ret ()
      else ebind (select_one_or_none (\<lambda>w. filter (watch_matches sandbox_namespace c) (sandboxes w))) (\<lambda>r.
        case r of None \<Rightarrow> ret () | Some s \<Rightarrow>
          ebind (modify rival) (\<lambda>_.
          ebind (gets id) (\<lambda>base.
          ebind (if event_type = ''DELETED'' then handle_deleted obs now c s
                 else if event_type \<in> {''ADDED'', ''MODIFIED''} then handle_added_or_modified obs now c s
                 else ret False) (\<lambda>committed.
          if committed then ret () else rollback_to base)))))"

definition watch_loop ::
    "string \<Rightarrow> observer list \<Rightarrow> (world \<Rightarrow> world) \<Rightarrow> time \<Rightarrow> (string \<times> cr) list \<Rightarrow> string \<Rightarrow> string op" where
  "watch_loop sandbox_namespace obs rival now events resource_version =
     ebind (for_each events (\<lambda>(event_type, c).
       best_effort (handle_watch_event sandbox_namespace obs rival now event_type c))) (\<lambda>_.
     ret (foldl (\<lambda>rv (_, c). if truthy (cr_resource_version c) then the (cr_resource_version c) else rv)
            resource_version events))"

subsection \<open>Reconciliation\<close>

datatype missing_policy = Delete_row | Skip | Warn_only | Mark_error

fun CR_MISSING_POLICY :: "sandbox_status \<Rightarrow> missing_policy" where
  "CR_MISSING_POLICY DELETING = Delete_row"
| "CR_MISSING_POLICY CREATING = Skip"
| "CR_MISSING_POLICY STOPPED = Warn_only"
| "CR_MISSING_POLICY COLD = Warn_only"
| "CR_MISSING_POLICY READY = Warn_only"
| "CR_MISSING_POLICY ERROR = Warn_only"
| "CR_MISSING_POLICY DELETED = Mark_error"

type_synonym cr_maps = "(string \<times> cr) list \<times> (string \<times> string) list"

definition dict_pop :: "string \<Rightarrow> (string \<times> 'v) list \<Rightarrow> (string \<times> 'v) list" where
  "dict_pop k d = filter (\<lambda>e. fst e \<noteq> k) d"

definition build_cr_maps :: "cr list \<Rightarrow> cr_maps" where
  "build_cr_maps crs = foldl (\<lambda>(cm, om) c.
     if truthy (cr_name c) then
       (dict_set (the (cr_name c)) c cm,
        if truthy (sandbox_claim_owner_name c) then dict_set (the (sandbox_claim_owner_name c)) (the (cr_name c)) om else om)
     else (cm, om)) ([], []) crs"

definition pop_sandbox_cr_for_reconcile :: "cr_maps \<Rightarrow> sandbox \<Rightarrow> cr option \<times> cr_maps" where
  "pop_sandbox_cr_for_reconcile maps s = (case maps of (cm, om) \<Rightarrow>
     case find (\<lambda>k. truthy k \<and> map_of cm (the k) \<noteq> None)
            [sb_k8s_sandbox_name s, sb_k8s_sandbox_claim_name s, Some (sb_id s)] of
       Some k \<Rightarrow>
         let c = the (map_of cm (the k)); owner = sandbox_claim_owner_name c
         in (Some c, dict_pop (the k) cm, if truthy owner then dict_pop (the owner) om else om)
     | None \<Rightarrow>
         let claim = sb_k8s_sandbox_claim_name s
         in if truthy claim \<and> map_of om (the claim) \<noteq> None
            then let n = the (map_of om (the claim))
                 in (map_of cm n, dict_pop n cm, dict_pop (the claim) om)
            else (None, cm, om))"

definition reconcile_missing :: "observer list \<Rightarrow> time \<Rightarrow> sandbox \<Rightarrow> bool op" where
  "reconcile_missing obs now s =
     (case CR_MISSING_POLICY (sb_status s) of
        Delete_row \<Rightarrow>
          ebind (try_notify_sandbox_deleted obs (sb_id s) (sb_persist s)) (\<lambda>_.
          ebind (record_status_change (sb_id s) (sb_status s) DELETED ''k8s_reconcile'' None) (\<lambda>_.
          ebind (delete_sandbox_row now (sb_id s)) (\<lambda>_. ret True)))
      | Skip \<Rightarrow> ret False
      | Warn_only \<Rightarrow> ret False
      | Mark_error \<Rightarrow> apply_transition obs now ''k8s_reconcile'' s ERROR None None)"

definition reconcile_present :: "observer list \<Rightarrow> time \<Rightarrow> cr \<Rightarrow> sandbox \<Rightarrow> bool op" where
  "reconcile_present obs now c s =
     (let new_status = fst (derive_status_from_sandbox_cr c);
          message = snd (derive_status_from_sandbox_cr c);
          dirty = binding_dirty c s;
          rv = cr_resource_version c
      in if reconcile_cr_is_stale_list_snapshot rv (sb_k8s_resource_version s) then ret False
         else ebind (refresh_binding c s) (\<lambda>_.
           if suppress_status_sync s then
             (if rv \<noteq> sb_k8s_resource_version s
              then ebind (update_sync_metadata now (sb_id s) rv) (\<lambda>_. commit_if True)
              else commit_if dirty)
           else if sb_k8s_resource_version s = rv \<and> new_status = sb_status s then commit_if dirty
           else if new_status \<noteq> sb_status s \<and> is_valid_transition (sb_status s) new_status
           then apply_transition obs now ''k8s_reconcile'' s new_status rv (Some message)
           else if rv \<noteq> sb_k8s_resource_version s
           then ebind (update_sync_metadata now (sb_id s) rv) (\<lambda>_. commit_if True)
           else ret False))"

definition reconcile_one :: "observer list \<Rightarrow> time \<Rightarrow> cr option \<Rightarrow> sandbox \<Rightarrow> bool op" where
  "reconcile_one obs now c s =
     (case c of None \<Rightarrow> reconcile_missing obs now s | Some c \<Rightarrow> reconcile_present obs now c s)"

text \<open>The loop over the rows read at the start. \<open>base\<close> is the world at the last commit, \<open>rivals\<close> what
  other transactions commit before a row is handled.\<close>

fun reconcile_rows ::
    "observer list \<Rightarrow> (sandbox \<Rightarrow> world \<Rightarrow> world) \<Rightarrow> time \<Rightarrow> cr_maps \<Rightarrow> world \<Rightarrow> sandbox list \<Rightarrow> unit op" where
  "reconcile_rows obs rivals now maps base [] = rollback_to base"
| "reconcile_rows obs rivals now maps base (s # ss) =
     ebind (modify (rivals s)) (\<lambda>_.
     ebind (reconcile_one obs now (fst (pop_sandbox_cr_for_reconcile maps s)) s) (\<lambda>committed.
     ebind (gets id) (\<lambda>w.
     reconcile_rows obs rivals now (snd (pop_sandbox_cr_for_reconcile maps s))
       (if committed then w else rivals s base) ss)))"

definition reconcile ::
    "observer list \<Rightarrow> unit op list \<Rightarrow> (sandbox \<Rightarrow> world \<Rightarrow> world) \<Rightarrow> time \<Rightarrow> string \<Rightarrow> string \<times> cr list \<Rightarrow> string op" where
  "reconcile obs hooks rivals now namespace list_response =
     ebind (gets id) (\<lambda>w.
     ebind (reconcile_rows obs rivals now (build_cr_maps (snd list_response)) w
       (filter (\<lambda>s. sb_k8s_namespace s = namespace \<and> sync_visible s) (sandboxes w))) (\<lambda>_.
     ebind (for_each hooks (\<lambda>hook. best_effort (transaction hook))) (\<lambda>_.
     ret (fst list_response))))"

end
