(* ===== verification/Call_Log.thy ===== *)
theory Call_Log
  imports K8s_Sync
begin

text \<open>
  Two ways to reason about a method without running it.

  \<open>calls Q m\<close>: the method only appends calls that satisfy \<open>Q\<close> to the log of calls made to Kubernetes,
  whatever the cluster answers. Its rules follow the structure of a method and are collected in
  \<open>calls_intros\<close>.

  \<open>valid P m Q X\<close>: a triple with two postconditions, from \<open>P\<close> the method either returns a value with which
  \<open>Q\<close> holds, or raises and leaves \<open>X\<close>.
\<close>

named_theorems calls_intros \<open>rules for the calls a method makes\<close>

text \<open>\<^verbatim>\<open>try: m\<close>, \<^verbatim>\<open>except Exception as exc: h; return\<close>, then the rest of the method.\<close>

definition try_else :: "'a op \<Rightarrow> (exn \<Rightarrow> 'b op) \<Rightarrow> ('a \<Rightarrow> 'b op) \<Rightarrow> 'b op" where
  "try_else m h k = (\<lambda>w. case m w of (Inl e, w') \<Rightarrow> h e w' | (Inr a, w') \<Rightarrow> k a w')"

subsection \<open>The calls a method makes\<close>

definition calls :: "(k8s_call \<Rightarrow> bool) \<Rightarrow> 'a op \<Rightarrow> bool" where
  "calls Q m \<longleftrightarrow> (\<forall>w. \<exists>L. k8s_log (snd (m w)) = k8s_log w @ L \<and> list_all Q L)"

lemma callsE:
  assumes "calls Q m" "m w = (r, w')"
  obtains L where "k8s_log w' = k8s_log w @ L" "list_all Q L"
  using assms unfolding calls_def by (metis snd_conv)

lemma calls_mono: "calls Q m \<Longrightarrow> (\<And>c. Q c \<Longrightarrow> Q' c) \<Longrightarrow> calls Q' m"
  unfolding calls_def by (metis list.pred_mono_strong)

lemma calls_silent: "(\<And>w. k8s_log (snd (m w)) = k8s_log w) \<Longrightarrow> calls Q m"
  by (simp add: calls_def)

lemma keeps_calls_none: "(\<And>l. keeps (\<lambda>w. k8s_log w = l) m) \<Longrightarrow> calls Q m"
  by (simp add: keeps_def calls_silent)

lemma calls_basic [calls_intros]:
  "calls Q (ret a)" "calls Q (raise e)" "calls Q (gets f)" "calls Q (of_sum r)" "calls Q (Pair r)" "calls Q commit"
  by (simp_all add: calls_silent store_rows_def)

lemma calls_modify [calls_intros]: "(\<And>w. k8s_log (f w) = k8s_log w) \<Longrightarrow> calls Q (modify f)"
  by (simp add: calls_silent)

lemma calls_set_sandbox [calls_intros]: "calls Q (set_sandbox i f)"
  by (simp add: calls_silent)

lemma calls_try_else [calls_intros]:
  assumes "calls Q m" "\<And>e. calls Q (h e)" "\<And>a. calls Q (k a)"
  shows "calls Q (try_else m h k)"
  unfolding calls_def
proof
  fix w
  obtain r v where run: "m w = (r, v)" by (cases "m w")
  with assms(1) obtain L where L: "k8s_log v = k8s_log w @ L" "list_all Q L" by (rule callsE)
  let ?next = "case r of Inl e \<Rightarrow> h e v | Inr a \<Rightarrow> k a v"
  have "try_else m h k w = ?next" by (simp add: try_else_def run split: sum.split)
  moreover have "\<exists>K. k8s_log (snd ?next) = k8s_log v @ K \<and> list_all Q K"
    using assms(2,3) unfolding calls_def by (cases r) simp_all
  then obtain K where "k8s_log (snd ?next) = k8s_log v @ K" "list_all Q K" by blast
  ultimately show "\<exists>L. k8s_log (snd (try_else m h k w)) = k8s_log w @ L \<and> list_all Q L" using L by simp
qed

lemma ebind_try_else: "ebind m f = try_else m raise f"
  by (simp add: ebind_def try_else_def fun_eq_iff split: prod.split sum.split)

lemma try_catch_try_else: "try_catch m h = try_else m h ret"
  by (simp add: try_catch_def try_else_def fun_eq_iff split: prod.split sum.split)

lemma calls_ebind [calls_intros]: "calls Q m \<Longrightarrow> (\<And>a. calls Q (f a)) \<Longrightarrow> calls Q (ebind m f)"
  unfolding ebind_try_else by (intro calls_intros)

lemma calls_try_catch [calls_intros]: "calls Q m \<Longrightarrow> (\<And>e. calls Q (h e)) \<Longrightarrow> calls Q (try_catch m h)"
  unfolding try_catch_try_else by (intro calls_intros)

lemma calls_best_effort [calls_intros]: "calls Q m \<Longrightarrow> calls Q (best_effort m)"
  unfolding best_effort_def by (intro calls_intros)

lemma calls_transaction [calls_intros]: "calls Q m \<Longrightarrow> calls Q (transaction m)"
  unfolding calls_def transaction_def rollback_rows_def
  by (auto split: prod.split sum.split) (metis snd_conv)+

lemma calls_for_each [calls_intros]: "(\<And>x. calls Q (f x)) \<Longrightarrow> calls Q (for_each xs f)"
  by (induction xs) (auto intro: calls_intros)

lemma calls_if [calls_intros]:
  "(c \<Longrightarrow> calls Q m) \<Longrightarrow> (\<not> c \<Longrightarrow> calls Q n) \<Longrightarrow> calls Q (if c then m else n)"
  by simp

lemma calls_case_option [calls_intros]:
  "calls Q m \<Longrightarrow> (\<And>a. calls Q (f a)) \<Longrightarrow> calls Q (case x of None \<Rightarrow> m | Some a \<Rightarrow> f a)"
  by (cases x) auto

lemma calls_case_prod [calls_intros]:
  "(\<And>a b. calls Q (f a b)) \<Longrightarrow> calls Q (case x of (a, b) \<Rightarrow> f a b)"
  by (cases x) auto

lemma calls_select [calls_intros]: "calls Q (select_one_or_none q)" "calls Q (select_one q)"
  by (rule keeps_calls_none, rule keeps_select)+

lemma calls_k8s_do: "Q c \<Longrightarrow> calls Q (k8s_do cl c)"
  by (simp add: calls_def k8s_do_def)

lemma calls_k8s [calls_intros]:
  "Q c \<Longrightarrow> calls Q (k8s_command cl c)"
  "Q (GetSandbox n s) \<Longrightarrow> calls Q (k8s_get_sandbox cl n s)"
  "Q (ListSandboxTemplates s) \<Longrightarrow> calls Q (k8s_list_sandbox_templates cl s)"
  "Q c \<Longrightarrow> calls Q (k8s_found cl c)"
  "Q (GetVolumeSnapshot n s) \<Longrightarrow> calls Q (k8s_get_volume_snapshot cl n s)"
  "Q (GetVolumeSnapshotContent n) \<Longrightarrow> calls Q (k8s_get_volume_snapshot_content cl n)"
  "Q (ListPVCs s ls) \<Longrightarrow> calls Q (k8s_list_pvcs cl s ls)"
  "Q (GetPVC n s) \<Longrightarrow> calls Q (k8s_get_pvc cl n s)"
  "Q (GetPV n) \<Longrightarrow> calls Q (k8s_get_pv cl n)"
  by (auto simp: k8s_call_defs intro!: calls_ebind calls_k8s_do calls_basic split: k8s_reply.split)

text \<open>The metering operations do not call Kubernetes.\<close>

lemma calls_metering [calls_intros]:
  "calls Q (open_compute_session t sid uid tpl)" "calls Q (close_compute_session now sid)"
  "calls Q (record_storage_release t sid)" "calls Q (record_storage_allocation t uid sid gib mode)"
  "calls Q (update_storage_backend_mode t sid mode)"
  unfolding open_compute_session_def close_compute_session_def record_storage_release_def
    record_storage_allocation_def update_storage_backend_mode_def set_session_def set_ledger_def Let_def
  by (rule keeps_calls_none; auto intro!: keeps_intros split: option.split)+

subsection \<open>Triples\<close>

definition valid :: "(world \<Rightarrow> bool) \<Rightarrow> 'a op \<Rightarrow> ('a \<Rightarrow> world \<Rightarrow> bool) \<Rightarrow> (world \<Rightarrow> bool) \<Rightarrow> bool" where
  "valid P m Q X \<longleftrightarrow> (\<forall>w. P w \<longrightarrow> (case m w of (Inl e, w') \<Rightarrow> X w' | (Inr a, w') \<Rightarrow> Q a w'))"

lemma validD_Inr: "valid P m Q X \<Longrightarrow> P w \<Longrightarrow> m w = (Inr a, w') \<Longrightarrow> Q a w'"
  by (fastforce simp: valid_def)

lemma validD_Inl: "valid P m Q X \<Longrightarrow> P w \<Longrightarrow> m w = (Inl e, w') \<Longrightarrow> X w'"
  by (fastforce simp: valid_def)

lemma valid_weaken:
  assumes "valid P m Q X" "\<And>w. P' w \<Longrightarrow> P w" "\<And>a w. Q a w \<Longrightarrow> Q' a w" "\<And>w. X w \<Longrightarrow> X' w"
  shows "valid P' m Q' X'"
  using assms unfolding valid_def by (fastforce split: prod.splits sum.splits)

lemma valid_keeps: "keeps P m \<Longrightarrow> valid P m (\<lambda>_. P) P"
  by (auto simp: valid_def keeps_def split: prod.splits sum.splits)

lemma valid_ebind:
  assumes "valid P m R X" "\<And>a. valid (R a) (f a) Q X"
  shows "valid P (ebind m f) Q X"
  using assms unfolding valid_def ebind_def by (fastforce split: prod.splits sum.splits)

lemma valid_try_else:
  assumes "valid P m R H" "\<And>e. valid H (h e) Q X" "\<And>a. valid (R a) (k a) Q X"
  shows "valid P (try_else m h k) Q X"
  using assms unfolding valid_def try_else_def by (fastforce split: prod.splits sum.splits)

lemma valid_ret: "(\<And>w. P w \<Longrightarrow> Q a w) \<Longrightarrow> valid P (ret a) Q X"
  by (simp add: valid_def)

lemma valid_raise: "(\<And>w. P w \<Longrightarrow> X w) \<Longrightarrow> valid P (raise e) Q X"
  by (simp add: valid_def)

lemma valid_if: "(c \<Longrightarrow> valid P m Q X) \<Longrightarrow> (\<not> c \<Longrightarrow> valid P n Q X) \<Longrightarrow> valid P (if c then m else n) Q X"
  by simp

lemma valid_case_option:
  "(x = None \<Longrightarrow> valid P m Q X) \<Longrightarrow> (\<And>a. x = Some a \<Longrightarrow> valid P (f a) Q X) \<Longrightarrow>
   valid P (case x of None \<Rightarrow> m | Some a \<Rightarrow> f a) Q X"
  by (cases x) auto

lemma valid_pre: "valid P m Q X \<Longrightarrow> (\<And>w. P' w \<Longrightarrow> P w) \<Longrightarrow> valid P' m Q X"
  by (rule valid_weaken)

lemma valid_assume: "(c \<Longrightarrow> valid P m Q X) \<Longrightarrow> valid (\<lambda>w. c \<and> P w) m Q X"
  by (cases c) (auto simp: valid_def)

lemma valid_frame: "valid P m Q X \<Longrightarrow> valid (\<lambda>w. c \<and> P w) m (\<lambda>a w. c \<and> Q a w) X"
  by (cases c) (simp_all add: valid_def)

text \<open>In a transaction an exception gives back the rows, so a property of the rows survives.\<close>

lemma valid_transaction:
  assumes "valid P m (\<lambda>_. P) (\<lambda>_. True)" "\<And>w w'. P w \<Longrightarrow> P (rollback_rows w w')"
  shows "keeps P (transaction m)"
  using assms unfolding keeps_def valid_def transaction_def by (fastforce split: prod.splits sum.splits)

end
