(* ===== verification/Storage_Snapshot.thy ===== *)
theory Storage_Snapshot
  imports Call_Log "HOL-Library.List_Lexorder" "HOL-Library.Char_ord"
begin

text \<open>
  \<^verbatim>\<open>storage/services/storage_snapshot_orchestrator.py\<close>: cold snapshots of persistent sandboxes.

  The methods mutate the loaded \<^verbatim>\<open>Sandbox\<close> object, and the mutations made before an exception stay in
  the session when the exception is caught. The object is therefore the row of the session's table:
  \<open>this s\<close> reads it, \<open>assign s f\<close> mutates it, \<open>s\<close> being the object as it was loaded. \<open>cl\<close> is the
  cluster, \<open>cfg\<close> the settings, \<open>str_exc\<close> Python's \<^verbatim>\<open>str\<close> of an exception, \<open>now\<close> the time of the tick.
\<close>

record settings =
  sandbox_namespace :: string
  sandbox_storage_class :: string
  sandbox_volume_snapshot_class :: string
  sandbox_default_storage_size :: string
  metering_enforcement_enabled :: bool

definition LABEL_SANDBOX_ID :: string where "LABEL_SANDBOX_ID = ''treadstone-ai.dev/sandbox-id''"
definition LABEL_OWNER_ID :: string where "LABEL_OWNER_ID = ''treadstone-ai.dev/owner-id''"
definition LABEL_TEMPLATE :: string where "LABEL_TEMPLATE = ''treadstone-ai.dev/template''"
definition LABEL_PROVISION_MODE :: string where "LABEL_PROVISION_MODE = ''treadstone-ai.dev/provision-mode''"
definition LABEL_WORKLOAD :: string where "LABEL_WORKLOAD = ''treadstone-ai.dev/workload''"
definition LABEL_STORAGE_ROLE :: string where "LABEL_STORAGE_ROLE = ''treadstone-ai.dev/storage-role''"

subsection \<open>The loaded object\<close>

definition this_row :: "sandbox \<Rightarrow> world \<Rightarrow> sandbox" where
  "this_row s w = (case find (\<lambda>r. sb_id r = sb_id s) (sandboxes w) of None \<Rightarrow> s | Some r \<Rightarrow> r)"

definition this :: "sandbox \<Rightarrow> sandbox op" where
  "this s = gets (this_row s)"

definition assign :: "sandbox \<Rightarrow> (sandbox \<Rightarrow> sandbox) \<Rightarrow> unit op" where
  "assign s f = set_sandbox (sb_id s) f"

subsection \<open>Helpers\<close>

definition snapshot_name :: "string \<Rightarrow> string" where
  "snapshot_name sid = sid @ ''-workspace-snapshot''"

definition workspace_labels :: "sandbox \<Rightarrow> (string \<times> string) list" where
  "workspace_labels s =
     [(LABEL_SANDBOX_ID, sb_id s), (LABEL_OWNER_ID, sb_owner_id s), (LABEL_TEMPLATE, sb_template s),
      (LABEL_PROVISION_MODE, ''direct''), (LABEL_WORKLOAD, ''sandbox''), (LABEL_STORAGE_ROLE, ''workspace'')]"

definition effective_resource_limits ::
    "(string \<times> string) list \<Rightarrow> (string \<times> string) list \<Rightarrow> (string \<times> string) list" where
  "effective_resource_limits requests limits =
     (if limits = [] then requests
      else let cpu = strip (dict_get limits ''cpu'' ''''); mem = strip (dict_get limits ''memory'' '''')
           in if cpu \<noteq> '''' \<and> mem \<noteq> '''' then [(''cpu'', cpu), (''memory'', mem)] else requests)"

definition choose_workspace_pvc :: "pvc list \<Rightarrow> pvc option" where
  "choose_workspace_pvc pvcs =
     (case sort_key (\<lambda>p. or_else (pvc_name p) '''') pvcs of [] \<Rightarrow> None | p # _ \<Rightarrow> Some p)"

fun add_candidates :: "string list \<Rightarrow> string option list \<Rightarrow> string list" where
  "add_candidates names [] = names"
| "add_candidates names (c # cs) =
     add_candidates (if truthy c \<and> the c \<notin> set names then names @ [the c] else names) cs"

definition workspace_pvc_candidate_names :: "sandbox \<Rightarrow> string list" where
  "workspace_pvc_candidate_names s =
     (let n = py_or (sb_k8s_sandbox_name s) (sb_id s)
      in add_candidates [] [sb_k8s_workspace_pvc_name s, Some (''workspace-'' @ n), Some (''workspace-'' @ sb_id s),
           Some (n @ ''-workspace''), Some (sb_id s @ ''-workspace'')])"

definition pvc_owned_by_sandbox :: "sandbox \<Rightarrow> pvc \<Rightarrow> bool" where
  "pvc_owned_by_sandbox s p \<longleftrightarrow>
     list_ex (\<lambda>r. or_kind r = Some ''Sandbox'' \<and>
       (or_name r = Some (sb_id s) \<or> truthy (sb_k8s_sandbox_name s) \<and> or_name r = sb_k8s_sandbox_name s))
       (pvc_owner_references p)"

definition extract_zone_from_pv :: "pv \<Rightarrow> string option" where
  "extract_zone_from_pv p =
     (case find (\<lambda>e. contains ''zone'' (or_else (me_key e) '''') \<and> me_values e \<noteq> [])
             (concat (pv_node_selector_terms p)) of
        None \<Rightarrow> None | Some e \<Rightarrow> Some (hd (me_values e)))"

subsection \<open>The snapshot backend\<close>

definition ensure_ready :: "settings \<Rightarrow> cluster \<Rightarrow> unit op" where
  "ensure_ready cfg cl =
     ebind (k8s_found cl (GetVolumeSnapshotClass (sandbox_volume_snapshot_class cfg))) (\<lambda>found.
     if found then ret () else raise (StorageSnapshotBackendNotReadyError (sandbox_volume_snapshot_class cfg)))"

definition create_snapshot :: "settings \<Rightarrow> cluster \<Rightarrow> sandbox \<Rightarrow> string \<Rightarrow> string op" where
  "create_snapshot cfg cl s pvc =
     (let name = py_or (sb_snapshot_name s) (snapshot_name (sb_id s))
      in ebind (k8s_command cl (CreateVolumeSnapshot name (sb_k8s_namespace s) pvc
             (sandbox_volume_snapshot_class cfg) (workspace_labels s) (sb_name s))) (\<lambda>_. ret name))"

definition get_snapshot :: "cluster \<Rightarrow> sandbox \<Rightarrow> volume_snapshot option op" where
  "get_snapshot cl s =
     (if truthy (sb_snapshot_name s)
      then k8s_get_volume_snapshot cl (the (sb_snapshot_name s)) (sb_k8s_namespace s) else ret None)"

definition get_snapshot_content :: "cluster \<Rightarrow> sandbox \<Rightarrow> volume_snapshot_content option op" where
  "get_snapshot_content cl s =
     ebind (if truthy (sb_snapshot_content_name s) then ret (sb_snapshot_content_name s)
            else ebind (get_snapshot cl s) (\<lambda>sn. ret (case sn of None \<Rightarrow> None | Some x \<Rightarrow> vs_bound_content_name x))) (\<lambda>content_name.
     if truthy content_name then k8s_get_volume_snapshot_content cl (the content_name) else ret None)"

definition delete_snapshot_object :: "cluster \<Rightarrow> sandbox \<Rightarrow> (bool \<times> string option) op" where
  "delete_snapshot_object cl s =
     (if truthy (sb_snapshot_name s) then
        ebind (k8s_get_volume_snapshot cl (the (sb_snapshot_name s)) (sb_k8s_namespace s)) (\<lambda>sn.
        case sn of
          None \<Rightarrow> ret (False, sb_snapshot_content_name s)
        | Some x \<Rightarrow>
            ebind (k8s_command cl (DeleteVolumeSnapshot (the (sb_snapshot_name s)) (sb_k8s_namespace s))) (\<lambda>_.
            ret (True, if truthy (sb_snapshot_content_name s) then sb_snapshot_content_name s else vs_bound_content_name x)))
      else ret (False, sb_snapshot_content_name s))"

definition delete_bound_snapshot :: "cluster \<Rightarrow> sandbox \<Rightarrow> bool op" where
  "delete_bound_snapshot cl s =
     ebind (if truthy (sb_snapshot_content_name s)
            then k8s_command cl (SetSnapshotContentDeletionPolicy (the (sb_snapshot_content_name s)) ''Delete'')
            else ret ()) (\<lambda>_.
     ebind (delete_snapshot_object cl s) (\<lambda>(deleted_any, content_name).
     if truthy content_name then
       ebind (k8s_get_volume_snapshot_content cl (the content_name)) (\<lambda>content.
       if content = None then ret deleted_any
       else ebind (k8s_command cl (DeleteVolumeSnapshotContent (the content_name))) (\<lambda>_. ret True))
     else ret deleted_any))"

subsection \<open>The workspace disk\<close>

fun first_pvc :: "cluster \<Rightarrow> string \<Rightarrow> string list \<Rightarrow> pvc option op" where
  "first_pvc cl ns [] = ret None"
| "first_pvc cl ns (n # names) =
     ebind (k8s_get_pvc cl n ns) (\<lambda>p. case p of None \<Rightarrow> first_pvc cl ns names | Some x \<Rightarrow> ret (Some x))"

definition find_workspace_pvc :: "cluster \<Rightarrow> sandbox \<Rightarrow> pvc option op" where
  "find_workspace_pvc cl s =
     ebind (k8s_list_pvcs cl (sb_k8s_namespace s)
       (Some [(LABEL_SANDBOX_ID, sb_id s), (LABEL_STORAGE_ROLE, ''workspace'')])) (\<lambda>pvcs.
     case choose_workspace_pvc pvcs of
       Some p \<Rightarrow> ret (Some p)
     | None \<Rightarrow>
         ebind (first_pvc cl (sb_k8s_namespace s) (workspace_pvc_candidate_names s)) (\<lambda>p.
         case p of
           Some x \<Rightarrow> ret (Some x)
         | None \<Rightarrow>
             ebind (k8s_list_pvcs cl (sb_k8s_namespace s) None) (\<lambda>all_pvcs.
             ret (choose_workspace_pvc (filter (pvc_owned_by_sandbox s) all_pvcs)))))"

definition refresh_workspace_binding :: "cluster \<Rightarrow> sandbox \<Rightarrow> bool op" where
  "refresh_workspace_binding cl s0 =
     ebind (this s0) (\<lambda>s.
     ebind (find_workspace_pvc cl s) (\<lambda>r.
     case r of
       None \<Rightarrow> ret False
     | Some p \<Rightarrow>
         ebind (assign s0 (\<lambda>s. s\<lparr>sb_k8s_workspace_pvc_name := pvc_name p, sb_k8s_workspace_pv_name := pvc_volume_name p\<rparr>)) (\<lambda>_.
         ebind (if truthy (pvc_volume_name p) then
             ebind (k8s_get_pv cl (the (pvc_volume_name p))) (\<lambda>v.
             case v of
               None \<Rightarrow> ret ()
             | Some x \<Rightarrow> assign s0 (\<lambda>s. s\<lparr>sb_workspace_volume_handle := pv_volume_handle x,
                                          sb_workspace_zone := extract_zone_from_pv x\<rparr>))
           else ret ()) (\<lambda>_. ret True))))"

definition release_live_workspace_assets :: "cluster \<Rightarrow> sandbox \<Rightarrow> unit op" where
  "release_live_workspace_assets cl s0 =
     ebind (this s0) (\<lambda>s.
     let name = py_or (sb_k8s_sandbox_name s) (sb_id s); ns = sb_k8s_namespace s
     in ebind (k8s_get_sandbox cl name ns) (\<lambda>c.
        ebind (if c \<noteq> None then k8s_command cl (DeleteSandbox name ns) else ret ()) (\<lambda>_.
        ebind (if sb_k8s_workspace_pvc_name s = None
               then ebind (refresh_workspace_binding cl s0) (\<lambda>_. ret ()) else ret ()) (\<lambda>_.
        ebind (this s0) (\<lambda>s.
        if truthy (sb_k8s_workspace_pvc_name s) then
          ebind (k8s_get_pvc cl (the (sb_k8s_workspace_pvc_name s)) ns) (\<lambda>p.
          if p \<noteq> None then k8s_command cl (DeletePVC (the (sb_k8s_workspace_pvc_name s)) ns) else ret ())
        else ret ())))))"

subsection \<open>Outcomes\<close>

definition fail_snapshot :: "sandbox \<Rightarrow> string \<Rightarrow> unit op" where
  "fail_snapshot s0 message = assign s0 (\<lambda>s. s\<lparr>sb_pending_operation := None, sb_status := STOPPED,
     sb_storage_backend_mode := Some (or_else (sb_storage_backend_mode s) LIVE_DISK),
     sb_status_message := Some message\<rparr>)"

definition fail_restore :: "sandbox \<Rightarrow> string \<Rightarrow> unit op" where
  "fail_restore s0 message = assign s0 (\<lambda>s. s\<lparr>sb_pending_operation := None, sb_status := COLD,
     sb_storage_backend_mode := Some (or_else (sb_storage_backend_mode s) STANDARD_SNAPSHOT),
     sb_status_message := Some message\<rparr>)"

definition clear_snapshot_binding :: "sandbox \<Rightarrow> sandbox" where
  "clear_snapshot_binding s = s\<lparr>sb_gmt_snapshotted := None, sb_snapshot_provider_id := None,
     sb_snapshot_name := None, sb_snapshot_content_name := None\<rparr>"

definition set_message :: "sandbox \<Rightarrow> string \<Rightarrow> unit op" where
  "set_message s0 m = assign s0 (\<lambda>s. s\<lparr>sb_status_message := Some m\<rparr>)"

definition py_or_str :: "string \<Rightarrow> string \<Rightarrow> string" where
  "py_or_str a b = (if a = '''' then b else a)"

subsection \<open>Snapshotting\<close>

text \<open>A binding left over from an earlier restore.\<close>

definition stale_binding :: "sandbox \<Rightarrow> bool" where
  "stale_binding s \<longleftrightarrow> sb_storage_backend_mode s = Some LIVE_DISK \<and> truthy (sb_snapshot_name s) \<and>
     (case (sb_gmt_restored s, sb_gmt_snapshotted s) of (Some r, Some t) \<Rightarrow> t \<le> r | _ \<Rightarrow> False)"

definition drop_stale_binding :: "(exn \<Rightarrow> string) \<Rightarrow> cluster \<Rightarrow> time \<Rightarrow> sandbox \<Rightarrow> unit op" where
  "drop_stale_binding str_exc cl now s0 =
     ebind (this s0) (\<lambda>s.
     try_else (ebind (delete_bound_snapshot cl s) (\<lambda>_. assign s0 clear_snapshot_binding))
       (\<lambda>e. fail_snapshot s0 (''Failed to clean up previous snapshot before creating a new one: '' @ str_exc e))
       (\<lambda>_. assign s0 (\<lambda>s. s\<lparr>sb_gmt_snapshotted := Some now\<rparr>)))"

definition begin_snapshot :: "settings \<Rightarrow> (exn \<Rightarrow> string) \<Rightarrow> cluster \<Rightarrow> sandbox \<Rightarrow> unit op" where
  "begin_snapshot cfg str_exc cl s0 =
     ebind (this s0) (\<lambda>s.
     ebind (k8s_get_sandbox cl (py_or (sb_k8s_sandbox_name s) (sb_id s)) (sb_k8s_namespace s)) (\<lambda>c.
     case c of
       None \<Rightarrow> fail_snapshot s0 ''Sandbox CR disappeared before the sandbox stopped for snapshot.''
     | Some c \<Rightarrow>
         let (derived_status, message) = derive_status_from_sandbox_cr c
         in if derived_status = ERROR
            then fail_snapshot s0 (py_or_str message ''Sandbox entered an error state while waiting to stop for snapshot.'')
            else if derived_status \<noteq> STOPPED
            then set_message s0 (py_or_str message ''Waiting for sandbox to stop before snapshot.'')
            else ebind (refresh_workspace_binding cl s0) (\<lambda>located.
              if \<not> located then fail_snapshot s0 ''Failed to locate workspace PVC for snapshot.''
              else ebind (this s0) (\<lambda>s.
                case sb_k8s_workspace_pvc_name s of
                  None \<Rightarrow> fail_snapshot s0 ''Workspace PVC is not available for snapshot.''
                | Some pvc \<Rightarrow>
                    try_else (ebind (create_snapshot cfg cl s pvc) (\<lambda>name.
                        assign s0 (\<lambda>s. s\<lparr>sb_snapshot_name := Some name,
                          sb_status_message := Some ''Creating cold snapshot.''\<rparr>)))
                      (\<lambda>e. fail_snapshot s0 (''Failed to create cold snapshot: '' @ str_exc e))
                      ret))))"

definition cut_over :: "cluster \<Rightarrow> time \<Rightarrow> sandbox \<Rightarrow> unit op" where
  "cut_over cl now s0 =
     ebind (this s0) (\<lambda>s.
     ebind (k8s_get_sandbox cl (py_or (sb_k8s_sandbox_name s) (sb_id s)) (sb_k8s_namespace s)) (\<lambda>c.
     ebind (if truthy (sb_k8s_workspace_pvc_name s)
            then k8s_get_pvc cl (the (sb_k8s_workspace_pvc_name s)) (sb_k8s_namespace s) else ret None) (\<lambda>p.
     ebind (if truthy (sb_k8s_workspace_pv_name s)
            then k8s_get_pv cl (the (sb_k8s_workspace_pv_name s)) else ret None) (\<lambda>v.
     if c \<noteq> None \<or> p \<noteq> None \<or> v \<noteq> None then set_message s0 ''Waiting for live disk cleanup.''
     else ebind (assign s0 (\<lambda>s. s\<lparr>sb_status := COLD, sb_pending_operation := None,
            sb_storage_backend_mode := Some STANDARD_SNAPSHOT, sb_status_message := None,
            sb_workspace_zone := None, sb_workspace_volume_handle := None,
            sb_k8s_workspace_pv_name := None, sb_k8s_workspace_pvc_name := None\<rparr>)) (\<lambda>_.
          ebind (update_storage_backend_mode now (sb_id s0) STANDARD_SNAPSHOT) (\<lambda>_. ret ()))))))"

definition settle_snapshot ::
    "(exn \<Rightarrow> string) \<Rightarrow> cluster \<Rightarrow> time \<Rightarrow> sandbox \<Rightarrow> volume_snapshot option \<Rightarrow> unit op" where
  "settle_snapshot str_exc cl now s0 snapshot =
     (case snapshot of
       None \<Rightarrow> fail_snapshot s0 ''Snapshot asset disappeared before it became ready.''
     | Some sn \<Rightarrow>
         ebind (if truthy (vs_bound_content_name sn)
                then assign s0 (\<lambda>s. s\<lparr>sb_snapshot_content_name := vs_bound_content_name sn\<rparr>) else ret ()) (\<lambda>_.
         if \<not> vs_ready_to_use sn then set_message s0 ''Waiting for snapshot to become ready.''
         else
           ebind (this s0) (\<lambda>s.
           ebind (get_snapshot_content cl s) (\<lambda>content.
           ebind (case content of
               None \<Rightarrow> ret ()
             | Some x \<Rightarrow> assign s0 (\<lambda>s. s\<lparr>sb_snapshot_content_name := vsc_name x,
                 sb_snapshot_provider_id := vsc_snapshot_handle x\<rparr>)) (\<lambda>_.
           ebind (assign s0 (\<lambda>s. s\<lparr>sb_gmt_snapshotted := Some now\<rparr>)) (\<lambda>_.
           try_else (release_live_workspace_assets cl s0)
             (\<lambda>e. ebind (this s0) (\<lambda>s.
               ebind (delete_bound_snapshot cl s) (\<lambda>_.
               ebind (assign s0 clear_snapshot_binding) (\<lambda>_.
               fail_snapshot s0 (''Failed to release live disk after snapshot: '' @ str_exc e)))))
             (\<lambda>_. cut_over cl now s0)))))))"

definition finish_snapshot :: "(exn \<Rightarrow> string) \<Rightarrow> cluster \<Rightarrow> time \<Rightarrow> sandbox \<Rightarrow> unit op" where
  "finish_snapshot str_exc cl now s0 =
     ebind (this s0) (\<lambda>s. ebind (get_snapshot cl s) (settle_snapshot str_exc cl now s0))"

definition process_snapshotting :: "settings \<Rightarrow> (exn \<Rightarrow> string) \<Rightarrow> cluster \<Rightarrow> time \<Rightarrow> sandbox \<Rightarrow> unit op" where
  "process_snapshotting cfg str_exc cl now s0 =
     ebind (this s0) (\<lambda>s.
     ebind (if sb_persist s \<and> sb_storage_backend_mode s = None
            then assign s0 (\<lambda>s. s\<lparr>sb_storage_backend_mode := Some LIVE_DISK\<rparr>) else ret ()) (\<lambda>_.
     try_else (ensure_ready cfg cl) (\<lambda>e. fail_snapshot s0 (str_exc e)) (\<lambda>_.
     ebind (this s0) (\<lambda>s.
     if stale_binding s then drop_stale_binding str_exc cl now s0
     else if sb_storage_backend_mode s = Some STANDARD_SNAPSHOT
     then assign s0 (\<lambda>s. s\<lparr>sb_pending_operation := None, sb_status := COLD, sb_status_message := None\<rparr>)
     else if sb_snapshot_name s = None then begin_snapshot cfg str_exc cl s0
     else finish_snapshot str_exc cl now s0))))"

subsection \<open>Restoring\<close>

definition workspace_volume_claim ::
    "settings \<Rightarrow> sandbox \<Rightarrow> string option \<Rightarrow> string option \<Rightarrow> volume_claim_template" where
  "workspace_volume_claim cfg s storage_size data_source =
     \<lparr>vc_labels = workspace_labels s, vc_storage_class = sandbox_storage_class cfg, vc_storage = storage_size,
      vc_data_source = data_source\<rparr>"

definition resolve_template :: "cluster \<Rightarrow> string \<Rightarrow> string \<Rightarrow> ktemplate op" where
  "resolve_template cl ns template =
     ebind (k8s_list_sandbox_templates cl ns) (\<lambda>ts.
     case find (\<lambda>t. kt_name t = template) ts of None \<Rightarrow> raise (TemplateNotFoundError template) | Some t \<Rightarrow> ret t)"

definition direct_labels :: "sandbox \<Rightarrow> string \<Rightarrow> (string \<times> string) list" where
  "direct_labels s template =
     [(LABEL_SANDBOX_ID, sb_id s), (LABEL_OWNER_ID, sb_owner_id s), (LABEL_TEMPLATE, template),
      (LABEL_PROVISION_MODE, ''direct'')]"

definition direct_pod_labels :: "sandbox \<Rightarrow> (string \<times> string) list" where
  "direct_pod_labels s =
     [(LABEL_SANDBOX_ID, sb_id s), (LABEL_OWNER_ID, sb_owner_id s), (LABEL_WORKLOAD, ''sandbox''),
      (LABEL_PROVISION_MODE, ''direct'')]"

definition create_restored_sandbox :: "settings \<Rightarrow> cluster \<Rightarrow> sandbox \<Rightarrow> string \<Rightarrow> unit op" where
  "create_restored_sandbox cfg cl s operating_mode =
     ebind (resolve_template cl (sb_k8s_namespace s) (sb_template s)) (\<lambda>t.
     if kt_image t = '''' then raise (TemplateNotFoundError (sb_template s))
     else k8s_command cl (CreateSandbox (py_or (sb_k8s_sandbox_name s) (sb_id s)) (sb_k8s_namespace s)
       \<lparr>sm_image = kt_image t, sm_requests = kt_resource_spec t,
        sm_limits = effective_resource_limits (kt_resource_spec t) (kt_resource_limits t),
        sm_operating_mode = operating_mode,
        sm_startup_probe = kt_startup_probe t, sm_readiness_probe = kt_readiness_probe t, sm_liveness_probe = kt_liveness_probe t,
        sm_volume_claim = workspace_volume_claim cfg s (sb_storage_size s) (sb_snapshot_name s),
        sm_shutdown_time = None, sm_labels = direct_labels s (sb_template s),
        sm_annotations = (sb_name s, sb_gmt_created s), sm_pod_labels = direct_pod_labels s\<rparr>))"

definition complete_restore_to_live_disk ::
    "cluster \<Rightarrow> time \<Rightarrow> sandbox \<Rightarrow> sandbox_status \<Rightarrow> string option \<Rightarrow> unit op" where
  "complete_restore_to_live_disk cl now s0 final_status status_message =
     ebind (assign s0 (\<lambda>s. s\<lparr>sb_status := final_status, sb_pending_operation := None,
       sb_storage_backend_mode := Some LIVE_DISK, sb_status_message := status_message,
       sb_gmt_restored := Some now,
       sb_gmt_started := (if final_status = READY then Some (or_else (sb_gmt_started s) now) else sb_gmt_started s)\<rparr>)) (\<lambda>_.
     ebind (update_storage_backend_mode now (sb_id s0) LIVE_DISK) (\<lambda>_.
     ebind (if final_status = READY
            then best_effort (ebind (open_compute_session now (sb_id s0) (sb_owner_id s0) (sb_template s0)) (\<lambda>_. ret ()))
            else ret ()) (\<lambda>_.
     ebind (this s0) (\<lambda>s.
     try_else (delete_bound_snapshot cl s)
       (\<lambda>_. set_message s0 (py_or status_message
          (if final_status = READY then ''Restored sandbox.'' else ''Restored sandbox workspace.'') @
          '' Snapshot cleanup is pending.''))
       (\<lambda>deleted. if deleted \<or> truthy (sb_snapshot_name s) then assign s0 clear_snapshot_binding else ret ())))))"

definition process_restoring :: "settings \<Rightarrow> (exn \<Rightarrow> string) \<Rightarrow> cluster \<Rightarrow> time \<Rightarrow> sandbox \<Rightarrow> unit op" where
  "process_restoring cfg str_exc cl now s0 =
     try_else (ensure_ready cfg cl) (\<lambda>e. fail_restore s0 (str_exc e)) (\<lambda>_.
     ebind (this s0) (\<lambda>s.
     if \<not> truthy (sb_snapshot_name s) then fail_restore s0 ''Cold sandbox has no bound snapshot to restore from.''
     else ebind (k8s_get_sandbox cl (py_or (sb_k8s_sandbox_name s) (sb_id s)) (sb_k8s_namespace s)) (\<lambda>c.
       case c of
         None \<Rightarrow>
           try_else (create_restored_sandbox cfg cl s ''Running'')
             (\<lambda>e. fail_restore s0 (''Failed to create restored sandbox: '' @ str_exc e))
             (\<lambda>_. set_message s0 ''Restoring sandbox from cold storage.'')
       | Some c \<Rightarrow>
           ebind (refresh_workspace_binding cl s0) (\<lambda>_.
           let (derived_status, message) = derive_status_from_sandbox_cr c
           in if derived_status = ERROR
              then complete_restore_to_live_disk cl now s0 STOPPED (Some (py_or_str message
                ''Restore materialized the workspace, but the sandbox failed to become ready.''))
              else ebind (this s0) (\<lambda>s.
                if sb_k8s_workspace_pvc_name s = None \<or> sb_k8s_workspace_pv_name s = None
                then set_message s0 ''Waiting for restored workspace disk.''
                else if derived_status \<noteq> READY
                then set_message s0 (py_or_str message ''Waiting for restored sandbox to become ready.'')
                else complete_restore_to_live_disk cl now s0 READY None)))))"

definition process_sandbox :: "settings \<Rightarrow> (exn \<Rightarrow> string) \<Rightarrow> cluster \<Rightarrow> time \<Rightarrow> sandbox \<Rightarrow> unit op" where
  "process_sandbox cfg str_exc cl now s =
     (case sb_pending_operation s of
        Some SNAPSHOTTING \<Rightarrow> process_snapshotting cfg str_exc cl now s
      | Some RESTORING \<Rightarrow> process_restoring cfg str_exc cl now s
      | None \<Rightarrow> ret ())"

subsection \<open>The tick\<close>

definition snapshot_tick_one :: "settings \<Rightarrow> (exn \<Rightarrow> string) \<Rightarrow> cluster \<Rightarrow> time \<Rightarrow> string \<Rightarrow> unit op" where
  "snapshot_tick_one cfg str_exc cl now sid =
     ebind (gets (\<lambda>w. find (\<lambda>s. sb_id s = sid) (sandboxes w))) (\<lambda>r.
     case r of
       None \<Rightarrow> ret ()
     | Some s \<Rightarrow>
         if sb_pending_operation s = None \<or> sb_gmt_deleted s \<noteq> None then ret ()
         else best_effort (transaction (ebind (process_sandbox cfg str_exc cl now s) (\<lambda>_. commit))))"

definition run_storage_snapshot_tick :: "settings \<Rightarrow> (exn \<Rightarrow> string) \<Rightarrow> cluster \<Rightarrow> time \<Rightarrow> unit op" where
  "run_storage_snapshot_tick cfg str_exc cl now =
     ebind (gets (\<lambda>w. map sb_id (filter (\<lambda>s. sb_gmt_deleted s = None \<and> sb_pending_operation s \<noteq> None) (sandboxes w)))) (\<lambda>sids.
     for_each sids (snapshot_tick_one cfg str_exc cl now))"

end
