(* ===== verification/Sandbox_Service.thy ===== *)
theory Sandbox_Service
  imports Storage_Snapshot "HOL-Library.Product_Lexorder"
begin

text \<open>
  \<^verbatim>\<open>sandbox/services/sandbox_service.py\<close>: the operations of the API on sandboxes.

  \<open>cfg\<close> are the settings, \<open>metering\<close> says whether the service was built with a metering service, \<open>cl\<close> is the
  cluster, \<open>now\<close> the time of the request. The loaded object is the row of the session's table (\<open>this\<close>,
  \<open>assign\<close> of \<open>Storage_Snapshot\<close>). An exception that leaves an operation leaves the uncommitted changes in
  the state: the caller closes the session, which rolls them back.
\<close>

subsection \<open>Listing\<close>

definition sandbox_status_rank :: "sandbox \<Rightarrow> nat" where
  "sandbox_status_rank s =
     (if sb_status s = READY then 0
      else if sb_pending_operation s \<noteq> None then 1
      else if sb_status s = CREATING then 1
      else if sb_status s = DELETING then 2
      else if sb_status s \<in> {ERROR, STOPPED, COLD} then 3
      else 4)"

fun coalesce :: "'a option list \<Rightarrow> 'a \<Rightarrow> 'a" where
  "coalesce [] d = d"
| "coalesce (None # xs) d = coalesce xs d"
| "coalesce (Some x # xs) d = x"

definition sandbox_activity_at :: "sandbox \<Rightarrow> time" where
  "sandbox_activity_at s =
     coalesce [sb_gmt_last_active s, sb_last_synced_at s, sb_gmt_started s, sb_gmt_stopped s] (sb_gmt_created s)"

text \<open>The collation of the database is the parameter \<open>name_key\<close>, its test that one JSON object contains another
  the parameter \<open>json_contains\<close>.\<close>

definition list_order :: "(string \<Rightarrow> nat) \<Rightarrow> sandbox \<Rightarrow> nat \<times> int \<times> int \<times> nat" where
  "list_order name_key s =
     (sandbox_status_rank s, - sandbox_activity_at s, - sb_gmt_created s, name_key (sb_name s))"

definition list_by_owner ::
    "(string \<Rightarrow> nat) \<Rightarrow> ((string \<times> string) list \<Rightarrow> (string \<times> string) list \<Rightarrow> bool) \<Rightarrow> string \<Rightarrow>
     (string \<times> string) list option \<Rightarrow> nat \<Rightarrow> nat \<Rightarrow> (sandbox list \<times> int) op" where
  "list_by_owner name_key json_contains owner labels offset limit = gets (\<lambda>w.
     let rows = filter (\<lambda>s. sb_owner_id s = owner \<and> sb_gmt_deleted s = None \<and>
                  (case labels of None \<Rightarrow> True | Some l \<Rightarrow> l = [] \<or> json_contains (sb_labels s) l)) (sandboxes w)
     in (take limit (drop offset (sort_key (list_order name_key) rows)), int (length rows)))"

subsection \<open>Validation\<close>

definition validate_auto_stop_interval_for_tier ::
    "settings \<Rightarrow> bool \<Rightarrow> datetime \<Rightarrow> string \<Rightarrow> int \<Rightarrow> int option op" where
  "validate_auto_stop_interval_for_tier cfg metering now owner auto_stop_interval =
     (if \<not> metering \<or> \<not> metering_enforcement_enabled cfg then ret None
      else ebind (check_sandbox_duration now owner) (\<lambda>max_duration.
        if max_duration \<le> 0 then ret (Some max_duration)
        else if auto_stop_interval = 0 \<or> max_duration < auto_stop_interval * 60
        then ebind (get_user_plan now owner) (\<lambda>plan. raise (SandboxDurationExceededError (up_tier plan) max_duration))
        else ret (Some max_duration)))"

record create_params =
  cp_storage_size :: string
  cp_max_duration :: "int option"
  cp_sandbox_name :: string

definition SANDBOX_STORAGE_SIZE_VALUES :: "string list" where
  "SANDBOX_STORAGE_SIZE_VALUES = [''5Gi'', ''10Gi'', ''20Gi'']"

definition quoted :: "string \<Rightarrow> string" where
  "quoted s = CHR 0x27 # s @ [CHR 0x27]"

definition check_storage_size :: "settings \<Rightarrow> cluster \<Rightarrow> string \<Rightarrow> string \<Rightarrow> unit op" where
  "check_storage_size cfg cl template storage_size =
     ebind (resolve_template cl (sandbox_namespace cfg) template) (\<lambda>t.
     let allowed = (if kt_allowed_storage_sizes t = [] then SANDBOX_STORAGE_SIZE_VALUES else kt_allowed_storage_sizes t)
     in if storage_size \<notin> set allowed
        then raise (BadRequestError (''Storage size '' @ quoted storage_size @ '' is not allowed for template '' @ quoted template @
               ''. Allowed sizes: '' @ join '', '' allowed))
        else ret ())"

definition enforce_quotas ::
    "settings \<Rightarrow> bool \<Rightarrow> datetime \<Rightarrow> string \<Rightarrow> string \<Rightarrow> string option \<Rightarrow> int \<Rightarrow> int option op" where
  "enforce_quotas cfg metering now owner template storage_size auto_stop_interval =
     (if \<not> metering \<or> \<not> metering_enforcement_enabled cfg then ret None
      else ebind (check_template_allowed now owner template) (\<lambda>_.
           ebind (check_compute_quota now owner) (\<lambda>_.
           ebind (check_concurrent_limit now owner) (\<lambda>_.
           ebind (case storage_size of
               None \<Rightarrow> ret ()
             | Some sz \<Rightarrow> ebind (of_sum (parse_storage_size_gib sz)) (\<lambda>gib. check_storage_quota now owner gib)) (\<lambda>_.
           validate_auto_stop_interval_for_tier cfg metering now owner auto_stop_interval)))))"

definition ensure_persistent_storage_backend_ready :: "settings \<Rightarrow> cluster \<Rightarrow> unit op" where
  "ensure_persistent_storage_backend_ready cfg cl =
     ebind (k8s_found cl (GetStorageClass (strip (sandbox_storage_class cfg)))) (\<lambda>found.
     if found then ret () else raise (StorageBackendNotReadyError (strip (sandbox_storage_class cfg))))"

definition ensure_snapshot_backend_ready :: "settings \<Rightarrow> cluster \<Rightarrow> unit op" where
  "ensure_snapshot_backend_ready cfg cl =
     ebind (k8s_found cl (GetVolumeSnapshotClass (strip (sandbox_volume_snapshot_class cfg)))) (\<lambda>found.
     if found then ret () else raise (StorageSnapshotBackendNotReadyError (strip (sandbox_volume_snapshot_class cfg))))"

text \<open>\<open>generated\<close> is the name that \<^verbatim>\<open>generate_sandbox_name\<close> draws.\<close>

definition validate_create ::
    "settings \<Rightarrow> bool \<Rightarrow> cluster \<Rightarrow> string \<Rightarrow> datetime \<Rightarrow> string \<Rightarrow> string \<Rightarrow> string option \<Rightarrow> int \<Rightarrow> bool \<Rightarrow>
     string option \<Rightarrow> create_params op" where
  "validate_create cfg metering cl generated now owner template name auto_stop_interval persist storage_size =
     (let size = py_or storage_size (sandbox_default_storage_size cfg)
      in ebind (if persist then check_storage_size cfg cl template size else ret ()) (\<lambda>_.
         ebind (enforce_quotas cfg metering now owner template (if persist then Some size else None) auto_stop_interval) (\<lambda>max_duration.
         ebind (if persist then ensure_persistent_storage_backend_ready cfg cl else ret ()) (\<lambda>_.
         ret \<lparr>cp_storage_size = size, cp_max_duration = max_duration, cp_sandbox_name = py_or name generated\<rparr>))))"

subsection \<open>Creation\<close>

definition name_taken :: "string \<Rightarrow> string \<Rightarrow> string \<Rightarrow> world \<Rightarrow> bool" where
  "name_taken owner name sid w \<longleftrightarrow>
     list_ex (\<lambda>s. sb_id s \<noteq> sid \<and> sb_owner_id s = owner \<and> sb_name s = name \<and> sb_gmt_deleted s = None) (sandboxes w)"

definition new_sandbox ::
    "settings \<Rightarrow> time \<Rightarrow> string \<Rightarrow> string \<Rightarrow> string \<Rightarrow> create_params \<Rightarrow> (string \<times> string) list option \<Rightarrow> int \<Rightarrow> int \<Rightarrow> bool \<Rightarrow> sandbox" where
  "new_sandbox cfg now sid owner template params labels auto_stop auto_delete persist =
     \<lparr>sb_id = sid, sb_name = cp_sandbox_name params, sb_owner_id = owner, sb_template = template,
      sb_labels = or_else labels [], sb_auto_stop_interval = auto_stop, sb_auto_delete_interval = auto_delete,
      sb_provision_mode = (if persist then ''direct'' else ''claim''), sb_persist = persist,
      sb_storage_size = (if persist then Some (cp_storage_size params) else None),
      sb_k8s_sandbox_claim_name = (if persist then None else Some sid),
      sb_k8s_sandbox_name = (if persist then Some sid else None), sb_k8s_namespace = sandbox_namespace cfg,
      sb_k8s_resource_version = None, sb_last_synced_at = None, sb_status = CREATING, sb_pending_operation = None,
      sb_status_message = None, sb_endpoints = [],
      sb_storage_backend_mode = (if persist then Some LIVE_DISK else None), sb_k8s_workspace_pvc_name = None,
      sb_k8s_workspace_pv_name = None, sb_workspace_volume_handle = None, sb_workspace_zone = None,
      sb_snapshot_provider_id = None, sb_snapshot_name = None, sb_snapshot_content_name = None, sb_version = 1,
      sb_gmt_created = now, sb_gmt_started = None, sb_gmt_stopped = None, sb_gmt_snapshotted = None,
      sb_gmt_restored = None, sb_gmt_last_active = Some now, sb_gmt_deleted = None\<rparr>"

text \<open>\<open>base\<close> is the world at the last commit, to which the rollback after a conflict goes back.\<close>

definition persist_sandbox ::
    "world \<Rightarrow> settings \<Rightarrow> time \<Rightarrow> string \<Rightarrow> string \<Rightarrow> create_params \<Rightarrow> (string \<times> string) list option \<Rightarrow> int \<Rightarrow> int \<Rightarrow> bool \<Rightarrow> sandbox op" where
  "persist_sandbox base cfg now owner template params labels auto_stop auto_delete persist =
     ebind (draw_id ''sb'') (\<lambda>sid.
     let s = new_sandbox cfg now sid owner template params labels auto_stop auto_delete persist
     in ebind (gets (\<lambda>w. name_taken owner (sb_name s) sid w \<or> list_ex (\<lambda>r. sb_id r = sid) (sandboxes w))) (\<lambda>conflict.
        if conflict then ebind (rollback_to base) (\<lambda>_. raise (SandboxNameConflictError (cp_sandbox_name params)))
        else ebind (modify (\<lambda>w. w\<lparr>sandboxes := sandboxes w @ [s]\<rparr>)) (\<lambda>_.
             ebind commit (\<lambda>_. ret s))))"

definition create_via_claim :: "cluster \<Rightarrow> sandbox \<Rightarrow> string \<Rightarrow> time option \<Rightarrow> unit op" where
  "create_via_claim cl s template shutdown_time =
     ebind (resolve_template cl (sb_k8s_namespace s) template) (\<lambda>_.
     k8s_command cl (CreateSandboxClaim (py_or (sb_k8s_sandbox_claim_name s) (sb_id s)) (sb_k8s_namespace s)
       \<lparr>cm_warm_pool_ref = template @ ''-pool'', cm_shutdown_time = shutdown_time,
        cm_labels = [(LABEL_SANDBOX_ID, sb_id s), (LABEL_OWNER_ID, sb_owner_id s), (LABEL_TEMPLATE, template),
          (LABEL_PROVISION_MODE, ''claim'')],
        cm_annotations = (sb_name s, sb_gmt_created s)\<rparr>))"

definition create_direct ::
    "settings \<Rightarrow> cluster \<Rightarrow> sandbox \<Rightarrow> string \<Rightarrow> string \<Rightarrow> string \<Rightarrow> string option \<Rightarrow> time option \<Rightarrow> unit op" where
  "create_direct cfg cl s template storage_size operating_mode data_source shutdown_time =
     ebind (resolve_template cl (sb_k8s_namespace s) template) (\<lambda>t.
     if kt_image t = '''' then raise (TemplateNotFoundError template)
     else k8s_command cl (CreateSandbox (py_or (sb_k8s_sandbox_name s) (sb_id s)) (sb_k8s_namespace s)
       \<lparr>sm_image = kt_image t, sm_requests = kt_resource_spec t,
        sm_limits = effective_resource_limits (kt_resource_spec t) (kt_resource_limits t),
        sm_operating_mode = operating_mode,
        sm_startup_probe = kt_startup_probe t, sm_readiness_probe = kt_readiness_probe t, sm_liveness_probe = kt_liveness_probe t,
        sm_volume_claim = workspace_volume_claim cfg s (Some storage_size) (if truthy data_source then data_source else None),
        sm_shutdown_time = shutdown_time, sm_labels = direct_labels s template,
        sm_annotations = (sb_name s, sb_gmt_created s), sm_pod_labels = direct_pod_labels s\<rparr>))"

text \<open>A status with its message and the next version, committed: what every failure path of the service does.\<close>

definition mark_error :: "sandbox \<Rightarrow> string \<Rightarrow> unit op" where
  "mark_error s message =
     ebind (assign s (\<lambda>r. r\<lparr>sb_status := ERROR, sb_status_message := Some message, sb_version := sb_version r + 1\<rparr>)) (\<lambda>_.
     commit)"

definition provision_k8s :: "settings \<Rightarrow> cluster \<Rightarrow> sandbox \<Rightarrow> string \<Rightarrow> string \<Rightarrow> time option \<Rightarrow> unit op" where
  "provision_k8s cfg cl s template storage_size shutdown_time =
     try_else (if sb_persist s then create_direct cfg cl s template storage_size ''Running'' None shutdown_time
               else create_via_claim cl s template shutdown_time)
       (\<lambda>e. case e of
          TemplateNotFoundError t \<Rightarrow>
            ebind (modify (\<lambda>w. w\<lparr>sandboxes := filter (\<lambda>r. sb_id r \<noteq> sb_id s) (sandboxes w)\<rparr>)) (\<lambda>_.
            ebind commit (\<lambda>_. raise e))
        | _ \<Rightarrow> mark_error s (if sb_persist s then ''Failed to create Sandbox CR'' else ''Failed to create SandboxClaim''))
       ret"

definition record_metering :: "bool \<Rightarrow> time \<Rightarrow> sandbox \<Rightarrow> string \<Rightarrow> string \<Rightarrow> unit op" where
  "record_metering metering now s owner storage_size =
     ebind (this s) (\<lambda>r.
     if \<not> metering \<or> \<not> sb_persist r \<or> sb_status r = ERROR then ret ()
     else best_effort (ebind (of_sum (parse_storage_size_gib storage_size)) (\<lambda>gib.
            ebind (record_storage_allocation now owner (sb_id s) gib LIVE_DISK) (\<lambda>_. commit))))"

definition create ::
    "settings \<Rightarrow> bool \<Rightarrow> cluster \<Rightarrow> string \<Rightarrow> datetime \<Rightarrow> string \<Rightarrow> string \<Rightarrow> string option \<Rightarrow> (string \<times> string) list option \<Rightarrow>
     int \<Rightarrow> int \<Rightarrow> bool \<Rightarrow> string option \<Rightarrow> sandbox op" where
  "create cfg metering cl generated now owner template name labels auto_stop auto_delete persist storage_size =
     ebind (gets id) (\<lambda>base.
     ebind (validate_create cfg metering cl generated now owner template name auto_stop persist storage_size) (\<lambda>params.
     ebind (persist_sandbox base cfg (utc_ts now) owner template params labels auto_stop auto_delete persist) (\<lambda>s.
     ebind (provision_k8s cfg cl s template (cp_storage_size params)
       (case cp_max_duration params of None \<Rightarrow> None | Some d \<Rightarrow> if 0 < d then Some (utc_ts now + seconds d) else None)) (\<lambda>_.
     ebind (record_metering metering (utc_ts now) s owner (cp_storage_size params)) (\<lambda>_.
     this s)))))"

subsection \<open>Reading and updating\<close>

definition get_sandbox :: "string \<Rightarrow> string \<Rightarrow> sandbox option op" where
  "get_sandbox sid owner = select_one_or_none (\<lambda>w.
     filter (\<lambda>s. sb_id s = sid \<and> sb_owner_id s = owner \<and> sb_gmt_deleted s = None) (sandboxes w))"

definition need_sandbox :: "string \<Rightarrow> string \<Rightarrow> sandbox op" where
  "need_sandbox sid owner = ebind (get_sandbox sid owner) (\<lambda>r.
     case r of None \<Rightarrow> raise (SandboxNotFoundError sid) | Some s \<Rightarrow> ret s)"

text \<open>The patch of an update: the four fields it may have, and the names of the others.\<close>

record sandbox_patch =
  pa_name :: "string option"
  pa_labels :: "(string \<times> string) list option"
  pa_auto_stop_interval :: "int option"
  pa_auto_delete_interval :: "int option"
  pa_extra :: "string list"

definition empty_patch :: "sandbox_patch \<Rightarrow> bool" where
  "empty_patch p \<longleftrightarrow> pa_name p = None \<and> pa_labels p = None \<and> pa_auto_stop_interval p = None \<and>
     pa_auto_delete_interval p = None \<and> pa_extra p = []"

definition apply_patch :: "sandbox_patch \<Rightarrow> sandbox \<Rightarrow> sandbox" where
  "apply_patch p s = s\<lparr>sb_name := or_else (pa_name p) (sb_name s), sb_labels := or_else (pa_labels p) (sb_labels s),
     sb_auto_stop_interval := or_else (pa_auto_stop_interval p) (sb_auto_stop_interval s),
     sb_auto_delete_interval := or_else (pa_auto_delete_interval p) (sb_auto_delete_interval s),
     sb_version := sb_version s + 1\<rparr>"

definition update :: "settings \<Rightarrow> bool \<Rightarrow> datetime \<Rightarrow> string \<Rightarrow> string \<Rightarrow> sandbox_patch \<Rightarrow> sandbox op" where
  "update cfg metering now sid owner patch =
     (if empty_patch patch then raise (ValidationError ''No fields to update.'')
      else ebind (gets id) (\<lambda>base.
        ebind (need_sandbox sid owner) (\<lambda>s.
        if pa_extra patch \<noteq> [] then raise (BadRequestError (''Unsupported fields: '' @ join '', '' (sort (pa_extra patch))))
        else ebind (validate_auto_stop_interval_for_tier cfg metering now owner
               (or_else (pa_auto_stop_interval patch) (sb_auto_stop_interval s))) (\<lambda>_.
          ebind (assign s (apply_patch patch)) (\<lambda>_.
          ebind (gets (\<lambda>w. name_taken owner (sb_name (apply_patch patch s)) sid w)) (\<lambda>conflict.
          if conflict then ebind (rollback_to base) (\<lambda>_. case pa_name patch of
              Some n \<Rightarrow> raise (SandboxNameConflictError n) | None \<Rightarrow> raise IntegrityError)
          else ebind commit (\<lambda>_. this s)))))))"

subsection \<open>Deletion\<close>

definition drop_web_link :: "time \<Rightarrow> string \<Rightarrow> unit op" where
  "drop_web_link now sid =
     ebind (select_one_or_none (\<lambda>w. filter (\<lambda>l. wl_sandbox_id l = sid \<and> wl_gmt_deleted l = None) (web_links w))) (\<lambda>r.
     case r of
       None \<Rightarrow> ret ()
     | Some _ \<Rightarrow> modify (\<lambda>w. w\<lparr>web_links := update_where (\<lambda>l. wl_sandbox_id l = sid \<and> wl_gmt_deleted l = None)
         (\<lambda>l. l\<lparr>wl_gmt_deleted := Some now, wl_gmt_updated := now\<rparr>) (web_links w)\<rparr>))"

definition delete_cold :: "bool \<Rightarrow> cluster \<Rightarrow> time \<Rightarrow> sandbox \<Rightarrow> unit op" where
  "delete_cold metering cl now s =
     ebind (this s) (\<lambda>r.
     try_else (ebind (delete_bound_snapshot cl r) (\<lambda>_.
         ebind (assign s clear_snapshot_binding) (\<lambda>_.
         ebind (if metering then ebind (record_storage_release now (sb_id s)) (\<lambda>_. ret ()) else ret ()) (\<lambda>_.
         ebind (assign s (\<lambda>r. r\<lparr>sb_status := DELETED, sb_gmt_deleted := Some now, sb_status_message := None,
             sb_version := sb_version r + 1\<rparr>)) (\<lambda>_.
         commit)))))
       (\<lambda>_. mark_error s ''Failed to delete cold snapshot asset'')
       ret)"

definition delete_k8s_resource :: "cluster \<Rightarrow> sandbox \<Rightarrow> unit op" where
  "delete_k8s_resource cl s =
     (if sb_provision_mode s = ''direct''
      then k8s_command cl (DeleteSandbox (py_or (sb_k8s_sandbox_name s) (sb_id s)) (sb_k8s_namespace s))
      else k8s_command cl (DeleteSandboxClaim (py_or (sb_k8s_sandbox_claim_name s) (sb_id s)) (sb_k8s_namespace s)))"

definition delete_live :: "cluster \<Rightarrow> sandbox \<Rightarrow> unit op" where
  "delete_live cl s =
     ebind (this s) (\<lambda>r.
     try_else (if truthy (sb_snapshot_name r)
               then ebind (delete_bound_snapshot cl r) (\<lambda>_. assign s clear_snapshot_binding) else ret ())
       (\<lambda>_. mark_error s ''Failed to delete bound snapshot during sandbox delete'')
       (\<lambda>_. try_else (delete_k8s_resource cl r) (\<lambda>_. mark_error s ''Failed to delete K8s resource'') ret))"

definition delete :: "bool \<Rightarrow> cluster \<Rightarrow> time \<Rightarrow> string \<Rightarrow> string \<Rightarrow> sandbox op" where
  "delete metering cl now sid owner =
     ebind (need_sandbox sid owner) (\<lambda>s.
     if sb_pending_operation s \<noteq> None \<or> \<not> is_valid_transition (sb_status s) DELETING
     then raise (InvalidTransitionError sid (status_str (sb_status s)) ''deleting'')
     else ebind (assign s (\<lambda>r. r\<lparr>sb_status := DELETING, sb_version := sb_version r + 1\<rparr>)) (\<lambda>_.
       ebind (drop_web_link now sid) (\<lambda>_.
       ebind commit (\<lambda>_.
       ebind (if sb_storage_backend_mode s = Some STANDARD_SNAPSHOT then delete_cold metering cl now s else delete_live cl s) (\<lambda>_.
       this s)))))"

subsection \<open>Stopping, snapshotting, starting\<close>

definition k8s_name :: "sandbox \<Rightarrow> string" where
  "k8s_name s = py_or (sb_k8s_sandbox_name s) (py_or (sb_k8s_sandbox_claim_name s) (sb_id s))"

definition close_session_best_effort :: "datetime \<Rightarrow> sandbox \<Rightarrow> unit op" where
  "close_session_best_effort now s =
     ebind (gets id) (\<lambda>base.
     try_else (ebind (close_compute_session now (sb_id s)) (\<lambda>_. commit)) (\<lambda>_. rollback_to base) ret)"

definition stop :: "bool \<Rightarrow> cluster \<Rightarrow> datetime \<Rightarrow> string \<Rightarrow> string \<Rightarrow> sandbox op" where
  "stop metering cl now sid owner =
     ebind (need_sandbox sid owner) (\<lambda>s.
     if sb_pending_operation s \<noteq> None \<or> sb_status s \<notin> {READY, ERROR}
     then raise (InvalidTransitionError sid (status_str (sb_status s)) ''stopped'')
     else ebind (assign s (\<lambda>r. r\<lparr>sb_status := STOPPED, sb_gmt_stopped := Some (utc_ts now), sb_version := sb_version r + 1\<rparr>)) (\<lambda>_.
       ebind commit (\<lambda>_.
       ebind (try_else (k8s_command cl (SetOperatingMode (k8s_name s) (sb_k8s_namespace s) ''Suspended''))
         (\<lambda>_. mark_error s ''Failed to stop sandbox'')
         (\<lambda>_. if metering then close_session_best_effort now s else ret ())) (\<lambda>_.
       this s))))"

definition snapshot :: "settings \<Rightarrow> bool \<Rightarrow> cluster \<Rightarrow> datetime \<Rightarrow> string \<Rightarrow> string \<Rightarrow> sandbox op" where
  "snapshot cfg metering cl now sid owner =
     ebind (need_sandbox sid owner) (\<lambda>s.
     if \<not> sb_persist s \<or> sb_provision_mode s \<noteq> ''direct''
     then raise (BadRequestError ''Cold snapshot is only supported for persistent direct sandboxes.'')
     else if sb_pending_operation s \<noteq> None
     then raise (InvalidTransitionError sid (status_str (sb_status s)) ''snapshotting'')
     else ebind (if sb_status s = READY then
           ebind (stop metering cl now sid owner) (\<lambda>s'.
           if sb_status s' \<noteq> STOPPED then raise (InvalidTransitionError sid (status_str (sb_status s')) ''snapshotting'')
           else ret ())
         else if sb_status s \<noteq> STOPPED then raise (InvalidTransitionError sid (status_str (sb_status s)) ''snapshotting'')
         else ret ()) (\<lambda>_.
       ebind (ensure_snapshot_backend_ready cfg cl) (\<lambda>_.
       ebind (assign s (\<lambda>r. r\<lparr>sb_pending_operation := Some SNAPSHOTTING,
         sb_status_message := Some ''Preparing cold snapshot.'', sb_version := sb_version r + 1\<rparr>)) (\<lambda>_.
       ebind commit (\<lambda>_. this s)))))"

definition stale_ready_message :: "string \<Rightarrow> bool" where
  "stale_ready_message msg \<longleftrightarrow> contains ''does not exist'' (lower msg) \<or> contains ''suspended'' (lower msg)"

definition apply_ready_now :: "cluster \<Rightarrow> time \<Rightarrow> sandbox \<Rightarrow> string \<Rightarrow> string \<Rightarrow> unit op" where
  "apply_ready_now cl now s sid owner =
     ebind (k8s_get_sandbox cl (k8s_name s) (sb_k8s_namespace s)) (\<lambda>c.
     case c of
       None \<Rightarrow> ret ()
     | Some c \<Rightarrow>
         let (actual_status, msg) = derive_status_from_sandbox_cr c
         in if actual_status \<noteq> READY \<or> stale_ready_message msg then ret ()
            else ebind (get_sandbox sid owner) (\<lambda>refreshed.
              case refreshed of
                None \<Rightarrow> ret ()
              | Some x \<Rightarrow>
                  if \<not> is_valid_transition (sb_status x) READY then ret ()
                  else ebind (assign x (\<lambda>r. r\<lparr>sb_status := READY, sb_status_message := Some msg,
                         sb_version := sb_version r + 1, sb_gmt_started := Some now,
                         sb_k8s_resource_version := cr_resource_version c\<rparr>)) (\<lambda>_. commit)))"

definition resume_k8s :: "cluster \<Rightarrow> time \<Rightarrow> sandbox \<Rightarrow> string \<Rightarrow> string \<Rightarrow> unit op" where
  "resume_k8s cl now s sid owner =
     try_else (k8s_command cl (SetOperatingMode (k8s_name s) (sb_k8s_namespace s) ''Running''))
       (\<lambda>_. mark_error s ''Failed to start sandbox'')
       (\<lambda>_. best_effort (apply_ready_now cl now s sid owner))"

definition start :: "settings \<Rightarrow> bool \<Rightarrow> cluster \<Rightarrow> datetime \<Rightarrow> string \<Rightarrow> string \<Rightarrow> sandbox op" where
  "start cfg metering cl now sid owner =
     ebind (need_sandbox sid owner) (\<lambda>s.
     if sb_pending_operation s \<noteq> None \<or> sb_status s \<notin> {STOPPED, ERROR, COLD}
     then raise (InvalidTransitionError sid (status_str (sb_status s)) ''ready'')
     else ebind (enforce_quotas cfg metering now owner (sb_template s) None (sb_auto_stop_interval s)) (\<lambda>_.
       if sb_status s = COLD then
         ebind (ensure_snapshot_backend_ready cfg cl) (\<lambda>_.
         ebind (assign s (\<lambda>r. r\<lparr>sb_pending_operation := Some RESTORING, sb_gmt_started := Some (utc_ts now),
           sb_gmt_last_active := Some (utc_ts now), sb_status_message := Some ''Queued sandbox restore.'',
           sb_version := sb_version r + 1\<rparr>)) (\<lambda>_.
         ebind commit (\<lambda>_. this s)))
       else
         ebind (assign s (\<lambda>r. r\<lparr>sb_status := CREATING, sb_gmt_started := Some (utc_ts now),
           sb_gmt_last_active := Some (utc_ts now), sb_version := sb_version r + 1\<rparr>)) (\<lambda>_.
         ebind commit (\<lambda>_.
         ebind (resume_k8s cl (utc_ts now) s sid owner) (\<lambda>_. this s)))))"

definition touch_activity :: "time \<Rightarrow> string \<Rightarrow> unit op" where
  "touch_activity now sid =
     ebind (set_sandbox sid (\<lambda>s. s\<lparr>sb_gmt_last_active := Some now\<rparr>)) (\<lambda>_. commit)"

end
