(* ===== verification/Lifecycle_Tasks.thy ===== *)
theory Lifecycle_Tasks
  imports Sandbox_Service
begin

text \<open>
  \<^verbatim>\<open>infra/services/sandbox_lifecycle_tasks.py\<close>: idle auto-stop and scheduled auto-delete, and the two callbacks that
  \<^verbatim>\<open>sync_supervisor.py\<close> passes to them.

  Each sandbox is handled in a savepoint (\<^verbatim>\<open>begin_nested\<close>, here \<open>transaction\<close>): an exception undoes its rows and
  is logged. The callback is an argument; without it the task only changes the database. The clock is read again and again
  during a tick, and \<open>lifecycle_clock\<close> holds the readings, in no assumed order.
\<close>

subsection \<open>The callbacks of the supervisor\<close>

definition k8s_stop_sandbox :: "cluster \<Rightarrow> sandbox \<Rightarrow> unit op" where
  "k8s_stop_sandbox cl s = k8s_command cl (SetOperatingMode (k8s_name s) (sb_k8s_namespace s) ''Suspended'')"

definition set_web_link :: "string \<Rightarrow> time option \<Rightarrow> time \<Rightarrow> unit op" where
  "set_web_link sid deleted now = modify (\<lambda>w. w\<lparr>web_links := update_where (\<lambda>l. wl_sandbox_id l = sid)
     (\<lambda>l. l\<lparr>wl_gmt_deleted := deleted, wl_gmt_updated := now\<rparr>) (web_links w)\<rparr>)"

definition auto_delete_cold :: "cluster \<Rightarrow> time \<Rightarrow> sandbox \<Rightarrow> unit op" where
  "auto_delete_cold cl now s =
     ebind (this s) (\<lambda>r.
     ebind (try_catch (ebind (delete_bound_snapshot cl r) (\<lambda>_. assign s clear_snapshot_binding))
       (\<lambda>_. raise (AutoDeleteFailure ''Auto-delete failed: could not clean up cold snapshot asset'' False))) (\<lambda>_.
     ebind (try_catch (ebind (record_storage_release now (sb_id s)) (\<lambda>_. ret ()))
       (\<lambda>_. raise (AutoDeleteFailure ''Auto-delete failed: could not release storage ledger'' True))) (\<lambda>_.
     assign s (\<lambda>r. r\<lparr>sb_status := DELETED, sb_gmt_deleted := Some now, sb_version := sb_version r + 1\<rparr>))))"

text \<open>A sandbox has at most one web link (a unique constraint), so that its id identifies the link.\<close>

definition auto_delete_live :: "cluster \<Rightarrow> time \<Rightarrow> web_link option \<Rightarrow> sandbox \<Rightarrow> unit op" where
  "auto_delete_live cl now link s =
     ebind (assign s (\<lambda>r. r\<lparr>sb_status := DELETING, sb_version := sb_version r + 1\<rparr>)) (\<lambda>_.
     try_catch (ebind (this s) (delete_k8s_resource cl))
       (\<lambda>e. ebind (assign s (\<lambda>r. r\<lparr>sb_status := STOPPED, sb_version := sb_version r - 1\<rparr>)) (\<lambda>_.
            ebind (if link = None then ret () else set_web_link (sb_id s) None now) (\<lambda>_. raise e))))"

definition k8s_delete_sandbox :: "cluster \<Rightarrow> time \<Rightarrow> sandbox \<Rightarrow> unit op" where
  "k8s_delete_sandbox cl now s =
     ebind (select_one_or_none (\<lambda>w. filter (\<lambda>l. wl_sandbox_id l = sb_id s \<and> wl_gmt_deleted l = None) (web_links w))) (\<lambda>link.
     ebind (if link = None then ret () else set_web_link (sb_id s) (Some now) now) (\<lambda>_.
     ebind (this s) (\<lambda>r.
     if sb_status r = COLD \<or> sb_storage_backend_mode r = Some STANDARD_SNAPSHOT then auto_delete_cold cl now s
     else auto_delete_live cl now link s)))"

subsection \<open>Idle auto-stop\<close>

definition idle_candidate :: "sandbox \<Rightarrow> bool" where
  "idle_candidate s \<longleftrightarrow> sb_status s = READY \<and> sb_gmt_last_active s \<noteq> None \<and> 0 < sb_auto_stop_interval s"

definition idle_for :: "time \<Rightarrow> sandbox \<Rightarrow> int" where
  "idle_for now s = now - (case sb_gmt_last_active s of Some t \<Rightarrow> t | None \<Rightarrow> now)"

definition lifecycle_db_only_stop :: "time \<Rightarrow> sandbox \<Rightarrow> unit op" where
  "lifecycle_db_only_stop now s = assign s (\<lambda>r. r\<lparr>sb_status := STOPPED, sb_gmt_stopped := Some now, sb_version := sb_version r + 1\<rparr>)"

text \<open>The code reads the clock at the start of a check, again when it stops or deletes a sandbox, and again when it closes
  the session: calls to the cluster lie between. \<open>ck\<close> gives the readings at the stop and at the close for the id of a sandbox.\<close>

definition stop_idle :: "datetime \<Rightarrow> (string \<Rightarrow> time \<times> datetime) \<Rightarrow> stop_callback option \<Rightarrow> sandbox \<Rightarrow> unit op" where
  "stop_idle now ck cb s =
     ebind (case cb of
         Some stop_callback \<Rightarrow>
           ebind (stop_callback s) (\<lambda>_.
           ebind (this s) (\<lambda>r.
           if sb_status r = READY then lifecycle_db_only_stop (fst (ck (sb_id s))) s else ret ()))
       | None \<Rightarrow> lifecycle_db_only_stop (fst (ck (sb_id s))) s) (\<lambda>_.
     ebind (close_compute_session (snd (ck (sb_id s))) (sb_id s)) (\<lambda>_.
     record_audit_event ''sandbox.idle_auto_stop'' ''sandbox'' (sb_id s)
       [(''owner_id'', MStr (sb_owner_id s)), (''auto_stop_interval_minutes'', MInt (sb_auto_stop_interval s)),
        (''idle_seconds'', MInt (int_seconds (idle_for (utc_ts now) s)))]))"

definition check_idle_one :: "datetime \<Rightarrow> (string \<Rightarrow> time \<times> datetime) \<Rightarrow> stop_callback option \<Rightarrow> sandbox \<Rightarrow> unit op" where
  "check_idle_one now ck cb s =
     (if total_seconds (idle_for (utc_ts now) s) \<le> of_int (sb_auto_stop_interval s * 60) then ret ()
      else best_effort (transaction (stop_idle now ck cb s)))"

definition check_idle_auto_stop :: "datetime \<Rightarrow> (string \<Rightarrow> time \<times> datetime) \<Rightarrow> stop_callback option \<Rightarrow> unit op" where
  "check_idle_auto_stop now ck cb =
     ebind (gets (\<lambda>w. filter idle_candidate (sandboxes w))) (\<lambda>xs.
     ebind (for_each xs (check_idle_one now ck cb)) (\<lambda>_. commit))"

subsection \<open>Auto-delete\<close>

definition delete_candidate :: "sandbox \<Rightarrow> bool" where
  "delete_candidate s \<longleftrightarrow> sb_status s \<in> {STOPPED, COLD} \<and> sb_pending_operation s = None \<and>
     0 < sb_auto_delete_interval s \<and> sb_gmt_stopped s \<noteq> None"

definition stopped_for :: "time \<Rightarrow> sandbox \<Rightarrow> int" where
  "stopped_for now s = now - (case sb_gmt_stopped s of Some t \<Rightarrow> t | None \<Rightarrow> now)"

definition db_only_delete :: "time \<Rightarrow> sandbox \<Rightarrow> unit op" where
  "db_only_delete now s = assign s (\<lambda>r. r\<lparr>sb_status := DELETED, sb_gmt_deleted := Some now, sb_version := sb_version r + 1\<rparr>)"

definition delete_stopped :: "time \<Rightarrow> (string \<Rightarrow> time) \<Rightarrow> (sandbox \<Rightarrow> unit op) option \<Rightarrow> sandbox \<Rightarrow> unit op" where
  "delete_stopped now ck cb s =
     ebind (case cb of Some delete_callback \<Rightarrow> delete_callback s | None \<Rightarrow> db_only_delete (ck (sb_id s)) s) (\<lambda>_.
     record_audit_event ''sandbox.auto_delete'' ''sandbox'' (sb_id s)
       [(''owner_id'', MStr (sb_owner_id s)), (''auto_delete_interval_minutes'', MInt (sb_auto_delete_interval s)),
        (''stopped_seconds'', MInt (int_seconds (stopped_for now s)))])"

definition auto_delete_failed :: "string \<Rightarrow> bool \<Rightarrow> sandbox \<Rightarrow> sandbox" where
  "auto_delete_failed message clear_binding r =
     (let r' = r\<lparr>sb_status := ERROR, sb_status_message := Some message, sb_version := sb_version r + 1\<rparr>
      in if clear_binding
         then r'\<lparr>sb_snapshot_provider_id := None, sb_snapshot_name := None, sb_snapshot_content_name := None\<rparr> else r')"

definition persist_auto_delete_failure :: "sandbox \<Rightarrow> string \<Rightarrow> bool \<Rightarrow> unit op" where
  "persist_auto_delete_failure s message clear_binding =
     ebind (gets (\<lambda>w. find (\<lambda>r. sb_id r = sb_id s) (sandboxes w))) (\<lambda>found.
     case found of
       None \<Rightarrow> ret ()
     | Some r \<Rightarrow> if sb_gmt_deleted r \<noteq> None then ret () else assign s (auto_delete_failed message clear_binding))"

definition check_delete_one :: "time \<Rightarrow> (string \<Rightarrow> time) \<Rightarrow> (sandbox \<Rightarrow> unit op) option \<Rightarrow> sandbox \<Rightarrow> unit op" where
  "check_delete_one now ck cb s =
     (if total_seconds (stopped_for now s) \<le> of_int (sb_auto_delete_interval s * 60) then ret ()
      else try_catch (transaction (delete_stopped now ck cb s))
        (\<lambda>e. case e of AutoDeleteFailure m b \<Rightarrow> best_effort (persist_auto_delete_failure s m b) | _ \<Rightarrow> ret ()))"

definition check_auto_delete :: "time \<Rightarrow> (string \<Rightarrow> time) \<Rightarrow> (sandbox \<Rightarrow> unit op) option \<Rightarrow> unit op" where
  "check_auto_delete now ck cb =
     ebind (gets (\<lambda>w. filter delete_candidate (sandboxes w))) (\<lambda>xs.
     ebind (for_each xs (check_delete_one now ck cb)) (\<lambda>_. commit))"

subsection \<open>The tick\<close>

text \<open>The two checks read the clock when they start.\<close>

record lifecycle_clock =
  lc_idle :: datetime
  lc_stop :: "string \<Rightarrow> time \<times> datetime"
  lc_due :: time
  lc_delete :: "string \<Rightarrow> time"

definition run_lifecycle_tick :: "lifecycle_clock \<Rightarrow> stop_callback option \<Rightarrow> (sandbox \<Rightarrow> unit op) option \<Rightarrow> unit op" where
  "run_lifecycle_tick clock stop_cb delete_cb =
     ebind (best_effort (transaction (check_idle_auto_stop (lc_idle clock) (lc_stop clock) stop_cb))) (\<lambda>_.
     best_effort (transaction (check_auto_delete (lc_due clock) (lc_delete clock) delete_cb)))"

end
