(* ===== verification/Row_Logic.thy ===== *)
theory Row_Logic
  imports Storage_Snapshot
begin

text \<open>
  Reasoning about the row of a loaded object.

  \<open>row_at I s F w\<close>: the sandbox table satisfies \<open>I\<close>, and the row of the object \<open>s\<close> satisfies \<open>F\<close>. The locale
  \<open>row_logic\<close> asks of \<open>I\<close> that ids are unique and that it survives an update of rows by \<open>ok\<close> steps; it
  gives triples for reading the object (\<open>this\<close>), mutating it (\<open>assign\<close>) and for everything that leaves the
  table alone. It is interpreted twice: on the invariant of cold storage and on the moves of the
  sandbox service.
\<close>

definition row_at :: "(sandbox list \<Rightarrow> bool) \<Rightarrow> sandbox \<Rightarrow> (sandbox \<Rightarrow> bool) \<Rightarrow> world \<Rightarrow> bool" where
  "row_at I s F w \<longleftrightarrow> I (sandboxes w) \<and> (\<forall>r \<in> set (sandboxes w). sb_id r = sb_id s \<longrightarrow> F r)"

lemma row_at_frame [simp]:
  "row_at I s F (w\<lparr>k8s_log := l\<rparr>) = row_at I s F w" "row_at I s F (w\<lparr>storage_ledgers := x\<rparr>) = row_at I s F w"
  "row_at I s F (w\<lparr>compute_sessions := y\<rparr>) = row_at I s F w" "row_at I s F (w\<lparr>ids_drawn := i\<rparr>) = row_at I s F w"
  "row_at I s F (w\<lparr>web_links := z\<rparr>) = row_at I s F w" "row_at I s F (w\<lparr>user_plans := ps\<rparr>) = row_at I s F w"
  "row_at I s F (w\<lparr>compute_grants := gs\<rparr>) = row_at I s F w" "row_at I s F (store_rows w) = row_at I s F w"
  by (simp_all add: row_at_def)

lemma row_at_mono: "row_at I s F w \<Longrightarrow> (\<And>r. F r \<Longrightarrow> G r) \<Longrightarrow> row_at I s G w"
  by (simp add: row_at_def)

lemma row_at_inv: "row_at I s F w \<Longrightarrow> I (sandboxes w)"
  by (simp add: row_at_def)

lemma this_run [simp]: "this s w = (Inr (this_row s w), w)"
  by (simp add: this_def)

lemma find_distinct_key: "distinct (map k rs) \<Longrightarrow> r \<in> set rs \<Longrightarrow> find (\<lambda>x. k x = k r) rs = Some r"
  by (induction rs) (auto simp: image_iff)

lemma this_row_unique:
  assumes "distinct (map sb_id (sandboxes w))" "r \<in> set (sandboxes w)" "sb_id r = sb_id s"
  shows "this_row s w = r"
  using find_distinct_key [OF assms(1,2)] assms(3) by (simp add: this_row_def)

lemma keeps_this [keeps_intros]: "keeps P (this s)"
  by (simp add: keeps_def)

lemma keeps_try_else [keeps_intros]:
  "keeps P m \<Longrightarrow> (\<And>e. keeps P (h e)) \<Longrightarrow> (\<And>a. keeps P (k a)) \<Longrightarrow> keeps P (try_else m h k)"
  unfolding keeps_def try_else_def by (fastforce split: prod.splits sum.splits)

lemma keeps_first_pvc: "(\<And>w l. P w \<Longrightarrow> P (w\<lparr>k8s_log := l\<rparr>)) \<Longrightarrow> keeps P (first_pvc cl ns names)"
  by (induction names) (auto intro!: keeps_intros)

lemma keeps_backend [keeps_intros]:
  assumes "\<And>w l. P w \<Longrightarrow> P (w\<lparr>k8s_log := l\<rparr>)"
  shows "keeps P (ensure_ready cfg cl)" "keeps P (create_snapshot cfg cl x p)" "keeps P (get_snapshot cl x)"
    "keeps P (get_snapshot_content cl x)" "keeps P (delete_bound_snapshot cl x)" "keeps P (find_workspace_pvc cl x)"
    "keeps P (create_restored_sandbox cfg cl x mode)"
  unfolding ensure_ready_def create_snapshot_def get_snapshot_def get_snapshot_content_def delete_bound_snapshot_def
    delete_snapshot_object_def find_workspace_pvc_def create_restored_sandbox_def resolve_template_def Let_def
  by (intro keeps_intros keeps_first_pvc assms; assumption)+

lemma keeps_ledger_ops [keeps_intros]:
  assumes "\<And>w x. P w \<Longrightarrow> P (w\<lparr>storage_ledgers := x\<rparr>)"
  shows "keeps P (update_storage_backend_mode t sid mode)" "keeps P (record_storage_release t sid)"
  unfolding update_storage_backend_mode_def record_storage_release_def set_ledger_def
  by (intro keeps_intros assms; assumption)+

lemma valid_row_pre: "valid (row_at I s F) m Q X \<Longrightarrow> (\<And>r. G r \<Longrightarrow> F r) \<Longrightarrow> valid (row_at I s G) m Q X"
  by (erule valid_pre) (auto elim: row_at_mono)

lemma valid_row_any: "keeps (row_at I s F) m \<Longrightarrow> valid (row_at I s F) m (\<lambda>_. row_at I s F) (\<lambda>_. True)"
  using valid_keeps by (rule valid_weaken) auto

lemma valid_then:
  "keeps (row_at I s F) m \<Longrightarrow> (\<And>a. valid (row_at I s F) (f a) Q (\<lambda>_. True)) \<Longrightarrow>
   valid (row_at I s F) (ebind m f) Q (\<lambda>_. True)"
  by (rule valid_ebind [OF valid_row_any])

lemmas valid_step = valid_then valid_if valid_case_option

locale row_logic =
  fixes I :: "sandbox list \<Rightarrow> bool" and ok :: "sandbox \<Rightarrow> sandbox \<Rightarrow> bool"
  assumes ids: "I rs \<Longrightarrow> distinct (map sb_id rs)"
    and update: "I rs \<Longrightarrow> (\<And>r. r \<in> set rs \<Longrightarrow> p r \<Longrightarrow> ok r (f r)) \<Longrightarrow> I (update_where p f rs)"
    and ok_id: "ok r r' \<Longrightarrow> sb_id r' = sb_id r"
begin

lemma valid_this:
  assumes "\<And>x. valid (row_at I s (\<lambda>r. F r \<and> r = x)) (f x) Q X"
  shows "valid (row_at I s F) (ebind (this s) f) Q X"
proof (rule valid_ebind)
  show "valid (row_at I s F) (this s) (\<lambda>x w. row_at I s (\<lambda>r. F r \<and> r = x) w) X"
    by (auto simp: valid_def row_at_def this_row_unique dest: ids)
qed (rule assms)

lemma row_at_assign:
  assumes "row_at I s F w" "\<And>r. F r \<Longrightarrow> ok r (f r) \<and> G (f r)"
  shows "row_at I s G (snd (assign s f w))"
proof -
  have "sb_id (f r) = sb_id s" if "r \<in> set (sandboxes w)" "sb_id r = sb_id s" for r
    using that assms ok_id [of r "f r"] by (auto simp: row_at_def)
  with assms show ?thesis
    unfolding row_at_def assign_def by (auto simp: set_update_where intro!: update)
qed

lemma valid_assign:
  assumes "\<And>r. F r \<Longrightarrow> ok r (f r) \<and> G (f r)"
  shows "valid (row_at I s F) (assign s f) (\<lambda>_. row_at I s G) X"
  using row_at_assign [OF _ assms] by (auto simp: valid_def assign_def)

lemma valid_assign_inv:
  assumes "\<And>r. F r \<Longrightarrow> ok r (f r)"
  shows "valid (row_at I s F) (assign s f) (\<lambda>_ w. I (sandboxes w)) X"
  using valid_assign [of F f "\<lambda>_. True" s X] assms by (auto elim!: valid_weaken dest: row_at_inv)

lemma keeps_row_assign:
  assumes "\<And>r. F r \<Longrightarrow> ok r (f r) \<and> F (f r)"
  shows "keeps (row_at I s F) (assign s f)"
  using row_at_assign [OF _ assms] by (auto simp: keeps_def)

end

end
