(* ===== verification/Snapshot_Safety.thy ===== *)
theory Snapshot_Safety
  imports Row_Logic
begin

text \<open>
  What cold snapshots guarantee.

  \<^item> The order of calls: a live disk is only given up after the cluster said that the snapshot is ready
    to use (\<open>snapshot_before_release\<close>).
  \<^item> The rows: a cold sandbox always has a snapshot to restore from (\<open>cold_ok\<close>).
  \<^item> Progress: with a cluster that has finished its work, a tick cuts the sandbox over.
  \<^item> Two traces in which the only copy of the workspace is deleted.
\<close>

subsection \<open>Calls of the snapshot workflow\<close>

lemma calls_this [calls_intros]: "calls Q (this s)" "calls Q (assign s f)"
  unfolding this_def assign_def by (intro calls_intros)+

lemma calls_outcomes [calls_intros]:
  "calls Q (fail_snapshot s m)" "calls Q (fail_restore s m)" "calls Q (set_message s m)"
  unfolding fail_snapshot_def fail_restore_def set_message_def by (intro calls_intros)+

lemma calls_first_pvc [calls_intros]: "(\<And>n. Q (GetPVC n ns)) \<Longrightarrow> calls Q (first_pvc cl ns names)"
  by (induction names) (auto intro!: calls_intros)

text \<open>The calls that give up a live disk, and those that give up a snapshot.\<close>

fun drops_disk :: "k8s_call \<Rightarrow> bool" where
  "drops_disk (DeletePVC _ _) = True"
| "drops_disk (DeleteSandbox _ _) = True"
| "drops_disk _ = False"

fun drops_snapshot :: "k8s_call \<Rightarrow> bool" where
  "drops_snapshot (DeleteVolumeSnapshot _ _) = True"
| "drops_snapshot (DeleteVolumeSnapshotContent _) = True"
| "drops_snapshot _ = False"

abbreviation harmless :: "k8s_call \<Rightarrow> bool" where
  "harmless c \<equiv> \<not> drops_disk c \<and> \<not> drops_snapshot c"

lemma calls_reads [calls_intros]:
  "calls harmless (ensure_ready cfg cl)" "calls harmless (create_snapshot cfg cl s p)"
  "calls harmless (get_snapshot cl s)" "calls harmless (get_snapshot_content cl s)"
  "calls harmless (refresh_workspace_binding cl s)" "calls harmless (create_restored_sandbox cfg cl s mode)"
  unfolding ensure_ready_def create_snapshot_def get_snapshot_def get_snapshot_content_def
    refresh_workspace_binding_def find_workspace_pvc_def create_restored_sandbox_def resolve_template_def Let_def
  by (intro calls_intros; simp)+

lemma calls_begin_snapshot: "calls harmless (begin_snapshot cfg str_exc cl s)"
  unfolding begin_snapshot_def Let_def by (intro calls_intros; simp)+

lemma calls_delete_bound: "calls (\<lambda>c. \<not> drops_disk c) (delete_bound_snapshot cl s)"
  unfolding delete_bound_snapshot_def delete_snapshot_object_def by (intro calls_intros; simp)+

subsection \<open>A disk is only released after its snapshot is ready\<close>

text \<open>\<open>ready_reply cl l n ns\<close>: asked for the snapshot after the calls \<open>l\<close>, the cluster answers that it is ready.\<close>

definition ready_reply :: "cluster \<Rightarrow> k8s_call list \<Rightarrow> string \<Rightarrow> string \<Rightarrow> bool" where
  "ready_reply cl l n ns \<longleftrightarrow>
     (\<exists>sn. cl l (GetVolumeSnapshot n ns) = Inr (RSnapshot (Some sn)) \<and> vs_ready_to_use sn)"

definition confirmed_before :: "cluster \<Rightarrow> string \<Rightarrow> string \<Rightarrow> k8s_call list \<Rightarrow> k8s_call list \<Rightarrow> bool" where
  "confirmed_before cl n ns base L \<longleftrightarrow>
     (\<exists>X Y. L = X @ GetVolumeSnapshot n ns # Y \<and> ready_reply cl (base @ X) n ns)"

definition disk_safe :: "cluster \<Rightarrow> string \<Rightarrow> string \<Rightarrow> k8s_call list \<Rightarrow> k8s_call list \<Rightarrow> bool" where
  "disk_safe cl n ns base final \<longleftrightarrow>
     (\<exists>L. final = base @ L \<and> (\<forall>A c B. L = A @ c # B \<longrightarrow> drops_disk c \<longrightarrow> confirmed_before cl n ns base A))"

lemma disk_safe_none:
  assumes "final = base @ L" "list_all (\<lambda>c. \<not> drops_disk c) L"
  shows "disk_safe cl n ns base final"
  using assms unfolding disk_safe_def by (intro exI [of _ L]) auto

lemma disk_safe_confirmed:
  assumes final: "final = base @ L @ GetVolumeSnapshot n ns # K" and quiet: "list_all (\<lambda>c. \<not> drops_disk c) L"
    and ready: "ready_reply cl (base @ L) n ns"
  shows "disk_safe cl n ns base final"
  unfolding disk_safe_def
proof (intro exI conjI allI impI)
  show "final = base @ (L @ GetVolumeSnapshot n ns # K)" using final by simp
next
  fix A c B
  assume split: "L @ GetVolumeSnapshot n ns # K = A @ c # B" and "drops_disk c"
  have "length L < length A"
  proof (rule ccontr)
    assume "\<not> length L < length A"
    then consider "length A < length L" | "length A = length L" by linarith
    then show False
    proof cases
      case 1
      then have "c = L ! length A"
        using split by (metis nth_append nth_append_length)
      with 1 quiet \<open>drops_disk c\<close> show False by (simp add: list_all_length)
    next
      case 2
      with split \<open>drops_disk c\<close> show False by (auto simp: append_eq_append_conv)
    qed
  qed
  with split obtain D where "A = L @ GetVolumeSnapshot n ns # D"
    by (auto simp: append_eq_append_conv2 append_eq_Cons_conv Cons_eq_append_conv)
  with ready show "confirmed_before cl n ns base A" unfolding confirmed_before_def by blast
qed

lemma this_row_log [simp]: "this_row s (w\<lparr>k8s_log := l\<rparr>) = this_row s w"
  by (simp add: this_row_def)

lemma calls_after_ready:
  "calls (\<lambda>_. True) (release_live_workspace_assets cl s)" "calls (\<lambda>_. True) (cut_over cl now s)"
  "calls (\<lambda>_. True) (delete_bound_snapshot cl s)"
  unfolding release_live_workspace_assets_def cut_over_def delete_bound_snapshot_def delete_snapshot_object_def
    refresh_workspace_binding_def find_workspace_pvc_def Let_def
  by (intro calls_intros; simp)+

lemma calls_settle:
  "calls (\<lambda>c. drops_disk c \<longrightarrow> (\<exists>sn. snapshot = Some sn \<and> vs_ready_to_use sn)) (settle_snapshot str_exc cl now s snapshot)"
proof (cases "\<exists>sn. snapshot = Some sn \<and> vs_ready_to_use sn")
  case True
  then have "calls (\<lambda>_. True) (settle_snapshot str_exc cl now s snapshot)"
    unfolding settle_snapshot_def
    by (auto intro!: calls_intros calls_after_ready calls_mono [OF calls_reads(4)])
  then show ?thesis using True by (auto intro: calls_mono)
next
  case False
  then have "calls (\<lambda>c. \<not> drops_disk c) (settle_snapshot str_exc cl now s snapshot)"
    unfolding settle_snapshot_def by (auto intro!: calls_intros split: option.split)
  then show ?thesis by (auto intro: calls_mono)
qed

lemma finish_snapshot_log:
  fixes w s
  defines "n \<equiv> the (sb_snapshot_name (this_row s w))" and "ns \<equiv> sb_k8s_namespace (this_row s w)"
  shows "\<exists>L. k8s_log (snd (finish_snapshot str_exc cl now s w)) = k8s_log w @ L \<and>
    (list_all (\<lambda>c. \<not> drops_disk c) L \<or> (\<exists>K. L = GetVolumeSnapshot n ns # K \<and> ready_reply cl (k8s_log w) n ns))"
proof (cases "truthy (sb_snapshot_name (this_row s w))")
  case False
  then show ?thesis
    by (auto simp: finish_snapshot_def get_snapshot_def settle_snapshot_def fail_snapshot_def assign_def)
next
  case True
  let ?g = "GetVolumeSnapshot n ns" and ?w = "w\<lparr>k8s_log := k8s_log w @ [GetVolumeSnapshot n ns]\<rparr>"
  show ?thesis
  proof (cases "\<exists>x. cl (k8s_log w) ?g = Inr (RSnapshot x)")
    case False
    then have "\<exists>e. finish_snapshot str_exc cl now s w = (Inl e, ?w)"
      using True unfolding n_def ns_def
      by (auto simp: finish_snapshot_def get_snapshot_def k8s_get_volume_snapshot_def k8s_do_def ebind_def
          split: sum.splits k8s_reply.splits)
    then show ?thesis by (auto intro!: exI [of _ "[?g]"])
  next
    case ok: True
    then obtain x where x: "cl (k8s_log w) ?g = Inr (RSnapshot x)" by blast
    have run: "finish_snapshot str_exc cl now s w = settle_snapshot str_exc cl now s x ?w"
      using True x unfolding n_def ns_def
      by (simp add: finish_snapshot_def get_snapshot_def k8s_get_volume_snapshot_def k8s_do_def)
    obtain r u where u: "settle_snapshot str_exc cl now s x ?w = (r, u)" by (cases "settle_snapshot str_exc cl now s x ?w")
    obtain K where K: "k8s_log u = k8s_log ?w @ K" "list_all (\<lambda>c. drops_disk c \<longrightarrow> (\<exists>sn. x = Some sn \<and> vs_ready_to_use sn)) K"
      by (rule callsE [OF calls_settle u])
    have "ready_reply cl (k8s_log w) n ns" if "\<exists>sn. x = Some sn \<and> vs_ready_to_use sn"
      using that x by (auto simp: ready_reply_def)
    moreover have "list_all (\<lambda>c. \<not> drops_disk c) (?g # K)" if "\<not> (\<exists>sn. x = Some sn \<and> vs_ready_to_use sn)"
      using that K(2) by (simp add: list_all_iff) blast
    ultimately show ?thesis
      using run u K(1) by (intro exI [of _ "?g # K"]) auto
  qed
qed

lemma find_update_where:
  "(\<And>r. k (f r) = k r) \<Longrightarrow> find (\<lambda>r. k r = i) (update_where (\<lambda>r. k r = i) f rs) = map_option f (find (\<lambda>r. k r = i) rs)"
  by (induction rs) auto

lemma this_row_assign:
  assumes "\<And>r. sb_id (f r) = sb_id r" "\<And>r. g (f r) = g r"
  shows "g (this_row s (snd (assign s f w))) = g (this_row s w)"
  using assms find_update_where [of sb_id f "sb_id s" "sandboxes w"]
  by (simp add: this_row_def assign_def split: option.split)

text \<open>C3: a tick never gives up the only copy of a workspace: in every run of the snapshot workflow, whatever the
  cluster answers and wherever it fails, each call that deletes the sandbox CR or its volume claim comes
  after a call, made in the same run, to which the cluster answered that the bound snapshot is ready to use.\<close>

theorem snapshot_before_release:
  "disk_safe cl (the (sb_snapshot_name (this_row s w))) (sb_k8s_namespace (this_row s w)) (k8s_log w)
     (k8s_log (snd (process_snapshotting cfg str_exc cl now s w)))"
proof -
  let ?n = "the (sb_snapshot_name (this_row s w))" and ?ns = "sb_k8s_namespace (this_row s w)"
  let ?m = "if sb_persist (this_row s w) \<and> sb_storage_backend_mode (this_row s w) = None
     then assign s (\<lambda>s. s\<lparr>sb_storage_backend_mode := Some LIVE_DISK\<rparr>) else ret ()"
  obtain v where v: "?m w = (Inr (), v)" and log_v: "k8s_log v = k8s_log w" and sandboxes_v: "v = snd (?m w)"
    by (simp add: assign_def)
  have row_v: "sb_snapshot_name (this_row s v) = sb_snapshot_name (this_row s w)"
    "sb_k8s_namespace (this_row s v) = sb_k8s_namespace (this_row s w)"
    unfolding sandboxes_v by (auto intro: this_row_assign)
  obtain r u where ready: "ensure_ready cfg cl v = (r, u)" by (cases "ensure_ready cfg cl v")
  then obtain L where L: "k8s_log u = k8s_log w @ L" "list_all harmless L"
    using callsE [OF calls_reads(1)] log_v by metis
  have "keeps (\<lambda>w. sandboxes w = sandboxes v) (ensure_ready cfg cl)"
    unfolding ensure_ready_def by (auto intro!: keeps_intros)
  then have "sandboxes u = sandboxes v" using keepsD [of _ "ensure_ready cfg cl" v] ready by auto
  then have row_u: "this_row s u = this_row s v" by (simp add: this_row_def)
  let ?next = "case r of Inl e \<Rightarrow> fail_snapshot s (str_exc e) u | Inr _ \<Rightarrow>
    (if stale_binding (this_row s u) then drop_stale_binding str_exc cl now s
     else if sb_storage_backend_mode (this_row s u) = Some STANDARD_SNAPSHOT
     then assign s (\<lambda>s. s\<lparr>sb_pending_operation := None, sb_status := COLD, sb_status_message := None\<rparr>)
     else if sb_snapshot_name (this_row s u) = None then begin_snapshot cfg str_exc cl s
     else finish_snapshot str_exc cl now s) u"
  have run: "process_snapshotting cfg str_exc cl now s w = ?next"
    by (simp add: process_snapshotting_def v try_else_def ready split: sum.split)
  have quiet: "calls (\<lambda>c. \<not> drops_disk c) (drop_stale_binding str_exc cl now s)"
    "calls (\<lambda>c. \<not> drops_disk c) (begin_snapshot cfg str_exc cl s)"
    unfolding drop_stale_binding_def
    by (intro calls_intros calls_delete_bound, rule calls_mono [OF calls_begin_snapshot], simp)
  have "\<exists>K. k8s_log (snd ?next) = k8s_log u @ K \<and> (list_all (\<lambda>c. \<not> drops_disk c) K \<or>
      (\<exists>M. K = GetVolumeSnapshot ?n ?ns # M \<and> ready_reply cl (k8s_log u) ?n ?ns))"
    using finish_snapshot_log [of str_exc cl now s u] quiet
    by (cases r) (auto simp: row_u row_v calls_def fail_snapshot_def assign_def)
  then obtain K where K: "k8s_log (snd ?next) = k8s_log w @ L @ K"
    "list_all (\<lambda>c. \<not> drops_disk c) K \<or> (\<exists>M. K = GetVolumeSnapshot ?n ?ns # M \<and> ready_reply cl (k8s_log w @ L) ?n ?ns)"
    using L(1) by auto
  have L': "list_all (\<lambda>c. \<not> drops_disk c) L" using L(2) by (simp add: list_all_iff)
  from K(2) show ?thesis
    unfolding run using K(1) L' by (auto intro: disk_safe_confirmed disk_safe_none)
qed

subsection \<open>A cold sandbox can be restored\<close>

definition cold_ok :: "sandbox \<Rightarrow> bool" where
  "cold_ok r \<longleftrightarrow>
     (sb_status r \<noteq> DELETED \<and> sb_storage_backend_mode r = Some STANDARD_SNAPSHOT \<longrightarrow> truthy (sb_snapshot_name r)) \<and>
     (sb_status r = COLD \<longrightarrow> sb_storage_backend_mode r = Some STANDARD_SNAPSHOT) \<and>
     (sb_pending_operation r = Some SNAPSHOTTING \<longrightarrow> sb_status r = STOPPED) \<and>
     (sb_pending_operation r = Some RESTORING \<longrightarrow> sb_status r = COLD)"

definition cold_rows :: "sandbox list \<Rightarrow> bool" where
  "cold_rows rs \<longleftrightarrow> distinct (map sb_id rs) \<and> (\<forall>r \<in> set rs. cold_ok r)"

definition cold_inv :: "world \<Rightarrow> bool" where
  "cold_inv w \<longleftrightarrow> cold_rows (sandboxes w)"

abbreviation cold_step :: "sandbox \<Rightarrow> sandbox \<Rightarrow> bool" where
  "cold_step r r' \<equiv> sb_id r' = sb_id r \<and> (cold_ok r \<longrightarrow> cold_ok r')"

interpretation cold: row_logic cold_rows cold_step
proof
  fix rs p f
  assume inv: "cold_rows rs" and step: "\<And>r. r \<in> set rs \<Longrightarrow> p r \<Longrightarrow> cold_step r (f r)"
  then have "map sb_id (update_where p f rs) = map sb_id rs" by (induction rs) (auto simp: cold_rows_def)
  then show "cold_rows (update_where p f rs)"
    using inv step by (auto simp: cold_rows_def set_update_where)
qed (simp_all add: cold_rows_def)

definition row_is :: "sandbox \<Rightarrow> (sandbox \<Rightarrow> bool) \<Rightarrow> world \<Rightarrow> bool" where
  "row_is s F = row_at cold_rows s (\<lambda>r. cold_ok r \<and> F r)"

lemma row_is_frame [simp]:
  "row_is s F (w\<lparr>k8s_log := l\<rparr>) = row_is s F w" "row_is s F (w\<lparr>storage_ledgers := x\<rparr>) = row_is s F w"
  "row_is s F (w\<lparr>compute_sessions := y\<rparr>) = row_is s F w" "row_is s F (w\<lparr>ids_drawn := i\<rparr>) = row_is s F w"
  by (simp_all add: row_is_def)

lemma row_is_inv: "row_is s F w \<Longrightarrow> cold_inv w"
  by (simp add: row_is_def row_at_def cold_inv_def)

lemma row_is_mono: "row_is s F w \<Longrightarrow> (\<And>r. cold_ok r \<Longrightarrow> F r \<Longrightarrow> G r) \<Longrightarrow> row_is s G w"
  unfolding row_is_def by (erule row_at_mono) blast

lemma valid_cold_this:
  "(\<And>x. valid (row_is s (\<lambda>r. F r \<and> r = x)) (f x) Q X) \<Longrightarrow> valid (row_is s F) (ebind (this s) f) Q X"
  unfolding row_is_def by (rule cold.valid_this) (simp add: conj_assoc)

lemma valid_cold_assign:
  assumes "\<And>r. cold_ok r \<Longrightarrow> F r \<Longrightarrow> cold_ok (f r) \<and> G (f r)" "\<And>r. sb_id (f r) = sb_id r"
  shows "valid (row_is s F) (assign s f) (\<lambda>_. row_is s G) X"
  unfolding row_is_def using assms by (intro cold.valid_assign) auto

lemma valid_cold_assign_inv:
  assumes "\<And>r. cold_ok r \<Longrightarrow> F r \<Longrightarrow> cold_ok (f r)" "\<And>r. sb_id (f r) = sb_id r"
  shows "valid (row_is s F) (assign s f) (\<lambda>_. cold_inv) X"
  unfolding row_is_def cold_inv_def using assms by (intro cold.valid_assign_inv) auto

lemma keeps_cold_assign:
  assumes "\<And>r. cold_ok r \<Longrightarrow> F r \<Longrightarrow> cold_ok (f r) \<and> F (f r)" "\<And>r. sb_id (f r) = sb_id r"
  shows "keeps (row_is s F) (assign s f)"
  unfolding row_is_def using assms by (intro cold.keeps_row_assign) auto

lemma valid_cold_pre: "valid (row_is s F) m Q X \<Longrightarrow> (\<And>r. cold_ok r \<Longrightarrow> G r \<Longrightarrow> F r) \<Longrightarrow> valid (row_is s G) m Q X"
  unfolding row_is_def by (erule valid_row_pre) blast

lemma valid_cold_any: "keeps (row_is s F) m \<Longrightarrow> valid (row_is s F) m (\<lambda>_. row_is s F) (\<lambda>_. True)"
  unfolding row_is_def by (rule valid_row_any)

lemma valid_cold_then:
  "keeps (row_is s F) m \<Longrightarrow> (\<And>a. valid (row_is s F) (f a) Q (\<lambda>_. True)) \<Longrightarrow> valid (row_is s F) (ebind m f) Q (\<lambda>_. True)"
  unfolding row_is_def by (rule valid_then)

lemmas valid_cold_step = valid_cold_then valid_if valid_case_option

text \<open>Finding the disk writes four columns only.\<close>

lemma keeps_refresh_binding:
  assumes "\<And>r a b c d. F (r\<lparr>sb_k8s_workspace_pvc_name := a, sb_k8s_workspace_pv_name := b\<rparr>) = F r"
    "\<And>r c d. F (r\<lparr>sb_workspace_volume_handle := c, sb_workspace_zone := d\<rparr>) = F r"
  shows "keeps (row_is s F) (refresh_workspace_binding cl s)"
  unfolding refresh_workspace_binding_def
  by (intro keeps_intros keeps_this keeps_backend keeps_cold_assign) (simp_all add: assms cold_ok_def)

lemma keeps_release_assets:
  assumes "\<And>r a b c d. F (r\<lparr>sb_k8s_workspace_pvc_name := a, sb_k8s_workspace_pv_name := b\<rparr>) = F r"
    "\<And>r c d. F (r\<lparr>sb_workspace_volume_handle := c, sb_workspace_zone := d\<rparr>) = F r"
  shows "keeps (row_is s F) (release_live_workspace_assets cl s)"
  unfolding release_live_workspace_assets_def Let_def
  by (intro keeps_intros keeps_this keeps_refresh_binding assms) simp_all

subsubsection \<open>The workflow keeps the invariant\<close>

abbreviation snapping :: "sandbox \<Rightarrow> bool" where
  "snapping r \<equiv> sb_pending_operation r = Some SNAPSHOTTING \<and> sb_status r = STOPPED"

abbreviation snapping_live :: "sandbox \<Rightarrow> bool" where
  "snapping_live r \<equiv> snapping r \<and> sb_storage_backend_mode r \<noteq> Some STANDARD_SNAPSHOT"

abbreviation snapping_bound :: "sandbox \<Rightarrow> bool" where
  "snapping_bound r \<equiv> snapping_live r \<and> truthy (sb_snapshot_name r)"

abbreviation restoring :: "sandbox \<Rightarrow> bool" where
  "restoring r \<equiv> sb_pending_operation r = Some RESTORING \<and> sb_status r = COLD"

lemma valid_outcomes:
  "valid (row_is s snapping) (fail_snapshot s m) (\<lambda>_. cold_inv) X"
  "valid (row_is s restoring) (fail_restore s m) (\<lambda>_. cold_inv) X"
  "valid (row_is s F) (set_message s m) (\<lambda>_. cold_inv) X"
  unfolding fail_snapshot_def fail_restore_def set_message_def
  by (rule valid_cold_assign_inv; simp add: cold_ok_def or_else_def split: option.splits)+

lemma valid_drop_stale:
  "valid (row_is s (\<lambda>r. snapping r \<and> sb_storage_backend_mode r = Some LIVE_DISK)) (drop_stale_binding str_exc cl now s)
     (\<lambda>_. cold_inv) (\<lambda>_. True)"
proof -
  let ?F = "\<lambda>r. snapping r \<and> sb_storage_backend_mode r = Some LIVE_DISK"
  have "keeps (row_is s ?F) (ebind (delete_bound_snapshot cl x) (\<lambda>_. assign s clear_snapshot_binding))" for x
    by (intro keeps_intros keeps_backend keeps_cold_assign) (auto simp: cold_ok_def clear_snapshot_binding_def)
  then have "valid (row_is s ?F) (try_else (ebind (delete_bound_snapshot cl x) (\<lambda>_. assign s clear_snapshot_binding))
      (\<lambda>e. fail_snapshot s (m e)) (\<lambda>_. assign s (\<lambda>r. r\<lparr>sb_gmt_snapshotted := t\<rparr>))) (\<lambda>_. cold_inv) (\<lambda>_. True)" for x m t
    by (rule valid_try_else [OF valid_keeps])
      (auto intro!: valid_cold_assign_inv valid_cold_pre [OF valid_outcomes(1)] simp: cold_ok_def)
  then show ?thesis unfolding drop_stale_binding_def by (intro valid_cold_this) (rule valid_cold_pre, assumption, simp)
qed

lemma valid_begin: "valid (row_is s snapping_live) (begin_snapshot cfg str_exc cl s) (\<lambda>_. cold_inv) (\<lambda>_. True)"
proof -
  have "keeps (row_is s snapping_live) (ebind (create_snapshot cfg cl x p) (\<lambda>name.
      assign s (\<lambda>s. s\<lparr>sb_snapshot_name := Some name, sb_status_message := Some ''Creating cold snapshot.''\<rparr>)))" for x p
    by (intro keeps_intros keeps_backend keeps_cold_assign) (auto simp: cold_ok_def)
  then have create: "valid (row_is s snapping_live) (try_else (ebind (create_snapshot cfg cl x p) (\<lambda>name.
      assign s (\<lambda>s. s\<lparr>sb_snapshot_name := Some name, sb_status_message := Some ''Creating cold snapshot.''\<rparr>)))
      (\<lambda>e. fail_snapshot s (m e)) ret) (\<lambda>_. cold_inv) (\<lambda>_. True)" for x p m
    by (rule valid_try_else [OF valid_keeps])
      (auto intro!: valid_ret valid_cold_pre [OF valid_outcomes(1)] dest: row_is_inv)
  have failed: "valid (row_is s snapping_live) (fail_snapshot s m) (\<lambda>_. cold_inv) (\<lambda>_. True)" for m
    by (rule valid_cold_pre [OF valid_outcomes(1)]) simp
  show ?thesis
    unfolding begin_snapshot_def case_prod_beta Let_def
    by (intro valid_cold_step keeps_this keeps_k8s_calls keeps_refresh_binding create failed valid_outcomes(3)) simp_all
qed

lemma valid_cut_over: "valid (row_is s snapping_bound) (cut_over cl now s) (\<lambda>_. cold_inv) (\<lambda>_. True)"
proof -
  have "valid (row_is s snapping_bound) (assign s (\<lambda>s. s\<lparr>sb_status := COLD, sb_pending_operation := None,
            sb_storage_backend_mode := Some STANDARD_SNAPSHOT, sb_status_message := None,
            sb_workspace_zone := None, sb_workspace_volume_handle := None,
            sb_k8s_workspace_pv_name := None, sb_k8s_workspace_pvc_name := None\<rparr>)) (\<lambda>_. row_is s (\<lambda>_. True)) (\<lambda>_. True)"
    by (rule valid_cold_assign) (auto simp: cold_ok_def)
  moreover have "valid (row_is s (\<lambda>_. True)) (ebind (update_storage_backend_mode now (sb_id s) STANDARD_SNAPSHOT) (\<lambda>_. ret ()))
      (\<lambda>_. cold_inv) (\<lambda>_. True)"
    by (intro valid_cold_then valid_ret row_is_inv) (auto simp: update_storage_backend_mode_def set_ledger_def intro!: keeps_intros)
  ultimately show ?thesis
    unfolding cut_over_def
    by (intro valid_cold_step keeps_this keeps_intros valid_outcomes(3) valid_ebind [where m = "assign s f" for f]) simp_all
qed

lemma valid_settle:
  "valid (row_is s (\<lambda>r. snapping_live r \<and> (snapshot \<noteq> None \<longrightarrow> truthy (sb_snapshot_name r))))
    (settle_snapshot str_exc cl now s snapshot) (\<lambda>_. cold_inv) (\<lambda>_. True)"
proof (cases snapshot)
  case None
  show ?thesis unfolding None settle_snapshot_def option.case by (rule valid_cold_pre [OF valid_outcomes(1)]) simp
next
  case (Some sn)
  have clear: "valid (row_is s snapping_bound) (ebind (assign s clear_snapshot_binding) (\<lambda>_. fail_snapshot s m))
      (\<lambda>_. cold_inv) (\<lambda>_. True)" for m
    by (rule valid_ebind [OF valid_cold_assign [where G = snapping] valid_outcomes(1)])
      (auto simp: cold_ok_def clear_snapshot_binding_def)
  have recover: "valid (row_is s snapping_bound) (ebind (this s) (\<lambda>x. ebind (delete_bound_snapshot cl x) (\<lambda>_.
      ebind (assign s clear_snapshot_binding) (\<lambda>_. fail_snapshot s m)))) (\<lambda>_. cold_inv) (\<lambda>_. True)" for m
    by (intro clear valid_cold_then keeps_this keeps_backend) simp
  have "valid (row_is s snapping_bound) (try_else (release_live_workspace_assets cl s)
      (\<lambda>e. ebind (this s) (\<lambda>x. ebind (delete_bound_snapshot cl x) (\<lambda>_.
        ebind (assign s clear_snapshot_binding) (\<lambda>_. fail_snapshot s (m e))))) (\<lambda>_. cut_over cl now s))
      (\<lambda>_. cold_inv) (\<lambda>_. True)" for m
    by (rule valid_try_else [OF valid_keeps [OF keeps_release_assets] recover valid_cut_over]) simp_all
  then have "valid (row_is s snapping_bound) (settle_snapshot str_exc cl now s (Some sn)) (\<lambda>_. cold_inv) (\<lambda>_. True)"
    unfolding settle_snapshot_def option.case
    by (intro valid_cold_step keeps_this keeps_intros keeps_backend keeps_cold_assign valid_outcomes(3))
      (auto simp: cold_ok_def)
  then show ?thesis using Some by simp
qed

lemma valid_finish: "valid (row_is s snapping_live) (finish_snapshot str_exc cl now s) (\<lambda>_. cold_inv) (\<lambda>_. True)"
proof -
  have "valid (row_is s (\<lambda>r. snapping_live r \<and> r = x)) (get_snapshot cl x)
      (\<lambda>sn. row_is s (\<lambda>r. snapping_live r \<and> (sn \<noteq> None \<longrightarrow> truthy (sb_snapshot_name r)))) (\<lambda>_. True)" for x
  proof (cases "truthy (sb_snapshot_name x)")
    case True
    have "valid (row_is s (\<lambda>r. snapping_live r \<and> r = x)) (get_snapshot cl x)
      (\<lambda>_. row_is s (\<lambda>r. snapping_live r \<and> r = x)) (\<lambda>_. True)"
      by (intro valid_cold_any keeps_backend) simp
    then show ?thesis by (rule valid_weaken) (use True in \<open>auto elim!: row_is_mono\<close>)
  next
    case False
    then show ?thesis by (auto simp: get_snapshot_def intro!: valid_ret elim!: row_is_mono)
  qed
  then show ?thesis unfolding finish_snapshot_def by (intro valid_cold_this valid_ebind [OF _ valid_settle])
qed

lemma valid_process_snapshotting:
  "valid (row_is s snapping) (process_snapshotting cfg str_exc cl now s) (\<lambda>_. cold_inv) (\<lambda>_. True)"
proof -
  let ?branch = "\<lambda>x. if stale_binding x then drop_stale_binding str_exc cl now s
     else if sb_storage_backend_mode x = Some STANDARD_SNAPSHOT
     then assign s (\<lambda>s. s\<lparr>sb_pending_operation := None, sb_status := COLD, sb_status_message := None\<rparr>)
     else if sb_snapshot_name x = None then begin_snapshot cfg str_exc cl s else finish_snapshot str_exc cl now s"
  have branch: "valid (row_is s (\<lambda>r. snapping r \<and> r = x)) (?branch x) (\<lambda>_. cold_inv) (\<lambda>_. True)" for x
    by (intro valid_if valid_cold_assign_inv valid_cold_pre [OF valid_drop_stale] valid_cold_pre [OF valid_begin]
        valid_cold_pre [OF valid_finish]) (auto simp: stale_binding_def cold_ok_def)
  have "valid (row_is s snapping) (try_else (ensure_ready cfg cl) (\<lambda>e. fail_snapshot s (str_exc e))
      (\<lambda>_. ebind (this s) ?branch)) (\<lambda>_. cold_inv) (\<lambda>_. True)"
    by (intro valid_try_else [OF valid_keeps [OF keeps_backend(1)]] valid_outcomes valid_cold_this branch) simp
  then show ?thesis
    unfolding process_snapshotting_def
    by (intro valid_cold_step keeps_this keeps_intros keeps_cold_assign) (auto simp: cold_ok_def)
qed

lemma valid_complete_restore:
  assumes "final_status \<in> {STOPPED, READY}"
  shows "valid (row_is s F) (complete_restore_to_live_disk cl now s final_status m) (\<lambda>_. cold_inv) (\<lambda>_. True)"
proof -
  let ?G = "\<lambda>r. sb_status r = final_status \<and> sb_pending_operation r = None \<and> sb_storage_backend_mode r = Some LIVE_DISK"
  have first: "valid (row_is s F) (assign s (\<lambda>s. s\<lparr>sb_status := final_status, sb_pending_operation := None,
       sb_storage_backend_mode := Some LIVE_DISK, sb_status_message := m, sb_gmt_restored := Some now,
       sb_gmt_started := (if final_status = READY then Some (or_else (sb_gmt_started s) now) else sb_gmt_started s)\<rparr>))
      (\<lambda>_. row_is s ?G) (\<lambda>_. True)"
    using assms by (intro valid_cold_assign) (auto simp: cold_ok_def)
  have tail: "valid (row_is s ?G) (try_else (delete_bound_snapshot cl x) (\<lambda>_. set_message s a)
      (\<lambda>d. if d \<or> truthy (sb_snapshot_name x) then assign s clear_snapshot_binding else ret ())) (\<lambda>_. cold_inv) (\<lambda>_. True)"
    for x a
    by (intro valid_try_else [OF valid_keeps [OF keeps_backend(5)]] valid_outcomes(3) valid_if valid_ret
        valid_cold_assign_inv) (auto simp: clear_snapshot_binding_def cold_ok_def dest: row_is_inv)
  show ?thesis
    unfolding complete_restore_to_live_disk_def
    by (rule valid_ebind [OF first], intro valid_cold_then keeps_this tail)
      (auto simp: update_storage_backend_mode_def open_compute_session_def set_ledger_def Let_def
        intro!: keeps_intros split: option.split)
qed

lemma valid_process_restoring:
  "valid (row_is s restoring) (process_restoring cfg str_exc cl now s) (\<lambda>_. cold_inv) (\<lambda>_. True)"
proof -
  have create: "valid (row_is s restoring) (try_else (create_restored_sandbox cfg cl x mode) (\<lambda>e. fail_restore s (m e))
      (\<lambda>_. set_message s a)) (\<lambda>_. cold_inv) (\<lambda>_. True)" for x mode m a
    by (intro valid_try_else [OF valid_keeps [OF keeps_backend(7)]] valid_outcomes) simp
  show ?thesis
    unfolding process_restoring_def case_prod_beta Let_def
    by (intro valid_try_else [OF valid_keeps [OF keeps_backend(1)]] valid_cold_step keeps_this keeps_k8s_calls
        keeps_refresh_binding valid_complete_restore valid_outcomes create) simp_all
qed

lemma keeps_snapshot_tick_one: "keeps cold_inv (snapshot_tick_one cfg str_exc cl now sid)"
proof (rule keepsI)
  fix w
  assume inv: "cold_inv w"
  show "cold_inv (snd (snapshot_tick_one cfg str_exc cl now sid w))"
  proof (cases "find (\<lambda>s. sb_id s = sid) (sandboxes w)")
    case None
    then show ?thesis using inv by (simp add: snapshot_tick_one_def)
  next
    case (Some s)
    then have s: "s \<in> set (sandboxes w)" by (auto simp: find_Some_iff)
    then have ok: "cold_ok s" and only: "\<And>r. r \<in> set (sandboxes w) \<Longrightarrow> sb_id r = sb_id s \<Longrightarrow> r = s"
      using inv by (auto simp: cold_inv_def cold_rows_def distinct_map dest: inj_onD)
    have process: "valid (row_is s (\<lambda>r. r = s)) (ebind (process_sandbox cfg str_exc cl now s) (\<lambda>_. commit))
        (\<lambda>_. cold_inv) (\<lambda>_. True)"
    proof (rule valid_ebind)
      show "valid (row_is s (\<lambda>r. r = s)) (process_sandbox cfg str_exc cl now s) (\<lambda>_. cold_inv) (\<lambda>_. True)"
        unfolding process_sandbox_def using ok
        by (auto simp: cold_ok_def valid_ret row_is_inv intro: valid_cold_pre [OF valid_process_snapshotting]
            valid_cold_pre [OF valid_process_restoring] split: option.split pending_operation.split)
    qed (simp add: valid_def cold_inv_def)
    have "row_is s (\<lambda>r. r = s) w" using inv only by (auto simp: row_is_def row_at_def cold_inv_def cold_rows_def)
    then have "cold_inv (snd (transaction (ebind (process_sandbox cfg str_exc cl now s) (\<lambda>_. commit)) w))"
      using process inv unfolding valid_def transaction_def
      by (fastforce simp: cold_inv_def rollback_rows_def split: prod.splits sum.splits)
    then show ?thesis
      using Some inv by (simp add: snapshot_tick_one_def best_effort_def try_catch_def split: prod.split sum.split)
        (metis snd_conv)
  qed
qed

text \<open>C24: a sandbox that is cold has a snapshot to restore from, and a pending operation never contradicts the
  status: a tick over any set of sandboxes, with any cluster and any failures, keeps this for every row.\<close>

theorem snapshot_tick_keeps_cold_inv: "keeps cold_inv (run_storage_snapshot_tick cfg str_exc cl now)"
  unfolding run_storage_snapshot_tick_def by (intro keeps_intros keeps_snapshot_tick_one)

subsection \<open>Where a workspace is lost\<close>

definition error_cr :: cr where
  "error_cr = \<lparr>cr_name = Some ''sb1'', cr_namespace = Some ''ns'', cr_resource_version = Some ''7'',
     cr_owner_references = [], cr_operating_mode = None,
     cr_conditions = [\<lparr>cond_type = Some ''Ready'', cond_status = Some ''False'', cond_reason = Some ''ReconcilerError'',
       cond_message = Some ''provisioning failed''\<rparr>], cr_service_fqdn = None\<rparr>"

text \<open>A cluster in which the restored sandbox fails before it has a disk, and one in which the API fails once
  after the sandbox CR was deleted. Both still have the snapshot.\<close>

fun no_disk_cluster :: cluster where
  "no_disk_cluster l (GetVolumeSnapshotClass c) = Inr (RFound True)"
| "no_disk_cluster l (GetSandbox n ns) = Inr (RSandbox (Some error_cr))"
| "no_disk_cluster l (ListPVCs ns ls) = Inr (RPVCs [])"
| "no_disk_cluster l (GetPVC n ns) = Inr (RPVC None)"
| "no_disk_cluster l (GetVolumeSnapshot n ns) = Inr (RSnapshot (Some \<lparr>vs_bound_content_name = None, vs_ready_to_use = True\<rparr>))"
| "no_disk_cluster l (GetVolumeSnapshotContent c) = Inr (RSnapshotContent None)"
| "no_disk_cluster l c = Inr RUnit"

fun flaky_cluster :: cluster where
  "flaky_cluster l (GetVolumeSnapshotClass c) = Inr (RFound True)"
| "flaky_cluster l (GetSandbox n ns) = Inr (RSandbox (Some error_cr))"
| "flaky_cluster l (GetPVC n ns) = Inl (K8sException ''timeout'')"
| "flaky_cluster l (GetVolumeSnapshot n ns) = Inr (RSnapshot (Some \<lparr>vs_bound_content_name = None, vs_ready_to_use = True\<rparr>))"
| "flaky_cluster l c = Inr RUnit"

definition cold_box :: sandbox where
  "cold_box = demo_sandbox\<lparr>sb_persist := True, sb_provision_mode := ''direct'', sb_k8s_sandbox_name := Some ''sb1'',
     sb_status := COLD, sb_pending_operation := Some RESTORING, sb_storage_backend_mode := Some STANDARD_SNAPSHOT,
     sb_snapshot_name := Some ''snap'', sb_k8s_namespace := ''ns''\<rparr>"

definition snap_box :: sandbox where
  "snap_box = cold_box\<lparr>sb_status := STOPPED, sb_pending_operation := Some SNAPSHOTTING,
     sb_storage_backend_mode := Some LIVE_DISK, sb_k8s_workspace_pvc_name := Some ''pvc''\<rparr>"

definition demo_settings :: settings where
  "demo_settings = \<lparr>sandbox_namespace = ''treadstone'', sandbox_storage_class = ''workspace'',
     sandbox_volume_snapshot_class = ''snapshots'', sandbox_default_storage_size = ''5Gi'',
     metering_enforcement_enabled = True\<rparr>"

lemmas snapshot_run_simps =
  ensure_ready_def k8s_call_defs k8s_do_def this_row_def assign_def try_else_def ebind_def find_workspace_pvc_def
  choose_workspace_pvc_def workspace_pvc_candidate_names_def refresh_workspace_binding_def delete_bound_snapshot_def
  delete_snapshot_object_def clear_snapshot_binding_def truthy_def or_else_def update_storage_backend_mode_def

text \<open>A cluster that keeps the snapshot \<open>n\<close> of the row \<open>s\<close>, in which the reconciler reports an error for the restored sandbox
  before there is a volume claim for it, and which does what it is told.\<close>

definition restore_stuck :: "cluster \<Rightarrow> sandbox \<Rightarrow> string \<Rightarrow> bool" where
  "restore_stuck cl s n \<longleftrightarrow>
     (\<forall>l c. cl l (GetVolumeSnapshotClass c) = Inr (RFound True)) \<and>
     (\<exists>c. fst (derive_status_from_sandbox_cr c) = ERROR \<and>
        (\<forall>l. cl l (GetSandbox (py_or (sb_k8s_sandbox_name s) (sb_id s)) (sb_k8s_namespace s)) = Inr (RSandbox (Some c)))) \<and>
     (\<forall>l ns ls. cl l (ListPVCs ns ls) = Inr (RPVCs [])) \<and> (\<forall>l p ns. cl l (GetPVC p ns) = Inr (RPVC None)) \<and>
     (\<forall>l. \<exists>v. cl l (GetVolumeSnapshot n (sb_k8s_namespace s)) = Inr (RSnapshot (Some v))) \<and>
     (\<forall>l c. \<exists>v. cl l (GetVolumeSnapshotContent c) = Inr (RSnapshotContent v)) \<and>
     (\<forall>l c. drops_snapshot c \<longrightarrow> cl l c = Inr RUnit) \<and>
     (\<forall>l c p. cl l (SetSnapshotContentDeletionPolicy c p) = Inr RUnit)"

lemma first_pvc_none:
  assumes "\<And>l n ns. cl l (GetPVC n ns) = Inr (RPVC None)"
  shows "\<exists>l. first_pvc cl ns names w = (Inr None, w\<lparr>k8s_log := k8s_log w @ l\<rparr>)"
proof (induction names arbitrary: w)
  case Nil
  show ?case by (rule exI [of _ "[]"]) simp
next
  case (Cons n names)
  from Cons [of "w\<lparr>k8s_log := k8s_log w @ [GetPVC n ns]\<rparr>"] show ?case
    using assms by (auto simp: k8s_get_pvc_def k8s_do_def ebind_def)
qed

lemma no_binding_found:
  assumes "restore_stuck cl s n"
  shows "\<exists>l. refresh_workspace_binding cl s w = (Inr False, w\<lparr>k8s_log := k8s_log w @ l\<rparr>)"
proof -
  have c: "\<And>l ns ls. cl l (ListPVCs ns ls) = Inr (RPVCs [])" "\<And>l n ns. cl l (GetPVC n ns) = Inr (RPVC None)"
    using assms by (simp_all add: restore_stuck_def)
  let ?ns = "sb_k8s_namespace (this_row s w)"
  let ?ls = "Some [(LABEL_SANDBOX_ID, sb_id (this_row s w)), (LABEL_STORAGE_ROLE, ''workspace'')]"
  obtain l where l: "first_pvc cl ?ns (workspace_pvc_candidate_names (this_row s w)) (w\<lparr>k8s_log := k8s_log w @ [ListPVCs ?ns ?ls]\<rparr>) =
      (Inr None, w\<lparr>k8s_log := (k8s_log w @ [ListPVCs ?ns ?ls]) @ l\<rparr>)"
    using first_pvc_none [of cl ?ns "workspace_pvc_candidate_names (this_row s w)" "w\<lparr>k8s_log := k8s_log w @ [ListPVCs ?ns ?ls]\<rparr>"] c(2)
    by auto
  have "find_workspace_pvc cl (this_row s w) w =
      (Inr None, w\<lparr>k8s_log := k8s_log w @ ListPVCs ?ns ?ls # l @ [ListPVCs ?ns None]\<rparr>)"
    by (simp add: find_workspace_pvc_def k8s_list_pvcs_def k8s_do_def ebind_def c(1) choose_workspace_pvc_def l)
  then show ?thesis by (auto simp: refresh_workspace_binding_def ebind_def)
qed

lemma bound_snapshot_deleted:
  assumes "restore_stuck cl s n" "sb_snapshot_name r = Some n" "n \<noteq> []" "sb_k8s_namespace r = sb_k8s_namespace s"
  shows "\<exists>l. delete_bound_snapshot cl r w = (Inr True, w\<lparr>k8s_log := k8s_log w @ l\<rparr>) \<and> DeleteVolumeSnapshot n (sb_k8s_namespace s) \<in> set l"
proof -
  have c: "\<And>l. \<exists>v. cl l (GetVolumeSnapshot n (sb_k8s_namespace s)) = Inr (RSnapshot (Some v))"
      "\<And>l c. \<exists>v. cl l (GetVolumeSnapshotContent c) = Inr (RSnapshotContent v)"
      "\<And>l a b. cl l (DeleteVolumeSnapshot a b) = Inr RUnit" "\<And>l a. cl l (DeleteVolumeSnapshotContent a) = Inr RUnit"
      "\<And>l c p. cl l (SetSnapshotContentDeletionPolicy c p) = Inr RUnit"
    using assms(1) by (simp_all add: restore_stuck_def)
  obtain f g where "\<And>l. cl l (GetVolumeSnapshot n (sb_k8s_namespace s)) = Inr (RSnapshot (Some (f l)))"
      "\<And>l c. cl l (GetVolumeSnapshotContent c) = Inr (RSnapshotContent (g l c))"
    using c(1,2) by metis
  then show ?thesis
    using assms(2-4) c(3-)
    by (auto simp: delete_bound_snapshot_def delete_snapshot_object_def k8s_call_defs k8s_do_def ebind_def truthy_def)
qed

lemma ledger_moves:
  assumes "length (active_ledgers_of i w) \<le> 1"
  shows "\<exists>r v. update_storage_backend_mode now i m w = (Inr r, v) \<and> sandboxes v = sandboxes w \<and> k8s_log v = k8s_log w"
  using assms
  by (cases "active_ledgers_of i w")
     (auto simp: update_storage_backend_mode_def select_one_or_none_def ebind_def set_ledger_def)

text \<open>C32: Restoring can delete the only copy of a workspace. For every row and table: when the cluster reports an error of the
  restored sandbox before there is a volume claim, the restore counts as done. The row says that its workspace is on a live disk,
  still names no claim, and the snapshot has been deleted in the cluster; no other row changes.\<close>

theorem restore_error_drops_snapshot:
  assumes row: "find (\<lambda>r. sb_id r = sb_id s) (sandboxes w) = Some s" "sb_snapshot_name s = Some n" "n \<noteq> []"
    and ledger: "length (active_ledgers_of (sb_id s) w) \<le> 1"
    and cluster: "restore_stuck cl s n"
  shows "\<exists>w' f calls. process_restoring cfg str_exc cl now s w = (Inr (), w') \<and>
     k8s_log w' = k8s_log w @ calls \<and> DeleteVolumeSnapshot n (sb_k8s_namespace s) \<in> set calls \<and>
     sandboxes w' = update_where (\<lambda>r. sb_id r = sb_id s) f (sandboxes w) \<and>
     sb_status (f s) = STOPPED \<and> sb_pending_operation (f s) = None \<and> sb_storage_backend_mode (f s) = Some LIVE_DISK \<and>
     sb_k8s_workspace_pvc_name (f s) = sb_k8s_workspace_pvc_name s \<and> sb_snapshot_name (f s) = None"
proof -
  obtain c msg where c: "derive_status_from_sandbox_cr c = (ERROR, msg)"
      "\<And>l. cl l (GetSandbox (py_or (sb_k8s_sandbox_name s) (sb_id s)) (sb_k8s_namespace s)) = Inr (RSandbox (Some c))"
    using cluster by (auto simp: restore_stuck_def) (metis prod.collapse)
  have cls: "\<And>l c. cl l (GetVolumeSnapshotClass c) = Inr (RFound True)" using cluster by (simp add: restore_stuck_def)
  define w1 where "w1 = w\<lparr>k8s_log := k8s_log w @ [GetVolumeSnapshotClass (sandbox_volume_snapshot_class cfg),
      GetSandbox (py_or (sb_k8s_sandbox_name s) (sb_id s)) (sb_k8s_namespace s)]\<rparr>"
  obtain l1 where l1: "refresh_workspace_binding cl s w1 = (Inr False, w1\<lparr>k8s_log := k8s_log w1 @ l1\<rparr>)"
    using no_binding_found [OF cluster] by blast
  let ?msg = "Some (py_or_str msg ''Restore materialized the workspace, but the sandbox failed to become ready.'')"
  define f :: "sandbox \<Rightarrow> sandbox" where "f = (\<lambda>r. r\<lparr>sb_status := STOPPED, sb_pending_operation := None, sb_storage_backend_mode := Some LIVE_DISK,
      sb_status_message := ?msg, sb_gmt_restored := Some now\<rparr>)"
  define w2 where "w2 = snd (assign s f (w1\<lparr>k8s_log := k8s_log w1 @ l1\<rparr>))"
  have w2: "sandboxes w2 = update_where (\<lambda>r. sb_id r = sb_id s) f (sandboxes w)" "k8s_log w2 = k8s_log w1 @ l1"
      "storage_ledgers w2 = storage_ledgers w" "assign s f (w1\<lparr>k8s_log := k8s_log w1 @ l1\<rparr>) = (Inr (), w2)"
    by (simp_all add: w2_def w1_def assign_def)
  then have "length (active_ledgers_of (sb_id s) w2) \<le> 1" using ledger by (simp add: active_ledgers_of_def)
  then obtain r w3 where w3: "update_storage_backend_mode now (sb_id s) LIVE_DISK w2 = (Inr r, w3)"
      "sandboxes w3 = sandboxes w2" "k8s_log w3 = k8s_log w2"
    using ledger_moves by blast
  have row3: "this_row s w3 = f s"
    using row(1) find_update_where [of sb_id f "sb_id s" "sandboxes w"] by (simp add: this_row_def w3 w2 f_def)
  obtain l2 where l2: "delete_bound_snapshot cl (f s) w3 = (Inr True, w3\<lparr>k8s_log := k8s_log w3 @ l2\<rparr>)"
      "DeleteVolumeSnapshot n (sb_k8s_namespace s) \<in> set l2"
    using bound_snapshot_deleted [OF cluster, of "f s" w3] row(2,3) by (auto simp: f_def)
  define w4 where "w4 = snd (assign s clear_snapshot_binding (w3\<lparr>k8s_log := k8s_log w3 @ l2\<rparr>))"
  have "complete_restore_to_live_disk cl now s STOPPED ?msg (w1\<lparr>k8s_log := k8s_log w1 @ l1\<rparr>) = (Inr (), w4)"
    using w2(4) w3(1) l2(1) row3
    by (simp add: complete_restore_to_live_disk_def ebind_def try_else_def f_def w4_def assign_def)
  then have "process_restoring cfg str_exc cl now s w = (Inr (), w4)"
    using row c cls l1
    by (simp add: process_restoring_def try_else_def ensure_ready_def k8s_call_defs k8s_do_def ebind_def this_row_def truthy_def w1_def)
  moreover have "sandboxes w4 = update_where (\<lambda>r. sb_id r = sb_id s) (clear_snapshot_binding \<circ> f) (sandboxes w)"
    by (simp add: w4_def assign_def w3 w2 update_where_def f_def)
  moreover have "k8s_log w4 = k8s_log w @ ([GetVolumeSnapshotClass (sandbox_volume_snapshot_class cfg),
      GetSandbox (py_or (sb_k8s_sandbox_name s) (sb_id s)) (sb_k8s_namespace s)] @ l1 @ l2)"
    by (simp add: w4_def assign_def w3 w2 w1_def)
  ultimately show ?thesis
    using l2(2) by (intro exI [of _ w4] exI [of _ "clear_snapshot_binding \<circ> f"] exI) (auto simp: clear_snapshot_binding_def f_def)
qed

theorem restore_error_drops_snapshot_witness:
  "\<exists>w'. process_restoring demo_settings (\<lambda>_. ''error'') no_disk_cluster 5 cold_box (empty_world\<lparr>sandboxes := [cold_box]\<rparr>) = (Inr (), w') \<and>
     DeleteVolumeSnapshot ''snap'' ''ns'' \<in> set (k8s_log w')"
proof -
  have "drops_snapshot c \<Longrightarrow> no_disk_cluster l c = Inr RUnit" for l c by (cases c) simp_all
  moreover have "fst (derive_status_from_sandbox_cr error_cr) = ERROR"
    by (simp add: error_cr_def derive_status_from_sandbox_cr_def get_condition_def Let_def or_else_def)
  ultimately have "restore_stuck no_disk_cluster cold_box ''snap''" by (simp add: restore_stuck_def)
  then show ?thesis
    using restore_error_drops_snapshot [of cold_box "empty_world\<lparr>sandboxes := [cold_box]\<rparr>" "''snap''" no_disk_cluster demo_settings
        "\<lambda>_. ''error''" 5]
    by (auto simp: cold_box_def active_ledgers_of_def empty_world_def)
qed

text \<open>Snapshotting can delete the only copy too. When the API fails after the sandbox CR was deleted, the
  snapshot that had been confirmed is deleted as well, although nothing brings the CR back.\<close>

theorem release_failure_drops_snapshot:
  "\<exists>w' r. process_snapshotting cfg str_exc flaky_cluster now snap_box (empty_world\<lparr>sandboxes := [snap_box]\<rparr>) = (Inr (), w') \<and>
     k8s_log w' = [GetVolumeSnapshotClass (sandbox_volume_snapshot_class cfg), GetVolumeSnapshot ''snap'' ''ns'',
       GetVolumeSnapshot ''snap'' ''ns'', GetSandbox ''sb1'' ''ns'', DeleteSandbox ''sb1'' ''ns'', GetPVC ''pvc'' ''ns'',
       GetVolumeSnapshot ''snap'' ''ns'', DeleteVolumeSnapshot ''snap'' ''ns''] \<and>
     sandboxes w' = [r] \<and> sb_status r = STOPPED \<and> sb_snapshot_name r = None"
  by (simp add: process_snapshotting_def finish_snapshot_def settle_snapshot_def get_snapshot_def get_snapshot_content_def
      release_live_workspace_assets_def fail_snapshot_def stale_binding_def snapshot_run_simps cold_box_def snap_box_def
      demo_sandbox_def empty_world_def Let_def)

subsection \<open>Progress\<close>

text \<open>when the snapshot is ready and the cluster has released the live disk, one run of the workflow cuts the
  sandbox over to cold storage: the row is cold with the snapshot as its backend and no disk, nothing is
  pending, and the storage ledger bills the snapshot from now on.\<close>

theorem ready_snapshot_cuts_over:
  assumes row: "sandboxes w = [s]" "sb_pending_operation s = Some SNAPSHOTTING" "sb_storage_backend_mode s = Some LIVE_DISK"
    and fresh: "sb_gmt_restored s = None" and name: "sb_snapshot_name s = Some n" "n \<noteq> ''''"
    and bound: "sb_k8s_workspace_pvc_name s = Some p" "p \<noteq> ''''"
    and ledger: "active_ledgers_of (sb_id s) w = [l]" "sl_backend_mode l = LIVE_DISK"
    and cluster: "\<And>k c. cl k (GetVolumeSnapshotClass c) = Inr (RFound True)"
      "\<And>k c. cl k (GetVolumeSnapshot n c) = Inr (RSnapshot (Some \<lparr>vs_bound_content_name = None, vs_ready_to_use = True\<rparr>))"
      "\<And>k a b. cl k (GetSandbox a b) = Inr (RSandbox None)" "\<And>k a b. cl k (GetPVC a b) = Inr (RPVC None)"
      "\<And>k a. cl k (GetPV a) = Inr (RPV None)" "\<And>k a. cl k (GetVolumeSnapshotContent a) = Inr (RSnapshotContent None)"
  shows "\<exists>w' r. process_snapshotting cfg str_exc cl now s w = (Inr (), w') \<and> sandboxes w' = [r] \<and>
    sb_status r = COLD \<and> sb_pending_operation r = None \<and> sb_storage_backend_mode r = Some STANDARD_SNAPSHOT \<and>
    sb_snapshot_name r = Some n \<and> sb_k8s_workspace_pvc_name r = None \<and> sb_gmt_snapshotted r = Some now \<and>
    storage_ledgers w' = update_where (\<lambda>x. sl_id x = sl_id l)
      (\<lambda>x. x\<lparr>sl_backend_mode := STANDARD_SNAPSHOT, sl_gmt_updated := now\<rparr>) (storage_ledgers w)"
  using assms
  by (simp add: process_snapshotting_def finish_snapshot_def settle_snapshot_def get_snapshot_def get_snapshot_content_def
      release_live_workspace_assets_def cut_over_def stale_binding_def snapshot_run_simps set_ledger_def Let_def
      select_one_or_none_def active_ledgers_of_def split: prod.splits option.splits)

fun done_cluster :: cluster where
  "done_cluster l (GetVolumeSnapshotClass c) = Inr (RFound True)"
| "done_cluster l (GetVolumeSnapshot n ns) = Inr (RSnapshot (Some \<lparr>vs_bound_content_name = None, vs_ready_to_use = True\<rparr>))"
| "done_cluster l (GetSandbox n ns) = Inr (RSandbox None)"
| "done_cluster l (GetPVC n ns) = Inr (RPVC None)"
| "done_cluster l (GetPV n) = Inr (RPV None)"
| "done_cluster l (GetVolumeSnapshotContent n) = Inr (RSnapshotContent None)"
| "done_cluster l c = Inr RUnit"

theorem ready_snapshot_cuts_over_witness:
  "\<exists>w' r. process_snapshotting demo_settings (\<lambda>_. ''error'') done_cluster 5 snap_box
     (empty_world\<lparr>sandboxes := [snap_box], storage_ledgers := [demo_ledger]\<rparr>) = (Inr (), w') \<and>
     sandboxes w' = [r] \<and> sb_status r = COLD \<and> sb_pending_operation r = None"
proof -
  have "active_ledgers_of (sb_id snap_box) (empty_world\<lparr>sandboxes := [snap_box], storage_ledgers := [demo_ledger]\<rparr>) = [demo_ledger]"
    "sl_backend_mode demo_ledger = LIVE_DISK"
    by (simp_all add: active_ledgers_of_def snap_box_def cold_box_def demo_sandbox_def demo_ledger_def empty_world_def)
  then show ?thesis
    using ready_snapshot_cuts_over [of "empty_world\<lparr>sandboxes := [snap_box], storage_ledgers := [demo_ledger]\<rparr>" snap_box
        "''snap''" "''pvc''" demo_ledger done_cluster demo_settings "\<lambda>_. ''error''" 5]
    by (auto simp: snap_box_def cold_box_def demo_sandbox_def)
qed

end
