(* ===== verification/Sync_Machine.thy ===== *)
theory Sync_Machine
  imports K8s_Sync
begin

text \<open>
  The synchronisation of sandbox rows with Kubernetes follows the state machine.

  \<open>evolves\<close> relates a row to what other transactions and the sync loop may make of it: its id
  stays, its version never goes back, and its status makes at most one step along \<open>VALID_TRANSITIONS\<close> for each
  version, so that a row whose version stayed kept its status, or was finalised. It is transitive, so it describes any
  interleaving of such transactions, and a single write that jumps over a status is none of them. The locale \<open>sandbox_observer\<close> is what the sync loop relies on when it notifies observers;
  it is interpreted on the metering observer.
\<close>

subsection \<open>Running the operations\<close>


lemma ebind_cong_run: "m w = m' w \<Longrightarrow> ebind m f w = ebind m' f w"
  by (simp add: ebind_def)

lemma list_all2_update_where:
  "list_all2 R rs (update_where p f rs) \<longleftrightarrow> (\<forall>r \<in> set rs. if p r then R r (f r) else R r r)"
  by (auto simp: update_where_def list_all2_map2 list_all2_same)

definition runs_ok :: "'a op \<Rightarrow> bool" where
  "runs_ok m \<longleftrightarrow> (\<forall>w. \<exists>a. fst (m w) = Inr a)"

lemma runs_ok_best_effort: "runs_ok (best_effort m)"
  by (auto simp: runs_ok_def best_effort_def try_catch_def split: prod.splits sum.splits)

lemma runs_ok_ret: "runs_ok (ret a)"
  by (simp add: runs_ok_def)

lemma runs_ok_if: "(c \<Longrightarrow> runs_ok m) \<Longrightarrow> (\<not> c \<Longrightarrow> runs_ok n) \<Longrightarrow> runs_ok (if c then m else n)"
  by simp

lemma runs_okD: "runs_ok (m :: unit op) \<Longrightarrow> m w = (Inr (), snd (m w))"
  by (metis (full_types) old.unit.exhaust prod.collapse runs_ok_def)

lemma runs_ok_ebind: "runs_ok m \<Longrightarrow> (\<And>a. runs_ok (f a)) \<Longrightarrow> runs_ok (ebind m f)"
  unfolding runs_ok_def
proof
  fix w
  assume "\<forall>w. \<exists>a. fst (m w) = Inr a" and f: "\<And>a. \<forall>w. \<exists>b. fst (f a w) = Inr b"
  then obtain a where "fst (m w) = Inr a" by blast
  then have "ebind m f w = f a (snd (m w))" by (cases "m w") simp
  then show "\<exists>b. fst (ebind m f w) = Inr b" using f by simp
qed

lemma runs_ok_for_each: "(\<And>x. runs_ok (f x)) \<Longrightarrow> runs_ok (for_each xs f)"
  by (induction xs) (auto intro: runs_ok_ebind runs_ok_ret)

definition status_event :: "string \<Rightarrow> sandbox_status \<Rightarrow> sandbox_status \<Rightarrow> string \<Rightarrow> string option \<Rightarrow> audit_event" where
  "status_event sid from_status to_status source message =
     \<lparr>ae_actor_type = ''system'', ae_actor_user_id = None, ae_actor_api_key_id = None, ae_credential_type = None,
      ae_action = ''sandbox.status.change'', ae_target_type = ''sandbox'', ae_target_id = Some sid,
      ae_result = ''success'', ae_error_code = None, ae_request_id = None, ae_ip = None, ae_user_agent = None,
      ae_metadata = compact_metadata
        [(''from_status'', MStr (status_str from_status)), (''to_status'', MStr (status_str to_status)),
         (''source'', MStr source), (''message'', case message of None \<Rightarrow> MNone | Some m \<Rightarrow> MStr m)]\<rparr>"

lemma record_status_change_run [simp]:
  "record_status_change i a b src m w = (Inr (), w\<lparr>audit_events := audit_events w @ [status_event i a b src m]\<rparr>)"
  by (simp add: record_status_change_def record_audit_event_def status_event_def)

abbreviation locked_row :: "sandbox \<Rightarrow> sandbox \<Rightarrow> bool" where
  "locked_row s r \<equiv> sb_id r = sb_id s \<and> sb_version r = sb_version s"

definition optimistic_rows ::
    "time \<Rightarrow> sandbox \<Rightarrow> sandbox_status \<Rightarrow> string option \<Rightarrow> string option \<Rightarrow> sandbox list \<Rightarrow> sandbox list" where
  "optimistic_rows now s st rv msg = update_where (locked_row s) (optimistic_values now (sb_version s) st rv msg)"

lemma optimistic_update_run [simp]:
  "optimistic_update now (sb_id s) (sb_version s) st rv msg w =
     (Inr (length (filter (locked_row s) (sandboxes w))), w\<lparr>sandboxes := optimistic_rows now s st rv msg (sandboxes w)\<rparr>)"
  by (simp add: optimistic_update_def optimistic_rows_def)

lemma optimistic_rows_none: "filter (locked_row s) rs = [] \<Longrightarrow> optimistic_rows now s st rv msg rs = rs"
  unfolding optimistic_rows_def by (rule update_where_id) (simp add: filter_empty_conv)

subsection \<open>How rows evolve\<close>

text \<open>A status is reached in \<open>n\<close> steps of the state machine.\<close>

definition status_steps :: "nat \<Rightarrow> sandbox_status \<Rightarrow> sandbox_status \<Rightarrow> bool" where
  "status_steps n = is_valid_transition ^^ n"

text \<open>A row makes at most one step of the state machine for each time its version goes up, and one more when it is finalised,
  which does not touch the version.\<close>

definition evolves :: "sandbox \<Rightarrow> sandbox \<Rightarrow> bool" where
  "evolves r r' \<longleftrightarrow> sb_id r' = sb_id r \<and> sb_version r \<le> sb_version r' \<and>
     (\<exists>n. status_steps n (sb_status r) (sb_status r') \<and>
        int n \<le> sb_version r' - sb_version r + of_bool (sb_status r' = DELETED))"

definition deleted_hidden :: "world \<Rightarrow> bool" where
  "deleted_hidden w \<longleftrightarrow> (\<forall>s \<in> set (sandboxes w). sb_status s = DELETED \<longrightarrow> sb_gmt_deleted s \<noteq> None)"

lemma status_steps_0 [simp]: "status_steps 0 a b \<longleftrightarrow> b = a"
  by (auto simp: status_steps_def)

lemma status_steps_1 [simp]: "status_steps (Suc 0) a b \<longleftrightarrow> is_valid_transition a b"
  by (auto simp: status_steps_def)

lemma status_steps_add: "status_steps m a b \<Longrightarrow> status_steps n b c \<Longrightarrow> status_steps (m + n) a c"
  unfolding status_steps_def relpowp_add by blast

lemma status_steps_Suc: "status_steps (Suc n) a c \<longleftrightarrow> (\<exists>b. is_valid_transition a b \<and> status_steps n b c)"
  unfolding status_steps_def by (blast intro: relpowp_Suc_I2 elim: relpowp_Suc_E2)

lemma status_steps_DELETED: "status_steps n DELETED b \<longleftrightarrow> n = 0 \<and> b = DELETED"
  by (cases n) (auto simp: status_steps_Suc is_valid_transition_def)

lemma status_steps_DELETING: "status_steps n DELETING b \<Longrightarrow> n = 0 \<and> b = DELETING \<or> n = 1 \<and> b = DELETED"
  by (cases n) (auto simp: status_steps_Suc is_valid_transition_def status_steps_DELETED)

lemma into_DELETED: "is_valid_transition a DELETED \<longleftrightarrow> a = DELETING"
  by (cases a) (simp_all add: is_valid_transition_def)

lemma evolves_refl [simp]: "evolves r r"
  by (auto simp: evolves_def intro: exI [of _ 0])

lemma evolvesI:
  assumes "sb_id r' = sb_id r" "sb_version r' = sb_version r + 1" "is_valid_transition (sb_status r) (sb_status r') \<or> sb_status r' = sb_status r"
  shows "evolves r r'"
  using assms unfolding evolves_def by (auto intro: exI [of _ 0] exI [of _ "Suc 0"])

lemma evolves_quiet:
  "sb_id r' = sb_id r \<Longrightarrow> sb_version r' = sb_version r \<Longrightarrow> sb_status r' = sb_status r \<Longrightarrow> evolves r r'"
  by (auto simp: evolves_def intro: exI [of _ 0])

lemma evolves_finalise:
  "sb_id r' = sb_id r \<Longrightarrow> sb_version r' = sb_version r \<Longrightarrow> sb_status r \<in> {DELETING, DELETED} \<Longrightarrow> sb_status r' = DELETED \<Longrightarrow> evolves r r'"
  unfolding evolves_def by (auto intro: exI [of _ 0] exI [of _ "Suc 0"] simp: is_valid_transition_def)

lemma evolves_DELETING: "evolves r r' \<Longrightarrow> sb_status r = DELETING \<Longrightarrow> sb_status r' = DELETING \<or> sb_status r' = DELETED"
  by (auto simp: evolves_def dest!: status_steps_DELETING)

text \<open>A row whose version stayed kept its status, or was finalised.\<close>

lemma evolves_same_version:
  assumes "evolves r r'" "sb_version r' = sb_version r"
  shows "sb_status r' = sb_status r \<or> sb_status r = DELETING \<and> sb_status r' = DELETED"
proof -
  obtain n where n: "status_steps n (sb_status r) (sb_status r')" "int n \<le> of_bool (sb_status r' = DELETED)"
    using assms by (auto simp: evolves_def)
  from n(2) consider "n = 0" | "n = Suc 0" "sb_status r' = DELETED" by (cases "sb_status r' = DELETED"; cases n) auto
  then show ?thesis
    using n(1) by cases (auto simp: into_DELETED)
qed

lemma evolves_trans:
  assumes "evolves r s" "evolves s t"
  shows "evolves r t"
proof -
  obtain m n where mn: "status_steps m (sb_status r) (sb_status s)" "int m \<le> sb_version s - sb_version r + of_bool (sb_status s = DELETED)"
    "status_steps n (sb_status s) (sb_status t)" "int n \<le> sb_version t - sb_version s + of_bool (sb_status t = DELETED)"
    using assms by (auto simp: evolves_def)
  have "int (m + n) \<le> sb_version t - sb_version r + of_bool (sb_status t = DELETED)"
    using mn assms by (cases "sb_status s = DELETED") (auto simp: evolves_def status_steps_DELETED)
  with status_steps_add [OF mn(1,3)] assms show ?thesis
    unfolding evolves_def by (auto intro: order_trans)
qed

abbreviation evolve :: "sandbox list \<Rightarrow> sandbox list \<Rightarrow> bool" where
  "evolve \<equiv> list_all2 evolves"

lemma evolve_refl [simp]: "evolve rs rs"
  by (simp add: list_all2_refl)

lemma evolve_trans: "evolve rs ss \<Longrightarrow> evolve ss ts \<Longrightarrow> evolve rs ts"
  by (rule list_all2_trans [of evolves evolves evolves]) (auto intro: evolves_trans)

lemma evolve_ids: "evolve rs ss \<Longrightarrow> map sb_id ss = map sb_id rs"
  by (induction rule: list_all2_induct) (auto simp: evolves_def)

lemma evolve_row:
  assumes "evolve rs ss" "distinct (map sb_id rs)" "s \<in> set rs" "r \<in> set ss" "sb_id r = sb_id s"
  shows "evolves s r"
  using assms
proof (induction rule: list_all2_induct)
  case Nil
  then show ?case by simp
next
  case (Cons x xs y ys)
  have "map sb_id ys = map sb_id xs" "sb_id y = sb_id x"
    using Cons.hyps by (auto dest: evolve_ids simp: evolves_def)
  then have "sb_id x \<notin> sb_id ` set xs" "sb_id x \<notin> sb_id ` set ys"
    using Cons.prems(1) by (auto simp flip: set_map)
  then show ?case using Cons \<open>sb_id y = sb_id x\<close> by (auto simp: image_iff)
qed

text \<open>A single update of the row that was read as \<open>s\<close>.\<close>

lemma evolve_update:
  assumes "\<And>r. r \<in> set rs \<Longrightarrow> p r \<Longrightarrow> evolves r (f r)"
  shows "evolve rs (update_where p f rs)"
  using assms by (simp add: list_all2_update_where)

lemma evolve_optimistic:
  assumes rows: "\<And>r. r \<in> set rs \<Longrightarrow> sb_id r = sb_id s \<Longrightarrow> evolves s r"
    and ok: "sb_status s \<noteq> DELETING" "is_valid_transition (sb_status s) st \<or> sb_status s = st"
  shows "evolve rs (optimistic_rows now s st rv msg rs)"
  unfolding optimistic_rows_def
proof (rule evolve_update)
  fix r
  assume "r \<in> set rs" "locked_row s r"
  with rows [of r] ok(1) have "sb_status r = sb_status s" "sb_version r = sb_version s" by (auto dest!: evolves_same_version)
  with ok(2) show "evolves r (optimistic_values now (sb_version s) st rv msg r)"
    by (intro evolvesI) (auto simp: optimistic_values_def)
qed

lemma derived_not_deleted: "fst (derive_status_from_sandbox_cr c) \<in> {CREATING, READY, STOPPED, ERROR}"
  by (simp add: derive_status_from_sandbox_cr_def Let_def split: option.split)

subsection \<open>Observers as the sync loop sees them\<close>

locale sandbox_observer =
  fixes obs :: "observer list"
  assumes ready_keeps: "x \<in> set obs \<Longrightarrow> keeps (\<lambda>w. sandboxes w = T) (on_sandbox_ready x i u t)"
    and stopped_keeps: "x \<in> set obs \<Longrightarrow> keeps (\<lambda>w. sandboxes w = T) (on_sandbox_stopped x i)"
    and deleted_keeps: "x \<in> set obs \<Longrightarrow> keeps (\<lambda>w. sandboxes w = T) (on_sandbox_deleted x i p)"
begin

lemma notify_keeps:
  "keeps (\<lambda>w. sandboxes w = T) (notify_observers_on_transition obs s st st')"
  "keeps (\<lambda>w. sandboxes w = T) (try_notify_sandbox_deleted obs i p)"
  "keeps (\<lambda>w. sandboxes w = T) (try_close_compute_session obs i)"
  unfolding notify_observers_on_transition_def try_notify_sandbox_deleted_def try_close_compute_session_def
  by (intro keeps_intros ready_keeps stopped_keeps deleted_keeps; assumption)+

lemma notify_ok:
  "runs_ok (notify_observers_on_transition obs s st st')" "runs_ok (try_notify_sandbox_deleted obs i p)"
  unfolding notify_observers_on_transition_def try_notify_sandbox_deleted_def
  by (intro runs_ok_if runs_ok_for_each runs_ok_best_effort runs_ok_ret)+

lemma notify_run:
  obtains v where "notify_observers_on_transition obs s st st' w = (Inr (), v)" and "sandboxes v = sandboxes w"
  using that [OF runs_okD [OF notify_ok(1)]] keepsD [OF notify_keeps(1) [of "sandboxes w"] refl] by simp

lemma notify_deleted_run:
  obtains v where "try_notify_sandbox_deleted obs i p w = (Inr (), v)" and "sandboxes v = sandboxes w"
  using that [OF runs_okD [OF notify_ok(2)]] keepsD [OF notify_keeps(2) [of "sandboxes w"] refl] by simp

lemma apply_transition_run:
  obtains v where "apply_transition obs now src s st rv msg w = (Inr (filter (locked_row s) (sandboxes w) \<noteq> []), v)"
    and "sandboxes v = optimistic_rows now s st rv msg (sandboxes w)"
proof (cases "filter (locked_row s) (sandboxes w) = []")
  case True
  then show thesis
    using optimistic_rows_none [OF True] by (intro that) (simp_all add: apply_transition_def)
next
  case False
  obtain v where "notify_observers_on_transition obs s (sb_status s) st
      (w\<lparr>sandboxes := optimistic_rows now s st rv msg (sandboxes w),
         audit_events := audit_events w @ [status_event (sb_id s) (sb_status s) st src msg]\<rparr>) = (Inr (), v)"
    "sandboxes v = optimistic_rows now s st rv msg (sandboxes w)"
    using notify_run [of s "sb_status s" st "w\<lparr>sandboxes := optimistic_rows now s st rv msg (sandboxes w),
         audit_events := audit_events w @ [status_event (sb_id s) (sb_status s) st src msg]\<rparr>"] by auto
  with False show thesis by (intro that [of "store_rows v"]) (simp_all add: apply_transition_def)
qed

text \<open>What the rows of the session may be when a row read as \<open>s\<close> is handled.\<close>

lemma finalise_evolves:
  assumes "sb_status s = DELETING" "\<And>r. r \<in> set rs \<Longrightarrow> sb_id r = sb_id s \<Longrightarrow> evolves s r"
  shows "evolve rs (update_where (\<lambda>r. sb_id r = sb_id s) (\<lambda>r. r\<lparr>sb_status := DELETED, sb_gmt_deleted := t\<rparr>) rs)"
proof (rule evolve_update)
  fix r
  assume "r \<in> set rs" "sb_id r = sb_id s"
  with assms(2) [of r] assms(1) have "sb_status r = DELETING \<or> sb_status r = DELETED"
    by (auto dest: evolves_DELETING)
  then show "evolves r (r\<lparr>sb_status := DELETED, sb_gmt_deleted := t\<rparr>)"
    by (intro evolves_finalise) auto
qed

lemma delete_row_evolves:
  assumes "sb_status s = DELETING" "\<And>r. r \<in> set (sandboxes w) \<Longrightarrow> sb_id r = sb_id s \<Longrightarrow> evolves s r"
  shows "\<exists>v. ebind (try_notify_sandbox_deleted obs (sb_id s) p) (\<lambda>_.
      ebind (record_status_change (sb_id s) st DELETED src msg) (\<lambda>_.
      ebind (delete_sandbox_row now (sb_id s)) (\<lambda>_. ret True))) w = (Inr True, v) \<and> evolve (sandboxes w) (sandboxes v)"
proof -
  obtain v where "try_notify_sandbox_deleted obs (sb_id s) p w = (Inr (), v)" "sandboxes v = sandboxes w"
    by (rule notify_deleted_run)
  moreover have "evolve (sandboxes w) (update_where (\<lambda>r. sb_id r = sb_id s)
      (\<lambda>r. r\<lparr>sb_status := DELETED, sb_gmt_deleted := Some now\<rparr>) (sandboxes w))"
    using assms by (rule finalise_evolves)
  ultimately show ?thesis by (simp add: delete_sandbox_row_def)
qed

lemma apply_transition_evolves:
  assumes "\<And>r. r \<in> set (sandboxes w) \<Longrightarrow> sb_id r = sb_id s \<Longrightarrow> evolves s r"
    and "sb_status s \<noteq> DELETING" "is_valid_transition (sb_status s) st \<or> sb_status s = st"
  shows "\<exists>b v. apply_transition obs now src s st rv msg w = (Inr b, v) \<and> evolve (sandboxes w) (sandboxes v)"
proof -
  obtain v where "apply_transition obs now src s st rv msg w = (Inr (filter (locked_row s) (sandboxes w) \<noteq> []), v)"
    "sandboxes v = optimistic_rows now s st rv msg (sandboxes w)"
    by (rule apply_transition_run)
  moreover have "evolve (sandboxes w) (optimistic_rows now s st rv msg (sandboxes w))"
    using assms by (rule evolve_optimistic)
  ultimately show ?thesis by auto
qed

lemma handle_deleted_evolves:
  assumes rows: "\<And>r. r \<in> set (sandboxes w) \<Longrightarrow> sb_id r = sb_id s \<Longrightarrow> evolves s r" and live: "sb_status s \<noteq> DELETED"
  shows "\<exists>b v. handle_deleted obs now c s w = (Inr b, v) \<and> evolve (sandboxes w) (sandboxes v)"
proof -
  consider "sb_pending_operation s = Some SNAPSHOTTING \<or> sb_status s = COLD"
    | "\<not> (sb_pending_operation s = Some SNAPSHOTTING \<or> sb_status s = COLD)" "sb_status s = DELETING"
    | "\<not> (sb_pending_operation s = Some SNAPSHOTTING \<or> sb_status s = COLD)" "sb_status s \<noteq> DELETING" by blast
  then show ?thesis
  proof cases
    case 1
    then show ?thesis by (auto simp: handle_deleted_def)
  next
    case 2
    have "\<exists>v. ebind (try_notify_sandbox_deleted obs (sb_id s) (sb_persist s)) (\<lambda>_.
      ebind (record_status_change (sb_id s) DELETING DELETED ''k8s_watch'' None) (\<lambda>_.
      ebind (delete_sandbox_row now (sb_id s)) (\<lambda>_. ret True))) w = (Inr True, v) \<and> evolve (sandboxes w) (sandboxes v)"
      using 2(2) rows by (rule delete_row_evolves)
    with 2 show ?thesis by (auto simp: handle_deleted_def)
  next
    case 3
    obtain v where v: "try_notify_sandbox_deleted obs (sb_id s) (sb_persist s) w = (Inr (), v)" "sandboxes v = sandboxes w"
      by (rule notify_deleted_run)
    have "is_valid_transition (sb_status s) ERROR \<or> sb_status s = ERROR"
      using 3 live by (cases "sb_status s") (auto simp: is_valid_transition_def)
    with rows 3(2) have "evolve (sandboxes w) (optimistic_rows now s ERROR (cr_resource_version c) None (sandboxes w))"
      by (rule evolve_optimistic)
    with 3 v show ?thesis by (auto simp: handle_deleted_def)
  qed
qed

lemma commit_if_run [simp]: "\<exists>v. commit_if b w = (Inr b, v) \<and> sandboxes v = sandboxes w"
  by (simp add: commit_if_def)

lemma quiet_evolves:
  assumes "\<And>r. sb_id (f r) = sb_id r \<and> sb_version (f r) = sb_version r \<and> sb_status (f r) = sb_status r"
  shows "evolve rs (update_where p f rs)"
  using assms by (intro evolve_update evolves_quiet) simp_all

lemma sync_metadata_evolves:
  "\<exists>v. ebind (update_sync_metadata now i rv) (\<lambda>_. commit_if b) w = (Inr b, v) \<and> evolve (sandboxes w) (sandboxes v)"
  by (auto simp: update_sync_metadata_def commit_if_def intro: quiet_evolves)

lemma refresh_binding_evolves:
  "\<exists>v. refresh_binding c s w = (Inr (), v) \<and> evolve (sandboxes w) (sandboxes v)"
  by (auto simp: refresh_binding_def intro: quiet_evolves)

lemma rows_evolve:
  assumes "evolve rs ss" "\<And>r. r \<in> set rs \<Longrightarrow> sb_id r = sb_id s \<Longrightarrow> evolves s r" "r \<in> set ss" "sb_id r = sb_id s"
  shows "evolves s r"
proof -
  obtain i where i: "i < length ss" "r = ss ! i" using assms(3) by (auto simp: in_set_conv_nth)
  with assms(1) have step: "i < length rs" "evolves (rs ! i) r" by (auto simp: list_all2_conv_all_nth)
  then have "sb_id (rs ! i) = sb_id s" using assms(4) by (simp add: evolves_def)
  then have "evolves s (rs ! i)" using assms(2) step(1) by simp
  then show ?thesis using step(2) by (rule evolves_trans)
qed

lemma synced_evolves:
  assumes rows: "\<And>r. r \<in> set (sandboxes w) \<Longrightarrow> sb_id r = sb_id s \<Longrightarrow> evolves s r"
    and step: "\<And>v. (\<And>r. r \<in> set (sandboxes v) \<Longrightarrow> sb_id r = sb_id s \<Longrightarrow> evolves s r) \<Longrightarrow>
      \<exists>b u. m v = (Inr b, u) \<and> evolve (sandboxes v) (sandboxes u)"
  shows "\<exists>b u. ebind (refresh_binding c s) (\<lambda>_. m) w = (Inr b, u) \<and> evolve (sandboxes w) (sandboxes u)"
proof -
  obtain v where v: "refresh_binding c s w = (Inr (), v)" "evolve (sandboxes w) (sandboxes v)"
    using refresh_binding_evolves by blast
  from v(2) rows have "\<And>r. r \<in> set (sandboxes v) \<Longrightarrow> sb_id r = sb_id s \<Longrightarrow> evolves s r" by (rule rows_evolve)
  from step [OF this] obtain b u where "m v = (Inr b, u)" "evolve (sandboxes v) (sandboxes u)" by blast
  with v show ?thesis by (auto intro: evolve_trans)
qed

lemma derived_transition:
  assumes "is_valid_transition (sb_status s) (fst (derive_status_from_sandbox_cr c))"
  shows "sb_status s \<noteq> DELETING"
  using assms derived_not_deleted [of c] by (auto simp: is_valid_transition_def)

lemma handle_added_or_modified_evolves:
  assumes rows: "\<And>r. r \<in> set (sandboxes w) \<Longrightarrow> sb_id r = sb_id s \<Longrightarrow> evolves s r"
  shows "\<exists>b v. handle_added_or_modified obs now c s w = (Inr b, v) \<and> evolve (sandboxes w) (sandboxes v)"
  unfolding handle_added_or_modified_def Let_def
  by (rule synced_evolves [where w = w and s = s, OF rows])
    (auto simp: commit_if_def intro!: apply_transition_evolves dest: derived_transition
      intro: sync_metadata_evolves [where b = True, unfolded commit_if_def, simplified])

lemma reconcile_present_evolves:
  assumes rows: "\<And>r. r \<in> set (sandboxes w) \<Longrightarrow> sb_id r = sb_id s \<Longrightarrow> evolves s r"
  shows "\<exists>b v. reconcile_present obs now c s w = (Inr b, v) \<and> evolve (sandboxes w) (sandboxes v)"
proof (cases "reconcile_cr_is_stale_list_snapshot (cr_resource_version c) (sb_k8s_resource_version s)")
  case True
  then show ?thesis by (auto simp: reconcile_present_def)
next
  case False
  then show ?thesis
    unfolding reconcile_present_def Let_def if_not_P [OF False]
    by (intro synced_evolves [where w = w and s = s, OF rows])
      (auto simp: commit_if_def intro!: apply_transition_evolves dest: derived_transition
        intro: sync_metadata_evolves [where b = True, unfolded commit_if_def, simplified])
qed

lemma reconcile_missing_evolves:
  assumes rows: "\<And>r. r \<in> set (sandboxes w) \<Longrightarrow> sb_id r = sb_id s \<Longrightarrow> evolves s r" and "sb_status s \<noteq> DELETED"
  shows "\<exists>b v. reconcile_missing obs now s w = (Inr b, v) \<and> evolve (sandboxes w) (sandboxes v)"
proof (cases "sb_status s = DELETING")
  case True
  have "\<exists>v. ebind (try_notify_sandbox_deleted obs (sb_id s) (sb_persist s)) (\<lambda>_.
      ebind (record_status_change (sb_id s) DELETING DELETED ''k8s_reconcile'' None) (\<lambda>_.
      ebind (delete_sandbox_row now (sb_id s)) (\<lambda>_. ret True))) w = (Inr True, v) \<and> evolve (sandboxes w) (sandboxes v)"
    using True rows by (rule delete_row_evolves)
  with True show ?thesis by (auto simp: reconcile_missing_def)
next
  case False
  with assms(2) show ?thesis by (cases "sb_status s") (auto simp: reconcile_missing_def)
qed

lemma reconcile_one_evolves:
  assumes "\<And>r. r \<in> set (sandboxes w) \<Longrightarrow> sb_id r = sb_id s \<Longrightarrow> evolves s r" "sb_status s \<noteq> DELETED"
  shows "\<exists>b v. reconcile_one obs now c s w = (Inr b, v) \<and> evolve (sandboxes w) (sandboxes v)"
  using assms by (cases c) (auto simp: reconcile_one_def intro: reconcile_missing_evolves reconcile_present_evolves)

lemma rollback_to_sandboxes [simp]: "sandboxes (snd (rollback_to b w)) = sandboxes b"
  by (simp add: rollback_to_def rollback_rows_def)

lemma reconcile_rows_evolves:
  assumes "\<And>s w. s \<in> set ss \<Longrightarrow> evolve (sandboxes w) (sandboxes (rivals s w))"
    and "\<And>s. s \<in> set ss \<Longrightarrow> s \<in> set T \<and> sb_status s \<noteq> DELETED" "distinct (map sb_id T)"
    and "evolve T (sandboxes w)" "evolve T (sandboxes base)"
  shows "\<exists>v. reconcile_rows obs rivals now maps base ss w = (Inr (), v) \<and> evolve T (sandboxes v)"
  using assms
proof (induction ss arbitrary: w base maps)
  case Nil
  then show ?case by (simp add: rollback_to_def rollback_rows_def)
next
  case (Cons s ss)
  have here: "evolve T (sandboxes (rivals s w))" "evolve T (sandboxes (rivals s base))"
    using Cons.prems(1) [of s] Cons.prems(4,5) by (auto intro: evolve_trans)
  have "evolves s r" if "r \<in> set (sandboxes (rivals s w))" "sb_id r = sb_id s" for r
    using evolve_row [OF here(1) Cons.prems(3) _ that] Cons.prems(2) [of s] by simp
  then obtain b u where one: "reconcile_one obs now (fst (pop_sandbox_cr_for_reconcile maps s)) s (rivals s w) = (Inr b, u)"
    and "evolve (sandboxes (rivals s w)) (sandboxes u)"
    using reconcile_one_evolves [of "rivals s w" s] Cons.prems(2) [of s] by fastforce
  with here(1) have u: "evolve T (sandboxes u)" by (blast intro: evolve_trans)
  have "evolve T (sandboxes (if b then u else rivals s base))" using u here(2) by simp
  from Cons.IH [OF _ _ Cons.prems(3) u this] Cons.prems(1,2) one show ?case by simp
qed

lemma matched_event_evolves:
  assumes rival: "evolve (sandboxes w) (sandboxes (rival w))"
    and ids: "distinct (map sb_id (sandboxes w))" and hidden: "deleted_hidden w"
    and s: "truthy (cr_name c)" "filter (watch_matches ns c) (sandboxes w) = [s]"
  shows "evolve (sandboxes (rival w)) (sandboxes (snd (handle_watch_event ns obs rival now ev c w)))"
proof -
  have in_w: "s \<in> set (sandboxes w)" "sync_visible s" using s by (auto simp: watch_matches_def filter_eq_Cons_iff)
  then have live: "sb_status s \<noteq> DELETED" using hidden by (auto simp: sync_visible_def deleted_hidden_def)
  have rows: "evolves s r" if "r \<in> set (sandboxes (rival w))" "sb_id r = sb_id s" for r
    using evolve_row [OF rival ids in_w(1) that] .
  let ?h = "if ev = ''DELETED'' then handle_deleted obs now c s
            else if ev \<in> {''ADDED'', ''MODIFIED''} then handle_added_or_modified obs now c s else ret False"
  have "\<exists>b v. ?h (rival w) = (Inr b, v) \<and> evolve (sandboxes (rival w)) (sandboxes v)"
    using handle_deleted_evolves [OF rows live] handle_added_or_modified_evolves [OF rows] by auto
  then obtain b v where "?h (rival w) = (Inr b, v)" "evolve (sandboxes (rival w)) (sandboxes v)" by blast
  then show ?thesis using s by (cases b) (simp_all add: handle_watch_event_def rollback_to_def rollback_rows_def)
qed

lemma handle_watch_event_evolves:
  assumes "evolve (sandboxes w) (sandboxes (rival w))" "distinct (map sb_id (sandboxes w))" "deleted_hidden w"
  shows "evolve (sandboxes w) (sandboxes (snd (handle_watch_event ns obs rival now ev c w)))"
proof -
  consider "\<not> truthy (cr_name c)" | "\<not> (\<exists>s. filter (watch_matches ns c) (sandboxes w) = [s])"
    | s where "truthy (cr_name c)" "filter (watch_matches ns c) (sandboxes w) = [s]" by blast
  then show ?thesis
  proof cases
    case 1
    then show ?thesis by (simp add: handle_watch_event_def)
  next
    case 2
    then show ?thesis
      by (cases "filter (watch_matches ns c) (sandboxes w)" rule: scalar_one_or_none.cases)
        (auto simp: handle_watch_event_def select_one_or_none_def ebind_def)
  next
    case (3 s)
    then show ?thesis using assms by (blast intro: matched_event_evolves evolve_trans)
  qed
qed

end

subsection \<open>The metering observer and hooks\<close>

lemma keeps_set_ledger_row [keeps_intros]: "(\<And>w x. P w \<Longrightarrow> P (w\<lparr>storage_ledgers := x\<rparr>)) \<Longrightarrow> keeps P (set_ledger i f)"
  by (simp add: set_ledger_def keeps_def)

lemma keeps_commit: "(\<And>w. P w \<Longrightarrow> P (store_rows w)) \<Longrightarrow> keeps P commit"
  by (simp add: keeps_def)

lemma keeps_transaction_sandboxes:
  "keeps (\<lambda>w. sandboxes w = T) m \<Longrightarrow> keeps (\<lambda>w. sandboxes w = T) (transaction m)"
  by (auto simp: keeps_def transaction_def rollback_rows_def split: prod.splits sum.splits)

lemma keeps_session_ops_sandboxes [keeps_intros]:
  "keeps (\<lambda>w. sandboxes w = T) (open_compute_session t sid uid tpl)"
  "keeps (\<lambda>w. sandboxes w = T) (close_compute_session now sid)"
  "keeps (\<lambda>w. sandboxes w = T) (record_storage_release t sid)"
  "keeps (\<lambda>w. sandboxes w = T) (record_storage_allocation t uid sid gib mode)"
  unfolding open_compute_session_def close_compute_session_def record_storage_release_def
    record_storage_allocation_def set_session_def Let_def
  by (auto intro!: keeps_intros split: option.split)

interpretation metering: sandbox_observer "[metering_observer t]" for t
  by unfold_locales
    (auto simp: metering_observer_def metering_on_ready_def metering_on_stopped_def metering_on_deleted_def
      intro!: keeps_intros)

definition metering_hooks :: "datetime \<Rightarrow> cluster option \<Rightarrow> string \<Rightarrow> unit op list" where
  "metering_hooks now k8s ns =
     [reconcile_metering now, reconcile_storage_metering (utc_ts now), reconcile_template_specs k8s ns]"

lemma keeps_hooks_sandboxes:
  "h \<in> set (metering_hooks now k8s ns) \<Longrightarrow> keeps (\<lambda>w. sandboxes w = T) h"
  by (auto simp: metering_hooks_def reconcile_metering_def reconcile_storage_metering_def
      create_missing_ledger_def reconcile_template_specs_def sync_template_specs_from_k8s_def
      intro!: keeps_intros keeps_commit split: option.split)

subsection \<open>Properties\<close>

text \<open>The status that an event gives to the row it was matched with, as the row was read: a deleted CR finalises a deletion and
  is an error of any other sandbox, but for the cold ones and those that are being snapshotted; any other event carries a status,
  which is taken over exactly when it is a valid transition and no operation on the storage is pending.\<close>

definition synced_status :: "string \<Rightarrow> cr \<Rightarrow> sandbox \<Rightarrow> sandbox_status" where
  "synced_status ev c s =
     (if ev = ''DELETED'' then
        (if sb_pending_operation s = Some SNAPSHOTTING \<or> sb_status s = COLD then sb_status s
         else if sb_status s = DELETING then DELETED else ERROR)
      else if ev \<in> {''ADDED'', ''MODIFIED''} \<and> \<not> suppress_status_sync s \<and>
        is_valid_transition (sb_status s) (fst (derive_status_from_sandbox_cr c))
      then fst (derive_status_from_sandbox_cr c) else sb_status s)"

definition landed :: "sandbox \<Rightarrow> sandbox_status \<Rightarrow> sandbox \<Rightarrow> sandbox \<Rightarrow> bool" where
  "landed s st r r' \<longleftrightarrow> (locked_row s r \<longrightarrow> sb_status r = sb_status s \<longrightarrow> sb_status r' = st)"

lemma landed_same: "list_all2 (landed s (sb_status s)) rs rs"
  by (simp add: landed_def list_all2_same)

lemma landed_statuses:
  assumes "map sb_status ss = map sb_status rs"
  shows "list_all2 (landed s (sb_status s)) rs ss"
proof (rule list_all2_all_nthI)
  show len: "length rs = length ss" using assms by (rule map_eq_imp_length_eq [symmetric])
  fix i
  assume "i < length rs"
  then have "sb_status (ss ! i) = sb_status (rs ! i)" using assms len by (metis nth_map)
  then show "landed s (sb_status s) (rs ! i) (ss ! i)" by (simp add: landed_def)
qed

lemma landed_optimistic:
  assumes "\<And>r. sb_id (f r) = sb_id r \<and> sb_version (f r) = sb_version r"
  shows "list_all2 (landed s st) rs (optimistic_rows now s st rv msg (update_where p f rs))"
  using assms
  by (auto simp: landed_def optimistic_rows_def update_where_def list_all2_map2 list_all2_same optimistic_values_def)

lemma landed_optimistic_direct: "list_all2 (landed s st) rs (optimistic_rows now s st rv msg rs)"
  by (auto simp: landed_def optimistic_rows_def update_where_def list_all2_map2 list_all2_same optimistic_values_def)

lemma landed_none: "filter (locked_row s) rs = [] \<Longrightarrow> list_all2 (landed s st) rs rs"
  by (auto simp: landed_def list_all2_same filter_empty_conv)

lemma filter_update_where_Nil:
  "(\<And>r. P (f r) = P r) \<Longrightarrow> filter P (update_where p f rs) = [] \<longleftrightarrow> filter P rs = []"
  by (induction rs) (auto simp: update_where_def)

lemma valid_not_reflexive: "\<not> is_valid_transition a a"
  by (cases a) (simp_all add: is_valid_transition_def)

context sandbox_observer
begin

lemma handle_deleted_landed:
  "\<exists>b v. handle_deleted obs now c s w = (Inr b, v) \<and>
     list_all2 (landed s (synced_status ''DELETED'' c s)) (sandboxes w) (sandboxes (if b then v else w))"
proof -
  obtain v where v: "try_notify_sandbox_deleted obs (sb_id s) (sb_persist s) w = (Inr (), v)" "sandboxes v = sandboxes w"
    by (rule notify_deleted_run)
  show ?thesis
  proof (cases "sb_pending_operation s = Some SNAPSHOTTING \<or> sb_status s = COLD")
    case True
    then show ?thesis by (auto simp: handle_deleted_def synced_status_def landed_same)
  next
    case False
    show ?thesis
    proof (cases "sb_status s = DELETING")
      case True
      with False v show ?thesis
        by (auto simp: handle_deleted_def synced_status_def delete_sandbox_row_def landed_def list_all2_update_where)
    next
      case other: False
      show ?thesis
      proof (cases "filter (locked_row s) (sandboxes w) = []")
        case True
        with False other v show ?thesis by (auto simp: handle_deleted_def landed_none)
      next
        case rows: False
        with False other v show ?thesis
          by (auto simp: handle_deleted_def synced_status_def landed_optimistic_direct)
      qed
    qed
  qed
qed

lemma handle_added_or_modified_landed:
  assumes "ev \<in> {''ADDED'', ''MODIFIED''}"
  shows "\<exists>b v. handle_added_or_modified obs now c s w = (Inr b, v) \<and>
     list_all2 (landed s (synced_status ev c s)) (sandboxes w) (sandboxes (if b then v else w))"
proof -
  define st where "st = fst (derive_status_from_sandbox_cr c)"
  obtain f where f: "\<And>r. sb_id (f r) = sb_id r \<and> sb_version (f r) = sb_version r \<and> sb_status (f r) = sb_status r"
    and bound: "refresh_binding c s w = (Inr (), w\<lparr>sandboxes := update_where (\<lambda>r. sb_id r = sb_id s) f (sandboxes w)\<rparr>)"
    by (rule that [of "\<lambda>r. r\<lparr>
       sb_k8s_sandbox_name := (if truthy (cr_name c) \<and> sb_k8s_sandbox_name s \<noteq> cr_name c then cr_name c else sb_k8s_sandbox_name r),
       sb_endpoints := (if truthy (cr_service_fqdn c) \<and> map_of (sb_endpoints s) ''service_fqdn'' \<noteq> cr_service_fqdn c
         then fresh_endpoints c s else sb_endpoints r)\<rparr>"]) (simp_all add: refresh_binding_def)
  define v where "v = w\<lparr>sandboxes := update_where (\<lambda>r. sb_id r = sb_id s) f (sandboxes w)\<rparr>"
  show ?thesis
  proof (cases "\<not> suppress_status_sync s \<and> is_valid_transition (sb_status s) st")
    case True
    then have neq: "sb_status s \<noteq> st" using valid_not_reflexive by metis
    obtain u where u: "apply_transition obs now ''k8s_watch'' s st (cr_resource_version c) (Some (snd (derive_status_from_sandbox_cr c))) v
        = (Inr (filter (locked_row s) (sandboxes v) \<noteq> []), u)"
      "sandboxes u = optimistic_rows now s st (cr_resource_version c) (Some (snd (derive_status_from_sandbox_cr c))) (sandboxes v)"
      by (rule apply_transition_run)
    have run: "handle_added_or_modified obs now c s w = (Inr (filter (locked_row s) (sandboxes v) \<noteq> []), u)"
      using True neq u(1) bound by (simp add: handle_added_or_modified_def Let_def v_def st_def)
    have none: "filter (locked_row s) (sandboxes v) = [] \<longleftrightarrow> filter (locked_row s) (sandboxes w) = []"
      using f by (simp add: v_def filter_update_where_Nil)
    have "synced_status ev c s = st" using True assms by (auto simp: synced_status_def st_def)
    moreover have "list_all2 (landed s st) (sandboxes w) (sandboxes u)"
      using f by (simp add: u(2) v_def landed_optimistic)
    ultimately show ?thesis using run none by (auto simp: landed_none)
  next
    case False
    then have st: "synced_status ev c s = sb_status s" using assms by (auto simp: synced_status_def st_def)
    have "\<exists>b u. handle_added_or_modified obs now c s w = (Inr b, u) \<and>
        map sb_status (sandboxes u) = map sb_status (sandboxes v)"
      using False bound
      by (auto simp: handle_added_or_modified_def Let_def commit_if_def update_sync_metadata_def map_update_where
          v_def [symmetric] st_def [symmetric])
    then obtain b u where u: "handle_added_or_modified obs now c s w = (Inr b, u)"
      "map sb_status (sandboxes u) = map sb_status (sandboxes v)" by blast
    have "map sb_status (sandboxes v) = map sb_status (sandboxes w)"
      using f by (simp add: v_def map_update_where)
    with u(2) have "list_all2 (landed s (sb_status s)) (sandboxes w) (sandboxes u)" by (intro landed_statuses) simp
    with u(1) st show ?thesis by (auto simp: landed_same)
  qed
qed

lemma handle_watch_event_landed:
  assumes "truthy (cr_name c)" "filter (watch_matches ns c) (sandboxes w) = [s]"
  shows "list_all2 (landed s (synced_status ev c s)) (sandboxes (rival w)) (sandboxes (snd (handle_watch_event ns obs rival now ev c w)))"
proof -
  let ?h = "if ev = ''DELETED'' then handle_deleted obs now c s
            else if ev \<in> {''ADDED'', ''MODIFIED''} then handle_added_or_modified obs now c s else ret False"
  have "\<exists>b v. ?h (rival w) = (Inr b, v) \<and>
      list_all2 (landed s (synced_status ev c s)) (sandboxes (rival w)) (sandboxes (if b then v else rival w))"
  proof (cases "ev \<in> {''ADDED'', ''MODIFIED''}")
    case True
    then have "ev \<noteq> ''DELETED''" by auto
    then show ?thesis using True handle_added_or_modified_landed [OF True] by simp
  next
    case False
    then show ?thesis using handle_deleted_landed
      by (cases "ev = ''DELETED''") (auto simp: synced_status_def landed_same)
  qed
  then obtain b v where "?h (rival w) = (Inr b, v)"
    "list_all2 (landed s (synced_status ev c s)) (sandboxes (rival w)) (sandboxes (if b then v else rival w))" by blast
  then show ?thesis using assms by (cases b) (simp_all add: handle_watch_event_def rollback_to_def rollback_rows_def)
qed

end

text \<open>C9: whatever watch event arrives and whatever other transactions commit meanwhile (as long as they
  follow the state machine themselves), the handler moves sandbox rows only along the state machine:
  ids stay, versions never go back, and a row makes at most one valid transition for each version it gains, so that no write
  jumps over a status. The row that the event was matched with, if it is still at the version that was read,
  gets exactly the status that the event asks for when that is a valid transition, and keeps its own otherwise.
\<close>

theorem handle_watch_event_follows_state_machine:
  assumes "evolve (sandboxes w) (sandboxes (rival w))" "distinct (map sb_id (sandboxes w))" "deleted_hidden w"
  shows "evolve (sandboxes w) (sandboxes (snd (handle_watch_event ns [metering_observer t] rival now ev c w))) \<and>
    (\<forall>s. truthy (cr_name c) \<and> filter (watch_matches ns c) (sandboxes w) = [s] \<longrightarrow>
      evolve (sandboxes (rival w)) (sandboxes (snd (handle_watch_event ns [metering_observer t] rival now ev c w))) \<and>
      list_all2 (\<lambda>r r'. locked_row s r \<longrightarrow> sb_status r = sb_status s \<longrightarrow> sb_status r' = synced_status ev c s)
        (sandboxes (rival w)) (sandboxes (snd (handle_watch_event ns [metering_observer t] rival now ev c w))))"
  using metering.handle_watch_event_evolves [of w rival, OF assms] metering.matched_event_evolves [of w rival, OF assms]
    metering.handle_watch_event_landed [of c ns w, unfolded landed_def]
  by blast

definition ready_cr :: cr where
  "ready_cr = \<lparr>cr_name = Some ''box-x1'', cr_namespace = Some ''treadstone'', cr_resource_version = Some ''42'',
     cr_owner_references = [\<lparr>or_kind = Some ''SandboxClaim'', or_name = Some ''box'', or_controller = None\<rparr>],
     cr_operating_mode = Some ''Running'',
     cr_conditions = [\<lparr>cond_type = Some ''Ready'', cond_status = Some ''True'', cond_reason = None,
       cond_message = Some ''ok''\<rparr>], cr_service_fqdn = None\<rparr>"

abbreviation sync_world :: world where
  "sync_world \<equiv> empty_world\<lparr>sandboxes := [demo_sandbox\<lparr>sb_status := CREATING\<rparr>]\<rparr>"

definition stopping_rival :: "world \<Rightarrow> world" where
  "stopping_rival w = w\<lparr>sandboxes := map (\<lambda>s. s\<lparr>sb_status := STOPPED, sb_version := sb_version s + 1\<rparr>) (sandboxes w)\<rparr>"

lemma stopping_rival_evolves: "evolve (sandboxes sync_world) (sandboxes (stopping_rival sync_world))"
  by (auto simp: empty_world_def stopping_rival_def demo_sandbox_def is_valid_transition_def intro!: evolvesI)

theorem handle_watch_event_follows_state_machine_witness:
  "evolve (sandboxes sync_world) (sandboxes (snd (handle_watch_event ''treadstone'' [metering_observer demo_now]
     stopping_rival 7 ''MODIFIED'' ready_cr sync_world)))"
  by (rule handle_watch_event_follows_state_machine [THEN conjunct1], rule stopping_rival_evolves)
    (simp_all add: empty_world_def deleted_hidden_def demo_sandbox_def)

text \<open>C10: a reconciliation pass always completes and returns the version of the list, and it moves sandbox
  rows only along the state machine, at most one valid transition for each version that a row gains, also when other
  transactions that do the same commit between the rows.
\<close>

theorem reconcile_follows_state_machine:
  assumes "\<And>s w. evolve (sandboxes w) (sandboxes (rivals s w))"
    and "distinct (map sb_id (sandboxes w))" "deleted_hidden w"
  shows "\<exists>v. reconcile [metering_observer t] (metering_hooks t k8s tns) rivals now ns (rv, crs) w = (Inr rv, v) \<and>
    evolve (sandboxes w) (sandboxes v)"
proof -
  let ?ss = "filter (\<lambda>s. sb_k8s_namespace s = ns \<and> sync_visible s) (sandboxes w)"
  have "s \<in> set (sandboxes w) \<and> sb_status s \<noteq> DELETED" if "s \<in> set ?ss" for s
    using that assms(3) by (auto simp: sync_visible_def deleted_hidden_def)
  then have "\<exists>v. reconcile_rows [metering_observer t] rivals now (build_cr_maps crs) w ?ss w = (Inr (), v) \<and>
      evolve (sandboxes w) (sandboxes v)"
    by (intro metering.reconcile_rows_evolves assms evolve_refl) simp_all
  then obtain v where v: "reconcile_rows [metering_observer t] rivals now (build_cr_maps crs) w ?ss w = (Inr (), v)"
    "evolve (sandboxes w) (sandboxes v)" by blast
  let ?h = "for_each (metering_hooks t k8s tns) (\<lambda>h. best_effort (transaction h))"
  have "?h v = (Inr (), snd (?h v))" by (intro runs_okD runs_ok_for_each runs_ok_best_effort)
  moreover have "keeps (\<lambda>u. sandboxes u = sandboxes v) ?h"
    by (intro keeps_for_each keeps_best_effort keeps_transaction_sandboxes keeps_hooks_sandboxes)
  then have "sandboxes (snd (?h v)) = sandboxes v" by (simp add: keeps_def)
  ultimately show ?thesis using v by (simp add: reconcile_def)
qed

theorem reconcile_follows_state_machine_witness:
  "\<exists>v. reconcile [metering_observer demo_now] (metering_hooks demo_now None ''treadstone'') (\<lambda>_ w. w) 7 ''treadstone''
     (''99'', [ready_cr]) sync_world = (Inr ''99'', v) \<and> evolve (sandboxes sync_world) (sandboxes v)"
  by (rule reconcile_follows_state_machine) (simp_all add: empty_world_def deleted_hidden_def demo_sandbox_def)

text \<open>optimistic locking. When another transaction changed the version of the row between the read and
  the update, an event that would change the status changes nothing at all: no row, no audit event, no
  compute session, and the observers are not notified.
\<close>

theorem watch_conflict_changes_nothing:
  assumes "truthy (cr_name c)" "filter (watch_matches ns c) (sandboxes w) = [s]" "ev \<in> {''ADDED'', ''MODIFIED''}"
    and "\<not> suppress_status_sync s" "fst (derive_status_from_sandbox_cr c) \<noteq> sb_status s"
    and lost: "filter (locked_row s) (sandboxes (rival w)) = []"
  shows "handle_watch_event ns obs rival now ev c w = (Inr (), rival w)"
proof -
  define rows where "rows = sandboxes (snd (refresh_binding c s (rival w)))"
  define v where "v = rival w\<lparr>sandboxes := rows\<rparr>"
  have v: "refresh_binding c s (rival w) = (Inr (), v)" "rollback_rows (rival w) v = rival w"
    by (simp_all add: v_def rows_def refresh_binding_def rollback_rows_def)
  have "\<not> locked_row s r" if "r \<in> set rows" for r
    using that lost by (auto simp: rows_def refresh_binding_def set_update_where filter_empty_conv)
  then have "filter (locked_row s) (sandboxes v) = []" by (simp add: v_def)
  then have "handle_added_or_modified obs now c s (rival w) = (Inr False, v)"
    using assms(4,5) v(1) optimistic_rows_none [of s "sandboxes v"]
    by (simp add: handle_added_or_modified_def apply_transition_def Let_def)
  then show ?thesis using assms(1-3) v(2) by (auto simp: handle_watch_event_def rollback_to_def)
qed

theorem watch_conflict_changes_nothing_witness:
  "handle_watch_event ''treadstone'' [metering_observer demo_now] stopping_rival 7 ''MODIFIED'' ready_cr sync_world
     = (Inr (), stopping_rival sync_world)"
  by (rule watch_conflict_changes_nothing [where s = "demo_sandbox\<lparr>sb_status := CREATING\<rparr>"])
    (simp_all add: empty_world_def stopping_rival_def demo_sandbox_def ready_cr_def watch_matches_def truthy_def
      sync_visible_def suppress_status_sync_def sandbox_claim_owner_name_def or_else_def
      derive_status_from_sandbox_cr_def get_condition_def Let_def)

lemma optimistic_rows_row:
  assumes "filter (\<lambda>r. sb_id r = sb_id s) rs = [r]" "sb_version r = sb_version s"
  shows "filter (\<lambda>r. sb_id r = sb_id s) (optimistic_rows now s st rv msg rs)
      = [optimistic_values now (sb_version s) st rv msg r]"
proof -
  have r: "sb_id r = sb_id s" using assms(1) by (auto simp: filter_eq_Cons_iff)
  let ?p = "\<lambda>r. sb_version r = sb_version s" and ?f = "optimistic_values now (sb_version s) st rv msg"
  have "filter (\<lambda>r. sb_id r = sb_id s) (update_where (locked_row s) ?f xs)
      = update_where (locked_row s) ?f (filter (\<lambda>r. sb_id r = sb_id s) xs)" for xs
    by (rule filter_update_where) (simp add: optimistic_values_def)
  then show ?thesis using assms r by (simp add: optimistic_rows_def)
qed

text \<open>Metering follows the sync loop. When a watch event reports that a sandbox that has no open
  compute session became ready, the handler commits, in one transaction, the new status with the next
  version, the name of the bound \<^verbatim>\<open>Sandbox\<close> CR, one audit event with the old and the new status, and exactly
  one open compute session for the owner of the sandbox and its template.
\<close>

theorem watch_ready_opens_session:
  assumes name: "truthy (cr_name c)" and found: "filter (watch_matches ns c) (sandboxes w) = [s]"
    and ids: "distinct (map sb_id (sandboxes w))" and ev: "ev \<in> {''ADDED'', ''MODIFIED''}"
    and ready: "derive_status_from_sandbox_cr c = (READY, msg)"
    and st: "sb_status s \<in> {CREATING, STOPPED, COLD, ERROR}" "\<not> suppress_status_sync s"
    and inv: "one_open_session w" and none: "open_sessions_of (sb_id s) w = []"
    and spec: "resolve_spec (template_specs_cache w) (sb_template s) \<noteq> None"
  shows "\<exists>v r x. handle_watch_event ns [metering_observer t] id now ev c w = (Inr (), v) \<and>
    filter (\<lambda>r. sb_id r = sb_id s) (sandboxes v) = [r] \<and> sb_status r = READY \<and> sb_version r = sb_version s + 1 \<and>
    sb_k8s_sandbox_name r = cr_name c \<and> sb_gmt_started r = Some now \<and>
    audit_events v = audit_events w @ [status_event (sb_id s) (sb_status s) READY ''k8s_watch'' (Some msg)] \<and>
    open_sessions_of (sb_id s) v = [x] \<and> cs_user_id x = sb_owner_id s \<and> cs_template x = sb_template s \<and>
    cs_started_at x = utc_ts t"
proof -
  define rv where "rv = cr_resource_version c"
  define v where "v = snd (refresh_binding c s w)"
  have run: "refresh_binding c s w = (Inr (), v)" by (simp add: v_def refresh_binding_def)
  have same: "compute_sessions v = compute_sessions w" "audit_events v = audit_events w"
    "template_specs_cache v = template_specs_cache w" by (simp_all add: v_def refresh_binding_def)
  have "s \<in> set (sandboxes w)" using found by (metis Cons_eq_filterD in_set_conv_decomp)
  then have "filter (\<lambda>r. sb_id r = sb_id s) (sandboxes w) = [s]" by (rule filter_distinct_key [OF ids])
  then obtain r where r: "filter (\<lambda>r. sb_id r = sb_id s) (sandboxes v) = [r]" "sb_version r = sb_version s"
    "sb_k8s_sandbox_name r = cr_name c" "sb_id r = sb_id s"
    using name by (auto simp: v_def refresh_binding_def filter_update_where)
  then have "r \<in> set (sandboxes v)" by (metis Cons_eq_filterD in_set_conv_decomp)
  then have locked: "filter (locked_row s) (sandboxes v) \<noteq> []" using r(2,4) by (auto simp: filter_empty_conv)
  define u where "u = v\<lparr>sandboxes := optimistic_rows now s READY rv (Some msg) (sandboxes v),
     audit_events := audit_events v @ [status_event (sb_id s) (sb_status s) READY ''k8s_watch'' (Some msg)]\<rparr>"
  have inv_u: "one_open_session u" and none_u: "open_sessions_of (sb_id s) u = []"
    and spec_u: "resolve_spec (template_specs_cache u) (sb_template s) \<noteq> None"
    using inv none spec same by (simp_all add: u_def one_open_session_def open_sessions_of_def)
  obtain x u' where opened: "open_compute_session (utc_ts t) (sb_id s) (sb_owner_id s) (sb_template s) u = (Inr x, u')"
    and x: "open_sessions_of (sb_id s) u' = [x]" "cs_user_id x = sb_owner_id s" "cs_template x = sb_template s"
      "cs_started_at x = utc_ts t" and u': "sandboxes u' = sandboxes u" "audit_events u' = audit_events u"
    using none_u spec_u unfolding open_compute_session_run [OF inv_u] open_sessions_of_def by (auto simp: Let_def)
  have "notify_observers_on_transition [metering_observer t] s (sb_status s) READY u = (Inr (), u')"
    using st(1) best_effort_ok [of "open_compute_session (utc_ts t) (sb_id s) (sb_owner_id s) (sb_template s)", OF opened]
    by (auto simp: notify_observers_on_transition_def metering_observer_def metering_on_ready_def)
  then have app: "apply_transition [metering_observer t] now ''k8s_watch'' s READY rv (Some msg) v = (Inr True, store_rows u')"
    using locked by (simp add: apply_transition_def u_def)
  have "is_valid_transition (sb_status s) READY" "sb_status s \<noteq> READY"
    using st(1) by (auto simp: is_valid_transition_def)
  then have "handle_added_or_modified [metering_observer t] now c s w = (Inr True, store_rows u')"
    using ready st(2) run app by (simp add: handle_added_or_modified_def Let_def rv_def)
  then have "handle_watch_event ns [metering_observer t] id now ev c w = (Inr (), store_rows u')"
    using name found ev by (auto simp: handle_watch_event_def)
  moreover have "filter (\<lambda>r. sb_id r = sb_id s) (sandboxes (store_rows u')) =
      [optimistic_values now (sb_version s) READY rv (Some msg) r]"
    using optimistic_rows_row [OF r(1,2)] u'(1) by (simp add: u_def)
  moreover have "open_sessions_of (sb_id s) (store_rows u') = [store_session x]" using x(1) by (simp add: open_sessions_of_store)
  moreover have "audit_events (store_rows u') = audit_events w @ [status_event (sb_id s) (sb_status s) READY ''k8s_watch'' (Some msg)]"
    using u'(2) same by (simp add: store_rows_def u_def)
  ultimately show ?thesis
    using r(3) x(2-4)
    by (intro exI [of _ "store_rows u'"] exI [of _ "optimistic_values now (sb_version s) READY rv (Some msg) r"]
        exI [of _ "store_session x"]) (simp add: optimistic_values_def store_session_def)
qed

theorem watch_ready_opens_session_witness:
  "\<exists>v r x. handle_watch_event ''treadstone'' [metering_observer demo_now] id 7 ''MODIFIED'' ready_cr sync_world = (Inr (), v) \<and>
    filter (\<lambda>r. sb_id r = ''sb1'') (sandboxes v) = [r] \<and> sb_status r = READY \<and> sb_version r = 2 \<and>
    open_sessions_of ''sb1'' v = [x] \<and> cs_user_id x = ''u1''"
proof -
  let ?s = "demo_sandbox\<lparr>sb_status := CREATING\<rparr>"
  have "filter (watch_matches ''treadstone'' ready_cr) (sandboxes sync_world) = [?s]"
    by (simp add: empty_world_def demo_sandbox_def ready_cr_def watch_matches_def truthy_def
        sync_visible_def sandbox_claim_owner_name_def or_else_def)
  moreover have "derive_status_from_sandbox_cr ready_cr = (READY, ''ok'')"
    by (simp add: ready_cr_def derive_status_from_sandbox_cr_def get_condition_def or_else_def Let_def)
  moreover have "resolve_spec (template_specs_cache sync_world) (sb_template ?s) \<noteq> None"
    by (simp add: empty_world_def demo_sandbox_def resolve_spec_def TEMPLATE_SPECS_def)
  moreover have "truthy (cr_name ready_cr)" "distinct (map sb_id (sandboxes sync_world))"
    "''MODIFIED'' \<in> {''ADDED'', ''MODIFIED''}" "sb_status ?s \<in> {CREATING, STOPPED, COLD, ERROR}" "\<not> suppress_status_sync ?s"
    "one_open_session sync_world" "open_sessions_of (sb_id ?s) sync_world = []"
    by (simp_all add: ready_cr_def truthy_def demo_sandbox_def empty_world_def suppress_status_sync_def
        one_open_session_def one_live_def open_sessions_of_def)
  ultimately have "\<exists>v r x. handle_watch_event ''treadstone'' [metering_observer demo_now] id 7 ''MODIFIED'' ready_cr sync_world = (Inr (), v) \<and>
    filter (\<lambda>r. sb_id r = sb_id ?s) (sandboxes v) = [r] \<and> sb_status r = READY \<and> sb_version r = sb_version ?s + 1 \<and>
    open_sessions_of (sb_id ?s) v = [x] \<and> cs_user_id x = sb_owner_id ?s"
    using watch_ready_opens_session [of ready_cr "''treadstone''" sync_world ?s "''MODIFIED''" "''ok''" demo_now 7] by blast
  moreover have "sb_id ?s = ''sb1''" "sb_version ?s + 1 = 2" "sb_owner_id ?s = ''u1''" by (simp_all add: demo_sandbox_def)
  ultimately show ?thesis by (simp only:)
qed

end
