(* ===== verification/Service_Moves.thy ===== *)
theory Service_Moves
  imports Snapshot_Safety Sandbox_Service Sync_Machine
begin

text \<open>
  What the sandbox service does to rows, as a step relation.

  \<open>service_move\<close> lists the steps; \<open>service_refines_moves\<close> shows that every operation of the service, on every
  path including its failures, is a sequence of them on the rows of the table. What the steps have in
  common then holds for the service: a status only changes with a new version, so that the optimistic
  lock of the sync loop notices it; the invariant of cold storage is kept; and every change of status is
  a valid transition, with one exception, a deletion that failed.
\<close>

inductive service_move :: "sandbox \<Rightarrow> sandbox \<Rightarrow> bool" where
  patch: "service_move r (r\<lparr>sb_name := n, sb_labels := l, sb_auto_stop_interval := i, sb_auto_delete_interval := d,
     sb_version := sb_version r + 1\<rparr>)"
| touch: "service_move r (r\<lparr>sb_gmt_last_active := t\<rparr>)"
| stop: "sb_pending_operation r = None \<Longrightarrow> sb_status r = READY \<or> sb_status r = ERROR \<Longrightarrow>
     service_move r (r\<lparr>sb_status := STOPPED, sb_gmt_stopped := t, sb_version := sb_version r + 1\<rparr>)"
| start: "sb_pending_operation r = None \<Longrightarrow> sb_status r = STOPPED \<or> sb_status r = ERROR \<Longrightarrow>
     service_move r (r\<lparr>sb_status := CREATING, sb_gmt_started := t, sb_gmt_last_active := u, sb_version := sb_version r + 1\<rparr>)"
| ready: "sb_pending_operation r = None \<Longrightarrow> is_valid_transition (sb_status r) READY \<Longrightarrow>
     service_move r (r\<lparr>sb_status := READY, sb_status_message := m, sb_version := sb_version r + 1,
       sb_gmt_started := t, sb_k8s_resource_version := v\<rparr>)"
| restore: "sb_pending_operation r = None \<Longrightarrow> sb_status r = COLD \<Longrightarrow>
     service_move r (r\<lparr>sb_pending_operation := Some RESTORING, sb_gmt_started := t, sb_gmt_last_active := u,
       sb_status_message := m, sb_version := sb_version r + 1\<rparr>)"
| snapshot: "sb_pending_operation r = None \<Longrightarrow> sb_status r = STOPPED \<Longrightarrow> sb_persist r \<Longrightarrow>
     service_move r (r\<lparr>sb_pending_operation := Some SNAPSHOTTING, sb_status_message := m, sb_version := sb_version r + 1\<rparr>)"
| delete: "sb_pending_operation r = None \<Longrightarrow> is_valid_transition (sb_status r) DELETING \<Longrightarrow>
     service_move r (r\<lparr>sb_status := DELETING, sb_version := sb_version r + 1\<rparr>)"
| unbind: "sb_status r = DELETING \<Longrightarrow> sb_storage_backend_mode r \<noteq> Some STANDARD_SNAPSHOT \<Longrightarrow>
     service_move r (clear_snapshot_binding r)"
| finish: "sb_status r = DELETING \<Longrightarrow> sb_pending_operation r = None \<Longrightarrow>
     service_move r ((clear_snapshot_binding r)\<lparr>sb_status := DELETED, sb_gmt_deleted := t, sb_status_message := m,
       sb_version := sb_version r + 1\<rparr>)"
| failed: "sb_pending_operation r = None \<Longrightarrow> sb_status r \<in> {CREATING, STOPPED, DELETING} \<Longrightarrow>
     service_move r (r\<lparr>sb_status := ERROR, sb_status_message := m, sb_version := sb_version r + 1\<rparr>)"

subsection \<open>What all moves have in common\<close>

lemma clear_snapshot_binding_fields [simp]:
  "sb_status (clear_snapshot_binding r) = sb_status r" "sb_id (clear_snapshot_binding r) = sb_id r"
  "sb_version (clear_snapshot_binding r) = sb_version r"
  "sb_pending_operation (clear_snapshot_binding r) = sb_pending_operation r"
  "sb_storage_backend_mode (clear_snapshot_binding r) = sb_storage_backend_mode r"
  "sb_snapshot_name (clear_snapshot_binding r) = None"
  by (simp_all add: clear_snapshot_binding_def)

lemma service_move_id: "service_move r r' \<Longrightarrow> sb_id r' = sb_id r"
  by (induction rule: service_move.induct) (auto simp: clear_snapshot_binding_def)

lemma service_move_version:
  "service_move r r' \<Longrightarrow> sb_version r \<le> sb_version r' \<and> (sb_status r' \<noteq> sb_status r \<longrightarrow> sb_version r < sb_version r')"
  by (induction rule: service_move.induct) (auto simp: clear_snapshot_binding_def)

lemma service_move_transition:
  "service_move r r' \<Longrightarrow> sb_status r' = sb_status r \<or> is_valid_transition (sb_status r) (sb_status r') \<or>
     sb_status r = DELETING \<and> sb_status r' = ERROR"
  by (induction rule: service_move.induct) (auto simp: clear_snapshot_binding_def is_valid_transition_def)

lemma service_move_cold: "service_move r r' \<Longrightarrow> cold_ok r \<Longrightarrow> cold_ok r'"
  by (induction rule: service_move.induct) (auto simp: cold_ok_def clear_snapshot_binding_def is_valid_transition_def)

lemma service_moves_id: "service_move\<^sup>*\<^sup>* r r' \<Longrightarrow> sb_id r' = sb_id r"
  by (induction rule: rtranclp_induct) (auto dest: service_move_id)

subsection \<open>Triples for the service\<close>

definition moved :: "sandbox list \<Rightarrow> sandbox list \<Rightarrow> bool" where
  "moved T rs \<longleftrightarrow> distinct (map sb_id T) \<and> list_all2 service_move\<^sup>*\<^sup>* T rs"

lemma moved_ids: "moved T rs \<Longrightarrow> map sb_id rs = map sb_id T"
  unfolding moved_def list_all2_conv_all_nth by (auto simp: list_eq_iff_nth_eq dest!: service_moves_id)

interpretation moves: row_logic "moved T" "service_move\<^sup>*\<^sup>*" for T
proof
  fix rs p f
  assume inv: "moved T rs" and step: "\<And>r. r \<in> set rs \<Longrightarrow> p r \<Longrightarrow> service_move\<^sup>*\<^sup>* r (f r)"
  have "list_all2 service_move\<^sup>*\<^sup>* rs (update_where p f rs)"
    using step by (simp add: list_all2_update_where)
  with inv show "moved T (update_where p f rs)"
    unfolding moved_def using list_all2_trans [of "service_move\<^sup>*\<^sup>*" "service_move\<^sup>*\<^sup>*" "service_move\<^sup>*\<^sup>*"] by fastforce
next
  fix rs
  assume "moved T rs"
  then show "distinct (map sb_id rs)" by (simp add: moved_ids moved_def)
qed (rule service_moves_id)

abbreviation moved_inv :: "sandbox list \<Rightarrow> world \<Rightarrow> bool" where
  "moved_inv T w \<equiv> moved T (sandboxes w)"

lemma valid_moves_then:
  assumes "keeps (row_at (moved T) s F) m" "\<And>a. valid (row_at (moved T) s F) (f a) Q (moved_inv T)"
  shows "valid (row_at (moved T) s F) (ebind m f) Q (moved_inv T)"
proof (rule valid_ebind)
  show "valid (row_at (moved T) s F) m (\<lambda>_. row_at (moved T) s F) (moved_inv T)"
    using valid_keeps [OF assms(1)] by (rule valid_weaken) (auto dest: row_at_inv)
qed (rule assms(2))

lemma valid_moves_assign:
  assumes "\<And>r. F r \<Longrightarrow> service_move r (f r) \<and> G (f r)" "\<And>a. valid (row_at (moved T) s G) (g a) Q (moved_inv T)"
  shows "valid (row_at (moved T) s F) (ebind (assign s f) g) Q (moved_inv T)"
  using assms by (intro valid_ebind [OF moves.valid_assign [of F f G]]) auto

lemma valid_moves_this:
  assumes "\<And>x. valid (row_at (moved T) s F) (f x) Q X"
  shows "valid (row_at (moved T) s F) (ebind (this s) f) Q X"
  by (rule moves.valid_this) (auto intro: valid_row_pre [OF assms])

text \<open>The table is as \<open>moved T\<close> says, and the row with the id \<open>sid\<close> satisfies \<open>F\<close>.\<close>

definition sid_at :: "sandbox list \<Rightarrow> string \<Rightarrow> (sandbox \<Rightarrow> bool) \<Rightarrow> world \<Rightarrow> bool" where
  "sid_at T sid F w \<longleftrightarrow> moved_inv T w \<and> (\<forall>r \<in> set (sandboxes w). sb_id r = sid \<longrightarrow> F r)"

lemma sid_at_row: "sb_id s = sid \<Longrightarrow> sid_at T sid F = row_at (moved T) s F"
  by (auto simp: sid_at_def row_at_def fun_eq_iff)

lemma need_spec:
  "valid (sid_at T sid F) (need_sandbox sid owner)
     (\<lambda>s w. (sb_id s = sid \<and> F s) \<and> row_at (moved T) s (\<lambda>r. r = s) w) (moved_inv T)"
  unfolding valid_def
proof (intro allI impI)
  fix w
  assume inv: "sid_at T sid F w"
  let ?q = "filter (\<lambda>s. sb_id s = sid \<and> sb_owner_id s = owner \<and> sb_gmt_deleted s = None) (sandboxes w)"
  have "(sb_id s = sid \<and> F s) \<and> row_at (moved T) s (\<lambda>r. r = s) w" if "?q = [s]" for s
  proof -
    have s: "s \<in> set (sandboxes w)" "sb_id s = sid" using that by (auto simp: filter_eq_Cons_iff)
    then show ?thesis
      using inv moves.ids [of T "sandboxes w"] by (auto simp: sid_at_def row_at_def distinct_map dest: inj_onD)
  qed
  then show "case need_sandbox sid owner w of (Inl e, w') \<Rightarrow> moved_inv T w'
      | (Inr s, w') \<Rightarrow> (sb_id s = sid \<and> F s) \<and> row_at (moved T) s (\<lambda>r. r = s) w'"
    using inv by (cases ?q rule: scalar_one_or_none.cases)
      (auto simp: sid_at_def need_sandbox_def get_sandbox_def select_one_or_none_def ebind_def)
qed

lemma valid_need_where:
  assumes "\<And>s. sb_id s = sid \<Longrightarrow> F s \<Longrightarrow> valid (row_at (moved T) s (\<lambda>r. r = s)) (f s) Q (moved_inv T)"
  shows "valid (sid_at T sid F) (ebind (need_sandbox sid owner) f) Q (moved_inv T)"
  by (rule valid_ebind [OF need_spec]) (rule valid_assume, auto intro: assms)

lemma valid_need:
  assumes "\<And>s. sb_id s = sid \<Longrightarrow> valid (row_at (moved T) s (\<lambda>r. r = s)) (f s) Q (moved_inv T)"
  shows "valid (moved_inv T) (ebind (need_sandbox sid owner) f) Q (moved_inv T)"
  using valid_need_where [of sid "\<lambda>_. True" T f Q owner] assms by (simp add: sid_at_def [abs_def])

lemma keeps_row_commit [keeps_intros]: "keeps (row_at I s F) commit"
  by (simp add: keeps_def)

lemma valid_done: "valid (row_at (moved T) s F) (this s) (\<lambda>_. moved_inv T) X" "valid (row_at (moved T) s F) (ret a) (\<lambda>_. moved_inv T) X"
  "valid (row_at (moved T) s F) (raise e) Q (moved_inv T)" "valid (row_at (moved T) s F) commit (\<lambda>_. moved_inv T) X"
  by (auto simp: valid_def row_at_def)

lemma valid_mark_error:
  assumes "\<And>r. F r \<Longrightarrow> sb_pending_operation r = None \<and> sb_status r \<in> {CREATING, STOPPED, DELETING}"
  shows "valid (row_at (moved T) s F) (mark_error s m) (\<lambda>_. row_at (moved T) s (\<lambda>r. sb_status r = ERROR)) (moved_inv T)"
  unfolding mark_error_def
  by (rule valid_ebind [OF moves.valid_assign [of F _ "\<lambda>r. sb_status r = ERROR"]])
    (use assms in \<open>auto intro!: r_into_rtranclp service_move.failed simp: valid_def\<close>)

subsection \<open>The operations\<close>

lemma keeps_checks:
  assumes "\<And>w x. P w \<Longrightarrow> P (w\<lparr>user_plans := x\<rparr>)" "\<And>w n. P w \<Longrightarrow> P (w\<lparr>ids_drawn := n\<rparr>)"
    "\<And>w x. P w \<Longrightarrow> P (w\<lparr>compute_grants := x\<rparr>)"
  shows "keeps P (validate_auto_stop_interval_for_tier cfg mt now owner i)"
    "keeps P (enforce_quotas cfg mt now owner tpl sz i)"
  unfolding validate_auto_stop_interval_for_tier_def enforce_quotas_def check_sandbox_duration_def
    check_template_allowed_def check_compute_quota_def check_concurrent_limit_def check_storage_quota_def
    get_extra_compute_remaining_def count_running_sandboxes_def get_extra_storage_quota_def get_current_storage_used_def Let_def
  by (intro keeps_intros assms; assumption)+

lemma keeps_snapshot_backend: "(\<And>w l. P w \<Longrightarrow> P (w\<lparr>k8s_log := l\<rparr>)) \<Longrightarrow> keeps P (ensure_snapshot_backend_ready cfg cl)"
  unfolding ensure_snapshot_backend_ready_def by (auto intro!: keeps_intros)

lemma valid_rollback: "moved_inv T b \<Longrightarrow> valid P (rollback_to b) (\<lambda>_. moved_inv T) X"
  by (simp add: valid_def rollback_to_def rollback_rows_def)

lemma valid_gets_id: "(\<And>b. P b \<Longrightarrow> valid P (f b) Q X) \<Longrightarrow> valid P (ebind (gets id) f) Q X"
  by (simp add: valid_def)

lemma valid_update: "valid (moved_inv T) (update cfg mt now sid owner p) (\<lambda>_. moved_inv T) (moved_inv T)"
proof -
  have conflict: "valid (row_at (moved T) s F) (ebind (rollback_to b) (\<lambda>_. case pa_name p of
      Some n \<Rightarrow> raise (SandboxNameConflictError n) | None \<Rightarrow> raise IntegrityError)) (\<lambda>_. moved_inv T) (moved_inv T)"
    if "moved_inv T b" for b s F
    by (rule valid_ebind [OF valid_rollback [OF that]]) (auto intro: valid_raise split: option.split)
  have "service_move r (apply_patch p r)" for r
    unfolding apply_patch_def by (rule service_move.patch)
  then show ?thesis
    unfolding update_def
    by (intro valid_if valid_raise valid_gets_id valid_need valid_moves_then keeps_checks valid_done
        valid_moves_assign [where G = "\<lambda>_. True"] conflict keeps_gets keeps_row_commit) auto
qed

lemma valid_touch: "valid (moved_inv T) (touch_activity now sid) (\<lambda>_. moved_inv T) (moved_inv T)"
  using moves.update [of T _ "\<lambda>r. sb_id r = sid" "\<lambda>r. r\<lparr>sb_gmt_last_active := Some now\<rparr>"]
  by (auto simp: valid_def touch_activity_def intro!: service_move.touch)

lemma keeps_close_row: "keeps (row_at I s F) (close_compute_session now sid)"
  using keeps_session_ops_sandboxes(2) unfolding keeps_def row_at_def by metis

lemma valid_close: "valid (row_at (moved T) s F) (close_session_best_effort now s) (\<lambda>_. row_at (moved T) s F) (moved_inv T)"
  unfolding close_session_best_effort_def
proof (rule valid_gets_id)
  fix b
  assume b: "row_at (moved T) s F b"
  have "keeps (row_at (moved T) s F) (ebind (close_compute_session now (sb_id s)) (\<lambda>_. commit))"
    by (intro keeps_intros keeps_close_row)
  then show "valid (row_at (moved T) s F) (try_else (ebind (close_compute_session now (sb_id s)) (\<lambda>_. commit))
      (\<lambda>_. rollback_to b) ret) (\<lambda>_. row_at (moved T) s F) (moved_inv T)"
    by (rule valid_try_else [OF valid_keeps])
      (use b in \<open>auto simp: valid_def rollback_to_def rollback_rows_def row_at_def\<close>)
qed

abbreviation idle :: "sandbox_status \<Rightarrow> sandbox \<Rightarrow> bool" where
  "idle st r \<equiv> sb_pending_operation r = None \<and> sb_status r = st"

lemma valid_stop_k8s:
  "valid (row_at (moved T) s (\<lambda>r. idle STOPPED r \<and> F r)) (try_else (k8s_command cl c) (\<lambda>_. mark_error s m)
     (\<lambda>_. if mt then close_session_best_effort now s else ret ())) 
     (\<lambda>_. row_at (moved T) s (\<lambda>r. idle STOPPED r \<and> F r \<or> sb_status r = ERROR)) (moved_inv T)"
proof (rule valid_try_else [OF valid_keeps])
  show "keeps (row_at (moved T) s (\<lambda>r. idle STOPPED r \<and> F r)) (k8s_command cl c)" by (intro keeps_intros) simp
next
  show "valid (row_at (moved T) s (\<lambda>r. idle STOPPED r \<and> F r)) (mark_error s m)
      (\<lambda>_. row_at (moved T) s (\<lambda>r. idle STOPPED r \<and> F r \<or> sb_status r = ERROR)) (moved_inv T)"
    by (rule valid_weaken [OF valid_mark_error]) (auto elim: row_at_mono)
next
  show "valid (row_at (moved T) s (\<lambda>r. idle STOPPED r \<and> F r)) (if mt then close_session_best_effort now s else ret ())
      (\<lambda>_. row_at (moved T) s (\<lambda>r. idle STOPPED r \<and> F r \<or> sb_status r = ERROR)) (moved_inv T)"
    by (auto intro!: valid_ret valid_weaken [OF valid_close] elim: row_at_mono)
qed

lemma valid_return:
  "valid (row_at (moved T) s F) (this s) (\<lambda>x. sid_at T (sb_id s) (\<lambda>r. r = x \<and> F r)) X"
  by (auto simp: valid_def row_at_def sid_at_def this_row_unique dest: moves.ids)

lemma valid_stop:
  "valid (sid_at T sid (\<lambda>r. sb_persist r = p)) (stop mt cl now sid owner)
     (\<lambda>x. sid_at T sid (\<lambda>r. r = x \<and> (idle STOPPED r \<and> sb_persist r = p \<or> sb_status r = ERROR))) (moved_inv T)"
proof -
  let ?ok = "\<lambda>r. idle STOPPED r \<and> sb_persist r = p"
  have after: "valid (row_at (moved T) s ?ok)
      (ebind commit (\<lambda>_. ebind (try_else (k8s_command cl c) (\<lambda>_. mark_error s m)
         (\<lambda>_. if mt then close_session_best_effort now s else ret ())) (\<lambda>_. this s)))
      (\<lambda>x. sid_at T (sb_id s) (\<lambda>r. r = x \<and> (?ok r \<or> sb_status r = ERROR))) (moved_inv T)" for s c m
    by (intro valid_moves_then keeps_row_commit valid_ebind [OF valid_stop_k8s valid_return])
  have act: "valid (row_at (moved T) s (\<lambda>r. r = s)) (ebind (assign s
      (\<lambda>r. r\<lparr>sb_status := STOPPED, sb_gmt_stopped := Some (utc_ts now), sb_version := sb_version r + 1\<rparr>)) g) Q (moved_inv T)"
    if "sb_persist s = p" "\<not> (sb_pending_operation s \<noteq> None \<or> sb_status s \<notin> {READY, ERROR})"
      "\<And>a. valid (row_at (moved T) s ?ok) (g a) Q (moved_inv T)" for s g Q
    using that by (intro valid_moves_assign [where G = ?ok]) (auto intro!: service_move.stop)
  show ?thesis
    unfolding stop_def by (intro valid_need_where valid_if valid_done act; use after in auto)
qed

lemma valid_cases: "(\<And>w. P w \<Longrightarrow> \<exists>p. P' p w) \<Longrightarrow> (\<And>p. valid (P' p) m Q X) \<Longrightarrow> valid P m Q X"
  unfolding valid_def by meson

lemma valid_stop_moved: "valid (moved_inv T) (stop mt cl now sid owner) (\<lambda>_. moved_inv T) (moved_inv T)"
proof -
  have "\<exists>p. sid_at T sid (\<lambda>r. sb_persist r = p) w" if "moved_inv T w" for w
    using that moves.ids [OF that] by (auto simp: sid_at_def distinct_map inj_on_def)
  moreover have "valid (sid_at T sid (\<lambda>r. sb_persist r = p)) (stop mt cl now sid owner) (\<lambda>_. moved_inv T) (moved_inv T)" for p
    by (rule valid_weaken [OF valid_stop]) (auto simp: sid_at_def)
  ultimately show ?thesis by (rule valid_cases)
qed

lemma valid_snapshot_mark:
  assumes "\<And>r. F r \<Longrightarrow> idle STOPPED r \<and> sb_persist r"
  shows "valid (row_at (moved T) s F) (ebind (ensure_snapshot_backend_ready cfg cl) (\<lambda>_.
       ebind (assign s (\<lambda>r. r\<lparr>sb_pending_operation := Some SNAPSHOTTING,
         sb_status_message := m, sb_version := sb_version r + 1\<rparr>)) (\<lambda>_.
       ebind commit (\<lambda>_. this s)))) (\<lambda>_. moved_inv T) (moved_inv T)"
  using assms
  by (intro valid_moves_then keeps_snapshot_backend valid_moves_assign [where G = "\<lambda>_. True"] keeps_row_commit valid_done)
    (auto intro!: service_move.snapshot)

lemma valid_stop_first:
  assumes "sb_persist s"
  shows "valid (row_at (moved T) s (\<lambda>r. r = s)) (ebind (stop mt cl now (sb_id s) owner) (\<lambda>s'.
      if sb_status s' \<noteq> STOPPED then raise (InvalidTransitionError (sb_id s) (status_str (sb_status s')) ''snapshotting'') else ret ()))
      (\<lambda>_. row_at (moved T) s (\<lambda>r. idle STOPPED r \<and> sb_persist r)) (moved_inv T)"
proof (rule valid_ebind)
  show "valid (row_at (moved T) s (\<lambda>r. r = s)) (stop mt cl now (sb_id s) owner)
      (\<lambda>x. sid_at T (sb_id s) (\<lambda>r. r = x \<and> (idle STOPPED r \<and> sb_persist r \<or> sb_status r = ERROR))) (moved_inv T)"
    using valid_stop [of T "sb_id s" True mt cl now owner] assms
    by (auto simp: sid_at_row [OF refl] elim!: valid_weaken row_at_mono)
qed (auto simp: valid_def sid_at_def row_at_def)

lemma valid_snapshot: "valid (moved_inv T) (snapshot cfg mt cl now sid owner) (\<lambda>_. moved_inv T) (moved_inv T)"
proof -
  have pre: "valid (row_at (moved T) s (\<lambda>r. r = s)) (if sb_status s = READY then
           ebind (stop mt cl now sid owner) (\<lambda>s'.
           if sb_status s' \<noteq> STOPPED then raise (InvalidTransitionError sid (status_str (sb_status s')) ''snapshotting'')
           else ret ())
         else if sb_status s \<noteq> STOPPED then raise (InvalidTransitionError sid (status_str (sb_status s)) ''snapshotting'')
         else ret ()) (\<lambda>_. row_at (moved T) s (\<lambda>r. idle STOPPED r \<and> sb_persist r)) (moved_inv T)"
    if "sb_id s = sid" "\<not> (\<not> sb_persist s \<or> sb_provision_mode s \<noteq> ''direct'')" "\<not> sb_pending_operation s \<noteq> None" for s
    using valid_stop_first [of s T mt cl now owner] that by (auto simp: valid_def row_at_def)
  show ?thesis
    unfolding snapshot_def by (intro valid_need valid_if valid_done valid_ebind [OF pre valid_snapshot_mark]) auto
qed

lemma valid_ready_now:
  "valid (row_at (moved T) s (idle CREATING)) (apply_ready_now cl now s (sb_id s) owner) (\<lambda>_. moved_inv T) (moved_inv T)"
proof -
  have found: "valid (row_at (moved T) s (idle CREATING)) (get_sandbox (sb_id s) owner)
      (\<lambda>r w. row_at (moved T) s (idle CREATING) w \<and> (\<forall>x. r = Some x \<longrightarrow> sb_id x = sb_id s)) (moved_inv T)"
    by (auto simp: valid_def get_sandbox_def select_one_or_none_def row_at_def scalar_one_or_none_Some filter_eq_Cons_iff
        split: prod.splits sum.splits)
  have act: "valid (row_at (moved T) x (idle CREATING)) (ebind (assign x (\<lambda>r. r\<lparr>sb_status := READY, sb_status_message := m,
      sb_version := sb_version r + 1, sb_gmt_started := t, sb_k8s_resource_version := v\<rparr>)) (\<lambda>_. commit))
      (\<lambda>_. moved_inv T) (moved_inv T)" for x m t v
    by (intro valid_moves_assign [where G = "\<lambda>_. True"] valid_done)
      (auto intro!: service_move.ready simp: is_valid_transition_def)
  have take: "valid (\<lambda>w. row_at (moved T) s (idle CREATING) w \<and> (\<forall>x. r = Some x \<longrightarrow> sb_id x = sb_id s))
      (case r of None \<Rightarrow> ret () | Some x \<Rightarrow> if \<not> is_valid_transition (sb_status x) READY then ret ()
         else ebind (assign x (\<lambda>r. r\<lparr>sb_status := READY, sb_status_message := m,
      sb_version := sb_version r + 1, sb_gmt_started := t, sb_k8s_resource_version := v\<rparr>)) (\<lambda>_. commit))
      (\<lambda>_. moved_inv T) (moved_inv T)" for r m t v
    by (cases r) (auto intro!: valid_ret valid_pre [OF act] dest: row_at_inv simp: row_at_def)
  show ?thesis
    unfolding apply_ready_now_def case_prod_beta Let_def
    by (intro valid_moves_then keeps_k8s_calls valid_case_option valid_done valid_if valid_ebind [OF found take]) simp
qed

lemma valid_resume:
  "valid (row_at (moved T) s (idle CREATING)) (resume_k8s cl now s (sb_id s) owner) (\<lambda>_. moved_inv T) (moved_inv T)"
  unfolding resume_k8s_def best_effort_def try_catch_try_else
proof (rule valid_try_else [OF valid_keeps])
  show "keeps (row_at (moved T) s (idle CREATING)) (k8s_command cl (SetOperatingMode (k8s_name s) (sb_k8s_namespace s) ''Running''))"
    by (intro keeps_intros) simp
next
  show "valid (row_at (moved T) s (idle CREATING)) (mark_error s ''Failed to start sandbox'') (\<lambda>_. moved_inv T) (moved_inv T)"
    by (rule valid_weaken [OF valid_mark_error]) (auto dest: row_at_inv)
next
  show "valid (row_at (moved T) s (idle CREATING)) (try_else (apply_ready_now cl now s (sb_id s) owner) (\<lambda>_. ret ()) ret)
      (\<lambda>_. moved_inv T) (moved_inv T)"
    by (rule valid_try_else [OF valid_ready_now]) (auto intro: valid_ret)
qed

lemma valid_start: "valid (moved_inv T) (start cfg mt cl now sid owner) (\<lambda>_. moved_inv T) (moved_inv T)"
proof -
  have cold: "valid (row_at (moved T) s (\<lambda>r. r = s)) (ebind (assign s (\<lambda>r. r\<lparr>sb_pending_operation := Some RESTORING, sb_gmt_started := t,
      sb_gmt_last_active := u, sb_status_message := m, sb_version := sb_version r + 1\<rparr>)) (\<lambda>_. ebind commit (\<lambda>_. this s)))
      (\<lambda>_. moved_inv T) (moved_inv T)" if "sb_pending_operation s = None" "sb_status s = COLD" for s t u m
    using that by (intro valid_moves_assign [where G = "\<lambda>_. True"] valid_moves_then keeps_row_commit valid_done)
      (auto intro!: service_move.restore)
  have warm: "valid (row_at (moved T) s (\<lambda>r. r = s)) (ebind (assign s (\<lambda>r. r\<lparr>sb_status := CREATING, sb_gmt_started := t,
      sb_gmt_last_active := u, sb_version := sb_version r + 1\<rparr>)) (\<lambda>_. ebind commit (\<lambda>_.
      ebind (resume_k8s cl n s sid owner) (\<lambda>_. this s)))) (\<lambda>_. moved_inv T) (moved_inv T)"
    if "sb_id s = sid" "sb_pending_operation s = None" "sb_status s = STOPPED \<or> sb_status s = ERROR" for s t u n
  proof -
    have tail: "valid (row_at (moved T) s (idle CREATING)) (ebind (resume_k8s cl n s sid owner) (\<lambda>_. this s)) (\<lambda>_. moved_inv T) (moved_inv T)"
      unfolding that(1) [symmetric] by (rule valid_ebind [OF valid_resume]) (simp add: valid_def)
    show ?thesis
      using that(2,3) by (intro valid_moves_assign [where G = "idle CREATING"] tail valid_moves_then keeps_row_commit)
        (auto intro!: service_move.start)
  qed
  show ?thesis
    unfolding start_def
    by (intro valid_need valid_if valid_done valid_moves_then keeps_checks keeps_snapshot_backend cold warm) auto
qed

subsubsection \<open>Deletion\<close>

lemma keeps_drop_web_link: "keeps (row_at I s F) (drop_web_link now sid)"
  unfolding drop_web_link_def by (intro keeps_intros) simp

lemma valid_delete_live:
  "valid (row_at (moved T) s (\<lambda>r. idle DELETING r \<and> sb_storage_backend_mode r \<noteq> Some STANDARD_SNAPSHOT)) (delete_live cl s)
     (\<lambda>_. moved_inv T) (moved_inv T)"
proof -
  let ?F = "\<lambda>r. idle DELETING r \<and> sb_storage_backend_mode r \<noteq> Some STANDARD_SNAPSHOT"
  have failed: "valid (row_at (moved T) s ?F) (mark_error s m) (\<lambda>_. moved_inv T) (moved_inv T)" for m
    by (rule valid_weaken [OF valid_mark_error]) (auto dest: row_at_inv)
  have unbind: "keeps (row_at (moved T) s ?F) (if truthy (sb_snapshot_name x)
      then ebind (delete_bound_snapshot cl x) (\<lambda>_. assign s clear_snapshot_binding) else ret ())" for x
    by (intro keeps_intros moves.keeps_row_assign)
      (auto intro!: r_into_rtranclp service_move.unbind)
  have resource: "keeps (row_at (moved T) s ?F) (delete_k8s_resource cl x)" for x
    unfolding delete_k8s_resource_def by (intro keeps_intros) simp_all
  show ?thesis
    unfolding delete_live_def
    by (intro valid_moves_this valid_try_else [OF valid_keeps [OF unbind]] failed
        valid_try_else [OF valid_keeps [OF resource]] valid_done)
qed

lemma release_run:
  assumes "one_active_ledger w"
  obtains r u where "record_storage_release t sid w = (Inr r, u)" "sandboxes u = sandboxes w"
proof -
  from assms have "\<exists>r u. record_storage_release t sid w = (Inr r, u)"
    by (cases rule: one_active_cases [of w sid]) (auto simp: record_storage_release_def set_ledger_def)
  then obtain r u where run: "record_storage_release t sid w = (Inr r, u)" by blast
  moreover have "sandboxes u = sandboxes w"
    using keepsD [OF keeps_session_ops_sandboxes(3) [of "sandboxes w"], of w t sid] run by simp
  ultimately show thesis by (rule that)
qed

lemma delete_cold_moved:
  assumes row: "row_at (moved T) s (idle DELETING) w" and ledger: "one_active_ledger w"
  shows "moved_inv T (snd (delete_cold mt cl now s w))"
proof -
  obtain a v where del: "delete_bound_snapshot cl (this_row s w) w = (a, v)" by (cases "delete_bound_snapshot cl (this_row s w) w")
  have "keeps (\<lambda>u. sandboxes u = sandboxes w \<and> storage_ledgers u = storage_ledgers w) (delete_bound_snapshot cl (this_row s w))"
    by (intro keeps_intros) auto
  then have same: "sandboxes v = sandboxes w" "storage_ledgers v = storage_ledgers w"
    using del keepsD [of _ "delete_bound_snapshot cl (this_row s w)" w] by fastforce+
  then have row_v: "row_at (moved T) s (idle DELETING) v" and ledger_v: "one_active_ledger v"
    using row ledger by (simp_all add: row_at_def one_active_ledger_def)
  show ?thesis
  proof (cases a)
    case (Inl e)
    then have "snd (delete_cold mt cl now s w) = snd (mark_error s ''Failed to delete cold snapshot asset'' v)"
      by (simp add: delete_cold_def try_else_def del)
    moreover have "moved_inv T (snd (mark_error s m v))" for m
      using row_v by (auto simp: row_at_def mark_error_def assign_def intro!: moves.update r_into_rtranclp service_move.failed)
    ultimately show ?thesis by simp
  next
    case (Inr d)
    let ?c = "v\<lparr>sandboxes := update_where (\<lambda>r. sb_id r = sb_id s) clear_snapshot_binding (sandboxes v)\<rparr>"
    let ?m = "if mt then ebind (record_storage_release now (sb_id s)) (\<lambda>_. ret ()) else ret ()"
    have "one_active_ledger ?c" using ledger_v by (simp add: one_active_ledger_def)
    then obtain r u where "record_storage_release now (sb_id s) ?c = (Inr r, u)" "sandboxes u = sandboxes ?c"
      by (rule release_run)
    then obtain u where u: "?m ?c = (Inr (), u)" "sandboxes u = sandboxes ?c" by (cases mt) auto
    let ?fin = "\<lambda>r. r\<lparr>sb_status := DELETED, sb_gmt_deleted := Some now, sb_status_message := None, sb_version := sb_version r + 1\<rparr>"
    have "sandboxes (snd (delete_cold mt cl now s w)) = update_where (\<lambda>r. sb_id r = sb_id s) ?fin (sandboxes u)"
      by (simp add: delete_cold_def try_else_def del Inr assign_def u(1))
    also have "\<dots> = update_where (\<lambda>r. sb_id r = sb_id s) (?fin \<circ> clear_snapshot_binding) (sandboxes v)"
      using u(2) by (simp add: update_where_twice)
    finally show ?thesis
      using row_v by (auto simp: row_at_def o_def intro!: moves.update r_into_rtranclp service_move.finish)
  qed
qed

lemma valid_and_keeps:
  "valid P m Q X \<Longrightarrow> keeps L m \<Longrightarrow> valid (\<lambda>w. P w \<and> L w) m (\<lambda>a w. Q a w \<and> L w) X"
  unfolding valid_def keeps_def by (fastforce split: prod.splits sum.splits)

lemma keeps_ledger_commit [keeps_intros]: "keeps one_active_ledger commit"
proof -
  have "filter (\<lambda>l. sl_sandbox_id l = k \<and> ledger_active l) (map store_ledger ls)
      = map store_ledger (filter (\<lambda>l. sl_sandbox_id l = k \<and> ledger_active l) ls)" for k ls
    by (induction ls) (auto simp: store_ledger_def ledger_active_def)
  then show ?thesis by (simp add: keeps_def one_active_ledger_def one_live_def store_rows_def)
qed

lemma valid_delete:
  "valid (\<lambda>w. moved_inv T w \<and> one_active_ledger w) (delete mt cl now sid owner) (\<lambda>_. moved_inv T) (moved_inv T)"
proof -
  let ?del = "\<lambda>r. r\<lparr>sb_status := DELETING, sb_version := sb_version r + 1\<rparr>"
  have act: "valid (\<lambda>w. row_at (moved T) s (\<lambda>r. r = s) w \<and> one_active_ledger w)
      (ebind (assign s ?del) (\<lambda>_. ebind (drop_web_link now sid) (\<lambda>_. commit)))
      (\<lambda>_ w. row_at (moved T) s (\<lambda>r. r = ?del s) w \<and> one_active_ledger w) (moved_inv T)"
    if "sb_pending_operation s = None" "is_valid_transition (sb_status s) DELETING" for s
  proof (rule valid_and_keeps)
    have "valid (row_at (moved T) s (\<lambda>r. r = ?del s)) commit (\<lambda>_. row_at (moved T) s (\<lambda>r. r = ?del s)) (moved_inv T)"
      by (simp add: valid_def)
    then show "valid (row_at (moved T) s (\<lambda>r. r = s)) (ebind (assign s ?del) (\<lambda>_. ebind (drop_web_link now sid) (\<lambda>_. commit)))
        (\<lambda>_. row_at (moved T) s (\<lambda>r. r = ?del s)) (moved_inv T)"
      using that by (intro valid_moves_assign [where G = "\<lambda>r. r = ?del s"] valid_moves_then keeps_drop_web_link)
        (auto intro!: service_move.delete)
    show "keeps one_active_ledger (ebind (assign s ?del) (\<lambda>_. ebind (drop_web_link now sid) (\<lambda>_. commit)))"
      unfolding assign_def drop_web_link_def by (intro keeps_intros) (simp_all add: one_active_ledger_def)
  qed
  have tail: "valid (\<lambda>w. row_at (moved T) s (\<lambda>r. r = ?del s) w \<and> one_active_ledger w)
      (ebind (if sb_storage_backend_mode s = Some STANDARD_SNAPSHOT then delete_cold mt cl now s else delete_live cl s) (\<lambda>_. this s))
      (\<lambda>_. moved_inv T) (moved_inv T)" if "sb_pending_operation s = None" for s
  proof (rule valid_ebind)
    have cold: "row_at (moved T) s (idle DELETING) w" if "row_at (moved T) s (\<lambda>r. r = ?del s) w" for w
      using that \<open>sb_pending_operation s = None\<close> by (auto elim: row_at_mono)
    have "valid (\<lambda>w. row_at (moved T) s (\<lambda>r. r = ?del s) w \<and> one_active_ledger w) (delete_cold mt cl now s) (\<lambda>_. moved_inv T) (moved_inv T)"
      using delete_cold_moved [OF cold] unfolding valid_def by (auto split: prod.splits sum.splits) (metis snd_conv)+
    moreover have "valid (\<lambda>w. row_at (moved T) s (\<lambda>r. r = ?del s) w \<and> one_active_ledger w) (delete_live cl s) (\<lambda>_. moved_inv T) (moved_inv T)"
      if "sb_storage_backend_mode s \<noteq> Some STANDARD_SNAPSHOT"
      using that \<open>sb_pending_operation s = None\<close> by (intro valid_pre [OF valid_delete_live]) (auto elim: row_at_mono)
    ultimately show "valid (\<lambda>w. row_at (moved T) s (\<lambda>r. r = ?del s) w \<and> one_active_ledger w)
      (if sb_storage_backend_mode s = Some STANDARD_SNAPSHOT then delete_cold mt cl now s else delete_live cl s)
      (\<lambda>_. moved_inv T) (moved_inv T)" by simp
  qed (simp add: valid_def)
  have body: "valid (\<lambda>w. row_at (moved T) s (\<lambda>r. r = s) w \<and> one_active_ledger w) (ebind (assign s ?del) (\<lambda>_.
      ebind (drop_web_link now sid) (\<lambda>_. ebind commit (\<lambda>_.
      ebind (if sb_storage_backend_mode s = Some STANDARD_SNAPSHOT then delete_cold mt cl now s else delete_live cl s) (\<lambda>_.
      this s))))) (\<lambda>_. moved_inv T) (moved_inv T)"
    if "sb_pending_operation s = None" "is_valid_transition (sb_status s) DELETING" for s
    using valid_ebind [OF act [OF that] tail [OF that(1)]] by (simp add: ebind_assoc)
  have refused: "valid (\<lambda>w. row_at (moved T) s (\<lambda>r. r = s) w \<and> one_active_ledger w) (raise e) (\<lambda>_. moved_inv T) (moved_inv T)" for s e
    by (auto simp: valid_def row_at_def)
  have need: "valid (\<lambda>w. moved_inv T w \<and> one_active_ledger w) (need_sandbox sid owner)
      (\<lambda>s w. row_at (moved T) s (\<lambda>r. r = s) w \<and> one_active_ledger w) (moved_inv T)"
    using valid_and_keeps [OF need_spec [of T sid "\<lambda>_. True" owner], of one_active_ledger]
    by (rule valid_weaken) (auto simp: sid_at_def need_sandbox_def get_sandbox_def intro!: keeps_intros)
  show ?thesis
    unfolding delete_def by (rule valid_ebind [OF need], intro valid_if refused body) simp_all
qed

lemma valid_moved:
  assumes "valid P m (\<lambda>_. moved_inv (sandboxes w)) (moved_inv (sandboxes w))" "P w" 
  shows "list_all2 service_move\<^sup>*\<^sup>* (sandboxes w) (sandboxes (snd (m w)))"
  using assms unfolding valid_def by (cases "m w") (auto simp: moved_def split: sum.splits dest!: spec [of _ w])

lemma service_rows:
  assumes "distinct (map sb_id (sandboxes w))" "one_active_ledger w"
    and "m \<in> {stop mt cl now sid owner, start cfg mt cl now sid owner, snapshot cfg mt cl now sid owner,
           delete mt cl t sid owner, update cfg mt now sid owner p}"
  shows "list_all2 service_move\<^sup>*\<^sup>* (sandboxes w) (sandboxes (snd (m w)))"
proof -
  have here: "moved_inv (sandboxes w) w" using assms(1) by (simp add: moved_def list_all2_refl)
  from assms(3) show ?thesis
    using valid_moved [OF valid_stop_moved here] valid_moved [OF valid_start here] valid_moved [OF valid_snapshot here]
      valid_moved [OF valid_delete] valid_moved [OF valid_update here] here assms(2) by auto
qed

text \<open>C8: every operation of the sandbox service refines the step relation: whatever the cluster answers, and
  whether the operation returns or raises, each row of the table is reached from what it was by a sequence
  of \<open>service_move\<close>s, and no row appears or disappears.\<close>

theorem service_refines_moves:
  assumes "distinct (map sb_id (sandboxes w))" "one_active_ledger w"
    and "m \<in> {stop mt cl now sid owner, start cfg mt cl now sid owner, snapshot cfg mt cl now sid owner,
           delete mt cl t sid owner, update cfg mt now sid owner p}"
  shows "list_all2 service_move\<^sup>*\<^sup>* (sandboxes w) (sandboxes (snd (m w)))"
  using assms by (rule service_rows)

theorem service_refines_moves_witness:
  "list_all2 service_move\<^sup>*\<^sup>* [demo_sandbox] (sandboxes (snd (stop True done_cluster demo_now ''sb1'' ''u1''
     (empty_world\<lparr>sandboxes := [demo_sandbox]\<rparr>))))"
  using service_refines_moves [of "empty_world\<lparr>sandboxes := [demo_sandbox]\<rparr>" "stop True done_cluster demo_now ''sb1'' ''u1''"
      True done_cluster demo_now "''sb1''" "''u1''"]
  by (simp add: empty_world_def one_active_ledger_def one_live_def)

lemma service_moves_version:
  "service_move\<^sup>*\<^sup>* r r' \<Longrightarrow> sb_version r \<le> sb_version r' \<and> (sb_status r' \<noteq> sb_status r \<longrightarrow> sb_version r < sb_version r')"
proof (induction rule: rtranclp_induct)
  case (step x y)
  then show ?case using service_move_version [OF step(2)] by auto
qed simp

lemma service_moves_cold: "service_move\<^sup>*\<^sup>* r r' \<Longrightarrow> cold_ok r \<Longrightarrow> cold_ok r'"
  by (induction rule: rtranclp_induct) (auto dest: service_move_cold)

lemma cold_inv_moves: "list_all2 service_move\<^sup>*\<^sup>* (sandboxes w) (sandboxes v) \<Longrightarrow> cold_inv w \<Longrightarrow> cold_inv v"
proof -
  assume moves: "list_all2 service_move\<^sup>*\<^sup>* (sandboxes w) (sandboxes v)" and inv: "cold_inv w"
  have "map sb_id (sandboxes v) = map sb_id (sandboxes w)"
    using moves inv by (intro moved_ids) (simp add: moved_def cold_inv_def cold_rows_def)
  then show "cold_inv v"
    using moves inv unfolding cold_inv_def cold_rows_def list_all2_conv_all_nth
    by (metis (no_types, lifting) in_set_conv_nth nth_mem service_moves_cold)
qed

text \<open>C23: the service respects the optimistic lock of the sync loop and the invariant of cold storage. After any of
  its operations no version has gone back, a row whose status changed has a greater version than before, so
  that an update prepared on the old row is refused, and every cold sandbox still has its snapshot.\<close>

theorem service_respects_lock_and_cold_storage:
  assumes "cold_inv w" "one_active_ledger w"
    and "m \<in> {stop mt cl now sid owner, start cfg mt cl now sid owner, snapshot cfg mt cl now sid owner,
           delete mt cl t sid owner, update cfg mt now sid owner p}"
  shows "list_all2 (\<lambda>r r'. sb_id r' = sb_id r \<and> sb_version r \<le> sb_version r' \<and>
      (sb_status r' \<noteq> sb_status r \<longrightarrow> sb_version r < sb_version r')) (sandboxes w) (sandboxes (snd (m w))) \<and>
    cold_inv (snd (m w))"
proof -
  have "distinct (map sb_id (sandboxes w))" using assms(1) by (simp add: cold_inv_def cold_rows_def)
  then have moves: "list_all2 service_move\<^sup>*\<^sup>* (sandboxes w) (sandboxes (snd (m w)))"
    using assms(2,3) by (rule service_rows)
  then show ?thesis
    using cold_inv_moves [OF moves assms(1)]
    by (auto elim!: list_all2_mono dest: service_moves_id service_moves_version)
qed

theorem service_respects_lock_and_cold_storage_witness:
  "cold_inv (snd (stop True done_cluster demo_now ''sb1'' ''u1'' (empty_world\<lparr>sandboxes := [demo_sandbox]\<rparr>)))"
  using service_respects_lock_and_cold_storage [of "empty_world\<lparr>sandboxes := [demo_sandbox]\<rparr>" "stop True done_cluster demo_now ''sb1'' ''u1''"
      True done_cluster demo_now "''sb1''" "''u1''"]
  by (simp add: empty_world_def one_active_ledger_def one_live_def cold_inv_def cold_rows_def cold_ok_def demo_sandbox_def)

end
