(* ===== verification/Lifecycle_Safety.thy ===== *)
theory Lifecycle_Safety
  imports Lifecycle_Tasks Service_Moves
begin

text \<open>
  The lifecycle tasks only touch the sandboxes that are due, each at most once and in the way its rows allow; with a
  cluster that suspends and sessions that can be closed they stop all that are idle.
\<close>

subsection \<open>A loop over loaded rows\<close>

text \<open>A loop over rows that were loaded before it, whose body changes at most the row it is called with.\<close>

definition changes_row :: "(world \<Rightarrow> bool) \<Rightarrow> (sandbox \<Rightarrow> sandbox \<Rightarrow> bool) \<Rightarrow> sandbox \<Rightarrow> unit op \<Rightarrow> bool" where
  "changes_row I R s m \<longleftrightarrow> (\<forall>w. I w \<longrightarrow> distinct (map sb_id (sandboxes w)) \<longrightarrow> s \<in> set (sandboxes w) \<longrightarrow>
     (\<exists>w' r'. m w = (Inr (), w') \<and> I w' \<and> R s r' \<and> sb_id r' = sb_id s \<and>
        sandboxes w' = update_where (\<lambda>r. sb_id r = sb_id s) (\<lambda>_. r') (sandboxes w)))"

lemma update_where_nth: "n < length rs \<Longrightarrow> update_where p f rs ! n = (if p (rs ! n) then f (rs ! n) else rs ! n)"
  by (simp add: update_where_def)

lemma distinct_key: "distinct (map k rs) \<Longrightarrow> x \<in> set rs \<Longrightarrow> y \<in> set rs \<Longrightarrow> k x = k y \<longleftrightarrow> x = y"
  by (auto simp: distinct_map dest: inj_onD)

lemma for_each_rows:
  assumes "\<And>s. s \<in> set xs \<Longrightarrow> changes_row I R s (f s)" "distinct (map sb_id xs)" "set xs \<subseteq> set (sandboxes w)"
    "I w" "distinct (map sb_id (sandboxes w))"
  shows "\<exists>w'. for_each xs f w = (Inr (), w') \<and> I w' \<and>
    list_all2 (\<lambda>r r'. if r \<in> set xs then R r r' else r' = r) (sandboxes w) (sandboxes w')"
  using assms
proof (induction xs arbitrary: w)
  case Nil
  then show ?case by (simp add: list_all2_refl)
next
  case (Cons s xs)
  have "changes_row I R s (f s)" "s \<in> set (sandboxes w)" using Cons.prems by simp_all
  with Cons.prems(4,5) obtain w1 r1 where one: "f s w = (Inr (), w1)" "I w1" "R s r1" "sb_id r1 = sb_id s"
    and rows: "sandboxes w1 = update_where (\<lambda>r. sb_id r = sb_id s) (\<lambda>_. r1) (sandboxes w)"
    unfolding changes_row_def by blast
  have ids1: "map sb_id (sandboxes w1) = map sb_id (sandboxes w)"
    unfolding rows using one(4) by (auto simp: update_where_def)
  have "x \<in> set (sandboxes w1)" if "x \<in> set xs" for x
  proof -
    have "sb_id x \<noteq> sb_id s" "x \<in> set (sandboxes w)" using Cons.prems(2,3) that by (auto simp: image_iff)
    then show ?thesis by (auto simp: rows set_update_where)
  qed
  then obtain w2 where rest: "for_each xs f w1 = (Inr (), w2)" "I w2"
    "list_all2 (\<lambda>r r'. if r \<in> set xs then R r r' else r' = r) (sandboxes w1) (sandboxes w2)"
    using Cons.IH [of w1] Cons.prems(1,2,5) one(2) ids1 by auto
  have "if r \<in> set (s # xs) then R r r2 else r2 = r"
    if n: "n < length (sandboxes w)" "r = sandboxes w ! n" "r2 = sandboxes w2 ! n" for n r r2
  proof -
    have len: "n < length (sandboxes w1)" using n(1) by (simp add: rows)
    have step: "if sandboxes w1 ! n \<in> set xs then R (sandboxes w1 ! n) r2 else r2 = sandboxes w1 ! n"
      using list_all2_nthD [OF rest(3) len] n(3) by simp
    have at: "sandboxes w1 ! n = (if r = s then r1 else r)"
      using n Cons.prems(3,5) by (auto simp: rows update_where_nth distinct_key)
    have "r1 \<notin> set xs" "s \<notin> set xs" using Cons.prems(2) one(4) by (auto simp: image_iff)
    then show ?thesis using step at one(3) by (auto split: if_splits)
  qed
  then have "list_all2 (\<lambda>r r'. if r \<in> set (s # xs) then R r r' else r' = r) (sandboxes w) (sandboxes w2)"
    using list_all2_lengthD [OF rest(3)] by (auto simp: list_all2_conv_all_nth rows)
  then show ?case using one(1) rest(1,2) by (simp add: ebind_run)
qed

lemma update_where_key:
  assumes "distinct (map sb_id U)" "s \<in> set U"
  shows "update_where (\<lambda>r. sb_id r = sb_id s) f U = update_where (\<lambda>r. sb_id r = sb_id s) (\<lambda>_. f s) U"
  using assms by (auto simp: update_where_def distinct_key)

lemma update_where_self:
  assumes "distinct (map sb_id U)" "s \<in> set U"
  shows "update_where (\<lambda>r. sb_id r = sb_id s) (\<lambda>_. s) U = U"
  using assms by (auto simp: update_where_def distinct_key intro: map_idI)

lemma changes_row_none: "R s s \<Longrightarrow> changes_row I R s (ret ())"
  by (auto simp: changes_row_def update_where_self intro!: exI [of _ s])

lemma changes_row_mono: "changes_row I R s m \<Longrightarrow> (\<And>r'. R s r' \<Longrightarrow> R' s r') \<Longrightarrow> changes_row I R' s m"
  unfolding changes_row_def by meson

text \<open>The body of a loop in a savepoint whose failure is logged: the row is changed as the block does, or not at all.\<close>

lemma changes_row_savepoint:
  assumes "keeps I m" "\<And>w w'. I w \<Longrightarrow> I (rollback_rows w w')" "R s s"
    and block: "\<And>U. distinct (map sb_id U) \<Longrightarrow> s \<in> set U \<Longrightarrow>
      valid (\<lambda>w. sandboxes w = U) m (\<lambda>_ w. \<exists>r'. R s r' \<and> sb_id r' = sb_id s \<and>
        sandboxes w = update_where (\<lambda>r. sb_id r = sb_id s) (\<lambda>_. r') U) (\<lambda>_. True)"
  shows "changes_row I R s (best_effort (transaction m))"
  unfolding changes_row_def
proof (intro allI impI)
  fix w
  assume w: "I w" "distinct (map sb_id (sandboxes w))" "s \<in> set (sandboxes w)"
  obtain x v where run: "m w = (x, v)" by (cases "m w")
  show "\<exists>w' r'. best_effort (transaction m) w = (Inr (), w') \<and> I w' \<and> R s r' \<and> sb_id r' = sb_id s \<and>
      sandboxes w' = update_where (\<lambda>r. sb_id r = sb_id s) (\<lambda>_. r') (sandboxes w)"
  proof (cases x)
    case (Inl e)
    with run assms(2) [OF w(1), of v] assms(3) w(2,3) show ?thesis
      by (auto simp: best_effort_def try_catch_def transaction_def rollback_rows_def update_where_self intro!: exI [of _ s])
  next
    case (Inr u)
    then have "\<exists>r'. R s r' \<and> sb_id r' = sb_id s \<and> sandboxes v = update_where (\<lambda>r. sb_id r = sb_id s) (\<lambda>_. r') (sandboxes w)"
      using validD_Inr [OF block [OF w(2,3)] refl] run by auto
    moreover have "I v" using keepsD_run [OF assms(1) w(1) run] .
    ultimately show ?thesis using Inr run by (auto simp: best_effort_def try_catch_def transaction_def)
  qed
qed

subsection \<open>Blocks\<close>

lemma valid_table_this:
  assumes "distinct (map sb_id U)" "s \<in> set U" "valid (\<lambda>w. sandboxes w = U) (f s) Q X"
  shows "valid (\<lambda>w. sandboxes w = U) (ebind (this s) f) Q X"
  using assms this_row_unique [of _ s s] by (auto simp: valid_def)

lemma valid_table_assign:
  assumes "distinct (map sb_id U)" "s \<in> set U"
  shows "valid (\<lambda>w. sandboxes w = U) (assign s f)
    (\<lambda>_ w. sandboxes w = update_where (\<lambda>r. sb_id r = sb_id s) (\<lambda>_. f s) U) X"
  using update_where_key [OF assms] by (auto simp: valid_def assign_def)

lemma valid_keeps_any: "keeps P m \<Longrightarrow> valid P m (\<lambda>_. P) (\<lambda>_. True)"
  using valid_keeps by (rule valid_weaken) auto

lemma valid_table_then:
  "keeps (\<lambda>w. sandboxes w = U) m \<Longrightarrow> (\<And>a. valid (\<lambda>w. sandboxes w = U) (f a) Q (\<lambda>_. True)) \<Longrightarrow>
   valid (\<lambda>w. sandboxes w = U) (ebind m f) Q (\<lambda>_. True)"
  by (rule valid_ebind [OF valid_keeps_any])

lemma valid_table_last:
  assumes "valid P m (\<lambda>_ w. sandboxes w = V) (\<lambda>_. True)" "\<And>a. keeps (\<lambda>w. sandboxes w = V) (f a)"
  shows "valid P (ebind m f) (\<lambda>_ w. sandboxes w = V) (\<lambda>_. True)"
  by (rule valid_ebind [OF assms(1) valid_keeps_any [OF assms(2)]])

subsection \<open>Idle auto-stop\<close>

definition idle_due :: "time \<Rightarrow> sandbox \<Rightarrow> bool" where
  "idle_due now s \<longleftrightarrow> idle_candidate s \<and> seconds (sb_auto_stop_interval s * 60) < idle_for now s"

definition delete_due :: "time \<Rightarrow> sandbox \<Rightarrow> bool" where
  "delete_due now s \<longleftrightarrow> delete_candidate s \<and> seconds (sb_auto_delete_interval s * 60) < stopped_for now s"

lemma total_seconds_minutes: "total_seconds d \<le> of_int (i * 60) \<longleftrightarrow> d \<le> seconds (i * 60)"
proof -
  have "total_seconds d \<le> of_int (i * 60) \<longleftrightarrow> rat_of_int d \<le> rat_of_int (1000000 * (i * 60))"
    by (simp add: total_seconds_def field_simps)
  then show ?thesis unfolding of_int_le_iff seconds_def .
qed

text \<open>The two ways to stop that the tick is run with: only in the database, and by the supervisor's callback.\<close>

abbreviation stop_callbacks :: "cluster \<Rightarrow> stop_callback option set" where
  "stop_callbacks cl \<equiv> {None, Some (k8s_stop_sandbox cl)}"

lemma keeps_k8s_stop: "(\<And>w l. P w \<Longrightarrow> P (w\<lparr>k8s_log := l\<rparr>)) \<Longrightarrow> keeps P (k8s_stop_sandbox cl s)"
  unfolding k8s_stop_sandbox_def by (intro keeps_intros) auto

lemma valid_stop_idle:
  assumes U: "distinct (map sb_id U)" "s \<in> set U" and cb: "cb \<in> stop_callbacks cl" and ready: "sb_status s = READY"
  shows "valid (\<lambda>w. sandboxes w = U) (stop_idle now ck cb s)
    (\<lambda>_ w. sandboxes w = update_where (\<lambda>r. sb_id r = sb_id s) (\<lambda>_. stopped_row (fst (ck (sb_id s))) s) U) (\<lambda>_. True)"
proof -
  have db: "valid (\<lambda>w. sandboxes w = U) (lifecycle_db_only_stop (fst (ck (sb_id s))) s)
      (\<lambda>_ w. sandboxes w = update_where (\<lambda>r. sb_id r = sb_id s) (\<lambda>_. stopped_row (fst (ck (sb_id s))) s) U) (\<lambda>_. True)"
    using valid_table_assign [OF U] by (simp add: lifecycle_db_only_stop_def stopped_row_def)
  have k8s: "valid (\<lambda>w. sandboxes w = U) (ebind (k8s_stop_sandbox cl s) (\<lambda>_. ebind (this s) (\<lambda>r.
        if sb_status r = READY then lifecycle_db_only_stop (fst (ck (sb_id s))) s else ret ())))
      (\<lambda>_ w. sandboxes w = update_where (\<lambda>r. sb_id r = sb_id s) (\<lambda>_. stopped_row (fst (ck (sb_id s))) s) U) (\<lambda>_. True)"
    using ready db by (intro valid_table_then valid_table_this [OF U] keeps_k8s_stop) auto
  show ?thesis
    unfolding stop_idle_def
    by (rule valid_table_last)
      (use cb db k8s in \<open>auto intro!: keeps_intros keeps_session_ops_sandboxes\<close>)
qed

lemma rollback_rows_fields [simp]:
  "sandboxes (rollback_rows w v) = sandboxes w" "storage_ledgers (rollback_rows w v) = storage_ledgers w"
  "compute_sessions (rollback_rows w v) = compute_sessions w" "user_plans (rollback_rows w v) = user_plans w"
  by (simp_all add: rollback_rows_def)

lemma one_active_rollback: "one_active_ledger w \<Longrightarrow> one_active_ledger (rollback_rows w v)"
  by (simp add: one_active_ledger_def)

lemma keeps_ledger_stop_idle:
  assumes "cb \<in> stop_callbacks cl"
  shows "keeps one_active_ledger (stop_idle now ck cb s)"
  using assms unfolding stop_idle_def lifecycle_db_only_stop_def assign_def
  by (auto intro!: keeps_intros keeps_k8s_stop keeps_close_ledger simp: one_active_ledger_def)

lemma check_idle_changes:
  assumes "idle_candidate s" "cb \<in> stop_callbacks cl"
  shows "changes_row one_active_ledger (\<lambda>r r'. r' = r \<or> idle_due (utc_ts now) r \<and> r' = stopped_row (fst (ck (sb_id r))) r) s
    (check_idle_one now ck cb s)"
proof (cases "idle_due (utc_ts now) s")
  case True
  have "changes_row one_active_ledger (\<lambda>r r'. r' = r \<or> idle_due (utc_ts now) r \<and> r' = stopped_row (fst (ck (sb_id r))) r) s
      (best_effort (transaction (stop_idle now ck cb s)))"
  proof (rule changes_row_savepoint [OF keeps_ledger_stop_idle [OF assms(2)] one_active_rollback])
    fix U
    assume U: "distinct (map sb_id U)" "s \<in> set U"
    have "sb_status s = READY" using assms(1) by (simp add: idle_candidate_def)
    from valid_stop_idle [OF U assms(2) this, of now ck] True
    show "valid (\<lambda>w. sandboxes w = U) (stop_idle now ck cb s) (\<lambda>_ w. \<exists>r'. (r' = s \<or> idle_due (utc_ts now) s \<and> r' = stopped_row (fst (ck (sb_id s))) s) \<and>
        sb_id r' = sb_id s \<and> sandboxes w = update_where (\<lambda>r. sb_id r = sb_id s) (\<lambda>_. r') U) (\<lambda>_. True)"
      by (auto elim!: valid_weaken simp: stopped_row_def intro!: exI [of _ "stopped_row (fst (ck (sb_id s))) s"])
  qed auto
  then show ?thesis using True unfolding check_idle_one_def total_seconds_minutes by (simp add: idle_due_def)
next
  case False
  then show ?thesis using assms(1) unfolding check_idle_one_def total_seconds_minutes
    by (simp add: idle_due_def changes_row_none)
qed

subsection \<open>Auto-delete\<close>

definition auto_deleted :: "time \<Rightarrow> sandbox \<Rightarrow> sandbox \<Rightarrow> bool" where
  "auto_deleted now r r' \<longleftrightarrow>
     r' = r\<lparr>sb_status := DELETING, sb_version := sb_version r + 1\<rparr> \<or>
     r' = r\<lparr>sb_status := DELETED, sb_gmt_deleted := Some now, sb_version := sb_version r + 1\<rparr> \<or>
     r' = (clear_snapshot_binding r)\<lparr>sb_status := DELETED, sb_gmt_deleted := Some now, sb_version := sb_version r + 1\<rparr> \<or>
     (\<exists>m. r' = auto_delete_failed m False r)"

lemma auto_deleted_id: "auto_deleted now r r' \<Longrightarrow> sb_id r' = sb_id r"
  by (auto simp: auto_deleted_def auto_delete_failed_def clear_snapshot_binding_def)

abbreviation delete_callbacks :: "cluster \<Rightarrow> (string \<Rightarrow> time) \<Rightarrow> (sandbox \<Rightarrow> unit op) option set" where
  "delete_callbacks cl ck \<equiv> {None, Some (\<lambda>s. k8s_delete_sandbox cl (ck (sb_id s)) s)}"

definition put_row :: "sandbox \<Rightarrow> sandbox \<Rightarrow> sandbox list \<Rightarrow> sandbox list" where
  "put_row s r U = update_where (\<lambda>x. sb_id x = sb_id s) (\<lambda>_. r) U"

lemma put_row_twice:
  assumes "sb_id r = sb_id s"
  shows "update_where (\<lambda>x. sb_id x = sb_id s) f (put_row s r U) = put_row s (f r) U"
  using assms by (auto simp: put_row_def update_where_def)

lemma valid_put_first:
  assumes "distinct (map sb_id U)" "s \<in> set U"
  shows "valid (\<lambda>w. sandboxes w = U) (assign s f) (\<lambda>_ w. sandboxes w = put_row s (f s) U) X"
  using valid_table_assign [OF assms] by (simp add: put_row_def)

lemma valid_put_next: "sb_id r = sb_id s \<Longrightarrow>
    valid (\<lambda>w. sandboxes w = put_row s r U) (assign s f) (\<lambda>_ w. sandboxes w = put_row s (f r) U) X"
  by (auto simp: valid_def assign_def put_row_twice)

lemma valid_catch_raise: "valid P m Q (\<lambda>_. True) \<Longrightarrow> valid P (try_catch m (\<lambda>e. raise (h e))) Q (\<lambda>_. True)"
  unfolding valid_def try_catch_def by (auto split: prod.splits sum.splits)

lemma keeps_delete_resource:
  "keeps (\<lambda>w. sandboxes w = U) (delete_bound_snapshot cl r)" "keeps (\<lambda>w. sandboxes w = U) (delete_k8s_resource cl r)"
  unfolding delete_k8s_resource_def by (intro keeps_intros; simp)+

lemma valid_auto_delete_cold:
  assumes U: "distinct (map sb_id U)" "s \<in> set U"
  shows "valid (\<lambda>w. sandboxes w = U) (auto_delete_cold cl now s)
    (\<lambda>_ w. sandboxes w = put_row s ((clear_snapshot_binding s)\<lparr>sb_status := DELETED, sb_gmt_deleted := Some now,
       sb_version := sb_version s + 1\<rparr>) U) (\<lambda>_. True)"
proof -
  let ?c = "clear_snapshot_binding s"
  have drop: "valid (\<lambda>w. sandboxes w = U) (ebind (delete_bound_snapshot cl r) (\<lambda>_. assign s clear_snapshot_binding))
      (\<lambda>_ w. sandboxes w = put_row s ?c U) (\<lambda>_. True)" for r
    by (intro valid_table_then valid_put_first U keeps_delete_resource)
  have release: "valid (\<lambda>w. sandboxes w = put_row s ?c U) (ebind (record_storage_release now (sb_id s)) (\<lambda>_. ret ()))
      (\<lambda>_ w. sandboxes w = put_row s ?c U) (\<lambda>_. True)"
    by (rule valid_keeps_any) (auto intro!: keeps_intros)
  show ?thesis
    unfolding auto_delete_cold_def
    by (intro valid_table_this [OF U] valid_ebind [OF valid_catch_raise [OF drop]] valid_ebind [OF valid_catch_raise [OF release]])
      (rule valid_weaken [OF valid_put_next [of ?c]], simp_all)
qed

lemma valid_undo: "valid P (ebind (assign s f) (\<lambda>_. ebind g (\<lambda>_. raise e))) Q (\<lambda>_. True)"
  by (auto simp: valid_def ebind_def split: prod.splits sum.splits)

lemma valid_auto_delete_live:
  assumes U: "distinct (map sb_id U)" "s \<in> set U"
  shows "valid (\<lambda>w. sandboxes w = U) (auto_delete_live cl now link s)
    (\<lambda>_ w. sandboxes w = put_row s (s\<lparr>sb_status := DELETING, sb_version := sb_version s + 1\<rparr>) U) (\<lambda>_. True)"
proof -
  let ?d = "s\<lparr>sb_status := DELETING, sb_version := sb_version s + 1\<rparr>"
  have "valid (\<lambda>w. sandboxes w = put_row s ?d U) (ebind (this s) (delete_k8s_resource cl))
      (\<lambda>_ w. sandboxes w = put_row s ?d U) (\<lambda>_. True)"
    by (rule valid_keeps_any) (intro keeps_intros keeps_delete_resource)
  then show ?thesis
    unfolding auto_delete_live_def try_catch_try_else
    by (intro valid_ebind [OF valid_put_first [OF U]], rule valid_try_else) (rule valid_undo, rule valid_ret, assumption)
qed

lemma keeps_web_link: "(\<And>w x. P w \<Longrightarrow> P (w\<lparr>web_links := x\<rparr>)) \<Longrightarrow> keeps P (set_web_link sid t now)"
  unfolding set_web_link_def by (intro keeps_intros) auto

lemma valid_delete_stopped:
  assumes U: "distinct (map sb_id U)" "s \<in> set U" and cb: "cb \<in> delete_callbacks cl ck"
  shows "valid (\<lambda>w. sandboxes w = U) (delete_stopped now ck cb s)
    (\<lambda>_ w. \<exists>r'. auto_deleted (ck (sb_id s)) s r' \<and> sandboxes w = put_row s r' U) (\<lambda>_. True)"
proof -
  let ?Q = "\<lambda>_ w. \<exists>r'. auto_deleted (ck (sb_id s)) s r' \<and> sandboxes w = put_row s r' U"
  have db: "valid (\<lambda>w. sandboxes w = U) (db_only_delete (ck (sb_id s)) s) ?Q (\<lambda>_. True)"
    unfolding db_only_delete_def by (rule valid_weaken [OF valid_put_first [OF U]]) (auto simp: auto_deleted_def)
  have cold: "valid (\<lambda>w. sandboxes w = U) (auto_delete_cold cl (ck (sb_id s)) s) ?Q (\<lambda>_. True)"
    by (rule valid_weaken [OF valid_auto_delete_cold [OF U]]) (auto simp: auto_deleted_def)
  have live: "valid (\<lambda>w. sandboxes w = U) (auto_delete_live cl (ck (sb_id s)) link s) ?Q (\<lambda>_. True)" for link
    by (rule valid_weaken [OF valid_auto_delete_live [OF U]]) (auto simp: auto_deleted_def)
  have k8s: "valid (\<lambda>w. sandboxes w = U) (k8s_delete_sandbox cl (ck (sb_id s)) s) ?Q (\<lambda>_. True)"
    unfolding k8s_delete_sandbox_def
    by (intro valid_table_then valid_table_this [OF U] valid_if cold live keeps_intros keeps_web_link) auto
  have "valid (\<lambda>w. sandboxes w = U) (case cb of Some c \<Rightarrow> c s | None \<Rightarrow> db_only_delete (ck (sb_id s)) s) ?Q (\<lambda>_. True)"
    using cb db k8s by auto
  then show ?thesis
    unfolding delete_stopped_def by (rule valid_ebind) (auto simp: valid_def record_audit_event_def)
qed

text \<open>\<open>fails J E m\<close>: from \<open>J\<close>, every exception of the method satisfies \<open>E\<close>.\<close>

definition fails :: "(world \<Rightarrow> bool) \<Rightarrow> (exn \<Rightarrow> bool) \<Rightarrow> 'a op \<Rightarrow> bool" where
  "fails J E m \<longleftrightarrow> (\<forall>w e w'. J w \<longrightarrow> m w = (Inl e, w') \<longrightarrow> E e)"

lemma fails_ebind: "fails J E m \<Longrightarrow> keeps J m \<Longrightarrow> (\<And>a. fails J E (f a)) \<Longrightarrow> fails J E (ebind m f)"
  unfolding fails_def ebind_def keeps_def by (auto split: prod.splits sum.splits) (metis snd_conv)+

lemma fails_handler: "fails J F m \<Longrightarrow> keeps J m \<Longrightarrow> (\<And>e. F e \<Longrightarrow> fails J E (h e)) \<Longrightarrow> fails J E (try_catch m h)"
  unfolding fails_def try_catch_def keeps_def by (auto split: prod.splits sum.splits) (metis snd_conv)

lemma fails_try_catch: "keeps J m \<Longrightarrow> (\<And>e. fails J E (h e)) \<Longrightarrow> fails J E (try_catch m h)"
  by (rule fails_handler [of J "\<lambda>_. True"]) (auto simp: fails_def)

lemma fails_basic:
  "fails J E (ret a)" "E e \<Longrightarrow> fails J E (raise e)" "fails J E (modify g)" "fails J E (assign s k)" "fails J E (this s)"
  "(\<And>x. E (CardinalityError x)) \<Longrightarrow> fails J E (select_one_or_none q)"
  by (auto simp: fails_def assign_def select_one_or_none_def split: sum.splits)

definition keeps_failures_apart :: "cluster \<Rightarrow> bool" where
  "keeps_failures_apart cl \<longleftrightarrow> (\<forall>l c m b. cl l c \<noteq> Inl (AutoDeleteFailure m b))"

lemma fails_k8s_resource:
  assumes "keeps_failures_apart cl"
  shows "fails J (\<lambda>e. \<forall>m. e \<noteq> AutoDeleteFailure m True) (delete_k8s_resource cl r)"
  using assms unfolding fails_def keeps_failures_apart_def delete_k8s_resource_def k8s_command_def k8s_do_def
  by (auto simp: ebind_def split: if_splits sum.splits)

lemma keeps_ledger_basic [keeps_intros]:
  "keeps one_active_ledger (delete_bound_snapshot cl r)" "keeps one_active_ledger (delete_k8s_resource cl r)"
  "keeps one_active_ledger (set_web_link sid t now)" "keeps one_active_ledger (assign s f)"
  "keeps one_active_ledger (record_audit_event a x i m)" "keeps one_active_ledger (select_one_or_none q)"
  "keeps one_active_ledger (record_storage_release now sid)"
  unfolding delete_k8s_resource_def assign_def
  by (auto intro!: keeps_intros keeps_web_link keeps_release simp: one_active_ledger_def)

lemma keeps_ledger_delete:
  assumes "cb \<in> delete_callbacks cl ck"
  shows "keeps one_active_ledger (delete_stopped now ck cb s)"
  using assms unfolding delete_stopped_def k8s_delete_sandbox_def auto_delete_cold_def auto_delete_live_def db_only_delete_def
  by (auto intro!: keeps_intros)

lemma fails_delete_stopped:
  assumes cl: "keeps_failures_apart cl" and cb: "cb \<in> delete_callbacks cl ck"
  shows "fails one_active_ledger (\<lambda>e. \<forall>m. e \<noteq> AutoDeleteFailure m True) (delete_stopped now ck cb s)"
proof -
  let ?E = "\<lambda>e. \<forall>m. e \<noteq> AutoDeleteFailure m True"
  have "fails one_active_ledger ?E (try_catch (ebind (record_storage_release now (sb_id s)) (\<lambda>_. ret ())) h)" for h now
    unfolding fails_def by (auto simp: try_catch_def elim: release_run [of _ now "sb_id s"])
  note release = this
  have audit: "fails one_active_ledger ?E (record_audit_event a x i m)" for a x i m
    by (simp add: record_audit_event_def fails_basic)
  have cold: "fails one_active_ledger ?E (auto_delete_cold cl t s)" for t
    unfolding auto_delete_cold_def by (intro fails_ebind fails_basic release fails_try_catch keeps_intros) auto
  have link: "fails one_active_ledger ?E (set_web_link sid t now)" for sid t now
    by (simp add: set_web_link_def fails_basic)
  have live: "fails one_active_ledger ?E (auto_delete_live cl t link s)" for link t
    unfolding auto_delete_live_def
    by (intro fails_ebind fails_handler [of _ ?E] fails_basic fails_k8s_resource [OF cl] keeps_intros)
      (auto intro: link fails_basic keeps_intros)
  have k8s: "fails one_active_ledger ?E (k8s_delete_sandbox cl (ck (sb_id s)) s)"
    unfolding k8s_delete_sandbox_def
    by (intro fails_ebind fails_basic keeps_intros) (auto intro: link cold live fails_basic)
  have db: "fails one_active_ledger ?E (db_only_delete (ck (sb_id s)) s)" by (simp add: db_only_delete_def fails_basic)
  have call: "fails one_active_ledger ?E (case cb of Some c \<Rightarrow> c s | None \<Rightarrow> db_only_delete (ck (sb_id s)) s)"
    using cb db k8s by auto
  have "keeps one_active_ledger (case cb of Some c \<Rightarrow> c s | None \<Rightarrow> db_only_delete (ck (sb_id s)) s)"
    using cb unfolding k8s_delete_sandbox_def auto_delete_cold_def auto_delete_live_def db_only_delete_def
    by (auto intro!: keeps_intros)
  from fails_ebind [OF call this audit] show ?thesis unfolding delete_stopped_def .
qed

lemma find_row: "distinct (map sb_id U) \<Longrightarrow> s \<in> set U \<Longrightarrow> find (\<lambda>r. sb_id r = sb_id s) U = Some s"
  by (rule find_distinct_key)

lemma persist_failure_changes:
  assumes "distinct (map sb_id (sandboxes w))" "s \<in> set (sandboxes w)"
  shows "\<exists>w' r'. persist_auto_delete_failure s m False w = (Inr (), w') \<and> (one_active_ledger w \<longrightarrow> one_active_ledger w') \<and>
    (r' = s \<or> auto_deleted now s r') \<and> sb_id r' = sb_id s \<and> sandboxes w' = put_row s r' (sandboxes w)"
proof (cases "sb_gmt_deleted s = None")
  case True
  let ?r = "auto_delete_failed m False s"
  have "auto_deleted now s ?r" by (auto simp: auto_deleted_def)
  moreover from this have "sb_id ?r = sb_id s" by (rule auto_deleted_id)
  moreover have "persist_auto_delete_failure s m False w = (Inr (), w\<lparr>sandboxes := put_row s ?r (sandboxes w)\<rparr>)"
    using True find_row [OF assms] update_where_key [OF assms]
    by (simp add: persist_auto_delete_failure_def assign_def put_row_def)
  ultimately show ?thesis by (intro exI [of _ "w\<lparr>sandboxes := put_row s ?r (sandboxes w)\<rparr>"] exI [of _ ?r]) (simp add: one_active_ledger_def)
next
  case False
  then show ?thesis using find_row [OF assms] update_where_self [OF assms]
    by (auto simp: persist_auto_delete_failure_def put_row_def)
qed

lemma check_delete_changes:
  assumes cand: "delete_candidate s" and cb: "cb \<in> delete_callbacks cl ck" and cl: "keeps_failures_apart cl"
  shows "changes_row one_active_ledger (\<lambda>r r'. r' = r \<or> delete_due now r \<and> auto_deleted (ck (sb_id r)) r r') s (check_delete_one now ck cb s)"
proof (cases "delete_due now s")
  case False
  then show ?thesis using cand unfolding check_delete_one_def total_seconds_minutes
    by (simp add: delete_due_def changes_row_none)
next
  case True
  let ?h = "\<lambda>e. case e of AutoDeleteFailure m b \<Rightarrow> best_effort (persist_auto_delete_failure s m b) | _ \<Rightarrow> ret ()"
  have unfold: "check_delete_one now ck cb s = try_catch (transaction (delete_stopped now ck cb s)) ?h"
    using True unfolding check_delete_one_def total_seconds_minutes by (simp add: delete_due_def)
  show ?thesis
    unfolding changes_row_def unfold
  proof (intro allI impI)
    fix w
    assume w: "one_active_ledger w" "distinct (map sb_id (sandboxes w))" "s \<in> set (sandboxes w)"
    obtain x v where run: "delete_stopped now ck cb s w = (x, v)" by (cases "delete_stopped now ck cb s w")
    let ?goal = "\<lambda>y. \<exists>w' r'. y = (Inr (), w') \<and> one_active_ledger w' \<and> (r' = s \<or> delete_due now s \<and> auto_deleted (ck (sb_id s)) s r') \<and>
      sb_id r' = sb_id s \<and> sandboxes w' = update_where (\<lambda>r. sb_id r = sb_id s) (\<lambda>_. r') (sandboxes w)"
    show "?goal (try_catch (transaction (delete_stopped now ck cb s)) ?h w)"
    proof (cases x)
      case (Inr u)
      have "one_active_ledger v" using keepsD_run [OF keeps_ledger_delete [OF cb] w(1) run] .
      moreover obtain r' where "auto_deleted (ck (sb_id s)) s r'" "sandboxes v = put_row s r' (sandboxes w)"
        using validD_Inr [OF valid_delete_stopped [OF w(2,3) cb] refl] run Inr by auto
      ultimately show ?thesis using Inr run True
        by (auto simp: try_catch_def transaction_def put_row_def dest: auto_deleted_id)
    next
      case (Inl e)
      define w1 where "w1 = rollback_rows w v"
      have w1: "sandboxes w1 = sandboxes w" "one_active_ledger w1" using w(1) by (simp_all add: w1_def one_active_rollback)
      have "?goal (?h e w1)"
      proof (cases "\<exists>m b. e = AutoDeleteFailure m b")
        case True
        then obtain m b where e: "e = AutoDeleteFailure m b" by blast
        have "\<not> b" using fails_delete_stopped [OF cl cb, of now s] w(1) run Inl e by (auto simp: fails_def)
        then show ?thesis
          using persist_failure_changes [of w1 s m "ck (sb_id s)"] w(2,3) w1 \<open>delete_due now s\<close>
          by (auto simp: e best_effort_def try_catch_def put_row_def)
      next
        case False
        then show ?thesis using w1 w(2,3) by (cases e) (auto simp: update_where_self intro!: exI [of _ s])
      qed
      then show ?thesis using Inl run by (simp add: try_catch_def transaction_def w1_def)
    qed
  qed
qed

lemma loop_over_candidates:
  assumes "\<And>s. p s \<Longrightarrow> changes_row one_active_ledger R s (f s)" "one_active_ledger w" "distinct (map sb_id (sandboxes w))"
    and refl: "\<And>r. R r r"
  shows "\<exists>w'. ebind (gets (\<lambda>w. filter p (sandboxes w))) (\<lambda>xs. ebind (for_each xs f) (\<lambda>_. commit)) w = (Inr (), w') \<and>
    one_active_ledger w' \<and> list_all2 R (sandboxes w) (sandboxes w')"
proof -
  have "distinct (map sb_id (filter p (sandboxes w)))" using assms(3) by (rule distinct_map_filter)
  then obtain w1 where w1: "for_each (filter p (sandboxes w)) f w = (Inr (), w1)" "one_active_ledger w1"
    "list_all2 (\<lambda>r r'. if r \<in> set (filter p (sandboxes w)) then R r r' else r' = r) (sandboxes w) (sandboxes w1)"
    using for_each_rows [of "filter p (sandboxes w)" one_active_ledger R f w] assms by auto
  have "list_all2 R (sandboxes w) (sandboxes w1)"
    using w1(3) by (rule list_all2_mono) (auto simp: refl split: if_splits)
  moreover have "one_active_ledger (store_rows w1)" using w1(2) keepsD [OF keeps_ledger_commit] by simp
  ultimately show ?thesis using w1(1) by (simp add: ebind_run)
qed

lemma stopped_due: "delete_due t (stopped_row a r) \<Longrightarrow> a + seconds 60 < t"
  by (auto simp: delete_due_def delete_candidate_def stopped_for_def stopped_row_def seconds_def)

lemma cold_ok_stopped: "cold_ok r \<Longrightarrow> idle_due t r \<Longrightarrow> cold_ok (stopped_row a r)"
  by (auto simp: cold_ok_def idle_due_def idle_candidate_def stopped_row_def)

lemma cold_ok_auto_deleted: "cold_ok r \<Longrightarrow> delete_due t r \<Longrightarrow> auto_deleted a r r' \<Longrightarrow> cold_ok r'"
  by (auto simp: cold_ok_def delete_due_def delete_candidate_def auto_deleted_def auto_delete_failed_def clear_snapshot_binding_def)

lemma best_effort_transaction: "m w = (Inr (), v) \<Longrightarrow> best_effort (transaction m) w = (Inr (), v)"
  by (simp add: best_effort_def try_catch_def transaction_def)

text \<open>What a tick makes of a row. The deletion check judges the row as the idle check left it, by a later reading of the clock.\<close>

definition idle_change :: "lifecycle_clock \<Rightarrow> sandbox \<Rightarrow> sandbox \<Rightarrow> bool" where
  "idle_change clock r r' \<longleftrightarrow> r' = r \<or> idle_due (utc_ts (lc_idle clock)) r \<and> r' = stopped_row (fst (lc_stop clock (sb_id r))) r"

definition delete_change :: "lifecycle_clock \<Rightarrow> sandbox \<Rightarrow> sandbox \<Rightarrow> bool" where
  "delete_change clock r r' \<longleftrightarrow> r' = r \<or> delete_due (lc_due clock) r \<and> auto_deleted (lc_delete clock (sb_id r)) r r'"

definition lifecycle_change :: "lifecycle_clock \<Rightarrow> sandbox \<Rightarrow> sandbox \<Rightarrow> bool" where
  "lifecycle_change clock r r' \<longleftrightarrow>
     (let stopped = stopped_row (fst (lc_stop clock (sb_id r))) r
      in delete_change clock r r' \<or>
         idle_due (utc_ts (lc_idle clock)) r \<and>
           (r' = stopped \<or> fst (lc_stop clock (sb_id r)) + seconds 60 < lc_due clock \<and> delete_change clock stopped r'))"

lemma sb_id_stopped: "sb_id (stopped_row t r) = sb_id r"
  by (simp add: stopped_row_def)

lemma lifecycle_change_two:
  assumes "idle_change clock r s" "delete_change clock s r'"
  shows "lifecycle_change clock r r'"
  using assms stopped_due [of "lc_due clock" _ r]
  by (auto simp: lifecycle_change_def idle_change_def delete_change_def Let_def)

lemma list_all2_ids: "list_all2 R xs ys \<Longrightarrow> (\<And>r r'. R r r' \<Longrightarrow> sb_id r' = sb_id r) \<Longrightarrow> map sb_id ys = map sb_id xs"
  by (induction rule: list_all2_induct) auto

lemma cold_inv_rows:
  assumes "cold_inv w" "list_all2 R (sandboxes w) (sandboxes w')" "\<And>r r'. R r r' \<Longrightarrow> sb_id r' = sb_id r"
    "\<And>r r'. R r r' \<Longrightarrow> cold_ok r \<Longrightarrow> cold_ok r'"
  shows "cold_inv w'"
proof -
  have "map sb_id (sandboxes w') = map sb_id (sandboxes w)" using assms(2,3) by (rule list_all2_ids)
  moreover have "cold_ok r'" if "r' \<in> set (sandboxes w')" for r'
  proof -
    from that assms(2) obtain r where "r \<in> set (sandboxes w)" "R r r'"
      by (metis in_set_conv_nth list_all2_conv_all_nth)
    then show ?thesis using assms(1,4) by (auto simp: cold_inv_def cold_rows_def)
  qed
  ultimately show ?thesis using assms(1) by (simp add: cold_inv_def cold_rows_def)
qed

subsection \<open>Properties\<close>

text \<open>C25: the lifecycle tick never raises and only touches what is due. Whatever the cluster answers and whatever the clock says at each
  of its readings, a row is left as it
  was, or it was ready and idle for longer than its interval when the tick began and is stopped, or it was stopped or cold, without
  a pending operation, for longer than its interval when the deletions began, and is being deleted, deleted, or in error. Both may happen to
  a row in one tick, but only when the tick needed more than a minute from the stop to the deletions. Cold storage stays consistent.\<close>

theorem lifecycle_tick_only_due:
  assumes "cold_inv w" "one_active_ledger w" "keeps_failures_apart cl"
    and "stop_cb \<in> stop_callbacks cl" "delete_cb \<in> delete_callbacks cl (lc_delete clock)"
  shows "\<exists>w'. run_lifecycle_tick clock stop_cb delete_cb w = (Inr (), w') \<and>
    list_all2 (lifecycle_change clock) (sandboxes w) (sandboxes w') \<and> cold_inv w'"
proof -
  have ids: "distinct (map sb_id (sandboxes w))" using assms(1) by (simp add: cold_inv_def cold_rows_def)
  obtain w1 where w1: "check_idle_auto_stop (lc_idle clock) (lc_stop clock) stop_cb w = (Inr (), w1)" "one_active_ledger w1"
    and idle: "list_all2 (idle_change clock) (sandboxes w) (sandboxes w1)"
    unfolding check_idle_auto_stop_def
    using loop_over_candidates [of idle_candidate "idle_change clock" "check_idle_one (lc_idle clock) (lc_stop clock) stop_cb" w]
      check_idle_changes [OF _ assms(4), of _ "lc_idle clock" "lc_stop clock", folded idle_change_def] assms(2) ids
    by (auto simp: idle_change_def [abs_def])
  have cold1: "cold_inv w1"
    by (rule cold_inv_rows [OF assms(1) idle]) (auto simp: idle_change_def sb_id_stopped cold_ok_stopped)
  then have ids1: "distinct (map sb_id (sandboxes w1))" by (simp add: cold_inv_def cold_rows_def)
  obtain w2 where w2: "check_auto_delete (lc_due clock) (lc_delete clock) delete_cb w1 = (Inr (), w2)"
    and del: "list_all2 (delete_change clock) (sandboxes w1) (sandboxes w2)"
    unfolding check_auto_delete_def
    using loop_over_candidates [of delete_candidate "delete_change clock" "check_delete_one (lc_due clock) (lc_delete clock) delete_cb" w1]
      check_delete_changes [OF _ assms(5,3), of _ "lc_due clock"] w1(2) ids1
    by (auto simp: delete_change_def [abs_def])
  have "list_all2 (lifecycle_change clock) (sandboxes w) (sandboxes w2)"
    by (rule list_all2_trans [OF lifecycle_change_two idle del])
  moreover have "run_lifecycle_tick clock stop_cb delete_cb w = (Inr (), w2)"
    unfolding run_lifecycle_tick_def
    using best_effort_transaction [of "check_idle_auto_stop (lc_idle clock) (lc_stop clock) stop_cb", OF w1(1)]
      best_effort_transaction [of "check_auto_delete (lc_due clock) (lc_delete clock) delete_cb", OF w2] by (simp add: ebind_run)
  moreover have "cold_inv w2"
    by (rule cold_inv_rows [OF cold1 del]) (auto simp: delete_change_def cold_ok_auto_deleted dest: auto_deleted_id)
  ultimately show ?thesis by blast
qed

text \<open>A clock that stands still.\<close>

definition still_clock :: "datetime \<Rightarrow> lifecycle_clock" where
  "still_clock now = \<lparr>lc_idle = now, lc_stop = (\<lambda>_. (utc_ts now, now)), lc_due = utc_ts now, lc_delete = (\<lambda>_. utc_ts now)\<rparr>"

theorem lifecycle_tick_only_due_witness:
  "let w = session_world\<lparr>sandboxes := [demo_sandbox\<lparr>sb_gmt_last_active := Some 0\<rparr>]\<rparr> in
   \<exists>w'. run_lifecycle_tick (still_clock demo_now) (Some (k8s_stop_sandbox done_cluster)) None w = (Inr (), w') \<and>
     list_all2 (lifecycle_change (still_clock demo_now)) (sandboxes w) (sandboxes w') \<and> cold_inv w'"
proof -
  let ?w = "session_world\<lparr>sandboxes := [demo_sandbox\<lparr>sb_gmt_last_active := Some 0\<rparr>]\<rparr>"
  have 1: "cold_inv ?w" by (simp add: cold_inv_def cold_rows_def cold_ok_def demo_sandbox_def)
  have 2: "one_active_ledger ?w" by (simp add: one_active_ledger_def one_live_def session_world_def demo_world_def empty_world_def)
  have "done_cluster l c \<noteq> Inl (AutoDeleteFailure m b)" for l c m b by (cases "(l, c)" rule: done_cluster.cases) auto
  then have 3: "keeps_failures_apart done_cluster" by (simp add: keeps_failures_apart_def)
  show ?thesis
    using lifecycle_tick_only_due [OF 1 2 3, of "Some (k8s_stop_sandbox done_cluster)" None "still_clock demo_now"] by simp
qed

subsection \<open>All idle sandboxes are stopped\<close>

definition suspends :: "cluster \<Rightarrow> bool" where
  "suspends cl \<longleftrightarrow> (\<forall>l n ns. \<exists>r. cl l (SetOperatingMode n ns ''Suspended'') = Inr r)"

text \<open>Every open session can be billed: its owner has a plan and its template is known.\<close>

definition billable :: "world \<Rightarrow> bool" where
  "billable w \<longleftrightarrow> one_open_session w \<and> distinct (map cs_id (compute_sessions w)) \<and>
     (\<forall>k. \<forall>c \<in> set (open_sessions_of k w). (\<exists>p. plans_of (cs_user_id c) w = [p]) \<and>
        resolve_spec (template_specs_cache w) (cs_template c) \<noteq> None)"

lemma close_billable:
  assumes "billable w"
  obtains r v where "close_compute_session now sid w = (Inr r, v)" "same_context w v" "billable v"
    "open_sessions_of sid v = []" "\<And>k. k \<noteq> sid \<Longrightarrow> open_sessions_of k v = open_sessions_of k w"
proof -
  have one: "one_open_session w" and ids: "distinct (map cs_id (compute_sessions w))"
    using assms by (simp_all add: billable_def)
  obtain r v where run: "close_compute_session now sid w = (Inr r, v)" and ctx: "same_context w v"
    and gone: "open_sessions_of sid v = []" and other: "\<And>k. k \<noteq> sid \<Longrightarrow> open_sessions_of k v = open_sessions_of k w"
    and ids': "distinct (map cs_id (compute_sessions v))"
    using one
  proof (cases rule: one_open_cases [of w sid])
    case 1
    then show thesis using ids by (intro that [of None w]) (simp_all add: close_none same_context_def)
  next
    case (2 s)
    obtain p where "plans_of (cs_user_id s) w = [p]" and "resolve_spec (template_specs_cache w) (cs_template s) \<noteq> None"
      using assms 2(1) unfolding billable_def by (metis list.set_intros(1))
    from close_effect [OF 2(1) this, of now] obtain r v f where
      eff: "close_compute_session now sid w = (Inr r, v)" "same_context w v"
        "compute_sessions v = update_where (\<lambda>c. cs_id c = cs_id s) f (compute_sessions w)"
        "\<And>c. cs_id (f c) = cs_id c \<and> cs_sandbox_id (f c) = cs_sandbox_id c" by blast
    have "open_sessions_of sid v = []" using close_succeeds [OF 2(1) refl eff(1)] by simp
    moreover have "distinct (map cs_id (compute_sessions v))" using ids eff(3,4) by (simp add: map_update_where)
    ultimately show thesis using eff(1,2) open_sessions_other [OF ids 2(1) _ eff(3)] eff(4) by (intro that) auto
  qed
  have "one_open_session v" using keepsD_run [OF keeps_close_compute_session one run] .
  moreover have "(\<exists>p. plans_of (cs_user_id c) v = [p]) \<and> resolve_spec (template_specs_cache v) (cs_template c) \<noteq> None"
    if "c \<in> set (open_sessions_of k v)" for k c
  proof -
    have "k \<noteq> sid" using that gone by auto
    then show ?thesis using assms that other ctx unfolding billable_def has_plan_iff same_context_def by simp
  qed
  ultimately have "billable v" using ids' by (simp add: billable_def)
  with run ctx gone other show thesis by (intro that)
qed

lemma billable_frame:
  assumes "compute_sessions v = compute_sessions w" "user_plans v = user_plans w" "template_specs_cache v = template_specs_cache w"
  shows "billable v = billable w" and "open_sessions_of k v = open_sessions_of k w"
  using assms by (simp_all add: billable_def one_open_session_def plans_of_def open_sessions_of_def)

lemma stop_idle_total:
  assumes "billable w" "suspends cl"
  obtains v where "stop_idle now ck (Some (k8s_stop_sandbox cl)) s w = (Inr (), v)" "billable v"
    "open_sessions_of (sb_id s) v = []" "\<And>k. open_sessions_of k w = [] \<Longrightarrow> open_sessions_of k v = []"
proof -
  define u where "u = w\<lparr>k8s_log := k8s_log w @ [SetOperatingMode (k8s_name s) (sb_k8s_namespace s) ''Suspended'']\<rparr>"
  obtain x where "cl (k8s_log w) (SetOperatingMode (k8s_name s) (sb_k8s_namespace s) ''Suspended'') = Inr x"
    using assms(2) unfolding suspends_def by blast
  then have call: "k8s_stop_sandbox cl s w = (Inr (), u)"
    by (simp add: k8s_stop_sandbox_def k8s_command_def k8s_do_def u_def)
  define t where "t = (if sb_status (this_row s u) = READY
    then u\<lparr>sandboxes := update_where (\<lambda>r. sb_id r = sb_id s) (stopped_row (fst (ck (sb_id s)))) (sandboxes u)\<rparr> else u)"
  have t: "compute_sessions t = compute_sessions w" "user_plans t = user_plans w" "template_specs_cache t = template_specs_cache w"
    by (simp_all add: t_def u_def)
  from assms(1) have "billable t" using billable_frame [OF t] by simp
  then obtain r v where v: "close_compute_session (snd (ck (sb_id s))) (sb_id s) t = (Inr r, v)" "billable v" "open_sessions_of (sb_id s) v = []"
    "\<And>k. k \<noteq> sb_id s \<Longrightarrow> open_sessions_of k v = open_sessions_of k t" by (rule close_billable) blast
  define v' where "v' = snd (record_audit_event ''sandbox.idle_auto_stop'' ''sandbox'' (sb_id s)
       [(''owner_id'', MStr (sb_owner_id s)), (''auto_stop_interval_minutes'', MInt (sb_auto_stop_interval s)),
        (''idle_seconds'', MInt (int_seconds (idle_for (utc_ts now) s)))] v)"
  have same: "compute_sessions v' = compute_sessions v" "user_plans v' = user_plans v" "template_specs_cache v' = template_specs_cache v"
    by (simp_all add: v'_def record_audit_event_def)
  define m where "m = ebind (k8s_stop_sandbox cl s) (\<lambda>_. ebind (this s) (\<lambda>r.
      if sb_status r = READY then lifecycle_db_only_stop (fst (ck (sb_id s))) s else ret ()))"
  have mid: "m w = (Inr (), t)"
    using call by (simp add: m_def ebind_run lifecycle_db_only_stop_def assign_def t_def stopped_row_def [abs_def])
  have "stop_idle now ck (Some (k8s_stop_sandbox cl)) s w = (Inr (), v')"
    unfolding stop_idle_def option.case m_def [symmetric] using mid v(1) by (simp add: ebind_run v'_def record_audit_event_def)
  moreover have "open_sessions_of k v' = []" if "open_sessions_of k w = []" for k
    using that v(3,4) billable_frame(2) [OF t] billable_frame(2) [OF same] by (cases "k = sb_id s") auto
  ultimately show thesis using v(2,3) billable_frame [OF same] by (intro that [of v']) simp_all
qed

lemma check_idle_exact:
  assumes "idle_candidate s" "suspends cl" "billable w" "distinct (map sb_id (sandboxes w))" "s \<in> set (sandboxes w)"
  obtains v where "check_idle_one now ck (Some (k8s_stop_sandbox cl)) s w = (Inr (), v)" "billable v"
    "idle_due (utc_ts now) s \<Longrightarrow> open_sessions_of (sb_id s) v = []"
    "\<And>k. open_sessions_of k w = [] \<Longrightarrow> open_sessions_of k v = []"
    "sandboxes v = update_where (\<lambda>r. sb_id r = sb_id s)
       (\<lambda>_. if idle_due (utc_ts now) s then stopped_row (fst (ck (sb_id s))) s else s) (sandboxes w)"
proof (cases "idle_due (utc_ts now) s")
  case True
  obtain v where v: "stop_idle now ck (Some (k8s_stop_sandbox cl)) s w = (Inr (), v)" "billable v"
    "open_sessions_of (sb_id s) v = []" "\<And>k. open_sessions_of k w = [] \<Longrightarrow> open_sessions_of k v = []"
    using stop_idle_total [OF assms(3,2)] by metis
  have "sb_status s = READY" using assms(1) by (simp add: idle_candidate_def)
  then have "sandboxes v = update_where (\<lambda>r. sb_id r = sb_id s) (\<lambda>_. stopped_row (fst (ck (sb_id s))) s) (sandboxes w)"
    using validD_Inr [OF valid_stop_idle [OF assms(4,5), of _ cl] refl v(1)] by simp
  moreover have "check_idle_one now ck (Some (k8s_stop_sandbox cl)) s w = (Inr (), v)"
    using True best_effort_transaction [of "stop_idle now ck (Some (k8s_stop_sandbox cl)) s", OF v(1)]
    unfolding check_idle_one_def total_seconds_minutes by (simp add: idle_due_def)
  ultimately show thesis using v True by (intro that) simp_all
next
  case False
  then have "check_idle_one now ck (Some (k8s_stop_sandbox cl)) s w = (Inr (), w)"
    using assms(1) unfolding check_idle_one_def total_seconds_minutes by (simp add: idle_due_def)
  then show thesis using False assms(3) update_where_self [OF assms(4,5)] by (intro that) simp_all
qed

text \<open>\<open>meters_closed now ck w v\<close>: the sandboxes of \<open>w\<close> that are due and already stopped in \<open>v\<close> have no open session.\<close>

definition meters_closed :: "time \<Rightarrow> (string \<Rightarrow> time \<times> datetime) \<Rightarrow> world \<Rightarrow> world \<Rightarrow> bool" where
  "meters_closed t ck w v \<longleftrightarrow> (\<forall>s \<in> set (sandboxes w). idle_due t s \<longrightarrow> stopped_row (fst (ck (sb_id s))) s \<in> set (sandboxes v) \<longrightarrow>
     open_sessions_of (sb_id s) v = [])"

lemma update_where_other: "y \<in> set (update_where p (\<lambda>_. z) xs) \<Longrightarrow> y \<noteq> z \<Longrightarrow> y \<in> set xs"
  by (auto simp: set_update_where split: if_splits)

lemma check_idle_exact_changes:
  assumes "suspends cl" "distinct (map sb_id (sandboxes w))" "s \<in> set (sandboxes w)" "idle_candidate s"
  shows "changes_row (\<lambda>v. billable v \<and> meters_closed (utc_ts now) ck w v)
    (\<lambda>r r'. r' = (if idle_due (utc_ts now) r then stopped_row (fst (ck (sb_id r))) r else r)) s
    (check_idle_one now ck (Some (k8s_stop_sandbox cl)) s)"
  unfolding changes_row_def
proof (intro allI impI)
  let ?t = "utc_ts now"
  let ?f = "check_idle_one now ck (Some (k8s_stop_sandbox cl))"
  fix u
  assume u: "billable u \<and> meters_closed ?t ck w u" "distinct (map sb_id (sandboxes u))" "s \<in> set (sandboxes u)"
  from check_idle_exact [OF assms(4,1) _ u(2,3), of now] u(1)
  obtain v where v: "?f s u = (Inr (), v)" "billable v" "idle_due ?t s \<Longrightarrow> open_sessions_of (sb_id s) v = []"
    "\<And>k. open_sessions_of k u = [] \<Longrightarrow> open_sessions_of k v = []"
    "sandboxes v = update_where (\<lambda>r. sb_id r = sb_id s) (\<lambda>_. if idle_due ?t s then stopped_row (fst (ck (sb_id s))) s else s) (sandboxes u)"
    by blast
  have "open_sessions_of (sb_id x) v = []"
    if x: "x \<in> set (sandboxes w)" "idle_due ?t x" "stopped_row (fst (ck (sb_id x))) x \<in> set (sandboxes v)" for x
  proof (cases "x = s")
    case True
    then show ?thesis using v(3) x(2) by simp
  next
    case False
    then have "sb_id x \<noteq> sb_id s" using x(1) assms(2,3) by (simp add: distinct_key)
    then have "stopped_row t x \<noteq> (if idle_due ?t s then stopped_row t' s else s)" for t t'
      using sb_id_stopped [of t x] sb_id_stopped [of t' s] by metis
    then have "stopped_row (fst (ck (sb_id x))) x \<in> set (sandboxes u)"
      by (rule update_where_other [OF x(3) [unfolded v(5)]])
    then show ?thesis using u(1) x(1,2) v(4) by (simp add: meters_closed_def)
  qed
  then have "meters_closed ?t ck w v" by (simp add: meters_closed_def)
  then show "\<exists>w' r'. ?f s u = (Inr (), w') \<and> (billable w' \<and> meters_closed ?t ck w w') \<and> r' = (if idle_due ?t s then stopped_row (fst (ck (sb_id s))) s else s) \<and> sb_id r' = sb_id s \<and>
      sandboxes w' = update_where (\<lambda>r. sb_id r = sb_id s) (\<lambda>_. r') (sandboxes u)"
    using v(1,2,5) sb_id_stopped [of _ s] by auto
qed

text \<open>the idle check stops exactly the sandboxes that are idle for longer than their interval, and their meters. When the
  cluster accepts the suspension and every open session can be billed, the task returns, each due sandbox is stopped
  now with a new version and has no open session any more, and every other row is as it was.\<close>

theorem idle_auto_stop_exact:
  assumes "suspends cl" "billable w" "distinct (map sb_id (sandboxes w))"
  shows "\<exists>w'. check_idle_auto_stop now ck (Some (k8s_stop_sandbox cl)) w = (Inr (), w') \<and>
    sandboxes w' = map (\<lambda>s. if idle_due (utc_ts now) s then stopped_row (fst (ck (sb_id s))) s else s) (sandboxes w) \<and>
    (\<forall>s \<in> set (sandboxes w). idle_due (utc_ts now) s \<longrightarrow> open_sessions_of (sb_id s) w' = [])"
proof -
  let ?t = "utc_ts now"
  let ?f = "check_idle_one now ck (Some (k8s_stop_sandbox cl))"
  let ?xs = "filter idle_candidate (sandboxes w)"
  let ?R = "\<lambda>r r'. r' = (if idle_due ?t r then stopped_row (fst (ck (sb_id r))) r else r)"
  have "changes_row (\<lambda>v. billable v \<and> meters_closed ?t ck w v) ?R s (?f s)" if "s \<in> set ?xs" for s
    using check_idle_exact_changes [OF assms(1,3), of s now ck] that by simp
  moreover have "meters_closed ?t ck w w"
  proof -
    have "stopped_row (fst (ck (sb_id s))) s \<noteq> s" if "idle_due ?t s" for s
      using that by (auto simp: idle_due_def idle_candidate_def stopped_row_def dest: arg_cong [of _ _ sb_status])
    then have "stopped_row (fst (ck (sb_id s))) s \<notin> set (sandboxes w)" if "idle_due ?t s" "s \<in> set (sandboxes w)" for s
      using that sb_id_stopped [of _ s] distinct_key [OF assms(3)] by metis
    then show ?thesis by (simp add: meters_closed_def)
  qed
  moreover have "distinct (map sb_id ?xs)" using assms(3) by (rule distinct_map_filter)
  ultimately obtain v where v: "for_each ?xs ?f w = (Inr (), v)" "billable v \<and> meters_closed ?t ck w v"
    "list_all2 (\<lambda>r r'. if r \<in> set ?xs then ?R r r' else r' = r) (sandboxes w) (sandboxes v)"
    using for_each_rows [of ?xs "\<lambda>v. billable v \<and> meters_closed ?t ck w v" ?R ?f w] assms(2,3) by auto
  have rows: "sandboxes v = map (\<lambda>s. if idle_due ?t s then stopped_row (fst (ck (sb_id s))) s else s) (sandboxes w)"
    using v(3) by (auto simp: list_all2_conv_all_nth list_eq_iff_nth_eq idle_due_def split: if_splits)
  have "check_idle_auto_stop now ck (Some (k8s_stop_sandbox cl)) w = (Inr (), store_rows v)"
    unfolding check_idle_auto_stop_def using v(1) by (simp add: ebind_run)
  moreover have "open_sessions_of (sb_id s) (store_rows v) = []" if "s \<in> set (sandboxes w)" "idle_due ?t s" for s
    using v(2) that rows by (auto simp: meters_closed_def open_sessions_of_store)
  ultimately show ?thesis using rows by auto
qed

theorem idle_auto_stop_exact_witness:
  "let w = session_world\<lparr>sandboxes := [demo_sandbox\<lparr>sb_gmt_last_active := Some 0\<rparr>]\<rparr> in
   \<exists>w'. check_idle_auto_stop demo_now (\<lambda>_. (0, demo_now)) (Some (k8s_stop_sandbox done_cluster)) w = (Inr (), w') \<and>
     map sb_status (sandboxes w') = [STOPPED] \<and> open_sessions_of ''sb1'' w' = []"
proof -
  let ?w = "session_world\<lparr>sandboxes := [demo_sandbox\<lparr>sb_gmt_last_active := Some 0\<rparr>]\<rparr>"
  have 1: "suspends done_cluster" by (simp add: suspends_def)
  have "one_open_session ?w" by (simp add: one_open_session_def one_live_def session_world_def demo_world_def empty_world_def)
  moreover have "resolve_spec [] ''aio-sandbox-tiny'' \<noteq> None" by code_simp
  ultimately have 2: "billable ?w"
    by (simp add: billable_def session_world_def demo_world_def empty_world_def demo_session_def demo_plan_def plans_of_def
        open_sessions_of_def)
  have 3: "distinct (map sb_id (sandboxes ?w))" by simp
  have "idle_due (utc_ts demo_now) (demo_sandbox\<lparr>sb_gmt_last_active := Some 0\<rparr>)" by code_simp
  with idle_auto_stop_exact [OF 1 2 3, of demo_now "\<lambda>_. (0, demo_now)"] show ?thesis by (auto simp: stopped_row_def demo_sandbox_def)
qed

end
