(* ===== verification/Platform_Limits.thy ===== *)
theory Platform_Limits
  imports Sandbox_Service
begin

text \<open>
  \<^verbatim>\<open>platform/services/platform_limits.py\<close>: the caps on the whole platform, the snapshot of their use and the cached
  snapshot of a process.

  \<open>platform_db\<close> is what the queries read. \<open>PlatformLimitsRuntime\<close> is a record; a database session is known by the
  token of its engine, which it may not have.
\<close>

subsection \<open>The service\<close>

record limits_config =
  lc_max_registered_users :: "int option"
  lc_max_total_sandboxes :: "int option"
  lc_max_total_storage_gib :: "int option"
  lc_max_waitlist_applications :: "int option"

record limits_usage =
  lu_registered_users :: int
  lu_total_sandboxes :: int
  lu_total_storage_gib :: int
  lu_waitlist_applications :: int

record limits_snapshot =
  ls_config :: limits_config
  ls_usage :: limits_usage
  ls_refreshed_at :: time

record platform_db =
  pd_platform_limits :: "limits_config option"
  pd_users :: "string list"
  pd_sandboxes :: "sandbox list"
  pd_waitlist_applications :: "string list"

definition storage_size_gib_case :: "sandbox \<Rightarrow> int" where
  "storage_size_gib_case s =
     (if sb_storage_size s = Some ''5Gi'' then 5
      else if sb_storage_size s = Some ''10Gi'' then 10
      else if sb_storage_size s = Some ''20Gi'' then 20
      else 0)"

definition platform_parse_storage_size_gib :: "string option \<Rightarrow> exn + int" where
  "platform_parse_storage_size_gib z = (case z of None \<Rightarrow> Inr 0 | Some x \<Rightarrow> parse_storage_size_gib x)"

definition no_limits :: limits_config where
  "no_limits = \<lparr>lc_max_registered_users = None, lc_max_total_sandboxes = None, lc_max_total_storage_gib = None,
     lc_max_waitlist_applications = None\<rparr>"

definition get_or_create_config :: "(platform_db, exn, limits_config) action" where
  "get_or_create_config = ebind (gets pd_platform_limits) (\<lambda>c. case c of
     Some x \<Rightarrow> ret x
   | None \<Rightarrow> ebind (modify (\<lambda>d. d\<lparr>pd_platform_limits := Some no_limits\<rparr>)) (\<lambda>_. ret no_limits))"

definition build_snapshot :: "time \<Rightarrow> platform_db \<Rightarrow> limits_snapshot" where
  "build_snapshot now d =
     (let live = filter (\<lambda>s. sb_gmt_deleted s = None) (pd_sandboxes d)
      in \<lparr>ls_config = (case pd_platform_limits d of Some c \<Rightarrow> c | None \<Rightarrow> no_limits),
          ls_usage = \<lparr>lu_registered_users = int (length (pd_users d)), lu_total_sandboxes = int (length live),
            lu_total_storage_gib = sum_list (map storage_size_gib_case (filter sb_persist live)),
            lu_waitlist_applications = int (length (pd_waitlist_applications d))\<rparr>,
          ls_refreshed_at = now\<rparr>)"

definition check_user_registration_allowed :: "limits_snapshot \<Rightarrow> exn + unit" where
  "check_user_registration_allowed sn = (case lc_max_registered_users (ls_config sn) of
     Some m \<Rightarrow> if m \<le> lu_registered_users (ls_usage sn)
       then Inl (UserRegistrationCapExceededError (lu_registered_users (ls_usage sn)) m) else Inr ()
   | None \<Rightarrow> Inr ())"

definition check_sandbox_creation_allowed :: "limits_snapshot \<Rightarrow> exn + unit" where
  "check_sandbox_creation_allowed sn = (case lc_max_total_sandboxes (ls_config sn) of
     Some m \<Rightarrow> if m \<le> lu_total_sandboxes (ls_usage sn)
       then Inl (SandboxCapExceededError (lu_total_sandboxes (ls_usage sn)) m) else Inr ()
   | None \<Rightarrow> Inr ())"

definition check_storage_allocation_allowed :: "limits_snapshot \<Rightarrow> int \<Rightarrow> exn + unit" where
  "check_storage_allocation_allowed sn requested = (case lc_max_total_storage_gib (ls_config sn) of
     Some m \<Rightarrow> if m < lu_total_storage_gib (ls_usage sn) + requested
       then Inl (GlobalStorageCapExceededError (lu_total_storage_gib (ls_usage sn)) requested m) else Inr ()
   | None \<Rightarrow> Inr ())"

definition check_waitlist_submission_allowed :: "limits_snapshot \<Rightarrow> exn + unit" where
  "check_waitlist_submission_allowed sn = (case lc_max_waitlist_applications (ls_config sn) of
     Some m \<Rightarrow> if m \<le> lu_waitlist_applications (ls_usage sn)
       then Inl (WaitlistCapExceededError (lu_waitlist_applications (ls_usage sn)) m) else Inr ()
   | None \<Rightarrow> Inr ())"

subsection \<open>The cached snapshot\<close>

text \<open>\<open>rt_factory\<close> is the engine of the session factory given to \<^verbatim>\<open>start\<close>, with its database.\<close>

record limits_runtime =
  rt_snapshot :: "limits_snapshot option"
  rt_bind_token :: "nat option"
  rt_factory :: "nat option option"
  rt_task :: bool

definition new_limits_runtime :: limits_runtime where
  "new_limits_runtime = \<lparr>rt_snapshot = None, rt_bind_token = None, rt_factory = None, rt_task = False\<rparr>"

definition refresh_from_session :: "time \<Rightarrow> nat option \<Rightarrow> platform_db \<Rightarrow> limits_runtime \<Rightarrow> limits_snapshot \<times> limits_runtime" where
  "refresh_from_session now token d rt =
     (let sn = build_snapshot now d in (sn, rt\<lparr>rt_snapshot := Some sn, rt_bind_token := token\<rparr>))"

definition ensure_snapshot :: "time \<Rightarrow> nat option \<Rightarrow> platform_db \<Rightarrow> limits_runtime \<Rightarrow> limits_snapshot \<times> limits_runtime" where
  "ensure_snapshot now token d rt = (case rt_snapshot rt of
     Some sn \<Rightarrow> if rt_bind_token rt = token then (sn, rt) else refresh_from_session now token d rt
   | None \<Rightarrow> refresh_from_session now token d rt)"

definition force_refresh :: "time \<Rightarrow> platform_db \<Rightarrow> limits_runtime \<Rightarrow> limits_snapshot option \<times> limits_runtime" where
  "force_refresh now d rt = (case rt_factory rt of
     None \<Rightarrow> (rt_snapshot rt, rt)
   | Some token \<Rightarrow> let sn = build_snapshot now d in (Some sn, rt\<lparr>rt_snapshot := Some sn, rt_bind_token := token\<rparr>))"

definition start_runtime :: "time \<Rightarrow> nat option \<Rightarrow> platform_db \<Rightarrow> limits_runtime \<Rightarrow> limits_runtime" where
  "start_runtime now token d rt = (snd (force_refresh now d (rt\<lparr>rt_factory := Some token\<rparr>)))\<lparr>rt_task := True\<rparr>"

definition stop_runtime :: "limits_runtime \<Rightarrow> limits_runtime" where
  "stop_runtime rt = rt\<lparr>rt_task := False, rt_factory := None, rt_snapshot := None, rt_bind_token := None\<rparr>"

subsection \<open>Lemmas\<close>

text \<open>The reference for the storage in use: the sizes of the live persistent sandboxes, parsed.\<close>

definition parsed_storage :: "platform_db \<Rightarrow> (exn + int) list" where
  "parsed_storage d = map (\<lambda>s. platform_parse_storage_size_gib (sb_storage_size s))
     (filter (\<lambda>s. sb_gmt_deleted s = None \<and> sb_persist s) (pd_sandboxes d))"

definition sizes_known :: "platform_db \<Rightarrow> bool" where
  "sizes_known d \<longleftrightarrow> list_all (\<lambda>s. sb_gmt_deleted s = None \<and> sb_persist s \<longrightarrow> sb_storage_size s \<in> Some ` set SANDBOX_STORAGE_SIZE_VALUES)
     (pd_sandboxes d)"

lemma parse_known_sizes:
  "parse_storage_size_gib ''5Gi'' = Inr 5" "parse_storage_size_gib ''10Gi'' = Inr 10" "parse_storage_size_gib ''20Gi'' = Inr 20"
  by code_simp+

lemma case_agrees:
  "sb_storage_size s \<in> Some ` set SANDBOX_STORAGE_SIZE_VALUES \<Longrightarrow>
   platform_parse_storage_size_gib (sb_storage_size s) = Inr (storage_size_gib_case s)"
  by (auto simp: SANDBOX_STORAGE_SIZE_VALUES_def platform_parse_storage_size_gib_def storage_size_gib_case_def parse_known_sizes)

lemma storage_total:
  "lu_total_storage_gib (ls_usage (build_snapshot now d)) =
     sum_list (map storage_size_gib_case (filter (\<lambda>s. sb_gmt_deleted s = None \<and> sb_persist s) (pd_sandboxes d)))"
proof -
  have "filter sb_persist (filter (\<lambda>s. sb_gmt_deleted s = None) xs) = filter (\<lambda>s. sb_gmt_deleted s = None \<and> sb_persist s) xs" for xs
    by (simp add: conj_commute)
  then show ?thesis by (simp add: build_snapshot_def Let_def)
qed

lemma parsed_known: "sizes_known d \<Longrightarrow> parsed_storage d = map (\<lambda>s. Inr (storage_size_gib_case s))
    (filter (\<lambda>s. sb_gmt_deleted s = None \<and> sb_persist s) (pd_sandboxes d))"
  by (auto simp: parsed_storage_def sizes_known_def list_all_iff case_agrees)

text \<open>A size that only a template allows is not counted.\<close>

lemma template_size_not_counted:
  "\<exists>s. platform_parse_storage_size_gib (sb_storage_size s) = Inr 50 \<and> storage_size_gib_case s = 0"
proof -
  have "parse_storage_size_gib ''50Gi'' = Inr 50" by code_simp
  then show ?thesis
    by (intro exI [of _ "demo_sandbox\<lparr>sb_storage_size := Some ''50Gi''\<rparr>"])
      (simp add: platform_parse_storage_size_gib_def storage_size_gib_case_def)
qed

subsection \<open>Property\<close>

text \<open>C33: the storage cap counts what the parser reads. For sandboxes with the storage sizes of the settings, the total that
  the database computes with its case expression is the sum of the parsed sizes, and a request is admitted
  exactly when that sum and the request together stay within the cap.\<close>

theorem storage_cap_counts_parsed_sizes:
  assumes "sizes_known d"
  shows "parsed_storage d = map Inr (map projr (parsed_storage d)) \<and>
    lu_total_storage_gib (ls_usage (build_snapshot now d)) = sum_list (map projr (parsed_storage d)) \<and>
    (check_storage_allocation_allowed (build_snapshot now d) g = Inr () \<longleftrightarrow>
       (\<forall>c m. pd_platform_limits d = Some c \<longrightarrow> lc_max_total_storage_gib c = Some m \<longrightarrow>
          sum_list (map projr (parsed_storage d)) + g \<le> m))"
proof -
  have total: "lu_total_storage_gib (ls_usage (build_snapshot now d)) = sum_list (map projr (parsed_storage d))"
    unfolding storage_total parsed_known [OF assms] by (simp add: comp_def)
  have config: "ls_config (build_snapshot now d) = (case pd_platform_limits d of Some c \<Rightarrow> c | None \<Rightarrow> no_limits)"
    by (simp add: build_snapshot_def Let_def)
  show ?thesis
    using total parsed_known [OF assms]
    by (auto simp: check_storage_allocation_allowed_def config no_limits_def comp_def split: option.splits)
qed

definition demo_platform :: platform_db where
  "demo_platform = \<lparr>pd_platform_limits = Some (no_limits\<lparr>lc_max_total_storage_gib := Some 30\<rparr>), pd_users = [''u1''],
     pd_sandboxes = [demo_sandbox\<lparr>sb_persist := True, sb_storage_size := Some ''20Gi''\<rparr>], pd_waitlist_applications = []\<rparr>"

theorem storage_cap_counts_parsed_sizes_witness:
  "check_storage_allocation_allowed (build_snapshot 0 demo_platform) 10 = Inr () \<and>
   check_storage_allocation_allowed (build_snapshot 0 demo_platform) 11 \<noteq> Inr ()"
proof -
  have known: "sizes_known demo_platform" by code_simp
  have "sum_list (map projr (parsed_storage demo_platform)) = 20" by code_simp
  then show ?thesis
    using storage_cap_counts_parsed_sizes [OF known, of 0 10] storage_cap_counts_parsed_sizes [OF known, of 0 11]
    by (auto simp: demo_platform_def no_limits_def)
qed

end
