(* ===== verification/Url_Lib.thy ===== *)
theory Url_Lib
  imports Py_Strings
begin

text \<open>
  What the program uses of \<^verbatim>\<open>urllib.parse\<close> (Python 3.12), on ASCII strings: \<^verbatim>\<open>urlparse\<close> with the attributes
  \<^verbatim>\<open>scheme\<close>, \<^verbatim>\<open>netloc\<close>, \<^verbatim>\<open>path\<close>, \<^verbatim>\<open>query\<close>, \<^verbatim>\<open>fragment\<close>, \<^verbatim>\<open>hostname\<close> and \<^verbatim>\<open>port\<close>, and \<^verbatim>\<open>urlencode\<close> of string
  dictionaries; \<^verbatim>\<open>str.rstrip('/')\<close>. A netloc with square brackets is an IPv6 literal; whether the literal is
  well formed is decided by \<^verbatim>\<open>ipaddress\<close> and is a parameter \<open>ipv6_ok\<close>. \<^verbatim>\<open>ValueError\<close> is \<open>None\<close>.

  Shown: printing and parsing an absolute URL are inverse, and the host that a client connects to is what
  stands after the last \<open>@\<close> of the netloc.
\<close>

definition before :: "char \<Rightarrow> string \<Rightarrow> string" where
  "before c s = takeWhile (\<lambda>x. x \<noteq> c) s"

definition after :: "char \<Rightarrow> string \<Rightarrow> string" where
  "after c s = drop 1 (dropWhile (\<lambda>x. x \<noteq> c) s)"

text \<open>\<^verbatim>\<open>s.rpartition(c)[2]\<close>, and the two parts of \<^verbatim>\<open>s.rpartition(c)\<close> when \<open>c\<close> occurs.\<close>

definition after_last :: "char \<Rightarrow> string \<Rightarrow> string" where
  "after_last c s = rev (before c (rev s))"

definition upto_last :: "char \<Rightarrow> string \<Rightarrow> string" where
  "upto_last c s = take (length s - length (after_last c s)) s"

definition rstrip_char :: "char \<Rightarrow> string \<Rightarrow> string" where
  "rstrip_char c s = rev (dropWhile (\<lambda>d. d = c) (rev s))"

definition is_alpha :: "char \<Rightarrow> bool" where
  "is_alpha c \<longleftrightarrow> (let n = (of_char c :: nat) in 65 \<le> n \<and> n \<le> 90 \<or> 97 \<le> n \<and> n \<le> 122)"

definition scheme_char :: "char \<Rightarrow> bool" where
  "scheme_char c \<longleftrightarrow> is_alpha c \<or> is_digit c \<or> c \<in> {CHR ''+'', CHR ''-'', CHR ''.''}"

definition c0_control_or_space :: "char \<Rightarrow> bool" where
  "c0_control_or_space c \<longleftrightarrow> (of_char c :: nat) \<le> 32"

definition unsafe_url_byte :: "char \<Rightarrow> bool" where
  "unsafe_url_byte c \<longleftrightarrow> (of_char c :: nat) \<in> {9, 10, 13}"

definition clean_url :: "string \<Rightarrow> string" where
  "clean_url url = filter (\<lambda>c. \<not> unsafe_url_byte c) (dropWhile c0_control_or_space url)"

record parsed_url =
  pu_scheme :: string
  pu_netloc :: string
  pu_path :: string
  pu_params :: string
  pu_query :: string
  pu_fragment :: string

definition split_scheme :: "string \<Rightarrow> string \<times> string" where
  "split_scheme url =
     (let s = before (CHR '':'') url
      in if CHR '':'' \<in> set url \<and> s \<noteq> [] \<and> is_alpha (hd s) \<and> list_all scheme_char s
         then (lower s, after (CHR '':'') url) else ('''', url))"

definition ends_netloc :: "char \<Rightarrow> bool" where
  "ends_netloc c \<longleftrightarrow> c \<in> {CHR ''/'', CHR ''?'', CHR ''#''}"

definition split_netloc :: "string \<Rightarrow> string \<times> string" where
  "split_netloc url =
     (if startswith url ''//''
      then (takeWhile (\<lambda>c. \<not> ends_netloc c) (drop 2 url), dropWhile (\<lambda>c. \<not> ends_netloc c) (drop 2 url))
      else ('''', url))"

definition netloc_ok :: "(string \<Rightarrow> bool) \<Rightarrow> string \<Rightarrow> bool" where
  "netloc_ok ipv6_ok n \<longleftrightarrow>
     (CHR ''['' \<in> set n \<longleftrightarrow> CHR '']'' \<in> set n) \<and> (CHR ''['' \<in> set n \<longrightarrow> ipv6_ok n)"

definition uses_params :: "string list" where
  "uses_params = ['''', ''ftp'', ''hdl'', ''prospero'', ''http'', ''https'', ''shttp'', ''rtsp'', ''rtspu'', ''sip'',
     ''sips'', ''mms'', ''sftp'', ''tel'']"

text \<open>\<^verbatim>\<open>_splitparams\<close>: the parameters follow the first semicolon of the last path segment.\<close>

definition split_params :: "string \<Rightarrow> string \<times> string" where
  "split_params path =
     (let last_segment = after_last (CHR ''/'') path
      in if CHR '';'' \<in> set last_segment
         then (upto_last (CHR ''/'') path @ before (CHR '';'') last_segment, after (CHR '';'') last_segment)
         else (path, ''''))"

definition urlparse :: "(string \<Rightarrow> bool) \<Rightarrow> string \<Rightarrow> parsed_url option" where
  "urlparse ipv6_ok url =
     (let (scheme, rest) = split_scheme (clean_url url);
          (netloc, rest) = split_netloc rest;
          fragment = after (CHR ''#'') rest;
          rest = before (CHR ''#'') rest;
          query = after (CHR ''?'') rest;
          (path, params) = (if scheme \<in> set uses_params then split_params (before (CHR ''?'') rest)
                            else (before (CHR ''?'') rest, ''''))
      in if netloc_ok ipv6_ok netloc
         then Some \<lparr>pu_scheme = scheme, pu_netloc = netloc, pu_path = path, pu_params = params,
                    pu_query = query, pu_fragment = fragment\<rparr>
         else None)"

text \<open>\<^verbatim>\<open>_hostinfo\<close>, \<^verbatim>\<open>hostname\<close> and \<^verbatim>\<open>port\<close>.\<close>

definition host_info :: "string \<Rightarrow> string \<times> string" where
  "host_info netloc =
     (let h = after_last (CHR ''@'') netloc
      in if CHR ''['' \<in> set h
         then let b = after (CHR ''['') h in (before (CHR '']'') b, after (CHR '':'') (after (CHR '']'') b))
         else (before (CHR '':'') h, after (CHR '':'') h))"

definition hostname :: "parsed_url \<Rightarrow> string option" where
  "hostname u =
     (let h = fst (host_info (pu_netloc u))
      in if h = '''' then None
         else Some (lower (before (CHR ''%'') h) @ dropWhile (\<lambda>c. c \<noteq> CHR ''%'') h))"

definition port_of :: "parsed_url \<Rightarrow> int option option" where
  "port_of u =
     (let p = snd (host_info (pu_netloc u))
      in if p = '''' then Some None
         else if isdigit p \<and> digits_val p \<le> 65535 then Some (Some (digits_val p)) else None)"

text \<open>\<^verbatim>\<open>quote_plus\<close> and \<^verbatim>\<open>urlencode\<close>.\<close>

definition url_safe :: "char \<Rightarrow> bool" where
  "url_safe c \<longleftrightarrow> is_alpha c \<or> is_digit c \<or> c \<in> {CHR ''_'', CHR ''.'', CHR ''-'', CHR ''~''}"

definition hex_digit :: "nat \<Rightarrow> char" where
  "hex_digit n = (if n < 10 then char_of (48 + n) else char_of (55 + n))"

definition quote_char :: "char \<Rightarrow> string" where
  "quote_char c =
     (if url_safe c then [c] else if c = CHR '' '' then ''+''
      else [CHR ''%'', hex_digit (of_char c div 16), hex_digit (of_char c mod 16)])"

definition quote_plus :: "string \<Rightarrow> string" where
  "quote_plus s = concat (map quote_char s)"

definition urlencode :: "(string \<times> string) list \<Rightarrow> string" where
  "urlencode d = join ''&'' (map (\<lambda>(k, v). quote_plus k @ ''='' @ quote_plus v) d)"

subsection \<open>Cutting strings\<close>

lemma before_append [simp]: "c \<notin> set s \<Longrightarrow> before c (s @ c # t) = s"
  unfolding before_def by (subst takeWhile_append2) auto

lemma before_id [simp]: "c \<notin> set s \<Longrightarrow> before c s = s"
  unfolding before_def by (auto simp: takeWhile_eq_all_conv)

lemma after_append [simp]: "c \<notin> set s \<Longrightarrow> after c (s @ c # t) = t"
  unfolding after_def by (subst dropWhile_append2) auto

lemma after_none [simp]: "c \<notin> set s \<Longrightarrow> after c s = ''''"
  by (induction s) (auto simp: after_def)

lemma before_in: "set (before c s) \<subseteq> set s"
  unfolding before_def by (auto dest: set_takeWhileD)

lemma before_not_in [simp]: "c \<notin> set (before c s)"
  unfolding before_def by (auto dest: set_takeWhileD)

lemma before_after: "c \<in> set s \<Longrightarrow> before c s @ c # after c s = s"
proof -
  assume "c \<in> set s"
  then obtain t u where "s = t @ c # u" and "c \<notin> set t" by (auto dest: split_list_first)
  then show ?thesis by simp
qed

lemma after_last_append [simp]: "c \<notin> set t \<Longrightarrow> after_last c (s @ c # t) = t"
  by (simp add: after_last_def)

lemma after_last_id [simp]: "c \<notin> set s \<Longrightarrow> after_last c s = s"
  by (simp add: after_last_def)

lemma upto_last_append [simp]: "c \<notin> set t \<Longrightarrow> upto_last c (s @ c # t) = s @ [c]"
  by (simp add: upto_last_def)

lemma after_last_not_in [simp]: "c \<notin> set (after_last c s)"
  by (simp add: after_last_def)

lemma upto_after_last: "upto_last c s @ after_last c s = s"
proof (cases "c \<in> set s")
  case True
  then obtain t u where "s = t @ c # u" and "c \<notin> set u" by (auto dest: split_list_last)
  then show ?thesis by simp
next
  case False
  then show ?thesis by (simp add: upto_last_def)
qed

subsection \<open>Parsing an absolute URL\<close>

lemma clean_url_id:
  assumes "url \<noteq> []" and "\<not> c0_control_or_space (hd url)" and "\<And>c. c \<in> set url \<Longrightarrow> \<not> unsafe_url_byte c"
  shows "clean_url url = url"
proof -
  have "dropWhile c0_control_or_space url = url" using assms(1,2) by (cases url) auto
  then show ?thesis using assms(3) by (simp add: clean_url_def)
qed

lemma web_scheme_chars:
  assumes "scheme \<in> {''http'', ''https''}"
  shows "scheme \<noteq> []" "is_alpha (hd scheme)" "list_all scheme_char scheme" "lower scheme = scheme"
    "CHR '':'' \<notin> set scheme" "\<not> c0_control_or_space (hd scheme)" "\<forall>c \<in> set scheme. \<not> unsafe_url_byte c"
  using assms
  by (auto simp: is_alpha_def scheme_char_def c0_control_or_space_def unsafe_url_byte_def lower_def lower_char_def)

lemma absolute_parts:
  assumes scheme: "scheme \<in> {''http'', ''https''}"
    and netloc: "\<And>c. c \<in> set netloc \<Longrightarrow> \<not> ends_netloc c \<and> \<not> unsafe_url_byte c"
    and rest: "rest = [] \<or> ends_netloc (hd rest)" "\<And>c. c \<in> set rest \<Longrightarrow> \<not> unsafe_url_byte c"
  shows "split_scheme (clean_url (scheme @ ''://'' @ netloc @ rest)) = (scheme, ''//'' @ netloc @ rest)"
    and "split_netloc (''//'' @ netloc @ rest) = (netloc, rest)"
proof -
  note sc = web_scheme_chars [OF scheme]
  let ?url = "scheme @ ''://'' @ netloc @ rest"
  have clean: "clean_url ?url = ?url"
  proof (rule clean_url_id)
    show "?url \<noteq> []" and "\<not> c0_control_or_space (hd ?url)" using sc by auto
    show "\<not> unsafe_url_byte c" if "c \<in> set ?url" for c
      using that sc(7) netloc rest(2) by (auto simp: unsafe_url_byte_def)
  qed
  have colon: "before (CHR '':'') ?url = scheme" "after (CHR '':'') ?url = ''//'' @ netloc @ rest"
    using sc(5) by simp_all
  have "split_scheme ?url = (scheme, ''//'' @ netloc @ rest)"
    unfolding split_scheme_def Let_def colon using sc by simp
  with clean show "split_scheme (clean_url ?url) = (scheme, ''//'' @ netloc @ rest)" by simp
  have all: "\<And>c. c \<in> set netloc \<Longrightarrow> \<not> ends_netloc c" using netloc by blast
  then have "takeWhile (\<lambda>c. \<not> ends_netloc c) (netloc @ rest) = netloc"
    "dropWhile (\<lambda>c. \<not> ends_netloc c) (netloc @ rest) = rest"
    using rest(1) by (cases rest; auto simp: takeWhile_append dropWhile_append)+
  then show "split_netloc (''//'' @ netloc @ rest) = (netloc, rest)"
    by (simp add: split_netloc_def startswith_def)
qed

lemma urlparse_absolute:
  assumes scheme: "scheme \<in> {''http'', ''https''}"
    and netloc: "\<And>c. c \<in> set netloc \<Longrightarrow> \<not> ends_netloc c \<and> \<not> unsafe_url_byte c"
    and rest: "rest = [] \<or> ends_netloc (hd rest)" "\<And>c. c \<in> set rest \<Longrightarrow> \<not> unsafe_url_byte c"
    and ok: "netloc_ok ipv6_ok netloc"
  shows "\<exists>u. urlparse ipv6_ok (scheme @ ''://'' @ netloc @ rest) = Some u \<and> pu_scheme u = scheme \<and> pu_netloc u = netloc"
  using absolute_parts [OF scheme netloc rest] ok by (simp add: urlparse_def Let_def split: prod.splits)

text \<open>The address of a page: a path without parameters or fragment, and perhaps a query.\<close>

definition page_address :: "string \<Rightarrow> string \<Rightarrow> string" where
  "page_address path query = path @ (if query \<noteq> '''' then ''?'' @ query else '''')"

lemma urlparse_page:
  assumes scheme: "scheme \<in> {''http'', ''https''}"
    and netloc: "\<And>c. c \<in> set netloc \<Longrightarrow> \<not> ends_netloc c \<and> \<not> unsafe_url_byte c" "netloc_ok ipv6_ok netloc"
    and path: "startswith path ''/''" "\<And>c. c \<in> set path \<Longrightarrow> c \<notin> {CHR ''?'', CHR ''#'', CHR '';''} \<and> \<not> unsafe_url_byte c"
    and q: "\<And>c. c \<in> set q \<Longrightarrow> c \<noteq> CHR ''#'' \<and> \<not> unsafe_url_byte c"
  shows "urlparse ipv6_ok (scheme @ ''://'' @ netloc @ page_address path q) =
    Some \<lparr>pu_scheme = scheme, pu_netloc = netloc, pu_path = path, pu_params = '''', pu_query = q, pu_fragment = ''''\<rparr>"
proof -
  have hash: "CHR ''#'' \<notin> set (page_address path q)" "CHR ''?'' \<notin> set path" "CHR '';'' \<notin> set path"
    using path(2) q by (auto simp: page_address_def)
  have starts: "page_address path q = [] \<or> ends_netloc (hd (page_address path q))"
    using path(1) by (cases path) (auto simp: page_address_def startswith_def ends_netloc_def)
  have safe: "\<not> unsafe_url_byte c" if "c \<in> set (page_address path q)" for c
    using that path(2) q by (auto simp: page_address_def unsafe_url_byte_def split: if_splits)
  note parts = absolute_parts [OF scheme netloc(1) starts safe]
  have "CHR '';'' \<notin> set (after_last (CHR ''/'') path)"
    using hash(3) upto_after_last [of "CHR ''/''" path] by (metis Un_iff set_append)
  then have "split_params path = (path, '''')" by (simp add: split_params_def Let_def)
  moreover have "before (CHR ''?'') (page_address path q) = path" "after (CHR ''?'') (page_address path q) = q"
    using hash(2) by (simp_all add: page_address_def)
  moreover have "scheme \<in> set uses_params" using scheme by (auto simp: uses_params_def)
  ultimately show ?thesis using parts hash(1) netloc(2) by (simp add: urlparse_def Let_def)
qed

text \<open>A netloc that \<^verbatim>\<open>urlparse\<close> found has none of the characters that would end it.\<close>

lemma urlparse_netloc:
  assumes "urlparse ipv6_ok url = Some u"
  shows "\<forall>c \<in> set (pu_netloc u). \<not> ends_netloc c \<and> \<not> unsafe_url_byte c" and "netloc_ok ipv6_ok (pu_netloc u)"
proof -
  obtain scheme rest where s: "split_scheme (clean_url url) = (scheme, rest)" by fastforce
  obtain n r where n: "split_netloc rest = (n, r)" by fastforce
  have u: "pu_netloc u = n" "netloc_ok ipv6_ok n"
    using assms s n by (auto simp: urlparse_def Let_def split: prod.splits if_splits)
  have "set rest \<subseteq> set (clean_url url)"
    using s by (auto simp: split_scheme_def Let_def after_def split: if_splits dest: in_set_dropD set_dropWhileD)
  moreover have "\<forall>c \<in> set (clean_url url). \<not> unsafe_url_byte c" by (auto simp: clean_url_def)
  moreover have "set n \<subseteq> set rest"
    using n by (auto simp: split_netloc_def split: if_splits dest!: set_takeWhileD dest: in_set_dropD)
  moreover have "\<forall>c \<in> set n. \<not> ends_netloc c"
    using n set_takeWhileD [of _ "\<lambda>c. \<not> ends_netloc c" "drop 2 rest"]
    by (auto simp: split_netloc_def split: if_splits)
  ultimately show "\<forall>c \<in> set (pu_netloc u). \<not> ends_netloc c \<and> \<not> unsafe_url_byte c"
    using u(1) by blast
  show "netloc_ok ipv6_ok (pu_netloc u)" using u by simp
qed

lemma host_info_no_user: "CHR ''@'' \<notin> set n \<Longrightarrow> CHR ''['' \<notin> set n \<Longrightarrow> host_info n = (before (CHR '':'') n, after (CHR '':'') n)"
  by (simp add: host_info_def)

lemma quote_plus_chars: "c \<in> set (quote_plus s) \<Longrightarrow> \<not> unsafe_url_byte c"
proof -
  assume "c \<in> set (quote_plus s)"
  then obtain d where "c \<in> set (quote_char d)" by (auto simp: quote_plus_def)
  moreover have "(of_char d :: nat) < 256" by simp
  then have "of_char d div 16 < (16::nat)" by (simp add: div_less_dividend less_mult_imp_div_less)
  moreover have "of_char d mod 16 < (16::nat)" by simp
  moreover have "\<not> unsafe_url_byte (hex_digit n)" if "n < 16" for n
    using that by (auto simp: unsafe_url_byte_def hex_digit_def)
  ultimately show ?thesis
    by (auto simp: quote_char_def unsafe_url_byte_def url_safe_def is_alpha_def is_digit_def split: if_splits)
qed

lemma join_chars: "c \<in> set (join sep ss) \<Longrightarrow> c \<in> set sep \<or> (\<exists>s \<in> set ss. c \<in> set s)"
  by (induction sep ss rule: join.induct) auto

lemma urlencode_chars: "c \<in> set (urlencode d) \<Longrightarrow> \<not> unsafe_url_byte c"
  unfolding urlencode_def
  by (drule join_chars) (auto dest: quote_plus_chars simp: unsafe_url_byte_def)


subsection \<open>Reading a query string\<close>

text \<open>\<^verbatim>\<open>unquote_plus\<close> and \<^verbatim>\<open>parse_qsl\<close> with their default arguments: pairs with a blank value are dropped.\<close>

definition hex_value :: "char \<Rightarrow> nat option" where
  "hex_value c =
     (let n = (of_char c :: nat)
      in if 48 \<le> n \<and> n \<le> 57 then Some (n - 48)
         else if 65 \<le> n \<and> n \<le> 70 then Some (n - 55)
         else if 97 \<le> n \<and> n \<le> 102 then Some (n - 87) else None)"

fun unquote :: "string \<Rightarrow> string" where
  "unquote (c # a # b # s) =
     (case (hex_value a, hex_value b) of
        (Some x, Some y) \<Rightarrow> if c = CHR ''%'' then char_of (16 * x + y) # unquote s else c # unquote (a # b # s)
      | _ \<Rightarrow> c # unquote (a # b # s))"
| "unquote s = s"

definition unquote_plus :: "string \<Rightarrow> string" where
  "unquote_plus s = unquote (map (\<lambda>c. if c = CHR ''+'' then CHR '' '' else c) s)"

definition parse_field :: "string \<Rightarrow> (string \<times> string) list" where
  "parse_field f =
     (if CHR ''='' \<in> set f \<and> after (CHR ''='') f \<noteq> []
      then [(unquote_plus (before (CHR ''='') f), unquote_plus (after (CHR ''='') f))] else [])"

definition parse_qsl :: "string \<Rightarrow> (string \<times> string) list" where
  "parse_qsl qs = concat (map parse_field (split_on (CHR ''&'') qs))"

lemma of_char_bound: "(of_char c :: nat) < 256"
  by simp

lemma hex_value_digit: "n < 16 \<Longrightarrow> hex_value (hex_digit n) = Some n"
  by (simp add: hex_value_def hex_digit_def Let_def)

lemma unquote_Cons: "c \<noteq> CHR ''%'' \<Longrightarrow> unquote (c # s) = c # unquote s"
proof -
  assume c: "c \<noteq> CHR ''%''"
  consider "s = []" | a where "s = [a]" | a b t where "s = a # b # t" by (metis list.exhaust)
  then show ?thesis using c by cases (simp_all split: option.split)
qed

definition unplus :: "char \<Rightarrow> char" where
  "unplus c = (if c = CHR ''+'' then CHR '' '' else c)"

lemma url_safe_neq: "url_safe c \<Longrightarrow> c \<noteq> CHR ''%''" "url_safe c \<Longrightarrow> c \<noteq> CHR ''+''"
  by (auto simp: url_safe_def is_alpha_def is_digit_def)

lemma unquote_quote_char: "unquote (map unplus (quote_char c) @ s) = c # unquote s"
proof (cases "url_safe c \<or> c = CHR '' ''")
  case True
  then show ?thesis
  proof
    assume "url_safe c"
    then show ?thesis using url_safe_neq [of c] by (simp add: quote_char_def unplus_def unquote_Cons)
  next
    assume c: "c = CHR '' ''"
    then have "\<not> url_safe c" by (simp add: url_safe_def is_alpha_def is_digit_def)
    with c show ?thesis by (simp add: quote_char_def unplus_def unquote_Cons)
  qed
next
  case False
  have b: "of_char c div 16 < (16::nat)" "of_char c mod 16 < (16::nat)"
    using of_char_bound [of c] by (simp_all add: less_mult_imp_div_less)
  have "hex_digit n \<noteq> CHR ''+''" if "n < 16" for n
    using that by (auto simp: hex_digit_def dest: arg_cong [where f = "of_char :: char \<Rightarrow> nat"])
  with b False show ?thesis
    by (simp add: quote_char_def unplus_def hex_value_digit)
qed

lemma unquote_quote_plus [simp]: "unquote_plus (quote_plus s) = s"
proof -
  have "unquote (map unplus (quote_plus s) @ t) = s @ unquote t" for t
    by (induction s) (simp_all add: quote_plus_def unquote_quote_char)
  from this [of "[]"] show ?thesis by (simp add: unquote_plus_def unplus_def cong: map_cong)
qed

lemma quote_plus_set: "c \<in> set (quote_plus s) \<Longrightarrow> url_safe c \<or> c = CHR ''+'' \<or> c = CHR ''%''"
proof -
  assume "c \<in> set (quote_plus s)"
  then obtain d where d: "c \<in> set (quote_char d)" by (auto simp: quote_plus_def)
  have b: "of_char d div 16 < (16::nat)" "of_char d mod 16 < (16::nat)"
    using of_char_bound [of d] by (simp_all add: less_mult_imp_div_less)
  have "url_safe (hex_digit n)" if "n < 16" for n
    using that by (auto simp: hex_digit_def url_safe_def is_alpha_def is_digit_def)
  with b d show ?thesis by (auto simp: quote_char_def split: if_splits)
qed

lemma quote_plus_no_sep: "CHR ''&'' \<notin> set (quote_plus s)" "CHR ''='' \<notin> set (quote_plus s)"
  by (auto dest!: quote_plus_set simp: url_safe_def is_alpha_def is_digit_def)

lemma quote_plus_Nil [simp]: "quote_plus s = [] \<longleftrightarrow> s = []"
proof -
  have "quote_char c \<noteq> []" for c by (simp add: quote_char_def)
  then show ?thesis by (auto simp: quote_plus_def)
qed

lemma split_on_join:
  assumes "fs \<noteq> []" and "\<And>f. f \<in> set fs \<Longrightarrow> c \<notin> set f"
  shows "split_on c (join [c] fs) = fs"
  using assms
proof (induction "[c]" fs rule: join.induct)
  case (3 s t ts)
  have "split_on c (s @ c # u) = s # split_on c u" if "c \<notin> set s" for u
    using that by (induction s) auto
  with 3 show ?case by simp
qed (auto simp: split_on_no_sep)

lemma parse_field_encoded:
  "parse_field (quote_plus k @ ''='' @ quote_plus v) = (if v = [] then [] else [(k, v)])"
  using quote_plus_no_sep(2) [of k] by (simp add: parse_field_def)

text \<open>Parsing an encoded dictionary gives it back, less its blank values.\<close>

lemma parse_qsl_urlencode: "parse_qsl (urlencode d) = filter (\<lambda>(k, v). v \<noteq> '''') d"
proof (cases d)
  case Nil
  then show ?thesis by (simp add: urlencode_def parse_qsl_def parse_field_def)
next
  case (Cons x xs)
  let ?f = "\<lambda>(k, v). quote_plus k @ ''='' @ quote_plus v"
  have "split_on (CHR ''&'') (urlencode d) = map ?f d"
    unfolding urlencode_def using Cons quote_plus_no_sep(1)
    by (intro split_on_join) auto
  then have "parse_qsl (urlencode d) = concat (map (\<lambda>x. parse_field (?f x)) d)"
    by (simp add: parse_qsl_def comp_def)
  also have "\<dots> = filter (\<lambda>(k, v). v \<noteq> '''') d"
    by (induction d) (auto simp: parse_field_encoded simp del: append_Cons)
  finally show ?thesis .
qed

end
