(* ===== verification/Web_Request.thy ===== *)
theory Web_Request
  imports Metering_Helpers Url_Lib
begin

text \<open>
  What the HTTP handlers share: the request with its context (\<^verbatim>\<open>core/request_context.py\<close>), audit events of a
  request (\<^verbatim>\<open>audit/services/audit.py\<close>), the base URL of links (\<^verbatim>\<open>core/public_base_url.py\<close>), the settings they
  read (\<^verbatim>\<open>config.py\<close>) and the libraries they call.

  The libraries are a record of parameters: \<^verbatim>\<open>hashlib.sha256\<close>, PyJWT, the password helper and the user manager of
  fastapi-users (the session token of a user, the tokens for verification and password reset, and which user
  such a token is for in the database), the mail provider and the check of IPv6 literals. \<open>jwt_ok\<close> and \<open>passwords_ok\<close> say what the program relies on: only a token that was
  signed with the secret decodes, to its claims (strings and integers) and before its expiry; a password verifies against its own
  hashes only. The request context is a dictionary that is passed along explicitly.
\<close>

subsection \<open>Settings and libraries\<close>

record web_settings =
  app_base_url :: string
  debug :: bool
  email_backend :: string
  session_ttl_seconds :: int
  google_oauth_client_id :: string
  google_oauth_client_secret :: string
  github_oauth_client_id :: string
  github_oauth_client_secret :: string
  verification_resend_cooldown_seconds :: int
  password_reset_request_cooldown_seconds :: int
  password_reset_ip_hourly_limit :: int
  sandbox_port :: int
  sandbox_domain :: string
  sandbox_subdomain_prefix :: string

type_synonym claims = "(string \<times> meta_value) list"

record lib =
  sha256_hex :: "string \<Rightarrow> string"
  jwt_encode :: "claims \<Rightarrow> string"
  jwt_decode :: "time \<Rightarrow> string option \<Rightarrow> string \<Rightarrow> claims option"
  pw_hash :: "string \<Rightarrow> string \<Rightarrow> string"
  pw_verify :: "string \<Rightarrow> string \<Rightarrow> bool"
  ipv6_ok :: "string \<Rightarrow> bool"
  write_token :: "time \<Rightarrow> user \<Rightarrow> string"
  verify_token :: "time \<Rightarrow> user \<Rightarrow> exn + string"
  forgot_token :: "time \<Rightarrow> user \<Rightarrow> exn + string"
  verified_user :: "time \<Rightarrow> string \<Rightarrow> world \<Rightarrow> exn + string"
  reset_user :: "time \<Rightarrow> string \<Rightarrow> string \<Rightarrow> world \<Rightarrow> exn + (string \<times> string)"
  mail_error :: "email \<Rightarrow> exn option"

text \<open>A claims set is current before its \<^verbatim>\<open>exp\<close>, and meant for whom its \<^verbatim>\<open>aud\<close> says.\<close>

definition claims_valid :: "time \<Rightarrow> string option \<Rightarrow> claims \<Rightarrow> bool" where
  "claims_valid now aud p \<longleftrightarrow>
     (case map_of p ''exp'' of Some (MInt e) \<Rightarrow> now < seconds e | _ \<Rightarrow> True) \<and>
     map_of p ''aud'' = map_option MStr aud"

definition json_claims :: "claims \<Rightarrow> bool" where
  "json_claims p \<longleftrightarrow> distinct (map fst p) \<and> (\<forall>(k, v) \<in> set p. case v of MStr _ \<Rightarrow> True | MInt _ \<Rightarrow> True | _ \<Rightarrow> False)"

definition jwt_ok :: "lib \<Rightarrow> bool" where
  "jwt_ok lib \<longleftrightarrow> inj_on (jwt_encode lib) (Collect json_claims) \<and> (\<forall>p. p \<noteq> [] \<longrightarrow> jwt_encode lib p \<noteq> []) \<and>
     (\<forall>now aud t p. jwt_decode lib now aud t = Some p \<longleftrightarrow> json_claims p \<and> t = jwt_encode lib p \<and> claims_valid now aud p)"

definition passwords_ok :: "lib \<Rightarrow> bool" where
  "passwords_ok lib \<longleftrightarrow> (\<forall>salt p q. pw_verify lib p (pw_hash lib salt q) \<longleftrightarrow> p = q)"

definition claim_str :: "claims \<Rightarrow> string \<Rightarrow> string option" where
  "claim_str p k = (case map_of p k of Some (MStr s) \<Rightarrow> Some s | _ \<Rightarrow> None)"

subsection \<open>Requests\<close>

text \<open>Headers have lower-case names, as in an ASGI scope; cookies and query parameters are as the framework parses
  them. \<open>rq_context\<close> is \<^verbatim>\<open>scope["state"]\<close>.\<close>

record request =
  rq_request_method :: string
  rq_path :: string
  rq_headers :: "(string \<times> string) list"
  rq_cookies :: "(string \<times> string) list"
  rq_query :: "(string \<times> string) list"
  rq_query_string :: string
  rq_scheme :: string
  rq_base_url :: string
  rq_client :: "string option"
  rq_context :: "(string \<times> string) list"

fun set_scope_context :: "(string \<times> string option) list \<Rightarrow> request \<Rightarrow> request" where
  "set_scope_context [] rq = rq"
| "set_scope_context ((k, None) # vs) rq = set_scope_context vs rq"
| "set_scope_context ((k, Some v) # vs) rq =
     set_scope_context vs (rq\<lparr>rq_context := dict_set k v (rq_context rq)\<rparr>)"

definition get_scope_context :: "request \<Rightarrow> string \<Rightarrow> string option" where
  "get_scope_context rq k = map_of (rq_context rq) k"

definition get_client_ip :: "request \<Rightarrow> string option" where
  "get_client_ip rq =
     (let forwarded_for = map_of (rq_headers rq) ''x-forwarded-for''
      in if truthy forwarded_for then Some (strip (hd (split_on (CHR '','') (the forwarded_for))))
         else if truthy (rq_client rq) then rq_client rq else None)"

definition first_header :: "request \<Rightarrow> string \<Rightarrow> string" where
  "first_header rq name =
     (let raw = map_of (rq_headers rq) name
      in if truthy raw then strip (hd (split_on (CHR '','') (the raw))) else '''')"

definition is_local_hostname :: "string option \<Rightarrow> bool" where
  "is_local_hostname host =
     (case host of None \<Rightarrow> False
      | Some h \<Rightarrow> let n = lower (strip h)
                  in n \<in> {''localhost'', ''127.0.0.1'', ''::1''} \<or> endswith n ''.localhost'')"

text \<open>\<^verbatim>\<open>urlparse\<close> on a URL for which it raises \<^verbatim>\<open>ValueError\<close>.\<close>

definition value_error :: exn where
  "value_error = LibraryError ''ValueError''"

definition configured_public_base_url :: "lib \<Rightarrow> web_settings \<Rightarrow> exn + string option" where
  "configured_public_base_url lib web =
     (case urlparse (ipv6_ok lib) (app_base_url web) of
        None \<Rightarrow> Inl value_error
      | Some u \<Rightarrow>
          Inr (if pu_scheme u \<notin> {''http'', ''https''} \<or> pu_netloc u = '''' \<or> is_local_hostname (hostname u) then None
               else Some (rstrip_char (CHR ''/'') (app_base_url web) @ ''/'')))"

definition public_control_plane_base_url :: "lib \<Rightarrow> web_settings \<Rightarrow> request \<Rightarrow> exn + string" where
  "public_control_plane_base_url lib web rq =
     (case configured_public_base_url lib web of
        Inl e \<Rightarrow> Inl e
      | Inr (Some url) \<Rightarrow> Inr url
      | Inr None \<Rightarrow>
          let proto = lower (first_header rq ''x-forwarded-proto'');
              host = (if first_header rq ''x-forwarded-host'' \<noteq> '''' then first_header rq ''x-forwarded-host''
                      else first_header rq ''host'')
          in Inr (if proto \<in> {''http'', ''https''} \<and> host \<noteq> '''' then proto @ ''://'' @ host @ ''/''
                  else rq_base_url rq))"

subsection \<open>Audit events of a request\<close>

definition request_audit_event ::
    "request \<Rightarrow> string \<Rightarrow> string \<Rightarrow> string option \<Rightarrow> string \<Rightarrow> string option \<Rightarrow> (string \<times> meta_value) list \<Rightarrow> audit_event" where
  "request_audit_event rq action target_type target_id outcome error_code metadata =
     \<lparr>ae_actor_type = ''user'', ae_actor_user_id = get_scope_context rq ''actor_user_id'',
      ae_actor_api_key_id = get_scope_context rq ''actor_api_key_id'',
      ae_credential_type = get_scope_context rq ''credential_type'',
      ae_action = action, ae_target_type = target_type, ae_target_id = target_id, ae_result = outcome,
      ae_error_code = error_code, ae_request_id = get_scope_context rq ''request_id'', ae_ip = get_client_ip rq,
      ae_user_agent = map_of (rq_headers rq) ''user-agent'', ae_metadata = compact_metadata metadata\<rparr>"

definition audit_request ::
    "request \<Rightarrow> string \<Rightarrow> string \<Rightarrow> string option \<Rightarrow> string \<Rightarrow> string option \<Rightarrow> (string \<times> meta_value) list \<Rightarrow> unit op" where
  "audit_request rq action target_type target_id outcome error_code metadata = modify (\<lambda>w. w\<lparr>audit_events :=
     audit_events w @ [request_audit_event rq action target_type target_id outcome error_code metadata]\<rparr>)"

abbreviation audit_success ::
    "request \<Rightarrow> string \<Rightarrow> string \<Rightarrow> string option \<Rightarrow> (string \<times> meta_value) list \<Rightarrow> unit op" where
  "audit_success rq action target_type target_id metadata \<equiv>
     audit_request rq action target_type target_id ''success'' None metadata"

abbreviation audit_failure ::
    "request \<Rightarrow> string \<Rightarrow> string \<Rightarrow> string option \<Rightarrow> string \<Rightarrow> (string \<times> meta_value) list \<Rightarrow> unit op" where
  "audit_failure rq action target_type target_id error_code metadata \<equiv>
     audit_request rq action target_type target_id ''failure'' (Some error_code) metadata"

text \<open>The code of a \<^verbatim>\<open>TreadstoneError\<close>; \<open>None\<close> for an exception of another class.\<close>

definition treadstone_error :: "exn \<Rightarrow> error_dict option" where
  "treadstone_error e =
     (case filter (\<lambda>d. d e \<noteq> None)
        [core_error, metering_error, sandbox_error, storage_error, platform_error, identity_error] of
        [] \<Rightarrow> None | d # _ \<Rightarrow> d e)"

subsection \<open>Lemmas\<close>

lemma audit_request_run [run_simps]:
  "audit_request rq a t i r e m w = (Inr (), w\<lparr>audit_events := audit_events w @ [request_audit_event rq a t i r e m]\<rparr>)"
  by (simp add: audit_request_def)

lemma keeps_audit_request [keeps_intros]:
  "(\<And>w e. P w \<Longrightarrow> P (w\<lparr>audit_events := e\<rparr>)) \<Longrightarrow> keeps P (audit_request rq a t i r e m)"
  by (simp add: audit_request_def keeps_def)

lemma filter_singleD: "filter P xs = [x] \<Longrightarrow> x \<in> set xs \<and> P x"
  by (metis (mono_tags, lifting) filter_set list.set_intros(1) mem_Collect_eq set_filter)

lemma jwt_decodeD:
  "jwt_ok lib \<Longrightarrow> jwt_decode lib now aud t = Some p \<Longrightarrow> json_claims p \<and> t = jwt_encode lib p \<and> claims_valid now aud p"
  by (simp add: jwt_ok_def)

lemma jwt_encode_nonempty: "jwt_ok lib \<Longrightarrow> p \<noteq> [] \<Longrightarrow> jwt_encode lib p \<noteq> []"
  by (simp add: jwt_ok_def)

lemma jwt_decode_encode:
  assumes "jwt_ok lib" "json_claims p"
  shows "jwt_decode lib now aud (jwt_encode lib p) = (if claims_valid now aud p then Some p else None)"
proof (cases "jwt_decode lib now aud (jwt_encode lib p)")
  case (Some q)
  with assms have "q = p" "claims_valid now aud q" by (auto simp: jwt_ok_def inj_on_def)
  with Some show ?thesis by simp
next
  case None
  then have "\<not> claims_valid now aud p" using assms by (metis jwt_ok_def option.distinct(1))
  with None show ?thesis by simp
qed

subsection \<open>Transactions keep what the rows say\<close>

definition row_property :: "(world \<Rightarrow> bool) \<Rightarrow> bool" where
  "row_property P \<longleftrightarrow> (\<forall>w m c l n. P w \<longrightarrow> P (w\<lparr>outbox := m, template_specs_cache := c, k8s_log := l, ids_drawn := n\<rparr>))"

lemma row_propertyD: "row_property P \<Longrightarrow> P w \<Longrightarrow> P (rollback_rows w w')"
  by (simp add: row_property_def rollback_rows_def)

lemma keeps_transaction [keeps_intros]:
  assumes "row_property P" "keeps P m"
  shows "keeps P (transaction m)"
  using assms by (auto simp: keeps_def transaction_def row_propertyD split: prod.splits sum.splits)

lemma transaction_Inr [simp]: "m w = (Inr a, w') \<Longrightarrow> transaction m w = (Inr a, w')"
  by (simp add: transaction_def)

lemma transaction_Inl [simp]: "m w = (Inl e, w') \<Longrightarrow> transaction m w = (Inl e, rollback_rows w w')"
  by (simp add: transaction_def)

end
