(* ===== verification/Identity_Auth.thy ===== *)
theory Identity_Auth
  imports Web_Request
begin

text \<open>
  Who a request acts for (\<^verbatim>\<open>identity/api/deps.py\<close>, \<^verbatim>\<open>identity/models/api_key.py\<close>).

  A dependency takes the bearer token that the framework found in the \<^verbatim>\<open>Authorization\<close> header
  (\<open>credentials\<close>) and the user of the session cookie as fastapi-users resolves it (\<open>cookie_user\<close>), and returns the
  user with the request whose context it completed. \<open>identity_inv\<close> collects the unique constraints of the
  tables. Shown: an API key authenticates exactly when the table grants it (\<open>key_valid\<close>), and what
  each dependency admits.
\<close>

subsection \<open>API keys\<close>

definition is_expired :: "time \<Rightarrow> api_key \<Rightarrow> bool" where
  "is_expired now k = (case ak_gmt_expires k of None \<Rightarrow> False | Some expires_at \<Rightarrow> expires_at \<le> now)"

definition hash_api_key_secret :: "lib \<Rightarrow> string \<Rightarrow> string" where
  "hash_api_key_secret lib secret = sha256_hex lib secret"

definition build_api_key_preview :: "string \<Rightarrow> string" where
  "build_api_key_preview secret = take 7 secret @ ''...'' @ drop (length secret - 4) secret"

definition authenticate_api_key_value :: "lib \<Rightarrow> time \<Rightarrow> string \<Rightarrow> (api_key \<times> user) option op" where
  "authenticate_api_key_value lib now secret =
     ebind (select_one_or_none (\<lambda>w.
       filter (\<lambda>k. ak_key_hash k = hash_api_key_secret lib secret \<and> ak_gmt_deleted k = None) (api_keys w))) (\<lambda>r.
     case r of
       None \<Rightarrow> ret None
     | Some k \<Rightarrow>
         if is_expired now k \<or> \<not> ak_is_enabled k then ret None
         else ebind (gets (\<lambda>w. find (\<lambda>u. us_id u = ak_user_id k) (users w))) (\<lambda>owner.
              case owner of
                None \<Rightarrow> ret None
              | Some u \<Rightarrow>
                  if \<not> us_is_active u then ret None
                  else if us_id u \<noteq> ak_user_id k then ret None
                  else ret (Some (k, u))))"

subsection \<open>Dependencies\<close>

definition set_auth_context :: "string \<Rightarrow> user option \<Rightarrow> api_key option \<Rightarrow> request \<Rightarrow> request" where
  "set_auth_context credential_type u k rq =
     set_scope_context [(''credential_type'', Some credential_type),
       (''actor_user_id'', map_option us_id u), (''actor_api_key_id'', map_option ak_id k)] rq"

definition get_current_control_plane_user ::
    "lib \<Rightarrow> time \<Rightarrow> string option \<Rightarrow> user option \<Rightarrow> request \<Rightarrow> (user \<times> request) op" where
  "get_current_control_plane_user lib now credentials cookie_user rq =
     (case credentials of
       Some token \<Rightarrow>
         if \<not> startswith token ''sk-''
         then raise (AuthInvalidError ''Control plane endpoints accept API keys or session cookies.'')
         else ebind (authenticate_api_key_value lib now token) (\<lambda>auth_result.
              case auth_result of
                None \<Rightarrow> raise (AuthInvalidError ''Invalid or expired API key.'')
              | Some (k, u) \<Rightarrow>
                  if \<not> ak_control_plane_enabled k
                  then raise (ForbiddenError ''This API key does not have control plane access.'')
                  else ret (u, set_auth_context ''api_key'' (Some u) (Some k) rq))
     | None \<Rightarrow>
         (case cookie_user of
            None \<Rightarrow> raise (AuthRequiredError ''Authentication required'')
          | Some u \<Rightarrow> ret (u, set_auth_context ''cookie'' (Some u) None rq)))"

definition selected_grant :: "string \<Rightarrow> string \<Rightarrow> world \<Rightarrow> string list" where
  "selected_grant kid sid w =
     map ag_sandbox_id (filter (\<lambda>g. ag_api_key_id g = kid \<and> ag_sandbox_id g = sid) (api_key_sandbox_grants w))"

definition get_current_data_plane_user ::
    "lib \<Rightarrow> time \<Rightarrow> string option \<Rightarrow> user option \<Rightarrow> string option \<Rightarrow> request \<Rightarrow> (user \<times> request) op" where
  "get_current_data_plane_user lib now credentials cookie_user sandbox_id rq =
     (case credentials of
       None \<Rightarrow>
         if cookie_user \<noteq> None then raise (AuthInvalidError ''API Key required for data plane access.'')
         else raise (AuthRequiredError ''API Key required.'')
     | Some token \<Rightarrow>
         if \<not> startswith token ''sk-'' then raise (AuthInvalidError ''API Key required for data plane access.'')
         else ebind (authenticate_api_key_value lib now token) (\<lambda>auth_result.
              case auth_result of
                None \<Rightarrow> raise (AuthInvalidError ''Invalid or expired API key.'')
              | Some (k, u) \<Rightarrow>
                  if ak_data_plane_mode k = DP_NONE
                  then raise (ForbiddenError ''This API key does not have data plane access.'')
                  else ebind (if truthy sandbox_id \<and> ak_data_plane_mode k = DP_SELECTED
                              then ebind (select_one_or_none (selected_grant (ak_id k) (the sandbox_id))) (\<lambda>g.
                                   if g = None then raise (ForbiddenError ''This API key does not have access to this sandbox.'')
                                   else ret ())
                              else ret ()) (\<lambda>_.
                       ret (u, let rq = set_auth_context ''api_key'' (Some u) (Some k) rq
                               in if truthy sandbox_id then set_scope_context [(''sandbox_id'', sandbox_id)] rq else rq))))"

definition get_current_admin ::
    "lib \<Rightarrow> time \<Rightarrow> string option \<Rightarrow> user option \<Rightarrow> request \<Rightarrow> (user \<times> request) op" where
  "get_current_admin lib now credentials cookie_user rq =
     ebind (get_current_control_plane_user lib now credentials cookie_user rq) (\<lambda>(u, rq).
     if us_role u \<noteq> ADMIN then raise (ForbiddenError ''Admin required'') else ret (u, rq))"

definition get_current_admin_session ::
    "lib \<Rightarrow> time \<Rightarrow> string option \<Rightarrow> user option \<Rightarrow> request \<Rightarrow> (user \<times> request) op" where
  "get_current_admin_session lib now credentials cookie_user rq =
     ebind (get_current_admin lib now credentials cookie_user rq) (\<lambda>(u, rq).
     if get_scope_context rq ''credential_type'' \<noteq> Some ''cookie''
     then raise (AuthInvalidError ''Admin session cookie required.'') else ret (u, rq))"

subsection \<open>The constraints of the identity tables\<close>

text \<open>Primary keys and unique columns of \<^verbatim>\<open>user\<close>, \<^verbatim>\<open>api_key\<close>, \<^verbatim>\<open>api_key_sandbox_grant\<close> and \<^verbatim>\<open>cli_login_flow\<close>.\<close>

definition identity_inv :: "world \<Rightarrow> bool" where
  "identity_inv w \<longleftrightarrow>
     distinct (map us_id (users w)) \<and> distinct (map us_email (users w)) \<and>
     distinct (map ak_id (api_keys w)) \<and> distinct (map ak_key_hash (api_keys w)) \<and>
     distinct (map (\<lambda>g. (ag_api_key_id g, ag_sandbox_id g)) (api_key_sandbox_grants w)) \<and>
     distinct (map cf_id (cli_login_flows w))"

lemma identity_invD:
  assumes "identity_inv w"
  shows "distinct (map us_id (users w))" "distinct (map us_email (users w))" "distinct (map ak_id (api_keys w))"
    "distinct (map ak_key_hash (api_keys w))"
    "distinct (map (\<lambda>g. (ag_api_key_id g, ag_sandbox_id g)) (api_key_sandbox_grants w))"
    "distinct (map cf_id (cli_login_flows w))"
  using assms by (simp_all add: identity_inv_def)

text \<open>What the tables grant the holder of a secret.\<close>

definition key_valid :: "lib \<Rightarrow> time \<Rightarrow> world \<Rightarrow> string \<Rightarrow> api_key \<Rightarrow> user \<Rightarrow> bool" where
  "key_valid lib now w secret k u \<longleftrightarrow>
     k \<in> set (api_keys w) \<and> ak_key_hash k = sha256_hex lib secret \<and> ak_gmt_deleted k = None \<and>
     \<not> is_expired now k \<and> ak_is_enabled k \<and>
     u \<in> set (users w) \<and> us_id u = ak_user_id k \<and> us_is_active u"

definition data_plane_allowed :: "world \<Rightarrow> api_key \<Rightarrow> string \<Rightarrow> bool" where
  "data_plane_allowed w k sid \<longleftrightarrow>
     ak_data_plane_mode k = DP_ALL \<or>
     ak_data_plane_mode k = DP_SELECTED \<and>
       (\<exists>g \<in> set (api_key_sandbox_grants w). ag_api_key_id g = ak_id k \<and> ag_sandbox_id g = sid)"

lemma find_key:
  assumes "distinct (map key xs)"
  shows "find (\<lambda>x. key x = i) xs = Some x \<longleftrightarrow> x \<in> set xs \<and> key x = i"
proof
  assume "find (\<lambda>x. key x = i) xs = Some x"
  then show "x \<in> set xs \<and> key x = i" by (auto simp: find_Some_iff)
next
  assume x: "x \<in> set xs \<and> key x = i"
  with assms show "find (\<lambda>x. key x = i) xs = Some x"
    by (induction xs) (auto simp: image_iff)
qed

lemma live_key_rows:
  assumes "identity_inv w"
  shows "length (filter (\<lambda>k. ak_key_hash k = h \<and> ak_gmt_deleted k = None) (api_keys w)) \<le> 1"
proof -
  have "filter (\<lambda>k. ak_key_hash k = h \<and> ak_gmt_deleted k = None) (api_keys w) =
      filter (\<lambda>k. ak_gmt_deleted k = None) (filter (\<lambda>k. ak_key_hash k = h) (api_keys w))"
    by (simp add: conj_commute)
  moreover have "length (filter (\<lambda>k. ak_key_hash k = h) (api_keys w)) \<le> 1"
    using identity_invD(4) [OF assms] by (rule length_filter_distinct_key)
  ultimately show ?thesis by (metis length_filter_le order_trans)
qed

lemma key_valid_unique:
  assumes "identity_inv w" "key_valid lib now w secret k u" "key_valid lib now w secret k' u'"
  shows "k' = k" "u' = u"
proof -
  show "k' = k" using assms identity_invD(4) [OF assms(1)] by (auto simp: key_valid_def distinct_map inj_on_def)
  then show "u' = u" using assms identity_invD(1) [OF assms(1)] by (auto simp: key_valid_def distinct_map inj_on_def)
qed

lemma authenticate_cases:
  assumes inv: "identity_inv w"
  obtains (accepted) k u where "key_valid lib now w secret k u"
      "authenticate_api_key_value lib now secret w = (Inr (Some (k, u)), w)"
    | (rejected) "\<nexists>k u. key_valid lib now w secret k u" "authenticate_api_key_value lib now secret w = (Inr None, w)"
proof -
  let ?q = "\<lambda>w. filter (\<lambda>k. ak_key_hash k = hash_api_key_secret lib secret \<and> ak_gmt_deleted k = None) (api_keys w)"
  have one: "length (?q w) \<le> 1" by (rule live_key_rows [OF inv])
  show thesis
  proof (cases "?q w")
    case Nil
    then have "\<nexists>k u. key_valid lib now w secret k u"
      by (auto simp: key_valid_def filter_empty_conv hash_api_key_secret_def)
    with Nil rejected show ?thesis by (simp add: authenticate_api_key_value_def)
  next
    case (Cons k ks)
    with one have q: "?q w = [k]" by simp
    then have k: "k \<in> set (api_keys w)" "ak_key_hash k = sha256_hex lib secret" "ak_gmt_deleted k = None"
      by (auto simp: hash_api_key_secret_def filter_eq_Cons_iff dest: arg_cong [where f = set])
    have only: "k' = k" if "key_valid lib now w secret k' u'" for k' u'
      using that k identity_invD(4) [OF inv] by (auto simp: key_valid_def distinct_map inj_on_def)
    have owner: "find (\<lambda>u. us_id u = ak_user_id k) (users w) = Some u \<longleftrightarrow> u \<in> set (users w) \<and> us_id u = ak_user_id k" for u
      by (rule find_key [OF identity_invD(1) [OF inv]])
    show ?thesis
    proof (cases "\<exists>u. key_valid lib now w secret k u")
      case True
      then obtain u where u: "key_valid lib now w secret k u" by blast
      then have "find (\<lambda>u. us_id u = ak_user_id k) (users w) = Some u" using owner by (simp add: key_valid_def)
      with q u have "authenticate_api_key_value lib now secret w = (Inr (Some (k, u)), w)"
        by (simp add: authenticate_api_key_value_def key_valid_def)
      with u show ?thesis by (rule accepted)
    next
      case False
      then have "\<nexists>k u. key_valid lib now w secret k u" using only by blast
      moreover have "authenticate_api_key_value lib now secret w = (Inr None, w)"
        using q False k owner
        by (auto simp: authenticate_api_key_value_def key_valid_def split: option.splits)
      ultimately show ?thesis by (rule rejected)
    qed
  qed
qed

lemma authenticate_some:
  assumes "identity_inv w" and "key_valid lib now w secret k u"
  shows "authenticate_api_key_value lib now secret w = (Inr (Some (k, u)), w)"
  using authenticate_cases [OF assms(1), of lib now secret] key_valid_unique [OF assms] assms(2) by metis

lemma authenticate_none:
  assumes "identity_inv w" and "\<nexists>k u. key_valid lib now w secret k u"
  shows "authenticate_api_key_value lib now secret w = (Inr None, w)"
  using authenticate_cases [OF assms(1), of lib now secret] assms(2) by metis

lemma selected_grant_rows:
  assumes "identity_inv w"
  shows "length (selected_grant kid sid w) \<le> 1"
    and "selected_grant kid sid w = [] \<longleftrightarrow> \<not> (\<exists>g \<in> set (api_key_sandbox_grants w). ag_api_key_id g = kid \<and> ag_sandbox_id g = sid)"
  using length_filter_distinct_key [OF identity_invD(5) [OF assms], of "(kid, sid)"]
  by (auto simp: selected_grant_def filter_empty_conv)

end
