(* ===== verification/User_Accounts.thy ===== *)
theory User_Accounts
  imports Identity_Auth Platform_Limits
begin

text \<open>
  Accounts (\<^verbatim>\<open>identity/api/auth.py\<close> except API keys and OAuth, \<^verbatim>\<open>identity/services/users.py\<close>,
  \<^verbatim>\<open>identity/services/email.py\<close>): login, registration, passwords, password reset, email verification and the
  administration of users.

  A handler gets the user and the request of its dependency. \<open>limits\<close> is what the platform limits runtime
  returns for the session (\<open>ensure_snapshot\<close>). What fastapi-users does inside \<^verbatim>\<open>request_verify\<close>, \<^verbatim>\<open>forgot_password\<close>,
  \<^verbatim>\<open>verify\<close> and \<^verbatim>\<open>reset_password\<close> besides calling the hooks of the program is a parameter of \<open>lib\<close>. Deleting a user
  row follows the foreign keys of the schema and the ORM's handling of \<^verbatim>\<open>User.oauth_accounts\<close>.
\<close>

subsection \<open>Responses\<close>

record cookie =
  co_key :: string
  co_value :: string
  co_max_age :: int
  co_secure :: bool

record response =
  rs_status :: int
  rs_body :: meta_value
  rs_location :: "string option"
  rs_cookies :: "cookie list"

definition detail :: "string \<Rightarrow> meta_value" where
  "detail s = MDict [(''detail'', MStr s)]"

definition json_response :: "int \<Rightarrow> meta_value \<Rightarrow> response" where
  "json_response status body = \<lparr>rs_status = status, rs_body = body, rs_location = None, rs_cookies = []\<rparr>"

definition redirect_response :: "string \<Rightarrow> response" where
  "redirect_response url = \<lparr>rs_status = 303, rs_body = MNone, rs_location = Some url, rs_cookies = []\<rparr>"

definition set_cookie :: "cookie \<Rightarrow> response \<Rightarrow> response" where
  "set_cookie c r = r\<lparr>rs_cookies := rs_cookies r @ [c]\<rparr>"

definition delete_cookie :: "string \<Rightarrow> response \<Rightarrow> response" where
  "delete_cookie key r = set_cookie \<lparr>co_key = key, co_value = '''', co_max_age = 0, co_secure = False\<rparr> r"

definition should_use_secure_cookies :: "lib \<Rightarrow> web_settings \<Rightarrow> bool" where
  "should_use_secure_cookies lib web \<longleftrightarrow>
     \<not> debug web \<and> map_option pu_scheme (urlparse (ipv6_ok lib) (app_base_url web)) = Some ''https''"

definition write_session_cookie :: "lib \<Rightarrow> web_settings \<Rightarrow> time \<Rightarrow> user \<Rightarrow> response \<Rightarrow> response" where
  "write_session_cookie lib web now u r =
     set_cookie \<lparr>co_key = ''session'', co_value = write_token lib now u, co_max_age = session_ttl_seconds web,
       co_secure = should_use_secure_cookies lib web\<rparr> r"

subsection \<open>Users\<close>

definition role_str :: "role \<Rightarrow> string" where
  "role_str r = (case r of ADMIN \<Rightarrow> ''admin'' | RW \<Rightarrow> ''rw'' | RO \<Rightarrow> ''ro'')"

definition get_user_row :: "string \<Rightarrow> user option op" where
  "get_user_row uid = gets (\<lambda>w. find (\<lambda>u. us_id u = uid) (users w))"

text \<open>A change of a loaded user; \<^verbatim>\<open>gmt_updated\<close> has an \<^verbatim>\<open>onupdate\<close>.\<close>

definition set_user :: "time \<Rightarrow> string \<Rightarrow> (user \<Rightarrow> user) \<Rightarrow> unit op" where
  "set_user now uid f = modify (\<lambda>w. w\<lparr>users := update_where (\<lambda>u. us_id u = uid)
     (\<lambda>u. if f u = u then u else (f u)\<lparr>us_gmt_updated := now\<rparr>) (users w)\<rparr>)"

definition insert_user :: "user \<Rightarrow> unit op" where
  "insert_user u =
     ebind (gets users) (\<lambda>us.
     if us_id u \<in> set (map us_id us) \<or> us_email u \<in> set (map us_email us) then raise IntegrityError
     else modify (\<lambda>w. w\<lparr>users := users w @ [u]\<rparr>))"

definition user_with_email :: "string \<Rightarrow> user option op" where
  "user_with_email email = select_one_or_none (\<lambda>w. filter (\<lambda>u. us_email u = email) (users w))"

definition authenticate_email_password :: "lib \<Rightarrow> string \<Rightarrow> string \<Rightarrow> user op" where
  "authenticate_email_password lib email password =
     ebind (user_with_email email) (\<lambda>r.
     case r of
       None \<Rightarrow> raise (BadRequestError ''Invalid email or password'')
     | Some u \<Rightarrow>
         if \<not> us_is_active u then raise (ForbiddenError ''Account is disabled. Contact your administrator.'')
         else if \<not> us_has_local_password u then raise (BadRequestError ''Invalid email or password'')
         else if \<not> pw_verify lib password (us_hashed_password u) then raise (BadRequestError ''Invalid email or password'')
         else ret u)"

subsection \<open>Emails\<close>

definition send_email :: "lib \<Rightarrow> web_settings \<Rightarrow> email \<Rightarrow> unit op" where
  "send_email lib web m =
     (case if email_backend web = ''resend'' then mail_error lib m else None of
        Some e \<Rightarrow> raise e
      | None \<Rightarrow> modify (\<lambda>w. w\<lparr>outbox := outbox w @ [m]\<rparr>))"

definition app_url :: "web_settings \<Rightarrow> string \<Rightarrow> string" where
  "app_url web path = rstrip_char (CHR ''/'') (app_base_url web) @ path"

definition on_after_forgot_password :: "lib \<Rightarrow> web_settings \<Rightarrow> user \<Rightarrow> string \<Rightarrow> unit op" where
  "on_after_forgot_password lib web u token =
     send_email lib web (PasswordResetEmail (us_email u) token (app_url web ''/auth/reset-password?token='' @ token))"

definition on_after_request_verify :: "lib \<Rightarrow> web_settings \<Rightarrow> time \<Rightarrow> user \<Rightarrow> string \<Rightarrow> unit op" where
  "on_after_request_verify lib web now u token =
     transaction (
       ebind (draw_id ''evl'') (\<lambda>i.
       ebind (modify (\<lambda>w. w\<lparr>email_verification_logs := email_verification_logs w @
         [\<lparr>ev_id = i, ev_user_id = us_id u, ev_email = us_email u, ev_token = token,
           ev_verify_url = app_url web ''/auth/verify-email?token='' @ token, ev_gmt_created = now\<rparr>]\<rparr>)) (\<lambda>_.
       ebind (send_email lib web (VerificationEmail (us_email u) token (app_url web ''/auth/verify-email?token='' @ token))) (\<lambda>_.
       commit))))"

definition request_verify :: "lib \<Rightarrow> web_settings \<Rightarrow> time \<Rightarrow> user \<Rightarrow> unit op" where
  "request_verify lib web now u =
     ebind (of_sum (verify_token lib now u)) (on_after_request_verify lib web now u)"

definition forgot_password :: "lib \<Rightarrow> web_settings \<Rightarrow> time \<Rightarrow> user \<Rightarrow> unit op" where
  "forgot_password lib web now u = ebind (of_sum (forgot_token lib now u)) (on_after_forgot_password lib web u)"

text \<open>\<^verbatim>\<open>on_after_register\<close>, called by fastapi-users for a user it created (OAuth).\<close>

definition on_after_register :: "time \<Rightarrow> string \<Rightarrow> unit op" where
  "on_after_register now uid =
     ebind (gets (\<lambda>w. length (users w))) (\<lambda>count.
     if count = 1 then transaction (ebind (set_user now uid (\<lambda>u. u\<lparr>us_role := ADMIN\<rparr>)) (\<lambda>_. commit)) else ret ())"

subsection \<open>Login, logout, registration\<close>

definition login :: "lib \<Rightarrow> web_settings \<Rightarrow> time \<Rightarrow> request \<Rightarrow> string \<Rightarrow> string \<Rightarrow> response op" where
  "login lib web now rq email password =
     ebind (try_catch (authenticate_email_password lib email password) (\<lambda>e.
       case e of
         BadRequestError _ \<Rightarrow>
           ebind (audit_failure rq ''auth.login'' ''user'' None ''bad_request'' [(''email'', MStr email), (''surface'', MStr ''api'')]) (\<lambda>_.
           ebind commit (\<lambda>_. raise e))
       | ForbiddenError _ \<Rightarrow>
           ebind (audit_failure rq ''auth.login'' ''user'' None ''account_disabled'' [(''email'', MStr email), (''surface'', MStr ''api'')]) (\<lambda>_.
           ebind commit (\<lambda>_. raise e))
       | _ \<Rightarrow> raise e)) (\<lambda>u.
     let rq = set_scope_context [(''actor_user_id'', Some (us_id u)), (''credential_type'', Some ''cookie'')] rq
     in ebind (audit_success rq ''auth.login'' ''user'' (Some (us_id u)) [(''email'', MStr (us_email u)), (''surface'', MStr ''api'')]) (\<lambda>_.
        ebind commit (\<lambda>_.
        ret (write_session_cookie lib web now u (json_response 200 (detail ''Login successful''))))))"

definition logout :: "request \<Rightarrow> user option \<Rightarrow> response op" where
  "logout rq current_user =
     ebind (case current_user of
         None \<Rightarrow> ret ()
       | Some u \<Rightarrow>
           ebind (audit_success (set_scope_context [(''actor_user_id'', Some (us_id u)), (''credential_type'', Some ''cookie'')] rq)
             ''auth.logout'' ''user'' (Some (us_id u)) []) (\<lambda>_. commit)) (\<lambda>_.
     ret (delete_cookie ''session'' (json_response 200 (detail ''Logout successful''))))"

definition new_local_user :: "time \<Rightarrow> string \<Rightarrow> string \<Rightarrow> string \<Rightarrow> bool \<Rightarrow> user" where
  "new_local_user now uid email hashed is_first_user =
     \<lparr>us_id = uid, us_email = email, us_username = None, us_hashed_password = hashed, us_has_local_password = True,
      us_is_active = True, us_is_verified = is_first_user, us_role = (if is_first_user then ADMIN else RW),
      us_gmt_created = now, us_gmt_updated = now\<rparr>"

definition check_registration :: "limits_snapshot \<Rightarrow> request \<Rightarrow> (string \<times> meta_value) list \<Rightarrow> unit op" where
  "check_registration limits rq metadata =
     try_catch (of_sum (check_user_registration_allowed limits)) (\<lambda>e.
       if treadstone_error e = None then raise e
       else ebind (audit_request rq ''auth.register'' ''user'' None ''failure'' (map_option fst (treadstone_error e)) metadata) (\<lambda>_.
            ebind commit (\<lambda>_. raise e)))"

definition register :: "lib \<Rightarrow> web_settings \<Rightarrow> time \<Rightarrow> limits_snapshot \<Rightarrow> request \<Rightarrow> string \<Rightarrow> string \<Rightarrow> response op" where
  "register lib web now limits rq email password =
     ebind (gets (\<lambda>w. length (users w))) (\<lambda>user_count.
     ebind (user_with_email email) (\<lambda>existing.
     if existing \<noteq> None then raise (ConflictError ''Email already registered'')
     else
       ebind (check_registration limits rq [(''email'', MStr email)]) (\<lambda>_.
       ebind (transaction (
         ebind (draw_id '''') (\<lambda>salt.
         ebind (draw_id ''user'') (\<lambda>uid.
         let u = new_local_user now uid email (pw_hash lib salt password) (user_count = 0);
             rq = set_scope_context [(''actor_user_id'', Some uid)] rq
         in ebind (insert_user u) (\<lambda>_.
            ebind (audit_success rq ''auth.register'' ''user'' (Some uid)
              [(''email'', MStr email), (''role'', MStr (role_str (us_role u))), (''is_verified'', MBool (us_is_verified u))]) (\<lambda>_.
            ebind commit (\<lambda>_. ret u)))))))
       (\<lambda>u.
       ebind (if us_is_verified u then ret False
              else try_catch (ebind (request_verify lib web now u) (\<lambda>_. ret True)) (\<lambda>_. ret False)) (\<lambda>verification_email_sent.
       ret (write_session_cookie lib web now u (json_response 201
         (MDict [(''id'', MStr (us_id u)), (''email'', MStr (us_email u)), (''role'', MStr (role_str (us_role u))),
           (''is_verified'', MBool (us_is_verified u)), (''verification_email_sent'', MBool verification_email_sent)]))))))))"

subsection \<open>Listing users\<close>

text \<open>\<^verbatim>\<open>LIKE\<close>: \<open>%\<close> stands for any string, \<open>_\<close> for any character, a backslash quotes the next one.\<close>

function sql_like :: "string \<Rightarrow> string \<Rightarrow> bool" where
  "sql_like [] s \<longleftrightarrow> s = []"
| "sql_like (c # p) s \<longleftrightarrow>
     (if c = CHR ''%'' then sql_like p s \<or> (case s of [] \<Rightarrow> False | _ # t \<Rightarrow> sql_like (c # p) t)
      else case s of
        [] \<Rightarrow> False
      | d # t \<Rightarrow>
          if c = CHR ''_'' then sql_like p t
          else if c = char_of (92::nat) then (case p of [] \<Rightarrow> d = c \<and> t = [] | e # q \<Rightarrow> d = e \<and> sql_like q t)
          else d = c \<and> sql_like p t)"
  by pat_completeness auto
termination
  by (relation "measure (\<lambda>(p, s). length p + length s)") auto

definition ilike :: "string \<Rightarrow> string \<Rightarrow> bool" where
  "ilike s pattern = sql_like (lower pattern) (lower s)"

definition email_filter_of :: "string option \<Rightarrow> string" where
  "email_filter_of email = (if truthy email then strip (the email) else '''')"

text \<open>The order of ids in the database is a parameter.\<close>

definition list_users :: "(string \<Rightarrow> int) \<Rightarrow> user \<Rightarrow> nat \<Rightarrow> nat \<Rightarrow> string option \<Rightarrow> (user list \<times> nat) op" where
  "list_users id_key current_user limit offset email =
     (let email_filter = email_filter_of email
      in if us_role current_user = ADMIN
         then gets (\<lambda>w.
           let rows = filter (\<lambda>u. email_filter = '''' \<or> ilike (us_email u) (''%'' @ email_filter @ ''%'')) (users w)
           in (take limit (drop offset (sort_key (\<lambda>u. (- us_gmt_created u, - id_key (us_id u))) rows)), length rows))
         else if email_filter \<noteq> '''' \<and> \<not> contains (lower email_filter) (lower (us_email current_user)) then ret ([], 0)
         else ret (if offset = 0 then [current_user] else [], 1))"

subsection \<open>Passwords\<close>

definition change_password :: "lib \<Rightarrow> time \<Rightarrow> user \<Rightarrow> request \<Rightarrow> string \<Rightarrow> string \<Rightarrow> unit op" where
  "change_password lib now current_user rq old_password new_password =
     (if \<not> us_has_local_password current_user
      then raise (BadRequestError ''This account does not have a local password yet. Use set-password.'')
      else if \<not> pw_verify lib old_password (us_hashed_password current_user) then raise (BadRequestError ''Wrong current password'')
      else ebind (get_user_row (us_id current_user)) (\<lambda>r.
        case r of
          None \<Rightarrow> raise (NotFoundError ''User'' (us_id current_user))
        | Some u \<Rightarrow>
            transaction (
              ebind (draw_id '''') (\<lambda>salt.
              ebind (set_user now (us_id u) (\<lambda>u. u\<lparr>us_hashed_password := pw_hash lib salt new_password\<rparr>)) (\<lambda>_.
              ebind (audit_success rq ''auth.password.change'' ''user'' (Some (us_id u)) []) (\<lambda>_.
              commit))))))"

definition set_password :: "lib \<Rightarrow> time \<Rightarrow> user \<Rightarrow> request \<Rightarrow> string \<Rightarrow> unit op" where
  "set_password lib now current_user rq new_password =
     (if us_has_local_password current_user
      then raise (BadRequestError ''This account already has a local password. Use change-password.'')
      else ebind (get_user_row (us_id current_user)) (\<lambda>r.
        case r of
          None \<Rightarrow> raise (NotFoundError ''User'' (us_id current_user))
        | Some u \<Rightarrow>
            transaction (
              ebind (draw_id '''') (\<lambda>salt.
              ebind (set_user now (us_id u) (\<lambda>u. u\<lparr>us_hashed_password := pw_hash lib salt new_password, us_has_local_password := True\<rparr>)) (\<lambda>_.
              ebind (audit_success rq ''auth.password.set'' ''user'' (Some (us_id u)) []) (\<lambda>_.
              commit))))))"

subsection \<open>Password reset\<close>

definition normalized_email :: "string \<Rightarrow> string" where
  "normalized_email s = lower (strip s)"

definition enforce_password_reset_request_limits :: "web_settings \<Rightarrow> time \<Rightarrow> string \<Rightarrow> string option \<Rightarrow> unit op" where
  "enforce_password_reset_request_limits web now requested_email request_ip =
     ebind (gets (\<lambda>w. filter (\<lambda>l. pr_requested_email l = requested_email \<and>
       now - seconds (password_reset_request_cooldown_seconds web) \<le> pr_gmt_created l) (password_reset_request_logs w))) (\<lambda>recent.
     if recent \<noteq> []
     then raise (PasswordResetRateLimitedError (''Please wait '' @ show_int (password_reset_request_cooldown_seconds web) @ '' seconds before trying again.''))
     else case request_ip of
       None \<Rightarrow> ret ()
     | Some ip \<Rightarrow>
         ebind (gets (\<lambda>w. int (length (filter (\<lambda>l. pr_request_ip l = Some ip \<and> now - seconds 3600 \<le> pr_gmt_created l)
           (password_reset_request_logs w))))) (\<lambda>hourly_attempts.
         if password_reset_ip_hourly_limit web \<le> hourly_attempts
         then raise (PasswordResetRateLimitedError ''Too many password reset requests from this IP. Please try again later.'')
         else ret ()))"

definition record_password_reset_request_log ::
    "time \<Rightarrow> string \<Rightarrow> string option \<Rightarrow> bool \<Rightarrow> string option \<Rightarrow> string option \<Rightarrow> unit op" where
  "record_password_reset_request_log now requested_email matched_user_id was_sent request_ip user_agent =
     ebind (draw_id ''prl'') (\<lambda>i.
     modify (\<lambda>w. w\<lparr>password_reset_request_logs := password_reset_request_logs w @
       [\<lparr>pr_id = i, pr_requested_email = requested_email, pr_matched_user_id = matched_user_id, pr_was_sent = was_sent,
         pr_request_ip = request_ip, pr_user_agent = user_agent, pr_gmt_created = now\<rparr>]\<rparr>))"

definition request_password_reset :: "lib \<Rightarrow> web_settings \<Rightarrow> time \<Rightarrow> request \<Rightarrow> string \<Rightarrow> meta_value op" where
  "request_password_reset lib web now rq email =
     (let requested_email = normalized_email email;
          request_ip = get_client_ip rq;
          user_agent = map_of (rq_headers rq) ''user-agent''
      in ebind (try_catch (enforce_password_reset_request_limits web now requested_email request_ip) (\<lambda>e.
           case e of
             PasswordResetRateLimitedError _ \<Rightarrow>
               ebind (audit_failure rq ''auth.password.reset.request'' ''user'' None ''password_reset_rate_limited''
                 [(''email'', MStr requested_email)]) (\<lambda>_.
               ebind commit (\<lambda>_. raise e))
           | _ \<Rightarrow> raise e)) (\<lambda>_.
         ebind (select_one_or_none (\<lambda>w. filter (\<lambda>u. lower (us_email u) = requested_email) (users w))) (\<lambda>r.
         ebind (case r of
             Some u \<Rightarrow>
               if us_is_active u \<and> us_has_local_password u
               then try_catch (ebind (forgot_password lib web now u) (\<lambda>_. ret True)) (\<lambda>_. ret False)
               else ret False
           | None \<Rightarrow> ret False) (\<lambda>sent.
         ebind (transaction (
           ebind (record_password_reset_request_log now requested_email (map_option us_id r) sent request_ip user_agent) (\<lambda>_.
           ebind (audit_success rq ''auth.password.reset.request'' ''user'' (map_option us_id r)
             [(''email'', MStr requested_email), (''was_sent'', MBool sent)]) (\<lambda>_.
           commit)))) (\<lambda>_.
         ret (detail ''If an account exists, we sent a password reset link.''))))))"

text \<open>\<^verbatim>\<open>UserManager.reset_password\<close> and \<^verbatim>\<open>UserManager.verify\<close>: the library finds the user of the token and
  updates the row, in a commit of its own.\<close>

definition manager_reset_password :: "lib \<Rightarrow> time \<Rightarrow> string \<Rightarrow> string \<Rightarrow> string op" where
  "manager_reset_password lib now token new_password = (\<lambda>w.
     case reset_user lib now token new_password w of
       Inl e \<Rightarrow> (Inl e, w)
     | Inr (uid, hashed) \<Rightarrow>
         ebind (set_user now uid (\<lambda>u. u\<lparr>us_hashed_password := hashed\<rparr>)) (\<lambda>_. ebind commit (\<lambda>_. ret uid)) w)"

definition manager_verify :: "lib \<Rightarrow> time \<Rightarrow> string \<Rightarrow> string op" where
  "manager_verify lib now token = (\<lambda>w.
     case verified_user lib now token w of
       Inl e \<Rightarrow> (Inl e, w)
     | Inr uid \<Rightarrow> ebind (set_user now uid (\<lambda>u. u\<lparr>us_is_verified := True\<rparr>)) (\<lambda>_. ebind commit (\<lambda>_. ret uid)) w)"

definition confirm_password_reset :: "lib \<Rightarrow> time \<Rightarrow> request \<Rightarrow> string \<Rightarrow> string \<Rightarrow> meta_value op" where
  "confirm_password_reset lib now rq token new_password =
     ebind (try_catch (manager_reset_password lib now token new_password) (\<lambda>e.
       case e of
         InvalidResetPasswordToken \<Rightarrow>
           ebind (audit_failure rq ''auth.password.reset'' ''user'' None ''password_reset_token_invalid'' []) (\<lambda>_.
           ebind commit (\<lambda>_. raise PasswordResetTokenInvalidError))
       | UserInactive \<Rightarrow>
           ebind (audit_failure rq ''auth.password.reset'' ''user'' None ''forbidden'' []) (\<lambda>_.
           ebind commit (\<lambda>_. raise (ForbiddenError ''Account is disabled. Contact your administrator.'')))
       | _ \<Rightarrow> raise e)) (\<lambda>uid.
     ebind (get_user_row uid) (\<lambda>r.
     case r of
       None \<Rightarrow> raise (NotFoundError ''User'' uid)
     | Some db_user \<Rightarrow>
         transaction (
           ebind (set_user now uid (\<lambda>u. u\<lparr>us_is_verified := True\<rparr>)) (\<lambda>_.
           ebind (audit_success (set_scope_context [(''actor_user_id'', Some uid)] rq) ''auth.password.reset'' ''user'' (Some uid)
             [(''email'', MStr (us_email db_user))]) (\<lambda>_.
           ebind commit (\<lambda>_. ret (detail ''Password reset successful'')))))))"

subsection \<open>Email verification\<close>

definition latest_verification :: "string \<Rightarrow> world \<Rightarrow> email_verification_log option" where
  "latest_verification uid w =
     (case rev (sort_key ev_gmt_created (filter (\<lambda>l. ev_user_id l = uid) (email_verification_logs w))) of [] \<Rightarrow> None | l # _ \<Rightarrow> Some l)"

text \<open>\<^verbatim>\<open>int(cooldown - elapsed)\<close>: the remaining time is positive, so the conversion rounds down.\<close>

definition request_verification :: "lib \<Rightarrow> web_settings \<Rightarrow> time \<Rightarrow> user \<Rightarrow> request \<Rightarrow> meta_value op" where
  "request_verification lib web now current_user rq =
     (if us_is_verified current_user then raise EmailAlreadyVerifiedError
      else ebind (gets (latest_verification (us_id current_user))) (\<lambda>latest.
        ebind (case latest of
            None \<Rightarrow> ret ()
          | Some l \<Rightarrow>
              let elapsed = now - ev_gmt_created l; cooldown = seconds (verification_resend_cooldown_seconds web)
              in if elapsed < cooldown
                 then raise (BadRequestError (''Please wait '' @ show_int ((cooldown - elapsed) div 1000000) @ '' seconds before resending.''))
                 else ret ()) (\<lambda>_.
        ebind (request_verify lib web now current_user) (\<lambda>_.
        ebind (audit_success (set_scope_context [(''actor_user_id'', Some (us_id current_user))] rq) ''auth.verification.request'' ''user''
          (Some (us_id current_user)) [(''email'', MStr (us_email current_user))]) (\<lambda>_.
        ebind commit (\<lambda>_. ret (detail ''Verification email sent'')))))))"

definition confirm_verification :: "lib \<Rightarrow> time \<Rightarrow> request \<Rightarrow> string \<Rightarrow> meta_value op" where
  "confirm_verification lib now rq token =
     ebind (try_catch (manager_verify lib now token) (\<lambda>e.
       if e \<in> {InvalidVerifyToken, UserNotExists}
       then ebind (audit_failure rq ''auth.verify'' ''user'' None ''email_verification_token_invalid'' []) (\<lambda>_.
            ebind commit (\<lambda>_. raise EmailVerificationTokenInvalidError))
       else if e = UserAlreadyVerified
       then ebind (audit_failure rq ''auth.verify'' ''user'' None ''email_already_verified'' []) (\<lambda>_.
            ebind commit (\<lambda>_. raise EmailAlreadyVerifiedError))
       else raise e)) (\<lambda>uid.
     ebind (get_user_row uid) (\<lambda>r.
     ebind (audit_success (set_scope_context [(''actor_user_id'', Some uid)] rq) ''auth.verify'' ''user'' (Some uid)
       [(''email'', case r of None \<Rightarrow> MNone | Some u \<Rightarrow> MStr (us_email u))]) (\<lambda>_.
     ebind commit (\<lambda>_. ret (detail ''Email verified'')))))"

subsection \<open>Administration\<close>

definition update_user_status :: "time \<Rightarrow> user \<Rightarrow> request \<Rightarrow> string \<Rightarrow> bool \<Rightarrow> meta_value op" where
  "update_user_status now current_user rq user_id is_active =
     (if user_id = us_id current_user then raise (BadRequestError ''Cannot change your own status'')
      else ebind (get_user_row user_id) (\<lambda>r.
        case r of
          None \<Rightarrow> raise (NotFoundError ''User'' user_id)
        | Some target \<Rightarrow>
            ebind (if \<not> is_active \<and> us_role target = ADMIN
                   then ebind (gets (\<lambda>w. length (filter (\<lambda>u. us_role u = ADMIN \<and> us_is_active u) (users w)))) (\<lambda>admin_count.
                        if admin_count \<le> 1 then raise (BadRequestError ''Cannot disable the last active admin'') else ret ())
                   else ret ()) (\<lambda>_.
            transaction (
              ebind (set_user now user_id (\<lambda>u. u\<lparr>us_is_active := is_active\<rparr>)) (\<lambda>_.
              ebind (audit_success rq ''auth.user.status_change'' ''user'' (Some user_id)
                [(''email'', MStr (us_email target)), (''old_is_active'', MBool (us_is_active target)), (''new_is_active'', MBool is_active)]) (\<lambda>_.
              ebind commit (\<lambda>_.
              ret (detail (''User '' @ (if is_active then ''enabled'' else ''disabled''))))))))))"

text \<open>\<^verbatim>\<open>session.delete(user)\<close> at the flush: the ORM sets \<^verbatim>\<open>oauth_account.user_id\<close>, which is not nullable, of the loaded
  accounts to \<^verbatim>\<open>NULL\<close>; then the foreign keys act. A compute session refers to its user and its sandbox without
  \<^verbatim>\<open>ON DELETE\<close>.\<close>

definition owned_ids :: "string \<Rightarrow> world \<Rightarrow> string list" where
  "owned_ids uid w = map sb_id (filter (\<lambda>s. sb_owner_id s = uid) (sandboxes w))"

definition user_is_referenced :: "string \<Rightarrow> world \<Rightarrow> bool" where
  "user_is_referenced uid w \<longleftrightarrow>
     (\<exists>a \<in> set (oauth_accounts w). oa_user_id a = uid) \<or>
     (\<exists>c \<in> set (compute_sessions w). cs_user_id c = uid \<or> cs_sandbox_id c \<in> set (owned_ids uid w))"

definition cascade_user :: "string \<Rightarrow> world \<Rightarrow> world" where
  "cascade_user uid w =
     (let sids = set (owned_ids uid w);
          kids = set (map ak_id (filter (\<lambda>k. ak_user_id k = uid) (api_keys w)))
      in w\<lparr>users := filter (\<lambda>u. us_id u \<noteq> uid) (users w),
           api_keys := filter (\<lambda>k. ak_user_id k \<noteq> uid) (api_keys w),
           api_key_sandbox_grants := filter (\<lambda>g. ag_api_key_id g \<notin> kids \<and> ag_sandbox_id g \<notin> sids) (api_key_sandbox_grants w),
           cli_login_flows := filter (\<lambda>f. cf_user_id f \<noteq> Some uid) (cli_login_flows w),
           email_verification_logs := filter (\<lambda>l. ev_user_id l \<noteq> uid) (email_verification_logs w),
           password_reset_request_logs := update_where (\<lambda>l. pr_matched_user_id l = Some uid)
             (\<lambda>l. l\<lparr>pr_matched_user_id := None\<rparr>) (password_reset_request_logs w),
           sandboxes := filter (\<lambda>s. sb_owner_id s \<noteq> uid) (sandboxes w),
           web_links := filter (\<lambda>l. wl_created_by_user_id l \<noteq> uid \<and> wl_sandbox_id l \<notin> sids) (web_links w),
           user_plans := filter (\<lambda>p. up_user_id p \<noteq> uid) (user_plans w),
           compute_grants := filter (\<lambda>g. cg_user_id g \<noteq> uid) (compute_grants w),
           storage_quota_grants := filter (\<lambda>g. sq_user_id g \<noteq> uid) (storage_quota_grants w),
           storage_ledgers := map (\<lambda>l. case sl_sandbox_id l of
               Some sid \<Rightarrow> if sid \<in> sids then l\<lparr>sl_sandbox_id := None\<rparr> else l | None \<Rightarrow> l)
             (filter (\<lambda>l. sl_user_id l \<noteq> uid) (storage_ledgers w))\<rparr>)"

definition delete_user_row :: "string \<Rightarrow> unit op" where
  "delete_user_row uid =
     ebind (gets (user_is_referenced uid)) (\<lambda>referenced.
     if referenced then raise IntegrityError else modify (cascade_user uid))"

definition delete_user :: "user \<Rightarrow> request \<Rightarrow> string \<Rightarrow> unit op" where
  "delete_user current_user rq user_id =
     (if user_id = us_id current_user then raise (BadRequestError ''Cannot delete yourself'')
      else ebind (get_user_row user_id) (\<lambda>r.
        case r of
          None \<Rightarrow> raise (NotFoundError ''User'' user_id)
        | Some target \<Rightarrow>
            ebind (if us_role target = ADMIN
                   then ebind (gets (\<lambda>w. length (filter (\<lambda>u. us_role u = ADMIN) (users w)))) (\<lambda>admin_count.
                        if admin_count \<le> 1 then raise (BadRequestError ''Cannot delete the last admin'') else ret ())
                   else ret ()) (\<lambda>_.
            transaction (
              ebind (audit_success rq ''auth.user.delete'' ''user'' (Some user_id)
                [(''email'', MStr (us_email target)), (''role'', MStr (role_str (us_role target)))]) (\<lambda>_.
              ebind (delete_user_row user_id) (\<lambda>_.
              commit))))))"

end
