(* ===== verification/Proxy.thy ===== *)
theory Proxy
  imports Identity_Auth Lifecycle_Tasks
begin

text \<open>
  The reverse proxy to the sandboxes (\<^verbatim>\<open>proxy/services/sandbox_proxy.py\<close>, \<^verbatim>\<open>proxy/api/sandbox_proxy.py\<close>).

  What the sandbox answers is a parameter \<open>upstream\<close> of the request that is sent to it; what happens on a WebSocket
  connection is a list of timed events, or the exception of \<^verbatim>\<open>connect\<close>. A handler returns what it
  sent upstream besides its response, so that the theorems can speak about it.
\<close>

subsection \<open>Requests to a sandbox\<close>

record proxied_request =
  px_request_method :: string
  px_url :: string
  px_headers :: "(string \<times> string) list"
  px_body :: string

record proxied_response =
  ps_status :: int
  ps_headers :: "(string \<times> string) list"

type_synonym upstream = "proxied_request \<Rightarrow> exn + proxied_response"

definition PROXY_HOP_HEADERS :: "string list" where
  "PROXY_HOP_HEADERS = [''host'', ''transfer-encoding'', ''connection'', ''keep-alive'', ''upgrade'', ''proxy-authenticate'',
     ''proxy-authorization'', ''te'', ''trailers'']"

definition is_x_sandbox_vendor_header :: "string \<Rightarrow> bool" where
  "is_x_sandbox_vendor_header name = startswith (lower name) ''x-sandbox''"

definition build_sandbox_url :: "settings \<Rightarrow> web_settings \<Rightarrow> string \<Rightarrow> string \<Rightarrow> string option \<Rightarrow> int option \<Rightarrow> string \<Rightarrow> string" where
  "build_sandbox_url cfg web sandbox_id path namespace port scheme =
     (let ns = py_or namespace (sandbox_namespace cfg);
          p = (case port of None \<Rightarrow> sandbox_port web | Some n \<Rightarrow> if n = 0 then sandbox_port web else n);
          host = sandbox_id @ ''.'' @ ns @ ''.svc.cluster.local''
      in scheme @ ''://'' @ host @ '':'' @ show_int p @ ''/'' @ lstrip_char (CHR ''/'') path)"

text \<open>\<^verbatim>\<open>dict(request.headers)\<close>: of a repeated header the first value.\<close>

definition headers_dict :: "(string \<times> string) list \<Rightarrow> (string \<times> string) list" where
  "headers_dict hs = fold (\<lambda>(k, v) d. if map_of d k = None then d @ [(k, v)] else d) hs []"

definition filter_request_headers :: "(string \<times> string) list \<Rightarrow> (string \<times> string) list" where
  "filter_request_headers headers =
     dict_set ''accept-encoding'' ''identity''
       (filter (\<lambda>(k, v). lower k \<notin> set PROXY_HOP_HEADERS \<and> \<not> is_x_sandbox_vendor_header k) headers)"

text \<open>A dictionary comprehension over all header lines: of a repeated header the last value.\<close>

definition filter_response_headers :: "(string \<times> string) list \<Rightarrow> (string \<times> string) list" where
  "filter_response_headers headers =
     fold (\<lambda>(k, v) d. dict_set k v d) (filter (\<lambda>(k, v). lower k \<notin> set PROXY_HOP_HEADERS) headers) []"

definition proxy_http_request ::
    "settings \<Rightarrow> web_settings \<Rightarrow> upstream \<Rightarrow> string \<Rightarrow> string \<Rightarrow> string \<Rightarrow> (string \<times> string) list \<Rightarrow> string \<Rightarrow> string option \<Rightarrow> int option \<Rightarrow>
     exn + (proxied_request \<times> proxied_response)" where
  "proxy_http_request cfg web upstream request_method sandbox_id path headers body namespace port =
     (let req = \<lparr>px_request_method = request_method, px_url = build_sandbox_url cfg web sandbox_id path namespace port ''http'',
                 px_headers = filter_request_headers headers, px_body = body\<rparr>
      in case upstream req of
           Inl e \<Rightarrow> Inl e
         | Inr resp \<Rightarrow> Inr (req, resp\<lparr>ps_headers := filter_response_headers (ps_headers resp)\<rparr>))"

subsection \<open>WebSocket relay\<close>

text \<open>What a relay waits for. \<open>ClientOther\<close> is a message with neither text nor bytes (a disconnect),
  \<open>ClientDisconnect\<close> and \<open>UpstreamClosed\<close> are the exceptions of the two libraries, \<open>UpstreamEnd\<close> the end of the iteration, \<open>Tick\<close> the
  end of \<^verbatim>\<open>asyncio.sleep\<close>, \<open>SendFailed\<close> an exception while sending.\<close>

datatype ws_event =
    ClientBytes string
  | ClientText string
  | ClientOther
  | ClientDisconnect
  | UpstreamBytes string
  | UpstreamText string
  | UpstreamEnd
  | UpstreamClosed
  | SendFailed
  | Tick

datatype ws_message = WsBytes string | WsText string

definition WS_ACTIVITY_TOUCH_INTERVAL :: int where
  "WS_ACTIVITY_TOUCH_INTERVAL = 30"

record relay =
  rl_to_upstream :: "ws_message list"
  rl_to_client :: "ws_message list"
  rl_open :: bool

definition relay_message :: "ws_event \<Rightarrow> relay \<Rightarrow> relay" where
  "relay_message ev r =
     (case ev of
        ClientBytes m \<Rightarrow> if m \<noteq> '''' then r\<lparr>rl_to_upstream := rl_to_upstream r @ [WsBytes m]\<rparr> else r\<lparr>rl_open := False\<rparr>
      | ClientText m \<Rightarrow> if m \<noteq> '''' then r\<lparr>rl_to_upstream := rl_to_upstream r @ [WsText m]\<rparr> else r\<lparr>rl_open := False\<rparr>
      | UpstreamBytes m \<Rightarrow> r\<lparr>rl_to_client := rl_to_client r @ [WsBytes m]\<rparr>
      | UpstreamText m \<Rightarrow> r\<lparr>rl_to_client := rl_to_client r @ [WsText m]\<rparr>
      | Tick \<Rightarrow> r
      | _ \<Rightarrow> r\<lparr>rl_open := False\<rparr>)"

text \<open>The first of the three tasks that ends cancels the others.\<close>

fun relay_loop :: "(time \<Rightarrow> unit op) \<Rightarrow> (time \<times> ws_event) list \<Rightarrow> relay \<Rightarrow> relay op" where
  "relay_loop on_activity [] r = ret r"
| "relay_loop on_activity ((t, ev) # evs) r =
     ebind (if ev = Tick then best_effort (on_activity t) else ret ()) (\<lambda>_.
     let r' = relay_message ev r
     in if rl_open r' then relay_loop on_activity evs r' else ret r')"

definition relay_start :: relay where
  "relay_start = \<lparr>rl_to_upstream = [], rl_to_client = [], rl_open = True\<rparr>"

type_synonym ws_upstream = "string \<Rightarrow> exn + (time \<times> ws_event) list"

definition proxy_websocket ::
    "settings \<Rightarrow> web_settings \<Rightarrow> ws_upstream \<Rightarrow> time \<Rightarrow> string \<Rightarrow> string \<Rightarrow> string option \<Rightarrow> int option \<Rightarrow> (time \<Rightarrow> unit op) \<Rightarrow>
     (string \<times> relay) op" where
  "proxy_websocket cfg web ws_upstream now sandbox_id path namespace port on_activity =
     (let target_url = build_sandbox_url cfg web sandbox_id path namespace port ''ws''
      in case ws_upstream target_url of
           Inl e \<Rightarrow> raise e
         | Inr evs \<Rightarrow>
             ebind (best_effort (on_activity now)) (\<lambda>_.
             ebind (relay_loop on_activity evs relay_start) (\<lambda>r. ret (target_url, r))))"

subsection \<open>The HTTP endpoint\<close>

text \<open>\<^verbatim>\<open>_http_proxy_impl\<close> behind the dependency of its route.\<close>

definition http_proxy_impl ::
    "settings \<Rightarrow> web_settings \<Rightarrow> upstream \<Rightarrow> time \<Rightarrow> request \<Rightarrow> string \<Rightarrow> string \<Rightarrow> string \<Rightarrow> user \<Rightarrow> (proxied_request \<times> proxied_response) op" where
  "http_proxy_impl cfg web upstream now rq body sandbox_id path u =
     ebind (get_sandbox sandbox_id (us_id u)) (\<lambda>r.
     case r of
       None \<Rightarrow> raise (SandboxNotFoundError sandbox_id)
     | Some s \<Rightarrow>
         if sb_status s \<noteq> READY then raise (SandboxNotReadyError sandbox_id (status_str (sb_status s)))
         else
           let headers = headers_dict (rq_headers rq);
               full_path = (if rq_query_string rq \<noteq> '''' then path @ ''?'' @ rq_query_string rq else path)
           in case proxy_http_request cfg web upstream (rq_request_method rq) (k8s_name s) full_path headers body
                     (Some (sb_k8s_namespace s)) (Some (sandbox_port web)) of
                Inl e \<Rightarrow> raise (SandboxUnreachableError sandbox_id)
              | Inr result \<Rightarrow> ebind (touch_activity now sandbox_id) (\<lambda>_. ret result))"

definition http_proxy ::
    "lib \<Rightarrow> settings \<Rightarrow> web_settings \<Rightarrow> upstream \<Rightarrow> time \<Rightarrow> string option \<Rightarrow> user option \<Rightarrow> request \<Rightarrow> string \<Rightarrow> string \<Rightarrow> string \<Rightarrow>
     (proxied_request \<times> proxied_response) op" where
  "http_proxy lib cfg web upstream now credentials cookie_user rq body sandbox_id path =
     ebind (get_current_data_plane_user lib now credentials cookie_user (Some sandbox_id) rq) (\<lambda>(u, rq).
     http_proxy_impl cfg web upstream now rq body sandbox_id path u)"

definition http_proxy_root ::
    "lib \<Rightarrow> settings \<Rightarrow> web_settings \<Rightarrow> upstream \<Rightarrow> time \<Rightarrow> string option \<Rightarrow> user option \<Rightarrow> request \<Rightarrow> string \<Rightarrow> string \<Rightarrow>
     (proxied_request \<times> proxied_response) op" where
  "http_proxy_root lib cfg web upstream now credentials cookie_user rq body sandbox_id =
     http_proxy lib cfg web upstream now credentials cookie_user rq body sandbox_id ''''"

subsection \<open>The WebSocket endpoint\<close>

datatype ws_outcome = WsClosed int string | WsRelayed string relay

definition ws_secret :: "request \<Rightarrow> string option" where
  "ws_secret rq =
     (let auth_header = or_else (map_of (rq_headers rq) ''authorization'') '''';
          token_param = or_else (map_of (rq_query rq) ''token'') '''';
          secret = (if startswith (lower auth_header) ''bearer '' \<and> startswith (drop 7 auth_header) ''sk-''
                    then Some (drop 7 auth_header) else None)
      in if secret = None \<and> startswith token_param ''sk-'' then Some token_param else secret)"

definition ws_full_path :: "request \<Rightarrow> string \<Rightarrow> string" where
  "ws_full_path rq path =
     (if truthy (map_of (rq_query rq) ''token'')
      then let params = filter (\<lambda>(k, v). k \<noteq> ''token'') (parse_qsl (rq_query_string rq))
           in if params \<noteq> [] then path @ ''?'' @ urlencode params else path
      else if rq_query_string rq \<noteq> '''' then path @ ''?'' @ rq_query_string rq else path)"

text \<open>The checks of \<^verbatim>\<open>ws_proxy\<close>: the reason to close the socket, or the sandbox.\<close>

definition ws_admit :: "lib \<Rightarrow> time \<Rightarrow> request \<Rightarrow> string \<Rightarrow> (string + user \<times> sandbox) op" where
  "ws_admit lib now rq sandbox_id =
     (case ws_secret rq of
        None \<Rightarrow> ret (Inl ''API Key required.'')
      | Some secret \<Rightarrow>
          ebind (authenticate_api_key_value lib now secret) (\<lambda>auth_result.
          case auth_result of
            None \<Rightarrow> ret (Inl ''Invalid or expired API key.'')
          | Some (k, u) \<Rightarrow>
              if ak_data_plane_mode k = DP_NONE then ret (Inl ''This API key does not have data plane access.'')
              else ebind (if ak_data_plane_mode k = DP_SELECTED then select_one_or_none (selected_grant (ak_id k) sandbox_id)
                          else ret (Some sandbox_id)) (\<lambda>g.
                if g = None then ret (Inl ''This API key does not have access to this sandbox.'')
                else ebind (get_sandbox sandbox_id (us_id u)) (\<lambda>r.
                  case r of
                    None \<Rightarrow> ret (Inl ''Sandbox not found.'')
                  | Some s \<Rightarrow>
                      if sb_status s \<noteq> READY then ret (Inl ''Sandbox is not ready.'') else ret (Inr (u, s))))))"

definition ws_proxy :: "lib \<Rightarrow> settings \<Rightarrow> web_settings \<Rightarrow> ws_upstream \<Rightarrow> time \<Rightarrow> request \<Rightarrow> string \<Rightarrow> string \<Rightarrow> ws_outcome op" where
  "ws_proxy lib cfg web ws_upstream now rq sandbox_id path =
     ebind (ws_admit lib now rq sandbox_id) (\<lambda>admitted.
     case admitted of
       Inl reason \<Rightarrow> ret (WsClosed 1008 reason)
     | Inr (u, s) \<Rightarrow>
         try_catch
           (ebind (proxy_websocket cfg web ws_upstream now (k8s_name s) (ws_full_path rq path) (Some (sb_k8s_namespace s))
             (Some (sandbox_port web)) (\<lambda>t. touch_activity t sandbox_id)) (\<lambda>(url, r). ret (WsRelayed url r)))
           (\<lambda>_. ret (WsClosed 1011 ''Upstream connection failed.'')))"

end
