(* ===== verification/Sandbox_Web.thy ===== *)
theory Sandbox_Web
  imports User_Accounts Proxy
begin

text \<open>
  Access to a sandbox from a browser: tickets, cookies and open links (\<^verbatim>\<open>identity/services/browser_auth.py\<close>), the
  bootstrap endpoint (\<^verbatim>\<open>identity/services/browser_login.py\<close>, \<^verbatim>\<open>identity/api/browser.py\<close>) and the middleware that serves
  the subdomains of the sandboxes (\<^verbatim>\<open>proxy/middleware/sandbox_subdomain.py\<close>).

  A redirect keeps the URL that the code passes to \<^verbatim>\<open>RedirectResponse\<close>; the two HTML pages are reduced to their
  titles. What \<^verbatim>\<open>SimpleCookie().load\<close> reads from a cookie header is a parameter \<open>jar\<close>. Context keys that only the request
  log reads are left out.
\<close>

subsection \<open>Tickets and cookies\<close>

definition BOOTSTRAP_TICKET_TTL_SECONDS :: int where "BOOTSTRAP_TICKET_TTL_SECONDS = 300"
definition SANDBOX_WEB_COOKIE_NAME :: string where "SANDBOX_WEB_COOKIE_NAME = ''ts_bui''"
definition SANDBOX_WEB_COOKIE_TTL_SECONDS :: int where "SANDBOX_WEB_COOKIE_TTL_SECONDS = 30 * 24 * 60 * 60"

text \<open>PyJWT writes a datetime claim as whole seconds.\<close>

definition timestamp :: "time \<Rightarrow> int" where
  "timestamp t = t div 1000000"

definition build_open_link_token :: "string op" where
  "build_open_link_token = draw_id ''swl''"

definition build_open_link_url :: "string \<Rightarrow> string \<Rightarrow> string" where
  "build_open_link_url web_url token = rstrip_char (CHR ''/'') web_url @ ''/_treadstone/open?'' @ urlencode [(''token'', token)]"

definition issue_bootstrap_ticket :: "lib \<Rightarrow> time \<Rightarrow> string \<Rightarrow> string \<Rightarrow> string" where
  "issue_bootstrap_ticket lib now sandbox_id next_path =
     jwt_encode lib [(''kind'', MStr ''bootstrap''), (''sandbox_id'', MStr sandbox_id), (''next_path'', MStr next_path),
       (''exp'', MInt (timestamp (now + seconds BOOTSTRAP_TICKET_TTL_SECONDS)))]"

definition verify_bootstrap_ticket :: "lib \<Rightarrow> time \<Rightarrow> string \<Rightarrow> claims option" where
  "verify_bootstrap_ticket lib now token =
     (case jwt_decode lib now None token of
        None \<Rightarrow> None
      | Some payload \<Rightarrow> if claim_str payload ''kind'' \<noteq> Some ''bootstrap'' then None else Some payload)"

definition issue_sandbox_web_cookie :: "lib \<Rightarrow> time \<Rightarrow> string \<Rightarrow> string \<Rightarrow> string option \<Rightarrow> string" where
  "issue_sandbox_web_cookie lib now sandbox_id issued_via link_id =
     jwt_encode lib ([(''kind'', MStr ''sandbox_web''), (''sandbox_id'', MStr sandbox_id), (''issued_via'', MStr issued_via),
       (''exp'', MInt (timestamp (now + seconds SANDBOX_WEB_COOKIE_TTL_SECONDS)))] @
       (case link_id of None \<Rightarrow> [] | Some i \<Rightarrow> [(''link_id'', MStr i)]))"

definition verify_sandbox_web_cookie :: "lib \<Rightarrow> time \<Rightarrow> string \<Rightarrow> claims option" where
  "verify_sandbox_web_cookie lib now token =
     (case jwt_decode lib now None token of
        None \<Rightarrow> None
      | Some payload \<Rightarrow> if claim_str payload ''kind'' \<noteq> Some ''sandbox_web'' then None else Some payload)"

subsection \<open>The host of a sandbox\<close>

definition extract_sandbox_id :: "string \<Rightarrow> string \<Rightarrow> string \<Rightarrow> string option" where
  "extract_sandbox_id host base_domain prefix =
     (let host_no_port = lower (hd (split_on (CHR '':'') host));
          domain = lower base_domain
      in if \<not> endswith host_no_port (CHR ''.'' # domain) then None
         else let subdomain = take (length host_no_port - (length domain + 1)) host_no_port
              in if subdomain = '''' \<or> CHR ''.'' \<in> set subdomain then None
                 else if \<not> startswith subdomain prefix then None
                 else let sandbox_id = drop (length prefix) subdomain
                      in if sandbox_id \<noteq> '''' then Some sandbox_id else None)"

definition extract_sandbox_id_from_return_host :: "web_settings \<Rightarrow> string \<Rightarrow> string option" where
  "extract_sandbox_id_from_return_host web host =
     (if sandbox_domain web = '''' then None
      else let host_no_port = lower (hd (split_on (CHR '':'') host));
               domain = lower (sandbox_domain web)
           in if \<not> endswith host_no_port (CHR ''.'' # domain) then None
              else let subdomain = take (length host_no_port - (length domain + 1)) host_no_port
                   in if subdomain = '''' \<or> CHR ''.'' \<in> set subdomain then None
                      else if \<not> startswith subdomain (sandbox_subdomain_prefix web) then None
                      else let name = drop (length (sandbox_subdomain_prefix web)) subdomain
                           in if name \<noteq> '''' then Some name else None)"

record browser_target =
  bt_scheme :: string
  bt_netloc :: string
  bt_sandbox_id :: string
  bt_next_path :: string

definition validate_browser_return_to :: "lib \<Rightarrow> web_settings \<Rightarrow> string \<Rightarrow> exn + browser_target" where
  "validate_browser_return_to lib web return_to =
     (case urlparse (ipv6_ok lib) return_to of
        None \<Rightarrow> Inl value_error
      | Some u \<Rightarrow>
          if pu_scheme u \<notin> {''http'', ''https''} \<or> pu_netloc u = ''''
          then Inl (ValidationError ''return_to must be an absolute sandbox Web UI URL.'')
          else case extract_sandbox_id_from_return_host web (pu_netloc u) of
            None \<Rightarrow> Inl (ValidationError ''return_to must target a sandbox subdomain.'')
          | Some sandbox_id \<Rightarrow>
              let p = (if pu_path u = '''' then ''/'' else pu_path u);
                  p = (if pu_query u \<noteq> '''' then p @ ''?'' @ pu_query u else p);
                  p = (if pu_fragment u \<noteq> '''' then p @ ''#'' @ pu_fragment u else p)
              in Inr \<lparr>bt_scheme = pu_scheme u, bt_netloc = pu_netloc u, bt_sandbox_id = sandbox_id, bt_next_path = p\<rparr>)"

subsection \<open>The bootstrap endpoint\<close>

definition browser_bootstrap :: "lib \<Rightarrow> web_settings \<Rightarrow> time \<Rightarrow> string \<Rightarrow> user option \<Rightarrow> response op" where
  "browser_bootstrap lib web now return_to current_user =
     ebind (of_sum (validate_browser_return_to lib web return_to)) (\<lambda>t.
     case current_user of
       None \<Rightarrow> ret (redirect_response (''/auth/sign-in?'' @ urlencode [(''return_to'', return_to)]))
     | Some u \<Rightarrow>
         ebind (get_sandbox (bt_sandbox_id t) (us_id u)) (\<lambda>r.
         case r of
           None \<Rightarrow> raise (NotFoundError ''Sandbox'' (bt_sandbox_id t))
         | Some s \<Rightarrow>
             let ticket = issue_bootstrap_ticket lib now (sb_id s) (bt_next_path t)
             in ret (redirect_response (bt_scheme t @ ''://'' @ bt_netloc t @ ''/_treadstone/open?'' @
                  urlencode [(''ticket'', ticket), (''next'', bt_next_path t)]))))"

definition browser_login_page :: "string \<Rightarrow> string option \<Rightarrow> response" where
  "browser_login_page return_to error =
     redirect_response (''/auth/sign-in?'' @ urlencode ([(''return_to'', return_to)] @
       (if truthy error then [(''error'', the error)] else [])))"

subsection \<open>The middleware: helpers\<close>

definition html_not_found :: response where
  "html_not_found = json_response 404 (MStr ''Sandbox Not Found'')"

definition html_starting :: response where
  "html_starting = json_response 200 (MStr ''Sandbox Starting'')"

definition request_scheme :: "request \<Rightarrow> string" where
  "request_scheme rq =
     (let forwarded = map_of (rq_headers rq) ''x-forwarded-proto''
      in if truthy forwarded then strip (hd (split_on (CHR '','') (the forwarded))) else rq_scheme rq)"

definition sanitize_next_path :: "string option \<Rightarrow> string" where
  "sanitize_next_path v =
     (if \<not> truthy v then ''/''
      else if \<not> startswith (the v) ''/'' \<or> startswith (the v) ''//'' then ''/'' else the v)"

definition strip_internal_auth :: "(string \<Rightarrow> (string \<times> string) list) \<Rightarrow> (string \<times> string) list \<Rightarrow> (string \<times> string) list" where
  "strip_internal_auth jar headers =
     (let filtered = filter_request_headers headers;
          cookie_header = (if truthy (map_of filtered ''cookie'') then map_of filtered ''cookie'' else map_of filtered ''Cookie'')
      in if \<not> truthy cookie_header then filtered
         else let remaining = join ''; '' (map (\<lambda>(k, v). k @ ''='' @ v)
                    (filter (\<lambda>(k, v). k \<noteq> SANDBOX_WEB_COOKIE_NAME) (jar (the cookie_header))));
                  filtered = filter (\<lambda>(k, v). k \<notin> {''cookie'', ''Cookie''}) filtered
              in if remaining \<noteq> '''' then dict_set ''cookie'' remaining filtered else filtered)"

definition link_is_expired :: "time \<Rightarrow> web_link \<Rightarrow> bool" where
  "link_is_expired now l = (case wl_gmt_expires l of None \<Rightarrow> False | Some t \<Rightarrow> t \<le> now)"

definition load_sandbox :: "string \<Rightarrow> sandbox option op" where
  "load_sandbox sandbox_id = select_one_or_none (\<lambda>w. filter (\<lambda>s. sb_id s = sandbox_id \<and> sb_gmt_deleted s = None) (sandboxes w))"

definition touch_last_active :: "time \<Rightarrow> string \<Rightarrow> unit op" where
  "touch_last_active now sandbox_id =
     best_effort (ebind (modify (\<lambda>w. w\<lparr>sandboxes := update_where (\<lambda>s. sb_id s = sandbox_id \<and> sb_gmt_deleted s = None)
       (\<lambda>s. s\<lparr>sb_gmt_last_active := Some now\<rparr>) (sandboxes w)\<rparr>)) (\<lambda>_. commit))"

definition build_return_to :: "request \<Rightarrow> string \<Rightarrow> string" where
  "build_return_to rq host =
     (let base = request_scheme rq @ ''://'' @ host @ rq_path rq
      in if rq_query_string rq \<noteq> '''' then base @ ''?'' @ rq_query_string rq else base)"

definition build_bootstrap_redirect :: "web_settings \<Rightarrow> request \<Rightarrow> string \<Rightarrow> string" where
  "build_bootstrap_redirect web rq host =
     app_url web ''/v1/browser/bootstrap?'' @ urlencode [(''return_to'', build_return_to rq host)]"

definition set_sandbox_cookie :: "lib \<Rightarrow> web_settings \<Rightarrow> time \<Rightarrow> string \<Rightarrow> string \<Rightarrow> string option \<Rightarrow> response \<Rightarrow> response" where
  "set_sandbox_cookie lib web now sandbox_id issued_via link_id r =
     set_cookie \<lparr>co_key = SANDBOX_WEB_COOKIE_NAME, co_value = issue_sandbox_web_cookie lib now sandbox_id issued_via link_id,
       co_max_age = SANDBOX_WEB_COOKIE_TTL_SECONDS, co_secure = (\<not> debug web)\<rparr> r"

definition load_active_web_link :: "time \<Rightarrow> string \<Rightarrow> web_link option op" where
  "load_active_web_link now sandbox_id =
     ebind (select_one_or_none (\<lambda>w. filter (\<lambda>l. wl_sandbox_id l = sandbox_id \<and> wl_gmt_deleted l = None) (web_links w))) (\<lambda>r.
     case r of None \<Rightarrow> ret None | Some l \<Rightarrow> ret (if link_is_expired now l then None else Some l))"

definition validate_sandbox_cookie :: "lib \<Rightarrow> time \<Rightarrow> sandbox \<Rightarrow> string option \<Rightarrow> bool op" where
  "validate_sandbox_cookie lib now s token =
     (if \<not> truthy token then ret False
      else case verify_sandbox_web_cookie lib now (the token) of
        None \<Rightarrow> ret False
      | Some payload \<Rightarrow>
          if claim_str payload ''sandbox_id'' \<noteq> Some (sb_id s) then ret False
          else if claim_str payload ''issued_via'' \<noteq> Some ''open_link'' then ret True
          else let link_id = claim_str payload ''link_id''
               in if \<not> truthy link_id then ret False
                  else ebind (load_active_web_link now (sb_id s)) (\<lambda>active_link.
                       ret (map_option wl_id active_link = link_id)))"

subsection \<open>The middleware: open credentials\<close>

text \<open>A ticket of the program carries its path as a string; \<^verbatim>\<open>str\<close> of any other value does not start with a slash.\<close>

definition ticket_path :: "claims \<Rightarrow> string \<Rightarrow> string" where
  "ticket_path payload next_path =
     (case map_of payload ''next_path'' of None \<Rightarrow> next_path | Some (MStr p) \<Rightarrow> p | Some _ \<Rightarrow> '''')"

definition exchange_open_credentials :: "lib \<Rightarrow> web_settings \<Rightarrow> time \<Rightarrow> request \<Rightarrow> sandbox \<Rightarrow> response op" where
  "exchange_open_credentials lib web now rq s =
     (let rq = set_scope_context [(''sandbox_id'', Some (sb_id s))] rq;
          ticket = map_of (rq_query rq) ''ticket'';
          token = map_of (rq_query rq) ''token'';
          next_path = sanitize_next_path (map_of (rq_query rq) ''next'')
      in if truthy ticket
         then case verify_bootstrap_ticket lib now (the ticket) of
                None \<Rightarrow> ret (json_response 401 (MStr ''Invalid or expired bootstrap ticket.''))
              | Some payload \<Rightarrow>
                  if claim_str payload ''sandbox_id'' \<noteq> Some (sb_id s)
                  then ret (json_response 401 (MStr ''Invalid or expired bootstrap ticket.''))
                  else ebind (touch_last_active now (sb_id s)) (\<lambda>_.
                       ret (set_sandbox_cookie lib web now (sb_id s) ''bootstrap'' None
                         (redirect_response (sanitize_next_path (Some (ticket_path payload next_path))))))
         else if truthy token
         then ebind (select_one_or_none (\<lambda>w. filter (\<lambda>l. wl_sandbox_id l = sb_id s \<and> wl_id l = the token \<and> wl_gmt_deleted l = None)
                (web_links w))) (\<lambda>r.
              if r = None \<or> link_is_expired now (the r)
              then ebind (audit_failure rq ''sandbox.web_link.open'' ''sandbox'' (Some (sb_id s)) ''sandbox_web_link_invalid''
                     [(''issued_via'', MStr ''open_link'')]) (\<lambda>_.
                   ebind commit (\<lambda>_. ret (json_response 401 (MStr ''Invalid or expired sandbox web link.''))))
              else ebind (modify (\<lambda>w. w\<lparr>web_links := update_where (\<lambda>l. wl_id l = wl_id (the r))
                     (\<lambda>l. l\<lparr>wl_gmt_last_used := Some now, wl_gmt_updated := now\<rparr>) (web_links w)\<rparr>)) (\<lambda>_.
                   ebind (set_sandbox (sb_id s) (\<lambda>s. s\<lparr>sb_gmt_last_active := Some now\<rparr>)) (\<lambda>_.
                   ebind (audit_success rq ''sandbox.web_link.open'' ''sandbox'' (Some (sb_id s))
                     [(''issued_via'', MStr ''open_link'')]) (\<lambda>_.
                   ebind commit (\<lambda>_.
                   ret (set_sandbox_cookie lib web now (sb_id s) ''open_link'' (Some (wl_id (the r))) (redirect_response next_path)))))))
         else ret (json_response 400 (MStr ''Missing sandbox web credential.'')))"

subsection \<open>The middleware: requests\<close>

datatype scope_type = SCOPE_HTTP | SCOPE_WEBSOCKET | SCOPE_OTHER

text \<open>\<open>ToApp\<close> hands the request to the application behind the middleware.\<close>

datatype web_outcome =
    ToApp
  | Sent response
  | Forwarded proxied_request proxied_response
  | Socket ws_outcome

definition subdomain_proxy_http ::
    "(string \<Rightarrow> (string \<times> string) list) \<Rightarrow> settings \<Rightarrow> web_settings \<Rightarrow> upstream \<Rightarrow> request \<Rightarrow> string \<Rightarrow> sandbox \<Rightarrow>
     exn + (proxied_request \<times> proxied_response)" where
  "subdomain_proxy_http jar cfg web upstream rq body s =
     (let full_path = (if rq_query_string rq \<noteq> '''' then rq_path rq @ ''?'' @ rq_query_string rq else rq_path rq);
          req = \<lparr>px_request_method = rq_request_method rq,
                 px_url = build_sandbox_url cfg web (k8s_name s) full_path None None ''http'',
                 px_headers = strip_internal_auth jar (headers_dict (rq_headers rq)), px_body = body\<rparr>
      in case upstream req of
           Inl e \<Rightarrow> Inl e
         | Inr resp \<Rightarrow> Inr (req, resp\<lparr>ps_headers := filter_response_headers (ps_headers resp)\<rparr>))"

definition handle_http ::
    "(string \<Rightarrow> (string \<times> string) list) \<Rightarrow> lib \<Rightarrow> settings \<Rightarrow> web_settings \<Rightarrow> upstream \<Rightarrow> time \<Rightarrow> request \<Rightarrow> string \<Rightarrow> string \<Rightarrow> string \<Rightarrow>
     web_outcome op" where
  "handle_http jar lib cfg web upstream now rq body sandbox_id host =
     ebind (load_sandbox sandbox_id) (\<lambda>r.
     case r of
       None \<Rightarrow> ret (Sent html_not_found)
     | Some s \<Rightarrow>
         if rq_path rq = ''/_treadstone/open''
         then ebind (exchange_open_credentials lib web now rq s) (\<lambda>resp. ret (Sent resp))
         else ebind (validate_sandbox_cookie lib now s (map_of (rq_cookies rq) SANDBOX_WEB_COOKIE_NAME)) (\<lambda>valid.
              if \<not> valid then ret (Sent (redirect_response (build_bootstrap_redirect web rq host)))
              else if sb_status s \<noteq> READY then ret (Sent html_starting)
              else case subdomain_proxy_http jar cfg web upstream rq body s of
                     Inl e \<Rightarrow> ret (Sent html_starting)
                   | Inr (req, resp) \<Rightarrow> ebind (touch_last_active now (sb_id s)) (\<lambda>_. ret (Forwarded req resp))))"

definition handle_websocket ::
    "lib \<Rightarrow> settings \<Rightarrow> web_settings \<Rightarrow> ws_upstream \<Rightarrow> time \<Rightarrow> request \<Rightarrow> string \<Rightarrow> web_outcome op" where
  "handle_websocket lib cfg web ws_upstream now rq sandbox_id =
     ebind (load_sandbox sandbox_id) (\<lambda>r.
     if r = None \<or> sb_status (the r) \<noteq> READY then ret (Socket (WsClosed 1008 ''''))
     else let s = the r
          in ebind (validate_sandbox_cookie lib now s (map_of (rq_cookies rq) SANDBOX_WEB_COOKIE_NAME)) (\<lambda>valid.
             if \<not> valid then ret (Socket (WsClosed 1008 ''''))
             else let path = (if rq_query_string rq \<noteq> '''' then rq_path rq @ ''?'' @ rq_query_string rq else rq_path rq)
                  in try_catch
                       (ebind (proxy_websocket cfg web ws_upstream now (k8s_name s) path None None (\<lambda>t. touch_last_active t (sb_id s)))
                         (\<lambda>(url, relay). ret (Socket (WsRelayed url relay))))
                       (\<lambda>_. ret (Socket (WsClosed 1011 ''upstream connection failed'')))))"

definition subdomain_middleware ::
    "(string \<Rightarrow> (string \<times> string) list) \<Rightarrow> lib \<Rightarrow> settings \<Rightarrow> web_settings \<Rightarrow> upstream \<Rightarrow> ws_upstream \<Rightarrow> time \<Rightarrow> scope_type \<Rightarrow>
     request \<Rightarrow> string \<Rightarrow> web_outcome op" where
  "subdomain_middleware jar lib cfg web upstream ws_upstream now scope rq body =
     (if sandbox_domain web = '''' then ret ToApp
      else if scope = SCOPE_OTHER then ret ToApp
      else let host = map_of (rq_headers rq) ''host'';
               sandbox_id = (if truthy host then extract_sandbox_id (the host) (sandbox_domain web) (sandbox_subdomain_prefix web)
                             else None)
           in case sandbox_id of
                None \<Rightarrow> ret ToApp
              | Some sid \<Rightarrow>
                  if scope = SCOPE_HTTP then handle_http jar lib cfg web upstream now rq body sid (the host)
                  else handle_websocket lib cfg web ws_upstream now rq sid)"

end
