(* ===== verification/Cli_Login.thy ===== *)
theory Cli_Login
  imports User_Accounts
begin

text \<open>
  The browser login of the command line client (\<^verbatim>\<open>identity/api/cli_auth.py\<close>, \<^verbatim>\<open>identity/services/cli_login_flow.py\<close>,
  \<^verbatim>\<open>identity/models/cli_login_flow.py\<close>, and the helpers of \<^verbatim>\<open>identity/api/auth.py\<close> for flows).

  Between the first query of a handler and its \<^verbatim>\<open>UPDATE\<close> other requests may run. Each handler is therefore given in two
  parts, what it reads and decides (\<open>_begin\<close>) and what it then writes (\<open>_finish\<close>), and as their composition.
\<close>

subsection \<open>Flows\<close>

definition CLI_FLOW_TTL_SECONDS :: int where
  "CLI_FLOW_TTL_SECONDS = 600"

definition hash_flow_secret :: "lib \<Rightarrow> string \<Rightarrow> string" where
  "hash_flow_secret lib raw = sha256_hex lib raw"

definition get_flow :: "string \<Rightarrow> cli_login_flow option op" where
  "get_flow flow_id = select_one_or_none (\<lambda>w. filter (\<lambda>f. cf_id f = flow_id) (cli_login_flows w))"

definition get_flow_or_404 :: "string \<Rightarrow> cli_login_flow op" where
  "get_flow_or_404 flow_id =
     ebind (get_flow flow_id) (\<lambda>r. case r of None \<Rightarrow> raise (NotFoundError ''CLI login flow'' flow_id) | Some f \<Rightarrow> ret f)"

definition verify_flow_secret :: "lib \<Rightarrow> cli_login_flow \<Rightarrow> string option \<Rightarrow> unit op" where
  "verify_flow_secret lib f raw_secret =
     (if \<not> truthy raw_secret then raise (AuthRequiredError ''Missing flow secret.'')
      else if hash_flow_secret lib (the raw_secret) \<noteq> cf_flow_secret_hash f then raise (AuthRequiredError ''Invalid flow secret.'')
      else ret ())"

definition effective_status :: "time \<Rightarrow> cli_login_flow \<Rightarrow> flow_status" where
  "effective_status now f = (if cf_status f = FLOW_PENDING \<and> cf_gmt_expires f < now then FLOW_EXPIRED else cf_status f)"

definition flow_status_str :: "flow_status \<Rightarrow> string" where
  "flow_status_str s = (case s of FLOW_PENDING \<Rightarrow> ''pending'' | FLOW_APPROVED \<Rightarrow> ''approved'' | FLOW_USED \<Rightarrow> ''used''
     | FLOW_FAILED \<Rightarrow> ''failed'' | FLOW_EXPIRED \<Rightarrow> ''expired'')"

definition validate_cli_flow_secret :: "lib \<Rightarrow> string \<Rightarrow> string option \<Rightarrow> cli_login_flow op" where
  "validate_cli_flow_secret lib flow_id raw_secret =
     ebind (get_flow_or_404 flow_id) (\<lambda>f. ebind (verify_flow_secret lib f raw_secret) (\<lambda>_. ret f))"

text \<open>The two transitions, each one \<^verbatim>\<open>UPDATE ... WHERE\<close> whose row count is the result.\<close>

definition approve_transition :: "time \<Rightarrow> string \<Rightarrow> string \<Rightarrow> string \<Rightarrow> bool op" where
  "approve_transition now flow_id user_id provider = (\<lambda>w.
     let p = (\<lambda>f. cf_id f = flow_id \<and> cf_status f = FLOW_PENDING)
     in (Inr (length (filter p (cli_login_flows w)) = 1),
         w\<lparr>cli_login_flows := update_where p (\<lambda>f. f\<lparr>cf_status := FLOW_APPROVED, cf_user_id := Some user_id,
           cf_provider := Some provider, cf_gmt_completed := Some now\<rparr>) (cli_login_flows w)\<rparr>))"

definition consume_cli_flow :: "string \<Rightarrow> bool op" where
  "consume_cli_flow flow_id = (\<lambda>w.
     let p = (\<lambda>f. cf_id f = flow_id \<and> cf_status f = FLOW_APPROVED)
     in (Inr (length (filter p (cli_login_flows w)) = 1),
         w\<lparr>cli_login_flows := update_where p (\<lambda>f. f\<lparr>cf_status := FLOW_USED\<rparr>) (cli_login_flows w)\<rparr>))"

subsection \<open>Creating and polling\<close>

record flow_view =
  fv_flow_id :: string
  fv_flow_secret :: string
  fv_browser_url :: string
  fv_expires_at :: time
  fv_poll_interval :: int

definition create_cli_flow :: "lib \<Rightarrow> web_settings \<Rightarrow> time \<Rightarrow> flow_view op" where
  "create_cli_flow lib web now =
     transaction (
       ebind (draw_id '''') (\<lambda>raw_secret.
       ebind (draw_id ''clf'') (\<lambda>fid.
       let f = \<lparr>cf_id = fid, cf_flow_secret_hash = hash_flow_secret lib raw_secret, cf_status = FLOW_PENDING, cf_user_id = None,
                cf_provider = None, cf_gmt_created = now, cf_gmt_expires = now + seconds CLI_FLOW_TTL_SECONDS,
                cf_gmt_completed = None\<rparr>
       in ebind (gets (\<lambda>w. fid \<in> set (map cf_id (cli_login_flows w)))) (\<lambda>taken.
          if taken then raise IntegrityError
          else ebind (modify (\<lambda>w. w\<lparr>cli_login_flows := cli_login_flows w @ [f]\<rparr>)) (\<lambda>_.
               ebind commit (\<lambda>_.
               ret \<lparr>fv_flow_id = fid, fv_flow_secret = raw_secret,
                    fv_browser_url = app_url web ''/auth/cli/login?'' @ urlencode [(''flow_id'', fid), (''flow_secret'', raw_secret)],
                    fv_expires_at = cf_gmt_expires f, fv_poll_interval = 2\<rparr>))))))"

definition poll_cli_flow :: "lib \<Rightarrow> time \<Rightarrow> string \<Rightarrow> string option \<Rightarrow> flow_status op" where
  "poll_cli_flow lib now flow_id x_flow_secret =
     ebind (validate_cli_flow_secret lib flow_id x_flow_secret) (\<lambda>f. ret (effective_status now f))"

subsection \<open>Exchanging\<close>

text \<open>The flow, the user it was approved for and the token that was written for him.\<close>

record exchange =
  xc_flow_id :: string
  xc_user_id :: string
  xc_token :: string

definition exchange_begin :: "lib \<Rightarrow> time \<Rightarrow> string \<Rightarrow> string option \<Rightarrow> exchange op" where
  "exchange_begin lib now flow_id x_flow_secret =
     ebind (validate_cli_flow_secret lib flow_id x_flow_secret) (\<lambda>f.
     let status = effective_status now f
     in if status = FLOW_EXPIRED then raise (BadRequestError ''CLI login flow has expired.'')
        else if status = FLOW_USED then raise (BadRequestError ''CLI login flow has already been used.'')
        else if status \<noteq> FLOW_APPROVED
        then raise (BadRequestError (''CLI login flow is not approved (status: '' @ flow_status_str status @ '').''))
        else ebind (gets (\<lambda>w. find (\<lambda>u. Some (us_id u) = cf_user_id f) (users w))) (\<lambda>r.
          case r of
            None \<Rightarrow> raise (BadRequestError ''User associated with this flow no longer exists.'')
          | Some u \<Rightarrow> ret \<lparr>xc_flow_id = cf_id f, xc_user_id = us_id u, xc_token = write_token lib now u\<rparr>))"

definition exchange_finish :: "exchange \<Rightarrow> string op" where
  "exchange_finish x =
     ebind (consume_cli_flow (xc_flow_id x)) (\<lambda>consumed.
     if \<not> consumed then raise (BadRequestError ''CLI login flow has already been used.'')
     else ebind commit (\<lambda>_. ret (xc_token x)))"

definition exchange_cli_flow :: "lib \<Rightarrow> time \<Rightarrow> string \<Rightarrow> string option \<Rightarrow> string op" where
  "exchange_cli_flow lib now flow_id x_flow_secret = ebind (exchange_begin lib now flow_id x_flow_secret) exchange_finish"

subsection \<open>Approving\<close>

definition cli_login_page :: "string \<Rightarrow> string option \<Rightarrow> string option \<Rightarrow> response" where
  "cli_login_page flow_id flow_secret error =
     redirect_response (''/auth/cli/login?'' @ urlencode ([(''flow_id'', flow_id)] @
       (if truthy flow_secret then [(''flow_secret'', the flow_secret)] else []) @
       (if truthy error then [(''error'', the error)] else [])))"

text \<open>Who approves which flow, and how.\<close>

record approval =
  ap_flow_id :: string
  ap_user :: user
  ap_provider :: string

definition pending_flow :: "lib \<Rightarrow> time \<Rightarrow> string \<Rightarrow> string option \<Rightarrow> cli_login_flow op" where
  "pending_flow lib now flow_id raw_secret =
     ebind (validate_cli_flow_secret lib flow_id raw_secret) (\<lambda>f.
     if effective_status now f \<noteq> FLOW_PENDING
     then raise (BadRequestError ''CLI login flow has already been used or has expired.'') else ret f)"

definition cli_login_begin :: "lib \<Rightarrow> time \<Rightarrow> request \<Rightarrow> string \<Rightarrow> string \<Rightarrow> string \<Rightarrow> string \<Rightarrow> approval op" where
  "cli_login_begin lib now rq email password flow_id flow_secret =
     ebind (pending_flow lib now flow_id (Some flow_secret)) (\<lambda>f.
     ebind (try_catch (authenticate_email_password lib email password) (\<lambda>e.
       case e of
         BadRequestError _ \<Rightarrow>
           ebind (audit_failure rq ''auth.login'' ''user'' None ''bad_request'' [(''email'', MStr email), (''surface'', MStr ''cli'')]) (\<lambda>_.
           ebind commit (\<lambda>_. raise e))
       | _ \<Rightarrow> raise e)) (\<lambda>u.
     ret \<lparr>ap_flow_id = cf_id f, ap_user = u, ap_provider = ''email''\<rparr>))"

definition approve_begin :: "lib \<Rightarrow> time \<Rightarrow> string \<Rightarrow> string option \<Rightarrow> user option \<Rightarrow> approval op" where
  "approve_begin lib now flow_id x_flow_secret current_user =
     (case current_user of
        None \<Rightarrow> raise (AuthRequiredError ''You must be signed in to approve a CLI login flow.'')
      | Some u \<Rightarrow>
          ebind (pending_flow lib now flow_id x_flow_secret) (\<lambda>f.
          ret \<lparr>ap_flow_id = cf_id f, ap_user = u, ap_provider = ''session''\<rparr>))"

definition approve_finish :: "time \<Rightarrow> request \<Rightarrow> approval \<Rightarrow> string op" where
  "approve_finish now rq a =
     ebind (approve_transition now (ap_flow_id a) (us_id (ap_user a)) (ap_provider a)) (\<lambda>approved.
     if \<not> approved then raise (BadRequestError ''CLI login flow has already been used or has expired.'')
     else ebind (audit_success (set_scope_context [(''actor_user_id'', Some (us_id (ap_user a))), (''credential_type'', Some ''cookie'')] rq)
            ''auth.login'' ''user'' (Some (us_id (ap_user a)))
            [(''email'', MStr (us_email (ap_user a))), (''provider'', MStr (ap_provider a)), (''surface'', MStr ''cli'')]) (\<lambda>_.
          ebind commit (\<lambda>_. ret ''approved'')))"

definition cli_login_submit :: "lib \<Rightarrow> time \<Rightarrow> request \<Rightarrow> string \<Rightarrow> string \<Rightarrow> string \<Rightarrow> string \<Rightarrow> string op" where
  "cli_login_submit lib now rq email password flow_id flow_secret =
     ebind (cli_login_begin lib now rq email password flow_id flow_secret) (approve_finish now rq)"

definition approve_cli_flow :: "lib \<Rightarrow> time \<Rightarrow> request \<Rightarrow> string \<Rightarrow> string option \<Rightarrow> user option \<Rightarrow> string op" where
  "approve_cli_flow lib now rq flow_id x_flow_secret current_user =
     ebind (approve_begin lib now flow_id x_flow_secret current_user) (approve_finish now rq)"

subsection \<open>Flows of an OAuth login\<close>

definition validate_cli_flow_pending :: "lib \<Rightarrow> time \<Rightarrow> string \<Rightarrow> string option \<Rightarrow> unit op" where
  "validate_cli_flow_pending lib now cli_flow_id cli_flow_secret =
     ebind (get_flow cli_flow_id) (\<lambda>r.
     case r of
       None \<Rightarrow> raise (BadRequestError ''CLI login flow is invalid or already completed.'')
     | Some f \<Rightarrow>
         if cli_flow_secret \<noteq> None \<and> hash_flow_secret lib (the cli_flow_secret) \<noteq> cf_flow_secret_hash f
         then raise (AuthRequiredError ''Invalid flow secret.'')
         else if cf_status f \<noteq> FLOW_PENDING then raise (BadRequestError ''CLI login flow is invalid or already completed.'')
         else if cf_gmt_expires f < now then raise (BadRequestError ''CLI login flow has expired.'')
         else ret ())"

text \<open>The ORM writes the changed columns of the loaded flow, whatever its status has become.\<close>

definition fail_begin :: "string \<Rightarrow> bool op" where
  "fail_begin cli_flow_id =
     ebind (get_flow cli_flow_id) (\<lambda>r.
     ret (case r of None \<Rightarrow> False | Some f \<Rightarrow> cf_status f = FLOW_PENDING))"

definition fail_finish :: "time \<Rightarrow> string \<Rightarrow> unit op" where
  "fail_finish now cli_flow_id =
     ebind (modify (\<lambda>w. w\<lparr>cli_login_flows := update_where (\<lambda>f. cf_id f = cli_flow_id)
       (\<lambda>f. f\<lparr>cf_status := FLOW_FAILED, cf_gmt_completed := Some now\<rparr>) (cli_login_flows w)\<rparr>)) (\<lambda>_. commit)"

definition fail_cli_flow :: "time \<Rightarrow> string \<Rightarrow> unit op" where
  "fail_cli_flow now cli_flow_id =
     ebind (fail_begin cli_flow_id) (\<lambda>pending. if pending then fail_finish now cli_flow_id else ret ())"

definition cli_oauth_redirect :: "string \<Rightarrow> string \<Rightarrow> string option \<Rightarrow> response" where
  "cli_oauth_redirect cli_flow_id outcome error =
     redirect_response (''/auth/cli/login?'' @ urlencode ([(''flow_id'', cli_flow_id), (''result'', outcome)] @
       (if truthy error then [(''error'', the error)] else [])))"

end
