(* ===== verification/OAuth_Login.thy ===== *)
theory OAuth_Login
  imports Sandbox_Web Cli_Login
begin

text \<open>
  Login with Google and GitHub (\<^verbatim>\<open>identity/api/auth.py\<close>, lines on OAuth).

  The client of the provider is a parameter: the authorization URL, the exchange of the code for a token and the
  profile behind a token. \<open>oc_upsert\<close> stands for \<^verbatim>\<open>UserManager.oauth_callback\<close> of fastapi-users: the user that the account belongs
  to, whether it had to be created, and the database after the library's commits; the hook \<open>on_after_register\<close> of the program
  runs for a created user. \<^verbatim>\<open>secrets.token_urlsafe\<close> draws a value of the id source.
\<close>

subsection \<open>The provider\<close>

record github_email =
  ge_email :: "string option"
  ge_primary :: bool
  ge_verified :: bool

record oauth_client =
  oc_authorization_url :: "string \<Rightarrow> string \<Rightarrow> string \<Rightarrow> string"
  oc_access_token :: "string \<Rightarrow> string \<Rightarrow> exn + string"
  oc_id_email :: "string \<Rightarrow> exn + (string \<times> string option)"
  oc_profile_id :: "string \<Rightarrow> exn + string"
  oc_emails :: "string \<Rightarrow> exn + github_email list"
  oc_upsert :: "time \<Rightarrow> string \<Rightarrow> string \<Rightarrow> string \<Rightarrow> world \<Rightarrow> exn + (string \<times> bool \<times> world)"

definition OAUTH_STATE_AUDIENCE :: string where "OAUTH_STATE_AUDIENCE = ''treadstone:oauth-state''"
definition OAUTH_STATE_TTL_SECONDS :: int where "OAUTH_STATE_TTL_SECONDS = 600"

definition oauth_csrf_cookie_name :: "string \<Rightarrow> string" where
  "oauth_csrf_cookie_name provider = ''oauth_'' @ provider @ ''_csrf''"

definition oauth_return_to_cookie_name :: "string \<Rightarrow> string" where
  "oauth_return_to_cookie_name provider = ''oauth_'' @ provider @ ''_return_to''"

definition oauth_callback_url :: "web_settings \<Rightarrow> string \<Rightarrow> string" where
  "oauth_callback_url web provider = app_url web (''/v1/auth/'' @ provider @ ''/callback'')"

definition provider_title :: "string \<Rightarrow> string" where
  "provider_title provider =
     (if provider = ''google'' then ''Google'' else if provider = ''github'' then ''Github'' else provider)"

definition oauth_configured :: "web_settings \<Rightarrow> string \<Rightarrow> bool" where
  "oauth_configured web provider \<longleftrightarrow>
     provider = ''google'' \<and> google_oauth_client_id web \<noteq> '''' \<and> google_oauth_client_secret web \<noteq> '''' \<or>
     provider = ''github'' \<and> github_oauth_client_id web \<noteq> '''' \<and> github_oauth_client_secret web \<noteq> ''''"

definition get_oauth_client :: "web_settings \<Rightarrow> string \<Rightarrow> unit op" where
  "get_oauth_client web provider =
     (if oauth_configured web provider then ret ()
      else raise (BadRequestError (provider_title provider @ '' OAuth is not configured.'')))"

definition github_verified_email :: "github_email list \<Rightarrow> string option" where
  "github_verified_email emails =
     (case find (\<lambda>e. ge_primary e \<and> ge_verified e \<and> truthy (ge_email e)) emails of
        Some e \<Rightarrow> ge_email e
      | None \<Rightarrow>
          (case find (\<lambda>e. ge_verified e \<and> truthy (ge_email e)) emails of Some e \<Rightarrow> ge_email e | None \<Rightarrow> None))"

definition get_oauth_identity :: "oauth_client \<Rightarrow> string \<Rightarrow> string \<Rightarrow> exn + (string \<times> string option)" where
  "get_oauth_identity oc provider access_token =
     (if provider = ''github''
      then case oc_profile_id oc access_token of
             Inl e \<Rightarrow> Inl e
           | Inr i \<Rightarrow> map_sum id (\<lambda>emails. (i, github_verified_email emails)) (oc_emails oc access_token)
      else oc_id_email oc access_token)"

subsection \<open>State and cookies\<close>

definition oauth_state_payload :: "lib \<Rightarrow> time \<Rightarrow> string \<Rightarrow> string \<Rightarrow> string option \<Rightarrow> string option \<Rightarrow> string" where
  "oauth_state_payload lib now provider csrf_token return_to cli_flow_id =
     jwt_encode lib ([(''aud'', MStr OAUTH_STATE_AUDIENCE), (''provider'', MStr provider), (''csrf'', MStr csrf_token),
       (''exp'', MInt (timestamp now + OAUTH_STATE_TTL_SECONDS))] @
       (case return_to of None \<Rightarrow> [] | Some r \<Rightarrow> [(''return_to'', MStr r)]) @
       (case cli_flow_id of None \<Rightarrow> [] | Some i \<Rightarrow> [(''cli_flow_id'', MStr i)]))"

definition decode_oauth_state :: "lib \<Rightarrow> time \<Rightarrow> string \<Rightarrow> exn + claims" where
  "decode_oauth_state lib now state =
     (case jwt_decode lib now (Some OAUTH_STATE_AUDIENCE) state of
        None \<Rightarrow> Inl (BadRequestError ''Invalid or expired OAuth state.'') | Some p \<Rightarrow> Inr p)"

definition set_oauth_flow_cookies :: "lib \<Rightarrow> web_settings \<Rightarrow> string \<Rightarrow> string \<Rightarrow> string option \<Rightarrow> response \<Rightarrow> response" where
  "set_oauth_flow_cookies lib web provider csrf_token return_to r =
     (let r = set_cookie \<lparr>co_key = oauth_csrf_cookie_name provider, co_value = csrf_token, co_max_age = OAUTH_STATE_TTL_SECONDS,
                co_secure = should_use_secure_cookies lib web\<rparr> r
      in case return_to of
           None \<Rightarrow> r
         | Some v \<Rightarrow> set_cookie \<lparr>co_key = oauth_return_to_cookie_name provider, co_value = v, co_max_age = OAUTH_STATE_TTL_SECONDS,
             co_secure = should_use_secure_cookies lib web\<rparr> r)"

definition clear_oauth_flow_cookies :: "string \<Rightarrow> response \<Rightarrow> response" where
  "clear_oauth_flow_cookies provider r =
     delete_cookie (oauth_return_to_cookie_name provider) (delete_cookie (oauth_csrf_cookie_name provider) r)"

definition oauth_error_message :: "string \<Rightarrow> string \<Rightarrow> string option \<Rightarrow> string" where
  "oauth_error_message provider error error_description =
     (if error = ''access_denied'' then provider_title provider @ '' login was cancelled.''
      else if truthy error_description then the error_description else provider_title provider @ '' login failed.'')"

definition oauth_login_redirect :: "string \<Rightarrow> string \<Rightarrow> response" where
  "oauth_login_redirect return_to message =
     redirect_response (''/auth/sign-in?'' @ urlencode [(''return_to'', return_to), (''error'', message)])"

definition resolve_browser_return_to :: "lib \<Rightarrow> web_settings \<Rightarrow> request \<Rightarrow> string \<Rightarrow> claims option \<Rightarrow> exn + string option" where
  "resolve_browser_return_to lib web rq provider state_payload =
     (let from_state = Option.bind state_payload (\<lambda>p. claim_str p ''return_to'');
          from_cookie = map_of (rq_cookies rq) (oauth_return_to_cookie_name provider);
          chosen = (if truthy from_state then from_state else from_cookie)
      in if truthy chosen then map_sum id (\<lambda>_. chosen) (validate_browser_return_to lib web (the chosen)) else Inr None)"

subsection \<open>Authorize\<close>

definition oauth_authorize ::
    "lib \<Rightarrow> web_settings \<Rightarrow> oauth_client \<Rightarrow> time \<Rightarrow> string \<Rightarrow> string option \<Rightarrow> string option \<Rightarrow> string option \<Rightarrow> response op" where
  "oauth_authorize lib web oc now provider return_to cli_flow_id cli_flow_secret =
     ebind (get_oauth_client web provider) (\<lambda>_.
     if return_to \<noteq> None \<and> cli_flow_id \<noteq> None then raise (BadRequestError ''Cannot specify both return_to and cli_flow_id.'')
     else if return_to \<noteq> None \<and> cli_flow_secret \<noteq> None
     then raise (BadRequestError ''Cannot specify both return_to and cli_flow_secret.'')
     else
       ebind (case return_to of None \<Rightarrow> ret () | Some r \<Rightarrow> ebind (of_sum (validate_browser_return_to lib web r)) (\<lambda>_. ret ())) (\<lambda>_.
       ebind (case cli_flow_id of
           None \<Rightarrow> ret ()
         | Some i \<Rightarrow>
             if \<not> truthy cli_flow_secret then raise (AuthRequiredError ''Missing flow secret.'')
             else validate_cli_flow_pending lib now i cli_flow_secret) (\<lambda>_.
       ebind (draw_id '''') (\<lambda>csrf_token.
       let state = oauth_state_payload lib now provider csrf_token return_to cli_flow_id;
           url = oc_authorization_url oc provider (oauth_callback_url web provider) state
       in ret (set_oauth_flow_cookies lib web provider csrf_token return_to (redirect_response url))))))"

subsection \<open>Callback\<close>

text \<open>How a callback that failed ends: a CLI flow is marked as failed, a browser is sent back to the sign-in page,
  anything else gets an error.\<close>

definition oauth_failed :: "time \<Rightarrow> string \<Rightarrow> string option \<Rightarrow> string option \<Rightarrow> string \<Rightarrow> string \<Rightarrow> response op" where
  "oauth_failed now provider cli_flow_id return_to message api_message =
     (if truthy cli_flow_id
      then ebind (fail_cli_flow now (the cli_flow_id)) (\<lambda>_.
           ret (clear_oauth_flow_cookies provider (cli_oauth_redirect (the cli_flow_id) ''failed'' (Some message))))
      else if return_to \<noteq> None
      then ret (clear_oauth_flow_cookies provider (oauth_login_redirect (the return_to) message))
      else raise (BadRequestError api_message))"

definition expired_message :: string where
  "expired_message = ''Your login session expired. Please try again.''"

definition csrf_matches :: "request \<Rightarrow> string \<Rightarrow> claims \<Rightarrow> bool" where
  "csrf_matches rq provider payload \<longleftrightarrow>
     (let cookie_csrf = map_of (rq_cookies rq) (oauth_csrf_cookie_name provider); state_csrf = claim_str payload ''csrf''
      in truthy cookie_csrf \<and> truthy state_csrf \<and> cookie_csrf = state_csrf)"

datatype oauth_outcome = OA_LOGIN | OA_LINK | OA_REGISTER

definition oauth_outcome_of :: "string \<Rightarrow> string \<Rightarrow> string \<Rightarrow> oauth_outcome op" where
  "oauth_outcome_of provider account_id account_email =
     ebind (select_one_or_none (\<lambda>w. filter (\<lambda>a. oa_oauth_name a = provider \<and> oa_account_id a = account_id) (oauth_accounts w))) (\<lambda>acc.
     if acc \<noteq> None then ret OA_LOGIN
     else ebind (user_with_email account_email) (\<lambda>u. ret (if u \<noteq> None then OA_LINK else OA_REGISTER)))"

definition manager_oauth_callback :: "oauth_client \<Rightarrow> time \<Rightarrow> string \<Rightarrow> string \<Rightarrow> string \<Rightarrow> string op" where
  "manager_oauth_callback oc now provider account_id account_email = (\<lambda>w.
     case oc_upsert oc now provider account_id account_email w of
       Inl e \<Rightarrow> (Inl e, w)
     | Inr (uid, fresh, w') \<Rightarrow>
         ebind (if fresh then on_after_register now uid else ret ()) (\<lambda>_. ret uid) w')"

definition outcome_str :: "oauth_outcome \<Rightarrow> string" where
  "outcome_str r = (case r of OA_LOGIN \<Rightarrow> ''login'' | OA_LINK \<Rightarrow> ''link'' | OA_REGISTER \<Rightarrow> ''register'')"

definition record_oauth_success_events :: "request \<Rightarrow> user \<Rightarrow> string \<Rightarrow> oauth_outcome \<Rightarrow> string \<Rightarrow> unit op" where
  "record_oauth_success_events rq u provider outcome surface =
     ebind (case outcome of
         OA_REGISTER \<Rightarrow> audit_success rq ''auth.register'' ''user'' (Some (us_id u)) [(''email'', MStr (us_email u)),
           (''role'', MStr (role_str (us_role u))), (''provider'', MStr provider), (''surface'', MStr surface)]
       | OA_LINK \<Rightarrow> audit_success rq ''auth.oauth.link'' ''user'' (Some (us_id u)) [(''email'', MStr (us_email u)),
           (''provider'', MStr provider), (''surface'', MStr surface)]
       | OA_LOGIN \<Rightarrow> ret ()) (\<lambda>_.
     audit_success rq ''auth.login'' ''user'' (Some (us_id u)) [(''email'', MStr (us_email u)), (''provider'', MStr provider),
       (''oauth_action'', MStr (outcome_str outcome)), (''surface'', MStr surface)])"

text \<open>The end of a successful callback. The rows written since the library's last commit are undone when the flow cannot be
  approved any more.\<close>

definition oauth_complete ::
    "lib \<Rightarrow> web_settings \<Rightarrow> time \<Rightarrow> request \<Rightarrow> string \<Rightarrow> oauth_outcome \<Rightarrow> string option \<Rightarrow> string option \<Rightarrow> string \<Rightarrow> response op" where
  "oauth_complete lib web now rq provider outcome cli_flow_id return_to uid =
     ebind (gets id) (\<lambda>base.
     ebind (if outcome = OA_LINK then set_user now uid (\<lambda>u. u\<lparr>us_is_verified := True\<rparr>) else ret ()) (\<lambda>_.
     ebind (get_user_row uid) (\<lambda>r.
     case r of
       None \<Rightarrow> raise (LibraryError ''user'')
     | Some u \<Rightarrow>
         let surface = (if truthy cli_flow_id then ''cli'' else if return_to \<noteq> None then ''browser'' else ''api'');
             rq = set_scope_context [(''actor_user_id'', Some uid), (''credential_type'', Some ''cookie'')] rq
         in ebind (record_oauth_success_events rq u provider outcome surface) (\<lambda>_.
            if truthy cli_flow_id
            then ebind (approve_transition now (the cli_flow_id) uid provider) (\<lambda>ok.
                 if \<not> ok
                 then ebind (rollback_to base) (\<lambda>_.
                      ret (clear_oauth_flow_cookies provider (cli_oauth_redirect (the cli_flow_id) ''failed''
                        (Some ''CLI login flow is invalid or already completed.''))))
                 else ebind commit (\<lambda>_.
                      ret (clear_oauth_flow_cookies provider (cli_oauth_redirect (the cli_flow_id) ''approved'' None))))
            else ebind commit (\<lambda>_.
                 let target = (case return_to of None \<Rightarrow> ''/app'' | Some t \<Rightarrow> ''/v1/browser/bootstrap?'' @ urlencode [(''return_to'', t)])
                 in ret (clear_oauth_flow_cookies provider (write_session_cookie lib web now u (redirect_response target))))))))"

definition oauth_sign_in ::
    "lib \<Rightarrow> web_settings \<Rightarrow> oauth_client \<Rightarrow> time \<Rightarrow> limits_snapshot \<Rightarrow> request \<Rightarrow> string \<Rightarrow> string \<Rightarrow> string \<Rightarrow> string option \<Rightarrow> string option \<Rightarrow>
     response op" where
  "oauth_sign_in lib web oc now limits rq provider account_id account_email cli_flow_id return_to =
     ebind (oauth_outcome_of provider account_id account_email) (\<lambda>outcome.
     ebind (if outcome = OA_REGISTER
            then check_registration limits rq [(''email'', MStr account_email), (''provider'', MStr provider),
                   (''surface'', MStr (if return_to \<noteq> None then ''browser'' else ''api''))]
            else ret ()) (\<lambda>_.
     ebind (try_catch (manager_oauth_callback oc now provider account_id account_email)
       (\<lambda>e. if e = UserAlreadyExists then raise (ConflictError ''Email already registered'') else raise e)) (\<lambda>uid.
     oauth_complete lib web now rq provider outcome cli_flow_id return_to uid)))"

definition oauth_missing_email_message :: "string \<Rightarrow> string" where
  "oauth_missing_email_message provider =
     (if provider = ''github'' then ''GitHub did not provide a verified email address.''
      else provider_title provider @ '' did not provide an email address.'')"

definition oauth_callback ::
    "lib \<Rightarrow> web_settings \<Rightarrow> oauth_client \<Rightarrow> time \<Rightarrow> limits_snapshot \<Rightarrow> string \<Rightarrow> request \<Rightarrow> string option \<Rightarrow> string option \<Rightarrow> string option \<Rightarrow>
     string option \<Rightarrow> response op" where
  "oauth_callback lib web oc now limits provider rq code state error error_description =
     ebind (get_oauth_client web provider) (\<lambda>_.
     case map_option (decode_oauth_state lib now) state of
       Some (Inl e) \<Rightarrow>
         ebind (of_sum (resolve_browser_return_to lib web rq provider None)) (\<lambda>return_to.
         case return_to of
           Some r \<Rightarrow> ret (clear_oauth_flow_cookies provider (oauth_login_redirect r expired_message))
         | None \<Rightarrow> raise e)
     | decoded \<Rightarrow>
         let payload = map_option projr decoded
         in if payload \<noteq> None \<and> claim_str (the payload) ''provider'' \<noteq> Some provider then raise (BadRequestError ''Invalid OAuth state.'')
            else ebind (of_sum (resolve_browser_return_to lib web rq provider payload)) (\<lambda>return_to.
              let cli_flow_id = Option.bind payload (\<lambda>p. claim_str p ''cli_flow_id'')
              in case error of
                   Some err \<Rightarrow>
                     let message = oauth_error_message provider err error_description
                     in oauth_failed now provider cli_flow_id return_to message message
                 | None \<Rightarrow>
                     if code = None \<or> payload = None then raise (BadRequestError ''Missing OAuth code or state.'')
                     else if \<not> csrf_matches rq provider (the payload)
                     then oauth_failed now provider cli_flow_id return_to expired_message ''Invalid OAuth state.''
                     else
                       case (case oc_access_token oc (the code) (oauth_callback_url web provider) of
                               Inl e \<Rightarrow> Inl e | Inr token \<Rightarrow> get_oauth_identity oc provider token) of
                         Inl e \<Rightarrow>
                           let message = provider_title provider @ '' login failed.''
                           in oauth_failed now provider cli_flow_id return_to message message
                       | Inr (account_id, None) \<Rightarrow>
                           let message = oauth_missing_email_message provider
                           in oauth_failed now provider cli_flow_id return_to message message
                       | Inr (account_id, Some account_email) \<Rightarrow>
                           ebind (if truthy cli_flow_id
                                  then try_catch (ebind (validate_cli_flow_pending lib now (the cli_flow_id) None) (\<lambda>_. ret None)) (\<lambda>e.
                                         case e of BadRequestError m \<Rightarrow> ret (Some m) | _ \<Rightarrow> raise e)
                                  else ret None) (\<lambda>invalid.
                           case invalid of
                             Some m \<Rightarrow> ret (clear_oauth_flow_cookies provider (cli_oauth_redirect (the cli_flow_id) ''failed'' (Some m)))
                           | None \<Rightarrow> oauth_sign_in lib web oc now limits rq provider account_id account_email cli_flow_id return_to)))"

definition google_authorize ::
    "lib \<Rightarrow> web_settings \<Rightarrow> oauth_client \<Rightarrow> time \<Rightarrow> string option \<Rightarrow> string option \<Rightarrow> string option \<Rightarrow> response op" where
  "google_authorize lib web oc now return_to cli_flow_id cli_flow_secret =
     oauth_authorize lib web oc now ''google'' return_to cli_flow_id cli_flow_secret"

definition github_authorize ::
    "lib \<Rightarrow> web_settings \<Rightarrow> oauth_client \<Rightarrow> time \<Rightarrow> string option \<Rightarrow> string option \<Rightarrow> string option \<Rightarrow> response op" where
  "github_authorize lib web oc now return_to cli_flow_id cli_flow_secret =
     oauth_authorize lib web oc now ''github'' return_to cli_flow_id cli_flow_secret"

definition google_callback ::
    "lib \<Rightarrow> web_settings \<Rightarrow> oauth_client \<Rightarrow> time \<Rightarrow> limits_snapshot \<Rightarrow> request \<Rightarrow> string option \<Rightarrow> string option \<Rightarrow> string option \<Rightarrow> string option \<Rightarrow>
     response op" where
  "google_callback lib web oc now limits rq code state error error_description =
     oauth_callback lib web oc now limits ''google'' rq code state error error_description"

definition github_callback ::
    "lib \<Rightarrow> web_settings \<Rightarrow> oauth_client \<Rightarrow> time \<Rightarrow> limits_snapshot \<Rightarrow> request \<Rightarrow> string option \<Rightarrow> string option \<Rightarrow> string option \<Rightarrow> string option \<Rightarrow>
     response op" where
  "github_callback lib web oc now limits rq code state error error_description =
     oauth_callback lib web oc now limits ''github'' rq code state error error_description"

end
