(* ===== verification/Api_Keys.thy ===== *)
theory Api_Keys
  imports Identity_Auth
begin

text \<open>
  Managing API keys (\<^verbatim>\<open>identity/api/auth.py\<close>, the handlers under \<^verbatim>\<open>/v1/auth/api-keys\<close> and their helpers, with the
  request bodies of \<^verbatim>\<open>api/schemas.py\<close>).

  A handler runs in one database session: what it did since its last commit is undone when an exception leaves
  it, so every stretch that ends in a commit is a \<open>transaction\<close>. Random values are drawn from the
  \<open>id_source\<close> of the world. The unique constraints of the tables make an insertion raise \<open>IntegrityError\<close>.
\<close>

subsection \<open>Request bodies\<close>

record key_scope =
  sc_control_plane :: bool
  sc_mode :: data_plane_mode
  sc_sandbox_ids :: "string list"

text \<open>\<^verbatim>\<open>list(dict.fromkeys(xs))\<close>: duplicates go, the first occurrence stays.\<close>

definition dedupe :: "'a list \<Rightarrow> 'a list" where
  "dedupe xs = rev (remdups (rev xs))"

definition validate_mode_and_sandbox_ids :: "key_scope \<Rightarrow> string + key_scope" where
  "validate_mode_and_sandbox_ids s =
     (let s = s\<lparr>sc_sandbox_ids := dedupe (sc_sandbox_ids s)\<rparr>
      in if sc_mode s = DP_SELECTED
         then if sc_sandbox_ids s = [] then Inl ''sandbox_ids must be provided when data_plane.mode=selected.'' else Inr s
         else if sc_sandbox_ids s \<noteq> [] then Inl ''sandbox_ids is only allowed when data_plane.mode=selected.'' else Inr s)"

definition default_api_key_scope :: key_scope where
  "default_api_key_scope = \<lparr>sc_control_plane = True, sc_mode = DP_ALL, sc_sandbox_ids = []\<rparr>"

record create_key_body =
  ck_name :: string
  ck_expires_in :: "int option"
  ck_scope :: "key_scope option"

record update_key_body =
  uk_name :: "string option"
  uk_is_enabled :: "bool option"
  uk_expires_in :: "int option"
  uk_clear_expiration :: bool
  uk_scope :: "key_scope option"

definition lifetime_ok :: "int option \<Rightarrow> bool" where
  "lifetime_ok e = (case e of None \<Rightarrow> True | Some n \<Rightarrow> 1 \<le> n \<and> n \<le> 31536000)"

definition scope_checked :: "key_scope option \<Rightarrow> string + key_scope option" where
  "scope_checked s = (case s of None \<Rightarrow> Inr None
     | Some s \<Rightarrow> (case validate_mode_and_sandbox_ids s of Inl m \<Rightarrow> Inl m | Inr s \<Rightarrow> Inr (Some s)))"

definition CreateApiKeyRequest :: "create_key_body \<Rightarrow> string + create_key_body" where
  "CreateApiKeyRequest b =
     (if \<not> lifetime_ok (ck_expires_in b) then Inl ''expires_in''
      else case scope_checked (ck_scope b) of Inl m \<Rightarrow> Inl m | Inr s \<Rightarrow> Inr (b\<lparr>ck_scope := s\<rparr>))"

definition validate_patch_request :: "update_key_body \<Rightarrow> string + update_key_body" where
  "validate_patch_request b =
     (if uk_expires_in b \<noteq> None \<and> uk_clear_expiration b then Inl ''expires_in and clear_expiration cannot be used together.''
      else if uk_name b = None \<and> uk_is_enabled b = None \<and> uk_expires_in b = None \<and> \<not> uk_clear_expiration b \<and> uk_scope b = None
      then Inl ''At least one field must be provided.'' else Inr b)"

definition UpdateApiKeyRequest :: "update_key_body \<Rightarrow> string + update_key_body" where
  "UpdateApiKeyRequest b =
     (if \<not> lifetime_ok (uk_expires_in b) then Inl ''expires_in''
      else case scope_checked (uk_scope b) of Inl m \<Rightarrow> Inl m
           | Inr s \<Rightarrow> validate_patch_request (b\<lparr>uk_scope := s\<rparr>))"

subsection \<open>Helpers\<close>

definition validate_owned_sandbox_ids :: "string \<Rightarrow> string list \<Rightarrow> string list op" where
  "validate_owned_sandbox_ids owner_id sandbox_ids =
     (if sandbox_ids = [] then ret []
      else let deduped = dedupe sandbox_ids
           in ebind (gets (\<lambda>w. map sb_id (filter (\<lambda>s. sb_owner_id s = owner_id \<and> sb_id s \<in> set deduped) (sandboxes w)))) (\<lambda>owned_ids.
              if set owned_ids \<noteq> set deduped then raise (ValidationError ''sandbox_ids must all belong to the current user.'')
              else ret deduped))"

definition resolve_api_key_scope :: "string \<Rightarrow> key_scope option \<Rightarrow> (key_scope \<times> string list) op" where
  "resolve_api_key_scope owner_id scope =
     (let resolved_scope = (case scope of None \<Rightarrow> default_api_key_scope | Some s \<Rightarrow> s)
      in ebind (validate_owned_sandbox_ids owner_id (sc_sandbox_ids resolved_scope)) (\<lambda>sandbox_ids.
         ret (resolved_scope, sandbox_ids)))"

definition mode_str :: "data_plane_mode \<Rightarrow> string" where
  "mode_str m = (case m of DP_NONE \<Rightarrow> ''none'' | DP_ALL \<Rightarrow> ''all'' | DP_SELECTED \<Rightarrow> ''selected'')"

definition scope_payload_from_values :: "bool \<Rightarrow> data_plane_mode \<Rightarrow> string list \<Rightarrow> meta_value" where
  "scope_payload_from_values control_plane_enabled mode sandbox_ids =
     MDict [(''control_plane'', MBool control_plane_enabled),
       (''data_plane'', MDict [(''mode'', MStr (mode_str mode)), (''sandbox_ids'', MList (map MStr sandbox_ids))])]"

text \<open>The relationship \<^verbatim>\<open>ApiKey.sandbox_grants\<close>, ordered by creation.\<close>

definition sandbox_grants :: "string \<Rightarrow> world \<Rightarrow> string list" where
  "sandbox_grants kid w =
     map ag_sandbox_id (sort_key ag_gmt_created (filter (\<lambda>g. ag_api_key_id g = kid) (api_key_sandbox_grants w)))"

definition serialize_api_key_scope :: "world \<Rightarrow> api_key \<Rightarrow> meta_value" where
  "serialize_api_key_scope w k =
     scope_payload_from_values (ak_control_plane_enabled k) (ak_data_plane_mode k) (sandbox_grants (ak_id k) w)"

record key_response =
  kr_id :: string
  kr_name :: string
  kr_is_enabled :: bool
  kr_key :: string
  kr_created_at :: time
  kr_updated_at :: time
  kr_expires_at :: "time option"
  kr_scope :: meta_value

text \<open>The secret of a new key is shown once; a summary shows the preview in its place.\<close>

definition key_dict :: "world \<Rightarrow> api_key \<Rightarrow> string \<Rightarrow> key_response" where
  "key_dict w k shown =
     \<lparr>kr_id = ak_id k, kr_name = ak_name k, kr_is_enabled = ak_is_enabled k, kr_key = shown,
      kr_created_at = ak_gmt_created k, kr_updated_at = ak_gmt_updated k, kr_expires_at = ak_gmt_expires k,
      kr_scope = serialize_api_key_scope w k\<rparr>"

definition serialize_api_key_summary :: "world \<Rightarrow> api_key \<Rightarrow> key_response" where
  "serialize_api_key_summary w k = key_dict w k (ak_key_preview k)"

definition insert_api_key :: "api_key \<Rightarrow> unit op" where
  "insert_api_key k =
     ebind (gets api_keys) (\<lambda>ks.
     if ak_id k \<in> set (map ak_id ks) \<or> ak_key_hash k \<in> set (map ak_key_hash ks) then raise IntegrityError
     else modify (\<lambda>w. w\<lparr>api_keys := api_keys w @ [k]\<rparr>))"

definition set_api_key :: "string \<Rightarrow> (api_key \<Rightarrow> api_key) \<Rightarrow> unit op" where
  "set_api_key kid f = modify (\<lambda>w. w\<lparr>api_keys := update_where (\<lambda>k. ak_id k = kid) f (api_keys w)\<rparr>)"

definition insert_grant :: "time \<Rightarrow> string \<Rightarrow> string \<Rightarrow> unit op" where
  "insert_grant now kid sid =
     ebind (draw_id ''akg'') (\<lambda>gid.
     ebind (gets api_key_sandbox_grants) (\<lambda>gs.
     if (kid, sid) \<in> set (map (\<lambda>g. (ag_api_key_id g, ag_sandbox_id g)) gs) then raise IntegrityError
     else modify (\<lambda>w. w\<lparr>api_key_sandbox_grants := api_key_sandbox_grants w @
       [\<lparr>ag_id = gid, ag_api_key_id = kid, ag_sandbox_id = sid, ag_gmt_created = now\<rparr>]\<rparr>)))"

definition replace_api_key_sandbox_grants :: "time \<Rightarrow> string \<Rightarrow> string list \<Rightarrow> unit op" where
  "replace_api_key_sandbox_grants now kid sandbox_ids =
     ebind (modify (\<lambda>w. w\<lparr>api_key_sandbox_grants := filter (\<lambda>g. ag_api_key_id g \<noteq> kid) (api_key_sandbox_grants w)\<rparr>)) (\<lambda>_.
     for_each sandbox_ids (insert_grant now kid))"

definition load_api_key_with_grants :: "string \<Rightarrow> api_key op" where
  "load_api_key_with_grants key_id = select_one (\<lambda>w. filter (\<lambda>k. ak_id k = key_id) (api_keys w))"

subsection \<open>Handlers\<close>

definition create_api_key :: "lib \<Rightarrow> time \<Rightarrow> user \<Rightarrow> request \<Rightarrow> create_key_body \<Rightarrow> key_response op" where
  "create_api_key lib now current_user rq body =
     ebind (transaction (
       ebind (draw_id ''sk-'') (\<lambda>key_value.
       ebind (resolve_api_key_scope (us_id current_user) (ck_scope body)) (\<lambda>(resolved_scope, sandbox_ids).
       ebind (draw_id ''key'') (\<lambda>kid.
       ebind (insert_api_key \<lparr>ak_id = kid, ak_key_hash = hash_api_key_secret lib key_value,
           ak_key_preview = build_api_key_preview key_value, ak_name = ck_name body, ak_user_id = us_id current_user,
           ak_is_enabled = True, ak_control_plane_enabled = sc_control_plane resolved_scope,
           ak_data_plane_mode = sc_mode resolved_scope, ak_gmt_created = now, ak_gmt_updated = now,
           ak_gmt_expires = map_option (\<lambda>n. now + seconds n) (ck_expires_in body), ak_gmt_deleted = None\<rparr>) (\<lambda>_.
       ebind (replace_api_key_sandbox_grants now kid sandbox_ids) (\<lambda>_.
       ebind (audit_success rq ''auth.api_key.create'' ''api_key'' (Some kid)
         [(''name'', MStr (ck_name body)),
          (''scope'', scope_payload_from_values (sc_control_plane resolved_scope) (sc_mode resolved_scope) sandbox_ids)]) (\<lambda>_.
       ebind commit (\<lambda>_. ret (key_value, kid))))))))))
     (\<lambda>(key_value, kid).
     ebind (load_api_key_with_grants kid) (\<lambda>k.
     gets (\<lambda>w. key_dict w k key_value)))"

definition list_api_keys :: "user \<Rightarrow> key_response list op" where
  "list_api_keys current_user =
     gets (\<lambda>w. map (serialize_api_key_summary w)
       (filter (\<lambda>k. ak_user_id k = us_id current_user \<and> ak_gmt_deleted k = None) (api_keys w)))"

definition own_key :: "string \<Rightarrow> user \<Rightarrow> api_key op" where
  "own_key key_id current_user =
     ebind (select_one_or_none (\<lambda>w. filter (\<lambda>k. ak_id k = key_id \<and> ak_user_id k = us_id current_user \<and> ak_gmt_deleted k = None)
       (api_keys w))) (\<lambda>r.
     case r of None \<Rightarrow> raise (NotFoundError ''API key'' key_id) | Some k \<Rightarrow> ret k)"

text \<open>What a patch does to the row before the scope is looked at.\<close>

definition patched :: "time \<Rightarrow> update_key_body \<Rightarrow> api_key \<Rightarrow> api_key" where
  "patched now b k =
     k\<lparr>ak_name := (case uk_name b of None \<Rightarrow> ak_name k | Some n \<Rightarrow> n),
       ak_is_enabled := (case uk_is_enabled b of None \<Rightarrow> ak_is_enabled k | Some e \<Rightarrow> e),
       ak_gmt_expires := (case uk_expires_in b of
           Some n \<Rightarrow> Some (now + seconds n)
         | None \<Rightarrow> if uk_clear_expiration b then None else ak_gmt_expires k)\<rparr>"

definition update_scope :: "time \<Rightarrow> user \<Rightarrow> string \<Rightarrow> key_scope option \<Rightarrow> meta_value option op" where
  "update_scope now current_user kid scope =
     (case scope of
        None \<Rightarrow> ret None
      | Some s \<Rightarrow>
          ebind (resolve_api_key_scope (us_id current_user) (Some s)) (\<lambda>(resolved_scope, sandbox_ids).
          ebind (set_api_key kid (\<lambda>k. k\<lparr>ak_control_plane_enabled := sc_control_plane resolved_scope,
            ak_data_plane_mode := sc_mode resolved_scope\<rparr>)) (\<lambda>_.
          ebind (replace_api_key_sandbox_grants now kid sandbox_ids) (\<lambda>_.
          ret (Some (scope_payload_from_values (sc_control_plane resolved_scope) (sc_mode resolved_scope) sandbox_ids))))))"

definition update_api_key :: "time \<Rightarrow> user \<Rightarrow> request \<Rightarrow> string \<Rightarrow> update_key_body \<Rightarrow> key_response op" where
  "update_api_key now current_user rq key_id body =
     ebind (transaction (
       ebind (own_key key_id current_user) (\<lambda>k.
       ebind (set_api_key key_id (patched now body)) (\<lambda>_.
       ebind (update_scope now current_user key_id (uk_scope body)) (\<lambda>scope_metadata.
       ebind (set_api_key key_id (\<lambda>k. k\<lparr>ak_gmt_updated := now\<rparr>)) (\<lambda>_.
       ebind (load_api_key_with_grants key_id) (\<lambda>k.
       ebind (gets (\<lambda>w. serialize_api_key_scope w k)) (\<lambda>scope.
       ebind (audit_success rq ''auth.api_key.update'' ''api_key'' (Some (ak_id k))
         [(''name'', MStr (ak_name k)), (''scope'', case scope_metadata of None \<Rightarrow> scope | Some m \<Rightarrow> m)]) (\<lambda>_.
       commit)))))))))
     (\<lambda>_.
     ebind (load_api_key_with_grants key_id) (\<lambda>k.
     gets (\<lambda>w. serialize_api_key_summary w k)))"

definition delete_api_key :: "time \<Rightarrow> user \<Rightarrow> request \<Rightarrow> string \<Rightarrow> unit op" where
  "delete_api_key now current_user rq key_id =
     transaction (
       ebind (own_key key_id current_user) (\<lambda>k.
       ebind (set_api_key key_id (\<lambda>k. k\<lparr>ak_gmt_deleted := Some now, ak_gmt_updated := now\<rparr>)) (\<lambda>_.
       ebind (audit_success rq ''auth.api_key.delete'' ''api_key'' (Some (ak_id k)) [(''name'', MStr (ak_name k))]) (\<lambda>_.
       commit))))"

end
