(* ===== verification/Key_Safety.thy ===== *)
theory Key_Safety
  imports Api_Keys Sync_Machine Call_Log
begin

text \<open>
  The API keys are sound: the dependencies admit exactly what the tables grant, a new key opens what its scope
  says and nothing else, a deleted key never authenticates again, and the handlers of one user do not touch
  the keys of another.
\<close>

subsection \<open>The constraints are kept\<close>

lemma identity_inv_frame [simp]:
  "identity_inv (w\<lparr>outbox := m\<rparr>) = identity_inv w" "identity_inv (w\<lparr>template_specs_cache := c\<rparr>) = identity_inv w"
  "identity_inv (w\<lparr>k8s_log := l\<rparr>) = identity_inv w" "identity_inv (w\<lparr>ids_drawn := n\<rparr>) = identity_inv w"
  "identity_inv (w\<lparr>audit_events := a\<rparr>) = identity_inv w" "identity_inv (store_rows w) = identity_inv w"
  "identity_inv (w\<lparr>sandboxes := s\<rparr>) = identity_inv w" "identity_inv (w\<lparr>web_links := z\<rparr>) = identity_inv w"
  by (simp_all add: identity_inv_def store_rows_def)

lemma row_property_identity [simp]: "row_property identity_inv"
  by (simp add: row_property_def)

lemma keeps_commit_identity [keeps_intros]: "keeps identity_inv commit"
  by (simp add: keeps_def commit_def)

lemma keeps_set_api_key [keeps_intros]:
  assumes "\<And>k. ak_id (f k) = ak_id k" "\<And>k. ak_key_hash (f k) = ak_key_hash k"
  shows "keeps identity_inv (set_api_key kid f)"
  using assms by (auto simp: keeps_def set_api_key_def identity_inv_def map_update_where)

lemma keeps_insert_api_key [keeps_intros]: "keeps identity_inv (insert_api_key k)"
  by (auto simp: keeps_def insert_api_key_def identity_inv_def)

lemma keeps_insert_grant [keeps_intros]: "keeps identity_inv (insert_grant now kid sid)"
  by (auto simp: keeps_def insert_grant_def identity_inv_def draw_id_run)

lemma keeps_replace_grants [keeps_intros]: "keeps identity_inv (replace_api_key_sandbox_grants now kid sids)"
  unfolding replace_api_key_sandbox_grants_def
  by (intro keeps_intros) (auto simp: identity_inv_def distinct_map_filter)

lemma keeps_resolve_scope [keeps_intros]:
  "keeps P (resolve_api_key_scope u s)" "keeps P (own_key i v)" "keeps P (load_api_key_with_grants i)"
  unfolding resolve_api_key_scope_def validate_owned_sandbox_ids_def own_key_def load_api_key_with_grants_def Let_def
  by (intro keeps_intros)+

lemma patched_fields [simp]:
  "ak_id (patched now b k) = ak_id k" "ak_key_hash (patched now b k) = ak_key_hash k"
  "ak_user_id (patched now b k) = ak_user_id k" "ak_gmt_deleted (patched now b k) = ak_gmt_deleted k"
  by (simp_all add: patched_def)

lemma keeps_update_scope [keeps_intros]: "keeps identity_inv (update_scope now u kid s)"
  unfolding update_scope_def by (intro keeps_intros) auto

lemma keeps_key_handlers:
  "keeps identity_inv (create_api_key lib now u rq cb)" "keeps identity_inv (update_api_key now u rq kid ub)"
  "keeps identity_inv (delete_api_key now u rq kid)"
  unfolding create_api_key_def update_api_key_def delete_api_key_def
  by (intro keeps_intros row_property_identity; simp)+

subsection \<open>Admission\<close>

lemma control_plane_admits:
  assumes "identity_inv w"
  shows "get_current_control_plane_user lib now credentials cookie_user rq w = (Inr (u, rq'), w') \<longleftrightarrow>
    w' = w \<and>
    (case credentials of
       Some token \<Rightarrow> startswith token ''sk-'' \<and> (\<exists>k. key_valid lib now w token k u \<and> ak_control_plane_enabled k \<and>
         rq' = set_auth_context ''api_key'' (Some u) (Some k) rq)
     | None \<Rightarrow> cookie_user = Some u \<and> rq' = set_auth_context ''cookie'' (Some u) None rq)"
proof (cases credentials)
  case None
  then show ?thesis by (auto simp: get_current_control_plane_user_def split: option.splits)
next
  case (Some token)
  show ?thesis
    by (rule authenticate_cases [OF assms, of lib now token])
       (auto simp: get_current_control_plane_user_def Some dest: key_valid_unique [OF assms])
qed

lemma data_plane_admits:
  assumes "identity_inv w" and sid: "sid \<noteq> []"
  shows "get_current_data_plane_user lib now credentials cookie_user (Some sid) rq w = (Inr (u, rq'), w') \<longleftrightarrow>
    w' = w \<and>
    (\<exists>token k. credentials = Some token \<and> startswith token ''sk-'' \<and> key_valid lib now w token k u \<and>
       data_plane_allowed w k sid \<and>
       rq' = set_scope_context [(''sandbox_id'', Some sid)] (set_auth_context ''api_key'' (Some u) (Some k) rq))"
proof (cases credentials)
  case None
  then show ?thesis by (auto simp: get_current_data_plane_user_def)
next
  case (Some token)
  show ?thesis
  proof (rule authenticate_cases [OF assms(1), of lib now token])
    assume "\<nexists>k u. key_valid lib now w token k u" "authenticate_api_key_value lib now token w = (Inr None, w)"
    then show ?thesis by (auto simp: get_current_data_plane_user_def Some)
  next
    fix k v
    assume k: "key_valid lib now w token k v" "authenticate_api_key_value lib now token w = (Inr (Some (k, v)), w)"
    have only: "key_valid lib now w token k' u' \<longleftrightarrow> k' = k \<and> u' = v" for k' u'
      using key_valid_unique [OF assms(1) k(1)] k(1) by blast
    show ?thesis
      using k(2) sid selected_grant_rows [OF assms(1), of "ak_id k" sid] only
      by (cases "ak_data_plane_mode k")
         (auto simp: get_current_data_plane_user_def Some truthy_def data_plane_allowed_def select_one_or_none_short Let_def)
  qed
qed

text \<open>C4: the control plane admits exactly the holders of a valid API key with control plane access and, when no bearer
  token is sent, the user of the session cookie; the data plane admits exactly the holders of a valid API key
  whose scope covers the sandbox, and never a cookie. The user is the owner of the key, the context
  of the request says who acts, and the tables are only read.\<close>

theorem access_decisions_exact:
  assumes "identity_inv w" and "sid \<noteq> []"
  shows "(get_current_control_plane_user lib now credentials cookie_user rq w = (Inr (u, rq'), w') \<longleftrightarrow>
      w' = w \<and>
      (case credentials of
         Some token \<Rightarrow> startswith token ''sk-'' \<and> (\<exists>k. key_valid lib now w token k u \<and> ak_control_plane_enabled k \<and>
           rq' = set_auth_context ''api_key'' (Some u) (Some k) rq)
       | None \<Rightarrow> cookie_user = Some u \<and> rq' = set_auth_context ''cookie'' (Some u) None rq)) \<and>
    (get_current_data_plane_user lib now credentials cookie_user (Some sid) rq w = (Inr (u, rq'), w') \<longleftrightarrow>
      w' = w \<and>
      (\<exists>token k. credentials = Some token \<and> startswith token ''sk-'' \<and> key_valid lib now w token k u \<and>
         data_plane_allowed w k sid \<and>
         rq' = set_scope_context [(''sandbox_id'', Some sid)] (set_auth_context ''api_key'' (Some u) (Some k) rq)))"
  using control_plane_admits [OF assms(1)] data_plane_admits [OF assms] by blast

subsection \<open>Revocation\<close>

text \<open>What may happen to the key table: a handler runs for some user at some time, or another part of the program
  works, which can only lose keys (when their owner is deleted) and draw random values.\<close>

inductive key_step :: "lib \<Rightarrow> world \<Rightarrow> world \<Rightarrow> bool" for lib where
  create: "key_step lib w (snd (create_api_key lib now u rq cb w))"
| update: "key_step lib w (snd (update_api_key now u rq kid ub w))"
| delete: "key_step lib w (snd (delete_api_key now u rq kid w))"
| other: "set (api_keys w') \<subseteq> set (api_keys w) \<Longrightarrow> id_source w' = id_source w \<Longrightarrow> ids_drawn w \<le> ids_drawn w' \<Longrightarrow>
    key_step lib w w'"

text \<open>No live key has the hash, and the hash is not that of a secret still to be drawn.\<close>

definition revoked :: "lib \<Rightarrow> string \<Rightarrow> world \<Rightarrow> bool" where
  "revoked lib secret w \<longleftrightarrow>
     (\<forall>k \<in> set (api_keys w). ak_key_hash k = sha256_hex lib secret \<longrightarrow> ak_gmt_deleted k \<noteq> None) \<and>
     (\<forall>n \<ge> ids_drawn w. sha256_hex lib (''sk-'' @ id_source w n) \<noteq> sha256_hex lib secret)"

lemma revoked_frame [simp]:
  "revoked lib s (w\<lparr>audit_events := a\<rparr>) = revoked lib s w" "revoked lib s (store_rows w) = revoked lib s w"
  "revoked lib s (w\<lparr>api_key_sandbox_grants := g\<rparr>) = revoked lib s w"
  by (simp_all add: revoked_def store_rows_def)

lemma revoked_drawn: "revoked lib s w \<Longrightarrow> ids_drawn w \<le> n \<Longrightarrow> revoked lib s (w\<lparr>ids_drawn := n\<rparr>)"
  by (simp add: revoked_def)

lemma keeps_revoked_basic:
  "keeps (revoked lib s) (draw_id p)" "keeps (revoked lib s) commit"
  by (auto simp: keeps_def commit_def draw_id_run revoked_drawn)

lemma keeps_revoked_set:
  assumes "\<And>k. ak_key_hash (f k) = ak_key_hash k" "\<And>k. ak_gmt_deleted k \<noteq> None \<Longrightarrow> ak_gmt_deleted (f k) \<noteq> None"
  shows "keeps (revoked lib s) (set_api_key kid f)"
  using assms by (auto simp: keeps_def set_api_key_def revoked_def set_update_where)

lemma keeps_revoked_grants:
  "keeps (revoked lib s) (insert_grant now kid sid)" "keeps (revoked lib s) (replace_api_key_sandbox_grants now kid sids)"
proof -
  have "keeps (revoked lib s) (insert_grant now kid sid)" for sid
    unfolding insert_grant_def by (intro keeps_intros keeps_revoked_basic) simp
  then show "keeps (revoked lib s) (insert_grant now kid sid)"
    "keeps (revoked lib s) (replace_api_key_sandbox_grants now kid sids)"
    unfolding replace_api_key_sandbox_grants_def by (auto intro!: keeps_intros)
qed

text \<open>Drawing moves the counter forward, so a stretch that is rolled back keeps the property as well.\<close>

lemma keeps_revoked_transaction:
  assumes "keeps (revoked lib s) m" "\<And>n. keeps (\<lambda>w. n \<le> ids_drawn w) m"
  shows "keeps (revoked lib s) (transaction m)"
proof (rule keepsI)
  fix w
  assume w: "revoked lib s w"
  obtain r v where m: "m w = (r, v)" by fastforce
  have "revoked lib s v" "ids_drawn w \<le> ids_drawn v"
    using keepsD [OF assms(1) w] keepsD [OF assms(2), of "ids_drawn w" w] m by simp_all
  with w m show "revoked lib s (snd (transaction m w))"
    by (cases r) (auto simp: revoked_def rollback_rows_def)
qed

lemma keeps_drawn:
  "keeps (\<lambda>w. n \<le> ids_drawn w) (draw_id p)" "keeps (\<lambda>w. n \<le> ids_drawn w) commit"
  "keeps (\<lambda>w. n \<le> ids_drawn w) (set_api_key kid f)" "keeps (\<lambda>w. n \<le> ids_drawn w) (insert_api_key k)"
  "keeps (\<lambda>w. n \<le> ids_drawn w) (insert_grant now kid sid)"
  by (auto simp: keeps_def commit_def draw_id_run store_rows_def set_api_key_def insert_api_key_def insert_grant_def)

lemma keeps_drawn_grants: "keeps (\<lambda>w. n \<le> ids_drawn w) (replace_api_key_sandbox_grants now kid sids)"
  unfolding replace_api_key_sandbox_grants_def by (intro keeps_intros keeps_drawn) simp

lemma keeps_drawn_scope: "keeps (\<lambda>w. n \<le> ids_drawn w) (update_scope now u kid sc)"
  unfolding update_scope_def by (intro keeps_intros keeps_drawn keeps_drawn_grants)

lemma keeps_revoked_scope: "keeps (revoked lib s) (update_scope now u kid sc)"
  unfolding update_scope_def by (intro keeps_intros keeps_revoked_set keeps_revoked_grants) auto

lemma keeps_valid: "valid P m (\<lambda>_. P) P \<Longrightarrow> keeps P m"
  by (auto simp: keeps_def valid_def split: prod.splits sum.splits) (metis snd_conv surj_pair sum.exhaust_sel)+

lemma valid_draw_secret:
  "valid (revoked lib s) (draw_id ''sk-'') (\<lambda>v w. sha256_hex lib v \<noteq> sha256_hex lib s \<and> revoked lib s w) X"
  by (auto simp: valid_def draw_id_run revoked_def)

lemma keeps_revoked_insert: "ak_key_hash k \<noteq> sha256_hex lib s \<Longrightarrow> keeps (revoked lib s) (insert_api_key k)"
  by (auto simp: keeps_def insert_api_key_def revoked_def)

lemma keeps_revoked_new_secret:
  assumes "\<And>v. sha256_hex lib v \<noteq> sha256_hex lib s \<Longrightarrow> keeps (revoked lib s) (f v)" "\<And>n v. keeps (\<lambda>w. n \<le> ids_drawn w) (f v)"
  shows "keeps (revoked lib s) (transaction (ebind (draw_id ''sk-'') f))"
proof (rule keeps_revoked_transaction)
  have "valid (revoked lib s) (ebind (draw_id ''sk-'') f) (\<lambda>_. revoked lib s) (revoked lib s)"
    using valid_draw_secret by (rule valid_ebind) (rule valid_assume, rule valid_keeps, rule assms(1))
  then show "keeps (revoked lib s) (ebind (draw_id ''sk-'') f)" by (rule keeps_valid)
  show "keeps (\<lambda>w. n \<le> ids_drawn w) (ebind (draw_id ''sk-'') f)" for n
    using keeps_drawn(1) assms(2) by (rule keeps_ebind)
qed

lemma keeps_create_revoked: "keeps (revoked lib s) (create_api_key lib now u rq cb)"
  unfolding create_api_key_def
  by (intro keeps_ebind keeps_revoked_new_secret;
      intro keeps_revoked_basic keeps_revoked_insert keeps_revoked_grants keeps_drawn keeps_drawn_grants keeps_intros;
      simp add: hash_api_key_secret_def)

lemma keeps_update_revoked: "keeps (revoked lib s) (update_api_key now u rq kid ub)"
  unfolding update_api_key_def
  by (intro keeps_ebind keeps_revoked_transaction;
      intro keeps_revoked_basic keeps_revoked_set keeps_revoked_scope keeps_drawn keeps_drawn_scope keeps_intros; simp)

lemma keeps_delete_revoked: "keeps (revoked lib s) (delete_api_key now u rq kid)"
  unfolding delete_api_key_def
  by (intro keeps_revoked_transaction;
      intro keeps_revoked_basic keeps_revoked_set keeps_drawn keeps_intros; simp)

lemma key_step_revoked:
  assumes "key_step lib w w'" "revoked lib s w"
  shows "revoked lib s w'"
  using assms
proof cases
  case other
  with assms(2) show ?thesis by (auto simp: revoked_def)
qed (use keepsD [OF keeps_create_revoked] keepsD [OF keeps_update_revoked] keepsD [OF keeps_delete_revoked] assms(2) in auto)

lemma revoked_rejects:
  assumes "revoked lib secret w"
  shows "authenticate_api_key_value lib now secret w = (Inr None, w)"
proof -
  have "filter (\<lambda>k. ak_key_hash k = hash_api_key_secret lib secret \<and> ak_gmt_deleted k = None) (api_keys w) = []"
    using assms by (auto simp: revoked_def hash_api_key_secret_def filter_empty_conv)
  then show ?thesis by (simp add: authenticate_api_key_value_def)
qed

lemma delete_run:
  assumes "delete_api_key now u rq kid w = (Inr (), w')"
  shows "api_keys w' = update_where (\<lambda>k. ak_id k = kid) (\<lambda>k. k\<lparr>ak_gmt_deleted := Some now, ak_gmt_updated := now\<rparr>) (api_keys w)"
    and "id_source w' = id_source w" "ids_drawn w' = ids_drawn w" and "users w' = users w"
  using assms
  by (auto simp: delete_api_key_def transaction_def own_key_def set_api_key_def audit_request_def commit_def store_rows_def
      select_one_or_none_def ebind_def split: sum.splits option.splits prod.splits)

lemma delete_revokes:
  assumes inv: "identity_inv w" and del: "delete_api_key now u rq (ak_id k) w = (Inr (), w')"
    and k: "k \<in> set (api_keys w)" "ak_key_hash k = sha256_hex lib secret"
    and fresh: "\<And>n. ids_drawn w \<le> n \<Longrightarrow> sha256_hex lib (''sk-'' @ id_source w n) \<noteq> sha256_hex lib secret"
  shows "revoked lib secret w'"
proof -
  have only: "k' = k" if "k' \<in> set (api_keys w)" "ak_key_hash k' = sha256_hex lib secret" for k'
    using that k identity_invD(4) [OF inv] by (auto simp: distinct_map inj_on_def)
  show ?thesis
    unfolding revoked_def delete_run(1-3) [OF del] set_update_where
    using only fresh by auto
qed

subsection \<open>A new key\<close>

definition granted_to :: "string \<Rightarrow> string list \<Rightarrow> api_key_sandbox_grant list \<Rightarrow> bool" where
  "granted_to kid sids gs \<longleftrightarrow> map ag_sandbox_id gs = sids \<and> (\<forall>g \<in> set gs. ag_api_key_id g = kid)"

lemma insert_grants_run:
  assumes "distinct sids" "\<forall>g \<in> set (api_key_sandbox_grants w). ag_api_key_id g = kid \<longrightarrow> ag_sandbox_id g \<notin> set sids"
  shows "\<exists>n gs. for_each sids (insert_grant now kid) w =
    (Inr (), w\<lparr>ids_drawn := n, api_key_sandbox_grants := api_key_sandbox_grants w @ gs\<rparr>) \<and> granted_to kid sids gs"
  using assms
proof (induction sids arbitrary: w)
  case Nil
  show ?case by (intro exI [of _ "ids_drawn w"] exI [of _ "[]"]) (simp add: granted_to_def)
next
  case (Cons sid sids)
  let ?g = "\<lparr>ag_id = ''akg'' @ id_source w (ids_drawn w), ag_api_key_id = kid, ag_sandbox_id = sid, ag_gmt_created = now\<rparr>"
  let ?v = "w\<lparr>ids_drawn := Suc (ids_drawn w), api_key_sandbox_grants := api_key_sandbox_grants w @ [?g]\<rparr>"
  have run: "insert_grant now kid sid w = (Inr (), ?v)"
    using Cons.prems(2) by (auto simp: insert_grant_def draw_id_run)
  have "\<forall>g \<in> set (api_key_sandbox_grants ?v). ag_api_key_id g = kid \<longrightarrow> ag_sandbox_id g \<notin> set sids"
    using Cons.prems by auto
  moreover have "distinct sids" using Cons.prems(1) by simp
  ultimately obtain n gs where
    rest: "for_each sids (insert_grant now kid) ?v =
      (Inr (), ?v\<lparr>ids_drawn := n, api_key_sandbox_grants := api_key_sandbox_grants ?v @ gs\<rparr>)" and gs: "granted_to kid sids gs"
    using Cons.IH [of ?v] by blast
  have "for_each (sid # sids) (insert_grant now kid) w =
      (Inr (), w\<lparr>ids_drawn := n, api_key_sandbox_grants := api_key_sandbox_grants w @ (?g # gs)\<rparr>)"
    using run rest by (simp add: ebind_def)
  moreover have "granted_to kid (sid # sids) (?g # gs)" using gs by (simp add: granted_to_def)
  ultimately show ?case by blast
qed

lemma resolve_scope_run:
  assumes "\<And>i. i \<in> set (sc_sandbox_ids sc) \<Longrightarrow> \<exists>s \<in> set (sandboxes w). sb_id s = i \<and> sb_owner_id s = owner"
    and "sc = (case scope of None \<Rightarrow> default_api_key_scope | Some s \<Rightarrow> s)"
  shows "resolve_api_key_scope owner scope w = (Inr (sc, dedupe (sc_sandbox_ids sc)), w)"
proof -
  have "set (map sb_id (filter (\<lambda>s. sb_owner_id s = owner \<and> sb_id s \<in> set (dedupe (sc_sandbox_ids sc))) (sandboxes w))) =
      set (dedupe (sc_sandbox_ids sc))"
    using assms(1) by (auto simp: dedupe_def image_iff)
  then show ?thesis
    unfolding resolve_api_key_scope_def validate_owned_sandbox_ids_def assms(2) [symmetric] Let_def
    by (auto simp: dedupe_def)
qed

lemma dedupe_facts [simp]: "set (dedupe xs) = set xs" "distinct (dedupe xs)"
  by (simp_all add: dedupe_def)

definition new_key :: "lib \<Rightarrow> time \<Rightarrow> user \<Rightarrow> create_key_body \<Rightarrow> key_scope \<Rightarrow> string \<Rightarrow> string \<Rightarrow> api_key" where
  "new_key lib now u b sc secret kid =
     \<lparr>ak_id = kid, ak_key_hash = hash_api_key_secret lib secret, ak_key_preview = build_api_key_preview secret,
      ak_name = ck_name b, ak_user_id = us_id u, ak_is_enabled = True, ak_control_plane_enabled = sc_control_plane sc,
      ak_data_plane_mode = sc_mode sc, ak_gmt_created = now, ak_gmt_updated = now,
      ak_gmt_expires = map_option (\<lambda>n. now + seconds n) (ck_expires_in b), ak_gmt_deleted = None\<rparr>"

lemma replace_grants_run:
  assumes "kid \<notin> set (map ag_api_key_id (api_key_sandbox_grants w))" "distinct sids"
  shows "\<exists>n gs. replace_api_key_sandbox_grants now kid sids w =
    (Inr (), w\<lparr>ids_drawn := n, api_key_sandbox_grants := api_key_sandbox_grants w @ gs\<rparr>) \<and> granted_to kid sids gs"
proof -
  have none: "filter (\<lambda>g. ag_api_key_id g \<noteq> kid) (api_key_sandbox_grants w) = api_key_sandbox_grants w"
    using assms(1) by (auto simp: filter_id_conv)
  then have "replace_api_key_sandbox_grants now kid sids w = for_each sids (insert_grant now kid) w"
    by (simp add: replace_api_key_sandbox_grants_def)
  moreover have "\<forall>g \<in> set (api_key_sandbox_grants w). ag_api_key_id g = kid \<longrightarrow> ag_sandbox_id g \<notin> set sids"
    using assms(1) by auto
  ultimately show ?thesis using insert_grants_run [OF assms(2)] by metis
qed

lemma create_api_key_run:
  assumes inv: "identity_inv w"
    and scope: "sc = (case ck_scope b of None \<Rightarrow> default_api_key_scope | Some s \<Rightarrow> s)"
    and owned: "\<forall>i \<in> set (sc_sandbox_ids sc). \<exists>s \<in> set (sandboxes w). sb_id s = i \<and> sb_owner_id s = us_id u"
    and secret: "secret = ''sk-'' @ id_source w (ids_drawn w)" "hash_api_key_secret lib secret \<notin> set (map ak_key_hash (api_keys w))"
    and kid: "kid = ''key'' @ id_source w (Suc (ids_drawn w))" "kid \<notin> set (map ak_id (api_keys w))"
      "kid \<notin> set (map ag_api_key_id (api_key_sandbox_grants w))"
  shows "\<exists>w' gs. create_api_key lib now u rq b w = (Inr (key_dict w' (new_key lib now u b sc secret kid) secret), w') \<and>
    api_keys w' = api_keys w @ [new_key lib now u b sc secret kid] \<and> users w' = users w \<and>
    api_key_sandbox_grants w' = api_key_sandbox_grants w @ gs \<and> granted_to kid (dedupe (sc_sandbox_ids sc)) gs"
proof -
  let ?k = "new_key lib now u b sc secret kid" and ?sids = "dedupe (sc_sandbox_ids sc)"
  define w1 where "w1 = w\<lparr>ids_drawn := Suc (ids_drawn w)\<rparr>"
  define w2 where "w2 = w\<lparr>ids_drawn := Suc (Suc (ids_drawn w)), api_keys := api_keys w @ [?k]\<rparr>"
  have draws: "draw_id ''sk-'' w = (Inr secret, w1)" "draw_id ''key'' w1 = (Inr kid, w1\<lparr>ids_drawn := Suc (ids_drawn w1)\<rparr>)"
    by (simp_all add: draw_id_run w1_def secret(1) kid(1))
  have scope_run: "resolve_api_key_scope (us_id u) (ck_scope b) w1 = (Inr (sc, ?sids), w1)"
    using owned scope by (intro resolve_scope_run) (auto simp: w1_def)
  have insert_run: "insert_api_key ?k (w1\<lparr>ids_drawn := Suc (ids_drawn w1)\<rparr>) = (Inr (), w2)"
    using secret(2) kid(2) by (auto simp: insert_api_key_def w1_def w2_def new_key_def)
  obtain n gs where grants_run: "replace_api_key_sandbox_grants now kid ?sids w2 =
      (Inr (), w2\<lparr>ids_drawn := n, api_key_sandbox_grants := api_key_sandbox_grants w2 @ gs\<rparr>)" and gs: "granted_to kid ?sids gs"
    using replace_grants_run [of kid w2 ?sids now] kid(3) by (auto simp: w2_def)
  define w3 where "w3 = snd (ebind (audit_success rq ''auth.api_key.create'' ''api_key'' (Some kid)
         [(''name'', MStr (ck_name b)), (''scope'', scope_payload_from_values (sc_control_plane sc) (sc_mode sc) ?sids)]) (\<lambda>_. commit)
      (w2\<lparr>ids_drawn := n, api_key_sandbox_grants := api_key_sandbox_grants w2 @ gs\<rparr>))"
  have w3: "api_keys w3 = api_keys w @ [?k]" "users w3 = users w" "api_key_sandbox_grants w3 = api_key_sandbox_grants w @ gs"
    by (simp_all add: w3_def ebind_def audit_request_def commit_def store_rows_def w2_def)
  have "filter (\<lambda>k. ak_id k = kid) (api_keys w3) = [?k]"
    using kid(2) w3(1) by (auto simp: filter_empty_conv new_key_def)
  then have load: "load_api_key_with_grants kid w3 = (Inr ?k, w3)"
    by (simp add: load_api_key_with_grants_def)
  have "create_api_key lib now u rq b w = (Inr (key_dict w3 ?k secret), w3)"
    unfolding create_api_key_def
    using load
    by (simp add: ebind_def transaction_def draws scope_run insert_run [unfolded new_key_def] grants_run
        w3_def audit_request_def commit_def)
  with w3 gs show ?thesis by blast
qed

text \<open>C34: a key that is created for a user with a valid request opens, until it expires, what its scope says and nothing
  else: the returned secret authenticates as the user, reaches the control plane iff the scope has it, and
  reaches the sandboxes that the mode allows; the constraints of the tables hold afterwards. The creation
  succeeds whenever the selected sandboxes belong to the user and the random values are new.\<close>

theorem created_key_opens_its_scope:
  assumes inv: "identity_inv w" and u: "u \<in> set (users w)" "us_is_active u"
    and scope: "sc = (case ck_scope b of None \<Rightarrow> default_api_key_scope | Some s \<Rightarrow> s)"
    and owned: "\<forall>i \<in> set (sc_sandbox_ids sc). \<exists>s \<in> set (sandboxes w). sb_id s = i \<and> sb_owner_id s = us_id u"
    and fresh: "sha256_hex lib (''sk-'' @ id_source w (ids_drawn w)) \<notin> set (map ak_key_hash (api_keys w))"
      "''key'' @ id_source w (Suc (ids_drawn w)) \<notin> set (map ak_id (api_keys w))"
      "''key'' @ id_source w (Suc (ids_drawn w)) \<notin> set (map ag_api_key_id (api_key_sandbox_grants w))"
  shows "\<exists>r w'. create_api_key lib now u rq b w = (Inr r, w') \<and> identity_inv w' \<and>
    (\<forall>t. (\<forall>n. ck_expires_in b = Some n \<longrightarrow> t < now + seconds n) \<longrightarrow>
      (\<exists>k. authenticate_api_key_value lib t (kr_key r) w' = (Inr (Some (k, u)), w') \<and>
        ak_control_plane_enabled k = sc_control_plane sc \<and>
        (\<forall>sid. data_plane_allowed w' k sid \<longleftrightarrow>
           sc_mode sc = DP_ALL \<or> sc_mode sc = DP_SELECTED \<and> sid \<in> set (sc_sandbox_ids sc))))"
proof -
  define secret where "secret = ''sk-'' @ id_source w (ids_drawn w)"
  define kid where "kid = ''key'' @ id_source w (Suc (ids_drawn w))"
  note fresh = fresh [folded secret_def kid_def]
  let ?k = "new_key lib now u b sc secret kid"
  have hash: "hash_api_key_secret lib secret \<notin> set (map ak_key_hash (api_keys w))"
    using fresh(1) by (simp add: hash_api_key_secret_def)
  obtain w' gs where run: "create_api_key lib now u rq b w = (Inr (key_dict w' ?k secret), w')"
    and w': "api_keys w' = api_keys w @ [?k]" "users w' = users w" "api_key_sandbox_grants w' = api_key_sandbox_grants w @ gs"
    and gs: "granted_to kid (dedupe (sc_sandbox_ids sc)) gs"
    using create_api_key_run [OF inv scope owned secret_def hash kid_def fresh(2,3)] by blast
  have inv': "identity_inv w'" using keepsD [OF keeps_key_handlers(1) inv] run by (metis snd_conv)
  have "authenticate_api_key_value lib t secret w' = (Inr (Some (?k, u)), w')"
    if "\<forall>n. ck_expires_in b = Some n \<longrightarrow> t < now + seconds n" for t
    using that u w' by (intro authenticate_some [OF inv'])
      (auto simp: key_valid_def new_key_def hash_api_key_secret_def is_expired_def split: option.splits)
  moreover have "(\<exists>g \<in> set (api_key_sandbox_grants w'). ag_api_key_id g = kid \<and> ag_sandbox_id g = sid) \<longleftrightarrow>
      sid \<in> set (sc_sandbox_ids sc)" for sid
  proof -
    have "ag_sandbox_id ` set gs = set (sc_sandbox_ids sc)" "\<forall>g \<in> set gs. ag_api_key_id g = kid"
      using gs by (auto simp: granted_to_def simp flip: set_map)
    then have "sid \<in> set (sc_sandbox_ids sc) \<longleftrightarrow> (\<exists>g \<in> set gs. ag_api_key_id g = kid \<and> ag_sandbox_id g = sid)"
      by (auto simp flip: \<open>ag_sandbox_id ` set gs = set (sc_sandbox_ids sc)\<close>)
    with fresh(3) show ?thesis unfolding w'(3) by auto
  qed
  ultimately show ?thesis
    using run inv' by (intro exI [of _ "key_dict w' ?k secret"] exI [of _ w'])
      (auto simp: key_dict_def data_plane_allowed_def new_key_def)
qed

text \<open>deleting an API key is final. After the handler has deleted the key of a secret, neither the control plane nor the
  data plane accepts the secret, at any time, after any sequence of creations, updates and deletions of keys by
  any users and of steps of the rest of the program, as long as the same secret is not drawn again.\<close>

theorem deleted_key_stays_out:
  assumes "identity_inv w" and "k \<in> set (api_keys w)" "ak_key_hash k = sha256_hex lib secret"
    and "delete_api_key now u rq (ak_id k) w = (Inr (), w1)"
    and "\<forall>n \<ge> ids_drawn w. sha256_hex lib (''sk-'' @ id_source w n) \<noteq> sha256_hex lib secret"
    and "(key_step lib)\<^sup>*\<^sup>* w1 w2" and "startswith secret ''sk-''"
  shows "get_current_control_plane_user lib t (Some secret) cookie_user rq' w2 = (Inl (AuthInvalidError ''Invalid or expired API key.''), w2) \<and>
    get_current_data_plane_user lib t (Some secret) cookie_user sid rq' w2 = (Inl (AuthInvalidError ''Invalid or expired API key.''), w2)"
proof -
  have "revoked lib secret w1" using delete_revokes [OF assms(1,4,2,3)] assms(5) by blast
  with assms(6) have "revoked lib secret w2" by (induction rule: rtranclp_induct) (auto intro: key_step_revoked)
  then have "authenticate_api_key_value lib t secret w2 = (Inr None, w2)" by (rule revoked_rejects)
  then show ?thesis
    using assms(7) by (simp add: get_current_control_plane_user_def get_current_data_plane_user_def)
qed

subsection \<open>Isolation\<close>

text \<open>What the other users see of their keys.\<close>

definition foreign_keys :: "string \<Rightarrow> world \<Rightarrow> api_key list" where
  "foreign_keys uid w = filter (\<lambda>k. ak_user_id k \<noteq> uid) (api_keys w)"

definition foreign_grants :: "string \<Rightarrow> world \<Rightarrow> world \<Rightarrow> api_key_sandbox_grant list" where
  "foreign_grants uid w0 w =
     filter (\<lambda>g. ag_api_key_id g \<in> set (map ak_id (foreign_keys uid w0))) (api_key_sandbox_grants w)"

definition untouched :: "string \<Rightarrow> world \<Rightarrow> world \<Rightarrow> bool" where
  "untouched uid w0 w \<longleftrightarrow> foreign_keys uid w = foreign_keys uid w0 \<and> foreign_grants uid w0 w = foreign_grants uid w0 w0 \<and> identity_inv w"

lemma untouched_frame [simp]:
  "untouched u w0 (w\<lparr>outbox := m\<rparr>) = untouched u w0 w" "untouched u w0 (w\<lparr>template_specs_cache := c\<rparr>) = untouched u w0 w"
  "untouched u w0 (w\<lparr>k8s_log := l\<rparr>) = untouched u w0 w" "untouched u w0 (w\<lparr>ids_drawn := n\<rparr>) = untouched u w0 w"
  "untouched u w0 (w\<lparr>audit_events := a\<rparr>) = untouched u w0 w" "untouched u w0 (store_rows w) = untouched u w0 w"
  by (simp_all add: untouched_def foreign_keys_def foreign_grants_def identity_inv_def store_rows_def)

lemma row_property_untouched [simp]: "row_property (untouched u w0)"
  by (simp add: row_property_def)

lemma keeps_untouched_basic: "keeps (untouched u w0) commit" "keeps (untouched u w0) (draw_id p)"
  by (simp_all add: keeps_def commit_def draw_id_run)

lemma keeps_untouched_grants:
  assumes "kid \<notin> set (map ak_id (foreign_keys u w0))"
  shows "keeps (untouched u w0) (replace_api_key_sandbox_grants now kid sids)"
proof -
  have "keeps (untouched u w0) (insert_grant now kid sid)" for sid
    using assms keepsD [OF keeps_insert_grant [of now kid sid]]
    by (auto simp: keeps_def insert_grant_def untouched_def foreign_keys_def foreign_grants_def draw_id_run identity_inv_def)
  moreover have "untouched u w0 (w\<lparr>api_key_sandbox_grants := filter (\<lambda>g. ag_api_key_id g \<noteq> kid) (api_key_sandbox_grants w)\<rparr>)"
    (is "untouched u w0 ?v") if w: "untouched u w0 w" for w
  proof -
    have "foreign_grants u w0 ?v = foreign_grants u w0 w"
      using assms by (auto simp: foreign_grants_def intro!: filter_cong)
    moreover have "identity_inv ?v" using w by (simp add: untouched_def identity_inv_def distinct_map_filter)
    moreover have "foreign_keys u ?v = foreign_keys u w" by (simp add: foreign_keys_def)
    ultimately show ?thesis using w by (simp add: untouched_def)
  qed
  ultimately show ?thesis
    unfolding replace_api_key_sandbox_grants_def by (intro keeps_intros) auto
qed

lemma foreign_in:
  assumes "untouched u w0 w"
  shows "set (foreign_keys u w0) = {k \<in> set (api_keys w). ak_user_id k \<noteq> u}"
proof -
  have "foreign_keys u w0 = foreign_keys u w" using assms by (simp add: untouched_def)
  then show ?thesis by (simp add: foreign_keys_def)
qed

text \<open>A key found by \<open>own_key\<close> is none of the others'.\<close>

lemma valid_own_key:
  "valid (untouched (us_id u) w0) (own_key kid u)
    (\<lambda>k w. (ak_id k = kid \<and> kid \<notin> set (map ak_id (foreign_keys (us_id u) w0))) \<and> untouched (us_id u) w0 w)
    (untouched (us_id u) w0)"
proof -
  have "kid \<notin> set (map ak_id (foreign_keys (us_id u) w0))"
    if w: "untouched (us_id u) w0 w" and q: "filter (\<lambda>k. ak_id k = kid \<and> ak_user_id k = us_id u \<and> ak_gmt_deleted k = None) (api_keys w) = [k]" for w k
  proof
    assume "kid \<in> set (map ak_id (foreign_keys (us_id u) w0))"
    then obtain k' where "k' \<in> set (api_keys w)" "ak_user_id k' \<noteq> us_id u" "ak_id k' = kid"
      using foreign_in [OF w] by auto
    moreover have "k \<in> set (api_keys w)" "ak_id k = kid" "ak_user_id k = us_id u"
      using filter_singleD [OF q] by simp_all
    moreover have "distinct (map ak_id (api_keys w))" using w by (simp add: untouched_def identity_inv_def)
    ultimately show False by (auto simp: distinct_map inj_on_def)
  qed
  moreover have "ak_id k = kid"
    if "filter (\<lambda>k. ak_id k = kid \<and> ak_user_id k = us_id u \<and> ak_gmt_deleted k = None) (api_keys w) = [k]" for w k
    using filter_singleD [OF that] by simp
  ultimately show ?thesis
    by (auto simp: valid_def own_key_def select_one_or_none_def ebind_def scalar_one_or_none_Some
        split: sum.splits option.splits)
qed

lemma keeps_untouched_set:
  assumes "kid \<notin> set (map ak_id (foreign_keys u w0))"
    and "\<And>k. ak_id (f k) = ak_id k" "\<And>k. ak_key_hash (f k) = ak_key_hash k" "\<And>k. ak_user_id (f k) = ak_user_id k"
  shows "keeps (untouched u w0) (set_api_key kid f)"
proof (rule keepsI)
  fix w
  assume w: "untouched u w0 w"
  have "foreign_keys u (snd (set_api_key kid f w)) = update_where (\<lambda>k. ak_id k = kid) f (foreign_keys u w)"
    using assms(4) by (simp add: foreign_keys_def set_api_key_def filter_update_where)
  also have "\<dots> = foreign_keys u w"
    using assms(1) w by (intro update_where_id) (auto simp: untouched_def)
  finally show "untouched u w0 (snd (set_api_key kid f w))"
    using w keepsD [OF keeps_set_api_key [OF assms(2,3)], of w kid]
    by (simp add: untouched_def foreign_grants_def set_api_key_def)
qed

lemma valid_insert_key:
  assumes "ak_user_id k = uid"
  shows "valid (untouched uid w0) (insert_api_key k)
    (\<lambda>_ w. ak_id k \<notin> set (map ak_id (foreign_keys uid w0)) \<and> untouched uid w0 w) (untouched uid w0)"
proof -
  have "ak_id k \<notin> set (map ak_id (foreign_keys uid w0))" if "untouched uid w0 w" "ak_id k \<notin> set (map ak_id (api_keys w))" for w
    using that foreign_in [OF that(1)] by auto
  moreover have "untouched uid w0 (w\<lparr>api_keys := api_keys w @ [k]\<rparr>)"
    if "untouched uid w0 w" "ak_id k \<notin> set (map ak_id (api_keys w))" "ak_key_hash k \<notin> set (map ak_key_hash (api_keys w))" for w
    using that assms by (simp add: untouched_def foreign_keys_def foreign_grants_def identity_inv_def)
  ultimately show ?thesis by (simp add: valid_def insert_api_key_def)
qed

lemma keeps_untouched_new:
  assumes "ak_user_id k = uid" "\<And>a. ak_id k \<notin> set (map ak_id (foreign_keys uid w0)) \<Longrightarrow> keeps (untouched uid w0) (f a)"
  shows "keeps (untouched uid w0) (ebind (insert_api_key k) f)"
  using valid_insert_key [OF assms(1)]
  by (rule keeps_valid [OF valid_ebind]) (rule valid_assume, rule valid_keeps, rule assms(2))

lemma keeps_untouched_own:
  assumes "\<And>k. ak_id k = kid \<Longrightarrow> kid \<notin> set (map ak_id (foreign_keys (us_id u) w0)) \<Longrightarrow> keeps (untouched (us_id u) w0) (f k)"
  shows "keeps (untouched (us_id u) w0) (ebind (own_key kid u) f)"
  using valid_own_key
  by (rule keeps_valid [OF valid_ebind]) (rule valid_assume, rule valid_keeps, rule assms, simp_all)

lemmas untouched_rules =
  keeps_untouched_new keeps_untouched_own row_property_untouched keeps_untouched_basic keeps_untouched_set keeps_untouched_grants

lemma keeps_untouched_scope:
  "kid \<notin> set (map ak_id (foreign_keys (us_id u) w0)) \<Longrightarrow> keeps (untouched (us_id u) w0) (update_scope now u kid sc)"
  unfolding update_scope_def by (intro untouched_rules keeps_intros) auto

lemma keeps_untouched_handlers:
  "keeps (untouched (us_id u) w0) (create_api_key lib now u rq cb)"
  "keeps (untouched (us_id u) w0) (update_api_key now u rq kid ub)"
  "keeps (untouched (us_id u) w0) (delete_api_key now u rq kid)"
  unfolding create_api_key_def update_api_key_def delete_api_key_def
  by (rule untouched_rules keeps_untouched_scope keeps_intros | assumption | simp)+

text \<open>Whatever a user sends to the key handlers and however the request ends, the keys of all other users and their
  sandbox grants stay as they are, and the unique constraints of the identity tables are kept.\<close>

theorem key_handlers_isolate_users:
  assumes "identity_inv w"
    and "w' \<in> {snd (create_api_key lib now u rq cb w), snd (update_api_key now u rq kid ub w), snd (delete_api_key now u rq kid w)}"
  shows "foreign_keys (us_id u) w' = foreign_keys (us_id u) w \<and>
    foreign_grants (us_id u) w w' = foreign_grants (us_id u) w w \<and> identity_inv w'"
proof -
  have "untouched (us_id u) w w" using assms(1) by (simp add: untouched_def)
  then have "untouched (us_id u) w w'"
    using assms(2) keepsD [OF keeps_untouched_handlers(1)] keepsD [OF keeps_untouched_handlers(2)]
      keepsD [OF keeps_untouched_handlers(3)] by auto
  then show ?thesis by (simp add: untouched_def)
qed

subsection \<open>A concrete table\<close>

definition demo_lib :: lib where
  "demo_lib = \<lparr>sha256_hex = (\<lambda>s. s), jwt_encode = (\<lambda>_. ''''), jwt_decode = (\<lambda>_ _ _. None),
     pw_hash = (\<lambda>salt p. salt @ p), pw_verify = (\<lambda>p h. endswith h p), ipv6_ok = (\<lambda>_. True),
     write_token = (\<lambda>_ u. us_id u), verify_token = (\<lambda>_ u. Inr (us_id u)), forgot_token = (\<lambda>_ u. Inr (us_id u)),
     verified_user = (\<lambda>_ t _. Inr t), reset_user = (\<lambda>_ t p _. Inr (t, p)), mail_error = (\<lambda>_. None)\<rparr>"

definition demo_user :: "string \<Rightarrow> role \<Rightarrow> user" where
  "demo_user uid r = \<lparr>us_id = uid, us_email = uid @ ''@x.io'', us_username = None, us_hashed_password = ''h'',
     us_has_local_password = True, us_is_active = True, us_is_verified = True, us_role = r,
     us_gmt_created = 0, us_gmt_updated = 0\<rparr>"

definition demo_key :: "string \<Rightarrow> string \<Rightarrow> string \<Rightarrow> api_key" where
  "demo_key kid secret uid = \<lparr>ak_id = kid, ak_key_hash = secret, ak_key_preview = '''', ak_name = ''default'', ak_user_id = uid,
     ak_is_enabled = True, ak_control_plane_enabled = True, ak_data_plane_mode = DP_ALL, ak_gmt_created = 0,
     ak_gmt_updated = 0, ak_gmt_expires = None, ak_gmt_deleted = None\<rparr>"

definition demo_request :: request where
  "demo_request = \<lparr>rq_request_method = ''GET'', rq_path = ''/'', rq_headers = [], rq_cookies = [], rq_query = [],
     rq_query_string = '''', rq_scheme = ''http'', rq_base_url = ''http://localhost/'', rq_client = None, rq_context = []\<rparr>"

definition demo_identity :: world where
  "demo_identity = empty_world\<lparr>users := [demo_user ''u1'' ADMIN, demo_user ''u2'' RW],
     api_keys := [demo_key ''k1'' ''sk-one'' ''u1'', demo_key ''k2'' ''sk-two'' ''u2'']\<rparr>"

definition demo_key_body :: create_key_body where
  "demo_key_body = \<lparr>ck_name = ''ci'', ck_expires_in = Some 60, ck_scope = None\<rparr>"

lemmas demo_identity_defs =
  demo_lib_def demo_user_def demo_key_def demo_request_def demo_identity_def demo_key_body_def empty_world_def

lemma demo_identity_inv: "identity_inv demo_identity"
  by (simp add: identity_inv_def demo_identity_defs)

theorem access_decisions_exact_witness:
  "fst (get_current_control_plane_user demo_lib 0 (Some ''sk-one'') None demo_request demo_identity) =
     Inr (demo_user ''u1'' ADMIN, set_auth_context ''api_key'' (Some (demo_user ''u1'' ADMIN)) (Some (demo_key ''k1'' ''sk-one'' ''u1'')) demo_request)"
proof -
  have "key_valid demo_lib 0 demo_identity ''sk-one'' (demo_key ''k1'' ''sk-one'' ''u1'') (demo_user ''u1'' ADMIN)"
    "ak_control_plane_enabled (demo_key ''k1'' ''sk-one'' ''u1'')" "startswith ''sk-one'' ''sk-''"
    by (simp_all add: key_valid_def is_expired_def startswith_def demo_identity_defs)
  then have "get_current_control_plane_user demo_lib 0 (Some ''sk-one'') None demo_request demo_identity =
     (Inr (demo_user ''u1'' ADMIN, set_auth_context ''api_key'' (Some (demo_user ''u1'' ADMIN)) (Some (demo_key ''k1'' ''sk-one'' ''u1'')) demo_request),
      demo_identity)"
    using access_decisions_exact [OF demo_identity_inv, where sid = "''s''" and lib = demo_lib and now = 0
        and credentials = "Some ''sk-one''" and cookie_user = None and rq = demo_request and u = "demo_user ''u1'' ADMIN"
        and w' = demo_identity] by fastforce
  then show ?thesis by simp
qed

theorem key_handlers_isolate_users_witness:
  "foreign_keys ''u1'' (snd (delete_api_key 5 (demo_user ''u1'' ADMIN) demo_request ''k1'' demo_identity)) = [demo_key ''k2'' ''sk-two'' ''u2'']"
  using key_handlers_isolate_users [OF demo_identity_inv, where u = "demo_user ''u1'' ADMIN" and
      w' = "snd (delete_api_key 5 (demo_user ''u1'' ADMIN) demo_request ''k1'' demo_identity)" and now = 5 and
      rq = demo_request and kid = "''k1''" and lib = demo_lib and cb = demo_key_body and ub = undefined]
  by (simp add: foreign_keys_def demo_identity_defs)

lemma demo_fresh: "''sk-one'' \<noteq> ''sk-'' @ id_source demo_identity n"
  by (simp add: demo_identity_defs)

lemma demo_delete:
  "\<exists>w. delete_api_key 5 (demo_user ''u1'' ADMIN) demo_request (ak_id (demo_key ''k1'' ''sk-one'' ''u1'')) demo_identity = (Inr (), w)"
  by (simp add: delete_api_key_def transaction_def own_key_def set_api_key_def audit_request_def commit_def
      select_one_or_none_def ebind_def demo_identity_defs)

theorem deleted_key_stays_out_witness:
  "let w1 = snd (delete_api_key 5 (demo_user ''u1'' ADMIN) demo_request ''k1'' demo_identity);
       w2 = snd (create_api_key demo_lib 6 (demo_user ''u1'' ADMIN) demo_request demo_key_body w1)
   in fst (get_current_control_plane_user demo_lib 7 (Some ''sk-one'') None demo_request w2) =
      Inl (AuthInvalidError ''Invalid or expired API key.'')"
proof -
  obtain w1 where del: "delete_api_key 5 (demo_user ''u1'' ADMIN) demo_request (ak_id (demo_key ''k1'' ''sk-one'' ''u1'')) demo_identity = (Inr (), w1)"
    using demo_delete by blast
  let ?w2 = "snd (create_api_key demo_lib 6 (demo_user ''u1'' ADMIN) demo_request demo_key_body w1)"
  have "(key_step demo_lib)\<^sup>*\<^sup>* w1 ?w2" by (rule r_into_rtranclp) (rule key_step.create)
  moreover have "demo_key ''k1'' ''sk-one'' ''u1'' \<in> set (api_keys demo_identity)"
    "ak_key_hash (demo_key ''k1'' ''sk-one'' ''u1'') = sha256_hex demo_lib ''sk-one''" "startswith ''sk-one'' ''sk-''"
    by (simp_all add: demo_identity_def demo_key_def demo_lib_def startswith_def)
  moreover have "\<forall>n \<ge> ids_drawn demo_identity. sha256_hex demo_lib (''sk-'' @ id_source demo_identity n) \<noteq> sha256_hex demo_lib ''sk-one''"
    using demo_fresh by (metis demo_lib_def lib.select_convs(1))
  ultimately have "fst (get_current_control_plane_user demo_lib 7 (Some ''sk-one'') None demo_request ?w2) =
      Inl (AuthInvalidError ''Invalid or expired API key.'')"
    using deleted_key_stays_out [OF demo_identity_inv _ _ del] by (metis fst_conv)
  moreover have "snd (delete_api_key 5 (demo_user ''u1'' ADMIN) demo_request ''k1'' demo_identity) = w1"
    using del by (simp add: demo_key_def)
  ultimately show ?thesis by (simp add: Let_def)
qed

theorem created_key_opens_its_scope_witness:
  "\<exists>r w'. create_api_key demo_lib 6 (demo_user ''u1'' ADMIN) demo_request demo_key_body demo_identity = (Inr r, w') \<and>
     identity_inv w' \<and> (\<exists>k. authenticate_api_key_value demo_lib 7 (kr_key r) w' = (Inr (Some (k, demo_user ''u1'' ADMIN)), w'))"
proof -
  have fresh: "sha256_hex demo_lib (''sk-'' @ id_source demo_identity (ids_drawn demo_identity)) \<notin> set (map ak_key_hash (api_keys demo_identity))"
    "''key'' @ id_source demo_identity (Suc (ids_drawn demo_identity)) \<notin> set (map ak_id (api_keys demo_identity))"
    "''key'' @ id_source demo_identity (Suc (ids_drawn demo_identity)) \<notin> set (map ag_api_key_id (api_key_sandbox_grants demo_identity))"
    by (simp_all add: demo_identity_defs)
  have "\<exists>r w'. create_api_key demo_lib 6 (demo_user ''u1'' ADMIN) demo_request demo_key_body demo_identity = (Inr r, w') \<and> identity_inv w' \<and>
    (\<forall>t. (\<forall>n. ck_expires_in demo_key_body = Some n \<longrightarrow> t < 6 + seconds n) \<longrightarrow>
      (\<exists>k. authenticate_api_key_value demo_lib t (kr_key r) w' = (Inr (Some (k, demo_user ''u1'' ADMIN)), w') \<and>
        ak_control_plane_enabled k = sc_control_plane default_api_key_scope \<and>
        (\<forall>sid. data_plane_allowed w' k sid \<longleftrightarrow>
           sc_mode default_api_key_scope = DP_ALL \<or> sc_mode default_api_key_scope = DP_SELECTED \<and> sid \<in> set (sc_sandbox_ids default_api_key_scope))))"
    by (rule created_key_opens_its_scope [OF demo_identity_inv _ _ _ _ fresh])
       (simp_all add: demo_identity_defs default_api_key_scope_def)
  moreover have "\<forall>n. ck_expires_in demo_key_body = Some n \<longrightarrow> 7 < 6 + seconds n" by (simp add: demo_key_body_def seconds_def)
  ultimately show ?thesis by blast
qed

end
