(* ===== verification/Cli_Safety.thy ===== *)
theory Cli_Safety
  imports OAuth_Login Key_Safety
begin

text \<open>
  The login flows of the command line client under concurrency.

  \<open>cli_step\<close> interleaves the parts of any number of requests: a request begins, is in flight with what it has read, and
  later finishes. The callback of an OAuth login approves a flow too: it checks that the flow is pending, calls the provider
  and the library, and completes later. Ghost lists record which approvals and which tokens were given out. Shown by rule
  induction: a flow is approved at most once and yields at most one session token, for the user who approved it, and none once
  its row is used or failed.
\<close>

subsection \<open>The step relation\<close>

record cli_state =
  cw :: world
  exchanging :: "exchange list"
  approving :: "approval list"
  failing :: "string list"
  returning :: "string list"
  approved :: "(string \<times> string) list"
  issued :: "(string \<times> string \<times> string) list"

text \<open>The answer of the OAuth callback that sends the browser to the page that reports the approval.\<close>

definition tells_approved :: "string \<Rightarrow> response \<Rightarrow> bool" where
  "tells_approved fid r \<longleftrightarrow> rs_location r = rs_location (cli_oauth_redirect fid ''approved'' None)"

text \<open>\<open>other\<close> stands for the rest of the program, which may lose flows (when their user is deleted), draws ids and changes
  other tables.\<close>

inductive cli_step :: "lib \<Rightarrow> web_settings \<Rightarrow> cli_state \<Rightarrow> cli_state \<Rightarrow> bool" for lib web where
  create: "cli_step lib web c (c\<lparr>cw := snd (create_cli_flow lib web now (cw c))\<rparr>)"
| exchange_begins: "exchange_begin lib now fid secret (cw c) = (Inr x, w') \<Longrightarrow>
    cli_step lib web c (c\<lparr>cw := w', exchanging := x # exchanging c\<rparr>)"
| exchange_ends: "x \<in> set (exchanging c) \<Longrightarrow> exchange_finish x (cw c) = (Inr token, w') \<Longrightarrow>
    cli_step lib web c (c\<lparr>cw := w', issued := (xc_flow_id x, xc_user_id x, token) # issued c\<rparr>)"
| login_begins: "cli_login_begin lib now rq email password fid secret (cw c) = (Inr a, w') \<Longrightarrow>
    cli_step lib web c (c\<lparr>cw := w', approving := a # approving c\<rparr>)"
| approve_begins: "approve_begin lib now fid hdr u (cw c) = (Inr a, w') \<Longrightarrow>
    cli_step lib web c (c\<lparr>cw := w', approving := a # approving c\<rparr>)"
| approve_ends: "a \<in> set (approving c) \<Longrightarrow> approve_finish now rq a (cw c) = (Inr r, w') \<Longrightarrow>
    cli_step lib web c (c\<lparr>cw := w', approved := (ap_flow_id a, us_id (ap_user a)) # approved c\<rparr>)"
| oauth_begins: "fid \<noteq> [] \<Longrightarrow> validate_cli_flow_pending lib now fid None (cw c) = (Inr (), w') \<Longrightarrow>
    cli_step lib web c (c\<lparr>cw := w', returning := fid # returning c\<rparr>)"
| oauth_ends: "fid \<in> set (returning c) \<Longrightarrow>
    oauth_complete lib web now rq provider outcome (Some fid) return_to uid (cw c) = (Inr r, w') \<Longrightarrow>
    cli_step lib web c (c\<lparr>cw := w', approved := (if tells_approved fid r then [(fid, uid)] else []) @ approved c\<rparr>)"
| fail_begins: "fail_begin fid (cw c) = (Inr True, w') \<Longrightarrow>
    cli_step lib web c (c\<lparr>cw := w', failing := fid # failing c\<rparr>)"
| fail_ends: "fid \<in> set (failing c) \<Longrightarrow> fail_finish now fid (cw c) = (Inr r, w') \<Longrightarrow>
    cli_step lib web c (c\<lparr>cw := w'\<rparr>)"
| other: "cli_login_flows w' = filter p (cli_login_flows (cw c)) \<Longrightarrow> id_source w' = id_source (cw c) \<Longrightarrow>
    ids_drawn (cw c) \<le> ids_drawn w' \<Longrightarrow> cli_step lib web c (c\<lparr>cw := w'\<rparr>)"

text \<open>No flow has been created, no request is in flight, and no random value is drawn twice.\<close>

definition cli_start :: "cli_state \<Rightarrow> bool" where
  "cli_start c \<longleftrightarrow> cli_login_flows (cw c) = [] \<and> exchanging c = [] \<and> approving c = [] \<and> failing c = [] \<and>
     returning c = [] \<and> approved c = [] \<and> issued c = [] \<and> inj (id_source (cw c))"

subsection \<open>The invariant\<close>

definition drawn :: "world \<Rightarrow> string \<Rightarrow> bool" where
  "drawn w fid \<longleftrightarrow> (\<exists>n < ids_drawn w. fid = ''clf'' @ id_source w n)"

text \<open>What a row says about the flow: approvals are recorded in it, and a token leaves it used or failed.\<close>

definition flow_ok :: "(string \<times> string) list \<Rightarrow> (string \<times> string \<times> string) list \<Rightarrow> cli_login_flow \<Rightarrow> bool" where
  "flow_ok A I f \<longleftrightarrow>
     (cf_status f = FLOW_PENDING \<longrightarrow> cf_id f \<notin> fst ` set A) \<and>
     (cf_status f = FLOW_APPROVED \<longrightarrow> (\<exists>u. cf_user_id f = Some u \<and> (cf_id f, u) \<in> set A) \<and> cf_id f \<notin> fst ` set I) \<and>
     cf_status f \<noteq> FLOW_EXPIRED"

definition cli_inv :: "cli_state \<Rightarrow> bool" where
  "cli_inv c \<longleftrightarrow>
     inj (id_source (cw c)) \<and> distinct (map cf_id (cli_login_flows (cw c))) \<and>
     list_all (flow_ok (approved c) (issued c)) (cli_login_flows (cw c)) \<and>
     list_all (drawn (cw c)) (map cf_id (cli_login_flows (cw c)) @ map fst (approved c) @ map fst (issued c)) \<and>
     distinct (map fst (approved c)) \<and> distinct (map fst (issued c)) \<and>
     list_all (\<lambda>x. (xc_flow_id x, xc_user_id x) \<in> set (approved c)) (exchanging c) \<and>
     list_all (\<lambda>(f, u, t). (f, u) \<in> set (approved c)) (issued c) \<and> list_all (\<lambda>fid. fid \<noteq> []) (returning c)"

lemma drawn_mono:
  "drawn w fid \<Longrightarrow> id_source w' = id_source w \<Longrightarrow> ids_drawn w \<le> ids_drawn w' \<Longrightarrow> drawn w' fid"
  unfolding drawn_def by (metis order_less_le_trans)

lemma flow_ok_mono:
  "flow_ok A I f \<Longrightarrow> cf_id f \<noteq> a \<Longrightarrow> flow_ok ((a, u) # A) I f" "flow_ok A I f \<Longrightarrow> cf_id f \<noteq> a \<Longrightarrow> flow_ok A ((a, v) # I) f"
  by (auto simp: flow_ok_def)

text \<open>The flows change by an update of the rows with one id.\<close>

lemma cli_inv_world:
  assumes "cli_inv c" and "map cf_id (cli_login_flows w') = map cf_id (cli_login_flows (cw c))"
    and "list_all (flow_ok (approved c) (issued c)) (cli_login_flows w')"
    and "id_source w' = id_source (cw c)" "ids_drawn w' = ids_drawn (cw c)"
  shows "cli_inv (c\<lparr>cw := w'\<rparr>)"
  using assms by (simp add: cli_inv_def drawn_def list_all_iff)


subsection \<open>What the parts of a request do\<close>

lemma get_flow_run: "get_flow fid w = (Inr (Some f), w') \<Longrightarrow> w' = w \<and> f \<in> set (cli_login_flows w) \<and> cf_id f = fid"
  by (auto simp: get_flow_def select_one_or_none_def scalar_one_or_none_Some split: sum.splits dest: filter_singleD)

lemma validate_secret_run:
  assumes "validate_cli_flow_secret lib fid raw w = (Inr f, w')"
  shows "w' = w" "f \<in> set (cli_login_flows w)" "cf_id f = fid" "raw \<noteq> None" "sha256_hex lib (the raw) = cf_flow_secret_hash f"
proof -
  obtain r v where r: "get_flow fid w = (r, v)" by force
  have v: "v = w" using r by (auto simp: get_flow_def select_one_or_none_def split: sum.splits)
  have "get_flow fid w = (Inr (Some f), w) \<and> w' = w \<and> raw \<noteq> None \<and> sha256_hex lib (the raw) = cf_flow_secret_hash f"
    using assms r v
    by (auto simp: validate_cli_flow_secret_def get_flow_or_404_def verify_flow_secret_def hash_flow_secret_def ebind_def truthy_def
        raise_def ret_def split: sum.splits option.splits if_splits)
  with get_flow_run show "w' = w" "f \<in> set (cli_login_flows w)" "cf_id f = fid" "raw \<noteq> None"
    "sha256_hex lib (the raw) = cf_flow_secret_hash f" by blast+
qed

lemma exchange_begin_run:
  assumes "exchange_begin lib now fid secret w = (Inr x, w')"
  obtains f where "w' = w" "f \<in> set (cli_login_flows w)" "xc_flow_id x = cf_id f" "cf_status f = FLOW_APPROVED"
    "cf_user_id f = Some (xc_user_id x)"
proof -
  obtain f v where f: "validate_cli_flow_secret lib fid secret w = (Inr f, v)"
    and rest: "(let status = effective_status now f
       in if status = FLOW_EXPIRED then raise (BadRequestError ''CLI login flow has expired.'')
          else if status = FLOW_USED then raise (BadRequestError ''CLI login flow has already been used.'')
          else if status \<noteq> FLOW_APPROVED
          then raise (BadRequestError (''CLI login flow is not approved (status: '' @ flow_status_str status @ '').''))
          else ebind (gets (\<lambda>w. find (\<lambda>u. Some (us_id u) = cf_user_id f) (users w))) (\<lambda>r.
            case r of
              None \<Rightarrow> raise (BadRequestError ''User associated with this flow no longer exists.'')
            | Some u \<Rightarrow> ret \<lparr>xc_flow_id = cf_id f, xc_user_id = us_id u, xc_token = write_token lib now u\<rparr>)) v = (Inr x, w')"
    using assms unfolding exchange_begin_def by (rule ebind_InrE) blast
  have "effective_status now f = FLOW_APPROVED" using rest by (auto simp: Let_def raise_def split: if_splits)
  moreover from this have "cf_status f = FLOW_APPROVED" by (auto simp: effective_status_def split: if_splits)
  moreover obtain u where u: "find (\<lambda>u. Some (us_id u) = cf_user_id f) (users v) = Some u"
    using rest calculation by (auto simp: Let_def raise_def split: option.splits)
  moreover have "x = \<lparr>xc_flow_id = cf_id f, xc_user_id = us_id u, xc_token = write_token lib now u\<rparr>" "w' = v"
    using rest calculation by (auto simp: Let_def ret_def)
  moreover have "Some (us_id u) = cf_user_id f" using u by (auto simp: find_Some_iff)
  ultimately show thesis using that [of f] validate_secret_run [OF f] by simp
qed

lemma pending_flow_run: "pending_flow lib now fid raw w = (Inr f, w') \<Longrightarrow> w' = w"
  unfolding pending_flow_def by (erule ebind_InrE) (auto dest: validate_secret_run split: if_splits)

lemma approve_begin_run: "approve_begin lib now fid hdr u w = (Inr a, w') \<Longrightarrow> w' = w"
  unfolding approve_begin_def by (auto split: option.splits elim!: ebind_InrE dest: pending_flow_run)

lemma validate_pending_run: "validate_cli_flow_pending lib now fid secret w = (Inr u, w') \<Longrightarrow> w' = w"
  by (auto simp: validate_cli_flow_pending_def get_flow_def select_one_or_none_def ebind_def raise_def ret_def
      split: sum.splits option.splits if_splits)

lemma authenticate_read: "authenticate_email_password lib email password w = (r, w') \<Longrightarrow> w' = w"
  by (auto simp: authenticate_email_password_def user_with_email_def select_one_or_none_def ebind_def raise_def ret_def
      split: sum.splits option.splits if_splits)

lemma cli_login_begin_run: "cli_login_begin lib now rq email password fid secret w = (Inr a, w') \<Longrightarrow> w' = w"
  unfolding cli_login_begin_def
  by (elim ebind_InrE)
     (auto simp: try_catch_def raise_def audit_request_run dest!: pending_flow_run authenticate_read
       split: prod.splits sum.splits exn.splits)

lemma exchange_finish_run:
  assumes "exchange_finish x w = (Inr token, w')"
  shows "token = xc_token x"
    "w' = store_rows (w\<lparr>cli_login_flows := update_where (\<lambda>f. cf_id f = xc_flow_id x \<and> cf_status f = FLOW_APPROVED)
       (\<lambda>f. f\<lparr>cf_status := FLOW_USED\<rparr>) (cli_login_flows w)\<rparr>)"
    "\<exists>f \<in> set (cli_login_flows w). cf_id f = xc_flow_id x \<and> cf_status f = FLOW_APPROVED"
  using assms
  by (auto simp: exchange_finish_def consume_cli_flow_def ebind_def Let_def length_Suc_conv raise_def ret_def commit_def
      split: if_splits dest!: filter_singleD)

text \<open>The one row that an approval changes: the flow \<open>fid\<close>, which was pending, is approved for \<open>uid\<close>.\<close>

definition approves :: "time \<Rightarrow> string \<Rightarrow> string \<Rightarrow> string \<Rightarrow> world \<Rightarrow> world \<Rightarrow> bool" where
  "approves now fid uid provider w w' \<longleftrightarrow>
     cli_login_flows w' = update_where (\<lambda>f. cf_id f = fid \<and> cf_status f = FLOW_PENDING)
       (\<lambda>f. f\<lparr>cf_status := FLOW_APPROVED, cf_user_id := Some uid, cf_provider := Some provider,
         cf_gmt_completed := Some now\<rparr>) (cli_login_flows w) \<and>
     id_source w' = id_source w \<and> ids_drawn w' = ids_drawn w \<and>
     (\<exists>f \<in> set (cli_login_flows w). cf_id f = fid \<and> cf_status f = FLOW_PENDING)"

lemma record_oauth_success_run:
  "\<exists>es. record_oauth_success_events rq u provider outcome surface w = (Inr (), w\<lparr>audit_events := audit_events w @ es\<rparr>)"
  by (cases outcome) (simp_all add: record_oauth_success_events_def ebind_def audit_request_run, (rule exI, rule refl)+)

lemma quote_letters: "quote_char CHR ''f'' = ''f''" "quote_char CHR ''a'' = ''a''"
  by code_simp+

lemma ebind_step: "m w = (Inr a, w') \<Longrightarrow> ebind m f w = f a w'"
  by (simp add: ebind_def)

lemma gets_id_step: "gets id w = (Inr w, w)"
  by (simp add: gets_def)

lemma oauth_complete_run:
  assumes run: "oauth_complete lib web now rq provider outcome (Some fid) return_to uid w = (Inr r, w')" and fid: "fid \<noteq> []"
  shows "if tells_approved fid r then approves now fid uid provider w w'
    else cli_login_flows w' = cli_login_flows w \<and> id_source w' = id_source w \<and> ids_drawn w' = ids_drawn w"
proof -
  define w1 where "w1 = (if outcome = OA_LINK then snd (set_user now uid (\<lambda>u. u\<lparr>us_is_verified := True\<rparr>) w) else w)"
  have w1: "cli_login_flows w1 = cli_login_flows w" "id_source w1 = id_source w" "ids_drawn w1 = ids_drawn w"
    by (simp_all add: w1_def set_user_def)
  let ?m = "if outcome = OA_LINK then set_user now uid (\<lambda>u. u\<lparr>us_is_verified := True\<rparr>) else ret ()"
  have link: "?m w = (Inr (), w1)"
    by (simp add: w1_def set_user_def)
  obtain u where u: "find (\<lambda>u. us_id u = uid) (users w1) = Some u"
    using run link by (auto simp: oauth_complete_def ebind_def get_user_row_def gets_def raise_def split: option.splits)
  have row: "get_user_row uid w1 = (Inr (Some u), w1)" using u by (simp add: get_user_row_def gets_def)
  let ?K = "ebind (approve_transition now fid uid provider) (\<lambda>ok.
                 if \<not> ok
                 then ebind (rollback_to w) (\<lambda>_.
                      ret (clear_oauth_flow_cookies provider (cli_oauth_redirect (the (Some fid)) ''failed''
                        (Some ''CLI login flow is invalid or already completed.''))))
                 else ebind commit (\<lambda>_.
                      ret (clear_oauth_flow_cookies provider (cli_oauth_redirect (the (Some fid)) ''approved'' None))))"
  let ?rq = "set_scope_context [(''actor_user_id'', Some uid), (''credential_type'', Some ''cookie'')] rq"
  have step: "ebind (record_oauth_success_events ?rq u provider outcome ''cli'') (\<lambda>_. ?K) w1 = (Inr r, w')"
    using run fid
    by (simp add: oauth_complete_def ebind_step [of "gets id" w, OF gets_id_step] ebind_step [of ?m w, OF link]
        ebind_step [of "get_user_row uid" w1, OF row] truthy_def)
  obtain es where es: "record_oauth_success_events ?rq u provider outcome ''cli'' w1 = (Inr (), w1\<lparr>audit_events := audit_events w1 @ es\<rparr>)"
    using record_oauth_success_run by blast
  have rest: "?K (w1\<lparr>audit_events := audit_events w1 @ es\<rparr>) = (Inr r, w')"
    by (rule step [unfolded ebind_step [of "record_oauth_success_events ?rq u provider outcome ''cli''" w1, OF es]])
  have told: "\<not> tells_approved fid (clear_oauth_flow_cookies provider (cli_oauth_redirect fid ''failed'' m))"
    "tells_approved fid (clear_oauth_flow_cookies provider (cli_oauth_redirect fid ''approved'' None))" for m
    by (simp_all add: tells_approved_def clear_oauth_flow_cookies_def delete_cookie_def set_cookie_def cli_oauth_redirect_def
        redirect_response_def urlencode_def quote_plus_def truthy_def quote_letters)
  show ?thesis
    using rest told w1
    by (auto simp: approves_def approve_transition_def ebind_def Let_def rollback_to_def rollback_rows_def modify_def ret_def commit_def
        store_rows_def length_Suc_conv split: if_splits dest!: filter_singleD)
qed

lemma approve_finish_run:
  assumes "approve_finish now rq a w = (Inr r, w')"
  shows "approves now (ap_flow_id a) (us_id (ap_user a)) (ap_provider a) w w'"
  using assms
  by (auto simp: approves_def approve_finish_def approve_transition_def ebind_def Let_def length_Suc_conv raise_def ret_def commit_def
      audit_request_run store_rows_def split: if_splits dest!: filter_singleD)


subsection \<open>Every step keeps the invariant\<close>

lemma inv_create: "cli_inv c \<Longrightarrow> cli_inv (c\<lparr>cw := snd (create_cli_flow lib web now (cw c))\<rparr>)"
proof -
  assume inv: "cli_inv c"
  let ?w = "cw c"
  define n where "n = ids_drawn ?w"
  define fid where "fid = ''clf'' @ id_source ?w (Suc n)"
  define f where "f = \<lparr>cf_id = fid, cf_flow_secret_hash = hash_flow_secret lib (id_source ?w n), cf_status = FLOW_PENDING,
    cf_user_id = None, cf_provider = None, cf_gmt_created = now, cf_gmt_expires = now + seconds CLI_FLOW_TTL_SECONDS, cf_gmt_completed = None\<rparr>"
  have new: "\<not> drawn ?w fid"
    using inv by (auto simp: cli_inv_def drawn_def fid_def n_def inj_eq)
  have ids: "cf_id f = fid" by (simp add: f_def)
  have fresh: "fid \<notin> set (map cf_id (cli_login_flows ?w))" "fid \<notin> set (map fst (approved c))" "fid \<notin> set (map fst (issued c))"
    using new inv by (auto simp: cli_inv_def list_all_iff)
  have run: "snd (create_cli_flow lib web now ?w) =
      store_rows (?w\<lparr>ids_drawn := Suc (Suc n), cli_login_flows := cli_login_flows ?w @ [f]\<rparr>)"
    using fresh(1)
    by (simp add: create_cli_flow_def transaction_def ebind_def draw_id_run Let_def commit_def f_def fid_def n_def image_iff)
  define w1 where "w1 = store_rows (?w\<lparr>ids_drawn := Suc (Suc n), cli_login_flows := cli_login_flows ?w @ [f]\<rparr>)"
  have w1: "id_source w1 = id_source ?w" "ids_drawn w1 = Suc (Suc n)" "cli_login_flows w1 = cli_login_flows ?w @ [f]"
    by (simp_all add: w1_def store_rows_def)
  have "drawn w1 fid" unfolding drawn_def w1 fid_def by (rule exI [of _ "Suc n"]) simp
  moreover have "drawn w1 i" if "drawn ?w i" for i
    by (rule drawn_mono [OF that w1(1)]) (simp add: w1 n_def)
  ultimately have "list_all (drawn w1) (map cf_id (cli_login_flows w1) @ map fst (approved c) @ map fst (issued c))"
    using inv ids by (auto simp: cli_inv_def list_all_iff w1)
  moreover have "flow_ok (approved c) (issued c) f"
    using fresh ids by (auto simp: flow_ok_def f_def)
  ultimately show ?thesis
    unfolding run w1_def [symmetric] using inv fresh(1) ids by (simp add: cli_inv_def w1)
qed

lemma inv_exchange_begins:
  assumes "cli_inv c" "exchange_begin lib now fid secret (cw c) = (Inr x, w')"
  shows "cli_inv (c\<lparr>cw := w', exchanging := x # exchanging c\<rparr>)"
proof -
  obtain f where f: "w' = cw c" "f \<in> set (cli_login_flows (cw c))" "xc_flow_id x = cf_id f" "cf_status f = FLOW_APPROVED"
    "cf_user_id f = Some (xc_user_id x)"
    using exchange_begin_run [OF assms(2)] by blast
  have "flow_ok (approved c) (issued c) f" using assms(1) f(2) by (auto simp: cli_inv_def list_all_iff)
  then have "(xc_flow_id x, xc_user_id x) \<in> set (approved c)" using f(3-5) by (auto simp: flow_ok_def)
  then show ?thesis using assms(1) f(1) by (simp add: cli_inv_def)
qed

lemma same_flow:
  "cli_inv c \<Longrightarrow> k \<in> set (cli_login_flows (cw c)) \<Longrightarrow> f \<in> set (cli_login_flows (cw c)) \<Longrightarrow> cf_id k = cf_id f \<Longrightarrow> k = f"
  by (auto simp: cli_inv_def distinct_map inj_on_def)

lemma flow_drawn: "cli_inv c \<Longrightarrow> f \<in> set (cli_login_flows (cw c)) \<Longrightarrow> drawn (cw c) (cf_id f)"
  by (simp add: cli_inv_def list_all_iff)

lemma flow_update_ids: "(\<And>f. cf_id (g f) = cf_id f) \<Longrightarrow> map cf_id (update_where p g fs) = map cf_id fs"
  by (rule map_update_where)

lemma inv_exchange_ends:
  assumes inv: "cli_inv c" and x: "x \<in> set (exchanging c)" and fin: "exchange_finish x (cw c) = (Inr token, w')"
  shows "cli_inv (c\<lparr>cw := w', issued := (xc_flow_id x, xc_user_id x, token) # issued c\<rparr>)"
proof -
  let ?fs = "cli_login_flows (cw c)" and ?I = "(xc_flow_id x, xc_user_id x, token) # issued c"
  let ?p = "\<lambda>f. cf_id f = xc_flow_id x \<and> cf_status f = FLOW_APPROVED" and ?g = "\<lambda>f. f\<lparr>cf_status := FLOW_USED\<rparr>"
  note run = exchange_finish_run [OF fin]
  obtain f where f: "f \<in> set ?fs" "cf_id f = xc_flow_id x" "cf_status f = FLOW_APPROVED" using run(3) by blast
  have ok: "flow_ok (approved c) (issued c) k" if "k \<in> set ?fs" for k using inv that by (auto simp: cli_inv_def list_all_iff)
  have fresh: "xc_flow_id x \<notin> fst ` set (issued c)" using ok [OF f(1)] f(2,3) by (simp add: flow_ok_def)
  have only: "k = f" if "k \<in> set ?fs" "cf_id k = xc_flow_id x" for k
    using same_flow [OF inv that(1) f(1)] that(2) f(2) by simp
  have "flow_ok (approved c) ?I (if ?p k then ?g k else k)" if "k \<in> set ?fs" for k
  proof (cases "cf_id k = xc_flow_id x")
    case True
    then have "?p k" using only [OF that True] f by simp
    then show ?thesis by (simp add: flow_ok_def)
  next
    case False
    then show ?thesis using ok [OF that] flow_ok_mono(2) by simp
  qed
  then have flows: "list_all (flow_ok (approved c) ?I) (update_where ?p ?g ?fs)"
    unfolding list_all_iff set_update_where by blast
  moreover have "(xc_flow_id x, xc_user_id x) \<in> set (approved c)" using inv x by (auto simp: cli_inv_def list_all_iff)
  moreover have "drawn (cw c) (xc_flow_id x)" using flow_drawn [OF inv f(1)] f(2) by simp
  moreover have "drawn w' = drawn (cw c)" unfolding run(2) by (simp add: drawn_def fun_eq_iff store_rows_def)
  ultimately show ?thesis
    using inv fresh run(2) by (auto simp: cli_inv_def flow_update_ids store_rows_def)
qed

lemma issued_approved:
  assumes "cli_inv c" "fid \<in> fst ` set (issued c)"
  shows "fid \<in> fst ` set (approved c)"
proof -
  obtain u t where "(fid, u, t) \<in> set (issued c)" using assms(2) by auto
  then have "(fid, u) \<in> set (approved c)" using assms(1) by (auto simp: cli_inv_def list_all_iff)
  then show ?thesis by (metis fst_conv image_eqI)
qed

lemma inv_approves:
  assumes inv: "cli_inv c" and run: "approves now fid uid provider (cw c) w'"
  shows "cli_inv (c\<lparr>cw := w', approved := (fid, uid) # approved c\<rparr>)"
proof -
  let ?fs = "cli_login_flows (cw c)" and ?A = "(fid, uid) # approved c"
  let ?p = "\<lambda>f. cf_id f = fid \<and> cf_status f = FLOW_PENDING"
  let ?g = "\<lambda>f. f\<lparr>cf_status := FLOW_APPROVED, cf_user_id := Some uid, cf_provider := Some provider,
    cf_gmt_completed := Some now\<rparr>"
  have run: "cli_login_flows w' = update_where ?p ?g ?fs" "id_source w' = id_source (cw c)" "ids_drawn w' = ids_drawn (cw c)"
    "\<exists>f \<in> set ?fs. cf_id f = fid \<and> cf_status f = FLOW_PENDING"
    using run by (simp_all add: approves_def)
  obtain f where f: "f \<in> set ?fs" "cf_id f = fid" "cf_status f = FLOW_PENDING" using run(4) by blast
  have ok: "flow_ok (approved c) (issued c) k" if "k \<in> set ?fs" for k using inv that by (auto simp: cli_inv_def list_all_iff)
  have fresh: "fid \<notin> fst ` set (approved c)" using ok [OF f(1)] f(2,3) by (simp add: flow_ok_def)
  then have unissued: "fid \<notin> fst ` set (issued c)" using issued_approved [OF inv] by blast
  have only: "k = f" if "k \<in> set ?fs" "cf_id k = fid" for k
    using same_flow [OF inv that(1) f(1)] that(2) f(2) by simp
  have "flow_ok ?A (issued c) (if ?p k then ?g k else k)" if "k \<in> set ?fs" for k
  proof (cases "cf_id k = fid")
    case True
    then have "?p k" using only [OF that True] f by simp
    then show ?thesis using unissued by (simp add: flow_ok_def)
  next
    case False
    then show ?thesis using ok [OF that] flow_ok_mono(1) by simp
  qed
  then have "list_all (flow_ok ?A (issued c)) (update_where ?p ?g ?fs)"
    unfolding list_all_iff set_update_where by blast
  moreover have "drawn (cw c) (fid)" using flow_drawn [OF inv f(1)] f(2) by simp
  moreover have "drawn w' = drawn (cw c)" using run(2,3) by (simp add: drawn_def fun_eq_iff)
  ultimately show ?thesis
    using inv fresh run by (auto simp: cli_inv_def flow_update_ids list_all_iff)
qed

lemma inv_fail_ends:
  assumes inv: "cli_inv c" and fin: "fail_finish now fid (cw c) = (Inr r, w')"
  shows "cli_inv (c\<lparr>cw := w'\<rparr>)"
proof -
  let ?g = "\<lambda>f. f\<lparr>cf_status := FLOW_FAILED, cf_gmt_completed := Some now\<rparr>"
  have w': "w' = store_rows ((cw c)\<lparr>cli_login_flows := update_where (\<lambda>f. cf_id f = fid) ?g (cli_login_flows (cw c))\<rparr>)"
    using fin by (simp add: fail_finish_def commit_def)
  have "flow_ok (approved c) (issued c) (if cf_id k = fid then ?g k else k)" if "k \<in> set (cli_login_flows (cw c))" for k
    using inv that by (auto simp: cli_inv_def list_all_iff flow_ok_def)
  then have "list_all (flow_ok (approved c) (issued c)) (update_where (\<lambda>f. cf_id f = fid) ?g (cli_login_flows (cw c)))"
    unfolding list_all_iff set_update_where by blast
  then show ?thesis
    unfolding w' by (intro cli_inv_world [OF inv]) (simp_all add: store_rows_def flow_update_ids)
qed

lemma inv_other:
  assumes "cli_inv c" "cli_login_flows w' = filter p (cli_login_flows (cw c))" "id_source w' = id_source (cw c)"
    "ids_drawn (cw c) \<le> ids_drawn w'"
  shows "cli_inv (c\<lparr>cw := w'\<rparr>)"
  using assms by (auto simp: cli_inv_def list_all_iff distinct_map_filter intro: drawn_mono)

lemma inv_oauth_begins:
  assumes "cli_inv c" "fid \<noteq> []" "validate_cli_flow_pending lib now fid None (cw c) = (Inr (), w')"
  shows "cli_inv (c\<lparr>cw := w', returning := fid # returning c\<rparr>)"
proof -
  have "w' = cw c" by (rule validate_pending_run [OF assms(3)])
  then show ?thesis using assms(1,2) by (simp add: cli_inv_def)
qed

lemma inv_oauth_ends:
  assumes inv: "cli_inv c" and fid: "fid \<in> set (returning c)"
    and run: "oauth_complete lib web now rq provider outcome (Some fid) return_to uid (cw c) = (Inr r, w')"
  shows "cli_inv (c\<lparr>cw := w', approved := (if tells_approved fid r then [(fid, uid)] else []) @ approved c\<rparr>)"
proof -
  have "fid \<noteq> []" using inv fid by (auto simp: cli_inv_def list_all_iff)
  note run = oauth_complete_run [OF run this]
  show ?thesis
  proof (cases "tells_approved fid r")
    case True
    then show ?thesis using run inv_approves [OF inv, of now fid uid provider w'] by simp
  next
    case False
    moreover have "list_all (flow_ok (approved c) (issued c)) (cli_login_flows w')"
      using inv run False by (simp add: cli_inv_def)
    ultimately show ?thesis using run cli_inv_world [OF inv, of w'] by simp
  qed
qed

lemma cli_step_inv: "cli_step lib web c c' \<Longrightarrow> cli_inv c \<Longrightarrow> cli_inv c'"
proof (induction rule: cli_step.induct)
  case (login_begins now rq email password fid secret c a w')
  then show ?case by (auto simp: cli_inv_def dest: cli_login_begin_run)
next
  case (approve_begins now fid hdr u c a w')
  then show ?case by (auto simp: cli_inv_def dest: approve_begin_run)
next
  case (fail_begins fid c w')
  then have "w' = cw c" by (auto simp: fail_begin_def get_flow_def select_one_or_none_def ebind_def split: sum.splits)
  with fail_begins show ?case by (simp add: cli_inv_def)
next
  case (oauth_ends fid c now rq provider outcome return_to uid r w')
  then show ?case by (intro inv_oauth_ends)
qed (auto intro: inv_create inv_exchange_begins inv_exchange_ends inv_fail_ends inv_other
    inv_oauth_begins inv_approves [OF _ approve_finish_run])

subsection \<open>A flow that is over\<close>

text \<open>The flow exists no more, or its row is used or failed.\<close>

definition over :: "string \<Rightarrow> cli_state \<Rightarrow> bool" where
  "over fid c \<longleftrightarrow> drawn (cw c) fid \<and>
     list_all (\<lambda>f. cf_id f = fid \<longrightarrow> cf_status f \<notin> {FLOW_PENDING, FLOW_APPROVED}) (cli_login_flows (cw c))"

definition tokens_of :: "string \<Rightarrow> cli_state \<Rightarrow> (string \<times> string \<times> string) list" where
  "tokens_of fid c = filter (\<lambda>(i, _). i = fid) (issued c)"

lemma over_world:
  assumes "over fid c" "id_source (cw c') = id_source (cw c)" "ids_drawn (cw c) \<le> ids_drawn (cw c')"
    and "\<And>f. f \<in> set (cli_login_flows (cw c')) \<Longrightarrow> cf_id f = fid \<Longrightarrow>
      cf_status f \<notin> {FLOW_PENDING, FLOW_APPROVED} \<or>
      (\<exists>k \<in> set (cli_login_flows (cw c)). cf_id k = fid \<and> cf_status k \<in> {FLOW_PENDING, FLOW_APPROVED})"
  shows "over fid c'"
  using assms drawn_mono [of "cw c" fid "cw c'"] unfolding over_def list_all_iff by blast

lemma over_in_flight: "over fid (c\<lparr>approving := A\<rparr>) = over fid c" "over fid (c\<lparr>returning := R\<rparr>) = over fid c"
  by (simp_all add: over_def)

lemma over_create:
  assumes inv: "cli_inv c" and over: "over fid c"
  shows "over fid (c\<lparr>cw := snd (create_cli_flow lib web now (cw c))\<rparr>)"
proof -
  let ?w = "cw c" and ?n = "''clf'' @ id_source (cw c) (Suc (ids_drawn (cw c)))"
  have new: "\<not> drawn ?w ?n" using inv by (auto simp: cli_inv_def drawn_def inj_eq)
  then have "?n \<noteq> fid" "?n \<notin> set (map cf_id (cli_login_flows ?w))"
    using over inv by (auto simp: over_def cli_inv_def list_all_iff)
  then show ?thesis
    by (intro over_world [OF over])
       (auto simp: create_cli_flow_def transaction_def ebind_def draw_id_run Let_def commit_def store_rows_def image_iff)
qed

lemma over_approves:
  assumes "over fid c" "approves now i uid provider (cw c) w'"
  shows "over fid (c\<lparr>cw := w', approved := A\<rparr>)"
  using assms by (intro over_world [OF assms(1)]) (auto simp: approves_def set_update_where split: if_splits)

lemma over_oauth_ends:
  assumes "cli_inv c" "over fid c" "i \<in> set (returning c)"
    "oauth_complete lib web now rq provider outcome (Some i) return_to uid (cw c) = (Inr r, w')"
  shows "over fid (c\<lparr>cw := w', approved := A\<rparr>)"
proof -
  have "i \<noteq> []" using assms(1,3) by (auto simp: cli_inv_def list_all_iff)
  note run = oauth_complete_run [OF assms(4) this]
  show ?thesis
  proof (cases "tells_approved i r")
    case True
    then show ?thesis using run over_approves [OF assms(2)] by simp
  next
    case False
    then show ?thesis using run assms(2) by (intro over_world [OF assms(2)]) auto
  qed
qed

lemma over_exchange_ends:
  assumes "over fid c" "exchange_finish x (cw c) = (Inr token, w')"
  shows "xc_flow_id x \<noteq> fid \<and> over fid (c\<lparr>cw := w', issued := I\<rparr>)"
proof
  note run = exchange_finish_run [OF assms(2)]
  show "xc_flow_id x \<noteq> fid" using run(3) assms(1) by (auto simp: over_def list_all_iff)
  show "over fid (c\<lparr>cw := w', issued := I\<rparr>)"
    unfolding run(2) by (intro over_world [OF assms(1)]) (auto simp: store_rows_def set_update_where split: if_splits)
qed

lemma over_fail_ends:
  "over fid c \<Longrightarrow> fail_finish now i (cw c) = (Inr r, w') \<Longrightarrow> over fid (c\<lparr>cw := w'\<rparr>)"
  by (rule over_world) (auto simp: fail_finish_def commit_def store_rows_def set_update_where split: if_splits)

lemma over_step:
  assumes "cli_step lib web c c'" "cli_inv c" "over fid c"
  shows "over fid c' \<and> tokens_of fid c' = tokens_of fid c"
  using assms
proof (induction rule: cli_step.induct)
  case (fail_begins i c w')
  then have "w' = cw c" by (auto simp: fail_begin_def get_flow_def select_one_or_none_def ebind_def split: sum.splits)
  with fail_begins show ?case by (simp add: over_def tokens_of_def)
next
  case (exchange_begins now i secret c x w')
  then have "w' = cw c" by (blast elim: exchange_begin_run)
  with exchange_begins show ?case by (simp add: over_def tokens_of_def)
next
  case (exchange_ends x c token w')
  then show ?case using over_exchange_ends by (simp add: tokens_of_def)
next
  case (other w' p c)
  then show ?case using over_world [OF other(5), of "c\<lparr>cw := w'\<rparr>"] by (auto simp: tokens_of_def)
qed (auto simp: tokens_of_def over_in_flight over_create over_approves [OF _ approve_finish_run] over_oauth_ends over_fail_ends
    dest!: cli_login_begin_run approve_begin_run validate_pending_run)

lemma over_steps:
  assumes "(cli_step lib web)\<^sup>*\<^sup>* c c'" "cli_inv c" "over fid c"
  shows "tokens_of fid c' = tokens_of fid c"
proof -
  from assms have "cli_inv c' \<and> over fid c' \<and> tokens_of fid c' = tokens_of fid c"
    by (induction rule: rtranclp_induct) (auto dest: cli_step_inv over_step)
  then show ?thesis by blast
qed

lemma steps_inv: "(cli_step lib web)\<^sup>*\<^sup>* c c' \<Longrightarrow> cli_inv c \<Longrightarrow> cli_inv c'"
  by (induction rule: rtranclp_induct) (auto dest: cli_step_inv)

lemma finished_over:
  assumes "cli_inv c" "f \<in> set (cli_login_flows (cw c))" "cf_status f \<in> {FLOW_USED, FLOW_FAILED}"
  shows "over (cf_id f) c"
proof -
  have "cf_status k \<notin> {FLOW_PENDING, FLOW_APPROVED}" if "k \<in> set (cli_login_flows (cw c))" "cf_id k = cf_id f" for k
  proof -
    have "k = f" by (rule same_flow [OF assms(1) that(1) assms(2) that(2)])
    then show ?thesis using assms(3) by auto
  qed
  then show ?thesis using flow_drawn [OF assms(1,2)] by (simp add: over_def list_all_iff)
qed

text \<open>C13: however the requests of a CLI login interleave, and however often they are sent, a flow yields at most one session
  token, and the token is for the one user who approved the flow, with his password, his browser session or the callback of an OAuth
  login. From the moment its row is used or failed, a flow yields no further token, whatever requests are still in flight.\<close>

theorem one_token_per_cli_flow:
  assumes "cli_start c" and "(cli_step lib web)\<^sup>*\<^sup>* c c1" and "(cli_step lib web)\<^sup>*\<^sup>* c1 c2"
  shows "distinct (map fst (issued c2)) \<and> distinct (map fst (approved c2)) \<and>
    (\<forall>(fid, uid, token) \<in> set (issued c2). (fid, uid) \<in> set (approved c2)) \<and>
    (\<forall>f \<in> set (cli_login_flows (cw c1)). cf_status f \<in> {FLOW_USED, FLOW_FAILED} \<longrightarrow>
       tokens_of (cf_id f) c2 = tokens_of (cf_id f) c1)"
proof -
  have "cli_inv c" using assms(1) by (simp add: cli_start_def cli_inv_def)
  then have inv: "cli_inv c1" "cli_inv c2" using steps_inv assms(2,3) by blast+
  have "tokens_of (cf_id f) c2 = tokens_of (cf_id f) c1"
    if "f \<in> set (cli_login_flows (cw c1))" "cf_status f \<in> {FLOW_USED, FLOW_FAILED}" for f
    by (rule over_steps [OF assms(3) inv(1) finished_over [OF inv(1) that]])
  then show ?thesis using inv(2) by (auto simp: cli_inv_def list_all_iff)
qed


subsection \<open>A concrete login\<close>

definition demo_cli :: "cli_state" where
  "demo_cli = \<lparr>cw = demo_identity, exchanging = [], approving = [], failing = [], returning = [], approved = [], issued = []\<rparr>"

definition demo_flow :: "flow_status \<Rightarrow> cli_login_flow" where
  "demo_flow st = \<lparr>cf_id = ''clfaa'', cf_flow_secret_hash = ''a'', cf_status = st,
     cf_user_id = (if st = FLOW_PENDING then None else Some ''u2''),
     cf_provider = (if st = FLOW_PENDING then None else Some ''session''), cf_gmt_created = 0, cf_gmt_expires = 600000000,
     cf_gmt_completed = (if st = FLOW_PENDING then None else Some 5)\<rparr>"

definition demo_flow_world :: "flow_status \<Rightarrow> audit_event list \<Rightarrow> world" where
  "demo_flow_world st ev = demo_identity\<lparr>cli_login_flows := [demo_flow st], ids_drawn := 2, audit_events := ev\<rparr>"

lemma demo_store: "store_rows (demo_flow_world st ev) = demo_flow_world st ev"
  by (simp add: demo_flow_world_def demo_identity_def empty_world_def store_rows_def)

definition demo_approval :: approval where
  "demo_approval = \<lparr>ap_flow_id = ''clfaa'', ap_user = demo_user ''u2'' RW, ap_provider = ''session''\<rparr>"

definition demo_exchange :: exchange where
  "demo_exchange = \<lparr>xc_flow_id = ''clfaa'', xc_user_id = ''u2'', xc_token = ''u2''\<rparr>"

lemma demo_create: "snd (create_cli_flow demo_lib web 0 demo_identity) = demo_flow_world FLOW_PENDING []"
  by (simp add: create_cli_flow_def transaction_def ebind_def draw_id_run Let_def commit_def demo_flow_world_def demo_flow_def
      demo_identity_defs store_rows_def hash_flow_secret_def CLI_FLOW_TTL_SECONDS_def seconds_def numeral_2_eq_2)

lemma demo_approve_begin:
  "approve_begin demo_lib 1 ''clfaa'' (Some ''a'') (Some (demo_user ''u2'' RW)) (demo_flow_world FLOW_PENDING []) =
     (Inr demo_approval, demo_flow_world FLOW_PENDING [])"
  by (simp add: approve_begin_def pending_flow_def validate_cli_flow_secret_def get_flow_or_404_def get_flow_def verify_flow_secret_def
      effective_status_def hash_flow_secret_def truthy_def demo_flow_world_def demo_flow_def demo_approval_def demo_lib_def)

lemma demo_approve_finish: "\<exists>r ev. approve_finish 5 demo_request demo_approval (demo_flow_world FLOW_PENDING []) =
    (Inr r, demo_flow_world FLOW_APPROVED ev)"
  by (simp add: approve_finish_def approve_transition_def ebind_def Let_def audit_request_run commit_def demo_flow_world_def
      demo_flow_def demo_approval_def demo_identity_defs store_rows_def)

lemma demo_exchange_begin:
  "exchange_begin demo_lib 9 ''clfaa'' (Some ''a'') (demo_flow_world FLOW_APPROVED ev) = (Inr demo_exchange, demo_flow_world FLOW_APPROVED ev)"
  by (simp add: exchange_begin_def validate_cli_flow_secret_def get_flow_or_404_def get_flow_def verify_flow_secret_def
      effective_status_def hash_flow_secret_def truthy_def demo_flow_world_def demo_flow_def demo_exchange_def demo_identity_defs Let_def)

lemma demo_exchange_finish: "exchange_finish demo_exchange (demo_flow_world FLOW_APPROVED ev) = (Inr ''u2'', demo_flow_world FLOW_USED ev)"
  by (simp add: exchange_finish_def consume_cli_flow_def ebind_def Let_def commit_def demo_flow_world_def demo_flow_def
      demo_exchange_def demo_identity_defs store_rows_def)

lemma demo_cli_run:
  "\<exists>c :: cli_state. (cli_step demo_lib web)\<^sup>*\<^sup>* demo_cli c \<and> issued c = [(''clfaa'', ''u2'', ''u2'')]"
proof -
  let ?c1 = "demo_cli\<lparr>cw := demo_flow_world FLOW_PENDING []\<rparr>"
  let ?c2 = "?c1\<lparr>cw := demo_flow_world FLOW_PENDING [], approving := [demo_approval]\<rparr>"
  obtain r ev where fin: "approve_finish 5 demo_request demo_approval (demo_flow_world FLOW_PENDING []) = (Inr r, demo_flow_world FLOW_APPROVED ev)"
    using demo_approve_finish by blast
  let ?c3 = "?c2\<lparr>cw := demo_flow_world FLOW_APPROVED ev, approved := [(''clfaa'', ''u2'')]\<rparr>"
  let ?c4 = "?c3\<lparr>cw := demo_flow_world FLOW_APPROVED ev, exchanging := [demo_exchange]\<rparr>"
  let ?c5 = "?c4\<lparr>cw := demo_flow_world FLOW_USED ev, issued := [(''clfaa'', ''u2'', ''u2'')]\<rparr>"
  have "cli_step demo_lib web demo_cli ?c1"
    using cli_step.create [of demo_lib web demo_cli 0] by (simp add: demo_cli_def demo_create)
  moreover have "cli_step demo_lib web ?c1 ?c2"
    using cli_step.approve_begins [of demo_lib 1 "''clfaa''" "Some ''a''" "Some (demo_user ''u2'' RW)" ?c1] demo_approve_begin
    by (simp add: demo_cli_def)
  moreover have "cli_step demo_lib web ?c2 ?c3"
    using cli_step.approve_ends [of demo_approval ?c2 5 demo_request r _ demo_lib web] fin
    by (simp add: demo_cli_def demo_approval_def demo_user_def)
  moreover have "cli_step demo_lib web ?c3 ?c4"
    using cli_step.exchange_begins [of demo_lib 9 "''clfaa''" "Some ''a''" ?c3] demo_exchange_begin by (simp add: demo_cli_def)
  moreover have "cli_step demo_lib web ?c4 ?c5"
    using cli_step.exchange_ends [of demo_exchange ?c4 "''u2''" _ demo_lib web] demo_exchange_finish
    by (simp add: demo_cli_def demo_exchange_def)
  ultimately have "(cli_step demo_lib web)\<^sup>*\<^sup>* demo_cli ?c5"
    by (meson converse_rtranclp_into_rtranclp rtranclp.rtrancl_refl)
  then show ?thesis by (intro exI [of _ ?c5]) simp
qed

theorem one_token_per_cli_flow_witness:
  "\<forall>web :: web_settings. \<exists>c :: cli_state. issued c = [(''clfaa'', ''u2'', ''u2'')] \<and> (''clfaa'', ''u2'') \<in> set (approved c)"
proof
  fix web :: web_settings
  obtain c where c: "(cli_step demo_lib web)\<^sup>*\<^sup>* demo_cli c" "issued c = [(''clfaa'', ''u2'', ''u2'')]"
    using demo_cli_run by blast
  have "cli_start demo_cli"
    by (simp add: cli_start_def demo_cli_def demo_identity_def empty_world_def inj_def)
  from one_token_per_cli_flow [OF this c(1) rtranclp.rtrancl_refl] have "(''clfaa'', ''u2'') \<in> set (approved c)" unfolding c(2) by simp
  with c(2) show "\<exists>c :: cli_state. issued c = [(''clfaa'', ''u2'', ''u2'')] \<and> (''clfaa'', ''u2'') \<in> set (approved c)" by blast
qed

end
