(* ===== verification/Sandbox_Schemas.thy ===== *)
theory Sandbox_Schemas
  imports Sandbox_Service
begin

text \<open>
  The request bodies of the sandbox API with their validators (\<^verbatim>\<open>api/schemas.py\<close>) and the names that the program
  generates (\<^verbatim>\<open>core/naming.py\<close>). A validator returns the checked body, or the message of the \<^verbatim>\<open>ValueError\<close> that pydantic
  reports. The regular expressions are written out; \<^verbatim>\<open>\d\<close> is an ASCII digit.
\<close>

subsection \<open>Names and sizes\<close>

definition SANDBOX_NAME_MAX_LENGTH :: nat where
  "SANDBOX_NAME_MAX_LENGTH = 55"

definition is_lower :: "char \<Rightarrow> bool" where
  "is_lower c \<longleftrightarrow> (let n = (of_char c :: nat) in 97 \<le> n \<and> n \<le> 122)"

definition name_edge :: "char \<Rightarrow> bool" where
  "name_edge c \<longleftrightarrow> is_lower c \<or> is_digit c"

text \<open>\<^verbatim>\<open>^[a-z0-9](?:[a-z0-9-]{0,53}[a-z0-9])?$\<close>\<close>

fun sandbox_name_pattern :: "string \<Rightarrow> bool" where
  "sandbox_name_pattern [] = False"
| "sandbox_name_pattern [c] = name_edge c"
| "sandbox_name_pattern (c # d # cs) =
     (name_edge c \<and> length (butlast (d # cs)) \<le> 53 \<and>
      list_all (\<lambda>x. name_edge x \<or> x = CHR ''-'') (butlast (d # cs)) \<and> name_edge (last (d # cs)))"

text \<open>\<^verbatim>\<open>^\d+Gi$\<close>\<close>

definition storage_size_pattern :: "string \<Rightarrow> bool" where
  "storage_size_pattern s \<longleftrightarrow> endswith s ''Gi'' \<and> isdigit (take (length s - 2) s)"

definition SANDBOX_NAME_RULE :: string where
  "SANDBOX_NAME_RULE = ''Sandbox name must be 1-55 characters of lowercase letters, numbers, or hyphens, '' @
     ''and must start and end with a letter or number.''"

definition STORAGE_SIZE_RULE :: string where
  "STORAGE_SIZE_RULE = ''storage_size must match format '' @ quoted ''<integer>Gi'' @ '' (e.g. 5Gi, 10Gi, 20Gi).''"

subsection \<open>Validators\<close>

record create_sandbox_body =
  cb_template :: string
  cb_name :: "string option"
  cb_labels :: "(string \<times> string) list"
  cb_auto_stop_interval :: int
  cb_auto_delete_interval :: int
  cb_persist :: bool
  cb_storage_size :: "string option"

definition validate_name :: "string option \<Rightarrow> string + string option" where
  "validate_name v =
     (case v of None \<Rightarrow> Inr None
      | Some n \<Rightarrow> if \<not> sandbox_name_pattern n then Inl SANDBOX_NAME_RULE else Inr (Some n))"

definition validate_auto_stop_interval :: "int \<Rightarrow> string + int" where
  "validate_auto_stop_interval v =
     (if v < 0 then Inl ''auto_stop_interval must be 0 (never) or at least 1 minute.'' else Inr v)"

definition validate_auto_delete_interval :: "int \<Rightarrow> string + int" where
  "validate_auto_delete_interval v =
     (if v \<noteq> - 1 \<and> v < 1 then Inl ''auto_delete_interval must be -1 or at least 1 minute.'' else Inr v)"

definition validate_storage_size :: "string option \<Rightarrow> string + string option" where
  "validate_storage_size v =
     (case v of None \<Rightarrow> Inr None
      | Some z \<Rightarrow> if \<not> storage_size_pattern z then Inl STORAGE_SIZE_RULE else Inr (Some z))"

definition validate_storage_config :: "settings \<Rightarrow> create_sandbox_body \<Rightarrow> string + create_sandbox_body" where
  "validate_storage_config cfg b =
     (if cb_persist b
      then Inr (if cb_storage_size b = None then b\<lparr>cb_storage_size := Some (sandbox_default_storage_size cfg)\<rparr> else b)
      else if cb_storage_size b \<noteq> None then Inl ''storage_size is only allowed when persist=true.''
      else Inr b)"

text \<open>Field validators run before the model validator; pydantic collects their messages, of which the first is kept.\<close>

definition CreateSandboxRequest :: "settings \<Rightarrow> create_sandbox_body \<Rightarrow> string + create_sandbox_body" where
  "CreateSandboxRequest cfg b =
     (case validate_name (cb_name b) of Inl e \<Rightarrow> Inl e | Inr _ \<Rightarrow>
      case validate_auto_stop_interval (cb_auto_stop_interval b) of Inl e \<Rightarrow> Inl e | Inr _ \<Rightarrow>
      case validate_auto_delete_interval (cb_auto_delete_interval b) of Inl e \<Rightarrow> Inl e | Inr _ \<Rightarrow>
      case validate_storage_size (cb_storage_size b) of Inl e \<Rightarrow> Inl e | Inr _ \<Rightarrow>
      validate_storage_config cfg b)"

text \<open>The fields that the client sets; an explicit \<^verbatim>\<open>null\<close> is not among the values of the model.\<close>

definition UpdateSandboxRequest :: "sandbox_patch \<Rightarrow> string + sandbox_patch" where
  "UpdateSandboxRequest p =
     (case validate_name (pa_name p) of Inl e \<Rightarrow> Inl e | Inr _ \<Rightarrow>
      case (case pa_auto_stop_interval p of None \<Rightarrow> Inr 0 | Some v \<Rightarrow> validate_auto_stop_interval v) of Inl e \<Rightarrow> Inl e | Inr _ \<Rightarrow>
      case (case pa_auto_delete_interval p of None \<Rightarrow> Inr 0 | Some v \<Rightarrow> validate_auto_delete_interval v) of Inl e \<Rightarrow> Inl e | Inr _ \<Rightarrow>
      Inr (p\<lparr>pa_extra := []\<rparr>))"

subsection \<open>Generated names\<close>

definition ADJECTIVES :: "string list" where
  "ADJECTIVES =
     [''brave'', ''calm'', ''clever'', ''crisp'', ''daring'', ''eager'', ''fuzzy'', ''gentle'', ''glossy'',
      ''humble'', ''icy'', ''jolly'', ''keen'', ''lively'', ''merry'', ''neat'', ''nimble'', ''proud'', ''quick'',
      ''quiet'', ''rapid'', ''shiny'', ''silent'', ''smart'', ''snug'', ''solid'', ''spry'', ''sturdy'',
      ''sunny'', ''swift'', ''tidy'', ''tiny'', ''vivid'', ''warm'', ''witty'', ''zesty'', ''bold'', ''bright'',
      ''chill'', ''clean'']"

definition NOUNS :: "string list" where
  "NOUNS =
     [''acorn'', ''amber'', ''anchor'', ''aster'', ''badge'', ''beacon'', ''birch'', ''breeze'', ''canyon'',
      ''cedar'', ''comet'', ''coral'', ''cotton'', ''crane'', ''ember'', ''falcon'', ''feather'', ''flint'',
      ''harbor'', ''heron'', ''horizon'', ''iron'', ''ivy'', ''juniper'', ''lagoon'', ''larch'', ''mesa'',
      ''minnow'', ''nebula'', ''oak'', ''onyx'', ''otter'', ''pebble'', ''pine'', ''quartz'', ''reef'', ''river'',
      ''spruce'', ''tundra'', ''willow'']"

definition slug_char :: "char \<Rightarrow> bool" where
  "slug_char c \<longleftrightarrow> is_lower c \<or> is_digit c \<or> c = CHR ''-''"

definition slugify :: "string list \<Rightarrow> string" where
  "slugify parts =
     join ''-'' (filter (\<lambda>s. s \<noteq> '''') (map (\<lambda>part.
       filter slug_char (map (\<lambda>c. if c = CHR '' '' then CHR ''-'' else c) (lower (strip part)))) parts))"

text \<open>\<open>adj\<close>, \<open>noun\<close> and \<open>tail\<close> are what \<^verbatim>\<open>secrets.choice\<close> and \<^verbatim>\<open>secrets.token_hex\<close> return.\<close>

definition generate_sandbox_name :: "string \<Rightarrow> string \<Rightarrow> string \<Rightarrow> string \<Rightarrow> string" where
  "generate_sandbox_name prefix adj noun tail = slugify [prefix, adj, noun, tail]"

definition token_hex :: "nat \<Rightarrow> string \<Rightarrow> bool" where
  "token_hex n s \<longleftrightarrow> length s = 2 * n \<and> list_all (\<lambda>c. is_digit c \<or> c \<in> set ''abcdef'') s"

subsection \<open>Lemmas\<close>

lemma list_all_last: "xs \<noteq> [] \<Longrightarrow> list_all P xs \<longleftrightarrow> list_all P (butlast xs) \<and> P (last xs)"
  by (induction xs) auto

lemma sandbox_name_pattern_iff:
  "sandbox_name_pattern s \<longleftrightarrow> s \<noteq> [] \<and> length s \<le> SANDBOX_NAME_MAX_LENGTH \<and> name_edge (hd s) \<and> name_edge (last s) \<and>
     list_all (\<lambda>x. name_edge x \<or> x = CHR ''-'') s"
proof (cases s rule: sandbox_name_pattern.cases)
  case (3 c d cs)
  then show ?thesis
    using list_all_last [of "d # cs" "\<lambda>x. name_edge x \<or> x = CHR ''-''"] by (auto simp: SANDBOX_NAME_MAX_LENGTH_def)
qed (auto simp: SANDBOX_NAME_MAX_LENGTH_def)

definition plain_word :: "string \<Rightarrow> bool" where
  "plain_word s \<longleftrightarrow> s \<noteq> [] \<and> length s \<le> 8 \<and> list_all name_edge s"

lemma name_edge_facts:
  assumes "name_edge c"
  shows "\<not> is_space c" "lower_char c = c" "c \<noteq> CHR '' ''" "slug_char c"
  using assms
  by (auto simp: name_edge_def is_lower_def is_digit_def is_space_def lower_char_def slug_char_def Let_def)

lemma strip_plain: "list_all name_edge s \<Longrightarrow> strip s = s"
proof -
  have "lstrip s = s" if "list_all name_edge s" for s
    using that by (cases s) (auto simp: lstrip_def name_edge_facts)
  moreover have "list_all name_edge (rev s) = list_all name_edge s" by (simp add: list_all_iff)
  moreover assume "list_all name_edge s"
  ultimately show ?thesis by (simp add: strip_def)
qed

lemma slug_plain:
  assumes "list_all name_edge s"
  shows "filter slug_char (map (\<lambda>c. if c = CHR '' '' then CHR ''-'' else c) (lower (strip s))) = s"
proof -
  have "filter slug_char (map (\<lambda>c. if c = CHR '' '' then CHR ''-'' else c) (lower s)) = s"
    using assms by (induction s) (auto simp: lower_def name_edge_facts)
  then show ?thesis by (simp add: strip_plain [OF assms])
qed

text \<open>Whatever is drawn, the generated name is one that the API accepts.\<close>

lemma generated_name_ok:
  assumes "plain_word a" "plain_word b" "plain_word c" "plain_word d"
  shows "sandbox_name_pattern (generate_sandbox_name a b c d)"
proof -
  have "generate_sandbox_name a b c d = a @ ''-'' @ b @ ''-'' @ c @ ''-'' @ d"
    using assms by (simp add: generate_sandbox_name_def slugify_def slug_plain plain_word_def)
  then show ?thesis
    using assms by (auto simp: sandbox_name_pattern_iff plain_word_def SANDBOX_NAME_MAX_LENGTH_def list_all_iff)
qed

lemma words_plain: "list_all plain_word ADJECTIVES" "list_all plain_word NOUNS" "plain_word ''sb''"
  by code_simp+

lemma token_hex_plain: "0 < n \<Longrightarrow> n \<le> 4 \<Longrightarrow> token_hex n s \<Longrightarrow> plain_word s"
  by (auto simp: token_hex_def plain_word_def name_edge_def is_lower_def list_all_iff)

text \<open>A sandbox that is created without a name gets one that the API itself would accept for a sandbox, whatever words and hex
  digits are drawn.\<close>

theorem generated_names_accepted:
  assumes "adj \<in> set ADJECTIVES" "noun \<in> set NOUNS" "token_hex 2 tail"
  shows "validate_name (Some (generate_sandbox_name ''sb'' adj noun tail)) = Inr (Some (generate_sandbox_name ''sb'' adj noun tail))"
proof -
  have "plain_word adj" "plain_word noun" using words_plain(1,2) assms(1,2) by (simp_all add: list_all_iff)
  then have "sandbox_name_pattern (generate_sandbox_name ''sb'' adj noun tail)"
    using generated_name_ok words_plain(3) token_hex_plain [OF _ _ assms(3)] by simp
  then show ?thesis by (simp add: validate_name_def)
qed

theorem generated_names_accepted_witness:
  "validate_name (Some (generate_sandbox_name ''sb'' ''brave'' ''oak'' ''0f3a'')) = Inr (Some (generate_sandbox_name ''sb'' ''brave'' ''oak'' ''0f3a''))"
  by (rule generated_names_accepted) (simp_all add: ADJECTIVES_def NOUNS_def token_hex_def is_digit_def)

end
