(* ===== verification/Sandbox_Api.thy ===== *)
theory Sandbox_Api
  imports Sandbox_Web Sandbox_Schemas
begin

text \<open>
  The control plane endpoints for sandboxes (\<^verbatim>\<open>sandbox/api/sandboxes.py\<close>, \<^verbatim>\<open>sandbox/api/admin_sandbox.py\<close>).

  A handler gets the user and the request from its dependency; \<open>limits\<close> is the snapshot of the platform limits, \<open>generated\<close> the
  name drawn for a sandbox without one. It calls the operations of \<open>Sandbox_Service\<close> on the same session. What a
  handler does after the last commit of the service is a transaction of its own.
\<close>

subsection \<open>URLs\<close>

definition web_port_suffix :: "lib \<Rightarrow> string \<Rightarrow> exn + string" where
  "web_port_suffix lib api_base =
     (case urlparse (ipv6_ok lib) (rstrip_char (CHR ''/'') api_base) of
        None \<Rightarrow> Inl value_error
      | Some u \<Rightarrow>
          case port_of u of
            None \<Rightarrow> Inl value_error
          | Some None \<Rightarrow> Inr ''''
          | Some (Some port) \<Rightarrow>
              if pu_scheme u = ''http'' \<and> port = 80 then Inr ''''
              else if pu_scheme u = ''https'' \<and> port = 443 then Inr ''''
              else Inr ('':'' @ show_int port))"

definition build_canonical_web_url :: "lib \<Rightarrow> web_settings \<Rightarrow> sandbox \<Rightarrow> string \<Rightarrow> exn + string option" where
  "build_canonical_web_url lib web s base_url =
     (if sandbox_domain web = '''' then Inr None
      else let base = rstrip_char (CHR ''/'') base_url
           in case urlparse (ipv6_ok lib) base of
                None \<Rightarrow> Inl value_error
              | Some u \<Rightarrow>
                  let scheme = (if pu_scheme u \<in> {''http'', ''https''} then pu_scheme u
                                else if startswith base ''https'' then ''https'' else ''http'')
                  in map_sum id (\<lambda>suffix. Some (scheme @ ''://'' @ sandbox_subdomain_prefix web @ sb_id s @ ''.'' @
                       sandbox_domain web @ suffix)) (web_port_suffix lib base))"

record sandbox_urls =
  ur_proxy :: string
  ur_mcp :: string
  ur_web :: "string option"

definition link_usable :: "time \<Rightarrow> web_link \<Rightarrow> bool" where
  "link_usable now l \<longleftrightarrow> \<not> link_is_expired now l \<and> wl_gmt_deleted l = None"

definition build_urls :: "lib \<Rightarrow> web_settings \<Rightarrow> time \<Rightarrow> sandbox \<Rightarrow> string \<Rightarrow> web_link option \<Rightarrow> exn + sandbox_urls" where
  "build_urls lib web now s base_url web_link =
     (let base = rstrip_char (CHR ''/'') base_url;
          proxy = base @ ''/v1/sandboxes/'' @ sb_id s @ ''/proxy''
      in map_sum id (\<lambda>w. \<lparr>ur_proxy = proxy, ur_mcp = proxy @ ''/mcp'', ur_web =
           (case (w, web_link) of
              (Some url, Some l) \<Rightarrow> if link_usable now l then Some (build_open_link_url url (wl_id l)) else Some url
            | _ \<Rightarrow> w)\<rparr>) (build_canonical_web_url lib web s base_url))"

definition get_web_url :: "lib \<Rightarrow> web_settings \<Rightarrow> sandbox \<Rightarrow> string \<Rightarrow> exn + string" where
  "get_web_url lib web s base_url =
     (case build_canonical_web_url lib web s base_url of
        Inl e \<Rightarrow> Inl e
      | Inr None \<Rightarrow> Inl (ValidationError ''sandbox_domain must be configured to use sandbox Web UI links.'')
      | Inr (Some url) \<Rightarrow> Inr url)"

subsection \<open>Responses\<close>

record storage_view =
  st_mode :: backend_mode
  st_size :: string
  st_snapshot_created_at :: "time option"
  st_zone :: "string option"

text \<open>\<open>sv_detail\<close> is what \<^verbatim>\<open>_to_detail\<close> adds (message, start, stop); the column \<^verbatim>\<open>image\<close> is never written by the program.\<close>

record sandbox_view =
  sv_id :: string
  sv_name :: string
  sv_template :: string
  sv_status :: sandbox_status
  sv_labels :: "(string \<times> string) list"
  sv_auto_stop_interval :: int
  sv_auto_delete_interval :: int
  sv_persist :: bool
  sv_storage_size :: "string option"
  sv_pending_operation :: "pending_operation option"
  sv_storage :: "storage_view option"
  sv_urls :: sandbox_urls
  sv_created_at :: time
  sv_detail :: "(string option \<times> time option \<times> time option) option"

definition storage_of :: "sandbox \<Rightarrow> storage_view option" where
  "storage_of s =
     (if sb_persist s \<and> truthy (sb_storage_size s)
      then Some \<lparr>st_mode = or_else (sb_storage_backend_mode s) LIVE_DISK, st_size = the (sb_storage_size s),
                 st_snapshot_created_at = sb_gmt_snapshotted s, st_zone = sb_workspace_zone s\<rparr>
      else None)"

definition to_response :: "lib \<Rightarrow> web_settings \<Rightarrow> time \<Rightarrow> string \<Rightarrow> web_link option \<Rightarrow> sandbox \<Rightarrow> exn + sandbox_view" where
  "to_response lib web now base_url web_link s =
     map_sum id (\<lambda>urls. \<lparr>sv_id = sb_id s, sv_name = sb_name s, sv_template = sb_template s, sv_status = sb_status s,
       sv_labels = sb_labels s, sv_auto_stop_interval = sb_auto_stop_interval s,
       sv_auto_delete_interval = sb_auto_delete_interval s, sv_persist = sb_persist s, sv_storage_size = sb_storage_size s,
       sv_pending_operation = sb_pending_operation s, sv_storage = storage_of s, sv_urls = urls,
       sv_created_at = sb_gmt_created s, sv_detail = None\<rparr>) (build_urls lib web now s base_url web_link)"

definition to_detail :: "lib \<Rightarrow> web_settings \<Rightarrow> time \<Rightarrow> string \<Rightarrow> web_link option \<Rightarrow> sandbox \<Rightarrow> exn + sandbox_view" where
  "to_detail lib web now base_url web_link s =
     map_sum id (\<lambda>v. v\<lparr>sv_detail := Some (sb_status_message s, sb_gmt_started s, sb_gmt_stopped s)\<rparr>)
       (to_response lib web now base_url web_link s)"

subsection \<open>Web links\<close>

definition normalize_active_web_link :: "time \<Rightarrow> web_link option \<Rightarrow> web_link option" where
  "normalize_active_web_link now link =
     (case link of None \<Rightarrow> None
      | Some l \<Rightarrow> if wl_gmt_deleted l \<noteq> None \<or> link_is_expired now l then None else Some l)"

definition api_active_web_link :: "time \<Rightarrow> string \<Rightarrow> web_link option op" where
  "api_active_web_link now sandbox_id =
     ebind (select_one_or_none (\<lambda>w. filter (\<lambda>l. wl_sandbox_id l = sandbox_id \<and> wl_gmt_deleted l = None) (web_links w))) (\<lambda>r.
     ret (normalize_active_web_link now r))"

text \<open>The outer join of a sandbox with its links.\<close>

definition sandbox_link_rows :: "string \<Rightarrow> string \<Rightarrow> world \<Rightarrow> (sandbox \<times> web_link option) list" where
  "sandbox_link_rows sandbox_id owner_id w =
     concat (map (\<lambda>s.
       case filter (\<lambda>l. wl_sandbox_id l = sb_id s \<and> wl_gmt_deleted l = None) (web_links w) of
         [] \<Rightarrow> [(s, None)] | ls \<Rightarrow> map (\<lambda>l. (s, Some l)) ls)
       (filter (\<lambda>s. sb_id s = sandbox_id \<and> sb_owner_id s = owner_id \<and> sb_gmt_deleted s = None) (sandboxes w)))"

definition owned_sandbox_with_web_link_row :: "string \<Rightarrow> string \<Rightarrow> (sandbox \<times> web_link option) option op" where
  "owned_sandbox_with_web_link_row sandbox_id owner_id = select_one_or_none (sandbox_link_rows sandbox_id owner_id)"

definition owned_sandbox_with_active_web_link :: "time \<Rightarrow> string \<Rightarrow> string \<Rightarrow> (sandbox \<times> web_link option) option op" where
  "owned_sandbox_with_active_web_link now sandbox_id owner_id =
     ebind (owned_sandbox_with_web_link_row sandbox_id owner_id) (\<lambda>r.
     ret (map_option (\<lambda>(s, l). (s, normalize_active_web_link now l)) r))"

definition load_active_web_links :: "time \<Rightarrow> string list \<Rightarrow> (string \<times> web_link) list op" where
  "load_active_web_links now sandbox_ids = gets (\<lambda>w.
     fold (\<lambda>l d. dict_set (wl_sandbox_id l) l d)
       (filter (\<lambda>l. wl_sandbox_id l \<in> set sandbox_ids \<and> wl_gmt_deleted l = None \<and> \<not> link_is_expired now l) (web_links w)) [])"

definition upsert_web_link :: "time \<Rightarrow> sandbox \<Rightarrow> string \<Rightarrow> web_link option \<Rightarrow> web_link op" where
  "upsert_web_link now s user_id existing_link =
     ebind (case existing_link of
         Some l \<Rightarrow> ret (Some l)
       | None \<Rightarrow> select_one_or_none (\<lambda>w. filter (\<lambda>l. wl_sandbox_id l = sb_id s) (web_links w))) (\<lambda>link.
     ebind build_open_link_token (\<lambda>link_id.
     ebind (gets (\<lambda>w. link_id \<in> set (map wl_id (web_links w)))) (\<lambda>taken.
     if taken then raise IntegrityError
     else case link of
       None \<Rightarrow>
         let l = \<lparr>wl_id = link_id, wl_sandbox_id = sb_id s, wl_created_by_user_id = user_id, wl_gmt_created = now,
                  wl_gmt_updated = now, wl_gmt_expires = None, wl_gmt_last_used = None, wl_gmt_deleted = None\<rparr>
         in ebind (modify (\<lambda>w. w\<lparr>web_links := web_links w @ [l]\<rparr>)) (\<lambda>_. ret l)
     | Some old \<Rightarrow>
         let f = (\<lambda>l. l\<lparr>wl_id := link_id, wl_created_by_user_id := user_id, wl_gmt_expires := None, wl_gmt_last_used := None,
                      wl_gmt_updated := now, wl_gmt_deleted := None\<rparr>)
         in ebind (modify (\<lambda>w. w\<lparr>web_links := update_where (\<lambda>l. wl_id l = wl_id old) f (web_links w)\<rparr>)) (\<lambda>_. ret (f old)))))"

subsection \<open>Label filters\<close>

definition parse_label_filters :: "string list \<Rightarrow> exn + (string \<times> string) list" where
  "parse_label_filters labels =
     foldl (\<lambda>acc item. case acc of
         Inl e \<Rightarrow> Inl e
       | Inr parsed \<Rightarrow>
           if CHR '':'' \<notin> set item \<or> before (CHR '':'') item = '''' \<or> after (CHR '':'') item = ''''
           then Inl (ValidationError ''Each label filter must use key:value format.'')
           else Inr (dict_set (before (CHR '':'') item) (after (CHR '':'') item) parsed)) (Inr []) labels"

subsection \<open>Creation\<close>

definition creation_limits :: "settings \<Rightarrow> limits_snapshot \<Rightarrow> create_sandbox_body \<Rightarrow> exn + unit" where
  "creation_limits cfg limits body =
     (case check_sandbox_creation_allowed limits of
        Inl e \<Rightarrow> Inl e
      | Inr _ \<Rightarrow>
          if cb_persist body
          then case platform_parse_storage_size_gib (Some (py_or (cb_storage_size body) (sandbox_default_storage_size cfg))) of
                 Inl e \<Rightarrow> Inl e
               | Inr gib \<Rightarrow> check_storage_allocation_allowed limits gib
          else Inr ())"

definition publish_web_link :: "web_settings \<Rightarrow> time \<Rightarrow> request \<Rightarrow> sandbox \<Rightarrow> string \<Rightarrow> web_link option op" where
  "publish_web_link web now rq s user_id =
     (if sandbox_domain web = '''' then ret None
      else ebind (upsert_web_link now s user_id None) (\<lambda>l.
           ebind (audit_success rq ''sandbox.web_link.create'' ''sandbox'' (Some (sb_id s))
             [(''issued_via'', MStr ''open_link''), (''auto_created'', MBool True)]) (\<lambda>_.
           ret (Some l))))"

definition create_sandbox ::
    "lib \<Rightarrow> web_settings \<Rightarrow> settings \<Rightarrow> limits_snapshot \<Rightarrow> cluster \<Rightarrow> string \<Rightarrow> datetime \<Rightarrow> user \<Rightarrow> request \<Rightarrow> create_sandbox_body \<Rightarrow>
     sandbox_view op" where
  "create_sandbox lib web cfg limits cl generated now u rq body =
     (if \<not> us_is_verified u
      then ebind (audit_failure rq ''sandbox.create'' ''sandbox'' None ''email_verification_required''
             [(''email'', MStr (us_email u)), (''template'', MStr (cb_template body))]) (\<lambda>_.
           ebind commit (\<lambda>_. raise EmailVerificationRequiredError))
      else
        ebind (try_catch (of_sum (creation_limits cfg limits body)) (\<lambda>e.
          if treadstone_error e = None then raise e
          else ebind (audit_request rq ''sandbox.create'' ''sandbox'' None ''failure'' (map_option fst (treadstone_error e))
                 [(''template'', MStr (cb_template body)), (''persist'', MBool (cb_persist body)),
                  (''storage_size'', if cb_persist body
                     then MStr (py_or (cb_storage_size body) (sandbox_default_storage_size cfg)) else MNone)]) (\<lambda>_.
               ebind commit (\<lambda>_. raise e)))) (\<lambda>_.
        ebind (create cfg True cl generated now (us_id u) (cb_template body) (cb_name body) (Some (cb_labels body))
          (cb_auto_stop_interval body) (cb_auto_delete_interval body) (cb_persist body)
          (Some (py_or (cb_storage_size body) (sandbox_default_storage_size cfg)))) (\<lambda>s.
        let rq = set_scope_context [(''sandbox_id'', Some (sb_id s))] rq
        in ebind (transaction (
             ebind (publish_web_link web (utc_ts now) rq s (us_id u)) (\<lambda>web_link.
             ebind (audit_success rq ''sandbox.create'' ''sandbox'' (Some (sb_id s))
               [(''name'', MStr (sb_name s)), (''template'', MStr (sb_template s)), (''persist'', MBool (sb_persist s)),
                (''storage_size'', case sb_storage_size s of None \<Rightarrow> MNone | Some z \<Rightarrow> MStr z)]) (\<lambda>_.
             ebind commit (\<lambda>_. ret web_link))))) (\<lambda>web_link.
           ebind (of_sum (public_control_plane_base_url lib web rq)) (\<lambda>base_url.
           of_sum (to_response lib web (utc_ts now) base_url web_link s))))))"

text \<open>The handler as it is called: the snapshot is the one that the runtime of the process has cached, or else is built from the
  tables now. \<open>db\<close> holds the two tables that the world does not. An unverified user is turned away before the runtime is asked.\<close>

definition platform_view :: "platform_db \<Rightarrow> world \<Rightarrow> platform_db" where
  "platform_view db w = db\<lparr>pd_users := map us_id (users w), pd_sandboxes := sandboxes w\<rparr>"

definition post_sandbox ::
    "lib \<Rightarrow> web_settings \<Rightarrow> settings \<Rightarrow> nat option \<Rightarrow> platform_db \<Rightarrow> cluster \<Rightarrow> string \<Rightarrow> datetime \<Rightarrow> user \<Rightarrow> request \<Rightarrow>
     create_sandbox_body \<Rightarrow> limits_runtime \<Rightarrow> world \<Rightarrow> limits_runtime \<times> (exn + sandbox_view) \<times> world" where
  "post_sandbox lib web cfg token db cl generated now u rq body runtime w =
     (let (limits, refreshed) = ensure_snapshot (utc_ts now) token (platform_view db w) runtime
      in (if us_is_verified u then refreshed else runtime, create_sandbox lib web cfg limits cl generated now u rq body w))"

subsection \<open>Reading\<close>

fun views :: "(sandbox \<Rightarrow> exn + sandbox_view) \<Rightarrow> sandbox list \<Rightarrow> exn + sandbox_view list" where
  "views f [] = Inr []"
| "views f (s # ss) = (case f s of Inl e \<Rightarrow> Inl e | Inr v \<Rightarrow> map_sum id (\<lambda>vs. v # vs) (views f ss))"

definition list_sandboxes ::
    "lib \<Rightarrow> web_settings \<Rightarrow> (string \<Rightarrow> nat) \<Rightarrow> ((string \<times> string) list \<Rightarrow> (string \<times> string) list \<Rightarrow> bool) \<Rightarrow> time \<Rightarrow> user \<Rightarrow> request \<Rightarrow>
     string list \<Rightarrow> nat \<Rightarrow> nat \<Rightarrow> (sandbox_view list \<times> int) op" where
  "list_sandboxes lib web name_key json_contains now u rq label limit offset =
     ebind (of_sum (parse_label_filters label)) (\<lambda>labels.
     ebind (list_by_owner name_key json_contains (us_id u) (if labels = [] then None else Some labels) offset limit) (\<lambda>(page, count).
     ebind (of_sum (public_control_plane_base_url lib web rq)) (\<lambda>base_url.
     ebind (if sandbox_domain web \<noteq> '''' then load_active_web_links now (map sb_id page) else ret []) (\<lambda>links.
     ebind (of_sum (views (\<lambda>s. to_response lib web now base_url (map_of links (sb_id s)) s) page)) (\<lambda>items.
     ret (items, count))))))"

definition get_sandbox_detail :: "lib \<Rightarrow> web_settings \<Rightarrow> time \<Rightarrow> user \<Rightarrow> request \<Rightarrow> string \<Rightarrow> sandbox_view op" where
  "get_sandbox_detail lib web now u rq sandbox_id =
     ebind (owned_sandbox_with_active_web_link now sandbox_id (us_id u)) (\<lambda>r.
     case r of
       None \<Rightarrow> raise (SandboxNotFoundError sandbox_id)
     | Some (s, web_link) \<Rightarrow>
         ebind (of_sum (public_control_plane_base_url lib web rq)) (\<lambda>base_url.
         of_sum (to_detail lib web now base_url web_link s)))"

text \<open>How the handlers that change a sandbox end: the link of the sandbox and its detail.\<close>

definition detail_response :: "lib \<Rightarrow> web_settings \<Rightarrow> time \<Rightarrow> request \<Rightarrow> sandbox \<Rightarrow> sandbox_view op" where
  "detail_response lib web now rq s =
     ebind (if sandbox_domain web \<noteq> '''' then api_active_web_link now (sb_id s) else ret None) (\<lambda>web_link.
     ebind (of_sum (public_control_plane_base_url lib web rq)) (\<lambda>base_url.
     of_sum (to_detail lib web now base_url web_link s)))"

subsection \<open>Changing\<close>

definition patch_fields :: "sandbox_patch \<Rightarrow> string list" where
  "patch_fields p =
     (if pa_auto_delete_interval p \<noteq> None then [''auto_delete_interval''] else []) @
     (if pa_auto_stop_interval p \<noteq> None then [''auto_stop_interval''] else []) @
     (if pa_labels p \<noteq> None then [''labels''] else []) @ (if pa_name p \<noteq> None then [''name''] else [])"

definition update_sandbox ::
    "lib \<Rightarrow> web_settings \<Rightarrow> settings \<Rightarrow> datetime \<Rightarrow> user \<Rightarrow> request \<Rightarrow> string \<Rightarrow> sandbox_patch \<Rightarrow> sandbox_view op" where
  "update_sandbox lib web cfg now u rq sandbox_id patch =
     (if empty_patch patch then raise (ValidationError ''At least one field is required to update the sandbox.'')
      else ebind (update cfg True now sandbox_id (us_id u) patch) (\<lambda>s.
        let rq = set_scope_context [(''sandbox_id'', Some (sb_id s))] rq
        in ebind (audit_success rq ''sandbox.update'' ''sandbox'' (Some (sb_id s))
             [(''fields'', MList (map MStr (patch_fields patch)))]) (\<lambda>_.
           ebind commit (\<lambda>_. detail_response lib web (utc_ts now) rq s))))"

definition delete_sandbox :: "cluster \<Rightarrow> datetime \<Rightarrow> user \<Rightarrow> request \<Rightarrow> string \<Rightarrow> unit op" where
  "delete_sandbox cl now u rq sandbox_id =
     ebind (delete True cl (utc_ts now) sandbox_id (us_id u)) (\<lambda>s.
     if sb_status s = ERROR
     then raise (ConflictError (py_or (sb_status_message s) (''Failed to delete sandbox '' @ sandbox_id @ ''.'')))
     else let rq = set_scope_context [(''sandbox_id'', Some sandbox_id)] rq
          in ebind (if sb_storage_backend_mode s = Some STANDARD_SNAPSHOT
                    then audit_success rq ''sandbox.storage.asset_delete'' ''sandbox'' (Some sandbox_id)
                           [(''asset_type'', MStr ''bound_snapshot'')]
                    else ret ()) (\<lambda>_.
             ebind (audit_success rq ''sandbox.delete'' ''sandbox'' (Some sandbox_id) []) (\<lambda>_.
             commit)))"

definition snapshot_sandbox :: "lib \<Rightarrow> web_settings \<Rightarrow> settings \<Rightarrow> cluster \<Rightarrow> datetime \<Rightarrow> user \<Rightarrow> request \<Rightarrow> string \<Rightarrow> sandbox_view op" where
  "snapshot_sandbox lib web cfg cl now u rq sandbox_id =
     ebind (snapshot cfg True cl now sandbox_id (us_id u)) (\<lambda>s.
     let rq = set_scope_context [(''sandbox_id'', Some (sb_id s))] rq
     in ebind (audit_success rq ''sandbox.snapshot'' ''sandbox'' (Some (sb_id s)) []) (\<lambda>_.
        ebind commit (\<lambda>_. detail_response lib web (utc_ts now) rq s)))"

text \<open>\<^verbatim>\<open>before\<close> and the started sandbox are one object of the session, so its status is read after the start.\<close>

definition start_sandbox :: "lib \<Rightarrow> web_settings \<Rightarrow> settings \<Rightarrow> cluster \<Rightarrow> datetime \<Rightarrow> user \<Rightarrow> request \<Rightarrow> string \<Rightarrow> sandbox_view op" where
  "start_sandbox lib web cfg cl now u rq sandbox_id =
     ebind (get_sandbox sandbox_id (us_id u)) (\<lambda>before.
     ebind (start cfg True cl now sandbox_id (us_id u)) (\<lambda>s.
     let rq = set_scope_context [(''sandbox_id'', Some (sb_id s))] rq
     in ebind (if before \<noteq> None \<and> sb_status s = COLD
               then audit_success rq ''sandbox.restore_on_start'' ''sandbox'' (Some (sb_id s)) [] else ret ()) (\<lambda>_.
        ebind (audit_success rq ''sandbox.start'' ''sandbox'' (Some (sb_id s)) []) (\<lambda>_.
        ebind commit (\<lambda>_. detail_response lib web (utc_ts now) rq s)))))"

definition stop_sandbox :: "lib \<Rightarrow> web_settings \<Rightarrow> cluster \<Rightarrow> datetime \<Rightarrow> user \<Rightarrow> request \<Rightarrow> string \<Rightarrow> sandbox_view op" where
  "stop_sandbox lib web cl now u rq sandbox_id =
     ebind (stop True cl now sandbox_id (us_id u)) (\<lambda>s.
     let rq = set_scope_context [(''sandbox_id'', Some (sb_id s))] rq
     in ebind (audit_success rq ''sandbox.stop'' ''sandbox'' (Some (sb_id s)) []) (\<lambda>_.
        ebind commit (\<lambda>_. detail_response lib web (utc_ts now) rq s)))"

subsection \<open>Web link endpoints\<close>

record link_view =
  lv_web_url :: string
  lv_open_link :: string
  lv_expires_at :: "time option"

definition create_sandbox_web_link :: "lib \<Rightarrow> web_settings \<Rightarrow> time \<Rightarrow> user \<Rightarrow> request \<Rightarrow> string \<Rightarrow> link_view op" where
  "create_sandbox_web_link lib web now u rq sandbox_id =
     ebind (owned_sandbox_with_web_link_row sandbox_id (us_id u)) (\<lambda>r.
     case r of
       None \<Rightarrow> raise (SandboxNotFoundError sandbox_id)
     | Some (s, existing_link) \<Rightarrow>
         let rq = set_scope_context [(''sandbox_id'', Some (sb_id s))] rq
         in ebind (of_sum (public_control_plane_base_url lib web rq)) (\<lambda>base_url.
            ebind (of_sum (get_web_url lib web s base_url)) (\<lambda>web_url.
            ebind (case normalize_active_web_link now existing_link of
                Some l \<Rightarrow> ret l
              | None \<Rightarrow> transaction (
                  ebind (upsert_web_link now s (us_id u) existing_link) (\<lambda>l.
                  ebind (audit_success rq ''sandbox.web_link.create'' ''sandbox'' (Some (sb_id s))
                    [(''issued_via'', MStr ''open_link''), (''auto_created'', MBool False)]) (\<lambda>_.
                  ebind commit (\<lambda>_. ret l))))) (\<lambda>l.
            ret \<lparr>lv_web_url = web_url, lv_open_link = build_open_link_url web_url (wl_id l), lv_expires_at = wl_gmt_expires l\<rparr>))))"

record link_status_view =
  ls_web_url :: string
  ls_enabled :: bool
  ls_expires_at :: "time option"
  ls_last_used_at :: "time option"

definition get_sandbox_web_link :: "lib \<Rightarrow> web_settings \<Rightarrow> time \<Rightarrow> user \<Rightarrow> request \<Rightarrow> string \<Rightarrow> link_status_view op" where
  "get_sandbox_web_link lib web now u rq sandbox_id =
     ebind (owned_sandbox_with_active_web_link now sandbox_id (us_id u)) (\<lambda>r.
     case r of
       None \<Rightarrow> raise (SandboxNotFoundError sandbox_id)
     | Some (s, link) \<Rightarrow>
         ebind (of_sum (public_control_plane_base_url lib web rq)) (\<lambda>base_url.
         ebind (of_sum (get_web_url lib web s base_url)) (\<lambda>web_url.
         ret \<lparr>ls_web_url = web_url, ls_enabled = (link \<noteq> None), ls_expires_at = Option.bind link wl_gmt_expires,
              ls_last_used_at = Option.bind link wl_gmt_last_used\<rparr>)))"

definition delete_sandbox_web_link :: "time \<Rightarrow> user \<Rightarrow> request \<Rightarrow> string \<Rightarrow> unit op" where
  "delete_sandbox_web_link now u rq sandbox_id =
     ebind (owned_sandbox_with_active_web_link now sandbox_id (us_id u)) (\<lambda>r.
     case r of
       None \<Rightarrow> raise (SandboxNotFoundError sandbox_id)
     | Some (s, None) \<Rightarrow> ret ()
     | Some (s, Some l) \<Rightarrow>
         let rq = set_scope_context [(''sandbox_id'', Some (sb_id s))] rq
         in ebind (modify (\<lambda>w. w\<lparr>web_links := update_where (\<lambda>k. wl_id k = wl_id l)
              (\<lambda>k. k\<lparr>wl_gmt_deleted := Some now, wl_gmt_updated := now\<rparr>) (web_links w)\<rparr>)) (\<lambda>_.
            ebind (audit_success rq ''sandbox.web_link.delete'' ''sandbox'' (Some (sb_id s)) [(''issued_via'', MStr ''open_link'')]) (\<lambda>_.
            commit)))"

subsection \<open>Administration\<close>

definition pending_str :: "pending_operation \<Rightarrow> string" where
  "pending_str p = (case p of SNAPSHOTTING \<Rightarrow> ''snapshotting'' | RESTORING \<Rightarrow> ''restoring'')"

text \<open>\<^verbatim>\<open>actor_user_id=admin.id\<close> replaces the user of the request context. The row as the handler leaves it.\<close>

definition admin_force_reset_pending :: "user \<Rightarrow> request \<Rightarrow> string \<Rightarrow> sandbox op" where
  "admin_force_reset_pending admin rq sandbox_id =
     ebind (gets (\<lambda>w. find (\<lambda>s. sb_id s = sandbox_id) (sandboxes w))) (\<lambda>r.
     if r = None \<or> sb_gmt_deleted (the r) \<noteq> None then raise (NotFoundError ''Sandbox'' sandbox_id)
     else let s = the r in
       case sb_pending_operation s of
         None \<Rightarrow> ret s
       | Some p \<Rightarrow>
           if p \<noteq> SNAPSHOTTING
           then raise (ConflictError (''Only '' @ quoted ''snapshotting'' @ '' can be force-reset. This sandbox has pending_operation='' @
                  quoted (pending_str p) @ '' which may have materialized K8s resources that require manual cleanup.''))
           else transaction (
             ebind (assign s (\<lambda>r. r\<lparr>sb_pending_operation := None, sb_status := STOPPED,
               sb_status_message := Some (''Force-reset by admin from pending_operation='' @ pending_str p),
               sb_version := sb_version r + 1\<rparr>)) (\<lambda>_.
             ebind (audit_success (set_scope_context [(''actor_user_id'', Some (us_id admin))] rq)
               ''admin.sandbox.force_reset_pending'' ''sandbox'' (Some sandbox_id)
               [(''previous_status'', MStr (status_str (sb_status s))), (''previous_pending_operation'', MStr (pending_str p)),
                (''new_status'', MStr (status_str STOPPED)), (''owner_id'', MStr (sb_owner_id s))]) (\<lambda>_.
             ebind commit (\<lambda>_. this s)))))"

end
