(* ===== verification/Service_Create.thy ===== *)
theory Service_Create
  imports Service_Moves
begin

text \<open>
  Creation of a sandbox: the row is inserted exactly when \<open>create\<close> returns it. A rejected request, a name
  that is taken and a template that has gone leave the table as it was; a cluster that fails leaves the row
  with status \<open>ERROR\<close>.
\<close>

lemma keeps_validate_create: "keeps (\<lambda>v. sandboxes v = T) (validate_create cfg mt cl g now owner tpl n i persist sz)"
  unfolding validate_create_def check_storage_size_def resolve_template_def ensure_persistent_storage_backend_ready_def Let_def
  by (intro keeps_intros keeps_checks) auto

abbreviation created :: "sandbox list \<Rightarrow> sandbox \<Rightarrow> world \<Rightarrow> bool" where
  "created T s v \<equiv> sandboxes v = T @ [s] \<and> (\<forall>r \<in> set T. sb_id r \<noteq> sb_id s)"

lemma valid_persist:
  assumes "sandboxes base = T"
  shows "valid (\<lambda>v. sandboxes v = T) (persist_sandbox base cfg now owner tpl params ls a d persist)
    (\<lambda>s v. created T s v \<and> sb_status s = CREATING \<and> sb_owner_id s = owner \<and>
       \<not> list_ex (\<lambda>r. sb_owner_id r = owner \<and> sb_name r = sb_name s \<and> sb_gmt_deleted r = None) T)
    (\<lambda>v. sandboxes v = T)"
  using assms
  by (auto simp: valid_def persist_sandbox_def draw_id_run Let_def new_sandbox_def name_taken_def list_ex_iff
      rollback_to_def rollback_rows_def split: if_splits)

definition errored :: "string \<Rightarrow> sandbox \<Rightarrow> sandbox" where
  "errored m r = r\<lparr>sb_status := ERROR, sb_status_message := Some m, sb_version := sb_version r + 1\<rparr>"

lemma mark_error_created: "created T s v \<Longrightarrow> \<exists>u. mark_error s m v = (Inr (), u) \<and> sandboxes u = T @ [errored m s]"
  by (auto simp: mark_error_def assign_def errored_def intro: update_where_id)

lemma find_snoc: "\<forall>r \<in> set T. \<not> P r \<Longrightarrow> find P (T @ [x]) = (if P x then Some x else None)"
  by (induction T) auto

lemma this_created: "sandboxes v = T @ [x] \<Longrightarrow> \<forall>r \<in> set T. sb_id r \<noteq> sb_id s \<Longrightarrow> sb_id x = sb_id s \<Longrightarrow> this_row s v = x"
  by (simp add: this_row_def find_snoc)

abbreviation provisioned :: "sandbox list \<Rightarrow> sandbox \<Rightarrow> world \<Rightarrow> bool" where
  "provisioned T s v \<equiv> \<exists>x. sandboxes v = T @ [x] \<and> (\<forall>r \<in> set T. sb_id r \<noteq> sb_id s) \<and> (x = s \<or> (\<exists>m. x = errored m s))"

lemma valid_error_created: "valid (created T s) (mark_error s m) (\<lambda>_. provisioned T s) X"
  unfolding valid_def
proof (intro allI impI)
  fix w
  assume w: "created T s w"
  from mark_error_created [OF this, of m] obtain u where "mark_error s m w = (Inr (), u)" "sandboxes u = T @ [errored m s]"
    by blast
  with w show "case mark_error s m w of (Inl e, x) \<Rightarrow> X x | (Inr a, x) \<Rightarrow> provisioned T s x" by auto
qed

lemma valid_withdraw:
  "valid (created T s) (ebind (modify (\<lambda>w. w\<lparr>sandboxes := filter (\<lambda>r. sb_id r \<noteq> sb_id s) (sandboxes w)\<rparr>)) (\<lambda>_.
     ebind commit (\<lambda>_. raise e))) Q (\<lambda>v. sandboxes v = T)"
  by (auto simp: valid_def store_rows_def filter_id_conv)

lemma valid_provision:
  "valid (created T s) (provision_k8s cfg cl s tpl sz t) (\<lambda>_. provisioned T s) (\<lambda>v. sandboxes v = T)"
  unfolding provision_k8s_def
proof (rule valid_try_else [OF valid_keeps])
  show "keeps (created T s) (if sb_persist s then create_direct cfg cl s tpl sz ''Running'' None t else create_via_claim cl s tpl t)"
    unfolding create_direct_def create_via_claim_def resolve_template_def by (intro keeps_intros) auto
next
  show "valid (created T s) (case e of
          TemplateNotFoundError t \<Rightarrow>
            ebind (modify (\<lambda>w. w\<lparr>sandboxes := filter (\<lambda>r. sb_id r \<noteq> sb_id s) (sandboxes w)\<rparr>)) (\<lambda>_.
            ebind commit (\<lambda>_. raise e))
        | _ \<Rightarrow> mark_error s (if sb_persist s then ''Failed to create Sandbox CR'' else ''Failed to create SandboxClaim''))
     (\<lambda>_. provisioned T s) (\<lambda>v. sandboxes v = T)" for e
    by (cases e; simp only: exn.case; rule valid_error_created valid_withdraw)
next
  show "valid (created T s) (ret a) (\<lambda>_. provisioned T s) (\<lambda>v. sandboxes v = T)" for a
    by (auto intro: valid_ret)
qed

lemma keeps_record_metering: "keeps (\<lambda>v. sandboxes v = U) (record_metering mt now s owner sz)"
  unfolding record_metering_def this_def by (intro keeps_intros keeps_commit) (auto simp: store_rows_def)

lemma record_metering_run: "\<exists>v. record_metering mt now s owner sz w = (Inr (), v) \<and> sandboxes v = sandboxes w"
proof -
  have "\<exists>v. record_metering mt now s owner sz w = (Inr (), v)"
    by (auto simp: record_metering_def this_def best_effort_def try_catch_def split: prod.split sum.split)
  then show ?thesis using keepsD [OF keeps_record_metering [of "sandboxes w" mt now s owner sz], of w] by auto
qed

lemma valid_record_metering: "(\<And>v v'. sandboxes v' = sandboxes v \<Longrightarrow> P v \<Longrightarrow> P v') \<Longrightarrow>
    valid P (record_metering mt now s owner sz) (\<lambda>_. P) X"
  unfolding valid_def by (metis (no_types, lifting) old.prod.case old.sum.simps(6) record_metering_run)

lemma create_valid:
  "valid (\<lambda>v. sandboxes v = T) (create cfg mt cl g now owner tpl name ls auto_stop auto_delete persist sz)
     (\<lambda>s v. sandboxes v = T @ [s] \<and> sb_owner_id s = owner \<and> (sb_status s = CREATING \<or> sb_status s = ERROR) \<and>
        \<not> list_ex (\<lambda>r. sb_id r = sb_id s \<or> sb_owner_id r = owner \<and> sb_name r = sb_name s \<and> sb_gmt_deleted r = None) T)
     (\<lambda>v. sandboxes v = T)"
proof -
  let ?fresh = "\<lambda>s. sb_status s = CREATING \<and> sb_owner_id s = owner \<and>
      \<not> list_ex (\<lambda>r. sb_owner_id r = owner \<and> sb_name r = sb_name s \<and> sb_gmt_deleted r = None) T"
  have provision: "valid (\<lambda>v. created T s v \<and> ?fresh s) (provision_k8s cfg cl s tpl gib t)
      (\<lambda>_ v. ?fresh s \<and> provisioned T s v) (\<lambda>v. sandboxes v = T)" for s gib t
    using valid_frame [OF valid_provision, of "?fresh s"] by (rule valid_pre) simp
  have meter: "valid (\<lambda>v. ?fresh s \<and> provisioned T s v) (record_metering mt t s owner gib)
      (\<lambda>_ v. ?fresh s \<and> provisioned T s v) (\<lambda>v. sandboxes v = T)" for s gib t
    by (rule valid_record_metering) simp
  have last: "valid (\<lambda>v. ?fresh s \<and> provisioned T s v) (this s)
      (\<lambda>s v. sandboxes v = T @ [s] \<and> sb_owner_id s = owner \<and> (sb_status s = CREATING \<or> sb_status s = ERROR) \<and>
        \<not> list_ex (\<lambda>r. sb_id r = sb_id s \<or> sb_owner_id r = owner \<and> sb_name r = sb_name s \<and> sb_gmt_deleted r = None) T)
      (\<lambda>v. sandboxes v = T)" for s
    by (auto simp: valid_def this_def this_created list_ex_iff errored_def)
  have start: "valid (\<lambda>v. sandboxes v = T) (gets id) (\<lambda>b v. sandboxes b = T \<and> sandboxes v = T) (\<lambda>v. sandboxes v = T)"
    by (simp add: valid_def)
  show ?thesis
    unfolding create_def
    by (rule valid_ebind [OF start], rule valid_assume,
        rule valid_ebind [OF valid_keeps [OF keeps_validate_create]],
        rule valid_ebind [OF valid_persist valid_ebind [OF provision valid_ebind [OF meter last]]])
qed

text \<open>C22: creating a sandbox is all or nothing. When \<open>create\<close> returns, exactly one row was added, it is the returned
  sandbox, it belongs to the caller, no other live sandbox of the caller has its name, and its status is \<open>CREATING\<close>,
  or \<open>ERROR\<close> when the cluster failed. When it raises, for a rejected request, a taken name or a template that has
  gone, the table is as it was.\<close>

theorem create_all_or_nothing:
  "valid (\<lambda>v. sandboxes v = T) (create cfg mt cl g now owner tpl name ls auto_stop auto_delete persist sz)
     (\<lambda>s v. sandboxes v = T @ [s] \<and> sb_owner_id s = owner \<and> (sb_status s = CREATING \<or> sb_status s = ERROR) \<and>
        \<not> list_ex (\<lambda>r. sb_id r = sb_id s \<or> sb_owner_id r = owner \<and> sb_name r = sb_name s \<and> sb_gmt_deleted r = None) T)
     (\<lambda>v. sandboxes v = T)"
  by (rule create_valid)

end
