(* ===== verification/Proxy_Safety.thy ===== *)
theory Proxy_Safety
  imports Proxy Key_Safety
begin

text \<open>
  What the proxy guarantees: its two endpoints admit exactly the requests that the tables allow and reach the same
  pod, a relay passes the messages on in order, and a live WebSocket connection keeps its sandbox from
  being stopped as idle.
\<close>

subsection \<open>Admission\<close>

text \<open>The holder of the secret may use the running sandbox \<open>s\<close>.\<close>

definition proxy_target :: "lib \<Rightarrow> time \<Rightarrow> world \<Rightarrow> string \<Rightarrow> string \<Rightarrow> sandbox \<Rightarrow> bool" where
  "proxy_target lib now w secret sid s \<longleftrightarrow>
     (\<exists>k u. key_valid lib now w secret k u \<and> data_plane_allowed w k sid \<and> sb_owner_id s = us_id u) \<and>
     s \<in> set (sandboxes w) \<and> sb_id s = sid \<and> sb_gmt_deleted s = None \<and> sb_status s = READY"

definition pod_authority :: "web_settings \<Rightarrow> settings \<Rightarrow> sandbox \<Rightarrow> string" where
  "pod_authority web cfg s =
     k8s_name s @ ''.'' @ py_or (Some (sb_k8s_namespace s)) (sandbox_namespace cfg) @ ''.svc.cluster.local:'' @ show_int (sandbox_port web)"

lemma build_sandbox_url_pod:
  "build_sandbox_url cfg web (k8s_name s) path (Some (sb_k8s_namespace s)) (Some (sandbox_port web)) scheme =
     scheme @ ''://'' @ pod_authority web cfg s @ ''/'' @ lstrip_char (CHR ''/'') path"
  by (simp add: build_sandbox_url_def pod_authority_def Let_def)

lemma owned_rows_short:
  assumes "distinct (map sb_id (sandboxes w))"
  shows "length (filter (\<lambda>s. sb_id s = sid \<and> sb_owner_id s = owner \<and> sb_gmt_deleted s = None) (sandboxes w)) \<le> 1"
proof -
  have "filter (\<lambda>s. sb_id s = sid \<and> sb_owner_id s = owner \<and> sb_gmt_deleted s = None) (sandboxes w) =
      filter (\<lambda>s. sb_owner_id s = owner \<and> sb_gmt_deleted s = None) (filter (\<lambda>s. sb_id s = sid) (sandboxes w))"
    by simp
  also have "length \<dots> \<le> length (filter (\<lambda>s. sb_id s = sid) (sandboxes w))"
    by (rule length_filter_le)
  also have "\<dots> \<le> 1"
    using assms by (rule length_filter_distinct_key)
  finally show ?thesis .
qed

lemma get_sandbox_cases:
  assumes "distinct (map sb_id (sandboxes w))"
  obtains (found) s where "get_sandbox sid owner w = (Inr (Some s), w)" "s \<in> set (sandboxes w)" "sb_id s = sid"
      "sb_owner_id s = owner" "sb_gmt_deleted s = None"
    | (missing) "get_sandbox sid owner w = (Inr None, w)"
      "\<nexists>s. s \<in> set (sandboxes w) \<and> sb_id s = sid \<and> sb_owner_id s = owner \<and> sb_gmt_deleted s = None"
proof -
  let ?q = "\<lambda>w. filter (\<lambda>s. sb_id s = sid \<and> sb_owner_id s = owner \<and> sb_gmt_deleted s = None) (sandboxes w)"
  show thesis
  proof (cases "?q w")
    case Nil
    then show ?thesis by (intro missing) (auto simp: get_sandbox_def filter_empty_conv)
  next
    case (Cons s ss)
    with owned_rows_short [OF assms, of sid owner] have q: "?q w = [s]" by simp
    then show ?thesis using filter_singleD [OF q] by (intro found [of s]) (auto simp: get_sandbox_def)
  qed
qed

text \<open>The data plane dependency and the checks of the WebSocket endpoint decide alike.\<close>

lemma proxy_decision:
  assumes inv: "identity_inv w" and ids: "distinct (map sb_id (sandboxes w))" and sid: "sid \<noteq> []"
    and secret: "startswith secret ''sk-''" and ws: "ws_secret rq = Some secret"
  obtains (allowed) u rq' s where "proxy_target lib now w secret sid s"
      "get_current_data_plane_user lib now (Some secret) cookie_user (Some sid) rq w = (Inr (u, rq'), w)"
      "rq_headers rq' = rq_headers rq" "get_sandbox sid (us_id u) w = (Inr (Some s), w)" "sb_status s = READY"
      "ws_admit lib now rq sid w = (Inr (Inr (u, s)), w)"
    | (rejected) reason where "\<nexists>s. proxy_target lib now w secret sid s"
      "\<And>cfg web up body path. \<exists>e. http_proxy lib cfg web up now (Some secret) cookie_user rq body sid path w = (Inl e, w)"
      "ws_admit lib now rq sid w = (Inr (Inl reason), w)"
proof (rule authenticate_cases [OF inv, of lib now secret])
  assume "\<nexists>k u. key_valid lib now w secret k u" "authenticate_api_key_value lib now secret w = (Inr None, w)"
  then show thesis
    using secret ws
    by (intro rejected) (auto simp: proxy_target_def http_proxy_def get_current_data_plane_user_def ws_admit_def)
next
  fix k u
  assume k: "key_valid lib now w secret k u" "authenticate_api_key_value lib now secret w = (Inr (Some (k, u)), w)"
  have only: "key_valid lib now w secret k' u' \<longleftrightarrow> k' = k \<and> u' = u" for k' u'
    using key_valid_unique [OF inv k(1)] k(1) by blast
  show thesis
  proof (cases "data_plane_allowed w k sid")
    case False
    then have none: "\<nexists>s. proxy_target lib now w secret sid s" using only by (auto simp: proxy_target_def)
    show ?thesis
      using k(2) secret ws sid False selected_grant_rows [OF inv, of "ak_id k" sid]
      by (cases "ak_data_plane_mode k"; intro rejected [OF none])
         (auto simp: http_proxy_def get_current_data_plane_user_def ws_admit_def data_plane_allowed_def
           truthy_def select_one_or_none_short)
  next
    case True
    define rq' where "rq' = set_scope_context [(''sandbox_id'', Some sid)] (set_auth_context ''api_key'' (Some u) (Some k) rq)"
    have dep: "get_current_data_plane_user lib now (Some secret) cookie_user (Some sid) rq w = (Inr (u, rq'), w)"
      using data_plane_admits [OF inv sid] k(1) True secret by (auto simp: rq'_def)
    have hd: "rq_headers rq' = rq_headers rq" by (simp add: rq'_def set_auth_context_def)
    have admit: "ws_admit lib now rq sid w =
        (case get_sandbox sid (us_id u) w of (Inl e, v) \<Rightarrow> (Inl e, v)
         | (Inr None, v) \<Rightarrow> (Inr (Inl ''Sandbox not found.''), v)
         | (Inr (Some s), v) \<Rightarrow> (Inr (if sb_status s \<noteq> READY then Inl ''Sandbox is not ready.'' else Inr (u, s)), v))"
      using k(2) ws True selected_grant_rows [OF inv, of "ak_id k" sid]
      by (auto simp: ws_admit_def data_plane_allowed_def select_one_or_none_short ebind_def
          split: prod.splits sum.splits option.splits)
    show ?thesis
    proof (rule get_sandbox_cases [OF ids, of sid "us_id u"])
      assume m: "get_sandbox sid (us_id u) w = (Inr None, w)"
        "\<nexists>s. s \<in> set (sandboxes w) \<and> sb_id s = sid \<and> sb_owner_id s = us_id u \<and> sb_gmt_deleted s = None"
      then show ?thesis
        using only admit dep by (intro rejected) (auto simp: proxy_target_def http_proxy_def http_proxy_impl_def)
    next
      fix s
      assume s: "get_sandbox sid (us_id u) w = (Inr (Some s), w)" "s \<in> set (sandboxes w)" "sb_id s = sid"
        "sb_owner_id s = us_id u" "sb_gmt_deleted s = None"
      show ?thesis
      proof (cases "sb_status s = READY")
        case True
        then show ?thesis
          using s k(1) \<open>data_plane_allowed w k sid\<close> admit dep hd
          by (intro allowed [of s u rq']) (auto simp: proxy_target_def)
      next
        case False
        have "s' = s" if "s' \<in> set (sandboxes w)" "sb_id s' = sid" for s'
          using that s ids by (auto simp: distinct_map inj_on_def)
        then have "\<nexists>s. proxy_target lib now w secret sid s" using False by (auto simp: proxy_target_def)
        then show ?thesis
          using False s(1) admit dep by (intro rejected) (auto simp: http_proxy_def http_proxy_impl_def)
      qed
    qed
  qed
qed


text \<open>A touch never fails.\<close>

definition touched :: "time \<Rightarrow> string \<Rightarrow> world \<Rightarrow> world" where
  "touched t sid w = store_rows (w\<lparr>sandboxes := update_where (\<lambda>s. sb_id s = sid)
     (\<lambda>s. s\<lparr>sb_gmt_last_active := Some t\<rparr>) (sandboxes w)\<rparr>)"

lemma touch_run: "touch_activity t sid w = (Inr (), touched t sid w)"
  by (simp add: touch_activity_def set_sandbox_def commit_def touched_def)

lemma best_effort_touch [simp]: "best_effort (touch_activity t sid) w = (Inr (), touched t sid w)"
  by (simp add: best_effort_def try_catch_def touch_run)

lemma relay_loop_Inr: "\<exists>r v. relay_loop (\<lambda>t. touch_activity t sid) evs r0 w = (Inr r, v)"
  by (induction evs arbitrary: r0 w) (auto simp: Let_def)

text \<open>C5: the HTTP and the WebSocket proxy admit the same requests: those whose secret belongs to a valid API key with a scope
  that covers a live, ready sandbox of the key's owner. Both then reach the pod of this very sandbox, with the port of
  the settings. Otherwise nothing is sent, the database is unchanged, the HTTP client gets an
  error and the socket is closed with code 1008.\<close>

theorem proxies_admit_alike:
  assumes "identity_inv w" "distinct (map sb_id (sandboxes w))" "sid \<noteq> []"
    and "startswith secret ''sk-''" "ws_secret rq = Some secret"
    and up: "\<And>q. \<exists>r. upstream q = Inr r" and ws: "\<And>url. \<exists>evs. ws_upstream url = Inr evs"
  shows "if \<exists>s. proxy_target lib now w secret sid s
    then \<exists>s req resp r url_rest ws_rest.
      proxy_target lib now w secret sid s \<and>
      fst (http_proxy lib cfg web upstream now (Some secret) cookie_user rq body sid path w) = Inr (req, resp) \<and>
      px_url req = ''http://'' @ pod_authority web cfg s @ ''/'' @ url_rest \<and>
      fst (ws_proxy lib cfg web ws_upstream now rq sid path w) = Inr (WsRelayed (''ws://'' @ pod_authority web cfg s @ ''/'' @ ws_rest) r)
    else (\<exists>e. http_proxy lib cfg web upstream now (Some secret) cookie_user rq body sid path w = (Inl e, w)) \<and>
      (\<exists>reason. ws_proxy lib cfg web ws_upstream now rq sid path w = (Inr (WsClosed 1008 reason), w))"
proof (rule proxy_decision [OF assms(1-5), of lib now cookie_user])
  fix u rq' s
  assume s: "proxy_target lib now w secret sid s"
    "get_current_data_plane_user lib now (Some secret) cookie_user (Some sid) rq w = (Inr (u, rq'), w)"
    "get_sandbox sid (us_id u) w = (Inr (Some s), w)" "sb_status s = READY" "ws_admit lib now rq sid w = (Inr (Inr (u, s)), w)"
  let ?path = "if rq_query_string rq' \<noteq> '''' then path @ ''?'' @ rq_query_string rq' else path"
  obtain req resp where http: "fst (http_proxy lib cfg web upstream now (Some secret) cookie_user rq body sid path w) = Inr (req, resp)"
    and req: "px_url req = ''http://'' @ pod_authority web cfg s @ ''/'' @ lstrip_char (CHR ''/'') ?path"
  proof -
    let ?req = "\<lparr>px_request_method = rq_request_method rq', px_url = ''http://'' @ pod_authority web cfg s @ ''/'' @ lstrip_char (CHR ''/'') ?path,
      px_headers = filter_request_headers (headers_dict (rq_headers rq')), px_body = body\<rparr>"
    obtain resp where "upstream ?req = Inr resp" using up by blast
    then have "fst (http_proxy lib cfg web upstream now (Some secret) cookie_user rq body sid path w) =
        Inr (?req, resp\<lparr>ps_headers := filter_response_headers (ps_headers resp)\<rparr>)"
      using s(2-4) by (simp add: http_proxy_def http_proxy_impl_def proxy_http_request_def Let_def build_sandbox_url_pod touch_run)
    then show thesis by (rule that) simp
  qed
  obtain r where ws: "fst (ws_proxy lib cfg web ws_upstream now rq sid path w) =
      Inr (WsRelayed (''ws://'' @ pod_authority web cfg s @ ''/'' @ lstrip_char (CHR ''/'') (ws_full_path rq path)) r)"
  proof -
    let ?url = "''ws://'' @ pod_authority web cfg s @ ''/'' @ lstrip_char (CHR ''/'') (ws_full_path rq path)"
    obtain evs where evs: "ws_upstream ?url = Inr evs" using ws by blast
    obtain r v where "relay_loop (\<lambda>t. touch_activity t sid) evs relay_start (touched now sid w) = (Inr r, v)"
      using relay_loop_Inr by blast
    then have "fst (ws_proxy lib cfg web ws_upstream now rq sid path w) = Inr (WsRelayed ?url r)"
      using s(5) evs by (simp add: ws_proxy_def proxy_websocket_def Let_def build_sandbox_url_pod try_catch_def)
    with that show thesis by blast
  qed
  from s(1) have "\<exists>s. proxy_target lib now w secret sid s" by blast
  with s(1) http req ws show ?thesis by auto
next
  fix reason
  assume "\<nexists>s. proxy_target lib now w secret sid s"
    "\<And>cfg web up body path. \<exists>e. http_proxy lib cfg web up now (Some secret) cookie_user rq body sid path w = (Inl e, w)"
    "ws_admit lib now rq sid w = (Inr (Inl reason), w)"
  then show ?thesis by (auto simp: ws_proxy_def)
qed

subsection \<open>Headers\<close>

lemma map_of_filter_key: "map_of (filter (\<lambda>(k, v). f k) hs) k = (if f k then map_of hs k else None)"
  by (induction hs) auto

lemma filter_request_headers_in:
  "map_of (filter_request_headers hs) k =
     (if k = ''accept-encoding'' then Some ''identity''
      else if lower k \<in> set PROXY_HOP_HEADERS \<or> is_x_sandbox_vendor_header k then None else map_of hs k)"
  unfolding filter_request_headers_def map_of_dict_set map_of_filter_key by simp

text \<open>The \<^verbatim>\<open>Authorization\<close> header, with the API key, is one of the headers that the workload receives.\<close>

lemma api_key_reaches_workload:
  "map_of (filter_request_headers hs) ''authorization'' = map_of hs ''authorization''"
  by (simp add: filter_request_headers_in PROXY_HOP_HEADERS_def is_x_sandbox_vendor_header_def startswith_def lower_def
      lower_char_def)

text \<open>Of several \<^verbatim>\<open>Set-Cookie\<close> lines of a response only the last is passed on.\<close>

lemma one_set_cookie_survives:
  "filter_response_headers [(''set-cookie'', a), (''set-cookie'', b)] = [(''set-cookie'', b)]"
  by (simp add: filter_response_headers_def PROXY_HOP_HEADERS_def lower_def lower_char_def dict_set_def)


subsection \<open>The relay\<close>

text \<open>What one event passes on, and whether it ends the relay.\<close>

fun up_messages :: "ws_event \<Rightarrow> ws_message list" where
  "up_messages (ClientBytes m) = [WsBytes m]"
| "up_messages (ClientText m) = [WsText m]"
| "up_messages _ = []"

fun down_messages :: "ws_event \<Rightarrow> ws_message list" where
  "down_messages (UpstreamBytes m) = [WsBytes m]"
| "down_messages (UpstreamText m) = [WsText m]"
| "down_messages _ = []"

fun ends_relay :: "ws_event \<Rightarrow> bool" where
  "ends_relay (ClientBytes m) = (m = '''')"
| "ends_relay (ClientText m) = (m = '''')"
| "ends_relay (UpstreamBytes m) = False"
| "ends_relay (UpstreamText m) = False"
| "ends_relay Tick = False"
| "ends_relay _ = True"

definition live_events :: "(time \<times> ws_event) list \<Rightarrow> ws_event list" where
  "live_events evs = takeWhile (\<lambda>ev. \<not> ends_relay ev) (map snd evs)"

lemma relay_message_live:
  "\<not> ends_relay ev \<Longrightarrow> relay_message ev r =
     r\<lparr>rl_to_upstream := rl_to_upstream r @ up_messages ev, rl_to_client := rl_to_client r @ down_messages ev\<rparr>"
  by (cases ev) (simp_all add: relay_message_def)

lemma relay_message_end: "ends_relay ev \<Longrightarrow> relay_message ev r = r\<lparr>rl_open := False\<rparr>"
  by (cases ev) (simp_all add: relay_message_def)

lemma relay_loop_result:
  assumes "rl_open r0"
  shows "\<exists>v. relay_loop (\<lambda>t. touch_activity t sid) evs r0 w =
    (Inr \<lparr>rl_to_upstream = rl_to_upstream r0 @ concat (map up_messages (live_events evs)),
          rl_to_client = rl_to_client r0 @ concat (map down_messages (live_events evs)),
          rl_open = (\<forall>(t, ev) \<in> set evs. \<not> ends_relay ev)\<rparr>, v)"
  using assms
proof (induction evs arbitrary: r0 w)
  case Nil
  then show ?case by (simp add: live_events_def)
next
  case (Cons e evs)
  obtain t ev where e: "e = (t, ev)" by force
  show ?case
  proof (cases "ends_relay ev")
    case True
    then have "ev \<noteq> Tick" by auto
    with True show ?thesis by (simp add: e Let_def relay_message_end live_events_def)
  next
    case False
    let ?r = "relay_message ev r0"
    have "rl_open ?r" using False Cons.prems by (simp add: relay_message_live)
    with False Cons.IH [OF this, of "if ev = Tick then touched t sid w else w"] show ?thesis
      by (auto simp: e Let_def relay_message_live live_events_def)
  qed
qed

text \<open>a WebSocket relay passes on, in both directions, exactly the messages of the client and of the sandbox, each once and
  in order, up to the first event that ends one of its loops; it is open as long as there was none. An empty
  message of the client is such an event.\<close>

theorem relay_passes_messages_on:
  shows "\<exists>r v. relay_loop (\<lambda>t. touch_activity t sid) evs relay_start w = (Inr r, v) \<and>
      rl_to_upstream r = concat (map up_messages (live_events evs)) \<and>
      rl_to_client r = concat (map down_messages (live_events evs)) \<and>
      rl_open r = list_all (\<lambda>(t, ev). \<not> ends_relay ev) evs"
  using relay_loop_result [of relay_start sid evs w] by (auto simp: relay_start_def list_all_iff)

subsection \<open>A live connection is not idle\<close>

fun last_touch :: "time \<Rightarrow> (time \<times> ws_event) list \<Rightarrow> time" where
  "last_touch t [] = t"
| "last_touch t ((t', ev) # evs) = last_touch (if ev = Tick then t' else t) evs"

lemma touched_row:
  assumes "s \<in> set (sandboxes (touched t sid w))" and "sb_id s = sid"
  shows "sb_gmt_last_active s = Some t"
  using assms unfolding touched_def store_rows_def by (simp add: set_update_where) (elim imageE, simp)

lemma relay_loop_touches:
  assumes "rl_open r0" and "\<forall>(t, ev) \<in> set evs. \<not> ends_relay ev"
    and "\<And>s. s \<in> set (sandboxes w) \<Longrightarrow> sb_id s = sid \<Longrightarrow> sb_gmt_last_active s = Some t0"
    and "relay_loop (\<lambda>t. touch_activity t sid) evs r0 w = (Inr r, v)"
    and "s \<in> set (sandboxes v)" "sb_id s = sid"
  shows "sb_gmt_last_active s = Some (last_touch t0 evs)"
  using assms
proof (induction evs arbitrary: r0 w t0)
  case Nil
  then show ?case by simp
next
  case (Cons e evs)
  obtain t ev where e: "e = (t, ev)" by force
  let ?r = "relay_message ev r0"
  have live: "\<not> ends_relay ev" using Cons.prems(2) by (simp add: e)
  then have op: "rl_open ?r" using Cons.prems(1) by (simp add: relay_message_live)
  define w1 where "w1 = (if ev = Tick then touched t sid w else w)"
  have run: "relay_loop (\<lambda>t. touch_activity t sid) evs ?r w1 = (Inr r, v)"
    using Cons.prems(4) op by (simp add: e Let_def w1_def split: if_splits)
  have "sb_gmt_last_active s = Some (last_touch (if ev = Tick then t else t0) evs)"
  proof (rule Cons.IH [OF op _ _ run Cons.prems(5,6)])
    show "\<forall>(t, ev) \<in> set evs. \<not> ends_relay ev" using Cons.prems(2) by auto
    show "sb_gmt_last_active s' = Some (if ev = Tick then t else t0)" if "s' \<in> set (sandboxes w1)" "sb_id s' = sid" for s'
      using that Cons.prems(3) touched_row [of s' t sid w] by (cases "ev = Tick") (simp_all add: w1_def)
  qed
  then show ?case by (simp add: e)
qed

text \<open>C38: while a WebSocket connection is open, and the timer that refreshes the activity fires within thirty seconds of when it
  is due, the sandbox is never stopped as idle, whatever its auto-stop interval: the idle check of the lifecycle task
  does nothing for it.\<close>

theorem live_connection_prevents_idle_stop:
  assumes run: "ws_proxy lib cfg web ws_upstream t0 rq sid path w = (Inr (WsRelayed url r), v)"
    and "ws_upstream url = Inr evs" and "rl_open r"
    and timer: "utc_ts now - last_touch t0 evs \<le> seconds WS_ACTIVITY_TOUCH_INTERVAL + delay" "delay \<le> seconds 30"
    and s: "s \<in> set (sandboxes v)" "sb_id s = sid" and interval: "1 \<le> sb_auto_stop_interval s"
  shows "check_idle_one now ck cb s v = (Inr (), v)"
proof -
  obtain w0 where loop: "relay_loop (\<lambda>t. touch_activity t sid) evs relay_start (touched t0 sid w0) = (Inr r, v)"
    using run assms(2)
    by (auto simp: ws_proxy_def proxy_websocket_def Let_def try_catch_def ebind_def split: prod.splits sum.splits if_splits)
  then have live: "\<forall>(t, ev) \<in> set evs. \<not> ends_relay ev"
    using relay_loop_result [of relay_start sid evs "touched t0 sid w0"] \<open>rl_open r\<close> by (auto simp: relay_start_def)
  have "sb_gmt_last_active s = Some (last_touch t0 evs)"
    by (rule relay_loop_touches [OF _ live _ loop s])
       (simp_all add: relay_start_def touched_row)
  then have "idle_for (utc_ts now) s \<le> seconds 60"
    using timer by (simp add: idle_for_def WS_ACTIVITY_TOUCH_INTERVAL_def seconds_def)
  moreover have "seconds 60 \<le> seconds (sb_auto_stop_interval s * 60)"
    using interval by (simp add: seconds_def)
  ultimately have "idle_for (utc_ts now) s \<le> 1000000 * (sb_auto_stop_interval s * 60)"
    by (simp add: seconds_def)
  then have "of_int (idle_for (utc_ts now) s) \<le> (1000000 * of_int (sb_auto_stop_interval s * 60) :: rat)"
    by (metis of_int_le_iff of_int_mult of_int_numeral)
  then show ?thesis by (simp add: check_idle_one_def total_seconds_def)
qed


subsection \<open>A concrete proxy\<close>

definition demo_web :: web_settings where
  "demo_web = \<lparr>app_base_url = ''https://api.x.io'', debug = False, email_backend = ''log'', session_ttl_seconds = 3600,
     google_oauth_client_id = ''g'', google_oauth_client_secret = ''s'', github_oauth_client_id = '''',
     github_oauth_client_secret = '''', verification_resend_cooldown_seconds = 60,
     password_reset_request_cooldown_seconds = 60, password_reset_ip_hourly_limit = 5, sandbox_port = 8080,
     sandbox_domain = ''box.io'', sandbox_subdomain_prefix = ''sandbox-''\<rparr>"

definition demo_proxied :: settings where
  "demo_proxied = \<lparr>sandbox_namespace = ''treadstone'', sandbox_storage_class = ''workspace'',
     sandbox_volume_snapshot_class = ''snapshots'', sandbox_default_storage_size = ''5Gi'', metering_enforcement_enabled = True\<rparr>"

definition demo_box :: sandbox where
  "demo_box = demo_sandbox\<lparr>sb_id := ''sb1'', sb_owner_id := ''u1'', sb_status := READY, sb_gmt_deleted := None,
     sb_auto_stop_interval := 1\<rparr>"

definition demo_ws_request :: request where
  "demo_ws_request = demo_request\<lparr>rq_headers := [(''authorization'', ''Bearer sk-one'')]\<rparr>"

definition demo_proxy_world :: world where
  "demo_proxy_world = demo_identity\<lparr>sandboxes := [demo_box]\<rparr>"

lemmas demo_proxy_defs = demo_web_def demo_proxied_def demo_box_def demo_sandbox_def demo_ws_request_def demo_proxy_world_def

lemma demo_proxy_inv: "identity_inv demo_proxy_world" "distinct (map sb_id (sandboxes demo_proxy_world))"
  using demo_identity_inv by (simp_all add: demo_proxy_world_def demo_box_def)

lemma demo_ws_secret: "ws_secret demo_ws_request = Some ''sk-one''"
  by code_simp

lemma demo_target: "proxy_target demo_lib 0 demo_proxy_world ''sk-one'' ''sb1'' demo_box"
proof -
  have "key_valid demo_lib 0 demo_proxy_world ''sk-one'' (demo_key ''k1'' ''sk-one'' ''u1'') (demo_user ''u1'' ADMIN)"
    "data_plane_allowed demo_proxy_world (demo_key ''k1'' ''sk-one'' ''u1'') ''sb1''"
    by (simp_all add: key_valid_def is_expired_def data_plane_allowed_def demo_proxy_world_def demo_identity_defs)
  moreover have "sb_owner_id demo_box = us_id (demo_user ''u1'' ADMIN)" by (simp add: demo_box_def demo_user_def)
  ultimately show ?thesis
    unfolding proxy_target_def by (auto simp: demo_proxy_world_def demo_box_def intro!: exI)
qed

theorem proxies_admit_alike_witness:
  "\<exists>req resp. fst (http_proxy demo_lib demo_proxied demo_web (\<lambda>_. Inr \<lparr>ps_status = 200, ps_headers = []\<rparr>) 0 (Some ''sk-one'')
     None demo_ws_request '''' ''sb1'' ''mcp'' demo_proxy_world) = Inr (req, resp)"
proof -
  have "\<exists>s. proxy_target demo_lib 0 demo_proxy_world ''sk-one'' ''sb1'' s" using demo_target by blast
  then show ?thesis
    using proxies_admit_alike [OF demo_proxy_inv, of "''sb1''" "''sk-one''" demo_ws_request
        "\<lambda>_. Inr \<lparr>ps_status = 200, ps_headers = []\<rparr>" "\<lambda>_. Inr []" demo_lib 0 demo_proxied demo_web None "''''" "''mcp''"]
    by (simp add: demo_ws_secret startswith_def) blast
qed

definition demo_events :: "(time \<times> ws_event) list" where
  "demo_events = [(1000000, ClientText ''hello''), (30000000, Tick), (31000000, UpstreamText ''hi'')]"

lemma demo_ws_run:
  "\<exists>url r v s. ws_proxy demo_lib demo_proxied demo_web (\<lambda>_. Inr demo_events) 0 demo_ws_request ''sb1'' ''mcp'' demo_proxy_world =
     (Inr (WsRelayed url r), v) \<and> rl_open r \<and> sandboxes v = [s] \<and> sb_id s = ''sb1'' \<and> sb_auto_stop_interval s = 1"
proof -
  obtain u where "ws_admit demo_lib 0 demo_ws_request ''sb1'' demo_proxy_world = (Inr (Inr (u, demo_box)), demo_proxy_world)"
  proof (rule proxy_decision [OF demo_proxy_inv, of "''sb1''" "''sk-one''" demo_ws_request demo_lib 0 None])
    fix u rq' s
    assume "proxy_target demo_lib 0 demo_proxy_world ''sk-one'' ''sb1'' s"
      "ws_admit demo_lib 0 demo_ws_request ''sb1'' demo_proxy_world = (Inr (Inr (u, s)), demo_proxy_world)"
    moreover from this(1) have "s = demo_box" by (simp add: proxy_target_def demo_proxy_world_def)
    ultimately show thesis using that by blast
  next
    assume "\<nexists>s. proxy_target demo_lib 0 demo_proxy_world ''sk-one'' ''sb1'' s"
    with demo_target show thesis by blast
  qed (simp_all add: demo_ws_secret startswith_def)
  then show ?thesis
    by (simp add: ws_proxy_def proxy_websocket_def Let_def demo_events_def relay_message_def relay_start_def try_catch_def
        touched_def store_rows_def demo_proxy_world_def demo_box_def)
qed

theorem live_connection_prevents_idle_stop_witness:
  "\<exists>s v. sb_id s = ''sb1'' \<and> s \<in> set (sandboxes v) \<and>
     check_idle_one \<lparr>dt_year = 1970, dt_month = 1, dt_day = 1, dt_hour = 0, dt_minute = 1, dt_second = 20, dt_microsecond = 0\<rparr> (\<lambda>_. (80000000, demo_now)) None s v = (Inr (), v)"
proof -
  let ?now = "\<lparr>dt_year = 1970, dt_month = 1, dt_day = 1, dt_hour = 0, dt_minute = 1, dt_second = 20, dt_microsecond = 0\<rparr>"
  obtain url r v s where run: "ws_proxy demo_lib demo_proxied demo_web (\<lambda>_. Inr demo_events) 0 demo_ws_request ''sb1'' ''mcp'' demo_proxy_world =
     (Inr (WsRelayed url r), v)" and "rl_open r" and s: "sandboxes v = [s]" "sb_id s = ''sb1''" "sb_auto_stop_interval s = 1"
    using demo_ws_run by blast
  have now: "utc_ts ?now = 80000000" by code_simp
  have "check_idle_one ?now (\<lambda>_. (80000000, demo_now)) None s v = (Inr (), v)"
    by (rule live_connection_prevents_idle_stop [OF run _ \<open>rl_open r\<close>, where evs = demo_events and delay = "20000000"])
       (simp_all add: s now demo_events_def seconds_def WS_ACTIVITY_TOUCH_INTERVAL_def)
  moreover have "s \<in> set (sandboxes v)" using s by simp
  ultimately show ?thesis using s(2) by blast
qed

end
