(* ===== verification/Tenant_Safety.thy ===== *)
theory Tenant_Safety
  imports Sandbox_Api Service_Create Proxy_Safety
begin

text \<open>
  Tenants are isolated: the sandbox endpoints of one user neither change nor show the sandboxes and web links of another,
  and a user whose email is not verified creates nothing.

  \<open>tenants u F L\<close> says that the rows of the other users are \<open>F\<close> and their links are \<open>L\<close>. Every operation keeps it, because the
  row it loads belongs to \<open>u\<close> and its id to no row of \<open>F\<close>.
\<close>

subsection \<open>The rows of other users\<close>

definition others :: "string \<Rightarrow> world \<Rightarrow> sandbox list" where
  "others u w = filter (\<lambda>s. sb_owner_id s \<noteq> u) (sandboxes w)"

definition links_of :: "sandbox list \<Rightarrow> world \<Rightarrow> web_link list" where
  "links_of F w = filter (\<lambda>l. wl_sandbox_id l \<in> sb_id ` set F) (web_links w)"

definition tenants :: "string \<Rightarrow> sandbox list \<Rightarrow> web_link list \<Rightarrow> world \<Rightarrow> bool" where
  "tenants u F L w \<longleftrightarrow> distinct (map sb_id (sandboxes w)) \<and> distinct (map wl_id (web_links w)) \<and>
     others u w = F \<and> links_of F w = L"

lemma tenants_frame [simp]:
  "tenants u F L (w\<lparr>k8s_log := l\<rparr>) = tenants u F L w" "tenants u F L (w\<lparr>storage_ledgers := x\<rparr>) = tenants u F L w"
  "tenants u F L (w\<lparr>compute_sessions := y\<rparr>) = tenants u F L w" "tenants u F L (w\<lparr>ids_drawn := i\<rparr>) = tenants u F L w"
  "tenants u F L (w\<lparr>user_plans := ps\<rparr>) = tenants u F L w" "tenants u F L (w\<lparr>compute_grants := gs\<rparr>) = tenants u F L w"
  "tenants u F L (w\<lparr>audit_events := a\<rparr>) = tenants u F L w" "tenants u F L (w\<lparr>outbox := m\<rparr>) = tenants u F L w"
  "tenants u F L (w\<lparr>template_specs_cache := c\<rparr>) = tenants u F L w" "tenants u F L (store_rows w) = tenants u F L w"
  by (simp_all add: tenants_def others_def links_of_def store_rows_def)

lemma row_property_tenants [simp]: "row_property (tenants u F L)"
  by (simp add: row_property_def)

lemma keeps_tenants_basic:
  "keeps (tenants u F L) commit" "keeps (tenants u F L) (draw_id p)" "keeps (tenants u F L) (k8s_command cl c)"
  "keeps (tenants u F L) (audit_request rq a t i r e m)"
  by (simp add: keeps_def commit_def)
     (rule keeps_intros, simp)+

lemma keeps_rollback_to: "row_property P \<Longrightarrow> P b \<Longrightarrow> keeps P (rollback_to b)"
  by (simp add: keeps_def rollback_to_def row_propertyD)

lemma keeps_gets_id: "(\<And>b. P b \<Longrightarrow> keeps P (f b)) \<Longrightarrow> keeps P (ebind (gets id) f)"
  by (simp add: keeps_def)

subsection \<open>The loaded row\<close>

text \<open>The id of a row that belongs to no other user.\<close>

abbreviation own :: "sandbox list \<Rightarrow> string \<Rightarrow> bool" where
  "own F sid \<equiv> sid \<notin> sb_id ` set F"

lemma tenants_own:
  assumes "tenants u F L w" "s \<in> set (sandboxes w)" "sb_owner_id s = u"
  shows "own F (sb_id s)"
  using assms by (auto simp: tenants_def others_def distinct_map dest: inj_onD)

lemma keeps_get_own:
  assumes "keeps (tenants u F L) (f None)"
    and "\<And>s. sb_id s = sid \<Longrightarrow> own F sid \<Longrightarrow> keeps (tenants u F L) (f (Some s))"
  shows "keeps (tenants u F L) (ebind (get_sandbox sid u) f)"
proof (rule keepsI)
  fix w
  assume w: "tenants u F L w"
  show "tenants u F L (snd (ebind (get_sandbox sid u) f w))"
  proof (rule get_sandbox_cases [of w sid u])
    show "distinct (map sb_id (sandboxes w))" using w by (simp add: tenants_def)
  next
    fix s
    assume s: "get_sandbox sid u w = (Inr (Some s), w)" "s \<in> set (sandboxes w)" "sb_id s = sid" "sb_owner_id s = u"
    then have "own F sid" using tenants_own [OF w s(2)] by blast
    then show ?thesis using s(1,3) w keepsD [OF assms(2)] by (simp add: ebind_def)
  next
    assume "get_sandbox sid u w = (Inr None, w)"
    then show ?thesis using w keepsD [OF assms(1)] by (simp add: ebind_def)
  qed
qed

lemma keeps_need_own:
  assumes "\<And>s. sb_id s = sid \<Longrightarrow> own F sid \<Longrightarrow> keeps (tenants u F L) (f s)"
  shows "keeps (tenants u F L) (ebind (need_sandbox sid u) f)"
  unfolding need_sandbox_def ebind_assoc
  by (rule keeps_get_own) (auto simp: raise_def ret_def intro: assms)

lemma keeps_assign_own:
  assumes "own F (sb_id s)" "\<And>r. sb_id (f r) = sb_id r" "\<And>r. sb_owner_id (f r) = sb_owner_id r"
  shows "keeps (tenants u F L) (assign s f)"
proof (rule keepsI)
  fix w
  assume w: "tenants u F L w"
  let ?rs = "update_where (\<lambda>r. sb_id r = sb_id s) f (sandboxes w)"
  have "filter (\<lambda>r. sb_owner_id r \<noteq> u) ?rs = update_where (\<lambda>r. sb_id r = sb_id s) f (others u w)"
    unfolding others_def by (rule filter_update_where) (simp add: assms(3))
  also have "\<dots> = others u w"
    using assms(1) w by (intro update_where_id) (metis image_eqI tenants_def)
  finally have "filter (\<lambda>r. sb_owner_id r \<noteq> u) ?rs = F" using w by (simp add: tenants_def)
  moreover have "map sb_id ?rs = map sb_id (sandboxes w)" by (rule map_update_where) (simp add: assms(2))
  ultimately show "tenants u F L (snd (assign s f w))"
    using w by (simp add: assign_def set_sandbox_def tenants_def others_def links_of_def)
qed

lemma keeps_links_own:
  assumes "\<And>l. p l \<Longrightarrow> wl_sandbox_id l = sid" "own F sid" "\<And>l. wl_sandbox_id (f l) = wl_sandbox_id l"
    "\<And>l. wl_id (f l) = wl_id l"
  shows "keeps (tenants u F L) (modify (\<lambda>w. w\<lparr>web_links := update_where p f (web_links w)\<rparr>))"
proof (rule keepsI)
  fix w
  assume w: "tenants u F L w"
  have "filter (\<lambda>l. wl_sandbox_id l \<in> sb_id ` set F) (update_where p f (web_links w)) = update_where p f (links_of F w)"
    unfolding links_of_def by (rule filter_update_where) (simp add: assms(3))
  also have "\<dots> = links_of F w" using assms(1,2) by (intro update_where_id) (auto simp: links_of_def)
  finally show "tenants u F L (snd (modify (\<lambda>w. w\<lparr>web_links := update_where p f (web_links w)\<rparr>) w))"
    using w by (simp add: tenants_def others_def links_of_def map_update_where assms(4))
qed

lemma keeps_mark_own: "own F (sb_id s) \<Longrightarrow> keeps (tenants u F L) (mark_error s m)"
  unfolding mark_error_def by (intro keeps_intros keeps_assign_own keeps_tenants_basic) auto

lemma keeps_metering_tenants:
  "keeps (tenants u F L) (close_compute_session now sid)" "keeps (tenants u F L) (record_storage_release t sid)"
  "keeps (tenants u F L) (record_storage_allocation t uid sid gib mode)"
  unfolding close_compute_session_def record_storage_release_def record_storage_allocation_def calculate_cu_rate_def
    set_session_def set_ledger_def Let_def
  by (intro keeps_intros; simp)+

lemma keeps_close_own: "keeps (tenants u F L) (close_session_best_effort now s)"
  unfolding close_session_best_effort_def
  by (rule keeps_gets_id, intro keeps_intros keeps_rollback_to keeps_metering_tenants keeps_tenants_basic) simp_all

subsection \<open>The operations of the service\<close>

lemma keeps_stop_own: "keeps (tenants u F L) (stop mt cl now sid u)"
  unfolding stop_def
  by (rule keeps_need_own)
     (intro keeps_intros keeps_assign_own keeps_mark_own keeps_close_own keeps_tenants_basic; simp)

lemma keeps_snapshot_own: "keeps (tenants u F L) (snapshot cfg mt cl now sid u)"
  unfolding snapshot_def
  by (rule keeps_need_own)
     (intro keeps_intros keeps_stop_own keeps_snapshot_backend keeps_assign_own keeps_tenants_basic; simp)

lemma keeps_ready_own: "own F sid \<Longrightarrow> keeps (tenants u F L) (apply_ready_now cl t s sid u)"
  unfolding apply_ready_now_def Let_def
  by (intro keeps_intros keeps_get_own keeps_assign_own keeps_tenants_basic; simp)

lemma keeps_start_own: "keeps (tenants u F L) (start cfg mt cl now sid u)"
  unfolding start_def resume_k8s_def
  by (rule keeps_need_own)
     (intro keeps_intros keeps_checks keeps_snapshot_backend keeps_assign_own keeps_mark_own keeps_ready_own keeps_tenants_basic; simp)

lemma keeps_update_own: "keeps (tenants u F L) (update cfg mt now sid u p)"
  unfolding update_def
  by (rule keeps_if, rule keeps_raise, rule keeps_gets_id, rule keeps_need_own)
     (intro keeps_intros keeps_checks keeps_assign_own keeps_rollback_to keeps_tenants_basic; simp add: apply_patch_def)

lemma keeps_delete_own: "keeps (tenants u F L) (delete mt cl t sid u)"
  unfolding delete_def drop_web_link_def delete_cold_def delete_live_def delete_k8s_resource_def
  by (rule keeps_need_own)
     (intro keeps_intros keeps_assign_own keeps_mark_own keeps_links_own [of _ sid] keeps_metering_tenants keeps_tenants_basic;
      simp add: clear_snapshot_binding_def)


lemma tenants_new:
  assumes "tenants u F L w" "sb_owner_id s = u" "\<not> list_ex (\<lambda>r. sb_id r = sb_id s) (sandboxes w)"
  shows "tenants u F L (w\<lparr>sandboxes := sandboxes w @ [s]\<rparr>)" and "own F (sb_id s)"
  using assms by (auto simp: tenants_def others_def links_of_def list_ex_iff)

lemma keeps_persist_own:
  assumes "tenants u F L base" "\<And>s. own F (sb_id s) \<Longrightarrow> keeps (tenants u F L) (f s)"
  shows "keeps (tenants u F L) (ebind (persist_sandbox base cfg now u tpl params ls a d persist) f)"
proof (rule keeps_valid, rule valid_ebind)
  show "valid (tenants u F L) (persist_sandbox base cfg now u tpl params ls a d persist)
      (\<lambda>s w. own F (sb_id s) \<and> tenants u F L w) (tenants u F L)"
    unfolding valid_def
  proof (intro allI impI)
    fix w
    assume w: "tenants u F L w"
    define sid where "sid = ''sb'' @ id_source w (ids_drawn w)"
    define s where "s = new_sandbox cfg now sid u tpl params ls a d persist"
    let ?w = "w\<lparr>ids_drawn := Suc (ids_drawn w)\<rparr>"
    have s: "sb_id s = sid" "sb_owner_id s = u" by (simp_all add: s_def new_sandbox_def)
    have run: "persist_sandbox base cfg now u tpl params ls a d persist w =
        (if name_taken u (sb_name s) sid ?w \<or> list_ex (\<lambda>r. sb_id r = sid) (sandboxes w)
         then (Inl (SandboxNameConflictError (cp_sandbox_name params)), rollback_rows base ?w)
         else (Inr s, store_rows (?w\<lparr>sandboxes := sandboxes w @ [s]\<rparr>)))"
      by (simp add: persist_sandbox_def draw_id_run Let_def sid_def s_def rollback_to_def commit_def)
    show "case persist_sandbox base cfg now u tpl params ls a d persist w of (Inl e, x) \<Rightarrow> tenants u F L x
        | (Inr s, x) \<Rightarrow> own F (sb_id s) \<and> tenants u F L x"
      unfolding run using tenants_new [of u F L ?w s] w s row_propertyD [OF row_property_tenants assms(1)] by simp
  qed
  show "valid (\<lambda>w. own F (sb_id s) \<and> tenants u F L w) (f s) (\<lambda>_. tenants u F L) (tenants u F L)" for s
    by (rule valid_assume) (rule valid_keeps [OF assms(2)])
qed

lemma keeps_withdraw_own:
  assumes "own F (sb_id s)"
  shows "keeps (tenants u F L) (modify (\<lambda>w. w\<lparr>sandboxes := filter (\<lambda>r. sb_id r \<noteq> sb_id s) (sandboxes w)\<rparr>))"
proof (rule keeps_modify)
  fix w
  assume w: "tenants u F L w"
  have "filter (\<lambda>r. sb_owner_id r \<noteq> u) (filter (\<lambda>r. sb_id r \<noteq> sb_id s) (sandboxes w)) =
      filter (\<lambda>r. sb_id r \<noteq> sb_id s) (others u w)"
    by (simp add: others_def conj_commute)
  also have "\<dots> = others u w"
    using assms w by (intro filter_True) (metis image_eqI tenants_def)
  finally show "tenants u F L (w\<lparr>sandboxes := filter (\<lambda>r. sb_id r \<noteq> sb_id s) (sandboxes w)\<rparr>)"
    using w by (simp add: tenants_def others_def links_of_def distinct_map_filter)
qed

lemma keeps_catch_template:
  "(\<And>t. keeps P (f t)) \<Longrightarrow> keeps P g \<Longrightarrow> keeps P (case e of TemplateNotFoundError t \<Rightarrow> f t | _ \<Rightarrow> g)"
  by (cases e) auto

lemma keeps_this_own: "(\<And>r. sb_id r = sb_id s \<Longrightarrow> keeps P (f r)) \<Longrightarrow> keeps P (ebind (this s) f)"
  by (auto simp: keeps_def this_row_def find_Some_iff split: option.splits)

lemma keeps_create_then:
  assumes "\<And>s. own F (sb_id s) \<Longrightarrow> keeps (tenants u F L) (f s)"
  shows "keeps (tenants u F L) (ebind (create cfg mt cl g now u tpl n ls a d persist z) f)"
  unfolding create_def provision_k8s_def create_direct_def create_via_claim_def record_metering_def resolve_template_def
    validate_create_def check_storage_size_def ensure_persistent_storage_backend_ready_def Let_def ebind_assoc
  by (rule keeps_gets_id, (rule keeps_ebind)+)
     (intro keeps_persist_own keeps_this_own assms keeps_intros keeps_checks keeps_catch_template keeps_withdraw_own keeps_mark_own
        keeps_metering_tenants keeps_tenants_basic; simp add: assms)+

subsection \<open>Web links\<close>

lemma distinct_replace: "distinct xs \<Longrightarrow> b \<notin> set xs \<Longrightarrow> distinct (map (\<lambda>x. if x = a then b else x) xs)"
  by (induction xs) auto

text \<open>A link of an own sandbox that the operation loaded from the table.\<close>

definition own_link :: "string \<Rightarrow> web_link \<Rightarrow> world \<Rightarrow> bool" where
  "own_link sid l w \<longleftrightarrow> l \<in> set (web_links w) \<and> wl_sandbox_id l = sid"

lemma own_link_rows:
  assumes "tenants u F L w" "own_link sid l w" "own F sid" "k \<in> set (links_of F w)"
  shows "wl_id k \<noteq> wl_id l"
  using assms by (auto simp: tenants_def links_of_def own_link_def distinct_map dest: inj_onD)

lemma tenants_change_link:
  assumes "tenants u F L w" "own_link sid l w" "own F sid" "\<And>k. wl_sandbox_id (f k) = wl_sandbox_id k"
    and "(\<forall>k. wl_id (f k) = wl_id k) \<or> (\<exists>i. i \<notin> set (map wl_id (web_links w)) \<and> (\<forall>k. wl_id (f k) = i))"
  shows "tenants u F L (w\<lparr>web_links := update_where (\<lambda>k. wl_id k = wl_id l) f (web_links w)\<rparr>)"
proof -
  let ?ls = "update_where (\<lambda>k. wl_id k = wl_id l) f (web_links w)"
  have "filter (\<lambda>k. wl_sandbox_id k \<in> sb_id ` set F) ?ls = update_where (\<lambda>k. wl_id k = wl_id l) f (links_of F w)"
    unfolding links_of_def by (rule filter_update_where) (simp add: assms(4))
  also have "\<dots> = links_of F w" using own_link_rows [OF assms(1-3)] by (intro update_where_id) auto
  finally have links: "filter (\<lambda>k. wl_sandbox_id k \<in> sb_id ` set F) ?ls = L" using assms(1) by (simp add: tenants_def)
  have "distinct (map wl_id ?ls)"
    using assms(5)
  proof
    assume "\<forall>k. wl_id (f k) = wl_id k"
    then show ?thesis using assms(1) by (simp add: map_update_where tenants_def)
  next
    assume "\<exists>i. i \<notin> set (map wl_id (web_links w)) \<and> (\<forall>k. wl_id (f k) = i)"
    then obtain i where i: "i \<notin> set (map wl_id (web_links w))" "\<And>k. wl_id (f k) = i" by blast
    have "map wl_id ?ls = map (\<lambda>x. if x = wl_id l then i else x) (map wl_id (web_links w))"
      by (simp add: update_where_def i(2) cong: if_cong)
    then show ?thesis using distinct_replace [OF _ i(1)] assms(1) by (simp add: tenants_def del: map_map)
  qed
  then show ?thesis using links assms(1) by (simp add: tenants_def others_def links_of_def)
qed

lemma tenants_add_link:
  assumes "tenants u F L w" "own F (wl_sandbox_id l)" "wl_id l \<notin> set (map wl_id (web_links w))"
  shows "tenants u F L (w\<lparr>web_links := web_links w @ [l]\<rparr>)"
  using assms by (auto simp: tenants_def others_def links_of_def)

lemma tenants_upsert:
  assumes w: "tenants u F L w" and own: "own F (sb_id s)" and old: "\<And>l. ex = Some l \<Longrightarrow> own_link (sb_id s) l w"
  shows "tenants u F L (snd (upsert_web_link now s uid ex w))"
proof -
  let ?q = "\<lambda>w. filter (\<lambda>l. wl_sandbox_id l = sb_id s) (web_links w)"
  let ?w = "w\<lparr>ids_drawn := Suc (ids_drawn w)\<rparr>"
  have w': "tenants u F L ?w" using w by simp
  have load: "(case ex of Some l \<Rightarrow> ret (Some l) | None \<Rightarrow> select_one_or_none ?q) w = (r, v) \<Longrightarrow>
      v = w \<and> (\<forall>l. r = Inr (Some l) \<longrightarrow> own_link (sb_id s) l w)" for r v
    using old by (auto simp: select_one_or_none_def ret_def own_link_def scalar_one_or_none_Some
        split: option.splits sum.splits dest: filter_singleD)
  obtain r where r: "(case ex of Some l \<Rightarrow> ret (Some l) | None \<Rightarrow> select_one_or_none ?q) w = (r, w)"
    using load by (metis surj_pair)
  show ?thesis
  proof (cases r)
    case (Inl e)
    with r w show ?thesis by (simp add: upsert_web_link_def ebind_def)
  next
    case (Inr link)
    define i where "i = ''swl'' @ id_source w (ids_drawn w)"
    show ?thesis
    proof (cases "i \<in> set (map wl_id (web_links w))")
      case True
      with Inr r w' show ?thesis
        by (simp add: upsert_web_link_def ebind_def build_open_link_token_def draw_id_run i_def Let_def)
    next
      case False
      show ?thesis
      proof (cases link)
        case None
        with False Inr r show ?thesis
          using tenants_add_link [OF w'] own
          by (simp add: upsert_web_link_def ebind_def build_open_link_token_def draw_id_run i_def Let_def)
      next
        case (Some l)
        then have l: "own_link (sb_id s) l ?w" using load [OF r] Inr by (simp add: own_link_def)
        have "tenants u F L (?w\<lparr>web_links := update_where (\<lambda>k. wl_id k = wl_id l)
            (\<lambda>l. l\<lparr>wl_id := i, wl_created_by_user_id := uid, wl_gmt_expires := None, wl_gmt_last_used := None,
                wl_gmt_updated := now, wl_gmt_deleted := None\<rparr>) (web_links ?w)\<rparr>)"
          by (rule tenants_change_link [OF w' l own]) (use False in auto)
        with False Inr r Some show ?thesis
          by (simp add: upsert_web_link_def ebind_def build_open_link_token_def draw_id_run i_def Let_def)
      qed
    qed
  qed
qed

lemma keeps_publish_own: "own F (sb_id s) \<Longrightarrow> keeps (tenants u F L) (publish_web_link web t rq s uid)"
proof -
  assume "own F (sb_id s)"
  then have "keeps (tenants u F L) (upsert_web_link t s uid None)" by (auto intro!: keepsI tenants_upsert)
  then show ?thesis unfolding publish_web_link_def by (intro keeps_intros keeps_tenants_basic)
qed


subsection \<open>The endpoints\<close>

lemma keeps_reads:
  "keeps P (owned_sandbox_with_web_link_row sid u)" "keeps P (owned_sandbox_with_active_web_link now sid u)"
  "keeps P (api_active_web_link now sid)" "keeps P (load_active_web_links now sids)"
  "keeps P (detail_response lib web now rq s)" "keeps P (get_sandbox sid u)"
  unfolding get_sandbox_def owned_sandbox_with_web_link_row_def owned_sandbox_with_active_web_link_def api_active_web_link_def
    load_active_web_links_def detail_response_def
  by (intro keeps_intros)+

text \<open>The joined row belongs to the user and carries a link of its own.\<close>

lemma link_rows_own:
  assumes "tenants u F L w" "(s, link) \<in> set (sandbox_link_rows sid u w)"
  shows "sb_id s = sid" "own F sid" "\<And>l. link = Some l \<Longrightarrow> own_link sid l w"
proof -
  let ?ls = "filter (\<lambda>l. wl_sandbox_id l = sid \<and> wl_gmt_deleted l = None) (web_links w)"
  have row: "s \<in> set (sandboxes w) \<and> sb_id s = sid \<and> sb_owner_id s = u \<and>
      (s, link) \<in> set (case ?ls of [] \<Rightarrow> [(s, None)] | ls \<Rightarrow> map (\<lambda>l. (s, Some l)) ls)"
    using assms(2) unfolding sandbox_link_rows_def by (cases ?ls) (auto cong: list.case_cong)
  have s: "s \<in> set (sandboxes w)" "sb_id s = sid" "sb_owner_id s = u" using row by auto
  have "l \<in> set ?ls" if "link = Some l" for l using row that by (cases ?ls) auto
  then have "\<And>l. link = Some l \<Longrightarrow> l \<in> set (web_links w) \<and> wl_sandbox_id l = sid" by auto
  with s show "sb_id s = sid" "own F sid" "\<And>l. link = Some l \<Longrightarrow> own_link sid l w"
    using tenants_own [OF assms(1) s(1)] by (auto simp: own_link_def)
qed

lemma owned_row_cases:
  assumes "tenants u F L w"
  obtains e where "owned_sandbox_with_web_link_row sid u w = (Inl e, w)"
    | "owned_sandbox_with_web_link_row sid u w = (Inr None, w)"
    | s link where "owned_sandbox_with_web_link_row sid u w = (Inr (Some (s, link)), w)"
        "sb_id s = sid" "own F sid" "\<And>l. link = Some l \<Longrightarrow> own_link sid l w"
proof -
  show thesis
  proof (cases "scalar_one_or_none (sandbox_link_rows sid u w)")
    case (Inl e)
    then show ?thesis using that(1) by (simp add: owned_sandbox_with_web_link_row_def select_one_or_none_def)
  next
    case (Inr r)
    then have run: "owned_sandbox_with_web_link_row sid u w = (Inr r, w)"
      by (simp add: owned_sandbox_with_web_link_row_def select_one_or_none_def)
    show ?thesis
    proof (cases r)
      case None
      with run show ?thesis using that(2) by simp
    next
      case (Some x)
      obtain s link where x: "x = (s, link)" by force
      have "(s, link) \<in> set (sandbox_link_rows sid u w)" using Inr Some x by (simp add: scalar_one_or_none_Some)
      note own = link_rows_own [OF assms this]
      show ?thesis by (rule that(3) [OF _ own]) (use run Some x in auto)
    qed
  qed
qed

lemma keeps_web_link_handlers:
  "keeps (tenants (us_id u) F L) (create_sandbox_web_link lib web now u rq sid)"
  "keeps (tenants (us_id u) F L) (delete_sandbox_web_link now u rq sid)"
proof -
  let ?P = "tenants (us_id u) F L"
  show "keeps ?P (create_sandbox_web_link lib web now u rq sid)"
  proof (rule keepsI)
    fix w
    assume w: "?P w"
    from owned_row_cases [OF w, of sid]
    show "?P (snd (create_sandbox_web_link lib web now u rq sid w))"
    proof cases
      case (3 s link)
      define rq' where "rq' = set_scope_context [(''sandbox_id'', Some (sb_id s))] rq"
      define m where "m = transaction (ebind (upsert_web_link now s (us_id u) link) (\<lambda>l.
          ebind (audit_success rq' ''sandbox.web_link.create'' ''sandbox'' (Some (sb_id s))
            [(''issued_via'', MStr ''open_link''), (''auto_created'', MBool False)]) (\<lambda>_. ebind commit (\<lambda>_. ret l))))"
      have up: "?P (snd (upsert_web_link now s (us_id u) link w))"
        using 3 w by (intro tenants_upsert) auto
      then have m: "?P (snd (m w))"
        unfolding m_def transaction_def ebind_def
        using w row_propertyD [OF row_property_tenants] by (auto simp: audit_request_run commit_def split: prod.splits sum.splits)
      have ret: "snd (ebind m (\<lambda>l. ret (f l)) w) = snd (m w)" for f :: "web_link \<Rightarrow> link_view"
        by (simp add: ebind_def split: prod.split sum.split)
      have run: "create_sandbox_web_link lib web now u rq sid w =
          ebind (of_sum (public_control_plane_base_url lib web rq')) (\<lambda>base_url.
          ebind (of_sum (get_web_url lib web s base_url)) (\<lambda>web_url.
          ebind (case normalize_active_web_link now link of Some l \<Rightarrow> ret l | None \<Rightarrow> m) (\<lambda>l.
          ret \<lparr>lv_web_url = web_url, lv_open_link = build_open_link_url web_url (wl_id l), lv_expires_at = wl_gmt_expires l\<rparr>))) w"
        unfolding create_sandbox_web_link_def m_def rq'_def using 3(1)
        by (subst ebind_run) (simp add: Let_def del: set_scope_context.simps)
      show ?thesis
        unfolding run using w m
        by (cases "public_control_plane_base_url lib web rq'";
            cases "get_web_url lib web s (projr (public_control_plane_base_url lib web rq'))";
            cases "normalize_active_web_link now link") (simp_all add: ret)
    qed (use w in \<open>simp_all add: create_sandbox_web_link_def ebind_def\<close>)
  qed
  show "keeps ?P (delete_sandbox_web_link now u rq sid)"
  proof (rule keepsI)
    fix w
    assume w: "?P w"
    from owned_row_cases [OF w, of sid]
    show "?P (snd (delete_sandbox_web_link now u rq sid w))"
    proof cases
      case (3 s link)
      have "?P (w\<lparr>web_links := update_where (\<lambda>k. wl_id k = wl_id l)
          (\<lambda>k. k\<lparr>wl_gmt_deleted := Some now, wl_gmt_updated := now\<rparr>) (web_links w)\<rparr>)"
        if "normalize_active_web_link now link = Some l" for l
        using that 3 by (intro tenants_change_link [OF w _ 3(3)]) (auto simp: normalize_active_web_link_def split: option.splits if_splits)
      then show ?thesis
        using 3(1) w
        by (cases "normalize_active_web_link now link")
           (simp_all add: delete_sandbox_web_link_def owned_sandbox_with_active_web_link_def ebind_def audit_request_run commit_def Let_def)
    qed (use w in \<open>simp_all add: delete_sandbox_web_link_def owned_sandbox_with_active_web_link_def ebind_def\<close>)
  qed
qed

lemma keeps_sandbox_handlers:
  "keeps (tenants (us_id u) F L) (create_sandbox lib web cfg limits cl g now u rq body)"
  "keeps (tenants (us_id u) F L) (update_sandbox lib web cfg now u rq sid patch)"
  "keeps (tenants (us_id u) F L) (delete_sandbox cl now u rq sid)"
  "keeps (tenants (us_id u) F L) (snapshot_sandbox lib web cfg cl now u rq sid)"
  "keeps (tenants (us_id u) F L) (start_sandbox lib web cfg cl now u rq sid)"
  "keeps (tenants (us_id u) F L) (stop_sandbox lib web cl now u rq sid)"
  unfolding create_sandbox_def update_sandbox_def delete_sandbox_def snapshot_sandbox_def start_sandbox_def stop_sandbox_def Let_def
  by (intro keeps_create_then keeps_update_own keeps_delete_own keeps_snapshot_own keeps_start_own keeps_stop_own
      keeps_publish_own keeps_reads keeps_tenants_basic row_property_tenants keeps_intros; assumption)+


text \<open>C6: whatever a user sends to the sandbox and web link endpoints, and however the request ends, the sandboxes of all other
  users and the web links of these sandboxes stay as they were.\<close>

theorem tenants_are_isolated:
  assumes "distinct (map sb_id (sandboxes w))" "distinct (map wl_id (web_links w))"
    and "w' \<in> {snd (create_sandbox lib web cfg limits cl g now u rq body w), snd (update_sandbox lib web cfg now u rq sid patch w),
      snd (delete_sandbox cl now u rq sid w), snd (snapshot_sandbox lib web cfg cl now u rq sid w),
      snd (start_sandbox lib web cfg cl now u rq sid w), snd (stop_sandbox lib web cl now u rq sid w),
      snd (create_sandbox_web_link lib web t u rq sid w), snd (delete_sandbox_web_link t u rq sid w)}"
  shows "others (us_id u) w' = others (us_id u) w \<and>
    links_of (others (us_id u) w) w' = links_of (others (us_id u) w) w"
proof -
  let ?P = "tenants (us_id u) (others (us_id u) w) (links_of (others (us_id u) w) w)"
  have "?P w" using assms(1,2) by (simp add: tenants_def)
  then have "?P w'"
    using assms(3)
    by (auto intro: keepsD [OF keeps_sandbox_handlers(1)] keepsD [OF keeps_sandbox_handlers(2)]
        keepsD [OF keeps_sandbox_handlers(3)] keepsD [OF keeps_sandbox_handlers(4)] keepsD [OF keeps_sandbox_handlers(5)]
        keepsD [OF keeps_sandbox_handlers(6)] keepsD [OF keeps_web_link_handlers(1)] keepsD [OF keeps_web_link_handlers(2)])
  then show ?thesis by (simp add: tenants_def)
qed

subsection \<open>What a creation needs\<close>

lemma creation_limits_ok:
  assumes "creation_limits cfg limits body = Inr ()"
  shows "\<And>m. lc_max_total_sandboxes (ls_config limits) = Some m \<Longrightarrow> lu_total_sandboxes (ls_usage limits) < m"
    and "\<And>m. cb_persist body \<Longrightarrow> lc_max_total_storage_gib (ls_config limits) = Some m \<Longrightarrow>
      \<exists>gib. parse_storage_size_gib (py_or (cb_storage_size body) (sandbox_default_storage_size cfg)) = Inr gib \<and>
        lu_total_storage_gib (ls_usage limits) + gib \<le> m"
  using assms
  by (auto simp: creation_limits_def check_sandbox_creation_allowed_def check_storage_allocation_allowed_def
      platform_parse_storage_size_gib_def split: sum.splits option.splits if_splits)

definition table :: "sandbox list \<Rightarrow> world \<Rightarrow> bool" where
  "table T w \<longleftrightarrow> sandboxes w = T"

lemma table_frame [simp]:
  "table T (w\<lparr>web_links := l\<rparr>) = table T w" "table T (w\<lparr>audit_events := a\<rparr>) = table T w" "table T (w\<lparr>ids_drawn := n\<rparr>) = table T w"
  "table T (w\<lparr>outbox := m\<rparr>) = table T w" "table T (w\<lparr>template_specs_cache := c\<rparr>) = table T w" "table T (w\<lparr>k8s_log := k\<rparr>) = table T w"
  "table T (store_rows w) = table T w"
  by (simp_all add: table_def store_rows_def)

lemma row_property_table [simp]: "row_property (table T)"
  by (simp add: row_property_def)

lemma keeps_table: "keeps (table T) commit" "keeps (table T) (draw_id p)" "keeps (table T) (audit_request rq a t i r e m)"
  "keeps (table T) (publish_web_link web now rq s uid)"
proof -
  show basic: "keeps (table T) commit" "keeps (table T) (draw_id p)" "keeps (table T) (audit_request rq a t i r e m)"
    for p rq a t i r e m
    by (simp add: keeps_def commit_def) (rule keeps_intros, simp)+
  show "keeps (table T) (publish_web_link web now rq s uid)"
    unfolding publish_web_link_def upsert_web_link_def build_open_link_token_def Let_def
    by (intro basic keeps_intros) simp_all
qed

lemma valid_create_table:
  "valid (table T) (create cfg mt cl g now owner tpl name ls auto_stop auto_delete persist sz)
     (\<lambda>s v. (sb_owner_id s = owner \<and> (sb_status s = CREATING \<or> sb_status s = ERROR) \<and>
        \<not> list_ex (\<lambda>r. sb_id r = sb_id s \<or> sb_owner_id r = owner \<and> sb_name r = sb_name s \<and> sb_gmt_deleted r = None) T) \<and> table (T @ [s]) v)
     (table T)"
  using create_valid unfolding table_def by (rule valid_weaken) auto

lemma create_sandbox_gate:
  fixes limits :: limits_snapshot
  assumes "us_is_verified u" "creation_limits cfg limits body = Inr ()"
  shows "valid (table T) (create_sandbox lib web cfg limits cl g now u rq body)
     (\<lambda>_ v. \<exists>s. sb_owner_id s = us_id u \<and> (sb_status s = CREATING \<or> sb_status s = ERROR) \<and> table (T @ [s]) v)
     (\<lambda>v. table T v \<or> (\<exists>s. sb_owner_id s = us_id u \<and> (sb_status s = CREATING \<or> sb_status s = ERROR) \<and> table (T @ [s]) v))"
proof -
  let ?Q = "\<lambda>v. \<exists>s. sb_owner_id s = us_id u \<and> (sb_status s = CREATING \<or> sb_status s = ERROR) \<and> table (T @ [s]) v"
  have rest: "valid (\<lambda>v. (sb_owner_id s = us_id u \<and> (sb_status s = CREATING \<or> sb_status s = ERROR) \<and>
        \<not> list_ex (\<lambda>r. sb_id r = sb_id s \<or> sb_owner_id r = us_id u \<and> sb_name r = sb_name s \<and> sb_gmt_deleted r = None) T) \<and> table (T @ [s]) v)
      m (\<lambda>_. ?Q) (\<lambda>v. table T v \<or> ?Q v)" if "keeps (table (T @ [s])) m" for s and m :: "sandbox_view op"
    by (rule valid_assume) (rule valid_weaken [OF valid_keeps [OF that]], auto)
  have create: "valid (table T) (create cfg True cl g now (us_id u) tpl name ls auto_stop auto_delete persist sz)
     (\<lambda>s v. (sb_owner_id s = us_id u \<and> (sb_status s = CREATING \<or> sb_status s = ERROR) \<and>
        \<not> list_ex (\<lambda>r. sb_id r = sb_id s \<or> sb_owner_id r = us_id u \<and> sb_name r = sb_name s \<and> sb_gmt_deleted r = None) T) \<and> table (T @ [s]) v)
     (\<lambda>v. table T v \<or> ?Q v)" for tpl name ls auto_stop auto_delete persist sz
    using valid_create_table by (rule valid_weaken) auto
  have ok: "try_catch (of_sum (Inr ())) h = ret ()" for h :: "exn \<Rightarrow> unit op"
    by (simp add: try_catch_def of_sum_def ret_def fun_eq_iff)
  have once: "ebind (ret ()) f = f ()" for f :: "unit \<Rightarrow> sandbox_view op"
    by (simp add: ebind_def ret_def fun_eq_iff)
  show ?thesis
    unfolding create_sandbox_def assms(2) ok once Let_def
    using assms(1)
    by (simp only: simp_thms if_False not_True_eq_False)
       (rule valid_ebind [OF create], rule rest, intro keeps_table row_property_table keeps_intros)
qed

lemma creation_gate:
  assumes "create_sandbox lib web cfg limits cl g now u rq body w = (r, w')" "sandboxes w' \<noteq> sandboxes w"
  shows "us_is_verified u \<and> (\<exists>s. sandboxes w' = sandboxes w @ [s] \<and> sb_owner_id s = us_id u) \<and>
    (\<forall>m. lc_max_total_sandboxes (ls_config limits) = Some m \<longrightarrow> lu_total_sandboxes (ls_usage limits) < m) \<and>
    (\<forall>m. cb_persist body \<longrightarrow> lc_max_total_storage_gib (ls_config limits) = Some m \<longrightarrow>
      (\<exists>gib. parse_storage_size_gib (py_or (cb_storage_size body) (sandbox_default_storage_size cfg)) = Inr gib \<and>
        lu_total_storage_gib (ls_usage limits) + gib \<le> m))"
proof -
  let ?m = "create_sandbox lib web cfg limits cl g now u rq body"
  have verified: "us_is_verified u"
  proof (rule ccontr)
    assume "\<not> us_is_verified u"
    then have "keeps (table (sandboxes w)) ?m"
      unfolding create_sandbox_def by (simp only: if_True not_False_eq_True) (intro keeps_table keeps_intros)
    from keepsD [OF this, of w] show False using assms by (simp add: table_def)
  qed
  have limits: "creation_limits cfg limits body = Inr ()"
  proof (rule ccontr)
    assume "creation_limits cfg limits body \<noteq> Inr ()"
    then obtain e where "creation_limits cfg limits body = Inl e" by (cases "creation_limits cfg limits body") auto
    then have "sandboxes (snd (?m w)) = sandboxes w"
      using verified by (auto simp: create_sandbox_def try_catch_def ebind_def audit_request_run commit_def store_rows_def)
    then show False using assms by simp
  qed
  have "\<exists>s. sandboxes w' = sandboxes w @ [s] \<and> sb_owner_id s = us_id u"
  proof (cases r)
    case (Inl e)
    with assms validD_Inl [OF create_sandbox_gate [OF verified limits, of "sandboxes w"], of w] show ?thesis
      by (fastforce simp: table_def)
  next
    case (Inr v)
    with assms validD_Inr [OF create_sandbox_gate [OF verified limits, of "sandboxes w"], of w] show ?thesis
      by (fastforce simp: table_def)
  qed
  with verified creation_limits_ok [OF limits] show ?thesis by blast
qed

text \<open>The sandboxes that count for the caps, and their disks.\<close>

definition live_rows :: "world \<Rightarrow> sandbox list" where
  "live_rows w = filter (\<lambda>s. sb_gmt_deleted s = None) (sandboxes w)"

definition live_storage :: "world \<Rightarrow> int" where
  "live_storage w = sum_list (map storage_size_gib_case (filter sb_persist (live_rows w)))"

lemma snapshot_of_view:
  "ls_usage (build_snapshot t (platform_view db w)) = \<lparr>lu_registered_users = int (length (users w)),
     lu_total_sandboxes = int (length (live_rows w)), lu_total_storage_gib = live_storage w,
     lu_waitlist_applications = int (length (pd_waitlist_applications db))\<rparr>"
  "ls_config (build_snapshot t (platform_view db w)) = (case pd_platform_limits db of Some c \<Rightarrow> c | None \<Rightarrow> no_limits)"
  by (simp_all add: build_snapshot_def platform_view_def live_rows_def live_storage_def Let_def)

text \<open>C36: a sandbox appears in the table only for a user whose email is verified and only while the platform is below its cap on
  sandboxes and, for a persistent one, has room for its disk; exactly one row is added and it belongs to that user. The caps and
  the use that count are those of the tables when the snapshot was taken: just now, when the process has no snapshot for
  this engine, and otherwise when the cached one was built (\<open>w0\<close>), so that sandboxes created since then are not
  counted until the next refresh.\<close>

theorem creation_is_gated:
  assumes run: "post_sandbox lib web cfg token db cl g now u rq body rt w = (rt', r, w')" and grew: "sandboxes w' \<noteq> sandboxes w"
    and cached: "rt_snapshot rt \<in> {None, Some (build_snapshot t0 (platform_view db0 w0))}"
  defines "fresh \<equiv> rt_snapshot rt = None \<or> rt_bind_token rt \<noteq> token"
  shows "us_is_verified u \<and> (\<exists>s. sandboxes w' = sandboxes w @ [s] \<and> sb_owner_id s = us_id u) \<and>
    rt' = (if fresh then rt\<lparr>rt_snapshot := Some (build_snapshot (utc_ts now) (platform_view db w)), rt_bind_token := token\<rparr> else rt) \<and>
    (\<forall>c seen. (pd_platform_limits db, w) = (Some c, seen) \<and> fresh \<or> (pd_platform_limits db0, w0) = (Some c, seen) \<and> \<not> fresh \<longrightarrow>
      (\<forall>m. lc_max_total_sandboxes c = Some m \<longrightarrow> int (length (live_rows seen)) < m) \<and>
      (\<forall>m. cb_persist body \<and> lc_max_total_storage_gib c = Some m \<longrightarrow>
        (\<exists>gib. parse_storage_size_gib (py_or (cb_storage_size body) (sandbox_default_storage_size cfg)) = Inr gib \<and>
          live_storage seen + gib \<le> m)))"
proof -
  define sn where "sn = (if fresh then build_snapshot (utc_ts now) (platform_view db w) else build_snapshot t0 (platform_view db0 w0))"
  have ensure: "ensure_snapshot (utc_ts now) token (platform_view db w) rt =
      (sn, if fresh then rt\<lparr>rt_snapshot := Some sn, rt_bind_token := token\<rparr> else rt)"
    using cached by (auto simp: ensure_snapshot_def refresh_from_session_def fresh_def sn_def Let_def split: option.splits)
  then have "create_sandbox lib web cfg sn cl g now u rq body w = (r, w')"
    using run by (simp add: post_sandbox_def)
  from creation_gate [OF this grew] have gate: "us_is_verified u" "\<exists>s. sandboxes w' = sandboxes w @ [s] \<and> sb_owner_id s = us_id u"
    "\<forall>m. lc_max_total_sandboxes (ls_config sn) = Some m \<longrightarrow> lu_total_sandboxes (ls_usage sn) < m"
    "\<forall>m. cb_persist body \<longrightarrow> lc_max_total_storage_gib (ls_config sn) = Some m \<longrightarrow>
      (\<exists>gib. parse_storage_size_gib (py_or (cb_storage_size body) (sandbox_default_storage_size cfg)) = Inr gib \<and>
        lu_total_storage_gib (ls_usage sn) + gib \<le> m)" by blast+
  have "rt' = (if fresh then rt\<lparr>rt_snapshot := Some sn, rt_bind_token := token\<rparr> else rt)"
    using run gate(1) by (simp add: post_sandbox_def ensure)
  then show ?thesis using gate by (auto simp: sn_def snapshot_of_view)
qed

subsection \<open>Two tenants\<close>

definition demo_cluster :: cluster where
  "demo_cluster = (\<lambda>_ _. Inl bad_reply)"

definition demo_body :: create_sandbox_body where
  "demo_body = \<lparr>cb_template = ''small'', cb_name = Some ''box'', cb_labels = [], cb_auto_stop_interval = 15,
     cb_auto_delete_interval = -1, cb_persist = False, cb_storage_size = None\<rparr>"

definition demo_caps :: limits_snapshot where
  "demo_caps = \<lparr>ls_config = no_limits\<lparr>lc_max_total_sandboxes := Some 1\<rparr>,
     ls_usage = \<lparr>lu_registered_users = 1, lu_total_sandboxes = 0, lu_total_storage_gib = 0, lu_waitlist_applications = 0\<rparr>, ls_refreshed_at = 0\<rparr>"

theorem tenants_are_isolated_witness:
  "others ''u2'' (snd (delete_sandbox demo_cluster demo_now (demo_user ''u2'' RW) demo_request ''sb1'' demo_proxy_world)) = [demo_box]"
proof -
  let ?w' = "snd (delete_sandbox demo_cluster demo_now (demo_user ''u2'' RW) demo_request ''sb1'' demo_proxy_world)"
  have "distinct (map wl_id (web_links demo_proxy_world))" by (simp add: demo_proxy_defs demo_identity_defs)
  from tenants_are_isolated [OF demo_proxy_inv(2) this, of ?w' demo_lib demo_web demo_proxied demo_caps demo_cluster "''box''" demo_now
      "demo_user ''u2'' RW" demo_request demo_body "''sb1''" _ 0]
  have "others (us_id (demo_user ''u2'' RW)) ?w' = others (us_id (demo_user ''u2'' RW)) demo_proxy_world" by blast
  then show ?thesis by (simp add: others_def demo_proxy_defs demo_identity_defs)
qed

definition demo_creation :: "world \<Rightarrow> (exn + sandbox_view) \<times> world" where
  "demo_creation = create_sandbox demo_lib (demo_web\<lparr>sandbox_domain := ''''\<rparr>) (demo_proxied\<lparr>metering_enforcement_enabled := False\<rparr>) demo_caps demo_cluster ''box''
     demo_now (demo_user ''u1'' ADMIN) demo_request demo_body"

lemma demo_creation_run: "map sb_id (sandboxes (snd (demo_creation empty_world))) = [''sba'']"
  by (simp add: demo_creation_def create_sandbox_def creation_limits_def check_sandbox_creation_allowed_def demo_caps_def no_limits_def demo_body_def
      create_def validate_create_def enforce_quotas_def persist_sandbox_def new_sandbox_def name_taken_def provision_k8s_def
      create_via_claim_def resolve_template_def k8s_list_sandbox_templates_def k8s_do_def demo_cluster_def bad_reply_def try_else_def mark_error_def
      record_metering_def this_def this_row_def assign_def demo_proxied_def demo_web_def demo_identity_defs draw_id_run commit_def store_rows_def
      publish_web_link_def run_simps Let_def transaction_def split: sum.split prod.split)

text \<open>The cached snapshot is that of an empty platform, which may have one sandbox.\<close>

definition demo_platform_db :: platform_db where
  "demo_platform_db = \<lparr>pd_platform_limits = Some (no_limits\<lparr>lc_max_total_sandboxes := Some 1\<rparr>), pd_users = [], pd_sandboxes = [],
     pd_waitlist_applications = []\<rparr>"

definition demo_runtime :: limits_runtime where
  "demo_runtime = new_limits_runtime\<lparr>rt_snapshot := Some (build_snapshot 0 (platform_view demo_platform_db empty_world))\<rparr>"

lemma demo_caps_of: "check_sandbox_creation_allowed (build_snapshot 0 (platform_view demo_platform_db empty_world)) = Inr ()"
  by (simp add: check_sandbox_creation_allowed_def snapshot_of_view demo_platform_db_def no_limits_def live_rows_def empty_world_def)

lemma demo_post:
  assumes "rt_snapshot rt = Some sn" "rt_bind_token rt = None" "check_sandbox_creation_allowed sn = Inr ()"
  shows "post_sandbox demo_lib (demo_web\<lparr>sandbox_domain := ''''\<rparr>) (demo_proxied\<lparr>metering_enforcement_enabled := False\<rparr>) None db demo_cluster ''box''
     demo_now (demo_user ''u1'' ADMIN) demo_request demo_body rt empty_world = (rt, demo_creation empty_world)"
  using assms
  by (simp add: post_sandbox_def ensure_snapshot_def demo_creation_def create_sandbox_def creation_limits_def demo_body_def
      check_sandbox_creation_allowed_def demo_caps_def no_limits_def)

theorem creation_is_gated_witness:
  "\<exists>r w'. post_sandbox demo_lib (demo_web\<lparr>sandbox_domain := ''''\<rparr>) (demo_proxied\<lparr>metering_enforcement_enabled := False\<rparr>) None demo_platform_db
     demo_cluster ''box'' demo_now (demo_user ''u1'' ADMIN) demo_request demo_body demo_runtime empty_world = (demo_runtime, r, w') \<and>
   length (sandboxes w') = 1 \<and> int (length (live_rows empty_world)) < 1"
proof -
  obtain r w' where run: "demo_creation empty_world = (r, w')" by (metis surj_pair)
  have rt: "rt_snapshot demo_runtime = Some (build_snapshot 0 (platform_view demo_platform_db empty_world))" "rt_bind_token demo_runtime = None"
    by (simp_all add: demo_runtime_def new_limits_runtime_def)
  note post = demo_post [OF rt demo_caps_of, of demo_platform_db, unfolded run]
  have grew: "sandboxes w' \<noteq> sandboxes empty_world" using demo_creation_run run by (auto simp: empty_world_def)
  have cached: "rt_snapshot demo_runtime \<in> {None, Some (build_snapshot 0 (platform_view demo_platform_db empty_world))}" using rt by simp
  have "lc_max_total_sandboxes (no_limits\<lparr>lc_max_total_sandboxes := Some 1\<rparr>) = Some 1" by simp
  then have "int (length (live_rows empty_world)) < 1"
    using creation_is_gated [OF post grew cached] rt by (simp add: demo_platform_db_def)
  moreover have "length (sandboxes w') = 1" using arg_cong [OF demo_creation_run, of length] run by simp
  ultimately show ?thesis using post by blast
qed

end
