(* ===== verification/Token_Model.thy ===== *)
theory Token_Model
  imports Web_Request
begin

text \<open>
  Signed tokens that satisfy \<open>jwt_ok\<close>: claims are written out as a string that can be read back, so the
  hypothesis about PyJWT can hold. Used by the witnesses only.
\<close>

subsection \<open>Writing and reading claims\<close>

fun put_string :: "string \<Rightarrow> string" where
  "put_string [] = ''.''"
| "put_string (c # s) = CHR '','' # c # put_string s"

fun get_string :: "string \<Rightarrow> (string \<times> string) option" where
  "get_string (x # rest) =
     (if x = CHR ''.'' then Some ([], rest)
      else case rest of [] \<Rightarrow> None | c # t \<Rightarrow> map_option (\<lambda>(s, r). (c # s, r)) (get_string t))"
| "get_string [] = None"

lemma get_put_string: "get_string (put_string s @ rest) = Some (s, rest)"
  by (induction s) simp_all

lemma put_string_inject: "put_string s @ r = put_string s' @ r' \<Longrightarrow> s = s' \<and> r = r'"
  by (metis get_put_string option.inject prod.inject)

definition put_value :: "meta_value \<Rightarrow> string" where
  "put_value v = (case v of MStr s \<Rightarrow> CHR ''s'' # put_string s | MInt i \<Rightarrow> CHR ''i'' # put_string (show_int i) | _ \<Rightarrow> '''')"

fun put_claims :: "claims \<Rightarrow> string" where
  "put_claims [] = ''''"
| "put_claims ((k, v) # p) = put_string k @ put_value v @ put_claims p"

definition int_of_text :: "string \<Rightarrow> int" where
  "int_of_text s = (case s of c # t \<Rightarrow> if c = CHR ''-'' then - digits_val t else digits_val s | [] \<Rightarrow> 0)"

definition get_value :: "string \<Rightarrow> (meta_value \<times> string) option" where
  "get_value t = (case t of
     [] \<Rightarrow> None
   | c # r \<Rightarrow> map_option (\<lambda>(s, r'). (if c = CHR ''s'' then MStr s else MInt (int_of_text s), r')) (get_string r))"

fun get_claims :: "nat \<Rightarrow> string \<Rightarrow> claims option" where
  "get_claims n [] = Some []"
| "get_claims 0 (c # t) = None"
| "get_claims (Suc n) (c # t) =
     (case get_string (c # t) of
        None \<Rightarrow> None
      | Some (k, r) \<Rightarrow> (case get_value r of None \<Rightarrow> None | Some (v, r') \<Rightarrow> map_option (\<lambda>p. (k, v) # p) (get_claims n r')))"

lemma int_of_show: "int_of_text (show_int i) = i"
proof -
  have pos: "digits_val (show_nat n) = int n" "show_nat n \<noteq> []" "hd (show_nat n) \<noteq> CHR ''-''" for n
    using show_nat_digits [of n] by (auto simp: isdigit_def neq_Nil_conv is_digit_def)
  show ?thesis
  proof (cases "i < 0")
    case True
    then show ?thesis using pos(1) [of "nat (- i)"] by (simp add: int_of_text_def show_int_def)
  next
    case False
    then show ?thesis using pos [of "nat i"] by (cases "show_nat (nat i)") (simp_all add: int_of_text_def show_int_def)
  qed
qed

lemma get_put_value:
  "(case v of MStr _ \<Rightarrow> True | MInt _ \<Rightarrow> True | _ \<Rightarrow> False) \<Longrightarrow> get_value (put_value v @ r) = Some (v, r)"
  by (cases v) (simp_all add: put_value_def get_value_def get_put_string int_of_show)

lemma get_put_claims:
  "list_all (\<lambda>(k, v). case v of MStr _ \<Rightarrow> True | MInt _ \<Rightarrow> True | _ \<Rightarrow> False) p \<Longrightarrow> length p \<le> n \<Longrightarrow> get_claims n (put_claims p) = Some p"
proof (induction p arbitrary: n)
  case (Cons kv p)
  obtain k v where kv: "kv = (k, v)" by (cases kv)
  obtain c t where ct: "put_string k @ put_value v @ put_claims p = c # t" by (cases k) auto
  obtain m where "n = Suc m" using Cons.prems(2) by (cases n) auto
  with Cons kv ct get_put_string [of k "put_value v @ put_claims p"] show ?case by (simp add: get_put_value)
qed simp

lemma put_claims_length: "length p \<le> length (put_claims p)"
proof (induction p)
  case (Cons kv p)
  then show ?case by (cases kv; cases "fst kv") simp_all
qed simp

subsection \<open>The library\<close>

definition token_lib :: "lib \<Rightarrow> lib" where
  "token_lib lib = lib\<lparr>jwt_encode := put_claims,
     jwt_decode := (\<lambda>now aud t. case get_claims (length t) t of
        None \<Rightarrow> None
      | Some p \<Rightarrow> if json_claims p \<and> put_claims p = t \<and> claims_valid now aud p then Some p else None)\<rparr>"

lemma token_lib_ok: "jwt_ok (token_lib lib)"
proof -
  have read: "get_claims (length (put_claims p)) (put_claims p) = Some p" if "json_claims p" for p
    using that put_claims_length [of p] by (auto simp: json_claims_def list_all_iff intro!: get_put_claims)
  then have "inj_on put_claims (Collect json_claims)"
    by (metis inj_onI mem_Collect_eq option.inject)
  moreover have "put_claims p \<noteq> []" if "p \<noteq> []" for p
    using put_claims_length [of p] that by auto
  ultimately show ?thesis using read by (auto simp: jwt_ok_def token_lib_def split: option.splits)
qed

end
