(* ===== verification/Account_Safety.thy ===== *)
theory Account_Safety
  imports OAuth_Login Tenant_Safety Token_Model
begin

text \<open>
  What the account handlers guarantee: once there is a user there is always an active administrator, password reset
  requests are rate limited, a callback signs in only the browser that started the login, and which users cannot be deleted.
\<close>

subsection \<open>The user table\<close>

definition active_admin :: "user \<Rightarrow> bool" where
  "active_admin u \<longleftrightarrow> us_role u = ADMIN \<and> us_is_active u"

text \<open>Ids and emails are unique, and there is an active administrator, or no user yet (which \<open>e\<close> allows).\<close>

definition accounts_ok :: "bool \<Rightarrow> world \<Rightarrow> bool" where
  "accounts_ok e w \<longleftrightarrow> distinct (map us_id (users w)) \<and> distinct (map us_email (users w)) \<and>
     (e \<and> users w = [] \<or> (\<exists>u \<in> set (users w). active_admin u))"

lemma accounts_ok_frame [simp]:
  "accounts_ok e (w\<lparr>audit_events := a\<rparr>) = accounts_ok e w" "accounts_ok e (w\<lparr>outbox := m\<rparr>) = accounts_ok e w"
  "accounts_ok e (w\<lparr>template_specs_cache := c\<rparr>) = accounts_ok e w" "accounts_ok e (w\<lparr>k8s_log := l\<rparr>) = accounts_ok e w"
  "accounts_ok e (w\<lparr>ids_drawn := n\<rparr>) = accounts_ok e w" "accounts_ok e (store_rows w) = accounts_ok e w"
  "accounts_ok e (w\<lparr>email_verification_logs := v\<rparr>) = accounts_ok e w"
  "accounts_ok e (w\<lparr>password_reset_request_logs := p\<rparr>) = accounts_ok e w" "accounts_ok e (w\<lparr>cli_login_flows := f\<rparr>) = accounts_ok e w"
  by (simp_all add: accounts_ok_def store_rows_def)

lemma accounts_ok_mono: "accounts_ok False w \<Longrightarrow> accounts_ok e w"
  by (simp add: accounts_ok_def)

lemma accounts_ok_used: "accounts_ok e w \<Longrightarrow> users w \<noteq> [] \<Longrightarrow> accounts_ok False w"
  by (simp add: accounts_ok_def)

lemma row_property_accounts [simp]: "row_property (accounts_ok e)"
  by (simp add: row_property_def)

lemma keeps_accounts_basic: "keeps (accounts_ok e) commit" "keeps (accounts_ok e) (draw_id p)" "keeps (accounts_ok e) (audit_request rq a t i r c m)"
  by (simp add: keeps_def commit_def) (rule keeps_intros, simp)+

text \<open>A change of a user that keeps its keys and does not take an administrator away.\<close>

definition harmless :: "(user \<Rightarrow> user) \<Rightarrow> bool" where
  "harmless f \<longleftrightarrow> (\<forall>u. us_id (f u) = us_id u \<and> us_email (f u) = us_email u \<and> (active_admin u \<longrightarrow> active_admin (f u)))"

lemma set_user_users:
  "users (snd (set_user now uid f w)) =
     map (\<lambda>u. if us_id u = uid then if f u = u then u else (f u)\<lparr>us_gmt_updated := now\<rparr> else u) (users w)"
  by (simp add: set_user_def update_where_def)

lemma keeps_set_user:
  assumes "harmless f"
  shows "keeps (accounts_ok e) (set_user now uid f)"
proof (rule keepsI)
  fix w
  assume ok: "accounts_ok e w"
  let ?g = "\<lambda>u. if us_id u = uid then if f u = u then u else (f u)\<lparr>us_gmt_updated := now\<rparr> else u"
  have keys: "us_id \<circ> ?g = us_id" "us_email \<circ> ?g = us_email"
    using assms by (auto simp: harmless_def)
  have "active_admin (?g u)" if "active_admin u" for u
    using assms that by (auto simp: active_admin_def harmless_def)
  with ok show "accounts_ok e (snd (set_user now uid f w))"
    unfolding accounts_ok_def set_user_users map_map keys by fastforce
qed

lemma harmless_changes [simp]:
  "harmless (\<lambda>u. u\<lparr>us_hashed_password := h\<rparr>)" "harmless (\<lambda>u. u\<lparr>us_is_verified := b\<rparr>)"
  "harmless (\<lambda>u. u\<lparr>us_hashed_password := h, us_has_local_password := b\<rparr>)" "harmless (\<lambda>u. u\<lparr>us_role := ADMIN\<rparr>)"
  by (simp_all add: harmless_def active_admin_def)

lemma keeps_user_reads: "keeps P (get_user_row uid)" "keeps P (user_with_email x)" "keeps P (authenticate_email_password lib x p)"
  unfolding get_user_row_def user_with_email_def authenticate_email_password_def by (intro keeps_intros)+

lemma keeps_send_email: "keeps (accounts_ok e) (send_email lib web m)"
  unfolding send_email_def by (intro keeps_intros) simp

lemmas account_rules =
  keeps_set_user harmless_changes keeps_user_reads keeps_send_email keeps_accounts_basic row_property_accounts keeps_intros

lemma keeps_request_verify: "keeps (accounts_ok e) (request_verify lib web now u)"
  unfolding request_verify_def on_after_request_verify_def by (intro account_rules) simp

lemma keeps_forgot_password: "keeps (accounts_ok e) (forgot_password lib web now u)"
  unfolding forgot_password_def on_after_forgot_password_def by (intro account_rules)

lemma keeps_check_registration: "keeps (accounts_ok e) (check_registration limits rq m)"
  unfolding check_registration_def by (intro account_rules)

lemma keeps_case_exn:
  "(\<And>m. keeps P (a m)) \<Longrightarrow> (\<And>m. keeps P (b m)) \<Longrightarrow> keeps P c \<Longrightarrow> keeps P (case e of BadRequestError m \<Rightarrow> a m | ForbiddenError m \<Rightarrow> b m | _ \<Rightarrow> c)"
  "(\<And>m. keeps P (a m)) \<Longrightarrow> keeps P c \<Longrightarrow> keeps P (case e of PasswordResetRateLimitedError m \<Rightarrow> a m | _ \<Rightarrow> c)"
  "(\<And>m. keeps P (a m)) \<Longrightarrow> keeps P c \<Longrightarrow> keeps P (case e of BadRequestError m \<Rightarrow> a m | _ \<Rightarrow> c)"
  "keeps P d \<Longrightarrow> keeps P d' \<Longrightarrow> keeps P c \<Longrightarrow> keeps P (case e of InvalidResetPasswordToken \<Rightarrow> d | UserInactive \<Rightarrow> d' | _ \<Rightarrow> c)"
  by (cases e; simp)+

lemma keeps_manager: "keeps (accounts_ok e) (manager_reset_password lib now t p)" "keeps (accounts_ok e) (manager_verify lib now t)"
proof -
  have set: "keeps (accounts_ok e) (ebind (set_user now uid f) (\<lambda>_. ebind commit (\<lambda>_. ret uid)))"
    if "harmless f" for uid f
    using that by (intro account_rules)
  show "keeps (accounts_ok e) (manager_reset_password lib now t p)"
    using keepsD [OF set] by (auto simp: keeps_def manager_reset_password_def split: sum.splits)
  show "keeps (accounts_ok e) (manager_verify lib now t)"
    using keepsD [OF set] by (auto simp: keeps_def manager_verify_def split: sum.splits)
qed

lemma keeps_account_handlers:
  "keeps (accounts_ok e) (login lib web now rq email password)" "keeps (accounts_ok e) (logout rq cu)"
  "keeps (accounts_ok e) (change_password lib now u rq p q)" "keeps (accounts_ok e) (set_password lib now u rq q)"
  "keeps (accounts_ok e) (request_password_reset lib web now rq email)" "keeps (accounts_ok e) (confirm_password_reset lib now rq t q)"
  "keeps (accounts_ok e) (request_verification lib web now u rq)" "keeps (accounts_ok e) (confirm_verification lib now rq t)"
  unfolding login_def logout_def change_password_def set_password_def request_password_reset_def confirm_password_reset_def
    request_verification_def confirm_verification_def enforce_password_reset_request_limits_def
    record_password_reset_request_log_def Let_def
  by (intro keeps_case_exn keeps_manager keeps_request_verify keeps_forgot_password account_rules; simp)+

subsection \<open>Registration\<close>

lemma keeps_insert_user: "active_admin u \<or> \<not> e \<Longrightarrow> keeps (accounts_ok e) (insert_user u)"
  by (auto simp: keeps_def insert_user_def accounts_ok_def)

text \<open>What is done with the number of users that was read just before.\<close>

lemma keeps_user_count:
  assumes "keeps (accounts_ok e) (f 0)" "\<And>n. n \<noteq> 0 \<Longrightarrow> keeps (accounts_ok False) (f n)"
  shows "keeps (accounts_ok e) (ebind (gets (\<lambda>w. length (users w))) f)"
proof (rule keepsI)
  fix w
  assume ok: "accounts_ok e w"
  show "accounts_ok e (snd (ebind (gets (\<lambda>w. length (users w))) f w))"
  proof (cases "users w = []")
    case True
    then show ?thesis using keepsD [OF assms(1) ok] by simp
  next
    case False
    then have "accounts_ok False (snd (f (length (users w)) w))"
      using keepsD [OF assms(2) accounts_ok_used [OF ok]] by simp
    then show ?thesis by (simp add: accounts_ok_mono)
  qed
qed

lemma keeps_register: "keeps (accounts_ok e) (register lib web now limits rq email password)"
  unfolding register_def Let_def
  by (rule keeps_user_count; intro keeps_insert_user keeps_check_registration keeps_request_verify account_rules;
      simp add: new_local_user_def active_admin_def)

text \<open>\<^verbatim>\<open>UserManager.oauth_callback\<close> of fastapi-users: the rows of the users it finds stay as they are; a user it creates is
  active, has a fresh id and a fresh email.\<close>

definition upsert_ok :: "oauth_client \<Rightarrow> bool" where
  "upsert_ok oc \<longleftrightarrow> (\<forall>now provider i email w uid fresh w'. oc_upsert oc now provider i email w = Inr (uid, fresh, w') \<longrightarrow>
     (if fresh then \<exists>u. us_id u = uid \<and> us_is_active u \<and> uid \<notin> set (map us_id (users w)) \<and>
                        us_email u \<notin> set (map us_email (users w)) \<and> users w' = users w @ [u]
      else users w' = users w))"

lemma keeps_first_user:
  assumes "us_is_active u" "users w = [u]"
  shows "accounts_ok e (snd (on_after_register now (us_id u) w))"
  using assms
  by (auto simp: on_after_register_def commit_def set_user_def accounts_ok_def active_admin_def store_rows_def transaction_def
      ebind_def dest: arg_cong [where f = us_role])

lemma keeps_manager_oauth:
  assumes "upsert_ok oc"
  shows "keeps (accounts_ok e) (manager_oauth_callback oc now provider i email)"
proof (rule keepsI)
  fix w
  assume ok: "accounts_ok e w"
  show "accounts_ok e (snd (manager_oauth_callback oc now provider i email w))"
  proof (cases "oc_upsert oc now provider i email w")
    case (Inr r)
    then obtain uid fresh w' where r: "oc_upsert oc now provider i email w = Inr (uid, fresh, w')" by (cases r) auto
    note up = assms [unfolded upsert_ok_def, rule_format, OF r]
    show ?thesis
    proof (cases fresh)
      case False
      with up r ok show ?thesis by (simp add: manager_oauth_callback_def accounts_ok_def)
    next
      case True
      with up obtain u where u: "us_id u = uid" "us_is_active u" "uid \<notin> set (map us_id (users w))"
        "us_email u \<notin> set (map us_email (users w))" "users w' = users w @ [u]" by auto
      have run: "snd (manager_oauth_callback oc now provider i email w) = snd (on_after_register now uid w')"
        using r True by (auto simp: manager_oauth_callback_def ebind_def split: prod.splits sum.splits)
      show ?thesis
      proof (cases "users w = []")
        case True
        with u run show ?thesis using keeps_first_user [of u w' e now] by simp
      next
        case False
        with ok u have "accounts_ok e w'" by (auto simp: accounts_ok_def)
        then show ?thesis unfolding run by (rule keepsD [rotated]) (unfold on_after_register_def, intro account_rules)
      qed
    qed
  qed (simp add: manager_oauth_callback_def ok)
qed

lemma keeps_cli_parts: "keeps (accounts_ok e) (approve_transition now fid uid provider)" "keeps (accounts_ok e) (fail_cli_flow now fid)"
  "keeps (accounts_ok e) (validate_cli_flow_pending lib now fid secret)"
proof -
  show "keeps (accounts_ok e) (approve_transition now fid uid provider)"
    by (simp add: keeps_def approve_transition_def Let_def)
  show "keeps (accounts_ok e) (fail_cli_flow now fid)"
    unfolding fail_cli_flow_def fail_begin_def fail_finish_def get_flow_def by (intro account_rules) simp
  show "keeps (accounts_ok e) (validate_cli_flow_pending lib now fid secret)"
    unfolding validate_cli_flow_pending_def get_flow_def by (intro account_rules)
qed

lemma keeps_oauth_events: "keeps (accounts_ok e) (record_oauth_success_events rq u provider outcome surface)"
  unfolding record_oauth_success_events_def by (cases outcome) (simp_all, (intro account_rules)+)

lemma keeps_oauth_complete:
  "keeps (accounts_ok e) (oauth_complete lib web now rq provider outcome fid return_to uid)"
  unfolding oauth_complete_def Let_def
  by (rule keeps_gets_id; intro keeps_rollback_to keeps_oauth_events keeps_cli_parts account_rules)

lemma keeps_oauth_failed: "keeps (accounts_ok e) (oauth_failed now provider fid return_to m m')"
  unfolding oauth_failed_def by (intro keeps_cli_parts account_rules)

lemma keeps_oauth_sign_in:
  "upsert_ok oc \<Longrightarrow> keeps (accounts_ok e) (oauth_sign_in lib web oc now limits rq provider i email fid return_to)"
  unfolding oauth_sign_in_def oauth_outcome_of_def
  by (intro keeps_manager_oauth keeps_oauth_complete keeps_check_registration account_rules)

lemma keeps_case_sum:
  "(\<And>a. x = Inl a \<Longrightarrow> keeps P (f a)) \<Longrightarrow> (\<And>b. x = Inr b \<Longrightarrow> keeps P (g b)) \<Longrightarrow> keeps P (case x of Inl a \<Rightarrow> f a | Inr b \<Rightarrow> g b)"
  by (cases x) auto

lemma keeps_oauth_callback:
  assumes "upsert_ok oc"
  shows "keeps (accounts_ok e) (oauth_callback lib web oc now limits provider rq code state error d)"
  unfolding oauth_callback_def get_oauth_client_def Let_def
  by (intro keeps_case_sum keeps_oauth_sign_in [OF assms] keeps_oauth_failed keeps_cli_parts keeps_case_exn account_rules)

subsection \<open>Administration\<close>

text \<open>There is an active administrator besides the user \<open>uid\<close>.\<close>

definition backed :: "string \<Rightarrow> world \<Rightarrow> bool" where
  "backed uid w \<longleftrightarrow> distinct (map us_id (users w)) \<and> distinct (map us_email (users w)) \<and>
     (\<exists>a \<in> set (users w). active_admin a \<and> us_id a \<noteq> uid)"

lemma backed_accounts: "backed uid w \<Longrightarrow> accounts_ok e w"
  by (auto simp: backed_def accounts_ok_def)

lemma backed_frame [simp]:
  "backed uid (w\<lparr>audit_events := a\<rparr>) = backed uid w" "backed uid (w\<lparr>outbox := m\<rparr>) = backed uid w"
  "backed uid (w\<lparr>template_specs_cache := c\<rparr>) = backed uid w" "backed uid (w\<lparr>k8s_log := l\<rparr>) = backed uid w"
  "backed uid (w\<lparr>ids_drawn := n\<rparr>) = backed uid w" "backed uid (store_rows w) = backed uid w"
  by (simp_all add: backed_def store_rows_def)

lemma row_property_backed [simp]: "row_property (backed uid)"
  by (simp add: row_property_def)

lemma keeps_backed_basic: "keeps (backed uid) commit" "keeps (backed uid) (audit_request rq a t i r c m)"
  by (simp add: keeps_def commit_def) (rule keeps_intros, simp)

lemma keeps_backed_set:
  assumes "\<And>u. us_id (f u) = us_id u \<and> us_email (f u) = us_email u"
  shows "keeps (backed uid) (set_user now uid f)"
proof (rule keepsI)
  fix w
  assume ok: "backed uid w"
  let ?g = "\<lambda>u. if us_id u = uid then if f u = u then u else (f u)\<lparr>us_gmt_updated := now\<rparr> else u"
  have keys: "us_id \<circ> ?g = us_id" "us_email \<circ> ?g = us_email"
    using assms by (auto simp: fun_eq_iff)
  from ok show "backed uid (snd (set_user now uid f w))"
    unfolding backed_def set_user_users map_map keys by fastforce
qed

lemma distinct_map_filter_key: "distinct (map k xs) \<Longrightarrow> distinct (map k (filter p xs))"
  by (simp add: distinct_map inj_on_def)

lemma keeps_backed_cascade: "keeps (backed uid) (delete_user_row uid)"
  unfolding delete_user_row_def
  by (intro keeps_intros) (auto simp: backed_def cascade_user_def Let_def distinct_map_filter_key)

lemmas backed_rules = keeps_backed_set keeps_backed_cascade keeps_backed_basic row_property_backed keeps_user_reads keeps_intros

text \<open>The two parts of \<open>update_user_status\<close>: what it checks, and what it writes afterwards.\<close>

definition status_check :: "user \<Rightarrow> string \<Rightarrow> bool \<Rightarrow> user op" where
  "status_check current_user user_id is_active =
     (if user_id = us_id current_user then raise (BadRequestError ''Cannot change your own status'')
      else ebind (get_user_row user_id) (\<lambda>r.
        case r of
          None \<Rightarrow> raise (NotFoundError ''User'' user_id)
        | Some target \<Rightarrow>
            ebind (if \<not> is_active \<and> us_role target = ADMIN
                   then ebind (gets (\<lambda>w. length (filter (\<lambda>u. us_role u = ADMIN \<and> us_is_active u) (users w)))) (\<lambda>admin_count.
                        if admin_count \<le> 1 then raise (BadRequestError ''Cannot disable the last active admin'') else ret ())
                   else ret ()) (\<lambda>_. ret target)))"

definition status_write :: "time \<Rightarrow> request \<Rightarrow> string \<Rightarrow> bool \<Rightarrow> user \<Rightarrow> meta_value op" where
  "status_write now rq user_id is_active target =
     transaction (
       ebind (set_user now user_id (\<lambda>u. u\<lparr>us_is_active := is_active\<rparr>)) (\<lambda>_.
       ebind (audit_success rq ''auth.user.status_change'' ''user'' (Some user_id)
         [(''email'', MStr (us_email target)), (''old_is_active'', MBool (us_is_active target)), (''new_is_active'', MBool is_active)]) (\<lambda>_.
       ebind commit (\<lambda>_.
       ret (detail (''User '' @ (if is_active then ''enabled'' else ''disabled'')))))))"

lemma ebind_raise: "ebind (raise e) f = raise e"
  by (simp add: ebind_def raise_def fun_eq_iff)

lemma update_user_status_split:
  "update_user_status now cu rq uid b = ebind (status_check cu uid b) (status_write now rq uid b)"
proof (cases "uid = us_id cu")
  case False
  then show ?thesis
    unfolding update_user_status_def status_check_def status_write_def
    by (auto simp: fun_eq_iff ebind_def get_user_row_def ret_def raise_def gets_def split: option.splits prod.splits sum.splits)
qed (simp add: update_user_status_def status_check_def ebind_raise)

lemma two_admins:
  assumes "distinct (map us_id us)" "1 < length (filter active_admin us)"
  obtains a where "a \<in> set us" "active_admin a" "us_id a \<noteq> uid"
proof -
  obtain a b ls where f: "filter active_admin us = a # b # ls"
    using assms(2) by (cases "filter active_admin us" rule: remdups_adj.cases) auto
  then have "a \<in> set (filter active_admin us)" "b \<in> set (filter active_admin us)" by simp_all
  then have ab: "a \<in> set us" "active_admin a" "b \<in> set us" "active_admin b" by simp_all
  have "distinct (map us_id (filter active_admin us))" using assms(1) by (rule distinct_map_filter_key)
  with f have "us_id a \<noteq> us_id b" by simp
  with ab that show thesis by metis
qed

lemma admin_filter: "(\<lambda>u. us_role u = ADMIN \<and> us_is_active u) = active_admin"
  by (simp add: active_admin_def fun_eq_iff)

lemma status_check_backs:
  assumes ok: "accounts_ok e w" and run: "status_check cu uid False w = (Inr t, w')"
  shows "w' = w" "backed uid w"
proof -
  have ids: "distinct (map us_id (users w))" using ok by (simp add: accounts_ok_def)
  from run obtain row: "find (\<lambda>u. us_id u = uid) (users w) = Some t" and "w' = w"
    and guard: "us_role t = ADMIN \<longrightarrow> 1 < length (filter active_admin (users w))"
    by (auto simp: status_check_def get_user_row_def admin_filter ebind_def split: if_splits option.splits)
  show "w' = w" by fact
  have t: "t \<in> set (users w)" "us_id t = uid" using row ids by (simp_all add: find_key)
  have "\<exists>a \<in> set (users w). active_admin a \<and> us_id a \<noteq> uid"
  proof (cases "us_role t = ADMIN")
    case True
    with guard two_admins [OF ids, of uid] show ?thesis by blast
  next
    case False
    have "users w \<noteq> []" using t by auto
    with ok obtain a where a: "a \<in> set (users w)" "active_admin a" by (auto simp: accounts_ok_def)
    with False have "a \<noteq> t" by (auto simp: active_admin_def)
    with a t ids show ?thesis by (auto simp: distinct_map inj_on_def)
  qed
  with ok show "backed uid w" by (simp add: backed_def accounts_ok_def)
qed

lemma keeps_update_status: "keeps (accounts_ok e) (update_user_status now cu rq uid b)"
proof (rule keepsI)
  fix w
  assume ok: "accounts_ok e w"
  have read: "w' = w" if "status_check cu uid b w = (r, w')" for r w'
    using that by (auto simp: status_check_def get_user_row_def ebind_def split: if_splits option.splits)
  have written: "accounts_ok e (snd (status_write now rq uid b t w))" if t: "status_check cu uid b w = (Inr t, w)" for t
  proof (cases b)
    case True
    then have "harmless (\<lambda>u. u\<lparr>us_is_active := b\<rparr>)" by (simp add: harmless_def active_admin_def)
    then have "keeps (accounts_ok e) (status_write now rq uid b t)"
      unfolding status_write_def by (intro account_rules)
    then show ?thesis using ok by (rule keepsD)
  next
    case False
    have "keeps (backed uid) (status_write now rq uid b t)"
      unfolding status_write_def by (intro backed_rules) simp
    moreover have "backed uid w" using status_check_backs [OF ok] t False by simp
    ultimately show ?thesis by (rule backed_accounts [OF keepsD])
  qed
  show "accounts_ok e (snd (update_user_status now cu rq uid b w))"
    unfolding update_user_status_split using read written ok
    by (auto simp: ebind_def split: prod.splits sum.splits)
qed

lemma keeps_delete_user:
  assumes "accounts_ok e w" "cu \<in> set (users w)" "active_admin cu"
  shows "accounts_ok e (snd (delete_user cu rq uid w))"
proof (cases "uid = us_id cu")
  case False
  with assms(2,3) have "\<exists>a \<in> set (users w). active_admin a \<and> us_id a \<noteq> uid" by blast
  with assms(1) have "backed uid w" by (simp add: backed_def accounts_ok_def)
  moreover have "keeps (backed uid) (delete_user cu rq uid)"
    unfolding delete_user_def by (intro backed_rules)
  ultimately show ?thesis by (rule backed_accounts [OF keepsD, rotated])
qed (simp add: delete_user_def assms)

text \<open>The user of an admitted request is an active row, when the session cookie is one.\<close>

definition cookie_current :: "user option \<Rightarrow> world \<Rightarrow> bool" where
  "cookie_current cookie_user w \<longleftrightarrow> (\<forall>u. cookie_user = Some u \<longrightarrow> u \<in> set (users w) \<and> us_is_active u)"

lemma select_reads: "select_one_or_none q w = (r, w') \<Longrightarrow> w' = w"
  by (simp add: select_one_or_none_def split: sum.splits)

lemma authenticate_owner:
  assumes "authenticate_api_key_value lib now token w = (Inr (Some (k, u)), w')"
  shows "u \<in> set (users w) \<and> us_is_active u"
proof -
  from assms obtain v where "select_one_or_none (\<lambda>w. filter (\<lambda>k. ak_key_hash k = hash_api_key_secret lib token \<and> ak_gmt_deleted k = None)
      (api_keys w)) w = (Inr (Some k), v)" and row: "find (\<lambda>u. us_id u = ak_user_id k) (users v) = Some u" "us_is_active u"
    unfolding authenticate_api_key_value_def by (elim ebind_InrE) (auto split: option.splits if_splits)
  from this(1) have "v = w" by (rule select_reads)
  with row show ?thesis by (auto simp: find_Some_iff)
qed

lemma current_admin_is_row:
  assumes "get_current_admin lib now credentials cookie_user rq w = (Inr (u, rq'), w')" "cookie_current cookie_user w"
  shows "u \<in> set (users w)" "active_admin u"
proof -
  from assms(1) have role: "us_role u = ADMIN" and
    c: "get_current_control_plane_user lib now credentials cookie_user rq w = (Inr (u, rq'), w')"
    by (auto simp: get_current_admin_def elim!: ebind_InrE split: if_splits)
  have "u \<in> set (users w) \<and> us_is_active u"
  proof (cases credentials)
    case None
    with c assms(2) show ?thesis
      by (auto simp: get_current_control_plane_user_def cookie_current_def split: option.splits)
  next
    case (Some token)
    with c obtain k v where "authenticate_api_key_value lib now token w = (Inr (Some (k, u)), v)"
      by (auto simp: get_current_control_plane_user_def elim!: ebind_InrE split: if_splits option.splits)
    then show ?thesis by (rule authenticate_owner)
  qed
  with role show "u \<in> set (users w)" "active_admin u" by (simp_all add: active_admin_def)
qed

text \<open>One request, and the rest of the program, which reads the user table only. The administrator who changes a status may
  have been read at any time before; one who deletes a user is read by the dependency of that request.\<close>

inductive account_step :: "lib \<Rightarrow> web_settings \<Rightarrow> oauth_client \<Rightarrow> world \<Rightarrow> world \<Rightarrow> bool" for lib web oc where
  registers: "account_step lib web oc w (snd (register lib web now limits rq email password w))"
| logs_in: "account_step lib web oc w (snd (login lib web now rq email password w))"
| logs_out: "account_step lib web oc w (snd (logout rq cu w))"
| changes_password: "account_step lib web oc w (snd (change_password lib now u rq p q w))"
| sets_password: "account_step lib web oc w (snd (set_password lib now u rq q w))"
| requests_reset: "account_step lib web oc w (snd (request_password_reset lib web now rq email w))"
| confirms_reset: "account_step lib web oc w (snd (confirm_password_reset lib now rq t q w))"
| requests_verification: "account_step lib web oc w (snd (request_verification lib web now u rq w))"
| confirms_verification: "account_step lib web oc w (snd (confirm_verification lib now rq t w))"
| oauth: "account_step lib web oc w (snd (oauth_callback lib web oc now limits provider rq code state error d w))"
| status: "account_step lib web oc w (snd (update_user_status now cu rq uid b w))"
| deletes: "get_current_admin lib now credentials cookie_user rq w = (Inr (cu, rq'), w') \<Longrightarrow> cookie_current cookie_user w \<Longrightarrow>
    account_step lib web oc w (snd (delete_user cu rq' uid w'))"
| elsewhere: "users w' = users w \<Longrightarrow> account_step lib web oc w w'"

lemma current_admin_reads:
  assumes "get_current_admin lib now credentials cookie_user rq w = (r, w')"
  shows "w' = w"
proof -
  have "keeps (\<lambda>v. v = w) (get_current_admin lib now credentials cookie_user rq)"
    unfolding get_current_admin_def get_current_control_plane_user_def authenticate_api_key_value_def
    by (intro keeps_intros)
  from keepsD_run [OF this refl assms] show ?thesis .
qed

lemma account_step_ok:
  assumes "upsert_ok oc" "account_step lib web oc w w'" "accounts_ok e w"
  shows "accounts_ok e w'"
  using assms(2,3)
proof cases
  case (deletes now credentials cookie_user rq cu rq' v uid)
  then show ?thesis
    using keeps_delete_user [OF assms(3)] current_admin_is_row [OF deletes(2,3)] current_admin_reads [OF deletes(2)] by simp
next
  case elsewhere
  then show ?thesis using assms(3) by (simp add: accounts_ok_def)
qed (simp_all add: keepsD [OF keeps_register] keepsD [OF keeps_update_status] keepsD [OF keeps_oauth_callback [OF assms(1)]]
    keepsD [OF keeps_account_handlers(1)] keepsD [OF keeps_account_handlers(2)] keepsD [OF keeps_account_handlers(3)]
    keepsD [OF keeps_account_handlers(4)] keepsD [OF keeps_account_handlers(5)] keepsD [OF keeps_account_handlers(6)]
    keepsD [OF keeps_account_handlers(7)] keepsD [OF keeps_account_handlers(8)])

text \<open>C12: from an empty user table, whatever requests follow, there is an active administrator as soon as there is a
  user, and ids and emails stay unique: the first user becomes one, locally or by OAuth, and nobody can disable or delete
  the last one: not when a status is changed by an administrator who has lost that role since he was admitted, nor when a user is deleted
  by one who is an administrator at that time.\<close>

theorem admin_always_remains:
  assumes "upsert_ok oc" "users w = []" "(account_step lib web oc)\<^sup>*\<^sup>* w w'"
  shows "distinct (map us_id (users w')) \<and> distinct (map us_email (users w')) \<and>
    (users w' = [] \<or> (\<exists>u \<in> set (users w'). us_role u = ADMIN \<and> us_is_active u))"
proof -
  from assms(3) have "accounts_ok True w'"
  proof (induction rule: rtranclp_induct)
    case base
    show ?case using assms(2) by (simp add: accounts_ok_def)
  next
    case (step v v')
    then show ?case using account_step_ok [OF assms(1)] by blast
  qed
  then show ?thesis by (simp add: accounts_ok_def active_admin_def)
qed

subsection \<open>A first user\<close>

definition demo_oauth :: oauth_client where
  "demo_oauth = \<lparr>oc_authorization_url = (\<lambda>p u s. u @ ''?state='' @ s), oc_access_token = (\<lambda>c _. Inr c), oc_id_email = (\<lambda>t. Inr (t, Some t)),
     oc_profile_id = Inr, oc_emails = (\<lambda>_. Inr []), oc_upsert = (\<lambda>_ _ _ _ w. Inr (''u1'', False, w))\<rparr>"

definition demo_limits :: limits_snapshot where
  "demo_limits = build_snapshot 0 \<lparr>pd_platform_limits = None, pd_users = [], pd_sandboxes = [], pd_waitlist_applications = []\<rparr>"

definition demo_registered :: world where
  "demo_registered = snd (register demo_lib demo_web 0 demo_limits demo_request ''a@x.io'' ''pw'' empty_world)"

lemma demo_registered_users: "users demo_registered = [new_local_user 0 ''useraa'' ''a@x.io'' ''apw'' True]"
  by (simp add: demo_registered_def register_def demo_limits_def build_snapshot_def no_limits_def check_registration_def user_with_email_def
      check_user_registration_allowed_def demo_identity_defs draw_id_run insert_user_def commit_def store_rows_def
      new_local_user_def Let_def run_simps transaction_def select_one_or_none_def)

theorem admin_always_remains_witness:
  "us_is_active (hd (users (snd (update_user_status 1 (demo_user ''gone'' ADMIN) demo_request ''useraa'' False demo_registered))))"
proof -
  let ?w = "snd (update_user_status 1 (demo_user ''gone'' ADMIN) demo_request ''useraa'' False demo_registered)"
  have "upsert_ok demo_oauth" by (simp add: upsert_ok_def demo_oauth_def)
  moreover have "account_step demo_lib demo_web demo_oauth empty_world demo_registered"
    unfolding demo_registered_def by (rule registers)
  then have "(account_step demo_lib demo_web demo_oauth)\<^sup>*\<^sup>* empty_world ?w"
    using status by (rule converse_rtranclp_into_rtranclp [OF _ r_into_rtranclp])
  moreover have "length (users ?w) = 1"
    by (simp add: update_user_status_def get_user_row_def demo_registered_users new_local_user_def demo_user_def run_simps)
  ultimately show ?thesis
    using admin_always_remains [of demo_oauth empty_world demo_lib demo_web ?w] by (cases "users ?w") (auto simp: empty_world_def)
qed

text \<open>Two administrators who disable each other at the same time: both checks pass before either write.\<close>

definition demo_admins :: world where
  "demo_admins = empty_world\<lparr>users := [demo_user ''a'' ADMIN, demo_user ''b'' ADMIN]\<rparr>"

lemma admins_lock_each_other_out:
  assumes "w1 = snd (status_write 1 demo_request ''b'' False tb demo_admins)" "w2 = snd (status_write 1 demo_request ''a'' False ta w1)"
  shows "fst (status_check (demo_user ''a'' ADMIN) ''b'' False demo_admins) = Inr (demo_user ''b'' ADMIN)"
    "fst (status_check (demo_user ''b'' ADMIN) ''a'' False demo_admins) = Inr (demo_user ''a'' ADMIN)"
    "\<not> (\<exists>u \<in> set (users w2). active_admin u)"
proof -
  show "fst (status_check (demo_user ''a'' ADMIN) ''b'' False demo_admins) = Inr (demo_user ''b'' ADMIN)"
    "fst (status_check (demo_user ''b'' ADMIN) ''a'' False demo_admins) = Inr (demo_user ''a'' ADMIN)"
    by (simp_all add: status_check_def demo_admins_def get_user_row_def demo_user_def empty_world_def run_simps)
  show "\<not> (\<exists>u \<in> set (users w2). active_admin u)"
    by (simp add: assms status_write_def demo_admins_def demo_user_def empty_world_def run_simps transaction_def set_user_def
        commit_def store_rows_def active_admin_def)
qed

subsection \<open>Password reset requests\<close>

type_synonym reset_key = "string \<times> string option \<times> time"

definition reset_key :: "password_reset_request_log \<Rightarrow> reset_key" where
  "reset_key l = (pr_requested_email l, pr_request_ip l, pr_gmt_created l)"

abbreviation reset_keys :: "world \<Rightarrow> reset_key list" where
  "reset_keys w \<equiv> map reset_key (password_reset_request_logs w)"

definition recent_from :: "string \<Rightarrow> time \<Rightarrow> reset_key list \<Rightarrow> reset_key list" where
  "recent_from ip now ks = filter (\<lambda>(_, i, t). i = Some ip \<and> now - seconds 3600 \<le> t) ks"

definition reset_allowed :: "web_settings \<Rightarrow> reset_key \<Rightarrow> reset_key list \<Rightarrow> bool" where
  "reset_allowed web k ks \<longleftrightarrow> (case k of (email, ip, now) \<Rightarrow>
     (\<forall>(e, _, t) \<in> set ks. e = email \<longrightarrow> t + seconds (password_reset_request_cooldown_seconds web) < now) \<and>
     (\<forall>i. ip = Some i \<longrightarrow> int (length (recent_from i now ks)) < password_reset_ip_hourly_limit web))"

lemma reset_keys_frame [simp]:
  "reset_keys (w\<lparr>audit_events := a\<rparr>) = reset_keys w" "reset_keys (w\<lparr>outbox := m\<rparr>) = reset_keys w"
  "reset_keys (w\<lparr>template_specs_cache := c\<rparr>) = reset_keys w" "reset_keys (w\<lparr>k8s_log := l\<rparr>) = reset_keys w"
  "reset_keys (w\<lparr>ids_drawn := n\<rparr>) = reset_keys w" "reset_keys (store_rows w) = reset_keys w"
  by (simp_all add: store_rows_def)

lemma enforce_run:
  "enforce_password_reset_request_limits web now email ip w = (r, w') \<Longrightarrow>
     w' = w \<and> (r = Inr () \<longleftrightarrow> reset_allowed web (email, ip, now) (reset_keys w))"
  by (auto simp: enforce_password_reset_request_limits_def reset_allowed_def recent_from_def reset_key_def filter_map comp_def
      filter_empty_conv split: if_splits option.splits)

definition with_keys :: "reset_key list \<Rightarrow> world \<Rightarrow> bool" where
  "with_keys ks w \<longleftrightarrow> reset_keys w = ks"

lemma with_keys_frame [simp]:
  "with_keys ks (w\<lparr>audit_events := a\<rparr>) = with_keys ks w" "with_keys ks (w\<lparr>outbox := m\<rparr>) = with_keys ks w"
  "with_keys ks (w\<lparr>template_specs_cache := c\<rparr>) = with_keys ks w" "with_keys ks (w\<lparr>k8s_log := l\<rparr>) = with_keys ks w"
  "with_keys ks (w\<lparr>ids_drawn := n\<rparr>) = with_keys ks w" "with_keys ks (store_rows w) = with_keys ks w"
  by (simp_all add: with_keys_def)

lemma keeps_keys_basic: "keeps (with_keys ks) commit" "keeps (with_keys ks) (audit_request rq a t i r c m)"
  "keeps (with_keys ks) (forgot_password lib web now u)"
  unfolding forgot_password_def on_after_forgot_password_def send_email_def
  by (simp add: keeps_def commit_def) (intro keeps_intros; simp)+

lemma record_reset_run:
  "\<exists>w'. transaction (ebind (record_password_reset_request_log now email uid sent ip agent) (\<lambda>_.
       ebind (audit_request rq a t i r c m) (\<lambda>_. commit))) w = (Inr (), w') \<and> reset_keys w' = reset_keys w @ [(email, ip, now)]"
  by (simp add: transaction_def record_password_reset_request_log_def draw_id_run audit_request_run commit_def reset_key_def run_simps)

lemma valid_record_reset:
  "valid (with_keys ks) (ebind (transaction (ebind (record_password_reset_request_log now email uid sent ip agent) (\<lambda>_.
     ebind (audit_request rq a t i r c m) (\<lambda>_. commit)))) (\<lambda>_. ret x)) (\<lambda>_. with_keys (ks @ [(email, ip, now)])) (with_keys ks)"
  unfolding valid_def
proof (intro allI impI)
  fix w
  assume "with_keys ks w"
  then show "case ebind (transaction (ebind (record_password_reset_request_log now email uid sent ip agent) (\<lambda>_.
     ebind (audit_request rq a t i r c m) (\<lambda>_. commit)))) (\<lambda>_. ret x) w of
       (Inl e, w') \<Rightarrow> with_keys ks w' | (Inr a, w') \<Rightarrow> with_keys (ks @ [(email, ip, now)]) w'"
    using record_reset_run [of now email uid sent ip agent rq a t i r c m w] by (auto simp: with_keys_def)
qed

lemma valid_keys_cases:
  assumes "valid (with_keys (reset_keys w)) m (\<lambda>_. with_keys ks) (with_keys (reset_keys w))"
  shows "reset_keys (snd (m w)) = reset_keys w \<or> reset_keys (snd (m w)) = ks"
proof (cases "m w")
  case (Pair r v)
  then show ?thesis
    using validD_Inl [OF assms, of w _ v] validD_Inr [OF assms, of w _ v] by (cases r) (simp_all add: with_keys_def)
qed

lemma request_reset_keys:
  fixes w :: world and email :: string and rq :: request and now :: time and lib :: lib and web :: web_settings
  defines "k \<equiv> (normalized_email email, get_client_ip rq, now)" and "w' \<equiv> snd (request_password_reset lib web now rq email w)"
  shows "reset_keys w' = reset_keys w \<or> reset_allowed web k (reset_keys w) \<and> reset_keys w' = reset_keys w @ [k]"
proof -
  obtain r v where run: "enforce_password_reset_request_limits web now (normalized_email email) (get_client_ip rq) w = (r, v)"
    by (metis surj_pair)
  note checked = enforce_run [OF run]
  show ?thesis
  proof (cases "r = Inr ()")
    case True
    define tail where "tail = (\<lambda>_::unit. ebind (select_one_or_none (\<lambda>w. filter (\<lambda>u. lower (us_email u) = normalized_email email) (users w))) (\<lambda>r.
         ebind (case r of
             Some u \<Rightarrow>
               if us_is_active u \<and> us_has_local_password u
               then try_catch (ebind (forgot_password lib web now u) (\<lambda>_. ret True)) (\<lambda>_. ret False)
               else ret False
           | None \<Rightarrow> ret False) (\<lambda>sent.
         ebind (transaction (
           ebind (record_password_reset_request_log now (normalized_email email) (map_option us_id r) sent (get_client_ip rq)
             (map_of (rq_headers rq) ''user-agent'')) (\<lambda>_.
           ebind (audit_success rq ''auth.password.reset.request'' ''user'' (map_option us_id r)
             [(''email'', MStr (normalized_email email)), (''was_sent'', MBool sent)]) (\<lambda>_.
           commit)))) (\<lambda>_.
         ret (detail ''If an account exists, we sent a password reset link.'')))))"
    have "valid (with_keys (reset_keys w)) (tail ()) (\<lambda>_. with_keys (reset_keys w @ [k])) (with_keys (reset_keys w))"
      unfolding tail_def k_def
      by (intro valid_ebind [OF valid_keeps] valid_record_reset keeps_keys_basic keeps_intros)
    moreover have "w' = snd (tail () w)"
      using run True checked unfolding w'_def request_password_reset_def tail_def Let_def by (simp add: try_catch_def)
    ultimately have "reset_keys w' = reset_keys w \<or> reset_keys w' = reset_keys w @ [k]"
      by (simp only: valid_keys_cases)
    then show ?thesis using True checked by (auto simp: k_def)
  next
    case False
    then obtain e where "r = Inl e" by (cases r) auto
    with run checked have "w' = snd (ebind ((\<lambda>e. case e of PasswordResetRateLimitedError _ \<Rightarrow>
               ebind (audit_failure rq ''auth.password.reset.request'' ''user'' None ''password_reset_rate_limited''
                 [(''email'', MStr (normalized_email email))]) (\<lambda>_. ebind commit (\<lambda>_. raise e)) | _ \<Rightarrow> raise e) e) undefined w)"
      unfolding w'_def request_password_reset_def Let_def
      by (cases e) (simp_all add: try_catch_def ebind_def audit_request_run commit_def)
    then show ?thesis by (cases e) (simp_all add: audit_request_run commit_def ebind_def)
  qed
qed

text \<open>Reset requests one after the other, and the rest of the program, which keeps the log. The source awaits the database and the mail between
  its check and the insert without a lock, so requests for one address that overlap are outside.\<close>

inductive reset_step :: "lib \<Rightarrow> web_settings \<Rightarrow> world \<Rightarrow> world \<Rightarrow> bool" for lib web where
  request: "reset_step lib web w (snd (request_password_reset lib web now rq email w))"
| kept: "reset_keys w' = reset_keys w \<Longrightarrow> reset_step lib web w w'"

definition resets_limited :: "web_settings \<Rightarrow> reset_key list \<Rightarrow> bool" where
  "resets_limited web ks \<longleftrightarrow> (\<forall>i < length ks. reset_allowed web (ks ! i) (take i ks))"

lemma resets_limited_snoc: "resets_limited web ks \<Longrightarrow> reset_allowed web k ks \<Longrightarrow> resets_limited web (ks @ [k])"
  by (auto simp: resets_limited_def nth_append less_Suc_eq)

lemma reset_step_limited: "reset_step lib web w w' \<Longrightarrow> resets_limited web (reset_keys w) \<Longrightarrow> resets_limited web (reset_keys w')"
  by (erule reset_step.cases) (use request_reset_keys resets_limited_snoc in metis)+

text \<open>C35: the requests for a password reset that the API answers for one email address are further apart than the cooldown, and at
  each of them fewer than the hourly limit have come from the same client address within the hour before.\<close>

theorem reset_requests_limited:
  assumes "password_reset_request_logs w = []" "(reset_step lib web)\<^sup>*\<^sup>* w w'"
    "i < j" "j < length (password_reset_request_logs w')"
    "a = password_reset_request_logs w' ! i" "b = password_reset_request_logs w' ! j"
  shows "(pr_requested_email a = pr_requested_email b \<longrightarrow>
      pr_gmt_created a + seconds (password_reset_request_cooldown_seconds web) < pr_gmt_created b) \<and>
    (pr_request_ip b \<noteq> None \<longrightarrow>
      int (length (filter (\<lambda>l. pr_request_ip l = pr_request_ip b \<and> pr_gmt_created b - seconds 3600 \<le> pr_gmt_created l)
        (take j (password_reset_request_logs w')))) < password_reset_ip_hourly_limit web)"
proof -
  let ?ls = "password_reset_request_logs w'"
  from assms(2) have "resets_limited web (reset_keys w')"
    by (induction rule: rtranclp_induct) (use assms(1) reset_step_limited in \<open>auto simp: resets_limited_def [of web "[]"]\<close>)
  with assms(4,6) have ok: "reset_allowed web (reset_key b) (map reset_key (take j ?ls))"
    by (simp add: resets_limited_def take_map)
  have "reset_key a \<in> set (map reset_key (take j ?ls))"
    using assms(3-5) by (auto simp: in_set_conv_nth intro!: imageI exI [of _ i])
  with ok have "pr_requested_email a = pr_requested_email b \<longrightarrow>
      pr_gmt_created a + seconds (password_reset_request_cooldown_seconds web) < pr_gmt_created b"
    unfolding reset_allowed_def reset_key_def [of b] case_prod_conv by (auto simp: reset_key_def)
  moreover have "int (length (recent_from i (pr_gmt_created b) (map reset_key (take j ?ls)))) < password_reset_ip_hourly_limit web"
    if "pr_request_ip b = Some i" for i
    using ok that unfolding reset_allowed_def reset_key_def [of b] case_prod_conv by blast
  then have "pr_request_ip b \<noteq> None \<longrightarrow>
      int (length (filter (\<lambda>l. pr_request_ip l = pr_request_ip b \<and> pr_gmt_created b - seconds 3600 \<le> pr_gmt_created l)
        (take j ?ls))) < password_reset_ip_hourly_limit web"
    by (auto simp: recent_from_def filter_map comp_def reset_key_def)
  ultimately show ?thesis by blast
qed

lemma case_twins_block_reset:
  assumes "filter (\<lambda>u. lower (us_email u) = normalized_email email) (users w) = u # v # us"
    and "reset_allowed web (normalized_email email, get_client_ip rq, now) (reset_keys w)"
  shows "request_password_reset lib web now rq email w = (Inl (CardinalityError MultipleResultsFound), w)"
proof -
  obtain r v where "enforce_password_reset_request_limits web now (normalized_email email) (get_client_ip rq) w = (r, v)"
    by (metis surj_pair)
  from enforce_run [OF this] this assms show ?thesis
    by (simp add: request_password_reset_def Let_def try_catch_def select_one_or_none_def)
qed

definition demo_reset :: "time \<Rightarrow> world \<Rightarrow> world" where
  "demo_reset t w = snd (request_password_reset demo_lib demo_web t demo_request ''A@x.io'' w)"

lemma demo_reset_run:
  "users w = [] \<Longrightarrow> reset_allowed demo_web (''a@x.io'', None, t) (reset_keys w) \<Longrightarrow>
   users (demo_reset t w) = [] \<and>
   map pr_gmt_created (password_reset_request_logs (demo_reset t w)) = map pr_gmt_created (password_reset_request_logs w) @ [t] \<and>
   reset_keys (demo_reset t w) = reset_keys w @ [(''a@x.io'', None, t)]"
proof -
  assume w: "users w = []" and ok: "reset_allowed demo_web (''a@x.io'', None, t) (reset_keys w)"
  have key: "normalized_email ''A@x.io'' = ''a@x.io''" "get_client_ip demo_request = None"
    by (code_simp, simp add: get_client_ip_def demo_request_def truthy_def)
  obtain r v where run: "enforce_password_reset_request_limits demo_web t ''a@x.io'' None w = (r, v)"
    by (metis surj_pair)
  from enforce_run [OF run] ok run w key show ?thesis
    by (simp add: demo_reset_def request_password_reset_def Let_def try_catch_def transaction_def record_password_reset_request_log_def
        draw_id_run audit_request_run commit_def store_rows_def reset_key_def run_simps)
qed

theorem reset_requests_limited_witness:
  "pr_gmt_created (password_reset_request_logs (demo_reset 60000001 (demo_reset 0 empty_world)) ! 0) + seconds 60 <
     pr_gmt_created (password_reset_request_logs (demo_reset 60000001 (demo_reset 0 empty_world)) ! 1)"
proof -
  let ?w = "demo_reset 60000001 (demo_reset 0 empty_world)"
  have one: "users (demo_reset 0 empty_world) = []" "reset_keys (demo_reset 0 empty_world) = [(''a@x.io'', None, 0)]"
    using demo_reset_run [of empty_world 0] by (simp_all add: empty_world_def reset_allowed_def)
  have two: "reset_keys ?w = [(''a@x.io'', None, 0), (''a@x.io'', None, 60000001)]"
    using demo_reset_run [of "demo_reset 0 empty_world" 60000001] one by (simp add: reset_allowed_def demo_web_def seconds_def)
  have "reset_step demo_lib demo_web w (demo_reset t w)" for t w
    unfolding demo_reset_def by (rule request)
  from this this have "(reset_step demo_lib demo_web)\<^sup>*\<^sup>* empty_world ?w"
    by (rule converse_rtranclp_into_rtranclp [OF _ r_into_rtranclp])
  moreover obtain a b where ab: "password_reset_request_logs ?w = [a, b]" "reset_key a = (''a@x.io'', None, 0)"
    "reset_key b = (''a@x.io'', None, 60000001)"
    using two by (auto simp: map_eq_Cons_conv)
  moreover from ab(2,3) have "pr_requested_email a = pr_requested_email b" by (simp add: reset_key_def)
  moreover have "password_reset_request_logs empty_world = []" by (simp add: empty_world_def)
  ultimately show ?thesis
    using reset_requests_limited [of empty_world demo_lib demo_web ?w 0 1 a b] unfolding ab(1)
    by (simp add: demo_web_def)
qed

subsection \<open>Login by OAuth\<close>

definition signs_in :: "response \<Rightarrow> bool" where
  "signs_in r \<longleftrightarrow> (\<exists>c \<in> set (rs_cookies r). co_key c = ''session'')"

lemma redirects_without_session [simp]:
  "\<not> signs_in (clear_oauth_flow_cookies provider (oauth_login_redirect return_to m))"
  "\<not> signs_in (clear_oauth_flow_cookies provider (cli_oauth_redirect fid outcome m'))"
  by (auto simp: signs_in_def clear_oauth_flow_cookies_def delete_cookie_def set_cookie_def oauth_login_redirect_def
      cli_oauth_redirect_def redirect_response_def oauth_csrf_cookie_name_def oauth_return_to_cookie_name_def)

lemma oauth_failed_no_session:
  "oauth_failed now provider fid return_to m m' w = (Inr r, w') \<Longrightarrow> \<not> signs_in r \<and> users w' = users w \<and> oauth_accounts w' = oauth_accounts w"
proof -
  assume run: "oauth_failed now provider fid return_to m m' w = (Inr r, w')"
  have "keeps (\<lambda>v. users v = users w \<and> oauth_accounts v = oauth_accounts w) (fail_cli_flow now i)" for i
    unfolding fail_cli_flow_def fail_begin_def fail_finish_def get_flow_def
    by (intro keeps_intros) (simp_all add: keeps_def commit_def store_rows_def)
  then have "keeps (\<lambda>v. users v = users w \<and> oauth_accounts v = oauth_accounts w) (oauth_failed now provider fid return_to m m')"
    unfolding oauth_failed_def by (intro keeps_intros)
  from keepsD_run [OF this _ run] run show ?thesis
    by (auto simp: oauth_failed_def elim!: ebind_InrE split: if_splits)
qed

text \<open>C15: the OAuth callback sets a session cookie, or changes users or linked accounts, only for a request that carries a
  code, a state signed by the program for this provider and not expired, and the cookie of the browser that started this
  login: its value is the one in the state.\<close>

theorem oauth_callback_needs_own_state:
  assumes "jwt_ok lib" "oauth_callback lib web oc now limits provider rq code state error d w = (Inr r, w')"
    and "(\<exists>c \<in> set (rs_cookies r). co_key c = ''session'') \<or> users w' \<noteq> users w \<or> oauth_accounts w' \<noteq> oauth_accounts w"
  shows "code \<noteq> None \<and> error = None \<and> (\<exists>p csrf. state = Some (jwt_encode lib p) \<and> claims_valid now (Some OAUTH_STATE_AUDIENCE) p \<and>
    claim_str p ''provider'' = Some provider \<and> csrf \<noteq> '''' \<and> claim_str p ''csrf'' = Some csrf \<and>
    map_of (rq_cookies rq) (oauth_csrf_cookie_name provider) = Some csrf)"
proof -
  have changed: "signs_in r \<or> users w' \<noteq> users w \<or> oauth_accounts w' \<noteq> oauth_accounts w" using assms(3) by (simp add: signs_in_def)
  from assms(2) obtain conf: "oauth_configured web provider"
    by (auto simp: oauth_callback_def get_oauth_client_def elim!: ebind_InrE split: if_splits)
  show ?thesis
  proof (cases state)
    case None
    with assms(2) conf changed show ?thesis
      by (auto simp: oauth_callback_def get_oauth_client_def Let_def dest!: oauth_failed_no_session elim!: ebind_InrE split: option.splits if_splits)
  next
    case (Some s)
    show ?thesis
    proof (cases "decode_oauth_state lib now s")
      case (Inl e)
      with assms(2) conf changed Some show ?thesis
        by (auto simp: oauth_callback_def get_oauth_client_def Let_def elim!: ebind_InrE split: option.splits if_splits)
    next
      case (Inr p)
      then have "s = jwt_encode lib p" "claims_valid now (Some OAUTH_STATE_AUDIENCE) p"
        using assms(1) by (auto simp: decode_oauth_state_def dest!: jwt_decodeD split: option.splits)
      moreover have "code \<noteq> None" "error = None" "claim_str p ''provider'' = Some provider" "csrf_matches rq provider p"
        using assms(2) conf changed Some Inr
        by (auto simp: oauth_callback_def get_oauth_client_def Let_def dest!: oauth_failed_no_session elim!: ebind_InrE
            split: option.splits if_splits)
      ultimately show ?thesis using Some by (auto simp: csrf_matches_def Let_def truthy_def)
    qed
  qed
qed

definition demo_state :: claims where
  "demo_state = [(''aud'', MStr OAUTH_STATE_AUDIENCE), (''provider'', MStr ''google''), (''csrf'', MStr ''c''), (''exp'', MInt 600)]"

definition demo_callback :: "response op" where
  "demo_callback = oauth_callback (token_lib demo_lib) demo_web demo_oauth 0 demo_limits ''google''
     (demo_request\<lparr>rq_cookies := [(''oauth_google_csrf'', ''c'')]\<rparr>) (Some ''u1@x.io'') (Some (put_claims demo_state)) None None"

text \<open>Also for a user who has been disabled: nothing checks \<^verbatim>\<open>is_active\<close> on this way in.\<close>

lemma oauth_signs_in_disabled:
  "\<exists>r w'. demo_callback (demo_identity\<lparr>users := [(demo_user ''u1'' ADMIN)\<lparr>us_is_active := b\<rparr>]\<rparr>) = (Inr r, w') \<and> (\<exists>c \<in> set (rs_cookies r). co_key c = ''session'')"
proof -
  have "decode_oauth_state (token_lib demo_lib) 0 (put_claims demo_state) = Inr demo_state"
    using jwt_decode_encode [OF token_lib_ok, of demo_state demo_lib 0 "Some OAUTH_STATE_AUDIENCE"]
    by (simp add: decode_oauth_state_def json_claims_def demo_state_def claims_valid_def token_lib_def seconds_def)
  moreover have "csrf_matches (demo_request\<lparr>rq_cookies := [(''oauth_google_csrf'', ''c'')]\<rparr>) ''google'' demo_state"
    by (simp add: csrf_matches_def oauth_csrf_cookie_name_def claim_str_def demo_state_def truthy_def)
  moreover have "resolve_browser_return_to (token_lib demo_lib) demo_web (demo_request\<lparr>rq_cookies := [(''oauth_google_csrf'', ''c'')]\<rparr>)
      ''google'' (Some demo_state) = Inr None"
    by (simp add: resolve_browser_return_to_def claim_str_def demo_state_def truthy_def oauth_return_to_cookie_name_def Let_def)
  moreover have "claim_str demo_state ''provider'' = Some ''google''" "claim_str demo_state ''cli_flow_id'' = None"
    by (simp_all add: claim_str_def demo_state_def)
  ultimately show ?thesis
    by (simp add: demo_callback_def oauth_callback_def get_oauth_client_def oauth_configured_def demo_web_def get_oauth_identity_def
        truthy_def oauth_sign_in_def oauth_outcome_of_def user_with_email_def demo_oauth_def demo_identity_defs
        manager_oauth_callback_def oauth_complete_def set_user_def get_user_row_def record_oauth_success_events_def
        audit_request_run commit_def store_rows_def run_simps Let_def select_one_or_none_def
        clear_oauth_flow_cookies_def delete_cookie_def set_cookie_def write_session_cookie_def redirect_response_def)
qed

definition demo_single :: world where
  "demo_single = demo_identity\<lparr>users := [(demo_user ''u1'' ADMIN)\<lparr>us_is_active := True\<rparr>]\<rparr>"

theorem oauth_callback_needs_own_state_witness:
  "\<exists>r w' csrf. demo_callback demo_single = (Inr r, w') \<and> csrf \<noteq> '''' \<and>
     map_of [(''oauth_google_csrf'', ''c'')] (oauth_csrf_cookie_name ''google'') = Some csrf"
proof -
  obtain r w' where run: "demo_callback demo_single = (Inr r, w')" and c: "\<exists>c \<in> set (rs_cookies r). co_key c = ''session''"
    using oauth_signs_in_disabled [of True] unfolding demo_single_def by blast
  obtain p csrf where "put_claims demo_state = put_claims p" "claims_valid 0 (Some OAUTH_STATE_AUDIENCE) p" "csrf \<noteq> ''''"
    "claim_str p ''csrf'' = Some csrf" "map_of [(''oauth_google_csrf'', ''c'')] (oauth_csrf_cookie_name ''google'') = Some csrf"
    using oauth_callback_needs_own_state [OF token_lib_ok run [unfolded demo_callback_def] disjI1, OF c]
    by (auto simp: token_lib_def demo_request_def)
  with run show ?thesis by blast
qed

subsection \<open>Deleting and listing users\<close>

text \<open>A user with a linked OAuth account, or one who ever ran a sandbox, cannot be deleted: the database refuses.\<close>

lemma linked_user_cannot_be_deleted:
  assumes "uid \<noteq> us_id cu" "find (\<lambda>u. us_id u = uid) (users w) = Some target" "us_role target \<noteq> ADMIN"
    and "(\<exists>a \<in> set (oauth_accounts w). oa_user_id a = uid) \<or> (\<exists>c \<in> set (compute_sessions w). cs_user_id c = uid)"
  shows "fst (delete_user cu rq uid w) = Inl IntegrityError" "users (snd (delete_user cu rq uid w)) = users w"
proof -
  have "user_is_referenced uid (w\<lparr>audit_events := a\<rparr>)" for a
    using assms(4) by (auto simp: user_is_referenced_def)
  then show "fst (delete_user cu rq uid w) = Inl IntegrityError" "users (snd (delete_user cu rq uid w)) = users w"
    using assms(1-3)
    by (simp_all add: delete_user_def get_user_row_def delete_user_row_def run_simps transaction_def rollback_rows_def)
qed

text \<open>An administrator's filter is a pattern, another user's a plain substring.\<close>

lemma email_filter_is_pattern:
  "ilike ''axb@x.io'' (''%'' @ ''a_b'' @ ''%'') \<and> \<not> contains (lower ''a_b'') (lower ''axb@x.io'')"
  by code_simp

end
