(* ===== verification/Web_Safety.thy ===== *)
theory Web_Safety
  imports Tenant_Safety Token_Model
begin

text \<open>
  Browser access to a sandbox end to end. Shown: the subdomain middleware passes a request or a WebSocket on only with a
  valid cookie for this sandbox; a user who is sent to the bootstrap endpoint comes back with such a cookie, to the page
  asked for; a revoked open link takes its cookies with it; and the bootstrap endpoint can be made to
  send a ticket to another host.
\<close>

subsection \<open>Who the middleware lets through\<close>

definition live_sandbox :: "world \<Rightarrow> string \<Rightarrow> sandbox \<Rightarrow> bool" where
  "live_sandbox w sid s \<longleftrightarrow> s \<in> set (sandboxes w) \<and> sb_id s = sid \<and> sb_gmt_deleted s = None"

text \<open>The link of a sandbox that opens it now.\<close>

definition active_link :: "time \<Rightarrow> world \<Rightarrow> string \<Rightarrow> web_link \<Rightarrow> bool" where
  "active_link now w sid l \<longleftrightarrow> l \<in> set (web_links w) \<and> wl_sandbox_id l = sid \<and> wl_gmt_deleted l = None \<and> \<not> link_is_expired now l"

text \<open>Claims that open a sandbox: signed by the program for it, not expired, and backed by its link when they
  came from one.\<close>

definition cookie_claims :: "time \<Rightarrow> world \<Rightarrow> string \<Rightarrow> claims \<Rightarrow> bool" where
  "cookie_claims now w sid p \<longleftrightarrow>
     claims_valid now None p \<and> claim_str p ''kind'' = Some ''sandbox_web'' \<and> claim_str p ''sandbox_id'' = Some sid \<and>
     (claim_str p ''issued_via'' = Some ''open_link'' \<longrightarrow> (\<exists>l. active_link now w sid l \<and> claim_str p ''link_id'' = Some (wl_id l)))"

lemma load_active_web_link_in:
  assumes "load_active_web_link now sid w = (Inr (Some l), w')"
  shows "active_link now w sid l"
proof -
  from assms obtain v where "select_one_or_none (\<lambda>w. filter (\<lambda>l. wl_sandbox_id l = sid \<and> wl_gmt_deleted l = None) (web_links w)) w = (Inr (Some l), v)"
    and "\<not> link_is_expired now l"
    unfolding load_active_web_link_def by (elim ebind_InrE) (auto split: option.splits if_splits)
  then show ?thesis
    by (auto simp: active_link_def select_one_or_none_def split: sum.splits elim!: scalar_one_or_none.elims dest: filter_singleD)
qed

lemma validate_cookie_in:
  assumes "jwt_ok lib" "validate_sandbox_cookie lib now s token w = (Inr True, w')"
  shows "\<exists>p. token = Some (jwt_encode lib p) \<and> json_claims p \<and> cookie_claims now w (sb_id s) p"
proof -
  from assms(2) obtain t p where t: "token = Some t" "verify_sandbox_web_cookie lib now t = Some p"
    by (auto simp: validate_sandbox_cookie_def truthy_def split: if_splits option.splits)
  then have p: "jwt_decode lib now None t = Some p" "claim_str p ''kind'' = Some ''sandbox_web''"
    by (auto simp: verify_sandbox_web_cookie_def split: option.splits if_splits)
  have sid: "claim_str p ''sandbox_id'' = Some (sb_id s)"
    using assms(2) t by (auto simp: validate_sandbox_cookie_def split: if_splits)
  have "\<exists>l. active_link now w (sb_id s) l \<and> claim_str p ''link_id'' = Some (wl_id l)" if "claim_str p ''issued_via'' = Some ''open_link''"
    using assms(2) t sid that
    by (auto simp: validate_sandbox_cookie_def Let_def truthy_def elim!: ebind_InrE dest!: load_active_web_link_in split: if_splits)
  with p sid t show ?thesis using jwt_decodeD [OF assms(1) p(1)] by (auto simp: cookie_claims_def)
qed

lemma validate_reads: "validate_sandbox_cookie lib now s token w = (r, w') \<Longrightarrow> w' = w"
proof -
  have "keeps (\<lambda>v. v = w) (validate_sandbox_cookie lib now s token)"
    unfolding validate_sandbox_cookie_def load_active_web_link_def Let_def by (intro keeps_intros)
  then show "validate_sandbox_cookie lib now s token w = (r, w') \<Longrightarrow> w' = w" by (rule keepsD_run) simp
qed

lemma load_sandbox_in: "load_sandbox sid w = (Inr (Some s), w') \<Longrightarrow> live_sandbox w sid s \<and> w' = w"
  by (auto simp: live_sandbox_def load_sandbox_def select_one_or_none_def split: sum.splits elim!: scalar_one_or_none.elims dest: filter_singleD)

definition passed_on :: "web_outcome \<Rightarrow> bool" where
  "passed_on r \<longleftrightarrow> (case r of Forwarded _ _ \<Rightarrow> True | Socket (WsRelayed _ _) \<Rightarrow> True | _ \<Rightarrow> False)"

lemma handle_http_in:
  assumes "handle_http jar lib cfg web up now rq body sid host w = (Inr r, w')" "passed_on r"
  shows "\<exists>s. live_sandbox w sid s \<and> sb_status s = READY \<and>
    fst (validate_sandbox_cookie lib now s (map_of (rq_cookies rq) SANDBOX_WEB_COOKIE_NAME) w) = Inr True"
  using assms unfolding handle_http_def
  by (elim ebind_InrE)
     (auto simp: passed_on_def split: option.splits if_splits sum.splits elim!: ebind_InrE dest!: load_sandbox_in; metis fst_conv)

lemma handle_websocket_in:
  assumes "handle_websocket lib cfg web up now rq sid w = (Inr r, w')" "passed_on r"
  shows "\<exists>s. live_sandbox w sid s \<and> sb_status s = READY \<and>
    fst (validate_sandbox_cookie lib now s (map_of (rq_cookies rq) SANDBOX_WEB_COOKIE_NAME) w) = Inr True"
  using assms unfolding handle_websocket_def Let_def
  by (elim ebind_InrE)
     (auto simp: passed_on_def split: option.splits if_splits sum.splits elim!: ebind_InrE dest!: load_sandbox_in; metis fst_conv)

text \<open>C7: the subdomain middleware passes an HTTP request or a WebSocket on to a sandbox only if the host names a live, ready
  sandbox and the request carries a cookie that the program signed for this sandbox, that has not expired and
  that, if it came from an open link, belongs to the link the sandbox has now.\<close>

theorem subdomain_access_needs_cookie:
  assumes "jwt_ok lib" "subdomain_middleware jar lib cfg web up ws_up now scope rq body w = (Inr r, w')" "passed_on r"
  shows "\<exists>host sid s p. map_of (rq_headers rq) ''host'' = Some host \<and>
    extract_sandbox_id host (sandbox_domain web) (sandbox_subdomain_prefix web) = Some sid \<and>
    live_sandbox w sid s \<and> sb_status s = READY \<and>
    map_of (rq_cookies rq) SANDBOX_WEB_COOKIE_NAME = Some (jwt_encode lib p) \<and> cookie_claims now w sid p"
proof -
  from assms(2,3) obtain host sid where host: "map_of (rq_headers rq) ''host'' = Some host"
    "extract_sandbox_id host (sandbox_domain web) (sandbox_subdomain_prefix web) = Some sid" and
    run: "handle_http jar lib cfg web up now rq body sid host w = (Inr r, w') \<or> handle_websocket lib cfg web ws_up now rq sid w = (Inr r, w')"
    by (auto simp: subdomain_middleware_def Let_def truthy_def passed_on_def split: if_splits option.splits)
  from run obtain s where s: "live_sandbox w sid s" "sb_status s = READY"
    "fst (validate_sandbox_cookie lib now s (map_of (rq_cookies rq) SANDBOX_WEB_COOKIE_NAME) w) = Inr True"
    using handle_http_in handle_websocket_in assms(3) by metis
  moreover have "sb_id s = sid" using s(1) by (simp add: live_sandbox_def)
  ultimately obtain p where "map_of (rq_cookies rq) SANDBOX_WEB_COOKIE_NAME = Some (jwt_encode lib p)" "cookie_claims now w sid p"
    using validate_cookie_in [OF assms(1)] by (metis prod.collapse)
  with host s show ?thesis by blast
qed

subsection \<open>The host of a sandbox\<close>

definition sandbox_host :: "web_settings \<Rightarrow> string \<Rightarrow> string" where
  "sandbox_host web sid = sandbox_subdomain_prefix web @ sid @ ''.'' @ sandbox_domain web"

definition host_char :: "char \<Rightarrow> bool" where
  "host_char c \<longleftrightarrow> lower_char c = c \<and> c \<notin> {CHR '':'', CHR ''/'', CHR ''?'', CHR ''#'', CHR ''@'', CHR ''['', CHR '']''} \<and> \<not> unsafe_url_byte c"

text \<open>A prefix, an id and a domain that make up a host name.\<close>

definition host_ok :: "web_settings \<Rightarrow> string \<Rightarrow> bool" where
  "host_ok web sid \<longleftrightarrow> sid \<noteq> '''' \<and> sandbox_domain web \<noteq> '''' \<and> CHR ''.'' \<notin> set (sandbox_subdomain_prefix web @ sid) \<and>
     list_all host_char (sandbox_subdomain_prefix web @ sid @ sandbox_domain web)"

lemma host_chars: "host_ok web sid \<Longrightarrow> c \<in> set (sandbox_host web sid) \<Longrightarrow> host_char c"
proof -
  have "host_char (CHR ''.'')" by (simp add: host_char_def lower_char_def unsafe_url_byte_def)
  then show "host_ok web sid \<Longrightarrow> c \<in> set (sandbox_host web sid) \<Longrightarrow> host_char c"
    by (auto simp: host_ok_def sandbox_host_def list_all_iff)
qed

lemma lower_id: "(\<And>c. c \<in> set s \<Longrightarrow> lower_char c = c) \<Longrightarrow> lower s = s"
  by (simp add: lower_def map_idI)

lemma host_lower:
  assumes "host_ok web sid"
  shows "lower (hd (split_on (CHR '':'') (sandbox_host web sid))) = sandbox_host web sid" "lower (sandbox_domain web) = sandbox_domain web"
proof -
  have "CHR '':'' \<notin> set (sandbox_host web sid)" using host_chars [OF assms] by (auto simp: host_char_def)
  moreover have "lower (sandbox_host web sid) = sandbox_host web sid"
    using host_chars [OF assms] by (intro lower_id) (simp add: host_char_def)
  ultimately show "lower (hd (split_on (CHR '':'') (sandbox_host web sid))) = sandbox_host web sid" by (simp add: split_on_no_sep)
  show "lower (sandbox_domain web) = sandbox_domain web"
    using assms by (intro lower_id) (auto simp: host_ok_def list_all_iff host_char_def)
qed

lemma extract_own_host:
  assumes "host_ok web sid"
  shows "extract_sandbox_id (sandbox_host web sid) (sandbox_domain web) (sandbox_subdomain_prefix web) = Some sid"
    "extract_sandbox_id_from_return_host web (sandbox_host web sid) = Some sid"
proof -
  let ?sub = "sandbox_subdomain_prefix web @ sid"
  have host: "sandbox_host web sid = ?sub @ CHR ''.'' # sandbox_domain web" by (simp add: sandbox_host_def)
  have cut: "endswith (sandbox_host web sid) (CHR ''.'' # sandbox_domain web)"
    "take (length (sandbox_host web sid) - (length (sandbox_domain web) + 1)) (sandbox_host web sid) = ?sub"
    by (simp_all add: host endswith_def)
  have sub: "?sub \<noteq> ''''" "CHR ''.'' \<notin> set ?sub" "startswith ?sub (sandbox_subdomain_prefix web)" "drop (length (sandbox_subdomain_prefix web)) ?sub = sid"
    using assms by (simp_all add: host_ok_def startswith_def)
  show "extract_sandbox_id (sandbox_host web sid) (sandbox_domain web) (sandbox_subdomain_prefix web) = Some sid"
    unfolding extract_sandbox_id_def Let_def host_lower [OF assms] cut using cut(1) sub assms by (simp add: host_ok_def)
  show "extract_sandbox_id_from_return_host web (sandbox_host web sid) = Some sid"
    unfolding extract_sandbox_id_from_return_host_def Let_def host_lower [OF assms] cut using cut(1) sub assms by (simp add: host_ok_def)
qed

definition page_ok :: "string \<Rightarrow> string \<Rightarrow> bool" where
  "page_ok path query \<longleftrightarrow> startswith path ''/'' \<and> \<not> startswith path ''//'' \<and>
     list_all (\<lambda>c. c \<notin> {CHR ''?'', CHR ''#'', CHR '';''} \<and> \<not> unsafe_url_byte c) path \<and>
     list_all (\<lambda>c. c \<noteq> CHR ''#'' \<and> \<not> unsafe_url_byte c) query"

lemma validate_return_to_own:
  assumes "host_ok web sid" "scheme \<in> {''http'', ''https''}" "page_ok path query"
  shows "validate_browser_return_to lib web (scheme @ ''://'' @ sandbox_host web sid @ page_address path query) =
    Inr \<lparr>bt_scheme = scheme, bt_netloc = sandbox_host web sid, bt_sandbox_id = sid, bt_next_path = page_address path query\<rparr>"
proof -
  have "urlparse (ipv6_ok lib) (scheme @ ''://'' @ sandbox_host web sid @ page_address path query) =
    Some \<lparr>pu_scheme = scheme, pu_netloc = sandbox_host web sid, pu_path = path, pu_params = '''', pu_query = query, pu_fragment = ''''\<rparr>"
    using assms(2,3) host_chars [OF assms(1)]
    by (intro urlparse_page) (auto simp: page_ok_def list_all_iff host_char_def ends_netloc_def netloc_ok_def)
  moreover have "sandbox_host web sid \<noteq> ''''" by (simp add: sandbox_host_def)
  moreover have "path \<noteq> ''''" using assms(3) by (auto simp: page_ok_def startswith_def)
  ultimately show ?thesis
    using extract_own_host(2) [OF assms(1)] assms(2) by (auto simp: validate_browser_return_to_def page_address_def)
qed

subsection \<open>From the bootstrap endpoint back to the sandbox\<close>

definition ticket_query :: "lib \<Rightarrow> time \<Rightarrow> string \<Rightarrow> string \<Rightarrow> string" where
  "ticket_query lib now sid next_path = urlencode [(''ticket'', issue_bootstrap_ticket lib now sid next_path), (''next'', next_path)]"

lemma timestamp_bounds: "seconds (timestamp t) \<le> t" "t < seconds (timestamp t) + seconds 1"
  by (simp_all add: timestamp_def seconds_def)

lemma timestamp_shift: "timestamp (t + seconds n) = timestamp t + n"
  by (simp add: timestamp_def seconds_def)

lemma exp_valid:
  assumes "t + seconds 1 \<le> now + seconds n" "map_of p ''exp'' = Some (MInt (timestamp (now + seconds n)))" "map_of p ''aud'' = None"
  shows "claims_valid t None p"
proof -
  have "t < seconds (timestamp (now + seconds n))"
    using assms(1) timestamp_bounds(2) [of "now + seconds n"] by simp
  with assms(2,3) show ?thesis by (simp add: claims_valid_def)
qed

lemma ticket_accepted:
  assumes "jwt_ok lib" "t + seconds 1 \<le> now + seconds BOOTSTRAP_TICKET_TTL_SECONDS"
  shows "\<exists>p. verify_bootstrap_ticket lib t (issue_bootstrap_ticket lib now sid next_path) = Some p \<and>
    claim_str p ''sandbox_id'' = Some sid \<and> map_of p ''next_path'' = Some (MStr next_path)"
proof -
  let ?p = "[(''kind'', MStr ''bootstrap''), (''sandbox_id'', MStr sid), (''next_path'', MStr next_path),
       (''exp'', MInt (timestamp (now + seconds BOOTSTRAP_TICKET_TTL_SECONDS)))]"
  have "claims_valid t None ?p" by (rule exp_valid [OF assms(2)]) simp_all
  moreover have "json_claims ?p" by (simp add: json_claims_def)
  ultimately have "jwt_decode lib t None (issue_bootstrap_ticket lib now sid next_path) = Some ?p"
    using jwt_decode_encode [OF assms(1), of ?p t None] by (simp add: issue_bootstrap_ticket_def)
  then show ?thesis by (simp add: verify_bootstrap_ticket_def claim_str_def)
qed

lemma bootstrap_cookie_accepted:
  assumes "jwt_ok lib" "t + seconds 1 \<le> now + seconds SANDBOX_WEB_COOKIE_TTL_SECONDS"
    and "truthy (Some (issue_sandbox_web_cookie lib now (sb_id s) ''bootstrap'' None))"
  shows "validate_sandbox_cookie lib t s (Some (issue_sandbox_web_cookie lib now (sb_id s) ''bootstrap'' None)) w = (Inr True, w)"
proof -
  let ?p = "[(''kind'', MStr ''sandbox_web''), (''sandbox_id'', MStr (sb_id s)), (''issued_via'', MStr ''bootstrap''),
       (''exp'', MInt (timestamp (now + seconds SANDBOX_WEB_COOKIE_TTL_SECONDS)))]"
  have "claims_valid t None ?p" by (rule exp_valid [OF assms(2)]) simp_all
  moreover have "json_claims ?p" by (simp add: json_claims_def)
  ultimately have "verify_sandbox_web_cookie lib t (issue_sandbox_web_cookie lib now (sb_id s) ''bootstrap'' None) = Some ?p"
    using jwt_decode_encode [OF assms(1), of ?p t None]
    by (simp add: issue_sandbox_web_cookie_def verify_sandbox_web_cookie_def claim_str_def)
  with assms(3) show ?thesis by (simp add: validate_sandbox_cookie_def claim_str_def)
qed

text \<open>The request of a browser that follows the redirect to the open page.\<close>

definition opens :: "web_settings \<Rightarrow> string \<Rightarrow> string \<Rightarrow> request \<Rightarrow> bool" where
  "opens web sid query rq \<longleftrightarrow> rq_path rq = ''/_treadstone/open'' \<and>
     map_of (rq_headers rq) ''host'' = Some (sandbox_host web sid) \<and> rq_query rq = parse_qsl query"

lemma load_sandbox_live:
  assumes "distinct (map sb_id (sandboxes w))" "live_sandbox w sid s"
  shows "load_sandbox sid w = (Inr (Some s), w)"
proof -
  let ?q = "filter (\<lambda>s. sb_id s = sid \<and> sb_gmt_deleted s = None) (sandboxes w)"
  have "s \<in> set ?q" using assms(2) by (simp add: live_sandbox_def)
  moreover have "?q = filter (\<lambda>s. sb_gmt_deleted s = None) (filter (\<lambda>s. sb_id s = sid) (sandboxes w))" by (simp add: conj_commute)
  then have "length ?q \<le> 1"
    using length_filter_distinct_key [OF assms(1), of sid] by (metis length_filter_le order_trans)
  ultimately have "?q = [s]" by (cases ?q) auto
  then show ?thesis by (simp add: load_sandbox_def)
qed

lemma parse_ticket_query:
  assumes "jwt_ok lib"
  shows "map_of (parse_qsl (ticket_query lib now sid next_path)) ''ticket'' = Some (issue_bootstrap_ticket lib now sid next_path)"
    "issue_bootstrap_ticket lib now sid next_path \<noteq> ''''"
proof -
  show "issue_bootstrap_ticket lib now sid next_path \<noteq> ''''"
    unfolding issue_bootstrap_ticket_def using assms by (rule jwt_encode_nonempty) simp
  then show "map_of (parse_qsl (ticket_query lib now sid next_path)) ''ticket'' = Some (issue_bootstrap_ticket lib now sid next_path)"
    by (simp add: ticket_query_def parse_qsl_urlencode)
qed

lemma ticket_exchange:
  assumes jwt: "jwt_ok lib" and t: "t + seconds 1 \<le> now + seconds BOOTSTRAP_TICKET_TTL_SECONDS"
    and path: "sanitize_next_path (Some next_path) = next_path"
    and rq: "rq_query rq = parse_qsl (ticket_query lib now (sb_id s) next_path)"
  shows "exchange_open_credentials lib web t rq s w =
    (Inr (set_sandbox_cookie lib web t (sb_id s) ''bootstrap'' None (redirect_response next_path)), snd (touch_last_active t (sb_id s) w))"
proof -
  obtain p where p: "verify_bootstrap_ticket lib t (issue_bootstrap_ticket lib now (sb_id s) next_path) = Some p"
    "claim_str p ''sandbox_id'' = Some (sb_id s)" "map_of p ''next_path'' = Some (MStr next_path)"
    using ticket_accepted [OF jwt t] by blast
  have "map_of (rq_query (set_scope_context [(''sandbox_id'', Some (sb_id s))] rq)) ''ticket'' =
      Some (issue_bootstrap_ticket lib now (sb_id s) next_path)"
    using parse_ticket_query(1) [OF jwt] rq by simp
  moreover have "touch_last_active t (sb_id s) w = (Inr (), snd (touch_last_active t (sb_id s) w))"
    by (simp add: touch_last_active_def best_effort_def try_catch_def commit_def)
  ultimately show ?thesis
    unfolding exchange_open_credentials_def Let_def
    using p parse_ticket_query(2) [OF jwt, of now "sb_id s" next_path] path
    by (simp add: truthy_def ticket_path_def)
qed

lemma get_owned:
  assumes "distinct (map sb_id (sandboxes w))" "live_sandbox w sid s" "sb_owner_id s = us_id u"
  shows "get_sandbox sid (us_id u) w = (Inr (Some s), w)"
  using assms
  by (rule_tac get_sandbox_cases [OF assms(1), of sid "us_id u"]) (auto simp: live_sandbox_def distinct_map inj_on_def)

lemma bootstrap_run:
  assumes ids: "distinct (map sb_id (sandboxes w))" and s: "live_sandbox w sid s" "sb_owner_id s = us_id u"
    and host: "host_ok web sid" "scheme \<in> {''http'', ''https''}" "page_ok path query"
  shows "browser_bootstrap lib web now (scheme @ ''://'' @ sandbox_host web sid @ page_address path query) (Some u) w =
    (Inr (redirect_response (scheme @ ''://'' @ sandbox_host web sid @ ''/_treadstone/open?'' @
       ticket_query lib now sid (page_address path query))), w)"
proof -
  have "sb_id s = sid" using s(1) by (simp add: live_sandbox_def)
  then show ?thesis
    using get_owned [OF ids s] validate_return_to_own [OF host, of lib] by (simp add: browser_bootstrap_def ticket_query_def Let_def)
qed

text \<open>C14: the owner of a sandbox whose browser is sent from the sandbox to the bootstrap endpoint gets a ticket there that,
  used within five minutes, brings the browser back to the page asked for, with a cookie that opens the sandbox for
  thirty days (a second less in both cases, as tokens carry whole seconds).\<close>

theorem bootstrap_opens_sandbox:
  assumes jwt: "jwt_ok lib" and ids: "distinct (map sb_id (sandboxes w))"
    and s: "live_sandbox w sid s" "sb_owner_id s = us_id u"
    and host: "host_ok web sid" "scheme \<in> {''http'', ''https''}" "page_ok path query"
    and t: "t + seconds 1 \<le> now + seconds 300"
    and open_rq: "opens web sid (ticket_query lib now sid (page_address path query)) rq"
  shows "(\<exists>r. browser_bootstrap lib web now (scheme @ ''://'' @ sandbox_host web sid @ page_address path query) (Some u) w = (Inr r, w) \<and>
      rs_location r = Some (scheme @ ''://'' @ sandbox_host web sid @ ''/_treadstone/open?'' @
        ticket_query lib now sid (page_address path query))) \<and>
    (\<exists>r c w'. subdomain_middleware jar lib cfg web up ws_up t SCOPE_HTTP rq body w = (Inr (Sent r), w') \<and>
      rs_location r = Some (page_address path query) \<and> rs_cookies r = [c] \<and> co_key c = SANDBOX_WEB_COOKIE_NAME \<and>
      (\<forall>t' v. t' + seconds 1 \<le> t + seconds SANDBOX_WEB_COOKIE_TTL_SECONDS \<longrightarrow>
        validate_sandbox_cookie lib t' s (Some (co_value c)) v = (Inr True, v)))"
proof
  show "\<exists>r. browser_bootstrap lib web now (scheme @ ''://'' @ sandbox_host web sid @ page_address path query) (Some u) w = (Inr r, w) \<and>
      rs_location r = Some (scheme @ ''://'' @ sandbox_host web sid @ ''/_treadstone/open?'' @
        ticket_query lib now sid (page_address path query))"
    using bootstrap_run [OF ids s host, of lib now] by (auto simp: redirect_response_def)
  have sid: "sb_id s = sid" using s(1) by (simp add: live_sandbox_def)
  have path: "sanitize_next_path (Some (page_address path query)) = page_address path query"
    using host(3) by (cases path rule: remdups_adj.cases) (auto simp: sanitize_next_path_def truthy_def page_address_def page_ok_def startswith_def)
  let ?c = "issue_sandbox_web_cookie lib t (sb_id s) ''bootstrap'' None"
  have "truthy (Some ?c)"
    using jwt_encode_nonempty [OF jwt] by (simp add: truthy_def issue_sandbox_web_cookie_def)
  note cookie = bootstrap_cookie_accepted [OF jwt _ this]
  have run: "exchange_open_credentials lib web t rq s w =
    (Inr (set_sandbox_cookie lib web t (sb_id s) ''bootstrap'' None (redirect_response (page_address path query))), snd (touch_last_active t (sb_id s) w))"
    using t open_rq sid by (intro ticket_exchange [OF jwt _ path]) (simp_all add: BOOTSTRAP_TICKET_TTL_SECONDS_def opens_def)
  have "subdomain_middleware jar lib cfg web up ws_up t SCOPE_HTTP rq body w =
    (Inr (Sent (set_sandbox_cookie lib web t (sb_id s) ''bootstrap'' None (redirect_response (page_address path query)))), snd (touch_last_active t (sb_id s) w))"
    using open_rq extract_own_host(1) [OF host(1)] load_sandbox_live [OF ids s(1)] run host(1)
    by (simp add: subdomain_middleware_def handle_http_def opens_def truthy_def sandbox_host_def host_ok_def Let_def)
  then show "\<exists>r c w'. subdomain_middleware jar lib cfg web up ws_up t SCOPE_HTTP rq body w = (Inr (Sent r), w') \<and>
      rs_location r = Some (page_address path query) \<and> rs_cookies r = [c] \<and> co_key c = SANDBOX_WEB_COOKIE_NAME \<and>
      (\<forall>t' v. t' + seconds 1 \<le> t + seconds SANDBOX_WEB_COOKIE_TTL_SECONDS \<longrightarrow>
        validate_sandbox_cookie lib t' s (Some (co_value c)) v = (Inr True, v))"
    using cookie by (auto simp: set_sandbox_cookie_def set_cookie_def redirect_response_def)
qed

subsection \<open>A ticket for another host\<close>

definition plain_host :: "string \<Rightarrow> bool" where
  "plain_host h \<longleftrightarrow> h \<noteq> '''' \<and> list_all (\<lambda>c. host_char c \<and> c \<noteq> CHR ''%'') h"

lemma hd_split_on: "hd (split_on c s) = before c s"
  by (induction s) (auto simp: before_def split: list.splits)

lemma extract_userinfo_host:
  assumes "host_ok web sid"
  shows "extract_sandbox_id_from_return_host web (sandbox_host web sid @ CHR '':'' # rest) = Some sid"
proof -
  have "CHR '':'' \<notin> set (sandbox_host web sid)" using host_chars [OF assms] by (auto simp: host_char_def)
  then have "hd (split_on (CHR '':'') (sandbox_host web sid @ CHR '':'' # rest)) = hd (split_on (CHR '':'') (sandbox_host web sid))"
    by (simp add: hd_split_on)
  then show ?thesis
    using extract_own_host(2) [OF assms] by (simp only: extract_sandbox_id_from_return_host_def)
qed

lemma urlencode_page:
  assumes "startswith path ''/''" "\<not> startswith path ''//''" "list_all (\<lambda>c. c \<notin> {CHR ''?'', CHR ''#'', CHR '';''} \<and> \<not> unsafe_url_byte c) path"
  shows "page_ok path (urlencode d)"
proof -
  have "CHR ''#'' \<notin> set (quote_plus s)" for s
    using quote_plus_set [of "CHR ''#''" s] by (auto simp: url_safe_def is_alpha_def is_digit_def)
  then have "CHR ''#'' \<notin> set (urlencode d)" by (auto simp: urlencode_def dest!: join_chars)
  with assms urlencode_chars [of _ d] show ?thesis by (auto simp: page_ok_def list_all_iff)
qed

definition evil_netloc :: "web_settings \<Rightarrow> string \<Rightarrow> string \<Rightarrow> string" where
  "evil_netloc web sid evil = sandbox_host web sid @ '':x@'' @ evil"

lemma evil_netloc_chars:
  assumes "host_ok web sid" "plain_host evil"
  shows "\<And>c. c \<in> set (evil_netloc web sid evil) \<Longrightarrow> \<not> ends_netloc c \<and> \<not> unsafe_url_byte c" "netloc_ok ok (evil_netloc web sid evil)"
    "fst (host_info (evil_netloc web sid evil)) = evil" "lower evil = evil"
proof -
  have evil: "\<And>c. c \<in> set evil \<Longrightarrow> host_char c" using assms(2) by (simp add: plain_host_def list_all_iff)
  show "\<And>c. c \<in> set (evil_netloc web sid evil) \<Longrightarrow> \<not> ends_netloc c \<and> \<not> unsafe_url_byte c"
    using host_chars [OF assms(1)] evil by (auto simp: evil_netloc_def host_char_def ends_netloc_def unsafe_url_byte_def)
  show "netloc_ok ok (evil_netloc web sid evil)"
    using host_chars [OF assms(1)] evil by (auto simp: evil_netloc_def host_char_def netloc_ok_def)
  have chars: "CHR ''@'' \<notin> set evil" "CHR ''['' \<notin> set evil" "CHR '':'' \<notin> set evil" using evil by (auto simp: host_char_def)
  have "after_last (CHR ''@'') (evil_netloc web sid evil) = evil"
    using chars(1) after_last_append [of "CHR ''@''" evil "sandbox_host web sid @ '':x''"] by (simp add: evil_netloc_def)
  with chars show "fst (host_info (evil_netloc web sid evil)) = evil" by (simp add: host_info_def Let_def)
  show "lower evil = evil" using evil by (intro lower_id) (simp add: host_char_def)
qed

text \<open>the bootstrap endpoint accepts an address whose host is any other host, as long as the sandbox host stands before it as
  user name: it sends the browser, with a ticket that opens the sandbox, to that other host. The check cuts the
  authority at its first colon, a browser at its last at-sign.\<close>

theorem bootstrap_ticket_for_other_host:
  assumes jwt: "jwt_ok lib" and ids: "distinct (map sb_id (sandboxes w))"
    and s: "live_sandbox w sid s" "sb_owner_id s = us_id u" and host: "host_ok web sid" "plain_host evil"
    and t: "t + seconds 1 \<le> now + seconds 300"
  shows "\<exists>r loc v. browser_bootstrap lib web now (''https://'' @ sandbox_host web sid @ '':x@'' @ evil @ ''/'') (Some u) w = (Inr r, w) \<and>
    rs_location r = Some loc \<and> urlparse (ipv6_ok lib) loc = Some v \<and> hostname v = Some evil \<and>
    (\<exists>ticket p. map_of (parse_qsl (pu_query v)) ''ticket'' = Some ticket \<and> verify_bootstrap_ticket lib t ticket = Some p \<and>
      claim_str p ''sandbox_id'' = Some sid)"
proof -
  let ?n = "evil_netloc web sid evil"
  note chars = evil_netloc_chars [OF host]
  have page: "page_ok ''/'' ''''" "page_address ''/'' '''' = ''/''" by (simp_all add: page_ok_def page_address_def startswith_def unsafe_url_byte_def)
  have parsed: "urlparse (ipv6_ok lib) (''https://'' @ ?n @ page_address path q) =
      Some \<lparr>pu_scheme = ''https'', pu_netloc = ?n, pu_path = path, pu_params = '''', pu_query = q, pu_fragment = ''''\<rparr>"
    if "page_ok path q" for path q
    using urlparse_page [of "''https''" ?n "ipv6_ok lib" path q] chars(1,2) that by (auto simp: page_ok_def list_all_iff)
  have sid: "extract_sandbox_id_from_return_host web ?n = Some sid"
    using extract_userinfo_host [OF host(1), of "''x@'' @ evil"] by (simp add: evil_netloc_def)
  have valid: "validate_browser_return_to lib web (''https://'' @ ?n @ ''/'') =
      Inr \<lparr>bt_scheme = ''https'', bt_netloc = ?n, bt_sandbox_id = sid, bt_next_path = ''/''\<rparr>"
    using parsed [OF page(1)] sid by (simp add: page(2) validate_browser_return_to_def evil_netloc_def)
  let ?q = "ticket_query lib now sid ''/''"
  let ?loc = "''https://'' @ ?n @ page_address ''/_treadstone/open'' ?q"
  have q: "?q \<noteq> ''''" "page_ok ''/_treadstone/open'' ?q"
    using urlencode_page [of "''/_treadstone/open''" "[(''ticket'', issue_bootstrap_ticket lib now sid ''/''), (''next'', ''/'')]"]
    by (simp_all add: ticket_query_def startswith_def unsafe_url_byte_def) (simp add: urlencode_def)
  have run: "browser_bootstrap lib web now (''https://'' @ ?n @ ''/'') (Some u) w = (Inr (redirect_response ?loc), w)"
    using valid get_owned [OF ids s] s(1) q(1) by (simp add: browser_bootstrap_def ticket_query_def page_address_def live_sandbox_def Let_def)
  have "hostname \<lparr>pu_scheme = ''https'', pu_netloc = ?n, pu_path = ''/_treadstone/open'', pu_params = '''', pu_query = ?q, pu_fragment = ''''\<rparr> = Some evil"
  proof -
    have "evil \<noteq> []" "CHR ''%'' \<notin> set evil" using host(2) by (auto simp: plain_host_def list_all_iff)
    moreover from this(2) have "dropWhile (\<lambda>c. c \<noteq> CHR ''%'') evil = []" by (auto simp: dropWhile_eq_Nil_conv)
    ultimately show ?thesis using chars(3,4) by (simp add: hostname_def Let_def)
  qed
  moreover have "\<exists>p. verify_bootstrap_ticket lib t (issue_bootstrap_ticket lib now sid ''/'') = Some p \<and> claim_str p ''sandbox_id'' = Some sid"
    using ticket_accepted [OF jwt, of t now sid] t by (fastforce simp: BOOTSTRAP_TICKET_TTL_SECONDS_def)
  ultimately show ?thesis
    using run parsed [OF q(2)] parse_ticket_query(1) [OF jwt]
    by (fastforce simp: evil_netloc_def redirect_response_def)
qed

subsection \<open>Revoking a link\<close>

abbreviation live_links :: "string \<Rightarrow> world \<Rightarrow> web_link list" where
  "live_links sid w \<equiv> filter (\<lambda>l. wl_sandbox_id l = sid \<and> wl_gmt_deleted l = None) (web_links w)"

lemma link_rows_single:
  assumes "sandbox_link_rows sid owner w = [(s, x)]"
  shows "sb_id s = sid" "live_links sid w = (case x of None \<Rightarrow> [] | Some l \<Rightarrow> [l])"
proof -
  let ?g = "\<lambda>s. case live_links (sb_id s) w of [] \<Rightarrow> [(s, None)] | ls \<Rightarrow> map (\<lambda>l. (s, Some l)) ls"
  obtain a as where rows: "filter (\<lambda>s. sb_id s = sid \<and> sb_owner_id s = owner \<and> sb_gmt_deleted s = None) (sandboxes w) = a # as"
    using assms by (cases "filter (\<lambda>s. sb_id s = sid \<and> sb_owner_id s = owner \<and> sb_gmt_deleted s = None) (sandboxes w)")
      (auto simp: sandbox_link_rows_def)
  have "?g a \<noteq> []" by (auto split: list.splits)
  with assms rows have g: "?g a = [(s, x)]"
    by (cases "?g a") (auto simp: sandbox_link_rows_def append_eq_Cons_conv)
  moreover have "sb_id a = sid" using rows by (metis (mono_tags, lifting) filter_eq_ConsD)
  ultimately show "sb_id s = sid" "live_links sid w = (case x of None \<Rightarrow> [] | Some l \<Rightarrow> [l])"
    by (auto split: list.splits)
qed

lemma select_someD: "select_one_or_none q w = (Inr (Some r), v) \<Longrightarrow> q w = [r] \<and> v = w"
  by (cases "q w" rule: scalar_one_or_none.cases) (simp_all add: select_one_or_none_def)

lemma delete_link_leaves_none:
  assumes "delete_sandbox_web_link now u rq sid w = (Inr r, w')" "now \<le> t"
  shows "\<not> active_link t w' sid l"
proof -
  from assms(1) obtain s x v where row: "owned_sandbox_with_active_web_link now sid (us_id u) w = (Inr (Some (s, x)), v)"
    unfolding delete_sandbox_web_link_def by (elim ebind_InrE) (auto split: option.splits)
  then obtain y where y: "sandbox_link_rows sid (us_id u) w = [(s, y)]" "x = normalize_active_web_link now y" and v: "v = w"
    unfolding owned_sandbox_with_active_web_link_def owned_sandbox_with_web_link_row_def
    by (elim ebind_InrE) (auto dest: select_someD)
  note links = link_rows_single [OF y(1)]
  have only: "k = l'" if "y = Some l'" "k \<in> set (web_links w)" "wl_sandbox_id k = sid" "wl_gmt_deleted k = None" for k l'
  proof -
    from that have "k \<in> set (live_links sid w)" by simp
    with links(2) that(1) show ?thesis by simp
  qed
  have none: "k \<notin> set (web_links w)" if "y = None" "wl_sandbox_id k = sid" "wl_gmt_deleted k = None" for k
    using links(2) that by (auto simp: filter_empty_conv)
  have live: "\<not> link_is_expired now k" if "\<not> link_is_expired t k" for k
    using that assms(2) by (auto simp: link_is_expired_def split: option.splits)
  show ?thesis
  proof (cases x)
    case None
    with assms(1) row v have "w' = w" by (simp add: delete_sandbox_web_link_def)
    show ?thesis
    proof (cases y)
      case None
      then show ?thesis using none [of l] \<open>w' = w\<close> by (auto simp: active_link_def)
    next
      case (Some l')
      have "l' \<in> set (live_links sid w)" using links(2) Some by simp
      with Some \<open>x = None\<close> y(2) have "link_is_expired now l'" by (auto simp: normalize_active_web_link_def split: if_splits)
      then show ?thesis using only [OF Some, of l] live [of l] \<open>w' = w\<close> by (auto simp: active_link_def)
    qed
  next
    case (Some l')
    then have y': "y = Some l'" using y(2) by (auto simp: normalize_active_web_link_def split: option.splits if_splits)
    have links': "web_links w' = update_where (\<lambda>k. wl_id k = wl_id l') (\<lambda>k. k\<lparr>wl_gmt_deleted := Some now, wl_gmt_updated := now\<rparr>) (web_links w)"
      using assms(1) row v Some
      by (auto simp: delete_sandbox_web_link_def Let_def audit_request_run commit_def store_rows_def)
    have "l \<in> set (web_links w) \<and> wl_id l \<noteq> wl_id l'" if "l \<in> set (web_links w')" "wl_gmt_deleted l = None"
      using that unfolding links' update_where_def set_map by (elim imageE) (simp split: if_splits)
    then show ?thesis using only [OF y', of l] unfolding active_link_def by metis
  qed
qed

text \<open>once the owner has deleted the open link of a sandbox, no cookie that came from an open link is accepted for it
  any more, while cookies from a bootstrap ticket stay valid.\<close>

theorem deleted_link_revokes_cookies:
  assumes "jwt_ok lib" "delete_sandbox_web_link now u rq sid w = (Inr r, w')" "now \<le> t" "sb_id s = sid"
    and "claim_str p ''issued_via'' = Some ''open_link''" "json_claims p"
  shows "fst (validate_sandbox_cookie lib t s (Some (jwt_encode lib p)) w') \<noteq> Inr True"
proof
  assume "fst (validate_sandbox_cookie lib t s (Some (jwt_encode lib p)) w') = Inr True"
  then obtain q where q: "jwt_encode lib p = jwt_encode lib q" "cookie_claims t w' sid q" "json_claims q"
    using validate_cookie_in [OF assms(1)] assms(4) by (metis prod.collapse option.inject)
  then have "q = p" using assms(1,6) by (auto simp: jwt_ok_def inj_on_def)
  with q(2) assms(5) delete_link_leaves_none [OF assms(2,3)] show False by (auto simp: cookie_claims_def)
qed

subsection \<open>A concrete browser\<close>

abbreviation demo_tokens :: lib where
  "demo_tokens \<equiv> token_lib demo_lib"

definition demo_up :: upstream where
  "demo_up r = Inr \<lparr>ps_status = 200, ps_headers = []\<rparr>"

definition demo_ws_up :: ws_upstream where
  "demo_ws_up url = Inr []"

definition demo_page_request :: request where
  "demo_page_request = demo_request\<lparr>rq_headers := [(''host'', ''sandbox-sb1.box.io'')],
     rq_cookies := [(''ts_bui'', issue_sandbox_web_cookie demo_tokens 0 ''sb1'' ''bootstrap'' None)]\<rparr>"

definition demo_open_request :: request where
  "demo_open_request = demo_request\<lparr>rq_path := ''/_treadstone/open'', rq_headers := [(''host'', ''sandbox-sb1.box.io'')],
     rq_query := parse_qsl (ticket_query demo_tokens 0 ''sb1'' ''/docs'')\<rparr>"

lemma demo_host: "sandbox_host demo_web ''sb1'' = ''sandbox-sb1.box.io''" "host_ok demo_web ''sb1''"
  by (simp_all add: sandbox_host_def host_ok_def host_char_def lower_char_def unsafe_url_byte_def demo_web_def)

lemma demo_live: "live_sandbox demo_proxy_world ''sb1'' demo_box" "sb_owner_id demo_box = us_id (demo_user ''u1'' ADMIN)"
  by (simp_all add: live_sandbox_def demo_proxy_defs demo_identity_defs)

lemma demo_docs: "page_ok ''/docs'' ''''" "page_address ''/docs'' '''' = ''/docs''"
  by (simp_all add: page_ok_def page_address_def startswith_def unsafe_url_byte_def)

theorem bootstrap_opens_sandbox_witness:
  "\<exists>r c w'. subdomain_middleware (\<lambda>_. []) demo_tokens demo_proxied demo_web demo_up demo_ws_up 1 SCOPE_HTTP demo_open_request '''' demo_proxy_world =
     (Inr (Sent r), w') \<and> rs_location r = Some ''/docs'' \<and> rs_cookies r = [c] \<and> co_key c = SANDBOX_WEB_COOKIE_NAME"
proof -
  have "opens demo_web ''sb1'' (ticket_query demo_tokens 0 ''sb1'' (page_address ''/docs'' '''')) demo_open_request"
    by (simp add: opens_def demo_open_request_def demo_host demo_docs)
  from bootstrap_opens_sandbox [OF token_lib_ok [of demo_lib] demo_proxy_inv(2) demo_live demo_host(2) _ demo_docs(1) _ this, of "''https''" 1
      "\<lambda>_. []" demo_proxied demo_up demo_ws_up "''''"]
  show ?thesis by (auto simp: demo_docs(2) seconds_def)
qed

theorem subdomain_access_needs_cookie_witness:
  "\<exists>p. map_of (rq_cookies demo_page_request) SANDBOX_WEB_COOKIE_NAME = Some (put_claims p) \<and> cookie_claims 5 demo_proxy_world ''sb1'' p"
proof -
  have cookie: "validate_sandbox_cookie demo_tokens 5 demo_box (Some (issue_sandbox_web_cookie demo_tokens 0 ''sb1'' ''bootstrap'' None)) demo_proxy_world =
      (Inr True, demo_proxy_world)"
    using bootstrap_cookie_accepted [OF token_lib_ok [of demo_lib], where t = 5 and now = 0 and s = demo_box and w = demo_proxy_world]
      jwt_encode_nonempty [OF token_lib_ok [of demo_lib]]
    by (simp add: truthy_def issue_sandbox_web_cookie_def SANDBOX_WEB_COOKIE_TTL_SECONDS_def seconds_def demo_box_def)
  have "\<exists>req resp w'. subdomain_middleware (\<lambda>_. []) demo_tokens demo_proxied demo_web demo_up demo_ws_up 5 SCOPE_HTTP demo_page_request '''' demo_proxy_world =
      (Inr (Forwarded req resp), w')"
    using extract_own_host(1) [OF demo_host(2)] load_sandbox_live [OF demo_proxy_inv(2) demo_live(1)] cookie
    by (simp add: subdomain_middleware_def handle_http_def demo_page_request_def demo_host truthy_def Let_def demo_request_def
        SANDBOX_WEB_COOKIE_NAME_def subdomain_proxy_http_def demo_up_def touch_last_active_def best_effort_def try_catch_def commit_def
        run_simps) (simp add: demo_web_def demo_box_def)
  then obtain req resp w' where run: "subdomain_middleware (\<lambda>_. []) demo_tokens demo_proxied demo_web demo_up demo_ws_up 5 SCOPE_HTTP demo_page_request
      '''' demo_proxy_world = (Inr (Forwarded req resp), w')" by blast
  have "map_of (rq_headers demo_page_request) ''host'' = Some ''sandbox-sb1.box.io''" "jwt_encode demo_tokens = put_claims"
    by (simp_all add: demo_page_request_def token_lib_def)
  with subdomain_access_needs_cookie [OF token_lib_ok [of demo_lib] run] extract_own_host(1) [OF demo_host(2)] show ?thesis
    by (auto simp: passed_on_def demo_host)
qed

theorem bootstrap_ticket_for_other_host_witness:
  "\<exists>r loc v. browser_bootstrap demo_tokens demo_web 0 ''https://sandbox-sb1.box.io:x@evil.io/'' (Some (demo_user ''u1'' ADMIN)) demo_proxy_world =
     (Inr r, demo_proxy_world) \<and> rs_location r = Some loc \<and> urlparse (ipv6_ok demo_tokens) loc = Some v \<and> hostname v = Some ''evil.io''"
proof -
  have "plain_host ''evil.io''" by (simp add: plain_host_def host_char_def lower_char_def unsafe_url_byte_def)
  from bootstrap_ticket_for_other_host [OF token_lib_ok [of demo_lib] demo_proxy_inv(2) demo_live demo_host(2) this, where t = 1 and now = 0]
  show ?thesis by (auto simp: demo_host(1) seconds_def)
qed

definition demo_link :: web_link where
  "demo_link = \<lparr>wl_id = ''swl1'', wl_sandbox_id = ''sb1'', wl_created_by_user_id = ''u1'', wl_gmt_created = 0,
     wl_gmt_updated = 0, wl_gmt_expires = None, wl_gmt_last_used = None, wl_gmt_deleted = None\<rparr>"

definition demo_linked :: world where
  "demo_linked = demo_proxy_world\<lparr>web_links := [demo_link]\<rparr>"

theorem deleted_link_revokes_cookies_witness:
  "fst (validate_sandbox_cookie demo_tokens 5 demo_box (Some (issue_sandbox_web_cookie demo_tokens 0 ''sb1'' ''open_link'' (Some ''swl1'')))
     (snd (delete_sandbox_web_link 5 (demo_user ''u1'' ADMIN) demo_request ''sb1'' demo_linked))) \<noteq> Inr True"
proof -
  have "\<exists>w'. delete_sandbox_web_link 5 (demo_user ''u1'' ADMIN) demo_request ''sb1'' demo_linked = (Inr (), w')"
    by (simp add: delete_sandbox_web_link_def owned_sandbox_with_active_web_link_def owned_sandbox_with_web_link_row_def sandbox_link_rows_def
        demo_linked_def demo_link_def demo_proxy_defs demo_identity_defs normalize_active_web_link_def link_is_expired_def audit_request_run
        commit_def run_simps Let_def select_one_or_none_def)
  then obtain w' where run: "delete_sandbox_web_link 5 (demo_user ''u1'' ADMIN) demo_request ''sb1'' demo_linked = (Inr (), w')" by blast
  show ?thesis
    unfolding issue_sandbox_web_cookie_def
    using deleted_link_revokes_cookies [OF token_lib_ok [of demo_lib] run order_refl, where s = demo_box]
    by (simp add: run claim_str_def json_claims_def demo_box_def)
qed

end
