(* ===== verification/Py_Datetime.thy ===== *)
theory Py_Datetime
  imports Metering_Helpers
begin

text \<open>
  Instants as Python prints them: \<open>of_ts\<close> gives the UTC calendar fields of an instant, \<open>iso\<close> is
  \<^verbatim>\<open>datetime.isoformat()\<close> of an aware UTC value and \<open>rfc3339\<close> the format
  \<^verbatim>\<open>%Y-%m-%dT%H:%M:%SZ\<close>. Shown: the fields are valid and belong to the instant, so both
  formats can be read back.
\<close>

text \<open>The year of a day counted from 1 January of the year 1: 400 years have 146097 days.\<close>

definition year_of :: "int \<Rightarrow> int" where
  "year_of n = (let y = 400 * n div 146097 + 1 in if days_before_year (y + 1) \<le> n then y + 1 else y)"

function month_and_day :: "int \<Rightarrow> int \<Rightarrow> int \<Rightarrow> int \<times> int" where
  "month_and_day y m r =
     (if 12 \<le> m \<or> r < month_days y m then (m, r + 1) else month_and_day y (m + 1) (r - month_days y m))"
  by pat_completeness auto
termination
  by (relation "measure (\<lambda>(y, m, r). nat (12 - m))") auto

declare month_and_day.simps [simp del]

definition of_ts :: "time \<Rightarrow> datetime" where
  "of_ts t =
     (let n = t div 86400000000 + 719162;
          y = year_of n;
          (m, d) = month_and_day y 1 (n - days_before_year y);
          s = t div 1000000 mod 86400
      in \<lparr>dt_year = y, dt_month = m, dt_day = d, dt_hour = s div 3600, dt_minute = s div 60 mod 60,
          dt_second = s mod 60, dt_microsecond = t mod 1000000\<rparr>)"

definition pad :: "nat \<Rightarrow> int \<Rightarrow> string" where
  "pad k n = (let s = show_int n in replicate (k - length s) (CHR ''0'') @ s)"

definition rfc3339_seconds :: "datetime \<Rightarrow> string" where
  "rfc3339_seconds d =
     pad 4 (dt_year d) @ ''-'' @ pad 2 (dt_month d) @ ''-'' @ pad 2 (dt_day d) @ ''T'' @
     pad 2 (dt_hour d) @ '':'' @ pad 2 (dt_minute d) @ '':'' @ pad 2 (dt_second d)"

definition iso :: "time \<Rightarrow> string" where
  "iso t = (let d = of_ts t
            in rfc3339_seconds d @ (if dt_microsecond d = 0 then [] else ''.'' @ pad 6 (dt_microsecond d)) @ ''+00:00'')"

definition rfc3339 :: "time \<Rightarrow> string" where
  "rfc3339 t = rfc3339_seconds (of_ts t) @ ''Z''"

subsection \<open>The fields belong to the instant\<close>

lemma days_before_year_bounds:
  "400 * days_before_year (z + 1) \<le> 146097 * z + 396"
  "146097 * z - 699 \<le> 400 * days_before_year (z + 1)"
  unfolding days_before_year_def Let_def by simp_all

lemma year_of_bounds:
  "days_before_year (year_of n) \<le> n \<and> n < days_before_year (year_of n + 1)"
proof -
  define q where "q = 400 * n div 146097"
  have q: "146097 * q \<le> 400 * n" "400 * n < 146097 * (q + 1)" by (auto simp: q_def)
  have lo: "days_before_year (q + 1) \<le> n" using days_before_year_bounds(1) [of q] q(1) by linarith
  have "146097 * (q + 1) - 699 \<le> 400 * days_before_year (q + 2)"
    using days_before_year_bounds(2) [of "q + 1"] by (simp add: add.commute)
  then have "n - 1 \<le> days_before_year (q + 2)" using q(2) by linarith
  then have hi: "n < days_before_year (q + 3)"
    using days_before_year_step [of "q + 2"] by (auto simp: add.commute split: if_splits)
  show ?thesis using lo hi by (auto simp: year_of_def Let_def q_def [symmetric] add.commute)
qed

lemma month_and_day_ok:
  assumes "1 \<le> m" "m \<le> 12" "0 \<le> r" "days_before_month y m + r < days_before_month y 12 + month_days y 12"
    "month_and_day y m r = (m', d)"
  shows "1 \<le> m' \<and> m' \<le> 12 \<and> 1 \<le> d \<and> d \<le> month_days y m' \<and> days_before_month y m' + d - 1 = days_before_month y m + r"
  using assms
proof (induction y m r rule: month_and_day.induct)
  case (1 y m r)
  show ?case
  proof (cases "12 \<le> m \<or> r < month_days y m")
    case True
    then have "month_and_day y m r = (m, r + 1)" by (simp add: month_and_day.simps [of y m r])
    moreover have "r < month_days y m" using True 1(2-5) by (cases "m = 12") auto
    ultimately show ?thesis using 1(2-6) by auto
  next
    case False
    then show ?thesis
      using 1 days_before_month_step [of m y] by (auto simp: month_and_day.simps [of y m r])
  qed
qed

lemma split_day: "t = (t div 86400000000 * 86400 + t div 1000000 mod 86400) * 1000000 + t mod (1000000 :: int)"
proof -
  have "t div 86400000000 = t div 1000000 div 86400" by (simp add: zdiv_zmult2_eq [symmetric])
  then show ?thesis by (simp add: div_mult_mod_eq)
qed

lemma split_hms: "s = (s div 3600) * 3600 + (s div 60 mod 60) * 60 + s mod (60 :: int)"
proof -
  have "s div 3600 = s div 60 div 60" by (simp add: zdiv_zmult2_eq [symmetric])
  moreover have "s = s div 60 * 60 + s mod 60" "s div 60 = s div 60 div 60 * 60 + s div 60 mod 60"
    by (simp_all only: div_mult_mod_eq)
  ultimately show ?thesis by linarith
qed

lemma of_ts_ok: "valid_datetime (of_ts t) \<and> utc_ts (of_ts t) = t"
proof -
  define n where "n = t div 86400000000 + 719162"
  define y where "y = year_of n"
  obtain m d where md: "month_and_day y 1 (n - days_before_year y) = (m, d)" by fastforce
  have b: "days_before_year y \<le> n" "n < days_before_year (y + 1)" using year_of_bounds [of n] by (auto simp: y_def)
  have "days_before_month y 12 + month_days y 12 = days_before_year (y + 1) - days_before_year y"
    using days_in_year [of y] days_before_year_step [of y] by simp
  then have ok: "1 \<le> m \<and> m \<le> 12 \<and> 1 \<le> d \<and> d \<le> month_days y m \<and> days_before_month y m + d - 1 = n - days_before_year y"
    using month_and_day_ok [OF _ _ _ _ md] b by simp
  define s where "s = t div 1000000 mod 86400"
  have f: "of_ts t = \<lparr>dt_year = y, dt_month = m, dt_day = d, dt_hour = s div 3600, dt_minute = s div 60 mod 60,
      dt_second = s mod 60, dt_microsecond = t mod 1000000\<rparr>"
    by (simp add: of_ts_def Let_def n_def [symmetric] y_def [symmetric] md s_def [symmetric])
  have s: "0 \<le> s" "s < 86400" by (auto simp: s_def)
  have t: "t = ((n - 719162) * 86400 + s) * 1000000 + t mod 1000000"
    using split_day [of t] by (simp add: n_def s_def)
  have "s = (s div 3600) * 3600 + (s div 60 mod 60) * 60 + s mod 60" using split_hms [of s] by simp
  with t have "utc_ts (of_ts t) = t"
    using ok by (simp add: f utc_ts_def algebra_simps)
  moreover have "valid_datetime (of_ts t)"
    using ok s by (auto simp: f valid_datetime_def)
  ultimately show ?thesis by simp
qed

subsection \<open>Reading a printed instant\<close>

text \<open>The reference reader of \<^verbatim>\<open>YYYY-MM-DDTHH:MM:SS\<close>: the digits at the positions of the format.\<close>

definition digits_at :: "nat \<Rightarrow> nat \<Rightarrow> string \<Rightarrow> int" where
  "digits_at i k s = digits_val (take k (drop i s))"

definition read_rfc3339 :: "string \<Rightarrow> time" where
  "read_rfc3339 s = utc_ts \<lparr>dt_year = digits_at 0 4 s, dt_month = digits_at 5 2 s, dt_day = digits_at 8 2 s,
     dt_hour = digits_at 11 2 s, dt_minute = digits_at 14 2 s, dt_second = digits_at 17 2 s, dt_microsecond = 0\<rparr>"

lemma length_show_nat: "0 < k \<Longrightarrow> n < 10 ^ k \<Longrightarrow> length (show_nat n) \<le> k"
proof (induction n arbitrary: k rule: show_nat.induct)
  case (1 n)
  show ?case
  proof (cases "n < 10")
    case True
    with 1 show ?thesis by (simp add: show_nat.simps)
  next
    case False
    with 1(3) obtain j where j: "k = Suc j" "0 < j" by (cases k; cases "k = 1") auto
    with 1(3) have "n div 10 < 10 ^ j" by (simp add: div_less_iff_less_mult mult.commute)
    with 1(1) [OF False j(2)] j False show ?thesis by (simp add: show_nat.simps [of n])
  qed
qed

lemma digits_val_zeros: "digits_val (replicate j (CHR ''0'') @ s) = digits_val s"
  by (induction j) (auto simp: digits_val_def digit_val_def)

lemma pad_ok:
  assumes "0 \<le> n" "n < 10 ^ k" "0 < k"
  shows "length (pad k n) = k \<and> digits_val (pad k n) = n"
proof -
  have "nat n < 10 ^ k" using assms by (simp add: nat_less_iff)
  then show ?thesis
    using length_show_nat [OF assms(3)] show_nat_digits [of "nat n"] assms(1)
    by (simp add: pad_def Let_def show_int_def digits_val_zeros)
qed

lemma read_fields:
  assumes "valid_datetime d" "0 \<le> dt_year d" "dt_year d \<le> 9999"
  shows "read_rfc3339 (rfc3339_seconds d @ z) = utc_ts (d\<lparr>dt_microsecond := 0\<rparr>)"
proof -
  have md: "month_days (dt_year d) (dt_month d) < 100" using month_days_bounds [of "dt_year d" "dt_month d"] by simp
  have p: "length (pad 4 (dt_year d)) = 4 \<and> digits_val (pad 4 (dt_year d)) = dt_year d"
    "length (pad 2 (dt_month d)) = 2 \<and> digits_val (pad 2 (dt_month d)) = dt_month d"
    "length (pad 2 (dt_day d)) = 2 \<and> digits_val (pad 2 (dt_day d)) = dt_day d"
    "length (pad 2 (dt_hour d)) = 2 \<and> digits_val (pad 2 (dt_hour d)) = dt_hour d"
    "length (pad 2 (dt_minute d)) = 2 \<and> digits_val (pad 2 (dt_minute d)) = dt_minute d"
    "length (pad 2 (dt_second d)) = 2 \<and> digits_val (pad 2 (dt_second d)) = dt_second d"
    using assms md by (simp_all add: valid_datetime_def pad_ok)
  have k: "dt_year d = digits_at 0 4 (rfc3339_seconds d @ z)" "dt_month d = digits_at 5 2 (rfc3339_seconds d @ z)"
    "dt_day d = digits_at 8 2 (rfc3339_seconds d @ z)" "dt_hour d = digits_at 11 2 (rfc3339_seconds d @ z)"
    "dt_minute d = digits_at 14 2 (rfc3339_seconds d @ z)" "dt_second d = digits_at 17 2 (rfc3339_seconds d @ z)"
    using p by (simp_all add: digits_at_def rfc3339_seconds_def drop_Cons')
  show ?thesis by (simp add: read_rfc3339_def utc_ts_def flip: k)
qed

lemma read_rfc3339_floor:
  assumes "0 \<le> dt_year (of_ts t)" "dt_year (of_ts t) \<le> 9999"
  shows "read_rfc3339 (rfc3339 t) = t div 1000000 * 1000000"
proof -
  have "utc_ts (of_ts t) = utc_ts ((of_ts t)\<lparr>dt_microsecond := 0\<rparr>) + t mod 1000000"
    by (simp add: utc_ts_def) (simp add: of_ts_def Let_def split: prod.splits)
  then show ?thesis
    using of_ts_ok [of t] read_fields [of "of_ts t" "''Z''"] assms
    by (simp add: rfc3339_def minus_mod_eq_div_mult [symmetric])
qed

end
