(* ===== verification/Metering_Api.thy ===== *)
theory Metering_Api
  imports Py_Datetime User_Accounts
begin

text \<open>
  The endpoints of the metering: \<^verbatim>\<open>metering/api/usage.py\<close> for users, \<^verbatim>\<open>metering/api/admin_metering.py\<close> for
  administrators, their serializers (\<^verbatim>\<open>metering_serializers.py\<close>), the helpers of the admin routers
  (\<^verbatim>\<open>identity/api/_admin_helpers.py\<close>) and the request schemas.

  A handler gets the admitted user and the request with its context, as the dependencies of \<open>Identity_Auth\<close>
  return them. A JSON float is the decimal that \<^verbatim>\<open>str\<close> prints for it. What the database answers to the insertion
  of a grant (a foreign key of a user deleted meanwhile, a numeric overflow) is the parameter \<open>db_error\<close>.
\<close>

subsection \<open>Helpers of the admin routers\<close>

definition require_user :: "string \<Rightarrow> user op" where
  "require_user user_id =
     ebind (select_one_or_none (\<lambda>w. filter (\<lambda>u. us_id u = user_id) (users w))) (\<lambda>r.
     case r of None \<Rightarrow> raise (NotFoundError ''User'' user_id) | Some u \<Rightarrow> ret u)"

definition load_existing_user_ids :: "string list \<Rightarrow> string list op" where
  "load_existing_user_ids user_ids =
     gets (\<lambda>w. if user_ids = [] then [] else map us_id (filter (\<lambda>u. us_id u \<in> set user_ids) (users w)))"

definition record_sensitive_admin_read ::
    "request \<Rightarrow> string \<Rightarrow> string \<Rightarrow> string option \<Rightarrow> (string \<times> meta_value) list \<Rightarrow> unit op" where
  "record_sensitive_admin_read rq action target_type target_id metadata =
     audit_success rq action target_type target_id metadata"

text \<open>\<^verbatim>\<open>actor_user_id=admin.id\<close> of \<^verbatim>\<open>record_audit_event\<close> replaces the user of the request context.\<close>

definition as_actor :: "user \<Rightarrow> request \<Rightarrow> request" where
  "as_actor admin rq = set_scope_context [(''actor_user_id'', Some (us_id admin))] rq"

subsection \<open>Serializers\<close>

definition opt_str :: "string option \<Rightarrow> meta_value" where
  "opt_str s = (case s of None \<Rightarrow> MNone | Some x \<Rightarrow> MStr x)"

definition opt_iso :: "time option \<Rightarrow> meta_value" where
  "opt_iso t = (case t of None \<Rightarrow> MNone | Some x \<Rightarrow> MStr (iso x))"

fun override_json :: "override_value \<Rightarrow> meta_value" where
  "override_json (ODec d) = MDec d"
| "override_json (OInt i) = MInt i"
| "override_json (OList l) = MList (map MStr l)"

definition overrides_json :: "(string \<times> override_value) list option \<Rightarrow> meta_value" where
  "overrides_json ov = (case ov of None \<Rightarrow> MNone | Some kvs \<Rightarrow> MDict (map (map_prod id override_json) kvs))"

text \<open>The columns \<^verbatim>\<open>id\<close> and \<^verbatim>\<open>gmt_created\<close> of a plan are not in the model's row and left out of the answer.\<close>

definition serialize_plan :: "user_plan \<Rightarrow> (string \<times> meta_value) list" where
  "serialize_plan p =
     [(''user_id'', MStr (up_user_id p)), (''tier'', MStr (up_tier p)),
      (''compute_units_monthly_limit'', MDec (up_compute_units_monthly_limit p)),
      (''compute_units_monthly_used'', MDec (up_compute_units_monthly_used p)),
      (''storage_capacity_limit_gib'', MInt (up_storage_capacity_limit_gib p)),
      (''max_concurrent_running'', MInt (up_max_concurrent_running p)),
      (''max_sandbox_duration_seconds'', MInt (up_max_sandbox_duration_seconds p)),
      (''allowed_templates'', MList (map MStr (up_allowed_templates p))),
      (''grace_period_seconds'', MInt (up_grace_period_seconds p)),
      (''overrides'', overrides_json (up_overrides p)),
      (''billing_period_start'', MStr (iso (up_period_start p))), (''billing_period_end'', MStr (iso (up_period_end p))),
      (''grace_period_started_at'', opt_iso (up_grace_period_started_at p)),
      (''warning_80_notified_at'', opt_iso (up_warning_80_notified_at p)),
      (''warning_100_notified_at'', opt_iso (up_warning_100_notified_at p)),
      (''updated_at'', MStr (iso (up_gmt_updated p)))]"

definition serialize_template :: "tier_template \<Rightarrow> (string \<times> meta_value) list" where
  "serialize_template t =
     [(''tier'', MStr (tt_tier_name t)), (''compute_units_monthly'', MDec (tt_compute_units_monthly t)),
      (''storage_capacity_gib'', MInt (tt_storage_capacity_gib t)),
      (''max_concurrent_running'', MInt (tt_max_concurrent_running t)),
      (''max_sandbox_duration_seconds'', MInt (tt_max_sandbox_duration_seconds t)),
      (''allowed_templates'', MList (map MStr (tt_allowed_templates t))),
      (''grace_period_seconds'', MInt (tt_grace_period_seconds t)), (''is_active'', MBool (tt_is_active t)),
      (''updated_at'', MStr (iso (tt_gmt_updated t)))]"

definition compute_grant_status :: "time \<Rightarrow> compute_grant \<Rightarrow> string" where
  "compute_grant_status now g =
     (if cg_remaining_amount g \<le> 0 then ''exhausted''
      else case cg_expires_at g of
        Some expires \<Rightarrow> if expires \<le> now then ''expired'' else ''active''
      | None \<Rightarrow> ''active'')"

definition storage_quota_grant_status :: "time \<Rightarrow> storage_quota_grant \<Rightarrow> string" where
  "storage_quota_grant_status now g =
     (case sq_expires_at g of
        Some expires \<Rightarrow> if expires \<le> now then ''expired'' else ''active''
      | None \<Rightarrow> ''active'')"

definition serialize_compute_grant :: "time \<Rightarrow> compute_grant \<Rightarrow> (string \<times> meta_value) list" where
  "serialize_compute_grant now g =
     [(''id'', MStr (cg_id g)), (''grant_type'', MStr (cg_grant_type g)),
      (''original_amount'', MDec (cg_original_amount g)), (''remaining_amount'', MDec (cg_remaining_amount g)),
      (''reason'', opt_str (cg_reason g)), (''granted_by'', opt_str (cg_granted_by g)),
      (''campaign_id'', opt_str (cg_campaign_id g)), (''status'', MStr (compute_grant_status now g)),
      (''granted_at'', MStr (iso (cg_granted_at g))), (''expires_at'', opt_iso (cg_expires_at g))]"

definition serialize_storage_quota_grant :: "time \<Rightarrow> storage_quota_grant \<Rightarrow> (string \<times> meta_value) list" where
  "serialize_storage_quota_grant now g =
     [(''id'', MStr (sq_id g)), (''grant_type'', MStr (sq_grant_type g)), (''size_gib'', MInt (sq_size_gib g)),
      (''reason'', opt_str (sq_reason g)), (''granted_by'', opt_str (sq_granted_by g)),
      (''campaign_id'', opt_str (sq_campaign_id g)), (''status'', MStr (storage_quota_grant_status now g)),
      (''granted_at'', MStr (iso (sq_granted_at g))), (''expires_at'', opt_iso (sq_expires_at g))]"

text \<open>\<open>base\<close> with the keys of the response, \<^verbatim>\<open>user_id\<close> after \<^verbatim>\<open>id\<close>, without \<^verbatim>\<open>status\<close>.\<close>

definition pick :: "string list \<Rightarrow> (string \<times> meta_value) list \<Rightarrow> (string \<times> meta_value) list" where
  "pick ks d = map (\<lambda>k. (k, the (map_of d k))) ks"

definition serialize_compute_grant_response :: "time \<Rightarrow> compute_grant \<Rightarrow> (string \<times> meta_value) list" where
  "serialize_compute_grant_response now g =
     pick [''id''] (serialize_compute_grant now g) @ (''user_id'', MStr (cg_user_id g)) #
     pick [''original_amount'', ''remaining_amount'', ''grant_type'', ''reason'', ''granted_by'', ''campaign_id'',
       ''granted_at'', ''expires_at''] (serialize_compute_grant now g)"

definition serialize_storage_quota_grant_response :: "time \<Rightarrow> storage_quota_grant \<Rightarrow> (string \<times> meta_value) list" where
  "serialize_storage_quota_grant_response now g =
     pick [''id''] (serialize_storage_quota_grant now g) @ (''user_id'', MStr (sq_user_id g)) #
     pick [''size_gib'', ''grant_type'', ''reason'', ''granted_by'', ''campaign_id'', ''granted_at'', ''expires_at'']
       (serialize_storage_quota_grant now g)"

subsection \<open>Requests\<close>

record update_plan_request =
  pq_tier :: "string option"
  pq_overrides :: "(string \<times> override_value) list option"

definition at_least_one_field :: "update_plan_request \<Rightarrow> bool" where
  "at_least_one_field b \<longleftrightarrow> pq_tier b \<noteq> None \<or> pq_overrides b \<noteq> None"

record create_compute_grant_request =
  gq_amount :: dec
  gq_grant_type :: string
  gq_reason :: "string option"
  gq_campaign_id :: "string option"
  gq_expires_at :: "time option"

record create_storage_quota_grant_request =
  hq_size_gib :: int
  hq_grant_type :: string
  hq_reason :: "string option"
  hq_campaign_id :: "string option"
  hq_expires_at :: "time option"

text \<open>\<^verbatim>\<open>gt=0\<close> of the schemas, and the length of a batch.\<close>

definition compute_grant_request_ok :: "create_compute_grant_request \<Rightarrow> bool" where
  "compute_grant_request_ok b \<longleftrightarrow> 0 < gq_amount b"

definition storage_grant_request_ok :: "create_storage_quota_grant_request \<Rightarrow> bool" where
  "storage_grant_request_ok b \<longleftrightarrow> 0 < hq_size_gib b"

definition batch_ok :: "string list \<Rightarrow> bool" where
  "batch_ok user_ids \<longleftrightarrow> 1 \<le> length user_ids \<and> length user_ids \<le> 1000"

definition request_validation_error :: exn where
  "request_validation_error = LibraryError ''RequestValidationError''"

subsection \<open>Plans and grants of one user\<close>

definition merge_dict :: "(string \<times> 'v) list \<Rightarrow> (string \<times> 'v) list \<Rightarrow> (string \<times> 'v) list" where
  "merge_dict d e = fold (\<lambda>(k, v). dict_set k v) e d"

definition override_plan :: "string \<Rightarrow> (string \<times> override_value) list \<Rightarrow> user_plan \<Rightarrow> user_plan op" where
  "override_plan user_id ov plan =
     ebind (of_sum (apply_overrides ov plan)) (\<lambda>p.
     let q = p\<lparr>up_overrides := Some (merge_dict (case up_overrides p of None \<Rightarrow> [] | Some o0 \<Rightarrow> o0) ov)\<rparr>
     in ebind (set_plan user_id (\<lambda>_. q)) (\<lambda>_. ret q))"

definition admin_update_user_plan ::
    "datetime \<Rightarrow> user \<Rightarrow> request \<Rightarrow> string \<Rightarrow> update_plan_request \<Rightarrow> (string \<times> meta_value) list op" where
  "admin_update_user_plan now admin rq user_id body =
     (if \<not> at_least_one_field body then raise request_validation_error
      else transaction (
        ebind (require_user user_id) (\<lambda>_.
        ebind (get_user_plan now user_id) (\<lambda>plan.
        ebind (case pq_tier body of
                 Some tier \<Rightarrow> update_user_tier now user_id tier (pq_overrides body)
               | None \<Rightarrow> (case pq_overrides body of
                     Some ov \<Rightarrow> override_plan user_id ov plan
                   | None \<Rightarrow> ret plan)) (\<lambda>plan.
        ebind (audit_success (as_actor admin rq) ''admin.user.plan_updated'' ''user_plan'' (Some user_id)
          [(''tier'', opt_str (pq_tier body)), (''overrides'', overrides_json (pq_overrides body))]) (\<lambda>_.
        ebind commit (\<lambda>_. ret (serialize_plan plan))))))))"

text \<open>The answer of the database to an insertion.\<close>

definition flush_insert :: "(string \<Rightarrow> exn option) \<Rightarrow> string \<Rightarrow> unit op" where
  "flush_insert db_error user_id = (case db_error user_id of None \<Rightarrow> ret () | Some e \<Rightarrow> raise e)"

definition give_compute_grant ::
    "(string \<Rightarrow> exn option) \<Rightarrow> time \<Rightarrow> user \<Rightarrow> request \<Rightarrow> create_compute_grant_request \<Rightarrow> (string \<times> meta_value) list \<Rightarrow> string
      \<Rightarrow> compute_grant op" where
  "give_compute_grant db_error now admin rq b metadata uid =
     ebind (create_compute_grant now uid (gq_amount b) (gq_grant_type b) (Some (us_id admin)) (gq_reason b)
       (gq_campaign_id b) (gq_expires_at b)) (\<lambda>grant.
     ebind (flush_insert db_error uid) (\<lambda>_.
     ebind (audit_success (as_actor admin rq) ''metering.compute_grant_created'' ''compute_grant'' (Some (cg_id grant))
       ((''user_id'', MStr uid) # metadata)) (\<lambda>_. ret grant)))"

definition give_storage_grant ::
    "(string \<Rightarrow> exn option) \<Rightarrow> time \<Rightarrow> user \<Rightarrow> request \<Rightarrow> create_storage_quota_grant_request \<Rightarrow> (string \<times> meta_value) list \<Rightarrow> string
      \<Rightarrow> storage_quota_grant op" where
  "give_storage_grant db_error now admin rq b metadata uid =
     ebind (create_storage_quota_grant now uid (hq_size_gib b) (hq_grant_type b) (Some (us_id admin)) (hq_reason b)
       (hq_campaign_id b) (hq_expires_at b)) (\<lambda>grant.
     ebind (flush_insert db_error uid) (\<lambda>_.
     ebind (audit_success (as_actor admin rq) ''metering.storage_quota_grant_created'' ''storage_quota_grant'' (Some (sq_id grant))
       ((''user_id'', MStr uid) # metadata)) (\<lambda>_. ret grant)))"

definition admin_create_compute_grant ::
    "(string \<Rightarrow> exn option) \<Rightarrow> time \<Rightarrow> user \<Rightarrow> request \<Rightarrow> string \<Rightarrow> create_compute_grant_request \<Rightarrow> (string \<times> meta_value) list op" where
  "admin_create_compute_grant db_error now admin rq user_id body =
     (if \<not> compute_grant_request_ok body then raise request_validation_error
      else transaction (
        ebind (require_user user_id) (\<lambda>_.
        ebind (give_compute_grant db_error now admin rq body
          [(''amount'', MDec (gq_amount body)), (''grant_type'', MStr (gq_grant_type body)),
           (''reason'', opt_str (gq_reason body))] user_id) (\<lambda>grant.
        ebind commit (\<lambda>_. ret (serialize_compute_grant_response now grant))))))"

definition admin_create_storage_grant ::
    "(string \<Rightarrow> exn option) \<Rightarrow> time \<Rightarrow> user \<Rightarrow> request \<Rightarrow> string \<Rightarrow> create_storage_quota_grant_request \<Rightarrow> (string \<times> meta_value) list op" where
  "admin_create_storage_grant db_error now admin rq user_id body =
     (if \<not> storage_grant_request_ok body then raise request_validation_error
      else transaction (
        ebind (require_user user_id) (\<lambda>_.
        ebind (give_storage_grant db_error now admin rq body
          [(''size_gib'', MInt (hq_size_gib body)), (''grant_type'', MStr (hq_grant_type body)),
           (''reason'', opt_str (hq_reason body))] user_id) (\<lambda>grant.
        ebind commit (\<lambda>_. ret (serialize_storage_quota_grant_response now grant))))))"

subsection \<open>Batches\<close>

text \<open>An entry of \<^verbatim>\<open>results\<close>, and the counters of the handler.\<close>

record grant_result =
  gr_user_id :: string
  gr_grant_id :: "string option"
  gr_status :: string
  gr_error :: "string option"

record batch_state =
  bs_results :: "grant_result list"
  bs_succeeded :: nat
  bs_failed :: nat

definition batch_success :: "string \<Rightarrow> string \<Rightarrow> batch_state \<Rightarrow> batch_state" where
  "batch_success uid gid b = b\<lparr>bs_results := bs_results b @ [\<lparr>gr_user_id = uid, gr_grant_id = Some gid, gr_status = ''success'', gr_error = None\<rparr>],
     bs_succeeded := bs_succeeded b + 1\<rparr>"

definition batch_failure :: "string \<Rightarrow> string \<Rightarrow> batch_state \<Rightarrow> batch_state" where
  "batch_failure uid err b = b\<lparr>bs_results := bs_results b @ [\<lparr>gr_user_id = uid, gr_grant_id = None, gr_status = ''failed'', gr_error = Some err\<rparr>],
     bs_failed := bs_failed b + 1\<rparr>"

fun batch_loop :: "(string \<Rightarrow> string op) \<Rightarrow> string list \<Rightarrow> string list \<Rightarrow> batch_state \<Rightarrow> batch_state op" where
  "batch_loop give existing [] b = ret b"
| "batch_loop give existing (uid # uids) b =
     (if uid \<notin> set existing then batch_loop give existing uids (batch_failure uid ''User not found'' b)
      else ebind (try_catch (ebind (transaction (give uid)) (\<lambda>gid. ret (batch_success uid gid b)))
                    (\<lambda>_. ret (batch_failure uid ''Internal error'' b)))
           (batch_loop give existing uids))"

record batch_grant_response =
  br_total_requested :: nat
  br_succeeded :: nat
  br_failed :: nat
  br_results :: "grant_result list"

definition batch_grants :: "(string \<Rightarrow> string op) \<Rightarrow> string list \<Rightarrow> batch_grant_response op" where
  "batch_grants give user_ids =
     ebind (load_existing_user_ids user_ids) (\<lambda>existing.
     ebind (batch_loop give existing user_ids \<lparr>bs_results = [], bs_succeeded = 0, bs_failed = 0\<rparr>) (\<lambda>b.
     ebind commit (\<lambda>_.
     ret \<lparr>br_total_requested = length user_ids, br_succeeded = bs_succeeded b, br_failed = bs_failed b, br_results = bs_results b\<rparr>)))"

definition admin_batch_compute_grants ::
    "(string \<Rightarrow> exn option) \<Rightarrow> time \<Rightarrow> user \<Rightarrow> request \<Rightarrow> string list \<Rightarrow> create_compute_grant_request \<Rightarrow> batch_grant_response op" where
  "admin_batch_compute_grants db_error now admin rq user_ids b =
     (if \<not> batch_ok user_ids \<or> \<not> compute_grant_request_ok b then raise request_validation_error
      else batch_grants (\<lambda>uid. ebind (give_compute_grant db_error now admin rq b
          [(''amount'', MDec (gq_amount b)), (''grant_type'', MStr (gq_grant_type b)),
           (''campaign_id'', opt_str (gq_campaign_id b)), (''reason'', opt_str (gq_reason b))] uid) (\<lambda>g. ret (cg_id g))) user_ids)"

definition admin_batch_storage_grants ::
    "(string \<Rightarrow> exn option) \<Rightarrow> time \<Rightarrow> user \<Rightarrow> request \<Rightarrow> string list \<Rightarrow> create_storage_quota_grant_request \<Rightarrow> batch_grant_response op" where
  "admin_batch_storage_grants db_error now admin rq user_ids b =
     (if \<not> batch_ok user_ids \<or> \<not> storage_grant_request_ok b then raise request_validation_error
      else batch_grants (\<lambda>uid. ebind (give_storage_grant db_error now admin rq b
          [(''size_gib'', MInt (hq_size_gib b)), (''grant_type'', MStr (hq_grant_type b)),
           (''campaign_id'', opt_str (hq_campaign_id b)), (''reason'', opt_str (hq_reason b))] uid) (\<lambda>g. ret (sq_id g))) user_ids)"

subsection \<open>What users see\<close>

definition serialize_storage_state :: "storage_state \<Rightarrow> string" where
  "serialize_storage_state s = (case s of SL_DELETED \<Rightarrow> ''released'' | SL_ACTIVE \<Rightarrow> ''active'' | SL_ARCHIVED \<Rightarrow> ''archived'')"

definition serialize_session :: "time \<Rightarrow> compute_session \<Rightarrow> (string \<times> meta_value) list" where
  "serialize_session now s =
     [(''id'', MStr (cs_id s)), (''sandbox_id'', MStr (cs_sandbox_id s)), (''template'', MStr (cs_template s)),
      (''vcpu_request'', MDec (cs_vcpu_request s)), (''memory_gib_request'', MDec (cs_memory_gib_request s)),
      (''started_at'', MStr (iso (cs_started_at s))), (''ended_at'', opt_iso (cs_ended_at s)),
      (''duration_seconds'', MDec (total_seconds ((case cs_ended_at s of None \<Rightarrow> now | Some e \<Rightarrow> e) - cs_started_at s))),
      (''compute_unit_hours'', MDec (cu_hours (cs_vcpu_hours s) (cs_memory_gib_hours s))),
      (''vcpu_hours'', MDec (cs_vcpu_hours s)), (''memory_gib_hours'', MDec (cs_memory_gib_hours s)),
      (''status'', MStr (if cs_ended_at s = None then ''active'' else ''completed''))]"

definition serialize_storage_ledger :: "storage_ledger \<Rightarrow> (string \<times> meta_value) list" where
  "serialize_storage_ledger l =
     [(''id'', MStr (sl_id l)), (''sandbox_id'', opt_str (sl_sandbox_id l)), (''size_gib'', MInt (sl_size_gib l)),
      (''storage_state'', MStr (serialize_storage_state (sl_storage_state l))),
      (''allocated_at'', MStr (iso (sl_allocated_at l))), (''released_at'', opt_iso (sl_released_at l)),
      (''gib_hours_consumed'', MDec (sl_gib_hours_consumed l)), (''last_metered_at'', MStr (iso (sl_last_metered_at l)))]"

definition get_usage :: "datetime \<Rightarrow> user \<Rightarrow> usage_summary op" where
  "get_usage now u = transaction (ebind (get_usage_summary now (us_id u)) (\<lambda>s. ebind commit (\<lambda>_. ret s)))"

definition get_plan :: "datetime \<Rightarrow> user \<Rightarrow> (string \<times> meta_value) list op" where
  "get_plan now u = transaction (ebind (get_user_plan now (us_id u)) (\<lambda>p. ebind commit (\<lambda>_. ret (serialize_plan p))))"

record listing =
  li_items :: "(string \<times> meta_value) list list"
  li_total :: nat
  li_limit :: nat
  li_offset :: nat

definition page_ok :: "string list \<Rightarrow> string \<Rightarrow> nat \<Rightarrow> bool" where
  "page_ok statuses status limit \<longleftrightarrow> status \<in> set statuses \<and> 1 \<le> limit \<and> limit \<le> 100"

definition usage_compute_sessions :: "datetime \<Rightarrow> user \<Rightarrow> string \<Rightarrow> nat \<Rightarrow> nat \<Rightarrow> listing op" where
  "usage_compute_sessions now u status limit offset =
     (if \<not> page_ok [''active'', ''completed'', ''all''] status limit then raise request_validation_error
      else transaction (
        ebind (ensure_user_plan now (us_id u) ''free'') (\<lambda>_.
        ebind (list_compute_sessions (us_id u) status limit offset) (\<lambda>(items, n).
        ebind commit (\<lambda>_. ret \<lparr>li_items = map (serialize_session (utc_ts now)) items, li_total = n, li_limit = limit, li_offset = offset\<rparr>)))))"

definition usage_storage_ledger :: "datetime \<Rightarrow> user \<Rightarrow> string \<Rightarrow> nat \<Rightarrow> nat \<Rightarrow> listing op" where
  "usage_storage_ledger now u status limit offset =
     (if \<not> page_ok [''active'', ''released'', ''all''] status limit then raise request_validation_error
      else transaction (
        ebind (ensure_user_plan now (us_id u) ''free'') (\<lambda>_.
        ebind (list_storage_ledger (us_id u) status limit offset) (\<lambda>(items, n).
        ebind commit (\<lambda>_. ret \<lparr>li_items = map serialize_storage_ledger items, li_total = n, li_limit = limit, li_offset = offset\<rparr>)))))"

definition usage_grants :: "datetime \<Rightarrow> user \<Rightarrow> ((string \<times> meta_value) list list \<times> (string \<times> meta_value) list list) op" where
  "usage_grants now u =
     transaction (
       ebind (ensure_user_plan now (us_id u) ''free'') (\<lambda>_.
       ebind (list_compute_grants (us_id u)) (\<lambda>compute_grants.
       ebind (list_storage_quota_grants (us_id u)) (\<lambda>storage_grants.
       ebind commit (\<lambda>_. ret (map (serialize_compute_grant (utc_ts now)) compute_grants,
         map (serialize_storage_quota_grant (utc_ts now)) storage_grants))))))"

end
