(* ===== verification/Platform_Api.thy ===== *)
theory Platform_Api
  imports Platform_Limits Metering_Api
begin

text \<open>
  The platform's endpoints: the waitlist (\<^verbatim>\<open>platform/api/waitlist.py\<close>), feedback (\<^verbatim>\<open>support.py\<close>) and the
  administration of the platform (\<^verbatim>\<open>admin_platform.py\<close>): statistics, limits, tiers, waitlist, feedback.

  Their tables and the cached snapshot of the limits come with the \<open>world\<close> in the record \<open>portal\<close>; an operation on the
  world is lifted to it. An exception that leaves a handler undoes the tables and keeps the snapshot, which is not
  transactional. Emails are as \<^verbatim>\<open>EmailStr\<close> has accepted them.
\<close>

subsection \<open>Tables and requests\<close>

datatype application_status = PENDING | APPROVED | REJECTED

record waitlist_application =
  wa_id :: string
  wa_email :: string
  wa_name :: string
  wa_target_tier :: string
  wa_company :: "string option"
  wa_github_or_portfolio_url :: "string option"
  wa_use_case :: "string option"
  wa_status :: application_status
  wa_processed_at :: "time option"
  wa_gmt_created :: time
  wa_gmt_updated :: time

record user_feedback =
  fb_id :: string
  fb_user_id :: string
  fb_email :: string
  fb_body :: string
  fb_gmt_created :: time

record portal =
  pt_world :: world
  pt_limits :: "limits_config option"
  pt_waitlist :: "waitlist_application list"
  pt_feedback :: "user_feedback list"
  pt_runtime :: limits_runtime

type_synonym 'a pop = "(portal, exn, 'a) action"

definition lift :: "'a op \<Rightarrow> 'a pop" where
  "lift m = (\<lambda>s. case m (pt_world s) of (r, w) \<Rightarrow> (r, s\<lparr>pt_world := w\<rparr>))"

definition ptransaction :: "'a pop \<Rightarrow> 'a pop" where
  "ptransaction m = (\<lambda>s. case m s of
       (Inl e, s') \<Rightarrow> (Inl e, s\<lparr>pt_world := rollback_rows (pt_world s) (pt_world s'), pt_runtime := pt_runtime s'\<rparr>)
     | (Inr a, s') \<Rightarrow> (Inr a, s'))"

definition portal_db :: "portal \<Rightarrow> platform_db" where
  "portal_db s = \<lparr>pd_platform_limits = pt_limits s, pd_users = map us_id (users (pt_world s)),
     pd_sandboxes = sandboxes (pt_world s), pd_waitlist_applications = map wa_id (pt_waitlist s)\<rparr>"

record waitlist_request =
  wr_email :: string
  wr_name :: string
  wr_target_tier :: string
  wr_company :: "string option"
  wr_github_or_portfolio_url :: "string option"
  wr_use_case :: "string option"

definition strip_empty_portfolio_url :: "string option \<Rightarrow> string option" where
  "strip_empty_portfolio_url v =
     (case v of None \<Rightarrow> None | Some x \<Rightarrow> let s = strip x in if s \<noteq> '''' then Some s else None)"

definition validate_https_portfolio_url :: "lib \<Rightarrow> string option \<Rightarrow> exn + string option" where
  "validate_https_portfolio_url lib v =
     (case v of None \<Rightarrow> Inr None
      | Some x \<Rightarrow> (case urlparse (ipv6_ok lib) x of
            None \<Rightarrow> Inl request_validation_error
          | Some u \<Rightarrow> if pu_scheme u \<noteq> ''https'' then Inl request_validation_error
                      else if pu_netloc u = '''' then Inl request_validation_error else Inr (Some x)))"

definition validate_target_tier :: "string \<Rightarrow> exn + string" where
  "validate_target_tier v = (if lower v \<in> {''pro'', ''ultra''} then Inr (lower v) else Inl request_validation_error)"

definition short_enough :: "nat \<Rightarrow> string option \<Rightarrow> bool" where
  "short_enough n v \<longleftrightarrow> (case v of None \<Rightarrow> True | Some x \<Rightarrow> length x \<le> n)"

definition waitlist_application_request :: "lib \<Rightarrow> waitlist_request \<Rightarrow> exn + waitlist_request" where
  "waitlist_application_request lib b =
     (let url = strip_empty_portfolio_url (wr_github_or_portfolio_url b)
      in if \<not> (1 \<le> length (wr_name b) \<and> length (wr_name b) \<le> 256 \<and> short_enough 256 (wr_company b) \<and>
                short_enough 512 url \<and> short_enough 1000 (wr_use_case b))
         then Inl request_validation_error
         else case validate_https_portfolio_url lib url of
             Inl e \<Rightarrow> Inl e
           | Inr url \<Rightarrow> (case validate_target_tier (wr_target_tier b) of
                 Inl e \<Rightarrow> Inl e
               | Inr tier \<Rightarrow> Inr (b\<lparr>wr_github_or_portfolio_url := url, wr_target_tier := tier\<rparr>)))"

definition strip_and_require_body :: "string \<Rightarrow> exn + string" where
  "strip_and_require_body v =
     (if 10000 < length v then Inl request_validation_error
      else let s = strip v in if s = '''' then Inl request_validation_error else Inr s)"

definition validate_status :: "string \<Rightarrow> exn + application_status" where
  "validate_status v = (if lower v = ''approved'' then Inr APPROVED else if lower v = ''rejected'' then Inr REJECTED
     else Inl request_validation_error)"

text \<open>A field of the update: absent, or a value that may be null.\<close>

record limits_update =
  pu_max_registered_users :: "int option option"
  pu_max_total_sandboxes :: "int option option"
  pu_max_total_storage_gib :: "int option option"
  pu_max_waitlist_applications :: "int option option"

definition limits_fields :: "limits_update \<Rightarrow> int option option list" where
  "limits_fields b = [pu_max_registered_users b, pu_max_total_sandboxes b, pu_max_total_storage_gib b, pu_max_waitlist_applications b]"

definition update_platform_limits_request_ok :: "limits_update \<Rightarrow> bool" where
  "update_platform_limits_request_ok b \<longleftrightarrow>
     list_all (\<lambda>v. case v of Some (Some n) \<Rightarrow> 0 \<le> n | _ \<Rightarrow> True) (limits_fields b) \<and> list_ex (\<lambda>v. v \<noteq> None) (limits_fields b)"

definition update_tier_template_request_ok :: "tier_updates \<Rightarrow> bool" where
  "update_tier_template_request_ok u \<longleftrightarrow>
     (case tu_compute_units_monthly u of Some x \<Rightarrow> 0 \<le> x | None \<Rightarrow> True) \<and>
     (case tu_storage_capacity_gib u of Some x \<Rightarrow> 0 \<le> x | None \<Rightarrow> True) \<and>
     (case tu_max_concurrent_running u of Some x \<Rightarrow> 1 \<le> x | None \<Rightarrow> True) \<and>
     (case tu_max_sandbox_duration_seconds u of Some x \<Rightarrow> 0 \<le> x | None \<Rightarrow> True) \<and>
     (case tu_grace_period_seconds u of Some x \<Rightarrow> 1 \<le> x | None \<Rightarrow> True) \<and>
     (tu_compute_units_monthly u \<noteq> None \<or> tu_storage_capacity_gib u \<noteq> None \<or> tu_max_concurrent_running u \<noteq> None \<or>
      tu_max_sandbox_duration_seconds u \<noteq> None \<or> tu_grace_period_seconds u \<noteq> None \<or> tu_allowed_templates u \<noteq> None)"

subsection \<open>Waitlist\<close>

definition submit_waitlist_application ::
    "lib \<Rightarrow> time \<Rightarrow> nat option \<Rightarrow> request \<Rightarrow> waitlist_request \<Rightarrow> waitlist_application pop" where
  "submit_waitlist_application lib now token rq raw =
     ebind (of_sum (waitlist_application_request lib raw)) (\<lambda>body.
     ebind (\<lambda>s. case ensure_snapshot now token (portal_db s) (pt_runtime s) of (sn, rt) \<Rightarrow> (Inr sn, s\<lparr>pt_runtime := rt\<rparr>)) (\<lambda>snapshot.
     ebind (case check_waitlist_submission_allowed snapshot of
              Inr _ \<Rightarrow> ret ()
            | Inl e \<Rightarrow> ebind (lift (ebind (audit_request rq ''waitlist.submit'' ''waitlist_application'' None ''failure''
                  (map_option fst (treadstone_error e))
                  [(''email'', MStr (lower (wr_email body))), (''target_tier'', MStr (wr_target_tier body))]) (\<lambda>_. commit))) (\<lambda>_. raise e)) (\<lambda>_.
     ebind (lift (draw_id ''wl'')) (\<lambda>i.
     let application = \<lparr>wa_id = i, wa_email = lower (wr_email body), wa_name = wr_name body, wa_target_tier = wr_target_tier body,
           wa_company = wr_company body, wa_github_or_portfolio_url = wr_github_or_portfolio_url body, wa_use_case = wr_use_case body,
           wa_status = PENDING, wa_processed_at = None, wa_gmt_created = now, wa_gmt_updated = now\<rparr>
     in ebind (modify (\<lambda>s. s\<lparr>pt_waitlist := pt_waitlist s @ [application]\<rparr>)) (\<lambda>_.
        ebind (lift commit) (\<lambda>_. ret application))))))"

definition application_str :: "application_status \<Rightarrow> string" where
  "application_str st = (case st of PENDING \<Rightarrow> ''pending'' | APPROVED \<Rightarrow> ''approved'' | REJECTED \<Rightarrow> ''rejected'')"

definition serialize_application :: "waitlist_application \<Rightarrow> (string \<times> meta_value) list" where
  "serialize_application a =
     [(''id'', MStr (wa_id a)), (''email'', MStr (wa_email a)), (''name'', MStr (wa_name a)),
      (''target_tier'', MStr (wa_target_tier a)), (''company'', opt_str (wa_company a)),
      (''github_or_portfolio_url'', opt_str (wa_github_or_portfolio_url a)), (''use_case'', opt_str (wa_use_case a)),
      (''status'', MStr (application_str (wa_status a))), (''processed_at'', opt_iso (wa_processed_at a)),
      (''gmt_created'', MStr (iso (wa_gmt_created a)))]"

text \<open>Page bounds of the admin lists.\<close>

definition admin_page_ok :: "nat \<Rightarrow> bool" where
  "admin_page_ok limit \<longleftrightarrow> 1 \<le> limit \<and> limit \<le> 500"

definition list_waitlist_applications ::
    "request \<Rightarrow> string option \<Rightarrow> string option \<Rightarrow> nat \<Rightarrow> nat \<Rightarrow> (waitlist_application list \<times> nat) pop" where
  "list_waitlist_applications rq tier status limit offset =
     (if \<not> admin_page_ok limit then raise request_validation_error
      else ebind (gets (\<lambda>s. filter (\<lambda>a. (truthy tier \<longrightarrow> wa_target_tier a = lower (the tier)) \<and>
             (truthy status \<longrightarrow> application_str (wa_status a) = lower (the status))) (pt_waitlist s))) (\<lambda>found.
           let rows = page limit offset (order_desc wa_gmt_created found)
           in ebind (lift (ebind (record_sensitive_admin_read rq ''admin.waitlist.read'' ''waitlist_application'' None
                [(''tier'', opt_str tier), (''status'', opt_str status), (''limit'', MInt (int limit)), (''offset'', MInt (int offset)),
                 (''result_count'', MInt (int (length rows)))]) (\<lambda>_. commit))) (\<lambda>_.
              ret (rows, length found))))"

definition update_waitlist_application :: "time \<Rightarrow> user \<Rightarrow> request \<Rightarrow> string \<Rightarrow> string \<Rightarrow> waitlist_application pop" where
  "update_waitlist_application now admin rq application_id status =
     ebind (of_sum (validate_status status)) (\<lambda>st. ptransaction (
     ebind (gets (\<lambda>s. filter (\<lambda>a. wa_id a = application_id) (pt_waitlist s))) (\<lambda>found.
     case found of
       [] \<Rightarrow> raise (NotFoundError ''WaitlistApplication'' application_id)
     | [app] \<Rightarrow>
         if wa_status app \<noteq> PENDING
         then raise (ConflictError (''This application is already '' @ application_str (wa_status app) @ '' and cannot be updated. ''
           @ ''Only pending applications can be approved or rejected.''))
         else let new = app\<lparr>wa_status := st, wa_processed_at := Some now, wa_gmt_updated := now\<rparr>
           in ebind (modify (\<lambda>s. s\<lparr>pt_waitlist := update_where (\<lambda>a. wa_id a = application_id) (\<lambda>_. new) (pt_waitlist s)\<rparr>)) (\<lambda>_.
              ebind (lift (ebind (audit_success (as_actor admin rq) ''admin.waitlist.updated'' ''waitlist_application'' (Some application_id)
                [(''status'', MStr (application_str st)), (''email'', MStr (wa_email app)), (''target_tier'', MStr (wa_target_tier app))])
                (\<lambda>_. commit))) (\<lambda>_. ret new))
     | _ \<Rightarrow> raise (CardinalityError MultipleResultsFound))))"

subsection \<open>Feedback\<close>

definition FEEDBACK_SUBMISSION_COOLDOWN_SECONDS :: int where "FEEDBACK_SUBMISSION_COOLDOWN_SECONDS = 60"

definition latest_feedback :: "string \<Rightarrow> portal \<Rightarrow> time option" where
  "latest_feedback uid s =
     (case order_desc fb_gmt_created (filter (\<lambda>f. fb_user_id f = uid) (pt_feedback s)) of [] \<Rightarrow> None | f # _ \<Rightarrow> Some (fb_gmt_created f))"

text \<open>\<open>db_error\<close> is the answer of the database to the insertion, a violated constraint is reported as a conflict.\<close>

definition create_feedback :: "(string \<Rightarrow> exn option) \<Rightarrow> time \<Rightarrow> user option \<Rightarrow> request \<Rightarrow> string \<Rightarrow> string pop" where
  "create_feedback db_error now cookie_user rq raw =
     ebind (of_sum (strip_and_require_body raw)) (\<lambda>body.
     case cookie_user of
       None \<Rightarrow> raise (AuthRequiredError ''Support feedback requires an active browser session.'')
     | Some u \<Rightarrow>
         let rq = set_scope_context [(''actor_user_id'', Some (us_id u)), (''credential_type'', Some ''cookie'')] rq
         in ebind (gets (latest_feedback (us_id u))) (\<lambda>latest_created.
            ebind (case latest_created of
                     None \<Rightarrow> ret ()
                   | Some t \<Rightarrow>
                       let elapsed = total_seconds (now - t)
                       in if elapsed < of_int FEEDBACK_SUBMISSION_COOLDOWN_SECONDS
                          then let wait_seconds = max 1 \<lfloor>of_int FEEDBACK_SUBMISSION_COOLDOWN_SECONDS - elapsed\<rfloor>
                            in ebind (lift (ebind (audit_failure rq ''feedback.create'' ''user_feedback'' None ''feedback_rate_limited'' [])
                                 (\<lambda>_. commit))) (\<lambda>_. raise (FeedbackRateLimitError wait_seconds))
                          else ret ()) (\<lambda>_.
            try_catch (ptransaction (
                ebind (lift (draw_id ''fb'')) (\<lambda>i.
                ebind (modify (\<lambda>s. s\<lparr>pt_feedback := pt_feedback s @
                  [\<lparr>fb_id = i, fb_user_id = us_id u, fb_email = us_email u, fb_body = body, fb_gmt_created = now\<rparr>]\<rparr>)) (\<lambda>_.
                ebind (lift (flush_insert db_error (us_id u))) (\<lambda>_.
                ebind (lift (ebind (audit_success (as_actor u rq) ''feedback.create'' ''user_feedback'' (Some i) []) (\<lambda>_. commit))) (\<lambda>_.
                ret i))))))
              (\<lambda>e. if e = IntegrityError then raise (ConflictError ''Could not save feedback. Please try again.'') else raise e))))"

definition sql_like_escape_fragment :: "string \<Rightarrow> string" where
  "sql_like_escape_fragment v =
     concat (map (\<lambda>c. if c \<in> {char_of (92::nat), CHR ''%'', CHR ''_''} then [char_of (92::nat), c] else [c]) v)"

definition list_user_feedback :: "request \<Rightarrow> nat \<Rightarrow> nat \<Rightarrow> string option \<Rightarrow> (user_feedback list \<times> nat) pop" where
  "list_user_feedback rq limit offset email =
     (if \<not> admin_page_ok limit then raise request_validation_error
      else let trimmed_email = (if truthy email then Some (strip (the email)) else None)
        in ebind (gets (\<lambda>s. filter (\<lambda>f. truthy trimmed_email \<longrightarrow>
                ilike (fb_email f) (''%'' @ sql_like_escape_fragment (the trimmed_email) @ ''%'')) (pt_feedback s))) (\<lambda>found.
           let rows = page limit offset (order_desc fb_gmt_created found)
           in ebind (lift (ebind (record_sensitive_admin_read rq ''admin.feedback.read'' ''user_feedback'' None
                [(''email_filter'', opt_str trimmed_email), (''limit'', MInt (int limit)), (''offset'', MInt (int offset)),
                 (''result_count'', MInt (int (length rows)))]) (\<lambda>_. commit))) (\<lambda>_.
              ret (rows, length found))))"

subsection \<open>Statistics\<close>

record platform_stats =
  st_total_users :: nat
  st_active_users :: nat
  st_admin_count :: nat
  st_total_created :: nat
  st_currently_running :: nat
  st_status_breakdown :: "(sandbox_status \<times> nat) list"
  st_total_cu_hours_this_period :: dec
  st_total_allocated_gib :: int
  st_total_consumed_gib_hours :: dec

text \<open>\<^verbatim>\<open>GROUP BY status\<close>; the order of the groups is that of the last appearance of each status.\<close>

definition group_by_status :: "sandbox list \<Rightarrow> (sandbox_status \<times> nat) list" where
  "group_by_status sbs = map (\<lambda>st. (st, length (filter (\<lambda>s. sb_status s = st) sbs))) (remdups (map sb_status sbs))"

definition get_platform_stats :: "platform_stats op" where
  "get_platform_stats = gets (\<lambda>w.
     let status_breakdown = group_by_status (sandboxes w)
     in \<lparr>st_total_users = length (users w), st_active_users = length (filter us_is_active (users w)),
         st_admin_count = length (filter (\<lambda>u. us_role u = ADMIN) (users w)),
         st_total_created = sum_list (map snd status_breakdown),
         st_currently_running = (case filter (\<lambda>r. fst r = READY) status_breakdown of [] \<Rightarrow> 0 | r # _ \<Rightarrow> snd r),
         st_status_breakdown = status_breakdown,
         st_total_cu_hours_this_period = sum_list (map up_compute_units_monthly_used (user_plans w)),
         st_total_allocated_gib = sum_list (map sl_size_gib (filter (\<lambda>l. sl_storage_state l = SL_ACTIVE) (storage_ledgers w))),
         st_total_consumed_gib_hours = sum_list (map sl_gib_hours_consumed (storage_ledgers w))\<rparr>)"

subsection \<open>Limits\<close>

definition opt_int :: "int option \<Rightarrow> meta_value" where
  "opt_int v = (case v of None \<Rightarrow> MNone | Some n \<Rightarrow> MInt n)"

definition limits_config_json :: "limits_config \<Rightarrow> (string \<times> meta_value) list" where
  "limits_config_json c =
     [(''max_registered_users'', opt_int (lc_max_registered_users c)), (''max_total_sandboxes'', opt_int (lc_max_total_sandboxes c)),
      (''max_total_storage_gib'', opt_int (lc_max_total_storage_gib c)),
      (''max_waitlist_applications'', opt_int (lc_max_waitlist_applications c))]"

definition serialize_platform_limits :: "limits_snapshot \<Rightarrow> (string \<times> meta_value) list" where
  "serialize_platform_limits sn =
     [(''config'', MDict (limits_config_json (ls_config sn))),
      (''usage'', MDict
        [(''registered_users'', MInt (lu_registered_users (ls_usage sn))), (''total_sandboxes'', MInt (lu_total_sandboxes (ls_usage sn))),
         (''total_storage_gib'', MInt (lu_total_storage_gib (ls_usage sn))),
         (''waitlist_applications'', MInt (lu_waitlist_applications (ls_usage sn)))]),
      (''refreshed_at'', MStr (iso (ls_refreshed_at sn)))]"

definition get_platform_limits :: "time \<Rightarrow> request \<Rightarrow> (string \<times> meta_value) list pop" where
  "get_platform_limits now rq =
     ebind (gets (\<lambda>s. build_snapshot now (portal_db s))) (\<lambda>snapshot.
     ebind (lift (ebind (record_sensitive_admin_read rq ''admin.platform_limits.read'' ''platform_limits'' (Some ''platform_limits'')
       (limits_config_json (ls_config snapshot))) (\<lambda>_. commit))) (\<lambda>_.
     ret (serialize_platform_limits snapshot)))"

definition apply_limits :: "limits_update \<Rightarrow> limits_config \<Rightarrow> limits_config" where
  "apply_limits b c =
     \<lparr>lc_max_registered_users = or_else (pu_max_registered_users b) (lc_max_registered_users c),
      lc_max_total_sandboxes = or_else (pu_max_total_sandboxes b) (lc_max_total_sandboxes c),
      lc_max_total_storage_gib = or_else (pu_max_total_storage_gib b) (lc_max_total_storage_gib c),
      lc_max_waitlist_applications = or_else (pu_max_waitlist_applications b) (lc_max_waitlist_applications c)\<rparr>"

definition limits_update_json :: "limits_update \<Rightarrow> (string \<times> meta_value) list" where
  "limits_update_json b = concat (map (\<lambda>(k, v). case v of None \<Rightarrow> [] | Some x \<Rightarrow> [(k, opt_int x)])
     (zip [''max_registered_users'', ''max_total_sandboxes'', ''max_total_storage_gib'', ''max_waitlist_applications''] (limits_fields b)))"

text \<open>\<^verbatim>\<open>get_or_create_config\<close> on the row of the portal.\<close>

definition portal_config :: "limits_config pop" where
  "portal_config = (\<lambda>s. case get_or_create_config (portal_db s) of (r, d) \<Rightarrow> (r, s\<lparr>pt_limits := pd_platform_limits d\<rparr>))"

definition update_platform_limits ::
    "time \<Rightarrow> nat option \<Rightarrow> user \<Rightarrow> request \<Rightarrow> limits_update \<Rightarrow> (string \<times> meta_value) list pop" where
  "update_platform_limits now token admin rq body =
     (if \<not> update_platform_limits_request_ok body then raise request_validation_error
      else ebind portal_config (\<lambda>config.
        ebind (modify (\<lambda>s. s\<lparr>pt_limits := Some (apply_limits body config)\<rparr>)) (\<lambda>_.
        ebind (lift (ebind (audit_success (as_actor admin rq) ''admin.platform_limits.updated'' ''platform_limits'' (Some ''platform_limits'')
          [(''updates'', MDict (limits_update_json body))]) (\<lambda>_. commit))) (\<lambda>_.
        ebind (\<lambda>s. case refresh_from_session now token (portal_db s) (pt_runtime s) of (sn, rt) \<Rightarrow> (Inr sn, s\<lparr>pt_runtime := rt\<rparr>)) (\<lambda>snapshot.
        ret (serialize_platform_limits snapshot))))))"

subsection \<open>Tiers\<close>

definition api_list_tier_templates :: "(string \<times> meta_value) list list op" where
  "api_list_tier_templates = ebind list_tier_templates (\<lambda>ts. ret (map serialize_template ts))"

definition tier_updates_json :: "tier_updates \<Rightarrow> (string \<times> meta_value) list" where
  "tier_updates_json u = filter (\<lambda>(k, v). v \<noteq> MNone)
     [(''compute_units_monthly'', case tu_compute_units_monthly u of None \<Rightarrow> MNone | Some x \<Rightarrow> MDec x),
      (''storage_capacity_gib'', opt_int (tu_storage_capacity_gib u)), (''max_concurrent_running'', opt_int (tu_max_concurrent_running u)),
      (''max_sandbox_duration_seconds'', opt_int (tu_max_sandbox_duration_seconds u)),
      (''allowed_templates'', case tu_allowed_templates u of None \<Rightarrow> MNone | Some l \<Rightarrow> MList (map MStr l)),
      (''grace_period_seconds'', opt_int (tu_grace_period_seconds u))]"

definition api_update_tier_template ::
    "time \<Rightarrow> user \<Rightarrow> request \<Rightarrow> string \<Rightarrow> tier_updates \<Rightarrow> bool \<Rightarrow> (string \<times> meta_value) list op" where
  "api_update_tier_template now admin rq tier_name u apply_to_existing =
     (if \<not> update_tier_template_request_ok u then raise request_validation_error
      else transaction (
        ebind (update_tier_template now tier_name u apply_to_existing) (\<lambda>(template, users_affected).
        ebind (audit_success (as_actor admin rq) ''admin.tier_template.updated'' ''tier_template'' (Some tier_name)
          [(''updates'', MDict (tier_updates_json u)), (''apply_to_existing'', MBool apply_to_existing),
           (''users_affected'', MInt (int users_affected))]) (\<lambda>_.
        ebind commit (\<lambda>_.
        ret (serialize_template template @ [(''users_affected'', MInt (int users_affected))]))))))"

end
