(* ===== verification/Metering_Admin.thy ===== *)
theory Metering_Admin
  imports Metering_Api
begin

text \<open>
  What the endpoints of \<open>Metering_Api\<close> do: batches of grants, plans with overrides, the listings of a user.
\<close>

subsection \<open>Batches\<close>

text \<open>The grant and the audit event that a batch writes for one user.\<close>

definition batch_grant :: "time \<Rightarrow> user \<Rightarrow> create_compute_grant_request \<Rightarrow> string \<Rightarrow> string \<Rightarrow> compute_grant" where
  "batch_grant now admin b i uid =
     \<lparr>cg_id = i, cg_user_id = uid, cg_grant_type = gq_grant_type b, cg_campaign_id = gq_campaign_id b,
      cg_original_amount = gq_amount b, cg_remaining_amount = gq_amount b, cg_reason = gq_reason b,
      cg_granted_by = Some (us_id admin), cg_granted_at = now, cg_expires_at = gq_expires_at b, cg_gmt_updated = now\<rparr>"

definition wrote_grants :: "compute_grant list \<Rightarrow> audit_event list \<Rightarrow> nat \<Rightarrow> world \<Rightarrow> world" where
  "wrote_grants gs evs n w = w\<lparr>compute_grants := compute_grants w @ gs, audit_events := audit_events w @ evs, ids_drawn := n\<rparr>"

lemma wrote_grants_twice [simp]:
  "wrote_grants gs evs n (wrote_grants gs' evs' n' w) = wrote_grants (gs' @ gs) (evs' @ evs) n w"
  by (simp add: wrote_grants_def)

lemma wrote_nothing: "w\<lparr>ids_drawn := n\<rparr> = wrote_grants [] [] n w"
  by (simp add: wrote_grants_def)

lemma give_compute_grant_run:
  fixes w :: world
  defines "i \<equiv> ''cg'' @ id_source w (ids_drawn w)"
  shows "transaction (ebind (give_compute_grant db_error now admin rq b md uid) (\<lambda>g. ret (cg_id g))) w =
     (case db_error uid of
        Some e \<Rightarrow> (Inl e, w\<lparr>ids_drawn := Suc (ids_drawn w)\<rparr>)
      | None \<Rightarrow> (Inr i, wrote_grants [batch_grant now admin b i uid]
          [request_audit_event (as_actor admin rq) ''metering.compute_grant_created'' ''compute_grant'' (Some i) ''success'' None
             ((''user_id'', MStr uid) # md)] (Suc (ids_drawn w)) w))"
  by (cases "db_error uid")
     (simp_all add: i_def transaction_def give_compute_grant_def create_compute_grant_def flush_insert_def run_simps Let_def
        rollback_rows_def wrote_grants_def batch_grant_def)

definition batch_run :: "(string \<Rightarrow> bool) \<Rightarrow> time \<Rightarrow> user \<Rightarrow> create_compute_grant_request \<Rightarrow> string list
    \<Rightarrow> compute_grant list \<Rightarrow> audit_event list \<Rightarrow> grant_result list \<Rightarrow> bool" where
  "batch_run ok now admin b uids gs evs rs \<longleftrightarrow>
     map gr_user_id rs = uids \<and> map (\<lambda>r. gr_status r = ''success'') rs = map ok uids \<and>
     map gr_grant_id (filter (\<lambda>r. gr_status r = ''success'') rs) = map (\<lambda>g. Some (cg_id g)) gs \<and>
     map cg_user_id gs = filter ok uids \<and> (\<forall>g \<in> set gs. g = batch_grant now admin b (cg_id g) (cg_user_id g)) \<and>
     map ae_target_id evs = map (\<lambda>g. Some (cg_id g)) gs \<and>
     (\<forall>e \<in> set evs. ae_action e = ''metering.compute_grant_created'' \<and> ae_actor_user_id e = Some (us_id admin))"

lemma batch_run_length:
  assumes "batch_run ok now admin b us gs evs rs"
  shows "length gs \<le> length us"
proof -
  have "map cg_user_id gs = filter ok us" using assms by (simp add: batch_run_def)
  from arg_cong [OF this, of length] show ?thesis by simp
qed

lemma actor_of_event: "ae_actor_user_id (request_audit_event (as_actor admin rq) a t i r e m) = Some (us_id admin)"
  by (simp add: request_audit_event_def as_actor_def get_scope_context_def map_of_dict_set)

lemma batch_loop_run:
  assumes give_def: "give = (\<lambda>uid. ebind (give_compute_grant db_error now admin rq b md uid) (\<lambda>g. ret (cg_id g)))"
    and ok_def: "ok = (\<lambda>uid. uid \<in> set existing \<and> db_error uid = None)"
  shows "\<exists>gs evs n rs. batch_loop give existing uids bs w =
      (Inr \<lparr>bs_results = bs_results bs @ rs, bs_succeeded = bs_succeeded bs + length gs,
            bs_failed = bs_failed bs + (length uids - length gs)\<rparr>, wrote_grants gs evs n w) \<and>
    batch_run ok now admin b uids gs evs rs"
proof (induction uids arbitrary: bs w)
  case Nil
  have "batch_run ok now admin b [] [] [] []" by (simp add: batch_run_def)
  moreover have "w = wrote_grants [] [] (ids_drawn w) w" by (simp add: wrote_grants_def)
  ultimately show ?case by (intro exI [of _ "[]"] exI [of _ "ids_drawn w"]) (simp add: ret_def)
next
  case (Cons uid uids)
  define i where "i = ''cg'' @ id_source w (ids_drawn w)"
  show ?case
  proof (cases "ok uid")
    case True
    let ?g = "batch_grant now admin b i uid"
    let ?e = "request_audit_event (as_actor admin rq) ''metering.compute_grant_created'' ''compute_grant'' (Some i) ''success'' None
      ((''user_id'', MStr uid) # md)"
    let ?r = "\<lparr>gr_user_id = uid, gr_grant_id = Some i, gr_status = ''success'', gr_error = None\<rparr>"
    let ?w = "wrote_grants [?g] [?e] (Suc (ids_drawn w)) w"
    have run: "transaction (give uid) w = (Inr i, ?w)"
      using True by (simp add: give_def give_compute_grant_run ok_def i_def)
    obtain gs evs n rs where IH: "batch_loop give existing uids (batch_success uid i bs) ?w =
        (Inr \<lparr>bs_results = bs_results (batch_success uid i bs) @ rs, bs_succeeded = bs_succeeded (batch_success uid i bs) + length gs,
            bs_failed = bs_failed (batch_success uid i bs) + (length uids - length gs)\<rparr>, wrote_grants gs evs n ?w)"
      "batch_run ok now admin b uids gs evs rs" using Cons by blast
    have "batch_run ok now admin b (uid # uids) (?g # gs) (?e # evs) (?r # rs)"
      using IH(2) True by (simp add: batch_run_def actor_of_event) (simp add: batch_grant_def request_audit_event_def)
    then show ?thesis
      using True IH(1) run
      by (intro exI [of _ "?g # gs"] exI [of _ "?e # evs"] exI [of _ n] exI [of _ "?r # rs"])
         (simp add: ok_def ebind_run try_catch_run batch_success_def)
  next
    case False
    define err where "err = (if uid \<in> set existing then ''Internal error'' else ''User not found'')"
    define w1 where "w1 = (if uid \<in> set existing then wrote_grants [] [] (Suc (ids_drawn w)) w else w)"
    have w1: "wrote_grants gs evs n w1 = wrote_grants gs evs n w" for gs evs n by (simp add: w1_def)
    obtain gs evs n rs where IH: "batch_loop give existing uids (batch_failure uid err bs) w1 =
        (Inr \<lparr>bs_results = bs_results (batch_failure uid err bs) @ rs, bs_succeeded = bs_succeeded (batch_failure uid err bs) + length gs,
            bs_failed = bs_failed (batch_failure uid err bs) + (length uids - length gs)\<rparr>, wrote_grants gs evs n w1)"
      "batch_run ok now admin b uids gs evs rs" using Cons by blast
    let ?r = "\<lparr>gr_user_id = uid, gr_grant_id = None, gr_status = ''failed'', gr_error = Some err\<rparr>"
    have step: "batch_loop give existing (uid # uids) bs w = batch_loop give existing uids (batch_failure uid err bs) w1"
      using False by (auto simp: ok_def err_def w1_def give_def give_compute_grant_run ebind_run try_catch_run wrote_nothing)
    have "batch_run ok now admin b (uid # uids) gs evs (?r # rs)"
      using IH(2) False by (simp add: batch_run_def)
    then show ?thesis
      using step IH(1) batch_run_length [OF IH(2)] w1
      by (intro exI [of _ gs] exI [of _ evs] exI [of _ n] exI [of _ "?r # rs"])
         (simp add: batch_failure_def Suc_diff_le)
  qed
qed

lemma admin_batch_compute_grants_run:
  assumes "batch_ok uids" "compute_grant_request_ok b"
    and ok_def: "ok = (\<lambda>uid. uid \<in> us_id ` set (users w) \<and> db_error uid = None)"
  shows "\<exists>gs evs n rs. admin_batch_compute_grants db_error now admin rq uids b w =
      (Inr \<lparr>br_total_requested = length uids, br_succeeded = length gs, br_failed = length uids - length gs, br_results = rs\<rparr>,
       store_rows (wrote_grants gs evs n w)) \<and> batch_run ok now admin b uids gs evs rs"
proof -
  define ex where "ex = map us_id (filter (\<lambda>u. us_id u \<in> set uids) (users w))"
  define b0 where "b0 = \<lparr>bs_results = [], bs_succeeded = 0, bs_failed = 0\<rparr>"
  define give where "give = (\<lambda>uid. ebind (give_compute_grant db_error now admin rq b
          [(''amount'', MDec (gq_amount b)), (''grant_type'', MStr (gq_grant_type b)),
           (''campaign_id'', opt_str (gq_campaign_id b)), (''reason'', opt_str (gq_reason b))] uid) (\<lambda>g. ret (cg_id g)))"
  obtain gs evs n rs where L: "batch_loop give ex uids b0 w =
      (Inr \<lparr>bs_results = bs_results b0 @ rs, bs_succeeded = bs_succeeded b0 + length gs,
            bs_failed = bs_failed b0 + (length uids - length gs)\<rparr>, wrote_grants gs evs n w)"
    "batch_run (\<lambda>uid. uid \<in> set ex \<and> db_error uid = None) now admin b uids gs evs rs"
    using batch_loop_run [OF give_def refl] by blast
  have "uid \<in> set ex \<longleftrightarrow> uid \<in> us_id ` set (users w)" if "uid \<in> set uids" for uid
    using that by (auto simp: ex_def)
  then have "map (\<lambda>uid. uid \<in> set ex \<and> db_error uid = None) uids = map ok uids"
    "filter (\<lambda>uid. uid \<in> set ex \<and> db_error uid = None) uids = filter ok uids"
    by (simp_all add: ok_def cong: filter_cong)
  with L(2) have "batch_run ok now admin b uids gs evs rs" by (simp add: batch_run_def)
  moreover have "uids \<noteq> []" using assms(1) by (auto simp: batch_ok_def)
  then have "admin_batch_compute_grants db_error now admin rq uids b w = batch_grants give uids w"
    "load_existing_user_ids uids w = (Inr ex, w)"
    using assms(1,2) by (simp_all add: admin_batch_compute_grants_def give_def load_existing_user_ids_def ex_def)
  ultimately show ?thesis
    using L(1) by (intro exI [of _ gs] exI [of _ evs] exI [of _ n] exI [of _ rs])
       (simp add: batch_grants_def ebind_run commit_def flip: b0_def, simp add: b0_def)
qed

text \<open>C20: A batch of compute grants answers for every entry of the list, in order (a user who is named twice is answered, and
  granted, twice): a grant is made for the entry, with the amount and expiry asked for, if
  and only if the user exists and the database accepts it, a failure undoes nothing but its own entry, every grant has its
  audit event by the administrator, and the counters add up to the length of the list. Besides the new grants and events, which come after the
  old ones, and ids that were drawn, nothing changes (\<open>store_rows\<close> is the rounding of the decimal columns by the commit).\<close>

theorem batch_grants_exact:
  assumes "batch_ok uids" "compute_grant_request_ok b"
  shows "\<exists>resp gs evs n. admin_batch_compute_grants db_error now admin rq uids b w =
      (Inr resp, store_rows (w\<lparr>compute_grants := compute_grants w @ gs, audit_events := audit_events w @ evs, ids_drawn := n\<rparr>)) \<and>
    map gr_user_id (br_results resp) = uids \<and>
    map (\<lambda>r. gr_status r = ''success'') (br_results resp)
      = map (\<lambda>uid. uid \<in> us_id ` set (users w) \<and> db_error uid = None) uids \<and>
    br_total_requested resp = length uids \<and> br_succeeded resp = length gs \<and> br_succeeded resp + br_failed resp = length uids \<and>
    map (\<lambda>g. Some (cg_id g)) gs = map gr_grant_id (filter (\<lambda>r. gr_status r = ''success'') (br_results resp)) \<and>
    map cg_user_id gs = filter (\<lambda>uid. uid \<in> us_id ` set (users w) \<and> db_error uid = None) uids \<and>
    list_all (\<lambda>g. cg_original_amount g = gq_amount b \<and> cg_remaining_amount g = gq_amount b \<and> cg_granted_by g = Some (us_id admin)
       \<and> cg_expires_at g = gq_expires_at b \<and> cg_grant_type g = gq_grant_type b \<and> cg_granted_at g = now) gs \<and>
    map ae_target_id evs = map (\<lambda>g. Some (cg_id g)) gs \<and>
    list_all (\<lambda>e. ae_action e = ''metering.compute_grant_created'' \<and> ae_actor_user_id e = Some (us_id admin)) evs"
proof -
  obtain gs evs n rs where R: "admin_batch_compute_grants db_error now admin rq uids b w =
      (Inr \<lparr>br_total_requested = length uids, br_succeeded = length gs, br_failed = length uids - length gs, br_results = rs\<rparr>,
       store_rows (wrote_grants gs evs n w))"
    "batch_run (\<lambda>uid. uid \<in> us_id ` set (users w) \<and> db_error uid = None) now admin b uids gs evs rs"
    using admin_batch_compute_grants_run [OF assms refl] by blast
  have "length gs \<le> length uids" using R(2) by (rule batch_run_length)
  moreover have "list_all (\<lambda>g. cg_original_amount g = gq_amount b \<and> cg_remaining_amount g = gq_amount b \<and>
      cg_granted_by g = Some (us_id admin) \<and> cg_expires_at g = gq_expires_at b \<and> cg_grant_type g = gq_grant_type b \<and> cg_granted_at g = now) gs"
    unfolding list_all_iff
  proof
    fix g assume "g \<in> set gs"
    with R(2) have g: "g = batch_grant now admin b (cg_id g) (cg_user_id g)" by (simp add: batch_run_def)
    show "cg_original_amount g = gq_amount b \<and> cg_remaining_amount g = gq_amount b \<and>
      cg_granted_by g = Some (us_id admin) \<and> cg_expires_at g = gq_expires_at b \<and> cg_grant_type g = gq_grant_type b \<and> cg_granted_at g = now"
      by (subst (1 2 3 4 5 6) g) (simp add: batch_grant_def)
  qed
  ultimately show ?thesis
    using R
    by (intro exI [of _ "\<lparr>br_total_requested = length uids, br_succeeded = length gs, br_failed = length uids - length gs, br_results = rs\<rparr>"]
          exI [of _ gs] exI [of _ evs] exI [of _ n]) (simp add: batch_run_def wrote_grants_def list_all_iff)
qed

definition campaign_admin :: user where
  "campaign_admin = \<lparr>us_id = ''ad'', us_email = ''ad@x.io'', us_username = None, us_hashed_password = [], us_has_local_password = True,
     us_is_active = True, us_is_verified = True, us_role = ADMIN, us_gmt_created = 0, us_gmt_updated = 0\<rparr>"

definition admin_http_request :: request where
  "admin_http_request = \<lparr>rq_request_method = ''POST'', rq_path = ''/'', rq_headers = [], rq_cookies = [], rq_query = [], rq_query_string = [],
     rq_scheme = ''https'', rq_base_url = ''https://x.io/'', rq_client = None, rq_context = []\<rparr>"

definition campaign_request :: create_compute_grant_request where
  "campaign_request = \<lparr>gq_amount = 5, gq_grant_type = ''campaign'', gq_reason = None, gq_campaign_id = None, gq_expires_at = None\<rparr>"

lemma batch_grants_exact_witness:
  "\<exists>resp w'. admin_batch_compute_grants (\<lambda>_. None) 0 campaign_admin admin_http_request [''ad'', ''xx'', ''ad''] campaign_request
      (empty_world\<lparr>users := [campaign_admin]\<rparr>) = (Inr resp, w') \<and>
    map (\<lambda>r. gr_status r = ''success'') (br_results resp) = [True, False, True] \<and> br_succeeded resp = 2 \<and>
    length (compute_grants w') = 2"
proof -
  have "batch_ok [''ad'', ''xx'', ''ad'']" "compute_grant_request_ok campaign_request"
    by (simp_all add: batch_ok_def compute_grant_request_ok_def campaign_request_def)
  from batch_grants_exact [OF this, where db_error = "\<lambda>_. None" and now = 0 and admin = campaign_admin and rq = admin_http_request
      and w = "empty_world\<lparr>users := [campaign_admin]\<rparr>"]
  obtain resp gs evs n where run: "admin_batch_compute_grants (\<lambda>_. None) 0 campaign_admin admin_http_request [''ad'', ''xx'', ''ad''] campaign_request
      (empty_world\<lparr>users := [campaign_admin]\<rparr>) =
      (Inr resp, store_rows (empty_world\<lparr>users := [campaign_admin], compute_grants := gs, audit_events := evs, ids_drawn := n\<rparr>))"
    and res: "map (\<lambda>r. gr_status r = ''success'') (br_results resp) = [True, False, True]" "br_succeeded resp = length gs"
    "map cg_user_id gs = [''ad'', ''ad'']"
    by (auto simp: campaign_admin_def empty_world_def)
  from arg_cong [OF res(3), of length] have "length gs = 2" by simp
  with run res show ?thesis by (simp add: store_rows_def)
qed

subsection \<open>Overrides of a plan\<close>

text \<open>An override holds when setting it again changes nothing; the columns must be able to store it.\<close>

fun storable :: "override_value \<Rightarrow> bool" where
  "storable (ODec x) \<longleftrightarrow> on_grid 4 x"
| "storable _ \<longleftrightarrow> True"

definition holds_in :: "user_plan \<Rightarrow> string \<times> override_value \<Rightarrow> bool" where
  "holds_in p kv \<longleftrightarrow> set_override kv p = Inr p \<and> storable (snd kv)"

definition overrides_hold :: "user_plan \<Rightarrow> bool" where
  "overrides_hold p \<longleftrightarrow> (case up_overrides p of None \<Rightarrow> True | Some ov \<Rightarrow> \<forall>kv \<in> set ov. holds_in p kv)"

lemma plan_update_same:
  "p\<lparr>up_compute_units_monthly_limit := x\<rparr> = p \<longleftrightarrow> up_compute_units_monthly_limit p = x"
  "p\<lparr>up_storage_capacity_limit_gib := i\<rparr> = p \<longleftrightarrow> up_storage_capacity_limit_gib p = i"
  "p\<lparr>up_max_concurrent_running := i\<rparr> = p \<longleftrightarrow> up_max_concurrent_running p = i"
  "p\<lparr>up_max_sandbox_duration_seconds := i\<rparr> = p \<longleftrightarrow> up_max_sandbox_duration_seconds p = i"
  "p\<lparr>up_grace_period_seconds := i\<rparr> = p \<longleftrightarrow> up_grace_period_seconds p = i"
  "p\<lparr>up_allowed_templates := l\<rparr> = p \<longleftrightarrow> up_allowed_templates p = l"
  by (cases p; auto)+

lemma set_override_same:
  "set_override (k, ODec x) p = Inr p \<longleftrightarrow> k = ''compute_units_monthly_limit'' \<and> up_compute_units_monthly_limit p = x"
  "set_override (k, OInt n) p = Inr p \<longleftrightarrow>
     k = ''compute_units_monthly_limit'' \<and> up_compute_units_monthly_limit p = of_int n \<or>
     k = ''storage_capacity_limit_gib'' \<and> up_storage_capacity_limit_gib p = n \<or>
     k = ''max_concurrent_running'' \<and> up_max_concurrent_running p = n \<or>
     k = ''max_sandbox_duration_seconds'' \<and> up_max_sandbox_duration_seconds p = n \<or>
     k = ''grace_period_seconds'' \<and> up_grace_period_seconds p = n"
  "set_override (k, OList l) p = Inr p \<longleftrightarrow> k = ''allowed_templates'' \<and> up_allowed_templates p = l"
  by (auto simp: plan_update_same)

text \<open>The field that an override sets.\<close>

lemma set_override_cases:
  assumes "set_override (k, v) p = Inr q"
  shows "k = ''compute_units_monthly_limit'' \<and> (\<exists>x. q = p\<lparr>up_compute_units_monthly_limit := x\<rparr> \<and> (v = ODec x \<or> (\<exists>n. v = OInt n \<and> x = of_int n))) \<or>
    k = ''storage_capacity_limit_gib'' \<and> (\<exists>n. v = OInt n \<and> q = p\<lparr>up_storage_capacity_limit_gib := n\<rparr>) \<or>
    k = ''max_concurrent_running'' \<and> (\<exists>n. v = OInt n \<and> q = p\<lparr>up_max_concurrent_running := n\<rparr>) \<or>
    k = ''max_sandbox_duration_seconds'' \<and> (\<exists>n. v = OInt n \<and> q = p\<lparr>up_max_sandbox_duration_seconds := n\<rparr>) \<or>
    k = ''grace_period_seconds'' \<and> (\<exists>n. v = OInt n \<and> q = p\<lparr>up_grace_period_seconds := n\<rparr>) \<or>
    k = ''allowed_templates'' \<and> (\<exists>l. v = OList l \<and> q = p\<lparr>up_allowed_templates := l\<rparr>)"
  using assms by (cases v) (auto split: if_splits)

lemma set_override_sets:
  assumes "set_override kv p = Inr q"
  shows "set_override kv q = Inr q"
proof -
  obtain k v where kv: "kv = (k, v)" by fastforce
  show ?thesis
    using set_override_cases [OF assms [unfolded kv]] unfolding kv
    by (elim disjE conjE exE; hypsubst) (simp_all add: set_override_same)
qed

lemma set_override_keeps:
  assumes "set_override kv p = Inr q" "set_override kv' p = Inr p" "fst kv' \<noteq> fst kv"
  shows "set_override kv' q = Inr q"
proof -
  obtain k v k' v' where kv: "kv = (k, v)" "kv' = (k', v')" by (metis surj_pair)
  have k: "k' \<noteq> k" using assms(3) by (simp add: kv)
  show ?thesis
    using set_override_cases [OF assms(1) [unfolded kv]] assms(2) k unfolding kv
    by (elim disjE conjE exE; cases v') (simp_all only: set_override_same, simp_all)
qed

lemma set_override_fields: "set_override kv p = Inr q \<Longrightarrow> up_overrides q = up_overrides p \<and> up_user_id q = up_user_id p"
  by (cases kv; cases "snd kv") (auto split: if_splits)

lemma set_override_record: "set_override kv (p\<lparr>up_overrides := x\<rparr>) = map_sum id (\<lambda>q. q\<lparr>up_overrides := x\<rparr>) (set_override kv p)"
  by (cases kv; cases "snd kv") auto

lemma set_overrides_hold:
  assumes "set_overrides ov p = Inr q" "distinct (map fst ov)"
  shows "(\<forall>kv \<in> set ov. set_override kv q = Inr q) \<and>
    (\<forall>kv. fst kv \<notin> fst ` set ov \<longrightarrow> set_override kv p = Inr p \<longrightarrow> set_override kv q = Inr q) \<and>
    up_overrides q = up_overrides p \<and> up_user_id q = up_user_id p"
  using assms
proof (induction ov arbitrary: p)
  case (Cons kv ov)
  from Cons.prems(1) obtain p1 where p1: "set_override kv p = Inr p1" "set_overrides ov p1 = Inr q"
    by (auto split: sum.splits)
  have d: "distinct (map fst ov)" "fst kv \<notin> fst ` set ov" using Cons.prems(2) by auto
  note IH = Cons.IH [OF p1(2) d(1)]
  have "set_override kv q = Inr q" using IH d(2) set_override_sets [OF p1(1)] by blast
  moreover have "set_override kv' q = Inr q" if "fst kv' \<notin> fst ` set (kv # ov)" "set_override kv' p = Inr p" for kv'
  proof -
    have "set_override kv' p1 = Inr p1" "fst kv' \<notin> fst ` set ov"
      using that set_override_keeps [OF p1(1) that(2)] by auto
    with IH show ?thesis by blast
  qed
  ultimately show ?case using IH set_override_fields [OF p1(1)] by auto
qed auto

lemma apply_overrides_set: "apply_overrides ov p = Inr q \<Longrightarrow> set_overrides ov p = Inr q"
  by (auto simp: apply_overrides_def split: option.splits)

lemma dict_set_members: "kv \<in> set (dict_set k v d) \<Longrightarrow> kv = (k, v) \<or> kv \<in> set d \<and> fst kv \<noteq> k"
  by (auto simp: dict_set_def split: if_splits)

lemma merge_dict_members:
  "kv \<in> set (merge_dict d e) \<Longrightarrow> distinct (map fst e) \<Longrightarrow> kv \<in> set e \<or> kv \<in> set d \<and> fst kv \<notin> fst ` set e"
proof (induction e arbitrary: d)
  case Nil
  then show ?case by (simp add: merge_dict_def)
next
  case (Cons x e)
  obtain k v where x: "x = (k, v)" by fastforce
  from Cons.prems have "kv \<in> set (merge_dict (dict_set k v d) e)" "distinct (map fst e)" "k \<notin> fst ` set e"
    by (simp_all add: merge_dict_def x)
  from Cons.IH [OF this(1,2)] this(3) show ?case using dict_set_members [of kv k v d] by (auto simp: x)
qed

lemma holds_in_record [simp]: "holds_in (p\<lparr>up_overrides := x\<rparr>) kv \<longleftrightarrow> holds_in p kv"
proof -
  have "q\<lparr>up_overrides := x\<rparr> = p\<lparr>up_overrides := x\<rparr> \<longleftrightarrow> q = p" if "up_overrides q = up_overrides p" for q
    using that by (cases q; cases p) simp
  then show ?thesis
    by (cases "set_override kv p") (auto simp: holds_in_def set_override_record dest: set_override_fields)
qed

lemma overridden_holds:
  assumes "apply_overrides ov p = Inr q" "distinct (map fst ov)" "\<forall>kv \<in> set ov. storable (snd kv)" "overrides_hold p"
  shows "overrides_hold (q\<lparr>up_overrides := Some (merge_dict (case up_overrides q of None \<Rightarrow> [] | Some o0 \<Rightarrow> o0) ov)\<rparr>)"
    and "overrides_hold (q\<lparr>up_overrides := Some ov\<rparr>)" and "up_user_id q = up_user_id p"
proof -
  note S = set_overrides_hold [OF apply_overrides_set [OF assms(1)] assms(2)]
  have new: "holds_in q kv" if "kv \<in> set ov" for kv using that S assms(3) by (auto simp: holds_in_def)
  have old: "holds_in q kv" if "kv \<in> set (case up_overrides q of None \<Rightarrow> [] | Some o0 \<Rightarrow> o0)" "fst kv \<notin> fst ` set ov" for kv
  proof -
    have "holds_in p kv" using that(1) S assms(4) by (auto simp: overrides_hold_def split: option.splits)
    with S that(2) have "set_override kv q = Inr q" "storable (snd kv)" unfolding holds_in_def by blast+
    then show ?thesis by (simp add: holds_in_def)
  qed
  show "overrides_hold (q\<lparr>up_overrides := Some (merge_dict (case up_overrides q of None \<Rightarrow> [] | Some o0 \<Rightarrow> o0) ov)\<rparr>)"
    using new old merge_dict_members [OF _ assms(2)] by (fastforce simp: overrides_hold_def)
  show "overrides_hold (q\<lparr>up_overrides := Some ov\<rparr>)" using new by (simp add: overrides_hold_def)
  show "up_user_id q = up_user_id p" using S by simp
qed

lemma holds_in_store:
  assumes "holds_in p kv"
  shows "holds_in (store_plan p) kv"
proof -
  have grid: "num4 x = x" if "on_grid 4 x" for x using that by (rule column.rnd_on_grid)
  have int: "num4 (rat_of_int n) = rat_of_int n" for n by (rule grid) (simp add: on_grid_def)
  obtain k v where kv: "kv = (k, v)" by fastforce
  have "set_override (k, v) p = Inr p" and st: "storable v" using assms by (simp_all add: holds_in_def kv)
  then have "set_override (k, v) (store_plan p) = Inr (store_plan p)"
  proof (cases v)
    case (ODec x)
    with \<open>set_override (k, v) p = Inr p\<close> st grid show ?thesis
      by (simp only: set_override_same) (simp add: store_plan_def)
  next
    case (OInt n)
    with \<open>set_override (k, v) p = Inr p\<close> int show ?thesis
      by (simp only: set_override_same) (elim disjE conjE; simp add: store_plan_def)
  next
    case (OList l)
    with \<open>set_override (k, v) p = Inr p\<close> show ?thesis
      by (simp only: set_override_same) (simp add: store_plan_def)
  qed
  with st show ?thesis by (simp add: holds_in_def kv)
qed

lemma overrides_hold_store: "overrides_hold p \<Longrightarrow> overrides_hold (store_plan p)"
  using holds_in_store by (auto simp: overrides_hold_def store_plan_def split: option.splits)

definition plans_hold :: "world \<Rightarrow> bool" where
  "plans_hold w \<longleftrightarrow> (\<forall>p \<in> set (user_plans w). overrides_hold p)"

lemma plans_hold_set: "plans_hold w \<Longrightarrow> overrides_hold q \<Longrightarrow> set_plan uid (\<lambda>_. q) w = (r, w') \<Longrightarrow> plans_hold w'"
  by (auto simp: plans_hold_def set_plan_def set_update_where split: if_splits)

lemma select_one_or_noneD: "select_one_or_none q w = (Inr r, w') \<Longrightarrow> w' = w \<and> scalar_one_or_none (q w) = Inr r"
  by (auto simp: select_one_or_none_def split: sum.splits)

lemma get_tier_templateD: "get_tier_template t w = (Inr x, w') \<Longrightarrow> w' = w"
  by (auto simp: get_tier_template_def elim!: ebind_InrE dest!: select_one_or_noneD split: option.splits)

lemma own_planD: "scalar_one_or_none (plans_of uid w) = Inr (Some p) \<Longrightarrow> p \<in> set (user_plans w) \<and> up_user_id p = uid"
  unfolding plans_of_def scalar_one_or_none_Some by (drule filter_singleD) simp

lemma ensure_user_plan_holds:
  assumes "ensure_user_plan now uid t w = (Inr p, w')" "plans_hold w"
  shows "plans_hold w' \<and> overrides_hold p \<and> up_user_id p = uid"
proof -
  have new: "overrides_hold (new_plan uid tt now) \<and> up_user_id (new_plan uid tt now) = uid" for tt
    by (simp add: overrides_hold_def new_plan_def Let_def split: prod.splits)
  obtain r where r: "scalar_one_or_none (plans_of uid w) = Inr r"
    "(case r of Some p \<Rightarrow> ret p
     | None \<Rightarrow> ebind (get_tier_template t) (\<lambda>tt. ebind (modify (\<lambda>w. w\<lparr>user_plans := user_plans w @ [new_plan uid tt now]\<rparr>)) (\<lambda>_.
         ebind (if t = ''free'' \<and> 0 < WELCOME_BONUS_AMOUNT then create_welcome_bonus uid (utc_ts now) else ret ()) (\<lambda>_.
         ret (new_plan uid tt now))))) w = (Inr p, w')"
    using assms(1) unfolding ensure_user_plan_def ensure_user_plan_race_def option.case
    by (elim ebind_InrE) (drule select_one_or_noneD, simp)
  show ?thesis
  proof (cases r)
    case (Some q)
    with r assms(2) own_planD show ?thesis by (auto simp: plans_hold_def)
  next
    case None
    with r(2) obtain tt where "p = new_plan uid tt now" "w' = w\<lparr>user_plans := user_plans w @ [new_plan uid tt now]\<rparr>"
      by (auto simp: WELCOME_BONUS_AMOUNT_def elim!: ebind_InrE dest!: get_tier_templateD)
    with new assms(2) show ?thesis by (auto simp: plans_hold_def)
  qed
qed

definition body_overrides_ok :: "update_plan_request \<Rightarrow> bool" where
  "body_overrides_ok body \<longleftrightarrow> (case pq_overrides body of
     None \<Rightarrow> pq_tier body = None
   | Some ov \<Rightarrow> distinct (map fst ov) \<and> (\<forall>kv \<in> set ov. storable (snd kv)) \<and> (pq_tier body \<noteq> None \<longrightarrow> ov \<noteq> []))"

lemma update_user_tier_holds:
  assumes "update_user_tier now uid tier (Some ov) w = (Inr p, w')" "plans_hold w" "ov \<noteq> []" "distinct (map fst ov)"
    "\<forall>kv \<in> set ov. storable (snd kv)"
  shows "plans_hold w'"
proof -
  obtain template r plan w1 where P: "scalar_one_or_none (plans_of uid w) = Inr r"
    "(case r of Some p \<Rightarrow> ret p | None \<Rightarrow> ensure_user_plan now uid tier) w = (Inr plan, w1)"
    "ebind (set_plan uid (\<lambda>_. copy_tier template (utc_ts now) plan)) (\<lambda>_.
       ebind (of_sum (apply_overrides ov (copy_tier template (utc_ts now) plan))) (\<lambda>plan2.
       ebind (set_plan uid (\<lambda>_. plan2\<lparr>up_overrides := Some ov\<rparr>)) (\<lambda>_. ret (plan2\<lparr>up_overrides := Some ov\<rparr>)))) w1 = (Inr p, w')"
    using assms(1,3) unfolding update_user_tier_def Let_def
    by (elim ebind_InrE) (auto dest!: get_tier_templateD select_one_or_noneD)
  have w1: "plans_hold w1 \<and> up_user_id plan = uid"
    using P(1,2) assms(2) own_planD ensure_user_plan_holds by (cases r) (auto simp: ret_def)
  from P(3) obtain plan2 where q: "apply_overrides ov (copy_tier template (utc_ts now) plan) = Inr plan2"
    and w': "w' = w1\<lparr>user_plans := update_where (\<lambda>p. up_user_id p = uid) (\<lambda>_. plan2\<lparr>up_overrides := Some ov\<rparr>)
      (update_where (\<lambda>p. up_user_id p = uid) (\<lambda>_. copy_tier template (utc_ts now) plan) (user_plans w1))\<rparr>"
    by (auto simp: set_plan_def elim!: ebind_InrE)
  have "\<forall>kv \<in> set ov. holds_in plan2 kv"
    using set_overrides_hold [OF apply_overrides_set [OF q] assms(4)] assms(5) unfolding holds_in_def by blast
  then have "overrides_hold (plan2\<lparr>up_overrides := Some ov\<rparr>)" by (simp add: overrides_hold_def)
  moreover have "up_user_id (copy_tier template (utc_ts now) plan) = uid" using w1 by (simp add: copy_tier_def)
  ultimately show ?thesis
    using w1 by (auto simp: w' plans_hold_def set_update_where split: if_splits)
qed

lemma override_plan_holds:
  assumes "override_plan uid ov plan w = (Inr p, w')" "plans_hold w" "overrides_hold plan" "distinct (map fst ov)"
    "\<forall>kv \<in> set ov. storable (snd kv)"
  shows "plans_hold w'"
proof -
  obtain q where q: "apply_overrides ov plan = Inr q"
    and w': "set_plan uid (\<lambda>_. q\<lparr>up_overrides := Some (merge_dict (case up_overrides q of None \<Rightarrow> [] | Some o0 \<Rightarrow> o0) ov)\<rparr>) w = (Inr (), w')"
    using assms(1) by (auto simp: override_plan_def Let_def elim!: ebind_InrE)
  show ?thesis by (rule plans_hold_set [OF assms(2) overridden_holds(1) [OF q assms(4,5,3)] w'])
qed

lemma require_userD: "require_user uid w = (Inr u, w') \<Longrightarrow> w' = w"
  by (auto simp: require_user_def elim!: ebind_InrE dest!: select_one_or_noneD split: option.splits)

text \<open>Changing the plan of a user keeps every recorded override true: what \<open>overrides\<close> says of a field is the value of
  the field, for all plans, as long as a change of tier comes with overrides of its own.\<close>

theorem plan_overrides_stay_true:
  assumes "plans_hold w" "body_overrides_ok body" "admin_update_user_plan now admin rq uid body w = (r, w')"
  shows "plans_hold w'"
proof (cases r)
  case (Inl e)
  with assms(1,3) show ?thesis
    by (auto simp: admin_update_user_plan_def transaction_def rollback_rows_def plans_hold_def split: if_splits prod.splits sum.splits)
next
  case (Inr resp)
  let ?step = "\<lambda>plan. case pq_tier body of
                 Some tier \<Rightarrow> update_user_tier now uid tier (pq_overrides body)
               | None \<Rightarrow> (case pq_overrides body of Some ov \<Rightarrow> override_plan uid ov plan | None \<Rightarrow> ret plan)"
  obtain plan plan' w1 w2 where R: "get_user_plan now uid w = (Inr plan, w1)" "?step plan w1 = (Inr plan', w2)"
    "user_plans w' = map store_plan (user_plans w2)"
    using assms(3) Inr unfolding admin_update_user_plan_def transaction_def
    by (fastforce simp: commit_def store_rows_def audit_request_def elim!: ebind_InrE dest!: require_userD split: if_splits prod.splits sum.splits)
  have w1: "plans_hold w1" "overrides_hold plan"
    using ensure_user_plan_holds [OF R(1) [unfolded get_user_plan_def] assms(1)] by auto
  have "plans_hold w2"
    using R(2) w1 assms(2)
    by (auto simp: body_overrides_ok_def split: option.splits elim: update_user_tier_holds override_plan_holds)
  then show ?thesis by (auto simp: plans_hold_def R(3) intro: overrides_hold_store)
qed

text \<open>A change of tier without overrides resets the fields and leaves \<open>overrides\<close>: a later update of the tier passes the plan over.\<close>

definition override_body :: "string option \<Rightarrow> (string \<times> override_value) list option \<Rightarrow> update_plan_request" where
  "override_body t ov = \<lparr>pq_tier = t, pq_overrides = ov\<rparr>"

definition override_world :: world where
  "override_world = empty_world\<lparr>users := [campaign_admin], user_plans := [demo_plan\<lparr>up_user_id := ''ad''\<rparr>],
     tier_templates := [\<lparr>tt_tier_name = ''free'', tt_compute_units_monthly = 10, tt_storage_capacity_gib = 5, tt_max_concurrent_running = 1,
       tt_max_sandbox_duration_seconds = 0, tt_allowed_templates = [], tt_grace_period_seconds = 60, tt_is_active = True, tt_gmt_updated = 0\<rparr>]\<rparr>"

lemma plan_overrides_stay_true_witness:
  "plans_hold (snd (admin_update_user_plan demo_now campaign_admin admin_http_request ''ad''
     (override_body None (Some [(''max_concurrent_running'', OInt 7)])) override_world))"
proof -
  have "plans_hold override_world"
    by (simp add: plans_hold_def override_world_def demo_plan_def overrides_hold_def)
  moreover have "body_overrides_ok (override_body None (Some [(''max_concurrent_running'', OInt 7)]))"
    by (simp add: body_overrides_ok_def override_body_def)
  ultimately show ?thesis by (rule plan_overrides_stay_true) (rule surjective_pairing)
qed

lemma tier_change_keeps_stale_overrides:
  defines "w \<equiv> override_world\<lparr>user_plans := [demo_plan\<lparr>up_user_id := ''ad'', up_max_concurrent_running := 7,
      up_overrides := Some [(''max_concurrent_running'', OInt 7)]\<rparr>]\<rparr>"
  shows "plans_hold w"
    and "\<not> plans_hold (snd (admin_update_user_plan demo_now campaign_admin admin_http_request ''ad'' (override_body (Some ''free'') None) w))"
proof -
  show "plans_hold w" by (simp add: w_def plans_hold_def overrides_hold_def holds_in_def set_override_same)
  have "user_plans (snd (admin_update_user_plan demo_now campaign_admin admin_http_request ''ad'' (override_body (Some ''free'') None) w))
      = [store_plan (copy_tier (hd (tier_templates override_world)) (utc_ts demo_now) (hd (user_plans w)))]"
    by (simp add: w_def override_world_def admin_update_user_plan_def at_least_one_field_def override_body_def transaction_def require_user_def
        select_one_or_none_def campaign_admin_def get_user_plan_def ensure_user_plan_def ensure_user_plan_race_def plans_of_def update_user_tier_def
        get_tier_template_def run_simps set_plan_def audit_request_def commit_def store_rows_def demo_plan_def ret_def Let_def ebind_def)
  then show "\<not> plans_hold (snd (admin_update_user_plan demo_now campaign_admin admin_http_request ''ad'' (override_body (Some ''free'') None) w))"
    by (simp add: plans_hold_def overrides_hold_def holds_in_def set_override_same store_plan_def copy_tier_def w_def override_world_def
        del: set_override.simps)
qed

subsection \<open>Listings\<close>

lemma pages_concat:
  "concat (map (\<lambda>i. page k (i * k) xs) [0..<n]) = take (n * k) xs"
proof (induction n)
  case (Suc n)
  have "take (Suc n * k) xs = take (n * k) xs @ take k (drop (n * k) xs)"
    by (simp only: mult_Suc add.commute [of k] take_add)
  with Suc show ?case by (simp add: page_def)
qed simp

text \<open>The pages of the sessions endpoint, put together, are all sessions of the user and only these, newest first.\<close>

lemma usage_sessions_pages:
  assumes "plans_of (us_id u) w = [p]" "1 \<le> k" "k \<le> 100"
    and page_def: "items = (\<lambda>i. case fst (usage_compute_sessions now u ''all'' k (i * k) w) of Inr l \<Rightarrow> li_items l | Inl _ \<Rightarrow> [])"
    and enough: "length (compute_sessions w) \<le> n * k"
  shows "concat (map items [0..<n]) = map (serialize_session (utc_ts now))
    (order_desc cs_started_at (filter (\<lambda>s. cs_user_id s = us_id u) (compute_sessions w)))"
proof -
  let ?own = "order_desc cs_started_at (filter (\<lambda>s. cs_user_id s = us_id u) (compute_sessions w))"
  have "items i = map (serialize_session (utc_ts now)) (page k (i * k) ?own)" for i
    using assms(1-3)
    by (simp add: page_def usage_compute_sessions_def page_ok_def transaction_def ensure_user_plan_def ensure_user_plan_race_def
        list_compute_sessions_def commit_def run_simps Let_def ret_def)
  then have items: "items = (\<lambda>i. map (serialize_session (utc_ts now)) (page k (i * k) ?own))" by (rule ext)
  have "concat (map items [0..<n]) = map (serialize_session (utc_ts now)) (concat (map (\<lambda>i. page k (i * k) ?own) [0..<n]))"
    by (simp add: items map_concat comp_def)
  moreover have "length ?own \<le> n * k"
    using enough by (simp add: order_desc_def le_trans [OF length_filter_le])
  ultimately show ?thesis by (simp add: pages_concat)
qed

end
