(* ===== verification/Platform_Admin.thy ===== *)
theory Platform_Admin
  imports Platform_Api Metering_Admin
begin

text \<open>
  What the endpoints of \<open>Platform_Api\<close> do: an application is decided once, feedback is spaced, the email filter of the
  feedback list is a substring, new limits hold from the next request on.
\<close>

subsection \<open>The email filter\<close>

lemma contains_iff: "contains f s \<longleftrightarrow> (\<exists>a b. s = a @ f @ b)"
proof (induction s)
  case Nil
  show ?case by auto
next
  case (Cons c s)
  have "take (length f) (c # s) = f \<longleftrightarrow> (\<exists>b. c # s = f @ b)"
    by (metis append_eq_conv_conj append_take_drop_id)
  moreover have "(\<exists>a b. c # s = a @ f @ b) \<longleftrightarrow> (\<exists>b. c # s = f @ b) \<or> (\<exists>a b. s = a @ f @ b)"
    by (auto simp: Cons_eq_append_conv)
  ultimately show ?case using Cons by simp
qed

lemma sql_like_percent: "sql_like (CHR ''%'' # p) s \<longleftrightarrow> (\<exists>a b. s = a @ b \<and> sql_like p b)"
proof (induction s)
  case Nil
  show ?case by simp
next
  case (Cons d s)
  have "(\<exists>a b. d # s = a @ b \<and> sql_like p b) \<longleftrightarrow> sql_like p (d # s) \<or> (\<exists>a b. s = a @ b \<and> sql_like p b)"
    by (auto simp: Cons_eq_append_conv)
  with Cons show ?case by simp
qed

lemma sql_like_anything: "sql_like ''%'' s"
  by (induction s) auto

lemma special_chars: "char_of (92::nat) \<noteq> CHR ''%''" "char_of (92::nat) \<noteq> CHR ''_''"
  by code_simp+

lemma sql_like_escaped_char:
  "sql_like ((if c \<in> {char_of (92::nat), CHR ''%'', CHR ''_''} then [char_of (92::nat), c] else [c]) @ p) s \<longleftrightarrow>
     (\<exists>t. s = c # t \<and> sql_like p t)"
  using special_chars by (cases s) auto

lemma sql_like_escape:
  "sql_like (sql_like_escape_fragment f @ p) s \<longleftrightarrow> (\<exists>t. s = f @ t \<and> sql_like p t)"
proof (induction f arbitrary: s)
  case Nil
  show ?case by (simp add: sql_like_escape_fragment_def)
next
  case (Cons c f)
  have "sql_like (sql_like_escape_fragment (c # f) @ p) s \<longleftrightarrow> (\<exists>t. s = c # t \<and> sql_like (sql_like_escape_fragment f @ p) t)"
    using sql_like_escaped_char [of c "sql_like_escape_fragment f @ p" s] by (simp add: sql_like_escape_fragment_def)
  with Cons show ?case by auto
qed

lemma char_of_iff: "n < 256 \<Longrightarrow> x = char_of n \<longleftrightarrow> of_char x = (n :: nat)"
  by auto

lemma special_char_of: "CHR ''%'' = char_of (37::nat)" "CHR ''_'' = char_of (95::nat)"
  by code_simp+

lemma lower_special: "lower_char c \<in> {char_of (92::nat), CHR ''%'', CHR ''_''} \<longleftrightarrow> c \<in> {char_of (92::nat), CHR ''%'', CHR ''_''}"
proof -
  have "of_char (lower_char c) \<in> {92, 37, 95 :: nat} \<longleftrightarrow> of_char c \<in> {92, 37, 95 :: nat}"
    by (auto simp: lower_char_def Let_def)
  then show ?thesis by (simp add: special_char_of char_of_iff)
qed

lemma lower_fixed: "c \<in> {char_of (92::nat), CHR ''%'', CHR ''_''} \<Longrightarrow> lower_char c = c"
  by (auto simp: lower_char_def Let_def)

lemma lower_escape: "lower (sql_like_escape_fragment f) = sql_like_escape_fragment (lower f)"
proof (induction f)
  case (Cons c f)
  have "lower (if c \<in> {char_of (92::nat), CHR ''%'', CHR ''_''} then [char_of (92::nat), c] else [c]) =
    (if lower_char c \<in> {char_of (92::nat), CHR ''%'', CHR ''_''} then [char_of (92::nat), lower_char c] else [lower_char c])"
    by (simp only: lower_special) (simp add: lower_def lower_fixed)
  with Cons show ?case
    by (simp add: sql_like_escape_fragment_def lower_def del: insert_iff)
qed (simp add: sql_like_escape_fragment_def lower_def)

text \<open>The email filter of the feedback list is a case-insensitive substring, whatever characters it has: the pattern
  made of the escaped filter matches exactly the addresses that contain it.\<close>

theorem feedback_filter_is_substring:
  "ilike s (''%'' @ sql_like_escape_fragment f @ ''%'') \<longleftrightarrow> contains (lower f) (lower s)"
proof -
  have pat: "lower (''%'' @ sql_like_escape_fragment f @ ''%'') = CHR ''%'' # sql_like_escape_fragment (lower f) @ ''%''"
    using lower_escape [of f] by (simp add: lower_def lower_fixed)
  have "sql_like (sql_like_escape_fragment (lower f) @ ''%'') b \<longleftrightarrow> (\<exists>t. b = lower f @ t)" for b
    by (simp add: sql_like_escape sql_like_anything del: sql_like.simps)
  then show ?thesis
    unfolding ilike_def pat by (simp add: sql_like_percent contains_iff del: sql_like.simps) blast
qed

subsection \<open>The waitlist\<close>

text \<open>One request to the endpoints of the platform, with any result; whatever else happens to the other tables.\<close>

inductive portal_step :: "portal \<Rightarrow> portal \<Rightarrow> bool" where
  submit: "submit_waitlist_application lib now token rq raw s = (r, s') \<Longrightarrow> portal_step s s'"
| decide: "update_waitlist_application now admin rq i st s = (r, s') \<Longrightarrow> portal_step s s'"
| feedback: "create_feedback db_error now u rq raw_body s = (r2, s') \<Longrightarrow> portal_step s s'"
| limits: "update_platform_limits now token admin rq body s = (r3, s') \<Longrightarrow> portal_step s s'"
| read_waitlist: "list_waitlist_applications rq tier status limit offset s = (r4, s') \<Longrightarrow> portal_step s s'"
| read_feedback: "list_user_feedback rq limit offset email s = (r5, s') \<Longrightarrow> portal_step s s'"
| others: "portal_step s (s\<lparr>pt_world := w, pt_runtime := rt\<rparr>)"

lemma keeps_lift [keeps_intros]: "(\<And>s w. P s \<Longrightarrow> P (s\<lparr>pt_world := w\<rparr>)) \<Longrightarrow> keeps P (lift m)"
  by (auto simp: keeps_def lift_def split: prod.splits)

lemma keeps_ptransaction [keeps_intros]:
  "(\<And>s w rt. P s \<Longrightarrow> P (s\<lparr>pt_world := w, pt_runtime := rt\<rparr>)) \<Longrightarrow> keeps P m \<Longrightarrow> keeps P (ptransaction m)"
  by (auto simp: keeps_def ptransaction_def split: prod.splits sum.splits)

lemma lift_waitlist: "pt_waitlist (snd (lift m s)) = pt_waitlist s"
  by (simp add: lift_def split: prod.splits)

definition same_waitlist :: "waitlist_application list \<Rightarrow> portal \<Rightarrow> bool" where
  "same_waitlist xs s \<longleftrightarrow> pt_waitlist s = xs"

lemma same_waitlist_reads:
  "keeps (same_waitlist xs) (create_feedback db_error now u rq raw)"
  "keeps (same_waitlist xs) (update_platform_limits now token admin rq body)"
  "keeps (same_waitlist xs) (list_waitlist_applications rq tier status limit offset)"
  "keeps (same_waitlist xs) (list_user_feedback rq limit offset email)"
proof -
  have L: "keeps (same_waitlist xs) (lift m)" for m :: "'x op" by (rule keeps_lift) (simp add: same_waitlist_def)
  have T: "keeps (same_waitlist xs) m \<Longrightarrow> keeps (same_waitlist xs) (ptransaction m)" for m :: "'x pop"
    by (rule keeps_ptransaction) (simp add: same_waitlist_def)
  have M: "keeps (same_waitlist xs) (modify (\<lambda>s. s\<lparr>pt_feedback := f s\<rparr>))" "keeps (same_waitlist xs) (modify (\<lambda>s. s\<lparr>pt_limits := g s\<rparr>))" for f g
    by (auto simp: same_waitlist_def keeps_def)
  have R: "keeps (same_waitlist xs) (\<lambda>s. case h s of (sn, rt) \<Rightarrow> (Inr sn, s\<lparr>pt_runtime := rt\<rparr>))" for h :: "portal \<Rightarrow> 'x \<times> limits_runtime"
    by (auto simp: same_waitlist_def keeps_def split: prod.splits)
  have C: "keeps (same_waitlist xs) portal_config"
    by (auto simp: same_waitlist_def keeps_def portal_config_def split: prod.splits)
  note K = L T M R C keeps_ebind keeps_try_catch keeps_if keeps_case_option keeps_ret keeps_raise keeps_gets keeps_of_sum
  show "keeps (same_waitlist xs) (create_feedback db_error now u rq raw)"
    unfolding create_feedback_def Let_def by (intro K)
  show "keeps (same_waitlist xs) (update_platform_limits now token admin rq body)"
    unfolding update_platform_limits_def by (intro K)
  show "keeps (same_waitlist xs) (list_waitlist_applications rq tier status limit offset)"
    unfolding list_waitlist_applications_def Let_def by (intro K)
  show "keeps (same_waitlist xs) (list_user_feedback rq limit offset email)"
    unfolding list_user_feedback_def Let_def by (intro K)
qed

definition application_kept :: "waitlist_application \<Rightarrow> waitlist_application \<Rightarrow> bool" where
  "application_kept a b \<longleftrightarrow> (wa_status a \<noteq> PENDING \<longrightarrow> b = a) \<and>
     wa_id b = wa_id a \<and> wa_email b = wa_email a \<and> wa_name b = wa_name a \<and> wa_target_tier b = wa_target_tier a"

definition stamped :: "waitlist_application \<Rightarrow> bool" where
  "stamped a \<longleftrightarrow> (wa_status a = PENDING \<longleftrightarrow> wa_processed_at a = None)"

definition waitlist_move :: "waitlist_application list \<Rightarrow> waitlist_application list \<Rightarrow> bool" where
  "waitlist_move xs ys \<longleftrightarrow> (\<exists>zs new. ys = zs @ new \<and> list_all2 application_kept xs zs) \<and>
     (list_all stamped xs \<longrightarrow> list_all stamped ys)"

lemma application_kept_refl [simp]: "application_kept a a"
  by (simp add: application_kept_def)

lemma waitlist_move_refl [simp]: "waitlist_move xs xs"
  by (auto simp: waitlist_move_def list_all2_refl intro: exI [of _ xs])

lemma application_kept_trans: "application_kept a b \<Longrightarrow> application_kept b c \<Longrightarrow> application_kept a c"
  by (cases "wa_status a = PENDING") (auto simp: application_kept_def)

lemma waitlist_move_trans:
  assumes "waitlist_move xs ys" "waitlist_move ys zs"
  shows "waitlist_move xs zs"
proof -
  obtain y1 y2 where y: "ys = y1 @ y2" "list_all2 application_kept xs y1" using assms(1) by (auto simp: waitlist_move_def)
  obtain z new where z: "zs = z @ new" "list_all2 application_kept ys z" using assms(2) by (auto simp: waitlist_move_def)
  obtain z1 z2 where zz: "z = z1 @ z2" "list_all2 application_kept y1 z1" using y z(2) by (auto simp: list_all2_append1)
  have "list_all2 application_kept xs z1" by (rule list_all2_trans [OF application_kept_trans y(2) zz(2)])
  then show ?thesis using z(1) zz(1) assms by (auto simp: waitlist_move_def)
qed

lemma submit_waitlist_cases:
  assumes "submit_waitlist_application lib now token rq raw s = (r, s')"
  shows "(case r of Inl e \<Rightarrow> pt_waitlist s' = pt_waitlist s
    | Inr a \<Rightarrow> pt_waitlist s' = pt_waitlist s @ [a] \<and> wa_status a = PENDING \<and> wa_processed_at a = None \<and> wa_gmt_created a = now)"
  using assms
  by (cases "ensure_snapshot now token (portal_db s) (pt_runtime s)")
     (auto simp: submit_waitlist_application_def ebind_run lift_def commit_def audit_request_def draw_id_def Let_def ret_def raise_def
        modify_def split: sum.splits)

lemma update_waitlist_cases:
  assumes "update_waitlist_application now admin rq i st s = (r, s')"
  shows "(case r of Inl e \<Rightarrow> pt_waitlist s' = pt_waitlist s
    | Inr b \<Rightarrow> \<exists>a. filter (\<lambda>a. wa_id a = i) (pt_waitlist s) = [a] \<and> wa_status a = PENDING \<and> wa_status b \<noteq> PENDING \<and>
        b = a\<lparr>wa_status := wa_status b, wa_processed_at := Some now, wa_gmt_updated := now\<rparr> \<and>
        pt_waitlist s' = update_where (\<lambda>a. wa_id a = i) (\<lambda>_. b) (pt_waitlist s))"
  using assms
  by (auto simp: update_waitlist_application_def ptransaction_def validate_status_def ebind_run lift_def commit_def audit_request_def Let_def ret_def
        raise_def modify_def split: sum.splits list.splits if_splits)

lemma portal_step_waitlist: "portal_step s s' \<Longrightarrow> waitlist_move (pt_waitlist s) (pt_waitlist s')"
proof (induction rule: portal_step.induct)
  case (submit lib now token rq raw s r s')
  have "waitlist_move xs (xs @ [a])" if "wa_status a = PENDING" "wa_processed_at a = None" for xs a
    using that unfolding waitlist_move_def
    by (intro conjI exI [of _ xs] exI [of _ "[a]"]) (auto simp: stamped_def list_all2_refl)
  then show ?case using submit_waitlist_cases [OF submit] by (cases r) auto
next
  case (decide now admin rq i st s r s')
  show ?case
  proof (cases r)
    case (Inl e)
    then show ?thesis using update_waitlist_cases [OF decide] by simp
  next
    case (Inr b)
    then obtain a where a: "filter (\<lambda>a. wa_id a = i) (pt_waitlist s) = [a]" "wa_status a = PENDING" "wa_status b \<noteq> PENDING"
      "b = a\<lparr>wa_status := wa_status b, wa_processed_at := Some now, wa_gmt_updated := now\<rparr>"
      "pt_waitlist s' = update_where (\<lambda>a. wa_id a = i) (\<lambda>_. b) (pt_waitlist s)"
      using update_waitlist_cases [OF decide] by auto
    have only: "x = a" if "x \<in> set (pt_waitlist s)" "wa_id x = i" for x
    proof -
      have "x \<in> set (filter (\<lambda>a. wa_id a = i) (pt_waitlist s))" using that by simp
      with a(1) show ?thesis by simp
    qed
    have b: "application_kept a b" "stamped b"
    proof -
      have "wa_processed_at b = Some now" by (subst a(4)) simp
      moreover have "wa_id b = wa_id a" "wa_email b = wa_email a" "wa_name b = wa_name a" "wa_target_tier b = wa_target_tier a"
        by (subst a(4), simp)+
      ultimately show "application_kept a b" "stamped b" using a(2,3) by (simp_all add: application_kept_def stamped_def)
    qed
    have "list_all2 application_kept (pt_waitlist s) (pt_waitlist s')"
      using only b(1) by (auto simp: a(5) update_where_def list_all2_map2 intro!: list.rel_refl_strong)
    moreover have "list_all stamped (pt_waitlist s')" if "list_all stamped (pt_waitlist s)"
      using that b(2) by (auto simp: a(5) list_all_iff set_update_where)
    ultimately show ?thesis by (auto simp: waitlist_move_def intro: exI [of _ "[]"])
  qed
qed (use same_waitlist_reads in \<open>auto simp: keeps_def same_waitlist_def, (metis snd_conv waitlist_move_refl)+\<close>)

text \<open>C17: An application for the waitlist is decided at most once: over any sequence of requests every application stays, with
  its applicant and tier, one that was approved or rejected never changes again, and it carries the time of its decision
  exactly when it is decided.\<close>

theorem waitlist_decided_once:
  assumes "portal_step\<^sup>*\<^sup>* s s'" "list_all stamped (pt_waitlist s)"
  shows "list_all stamped (pt_waitlist s') \<and> length (pt_waitlist s) \<le> length (pt_waitlist s') \<and>
    (\<forall>i < length (pt_waitlist s). application_kept (pt_waitlist s ! i) (pt_waitlist s' ! i))"
proof -
  have "waitlist_move (pt_waitlist s) (pt_waitlist s')"
    using assms(1) by induction (auto intro: waitlist_move_trans portal_step_waitlist)
  then obtain zs new where z: "pt_waitlist s' = zs @ new" "list_all2 application_kept (pt_waitlist s) zs" "list_all stamped (pt_waitlist s')"
    using assms(2) by (auto simp: waitlist_move_def)
  then show ?thesis using list_all2_lengthD [OF z(2)] list_all2_nthD [OF z(2)] by (auto simp: nth_append)
qed

subsection \<open>Feedback\<close>

text \<open>The submissions of each user are at least the cooldown apart, in the order of the table.\<close>

definition feedback_spaced :: "user_feedback list \<Rightarrow> bool" where
  "feedback_spaced fs \<longleftrightarrow> sorted_wrt (\<lambda>f g. fb_user_id f = fb_user_id g \<longrightarrow>
     fb_gmt_created f + seconds FEEDBACK_SUBMISSION_COOLDOWN_SECONDS \<le> fb_gmt_created g) fs"

lemma latest_feedback_max:
  assumes "f \<in> set (pt_feedback s)" "fb_user_id f = uid"
  obtains t where "latest_feedback uid s = Some t" "fb_gmt_created f \<le> t"
proof -
  let ?fs = "order_desc fb_gmt_created (filter (\<lambda>f. fb_user_id f = uid) (pt_feedback s))"
  have f: "f \<in> set ?fs" using assms by (simp add: order_desc_def)
  then obtain g gs where g: "?fs = g # gs" by (cases ?fs) auto
  have "sorted (map (\<lambda>x. - fb_gmt_created x) ?fs)" by (simp add: order_desc_def)
  with f have "- fb_gmt_created g \<le> - fb_gmt_created f" by (auto simp: g)
  then show thesis by (intro that [of "fb_gmt_created g"]) (simp_all add: latest_feedback_def g)
qed

lemma create_feedback_cases:
  assumes "create_feedback db_error now cu rq raw s = (r, s')"
  shows "(case r of Inl e \<Rightarrow> pt_feedback s' = pt_feedback s \<and> (\<forall>n. e = FeedbackRateLimitError n \<longrightarrow> cu \<noteq> None \<longrightarrow>
        (\<exists>t. latest_feedback (us_id (the cu)) s = Some t \<and> n = max 1 \<lfloor>60 - total_seconds (now - t)\<rfloor>) \<or> db_error (us_id (the cu)) = Some e)
    | Inr i \<Rightarrow> \<exists>u f. cu = Some u \<and> pt_feedback s' = pt_feedback s @ [f] \<and> fb_user_id f = us_id u \<and> fb_gmt_created f = now \<and>
        fb_body f = strip raw \<and> fb_body f \<noteq> '''' \<and>
        (case latest_feedback (us_id u) s of None \<Rightarrow> True | Some t \<Rightarrow> 60 \<le> total_seconds (now - t)))"
  using assms
  by (auto simp: create_feedback_def strip_and_require_body_def request_validation_error_def FEEDBACK_SUBMISSION_COOLDOWN_SECONDS_def ebind_run
      try_catch_run ptransaction_def lift_def
      commit_def audit_request_def draw_id_def flush_insert_def Let_def ret_def raise_def modify_def
      split: sum.splits option.splits if_splits)

text \<open>C39: However often a user sends feedback, two submissions are at least a minute apart; a rejected one changes nothing and
  is told to wait for at least a second and at most a minute.\<close>

theorem feedback_cooldown:
  assumes "create_feedback db_error now cu rq raw s = (r, s')" "feedback_spaced (pt_feedback s)"
    and clock: "\<forall>f \<in> set (pt_feedback s). fb_gmt_created f \<le> now"
    and db: "\<forall>uid n. db_error uid \<noteq> Some (FeedbackRateLimitError n)"
  shows "feedback_spaced (pt_feedback s') \<and>
    (case r of Inl e \<Rightarrow> pt_feedback s' = pt_feedback s \<and> (\<forall>n. e = FeedbackRateLimitError n \<longrightarrow> 1 \<le> n \<and> n \<le> 60)
     | Inr i \<Rightarrow> (\<exists>f. pt_feedback s' = pt_feedback s @ [f] \<and> fb_gmt_created f = now))"
proof (cases r)
  case (Inl e)
  then have c: "pt_feedback s' = pt_feedback s"
    "\<And>n. e = FeedbackRateLimitError n \<Longrightarrow> cu \<noteq> None \<Longrightarrow>
      (\<exists>t. latest_feedback (us_id (the cu)) s = Some t \<and> n = max 1 \<lfloor>60 - total_seconds (now - t)\<rfloor>)"
    using create_feedback_cases [OF assms(1)] db by auto
  have "cu \<noteq> None" if "e = FeedbackRateLimitError n" for n
    using assms(1) that Inl
    by (cases cu; cases "strip_and_require_body raw")
       (auto simp: create_feedback_def ebind_run strip_and_require_body_def request_validation_error_def Let_def split: if_splits)
  moreover have "1 \<le> n \<and> n \<le> 60" if n: "n = max 1 \<lfloor>60 - total_seconds (now - t)\<rfloor>" "latest_feedback uid s = Some t" for n t uid
  proof -
    obtain f where "f \<in> set (pt_feedback s)" "t = fb_gmt_created f"
      using n(2) by (auto simp: latest_feedback_def order_desc_def split: list.splits)
        (metis (no_types, lifting) filter_is_subset list.set_intros(1) set_sort subset_code(1))
    with clock have "t \<le> now" by auto
    then have "0 \<le> total_seconds (now - t)" by (simp add: total_seconds_def)
    then have "60 - total_seconds (now - t) \<le> 60" by simp
    then have "\<lfloor>60 - total_seconds (now - t)\<rfloor> \<le> 60" by linarith
    with n(1) show ?thesis by simp
  qed
  ultimately show ?thesis using Inl c assms(2) by (simp, metis)
next
  case (Inr i)
  then have "\<exists>(u :: user) f. pt_feedback s' = pt_feedback s @ [f] \<and> fb_user_id f = us_id u \<and> fb_gmt_created f = now \<and>
      (case latest_feedback (us_id u) s of None \<Rightarrow> True | Some t \<Rightarrow> 60 \<le> total_seconds (now - t))"
    using create_feedback_cases [OF assms(1)] by simp blast
  then obtain u :: user and f where f: "pt_feedback s' = pt_feedback s @ [f]" "fb_user_id f = us_id u" "fb_gmt_created f = now"
    "case latest_feedback (us_id u) s of None \<Rightarrow> True | Some t \<Rightarrow> 60 \<le> total_seconds (now - t)"
    by blast
  have "fb_gmt_created g + seconds FEEDBACK_SUBMISSION_COOLDOWN_SECONDS \<le> now"
    if g: "g \<in> set (pt_feedback s)" "fb_user_id g = us_id u" for g
  proof -
    obtain t where "latest_feedback (us_id u) s = Some t" "fb_gmt_created g \<le> t" using latest_feedback_max [OF g] .
    with f(4) show ?thesis
      by (simp add: total_seconds_def seconds_def FEEDBACK_SUBMISSION_COOLDOWN_SECONDS_def field_simps)
  qed
  then show ?thesis using Inr f assms(2) by (simp add: feedback_spaced_def sorted_wrt_append)
qed

definition feedback_portal :: portal where
  "feedback_portal = \<lparr>pt_world = empty_world, pt_limits = None, pt_waitlist = [],
     pt_feedback = [\<lparr>fb_id = ''fb0'', fb_user_id = ''ad'', fb_email = ''ad@x.io'', fb_body = ''hi'', fb_gmt_created = 0\<rparr>],
     pt_runtime = new_limits_runtime\<rparr>"

lemma feedback_cooldown_witness:
  "\<exists>n s'. create_feedback (\<lambda>_. None) (seconds 30) (Some campaign_admin) admin_http_request ''again'' feedback_portal = (Inl (FeedbackRateLimitError n), s') \<and>
     1 \<le> n \<and> n \<le> 60"
proof -
  have "feedback_spaced (pt_feedback feedback_portal)" "\<forall>f \<in> set (pt_feedback feedback_portal). fb_gmt_created f \<le> seconds 30"
    by (simp_all add: feedback_spaced_def feedback_portal_def seconds_def)
  moreover obtain s' where "create_feedback (\<lambda>_. None) (seconds 30) (Some campaign_admin) admin_http_request ''again'' feedback_portal
      = (Inl (FeedbackRateLimitError 30), s')"
    by (simp add: create_feedback_def strip_and_require_body_def strip_def lstrip_def is_space_def ebind_run latest_feedback_def order_desc_def
        feedback_portal_def campaign_admin_def total_seconds_def seconds_def FEEDBACK_SUBMISSION_COOLDOWN_SECONDS_def lift_def commit_def
        audit_request_def Let_def)
  ultimately show ?thesis using feedback_cooldown by fastforce
qed

definition waitlist_portal :: portal where
  "waitlist_portal = feedback_portal\<lparr>pt_waitlist := [\<lparr>wa_id = ''wl0'', wa_email = ''a@x.io'', wa_name = ''A'', wa_target_tier = ''pro'',
     wa_company = None, wa_github_or_portfolio_url = None, wa_use_case = None, wa_status = APPROVED, wa_processed_at = Some 0,
     wa_gmt_created = 0, wa_gmt_updated = 0\<rparr>]\<rparr>"

lemma waitlist_decided_once_witness:
  "wa_status (pt_waitlist (snd (update_waitlist_application 5 campaign_admin admin_http_request ''wl0'' ''rejected'' waitlist_portal)) ! 0) = APPROVED"
proof -
  have "portal_step\<^sup>*\<^sup>* waitlist_portal (snd (update_waitlist_application 5 campaign_admin admin_http_request ''wl0'' ''rejected'' waitlist_portal))"
    by (rule r_into_rtranclp) (rule decide [OF surjective_pairing])
  from waitlist_decided_once [OF this] show ?thesis by (simp add: waitlist_portal_def stamped_def application_kept_def)
qed

subsection \<open>Statistics and limits\<close>

text \<open>The statistics count every sandbox once, those that are deleted included.\<close>

lemma stats_count_sandboxes:
  assumes "get_platform_stats w = (Inr st, w')"
  shows "st_total_created st = length (sandboxes w) \<and>
    st_currently_running st = length (filter (\<lambda>s. sb_status s = READY) (sandboxes w)) \<and> w' = w"
proof -
  have count: "length (filter (\<lambda>s. sb_status s = x) sbs) = count_list (map sb_status sbs) x" for sbs :: "sandbox list" and x
    by (induction sbs) auto
  have "sum_list (map snd (group_by_status sbs)) = length sbs" for sbs
  proof -
    have "sum_list (map snd (group_by_status sbs)) = sum (count_list (map sb_status sbs)) (set (map sb_status sbs))"
      by (simp add: group_by_status_def comp_def count sum_list_distinct_conv_sum_set)
    also have "\<dots> = length (map sb_status sbs)" by (rule sum_count_set) auto
    finally show ?thesis by simp
  qed
  moreover have "(case filter (\<lambda>r. fst r = READY) (group_by_status sbs) of [] \<Rightarrow> 0 | r # _ \<Rightarrow> snd r) =
      length (filter (\<lambda>s. sb_status s = READY) sbs)" for sbs
  proof -
    let ?g = "\<lambda>st. (st, length (filter (\<lambda>s. sb_status s = st) sbs))"
    have "filter (\<lambda>r. fst r = READY) (group_by_status sbs) = map ?g (filter (\<lambda>st. st = READY) (remdups (map sb_status sbs)))"
      by (simp add: group_by_status_def filter_map comp_def)
    moreover have "filter (\<lambda>st. st = READY) (remdups xs) = (if READY \<in> set xs then [READY] else [])" for xs
      by (induction xs) auto
    moreover have "READY \<in> set (map sb_status sbs) \<longleftrightarrow> filter (\<lambda>s. sb_status s = READY) sbs \<noteq> []"
      by (induction sbs) auto
    ultimately show ?thesis by (cases "READY \<in> set (map sb_status sbs)") simp_all
  qed
  ultimately show ?thesis using assms by (auto simp: get_platform_stats_def Let_def)
qed

text \<open>New limits are what the next request of the process sees, and what an absent field said before stays.\<close>

lemma limits_update_takes_effect:
  assumes "update_platform_limits now token admin rq body s = (Inr resp, s')"
  shows "ls_config (fst (ensure_snapshot later token (portal_db s') (pt_runtime s'))) =
      apply_limits body (case pt_limits s of None \<Rightarrow> no_limits | Some c \<Rightarrow> c)"
    and "pt_limits s' = Some (apply_limits body (case pt_limits s of None \<Rightarrow> no_limits | Some c \<Rightarrow> c))"
  using assms
  by (auto simp: update_platform_limits_def portal_config_def get_or_create_config_def portal_db_def ebind_run lift_def commit_def
      audit_request_def refresh_from_session_def ensure_snapshot_def build_snapshot_def Let_def split: if_splits option.splits)

text \<open>Between two refreshes of the snapshot the cap on the waitlist does not count the applications that come in.\<close>

lemma waitlist_cap_lags:
  assumes "rt_snapshot (pt_runtime s) = Some sn" "rt_bind_token (pt_runtime s) = token"
    "check_waitlist_submission_allowed sn = Inr ()" "waitlist_application_request lib raw = Inr body"
  shows "\<exists>s'. ((\<lambda>s. snd (submit_waitlist_application lib now token rq raw s)) ^^ n) s = s' \<and>
    length (pt_waitlist s') = length (pt_waitlist s) + n"
proof -
  let ?step = "\<lambda>s. snd (submit_waitlist_application lib now token rq raw s)"
  have "length (pt_waitlist ((?step ^^ n) s)) = length (pt_waitlist s) + n \<and> pt_runtime ((?step ^^ n) s) = pt_runtime s"
  proof (induction n)
    case (Suc n)
    then show ?case
      using assms by (simp add: submit_waitlist_application_def ebind_run ensure_snapshot_def lift_def draw_id_def commit_def Let_def)
  qed simp
  then show ?thesis by blast
qed

end
