(* ===== verification/Admin_Api.thy ===== *)
theory Admin_Api
  imports Platform_Admin
begin

text \<open>
  The endpoints of an administrator on users (\<^verbatim>\<open>identity/api/admin_users.py\<close>) and on the audit log
  (\<^verbatim>\<open>audit/api/audit.py\<close>), with what they answer and what they record of being asked.

  The columns \<^verbatim>\<open>id\<close> and \<^verbatim>\<open>created_at\<close> of an audit event are not in the model's row: \<open>stamp\<close> gives them for the event at a
  position of the log. \<open>id_key\<close> is the order of ids in the database.
\<close>

subsection \<open>Users\<close>

definition admin_lookup_user_by_email :: "request \<Rightarrow> string \<Rightarrow> (string \<times> string) op" where
  "admin_lookup_user_by_email rq email =
     ebind (select_one_or_none (\<lambda>w. filter (\<lambda>u. us_email u = email) (users w))) (\<lambda>r.
     case r of
       None \<Rightarrow> ebind (audit_failure rq ''admin.user.lookup_by_email'' ''user'' None ''not_found'' [(''email'', MStr email)]) (\<lambda>_.
               ebind commit (\<lambda>_. raise (NotFoundError ''User'' email)))
     | Some u \<Rightarrow> ebind (record_sensitive_admin_read rq ''admin.user.lookup_by_email'' ''user'' (Some (us_id u)) [(''email'', MStr (us_email u))]) (\<lambda>_.
               ebind commit (\<lambda>_. ret (us_id u, us_email u))))"

record resolved_email =
  re_email :: string
  re_user_id :: "string option"
  re_error :: "string option"

text \<open>\<^verbatim>\<open>user_map.get(email)\<close>: of several rows with one email the last is in the dictionary.\<close>

definition resolve_email :: "user list \<Rightarrow> string \<Rightarrow> resolved_email" where
  "resolve_email rows email = (case map_of (rev (map (\<lambda>u. (us_email u, u)) rows)) email of
     None \<Rightarrow> \<lparr>re_email = email, re_user_id = None, re_error = Some ''User not found''\<rparr>
   | Some u \<Rightarrow> \<lparr>re_email = email, re_user_id = Some (us_id u), re_error = None\<rparr>)"

definition resolve_emails_request_ok :: "string list \<Rightarrow> bool" where
  "resolve_emails_request_ok emails \<longleftrightarrow> 1 \<le> length emails \<and> length emails \<le> 1000"

definition admin_resolve_emails :: "request \<Rightarrow> string list \<Rightarrow> resolved_email list op" where
  "admin_resolve_emails rq emails =
     (if \<not> resolve_emails_request_ok emails then raise request_validation_error
      else let unique_emails = rev (remdups (rev emails))
        in ebind (gets (\<lambda>w. filter (\<lambda>u. us_email u \<in> set unique_emails) (users w))) (\<lambda>rows.
           let results = map (resolve_email rows) emails
           in ebind (record_sensitive_admin_read rq ''admin.user.resolve_emails'' ''user_batch_lookup'' None
                [(''requested_count'', MInt (int (length emails))), (''unique_email_count'', MInt (int (length unique_emails))),
                 (''resolved_count'', MInt (int (length (filter (\<lambda>r. re_user_id r \<noteq> None) results))))]) (\<lambda>_.
              ebind commit (\<lambda>_. ret results))))"

definition admin_get_user_usage :: "datetime \<Rightarrow> string \<Rightarrow> usage_summary op" where
  "admin_get_user_usage now user_id =
     transaction (ebind (require_user user_id) (\<lambda>_. ebind (get_usage_summary now user_id) (\<lambda>s. ebind commit (\<lambda>_. ret s))))"

definition require_non_production_email_backend :: "web_settings \<Rightarrow> unit op" where
  "require_non_production_email_backend web =
     (if email_backend web \<noteq> ''memory'' then raise (NotFoundError ''endpoint'' ''verification-token'') else ret ())"

text \<open>The newest row of a query, and the answer that has its token and link.\<close>

definition newest :: "email_verification_log list \<Rightarrow> email_verification_log option" where
  "newest rows = (case order_desc ev_gmt_created rows of [] \<Rightarrow> None | r # _ \<Rightarrow> Some r)"

definition verification_answer :: "request \<Rightarrow> email_verification_log \<Rightarrow> email_verification_log op" where
  "verification_answer rq latest =
     ebind (record_sensitive_admin_read rq ''admin.verification_token.read'' ''user'' (Some (ev_user_id latest))
       [(''email'', MStr (ev_email latest))]) (\<lambda>_. ebind commit (\<lambda>_. ret latest))"

definition get_user_verification_token :: "web_settings \<Rightarrow> request \<Rightarrow> string \<Rightarrow> email_verification_log op" where
  "get_user_verification_token web rq user_id =
     ebind (require_non_production_email_backend web) (\<lambda>_.
     ebind (get_user_row user_id) (\<lambda>target.
     if target = None then raise (NotFoundError ''User'' user_id)
     else ebind (gets (\<lambda>w. newest (filter (\<lambda>e. ev_user_id e = user_id) (email_verification_logs w)))) (\<lambda>latest.
          case latest of None \<Rightarrow> raise (NotFoundError ''verification token'' user_id) | Some e \<Rightarrow> verification_answer rq e)))"

definition get_verification_token_by_email :: "web_settings \<Rightarrow> request \<Rightarrow> string \<Rightarrow> email_verification_log op" where
  "get_verification_token_by_email web rq email =
     ebind (require_non_production_email_backend web) (\<lambda>_.
     ebind (gets (\<lambda>w. newest (filter (\<lambda>e. ev_email e = email) (email_verification_logs w)))) (\<lambda>latest.
     case latest of None \<Rightarrow> raise (NotFoundError ''verification token'' email) | Some e \<Rightarrow> verification_answer rq e))"

subsection \<open>The audit log\<close>

record audit_row =
  ar_id :: string
  ar_created_at :: time
  ar_event :: audit_event

definition audit_rows :: "(nat \<Rightarrow> string \<times> time) \<Rightarrow> world \<Rightarrow> audit_row list" where
  "audit_rows stamp w = map (\<lambda>(n, e). \<lparr>ar_id = fst (stamp n), ar_created_at = snd (stamp n), ar_event = e\<rparr>)
     (zip [0..<length (audit_events w)] (audit_events w))"

record audit_query =
  aq_action :: "string option"
  aq_target_type :: "string option"
  aq_target_id :: "string option"
  aq_actor_user_id :: "string option"
  aq_actor_email :: "string option"
  aq_request_id :: "string option"
  aq_result :: "string option"
  aq_since :: "time option"
  aq_until :: "time option"

text \<open>A condition that is only added when the parameter is given.\<close>

definition given :: "'a option \<Rightarrow> ('a \<Rightarrow> bool) \<Rightarrow> bool" where
  "given v p \<longleftrightarrow> (case v of None \<Rightarrow> True | Some x \<Rightarrow> p x)"

text \<open>A comparison with a column that is null is not true.\<close>

definition apply_filters :: "audit_query \<Rightarrow> audit_row list \<Rightarrow> audit_row list" where
  "apply_filters q rows = filter (\<lambda>r.
     given (aq_action q) (\<lambda>x. ae_action (ar_event r) = x) \<and> given (aq_target_type q) (\<lambda>x. ae_target_type (ar_event r) = x) \<and>
     given (aq_target_id q) (\<lambda>x. ae_target_id (ar_event r) = Some x) \<and>
     given (aq_actor_user_id q) (\<lambda>x. ae_actor_user_id (ar_event r) = Some x) \<and>
     given (aq_request_id q) (\<lambda>x. ae_request_id (ar_event r) = Some x) \<and> given (aq_result q) (\<lambda>x. ae_result (ar_event r) = x) \<and>
     given (aq_since q) (\<lambda>x. x \<le> ar_created_at r) \<and> given (aq_until q) (\<lambda>x. ar_created_at r \<le> x)) rows"

definition normalize_actor_email :: "string option \<Rightarrow> string option" where
  "normalize_actor_email actor_email =
     (case actor_email of None \<Rightarrow> None
      | Some e \<Rightarrow> let trimmed = strip e in if trimmed = '''' then None else Some (lower trimmed))"

definition compact_filters :: "(string \<times> meta_value) list \<Rightarrow> (string \<times> meta_value) list" where
  "compact_filters vs = filter (\<lambda>(k, v). v \<noteq> MNone) vs"

definition get_audit_session_admin :: "string option \<Rightarrow> user option \<Rightarrow> request \<Rightarrow> (user \<times> request) op" where
  "get_audit_session_admin credentials cookie_user rq =
     (if credentials \<noteq> None then raise (ForbiddenError ''Audit endpoints require an admin session cookie.'')
      else case cookie_user of
          None \<Rightarrow> raise (AuthRequiredError ''Authentication required'')
        | Some u \<Rightarrow> if us_role u \<noteq> ADMIN then raise (ForbiddenError ''Admin required'')
            else ret (u, set_scope_context [(''actor_user_id'', Some (us_id u)), (''credential_type'', Some ''cookie'')] rq))"

text \<open>\<^verbatim>\<open>SELECT DISTINCT ... ORDER BY\<close>; the collation of the database is \<open>name_key\<close>.\<close>

definition distinct_ordered :: "(string \<Rightarrow> int) \<Rightarrow> string list \<Rightarrow> string list" where
  "distinct_ordered name_key xs = sort_key name_key (remdups xs)"

text \<open>\<^verbatim>\<open>record_audit_event(..., actor_user_id=admin.id, credential_type="cookie")\<close>.\<close>

definition audit_read :: "user \<Rightarrow> request \<Rightarrow> string \<Rightarrow> (string \<times> meta_value) list \<Rightarrow> unit op" where
  "audit_read admin rq action metadata =
     audit_success (set_scope_context [(''actor_user_id'', Some (us_id admin)), (''credential_type'', Some ''cookie'')] rq)
       action ''audit_event'' None metadata"

definition get_audit_filter_options :: "(string \<Rightarrow> int) \<Rightarrow> user \<Rightarrow> request \<Rightarrow> (string list \<times> string list \<times> string list) op" where
  "get_audit_filter_options name_key admin rq =
     ebind (gets (\<lambda>w. distinct_ordered name_key (map ae_action (audit_events w)))) (\<lambda>actions.
     ebind (gets (\<lambda>w. distinct_ordered name_key (map ae_target_type (audit_events w)))) (\<lambda>target_types.
     ebind (gets (\<lambda>w. distinct_ordered name_key (map ae_result (audit_events w)))) (\<lambda>results.
     ebind (audit_read admin rq ''audit.filter_options.read''
       [(''actions'', MInt (int (length actions))), (''target_types'', MInt (int (length target_types))),
        (''results'', MInt (int (length results)))]) (\<lambda>_.
     ebind commit (\<lambda>_. ret (actions, target_types, results))))))"

definition query_json :: "audit_query \<Rightarrow> string option \<Rightarrow> (string \<times> meta_value) list" where
  "query_json q actor_user_id = compact_filters
     [(''action'', opt_str (aq_action q)), (''target_type'', opt_str (aq_target_type q)), (''target_id'', opt_str (aq_target_id q)),
      (''actor_user_id'', opt_str actor_user_id), (''actor_email'', opt_str (aq_actor_email q)),
      (''request_id'', opt_str (aq_request_id q)), (''result'', opt_str (aq_result q)),
      (''since'', opt_iso (aq_since q)), (''until'', opt_iso (aq_until q))]"

definition events_ordering :: "(string \<Rightarrow> int) \<Rightarrow> audit_row list \<Rightarrow> audit_row list" where
  "events_ordering id_key rows = sort_key (\<lambda>r. (- ar_created_at r, - id_key (ar_id r))) rows"

definition audit_page :: "(string \<Rightarrow> int) \<Rightarrow> (nat \<Rightarrow> string \<times> time) \<Rightarrow> user \<Rightarrow> request \<Rightarrow> audit_query \<Rightarrow> string option \<Rightarrow> nat \<Rightarrow> nat
    \<Rightarrow> (audit_row list \<times> nat) op" where
  "audit_page id_key stamp admin rq q resolved_actor_user_id limit offset =
     ebind (gets (\<lambda>w. apply_filters (q\<lparr>aq_actor_user_id := resolved_actor_user_id\<rparr>) (audit_rows stamp w))) (\<lambda>found.
     ebind (audit_read admin rq ''audit.events.read''
       [(''filters'', MDict (query_json q resolved_actor_user_id)), (''limit'', MInt (int limit)), (''offset'', MInt (int offset)),
        (''matched_total'', MInt (int (length found)))]) (\<lambda>_.
     ebind commit (\<lambda>_. ret (page limit offset (events_ordering id_key found), length found))))"

definition list_audit_events ::
    "(string \<Rightarrow> int) \<Rightarrow> (nat \<Rightarrow> string \<times> time) \<Rightarrow> user \<Rightarrow> request \<Rightarrow> audit_query \<Rightarrow> nat \<Rightarrow> nat \<Rightarrow> (audit_row list \<times> nat) op" where
  "list_audit_events id_key stamp admin rq q limit offset =
     (if \<not> (1 \<le> limit \<and> limit \<le> 1000) then raise request_validation_error
      else if (case (aq_since q, aq_until q) of (Some a, Some b) \<Rightarrow> b < a | _ \<Rightarrow> False)
      then raise (ValidationError ''since must be less than or equal to until.'')
      else case (aq_actor_email q, normalize_actor_email (aq_actor_email q)) of
          (Some _, None) \<Rightarrow> ret ([], 0)
        | (_, None) \<Rightarrow> audit_page id_key stamp admin rq q (aq_actor_user_id q) limit offset
        | (_, Some e) \<Rightarrow>
            ebind (select_one_or_none (\<lambda>w. filter (\<lambda>u. lower (us_email u) = e) (users w))) (\<lambda>r.
            case r of
              None \<Rightarrow> ret ([], 0)
            | Some u \<Rightarrow>
                if truthy (aq_actor_user_id q) \<and> aq_actor_user_id q \<noteq> Some (us_id u) then ret ([], 0)
                else audit_page id_key stamp admin rq q (Some (us_id u)) limit offset))"

subsection \<open>What is answered and recorded\<close>

text \<open>In production the verification tokens of users are not to be had.\<close>

lemma verification_tokens_closed_in_production:
  assumes "email_backend web \<noteq> ''memory''"
  shows "get_user_verification_token web rq uid w = (Inl (NotFoundError ''endpoint'' ''verification-token''), w)"
    and "get_verification_token_by_email web rq email w = (Inl (NotFoundError ''endpoint'' ''verification-token''), w)"
  using assms
  by (simp_all add: get_user_verification_token_def get_verification_token_by_email_def require_non_production_email_backend_def ebind_run)

lemma map_of_emails:
  assumes "distinct (map us_email rows)"
  shows "map_of (rev (map (\<lambda>u. (us_email u, u)) rows)) email = Some u \<longleftrightarrow> u \<in> set rows \<and> us_email u = email"
proof -
  have "distinct (map fst (rev (map (\<lambda>u. (us_email u, u)) rows)))" using assms by (simp only: rev_map [symmetric] map_map comp_def fst_conv distinct_rev)
  from map_of_eq_Some_iff [OF this, of email u] show ?thesis by auto
qed

lemma resolve_emails_exact:
  assumes "admin_resolve_emails rq emails w = (Inr results, w')" "distinct (map us_email (users w))"
  shows "map re_email results = emails \<and>
    (\<forall>r \<in> set results. \<forall>uid. re_user_id r = Some uid \<longleftrightarrow> (\<exists>u \<in> set (users w). us_email u = re_email r \<and> us_id u = uid))"
proof -
  let ?rows = "filter (\<lambda>u. us_email u \<in> set emails) (users w)"
  have r: "results = map (resolve_email ?rows) emails"
    using assms(1) by (auto simp: admin_resolve_emails_def record_sensitive_admin_read_def audit_request_def ebind_run commit_def Let_def split: if_splits)
  have d: "distinct (map us_email ?rows)" using assms(2) by (rule distinct_map_filter)
  have "re_user_id (resolve_email ?rows e) = Some uid \<longleftrightarrow> (\<exists>u \<in> set (users w). us_email u = e \<and> us_id u = uid)" if "e \<in> set emails" for e uid
    using map_of_emails [OF d, of e] that by (fastforce simp: resolve_email_def split: option.splits)
  moreover have "re_email (resolve_email ?rows e) = e" for e by (simp add: resolve_email_def split: option.splits)
  ultimately show ?thesis by (auto simp: r map_idI)
qed

lemma apply_filters_subset: "set (apply_filters q rows) \<subseteq> set rows"
  by (auto simp: apply_filters_def)

lemma events_ordering_ok:
  "mset (events_ordering k rows) = mset rows" "sorted (map (\<lambda>r. - ar_created_at r) (events_ordering k rows))"
proof -
  show "mset (events_ordering k rows) = mset rows" by (simp add: events_ordering_def)
  have "sorted (map (\<lambda>r. (- ar_created_at r, - k (ar_id r))) (events_ordering k rows))" by (simp add: events_ordering_def)
  then have "sorted_wrt (\<lambda>r s. (- ar_created_at r, - k (ar_id r)) \<le> (- ar_created_at s, - k (ar_id s))) (events_ordering k rows)"
    by (simp add: sorted_wrt_map)
  then show "sorted (map (\<lambda>r. - ar_created_at r) (events_ordering k rows))"
    unfolding sorted_wrt_map by (rule sorted_wrt_mono_rel [rotated]) (auto simp: less_eq_prod_def)
qed

text \<open>What a query asks for, field by field and without the order in which the endpoint resolves it. An email stands for the user
  who has it, whatever the case of its letters, and an actor id beside it must be his.\<close>

definition actor_asked :: "audit_query \<Rightarrow> user list \<Rightarrow> string option \<Rightarrow> bool" where
  "actor_asked q us actor \<longleftrightarrow>
     (case aq_actor_email q of
        None \<Rightarrow> aq_actor_user_id q \<in> {None, actor}
      | Some email \<Rightarrow> strip email \<noteq> [] \<and>
          (\<exists>u \<in> set us. lower (us_email u) = lower (strip email) \<and> aq_actor_user_id q \<in> {None, Some [], Some (us_id u)} \<and>
             actor = Some (us_id u)))"

definition asked :: "audit_query \<Rightarrow> user list \<Rightarrow> audit_row \<Rightarrow> bool" where
  "asked q us r \<longleftrightarrow>
     (let e = ar_event r
      in aq_action q \<in> {None, Some (ae_action e)} \<and> aq_target_type q \<in> {None, Some (ae_target_type e)} \<and>
         aq_target_id q \<in> {None, ae_target_id e} \<and> aq_request_id q \<in> {None, ae_request_id e} \<and>
         aq_result q \<in> {None, Some (ae_result e)} \<and>
         (case aq_since q of None \<Rightarrow> True | Some t \<Rightarrow> t \<le> ar_created_at r) \<and>
         (case aq_until q of None \<Rightarrow> True | Some t \<Rightarrow> ar_created_at r \<le> t) \<and>
         actor_asked q us (ae_actor_user_id e))"

text \<open>The query asks for an email that belongs to no user, or to another user than the actor id beside it.\<close>

definition names_nobody :: "audit_query \<Rightarrow> user list \<Rightarrow> bool" where
  "names_nobody q us \<longleftrightarrow>
     (case aq_actor_email q of
        None \<Rightarrow> False
      | Some email \<Rightarrow> strip email = [] \<or>
          list_all (\<lambda>u. lower (us_email u) = lower (strip email) \<longrightarrow> aq_actor_user_id q \<notin> {None, Some [], Some (us_id u)}) us)"

lemma names_nobody_asked: "names_nobody q us \<Longrightarrow> \<not> asked q us r"
  by (auto simp: names_nobody_def asked_def actor_asked_def Let_def list_all_iff split: option.splits)

lemma apply_filters_asked:
  assumes "\<And>actor. aq_actor_user_id q' \<in> {None, actor} \<longleftrightarrow> actor_asked q us actor" "q' = q\<lparr>aq_actor_user_id := i\<rparr>"
  shows "apply_filters q' rows = filter (asked q us) rows"
proof -
  have "given i (\<lambda>x. actor = Some x) \<longleftrightarrow> actor_asked q us actor" for actor
    using assms(1) [of actor] by (auto simp: assms(2) given_def split: option.splits)
  then show ?thesis
    unfolding apply_filters_def assms(2) asked_def Let_def
    by (intro filter_cong refl) (auto simp: given_def split: option.splits)
qed

lemma email_owner:
  assumes "select_one_or_none (\<lambda>w. filter (\<lambda>u. lower (us_email u) = e) (users w)) w = (Inr r, w')"
  shows "w' = w \<and> filter (\<lambda>u. lower (us_email u) = e) (users w) = (case r of None \<Rightarrow> [] | Some u \<Rightarrow> [u])"
  using assms
  by (cases "filter (\<lambda>u. lower (us_email u) = e) (users w)" rule: scalar_one_or_none.cases)
     (auto simp: select_one_or_none_def)

text \<open>Every successful query answers nobody's events, or is one recorded page.\<close>

lemma list_audit_events_cases:
  assumes "list_audit_events id_key stamp admin rq q limit offset w = (Inr (items, n), w')"
  obtains "names_nobody q (users w)" "items = []" "n = 0" "w' = w"
  | i where "\<not> names_nobody q (users w)"
      "\<And>actor. i \<in> {None, actor} \<longleftrightarrow> actor_asked q (users w) actor"
      "audit_page id_key stamp admin rq q i limit offset w = (Inr (items, n), w')"
proof (cases "aq_actor_email q")
  case None
  then show thesis
    using assms by (intro that(2) [of "aq_actor_user_id q"])
      (auto simp: list_audit_events_def normalize_actor_email_def names_nobody_def actor_asked_def split: if_splits)
next
  case (Some email)
  let ?us = "filter (\<lambda>u. lower (us_email u) = lower (strip email)) (users w)"
  show thesis
  proof (cases "strip email = []")
    case True
    then show thesis using assms Some
      by (intro that(1)) (auto simp: list_audit_events_def normalize_actor_email_def names_nobody_def split: if_splits)
  next
    case False
    then obtain r v where r: "select_one_or_none (\<lambda>w. filter (\<lambda>u. lower (us_email u) = lower (strip email)) (users w)) w = (Inr r, v)"
      and rest: "(case r of None \<Rightarrow> ret ([], 0)
        | Some u \<Rightarrow> if truthy (aq_actor_user_id q) \<and> aq_actor_user_id q \<noteq> Some (us_id u) then ret ([], 0)
            else audit_page id_key stamp admin rq q (Some (us_id u)) limit offset) v = (Inr (items, n), w')"
      using assms Some
      by (auto simp: list_audit_events_def normalize_actor_email_def Let_def elim!: ebind_InrE split: if_splits)
    note owner = email_owner [OF r]
    have mem: "u \<in> set ?us \<longleftrightarrow> u \<in> set (users w) \<and> lower (us_email u) = lower (strip email)" for u by auto
    show thesis
    proof (cases r)
      case None
      then have "lower (us_email u) \<noteq> lower (strip email)" if "u \<in> set (users w)" for u
        using owner that by (simp add: filter_empty_conv)
      then show thesis using owner rest Some None
        by (intro that(1)) (auto simp: names_nobody_def list_all_iff)
    next
      case u: (Some u)
      then have only: "v \<in> set (users w) \<and> lower (us_email v) = lower (strip email) \<longleftrightarrow> v = u" for v
        using owner mem [of v] by auto
      then have same: "x = u" if "x \<in> set (users w)" "lower (us_email x) = lower (strip email)" for x using that by blast
      show thesis
      proof (cases "truthy (aq_actor_user_id q) \<and> aq_actor_user_id q \<noteq> Some (us_id u)")
        case True
        then show thesis using owner rest Some u same
          by (intro that(1)) (auto simp: names_nobody_def list_all_iff truthy_def)
      next
        case mine: False
        then have i: "aq_actor_user_id q \<in> {None, Some [], Some (us_id u)}" by (auto simp: truthy_def)
        show thesis
        proof (rule that(2) [of "Some (us_id u)"])
          show "\<not> names_nobody q (users w)" using Some i only [of u] False by (auto simp: names_nobody_def list_all_iff)
          show "Some (us_id u) \<in> {None, actor} \<longleftrightarrow> actor_asked q (users w) actor" for actor
            using Some i only [of u] same False by (auto simp: actor_asked_def)
          show "audit_page id_key stamp admin rq q (Some (us_id u)) limit offset w = (Inr (items, n), w')"
            using owner rest u mine by (simp split: if_splits)
        qed
      qed
    qed
  qed
qed

text \<open>C18: The audit log is read by administrators with a session cookie only. A successful query returns a page of exactly
  the events it asks for, by any of its fields and by email, newest first, with their number. It appends one event, which names
  the reader, the page and the number, and changes nothing else; only a query by an email that belongs to nobody (or to another user than
  the actor id beside it) is not recorded, and it answers nothing.\<close>

theorem audit_reads_are_recorded:
  assumes "get_audit_session_admin credentials cookie_user rq w = (Inr (admin, rq'), w)"
    "list_audit_events id_key stamp admin rq' q limit offset w = (Inr (items, n), w')"
  shows "credentials = None \<and> cookie_user = Some admin \<and> us_role admin = ADMIN \<and>
    (\<exists>found. mset found = mset (filter (asked q (users w)) (audit_rows stamp w)) \<and>
      sorted_wrt (\<lambda>r s. ar_created_at s \<le> ar_created_at r) found \<and> n = length found \<and> items = take limit (drop offset found)) \<and>
    (if names_nobody q (users w) then w' = w \<and> n = 0
     else \<exists>e. w' = store_rows (w\<lparr>audit_events := audit_events w @ [e]\<rparr>) \<and> ae_action e = ''audit.events.read'' \<and>
       ae_actor_user_id e = Some (us_id admin) \<and> ae_credential_type e = Some ''cookie'' \<and>
       map_of (ae_metadata e) ''matched_total'' = Some (MInt (int n)) \<and>
       map_of (ae_metadata e) ''limit'' = Some (MInt (int limit)) \<and> map_of (ae_metadata e) ''offset'' = Some (MInt (int offset)))"
proof -
  let ?rows = "filter (asked q (users w)) (audit_rows stamp w)"
  have adm: "credentials = None \<and> cookie_user = Some admin \<and> us_role admin = ADMIN"
    using assms(1) by (auto simp: get_audit_session_admin_def split: if_splits option.splits)
  from assms(2) show ?thesis
  proof (cases rule: list_audit_events_cases)
    case 1
    then have "?rows = []" by (simp add: names_nobody_asked)
    with adm 1 show ?thesis by simp
  next
    case (2 i)
    have filtered: "apply_filters (q\<lparr>aq_actor_user_id := i\<rparr>) (audit_rows stamp w) = ?rows"
      using 2(2) by (intro apply_filters_asked [where i = i]) simp_all
    define e where "e = request_audit_event (set_scope_context [(''actor_user_id'', Some (us_id admin)), (''credential_type'', Some ''cookie'')] rq')
       ''audit.events.read'' ''audit_event'' None ''success'' None
       [(''filters'', MDict (query_json q i)), (''limit'', MInt (int limit)), (''offset'', MInt (int offset)), (''matched_total'', MInt (int n))]"
    have p: "items = page limit offset (events_ordering id_key ?rows)" "n = length ?rows"
      "w' = store_rows (w\<lparr>audit_events := audit_events w @ [e]\<rparr>)"
      using 2(3) by (auto simp: audit_page_def audit_read_def ebind_run commit_def audit_request_def filtered e_def)
    have e: "ae_action e = ''audit.events.read''" "ae_actor_user_id e = Some (us_id admin)" "ae_credential_type e = Some ''cookie''"
      "map_of (ae_metadata e) ''matched_total'' = Some (MInt (int n))"
      "map_of (ae_metadata e) ''limit'' = Some (MInt (int limit))" "map_of (ae_metadata e) ''offset'' = Some (MInt (int offset))"
      by (simp_all add: e_def request_audit_event_def get_scope_context_def map_of_dict_set compact_metadata_def)
    have "length (events_ordering id_key ?rows) = n" using events_ordering_ok(1) p(2) by (metis size_mset)
    moreover have "sorted_wrt (\<lambda>r s. ar_created_at s \<le> ar_created_at r) (events_ordering id_key ?rows)"
      using events_ordering_ok(2) [of id_key ?rows] by (simp add: sorted_wrt_map)
    ultimately have "\<exists>found. mset found = mset ?rows \<and> sorted_wrt (\<lambda>r s. ar_created_at s \<le> ar_created_at r) found \<and>
        n = length found \<and> items = take limit (drop offset found)"
      using events_ordering_ok(1) p(1) by (intro exI [of _ "events_ordering id_key ?rows"]) (simp add: page_def)
    moreover have "\<exists>e. w' = store_rows (w\<lparr>audit_events := audit_events w @ [e]\<rparr>) \<and> ae_action e = ''audit.events.read'' \<and>
       ae_actor_user_id e = Some (us_id admin) \<and> ae_credential_type e = Some ''cookie'' \<and>
       map_of (ae_metadata e) ''matched_total'' = Some (MInt (int n)) \<and>
       map_of (ae_metadata e) ''limit'' = Some (MInt (int limit)) \<and> map_of (ae_metadata e) ''offset'' = Some (MInt (int offset))"
      using p(3) e by blast
    ultimately show ?thesis using adm 2(1) by simp
  qed
qed

text \<open>A query by an email that belongs to nobody leaves no trace, and two users whose emails differ only in case make it fail.\<close>

definition any_event :: audit_query where
  "any_event = \<lparr>aq_action = None, aq_target_type = None, aq_target_id = None, aq_actor_user_id = None, aq_actor_email = None,
     aq_request_id = None, aq_result = None, aq_since = None, aq_until = None\<rparr>"

lemma unknown_email_unrecorded:
  assumes "normalize_actor_email (Some email) = Some e" "\<forall>u \<in> set (users w). lower (us_email u) \<noteq> e" "1 \<le> limit" "limit \<le> 1000"
  shows "list_audit_events id_key stamp admin rq (any_event\<lparr>aq_actor_email := Some email\<rparr>) limit offset w = (Inr ([], 0), w)"
proof -
  have "filter (\<lambda>u. lower (us_email u) = e) (users w) = []" using assms(2) by (simp add: filter_empty_conv)
  then show ?thesis using assms by (simp add: list_audit_events_def any_event_def ebind_run)
qed

lemma case_twins_break_audit:
  assumes "normalize_actor_email (Some email) = Some e" "filter (\<lambda>u. lower (us_email u) = e) (users w) = [a, b]" "1 \<le> limit" "limit \<le> 1000"
  shows "list_audit_events id_key stamp admin rq (any_event\<lparr>aq_actor_email := Some email\<rparr>) limit offset w
      = (Inl (CardinalityError MultipleResultsFound), w)"
  using assms by (simp add: list_audit_events_def any_event_def ebind_run select_one_or_none_def)

definition read_event :: "string \<Rightarrow> audit_event" where
  "read_event actor = request_audit_event (set_scope_context [(''actor_user_id'', Some actor)] admin_http_request)
     ''auth.login'' ''user'' None ''success'' None []"

definition audited_world :: world where
  "audited_world = empty_world\<lparr>users := [campaign_admin], audit_events := [read_event ''ad'', read_event ''zz'', read_event ''ad'']\<rparr>"

definition by_email :: audit_query where
  "by_email = any_event\<lparr>aq_actor_email := Some '' AD@x.io''\<rparr>"

lemma audit_reads_are_recorded_witness:
  "\<exists>rq' items w' e. get_audit_session_admin None (Some campaign_admin) admin_http_request audited_world = (Inr (campaign_admin, rq'), audited_world) \<and>
     list_audit_events (\<lambda>_. 0) (\<lambda>n. (''ev'', int n)) campaign_admin rq' by_email 1 0 audited_world = (Inr (items, 2), w') \<and>
     audit_events w' = audit_events audited_world @ [e] \<and> ae_actor_user_id e = Some ''ad''"
proof -
  obtain rq' where 1: "get_audit_session_admin None (Some campaign_admin) admin_http_request audited_world = (Inr (campaign_admin, rq'), audited_world)"
    by (simp add: get_audit_session_admin_def campaign_admin_def)
  have email: "lower (strip '' AD@x.io'') = ''ad@x.io''" "strip '' AD@x.io'' \<noteq> []" "lower ''ad@x.io'' = ''ad@x.io''" by code_simp+
  have found: "length (apply_filters (by_email\<lparr>aq_actor_user_id := Some ''ad''\<rparr>) (audit_rows (\<lambda>n. (''ev'', int n)) audited_world)) = 2"
    by code_simp
  have owner: "filter (\<lambda>u. lower (us_email u) = ''ad@x.io'') (users audited_world) = [campaign_admin]"
    by (simp add: audited_world_def campaign_admin_def email)
  obtain items w' where "audit_page (\<lambda>_. 0) (\<lambda>n. (''ev'', int n)) campaign_admin rq' by_email (Some ''ad'') 1 0 audited_world
      = (Inr (items, 2), w')"
    by (simp add: audit_page_def audit_read_def audit_request_def ebind_run commit_def found)
  then have 2: "list_audit_events (\<lambda>_. 0) (\<lambda>n. (''ev'', int n)) campaign_admin rq' by_email 1 0 audited_world = (Inr (items, 2), w')"
    by (simp add: list_audit_events_def by_email_def any_event_def normalize_actor_email_def Let_def email ebind_def
        select_one_or_none_def owner truthy_def campaign_admin_def)
  have "\<not> names_nobody by_email (users audited_world)"
    by (simp add: names_nobody_def by_email_def any_event_def audited_world_def campaign_admin_def email)
  with audit_reads_are_recorded [OF 1 2] obtain e where "w' = store_rows (audited_world\<lparr>audit_events := audit_events audited_world @ [e]\<rparr>)"
    "ae_actor_user_id e = Some (us_id campaign_admin)" by auto
  then have "audit_events w' = audit_events audited_world @ [e]" "ae_actor_user_id e = Some ''ad''"
    by (simp_all add: store_rows_def campaign_admin_def)
  with 1 2 show ?thesis by blast
qed

end
