(* ===== verification/K8s_Manifests.thy ===== *)
theory K8s_Manifests
  imports Py_Datetime
begin

text \<open>
  The production client of \<^verbatim>\<open>infra/services/k8s_client.py\<close>, \<^verbatim>\<open>Kr8sClient\<close>: the manifests it builds, the requests it makes
  and what it makes of the answers.

  A JSON value is a \<open>meta_value\<close>, a dictionary keeps the order of its keys. The library that talks to the API server is the
  parameter \<open>tr\<close>: it answers a request, in the light of those made before, with an exception or with a status and the JSON
  of the body, which is \<open>None\<close> when the body is not JSON.
\<close>

subsection \<open>JSON\<close>

definition attribute_error :: exn where
  "attribute_error = K8sException ''AttributeError''"

text \<open>\<^verbatim>\<open>v.get(k, d)\<close>, which only a dictionary has.\<close>

definition jget :: "string \<Rightarrow> meta_value \<Rightarrow> meta_value \<Rightarrow> exn + meta_value" where
  "jget k d v = (case v of MDict kvs \<Rightarrow> Inr (case map_of kvs k of None \<Rightarrow> d | Some x \<Rightarrow> x) | _ \<Rightarrow> Inl attribute_error)"

fun jpath :: "string list \<Rightarrow> meta_value \<Rightarrow> meta_value \<Rightarrow> exn + meta_value" where
  "jpath [] d v = Inr v"
| "jpath [k] d v = jget k d v"
| "jpath (k # ks) d v = (case jget k (MDict []) v of Inl e \<Rightarrow> Inl e | Inr x \<Rightarrow> jpath ks d x)"

fun jtruthy :: "meta_value \<Rightarrow> bool" where
  "jtruthy MNone \<longleftrightarrow> False"
| "jtruthy (MStr s) \<longleftrightarrow> s \<noteq> []"
| "jtruthy (MInt i) \<longleftrightarrow> i \<noteq> 0"
| "jtruthy (MDec d) \<longleftrightarrow> d \<noteq> 0"
| "jtruthy (MBool b) \<longleftrightarrow> b"
| "jtruthy (MList l) \<longleftrightarrow> l \<noteq> []"
| "jtruthy (MDict d) \<longleftrightarrow> d \<noteq> []"

type_synonym json_dict = "(string \<times> meta_value) list"

definition str_dict :: "(string \<times> string) list \<Rightarrow> meta_value" where
  "str_dict d = MDict (map (\<lambda>(k, v). (k, MStr v)) d)"

text \<open>\<^verbatim>\<open>if v: d[k] = v\<close> for a dictionary of strings that may be absent or empty.\<close>

definition put_if :: "string \<Rightarrow> (string \<times> string) list option \<Rightarrow> json_dict" where
  "put_if k v = (case v of None \<Rightarrow> [] | Some d \<Rightarrow> if d = [] then [] else [(k, str_dict d)])"

subsection \<open>Constants and security contexts\<close>

definition CLAIM_API :: string where "CLAIM_API = ''extensions.agents.x-k8s.io/v1beta1''"
definition SANDBOX_API :: string where "SANDBOX_API = ''agents.x-k8s.io/v1beta1''"
definition TEMPLATE_API :: string where "TEMPLATE_API = ''extensions.agents.x-k8s.io/v1beta1''"
definition SNAPSHOT_API :: string where "SNAPSHOT_API = ''snapshot.storage.k8s.io/v1''"
definition SANDBOX_HOME_DIR :: string where "SANDBOX_HOME_DIR = ''/home/gem''"
definition SANDBOX_HOME_TEMPLATE_DIR :: string where "SANDBOX_HOME_TEMPLATE_DIR = ''/opt/treadstone/home-template''"
definition SANDBOX_UID :: int where "SANDBOX_UID = 1000"
definition SANDBOX_GID :: int where "SANDBOX_GID = 1000"
definition SANDBOX_SERVICE_ACCOUNT_NAME :: string where "SANDBOX_SERVICE_ACCOUNT_NAME = ''treadstone-sandbox''"
definition SANDBOX_READ_ONLY_ROOT_FILESYSTEM :: bool where "SANDBOX_READ_ONLY_ROOT_FILESYSTEM = False"
definition WATCH_TIMEOUT_SECONDS :: int where "WATCH_TIMEOUT_SECONDS = 300"

definition seccomp_default :: meta_value where
  "seccomp_default = MDict [(''type'', MStr ''RuntimeDefault'')]"

definition sandbox_pod_security_context :: "bool \<Rightarrow> meta_value" where
  "sandbox_pod_security_context with_pvc =
     MDict ((''seccompProfile'', seccomp_default) #
       (if with_pvc then [(''fsGroup'', MInt SANDBOX_GID), (''fsGroupChangePolicy'', MStr ''OnRootMismatch'')] else []))"

definition sandbox_main_container_security_context :: meta_value where
  "sandbox_main_container_security_context = MDict
     [(''allowPrivilegeEscalation'', MBool False), (''readOnlyRootFilesystem'', MBool SANDBOX_READ_ONLY_ROOT_FILESYSTEM),
      (''runAsNonRoot'', MBool True), (''runAsUser'', MInt SANDBOX_UID), (''runAsGroup'', MInt SANDBOX_GID),
      (''seccompProfile'', seccomp_default)]"

definition sandbox_init_container_security_context :: meta_value where
  "sandbox_init_container_security_context = MDict
     [(''allowPrivilegeEscalation'', MBool False), (''runAsNonRoot'', MBool True), (''runAsUser'', MInt SANDBOX_UID),
      (''runAsGroup'', MInt SANDBOX_GID), (''seccompProfile'', seccomp_default)]"

subsection \<open>Requests\<close>

record http_call =
  hc_verb :: string
  hc_url :: string
  hc_params :: "(string \<times> string) list"
  hc_body :: "meta_value option"
  hc_content_type :: "string option"

type_synonym transport = "http_call list \<Rightarrow> http_call \<Rightarrow> exn + (int \<times> meta_value option)"

type_synonym 'a kop = "(http_call list, exn, 'a) action"

definition call_api :: "transport \<Rightarrow> http_call \<Rightarrow> (int \<times> meta_value option) kop" where
  "call_api tr c = (\<lambda>l. (tr l c, l @ [c]))"

definition request_of :: "string \<Rightarrow> string \<Rightarrow> http_call" where
  "request_of verb url = \<lparr>hc_verb = verb, hc_url = url, hc_params = [], hc_body = None, hc_content_type = None\<rparr>"

definition json_of :: "int \<times> meta_value option \<Rightarrow> meta_value kop" where
  "json_of resp = (case snd resp of None \<Rightarrow> raise (K8sException ''JSONDecodeError'') | Some v \<Rightarrow> ret v)"

definition kr_post :: "transport \<Rightarrow> string \<Rightarrow> meta_value \<Rightarrow> meta_value kop" where
  "kr_post tr url manifest = ebind (call_api tr ((request_of ''POST'' url)\<lparr>hc_body := Some manifest\<rparr>)) json_of"

definition kr_delete :: "transport \<Rightarrow> string \<Rightarrow> bool kop" where
  "kr_delete tr url = ebind (call_api tr (request_of ''DELETE'' url)) (\<lambda>resp. ret (fst resp < 400))"

definition kr_get :: "transport \<Rightarrow> string \<Rightarrow> meta_value option kop" where
  "kr_get tr url = try_catch (ebind (ebind (call_api tr (request_of ''GET'' url)) json_of) (\<lambda>v. ret (Some v))) (\<lambda>_. ret None)"

definition kr_merge_patch :: "transport \<Rightarrow> string \<Rightarrow> meta_value \<Rightarrow> bool kop" where
  "kr_merge_patch tr url body =
     ebind (call_api tr ((request_of ''PATCH'' url)\<lparr>hc_body := Some body, hc_content_type := Some ''application/merge-patch+json''\<rparr>))
       (\<lambda>resp. ret (fst resp < 400))"

text \<open>The collections and objects of the API.\<close>

definition namespaced :: "string \<Rightarrow> string \<Rightarrow> string \<Rightarrow> string" where
  "namespaced api ns plural = ''/apis/'' @ api @ ''/namespaces/'' @ ns @ ''/'' @ plural"

definition object_in :: "string \<Rightarrow> string \<Rightarrow> string" where
  "object_in collection name = collection @ ''/'' @ name"

definition claims_url :: "string \<Rightarrow> string" where
  "claims_url ns = namespaced CLAIM_API ns ''sandboxclaims''"
definition sandboxes_url :: "string \<Rightarrow> string" where
  "sandboxes_url ns = namespaced SANDBOX_API ns ''sandboxes''"
definition templates_url :: "string \<Rightarrow> string" where
  "templates_url ns = namespaced TEMPLATE_API ns ''sandboxtemplates''"
definition volume_snapshots_url :: "string \<Rightarrow> string" where
  "volume_snapshots_url ns = namespaced SNAPSHOT_API ns ''volumesnapshots''"
definition pvcs_url :: "string \<Rightarrow> string" where
  "pvcs_url ns = ''/api/v1/namespaces/'' @ ns @ ''/persistentvolumeclaims''"
definition snapshot_contents_url :: string where
  "snapshot_contents_url = ''/apis/'' @ SNAPSHOT_API @ ''/volumesnapshotcontents''"

subsection \<open>Manifests\<close>

definition jindex :: "string \<Rightarrow> meta_value \<Rightarrow> exn + meta_value" where
  "jindex k v = (case v of
     MDict kvs \<Rightarrow> (case map_of kvs k of None \<Rightarrow> Inl (K8sException ''KeyError'') | Some x \<Rightarrow> Inr x)
   | _ \<Rightarrow> Inl (K8sException ''TypeError''))"

definition shutdown_json :: "time \<Rightarrow> meta_value" where
  "shutdown_json t = MStr (rfc3339 t)"

definition metadata_json :: "string \<Rightarrow> string \<Rightarrow> (string \<times> string) list option \<Rightarrow> (string \<times> string) list option \<Rightarrow> meta_value" where
  "metadata_json name ns labels annotations =
     MDict ([(''name'', MStr name), (''namespace'', MStr ns)] @ put_if ''labels'' labels @ put_if ''annotations'' annotations)"

definition warm_pool_name :: "string \<Rightarrow> string" where
  "warm_pool_name ref = (if endswith ref ''-pool'' then ref else ref @ ''-pool'')"

definition claim_json ::
    "string \<Rightarrow> string \<Rightarrow> string \<Rightarrow> time option \<Rightarrow> (string \<times> string) list option \<Rightarrow> (string \<times> string) list option \<Rightarrow> meta_value" where
  "claim_json name warm_pool_ref ns shutdown_time labels annotations =
     MDict [(''apiVersion'', MStr CLAIM_API), (''kind'', MStr ''SandboxClaim''),
       (''metadata'', metadata_json name ns labels annotations),
       (''spec'', MDict ((''warmPoolRef'', MDict [(''name'', MStr (warm_pool_name warm_pool_ref))]) #
         (case shutdown_time of None \<Rightarrow> [] | Some t \<Rightarrow> [(''lifecycle'', MDict [(''shutdownTime'', shutdown_json t)])])))]"

record sandbox_args =
  sa_name :: string
  sa_namespace :: string
  sa_image :: string
  sa_container_port :: int
  sa_resources :: meta_value
  sa_operating_mode :: string
  sa_startup_probe :: "meta_value option"
  sa_readiness_probe :: "meta_value option"
  sa_liveness_probe :: "meta_value option"
  sa_volume_claim_templates :: "meta_value list"
  sa_shutdown_time :: "time option"
  sa_labels :: "(string \<times> string) list option"
  sa_annotations :: "(string \<times> string) list option"
  sa_pod_labels :: "(string \<times> string) list option"

definition probe_entry :: "string \<Rightarrow> meta_value option \<Rightarrow> json_dict" where
  "probe_entry k p = (case p of None \<Rightarrow> [] | Some v \<Rightarrow> if jtruthy v then [(k, v)] else [])"

definition container_probes :: "sandbox_args \<Rightarrow> json_dict" where
  "container_probes a = probe_entry ''startupProbe'' (sa_startup_probe a) @ probe_entry ''readinessProbe'' (sa_readiness_probe a) @
     probe_entry ''livenessProbe'' (sa_liveness_probe a)"

text \<open>\<^verbatim>\<open>[vct["metadata"]["name"] for vct in volume_claim_templates]\<close>\<close>

fun volume_names :: "meta_value list \<Rightarrow> exn + meta_value list" where
  "volume_names [] = Inr []"
| "volume_names (v # vs) =
     (case jindex ''metadata'' v of Inl e \<Rightarrow> Inl e
      | Inr m \<Rightarrow> (case jindex ''name'' m of Inl e \<Rightarrow> Inl e
          | Inr n \<Rightarrow> (case volume_names vs of Inl e \<Rightarrow> Inl e | Inr ns \<Rightarrow> Inr (n # ns))))"

definition volume_mounts :: "string \<Rightarrow> meta_value list \<Rightarrow> meta_value" where
  "volume_mounts path names = MList (map (\<lambda>n. MDict [(''name'', n), (''mountPath'', MStr path)]) names)"

definition home_sentinel :: string where
  "home_sentinel = ''/mnt/home/.treadstone-home-initialized''"

definition init_script :: "string \<Rightarrow> string" where
  "init_script template_dir =
     ''if [ ! -f '' @ home_sentinel @ '' ]; then '' @
     ''cp -a '' @ template_dir @ ''/. /mnt/home/ 2>/dev/null || true; '' @
     ''touch '' @ home_sentinel @ ''; '' @ ''fi''"

definition init_container :: "string \<Rightarrow> string \<Rightarrow> meta_value list \<Rightarrow> meta_value" where
  "init_container template_dir img names = MDict
     [(''name'', MStr ''init-home''), (''image'', MStr img),
      (''command'', MList [MStr ''sh'', MStr ''-c'', MStr (init_script template_dir)]),
      (''volumeMounts'', volume_mounts ''/mnt/home'' names), (''securityContext'', sandbox_init_container_security_context)]"

definition main_container :: "sandbox_args \<Rightarrow> meta_value list \<Rightarrow> json_dict" where
  "main_container a names =
     [(''name'', MStr ''sandbox''), (''image'', MStr (sa_image a)),
      (''ports'', MList [MDict [(''containerPort'', MInt (sa_container_port a))]]), (''resources'', sa_resources a)] @
     container_probes a @ [(''securityContext'', sandbox_main_container_security_context)] @
     (if sa_volume_claim_templates a = [] then [] else [(''volumeMounts'', volume_mounts SANDBOX_HOME_DIR names)])"

definition pod_spec :: "sandbox_args \<Rightarrow> meta_value list \<Rightarrow> json_dict" where
  "pod_spec a names =
     [(''automountServiceAccountToken'', MBool False), (''enableServiceLinks'', MBool False),
      (''serviceAccountName'', MStr SANDBOX_SERVICE_ACCOUNT_NAME), (''containers'', MList [MDict (main_container a names)]),
      (''restartPolicy'', MStr ''OnFailure''),
      (''securityContext'', sandbox_pod_security_context (sa_volume_claim_templates a \<noteq> []))] @
     (if sa_volume_claim_templates a = [] then []
      else [(''initContainers'', MList [init_container SANDBOX_HOME_TEMPLATE_DIR (sa_image a) names])])"

definition sandbox_json :: "sandbox_args \<Rightarrow> exn + meta_value" where
  "sandbox_json a = (case volume_names (sa_volume_claim_templates a) of Inl e \<Rightarrow> Inl e | Inr names \<Rightarrow> Inr (MDict
     [(''apiVersion'', MStr SANDBOX_API), (''kind'', MStr ''Sandbox''),
      (''metadata'', metadata_json (sa_name a) (sa_namespace a) (sa_labels a) (sa_annotations a)),
      (''spec'', MDict
        ([(''operatingMode'', MStr (sa_operating_mode a)),
          (''podTemplate'', MDict ((''spec'', MDict (pod_spec a names)) #
             (case sa_pod_labels a of None \<Rightarrow> [] | Some d \<Rightarrow> if d = [] then [] else [(''metadata'', MDict [(''labels'', str_dict d)])]))),
          (''service'', MBool True)] @
         (if sa_volume_claim_templates a = [] then [] else [(''volumeClaimTemplates'', MList (sa_volume_claim_templates a))]) @
         (case sa_shutdown_time a of None \<Rightarrow> [] | Some t \<Rightarrow> [(''shutdownTime'', shutdown_json t)])))]))"

definition volume_snapshot_json ::
    "string \<Rightarrow> string \<Rightarrow> string \<Rightarrow> string \<Rightarrow> (string \<times> string) list option \<Rightarrow> (string \<times> string) list option \<Rightarrow> meta_value" where
  "volume_snapshot_json name ns source_pvc_name snapshot_class_name labels annotations =
     MDict [(''apiVersion'', MStr SNAPSHOT_API), (''kind'', MStr ''VolumeSnapshot''), (''metadata'', metadata_json name ns labels annotations),
       (''spec'', MDict [(''volumeSnapshotClassName'', MStr snapshot_class_name),
         (''source'', MDict [(''persistentVolumeClaimName'', MStr source_pvc_name)])])]"

subsection \<open>The calls\<close>

definition kr_create_sandbox_claim ::
    "transport \<Rightarrow> string \<Rightarrow> string \<Rightarrow> string \<Rightarrow> time option \<Rightarrow> (string \<times> string) list option \<Rightarrow> (string \<times> string) list option \<Rightarrow> meta_value kop" where
  "kr_create_sandbox_claim tr name warm_pool_ref ns shutdown_time labels annotations =
     kr_post tr (claims_url ns) (claim_json name warm_pool_ref ns shutdown_time labels annotations)"

definition kr_delete_sandbox_claim :: "transport \<Rightarrow> string \<Rightarrow> string \<Rightarrow> bool kop" where
  "kr_delete_sandbox_claim tr name ns = kr_delete tr (object_in (claims_url ns) name)"

definition kr_get_sandbox_claim :: "transport \<Rightarrow> string \<Rightarrow> string \<Rightarrow> meta_value option kop" where
  "kr_get_sandbox_claim tr name ns = kr_get tr (object_in (claims_url ns) name)"

definition kr_create_sandbox :: "transport \<Rightarrow> sandbox_args \<Rightarrow> meta_value kop" where
  "kr_create_sandbox tr a = ebind (of_sum (sandbox_json a)) (kr_post tr (sandboxes_url (sa_namespace a)))"

definition kr_delete_sandbox :: "transport \<Rightarrow> string \<Rightarrow> string \<Rightarrow> bool kop" where
  "kr_delete_sandbox tr name ns = kr_delete tr (object_in (sandboxes_url ns) name)"

definition kr_get_sandbox :: "transport \<Rightarrow> string \<Rightarrow> string \<Rightarrow> meta_value option kop" where
  "kr_get_sandbox tr name ns = kr_get tr (object_in (sandboxes_url ns) name)"

definition kr_list_sandboxes_with_metadata :: "transport \<Rightarrow> string \<Rightarrow> meta_value kop" where
  "kr_list_sandboxes_with_metadata tr ns = ebind (call_api tr (request_of ''GET'' (sandboxes_url ns))) json_of"

definition kr_list_sandboxes :: "transport \<Rightarrow> string \<Rightarrow> meta_value kop" where
  "kr_list_sandboxes tr ns = ebind (call_api tr (request_of ''GET'' (sandboxes_url ns))) (\<lambda>resp.
     ebind (json_of resp) (\<lambda>data. of_sum (jget ''items'' (MList []) data)))"

definition kr_set_sandbox_operating_mode :: "transport \<Rightarrow> string \<Rightarrow> string \<Rightarrow> string \<Rightarrow> bool kop" where
  "kr_set_sandbox_operating_mode tr name ns mode =
     kr_merge_patch tr (object_in (sandboxes_url ns) name) (MDict [(''spec'', MDict [(''operatingMode'', MStr mode)])])"

definition kr_get_storage_class :: "transport \<Rightarrow> string \<Rightarrow> meta_value option kop" where
  "kr_get_storage_class tr name = kr_get tr (''/apis/storage.k8s.io/v1/storageclasses/'' @ name)"

definition kr_get_volume_snapshot_class :: "transport \<Rightarrow> string \<Rightarrow> meta_value option kop" where
  "kr_get_volume_snapshot_class tr name = kr_get tr (''/apis/'' @ SNAPSHOT_API @ ''/volumesnapshotclasses/'' @ name)"

definition kr_create_volume_snapshot ::
    "transport \<Rightarrow> string \<Rightarrow> string \<Rightarrow> string \<Rightarrow> string \<Rightarrow> (string \<times> string) list option \<Rightarrow> (string \<times> string) list option \<Rightarrow> meta_value kop" where
  "kr_create_volume_snapshot tr name ns pvc cls labels annotations =
     kr_post tr (volume_snapshots_url ns) (volume_snapshot_json name ns pvc cls labels annotations)"

definition kr_get_volume_snapshot :: "transport \<Rightarrow> string \<Rightarrow> string \<Rightarrow> meta_value option kop" where
  "kr_get_volume_snapshot tr name ns = kr_get tr (object_in (volume_snapshots_url ns) name)"

definition kr_delete_volume_snapshot :: "transport \<Rightarrow> string \<Rightarrow> string \<Rightarrow> bool kop" where
  "kr_delete_volume_snapshot tr name ns = kr_delete tr (object_in (volume_snapshots_url ns) name)"

definition kr_get_volume_snapshot_content :: "transport \<Rightarrow> string \<Rightarrow> meta_value option kop" where
  "kr_get_volume_snapshot_content tr name = kr_get tr (object_in snapshot_contents_url name)"

definition kr_delete_volume_snapshot_content :: "transport \<Rightarrow> string \<Rightarrow> bool kop" where
  "kr_delete_volume_snapshot_content tr name = kr_delete tr (object_in snapshot_contents_url name)"

definition kr_set_volume_snapshot_content_deletion_policy :: "transport \<Rightarrow> string \<Rightarrow> string \<Rightarrow> bool kop" where
  "kr_set_volume_snapshot_content_deletion_policy tr name policy =
     kr_merge_patch tr (object_in snapshot_contents_url name) (MDict [(''spec'', MDict [(''deletionPolicy'', MStr policy)])])"

text \<open>\<open>key_order\<close> is the order of the label keys, which Python compares by code points.\<close>

definition label_selector :: "(string \<Rightarrow> int) \<Rightarrow> (string \<times> string) list \<Rightarrow> string" where
  "label_selector key_order labels = join '','' (map (\<lambda>(k, v). k @ ''='' @ v) (sort_key (\<lambda>(k, v). key_order k) labels))"

definition kr_list_persistent_volume_claims ::
    "(string \<Rightarrow> int) \<Rightarrow> transport \<Rightarrow> string \<Rightarrow> (string \<times> string) list option \<Rightarrow> meta_value kop" where
  "kr_list_persistent_volume_claims key_order tr ns labels =
     ebind (call_api tr ((request_of ''GET'' (pvcs_url ns))\<lparr>hc_params :=
       (case labels of None \<Rightarrow> [] | Some d \<Rightarrow> if d = [] then [] else [(''labelSelector'', label_selector key_order d)])\<rparr>)) (\<lambda>resp.
     ebind (json_of resp) (\<lambda>data. of_sum (jget ''items'' (MList []) data)))"

definition kr_get_persistent_volume_claim :: "transport \<Rightarrow> string \<Rightarrow> string \<Rightarrow> meta_value option kop" where
  "kr_get_persistent_volume_claim tr name ns = kr_get tr (object_in (pvcs_url ns) name)"

definition kr_delete_persistent_volume_claim :: "transport \<Rightarrow> string \<Rightarrow> string \<Rightarrow> bool kop" where
  "kr_delete_persistent_volume_claim tr name ns = kr_delete tr (object_in (pvcs_url ns) name)"

definition kr_get_persistent_volume :: "transport \<Rightarrow> string \<Rightarrow> meta_value option kop" where
  "kr_get_persistent_volume tr name = kr_get tr (''/api/v1/persistentvolumes/'' @ name)"

subsection \<open>The watch\<close>

text \<open>The lines of the stream, an exception of the stream being its end; \<open>loads\<close> is \<^verbatim>\<open>json.loads\<close>. The events are what the
  generator yields before it ends or raises.\<close>

definition WatchExpiredError :: exn where
  "WatchExpiredError = K8sException ''WatchExpiredError''"

datatype watch_item = Skip | Yield string meta_value | Stop exn

definition watch_line :: "(string \<Rightarrow> meta_value option) \<Rightarrow> string \<Rightarrow> watch_item" where
  "watch_line loads raw =
     (let line = strip raw in
      if line = '''' then Skip
      else case loads line of
        None \<Rightarrow> Skip
      | Some event \<Rightarrow>
          (case jget ''type'' (MStr '''') event of
             Inl e \<Rightarrow> Stop e
           | Inr event_type \<Rightarrow>
               let obj = (case jget ''object'' (MDict []) event of Inl _ \<Rightarrow> MNone | Inr x \<Rightarrow> x)
               in if event_type = MStr ''ERROR''
                  then (case jget ''code'' (MInt 0) obj of
                      Inl e \<Rightarrow> Stop e
                    | Inr code \<Rightarrow> if code = MInt 410 \<or> code = MDec 410 then Stop WatchExpiredError else Skip)
                  else (case event_type of
                      MStr t \<Rightarrow> if t \<in> {''ADDED'', ''MODIFIED'', ''DELETED''} then Yield t obj else Skip
                    | _ \<Rightarrow> Skip)))"

fun watch_stream :: "(string \<Rightarrow> meta_value option) \<Rightarrow> string list \<Rightarrow> (string \<times> meta_value) list \<times> exn option" where
  "watch_stream loads [] = ([], None)"
| "watch_stream loads (l # ls) = (case watch_line loads l of
     Skip \<Rightarrow> watch_stream loads ls
   | Yield t obj \<Rightarrow> (let (es, e) = watch_stream loads ls in ((t, obj) # es, e))
   | Stop e \<Rightarrow> ([], Some e))"

definition watch_request :: "string \<Rightarrow> string \<Rightarrow> http_call" where
  "watch_request ns resource_version = (request_of ''GET'' (sandboxes_url ns))\<lparr>hc_params :=
     [(''watch'', ''true''), (''timeoutSeconds'', show_int WATCH_TIMEOUT_SECONDS)] @
     (if resource_version = '''' then [] else [(''resourceVersion'', resource_version)])\<rparr>"

subsection \<open>Templates\<close>

definition jbind :: "exn + 'a \<Rightarrow> ('a \<Rightarrow> exn + 'b) \<Rightarrow> exn + 'b" where
  "jbind m f = (case m of Inl e \<Rightarrow> Inl e | Inr x \<Rightarrow> f x)"

lemma jbind_simps [simp]: "jbind (Inl e) f = Inl e" "jbind (Inr x) f = f x"
  by (simp_all add: jbind_def)

definition copy_probe :: "meta_value \<Rightarrow> meta_value" where
  "copy_probe p = (if jtruthy p then p else MNone)"

definition parse_container :: "meta_value \<Rightarrow> exn + json_dict" where
  "parse_container c =
     jbind (jget ''image'' (MStr '''') c) (\<lambda>img.
     jbind (jget ''resources'' (MDict []) c) (\<lambda>resources.
     jbind (jget ''requests'' (MDict []) resources) (\<lambda>requests.
     jbind (jget ''cpu'' (MStr '''') requests) (\<lambda>rc.
     jbind (jget ''memory'' (MStr '''') requests) (\<lambda>rm.
     jbind (jget ''limits'' (MDict []) resources) (\<lambda>limits.
     jbind (jget ''cpu'' (MStr '''') limits) (\<lambda>lc.
     jbind (jget ''memory'' (MStr '''') limits) (\<lambda>lm.
     jbind (jget ''startupProbe'' MNone c) (\<lambda>sp.
     jbind (jget ''readinessProbe'' MNone c) (\<lambda>rp.
     jbind (jget ''livenessProbe'' MNone c) (\<lambda>lp.
     Inr [(''image'', img), (''resource_spec'', MDict [(''cpu'', rc), (''memory'', rm)]),
          (''resource_limits'', MDict [(''cpu'', lc), (''memory'', lm)]), (''startup_probe'', copy_probe sp),
          (''readiness_probe'', copy_probe rp), (''liveness_probe'', copy_probe lp)])))))))))))"

definition no_container :: json_dict where
  "no_container = [(''image'', MStr ''''), (''resource_spec'', MDict []), (''resource_limits'', MDict []),
     (''startup_probe'', MNone), (''readiness_probe'', MNone), (''liveness_probe'', MNone)]"

definition parse_sizes :: "meta_value \<Rightarrow> exn + meta_value" where
  "parse_sizes raw_sizes =
     (if \<not> jtruthy raw_sizes then Inr (MList [])
      else case raw_sizes of
          MStr s \<Rightarrow> Inr (MList (map (\<lambda>x. MStr (strip x)) (filter (\<lambda>x. strip x \<noteq> '''') (split_on (CHR '','') s))))
        | _ \<Rightarrow> Inl attribute_error)"

definition parse_template_json :: "meta_value \<Rightarrow> exn + meta_value" where
  "parse_template_json template =
     jbind (jpath [''spec'', ''podTemplate'', ''spec'', ''containers''] (MList []) template) (\<lambda>containers.
     jbind (if \<not> jtruthy containers then Inr no_container
            else case containers of MList (c # _) \<Rightarrow> parse_container c | _ \<Rightarrow> Inl (K8sException ''TypeError'')) (\<lambda>fields.
     jbind (jpath [''metadata'', ''annotations''] (MDict []) template) (\<lambda>annotations.
     jbind (jget allowed_storage_sizes_annotation (MStr '''') annotations) (\<lambda>raw_sizes.
     jbind (parse_sizes raw_sizes) (\<lambda>sizes.
     jbind (jbind (jindex ''metadata'' template) (jindex ''name'')) (\<lambda>name.
     jbind (jget ''display-name'' name annotations) (\<lambda>display_name.
     jbind (jget ''description'' (MStr '''') annotations) (\<lambda>description.
     Inr (MDict ([(''name'', name), (''display_name'', display_name), (''description'', description)] @ fields @
       [(''allowed_storage_sizes'', sizes)]))))))))))"

fun parse_templates :: "meta_value list \<Rightarrow> exn + meta_value list" where
  "parse_templates [] = Inr []"
| "parse_templates (t # ts) = jbind (parse_template_json t) (\<lambda>x. jbind (parse_templates ts) (\<lambda>xs. Inr (x # xs)))"

definition kr_list_sandbox_templates :: "transport \<Rightarrow> string \<Rightarrow> meta_value list kop" where
  "kr_list_sandbox_templates tr ns =
     ebind (call_api tr (request_of ''GET'' (templates_url ns))) (\<lambda>resp.
     ebind (json_of resp) (\<lambda>data.
     ebind (of_sum (jget ''items'' (MList []) data)) (\<lambda>items.
     of_sum (case items of MList ts \<Rightarrow> parse_templates ts | _ \<Rightarrow> Inl (K8sException ''TypeError'')))))"

lemma map_of_str: "map_of (map (\<lambda>(k, v). (k, MStr v)) d) k = map_option MStr (map_of d k)"
  by (induction d) auto

lemma jget_str_dict [simp]: "jget k (MStr v) (str_dict d) = Inr (MStr (dict_get d k v))"
  by (simp add: jget_def str_dict_def map_of_str dict_get_def split: option.splits)

lemma jget_MDict [simp]: "jget k d (MDict kvs) = Inr (case map_of kvs k of None \<Rightarrow> d | Some x \<Rightarrow> x)"
  by (simp add: jget_def)

end
