(* ===== verification/Fake_K8s.thy ===== *)
theory Fake_K8s
  imports K8s_Manifests
begin

text \<open>
  The in-memory double of \<^verbatim>\<open>infra/services/k8s_client.py\<close>, \<^verbatim>\<open>FakeK8sClient\<close>, against which the services are tested: dictionaries of
  JSON objects, with the parts of the cluster's controllers that the program sees.

  An object that the client returns is the one that it keeps; the model returns its value at that time.
\<close>

subsection \<open>Objects\<close>

text \<open>\<^verbatim>\<open>d.pop(k, None)\<close>, and \<^verbatim>\<open>v[k1]...[kn] = x\<close>.\<close>

definition dict_del :: "string \<Rightarrow> (string \<times> 'v) list \<Rightarrow> (string \<times> 'v) list" where
  "dict_del k d = filter (\<lambda>(k', _). k' \<noteq> k) d"

fun jassign :: "string list \<Rightarrow> meta_value \<Rightarrow> meta_value \<Rightarrow> exn + meta_value" where
  "jassign [] x v = Inr x"
| "jassign [k] x (MDict kvs) = Inr (MDict (dict_set k x kvs))"
| "jassign (k # ks) x (MDict kvs) = (case map_of kvs k of None \<Rightarrow> Inl (K8sException ''KeyError'')
     | Some v \<Rightarrow> jbind (jassign ks x v) (\<lambda>v'. Inr (MDict (dict_set k v' kvs))))"
| "jassign (k # ks) x v = Inl (K8sException ''TypeError'')"

definition make_ready_condition :: "string \<Rightarrow> string \<Rightarrow> string \<Rightarrow> meta_value" where
  "make_ready_condition status reason message =
     MDict [(''type'', MStr ''Ready''), (''status'', MStr status), (''reason'', MStr reason), (''message'', MStr message)]"

definition suspended_condition :: "string \<Rightarrow> string \<Rightarrow> string \<Rightarrow> meta_value" where
  "suspended_condition status reason message =
     MDict [(''type'', MStr ''Suspended''), (''status'', MStr status), (''reason'', MStr reason), (''message'', MStr message)]"

definition pending_conditions :: meta_value where
  "pending_conditions = MList [make_ready_condition ''False'' ''DependenciesNotReady'' ''Pod does not exist'']"

definition suspended_conditions :: meta_value where
  "suspended_conditions = MList [make_ready_condition ''False'' ''SandboxSuspended'' ''Sandbox is suspended'',
     suspended_condition ''True'' ''PodTerminated'' ''Sandbox is suspended'']"

definition resumed_conditions :: meta_value where
  "resumed_conditions = MList [suspended_condition ''False'' ''NotSuspended'' ''Sandbox is not suspended'',
     make_ready_condition ''False'' ''DependenciesNotReady'' ''Pod does not exist'']"

definition ready_conditions :: meta_value where
  "ready_conditions = MList [make_ready_condition ''True'' ''DependenciesReady'' ''Pod is Ready; Service Exists'',
     suspended_condition ''False'' ''NotSuspended'' ''Sandbox is not suspended'']"

text \<open>\<^verbatim>\<open>int(v)\<close> of a JSON value.\<close>

fun json_int :: "meta_value \<Rightarrow> exn + int" where
  "json_int (MStr s) = (case py_int s of None \<Rightarrow> Inl (K8sException ''ValueError'') | Some i \<Rightarrow> Inr i)"
| "json_int (MInt i) = Inr i"
| "json_int (MBool b) = Inr (of_bool b)"
| "json_int (MDec d) = Inr (if d < 0 then \<lceil>d\<rceil> else \<lfloor>d\<rfloor>)"
| "json_int _ = Inl (K8sException ''TypeError'')"

text \<open>\<^verbatim>\<open>obj["metadata"]["resourceVersion"] = str(int(obj["metadata"].get("resourceVersion", "1")) + 1)\<close>\<close>

definition bump_version :: "meta_value \<Rightarrow> exn + meta_value" where
  "bump_version obj = jbind (jindex ''metadata'' obj) (\<lambda>m. jbind (jget ''resourceVersion'' (MStr ''1'') m) (\<lambda>rv. jbind (json_int rv) (\<lambda>n.
     jassign [''metadata'', ''resourceVersion''] (MStr (show_int (n + 1))) obj)))"

definition fake_metadata :: "string \<Rightarrow> string \<Rightarrow> (string \<times> string) list option \<Rightarrow> (string \<times> string) list option \<Rightarrow> meta_value" where
  "fake_metadata name ns labels annotations =
     MDict ([(''name'', MStr name), (''namespace'', MStr ns), (''resourceVersion'', MStr ''1'')] @ put_if ''labels'' labels @
       put_if ''annotations'' annotations)"

definition probe :: "int \<Rightarrow> meta_value" where
  "probe failures = MDict [(''httpGet'', MDict [(''path'', MStr ''/v1/sandbox''), (''port'', MInt 8080)]), (''periodSeconds'', MInt 5),
     (''timeoutSeconds'', MInt 3), (''failureThreshold'', MInt failures)]"

definition DEFAULT_STARTUP_PROBE :: meta_value where
  "DEFAULT_STARTUP_PROBE = probe 36"

definition DEFAULT_READINESS_PROBE :: meta_value where
  "DEFAULT_READINESS_PROBE = probe 3"

definition DEFAULT_IMAGE :: string where
  "DEFAULT_IMAGE = ''ghcr.io/earayu/treadstone-sandbox:v0.3.0''"

definition fake_template :: "string \<Rightarrow> string \<Rightarrow> string \<Rightarrow> string \<Rightarrow> string \<Rightarrow> meta_value" where
  "fake_template name display_name description cpu memory = MDict
     [(''name'', MStr name), (''display_name'', MStr display_name), (''description'', MStr description), (''image'', MStr DEFAULT_IMAGE),
      (''resource_spec'', str_dict [(''cpu'', cpu), (''memory'', memory)]), (''resource_limits'', str_dict [(''cpu'', cpu), (''memory'', memory)]),
      (''startup_probe'', DEFAULT_STARTUP_PROBE), (''readiness_probe'', DEFAULT_READINESS_PROBE), (''liveness_probe'', MNone),
      (''allowed_storage_sizes'', MList [MStr ''5Gi'', MStr ''10Gi'', MStr ''20Gi''])]"

definition DEFAULT_TEMPLATES :: "meta_value list" where
  "DEFAULT_TEMPLATES =
     [fake_template ''aio-sandbox-tiny'' ''Treadstone Sandbox Tiny'' ''Lightweight sandbox for code execution and scripting'' ''250m'' ''1Gi'',
      fake_template ''aio-sandbox-small'' ''Treadstone Sandbox Small'' ''Small sandbox for simple development tasks'' ''500m'' ''2Gi'',
      fake_template ''aio-sandbox-medium'' ''Treadstone Sandbox Medium'' ''General-purpose development environment'' ''1'' ''4Gi'',
      fake_template ''aio-sandbox-large'' ''Treadstone Sandbox Large'' ''Full-featured sandbox with browser automation'' ''2'' ''8Gi'',
      fake_template ''aio-sandbox-xlarge'' ''Treadstone Sandbox XLarge'' ''Heavy workloads with maximum resources'' ''4'' ''16Gi'']"

subsection \<open>The state\<close>

record fake_k8s =
  fk_templates :: "meta_value list"
  fk_claims :: json_dict
  fk_sandboxes :: json_dict
  fk_pvcs :: json_dict
  fk_pvs :: json_dict
  fk_volume_snapshots :: json_dict
  fk_volume_snapshot_contents :: json_dict
  fk_storage_classes :: json_dict
  fk_volume_snapshot_classes :: json_dict
  fk_watch_queue :: "(string \<times> meta_value) option list"

type_synonym 'a fop = "(fake_k8s, exn, 'a) action"

definition new_fake :: fake_k8s where
  "new_fake = \<lparr>fk_templates = DEFAULT_TEMPLATES, fk_claims = [], fk_sandboxes = [], fk_pvcs = [], fk_pvs = [], fk_volume_snapshots = [],
     fk_volume_snapshot_contents = [],
     fk_storage_classes = [(''treadstone-workspace'', MDict [(''apiVersion'', MStr ''storage.k8s.io/v1''), (''kind'', MStr ''StorageClass''),
       (''metadata'', MDict [(''name'', MStr ''treadstone-workspace'')]), (''provisioner'', MStr ''test.fake.provisioner'')])],
     fk_volume_snapshot_classes = [(''treadstone-workspace-snapshot'', MDict [(''apiVersion'', MStr SNAPSHOT_API),
       (''kind'', MStr ''VolumeSnapshotClass''), (''metadata'', MDict [(''name'', MStr ''treadstone-workspace-snapshot'')]),
       (''driver'', MStr ''test.fake.provisioner''), (''deletionPolicy'', MStr ''Retain'')])],
     fk_watch_queue = []\<rparr>"

definition object_key :: "string \<Rightarrow> string \<Rightarrow> string" where
  "object_key ns name = ns @ ''/'' @ name"

subsection \<open>Claims and sandboxes\<close>

text \<open>\<^verbatim>\<open>next((item for item in self._templates if item["name"] == ref), None)\<close>\<close>

fun find_template :: "string \<Rightarrow> meta_value list \<Rightarrow> exn + meta_value option" where
  "find_template ref [] = Inr None"
| "find_template ref (t # ts) = jbind (jindex ''name'' t) (\<lambda>n. if n = MStr ref then Inr (Some t) else find_template ref ts)"

definition without_pool :: "string \<Rightarrow> string" where
  "without_pool s = (if endswith s ''-pool'' then take (length s - 5) s else s)"

definition template_field :: "meta_value option \<Rightarrow> string \<Rightarrow> meta_value \<Rightarrow> exn + meta_value" where
  "template_field t k d = (case t of None \<Rightarrow> Inr d | Some v \<Rightarrow> jget k d v)"

definition claimed_container :: "meta_value option \<Rightarrow> exn + meta_value" where
  "claimed_container t =
     jbind (template_field t ''image'' (MStr DEFAULT_IMAGE)) (\<lambda>img.
     jbind (template_field t ''resource_spec'' (MDict [])) (\<lambda>requests.
     jbind (template_field t ''resource_limits'' (MDict [])) (\<lambda>limits.
     jbind (template_field t ''startup_probe'' MNone) (\<lambda>sp.
     jbind (template_field t ''readiness_probe'' MNone) (\<lambda>rp.
     jbind (template_field t ''liveness_probe'' MNone) (\<lambda>lp.
     Inr (MDict ([(''name'', MStr ''sandbox''), (''image'', img),
        (''resources'', MDict [(''requests'', requests), (''limits'', limits)])] @
        probe_entry ''startupProbe'' (Some sp) @ probe_entry ''readinessProbe'' (Some rp) @ probe_entry ''livenessProbe'' (Some lp) @
        [(''securityContext'', sandbox_main_container_security_context)]))))))))"

definition fake_status :: "string \<Rightarrow> string \<Rightarrow> meta_value \<Rightarrow> meta_value" where
  "fake_status name ns conditions = MDict [(''conditions'', conditions),
     (''serviceFQDN'', MStr (name @ ''.'' @ ns @ ''.svc.cluster.local'')), (''service'', MStr name)]"

definition claimed_sandbox :: "string \<Rightarrow> string \<Rightarrow> meta_value \<Rightarrow> meta_value" where
  "claimed_sandbox name ns container = MDict
     [(''apiVersion'', MStr SANDBOX_API), (''kind'', MStr ''Sandbox''), (''metadata'', fake_metadata name ns None None),
      (''spec'', MDict [(''operatingMode'', MStr ''Running''),
        (''podTemplate'', MDict [(''spec'', MDict
          [(''automountServiceAccountToken'', MBool False), (''enableServiceLinks'', MBool False),
           (''serviceAccountName'', MStr SANDBOX_SERVICE_ACCOUNT_NAME), (''restartPolicy'', MStr ''OnFailure''),
           (''securityContext'', sandbox_pod_security_context False), (''containers'', MList [container])])]),
        (''service'', MBool True)]),
      (''status'', fake_status name ns pending_conditions)]"

definition claim_object ::
    "string \<Rightarrow> string \<Rightarrow> string \<Rightarrow> time option \<Rightarrow> (string \<times> string) list option \<Rightarrow> (string \<times> string) list option \<Rightarrow> meta_value" where
  "claim_object name warm_pool_ref ns shutdown_time labels annotations =
     MDict [(''apiVersion'', MStr CLAIM_API), (''kind'', MStr ''SandboxClaim''), (''metadata'', fake_metadata name ns labels annotations),
       (''spec'', MDict ((''warmPoolRef'', MDict [(''name'', MStr (warm_pool_name warm_pool_ref))]) #
         (case shutdown_time of None \<Rightarrow> [] | Some t \<Rightarrow> [(''lifecycle'', MDict [(''shutdownTime'', shutdown_json t)])]))),
       (''status'', MDict [(''conditions'', MList []), (''sandbox'', MDict [(''name'', MStr name), (''podIPs'', MList [])])])]"

definition fk_create_sandbox_claim ::
    "string \<Rightarrow> string \<Rightarrow> string \<Rightarrow> time option \<Rightarrow> (string \<times> string) list option \<Rightarrow> (string \<times> string) list option \<Rightarrow> meta_value fop" where
  "fk_create_sandbox_claim name warm_pool_ref ns shutdown_time labels annotations =
     (let claim = claim_object name warm_pool_ref ns shutdown_time labels annotations in
     ebind (modify (\<lambda>s. s\<lparr>fk_claims := dict_set (object_key ns name) claim (fk_claims s)\<rparr>)) (\<lambda>_.
     ebind (gets fk_templates) (\<lambda>ts.
     ebind (of_sum (find_template (without_pool (warm_pool_name warm_pool_ref)) ts)) (\<lambda>t.
     ebind (of_sum (claimed_container t)) (\<lambda>container.
     ebind (modify (\<lambda>s. s\<lparr>fk_sandboxes := dict_set (object_key ns name) (claimed_sandbox name ns container) (fk_sandboxes s)\<rparr>)) (\<lambda>_.
     ret claim))))))"

definition fk_delete_sandbox_claim :: "string \<Rightarrow> string \<Rightarrow> bool fop" where
  "fk_delete_sandbox_claim name ns =
     ebind (modify (\<lambda>s. s\<lparr>fk_claims := dict_del (object_key ns name) (fk_claims s),
       fk_sandboxes := dict_del (object_key ns name) (fk_sandboxes s)\<rparr>)) (\<lambda>_. ret True)"

definition fk_get_sandbox_claim :: "string \<Rightarrow> string \<Rightarrow> meta_value option fop" where
  "fk_get_sandbox_claim name ns = gets (\<lambda>s. map_of (fk_claims s) (object_key ns name))"

text \<open>The pod of a sandbox that is created directly. Its home directory is seeded from \<^verbatim>\<open>SANDBOX_HOME_DIR\<close> itself.\<close>

definition fake_main_container :: "sandbox_args \<Rightarrow> meta_value list \<Rightarrow> json_dict" where
  "fake_main_container a names =
     [(''name'', MStr ''sandbox''), (''image'', MStr (sa_image a)), (''resources'', sa_resources a)] @ container_probes a @
     [(''securityContext'', sandbox_main_container_security_context)] @
     (if sa_volume_claim_templates a = [] then [] else [(''volumeMounts'', volume_mounts SANDBOX_HOME_DIR names)])"

definition fake_pod_spec :: "sandbox_args \<Rightarrow> meta_value list \<Rightarrow> json_dict" where
  "fake_pod_spec a names =
     [(''automountServiceAccountToken'', MBool False), (''enableServiceLinks'', MBool False),
      (''serviceAccountName'', MStr SANDBOX_SERVICE_ACCOUNT_NAME), (''containers'', MList [MDict (fake_main_container a names)]),
      (''restartPolicy'', MStr ''OnFailure''),
      (''securityContext'', sandbox_pod_security_context (sa_volume_claim_templates a \<noteq> []))] @
     (if sa_volume_claim_templates a = [] then []
      else [(''initContainers'', MList [init_container SANDBOX_HOME_DIR (sa_image a) names])])"

definition fake_sandbox :: "sandbox_args \<Rightarrow> meta_value list \<Rightarrow> meta_value" where
  "fake_sandbox a names = MDict
     [(''apiVersion'', MStr SANDBOX_API), (''kind'', MStr ''Sandbox''),
      (''metadata'', fake_metadata (sa_name a) (sa_namespace a) (sa_labels a) (sa_annotations a)),
      (''spec'', MDict
        ([(''operatingMode'', MStr (sa_operating_mode a)),
          (''podTemplate'', MDict ((''spec'', MDict (fake_pod_spec a names)) #
             (case sa_pod_labels a of None \<Rightarrow> [] | Some d \<Rightarrow> if d = [] then [] else [(''metadata'', MDict [(''labels'', str_dict d)])]))),
          (''service'', MBool True)] @
         (if sa_volume_claim_templates a = [] then [] else [(''volumeClaimTemplates'', MList (sa_volume_claim_templates a))]) @
         (case sa_shutdown_time a of None \<Rightarrow> [] | Some t \<Rightarrow> [(''shutdownTime'', shutdown_json t)]))),
      (''status'', fake_status (sa_name a) (sa_namespace a)
         (if sa_operating_mode a = ''Suspended'' then suspended_conditions else pending_conditions))]"

text \<open>The disk that the controller makes for the \<open>index\<close>-th template, whose name is a string: its claim and its volume, with
  their keys.\<close>

definition zone_affinity :: meta_value where
  "zone_affinity = MDict [(''required'', MDict [(''nodeSelectorTerms'', MList [MDict [(''matchExpressions'', MList [MDict
     [(''key'', MStr ''topology.diskplugin.csi.alibabacloud.com/zone''), (''operator'', MStr ''In''),
      (''values'', MList [MStr ''fake-zone-a''])]])]])])]"

definition volume_objects :: "string \<Rightarrow> string \<Rightarrow> nat \<Rightarrow> meta_value \<Rightarrow> exn + (string \<times> meta_value) \<times> string \<times> meta_value" where
  "volume_objects ns sandbox_name index t =
     jbind (jbind (jindex ''metadata'' t) (jindex ''name'')) (\<lambda>n.
     case n of MStr n \<Rightarrow>
       (let claim_name = sandbox_name @ ''-'' @ n; pv_name = ''pv-'' @ sandbox_name @ ''-'' @ show_nat index in
       jbind (jpath [''metadata'', ''labels''] (MDict []) t) (\<lambda>labels.
       jbind (jpath [''metadata'', ''annotations''] (MDict []) t) (\<lambda>annotations.
       jbind (jpath [''spec'', ''resources'', ''requests'', ''storage''] MNone t) (\<lambda>storage.
       jbind (jpath [''spec'', ''accessModes''] (MList []) t) (\<lambda>modes.
       jbind (jpath [''spec'', ''storageClassName''] MNone t) (\<lambda>storage_class.
       jbind (jpath [''spec'', ''dataSource''] MNone t) (\<lambda>data_source.
       Inr ((object_key ns claim_name, MDict
          [(''apiVersion'', MStr ''v1''), (''kind'', MStr ''PersistentVolumeClaim''),
           (''metadata'', MDict [(''name'', MStr claim_name), (''namespace'', MStr ns), (''resourceVersion'', MStr ''1''),
              (''labels'', labels), (''annotations'', annotations)]),
           (''spec'', MDict [(''accessModes'', modes), (''resources'', MDict [(''requests'', MDict [(''storage'', storage)])]),
              (''storageClassName'', storage_class), (''volumeName'', MStr pv_name), (''dataSource'', data_source)]),
           (''status'', MDict [(''phase'', MStr ''Bound'')])]),
         (pv_name, MDict
          [(''apiVersion'', MStr ''v1''), (''kind'', MStr ''PersistentVolume''),
           (''metadata'', MDict [(''name'', MStr pv_name), (''resourceVersion'', MStr ''1''), (''labels'', labels)]),
           (''spec'', MDict [(''capacity'', MDict [(''storage'', storage)]), (''storageClassName'', storage_class),
              (''csi'', MDict [(''volumeHandle'', MStr (''disk-'' @ sandbox_name @ ''-'' @ show_nat index))]),
              (''nodeAffinity'', zone_affinity)]),
           (''status'', MDict [(''phase'', MStr ''Bound'')])])))))))))
     | _ \<Rightarrow> Inl (K8sException ''TypeError''))"

fun materialize_volume_claims :: "string \<Rightarrow> string \<Rightarrow> nat \<Rightarrow> meta_value list \<Rightarrow> unit fop" where
  "materialize_volume_claims ns sandbox_name index [] = ret ()"
| "materialize_volume_claims ns sandbox_name index (t # ts) =
     ebind (of_sum (volume_objects ns sandbox_name index t)) (\<lambda>((claim_key, pvc), (pv_name, pv)).
     ebind (modify (\<lambda>s. s\<lparr>fk_pvcs := dict_set claim_key pvc (fk_pvcs s), fk_pvs := dict_set pv_name pv (fk_pvs s)\<rparr>)) (\<lambda>_.
     materialize_volume_claims ns sandbox_name (Suc index) ts))"

definition fk_create_sandbox :: "sandbox_args \<Rightarrow> meta_value fop" where
  "fk_create_sandbox a =
     ebind (of_sum (volume_names (sa_volume_claim_templates a))) (\<lambda>names.
     ebind (materialize_volume_claims (sa_namespace a) (sa_name a) 1 (sa_volume_claim_templates a)) (\<lambda>_.
     ebind (modify (\<lambda>s. s\<lparr>fk_sandboxes := dict_set (object_key (sa_namespace a) (sa_name a)) (fake_sandbox a names) (fk_sandboxes s)\<rparr>)) (\<lambda>_.
     ret (fake_sandbox a names))))"

definition fk_delete_sandbox :: "string \<Rightarrow> string \<Rightarrow> bool fop" where
  "fk_delete_sandbox name ns =
     ebind (modify (\<lambda>s. s\<lparr>fk_sandboxes := dict_del (object_key ns name) (fk_sandboxes s)\<rparr>)) (\<lambda>_. ret True)"

definition fk_get_sandbox :: "string \<Rightarrow> string \<Rightarrow> meta_value option fop" where
  "fk_get_sandbox name ns = gets (\<lambda>s. map_of (fk_sandboxes s) (object_key ns name))"

definition in_namespace :: "string \<Rightarrow> json_dict \<Rightarrow> meta_value list" where
  "in_namespace ns d = map snd (filter (\<lambda>(k, _). startswith k (ns @ ''/'')) d)"

definition fk_list_sandboxes :: "string \<Rightarrow> meta_value list fop" where
  "fk_list_sandboxes ns = gets (\<lambda>s. in_namespace ns (fk_sandboxes s))"

fun max_version :: "meta_value \<Rightarrow> meta_value list \<Rightarrow> exn + meta_value" where
  "max_version max_rv [] = Inr max_rv"
| "max_version max_rv (item # items) =
     jbind (jpath [''metadata'', ''resourceVersion''] (MStr ''0'') item) (\<lambda>rv. jbind (json_int rv) (\<lambda>n. jbind (json_int max_rv) (\<lambda>m.
     max_version (if m < n then rv else max_rv) items)))"

definition fk_list_sandboxes_with_metadata :: "string \<Rightarrow> meta_value fop" where
  "fk_list_sandboxes_with_metadata ns =
     ebind (fk_list_sandboxes ns) (\<lambda>items. ebind (of_sum (max_version (MStr ''0'') items)) (\<lambda>rv.
     ret (MDict [(''metadata'', MDict [(''resourceVersion'', rv)]), (''items'', MList items)])))"

definition fk_set_sandbox_operating_mode :: "string \<Rightarrow> string \<Rightarrow> string \<Rightarrow> bool fop" where
  "fk_set_sandbox_operating_mode name ns mode =
     ebind (gets (\<lambda>s. map_of (fk_sandboxes s) (object_key ns name))) (\<lambda>found. case found of
       None \<Rightarrow> ret False
     | Some sb \<Rightarrow>
         ebind (of_sum (jbind (jassign [''spec'', ''operatingMode''] (MStr mode) sb) (\<lambda>sb1.
           jbind (jassign [''status'', ''conditions''] (if mode = ''Suspended'' then suspended_conditions else resumed_conditions) sb1)
             bump_version))) (\<lambda>sb2.
         ebind (modify (\<lambda>s. s\<lparr>fk_sandboxes := dict_set (object_key ns name) sb2 (fk_sandboxes s)\<rparr>)) (\<lambda>_. ret True)))"

text \<open>\<^verbatim>\<open>if sb:\<close>; the queue of the watch, of which \<open>None\<close> ends the stream.\<close>

definition simulate_sandbox_ready :: "string \<Rightarrow> string \<Rightarrow> unit fop" where
  "simulate_sandbox_ready name ns =
     ebind (gets (\<lambda>s. map_of (fk_sandboxes s) (object_key ns name))) (\<lambda>found. case found of
       None \<Rightarrow> ret ()
     | Some sb \<Rightarrow> if \<not> jtruthy sb then ret ()
         else ebind (of_sum (jbind (jassign [''status'', ''conditions''] ready_conditions sb) bump_version)) (\<lambda>sb1.
           modify (\<lambda>s. s\<lparr>fk_sandboxes := dict_set (object_key ns name) sb1 (fk_sandboxes s)\<rparr>)))"

definition adopt :: "string \<Rightarrow> string \<Rightarrow> string \<Rightarrow> meta_value \<Rightarrow> exn + meta_value" where
  "adopt claim_name ns adopted sandbox =
     jbind (jassign [''metadata'', ''name''] (MStr adopted) sandbox) (\<lambda>s1.
     jbind (jassign [''metadata'', ''ownerReferences''] (MList [MDict [(''kind'', MStr ''SandboxClaim''), (''name'', MStr claim_name),
        (''controller'', MBool True)]]) s1) (\<lambda>s2.
     jbind (jassign [''status'', ''service''] (MStr adopted) s2) (\<lambda>s3.
     jbind (jassign [''status'', ''serviceFQDN''] (MStr (adopted @ ''.'' @ ns @ ''.svc.cluster.local'')) s3) bump_version)))"

definition simulate_claim_adoption :: "string \<Rightarrow> string \<Rightarrow> string \<Rightarrow> unit fop" where
  "simulate_claim_adoption claim_name ns adopted =
     (let key = object_key ns claim_name in
     ebind (gets (\<lambda>s. (map_of (fk_claims s) key, map_of (fk_sandboxes s) key))) (\<lambda>(claim, sandbox).
     ebind (modify (\<lambda>s. s\<lparr>fk_sandboxes := dict_del key (fk_sandboxes s)\<rparr>)) (\<lambda>_.
     case (claim, sandbox) of
       (Some c, Some sb) \<Rightarrow>
         ebind (of_sum (jassign [''status'', ''sandbox''] (MDict [(''name'', MStr adopted), (''podIPs'', MList [])]) c)) (\<lambda>c'.
         ebind (modify (\<lambda>s. s\<lparr>fk_claims := dict_set key c' (fk_claims s)\<rparr>)) (\<lambda>_.
         ebind (of_sum (adopt claim_name ns adopted sb)) (\<lambda>sb'.
         modify (\<lambda>s. s\<lparr>fk_sandboxes := dict_set (object_key ns adopted) sb' (fk_sandboxes s)\<rparr>))))
     | _ \<Rightarrow> ret ())))"

text \<open>The events up to the end of the stream, and whether it has ended; a consumer waits for the rest.\<close>

definition fk_watch_sandboxes :: "((string \<times> meta_value) list \<times> bool) fop" where
  "fk_watch_sandboxes =
     ebind (gets fk_watch_queue) (\<lambda>q. let events = takeWhile (\<lambda>e. e \<noteq> None) q; rest = dropWhile (\<lambda>e. e \<noteq> None) q in
     ebind (modify (\<lambda>s. s\<lparr>fk_watch_queue := tl rest\<rparr>)) (\<lambda>_. ret (map the events, rest \<noteq> [])))"

definition enqueue_watch_event :: "string \<Rightarrow> meta_value \<Rightarrow> unit fop" where
  "enqueue_watch_event event_type obj = modify (\<lambda>s. s\<lparr>fk_watch_queue := fk_watch_queue s @ [Some (event_type, obj)]\<rparr>)"

definition stop_watch :: "unit fop" where
  "stop_watch = modify (\<lambda>s. s\<lparr>fk_watch_queue := fk_watch_queue s @ [None]\<rparr>)"

subsection \<open>Storage\<close>

definition fk_get_storage_class :: "string \<Rightarrow> meta_value option fop" where
  "fk_get_storage_class name = gets (\<lambda>s. map_of (fk_storage_classes s) name)"

definition fk_get_volume_snapshot_class :: "string \<Rightarrow> meta_value option fop" where
  "fk_get_volume_snapshot_class name = gets (\<lambda>s. map_of (fk_volume_snapshot_classes s) name)"

definition remove_storage_class :: "string \<Rightarrow> unit fop" where
  "remove_storage_class name = modify (\<lambda>s. s\<lparr>fk_storage_classes := dict_del name (fk_storage_classes s)\<rparr>)"

definition remove_volume_snapshot_class :: "string \<Rightarrow> unit fop" where
  "remove_volume_snapshot_class name = modify (\<lambda>s. s\<lparr>fk_volume_snapshot_classes := dict_del name (fk_volume_snapshot_classes s)\<rparr>)"

definition fk_get_persistent_volume_claim :: "string \<Rightarrow> string \<Rightarrow> meta_value option fop" where
  "fk_get_persistent_volume_claim name ns = gets (\<lambda>s. map_of (fk_pvcs s) (object_key ns name))"

definition fk_get_persistent_volume :: "string \<Rightarrow> meta_value option fop" where
  "fk_get_persistent_volume name = gets (\<lambda>s. map_of (fk_pvs s) name)"

definition fk_delete_persistent_volume_claim :: "string \<Rightarrow> string \<Rightarrow> bool fop" where
  "fk_delete_persistent_volume_claim name ns =
     (let key = object_key ns name in
     ebind (gets (\<lambda>s. map_of (fk_pvcs s) key)) (\<lambda>found.
     ebind (modify (\<lambda>s. s\<lparr>fk_pvcs := dict_del key (fk_pvcs s)\<rparr>)) (\<lambda>_. case found of
       None \<Rightarrow> ret False
     | Some pvc \<Rightarrow> ebind (of_sum (jpath [''spec'', ''volumeName''] MNone pvc)) (\<lambda>pv.
         case pv of MStr pv_name \<Rightarrow>
           if pv_name = '''' then ret True
           else ebind (modify (\<lambda>s. s\<lparr>fk_pvs := dict_del pv_name (fk_pvs s)\<rparr>)) (\<lambda>_. ret True)
         | _ \<Rightarrow> ret True))))"

text \<open>\<^verbatim>\<open>all(pvc_labels.get(k) == v for k, v in labels.items())\<close>\<close>

fun has_labels :: "(string \<times> string) list \<Rightarrow> meta_value \<Rightarrow> exn + bool" where
  "has_labels [] v = Inr True"
| "has_labels ((k, x) # kvs) v = jbind (jget k MNone v) (\<lambda>y. if y = MStr x then has_labels kvs v else Inr False)"

fun with_labels :: "(string \<times> string) list \<Rightarrow> meta_value list \<Rightarrow> exn + meta_value list" where
  "with_labels labels [] = Inr []"
| "with_labels labels (pvc # pvcs) =
     jbind (jpath [''metadata'', ''labels''] (MDict []) pvc) (\<lambda>l. jbind (has_labels labels l) (\<lambda>yes.
     jbind (with_labels labels pvcs) (\<lambda>rest. Inr (if yes then pvc # rest else rest))))"

definition fk_list_persistent_volume_claims :: "string \<Rightarrow> (string \<times> string) list option \<Rightarrow> meta_value list fop" where
  "fk_list_persistent_volume_claims ns labels =
     ebind (gets (\<lambda>s. in_namespace ns (fk_pvcs s))) (\<lambda>pvcs.
     case labels of None \<Rightarrow> ret pvcs | Some l \<Rightarrow> if l = [] then ret pvcs else of_sum (with_labels l pvcs))"

definition fake_snapshot ::
    "string \<Rightarrow> string \<Rightarrow> string \<Rightarrow> string \<Rightarrow> (string \<times> string) list option \<Rightarrow> (string \<times> string) list option \<Rightarrow> meta_value \<Rightarrow> meta_value" where
  "fake_snapshot name ns source_pvc_name class_name labels annotations restore_size =
     MDict [(''apiVersion'', MStr SNAPSHOT_API), (''kind'', MStr ''VolumeSnapshot''), (''metadata'', fake_metadata name ns labels annotations),
       (''spec'', MDict [(''volumeSnapshotClassName'', MStr class_name),
         (''source'', MDict [(''persistentVolumeClaimName'', MStr source_pvc_name)])]),
       (''status'', MDict [(''readyToUse'', MBool True), (''boundVolumeSnapshotContentName'', MStr (''vsc-'' @ name)),
         (''restoreSize'', restore_size)])]"

definition fake_content :: "string \<Rightarrow> string \<Rightarrow> string \<Rightarrow> meta_value \<Rightarrow> meta_value \<Rightarrow> meta_value" where
  "fake_content name ns class_name policy volume =
     MDict [(''apiVersion'', MStr SNAPSHOT_API), (''kind'', MStr ''VolumeSnapshotContent''),
       (''metadata'', MDict [(''name'', MStr (''vsc-'' @ name)), (''resourceVersion'', MStr ''1'')]),
       (''spec'', MDict [(''volumeSnapshotClassName'', MStr class_name), (''deletionPolicy'', policy),
         (''source'', MDict [(''volumeHandle'', volume)]),
         (''volumeSnapshotRef'', MDict [(''name'', MStr name), (''namespace'', MStr ns)])]),
       (''status'', MDict [(''readyToUse'', MBool True), (''snapshotHandle'', MStr (''snap-'' @ name))])]"

definition fk_create_volume_snapshot ::
    "string \<Rightarrow> string \<Rightarrow> string \<Rightarrow> string \<Rightarrow> (string \<times> string) list option \<Rightarrow> (string \<times> string) list option \<Rightarrow> meta_value fop" where
  "fk_create_volume_snapshot name ns source_pvc_name class_name labels annotations =
     ebind (fk_get_persistent_volume_claim source_pvc_name ns) (\<lambda>found. case found of
       None \<Rightarrow> raise (K8sException ''KeyError'')
     | Some pvc \<Rightarrow>
         ebind (of_sum (jpath [''spec'', ''resources'', ''requests'', ''storage''] MNone pvc)) (\<lambda>restore_size.
         ebind (fk_get_volume_snapshot_class class_name) (\<lambda>cls.
         ebind (of_sum (case cls of None \<Rightarrow> Inl (K8sException ''KeyError'') | Some c \<Rightarrow> jindex ''deletionPolicy'' c)) (\<lambda>policy.
         ebind (of_sum (jpath [''spec'', ''volumeName''] (MStr '''') pvc)) (\<lambda>volume.
         let snapshot = fake_snapshot name ns source_pvc_name class_name labels annotations restore_size in
         ebind (modify (\<lambda>s. s\<lparr>fk_volume_snapshots := dict_set (object_key ns name) snapshot (fk_volume_snapshots s),
           fk_volume_snapshot_contents := dict_set (''vsc-'' @ name) (fake_content name ns class_name policy volume)
             (fk_volume_snapshot_contents s)\<rparr>)) (\<lambda>_. ret snapshot))))))"

definition fk_get_volume_snapshot :: "string \<Rightarrow> string \<Rightarrow> meta_value option fop" where
  "fk_get_volume_snapshot name ns = gets (\<lambda>s. map_of (fk_volume_snapshots s) (object_key ns name))"

definition fk_get_volume_snapshot_content :: "string \<Rightarrow> meta_value option fop" where
  "fk_get_volume_snapshot_content name = gets (\<lambda>s. map_of (fk_volume_snapshot_contents s) name)"

definition fk_delete_volume_snapshot :: "string \<Rightarrow> string \<Rightarrow> bool fop" where
  "fk_delete_volume_snapshot name ns =
     (let key = object_key ns name in
     ebind (gets (\<lambda>s. map_of (fk_volume_snapshots s) key)) (\<lambda>found.
     ebind (modify (\<lambda>s. s\<lparr>fk_volume_snapshots := dict_del key (fk_volume_snapshots s)\<rparr>)) (\<lambda>_. case found of
       None \<Rightarrow> ret False
     | Some snapshot \<Rightarrow>
         ebind (of_sum (jpath [''status'', ''boundVolumeSnapshotContentName''] MNone snapshot)) (\<lambda>content_name.
         ebind (gets (\<lambda>s. case content_name of MStr n \<Rightarrow> map_of (fk_volume_snapshot_contents s) n | _ \<Rightarrow> None)) (\<lambda>content.
         case (content_name, content) of
           (MStr n, Some c) \<Rightarrow>
             if jtruthy c
             then ebind (of_sum (jpath [''spec'', ''deletionPolicy''] MNone c)) (\<lambda>policy.
               if policy = MStr ''Delete''
               then ebind (modify (\<lambda>s. s\<lparr>fk_volume_snapshot_contents := dict_del n (fk_volume_snapshot_contents s)\<rparr>)) (\<lambda>_. ret True)
               else ret True)
             else ret True
         | _ \<Rightarrow> ret True)))))"

definition fk_delete_volume_snapshot_content :: "string \<Rightarrow> bool fop" where
  "fk_delete_volume_snapshot_content name =
     ebind (gets (\<lambda>s. map_of (fk_volume_snapshot_contents s) name)) (\<lambda>found.
     ebind (modify (\<lambda>s. s\<lparr>fk_volume_snapshot_contents := dict_del name (fk_volume_snapshot_contents s)\<rparr>)) (\<lambda>_. ret (found \<noteq> None)))"

definition fk_set_volume_snapshot_content_deletion_policy :: "string \<Rightarrow> string \<Rightarrow> bool fop" where
  "fk_set_volume_snapshot_content_deletion_policy name policy =
     ebind (gets (\<lambda>s. map_of (fk_volume_snapshot_contents s) name)) (\<lambda>found. case found of
       None \<Rightarrow> ret False
     | Some c \<Rightarrow> ebind (of_sum (jbind (jassign [''spec'', ''deletionPolicy''] (MStr policy) c) bump_version)) (\<lambda>c'.
         ebind (modify (\<lambda>s. s\<lparr>fk_volume_snapshot_contents := dict_set name c' (fk_volume_snapshot_contents s)\<rparr>)) (\<lambda>_. ret True)))"

definition fk_list_sandbox_templates :: "string \<Rightarrow> meta_value list fop" where
  "fk_list_sandbox_templates ns = gets fk_templates"

end
