(* ===== verification/K8s_Wire.thy ===== *)
theory K8s_Wire
  imports K8s_Manifests
begin

text \<open>
  What \<open>K8s_Manifests\<close> sends and receives: hardened pods, one URL per object, the shutdown time, lookups that fail, the watch.
\<close>

subsection \<open>Pods\<close>

text \<open>What the policy of the cluster asks of a container.\<close>

definition hardened :: "meta_value \<Rightarrow> bool" where
  "hardened c \<longleftrightarrow>
     jpath [''securityContext'', ''runAsNonRoot''] MNone c = Inr (MBool True) \<and>
     jpath [''securityContext'', ''allowPrivilegeEscalation''] MNone c = Inr (MBool False) \<and>
     jpath [''securityContext'', ''runAsUser''] MNone c = Inr (MInt 1000) \<and>
     jpath [''securityContext'', ''seccompProfile'', ''type''] MNone c = Inr (MStr ''RuntimeDefault'')"

text \<open>The containers of a pod, those that initialise it first.\<close>

definition pod_containers :: "meta_value \<Rightarrow> meta_value list" where
  "pod_containers pod = (case (jget ''initContainers'' (MList []) pod, jget ''containers'' (MList []) pod) of
     (Inr (MList xs), Inr (MList ys)) \<Rightarrow> xs @ ys | _ \<Rightarrow> [])"

lemma container_probes_other:
  "k \<notin> {''startupProbe'', ''readinessProbe'', ''livenessProbe''} \<Longrightarrow> map_of (container_probes a) k = None"
  by (auto simp: container_probes_def probe_entry_def map_add_def split: option.splits)

lemma main_container_hardened: "hardened (MDict (main_container a names))"
  by (simp add: hardened_def main_container_def map_add_def container_probes_other sandbox_main_container_security_context_def seccomp_default_def
      SANDBOX_UID_def)

lemma init_container_hardened: "hardened (init_container d i names)"
  by (simp add: hardened_def init_container_def sandbox_init_container_security_context_def seccomp_default_def SANDBOX_UID_def)

text \<open>C19: Whatever a sandbox asks for, the one request of \<^verbatim>\<open>create_sandbox\<close> that creates it (sandboxes made by a claim have
  the pod of their warm pool) describes a pod that has no service account token and
  whose containers all run as the unprivileged user without a way to escalate; its volumes are mounted at the home
  directory and given to the group of that user, and there are none exactly when no claim is asked for.\<close>

theorem sandbox_pods_are_hardened:
  assumes "kr_create_sandbox tr a l = (r, l')" "l' \<noteq> l"
  shows "\<exists>m pod. l' = l @ [(request_of ''POST'' (sandboxes_url (sa_namespace a)))\<lparr>hc_body := Some m\<rparr>] \<and>
    jpath [''spec'', ''podTemplate'', ''spec''] MNone m = Inr pod \<and>
    jget ''automountServiceAccountToken'' MNone pod = Inr (MBool False) \<and>
    pod_containers pod \<noteq> [] \<and> (\<forall>c \<in> set (pod_containers pod). hardened c) \<and>
    (\<forall>names. volume_names (sa_volume_claim_templates a) = Inr names \<longrightarrow>
       jget ''volumeMounts'' (volume_mounts SANDBOX_HOME_DIR []) (last (pod_containers pod)) = Inr (volume_mounts SANDBOX_HOME_DIR names)) \<and>
    jpath [''securityContext'', ''fsGroup''] MNone pod = Inr (if sa_volume_claim_templates a = [] then MNone else MInt 1000)"
proof -
  obtain m where m: "sandbox_json a = Inr m" using assms by (cases "sandbox_json a") (auto simp: kr_create_sandbox_def)
  obtain names where names: "volume_names (sa_volume_claim_templates a) = Inr names"
    using m by (auto simp: sandbox_json_def split: sum.splits)
  let ?pod = "MDict (pod_spec a names)"
  have log: "l' = l @ [(request_of ''POST'' (sandboxes_url (sa_namespace a)))\<lparr>hc_body := Some m\<rparr>]"
    using assms(1) m
    by (auto simp: kr_create_sandbox_def kr_post_def call_api_def json_of_def ebind_run split: sum.splits option.splits prod.splits)
  have "jpath [''spec'', ''podTemplate'', ''spec''] MNone m = Inr ?pod"
    using m names by (auto simp: sandbox_json_def metadata_json_def)
  moreover have "jget ''automountServiceAccountToken'' MNone ?pod = Inr (MBool False)" by (simp add: pod_spec_def)
  moreover have c: "pod_containers ?pod = (if sa_volume_claim_templates a = [] then []
      else [init_container SANDBOX_HOME_TEMPLATE_DIR (sa_image a) names]) @ [MDict (main_container a names)]"
    by (simp add: pod_containers_def pod_spec_def)
  moreover have "\<forall>c \<in> set (pod_containers ?pod). hardened c"
    by (simp add: c main_container_hardened init_container_hardened)
  moreover have "jget ''volumeMounts'' (volume_mounts SANDBOX_HOME_DIR []) (last (pod_containers ?pod)) = Inr (volume_mounts SANDBOX_HOME_DIR names)"
  proof -
    have "names = []" if "sa_volume_claim_templates a = []" using names that by simp
    then show ?thesis by (simp add: c main_container_def map_add_def container_probes_other)
  qed
  moreover have "jpath [''securityContext'', ''fsGroup''] MNone ?pod = Inr (if sa_volume_claim_templates a = [] then MNone else MInt 1000)"
    by (simp add: pod_spec_def sandbox_pod_security_context_def SANDBOX_GID_def)
  ultimately show ?thesis using log names by (intro exI [of _ m] exI [of _ ?pod]) simp
qed

definition plain_sandbox :: sandbox_args where
  "plain_sandbox = \<lparr>sa_name = ''sb1'', sa_namespace = ''ns'', sa_image = ''img'', sa_container_port = 8080, sa_resources = MDict [],
     sa_operating_mode = ''Running'', sa_startup_probe = None, sa_readiness_probe = None, sa_liveness_probe = None,
     sa_volume_claim_templates = [MDict [(''metadata'', MDict [(''name'', MStr ''workspace'')])]], sa_shutdown_time = None,
     sa_labels = None, sa_annotations = None, sa_pod_labels = None\<rparr>"

lemma sandbox_pods_are_hardened_witness:
  "\<exists>m pod. snd (kr_create_sandbox (\<lambda>_ _. Inr (201, Some (MDict []))) plain_sandbox []) =
      [(request_of ''POST'' (sandboxes_url ''ns''))\<lparr>hc_body := Some m\<rparr>] \<and>
    jpath [''spec'', ''podTemplate'', ''spec''] MNone m = Inr pod \<and> (\<forall>c \<in> set (pod_containers pod). hardened c)"
proof -
  have "snd (kr_create_sandbox (\<lambda>_ _. Inr (201, Some (MDict []))) plain_sandbox []) \<noteq> []"
    by (simp add: kr_create_sandbox_def sandbox_json_def plain_sandbox_def jindex_def kr_post_def call_api_def json_of_def ebind_run)
  from sandbox_pods_are_hardened [OF surjective_pairing this] show ?thesis by (auto simp: plain_sandbox_def)
qed

subsection \<open>Addresses\<close>

datatype k8s_object = ClaimObject string string | SandboxObject string string | SnapshotObject string string
  | PvcObject string string | ContentObject string

fun url_of :: "k8s_object \<Rightarrow> string" where
  "url_of (ClaimObject ns n) = object_in (claims_url ns) n"
| "url_of (SandboxObject ns n) = object_in (sandboxes_url ns) n"
| "url_of (SnapshotObject ns n) = object_in (volume_snapshots_url ns) n"
| "url_of (PvcObject ns n) = object_in (pvcs_url ns) n"
| "url_of (ContentObject n) = object_in snapshot_contents_url n"

text \<open>Names of Kubernetes have no slash.\<close>

fun named :: "k8s_object \<Rightarrow> bool" where
  "named (ContentObject n) \<longleftrightarrow> CHR ''/'' \<notin> set n"
| "named (ClaimObject ns n) \<longleftrightarrow> CHR ''/'' \<notin> set ns \<and> CHR ''/'' \<notin> set n"
| "named (SandboxObject ns n) \<longleftrightarrow> CHR ''/'' \<notin> set ns \<and> CHR ''/'' \<notin> set n"
| "named (SnapshotObject ns n) \<longleftrightarrow> CHR ''/'' \<notin> set ns \<and> CHR ''/'' \<notin> set n"
| "named (PvcObject ns n) \<longleftrightarrow> CHR ''/'' \<notin> set ns \<and> CHR ''/'' \<notin> set n"

lemma split_at_slash:
  assumes "a @ CHR ''/'' # x = b @ CHR ''/'' # y" "CHR ''/'' \<notin> set a" "CHR ''/'' \<notin> set b"
  shows "a = b \<and> x = y"
  using assms by (induction a arbitrary: b) (case_tac b; auto)+

lemma two_names:
  assumes "ns @ CHR ''/'' # r @ CHR ''/'' # n = ns' @ CHR ''/'' # r @ CHR ''/'' # n'" "CHR ''/'' \<notin> set ns" "CHR ''/'' \<notin> set ns'"
  shows "ns = ns' \<and> n = n'"
  using split_at_slash [OF assms] by simp

lemma same_kind_urls:
  assumes "CHR ''/'' \<notin> set ns" "CHR ''/'' \<notin> set ns'"
  shows "object_in (claims_url ns) n = object_in (claims_url ns') n' \<longleftrightarrow> ns = ns' \<and> n = n'"
    "object_in (sandboxes_url ns) n = object_in (sandboxes_url ns') n' \<longleftrightarrow> ns = ns' \<and> n = n'"
    "object_in (volume_snapshots_url ns) n = object_in (volume_snapshots_url ns') n' \<longleftrightarrow> ns = ns' \<and> n = n'"
    "object_in (pvcs_url ns) n = object_in (pvcs_url ns') n' \<longleftrightarrow> ns = ns' \<and> n = n'"
  using two_names [OF _ assms, of "''sandboxclaims''" n n'] two_names [OF _ assms, of "''sandboxes''" n n']
    two_names [OF _ assms, of "''volumesnapshots''" n n'] two_names [OF _ assms, of "''persistentvolumeclaims''" n n']
  by (auto simp: object_in_def claims_url_def sandboxes_url_def volume_snapshots_url_def pvcs_url_def namespaced_def)

text \<open>No two objects of the cluster share an address: the URL that a call uses names the kind, the namespace and the object.\<close>

theorem urls_name_one_object:
  assumes "named x" "named y" "url_of x = url_of y"
  shows "x = y"
  using assms
  by (cases x; cases y;
      ((simp add: same_kind_urls; fail)
      | (simp add: object_in_def claims_url_def sandboxes_url_def volume_snapshots_url_def pvcs_url_def snapshot_contents_url_def namespaced_def
          CLAIM_API_def SANDBOX_API_def SNAPSHOT_API_def; fail)))

lemma urls_name_one_object_witness: "SandboxObject ''ns'' ''a'' = SandboxObject ''ns'' ''a''"
  by (rule urls_name_one_object) simp_all

subsection \<open>Times and lookups\<close>

text \<open>The instant that a manifest gives for the shutdown is the one asked for, without the fraction of its second.\<close>

lemma shutdown_time_reads_back:
  assumes "sandbox_json a = Inr m" "sa_shutdown_time a = Some t" "0 \<le> dt_year (of_ts t)" "dt_year (of_ts t) \<le> 9999"
  shows "\<exists>z. jpath [''spec'', ''shutdownTime''] MNone m = Inr (MStr z) \<and> read_rfc3339 z = t div 1000000 * 1000000"
  using assms read_rfc3339_floor [OF assms(3,4)]
  by (auto simp: sandbox_json_def metadata_json_def shutdown_json_def split: sum.splits if_splits)

text \<open>A lookup never raises: that the server cannot be reached, forbids the request or has no such object is the same answer.
  A deletion or a patch passes an exception on.\<close>

lemma lookup_failure_reads_as_absence:
  "kr_get tr url l = (Inr (case tr l (request_of ''GET'' url) of Inr (_, Some v) \<Rightarrow> Some v | _ \<Rightarrow> None), l @ [request_of ''GET'' url])"
  by (auto simp: kr_get_def call_api_def json_of_def ebind_run try_catch_run split: sum.splits option.splits prod.splits)

lemma deletion_failure_is_raised:
  "tr l (request_of ''DELETE'' url) = Inl e \<Longrightarrow> kr_delete tr url l = (Inl e, l @ [request_of ''DELETE'' url])"
  by (simp add: kr_delete_def call_api_def ebind_run)

subsection \<open>The watch\<close>

text \<open>What an API server puts on a watch: the changes of objects, bookmarks and other types this program does not use, a status
  when it gives up, and the empty or truncated lines of a connection.\<close>

datatype sent = Added meta_value | Modified meta_value | Deleted meta_value | Other string meta_value | Failed int | Heartbeat | Garbled

text \<open>\<open>sends loads l x\<close>: the line \<open>l\<close> carries \<open>x\<close>, in whatever order its keys come and whatever else it holds.\<close>

definition carries :: "(string \<Rightarrow> meta_value option) \<Rightarrow> string \<Rightarrow> string \<Rightarrow> meta_value \<Rightarrow> bool" where
  "carries loads l t obj \<longleftrightarrow> strip l \<noteq> [] \<and>
     (case loads (strip l) of None \<Rightarrow> False | Some e \<Rightarrow> jindex ''type'' e = Inr (MStr t) \<and> jindex ''object'' e = Inr obj)"

fun sends :: "(string \<Rightarrow> meta_value option) \<Rightarrow> string \<Rightarrow> sent \<Rightarrow> bool" where
  "sends loads l (Added obj) \<longleftrightarrow> carries loads l ''ADDED'' obj"
| "sends loads l (Modified obj) \<longleftrightarrow> carries loads l ''MODIFIED'' obj"
| "sends loads l (Deleted obj) \<longleftrightarrow> carries loads l ''DELETED'' obj"
| "sends loads l (Other t obj) \<longleftrightarrow> t \<notin> {''ADDED'', ''MODIFIED'', ''DELETED'', ''ERROR''} \<and> carries loads l t obj"
| "sends loads l (Failed code) \<longleftrightarrow> strip l \<noteq> [] \<and>
     (case loads (strip l) of None \<Rightarrow> False
      | Some e \<Rightarrow> jindex ''type'' e = Inr (MStr ''ERROR'') \<and> jpath [''object'', ''code''] MNone e = Inr (MInt code))"
| "sends loads l Heartbeat \<longleftrightarrow> strip l = []"
| "sends loads l Garbled \<longleftrightarrow> strip l \<noteq> [] \<and> loads (strip l) = None"

text \<open>What the sync should see of it, and whether its resource version has expired.\<close>

fun change_of :: "sent \<Rightarrow> (string \<times> meta_value) list" where
  "change_of (Added obj) = [(''ADDED'', obj)]"
| "change_of (Modified obj) = [(''MODIFIED'', obj)]"
| "change_of (Deleted obj) = [(''DELETED'', obj)]"
| "change_of _ = []"

definition expired :: "sent \<Rightarrow> bool" where
  "expired x \<longleftrightarrow> x = Failed 410"

lemma jget_of_jindex: "jindex k v = Inr x \<Longrightarrow> jget k d v = Inr x"
  by (auto simp: jindex_def jget_def split: meta_value.splits option.splits)

lemma carries_yields:
  assumes "carries loads l t obj" "t \<in> {''ADDED'', ''MODIFIED'', ''DELETED''}"
  shows "watch_line loads l = Yield t obj"
  using assms by (auto simp: carries_def watch_line_def Let_def jget_of_jindex split: option.splits)

lemma carries_other:
  assumes "carries loads l t obj" "t \<notin> {''ADDED'', ''MODIFIED'', ''DELETED'', ''ERROR''}"
  shows "watch_line loads l = Skip"
  using assms by (auto simp: carries_def watch_line_def Let_def jget_of_jindex split: option.splits)

lemma failure_line:
  assumes "sends loads l (Failed code)"
  shows "watch_line loads l = (if code = 410 then Stop WatchExpiredError else Skip)"
proof -
  obtain e where e: "loads (strip l) = Some e" "jindex ''type'' e = Inr (MStr ''ERROR'')" "strip l \<noteq> []"
      "jpath [''object'', ''code''] MNone e = Inr (MInt code)"
    using assms by (auto split: option.splits)
  then obtain obj where "jget ''object'' (MDict []) e = Inr obj" "jget ''code'' MNone obj = Inr (MInt code)"
    by (auto split: sum.splits)
  moreover from this have "jget ''code'' (MInt 0) obj = Inr (MInt code)"
    by (auto simp: jget_def split: meta_value.splits option.splits)
  ultimately show ?thesis using e by (simp add: watch_line_def jget_of_jindex)
qed

lemma silent_lines:
  "sends loads l Heartbeat \<Longrightarrow> watch_line loads l = Skip" "sends loads l Garbled \<Longrightarrow> watch_line loads l = Skip"
  by (simp_all add: watch_line_def)

text \<open>C40: The watch hands over every change that the server sends, in its order and with its object, until the server says that the
  resource version has expired; then, and only then, it raises \<^verbatim>\<open>WatchExpiredError\<close>, so that the sync lists again. Bookmarks,
  other failures, heartbeats and garbled lines neither end the watch nor reach the sync.\<close>

theorem watch_delivers_changes:
  assumes "list_all2 (sends loads) lines xs"
  shows "watch_stream loads lines =
    (concat (map change_of (takeWhile (\<lambda>x. \<not> expired x) xs)), if \<exists>x \<in> set xs. expired x then Some WatchExpiredError else None)"
  using assms
proof (induction rule: list_all2_induct)
  case (Cons l ls x xs)
  show ?case
    using Cons silent_lines [of loads l]
    by (cases x) (auto simp: carries_yields carries_other failure_line expired_def simp del: sends.simps(5))
qed simp

definition demo_loads :: "string \<Rightarrow> meta_value option" where
  "demo_loads s = map_of
     [(''a'', MDict [(''type'', MStr ''ADDED''), (''object'', MInt 1)]),
      (''b'', MDict [(''object'', MInt 2), (''type'', MStr ''BOOKMARK'')]),
      (''d'', MDict [(''type'', MStr ''DELETED''), (''object'', MInt 1)]),
      (''f'', MDict [(''type'', MStr ''ERROR''), (''object'', MDict [(''code'', MInt 500)])]),
      (''x'', MDict [(''type'', MStr ''ERROR''), (''object'', MDict [(''message'', MStr ''old''), (''code'', MInt 410)])])] s"

theorem watch_delivers_changes_witness:
  "watch_stream demo_loads [''a'', '' '', ''b'', ''{'', '' d'', ''f'', ''a'', ''x'', ''a''] =
    ([(''ADDED'', MInt 1), (''DELETED'', MInt 1), (''ADDED'', MInt 1)], Some WatchExpiredError)"
proof -
  have "list_all2 (sends demo_loads) [''a'', '' '', ''b'', ''{'', '' d'', ''f'', ''a'', ''x'', ''a'']
    [Added (MInt 1), Heartbeat, Other ''BOOKMARK'' (MInt 2), Garbled, Deleted (MInt 1), Failed 500, Added (MInt 1), Failed 410, Added (MInt 1)]"
    by code_simp
  from watch_delivers_changes [OF this] show ?thesis by (simp add: expired_def)
qed

end
