(* ===== verification/Fake_Safety.thy ===== *)
theory Fake_Safety
  imports Fake_K8s K8s_Wire
begin

text \<open>
  What the tests may rely on of \<open>Fake_K8s\<close>: versions of objects only grow and the list of sandboxes carries the largest, no
  operation trips over an object of the double itself, snapshots outlive their disks, and its pods are those of production.
\<close>

subsection \<open>The shape of objects\<close>

text \<open>An object with metadata, specification and status, at a version.\<close>

definition shaped :: "int \<Rightarrow> meta_value \<Rightarrow> bool" where
  "shaped n v \<longleftrightarrow> (\<exists>kvs m sp st. v = MDict kvs \<and> map_of kvs ''metadata'' = Some (MDict m) \<and> map_of kvs ''spec'' = Some (MDict sp) \<and>
     map_of kvs ''status'' = Some (MDict st) \<and> map_of m ''resourceVersion'' = Some (MStr (show_int n)) \<and> 1 \<le> n)"

definition claim_shaped :: "meta_value \<Rightarrow> bool" where
  "claim_shaped v \<longleftrightarrow> (\<exists>kvs st. v = MDict kvs \<and> map_of kvs ''status'' = Some (MDict st))"

lemma map_of_put_if: "k \<noteq> l \<Longrightarrow> map_of (put_if k d @ r) l = map_of r l"
  by (simp add: put_if_def map_add_def split: option.splits)

lemma show_int_one: "show_int 1 = ''1''"
  by code_simp

lemma shaped_new:
  assumes "map_of kvs ''metadata'' = Some (fake_metadata name ns labels annotations)" "map_of kvs ''spec'' = Some (MDict sp)"
    "map_of kvs ''status'' = Some (MDict st)"
  shows "shaped 1 (MDict kvs)"
  using assms unfolding shaped_def fake_metadata_def by (auto simp: show_int_one)

lemma jassign_shaped:
  assumes "shaped n v" "k \<in> {''metadata'', ''spec'', ''status''}" "(k, l) \<noteq> (''metadata'', ''resourceVersion'')"
  shows "\<exists>v'. jassign [k, l] x v = Inr v' \<and> shaped n v' \<and> jpath [k, l] d v' = Inr x"
proof -
  obtain kvs m sp st where v: "v = MDict kvs" "map_of kvs ''metadata'' = Some (MDict m)" "map_of kvs ''spec'' = Some (MDict sp)"
    "map_of kvs ''status'' = Some (MDict st)" "map_of m ''resourceVersion'' = Some (MStr (show_int n))" "1 \<le> n"
    using assms(1) by (auto simp: shaped_def)
  then show ?thesis
    using assms(2,3) by (auto simp: shaped_def map_of_dict_set)
qed

lemma bump_version_shaped:
  assumes "shaped n v"
  shows "\<exists>v'. bump_version v = Inr v' \<and> shaped (n + 1) v' \<and> (\<forall>k l d. (k, l) \<noteq> (''metadata'', ''resourceVersion'') \<longrightarrow> jpath [k, l] d v' = jpath [k, l] d v)"
proof -
  obtain kvs m sp st where v: "v = MDict kvs" "map_of kvs ''metadata'' = Some (MDict m)" "map_of kvs ''spec'' = Some (MDict sp)"
    "map_of kvs ''status'' = Some (MDict st)" "map_of m ''resourceVersion'' = Some (MStr (show_int n))" "1 \<le> n"
    using assms by (auto simp: shaped_def)
  let ?v = "MDict (dict_set ''metadata'' (MDict (dict_set ''resourceVersion'' (MStr (show_int (n + 1))) m)) kvs)"
  have "bump_version v = Inr ?v"
    using v by (simp add: bump_version_def jindex_def py_int_show_int)
  moreover have "shaped (n + 1) ?v" using v by (simp add: shaped_def map_of_dict_set)
  moreover have "jpath [k, l] d ?v = jpath [k, l] d v" if "(k, l) \<noteq> (''metadata'', ''resourceVersion'')" for k l d
    using that v by (auto simp: map_of_dict_set)
  ultimately show ?thesis by blast
qed

lemma shaped_version: "shaped n v \<Longrightarrow> jpath [''metadata'', ''resourceVersion''] d v = Inr (MStr (show_int n))"
  by (auto simp: shaped_def)

lemma shaped_truthy: "shaped n v \<Longrightarrow> jtruthy v"
  by (auto simp: shaped_def)

subsection \<open>The invariant\<close>

definition values_ok :: "('v \<Rightarrow> bool) \<Rightarrow> (string \<times> 'v) list \<Rightarrow> bool" where
  "values_ok P d \<longleftrightarrow> (\<forall>v \<in> snd ` set d. P v)"

definition versioned :: "meta_value \<Rightarrow> bool" where
  "versioned v \<longleftrightarrow> (\<exists>n. shaped n v)"

definition fake_inv :: "fake_k8s \<Rightarrow> bool" where
  "fake_inv s \<longleftrightarrow> fk_templates s = DEFAULT_TEMPLATES \<and> values_ok versioned (fk_sandboxes s) \<and> values_ok claim_shaped (fk_claims s) \<and>
     values_ok versioned (fk_volume_snapshot_contents s)"

lemma values_ok_Nil [simp]: "values_ok P []"
  by (simp add: values_ok_def)

lemma values_ok_set: "values_ok P d \<Longrightarrow> P v \<Longrightarrow> values_ok P (dict_set k v d)"
  by (auto simp: values_ok_def dest!: dict_set_set)

lemma values_ok_del: "values_ok P d \<Longrightarrow> values_ok P (dict_del k d)"
  by (auto simp: values_ok_def dict_del_def)

lemma values_ok_found: "values_ok P d \<Longrightarrow> map_of d k = Some v \<Longrightarrow> P v"
  by (force simp: values_ok_def dest: map_of_SomeD)

lemma shaped_versioned: "shaped n v \<Longrightarrow> versioned v"
  by (auto simp: versioned_def)

lemma fake_inv_new: "fake_inv new_fake"
  by (simp add: fake_inv_def new_fake_def)

lemma shaped_objects:
  "shaped 1 (claimed_sandbox name ns container)" "shaped 1 (fake_sandbox a names)" "shaped 1 (fake_content name ns cls policy volume)"
    "claim_shaped (claim_object name ref ns t labels annotations)"
  by (auto simp: claimed_sandbox_def fake_sandbox_def fake_content_def fake_status_def claim_object_def claim_shaped_def shaped_def
      fake_metadata_def show_int_one map_of_put_if)

text \<open>The operations that change the double. Tests that write its dictionaries or the objects it has returned are outside.\<close>

inductive fake_step :: "fake_k8s \<Rightarrow> fake_k8s \<Rightarrow> bool" where
  "fk_create_sandbox_claim name ref ns t labels annotations s = (r, s') \<Longrightarrow> fake_step s s'"
| "fk_delete_sandbox_claim name ns s = (r2, s') \<Longrightarrow> fake_step s s'"
| "fk_create_sandbox a s = (r, s') \<Longrightarrow> fake_step s s'"
| "fk_delete_sandbox name ns s = (r2, s') \<Longrightarrow> fake_step s s'"
| "fk_set_sandbox_operating_mode name ns mode s = (r2, s') \<Longrightarrow> fake_step s s'"
| "simulate_sandbox_ready name ns s = (r3, s') \<Longrightarrow> fake_step s s'"
| "simulate_claim_adoption name ns adopted s = (r3, s') \<Longrightarrow> fake_step s s'"
| "fk_watch_sandboxes s = (r4, s') \<Longrightarrow> fake_step s s'"
| "enqueue_watch_event event obj s = (r3, s') \<Longrightarrow> fake_step s s'"
| "stop_watch s = (r3, s') \<Longrightarrow> fake_step s s'"
| "remove_storage_class name s = (r3, s') \<Longrightarrow> fake_step s s'"
| "remove_volume_snapshot_class name s = (r3, s') \<Longrightarrow> fake_step s s'"
| "fk_delete_persistent_volume_claim name ns s = (r2, s') \<Longrightarrow> fake_step s s'"
| "fk_create_volume_snapshot name ns pvc cls labels annotations s = (r, s') \<Longrightarrow> fake_step s s'"
| "fk_delete_volume_snapshot name ns s = (r2, s') \<Longrightarrow> fake_step s s'"
| "fk_delete_volume_snapshot_content name s = (r2, s') \<Longrightarrow> fake_step s s'"
| "fk_set_volume_snapshot_content_deletion_policy name policy s = (r2, s') \<Longrightarrow> fake_step s s'"

lemma mode_change:
  assumes "shaped n sb"
  shows "\<exists>sb'. jbind (jassign [''spec'', ''operatingMode''] (MStr mode) sb) (\<lambda>sb1.
      jbind (jassign [''status'', ''conditions''] c sb1) bump_version) = Inr sb' \<and> shaped (n + 1) sb' \<and>
      jpath [''spec'', ''operatingMode''] MNone sb' = Inr (MStr mode) \<and> jpath [''status'', ''conditions''] MNone sb' = Inr c"
proof -
  obtain sb1 where 1: "jassign [''spec'', ''operatingMode''] (MStr mode) sb = Inr sb1" "shaped n sb1"
      "jpath [''spec'', ''operatingMode''] MNone sb1 = Inr (MStr mode)"
    using jassign_shaped [OF assms, of "''spec''" "''operatingMode''" "MStr mode" MNone] by (auto simp del: jpath.simps jassign.simps)
  obtain sb2 where 2: "jassign [''status'', ''conditions''] c sb1 = Inr sb2" "shaped n sb2"
      "jpath [''status'', ''conditions''] MNone sb2 = Inr c"
    using jassign_shaped [OF 1(2), of "''status''" "''conditions''" c MNone] by (auto simp del: jpath.simps jassign.simps)
  have "jpath [''spec'', ''operatingMode''] MNone sb2 = Inr (MStr mode)"
    using 1(2,3) 2(1) by (auto simp: shaped_def map_of_dict_set)
  with 1 2 bump_version_shaped [OF 2(2)] show ?thesis by (auto simp del: jpath.simps jassign.simps)
qed

lemma ready_change:
  assumes "shaped n sb"
  shows "\<exists>sb'. jbind (jassign [''status'', ''conditions''] c sb) bump_version = Inr sb' \<and> shaped (n + 1) sb' \<and>
    jpath [''status'', ''conditions''] MNone sb' = Inr c"
proof -
  obtain sb1 where 1: "jassign [''status'', ''conditions''] c sb = Inr sb1" "shaped n sb1" "jpath [''status'', ''conditions''] MNone sb1 = Inr c"
    using jassign_shaped [OF assms, of "''status''" "''conditions''" c MNone] by (auto simp del: jpath.simps jassign.simps)
  with bump_version_shaped [OF 1(2)] show ?thesis by (auto simp del: jpath.simps jassign.simps)
qed

lemma policy_change:
  assumes "shaped n c"
  shows "\<exists>c'. jbind (jassign [''spec'', ''deletionPolicy''] x c) bump_version = Inr c' \<and> shaped (n + 1) c' \<and>
    jpath [''spec'', ''deletionPolicy''] MNone c' = Inr x"
proof -
  obtain c1 where 1: "jassign [''spec'', ''deletionPolicy''] x c = Inr c1" "shaped n c1" "jpath [''spec'', ''deletionPolicy''] MNone c1 = Inr x"
    using jassign_shaped [OF assms, of "''spec''" "''deletionPolicy''" x MNone] by (auto simp del: jpath.simps jassign.simps)
  with bump_version_shaped [OF 1(2)] show ?thesis by (auto simp del: jpath.simps jassign.simps)
qed

lemma adopt_shaped:
  assumes "shaped n sb"
  shows "\<exists>sb'. adopt claim ns adopted sb = Inr sb' \<and> shaped (n + 1) sb'"
proof -
  have step: "\<exists>v'. jassign [k, l] x v = Inr v' \<and> shaped n v'"
    if "shaped n v" "k \<in> {''metadata'', ''spec'', ''status''}" "(k, l) \<noteq> (''metadata'', ''resourceVersion'')" for k l x v
    using jassign_shaped [OF that] by blast
  obtain s1 where 1: "jassign [''metadata'', ''name''] (MStr adopted) sb = Inr s1" "shaped n s1"
    using step [OF assms, of "''metadata''" "''name''"] by auto
  obtain s2 where 2: "jassign [''metadata'', ''ownerReferences''] (MList [MDict [(''kind'', MStr ''SandboxClaim''), (''name'', MStr claim),
      (''controller'', MBool True)]]) s1 = Inr s2" "shaped n s2"
    using step [OF 1(2), of "''metadata''" "''ownerReferences''"] by auto
  obtain s3 where 3: "jassign [''status'', ''service''] (MStr adopted) s2 = Inr s3" "shaped n s3"
    using step [OF 2(2), of "''status''" "''service''"] by auto
  obtain s4 where 4: "jassign [''status'', ''serviceFQDN''] (MStr (adopted @ ''.'' @ ns @ ''.svc.cluster.local'')) s3 = Inr s4" "shaped n s4"
    using step [OF 3(2), of "''status''" "''serviceFQDN''"] by auto
  have "adopt claim ns adopted sb = bump_version s4"
    unfolding adopt_def using 1 2 3 4 by (simp del: jassign.simps)
  with bump_version_shaped [OF 4(2)] show ?thesis by auto
qed

lemma fake_inv_updates:
  assumes "fake_inv s"
  shows "shaped n v \<Longrightarrow> fake_inv (s\<lparr>fk_sandboxes := dict_set k v (fk_sandboxes s)\<rparr>)"
    "fake_inv (s\<lparr>fk_sandboxes := dict_del k (fk_sandboxes s)\<rparr>)"
    "claim_shaped c \<Longrightarrow> fake_inv (s\<lparr>fk_claims := dict_set k c (fk_claims s)\<rparr>)"
    "fake_inv (s\<lparr>fk_claims := dict_del k (fk_claims s)\<rparr>)"
    "shaped n v \<Longrightarrow> fake_inv (s\<lparr>fk_volume_snapshot_contents := dict_set k v (fk_volume_snapshot_contents s)\<rparr>)"
    "fake_inv (s\<lparr>fk_volume_snapshot_contents := dict_del k (fk_volume_snapshot_contents s)\<rparr>)"
  using assms by (simp_all add: fake_inv_def values_ok_set values_ok_del shaped_versioned)

lemma fake_inv_other [simp]:
  "fake_inv (s\<lparr>fk_pvcs := x\<rparr>) = fake_inv s" "fake_inv (s\<lparr>fk_pvs := x\<rparr>) = fake_inv s" "fake_inv (s\<lparr>fk_volume_snapshots := x\<rparr>) = fake_inv s"
  "fake_inv (s\<lparr>fk_storage_classes := x\<rparr>) = fake_inv s" "fake_inv (s\<lparr>fk_volume_snapshot_classes := x\<rparr>) = fake_inv s"
  "fake_inv (s\<lparr>fk_watch_queue := q\<rparr>) = fake_inv s" "fake_inv (s\<lparr>fk_pvcs := x, fk_pvs := x'\<rparr>) = fake_inv s"
  by (simp_all add: fake_inv_def)

lemma found_shaped: "fake_inv s \<Longrightarrow> map_of (fk_sandboxes s) k = Some v \<Longrightarrow> \<exists>n. shaped n v"
  by (auto simp: fake_inv_def versioned_def dest: values_ok_found)

lemma found_claim: "fake_inv s \<Longrightarrow> map_of (fk_claims s) k = Some v \<Longrightarrow> claim_shaped v"
  by (auto simp: fake_inv_def dest: values_ok_found)

lemma found_content: "fake_inv s \<Longrightarrow> map_of (fk_volume_snapshot_contents s) k = Some v \<Longrightarrow> \<exists>n. shaped n v"
  by (auto simp: fake_inv_def versioned_def dest: values_ok_found)

lemma claim_reassigned: "claim_shaped c \<Longrightarrow> \<exists>c'. jassign [''status'', ''sandbox''] x c = Inr c' \<and> claim_shaped c'"
  by (auto simp: claim_shaped_def map_of_dict_set)

lemma fake_inv_frame:
  "fake_inv s \<Longrightarrow> fk_templates s' = fk_templates s \<Longrightarrow> fk_sandboxes s' = fk_sandboxes s \<Longrightarrow> fk_claims s' = fk_claims s \<Longrightarrow>
    fk_volume_snapshot_contents s' = fk_volume_snapshot_contents s \<Longrightarrow> fake_inv s'"
  by (simp add: fake_inv_def)

lemma materialize_inv: "fake_inv s \<Longrightarrow> fake_inv (snd (materialize_volume_claims ns name i ts s))"
proof (induction ts arbitrary: i s)
  case (Cons t ts)
  then show ?case by (auto simp: ebind_def split: sum.splits prod.splits)
qed simp

lemma create_claim_inv: "fake_inv s \<Longrightarrow> fake_inv (snd (fk_create_sandbox_claim name ref ns t labels annotations s))"
  by (auto simp: fk_create_sandbox_claim_def Let_def ebind_def fake_inv_def values_ok_set shaped_objects shaped_versioned [OF shaped_objects(1)]
      split: sum.splits)

lemma create_sandbox_inv: "fake_inv s \<Longrightarrow> fake_inv (snd (fk_create_sandbox a s))"
  using materialize_inv [of s "sa_namespace a" "sa_name a" 1 "sa_volume_claim_templates a"]
  by (auto simp: fk_create_sandbox_def ebind_def intro!: fake_inv_updates shaped_objects split: sum.splits prod.splits)

lemma set_mode_run:
  assumes "fake_inv s"
  shows "case map_of (fk_sandboxes s) (object_key ns name) of
      None \<Rightarrow> fk_set_sandbox_operating_mode name ns mode s = (Inr False, s)
    | Some sb \<Rightarrow> \<exists>n sb'. shaped n sb \<and> shaped (n + 1) sb' \<and> jpath [''spec'', ''operatingMode''] MNone sb' = Inr (MStr mode) \<and>
        jpath [''status'', ''conditions''] MNone sb' = Inr (if mode = ''Suspended'' then suspended_conditions else resumed_conditions) \<and>
        fk_set_sandbox_operating_mode name ns mode s
          = (Inr True, s\<lparr>fk_sandboxes := dict_set (object_key ns name) sb' (fk_sandboxes s)\<rparr>)"
proof (cases "map_of (fk_sandboxes s) (object_key ns name)")
  case (Some sb)
  with assms obtain n where n: "shaped n sb" using found_shaped by blast
  from mode_change [OF n, of mode "if mode = ''Suspended'' then suspended_conditions else resumed_conditions"] obtain sb' where sb':
    "jbind (jassign [''spec'', ''operatingMode''] (MStr mode) sb) (\<lambda>sb1.
      jbind (jassign [''status'', ''conditions''] (if mode = ''Suspended'' then suspended_conditions else resumed_conditions) sb1) bump_version) = Inr sb'"
    "shaped (n + 1) sb'" "jpath [''spec'', ''operatingMode''] MNone sb' = Inr (MStr mode)"
    "jpath [''status'', ''conditions''] MNone sb' = Inr (if mode = ''Suspended'' then suspended_conditions else resumed_conditions)" by blast
  then have "fk_set_sandbox_operating_mode name ns mode s
      = (Inr True, s\<lparr>fk_sandboxes := dict_set (object_key ns name) sb' (fk_sandboxes s)\<rparr>)"
    using Some by (simp only: fk_set_sandbox_operating_mode_def ebind_run gets_run of_sum_run modify_run ret_run prod.case sum.case option.case)
  with n sb' Some show ?thesis by (simp only: option.case) blast
qed (simp add: fk_set_sandbox_operating_mode_def)

lemma ready_run:
  assumes "fake_inv s"
  shows "case map_of (fk_sandboxes s) (object_key ns name) of
      None \<Rightarrow> simulate_sandbox_ready name ns s = (Inr (), s)
    | Some sb \<Rightarrow> \<exists>n sb'. shaped n sb \<and> shaped (n + 1) sb' \<and> jpath [''status'', ''conditions''] MNone sb' = Inr ready_conditions \<and>
        simulate_sandbox_ready name ns s = (Inr (), s\<lparr>fk_sandboxes := dict_set (object_key ns name) sb' (fk_sandboxes s)\<rparr>)"
proof (cases "map_of (fk_sandboxes s) (object_key ns name)")
  case (Some sb)
  with assms obtain n where n: "shaped n sb" using found_shaped by blast
  from ready_change [OF n, of ready_conditions] obtain sb' where sb':
    "jbind (jassign [''status'', ''conditions''] ready_conditions sb) bump_version = Inr sb'" "shaped (n + 1) sb'"
    "jpath [''status'', ''conditions''] MNone sb' = Inr ready_conditions" by blast
  then have "simulate_sandbox_ready name ns s = (Inr (), s\<lparr>fk_sandboxes := dict_set (object_key ns name) sb' (fk_sandboxes s)\<rparr>)"
    using Some shaped_truthy [OF n]
    by (simp only: simulate_sandbox_ready_def ebind_run gets_run of_sum_run modify_run ret_run prod.case sum.case option.case not_True_eq_False if_False)
  with n sb' Some show ?thesis by (simp only: option.case) blast
qed (simp add: simulate_sandbox_ready_def)

lemma adoption_inv: "fake_inv s \<Longrightarrow> fst (simulate_claim_adoption c ns adopted s) = Inr () \<and> fake_inv (snd (simulate_claim_adoption c ns adopted s))"
proof -
  assume inv: "fake_inv s"
  let ?k = "object_key ns c"
  show ?thesis
  proof (cases "map_of (fk_claims s) ?k")
    case None
    with inv show ?thesis by (simp add: simulate_claim_adoption_def Let_def ebind_run fake_inv_updates)
  next
    case claim: (Some cl)
    show ?thesis
    proof (cases "map_of (fk_sandboxes s) ?k")
      case None
      with inv claim show ?thesis by (simp add: simulate_claim_adoption_def Let_def ebind_run fake_inv_updates)
    next
      case (Some sb)
      obtain n where "shaped n sb" using found_shaped [OF inv Some] by blast
      then obtain sb' where sb': "adopt c ns adopted sb = Inr sb'" "shaped (n + 1) sb'" using adopt_shaped by blast
      obtain cl' where cl': "jassign [''status'', ''sandbox''] (MDict [(''name'', MStr adopted), (''podIPs'', MList [])]) cl = Inr cl'" "claim_shaped cl'"
        using claim_reassigned [OF found_claim [OF inv claim]] by blast
      show ?thesis
        using claim Some sb' cl' fake_inv_updates(1) [OF fake_inv_updates(3) [OF fake_inv_updates(2) [OF inv] cl'(2)] sb'(2)]
        by (simp add: simulate_claim_adoption_def Let_def ebind_run del: jassign.simps)
    qed
  qed
qed

lemma snapshot_inv: "fake_inv s \<Longrightarrow> fake_inv (snd (fk_create_volume_snapshot name ns pvc cls labels annotations s))"
  by (auto simp: fk_create_volume_snapshot_def fk_get_persistent_volume_claim_def fk_get_volume_snapshot_class_def Let_def ebind_def fake_inv_def
      values_ok_set shaped_versioned [OF shaped_objects(3)] split: sum.splits option.splits)

lemma delete_snapshot_inv: "fake_inv s \<Longrightarrow> fake_inv (snd (fk_delete_volume_snapshot name ns s))"
  by (auto simp: fk_delete_volume_snapshot_def Let_def ebind_def fake_inv_def values_ok_del
      split: sum.splits option.splits meta_value.splits)

lemma policy_run:
  assumes "fake_inv s"
  shows "case map_of (fk_volume_snapshot_contents s) name of
      None \<Rightarrow> fk_set_volume_snapshot_content_deletion_policy name policy s = (Inr False, s)
    | Some c \<Rightarrow> \<exists>n c'. shaped n c \<and> shaped (n + 1) c' \<and> jpath [''spec'', ''deletionPolicy''] MNone c' = Inr (MStr policy) \<and>
        fk_set_volume_snapshot_content_deletion_policy name policy s
          = (Inr True, s\<lparr>fk_volume_snapshot_contents := dict_set name c' (fk_volume_snapshot_contents s)\<rparr>)"
proof (cases "map_of (fk_volume_snapshot_contents s) name")
  case (Some c)
  with assms obtain n where n: "shaped n c" using found_content by blast
  from policy_change [OF n, of "MStr policy"] obtain c' where c':
    "jbind (jassign [''spec'', ''deletionPolicy''] (MStr policy) c) bump_version = Inr c'" "shaped (n + 1) c'"
    "jpath [''spec'', ''deletionPolicy''] MNone c' = Inr (MStr policy)" by blast
  then have "fk_set_volume_snapshot_content_deletion_policy name policy s
      = (Inr True, s\<lparr>fk_volume_snapshot_contents := dict_set name c' (fk_volume_snapshot_contents s)\<rparr>)"
    using Some by (simp only: fk_set_volume_snapshot_content_deletion_policy_def ebind_run gets_run of_sum_run modify_run ret_run prod.case sum.case option.case)
  with n c' Some show ?thesis by (simp only: option.case) blast
qed (simp add: fk_set_volume_snapshot_content_deletion_policy_def)

lemma fake_step_inv:
  assumes "fake_step s s'" "fake_inv s"
  shows "fake_inv s'"
  using assms
proof induction
  case (1 name ref ns t labels annotations s r s')
  then show ?case using create_claim_inv [of s name ref ns t labels annotations] by simp
next
  case (3 a s r s')
  then show ?case using create_sandbox_inv [of s a] by simp
next
  case (5 name ns mode s r2 s')
  then show ?case using set_mode_run [of s name ns mode] by (auto split: option.splits intro!: fake_inv_updates)
next
  case (6 name ns s r3 s')
  then show ?case using ready_run [of s name ns] by (auto split: option.splits intro!: fake_inv_updates)
next
  case (7 name ns adopted s r3 s')
  then show ?case using adoption_inv [of s name ns adopted] by simp
next
  case (14 name ns pvc cls labels annotations s r s')
  then show ?case using snapshot_inv [of s name ns pvc cls labels annotations] by simp
next
  case (15 name ns s r2 s')
  then show ?case using delete_snapshot_inv [of s name ns] by simp
next
  case (17 name policy s r2 s')
  then show ?case using policy_run [of s name policy] by (auto split: option.splits intro!: fake_inv_updates)
qed (auto simp: fk_delete_sandbox_claim_def fk_delete_sandbox_def fk_watch_sandboxes_def enqueue_watch_event_def stop_watch_def
    remove_storage_class_def remove_volume_snapshot_class_def fk_delete_persistent_volume_claim_def fk_delete_volume_snapshot_content_def
    Let_def ebind_def fake_inv_def values_ok_del split: option.splits sum.splits meta_value.splits if_splits)

subsection \<open>Versions\<close>

definition version_of :: "meta_value \<Rightarrow> int" where
  "version_of v = (case jpath [''metadata'', ''resourceVersion''] (MStr ''0'') v of Inr rv \<Rightarrow> (case json_int rv of Inr n \<Rightarrow> n | _ \<Rightarrow> 0) | _ \<Rightarrow> 0)"

lemma shaped_version_of: "shaped n v \<Longrightarrow> version_of v = n"
  using shaped_version [of n v "MStr ''0''"] by (simp add: version_of_def py_int_show_int del: jpath.simps)

lemma max_version_run:
  assumes "list_all versioned vs"
  shows "max_version (MStr (show_int m)) vs = Inr (MStr (show_int (fold (\<lambda>v m. max m (version_of v)) vs m)))"
  using assms
proof (induction vs arbitrary: m)
  case (Cons v vs)
  then obtain n where n: "shaped n v" by (auto simp: versioned_def)
  have "max_version (MStr (show_int m)) (v # vs) = max_version (MStr (show_int (max m n))) vs"
    using shaped_version [OF n, of "MStr ''0''"] by (simp add: py_int_show_int max_def del: jpath.simps)
  with Cons n show ?case by (simp add: shaped_version_of)
qed simp

lemma fold_max_version: "fold (\<lambda>v m. max m (version_of v)) vs m = Max (set (m # map version_of vs))"
proof (induction vs arbitrary: m)
  case (Cons v vs)
  have "Max (insert (max m (version_of v)) (version_of ` set vs)) = Max (insert m (insert (version_of v) (version_of ` set vs)))"
    by (cases "vs = []") (auto simp: max.assoc)
  with Cons show ?case by simp
qed simp

lemma show_int_zero: "show_int 0 = ''0''"
  by code_simp

lemma in_namespace_versioned: "fake_inv s \<Longrightarrow> list_all versioned (in_namespace ns (fk_sandboxes s))"
  by (auto simp: fake_inv_def values_ok_def in_namespace_def list_all_iff)

text \<open>C37: However the tests have used the double, its objects behave as those of an API server: the list of sandboxes carries the
  largest version of its items, and suspending, resuming or a controller that finds the pod ready succeed for exactly the
  sandboxes there are, leave the mode and the conditions that this means, and raise the version of that sandbox by one.\<close>

theorem fake_versions_grow:
  assumes "fake_step\<^sup>*\<^sup>* new_fake s"
  shows "fk_list_sandboxes_with_metadata ns s = (Inr (MDict
      [(''metadata'', MDict [(''resourceVersion'', MStr (show_int (Max (set (0 # map version_of (in_namespace ns (fk_sandboxes s)))))))]),
       (''items'', MList (in_namespace ns (fk_sandboxes s)))]), s) \<and>
    (case map_of (fk_sandboxes s) (object_key ns name) of
       None \<Rightarrow> fk_set_sandbox_operating_mode name ns mode s = (Inr False, s) \<and> simulate_sandbox_ready name ns s = (Inr (), s)
     | Some sb \<Rightarrow> \<exists>sb1 sb2.
         fk_set_sandbox_operating_mode name ns mode s = (Inr True, s\<lparr>fk_sandboxes := dict_set (object_key ns name) sb1 (fk_sandboxes s)\<rparr>) \<and>
         jpath [''spec'', ''operatingMode''] MNone sb1 = Inr (MStr mode) \<and>
         jpath [''status'', ''conditions''] MNone sb1 = Inr (if mode = ''Suspended'' then suspended_conditions else resumed_conditions) \<and>
         simulate_sandbox_ready name ns s = (Inr (), s\<lparr>fk_sandboxes := dict_set (object_key ns name) sb2 (fk_sandboxes s)\<rparr>) \<and>
         jpath [''status'', ''conditions''] MNone sb2 = Inr ready_conditions \<and>
         version_of sb1 = version_of sb + 1 \<and> version_of sb2 = version_of sb + 1)"
proof -
  have inv: "fake_inv s" using assms by induction (auto intro: fake_inv_new fake_step_inv)
  have "max_version (MStr ''0'') (in_namespace ns (fk_sandboxes s))
      = Inr (MStr (show_int (Max (set (0 # map version_of (in_namespace ns (fk_sandboxes s)))))))"
    using max_version_run [OF in_namespace_versioned [OF inv, of ns], of 0] by (simp add: show_int_zero fold_max_version)
  then have items: "fk_list_sandboxes_with_metadata ns s = (Inr (MDict
      [(''metadata'', MDict [(''resourceVersion'', MStr (show_int (Max (set (0 # map version_of (in_namespace ns (fk_sandboxes s)))))))]),
       (''items'', MList (in_namespace ns (fk_sandboxes s)))]), s)"
    by (simp add: fk_list_sandboxes_with_metadata_def fk_list_sandboxes_def ebind_run)
  show ?thesis
  proof (cases "map_of (fk_sandboxes s) (object_key ns name)")
    case None
    with items set_mode_run [OF inv, where ns = ns and name = name and mode = mode] ready_run [OF inv, where ns = ns and name = name]
    show ?thesis by simp
  next
    case (Some sb)
    with set_mode_run [OF inv, where ns = ns and name = name and mode = mode] obtain n sb1 where 1: "shaped n sb" "shaped (n + 1) sb1"
      "fk_set_sandbox_operating_mode name ns mode s = (Inr True, s\<lparr>fk_sandboxes := dict_set (object_key ns name) sb1 (fk_sandboxes s)\<rparr>)"
      "jpath [''spec'', ''operatingMode''] MNone sb1 = Inr (MStr mode)"
      "jpath [''status'', ''conditions''] MNone sb1 = Inr (if mode = ''Suspended'' then suspended_conditions else resumed_conditions)"
      by (simp only: option.case) blast
    from Some ready_run [OF inv, where ns = ns and name = name] obtain n' sb2 where 2: "shaped n' sb" "shaped (n' + 1) sb2"
      "simulate_sandbox_ready name ns s = (Inr (), s\<lparr>fk_sandboxes := dict_set (object_key ns name) sb2 (fk_sandboxes s)\<rparr>)"
      "jpath [''status'', ''conditions''] MNone sb2 = Inr ready_conditions"
      by (simp only: option.case) blast
    have "version_of sb1 = version_of sb + 1" "version_of sb2 = version_of sb + 1"
      using shaped_version_of [OF 1(1)] shaped_version_of [OF 1(2)] shaped_version_of [OF 2(1)] shaped_version_of [OF 2(2)] by simp_all
    with items 1 2 Some show ?thesis by (simp only: option.case) blast
  qed
qed

definition demo_args :: sandbox_args where
  "demo_args = plain_sandbox\<lparr>sa_volume_claim_templates := []\<rparr>"

definition demo_fake :: fake_k8s where
  "demo_fake = new_fake\<lparr>fk_sandboxes := [(''ns/sb1'', fake_sandbox demo_args [])]\<rparr>"

lemma demo_fake_run: "fk_create_sandbox demo_args new_fake = (Inr (fake_sandbox demo_args []), demo_fake)"
  by (simp add: fk_create_sandbox_def demo_args_def plain_sandbox_def demo_fake_def new_fake_def object_key_def dict_set_def ebind_run)

lemma fake_versions_grow_witness:
  "\<exists>sb1. fk_set_sandbox_operating_mode ''sb1'' ''ns'' ''Suspended'' demo_fake
      = (Inr True, demo_fake\<lparr>fk_sandboxes := dict_set ''ns/sb1'' sb1 (fk_sandboxes demo_fake)\<rparr>) \<and> version_of sb1 = 2"
proof -
  have run: "fake_step\<^sup>*\<^sup>* new_fake demo_fake"
    by (rule r_into_rtranclp, rule fake_step.intros(3), rule demo_fake_run)
  have found: "map_of (fk_sandboxes demo_fake) (object_key ''ns'' ''sb1'') = Some (fake_sandbox demo_args [])"
    by (simp add: demo_fake_def object_key_def)
  have "version_of (fake_sandbox demo_args []) = 1" by (rule shaped_version_of) (rule shaped_objects)
  with fake_versions_grow [OF run, where ns = "''ns''" and name = "''sb1''" and mode = "''Suspended''"] show ?thesis
    unfolding found by (auto simp: object_key_def simp del: jpath.simps)
qed

subsection \<open>Pods and snapshots\<close>

text \<open>The pods of the double are those of \<open>Kr8sClient\<close> but for the port and for the directory that the home is seeded from.\<close>

lemma fake_pods_match_production:
  "fake_pod_spec a names = map (\<lambda>(k, v). (k, if k = ''containers'' then MList [MDict (dict_del ''ports'' (main_container a names))]
     else if k = ''initContainers'' then MList [init_container SANDBOX_HOME_DIR (sa_image a) names] else v)) (pod_spec a names)"
proof -
  have "dict_del ''ports'' (container_probes a) = container_probes a"
    by (auto simp: dict_del_def container_probes_def probe_entry_def split: option.splits)
  then have "dict_del ''ports'' (main_container a names) = fake_main_container a names"
    by (simp add: main_container_def fake_main_container_def dict_del_def)
  then show ?thesis by (simp add: fake_pod_spec_def pod_spec_def)
qed

lemma fake_pods_hardened: "\<forall>c \<in> set (pod_containers (MDict (fake_pod_spec a names))). hardened c"
proof -
  have "hardened (MDict (fake_main_container a names))"
    by (simp add: hardened_def fake_main_container_def map_add_def container_probes_other sandbox_main_container_security_context_def
        seccomp_default_def SANDBOX_UID_def)
  then show ?thesis by (simp add: pod_containers_def fake_pod_spec_def init_container_hardened)
qed

lemma seeds_differ: "init_container SANDBOX_HOME_DIR img names \<noteq> init_container SANDBOX_HOME_TEMPLATE_DIR img names"
  by (simp add: init_container_def init_script_def SANDBOX_HOME_DIR_def SANDBOX_HOME_TEMPLATE_DIR_def home_sentinel_def)

text \<open>A snapshot has the size of its disk and outlives it; what it was bound to is deleted with it only when its class says so.\<close>

lemma snapshot_outlives_disk:
  assumes "fk_create_volume_snapshot name ns pvc cls labels annotations s = (Inr snapshot, s1)"
  shows "\<exists>policy. (\<exists>c. map_of (fk_volume_snapshot_classes s) cls = Some c \<and> jindex ''deletionPolicy'' c = Inr policy) \<and>
    fk_get_volume_snapshot name ns (snd (fk_delete_persistent_volume_claim pvc ns s1))
      = (Inr (Some snapshot), snd (fk_delete_persistent_volume_claim pvc ns s1)) \<and>
    (\<exists>s2. fk_delete_volume_snapshot name ns s1 = (Inr True, s2) \<and> map_of (fk_volume_snapshots s2) (object_key ns name) = None \<and>
      (map_of (fk_volume_snapshot_contents s2) (''vsc-'' @ name) = None \<longleftrightarrow> policy = MStr ''Delete''))"
proof -
  obtain size policy volume c where c: "map_of (fk_volume_snapshot_classes s) cls = Some c" "jindex ''deletionPolicy'' c = Inr policy"
    "snapshot = fake_snapshot name ns pvc cls labels annotations size"
    "s1 = s\<lparr>fk_volume_snapshots := dict_set (object_key ns name) snapshot (fk_volume_snapshots s),
       fk_volume_snapshot_contents := dict_set (''vsc-'' @ name) (fake_content name ns cls policy volume) (fk_volume_snapshot_contents s)\<rparr>"
    using assms
    by (auto simp: fk_create_volume_snapshot_def fk_get_persistent_volume_claim_def fk_get_volume_snapshot_class_def Let_def ebind_def
        split: option.splits sum.splits)
  have "map_of (dict_del k d) k = None" for k and d :: json_dict
    by (induction d) (auto simp: dict_del_def)
  moreover have "fk_volume_snapshots (snd (fk_delete_persistent_volume_claim pvc ns s1)) = fk_volume_snapshots s1"
    by (auto simp: fk_delete_persistent_volume_claim_def Let_def ebind_def split: option.splits sum.splits meta_value.splits)
  moreover have facts: "map_of (fk_volume_snapshots s1) (object_key ns name) = Some snapshot"
      "map_of (fk_volume_snapshot_contents s1) (''vsc-'' @ name) = Some (fake_content name ns cls policy volume)"
    by (simp_all add: c(4) map_of_dict_set)
  moreover have "jpath [''status'', ''boundVolumeSnapshotContentName''] MNone snapshot = Inr (MStr (''vsc-'' @ name))"
      "jpath [''spec'', ''deletionPolicy''] MNone (fake_content name ns cls policy volume) = Inr policy"
      "jtruthy (fake_content name ns cls policy volume)"
    by (simp_all add: c(3) fake_snapshot_def fake_content_def)
  moreover have "\<exists>s2. fk_delete_volume_snapshot name ns s1 = (Inr True, s2) \<and> map_of (fk_volume_snapshots s2) (object_key ns name) = None \<and>
      (map_of (fk_volume_snapshot_contents s2) (''vsc-'' @ name) = None \<longleftrightarrow> policy = MStr ''Delete'')"
    using calculation
    by (cases "policy = MStr ''Delete''") (simp_all add: fk_delete_volume_snapshot_def ebind_run Let_def del: jpath.simps append_Cons)
  ultimately show ?thesis using c(1,2) by (auto simp: fk_get_volume_snapshot_def)
qed

end
