(* ===== verification/Gem_Auth.thy ===== *)
theory Gem_Auth
  imports Web_Request
begin

text \<open>
  The authentication service inside a sandbox (\<^verbatim>\<open>gem-server/src/gem/routers/auth.py\<close>): nginx asks it about every request, it
  answers from short-lived tickets and from JSON web tokens that it has verified, both kept in caches.

  The caches are those of \<^verbatim>\<open>cachelib\<close>: the parameters \<open>cget\<close> and \<open>cset\<close> read and write a cache at a time, \<open>cache_ok\<close> is
  what its documentation says of them, a timeout of zero seconds meaning that the entry does not expire. \<open>decode\<close> is \<^verbatim>\<open>jwt.decode\<close> with the
  configured key: its answer to a token at a time; \<open>decode_ok\<close> says that it refuses a token at its \<^verbatim>\<open>exp\<close> and later.
\<close>

subsection \<open>Configuration\<close>

record auth_config =
  jwt_algorithms :: "string list"
  default_ticket_ttl :: int
  default_cache_ttl :: int
  jwt_public_key :: "string option"
  ticket_ttl :: int

text \<open>\<open>b64\<close> decodes the base64 of a UTF-8 text, \<open>None\<close> where the source catches an exception.\<close>

definition load_jwt_public_key :: "(string \<Rightarrow> string option) \<Rightarrow> string option \<Rightarrow> string option" where
  "load_jwt_public_key b64 raw = (if \<not> truthy raw then None else b64 (the raw))"

definition load_ticket_ttl :: "int \<Rightarrow> string option \<Rightarrow> int" where
  "load_ticket_ttl d raw = (case raw of None \<Rightarrow> d
     | Some s \<Rightarrow> (case py_int s of None \<Rightarrow> d | Some n \<Rightarrow> if 0 \<le> n then n else d))"

definition make_auth_config :: "(string \<Rightarrow> string option) \<Rightarrow> (string \<Rightarrow> string option) \<Rightarrow> auth_config" where
  "make_auth_config b64 env = \<lparr>jwt_algorithms = [''RS256''], default_ticket_ttl = 30, default_cache_ttl = 1800,
     jwt_public_key = load_jwt_public_key b64 (env ''JWT_PUBLIC_KEY''), ticket_ttl = load_ticket_ttl 30 (env ''TICKET_TTL_SECONDS'')\<rparr>"

subsection \<open>The service\<close>

datatype http_error = HTTPException int string | ValueError

datatype jwt_error = ExpiredSignatureError | PyJWTError string

type_synonym jwt_decoder = "string \<Rightarrow> string list \<Rightarrow> time \<Rightarrow> string \<Rightarrow> jwt_error + (string \<times> meta_value) list"

record 'c auth_service =
  jwt_cache :: 'c
  ticket_cache :: 'c

record 'c cache_lib =
  cget :: "time \<Rightarrow> 'c \<Rightarrow> string \<Rightarrow> bool"
  cset :: "time \<Rightarrow> 'c \<Rightarrow> string \<Rightarrow> int \<Rightarrow> 'c"

type_synonym ('c, 'a) auth_op = "('c auth_service, http_error, 'a) action"

text \<open>\<open>ticket\<close> is the identifier that \<^verbatim>\<open>uuid4\<close> draws.\<close>

definition create_ticket :: "'c cache_lib \<Rightarrow> auth_config \<Rightarrow> time \<Rightarrow> string \<Rightarrow> ('c, string \<times> int) auth_op" where
  "create_ticket L cfg now ticket =
     ebind (modify (\<lambda>s. s\<lparr>ticket_cache := cset L now (ticket_cache s) ticket (ticket_ttl cfg)\<rparr>)) (\<lambda>_.
     ret (ticket, ticket_ttl cfg))"

definition validate_ticket :: "'c cache_lib \<Rightarrow> time \<Rightarrow> string \<Rightarrow> ('c, bool) auth_op" where
  "validate_ticket L now ticket = gets (\<lambda>s. cget L now (ticket_cache s) ticket)"

definition parse_ticket_from_uri :: "(string \<Rightarrow> bool) \<Rightarrow> string \<Rightarrow> http_error + string option" where
  "parse_ticket_from_uri ip6 uri = (case urlparse ip6 uri of None \<Rightarrow> Inl ValueError
     | Some u \<Rightarrow> Inr (case filter (\<lambda>(k, _). k = ''ticket'') (parse_qsl (pu_query u)) of [] \<Rightarrow> None | f # fs \<Rightarrow> Some (snd (last (f # fs)))))"

text \<open>\<^verbatim>\<open>exp and isinstance(exp, int)\<close>; in Python a boolean is an integer.\<close>

fun int_exp :: "meta_value option \<Rightarrow> int option" where
  "int_exp (Some (MInt e)) = (if e = 0 then None else Some e)"
| "int_exp (Some (MBool True)) = Some 1"
| "int_exp _ = None"

definition cache_token :: "'c cache_lib \<Rightarrow> auth_config \<Rightarrow> time \<Rightarrow> string \<Rightarrow> (string \<times> meta_value) list \<Rightarrow> ('c, unit) auth_op" where
  "cache_token L cfg now token payload = (case int_exp (map_of payload ''exp'') of
       Some e \<Rightarrow> let ttl = e - now div 1000000
         in if 0 < ttl then modify (\<lambda>s. s\<lparr>jwt_cache := cset L now (jwt_cache s) token ttl\<rparr>) else ret ()
     | None \<Rightarrow> modify (\<lambda>s. s\<lparr>jwt_cache := cset L now (jwt_cache s) token (default_cache_ttl cfg)\<rparr>))"

definition validate_jwt :: "'c cache_lib \<Rightarrow> jwt_decoder \<Rightarrow> auth_config \<Rightarrow> time \<Rightarrow> string \<Rightarrow> ('c, string) auth_op" where
  "validate_jwt L decode cfg now token =
     (if \<not> truthy (jwt_public_key cfg)
      then raise (HTTPException 503 ''Authentication is not possible. JWT public key has not been configured.'')
      else ebind (gets (\<lambda>s. cget L now (jwt_cache s) token)) (\<lambda>hit.
        if hit then ret ''Access granted from cache.''
        else (case decode (the (jwt_public_key cfg)) (jwt_algorithms cfg) now token of
            Inr payload \<Rightarrow> ebind (cache_token L cfg now token payload) (\<lambda>_. ret ''Access granted after validation.'')
          | Inl ExpiredSignatureError \<Rightarrow> raise (HTTPException 401 ''Token has expired'')
          | Inl (PyJWTError e) \<Rightarrow> raise (HTTPException 401 (''Invalid token: '' @ e)))))"

text \<open>\<^verbatim>\<open>s.split(maxsplit=1)\<close>, when it has two parts.\<close>

definition split_once :: "string \<Rightarrow> (string \<times> string) option" where
  "split_once s = (let w = takeWhile (\<lambda>c. \<not> is_space c) (lstrip s); rest = lstrip (dropWhile (\<lambda>c. \<not> is_space c) (lstrip s))
     in if rest = [] then None else Some (w, rest))"

definition bearer_format :: string where
  "bearer_format = ''Invalid authorization header format. Must be '' @ [CHR 0x27] @ ''Bearer <token>'' @ [CHR 0x27]"

text \<open>Header names are in lower case.\<close>

definition bearer_token :: "(string \<times> string) list \<Rightarrow> http_error + string" where
  "bearer_token headers =
     (if \<not> truthy (map_of headers ''authorization'') then Inl (HTTPException 401 ''Authorization header is missing'')
      else case split_once (the (map_of headers ''authorization'')) of
          Some (token_type, token) \<Rightarrow>
            if lower token_type \<noteq> ''bearer'' then Inl (HTTPException 401 bearer_format)
            else Inr token
        | None \<Rightarrow> Inl (HTTPException 401 bearer_format))"

definition authenticate_request ::
    "'c cache_lib \<Rightarrow> jwt_decoder \<Rightarrow> (string \<Rightarrow> bool) \<Rightarrow> auth_config \<Rightarrow> time \<Rightarrow> (string \<times> string) list \<Rightarrow> ('c, string) auth_op" where
  "authenticate_request L decode ip6 cfg now headers =
     ebind (of_sum (parse_ticket_from_uri ip6 (case map_of headers ''x-original-uri'' of None \<Rightarrow> '''' | Some u \<Rightarrow> u))) (\<lambda>ticket.
     if truthy ticket
     then ebind (validate_ticket L now (the ticket)) (\<lambda>ok.
          if ok then ret ''Ticket validated.'' else raise (HTTPException 401 ''Invalid or expired ticket.''))
     else ebind (of_sum (bearer_token headers)) (validate_jwt L decode cfg now))"

end
