(* ===== verification/Gem_Safety.thy ===== *)
theory Gem_Safety
  imports Gem_Auth
begin

text \<open>
  Who the authentication service of a sandbox lets in: the holder of a ticket that it issued no longer ago than the ticket
  lives, and the bearer of a token that it has verified. Two ways in which an admission outlives what the service means.
\<close>

subsection \<open>The libraries\<close>

text \<open>\<^verbatim>\<open>cachelib\<close>: what is found was written with a timeout that has not passed, or a timeout of zero.\<close>

definition alive :: "time \<Rightarrow> int \<Rightarrow> time \<Rightarrow> bool" where
  "alive t ttl now \<longleftrightarrow> ttl = 0 \<or> now < t + seconds ttl"

definition cache_ok :: "'c cache_lib \<Rightarrow> bool" where
  "cache_ok L \<longleftrightarrow> (\<forall>c t k ttl now k'. cget L now (cset L t c k ttl) k' \<longrightarrow> k' = k \<and> alive t ttl now \<or> cget L now c k')"

text \<open>\<^verbatim>\<open>jwt.decode\<close>: a token whose \<^verbatim>\<open>exp\<close> is an integer is refused from that second on.\<close>

definition decode_ok :: "jwt_decoder \<Rightarrow> bool" where
  "decode_ok decode \<longleftrightarrow> (\<forall>key algs t token payload e.
     decode key algs t token = Inr payload \<longrightarrow> int_exp (map_of payload ''exp'') = Some e \<longrightarrow> t < seconds e)"

subsection \<open>Runs\<close>

text \<open>A run of the service with the configuration it was started with: the state, the time and the tickets handed out so far.\<close>

inductive auth_run :: "'c cache_lib \<Rightarrow> jwt_decoder \<Rightarrow> (string \<Rightarrow> bool) \<Rightarrow> auth_config \<Rightarrow> 'c \<Rightarrow>
    'c auth_service \<Rightarrow> time \<Rightarrow> (time \<times> string) list \<Rightarrow> bool"
  for L decode ip6 cfg c0 where
  started: "auth_run L decode ip6 cfg c0 \<lparr>jwt_cache = c0, ticket_cache = c0\<rparr> now []"
| ticket: "auth_run L decode ip6 cfg c0 s t issued \<Longrightarrow> t \<le> now \<Longrightarrow> create_ticket L cfg now tk s = (r, s') \<Longrightarrow>
    auth_run L decode ip6 cfg c0 s' now ((now, tk) # issued)"
| request: "auth_run L decode ip6 cfg c0 s t issued \<Longrightarrow> t \<le> now \<Longrightarrow> authenticate_request L decode ip6 cfg now headers s = (r, s') \<Longrightarrow>
    auth_run L decode ip6 cfg c0 s' now issued"

text \<open>What justifies an entry of a cache, that it is found at a time: for the tickets, for the tokens.\<close>

definition ticket_justified :: "auth_config \<Rightarrow> (time \<times> string) list \<Rightarrow> time \<Rightarrow> string \<Rightarrow> bool" where
  "ticket_justified cfg issued now tk \<longleftrightarrow> (\<exists>t. (t, tk) \<in> set issued \<and> alive t (ticket_ttl cfg) now)"

text \<open>A verified token is admitted until the second after its \<^verbatim>\<open>exp\<close>, or for the default lifetime of the cache when it has no
  integer there.\<close>

definition verified_until :: "auth_config \<Rightarrow> time \<Rightarrow> (string \<times> meta_value) list \<Rightarrow> time \<Rightarrow> bool" where
  "verified_until cfg t payload now \<longleftrightarrow> (case int_exp (map_of payload ''exp'') of
     Some e \<Rightarrow> now < seconds (e + 1) | None \<Rightarrow> now = t \<or> alive t (default_cache_ttl cfg) now)"

definition token_justified :: "jwt_decoder \<Rightarrow> auth_config \<Rightarrow> time \<Rightarrow> time \<Rightarrow> string \<Rightarrow> bool" where
  "token_justified decode cfg known now token \<longleftrightarrow> (\<exists>t payload. t \<le> known \<and>
     decode (the (jwt_public_key cfg)) (jwt_algorithms cfg) t token = Inr payload \<and> verified_until cfg t payload now)"

definition service_inv :: "'c cache_lib \<Rightarrow> jwt_decoder \<Rightarrow> auth_config \<Rightarrow> 'c auth_service \<Rightarrow> time \<Rightarrow> (time \<times> string) list \<Rightarrow> bool" where
  "service_inv L decode cfg s t issued \<longleftrightarrow>
     (\<forall>now tk. cget L now (ticket_cache s) tk \<longrightarrow> ticket_justified cfg issued now tk) \<and>
     (\<forall>now token. cget L now (jwt_cache s) token \<longrightarrow> token_justified decode cfg t now token)"

lemma token_justified_mono: "token_justified decode cfg t now token \<Longrightarrow> t \<le> t' \<Longrightarrow> token_justified decode cfg t' now token"
  unfolding token_justified_def by (blast intro: order_trans)

lemma alive_until_exp: "alive t (e - t div 1000000) now \<Longrightarrow> 0 < e - t div 1000000 \<Longrightarrow> now < seconds (e + 1)"
proof -
  have "t = 1000000 * (t div 1000000) + t mod 1000000" "t mod 1000000 < 1000000" by simp_all
  then show "alive t (e - t div 1000000) now \<Longrightarrow> 0 < e - t div 1000000 \<Longrightarrow> now < seconds (e + 1)"
    unfolding alive_def seconds_def by auto
qed

lemma cache_token_inv:
  assumes "cache_ok L" "service_inv L decode cfg s t issued" "t \<le> now"
    "decode (the (jwt_public_key cfg)) (jwt_algorithms cfg) now token = Inr payload"
  shows "service_inv L decode cfg (snd (cache_token L cfg now token payload s)) now issued"
proof -
  have "token_justified decode cfg now now' token" if "alive now ttl now'"
    "ttl = (case int_exp (map_of payload ''exp'') of Some e \<Rightarrow> e - now div 1000000 | None \<Rightarrow> default_cache_ttl cfg)"
    "int_exp (map_of payload ''exp'') \<noteq> None \<longrightarrow> 0 < ttl" for ttl now'
    using that assms(4) alive_until_exp [of now _ now']
    unfolding token_justified_def verified_until_def by (intro exI [of _ now] exI [of _ payload]) (auto split: option.splits)
  moreover have "cget L now' (cset L now (jwt_cache s) token ttl) token' \<Longrightarrow>
      token' = token \<and> alive now ttl now' \<or> token_justified decode cfg now now' token'" for now' ttl token'
    using assms(1-3) token_justified_mono unfolding cache_ok_def service_inv_def by meson
  ultimately show ?thesis
    using assms(2,3) token_justified_mono
    by (auto simp: cache_token_def service_inv_def Let_def split: option.splits) blast+
qed

lemma authenticate_request_inv:
  assumes "cache_ok L" "service_inv L decode cfg s t issued" "t \<le> now"
  shows "service_inv L decode cfg (snd (authenticate_request L decode ip6 cfg now headers s)) now issued"
proof -
  have same: "service_inv L decode cfg s now issued"
    using assms(2,3) token_justified_mono unfolding service_inv_def by meson
  have "service_inv L decode cfg (snd (validate_jwt L decode cfg now token s)) now issued" for token
  proof -
    have "service_inv L decode cfg s' now issued"
      if "decode (the (jwt_public_key cfg)) (jwt_algorithms cfg) now token = Inr payload" "cache_token L cfg now token payload s = (r, s')"
      for payload r s'
      using cache_token_inv [OF assms that(1)] that(2) by simp
    then show ?thesis
      using same by (auto simp: validate_jwt_def ebind_def split: sum.splits prod.splits jwt_error.splits)
  qed
  then show ?thesis
    using same by (auto simp: authenticate_request_def validate_ticket_def ebind_def split: sum.splits prod.splits)
qed

lemma auth_run_inv:
  assumes "auth_run L decode ip6 cfg c0 s t issued" "cache_ok L" "\<forall>now k. \<not> cget L now c0 k"
  shows "service_inv L decode cfg s t issued"
  using assms(1)
proof induction
  case (ticket s t issued now tk r s')
  have "ticket_justified cfg ((now, tk) # issued) now' tk'" if "cget L now' (cset L now (ticket_cache s) tk (ticket_ttl cfg)) tk'" for now' tk'
  proof -
    have "tk' = tk \<and> alive now (ticket_ttl cfg) now' \<or> cget L now' (ticket_cache s) tk'"
      using that assms(2) unfolding cache_ok_def by blast
    then show ?thesis using ticket.IH unfolding service_inv_def ticket_justified_def by auto blast
  qed
  then show ?case
    using ticket token_justified_mono by (auto simp: create_ticket_def service_inv_def) blast
next
  case (request s t issued now headers r s')
  then show ?case using authenticate_request_inv [OF assms(2) request.IH request.hyps(2), of ip6 headers] by simp
qed (use assms(3) in \<open>simp add: service_inv_def\<close>)

text \<open>C16: Whom the service lets in. A request is admitted only with the ticket in its address, which the service has handed out no
  longer ago than a ticket lives, or, when its address has no ticket, with a bearer token that the service has verified itself,
  now or earlier: one with an integer expiry until the second after that, one without for the lifetime of the cache.\<close>

theorem admitted_by_ticket_or_token:
  assumes "auth_run L decode ip6 cfg c0 s t issued" "t \<le> now" "cache_ok L" "decode_ok decode" "\<forall>now k. \<not> cget L now c0 k"
    "authenticate_request L decode ip6 cfg now headers s = (Inr msg, s')"
  shows "\<exists>ticket. parse_ticket_from_uri ip6 (case map_of headers ''x-original-uri'' of None \<Rightarrow> '''' | Some u \<Rightarrow> u) = Inr ticket \<and>
    (if truthy ticket then ticket_justified cfg issued now (the ticket)
     else truthy (jwt_public_key cfg) \<and> (\<exists>token. bearer_token headers = Inr token \<and> token_justified decode cfg now now token))"
proof -
  have inv: "service_inv L decode cfg s t issued" by (rule auth_run_inv [OF assms(1,3,5)])
  have jwt: "truthy (jwt_public_key cfg) \<and> token_justified decode cfg now now token"
    if r: "validate_jwt L decode cfg now token s = (Inr m, s'')" for token m s''
  proof (cases "cget L now (jwt_cache s) token")
    case True
    with inv assms(2) r show ?thesis
      using token_justified_mono [of decode cfg t now token now]
      unfolding service_inv_def by (auto simp: validate_jwt_def split: if_splits)
  next
    case False
    with r obtain payload where p: "decode (the (jwt_public_key cfg)) (jwt_algorithms cfg) now token = Inr payload" "truthy (jwt_public_key cfg)"
      by (auto simp: validate_jwt_def ebind_def split: if_splits sum.splits jwt_error.splits)
    have "verified_until cfg now payload now"
      using assms(4) p(1) unfolding decode_ok_def verified_until_def by (force simp: seconds_def split: option.splits)
    with p show ?thesis unfolding token_justified_def by blast
  qed
  show ?thesis
    using assms(6) inv jwt
    by (auto simp: authenticate_request_def validate_ticket_def service_inv_def ebind_def split: sum.splits if_splits prod.splits)
qed

subsection \<open>A library that fits, and two admissions that last\<close>

text \<open>A cache that remembers when an entry was written and for how long.\<close>

definition demo_cache :: "(string \<times> time \<times> int) list cache_lib" where
  "demo_cache = \<lparr>cget = (\<lambda>now c k. case map_of c k of None \<Rightarrow> False | Some (t, ttl) \<Rightarrow> alive t ttl now),
     cset = (\<lambda>t c k ttl. (k, t, ttl) # c)\<rparr>"

lemma demo_cache_ok: "cache_ok demo_cache"
  by (auto simp: cache_ok_def demo_cache_def)

definition demo_decode :: "meta_value \<Rightarrow> time \<Rightarrow> jwt_decoder" where
  "demo_decode ex until key algs t token = (if token = ''good'' \<and> t < until then Inr [(''exp'', ex)] else Inl ExpiredSignatureError)"

definition demo_config :: "int \<Rightarrow> auth_config" where
  "demo_config ttl = \<lparr>jwt_algorithms = [''RS256''], default_ticket_ttl = 30, default_cache_ttl = 1800, jwt_public_key = Some ''key'',
     ticket_ttl = ttl\<rparr>"

definition new_service :: "(string \<times> time \<times> int) list auth_service" where
  "new_service = \<lparr>jwt_cache = [], ticket_cache = []\<rparr>"

definition bearer_good :: "(string \<times> string) list" where
  "bearer_good = [(''authorization'', ''Bearer good'')]"

lemma no_ticket: "parse_ticket_from_uri ip6 '''' = Inr None"
  by (simp add: parse_ticket_from_uri_def urlparse_def clean_url_def split_scheme_def split_netloc_def netloc_ok_def parse_qsl_def
      parse_field_def split_params_def lstrip_char_def after_def before_def uses_params_def)

lemma bearer_good_request:
  "authenticate_request L decode ip6 cfg now bearer_good s = validate_jwt L decode cfg now ''good'' s"
proof -
  have "bearer_token bearer_good = Inr ''good''" by code_simp
  moreover have "map_of bearer_good ''x-original-uri'' = None" by (simp add: bearer_good_def)
  ultimately show ?thesis by (simp add: authenticate_request_def ebind_def truthy_def no_ticket)
qed

lemma demo_admission:
  "authenticate_request demo_cache (demo_decode (MInt 100) (seconds 100)) ip6 (demo_config 30) 0 bearer_good new_service =
    (Inr ''Access granted after validation.'', new_service\<lparr>jwt_cache := [(''good'', 0, 100)]\<rparr>)"
  by (simp add: bearer_good_request validate_jwt_def demo_cache_def demo_config_def new_service_def demo_decode_def truthy_def ebind_def
      cache_token_def seconds_def)

lemma admitted_by_ticket_or_token_witness:
  "token_justified (demo_decode (MInt 100) (seconds 100)) (demo_config 30) (seconds 50) (seconds 50) ''good''"
proof -
  let ?s = "new_service\<lparr>jwt_cache := [(''good'', 0, 100)]\<rparr>"
  have run: "auth_run demo_cache (demo_decode (MInt 100) (seconds 100)) (\<lambda>_. True) (demo_config 30) [] ?s 0 []"
    by (rule auth_run.request [OF _ order_refl demo_admission], unfold new_service_def, rule auth_run.started)
  have hit: "authenticate_request demo_cache (demo_decode (MInt 100) (seconds 100)) (\<lambda>_. True) (demo_config 30) (seconds 50) bearer_good ?s
      = (Inr ''Access granted from cache.'', ?s)"
    by (simp add: bearer_good_request validate_jwt_def demo_cache_def demo_config_def new_service_def truthy_def ebind_def alive_def seconds_def)
  have "decode_ok (demo_decode (MInt 100) (seconds 100))"
    by (auto simp: decode_ok_def demo_decode_def split: if_splits)
  from admitted_by_ticket_or_token [OF run _ demo_cache_ok this _ hit]
  obtain ticket where "parse_ticket_from_uri (\<lambda>_. True) '''' = Inr ticket"
    "if truthy ticket then ticket_justified (demo_config 30) [] (seconds 50) (the ticket)
     else truthy (jwt_public_key (demo_config 30)) \<and> (\<exists>token. bearer_token bearer_good = Inr token \<and>
       token_justified (demo_decode (MInt 100) (seconds 100)) (demo_config 30) (seconds 50) (seconds 50) token)"
    by (auto simp: seconds_def demo_cache_def bearer_good_def)
  moreover have "bearer_token bearer_good = Inr ''good''" by code_simp
  ultimately show ?thesis by (simp add: truthy_def no_ticket)
qed

text \<open>With a lifetime of zero, which the configuration accepts, a ticket is valid for ever: that is what a timeout of zero means
  to the cache.\<close>

lemma zero_ttl_tickets_never_expire:
  "load_ticket_ttl 30 (Some ''0'') = 0 \<and>
   fst (validate_ticket demo_cache later tk (snd (create_ticket demo_cache (demo_config 0) now tk s))) = Inr True"
proof -
  have "load_ticket_ttl 30 (Some ''0'') = 0" by code_simp
  then show ?thesis by (simp add: validate_ticket_def create_ticket_def demo_cache_def demo_config_def alive_def ebind_def)
qed

text \<open>A token whose \<^verbatim>\<open>exp\<close> is not an integer, which the standard allows, is cached for half an hour: once verified it is admitted
  long after its expiry.\<close>

lemma fractional_exp_outlives_token:
  "\<exists>s s'. authenticate_request demo_cache (demo_decode (MDec (201 / 2)) 100500000) ip6 (demo_config 30) 0 bearer_good new_service
      = (Inr ''Access granted after validation.'', s) \<and>
    demo_decode (MDec (201 / 2)) 100500000 ''key'' [''RS256''] (seconds 1700) ''good'' = Inl ExpiredSignatureError \<and>
    authenticate_request demo_cache (demo_decode (MDec (201 / 2)) 100500000) ip6 (demo_config 30) (seconds 1700) bearer_good s
      = (Inr ''Access granted from cache.'', s')"
  by (simp add: bearer_good_request validate_jwt_def demo_cache_def demo_config_def new_service_def demo_decode_def truthy_def ebind_def
      cache_token_def seconds_def alive_def)

end
