(* ===== verification/Pod_Templates.thy ===== *)
theory Pod_Templates
  imports K8s_Wire Snapshot_Safety Sandbox_Service
begin

text \<open>
  From the JSON of a \<^verbatim>\<open>SandboxTemplate\<close> to the pod of a sandbox: what \<^verbatim>\<open>list_sandbox_templates\<close> reads
  (\<open>parse_template_json\<close>), what \<^verbatim>\<open>_create_direct\<close> asks for with it (\<open>create_direct\<close>), and what the production client sends
  for that (\<open>sandbox_json\<close>). The records of the service are joined to the JSON of the client by \<open>ktemplate_json\<close> and
  \<open>sandbox_args_of\<close>.
\<close>

subsection \<open>Records and their dictionaries\<close>

definition opt_json :: "meta_value option \<Rightarrow> meta_value" where
  "opt_json p = (case p of None \<Rightarrow> MNone | Some v \<Rightarrow> v)"

definition opt_str :: "string option \<Rightarrow> meta_value" where
  "opt_str p = (case p of None \<Rightarrow> MNone | Some v \<Rightarrow> MStr v)"

text \<open>The dictionary that a \<open>ktemplate\<close> stands for, with the keys in the order in which the parser writes them.\<close>

definition ktemplate_json :: "ktemplate \<Rightarrow> meta_value" where
  "ktemplate_json k = MDict
     [(''name'', MStr (kt_name k)), (''display_name'', MStr (kt_display_name k)), (''description'', MStr (kt_description k)),
      (''image'', MStr (kt_image k)), (''resource_spec'', str_dict (kt_resource_spec k)),
      (''resource_limits'', str_dict (kt_resource_limits k)), (''startup_probe'', opt_json (kt_startup_probe k)),
      (''readiness_probe'', opt_json (kt_readiness_probe k)), (''liveness_probe'', opt_json (kt_liveness_probe k)),
      (''allowed_storage_sizes'', MList (map MStr (kt_allowed_storage_sizes k)))]"

text \<open>The claim template of the workspace and the arguments of \<^verbatim>\<open>create_sandbox\<close>, as the service writes them.\<close>

definition claim_template_json :: "volume_claim_template \<Rightarrow> meta_value" where
  "claim_template_json v = MDict
     [(''metadata'', MDict [(''name'', MStr ''workspace''), (''labels'', str_dict (vc_labels v))]),
      (''spec'', MDict ([(''accessModes'', MList [MStr ''ReadWriteOnce'']), (''storageClassName'', MStr (vc_storage_class v)),
         (''resources'', MDict [(''requests'', MDict [(''storage'', opt_str (vc_storage v))])])] @
         (case vc_data_source v of None \<Rightarrow> []
          | Some n \<Rightarrow> [(''dataSource'', MDict [(''name'', MStr n), (''kind'', MStr ''VolumeSnapshot''),
              (''apiGroup'', MStr ''snapshot.storage.k8s.io'')])])))]"

definition sandbox_args_of :: "int \<Rightarrow> string \<Rightarrow> string \<Rightarrow> sandbox_manifest \<Rightarrow> sandbox_args" where
  "sandbox_args_of port name ns m =
     \<lparr>sa_name = name, sa_namespace = ns, sa_image = sm_image m, sa_container_port = port,
      sa_resources = MDict [(''requests'', str_dict (sm_requests m)), (''limits'', str_dict (sm_limits m))],
      sa_operating_mode = sm_operating_mode m, sa_startup_probe = sm_startup_probe m,
      sa_readiness_probe = sm_readiness_probe m, sa_liveness_probe = sm_liveness_probe m,
      sa_volume_claim_templates = [claim_template_json (sm_volume_claim m)], sa_shutdown_time = sm_shutdown_time m,
      sa_labels = Some (sm_labels m),
      sa_annotations = Some [(''treadstone-ai.dev/sandbox-name'', fst (sm_annotations m)),
        (''treadstone-ai.dev/created-at'', iso (snd (sm_annotations m)))],
      sa_pod_labels = Some (sm_pod_labels m)\<rparr>"

subsection \<open>What the parser reads\<close>

lemma jbind_Inr: "jbind m f = Inr y \<longleftrightarrow> (\<exists>x. m = Inr x \<and> f x = Inr y)"
  by (cases m) simp_all

definition containers_path :: "string list" where
  "containers_path = [''spec'', ''podTemplate'', ''spec'', ''containers'']"

text \<open>The first container of a template.\<close>

definition first_container :: "meta_value \<Rightarrow> meta_value" where
  "first_container j = (case jpath containers_path MNone j of Inr (MList (c # _)) \<Rightarrow> c | _ \<Rightarrow> MNone)"

lemma jget_default:
  assumes "jget k d v = Inr x" "x \<noteq> d"
  shows "jget k d' v = Inr x"
  using assms by (auto simp: jget_def split: meta_value.splits option.splits)

lemma jpath_default: "jpath ks d v = Inr x \<Longrightarrow> x \<noteq> d \<Longrightarrow> jpath ks d' v = Inr x"
  by (induction ks d v rule: jpath.induct) (auto split: sum.splits dest: jget_default)

lemma parsed_name:
  assumes "parse_template_json j = Inr (ktemplate_json t)"
  shows "jpath [''metadata'', ''name''] MNone j = Inr (MStr (kt_name t))"
  using assms by (auto simp: parse_template_json_def ktemplate_json_def jbind_Inr jget_of_jindex)

definition container_fields :: "ktemplate \<Rightarrow> json_dict" where
  "container_fields t =
     [(''image'', MStr (kt_image t)), (''resource_spec'', str_dict (kt_resource_spec t)),
      (''resource_limits'', str_dict (kt_resource_limits t)), (''startup_probe'', opt_json (kt_startup_probe t)),
      (''readiness_probe'', opt_json (kt_readiness_probe t)), (''liveness_probe'', opt_json (kt_liveness_probe t))]"

lemma parsed_container:
  assumes "parse_template_json j = Inr (ktemplate_json t)" "kt_image t \<noteq> []"
  shows "parse_container (first_container j) = Inr (container_fields t)"
proof -
  obtain containers fields sizes where c: "jpath containers_path (MList []) j = Inr containers"
      "(if \<not> jtruthy containers then Inr no_container
        else case containers of MList (c # _) \<Rightarrow> parse_container c | _ \<Rightarrow> Inl (K8sException ''TypeError'')) = Inr fields"
      "fields @ [(''allowed_storage_sizes'', sizes)] =
        container_fields t @ [(''allowed_storage_sizes'', MList (map MStr (kt_allowed_storage_sizes t)))]"
    using assms(1) unfolding parse_template_json_def jbind_Inr ktemplate_json_def container_fields_def containers_path_def by auto
  then have fields: "fields = container_fields t" by simp
  then have "jtruthy containers" using c(2) assms(2) by (auto simp: no_container_def container_fields_def split: if_splits)
  then obtain x xs where "containers = MList (x # xs)" "parse_container x = Inr fields"
    using c(2) by (auto split: meta_value.splits list.splits)
  then show ?thesis
    using jpath_default [OF c(1), of MNone] fields by (simp add: first_container_def)
qed

lemma str_dict_two: "MDict [(k, v), (k', v')] = str_dict d \<longleftrightarrow> (\<exists>a b. d = [(k, a), (k', b)] \<and> v = MStr a \<and> v' = MStr b)"
  by (auto simp: str_dict_def map_eq_Cons_conv)

lemma probe_entry_copied:
  assumes "copy_probe v = opt_json p"
  shows "probe_entry k p = (if jtruthy v then [(k, v)] else [])"
  using assms by (cases p) (auto simp: copy_probe_def opt_json_def probe_entry_def split: if_splits)

subsection \<open>The pod\<close>

text \<open>\<open>runs_as c main\<close>: the container \<open>main\<close> runs what the container \<open>c\<close> of a template describes. The image and the requests are
  the same, a probe is there exactly when the template has one that is not empty, and the limits are those of the template when
  it gives both, and otherwise the requests.\<close>

definition resource :: "string \<Rightarrow> string \<Rightarrow> meta_value \<Rightarrow> exn + meta_value" where
  "resource part k c = jpath [''resources'', part, k] (MStr []) c"

definition runs_as :: "meta_value \<Rightarrow> meta_value \<Rightarrow> bool" where
  "runs_as c main \<longleftrightarrow>
     (\<exists>i. i \<noteq> [] \<and> jget ''image'' MNone c = Inr (MStr i) \<and> jget ''image'' MNone main = Inr (MStr i)) \<and>
     (\<forall>k \<in> {''startupProbe'', ''readinessProbe'', ''livenessProbe''}.
        \<exists>p. jget k MNone c = Inr p \<and> jget k MNone main = Inr (if jtruthy p then p else MNone)) \<and>
     (\<forall>k \<in> {''cpu'', ''memory''}. \<exists>q. resource ''requests'' k c = Inr (MStr q) \<and> resource ''requests'' k main = Inr (MStr q)) \<and>
     (\<exists>cpu mem. resource ''limits'' ''cpu'' c = Inr (MStr cpu) \<and> resource ''limits'' ''memory'' c = Inr (MStr mem) \<and>
        (if strip cpu \<noteq> [] \<and> strip mem \<noteq> []
         then resource ''limits'' ''cpu'' main = Inr (MStr (strip cpu)) \<and> resource ''limits'' ''memory'' main = Inr (MStr (strip mem))
         else \<forall>k \<in> {''cpu'', ''memory''}. resource ''limits'' k main = resource ''requests'' k c))"

lemma container_runs_as:
  assumes "parse_container c = Inr (container_fields t)" "kt_image t \<noteq> []"
    and args: "sa_image a = kt_image t" "sa_startup_probe a = kt_startup_probe t" "sa_readiness_probe a = kt_readiness_probe t"
      "sa_liveness_probe a = kt_liveness_probe t"
      "sa_resources a = MDict [(''requests'', str_dict (kt_resource_spec t)),
         (''limits'', str_dict (effective_resource_limits (kt_resource_spec t) (kt_resource_limits t)))]"
  shows "runs_as c (MDict (main_container a names))"
proof -
  obtain resources requests limits rc rm lc lm sp rp lp where
      img: "jget ''image'' (MStr []) c = Inr (MStr (kt_image t))"
      and res: "jget ''resources'' (MDict []) c = Inr resources" "jget ''requests'' (MDict []) resources = Inr requests"
        "jget ''cpu'' (MStr []) requests = Inr rc" "jget ''memory'' (MStr []) requests = Inr rm"
        "jget ''limits'' (MDict []) resources = Inr limits"
        "jget ''cpu'' (MStr []) limits = Inr lc" "jget ''memory'' (MStr []) limits = Inr lm"
      and dicts: "MDict [(''cpu'', rc), (''memory'', rm)] = str_dict (kt_resource_spec t)"
        "MDict [(''cpu'', lc), (''memory'', lm)] = str_dict (kt_resource_limits t)"
      and probes: "jget ''startupProbe'' MNone c = Inr sp" "jget ''readinessProbe'' MNone c = Inr rp" "jget ''livenessProbe'' MNone c = Inr lp"
        "copy_probe sp = opt_json (kt_startup_probe t)" "copy_probe rp = opt_json (kt_readiness_probe t)"
        "copy_probe lp = opt_json (kt_liveness_probe t)"
    using assms(1) unfolding parse_container_def jbind_Inr container_fields_def by auto
  obtain qc qm where spec: "kt_resource_spec t = [(''cpu'', qc), (''memory'', qm)]" "rc = MStr qc" "rm = MStr qm"
    using dicts(1) unfolding str_dict_two by blast
  obtain xc xm where lim: "kt_resource_limits t = [(''cpu'', xc), (''memory'', xm)]" "lc = MStr xc" "lm = MStr xm"
    using dicts(2) unfolding str_dict_two by blast
  let ?main = "MDict (main_container a names)"
  have image: "jget ''image'' MNone c = Inr (MStr (kt_image t))" "jget ''image'' MNone ?main = Inr (MStr (kt_image t))"
    using jget_default [OF img] assms(2) args(1) by (simp_all add: main_container_def)
  have copied: "container_probes a = (if jtruthy sp then [(''startupProbe'', sp)] else []) @
      (if jtruthy rp then [(''readinessProbe'', rp)] else []) @ (if jtruthy lp then [(''livenessProbe'', lp)] else [])"
    using probes args by (simp add: container_probes_def probe_entry_copied)
  have probe: "\<forall>k \<in> {''startupProbe'', ''readinessProbe'', ''livenessProbe''}.
      \<exists>p. jget k MNone c = Inr p \<and> jget k MNone ?main = Inr (if jtruthy p then p else MNone)"
    using probes(1-3) by (simp add: main_container_def copied)
  have c: "resource ''requests'' ''cpu'' c = Inr (MStr qc)" "resource ''requests'' ''memory'' c = Inr (MStr qm)"
      "resource ''limits'' ''cpu'' c = Inr (MStr xc)" "resource ''limits'' ''memory'' c = Inr (MStr xm)"
    using res spec lim by (simp_all add: resource_def)
  have m: "resource part k ?main = jget k (MStr []) (case map_of [(''requests'', str_dict (kt_resource_spec t)),
         (''limits'', str_dict (effective_resource_limits (kt_resource_spec t) (kt_resource_limits t)))] part of
       None \<Rightarrow> MDict [] | Some x \<Rightarrow> x)" for part k
    by (simp add: resource_def main_container_def args(5))
  have main: "resource ''requests'' ''cpu'' ?main = Inr (MStr qc)" "resource ''requests'' ''memory'' ?main = Inr (MStr qm)"
      "resource ''limits'' ''cpu'' ?main = Inr (MStr (if strip xc \<noteq> [] \<and> strip xm \<noteq> [] then strip xc else qc))"
      "resource ''limits'' ''memory'' ?main = Inr (MStr (if strip xc \<noteq> [] \<and> strip xm \<noteq> [] then strip xm else qm))"
    using spec lim by (simp_all add: m effective_resource_limits_def dict_get_def Let_def)
  show ?thesis
    unfolding runs_as_def using image probe c main assms(2) by (intro conjI) auto
qed

lemma parsed_templates:
  assumes "parse_templates js = Inr (map ktemplate_json ts)"
  shows "list_all2 (\<lambda>j t. parse_template_json j = Inr (ktemplate_json t)) js ts"
  using assms by (induction js arbitrary: ts) (auto simp: jbind_Inr Cons_eq_map_conv)

text \<open>C21: A persistent sandbox runs what its template says. When the API server holds the templates \<open>js\<close> and the client has read
  them, creating the sandbox asks for a pod whose containers all have the image of the first template of that name and whose main
  container has the image, the requests, the limits and the probes of that template's first container, each under the key it has
  there. That the template lacks an image makes the creation fail.\<close>

theorem sandbox_runs_its_template:
  assumes "cl (k8s_log w) (ListSandboxTemplates (sb_k8s_namespace s)) = Inr (RTemplates ts)"
    and "parse_templates js = Inr (map ktemplate_json ts)"
    and "create_direct cfg cl s template storage mode source until w = (Inr (), w')"
  shows "\<exists>xs j ys m manifest pod. js = xs @ j # ys \<and> jpath [''metadata'', ''name''] MNone j = Inr (MStr template) \<and>
    (\<forall>x \<in> set xs. jpath [''metadata'', ''name''] MNone x \<noteq> Inr (MStr template)) \<and>
    (let name = py_or (sb_k8s_sandbox_name s) (sb_id s); ns = sb_k8s_namespace s
     in k8s_log w' = k8s_log w @ [ListSandboxTemplates ns, CreateSandbox name ns m] \<and>
        sandbox_json (sandbox_args_of port name ns m) = Inr manifest) \<and>
    jpath [''spec'', ''podTemplate'', ''spec''] MNone manifest = Inr pod \<and> pod_containers pod \<noteq> [] \<and>
    runs_as (first_container j) (last (pod_containers pod)) \<and>
    (\<forall>c \<in> set (pod_containers pod). jget ''image'' MNone c = jget ''image'' MNone (first_container j))"
proof -
  let ?ns = "sb_k8s_namespace s" and ?name = "py_or (sb_k8s_sandbox_name s) (sb_id s)"
  obtain t where t: "find (\<lambda>t. kt_name t = template) ts = Some t" and img: "kt_image t \<noteq> []"
    using assms(1,3) by (auto simp: create_direct_def resolve_template_def k8s_call_defs k8s_do_def ebind_def split: option.splits if_splits)
  obtain m where m: "k8s_log w' = k8s_log w @ [ListSandboxTemplates ?ns, CreateSandbox ?name ?ns m]"
      "sm_image m = kt_image t" "sm_requests m = kt_resource_spec t"
      "sm_limits m = effective_resource_limits (kt_resource_spec t) (kt_resource_limits t)"
      "sm_startup_probe m = kt_startup_probe t" "sm_readiness_probe m = kt_readiness_probe t" "sm_liveness_probe m = kt_liveness_probe t"
    using assms(1,3) t img
    by (auto simp: create_direct_def resolve_template_def k8s_call_defs k8s_do_def ebind_def split: sum.splits)
  obtain us vs where ts: "ts = us @ t # vs" "kt_name t = template" "\<forall>u \<in> set us. kt_name u \<noteq> template"
    using t unfolding find_Some_iff by (metis (no_types) append_take_drop_id id_take_nth_drop in_set_conv_nth length_take min_less_iff_conj nth_take)
  obtain xs j ys where js: "js = xs @ j # ys" "parse_template_json j = Inr (ktemplate_json t)"
      "list_all2 (\<lambda>j t. parse_template_json j = Inr (ktemplate_json t)) xs us"
    using parsed_templates [OF assms(2)] by (auto simp: ts(1) list_all2_append2 list_all2_Cons2)
  have others: "\<forall>x \<in> set xs. jpath [''metadata'', ''name''] MNone x \<noteq> Inr (MStr template)"
    using js(3) ts(3) by (fastforce simp: list_all2_conv_all_nth in_set_conv_nth dest: parsed_name)
  let ?a = "sandbox_args_of port ?name ?ns m"
  have names: "volume_names (sa_volume_claim_templates ?a) = Inr [MStr ''workspace'']"
    by (simp add: sandbox_args_of_def claim_template_json_def jindex_def)
  then obtain manifest where man: "sandbox_json ?a = Inr manifest"
      "jpath [''spec'', ''podTemplate'', ''spec''] MNone manifest = Inr (MDict (pod_spec ?a [MStr ''workspace'']))"
    by (simp add: sandbox_json_def metadata_json_def)
  have containers: "pod_containers (MDict (pod_spec ?a [MStr ''workspace''])) =
      [init_container SANDBOX_HOME_TEMPLATE_DIR (kt_image t) [MStr ''workspace''], MDict (main_container ?a [MStr ''workspace''])]"
    by (simp add: pod_containers_def pod_spec_def sandbox_args_of_def m)
  have runs: "runs_as (first_container j) (MDict (main_container ?a [MStr ''workspace'']))"
    using parsed_container [OF js(2) img] img by (rule container_runs_as) (simp_all add: sandbox_args_of_def m)
  have "jget ''image'' MNone (first_container j) = Inr (MStr (kt_image t))"
    using parsed_container [OF js(2) img] img
    by (auto simp: parse_container_def container_fields_def jbind_Inr intro: jget_default)
  then have "\<forall>c \<in> set (pod_containers (MDict (pod_spec ?a [MStr ''workspace'']))).
      jget ''image'' MNone c = jget ''image'' MNone (first_container j)"
    unfolding containers by (simp add: init_container_def main_container_def sandbox_args_of_def m)
  then show ?thesis
    using js(1) parsed_name [OF js(2)] others m(1) man runs ts(2) containers
    by (intro exI [of _ xs] exI [of _ j] exI [of _ ys] exI [of _ m] exI [of _ manifest]
        exI [of _ "MDict (pod_spec ?a [MStr ''workspace''])"]) (simp add: Let_def)
qed

definition demo_template_json :: meta_value where
  "demo_template_json = MDict
     [(''metadata'', MDict [(''name'', MStr ''gem'')]),
      (''spec'', MDict [(''podTemplate'', MDict [(''spec'', MDict [(''containers'', MList [MDict
        [(''image'', MStr ''img''), (''readinessProbe'', MDict [(''periodSeconds'', MInt 5)]),
         (''resources'', MDict [(''requests'', MDict [(''cpu'', MStr ''1''), (''memory'', MStr ''2Gi'')])])]])])])])]"

definition demo_ktemplate :: ktemplate where
  "demo_ktemplate = \<lparr>kt_name = ''gem'', kt_display_name = ''gem'', kt_description = [], kt_image = ''img'',
     kt_resource_spec = [(''cpu'', ''1''), (''memory'', ''2Gi'')], kt_resource_limits = [(''cpu'', []), (''memory'', [])],
     kt_startup_probe = None, kt_readiness_probe = Some (MDict [(''periodSeconds'', MInt 5)]), kt_liveness_probe = None,
     kt_allowed_storage_sizes = []\<rparr>"

fun template_cluster :: cluster where
  "template_cluster l (ListSandboxTemplates ns) = Inr (RTemplates [demo_ktemplate])"
| "template_cluster l c = Inr RUnit"

theorem sandbox_runs_its_template_witness:
  "\<exists>m manifest pod. k8s_log (snd (create_direct demo_settings template_cluster cold_box ''gem'' ''5Gi'' ''Running'' None None empty_world)) =
      [ListSandboxTemplates ''ns'', CreateSandbox ''sb1'' ''ns'' m] \<and>
    sandbox_json (sandbox_args_of 8080 ''sb1'' ''ns'' m) = Inr manifest \<and>
    jpath [''spec'', ''podTemplate'', ''spec''] MNone manifest = Inr pod \<and>
    runs_as (first_container demo_template_json) (last (pod_containers pod))"
proof -
  have read: "parse_templates [demo_template_json] = Inr (map ktemplate_json [demo_ktemplate])"
    by (simp add: demo_template_json_def demo_ktemplate_def parse_template_json_def parse_container_def ktemplate_json_def opt_json_def
        copy_probe_def str_dict_def parse_sizes_def jindex_def)
  have answer: "template_cluster (k8s_log empty_world) (ListSandboxTemplates (sb_k8s_namespace cold_box)) = Inr (RTemplates [demo_ktemplate])"
    by simp
  have "fst (create_direct demo_settings template_cluster cold_box ''gem'' ''5Gi'' ''Running'' None None empty_world) = Inr ()"
    by (simp add: create_direct_def resolve_template_def k8s_call_defs k8s_do_def ebind_def demo_ktemplate_def)
  then have run: "create_direct demo_settings template_cluster cold_box ''gem'' ''5Gi'' ''Running'' None None empty_world =
      (Inr (), snd (create_direct demo_settings template_cluster cold_box ''gem'' ''5Gi'' ''Running'' None None empty_world))"
    by (metis prod.collapse)
  have names: "sb_k8s_namespace cold_box = ''ns''" "py_or (sb_k8s_sandbox_name cold_box) (sb_id cold_box) = ''sb1''" "k8s_log empty_world = []"
    by (simp_all add: cold_box_def empty_world_def)
  obtain xs j ys m manifest pod where p: "[demo_template_json] = xs @ j # ys"
      "jpath [''spec'', ''podTemplate'', ''spec''] MNone manifest = Inr pod" "runs_as (first_container j) (last (pod_containers pod))"
      "k8s_log (snd (create_direct demo_settings template_cluster cold_box ''gem'' ''5Gi'' ''Running'' None None empty_world)) =
        [ListSandboxTemplates ''ns'', CreateSandbox ''sb1'' ''ns'' m]"
      "sandbox_json (sandbox_args_of 8080 ''sb1'' ''ns'' m) = Inr manifest"
    using sandbox_runs_its_template [OF answer read run, of 8080] unfolding names Let_def by (auto simp del: jpath.simps)
  then have "j = demo_template_json" by (auto simp: Cons_eq_append_conv)
  with p show ?thesis by (blast)
qed

end
