(* ===== verification/Spec2Isabelle.thy ===== *)
theory Spec2Isabelle
  imports Leader_Safety Lifecycle_Safety Platform_Limits Cli_Safety Account_Safety Web_Safety Admin_Api Fake_Safety Gem_Safety Pod_Templates
begin

text \<open>
  A verification library for the control plane of Treadstone (\<^verbatim>\<open>src/treadstone\<close>), a service that runs sandboxes for
  users on Kubernetes and meters them.

  \<^bold>\<open>The program and its parts.\<close> A request is admitted by a dependency, from an API key or a session cookie, to one of the
  endpoints: for accounts and keys, for the login of browsers and of the command line client, for sandboxes, or to the proxies
  that pass it on to the workload in a sandbox. The sandbox endpoints call \<^verbatim>\<open>SandboxService\<close>, which changes rows of the sandbox table and calls
  the Kubernetes API. What happens in the cluster comes back through the sync loop (\<^verbatim>\<open>k8s_sync.py\<close>): watch events and a
  periodic reconciliation move the rows along a state machine under an optimistic lock and notify observers, the
  first of which is the metering: it opens and closes compute sessions and storage ledger entries. Background tasks,
  run by the one replica that holds a Kubernetes Lease, meter the open sessions and charge credits, stop the
  sandboxes of users without credits, reset the monthly period, stop idle sandboxes and delete old ones, and move
  the disks of cold sandboxes to snapshots and back. Caps for the whole platform are checked against a cached
  snapshot.

  \<^bold>\<open>How it is modelled.\<close> A method that uses a database session is an operation on a \<open>world\<close>, the record of all tables, of
  the template cache and of the calls made to Kubernetes: it returns a value or an exception of the datatype \<open>exn\<close>
  together with the world after it, mutations before a raise included. \<open>commit\<close> rounds the \<^verbatim>\<open>NUMERIC(10,4)\<close> columns,
  \<open>transaction\<close> is a session or savepoint that is rolled back when an exception leaves it. Instants are microseconds,
  \<^verbatim>\<open>Decimal\<close> is a rational with the rounding of the default context written out. The one non-structural loop, the
  catching up of missed months, has fuel; one unit per microsecond behind is proved to be enough.

  \<^bold>\<open>The theories.\<close>
  \<^item> \<open>TS_Prelude\<close>: the effect type and its rules (\<open>run_simps\<close>, \<open>keeps_intros\<close>), updates of rows, queries.
    \<open>Decimal_Arith\<close>: \<^verbatim>\<open>decimal\<close>, with the locale \<open>rounding\<close> for its three roundings. \<open>Py_Strings\<close>: the string methods and \<^verbatim>\<open>int()\<close> that the code uses.
  \<^item> \<open>Data_Model\<close>: the tables, enums and exceptions (\<^verbatim>\<open>*/models/*.py\<close>, \<^verbatim>\<open>*/errors.py\<close>), the audit service.
    \<open>K8s_Client\<close>: the calls of \<^verbatim>\<open>K8sClientProtocol\<close> against a parameter \<open>cluster\<close>.
  \<^item> \<open>Metering_Helpers\<close> (\<^verbatim>\<open>metering_helpers.py\<close>): rates, sizes, billing periods, the cache of template specs. Shown:
    billing periods tile time; sizes parse back; the cache is well formed or untouched; built-in rates.
  \<^item> \<open>Metering_Service\<close>, \<open>Metering_Credits\<close>, \<open>Metering_Sessions\<close> (\<^verbatim>\<open>metering_service.py\<close>): every method. Shown: consumption
    refines an abstract account, is first-in-first-out by expiry and never makes a pool negative; plan creation is
    idempotent under a race; the locale
    \<open>live_table\<close> (at most one open session and one active ledger entry per sandbox), interpreted for both tables; opening and closing; storage admission and release.
  \<^item> \<open>Metering_Tasks\<close> (\<^verbatim>\<open>metering_tasks.py\<close>): the tick, the grace-period state machine, enforcement, the monthly reset.
    Shown: the hours and charges of a tick, the periods that the reset leaves.
    \<open>Metering_Reconcile\<close> (\<^verbatim>\<open>metering_reconcile.py\<close>, \<^verbatim>\<open>metering_state_observer.py\<close>): reconciliation converges;
    no operation on sessions and ledgers, tick, reconciliation or reset makes a second row for a sandbox.
  \<^item> \<open>K8s_Sync\<close>, \<open>Sync_Machine\<close> (\<^verbatim>\<open>k8s_sync.py\<close>, \<^verbatim>\<open>sandbox_state_observer.py\<close>): what other transactions commit in between is a
    parameter (\<open>rival\<close>). Shown: rows take at most one valid transition per version, a lost optimistic lock changes nothing, a watch
    event that makes a sandbox ready opens its session. The locale \<open>sandbox_observer\<close> is what the sync loop relies on
    of an observer; it is interpreted on the metering observer.
  \<^item> \<open>Call_Log\<close>: reasoning about the calls an operation makes, and triples with an exceptional postcondition.
    \<open>Row_Logic\<close>: the locale \<open>row_logic\<close>, triples about the row of a loaded object, interpreted on the invariant of cold
    storage and on the moves of the service.
  \<^item> \<open>Storage_Snapshot\<close>, \<open>Snapshot_Safety\<close> (\<^verbatim>\<open>storage_snapshot_orchestrator.py\<close>): a disk is only released after its snapshot
    was seen ready; the invariant of cold storage; progress; two error paths that lose a snapshot, one for every row and cluster.
  \<^item> \<open>Sandbox_Service\<close>, \<open>Service_Moves\<close>, \<open>Service_Create\<close> (\<^verbatim>\<open>sandbox_service.py\<close>): every operation refines the step relation
    \<open>service_move\<close>, respects the lock of the sync loop and the invariant of cold storage; creation is all or nothing.
  \<^item> \<open>Leader_Election\<close>, \<open>Sync_Supervisor\<close>, \<open>Leader_Safety\<close> (\<^verbatim>\<open>leader_election.py\<close>, \<^verbatim>\<open>sync_supervisor.py\<close>): the elector, and all
    replicas as a step relation interleaved at the awaits. Shown: at most one replica is in its term; two runs, a
    hanging call and a shutdown during an attempt, in which two replicas run the tasks.
  \<^item> \<open>Lifecycle_Tasks\<close>, \<open>Lifecycle_Safety\<close> (\<^verbatim>\<open>sandbox_lifecycle_tasks.py\<close> and the callbacks of \<^verbatim>\<open>sync_supervisor.py\<close>): only rows
    that are due change, whatever the clock says at its several readings (\<open>lifecycle_clock\<close>), all idle ones are stopped, cold storage stays consistent.
  \<^item> \<open>Platform_Limits\<close> (\<^verbatim>\<open>platform_limits.py\<close>): the storage in use that the database computes is what the parser reads.
  \<^item> \<open>Url_Lib\<close>: \<^verbatim>\<open>urllib.parse\<close>, with the round trip of query strings and the parsing of absolute URLs. \<open>Web_Request\<close>
    (\<^verbatim>\<open>request_context.py\<close>, \<^verbatim>\<open>public_base_url.py\<close>, \<^verbatim>\<open>audit.py\<close>): requests, their context and audit events, the record \<open>lib\<close> of the
    libraries. \<open>Token_Model\<close>: signed tokens that satisfy what is assumed of PyJWT, for the witnesses.
  \<^item> \<open>Identity_Auth\<close>, \<open>Api_Keys\<close>, \<open>Key_Safety\<close> (\<^verbatim>\<open>identity/api/deps.py\<close>, \<^verbatim>\<open>auth.py\<close>): admission and API keys. Shown: both planes
    admit exactly whom the tables grant access; a new key opens its scope; a deleted key stays out; users do not touch each
    other's keys.
  \<^item> \<open>User_Accounts\<close>, \<open>OAuth_Login\<close>, \<open>Account_Safety\<close> (\<^verbatim>\<open>auth.py\<close>, \<^verbatim>\<open>users.py\<close>, \<^verbatim>\<open>email.py\<close>): accounts and OAuth. Shown: an active
    administrator remains; password resets are rate limited; a callback needs the state and the cookie of its own browser; a race
    of two administrators, emails that differ in case, users who cannot be deleted.
  \<^item> \<open>Cli_Login\<close>, \<open>Cli_Safety\<close> (\<^verbatim>\<open>cli_auth.py\<close>, \<^verbatim>\<open>cli_login_flow.py\<close>): requests interleaved at their awaits, the OAuth callback included; one token per flow.
  \<^item> \<open>Proxy\<close>, \<open>Proxy_Safety\<close> (\<^verbatim>\<open>sandbox_proxy.py\<close>): both proxies admit alike, the relay keeps the order of messages, a live
    connection keeps a sandbox from being stopped as idle.
  \<^item> \<open>Sandbox_Web\<close>, \<open>Web_Safety\<close> (\<^verbatim>\<open>browser_auth.py\<close>, \<^verbatim>\<open>browser_login.py\<close>, \<^verbatim>\<open>browser.py\<close>, \<^verbatim>\<open>sandbox_subdomain.py\<close>): access needs a valid
    cookie, the bootstrap gives one, a deleted link revokes its cookies; a ticket that leaves for another host.
  \<^item> \<open>Sandbox_Schemas\<close>, \<open>Sandbox_Api\<close>, \<open>Tenant_Safety\<close> (\<^verbatim>\<open>schemas.py\<close>, \<^verbatim>\<open>naming.py\<close>, \<^verbatim>\<open>sandboxes.py\<close>, \<^verbatim>\<open>admin_sandbox.py\<close>): validators and
    endpoints. Shown: tenants are isolated, creation is gated by the caps that the cached snapshot was built from, generated names are accepted.
  \<^item> \<open>Metering_Api\<close>, \<open>Metering_Admin\<close> (\<^verbatim>\<open>usage.py\<close>, \<^verbatim>\<open>admin_metering.py\<close>, \<^verbatim>\<open>metering_serializers.py\<close>, \<^verbatim>\<open>_admin_helpers.py\<close>): usage pages and
    the administration of plans, tiers and grants. Shown: a batch grants exactly what it reports and changes nothing else; recorded overrides stay true.
  \<^item> \<open>Platform_Api\<close>, \<open>Platform_Admin\<close> (\<^verbatim>\<open>waitlist.py\<close>, \<^verbatim>\<open>support.py\<close>, \<^verbatim>\<open>admin_platform.py\<close>): the waitlist, feedback and limits, on the record
    \<open>portal\<close>. Shown: applications are decided once, feedback is spaced, its email filter is a substring.
    \<open>Admin_Api\<close> (\<^verbatim>\<open>admin_users.py\<close>, \<^verbatim>\<open>audit/api/audit.py\<close>): the search of users and the audit log, whose reads are recorded.
  \<^item> \<open>Py_Datetime\<close>: ISO and RFC 3339 times of \<^verbatim>\<open>datetime\<close>, with their round trip. \<open>K8s_Manifests\<close>, \<open>K8s_Wire\<close> (\<^verbatim>\<open>k8s_client.py\<close>): the production client:
    JSON manifests, URLs, requests, the watch stream, the parser of templates. Shown: pods are hardened, no two objects share a URL, the watch hands over
    every change until its version has expired. \<open>Pod_Templates\<close>: a sandbox runs the image, resources and probes of its template. \<open>Fake_K8s\<close>, \<open>Fake_Safety\<close>: the in-memory double
    of the client. Shown: versions grow, its operations do not trip over its own objects, its pods are those of production but for a port and a path.
  \<^item> \<open>Gem_Auth\<close>, \<open>Gem_Safety\<close> (\<^verbatim>\<open>deploy/sandbox-image/.../gem-server/src/gem/routers/auth.py\<close>): the authentication service inside a sandbox. Shown: who is
    admitted has a ticket or a token that the service has verified; two ways in which an admission outlives its expiry.

  \<^bold>\<open>Parameters and hypotheses.\<close> The Kubernetes API (\<open>cluster\<close>, \<open>api\<close>) is arbitrary unless a theorem says otherwise: it may
  answer anything, fail, and let an answer depend on all calls before. \<open>optimistic_server\<close> states the documented
  optimistic concurrency of the Lease API, \<open>suspends\<close> that a suspension is accepted, \<open>keeps_failures_apart\<close> that the
  client does not raise an exception class of the lifecycle task; the witnesses run concrete clusters. \<open>add_month\<close>
  stands for \<^verbatim>\<open>relativedelta\<close>, \<open>id_source\<close> for the random ids, \<open>name_key\<close> for the collation of the database. \<open>lib\<close> is
  what the handlers use of hashlib, PyJWT, fastapi-users and the mail provider; \<open>jwt_ok\<close> says that only tokens of the program decode,
  \<open>upsert_ok\<close> what fastapi-users does to the user table in an OAuth callback. The provider (\<open>oauth_client\<close>), the workload behind a proxy
  (\<open>upstream\<close>, \<open>ws_upstream\<close>) and the parser of cookie headers (\<open>jar\<close>) are arbitrary, and so are the HTTP transport of the Kubernetes client
  (\<open>transport\<close>), which sees all requests before, the parser of JSON (\<open>loads\<close>), the exceptions of the database (\<open>db_error\<close>), and the column and key
  that order the audit log (\<open>stamp\<close>, \<open>id_key\<close>). \<open>cache_ok\<close> and \<open>decode_ok\<close> state what the documentation of cachelib and PyJWT says of the two caches and of an expiry.

  \<^bold>\<open>Not modelled.\<close> The connection of the Kubernetes client; the endless asyncio loops around the ticks and
  the watch, which only sleep and restart them; a request to the Lease API that the server applies after its replica was cancelled and
  has gone on. The request log, the documentation and OpenAPI modules and \<^verbatim>\<open>main.py\<close> have no decisions of their own. Left out are also
  the other programs of the repository: the command line client, the generated SDK, the web application, the deployment files, and of the image of
  the sandbox all but its authentication: thin services over bash, the file system and a browser, and vendored code.
\<close>

end
